(* ===== verification/Prelude.thy ===== *)
theory Prelude
  imports Complex_Main "HOL-Library.AList"
begin

text \<open>
  What every component shares: results of Go functions that return an error beside a value,
  Go strings and the three \<open>strings\<close> functions the program uses, instants of time, rounding of
  rational numbers to a number of decimal places, and the fact collections the component proofs
  are built on.
\<close>

named_theorems money_defs \<open>definitions of the money package, unfolded down to the decimal library\<close>
named_theorems plan_defs \<open>definitions of the portfolio helpers that the plans are made of\<close>

section \<open>Results\<close>

text \<open>
  A Go function returning \<open>(T, error)\<close> is a function into \<open>'e + 'a\<close>: \<open>Inl\<close> is a
  non-nil error, \<open>Inr\<close> the value with a nil error. \<open>rbind\<close> is the idiom
  \<^verbatim>\<open>v, err := f(); if err != nil { return ..., err }\<close>.
\<close>

fun rbind :: "'e + 'a \<Rightarrow> ('a \<Rightarrow> 'e + 'b) \<Rightarrow> 'e + 'b" where
  "rbind (Inl e) f = Inl e"
| "rbind (Inr x) f = f x"

lemma rbind_Inr_iff [simp]: "(rbind r f = Inr y) = (\<exists>x. r = Inr x \<and> f x = Inr y)"
  by (cases r) auto

lemma rbind_Inl_iff: "(rbind r f = Inl e) = (r = Inl e \<or> (\<exists>x. r = Inr x \<and> f x = Inl e))"
  by (cases r) auto

text \<open>\<open>from_option e\<close> is Go's \<^verbatim>\<open>v, ok := m[k]; if !ok { return e }\<close>.\<close>

fun from_option :: "'e \<Rightarrow> 'a option \<Rightarrow> 'e + 'a" where
  "from_option e None = Inl e"
| "from_option e (Some x) = Inr x"

lemma from_option_Inr_iff [simp]: "(from_option e r = Inr x) = (r = Some x)"
  by (cases r) auto

lemma from_option_Inl_iff [simp]: "(from_option e r = Inl e') = (r = None \<and> e' = e)"
  by (cases r) auto

definition is_ok :: "'e + 'a \<Rightarrow> bool" where
  "is_ok r = (case r of Inl _ \<Rightarrow> False | Inr _ \<Rightarrow> True)"

lemma is_ok_simps [simp]: "is_ok (Inr x)" "\<not> is_ok (Inl e)"
  by (simp_all add: is_ok_def)

lemma is_ok_iff: "is_ok r = (\<exists>x. r = Inr x)"
  by (cases r) auto

section \<open>Time\<close>

text \<open>
  An instant (\<open>time.Time\<close>) is the number of nanoseconds since Go's zero time, so
  \<open>IsZero\<close> is equality with 0, \<open>Before\<close> is \<open><\<close>, and \<open>UTC()\<close>, which changes the
  location and not the instant, is the identity.
\<close>

type_synonym time = int

definition time_IsZero :: "time \<Rightarrow> bool" where
  "time_IsZero t = (t = 0)"

section \<open>Strings\<close>

text \<open>
  A Go string is a byte string. \<open>ToUpper\<close>, \<open>ToLower\<close> and \<open>TrimSpace\<close> are modelled on ASCII
  text, the alphabet of ticker symbols, currencies and asset types: bytes from 128 on are left
  alone (Go would decode them and map the letters among them).
\<close>

definition is_space :: "char \<Rightarrow> bool" where
  "is_space c = (let n = (of_char c :: nat) in n = 32 \<or> (9 \<le> n \<and> n \<le> 13))"

definition upper_char :: "char \<Rightarrow> char" where
  "upper_char c = (let n = (of_char c :: nat) in if 97 \<le> n \<and> n \<le> 122 then char_of (n - 32) else c)"

definition lower_char :: "char \<Rightarrow> char" where
  "lower_char c = (let n = (of_char c :: nat) in if 65 \<le> n \<and> n \<le> 90 then char_of (n + 32) else c)"

definition TrimSpace :: "string \<Rightarrow> string" where
  "TrimSpace s = rev (dropWhile is_space (rev (dropWhile is_space s)))"

definition ToUpper :: "string \<Rightarrow> string" where
  "ToUpper s = map upper_char s"

definition ToLower :: "string \<Rightarrow> string" where
  "ToLower s = map lower_char s"

fun Contains :: "string \<Rightarrow> string \<Rightarrow> bool" where
  "Contains [] sub = (sub = [])"
| "Contains (c # s) sub = (take (length sub) (c # s) = sub \<or> Contains s sub)"

definition ContainsAny :: "string \<Rightarrow> string \<Rightarrow> bool" where
  "ContainsAny s chars = list_ex (\<lambda>c. c \<in> set chars) s"

definition is_digit :: "char \<Rightarrow> bool" where
  "is_digit c = (let n = (of_char c :: nat) in 48 \<le> n \<and> n \<le> 57)"

definition digit_val :: "char \<Rightarrow> int" where
  "digit_val c = of_char c - 48"

definition digits_val :: "string \<Rightarrow> int" where
  "digits_val ds = foldl (\<lambda>v c. 10 * v + digit_val c) 0 ds"

text \<open>\<^verbatim>\<open>strconv.Itoa\<close> of a natural number.\<close>

fun itoa :: "nat \<Rightarrow> string" where
  "itoa n = (if n < 10 then [char_of (n + 48)] else itoa (n div 10) @ [char_of (n mod 10 + 48)])"

declare itoa.simps [simp del]

section \<open>Orders\<close>

text \<open>Go compares strings bytewise. \<open>isort\<close> is a stable sort, as \<^verbatim>\<open>sort.SliceStable\<close> by a \<^verbatim>\<open>less\<close> function.\<close>

fun str_less :: "string \<Rightarrow> string \<Rightarrow> bool" where
  "str_less _ [] = False"
| "str_less [] (d # ds) = True"
| "str_less (c # cs) (d # ds) =
     ((of_char c :: nat) < of_char d \<or> c = d \<and> str_less cs ds)"

fun insort_by :: "('a \<Rightarrow> 'a \<Rightarrow> bool) \<Rightarrow> 'a \<Rightarrow> 'a list \<Rightarrow> 'a list" where
  "insort_by lt x [] = [x]"
| "insort_by lt x (y # ys) = (if lt y x then y # insort_by lt x ys else x # y # ys)"

definition isort :: "('a \<Rightarrow> 'a \<Rightarrow> bool) \<Rightarrow> 'a list \<Rightarrow> 'a list" where
  "isort lt xs = foldr (insort_by lt) xs []"

section \<open>Rounding to decimal places\<close>

text \<open>
  Round half to even and round half away from zero, first to an integer, then to a number of
  decimal places. They are the two rounding modes the decimal library documents.
\<close>

definition round_half_even :: "rat \<Rightarrow> int" where
  "round_half_even x =
     (let f = \<lfloor>x\<rfloor>; r = x - of_int f
      in if r < 1/2 then f else if 1/2 < r then f + 1 else if even f then f else f + 1)"

definition round_half_away :: "rat \<Rightarrow> int" where
  "round_half_away x = (if 0 \<le> x then \<lfloor>x + 1/2\<rfloor> else - \<lfloor>1/2 - x\<rfloor>)"

definition bank_places :: "nat \<Rightarrow> rat \<Rightarrow> rat" where
  "bank_places n x = of_int (round_half_even (x * 10 ^ n)) / 10 ^ n"

definition away_places :: "nat \<Rightarrow> rat \<Rightarrow> rat" where
  "away_places n x = of_int (round_half_away (x * 10 ^ n)) / 10 ^ n"

text \<open>A value that \<open>n\<close> decimal places represent exactly.\<close>

definition has_places :: "nat \<Rightarrow> rat \<Rightarrow> bool" where
  "has_places n x = (x * 10 ^ n \<in> \<int>)"

lemma round_half_even_of_int [simp]: "round_half_even (of_int k) = k"
  by (simp add: round_half_even_def)

lemma round_half_away_of_int [simp]: "round_half_away (of_int k) = k"
proof (cases "0 \<le> k")
  case True
  have "\<lfloor>of_int k + 1/2 :: rat\<rfloor> = k" by linarith
  with True show ?thesis by (simp add: round_half_away_def)
next
  case False
  have "\<lfloor>1/2 - of_int k :: rat\<rfloor> = - k" by linarith
  with False show ?thesis by (simp add: round_half_away_def)
qed

lemma round_half_even_near: "\<bar>of_int (round_half_even x) - x\<bar> \<le> 1/2"
  unfolding round_half_even_def Let_def by (auto split: if_splits simp: abs_if) linarith+

lemma round_half_away_near: "\<bar>of_int (round_half_away x) - x\<bar> \<le> 1/2"
  unfolding round_half_away_def by (auto simp: abs_if) linarith+

lemma round_half_even_mono: "x \<le> y \<Longrightarrow> round_half_even x \<le> round_half_even y"
proof -
  assume le: "x \<le> y"
  show ?thesis
  proof (cases "\<lfloor>x\<rfloor> = \<lfloor>y\<rfloor>")
    case True
    with le show ?thesis by (auto simp: round_half_even_def Let_def)
  next
    case False
    with le have "\<lfloor>x\<rfloor> + 1 \<le> \<lfloor>y\<rfloor>" using floor_mono [OF le] by linarith
    moreover have "round_half_even x \<le> \<lfloor>x\<rfloor> + 1" "\<lfloor>y\<rfloor> \<le> round_half_even y"
      by (auto simp: round_half_even_def Let_def)
    ultimately show ?thesis by linarith
  qed
qed

lemma round_half_away_mono: "x \<le> y \<Longrightarrow> round_half_away x \<le> round_half_away y"
proof -
  assume le: "x \<le> y"
  consider "0 \<le> x" | "x < 0" "0 \<le> y" | "y < 0" using le by linarith
  then show ?thesis
  proof cases
    case 1
    with le show ?thesis by (simp add: round_half_away_def floor_mono)
  next
    case 2
    then have "- \<lfloor>1/2 - x\<rfloor> \<le> \<lfloor>y + 1/2\<rfloor>" by linarith
    with 2 show ?thesis by (simp add: round_half_away_def)
  next
    case 3
    with le show ?thesis by (simp add: round_half_away_def floor_mono)
  qed
qed

lemma scale_pos [simp]: "(0::rat) < 10 ^ n" "(10::rat) ^ n \<noteq> 0"
  by simp_all

lemma bank_places_near: "\<bar>bank_places n x - x\<bar> \<le> 1 / (2 * 10 ^ n)"
proof -
  have "bank_places n x - x = (of_int (round_half_even (x * 10 ^ n)) - x * 10 ^ n) / 10 ^ n"
    by (simp add: bank_places_def field_simps)
  then have "\<bar>bank_places n x - x\<bar> = \<bar>of_int (round_half_even (x * 10 ^ n)) - x * 10 ^ n\<bar> / 10 ^ n"
    by (simp add: abs_divide)
  also have "\<dots> \<le> (1/2) / 10 ^ n"
    by (rule divide_right_mono [OF round_half_even_near]) simp
  finally show ?thesis by simp
qed

lemma away_places_near: "\<bar>away_places n x - x\<bar> \<le> 1 / (2 * 10 ^ n)"
proof -
  have "away_places n x - x = (of_int (round_half_away (x * 10 ^ n)) - x * 10 ^ n) / 10 ^ n"
    by (simp add: away_places_def field_simps)
  then have "\<bar>away_places n x - x\<bar> = \<bar>of_int (round_half_away (x * 10 ^ n)) - x * 10 ^ n\<bar> / 10 ^ n"
    by (simp add: abs_divide)
  also have "\<dots> \<le> (1/2) / 10 ^ n"
    by (rule divide_right_mono [OF round_half_away_near]) simp
  finally show ?thesis by simp
qed

lemma bank_places_mono: "x \<le> y \<Longrightarrow> bank_places n x \<le> bank_places n y"
  by (simp add: bank_places_def divide_right_mono round_half_even_mono mult_right_mono)

lemma away_places_mono: "x \<le> y \<Longrightarrow> away_places n x \<le> away_places n y"
  by (simp add: away_places_def divide_right_mono round_half_away_mono mult_right_mono)

lemma bank_places_exact: "has_places n x \<Longrightarrow> bank_places n x = x"
  by (auto simp: has_places_def bank_places_def field_simps elim!: Ints_cases)

lemma away_places_exact: "has_places n x \<Longrightarrow> away_places n x = x"
  by (auto simp: has_places_def away_places_def field_simps elim!: Ints_cases)

lemma has_places_bank [simp]: "has_places n (bank_places n x)"
  by (simp add: has_places_def bank_places_def)

lemma has_places_away [simp]: "has_places n (away_places n x)"
  by (simp add: has_places_def away_places_def)

lemma bank_places_idem [simp]: "bank_places n (bank_places n x) = bank_places n x"
  by (rule bank_places_exact) simp

lemma has_places_of_int [simp]: "has_places n (of_int k)"
  by (simp add: has_places_def)

lemma has_places_0 [simp]: "has_places n 0" and has_places_1 [simp]: "has_places n 1"
  by (simp_all add: has_places_def)

lemma has_places_add: "has_places n x \<Longrightarrow> has_places n y \<Longrightarrow> has_places n (x + y)"
  by (simp add: has_places_def distrib_right)

lemma has_places_diff: "has_places n x \<Longrightarrow> has_places n y \<Longrightarrow> has_places n (x - y)"
  by (simp add: has_places_def left_diff_distrib)

lemma bank_places_0 [simp]: "bank_places n 0 = 0" and bank_places_1 [simp]: "bank_places n 1 = 1"
  by (simp_all add: bank_places_exact)

lemma away_places_0 [simp]: "away_places n 0 = 0" and away_places_1 [simp]: "away_places n 1 = 1"
  by (simp_all add: away_places_exact)

lemma bank_places_int [simp]: "bank_places n (of_int k) = of_int k"
  by (simp add: bank_places_exact)

lemma bank_places_numeral [simp]: "bank_places n (numeral k) = numeral k"
  using bank_places_int [of n "numeral k"] by simp

lemma bank_places_nonneg: "0 \<le> x \<Longrightarrow> 0 \<le> bank_places n x"
  using bank_places_mono [of 0 x n] by simp

lemma away_places_nonneg: "0 \<le> x \<Longrightarrow> 0 \<le> away_places n x"
  using away_places_mono [of 0 x n] by simp

lemma bank_places_pos: "1 / 10 ^ n \<le> x \<Longrightarrow> 0 < bank_places n x"
proof -
  assume "1 / 10 ^ n \<le> x"
  then have "bank_places n (1 / 10 ^ n) \<le> bank_places n x" by (rule bank_places_mono)
  moreover have "bank_places n (1 / 10 ^ n :: rat) = 1 / 10 ^ n"
    by (rule bank_places_exact) (simp add: has_places_def)
  moreover have "(0::rat) < 1 / 10 ^ n" by simp
  ultimately show ?thesis by linarith
qed

section \<open>Lists\<close>

lemma fold_sum_eq: "foldl (\<lambda>s x. s + f x) (a::rat) xs = a + sum_list (map f xs)"
  by (induction xs arbitrary: a) (auto simp: add.assoc)

end
