(* ===== verification/GoFloat.thy ===== *)
theory GoFloat
  imports Prelude
begin

text \<open>
  Go's \<open>float64\<close>: IEEE 754 binary64 with round to nearest, ties to even. A finite value is the
  rational it denotes, so the two zeros are one value: the code never divides by a float that
  can be a negative zero, and tells zeros apart nowhere else. Only the operations the portfolio
  code uses are defined: \<open>+ - * /\<close>, the comparisons, \<open>math.Abs\<close>, \<open>math.Round\<close>,
  \<open>math.IsNaN\<close> and \<open>math.IsInf\<close>.
\<close>

datatype float64 = Fin rat | PInf | NInf | NaN

text \<open>\<open>two_pow e\<close> is 2 to an integer exponent, \<open>ilog2 n\<close> the exponent of the top bit of \<open>n\<close>.\<close>

definition two_pow :: "int \<Rightarrow> rat" where
  "two_pow e = (if 0 \<le> e then 2 ^ nat e else 1 / 2 ^ nat (- e))"

function ilog2 :: "int \<Rightarrow> int" where
  "ilog2 n = (if n < 2 then 0 else 1 + ilog2 (n div 2))"
  by pat_completeness auto
termination
  by (relation "measure nat") auto

declare ilog2.simps [simp del]

text \<open>The binary exponent of a positive rational: the \<open>e\<close> with \<open>2\<^sup>e \<le> x < 2\<^sup>e\<^sup>+\<^sup>1\<close>.\<close>

definition bin_exp :: "rat \<Rightarrow> int" where
  "bin_exp x = (let (n, d) = quotient_of x; e = ilog2 n - ilog2 d
                in if x < two_pow e then e - 1 else e)"

text \<open>
  Rounding: 53 significant bits, exponents down to the subnormal range, infinity when the
  rounded magnitude reaches \<open>2\<^sup>1\<^sup>0\<^sup>2\<^sup>4\<close>.
\<close>

definition fround :: "rat \<Rightarrow> float64" where
  "fround x =
     (if x = 0 then Fin 0
      else let u = two_pow (max (bin_exp \<bar>x\<bar>) (-1022) - 52);
               m = of_int (round_half_even (\<bar>x\<bar> / u)) * u
           in if 1024 \<le> bin_exp m then (if 0 < x then PInf else NInf)
              else Fin (if 0 < x then m else - m))"

fun fneg :: "float64 \<Rightarrow> float64" where
  "fneg (Fin x) = Fin (- x)"
| "fneg PInf = NInf"
| "fneg NInf = PInf"
| "fneg NaN = NaN"

fun fadd :: "float64 \<Rightarrow> float64 \<Rightarrow> float64" where
  "fadd (Fin x) (Fin y) = fround (x + y)"
| "fadd NaN _ = NaN"
| "fadd _ NaN = NaN"
| "fadd PInf NInf = NaN"
| "fadd NInf PInf = NaN"
| "fadd PInf _ = PInf"
| "fadd _ PInf = PInf"
| "fadd NInf _ = NInf"
| "fadd _ NInf = NInf"

definition fsub :: "float64 \<Rightarrow> float64 \<Rightarrow> float64" where
  "fsub x y = fadd x (fneg y)"

definition finf :: "bool \<Rightarrow> float64" where
  "finf pos = (if pos then PInf else NInf)"

fun fmul :: "float64 \<Rightarrow> float64 \<Rightarrow> float64" where
  "fmul (Fin x) (Fin y) = fround (x * y)"
| "fmul NaN _ = NaN"
| "fmul _ NaN = NaN"
| "fmul (Fin x) PInf = (if x = 0 then NaN else finf (0 < x))"
| "fmul (Fin x) NInf = (if x = 0 then NaN else finf (x < 0))"
| "fmul PInf (Fin y) = (if y = 0 then NaN else finf (0 < y))"
| "fmul NInf (Fin y) = (if y = 0 then NaN else finf (y < 0))"
| "fmul PInf PInf = PInf"
| "fmul NInf NInf = PInf"
| "fmul PInf NInf = NInf"
| "fmul NInf PInf = NInf"

fun fdiv :: "float64 \<Rightarrow> float64 \<Rightarrow> float64" where
  "fdiv (Fin x) (Fin y) =
     (if y = 0 then (if x = 0 then NaN else finf (0 < x)) else fround (x / y))"
| "fdiv NaN _ = NaN"
| "fdiv _ NaN = NaN"
| "fdiv (Fin x) PInf = Fin 0"
| "fdiv (Fin x) NInf = Fin 0"
| "fdiv PInf (Fin y) = finf (0 \<le> y)"
| "fdiv NInf (Fin y) = finf (y < 0)"
| "fdiv PInf PInf = NaN"
| "fdiv PInf NInf = NaN"
| "fdiv NInf PInf = NaN"
| "fdiv NInf NInf = NaN"

text \<open>Comparisons: every comparison with a NaN is false.\<close>

fun flt :: "float64 \<Rightarrow> float64 \<Rightarrow> bool" where
  "flt (Fin x) (Fin y) = (x < y)"
| "flt NaN _ = False"
| "flt _ NaN = False"
| "flt NInf NInf = False"
| "flt NInf _ = True"
| "flt _ NInf = False"
| "flt PInf _ = False"
| "flt _ PInf = True"

definition fabs :: "float64 \<Rightarrow> float64" where
  "fabs x = (case x of Fin r \<Rightarrow> Fin \<bar>r\<bar> | PInf \<Rightarrow> PInf | NInf \<Rightarrow> PInf | NaN \<Rightarrow> NaN)"

text \<open>\<open>math.Round\<close>: to the nearest integer, halves away from zero.\<close>

definition math_Round :: "float64 \<Rightarrow> float64" where
  "math_Round x = (case x of Fin r \<Rightarrow> Fin (of_int (round_half_away r)) | _ \<Rightarrow> x)"

definition isFinite :: "float64 \<Rightarrow> bool" where
  "isFinite v = (v \<noteq> NaN \<and> v \<noteq> PInf \<and> v \<noteq> NInf)"

definition finitePositive :: "float64 \<Rightarrow> bool" where
  "finitePositive v = (isFinite v \<and> flt (Fin 0) v)"

definition round2 :: "float64 \<Rightarrow> float64" where
  "round2 v = fdiv (math_Round (fmul v (Fin 100))) (Fin 100)"

definition round4 :: "float64 \<Rightarrow> float64" where
  "round4 v = fdiv (math_Round (fmul v (Fin 10000))) (Fin 10000)"

lemma finitePositive_iff: "finitePositive v = (\<exists>x. v = Fin x \<and> 0 < x)"
  by (cases v) (auto simp: finitePositive_def isFinite_def)

lemma finitePositiveE: "finitePositive v \<Longrightarrow> (\<And>x. v = Fin x \<Longrightarrow> 0 < x \<Longrightarrow> P) \<Longrightarrow> P"
  by (auto simp: finitePositive_iff)

lemma flt_irrefl [simp]: "\<not> flt x x"
  by (cases x) auto

lemma flt_trans: "flt x y \<Longrightarrow> flt y z \<Longrightarrow> flt x z"
  by (cases x; cases y; cases z) auto

lemma flt_asym: "flt x y \<Longrightarrow> \<not> flt y x"
  by (cases x; cases y) auto

lemma two_pow_pos [simp]: "0 < two_pow e"
  by (simp add: two_pow_def)

lemma fround_0 [simp]: "fround 0 = Fin 0"
  by (simp add: fround_def)

text \<open>Rounding never crosses zero and never produces a NaN.\<close>

lemma fround_not_NaN [simp]: "fround x \<noteq> NaN"
  by (simp add: fround_def Let_def)

lemma round_half_even_nonneg: "0 \<le> x \<Longrightarrow> 0 \<le> round_half_even x"
  using round_half_even_mono [of 0 x] round_half_even_of_int [of 0] by simp

end
