(* ===== verification/Money.thy ===== *)
theory Money
  imports GoFloat
begin

text \<open>
  \<^verbatim>\<open>internal/money\<close>: the exact decimal types every amount, quantity, price, rate, ratio and
  index of the program is built from. The package wraps \<^verbatim>\<open>github.com/shopspring/decimal\<close>,
  which is not part of the repository: it is the parameter \<open>L\<close> of every definition here, a record
  of the library functions the package calls. A \<open>decimal.Decimal\<close> is represented by the number
  it denotes. The locale \<open>decimal_lib\<close> states what the library documents about those functions;
  \<open>std_declib\<close> is an executable instance of it.
\<close>

section \<open>The decimal library\<close>

type_synonym dec = rat

record declib =
  d_add :: "dec \<Rightarrow> dec \<Rightarrow> dec"
  d_sub :: "dec \<Rightarrow> dec \<Rightarrow> dec"
  d_mul :: "dec \<Rightarrow> dec \<Rightarrow> dec"
  d_neg :: "dec \<Rightarrow> dec"
  d_cmp :: "dec \<Rightarrow> dec \<Rightarrow> int"
  d_equal :: "dec \<Rightarrow> dec \<Rightarrow> bool"
  d_sign :: "dec \<Rightarrow> int"
  d_isZero :: "dec \<Rightarrow> bool"
  d_divRound :: "dec \<Rightarrow> dec \<Rightarrow> nat \<Rightarrow> dec"
  d_roundBank :: "dec \<Rightarrow> nat \<Rightarrow> dec"
  d_newFromString :: "string \<Rightarrow> dec option"
  d_newFromFloat :: "float64 \<Rightarrow> dec option"
  d_float64 :: "dec \<Rightarrow> float64"
  d_string :: "dec \<Rightarrow> string"
  d_stringFixed :: "dec \<Rightarrow> nat \<Rightarrow> string"

text \<open>
  \<open>plain_value\<close> reads a plain decimal literal: an optional minus sign, digits, and at most one
  point; at least one digit. It is the documented meaning of \<open>NewFromString\<close> on such text.
\<close>

definition unsigned_value :: "string \<Rightarrow> dec option" where
  "unsigned_value s =
     (let ip = takeWhile is_digit s; rest = dropWhile is_digit s
      in case rest of
           [] \<Rightarrow> if ip = [] then None else Some (of_int (digits_val ip))
         | c # fp \<Rightarrow>
             if c = CHR ''.'' \<and> list_all is_digit fp \<and> ip @ fp \<noteq> []
             then Some (of_int (digits_val (ip @ fp)) / 10 ^ length fp) else None)"

definition plain_value :: "string \<Rightarrow> dec option" where
  "plain_value s =
     (case s of [] \<Rightarrow> None
      | c # body \<Rightarrow> if c = CHR ''-'' then map_option uminus (unsigned_value body) else unsigned_value s)"

text \<open>The text of a plain decimal literal, as the checks of \<open>parseExact\<close> let it through.\<close>

definition plain_text :: "string \<Rightarrow> bool" where
  "plain_text s =
     (let body = (case s of [] \<Rightarrow> [] | c # b \<Rightarrow> if c = CHR ''-'' then b else s)
      in body \<noteq> [] \<and> list_all (\<lambda>c. is_digit c \<or> c = CHR ''.'') body
         \<and> length (filter (\<lambda>c. c = CHR ''.'') body) \<le> 1)"

locale decimal_lib =
  fixes L :: declib
  assumes add [simp]: "d_add L x y = x + y"
    and sub [simp]: "d_sub L x y = x - y"
    and mul [simp]: "d_mul L x y = x * y"
    and neg [simp]: "d_neg L x = - x"
    and cmp: "d_cmp L x y = (if x < y then -1 else if x = y then 0 else 1)"
    and equal [simp]: "d_equal L x y = (x = y)"
    and sign: "d_sign L x = (if x < 0 then -1 else if x = 0 then 0 else 1)"
    and isZero [simp]: "d_isZero L x = (x = 0)"
    and divRound: "y \<noteq> 0 \<Longrightarrow> d_divRound L x y n = away_places n (x / y)"
    and roundBank [simp]: "d_roundBank L x n = bank_places n x"
    and newFromString: "plain_text s \<Longrightarrow> d_newFromString L s = plain_value s"
    and newFromFloat: "(d_newFromFloat L f = None) = (\<not> isFinite f)"
    and newFromFloat_round: "fround x = Fin x \<Longrightarrow> d_newFromFloat L (Fin x) = Some y \<Longrightarrow> fround y = Fin x"
    and float64: "d_float64 L x = fround x"

section \<open>Currencies\<close>

datatype money_err =
    UnknownCurrency string
  | EmptyDecimal
  | NaNInf
  | LocaleFormatted
  | ExponentNotAllowed
  | TooLarge
  | Malformed
  | DivisionByZero
  | ParseError money_err

definition currencyMinorUnits :: "(string \<times> nat) list" where
  "currencyMinorUnits =
     [(''USD'', 2), (''EUR'', 2), (''GBP'', 2), (''TRY'', 2), (''CAD'', 2), (''AUD'', 2), (''CHF'', 2),
      (''JPY'', 0), (''KRW'', 0),
      (''KWD'', 3), (''BHD'', 3), (''OMR'', 3), (''TND'', 3)]"

definition CurrencyScale :: "string \<Rightarrow> money_err + nat" where
  "CurrencyScale currency =
     (let c = ToUpper (TrimSpace currency)
      in case map_of currencyMinorUnits c of
           None \<Rightarrow> Inl (UnknownCurrency currency)
         | Some scale \<Rightarrow> Inr scale)"

definition ScaleCostBasis :: nat where "ScaleCostBasis = 18"
definition ScaleQuantity :: nat where "ScaleQuantity = 18"
definition ScalePrice :: nat where "ScalePrice = 12"
definition ScaleFX :: nat where "ScaleFX = 12"
definition ScaleValue :: nat where "ScaleValue = 18"
definition ScaleWeight :: nat where "ScaleWeight = 18"
definition ScaleIndex :: nat where "ScaleIndex = 18"

lemmas scale_defs = ScaleCostBasis_def ScaleQuantity_def ScalePrice_def ScaleFX_def ScaleValue_def
  ScaleWeight_def ScaleIndex_def

section \<open>Parsing\<close>

text \<open>The character loop of \<open>parseExact\<close>: digits and at most one point.\<close>

fun body_ok :: "bool \<Rightarrow> string \<Rightarrow> bool" where
  "body_ok dotSeen [] = True"
| "body_ok dotSeen (r # rs) =
     (if r = CHR ''.'' then (if dotSeen then False else body_ok True rs)
      else if \<not> is_digit r then False
      else body_ok dotSeen rs)"

definition parseExact :: "declib \<Rightarrow> string \<Rightarrow> money_err + dec" where
  "parseExact L s0 =
     (let s = TrimSpace s0 in
      if s = [] then Inl EmptyDecimal
      else let lower = ToLower s in
      if Contains lower ''nan'' \<or> Contains lower ''inf'' then Inl NaNInf
      else if ContainsAny s '',_ '' then Inl LocaleFormatted
      else if ContainsAny lower ''e'' then Inl ExponentNotAllowed
      else if length s > 80 then Inl TooLarge
      else let body = (case s of [] \<Rightarrow> [] | c # b \<Rightarrow> if c = CHR ''-'' then b else s) in
      if body = [] then Inl Malformed
      else if \<not> body_ok False body then Inl Malformed
      else from_option Malformed (d_newFromString L s))"

definition newDecimal :: "declib \<Rightarrow> string \<Rightarrow> money_err + dec" where
  "newDecimal L s = parseExact L s"

text \<open>
  \<open>mustNew\<close> panics on a bad literal. It is applied to the literals of the source, all of which parse
  (lemma \<open>mustNew_literals\<close>), and by the income pipeline to the canonical text of a price, so the value in
  the panicking branch is not used.
\<close>

definition mustNew :: "declib \<Rightarrow> string \<Rightarrow> dec" where
  "mustNew L s = (case newDecimal L s of Inr d \<Rightarrow> d | Inl _ \<Rightarrow> 0)"

section \<open>The shared decimal value\<close>

definition Decimal_IsZero :: "declib \<Rightarrow> dec \<Rightarrow> bool" where
  [money_defs]: "Decimal_IsZero L d = d_isZero L d"

definition Decimal_Sign :: "declib \<Rightarrow> dec \<Rightarrow> int" where
  [money_defs]: "Decimal_Sign L d = d_sign L d"

definition Decimal_Cmp :: "declib \<Rightarrow> dec \<Rightarrow> dec \<Rightarrow> int" where
  [money_defs]: "Decimal_Cmp L d other = d_cmp L d other"

definition Decimal_Equal :: "declib \<Rightarrow> dec \<Rightarrow> dec \<Rightarrow> bool" where
  [money_defs]: "Decimal_Equal L d other = d_equal L d other"

definition Decimal_add :: "declib \<Rightarrow> dec \<Rightarrow> dec \<Rightarrow> dec" where
  [money_defs]: "Decimal_add L d other = d_add L d other"

definition Decimal_sub :: "declib \<Rightarrow> dec \<Rightarrow> dec \<Rightarrow> dec" where
  [money_defs]: "Decimal_sub L d other = d_sub L d other"

definition Decimal_mul :: "declib \<Rightarrow> dec \<Rightarrow> dec \<Rightarrow> dec" where
  [money_defs]: "Decimal_mul L d other = d_mul L d other"

definition divPrecise :: "declib \<Rightarrow> dec \<Rightarrow> dec \<Rightarrow> nat \<Rightarrow> money_err + dec" where
  "divPrecise L d other places =
     (if d_isZero L other then Inl DivisionByZero else Inr (d_divRound L d other places))"

definition quantize :: "declib \<Rightarrow> dec \<Rightarrow> nat \<Rightarrow> dec" where
  [money_defs]: "quantize L d places = d_roundBank L d places"

definition TrimRight :: "string \<Rightarrow> char \<Rightarrow> string" where
  "TrimRight s c = rev (dropWhile (\<lambda>x. x = c) (rev s))"

definition canonical :: "declib \<Rightarrow> dec \<Rightarrow> string" where
  "canonical L d =
     (let s = d_string L d in
      if s = ''-0'' then ''0''
      else let s = (if Contains s ''.'' then TrimRight (TrimRight s (CHR ''0'')) (CHR ''.'') else s) in
      if s = [] \<or> s = ''-'' then ''0''
      else if s = ''-0'' then ''0''
      else s)"

definition StringFixed :: "declib \<Rightarrow> dec \<Rightarrow> nat \<Rightarrow> string" where
  "StringFixed L d places = d_stringFixed L d places"

section \<open>The domain types\<close>

text \<open>
  \<open>Amount\<close>, \<open>Quantity\<close>, \<open>Price\<close>, \<open>FXRate\<close>, \<open>Ratio\<close>, \<open>IndexValue\<close> and
  \<open>Weight\<close> are Go structs with the one embedded field \<open>Decimal\<close>; the model uses synonyms and
  keeps one definition per method, with the receiver type in its name where methods of several
  types share one. The \<open>FromFloat64\<close> constructors panic on NaN and infinities (\<open>None\<close>).
\<close>

type_synonym Amount = dec
type_synonym Quantity = dec
type_synonym Price = dec
type_synonym FXRate = dec
type_synonym Ratio = dec
type_synonym IndexValue = dec
type_synonym Weight = dec

definition AmountFromFloat64 :: "declib \<Rightarrow> float64 \<Rightarrow> dec option" where
  [money_defs]: "AmountFromFloat64 L f = d_newFromFloat L f"

definition Amount_Float64 :: "declib \<Rightarrow> dec \<Rightarrow> float64" where
  [money_defs]: "Amount_Float64 L x = d_float64 L x"

definition QuantityFromFloat64 :: "declib \<Rightarrow> float64 \<Rightarrow> dec option" where
  [money_defs]: "QuantityFromFloat64 L f = d_newFromFloat L f"

definition Quantity_Float64 :: "declib \<Rightarrow> dec \<Rightarrow> float64" where
  [money_defs]: "Quantity_Float64 L x = d_float64 L x"

definition PriceFromFloat64 :: "declib \<Rightarrow> float64 \<Rightarrow> dec option" where
  [money_defs]: "PriceFromFloat64 L f = d_newFromFloat L f"

definition Price_Float64 :: "declib \<Rightarrow> dec \<Rightarrow> float64" where
  [money_defs]: "Price_Float64 L x = d_float64 L x"

definition FXRateFromFloat64 :: "declib \<Rightarrow> float64 \<Rightarrow> dec option" where
  [money_defs]: "FXRateFromFloat64 L f = d_newFromFloat L f"

definition FXRate_Float64 :: "declib \<Rightarrow> dec \<Rightarrow> float64" where
  [money_defs]: "FXRate_Float64 L x = d_float64 L x"

definition IndexValueFromFloat64 :: "declib \<Rightarrow> float64 \<Rightarrow> dec option" where
  [money_defs]: "IndexValueFromFloat64 L f = d_newFromFloat L f"

definition RatioFromFloat64 :: "declib \<Rightarrow> float64 \<Rightarrow> dec option" where
  [money_defs]: "RatioFromFloat64 L f = d_newFromFloat L f"

definition Ratio_Float64 :: "declib \<Rightarrow> dec \<Rightarrow> float64" where
  [money_defs]: "Ratio_Float64 L x = d_float64 L x"

definition ZeroAmount :: "declib \<Rightarrow> dec" where
  [money_defs]: "ZeroAmount L = mustNew L ''0''"

definition ZeroQuantity :: "declib \<Rightarrow> dec" where
  [money_defs]: "ZeroQuantity L = mustNew L ''0''"

definition ZeroPrice :: "declib \<Rightarrow> dec" where
  [money_defs]: "ZeroPrice L = mustNew L ''0''"

definition ZeroFXRate :: "declib \<Rightarrow> dec" where
  [money_defs]: "ZeroFXRate L = mustNew L ''0''"

definition ZeroRatio :: "declib \<Rightarrow> dec" where
  [money_defs]: "ZeroRatio L = mustNew L ''0''"

definition ZeroIndexValue :: "declib \<Rightarrow> dec" where
  [money_defs]: "ZeroIndexValue L = mustNew L ''0''"

definition ZeroWeight :: "declib \<Rightarrow> dec" where
  [money_defs]: "ZeroWeight L = mustNew L ''0''"

definition ParseAmount :: "declib \<Rightarrow> string \<Rightarrow> money_err + dec" where
  [money_defs]: "ParseAmount L s = (case newDecimal L s of Inl e \<Rightarrow> Inl (ParseError e) | Inr x \<Rightarrow> Inr x)"

definition ParseQuantity :: "declib \<Rightarrow> string \<Rightarrow> money_err + dec" where
  [money_defs]: "ParseQuantity L s = (case newDecimal L s of Inl e \<Rightarrow> Inl (ParseError e) | Inr x \<Rightarrow> Inr x)"

definition ParsePrice :: "declib \<Rightarrow> string \<Rightarrow> money_err + dec" where
  [money_defs]: "ParsePrice L s = (case newDecimal L s of Inl e \<Rightarrow> Inl (ParseError e) | Inr x \<Rightarrow> Inr x)"

definition ParseFXRate :: "declib \<Rightarrow> string \<Rightarrow> money_err + dec" where
  [money_defs]: "ParseFXRate L s = (case newDecimal L s of Inl e \<Rightarrow> Inl (ParseError e) | Inr x \<Rightarrow> Inr x)"

definition ParseRatio :: "declib \<Rightarrow> string \<Rightarrow> money_err + dec" where
  [money_defs]: "ParseRatio L s = (case newDecimal L s of Inl e \<Rightarrow> Inl (ParseError e) | Inr x \<Rightarrow> Inr x)"

definition ParseIndexValue :: "declib \<Rightarrow> string \<Rightarrow> money_err + dec" where
  [money_defs]: "ParseIndexValue L s = (case newDecimal L s of Inl e \<Rightarrow> Inl (ParseError e) | Inr x \<Rightarrow> Inr x)"

definition ParseWeight :: "declib \<Rightarrow> string \<Rightarrow> money_err + dec" where
  [money_defs]: "ParseWeight L s = (case newDecimal L s of Inl e \<Rightarrow> Inl (ParseError e) | Inr x \<Rightarrow> Inr x)"

definition MustAmount :: "declib \<Rightarrow> string \<Rightarrow> dec" where
  [money_defs]: "MustAmount L s = mustNew L s"

definition MustQuantity :: "declib \<Rightarrow> string \<Rightarrow> dec" where
  [money_defs]: "MustQuantity L s = mustNew L s"

definition MustPrice :: "declib \<Rightarrow> string \<Rightarrow> dec" where
  [money_defs]: "MustPrice L s = mustNew L s"

definition MustFXRate :: "declib \<Rightarrow> string \<Rightarrow> dec" where
  [money_defs]: "MustFXRate L s = mustNew L s"

definition MustRatio :: "declib \<Rightarrow> string \<Rightarrow> dec" where
  [money_defs]: "MustRatio L s = mustNew L s"

definition MustIndexValue :: "declib \<Rightarrow> string \<Rightarrow> dec" where
  [money_defs]: "MustIndexValue L s = mustNew L s"

definition MustWeight :: "declib \<Rightarrow> string \<Rightarrow> dec" where
  [money_defs]: "MustWeight L s = mustNew L s"

definition Amount_Cmp :: "declib \<Rightarrow> dec \<Rightarrow> dec \<Rightarrow> int" where
  [money_defs]: "Amount_Cmp L x y = Decimal_Cmp L x y"

definition EqualAmount :: "declib \<Rightarrow> dec \<Rightarrow> dec \<Rightarrow> bool" where
  [money_defs]: "EqualAmount L x y = Decimal_Equal L x y"

definition Amount_Add :: "declib \<Rightarrow> dec \<Rightarrow> dec \<Rightarrow> dec" where
  [money_defs]: "Amount_Add L x y = Decimal_add L x y"

definition Amount_Sub :: "declib \<Rightarrow> dec \<Rightarrow> dec \<Rightarrow> dec" where
  [money_defs]: "Amount_Sub L x y = Decimal_sub L x y"

definition Amount_Neg :: "declib \<Rightarrow> dec \<Rightarrow> dec" where
  [money_defs]: "Amount_Neg L x = d_neg L x"

definition StringFixedCurrency :: "declib \<Rightarrow> dec \<Rightarrow> string \<Rightarrow> money_err + string" where
  [money_defs]: "StringFixedCurrency L a currency = rbind (CurrencyScale currency) (\<lambda>scale. Inr (StringFixed L a scale))"

definition Amount_MulRatio :: "declib \<Rightarrow> dec \<Rightarrow> dec \<Rightarrow> dec" where
  [money_defs]: "Amount_MulRatio L x y = Decimal_mul L x y"

definition Amount_DivExact :: "declib \<Rightarrow> dec \<Rightarrow> dec \<Rightarrow> nat \<Rightarrow> money_err + dec" where
  [money_defs]: "Amount_DivExact L x y places = divPrecise L x y places"

definition Quantity_Cmp :: "declib \<Rightarrow> dec \<Rightarrow> dec \<Rightarrow> int" where
  [money_defs]: "Quantity_Cmp L x y = Decimal_Cmp L x y"

definition EqualQuantity :: "declib \<Rightarrow> dec \<Rightarrow> dec \<Rightarrow> bool" where
  [money_defs]: "EqualQuantity L x y = Decimal_Equal L x y"

definition Quantity_Add :: "declib \<Rightarrow> dec \<Rightarrow> dec \<Rightarrow> dec" where
  [money_defs]: "Quantity_Add L x y = Decimal_add L x y"

definition Quantity_Sub :: "declib \<Rightarrow> dec \<Rightarrow> dec \<Rightarrow> dec" where
  [money_defs]: "Quantity_Sub L x y = Decimal_sub L x y"

definition Quantity_Neg :: "declib \<Rightarrow> dec \<Rightarrow> dec" where
  [money_defs]: "Quantity_Neg L x = d_neg L x"

definition MulPrice :: "declib \<Rightarrow> dec \<Rightarrow> dec \<Rightarrow> dec" where
  [money_defs]: "MulPrice L x y = Decimal_mul L x y"

definition Quantity_MulRatio :: "declib \<Rightarrow> dec \<Rightarrow> dec \<Rightarrow> dec" where
  [money_defs]: "Quantity_MulRatio L x y = Decimal_mul L x y"

definition Quantity_DivExact :: "declib \<Rightarrow> dec \<Rightarrow> dec \<Rightarrow> nat \<Rightarrow> money_err + dec" where
  [money_defs]: "Quantity_DivExact L x y places = divPrecise L x y places"

definition Price_Cmp :: "declib \<Rightarrow> dec \<Rightarrow> dec \<Rightarrow> int" where
  [money_defs]: "Price_Cmp L x y = Decimal_Cmp L x y"

definition Price_Convert :: "declib \<Rightarrow> dec \<Rightarrow> dec \<Rightarrow> dec" where
  [money_defs]: "Price_Convert L x y = Decimal_mul L x y"

definition Price_DivRatio :: "declib \<Rightarrow> dec \<Rightarrow> dec \<Rightarrow> nat \<Rightarrow> money_err + dec" where
  [money_defs]: "Price_DivRatio L x y places = divPrecise L x y places"

definition Amount_Convert :: "declib \<Rightarrow> dec \<Rightarrow> dec \<Rightarrow> dec" where
  [money_defs]: "Amount_Convert L x y = Decimal_mul L x y"

definition DivByQuantity :: "declib \<Rightarrow> dec \<Rightarrow> dec \<Rightarrow> nat \<Rightarrow> money_err + dec" where
  [money_defs]: "DivByQuantity L x y places = divPrecise L x y places"

definition DivByPrice :: "declib \<Rightarrow> dec \<Rightarrow> dec \<Rightarrow> nat \<Rightarrow> money_err + dec" where
  [money_defs]: "DivByPrice L x y places = divPrecise L x y places"

definition Price_Add :: "declib \<Rightarrow> dec \<Rightarrow> dec \<Rightarrow> dec" where
  [money_defs]: "Price_Add L x y = Decimal_add L x y"

definition Price_Sub :: "declib \<Rightarrow> dec \<Rightarrow> dec \<Rightarrow> dec" where
  [money_defs]: "Price_Sub L x y = Decimal_sub L x y"

definition Price_MulRatio :: "declib \<Rightarrow> dec \<Rightarrow> dec \<Rightarrow> dec" where
  [money_defs]: "Price_MulRatio L x y = Decimal_mul L x y"

definition Price_DivExact :: "declib \<Rightarrow> dec \<Rightarrow> dec \<Rightarrow> nat \<Rightarrow> money_err + dec" where
  [money_defs]: "Price_DivExact L x y places = divPrecise L x y places"

definition Index_MulRatio :: "declib \<Rightarrow> dec \<Rightarrow> dec \<Rightarrow> dec" where
  [money_defs]: "Index_MulRatio L x y = Decimal_mul L x y"

definition Index_Cmp :: "declib \<Rightarrow> dec \<Rightarrow> dec \<Rightarrow> int" where
  [money_defs]: "Index_Cmp L x y = Decimal_Cmp L x y"

definition Index_AddRatio :: "declib \<Rightarrow> dec \<Rightarrow> dec \<Rightarrow> dec" where
  [money_defs]: "Index_AddRatio L x y = Decimal_add L x y"

definition EqualIndex :: "declib \<Rightarrow> dec \<Rightarrow> dec \<Rightarrow> bool" where
  [money_defs]: "EqualIndex L x y = Decimal_Equal L x y"

definition Index_Float64 :: "declib \<Rightarrow> dec \<Rightarrow> float64" where
  [money_defs]: "Index_Float64 L x = d_float64 L x"

definition Index_Sub :: "declib \<Rightarrow> dec \<Rightarrow> dec \<Rightarrow> dec" where
  [money_defs]: "Index_Sub L x y = Decimal_sub L x y"

definition Index_DivExact :: "declib \<Rightarrow> dec \<Rightarrow> dec \<Rightarrow> nat \<Rightarrow> money_err + dec" where
  [money_defs]: "Index_DivExact L x y places = divPrecise L x y places"

definition Ratio_Mul :: "declib \<Rightarrow> dec \<Rightarrow> dec \<Rightarrow> dec" where
  [money_defs]: "Ratio_Mul L x y = Decimal_mul L x y"

definition Ratio_Add :: "declib \<Rightarrow> dec \<Rightarrow> dec \<Rightarrow> dec" where
  [money_defs]: "Ratio_Add L x y = Decimal_add L x y"

definition Ratio_Sub :: "declib \<Rightarrow> dec \<Rightarrow> dec \<Rightarrow> dec" where
  [money_defs]: "Ratio_Sub L x y = Decimal_sub L x y"

definition Ratio_Cmp :: "declib \<Rightarrow> dec \<Rightarrow> dec \<Rightarrow> int" where
  [money_defs]: "Ratio_Cmp L x y = Decimal_Cmp L x y"

definition Ratio_DivExact :: "declib \<Rightarrow> dec \<Rightarrow> dec \<Rightarrow> nat \<Rightarrow> money_err + dec" where
  [money_defs]: "Ratio_DivExact L x y places = divPrecise L x y places"

definition Weight_Add :: "declib \<Rightarrow> dec \<Rightarrow> dec \<Rightarrow> dec" where
  [money_defs]: "Weight_Add L x y = Decimal_add L x y"

definition Weight_Sub :: "declib \<Rightarrow> dec \<Rightarrow> dec \<Rightarrow> dec" where
  [money_defs]: "Weight_Sub L x y = Decimal_sub L x y"

definition Weight_Mul :: "declib \<Rightarrow> dec \<Rightarrow> dec \<Rightarrow> dec" where
  [money_defs]: "Weight_Mul L x y = Decimal_mul L x y"

definition Weight_MulRatio :: "declib \<Rightarrow> dec \<Rightarrow> dec \<Rightarrow> dec" where
  [money_defs]: "Weight_MulRatio L x y = Decimal_mul L x y"

definition Weight_DivExact :: "declib \<Rightarrow> dec \<Rightarrow> dec \<Rightarrow> nat \<Rightarrow> money_err + dec" where
  [money_defs]: "Weight_DivExact L x y places = divPrecise L x y places"

definition QuantizeCash :: "declib \<Rightarrow> dec \<Rightarrow> string \<Rightarrow> money_err + dec" where
  [money_defs]: "QuantizeCash L a currency = rbind (CurrencyScale currency) (\<lambda>scale. Inr (quantize L a scale))"

definition QuantizeQuantity :: "declib \<Rightarrow> dec \<Rightarrow> dec" where
  [money_defs]: "QuantizeQuantity L x = quantize L x ScaleQuantity"

definition QuantizePrice :: "declib \<Rightarrow> dec \<Rightarrow> dec" where
  [money_defs]: "QuantizePrice L x = quantize L x ScalePrice"

definition QuantizeFX :: "declib \<Rightarrow> dec \<Rightarrow> dec" where
  [money_defs]: "QuantizeFX L x = quantize L x ScaleFX"

definition QuantizeIndex :: "declib \<Rightarrow> dec \<Rightarrow> dec" where
  [money_defs]: "QuantizeIndex L x = quantize L x ScaleIndex"

definition QuantizeRatio :: "declib \<Rightarrow> dec \<Rightarrow> nat \<Rightarrow> dec" where
  [money_defs]: "QuantizeRatio L r scale = quantize L r scale"

definition QuantizeValue :: "declib \<Rightarrow> dec \<Rightarrow> dec" where
  [money_defs]: "QuantizeValue L x = quantize L x ScaleValue"

definition QuantizeWeight :: "declib \<Rightarrow> dec \<Rightarrow> dec" where
  [money_defs]: "QuantizeWeight L x = quantize L x ScaleWeight"

definition QuantizeCostBasis :: "declib \<Rightarrow> dec \<Rightarrow> dec" where
  [money_defs]: "QuantizeCostBasis L x = quantize L x ScaleCostBasis"

end
