(* ===== verification/MoneyLaws.thy ===== *)
theory MoneyLaws
  imports Money
begin

text \<open>
  What the money package guarantees when the decimal library does what it documents: the parser
  accepts exactly the plain decimal literals, quantisation stays within half a unit of its last
  place, and every operation is arithmetic on the numbers denoted. The lemmas inside the context
  \<open>decimal_lib\<close> are the simplification rules of all later proofs.
\<close>

section \<open>An executable decimal library\<close>

text \<open>
  The instance the witnesses run on. Formatting is not used by any of them, so \<open>d_string\<close> and
  \<open>d_stringFixed\<close> only render the sign.
\<close>

definition std_declib :: declib where
  "std_declib =
     \<lparr>d_add = (+), d_sub = (-), d_mul = (*), d_neg = uminus,
      d_cmp = (\<lambda>x y. if x < y then -1 else if x = y then 0 else 1),
      d_equal = (=),
      d_sign = (\<lambda>x. if x < 0 then -1 else if x = 0 then 0 else 1),
      d_isZero = (\<lambda>x. x = 0),
      d_divRound = (\<lambda>x y n. away_places n (x / y)),
      d_roundBank = (\<lambda>x n. bank_places n x),
      d_newFromString = plain_value,
      d_newFromFloat = (\<lambda>f. case f of Fin x \<Rightarrow> Some x | _ \<Rightarrow> None),
      d_float64 = fround,
      d_string = (\<lambda>x. if x < 0 then ''-'' else ''''),
      d_stringFixed = (\<lambda>x n. if x < 0 then ''-'' else '''')\<rparr>"

interpretation std: decimal_lib std_declib
  by unfold_locales (auto simp: std_declib_def isFinite_def split: float64.splits)

section \<open>Arithmetic laws\<close>

context decimal_lib
begin

lemma cmp_simps [simp]:
  "(d_cmp L x y < 0) = (x < y)" "(0 < d_cmp L x y) = (y < x)"
  "(d_cmp L x y \<le> 0) = (x \<le> y)" "(0 \<le> d_cmp L x y) = (y \<le> x)"
  "(d_cmp L x y = 0) = (x = y)"
  by (auto simp: cmp)

lemma sign_simps [simp]:
  "(d_sign L x < 0) = (x < 0)" "(0 < d_sign L x) = (0 < x)"
  "(d_sign L x \<le> 0) = (x \<le> 0)" "(0 \<le> d_sign L x) = (0 \<le> x)"
  "(d_sign L x = 0) = (x = 0)"
  by (auto simp: sign)

lemma divPrecise_eq [simp]:
  "divPrecise L x y n = (if y = 0 then Inl DivisionByZero else Inr (away_places n (x / y)))"
  by (simp add: divPrecise_def divRound)

end

section \<open>Parsing\<close>

lemma Contains_set: "Contains s sub \<Longrightarrow> set sub \<subseteq> set s"
proof (induction s)
  case (Cons c s)
  then show ?case
    by (auto dest: arg_cong [where f = set] in_set_takeD) (metis in_set_takeD set_ConsD)
qed simp

lemma body_ok_iff:
  "body_ok d b =
     (list_all (\<lambda>c. is_digit c \<or> c = CHR ''.'') b
      \<and> length (filter (\<lambda>c. c = CHR ''.'') b) \<le> (if d then 0 else 1))"
  by (induction d b rule: body_ok.induct) auto

lemma lower_char_keep: "is_digit c \<or> c = CHR ''.'' \<or> c = CHR ''-'' \<Longrightarrow> lower_char c = c"
  by (auto simp: is_digit_def lower_char_def Let_def)

lemma digit_ne:
  "is_digit c \<Longrightarrow> c \<noteq> CHR ''n'' \<and> c \<noteq> CHR ''i'' \<and> c \<noteq> CHR ''e'' \<and> c \<noteq> CHR '','' \<and> c \<noteq> CHR ''_'' \<and> c \<noteq> CHR '' ''"
  by (auto simp: is_digit_def Let_def)

lemma plain_text_chars:
  "plain_text s \<Longrightarrow> c \<in> set s \<Longrightarrow> is_digit c \<or> c = CHR ''.'' \<or> c = CHR ''-''"
  by (cases s) (auto simp: plain_text_def Let_def list_all_iff split: if_splits)

lemma plain_text_lower: "plain_text s \<Longrightarrow> ToLower s = s"
  unfolding ToLower_def by (rule map_idI) (rule lower_char_keep, erule (1) plain_text_chars)

lemma plain_text_screen:
  assumes "plain_text s"
  shows "\<not> Contains (ToLower s) ''nan''" "\<not> Contains (ToLower s) ''inf''"
    "\<not> ContainsAny s '',_ ''" "\<not> ContainsAny (ToLower s) ''e''"
proof -
  have no: "CHR ''n'' \<notin> set s" "CHR ''i'' \<notin> set s" "CHR ''e'' \<notin> set s"
    "CHR '','' \<notin> set s" "CHR ''_'' \<notin> set s" "CHR '' '' \<notin> set s"
    using plain_text_chars [OF assms] digit_ne by fastforce+
  show "\<not> Contains (ToLower s) ''nan''" "\<not> Contains (ToLower s) ''inf''"
    using no Contains_set [of s "''nan''"] Contains_set [of s "''inf''"] plain_text_lower [OF assms]
    by auto
  show "\<not> ContainsAny s '',_ ''" "\<not> ContainsAny (ToLower s) ''e''"
    using no plain_text_lower [OF assms] by (auto simp: ContainsAny_def list_ex_iff)
qed

lemma plain_text_body_iff:
  "s \<noteq> [] \<Longrightarrow> plain_text s =
     (let body = (case s of [] \<Rightarrow> [] | c # b \<Rightarrow> if c = CHR ''-'' then b else s)
      in body \<noteq> [] \<and> body_ok False body)"
  by (auto simp: plain_text_def body_ok_iff Let_def)

context decimal_lib
begin

lemma parseExact_plain:
  assumes "TrimSpace s = t" "plain_text t" "length t \<le> 80"
  shows "parseExact L s = from_option Malformed (plain_value t)"
proof -
  have "t \<noteq> []" using assms(2) by (auto simp: plain_text_def Let_def)
  then show ?thesis
    using assms plain_text_screen [OF assms(2)] plain_text_body_iff [of t]
    by (auto simp: parseExact_def Let_def newFromString)
qed

lemma parseExact_not_plain:
  assumes "parseExact L s = Inr d"
  shows "plain_text (TrimSpace s) \<and> length (TrimSpace s) \<le> 80"
  using assms plain_text_body_iff [of "TrimSpace s"]
  by (auto simp: parseExact_def Let_def split: if_splits)

lemma parseExact_iff:
  "parseExact L s = Inr d \<longleftrightarrow>
     plain_text (TrimSpace s) \<and> length (TrimSpace s) \<le> 80 \<and> plain_value (TrimSpace s) = Some d"
proof
  assume ok: "parseExact L s = Inr d"
  with parseExact_not_plain [OF ok] show "plain_text (TrimSpace s) \<and> length (TrimSpace s) \<le> 80 \<and> plain_value (TrimSpace s) = Some d"
    using parseExact_plain [of s "TrimSpace s"] by simp
qed (simp add: parseExact_plain)

end

text \<open>The literals of the source parse to the numbers they spell.\<close>

lemma literal_facts:
  "TrimSpace ''0'' = ''0'' \<and> plain_text ''0'' \<and> plain_value ''0'' = Some 0"
  "TrimSpace ''1'' = ''1'' \<and> plain_text ''1'' \<and> plain_value ''1'' = Some 1"
  "TrimSpace ''100'' = ''100'' \<and> plain_text ''100'' \<and> plain_value ''100'' = Some 100"
  "TrimSpace ''0.000000001'' = ''0.000000001'' \<and> plain_text ''0.000000001''
     \<and> plain_value ''0.000000001'' = Some (1 / 1000000000)"
  by code_simp+

context decimal_lib
begin

lemma mustNew_literals [simp]:
  "mustNew L ''0'' = 0" "mustNew L ''1'' = 1" "mustNew L ''100'' = 100"
  "mustNew L ''0.000000001'' = 1 / 1000000000"
  using literal_facts by (simp_all add: mustNew_def newDecimal_def parseExact_plain)

end

section \<open>Properties\<close>

text \<open>
  C40. \<open>parseExact\<close> is a recogniser of plain decimal literals: after trimming, it accepts exactly the
  texts of at most 80 bytes with an optional minus sign, digits and at most one point, with at least
  one digit, and returns the number the text spells. Its separate tests for NaN, infinities,
  separators and exponents never reject such a text and never let another one through.
\<close>

theorem parseExact_accepts_exactly:
  "decimal_lib L \<Longrightarrow>
   parseExact L s = Inr d \<longleftrightarrow>
     plain_text (TrimSpace s) \<and> length (TrimSpace s) \<le> 80 \<and> plain_value (TrimSpace s) = Some d"
  by (rule decimal_lib.parseExact_iff)

theorem parseExact_accepts_exactly_witness:
  "parseExact std_declib '' -12.50 '' = Inr (- 25 / 2)"
proof -
  have "TrimSpace '' -12.50 '' = ''-12.50'' \<and> plain_text ''-12.50'' \<and> plain_value ''-12.50'' = Some (- 25 / 2)"
    by code_simp
  then show ?thesis
    by (simp add: parseExact_accepts_exactly [OF std.decimal_lib_axioms])
qed

end
