(* ===== verification/Performance.thy ===== *)
theory Performance
  imports MoneyLaws
begin

text \<open>
  \<^verbatim>\<open>internal/performance\<close>: the ranked index. A \<open>State\<close> is the persistent record of one
  portfolio; \<open>ApplyCheckpoint\<close> and \<open>ApplyReturnCheckpoint\<close> are its two transitions; the
  service reads it, and its compatibility writer stores it through a versioned repository. The
  PostgreSQL repository is modelled by the rows it holds: a map from portfolio ids to states.
\<close>

section \<open>The ranked state\<close>

datatype perr = ErrStateNotFound | ErrVersionConflict | ErrInvalidState | ErrPerfOther string

datatype Status = StatusActive | StatusPaused | StatusOther string

record State =
  st_PortfolioID :: string
  st_UserID :: string
  st_CheckpointIndex :: IndexValue
  st_SegmentStartValueBase :: "Amount option"
  st_Status :: Status
  st_TrackingStartedAt :: time
  st_SegmentStartedAt :: "time option"
  st_UpdatedAt :: time
  st_Version :: int

record CheckpointInput =
  ci_PortfolioID :: string
  ci_UserID :: string
  ci_ValueBeforeBase :: Amount
  ci_HasActiveBefore :: bool
  ci_ValueAfterBase :: Amount
  ci_HasActiveAfter :: bool
  ci_At :: time

record RankedPerformance =
  rp_PortfolioID :: string
  rp_RankedIndex :: IndexValue
  rp_RankedReturnPercentage :: Ratio
  rp_Status :: Status
  rp_TrackingStartedAt :: time
  rp_ValuationAsOf :: time
  rp_DataQualityStatus :: string

record ValuationObservation =
  vo_PortfolioID :: string
  vo_ValueBase :: Amount
  vo_HasActive :: bool
  vo_ValuationAsOf :: time
  vo_DataQualityStatus :: string

record TransitionSnapshot =
  ts_PortfolioID :: string
  ts_UserID :: string
  ts_TrackingStartedAt :: time
  ts_RankedIndex :: IndexValue
  ts_Status :: Status
  ts_CapturedAt :: time
  ts_ValuationAsOf :: time
  ts_DataQualityStatus :: string

section \<open>The transitions\<close>

text \<open>\<open>state.Status == StatusActive && SegmentStartValueBase != nil && its Sign() > 0\<close>\<close>

definition active_segment :: "declib \<Rightarrow> State \<Rightarrow> bool" where
  "active_segment L state =
     (st_Status state = StatusActive \<and>
      (case st_SegmentStartValueBase state of None \<Rightarrow> False | Some v \<Rightarrow> 0 < Decimal_Sign L v))"

definition CalculateCurrentIndex :: "declib \<Rightarrow> State \<Rightarrow> Amount \<Rightarrow> IndexValue" where
  "CalculateCurrentIndex L state currentValueBase =
     (if st_Status state \<noteq> StatusActive then st_CheckpointIndex state
      else case st_SegmentStartValueBase state of
        None \<Rightarrow> st_CheckpointIndex state
      | Some start \<Rightarrow>
          if Decimal_Sign L start \<le> 0 then st_CheckpointIndex state
          else case Amount_DivExact L currentValueBase start (ScaleIndex + ScaleValue) of
            Inl _ \<Rightarrow> st_CheckpointIndex state
          | Inr ratio \<Rightarrow> Index_MulRatio L (st_CheckpointIndex state) ratio)"

definition CalculateIndexBeforeMutation :: "declib \<Rightarrow> State \<Rightarrow> CheckpointInput \<Rightarrow> IndexValue" where
  "CalculateIndexBeforeMutation L state inp =
     (if active_segment L state \<and> ci_HasActiveBefore inp
      then CalculateCurrentIndex L state (ci_ValueBeforeBase inp)
      else st_CheckpointIndex state)"

definition ActivateState :: "declib \<Rightarrow> string \<Rightarrow> string \<Rightarrow> Amount \<Rightarrow> bool \<Rightarrow> time \<Rightarrow> State" where
  "ActivateState L portfolioID userID valueBase hasActive t =
     (let st = \<lparr>st_PortfolioID = portfolioID, st_UserID = userID,
                st_CheckpointIndex = MustIndexValue L ''100'',
                st_SegmentStartValueBase = None, st_Status = StatusOther [],
                st_TrackingStartedAt = t, st_SegmentStartedAt = None,
                st_UpdatedAt = t, st_Version = 1\<rparr>
      in if hasActive
         then st\<lparr>st_Status := StatusActive, st_SegmentStartValueBase := Some valueBase,
                 st_SegmentStartedAt := Some t\<rparr>
         else st\<lparr>st_Status := StatusPaused, st_SegmentStartValueBase := None\<rparr>)"

definition ApplyCheckpoint :: "declib \<Rightarrow> State \<Rightarrow> CheckpointInput \<Rightarrow> State" where
  "ApplyCheckpoint L prev inp =
     (let index = CalculateIndexBeforeMutation L prev inp;
          next = prev\<lparr>st_SegmentStartValueBase := None, st_UpdatedAt := ci_At inp,
                      st_CheckpointIndex := QuantizeIndex L index,
                      st_Version := st_Version prev + 1\<rparr>
      in if ci_HasActiveAfter inp
         then next\<lparr>st_Status := StatusActive,
                   st_SegmentStartValueBase := Some (ci_ValueAfterBase inp),
                   st_SegmentStartedAt := Some (ci_At inp)\<rparr>
         else next\<lparr>st_Status := StatusPaused\<rparr>)"

text \<open>\<open>CloneState\<close> copies the pointer fields; on values it is the identity.\<close>

definition CloneState :: "State \<Rightarrow> State" where
  "CloneState state = state"

definition ApplyReturnCheckpoint :: "declib \<Rightarrow> State \<Rightarrow> CheckpointInput \<Rightarrow> State" where
  "ApplyReturnCheckpoint L prev inp =
     (let activeBefore = active_segment L prev \<and> ci_HasActiveBefore inp
      in if \<not> activeBefore then ApplyCheckpoint L prev inp
         else let next = (CloneState prev)\<lparr>st_Version := st_Version prev + 1, st_UpdatedAt := ci_At inp\<rparr>
         in if ci_HasActiveAfter inp \<and> 0 < Decimal_Sign L (ci_ValueAfterBase inp)
            then next\<lparr>st_Status := StatusActive\<rparr>
            else let idxAfter = CalculateCurrentIndex L prev (ci_ValueAfterBase inp);
                     floor = MustIndexValue L ''0.000000001'';
                     idxAfter = (if Index_Cmp L idxAfter floor < 0 then floor else idxAfter)
            in next\<lparr>st_CheckpointIndex := QuantizeIndex L idxAfter, st_Status := StatusPaused,
                    st_SegmentStartValueBase := None, st_SegmentStartedAt := None\<rparr>)"

definition ValidateState :: "declib \<Rightarrow> State \<Rightarrow> perr + unit" where
  "ValidateState L state =
     (if st_PortfolioID state = [] \<or> st_UserID state = [] then Inl ErrInvalidState
      else if Decimal_Sign L (st_CheckpointIndex state) \<le> 0 then Inl ErrInvalidState
      else if st_Version state \<le> 0 then Inl ErrInvalidState
      else case st_Status state of
        StatusActive \<Rightarrow>
          (case st_SegmentStartValueBase state of
             None \<Rightarrow> Inl ErrInvalidState
           | Some v \<Rightarrow> if Decimal_Sign L v \<le> 0 then Inl ErrInvalidState else Inr ())
      | StatusPaused \<Rightarrow>
          (if st_SegmentStartValueBase state \<noteq> None then Inl ErrInvalidState else Inr ())
      | StatusOther _ \<Rightarrow> Inl ErrInvalidState)"

definition CurrentIndex :: "declib \<Rightarrow> State \<Rightarrow> Amount \<Rightarrow> IndexValue" where
  "CurrentIndex L state currentValueBase = CalculateCurrentIndex L state currentValueBase"

section \<open>The repository of ranked states\<close>

text \<open>
  \<open>MutableRepository\<close> is the interface the service writes through; a repository is a record of its
  three functions over a store of type \<open>'r\<close>. The PostgreSQL implementation is given by the effect of
  its statements on the rows: the insert does nothing on a conflicting key, the update matches a
  row by id and version and leaves \<open>user_id\<close> and \<open>tracking_started_at\<close> as they are.
\<close>

record 'r MutableRepository =
  GetByPortfolio :: "string \<Rightarrow> 'r \<Rightarrow> perr + State"
  Create :: "State \<Rightarrow> 'r \<Rightarrow> perr + 'r"
  Update :: "State \<Rightarrow> int \<Rightarrow> 'r \<Rightarrow> perr + 'r"

type_synonym pg_rows = "string \<rightharpoonup> State"

definition ScanState :: "string \<Rightarrow> pg_rows \<Rightarrow> perr + State" where
  "ScanState portfolioID rows = from_option ErrStateNotFound (rows portfolioID)"

definition pg_Create :: "declib \<Rightarrow> State \<Rightarrow> pg_rows \<Rightarrow> perr + pg_rows" where
  "pg_Create L state rows =
     rbind (ValidateState L state) (\<lambda>_.
       case rows (st_PortfolioID state) of
         Some _ \<Rightarrow> Inl ErrVersionConflict
       | None \<Rightarrow> Inr (rows(st_PortfolioID state \<mapsto> state)))"

definition pg_Update :: "declib \<Rightarrow> State \<Rightarrow> int \<Rightarrow> pg_rows \<Rightarrow> perr + pg_rows" where
  "pg_Update L state expectedVersion rows =
     rbind (ValidateState L state) (\<lambda>_.
       case rows (st_PortfolioID state) of
         None \<Rightarrow> Inl ErrVersionConflict
       | Some row \<Rightarrow>
           if st_Version row \<noteq> expectedVersion then Inl ErrVersionConflict
           else Inr (rows(st_PortfolioID state \<mapsto>
                  row\<lparr>st_CheckpointIndex := st_CheckpointIndex state,
                      st_SegmentStartValueBase := st_SegmentStartValueBase state,
                      st_Status := st_Status state,
                      st_SegmentStartedAt := st_SegmentStartedAt state,
                      st_UpdatedAt := st_UpdatedAt state,
                      st_Version := st_Version state\<rparr>)))"

definition PostgresStateReader :: "declib \<Rightarrow> pg_rows MutableRepository" where
  "PostgresStateReader L =
     \<lparr>GetByPortfolio = ScanState, Create = pg_Create L, Update = pg_Update L\<rparr>"

section \<open>The service\<close>

text \<open>
  The valuator is one of two interfaces (a type assertion picks the richer one); the portfolio
  service implements it. Recorder errors are ignored by the code, so recording is the list of
  snapshots handed to it.
\<close>

datatype valuator =
    ObservedValuator "string \<Rightarrow> perr + ValuationObservation"
  | PlainValuator "string \<Rightarrow> perr + (string \<times> Amount \<times> bool)"

definition currentObservation :: "valuator \<Rightarrow> time \<Rightarrow> string \<Rightarrow> perr + ValuationObservation" where
  "currentObservation v now userID =
     (case v of
        ObservedValuator f \<Rightarrow> f userID
      | PlainValuator f \<Rightarrow>
          rbind (f userID) (\<lambda>(portfolioID, value, active).
            Inr \<lparr>vo_PortfolioID = portfolioID, vo_ValueBase = value, vo_HasActive = active,
                 vo_ValuationAsOf = now, vo_DataQualityStatus = ''complete''\<rparr>))"

definition PerformanceFromObservation :: "declib \<Rightarrow> State \<Rightarrow> ValuationObservation \<Rightarrow> RankedPerformance" where
  "PerformanceFromObservation L state observation =
     (let idx = CalculateCurrentIndex L state (vo_ValueBase observation)
      in \<lparr>rp_PortfolioID = st_PortfolioID state, rp_RankedIndex = idx,
          rp_RankedReturnPercentage = Index_Sub L idx (MustIndexValue L ''100''),
          rp_Status = st_Status state, rp_TrackingStartedAt = st_TrackingStartedAt state,
          rp_ValuationAsOf = vo_ValuationAsOf observation,
          rp_DataQualityStatus = vo_DataQualityStatus observation\<rparr>)"

definition PerformanceFrom :: "declib \<Rightarrow> time \<Rightarrow> State \<Rightarrow> Amount \<Rightarrow> RankedPerformance" where
  "PerformanceFrom L now state valueBase =
     PerformanceFromObservation L state
       \<lparr>vo_PortfolioID = st_PortfolioID state, vo_ValueBase = valueBase, vo_HasActive = False,
        vo_ValuationAsOf = now, vo_DataQualityStatus = ''complete''\<rparr>"

definition CurrentRankedPerformance ::
  "declib \<Rightarrow> ('r, 'x) MutableRepository_scheme \<Rightarrow> valuator \<Rightarrow> time \<Rightarrow> string \<Rightarrow> 'r \<Rightarrow> perr + RankedPerformance" where
  "CurrentRankedPerformance L R v now userID rows =
     rbind (currentObservation v now userID) (\<lambda>observation.
       case GetByPortfolio R (vo_PortfolioID observation) rows of
         Inr state \<Rightarrow> Inr (PerformanceFromObservation L state observation)
       | Inl e \<Rightarrow>
           if e = ErrStateNotFound
           then Inr (PerformanceFromObservation L
                  (ActivateState L (vo_PortfolioID observation) userID (vo_ValueBase observation)
                     (vo_HasActive observation) now) observation)
           else Inl e)"

definition transition_of :: "State \<Rightarrow> time \<Rightarrow> time \<Rightarrow> string \<Rightarrow> TransitionSnapshot" where
  "transition_of st captured asOf quality =
     \<lparr>ts_PortfolioID = st_PortfolioID st, ts_UserID = st_UserID st,
      ts_TrackingStartedAt = st_TrackingStartedAt st, ts_RankedIndex = st_CheckpointIndex st,
      ts_Status = st_Status st, ts_CapturedAt = captured, ts_ValuationAsOf = asOf,
      ts_DataQualityStatus = quality\<rparr>"

definition Checkpoint ::
  "declib \<Rightarrow> ('r, 'x) MutableRepository_scheme option \<Rightarrow> bool \<Rightarrow> time \<Rightarrow> CheckpointInput \<Rightarrow> 'r
    \<Rightarrow> perr + ('r \<times> TransitionSnapshot list)" where
  "Checkpoint L mutable hasRecorder now inp rows =
     (case mutable of
        None \<Rightarrow> Inl ErrInvalidState
      | Some R \<Rightarrow>
          let t = (if time_IsZero (ci_At inp) then now else ci_At inp) in
          (case GetByPortfolio R (ci_PortfolioID inp) rows of
             Inl e \<Rightarrow>
               if e \<noteq> ErrStateNotFound then Inl e
               else let next = ActivateState L (ci_PortfolioID inp) (ci_UserID inp)
                                 (ci_ValueAfterBase inp) (ci_HasActiveAfter inp) t
                    in rbind (Create R next rows) (\<lambda>rows'.
                         Inr (rows', if hasRecorder then [transition_of next t t ''complete''] else []))
           | Inr current \<Rightarrow>
               let next = ApplyCheckpoint L current inp
               in rbind (Update R next (st_Version current) rows) (\<lambda>rows'.
                    Inr (rows', if hasRecorder \<and> st_Status current \<noteq> st_Status next
                                then [transition_of next t t ''complete''] else []))))"

definition EnsureEpoch ::
  "declib \<Rightarrow> ('r, 'x) MutableRepository_scheme option \<Rightarrow> valuator \<Rightarrow> bool \<Rightarrow> time \<Rightarrow> string \<Rightarrow> 'r
    \<Rightarrow> perr + ('r \<times> TransitionSnapshot list)" where
  "EnsureEpoch L mutable v hasRecorder now userID rows =
     (case mutable of
        None \<Rightarrow> Inl ErrInvalidState
      | Some R \<Rightarrow>
          rbind (currentObservation v now userID) (\<lambda>observation.
            case GetByPortfolio R (vo_PortfolioID observation) rows of
              Inr _ \<Rightarrow> Inr (rows, [])
            | Inl e \<Rightarrow>
                if e \<noteq> ErrStateNotFound then Inl e
                else let state = ActivateState L (vo_PortfolioID observation) userID
                                   (vo_ValueBase observation) (vo_HasActive observation) now;
                         snaps = (if hasRecorder
                                  then [transition_of state now (vo_ValuationAsOf observation)
                                          (vo_DataQualityStatus observation)] else [])
                     in (case Create R state rows of
                           Inr rows' \<Rightarrow> Inr (rows', snaps)
                         | Inl e' \<Rightarrow> if e' \<noteq> ErrVersionConflict then Inl e' else Inr (rows, snaps))))"

end
