(* ===== verification/PerformanceLaws.thy ===== *)
theory PerformanceLaws
  imports Performance
begin

text \<open>
  The invariants of the ranked index: neutral checkpoints never move it, return-bearing ones move it
  in the direction of the value change, every transition keeps the persisted state valid, and the
  versioned repository (the locale \<open>ranked_repository\<close>, interpreted on the PostgreSQL rows)
  never loses an update.
\<close>

section \<open>Quantisation of the money types\<close>

text \<open>
  Rounding at a posting boundary is exact to half a unit of the last place, lands on a value of
  that many places, changes nothing that already has them, and preserves order.
\<close>

theorem quantize_precise:
  assumes "decimal_lib L"
  shows "\<bar>quantize L x n - x\<bar> \<le> 1 / (2 * 10 ^ n) \<and> has_places n (quantize L x n)
    \<and> quantize L (quantize L x n) n = quantize L x n
    \<and> (x \<le> y \<longrightarrow> quantize L x n \<le> quantize L y n)"
  by (simp add: quantize_def decimal_lib.roundBank [OF assms] bank_places_near bank_places_mono)

theorem quantize_precise_witness:
  "quantize std_declib (1/8) 2 = 12/100 \<and> \<bar>quantize std_declib (1/8) 2 - 1/8\<bar> \<le> 1 / (2 * 10 ^ 2)"
proof -
  have "bank_places 2 (1/8) = 12/100" by code_simp
  then have "quantize std_declib (1/8) 2 = 12/100" by (simp add: quantize_def)
  then show ?thesis
    using quantize_precise [OF std.decimal_lib_axioms, of "1/8" 2 "1/8"] by blast
qed

text \<open>
  \<open>divPrecise\<close> documents round-half-even division, but the library call it makes rounds halves
  away from zero: 5/2 to no places is 3, where banker's rounding (which \<open>quantize\<close> applies to the
  same quotient) gives 2.
\<close>

theorem divPrecise_rounds_half_away:
  "decimal_lib L \<Longrightarrow> divPrecise L 5 2 0 = Inr 3 \<and> quantize L (5/2) 0 = 2"
proof -
  assume L: "decimal_lib L"
  have "away_places 0 (5/2) = 3" "bank_places 0 (5/2) = 2" by code_simp+
  then show ?thesis
    by (simp add: decimal_lib.divPrecise_eq [OF L] quantize_def decimal_lib.roundBank [OF L])
qed

theorem divPrecise_rounds_half_away_witness:
  "divPrecise std_declib 5 2 0 = Inr 3 \<and> quantize std_declib (5/2) 0 = 2"
  by (rule divPrecise_rounds_half_away [OF std.decimal_lib_axioms])

section \<open>The index of a state\<close>

definition ranked_ok :: "declib \<Rightarrow> State \<Rightarrow> bool" where
  "ranked_ok L st = (ValidateState L st = Inr () \<and> has_places 18 (st_CheckpointIndex st))"

text \<open>A run of checkpoints at fixed prices: each starts from the value the one before left.\<close>

fun chained :: "CheckpointInput list \<Rightarrow> bool" where
  "chained [] = True"
| "chained [i] = True"
| "chained (i # j # is) =
     (ci_ValueBeforeBase j = ci_ValueAfterBase i \<and> chained (j # is))"

lemma ApplyCheckpoint_fields [simp]:
  "st_PortfolioID (ApplyCheckpoint L prev inp) = st_PortfolioID prev"
  "st_UserID (ApplyCheckpoint L prev inp) = st_UserID prev"
  "st_TrackingStartedAt (ApplyCheckpoint L prev inp) = st_TrackingStartedAt prev"
  "st_Version (ApplyCheckpoint L prev inp) = st_Version prev + 1"
  "st_UpdatedAt (ApplyCheckpoint L prev inp) = ci_At inp"
  "st_CheckpointIndex (ApplyCheckpoint L prev inp) = QuantizeIndex L (CalculateIndexBeforeMutation L prev inp)"
  "st_Status (ApplyCheckpoint L prev inp) = (if ci_HasActiveAfter inp then StatusActive else StatusPaused)"
  "st_SegmentStartValueBase (ApplyCheckpoint L prev inp) =
     (if ci_HasActiveAfter inp then Some (ci_ValueAfterBase inp) else None)"
  by (simp_all add: ApplyCheckpoint_def Let_def)

lemma ApplyReturnCheckpoint_ids [simp]:
  "st_PortfolioID (ApplyReturnCheckpoint L prev inp) = st_PortfolioID prev"
  "st_UserID (ApplyReturnCheckpoint L prev inp) = st_UserID prev"
  "st_TrackingStartedAt (ApplyReturnCheckpoint L prev inp) = st_TrackingStartedAt prev"
  "st_Version (ApplyReturnCheckpoint L prev inp) = st_Version prev + 1"
  "st_UpdatedAt (ApplyReturnCheckpoint L prev inp) = ci_At inp"
  by (simp_all add: ApplyReturnCheckpoint_def CloneState_def Let_def)

context decimal_lib
begin

lemma active_segment_iff [simp]:
  "active_segment L st = (st_Status st = StatusActive \<and> (\<exists>v. st_SegmentStartValueBase st = Some v \<and> 0 < v))"
  by (auto simp: active_segment_def money_defs split: option.splits)

lemma CalculateCurrentIndex_eq:
  "CalculateCurrentIndex L st v =
     (if active_segment L st
      then st_CheckpointIndex st * away_places 36 (v / the (st_SegmentStartValueBase st))
      else st_CheckpointIndex st)"
  by (auto simp: CalculateCurrentIndex_def money_defs scale_defs not_le split: option.splits)

lemma QuantizeIndex_eq [simp]: "QuantizeIndex L x = bank_places 18 x"
  by (simp add: money_defs scale_defs)

lemma checkpoint_neutral:
  "CalculateCurrentIndex L (ApplyCheckpoint L prev inp) (ci_ValueAfterBase inp) =
     QuantizeIndex L (CalculateIndexBeforeMutation L prev inp)"
  by (auto simp: CalculateCurrentIndex_eq)

lemma before_after_checkpoint:
  assumes "ci_ValueBeforeBase j = ci_ValueAfterBase i"
  shows "CalculateIndexBeforeMutation L (ApplyCheckpoint L prev i) j = QuantizeIndex L (CalculateIndexBeforeMutation L prev i)"
  using assms by (auto simp: CalculateIndexBeforeMutation_def CalculateCurrentIndex_eq)

lemma neutral_run:
  "chained (i # is) \<Longrightarrow>
   CalculateCurrentIndex L (foldl (ApplyCheckpoint L) prev (i # is)) (ci_ValueAfterBase (last (i # is))) =
     QuantizeIndex L (CalculateIndexBeforeMutation L prev i)"
proof (induction "is" arbitrary: prev i)
  case Nil
  then show ?case by (simp add: checkpoint_neutral)
next
  case (Cons j js)
  then have "CalculateCurrentIndex L (foldl (ApplyCheckpoint L) (ApplyCheckpoint L prev i) (j # js))
      (ci_ValueAfterBase (last (j # js))) = QuantizeIndex L (CalculateIndexBeforeMutation L (ApplyCheckpoint L prev i) j)"
    by simp
  with Cons.prems show ?case by (simp add: before_after_checkpoint)
qed

lemma return_keeps_segment:
  assumes "active_segment L prev" "ci_HasActiveBefore inp" "ci_HasActiveAfter inp" "0 < ci_ValueAfterBase inp"
  shows "ApplyReturnCheckpoint L prev inp =
    prev\<lparr>st_Version := st_Version prev + 1, st_UpdatedAt := ci_At inp, st_Status := StatusActive\<rparr>"
  using assms by (auto simp: ApplyReturnCheckpoint_def CloneState_def Let_def money_defs)

lemma return_index:
  assumes "active_segment L prev" "ci_HasActiveBefore inp" "ci_HasActiveAfter inp" "0 < ci_ValueAfterBase inp"
  shows "CalculateCurrentIndex L (ApplyReturnCheckpoint L prev inp) v = CalculateCurrentIndex L prev v"
  using assms by (auto simp: return_keeps_segment CalculateCurrentIndex_eq)

lemma CalculateCurrentIndex_mono:
  assumes "0 \<le> st_CheckpointIndex st" "v \<le> w"
  shows "CalculateCurrentIndex L st v \<le> CalculateCurrentIndex L st w"
  using assms by (auto simp: CalculateCurrentIndex_eq intro!: mult_left_mono away_places_mono divide_right_mono)

lemma return_direction:
  assumes "active_segment L prev" "ci_HasActiveBefore inp" "ci_HasActiveAfter inp" "0 < ci_ValueAfterBase inp"
    and "0 \<le> st_CheckpointIndex prev"
  shows "(ci_ValueBeforeBase inp \<le> ci_ValueAfterBase inp \<longrightarrow>
           CalculateIndexBeforeMutation L prev inp \<le>
           CalculateCurrentIndex L (ApplyReturnCheckpoint L prev inp) (ci_ValueAfterBase inp)) \<and>
         (ci_ValueAfterBase inp \<le> ci_ValueBeforeBase inp \<longrightarrow>
           CalculateCurrentIndex L (ApplyReturnCheckpoint L prev inp) (ci_ValueAfterBase inp) \<le>
           CalculateIndexBeforeMutation L prev inp)"
  using assms by (simp add: CalculateIndexBeforeMutation_def return_index CalculateCurrentIndex_mono)

lemma ValidateState_iff:
  "(ValidateState L st = Inr u) =
     (st_PortfolioID st \<noteq> [] \<and> st_UserID st \<noteq> [] \<and> 0 < st_CheckpointIndex st \<and> 0 < st_Version st \<and>
      ((st_Status st = StatusActive \<and> (\<exists>v. st_SegmentStartValueBase st = Some v \<and> 0 < v)) \<or>
       (st_Status st = StatusPaused \<and> st_SegmentStartValueBase st = None)))"
  by (auto simp: ValidateState_def money_defs not_le split: Status.splits option.splits if_splits)

lemma ActivateState_ok:
  assumes "pid \<noteq> []" "uid \<noteq> []" "hasActive \<longrightarrow> 0 < v"
  shows "ranked_ok L (ActivateState L pid uid v hasActive t)"
  using assms has_places_of_int [of 18 100]
  by (auto simp: ranked_ok_def ValidateState_iff ActivateState_def Let_def money_defs)

lemma ApplyCheckpoint_ok:
  assumes "ValidateState L prev = Inr ()" "ci_HasActiveAfter inp \<longrightarrow> 0 < ci_ValueAfterBase inp"
    and "0 < QuantizeIndex L (CalculateIndexBeforeMutation L prev inp)"
  shows "ranked_ok L (ApplyCheckpoint L prev inp)"
  using assms by (auto simp: ranked_ok_def ValidateState_iff)

lemma return_floor_pos: "0 < bank_places 18 (if x < 1 / 1000000000 then 1 / 1000000000 else x)"
  by (rule bank_places_pos) auto

lemma ApplyReturnCheckpoint_ok:
  assumes ok: "ranked_ok L prev" and "ci_HasActiveAfter inp \<longrightarrow> 0 < ci_ValueAfterBase inp"
  shows "ranked_ok L (ApplyReturnCheckpoint L prev inp)"
proof (cases "active_segment L prev \<and> ci_HasActiveBefore inp")
  case False
  then have "ApplyReturnCheckpoint L prev inp = ApplyCheckpoint L prev inp"
    and "CalculateIndexBeforeMutation L prev inp = st_CheckpointIndex prev"
    by (auto simp: ApplyReturnCheckpoint_def CalculateIndexBeforeMutation_def)
  with assms show ?thesis
    by (auto intro!: ApplyCheckpoint_ok simp: ranked_ok_def ValidateState_iff bank_places_exact)
next
  case True
  show ?thesis
  proof (cases "ci_HasActiveAfter inp \<and> 0 < ci_ValueAfterBase inp")
    case live: True
    with True ok show ?thesis by (auto simp: return_keeps_segment ranked_ok_def ValidateState_iff)
  next
    case False
    let ?i = "CalculateCurrentIndex L prev (ci_ValueAfterBase inp)"
    have "st_CheckpointIndex (ApplyReturnCheckpoint L prev inp) =
        bank_places 18 (if ?i < 1 / 1000000000 then 1 / 1000000000 else ?i)"
      and "st_Status (ApplyReturnCheckpoint L prev inp) = StatusPaused"
      and "st_SegmentStartValueBase (ApplyReturnCheckpoint L prev inp) = None"
      using True False
      by (auto simp: ApplyReturnCheckpoint_def Let_def money_defs scale_defs CloneState_def)
    with ok show ?thesis
      using return_floor_pos [of ?i] by (auto simp: ranked_ok_def ValidateState_iff)
  qed
qed

end

section \<open>Properties of the transitions\<close>

text \<open>
  A neutral checkpoint generates no ranked return: whatever the state and the mutation, the index
  read right after \<open>ApplyCheckpoint\<close> at the new value is the (quantised) index right before it.
\<close>

theorem ApplyCheckpoint_neutral:
  "decimal_lib L \<Longrightarrow>
   CalculateCurrentIndex L (ApplyCheckpoint L prev inp) (ci_ValueAfterBase inp) =
     QuantizeIndex L (CalculateIndexBeforeMutation L prev inp)"
  by (rule decimal_lib.checkpoint_neutral)

definition demo_state :: State where
  "demo_state = \<lparr>st_PortfolioID = ''p'', st_UserID = ''u'', st_CheckpointIndex = 100,
     st_SegmentStartValueBase = Some 1000, st_Status = StatusActive, st_TrackingStartedAt = 1,
     st_SegmentStartedAt = Some 1, st_UpdatedAt = 1, st_Version = 1\<rparr>"

definition demo_input :: "Amount \<Rightarrow> Amount \<Rightarrow> CheckpointInput" where
  "demo_input b a = \<lparr>ci_PortfolioID = ''p'', ci_UserID = ''u'', ci_ValueBeforeBase = b,
     ci_HasActiveBefore = True, ci_ValueAfterBase = a, ci_HasActiveAfter = True, ci_At = 2\<rparr>"

lemmas demo_defs = demo_state_def demo_input_def

theorem ApplyCheckpoint_neutral_witness:
  "CalculateCurrentIndex std_declib (ApplyCheckpoint std_declib demo_state (demo_input 1100 5000)) 5000 = 110"
proof -
  have "CalculateIndexBeforeMutation std_declib demo_state (demo_input 1100 5000) = 110" by code_simp
  then show ?thesis
    using ApplyCheckpoint_neutral [OF std.decimal_lib_axioms, of demo_state "demo_input 1100 5000"]
    by (simp add: demo_input_def)
qed

text \<open>
  Chain-linking: over any sequence of neutral mutations at fixed prices, however many times capital
  is added, removed or emptied out, the index at the end is the quantised index at the start; the
  rounding of each checkpoint does not accumulate.
\<close>

theorem neutral_mutations_never_move_index:
  "decimal_lib L \<Longrightarrow> chained (i # is) \<Longrightarrow>
   CalculateCurrentIndex L (foldl (ApplyCheckpoint L) prev (i # is)) (ci_ValueAfterBase (last (i # is))) =
     QuantizeIndex L (CalculateIndexBeforeMutation L prev i)"
  by (rule decimal_lib.neutral_run)

theorem neutral_mutations_never_move_index_witness:
  "chained [demo_input 1100 5000, demo_input 5000 7, demo_input 7 90] \<and>
   CalculateCurrentIndex std_declib
     (foldl (ApplyCheckpoint std_declib) demo_state [demo_input 1100 5000, demo_input 5000 7, demo_input 7 90]) 90 = 110"
proof -
  have ch: "chained [demo_input 1100 5000, demo_input 5000 7, demo_input 7 90]"
    by (simp add: demo_input_def)
  have "QuantizeIndex std_declib
      (CalculateIndexBeforeMutation std_declib demo_state (demo_input 1100 5000)) = 110" by code_simp
  with ch neutral_mutations_never_move_index [OF std.decimal_lib_axioms ch, of demo_state] show ?thesis
    by (simp add: demo_input_def)
qed

text \<open>
  A return-bearing checkpoint of a live portfolio moves the index with the value and never the
  other way: income cannot lower it and a fee or loss cannot raise it.
\<close>

theorem ApplyReturnCheckpoint_direction:
  assumes "decimal_lib L" "active_segment L prev" "ci_HasActiveBefore inp" "ci_HasActiveAfter inp"
    and "0 < ci_ValueAfterBase inp" "0 \<le> st_CheckpointIndex prev"
  shows "(ci_ValueBeforeBase inp \<le> ci_ValueAfterBase inp \<longrightarrow>
           CalculateIndexBeforeMutation L prev inp \<le>
           CalculateCurrentIndex L (ApplyReturnCheckpoint L prev inp) (ci_ValueAfterBase inp)) \<and>
         (ci_ValueAfterBase inp \<le> ci_ValueBeforeBase inp \<longrightarrow>
           CalculateCurrentIndex L (ApplyReturnCheckpoint L prev inp) (ci_ValueAfterBase inp) \<le>
           CalculateIndexBeforeMutation L prev inp)"
  using assms by (rule decimal_lib.return_direction)

theorem ApplyReturnCheckpoint_direction_witness:
  "CalculateIndexBeforeMutation std_declib demo_state (demo_input 1000 1200) \<le>
     CalculateCurrentIndex std_declib
       (ApplyReturnCheckpoint std_declib demo_state (demo_input 1000 1200)) 1200"
  using ApplyReturnCheckpoint_direction [OF std.decimal_lib_axioms, of demo_state "demo_input 1000 1200"]
  by (simp add: demo_defs)

text \<open>
  The persisted invariant (positive finite index of 18 places, a positive segment exactly when
  active, non-empty ids, positive version) survives every return-bearing checkpoint, including one
  that drains the portfolio to nothing: the recorded loss is floored at a positive index.
\<close>

theorem ApplyReturnCheckpoint_keeps_valid:
  assumes "decimal_lib L" "ranked_ok L prev" "ci_HasActiveAfter inp \<longrightarrow> 0 < ci_ValueAfterBase inp"
  shows "ranked_ok L (ApplyReturnCheckpoint L prev inp) \<and>
    st_Version (ApplyReturnCheckpoint L prev inp) = st_Version prev + 1 \<and>
    st_TrackingStartedAt (ApplyReturnCheckpoint L prev inp) = st_TrackingStartedAt prev"
  using decimal_lib.ApplyReturnCheckpoint_ok [OF assms] by simp

theorem ApplyReturnCheckpoint_keeps_valid_witness:
  "ranked_ok std_declib (ApplyReturnCheckpoint std_declib demo_state ((demo_input 1000 0)\<lparr>ci_HasActiveAfter := False\<rparr>))"
proof -
  have "has_places 18 (100::rat)" using has_places_of_int [of 18 100] by simp
  then have "ranked_ok std_declib demo_state"
    by (simp add: ranked_ok_def std.ValidateState_iff demo_state_def)
  then show ?thesis
    using ApplyReturnCheckpoint_keeps_valid [OF std.decimal_lib_axioms,
        of demo_state "(demo_input 1000 0)\<lparr>ci_HasActiveAfter := False\<rparr>"]
    by simp
qed

section \<open>The versioned repository\<close>

text \<open>
  What the service relies on: reads see the last write, creation needs an absent key, an update
  needs the version it read, and only valid states are stored. \<open>inv\<close> is the repository's own
  invariant (its rows are filed under their ids).
\<close>

locale ranked_repository =
  fixes L :: declib and R :: "'r MutableRepository" and inv :: "'r \<Rightarrow> bool"
  assumes get_id: "inv r \<Longrightarrow> GetByPortfolio R pid r = Inr s \<Longrightarrow> st_PortfolioID s = pid"
    and create_absent: "Create R s r = Inr r' \<Longrightarrow> GetByPortfolio R (st_PortfolioID s) r = Inl ErrStateNotFound"
    and create_get: "Create R s r = Inr r' \<Longrightarrow> GetByPortfolio R (st_PortfolioID s) r' = Inr s"
    and create_other: "Create R s r = Inr r' \<Longrightarrow> pid \<noteq> st_PortfolioID s \<Longrightarrow>
      GetByPortfolio R pid r' = GetByPortfolio R pid r"
    and create_inv: "Create R s r = Inr r' \<Longrightarrow> inv r \<Longrightarrow> inv r'"
    and create_valid: "Create R s r = Inr r' \<Longrightarrow> ValidateState L s = Inr ()"
    and update_get: "Update R s v r = Inr r' \<Longrightarrow> inv r \<Longrightarrow>
      \<exists>row. GetByPortfolio R (st_PortfolioID s) r = Inr row \<and> st_Version row = v \<and>
        GetByPortfolio R (st_PortfolioID s) r' =
          Inr (s\<lparr>st_UserID := st_UserID row, st_TrackingStartedAt := st_TrackingStartedAt row\<rparr>)"
    and update_other: "Update R s v r = Inr r' \<Longrightarrow> pid \<noteq> st_PortfolioID s \<Longrightarrow>
      GetByPortfolio R pid r' = GetByPortfolio R pid r"
    and update_inv: "Update R s v r = Inr r' \<Longrightarrow> inv r \<Longrightarrow> inv r'"
    and update_valid: "Update R s v r = Inr r' \<Longrightarrow> ValidateState L s = Inr ()"
begin

text \<open>An update of an existing portfolio stores exactly the checkpointed state.\<close>

lemma Checkpoint_existing:
  assumes "Checkpoint L (Some R) rec now inp r = Inr (r', snaps)" "inv r"
    and "GetByPortfolio R (ci_PortfolioID inp) r = Inr cur"
  shows "GetByPortfolio R (ci_PortfolioID inp) r' = Inr (ApplyCheckpoint L cur inp) \<and> inv r' \<and>
    snaps = (if rec \<and> st_Status cur \<noteq> st_Status (ApplyCheckpoint L cur inp)
             then [transition_of (ApplyCheckpoint L cur inp)
                     (if time_IsZero (ci_At inp) then now else ci_At inp)
                     (if time_IsZero (ci_At inp) then now else ci_At inp) ''complete''] else [])"
proof -
  have id: "st_PortfolioID cur = ci_PortfolioID inp" using get_id assms(2,3) by blast
  from assms have up: "Update R (ApplyCheckpoint L cur inp) (st_Version cur) r = Inr r'"
    by (auto simp: Checkpoint_def Let_def)
  from update_get [OF this assms(2)] assms(3) id
  have "GetByPortfolio R (ci_PortfolioID inp) r' = Inr (ApplyCheckpoint L cur inp)"
    by simp
  with assms update_inv [OF up assms(2)] show ?thesis
    by (auto simp: Checkpoint_def Let_def)
qed

text \<open>A writer that read a version another writer has advanced cannot store its state.\<close>

lemma no_lost_update:
  assumes "Update R s v r = Inr r'" "inv r" "st_Version s = v + 1" "st_PortfolioID s2 = st_PortfolioID s"
  shows "\<not> is_ok (Update R s2 v r')"
proof
  assume "is_ok (Update R s2 v r')"
  then obtain r'' where "Update R s2 v r' = Inr r''" by (auto simp: is_ok_iff)
  from update_get [OF this update_inv [OF assms(1,2)]] update_get [OF assms(1,2)] assms(3,4)
  show False by auto
qed

lemma EnsureEpoch_idempotent:
  assumes "currentObservation v now uid = Inr obs" "GetByPortfolio R (vo_PortfolioID obs) r = Inr s"
  shows "EnsureEpoch L (Some R) v rec now uid r = Inr (r, [])"
  using assms by (simp add: EnsureEpoch_def)

end

definition pg_inv :: "pg_rows \<Rightarrow> bool" where
  "pg_inv rows = (\<forall>pid s. rows pid = Some s \<longrightarrow> st_PortfolioID s = pid)"

interpretation pg: ranked_repository L "PostgresStateReader L" pg_inv for L
  by unfold_locales
    (auto simp: PostgresStateReader_def ScanState_def pg_Create_def pg_Update_def pg_inv_def
      split: option.splits if_splits)

text \<open>
  The compatibility writer on the PostgreSQL rows: when \<open>Checkpoint\<close> of a tracked portfolio
  succeeds, the row read back is exactly the checkpointed state (same epoch and owner, one more
  version), and a transition is recorded exactly when the ranking status changed.
\<close>

theorem Checkpoint_stores_checkpoint:
  assumes "Checkpoint L (Some (PostgresStateReader L)) rec now inp rows = Inr (rows', snaps)"
    and "pg_inv rows" "ScanState (ci_PortfolioID inp) rows = Inr cur"
  shows "ScanState (ci_PortfolioID inp) rows' = Inr (ApplyCheckpoint L cur inp) \<and> pg_inv rows' \<and>
    (snaps \<noteq> [] \<longleftrightarrow> rec \<and> st_Status cur \<noteq> st_Status (ApplyCheckpoint L cur inp))"
  using pg.Checkpoint_existing [OF assms(1,2)] assms(3) by (simp add: PostgresStateReader_def)

definition demo_rows :: pg_rows where
  "demo_rows = [''p'' \<mapsto> demo_state]"

theorem Checkpoint_stores_checkpoint_witness:
  "\<exists>rows'. ScanState ''p'' rows' = Inr (ApplyCheckpoint std_declib demo_state (demo_input 1000 400))"
proof -
  let ?next = "ApplyCheckpoint std_declib demo_state (demo_input 1000 400)"
  have valid: "ValidateState std_declib ?next = Inr ()"
  proof -
    have "away_places 36 1 = 1" "bank_places 18 100 = 100" by code_simp+
    then show ?thesis
      by (simp add: std.ValidateState_iff demo_defs CalculateIndexBeforeMutation_def std.CalculateCurrentIndex_eq)
  qed
  have inv: "pg_inv demo_rows" by (simp add: pg_inv_def demo_rows_def demo_state_def)
  have get: "ScanState (ci_PortfolioID (demo_input 1000 400)) demo_rows = Inr demo_state"
    by (simp add: ScanState_def demo_rows_def demo_input_def)
  have "\<exists>rows' snaps. Checkpoint std_declib (Some (PostgresStateReader std_declib)) True 9
      (demo_input 1000 400) demo_rows = Inr (rows', snaps)"
    using valid get
    by (simp add: Checkpoint_def Let_def PostgresStateReader_def pg_Update_def demo_rows_def
        demo_input_def demo_state_def)
  then obtain rows' snaps where "Checkpoint std_declib (Some (PostgresStateReader std_declib)) True 9
      (demo_input 1000 400) demo_rows = Inr (rows', snaps)" by blast
  from Checkpoint_stores_checkpoint [OF this inv get] show ?thesis
    by (auto simp: demo_input_def)
qed

text \<open>
  Optimistic concurrency on the rows: once a writer has stored the successor of the version it
  read, a second writer holding that same version is refused, whatever it wants to store.
\<close>

theorem pg_Update_no_lost_update:
  assumes "pg_Update L s v rows = Inr rows'" "pg_inv rows" "st_Version s = v + 1"
    and "st_PortfolioID s2 = st_PortfolioID s"
  shows "\<not> is_ok (pg_Update L s2 v rows')"
  using pg.no_lost_update [of L s v rows rows' s2] assms by (simp add: PostgresStateReader_def)

theorem pg_Update_no_lost_update_witness:
  "\<exists>rows'. \<not> is_ok (pg_Update std_declib demo_state 1 rows')"
proof -
  let ?s = "demo_state\<lparr>st_Version := 2\<rparr>"
  have "\<exists>rows'. pg_Update std_declib ?s 1 demo_rows = Inr rows'"
    by (simp add: pg_Update_def demo_rows_def demo_state_def ValidateState_def Decimal_Sign_def std_declib_def)
  then obtain rows' where "pg_Update std_declib ?s 1 demo_rows = Inr rows'" by blast
  moreover have "pg_inv demo_rows" by (simp add: pg_inv_def demo_rows_def demo_state_def)
  ultimately have "\<not> is_ok (pg_Update std_declib demo_state 1 rows')"
    by (rule pg_Update_no_lost_update) (simp_all add: demo_state_def)
  then show ?thesis by blast
qed

text \<open>
  \<open>Checkpoint\<close> defaults a missing instant to the clock for the transition it records, but applies
  the checkpoint with the input as given: with a zero \<open>At\<close> the stored state carries the zero time.
\<close>

theorem Checkpoint_zero_time_stored:
  assumes "Checkpoint L (Some (PostgresStateReader L)) rec now inp rows = Inr (rows', snaps)"
    and "pg_inv rows" "ScanState (ci_PortfolioID inp) rows = Inr cur" "time_IsZero (ci_At inp)"
  shows "\<exists>st. ScanState (ci_PortfolioID inp) rows' = Inr st \<and> time_IsZero (st_UpdatedAt st)"
  using pg.Checkpoint_existing [OF assms(1,2)] assms(3,4) by (simp add: PostgresStateReader_def)

theorem Checkpoint_zero_time_stored_witness:
  "\<exists>rows' st. ScanState ''p'' rows' = Inr st \<and> time_IsZero (st_UpdatedAt st)"
proof -
  let ?inp = "(demo_input 1000 400)\<lparr>ci_At := 0\<rparr>"
  let ?next = "ApplyCheckpoint std_declib demo_state ?inp"
  have valid: "ValidateState std_declib ?next = Inr ()"
  proof -
    have "away_places 36 1 = 1" "bank_places 18 100 = 100" by code_simp+
    then show ?thesis
      by (simp add: std.ValidateState_iff demo_defs CalculateIndexBeforeMutation_def std.CalculateCurrentIndex_eq)
  qed
  have inv: "pg_inv demo_rows" by (simp add: pg_inv_def demo_rows_def demo_state_def)
  have get: "ScanState (ci_PortfolioID ?inp) demo_rows = Inr demo_state"
    by (simp add: ScanState_def demo_rows_def demo_input_def)
  have "\<exists>rows' snaps. Checkpoint std_declib (Some (PostgresStateReader std_declib)) True 9
      ?inp demo_rows = Inr (rows', snaps)"
    using valid get
    by (simp add: Checkpoint_def Let_def PostgresStateReader_def pg_Update_def demo_rows_def
        demo_input_def demo_state_def)
  then obtain rows' snaps where "Checkpoint std_declib (Some (PostgresStateReader std_declib)) True 9
      ?inp demo_rows = Inr (rows', snaps)" by blast
  from Checkpoint_zero_time_stored [OF this inv get] show ?thesis
    by (auto simp: demo_input_def time_IsZero_def)
qed

end
