(* ===== verification/PortfolioModel.thy ===== *)
theory PortfolioModel
  imports PerformanceLaws
begin

text \<open>
  \<^verbatim>\<open>internal/portfolio\<close>: the data of the ledger (\<^verbatim>\<open>model.go\<close>, \<^verbatim>\<open>activities_model.go\<close>,
  \<^verbatim>\<open>store.go\<close>, the request types of \<^verbatim>\<open>coordinator.go\<close>), its errors, and the small helpers
  every plan is written with. A Go string type with named constants is a datatype of those constants
  (plus a constructor for any other text where the code can meet one); pointers to values are
  options; the numbers are those of the money package. Record fields carry a prefix that names
  their struct.
\<close>

section \<open>Errors\<close>

text \<open>
  The sentinels of \<^verbatim>\<open>errors.go\<close> and \<^verbatim>\<open>activities_errors.go\<close>, the errors of the packages
  below, and the ways a call can end without one: \<open>Panic\<close> is a run-time panic (a non-finite float
  handed to the decimal library, a nil valuation), \<open>Fault\<close> an error injected into the in-memory
  store, \<open>ContextDone\<close> a cancelled context. \<open>errRebuildValuation\<close> carries the list of missing
  symbols, which the code hands over in a captured variable.
\<close>

datatype err =
    ErrSymbolRequired | ErrInvalidAssetType | ErrInvalidQuantity | ErrInvalidWeights
  | ErrUnsupportedSymbol | ErrUnsupportedCurrency | ErrInvalidCashAmount | ErrInsufficientCash
  | ErrCashBalanceNotFound | ErrInvalidSaleQuantity | ErrInvalidSalePrice | ErrInvalidSaleFee
  | ErrDuplicateActivity | ErrActivityNotFound | ErrActivityAlreadyCorrected
  | ErrCorrectionNotSupported | ErrNothingToCorrect | ErrCorrectionSupersededByLaterActivity
  | ErrCorrectionRankedConflict | ErrPositionNotFound | ErrPositionClosed | ErrPositionIsPriceable
  | ErrPortfolioNotFound | ErrPriceProvider | ErrMutationConflict | ErrIdempotencyConflict
  | ErrRankedInvariant | ErrInvalidBuyPrice | ErrInvalidBuyFee | ErrImplausibleExecutionPrice
  | ErrInstrumentIdentityUnresolvedConflict | ErrUnsupportedMutation
  | ErrInsufficientCashForFee | ErrInvalidIncomeAmount | ErrUnsupportedIncomeType
  | ErrUnsupportedFeeType | ErrInvalidFeeAmount | ErrInvalidCorporateAction | ErrInvalidSplitRatio
  | ErrInvalidReinvestment | ErrInstrumentNotFound | ErrSymbolChangeConflict
  | ErrUnsupportedIncomeComponent | ErrEmptyIncomeEvent
  | ErrOutboxEventNotDeadLettered
  | errRebuildValuation "string list"
  | PerfErr perr
  | MoneyErr money_err
  | ErrFingerprint
  | ContextDone
  | Fault string
  | Panic

fun lift_perf :: "perr + 'a \<Rightarrow> err + 'a" where
  "lift_perf (Inl e) = Inl (PerfErr e)"
| "lift_perf (Inr x) = Inr x"

fun lift_money :: "money_err + 'a \<Rightarrow> err + 'a" where
  "lift_money (Inl e) = Inl (MoneyErr e)"
| "lift_money (Inr x) = Inr x"

text \<open>\<open>recode e r\<close>: \<^verbatim>\<open>v, err := f(); if err != nil { return ..., e }\<close>.\<close>

fun recode :: "'e \<Rightarrow> 'f + 'a \<Rightarrow> 'e + 'a" where
  "recode e (Inl _) = Inl e"
| "recode e (Inr x) = Inr x"

lemma lift_Inr_iff [simp]:
  "(lift_perf r = Inr x) = (r = Inr x)" "(lift_money m = Inr x) = (m = Inr x)"
  "(recode e q = Inr x) = (q = Inr x)"
proof -
  show "(lift_perf r = Inr x) = (r = Inr x)" by (cases r) auto
  show "(lift_money m = Inr x) = (m = Inr x)" by (cases m) auto
  show "(recode e q = Inr x) = (q = Inr x)" by (cases q) auto
qed

section \<open>Activities\<close>

datatype ActivityType =
    ActivityDeposit | ActivityWithdrawal | ActivityBuy | ActivitySell | ActivityOpeningBalance
  | ActivityCashDividend | ActivityETFDistribution | ActivityInterestIncome
  | ActivityReinvestedDividend | ActivityCapitalGainsDistribution | ActivityBondCoupon
  | ActivityCashInterest | ActivityStakingReward | ActivityOtherIncome
  | ActivityReturnOfCapital | ActivityStockDividend
  | ActivityBuyFee | ActivitySellFee | ActivityManagementFee | ActivityCustodyFee | ActivityOtherFee
  | ActivityStockSplit | ActivityReverseSplit | ActivitySymbolChange | ActivityWriteOff

text \<open>\<open>EffectUnset\<close> and \<open>ProvenanceUnset\<close> are the empty strings of the zero values.\<close>

datatype PerformanceEffect = EffectUnset | EffectNeutral | EffectReturn

datatype Provenance =
    ProvenanceUnset | ProvenanceUserReported | ProvenanceProviderReported
  | ProvenanceSystemGenerated | ProvenanceMigrationGenerated | ProvenanceOther string

datatype IncomeSubtype =
    IncomeCashDividend | IncomeSpecialDividend | IncomeETFDistribution | IncomeMutualFundDist
  | IncomeCapitalGainsDist | IncomeBondCoupon | IncomeFixedIncomeInt | IncomeInterest
  | IncomeCashInterest | IncomeStakingReward | IncomePaymentInLieu | IncomeOtherProvider
  | IncomeReinvestedDiv | IncomeReturnOfCapitalSub | IncomeStockDividendSub
  | IncomeSubtypeOther string

datatype FeeSubtype = FeeManagement | FeeCustody | FeeOther | FeeSubtypeOther string

datatype CorpActionSubtype =
  CorpStockSplit | CorpReverseSplit | CorpSymbolChange | CorpWriteOff | CorpSubtypeOther string

text \<open>
  The values of an activity's metadata map (\<^verbatim>\<open>map[string]any\<close>). The text of an instant is kept as
  the layout and the instant, the text of a named constant as the constant; \<open>MNil\<close> is a nil value.
\<close>

datatype time_text = RFC3339 time | RFC3339Nano time

datatype meta =
    MStr string | MBool bool | MInt nat | MFloat float64 | MTime time_text | MDecimal dec
  | MEffect PerformanceEffect | MProvenance Provenance
  | MIncome IncomeSubtype | MFee FeeSubtype | MCorp CorpActionSubtype
  | MNil

type_synonym metadata = "string \<rightharpoonup> meta"

record Activity =
  act_ID :: string
  act_RequestID :: string
  act_PortfolioID :: string
  act_UserID :: string
  act_Type :: ActivityType
  act_Symbol :: string
  act_InstrumentID :: string
  act_AssetType :: string
  act_Currency :: string
  act_Quantity :: "Quantity option"
  act_UnitPrice :: "Price option"
  act_GrossAmount :: Amount
  act_CostBasisAllocated :: "Amount option"
  act_RealizedGainLossBase :: "Amount option"
  act_RealizedGainLossPercentage :: "float64 option"
  act_OccurredAt :: time
  act_PortfolioVersion :: int
  act_Metadata :: metadata
  act_CreatedAt :: time
  act_Origin :: string
  act_Status :: string
  act_GroupID :: string
  act_PositionEpisodeID :: string
  act_FeeAmount :: Amount
  act_NetAmount :: Amount

text \<open>A composite literal leaves the fields it does not name at their zero values.\<close>

definition zero_Activity :: Activity where
  "zero_Activity =
     \<lparr>act_ID = [], act_RequestID = [], act_PortfolioID = [], act_UserID = [],
      act_Type = ActivityDeposit, act_Symbol = [], act_InstrumentID = [], act_AssetType = [],
      act_Currency = [], act_Quantity = None, act_UnitPrice = None, act_GrossAmount = 0,
      act_CostBasisAllocated = None, act_RealizedGainLossBase = None,
      act_RealizedGainLossPercentage = None, act_OccurredAt = 0, act_PortfolioVersion = 0,
      act_Metadata = Map.empty, act_CreatedAt = 0, act_Origin = [], act_Status = [],
      act_GroupID = [], act_PositionEpisodeID = [], act_FeeAmount = 0, act_NetAmount = 0\<rparr>"

section \<open>Portfolios, positions, cash\<close>

abbreviation AssetTypeCash :: string where "AssetTypeCash \<equiv> ''cash''"
abbreviation PositionStatusOpen :: string where "PositionStatusOpen \<equiv> ''open''"
abbreviation PositionStatusClosed :: string where "PositionStatusClosed \<equiv> ''closed''"
abbreviation BaseCurrency :: string where "BaseCurrency \<equiv> ''USD''"

definition validAssetTypes :: "string \<Rightarrow> bool" where
  "validAssetTypes t = (t \<in> set [''stock'', ''etf'', ''crypto''])"

record CashBalance =
  cb_PortfolioID :: string
  cb_Currency :: string
  cb_Amount :: Amount
  cb_CreatedAt :: time
  cb_UpdatedAt :: time

record Portfolio =
  pf_ID :: string
  pf_UserID :: string
  pf_Name :: string
  pf_Currency :: string
  pf_Version :: int
  pf_AutoFundPurchases :: bool
  pf_CreatedAt :: time
  pf_UpdatedAt :: time

record Position =
  pos_ID :: string
  pos_UserID :: string
  pos_PortfolioID :: string
  pos_Symbol :: string
  pos_InstrumentID :: string
  pos_AssetType :: string
  pos_Quantity :: Quantity
  pos_AverageBuyPrice :: Price
  pos_Currency :: string
  pos_Status :: string
  pos_ClosedAt :: "time option"
  pos_ClosePrice :: "float64 option"
  pos_CloseCurrency :: string
  pos_RealizedGainLossBase :: float64
  pos_RealizedGainLossPercentage :: float64
  pos_CreatedAt :: time
  pos_UpdatedAt :: time

definition zero_Position :: Position where
  "zero_Position =
     \<lparr>pos_ID = [], pos_UserID = [], pos_PortfolioID = [], pos_Symbol = [], pos_InstrumentID = [],
      pos_AssetType = [], pos_Quantity = 0, pos_AverageBuyPrice = 0, pos_Currency = [],
      pos_Status = [], pos_ClosedAt = None, pos_ClosePrice = None, pos_CloseCurrency = [],
      pos_RealizedGainLossBase = Fin 0, pos_RealizedGainLossPercentage = Fin 0,
      pos_CreatedAt = 0, pos_UpdatedAt = 0\<rparr>"

definition zero_CashBalance :: CashBalance where
  "zero_CashBalance =
     \<lparr>cb_PortfolioID = [], cb_Currency = [], cb_Amount = 0, cb_CreatedAt = 0, cb_UpdatedAt = 0\<rparr>"

record ClosedPositionSummary =
  cps_ID :: string
  cps_Symbol :: string
  cps_AssetType :: string
  cps_Quantity :: Quantity
  cps_BaselinePrice :: Price
  cps_BaselineCurrency :: string
  cps_ClosePrice :: Price
  cps_ClosePriceCurrency :: string
  cps_ClosedAt :: time_text
  cps_RealizedGainLossBase :: Amount
  cps_RealizedGainLossPercentage :: float64
  cps_ClosedCostBasisBase :: Amount
  cps_BaseCurrency :: string

section \<open>Requests\<close>

record PositionInput =
  pi_Symbol :: string
  pi_AssetType :: string
  pi_Quantity :: Quantity

record CashFlowInput =
  cf_Currency :: string
  cf_Amount :: Amount
  cf_OccurredAt :: "time option"
  cf_CorrectionOf :: string
  cf_CorrectionReason :: string

record TradeCorrectionInput =
  tc_Original :: Activity
  tc_CorrectedQuantity :: Quantity
  tc_CorrectedExecutionPrice :: Price
  tc_CorrectedFee :: Amount
  tc_Reason :: string

record BuyInput =
  buy_Symbol :: string
  buy_InstrumentID :: string
  buy_ExchangeCode :: string
  buy_MIC :: string
  buy_IdentityQuality :: string
  buy_AssetType :: string
  buy_Quantity :: Quantity
  buy_ExecutionPrice :: Price
  buy_Fee :: Amount

record SellInput =
  sell_PositionID :: string
  sell_Symbol :: string
  sell_Quantity :: Quantity
  sell_ExecutionPrice :: Price
  sell_Fee :: Amount

record StrategyWeightInput =
  sw_Symbol :: string
  sw_AssetType :: string
  sw_WeightPercentage :: float64

record IncomeInput =
  in_Subtype :: IncomeSubtype
  in_Symbol :: string
  in_AssetType :: string
  in_Currency :: string
  in_Amount :: Amount
  in_Withholding :: Amount
  in_Fee :: Amount
  in_Estimated :: bool
  in_ReinvestPrice :: Price
  in_PriceMethod :: string
  in_StockRatioNum :: Ratio
  in_StockRatioDen :: Ratio
  in_IncomeEventID :: string
  in_TaxClassification :: string
  in_OccurredAt :: "time option"
  in_Provenance :: Provenance

record IncomeComponentInput =
  ic_Subtype :: IncomeSubtype
  ic_Symbol :: string
  ic_AssetType :: string
  ic_Currency :: string
  ic_Amount :: Amount
  ic_Withholding :: Amount
  ic_Fee :: Amount
  ic_Estimated :: bool
  ic_Reinvest :: bool
  ic_ReinvestPrice :: Price
  ic_PriceMethod :: string
  ic_StockRatioNum :: Ratio
  ic_StockRatioDen :: Ratio
  ic_TaxClassification :: string
  ic_OccurredAt :: "time option"
  ic_Provenance :: Provenance

record IncomeEventInput =
  ev_IncomeEventID :: string
  ev_Symbol :: string
  ev_InstrumentID :: string
  ev_AssetType :: string
  ev_Currency :: string
  ev_PaymentDate :: time
  ev_Reinvest :: bool
  ev_Components :: "IncomeComponentInput list"

record FeeInput =
  fee_Subtype :: FeeSubtype
  fee_Currency :: string
  fee_Amount :: Amount
  fee_Symbol :: string
  fee_LinkedActivityID :: string
  fee_Description :: string
  fee_OccurredAt :: "time option"
  fee_Provenance :: Provenance

record CorpActionInput =
  ca_Subtype :: CorpActionSubtype
  ca_Symbol :: string
  ca_RatioNumerator :: float64
  ca_RatioDenominator :: float64
  ca_NewSymbol :: string
  ca_OccurredAt :: "time option"
  ca_Provenance :: Provenance

datatype MutationKind =
    MutationAdd | MutationResize | MutationDelete | MutationClose | MutationReplace
  | MutationDeposit | MutationWithdrawal | MutationBuy | MutationSell
  | MutationCorrectBuy | MutationCorrectSell
  | MutationIncome | MutationReinvestedDividend | MutationReturnOfCapital | MutationFee
  | MutationWriteOff | MutationIncomeEvent
  | MutationSplit | MutationSymbolChange | MutationStockDividend
  | MutationKindOther string

record MutationRequest =
  mr_Kind :: MutationKind
  mr_UserID :: string
  mr_RequestID :: string
  mr_Input :: PositionInput
  mr_PositionID :: string
  mr_Quantity :: Quantity
  mr_Weights :: "StrategyWeightInput list"
  mr_CashFlow :: CashFlowInput
  mr_Buy :: BuyInput
  mr_Sell :: SellInput
  mr_Correction :: TradeCorrectionInput
  mr_Income :: IncomeInput
  mr_Fee :: FeeInput
  mr_CorpAction :: CorpActionInput
  mr_IncomeEvent :: IncomeEventInput

record MutationResult =
  res_Position :: "Position option"
  res_Closed :: "ClosedPositionSummary option"
  res_PortfolioVersion :: int
  res_RankedIndexBefore :: IndexValue
  res_RankedIndexAfter :: IndexValue
  res_RankingStatus :: Status
  res_Activity :: "Activity option"
  res_Duplicate :: bool

section \<open>Audit and outbox records\<close>

record OutboxEvent =
  ob_ID :: string
  ob_EventType :: string
  ob_AggregateType :: string
  ob_AggregateID :: string
  ob_AggregateVersion :: int
  ob_UserID :: string
  ob_RankedIndex :: IndexValue
  ob_RankingStatus :: Status
  ob_TrackingStartedAt :: time
  ob_ValuationAsOf :: time
  ob_DataQualityStatus :: string
  ob_CreatedAt :: time
  ob_ProcessedAt :: "time option"
  ob_AttemptCount :: int
  ob_LastError :: string
  ob_DeadLetteredAt :: "time option"
  ob_InstrumentID :: string
  ob_DisplaySymbolAtEventTime :: string
  ob_ProviderReferenceAtEventTime :: string

record MutationAudit =
  au_ID :: string
  au_RequestID :: string
  au_PortfolioID :: string
  au_UserID :: string
  au_MutationType :: MutationKind
  au_RequestFingerprint :: string
  au_PortfolioVersionBefore :: int
  au_PortfolioVersionAfter :: int
  au_PerformanceVersionBefore :: int
  au_PerformanceVersionAfter :: int
  au_RankedIndexBefore :: IndexValue
  au_RankedIndexAfter :: IndexValue
  au_OccurredAt :: time
  au_ResultPositionID :: string

section \<open>Small helpers\<close>

definition positionStatus :: "Position \<Rightarrow> string" where
  "positionStatus p = (if pos_Status p = [] then PositionStatusOpen else pos_Status p)"

definition is_open :: "Position \<Rightarrow> bool" where
  "is_open p = (positionStatus p = PositionStatusOpen)"

definition firstNonEmpty :: "string list \<Rightarrow> string" where
  "firstNonEmpty values = (case filter (\<lambda>v. TrimSpace v \<noteq> []) values of [] \<Rightarrow> [] | v # _ \<Rightarrow> v)"

definition openPositions :: "Position list \<Rightarrow> Position list" where
  "openPositions positions = filter is_open positions"

definition replaceInSet :: "Position list \<Rightarrow> string \<Rightarrow> Position \<Rightarrow> Position list" where
  "replaceInSet positions pid updated = map (\<lambda>p. if pos_ID p = pid then updated else p) positions"

definition removeFromSet :: "Position list \<Rightarrow> string \<Rightarrow> Position list" where
  "removeFromSet positions pid = filter (\<lambda>p. pos_ID p \<noteq> pid) positions"

definition replaceOrAppendPosition :: "Position list \<Rightarrow> Position \<Rightarrow> Position list" where
  "replaceOrAppendPosition positions next =
     (if list_ex (\<lambda>p. pos_ID p = pos_ID next) positions
      then replaceInSet positions (pos_ID next) next
      else positions @ [next])"

text \<open>\<open>openSymbols\<close>: the distinct symbols of the open positions, in the order of first occurrence.\<close>

fun openSymbols_from :: "string list \<Rightarrow> Position list \<Rightarrow> string list" where
  "openSymbols_from seen [] = []"
| "openSymbols_from seen (p # ps) =
     (if \<not> is_open p \<or> pos_Symbol p \<in> set seen then openSymbols_from seen ps
      else pos_Symbol p # openSymbols_from (pos_Symbol p # seen) ps)"

definition openSymbols :: "Position list \<Rightarrow> string list" where
  "openSymbols positions = openSymbols_from [] positions"

definition findOpenBySymbol :: "Position list \<Rightarrow> string \<Rightarrow> Position option" where
  "findOpenBySymbol ps symbol = find (\<lambda>p. pos_Symbol p = symbol) ps"

definition findPositionByID :: "Position list \<Rightarrow> string \<Rightarrow> err + Position" where
  "findPositionByID ps pid = from_option ErrPositionNotFound (find (\<lambda>p. pos_ID p = pid) ps)"

fun requireOpen :: "Position list \<Rightarrow> string \<Rightarrow> err + Position" where
  "requireOpen [] positionID = Inl ErrPositionNotFound"
| "requireOpen (p # ps) positionID =
     (if pos_ID p \<noteq> positionID then requireOpen ps positionID
      else if \<not> is_open p then Inl ErrPositionClosed
      else Inr p)"

definition cashBalance :: "CashBalance list \<Rightarrow> string \<Rightarrow> CashBalance \<times> bool" where
  "cashBalance balances currency =
     (case find (\<lambda>b. cb_Currency b = currency) balances of
        Some b \<Rightarrow> (b, True)
      | None \<Rightarrow> (zero_CashBalance, False))"

definition cashAmount :: "CashBalance list \<Rightarrow> string \<Rightarrow> Amount \<times> bool" where
  "cashAmount balances currency =
     (let (balance, ok) = cashBalance balances currency in (cb_Amount balance, ok))"

fun replaceCash :: "CashBalance list \<Rightarrow> CashBalance \<Rightarrow> CashBalance list" where
  "replaceCash [] next = [next]"
| "replaceCash (b # bs) next =
     (if cb_Currency b = cb_Currency next then next # bs else b # replaceCash bs next)"

definition supportedCurrency :: "string \<Rightarrow> bool" where
  "supportedCurrency currency = (currency \<in> set [''USD'', ''TRY'', ''EUR'', ''GBP''])"

definition occurredAt :: "time option \<Rightarrow> time \<Rightarrow> time" where
  "occurredAt supplied fallback = (case supplied of Some t \<Rightarrow> t | None \<Rightarrow> fallback)"

definition nonEmpty :: "string \<Rightarrow> meta" where
  "nonEmpty s = (if TrimSpace s = [] then MNil else MStr s)"

definition nonEmptyAmount :: "declib \<Rightarrow> Amount \<Rightarrow> meta" where
  "nonEmptyAmount L v = (if Decimal_IsZero L v then MNil else MStr (canonical L v))"

definition nonEmptyBool :: "bool \<Rightarrow> meta" where
  "nonEmptyBool v = (if \<not> v then MNil else MBool v)"

definition incomeSymbolOptional :: "IncomeSubtype \<Rightarrow> bool" where
  "incomeSymbolOptional sub = (sub \<in> set [IncomeInterest, IncomeCashInterest, IncomeOtherProvider])"

definition incomeActivityType :: "IncomeSubtype \<Rightarrow> ActivityType" where
  "incomeActivityType sub =
     (case sub of
        IncomeETFDistribution \<Rightarrow> ActivityETFDistribution
      | IncomeMutualFundDist \<Rightarrow> ActivityETFDistribution
      | IncomeCapitalGainsDist \<Rightarrow> ActivityCapitalGainsDistribution
      | IncomeBondCoupon \<Rightarrow> ActivityBondCoupon
      | IncomeFixedIncomeInt \<Rightarrow> ActivityBondCoupon
      | IncomeCashInterest \<Rightarrow> ActivityCashInterest
      | IncomeInterest \<Rightarrow> ActivityInterestIncome
      | IncomeStakingReward \<Rightarrow> ActivityStakingReward
      | IncomeOtherProvider \<Rightarrow> ActivityOtherIncome
      | IncomePaymentInLieu \<Rightarrow> ActivityOtherIncome
      | _ \<Rightarrow> ActivityCashDividend)"

definition feeActivityType :: "FeeSubtype \<Rightarrow> ActivityType" where
  "feeActivityType sub =
     (case sub of FeeCustody \<Rightarrow> ActivityCustodyFee | FeeOther \<Rightarrow> ActivityOtherFee
      | _ \<Rightarrow> ActivityManagementFee)"

definition splitActivityType :: "CorpActionSubtype \<Rightarrow> ActivityType" where
  "splitActivityType sub = (if sub = CorpReverseSplit then ActivityReverseSplit else ActivityStockSplit)"

definition activityMeta :: "metadata \<Rightarrow> PerformanceEffect \<Rightarrow> Provenance \<Rightarrow> metadata \<Rightarrow> metadata" where
  "activityMeta base effect prov extra =
     (let out = base(''performance_effect'' \<mapsto> MEffect effect,
                     ''provenance'' \<mapsto> MProvenance
                        (if prov = ProvenanceUnset then ProvenanceUserReported else prov))
      in (\<lambda>k. case extra k of None \<Rightarrow> out k | Some v \<Rightarrow> if v = MNil then out k else Some v))"

definition mutationEffect :: "MutationKind \<Rightarrow> PerformanceEffect" where
  "mutationEffect kind =
     (if kind \<in> set [MutationIncome, MutationFee, MutationWriteOff, MutationReinvestedDividend,
                     MutationReturnOfCapital, MutationIncomeEvent]
      then EffectReturn else EffectNeutral)"

definition IncomeInput_NetCash :: "declib \<Rightarrow> IncomeInput \<Rightarrow> Amount" where
  "IncomeInput_NetCash L i = Amount_Sub L (Amount_Sub L (in_Amount i) (in_Withholding i)) (in_Fee i)"

definition IncomeComponentInput_NetCash :: "declib \<Rightarrow> IncomeComponentInput \<Rightarrow> Amount" where
  "IncomeComponentInput_NetCash L c =
     Amount_Sub L (Amount_Sub L (ic_Amount c) (ic_Withholding c)) (ic_Fee c)"

definition activityOrigin :: "Activity \<Rightarrow> string" where
  "activityOrigin activity =
     (let legacy = (act_Metadata activity ''legacy_import'' = Some (MBool True)) in
      case act_Metadata activity ''provenance'' of
        Some (MProvenance ProvenanceProviderReported) \<Rightarrow> ''provider_generated''
      | Some (MProvenance ProvenanceSystemGenerated) \<Rightarrow> ''system_generated''
      | Some (MProvenance ProvenanceMigrationGenerated) \<Rightarrow> ''migration_generated''
      | _ \<Rightarrow>
          if legacy \<or> act_Type activity = ActivityOpeningBalance then ''migration_generated''
          else if act_Type activity \<in> set [ActivityCashDividend, ActivityETFDistribution,
                 ActivityInterestIncome, ActivityReinvestedDividend, ActivityStockSplit,
                 ActivityReverseSplit, ActivitySymbolChange, ActivityStockDividend]
          then ''system_generated'' else ''user_recorded'')"

definition meta_string :: "metadata \<Rightarrow> string \<Rightarrow> string" where
  "meta_string m k = (case m k of Some (MStr s) \<Rightarrow> s | _ \<Rightarrow> [])"

definition prepareActivity :: "declib \<Rightarrow> Activity \<Rightarrow> Activity" where
  "prepareActivity L a =
     (let origin = (if act_Origin a = [] then activityOrigin a else act_Origin a);
          status = (if act_Status a = [] then ''completed'' else act_Status a);
          gid = (if act_GroupID a = [] then meta_string (act_Metadata a) ''activity_group_id''
                 else act_GroupID a);
          episode = (if act_PositionEpisodeID a = []
                     then meta_string (act_Metadata a) ''position_episode_id''
                     else act_PositionEpisodeID a);
          m = (act_Metadata a)(''origin'' \<mapsto> MStr origin, ''status'' \<mapsto> MStr status);
          m = (if gid \<noteq> [] then m(''activity_group_id'' \<mapsto> MStr gid) else m);
          m = (if episode \<noteq> [] then m(''position_episode_id'' \<mapsto> MStr episode) else m);
          m = (if 0 < Decimal_Sign L (act_FeeAmount a)
               then m(''fee_amount'' \<mapsto> MStr (canonical L (act_FeeAmount a))) else m);
          m = (if \<not> Decimal_IsZero L (act_NetAmount a)
               then m(''net_amount'' \<mapsto> MStr (canonical L (act_NetAmount a))) else m)
      in a\<lparr>act_Origin := origin, act_Status := status, act_GroupID := gid,
           act_PositionEpisodeID := episode, act_Metadata := m\<rparr>)"

section \<open>Symbols\<close>

definition normalizeSymbol :: "string \<Rightarrow> string" where
  "normalizeSymbol symbol = ToUpper (TrimSpace symbol)"

definition safe_symbol_char :: "char \<Rightarrow> bool" where
  "safe_symbol_char c =
     (let n = (of_char c :: nat)
      in (65 \<le> n \<and> n \<le> 90) \<or> is_digit c \<or> c = CHR ''.'' \<or> c = CHR ''-'')"

definition maxSymbolLength :: nat where
  "maxSymbolLength = 20"

text \<open>\<open>None\<close> is \<open>ErrInvalidSymbolFormat\<close>; every caller replaces it by an error of its own.\<close>

definition ValidateAndNormalizeSymbol :: "string \<Rightarrow> string option" where
  "ValidateAndNormalizeSymbol symbol =
     (let s = normalizeSymbol symbol
      in if s = [] \<or> length s > maxSymbolLength \<or> \<not> list_all safe_symbol_char s then None else Some s)"

definition validateAndNormalize :: "declib \<Rightarrow> PositionInput \<Rightarrow> err + PositionInput" where
  "validateAndNormalize L i =
     (if TrimSpace (pi_Symbol i) = [] then Inl ErrSymbolRequired
      else rbind (from_option ErrUnsupportedSymbol (ValidateAndNormalizeSymbol (pi_Symbol i))) (\<lambda>symbol.
        let assetType = ToLower (TrimSpace (pi_AssetType i)) in
        if \<not> validAssetTypes assetType then Inl ErrInvalidAssetType
        else if Decimal_Sign L (pi_Quantity i) \<le> 0 then Inl ErrInvalidQuantity
        else Inr \<lparr>pi_Symbol = symbol, pi_AssetType = assetType, pi_Quantity = pi_Quantity i\<rparr>))"

section \<open>Lemmas\<close>

lemma replaceInSet_ids [simp]:
  "pos_ID q = pid \<Longrightarrow> map pos_ID (replaceInSet ps pid q) = map pos_ID ps"
  by (auto simp: replaceInSet_def)

lemma replaceInSet_absent [simp]: "pid \<notin> pos_ID ` set ps \<Longrightarrow> replaceInSet ps pid q = ps"
  by (induction ps) (auto simp: replaceInSet_def)

lemma removeFromSet_others:
  "p \<in> set (removeFromSet ps pid) \<longleftrightarrow> p \<in> set ps \<and> pos_ID p \<noteq> pid"
  by (auto simp: removeFromSet_def)

lemma removeFromSet_one:
  assumes "distinct (map pos_ID ps)" "p \<in> set ps"
  shows "set (removeFromSet ps (pos_ID p)) = set ps - {p} \<and> Suc (length (removeFromSet ps (pos_ID p))) = length ps"
  using assms
proof (induction ps)
  case (Cons x xs)
  show ?case
  proof (cases "x = p")
    case True
    with Cons.prems(1) have *: "pos_ID p \<notin> pos_ID ` set xs" by simp
    then have "p \<notin> set xs" by blast
    moreover have "removeFromSet xs (pos_ID p) = xs"
      unfolding removeFromSet_def filter_id_conv using * by (metis imageI)
    ultimately have "removeFromSet xs (pos_ID p) = xs" "p \<notin> set xs" by simp_all
    with True show ?thesis by (simp add: removeFromSet_def)
  next
    case False
    with Cons show ?thesis by (auto simp: removeFromSet_def image_iff)
  qed
qed simp

lemma replaceCash_lookup:
  "cashBalance (replaceCash bs b) c = (if c = cb_Currency b then (b, True) else cashBalance bs c)"
  by (induction bs) (auto simp: cashBalance_def)

lemma cashAmount_replaceCash [simp]:
  "cashAmount (replaceCash bs b) c = (if c = cb_Currency b then (cb_Amount b, True) else cashAmount bs c)"
  by (simp add: cashAmount_def replaceCash_lookup)

lemma replaceCash_currencies:
  "map cb_Currency (replaceCash bs b) =
     (if cb_Currency b \<in> set (map cb_Currency bs) then map cb_Currency bs
      else map cb_Currency bs @ [cb_Currency b])"
  by (induction bs) auto

lemma replaceCash_distinct [simp]:
  "distinct (map cb_Currency bs) \<Longrightarrow> distinct (map cb_Currency (replaceCash bs b))"
  by (simp add: replaceCash_currencies)

lemma set_replaceCash: "set (replaceCash bs b) \<subseteq> insert b (set bs)"
  by (induction bs) auto

lemma cashBalance_True: "cashBalance bs c = (b, True) \<Longrightarrow> b \<in> set bs \<and> cb_Currency b = c"
  by (auto simp: cashBalance_def find_Some_iff split: option.splits)

lemma requireOpen_Inr:
  "requireOpen ps pid = Inr p \<Longrightarrow> p \<in> set ps \<and> pos_ID p = pid \<and> is_open p"
  by (induction ps) (auto split: if_splits)

lemma findOpenBySymbol_Some: "findOpenBySymbol ps s = Some p \<Longrightarrow> p \<in> set ps \<and> pos_Symbol p = s"
  by (auto simp: findOpenBySymbol_def find_Some_iff)

lemma openSymbols_from_set:
  "set (openSymbols_from seen ps) = pos_Symbol ` set (filter is_open ps) - set seen"
  by (induction seen ps rule: openSymbols_from.induct) auto

lemma openSymbols_set [simp]: "set (openSymbols ps) = pos_Symbol ` set (openPositions ps)"
  by (simp add: openSymbols_def openSymbols_from_set openPositions_def)

lemma openSymbols_from_distinct: "distinct (openSymbols_from seen ps)"
  by (induction seen ps rule: openSymbols_from.induct) (auto simp: openSymbols_from_set)

lemma openPositions_idem [simp]: "openPositions (openPositions ps) = openPositions ps"
  by (simp add: openPositions_def)

end
