(* ===== verification/Valuation.thy ===== *)
theory Valuation
  imports PortfolioModel
begin

text \<open>
  \<^verbatim>\<open>valuation.go\<close> and the read side of \<^verbatim>\<open>ranked.go\<close>: the market observation pinned for one
  mutation (one price per symbol, one rate per currency) and the two valuations computed from it.
  The price and FX providers are third-party services behind interfaces: a price provider is a
  function from a symbol to a quote, or nothing when it fails or returns nil; an FX provider a
  function from a currency to its rate into the base currency, or nothing.
\<close>

section \<open>The observation\<close>

record quoteObservation =
  qo_Price :: Price
  qo_Currency :: string

record Valuation =
  val_quotes :: "string \<rightharpoonup> quoteObservation"
  val_rates :: "string \<rightharpoonup> FXRate"
  val_ObservedAt :: time
  val_ValuationAsOf :: time
  val_DataQualityStatus :: string

record MarketQuote =
  mq_Price :: float64
  mq_Currency :: string
  mq_Timestamp :: time
  mq_FetchedAt :: time
  mq_IsStale :: bool

type_synonym price_provider = "string \<Rightarrow> MarketQuote option"
type_synonym fx_provider = "string \<Rightarrow> float64 option"

definition newValuation :: "time \<Rightarrow> Valuation" where
  "newValuation t =
     \<lparr>val_quotes = Map.empty, val_rates = Map.empty, val_ObservedAt = t, val_ValuationAsOf = t,
      val_DataQualityStatus = ''complete''\<rparr>"

definition Missing :: "Valuation \<Rightarrow> string list \<Rightarrow> string list" where
  "Missing v symbols = filter (\<lambda>s. val_quotes v s = None) symbols"

definition Quote :: "Valuation \<Rightarrow> string \<Rightarrow> quoteObservation option" where
  "Quote v symbol = val_quotes v symbol"

text \<open>A rate looked up without the presence test: a missing key reads as the zero rate.\<close>

definition rate_of :: "Valuation \<Rightarrow> string \<Rightarrow> FXRate" where
  "rate_of v currency = (case val_rates v currency of Some r \<Rightarrow> r | None \<Rightarrow> 0)"

definition pinCostBasisFallback :: "Valuation \<Rightarrow> string \<Rightarrow> Price \<Rightarrow> string \<Rightarrow> Valuation" where
  "pinCostBasisFallback v symbol costBasisPrice currency =
     v\<lparr>val_quotes := (val_quotes v)(symbol \<mapsto> \<lparr>qo_Price = costBasisPrice, qo_Currency = currency\<rparr>),
       val_DataQualityStatus := ''stale''\<rparr>"

section \<open>Valuing positions and cash\<close>

text \<open>The two loops, with the accumulators of the code.\<close>

fun ValueOpen_loop :: "declib \<Rightarrow> Valuation \<Rightarrow> Amount \<Rightarrow> bool \<Rightarrow> Position list \<Rightarrow> err + (Amount \<times> bool)" where
  "ValueOpen_loop L v tot hasActive [] = Inr (tot, hasActive)"
| "ValueOpen_loop L v tot hasActive (pos # ps) =
     (if positionStatus pos \<noteq> PositionStatusOpen then ValueOpen_loop L v tot hasActive ps
      else case val_quotes v (pos_Symbol pos) of
        None \<Rightarrow> Inl ErrPriceProvider
      | Some q \<Rightarrow>
          (case val_rates v (qo_Currency q) of
             None \<Rightarrow> Inl ErrPriceProvider
           | Some rate \<Rightarrow>
               if Decimal_Sign L (pos_Quantity pos) \<le> 0 then Inl ErrInvalidQuantity
               else ValueOpen_loop L v
                      (Amount_Add L tot (Amount_Convert L (MulPrice L (pos_Quantity pos) (qo_Price q)) rate))
                      True ps))"

definition ValueOpen :: "declib \<Rightarrow> Valuation \<Rightarrow> Position list \<Rightarrow> err + (Amount \<times> bool)" where
  "ValueOpen L v positions =
     rbind (ValueOpen_loop L v (ZeroAmount L) False positions) (\<lambda>(tot, hasActive).
       if Decimal_Sign L tot < 0 then Inl ErrPriceProvider
       else Inr (QuantizeValue L tot, hasActive))"

fun ValueCash_loop :: "declib \<Rightarrow> Valuation \<Rightarrow> Amount \<Rightarrow> bool \<Rightarrow> CashBalance list \<Rightarrow> err + (Amount \<times> bool)" where
  "ValueCash_loop L v tot active [] = Inr (tot, active)"
| "ValueCash_loop L v tot active (b # bs) =
     (if Decimal_Sign L (cb_Amount b) < 0 then Inl ErrInsufficientCash
      else if Decimal_IsZero L (cb_Amount b) then ValueCash_loop L v tot active bs
      else case val_rates v (cb_Currency b) of
        None \<Rightarrow> Inl ErrUnsupportedCurrency
      | Some rate \<Rightarrow>
          ValueCash_loop L v (Amount_Add L tot (Amount_Convert L (cb_Amount b) rate)) True bs)"

definition ValueTracked ::
  "declib \<Rightarrow> Valuation \<Rightarrow> Position list \<Rightarrow> CashBalance list \<Rightarrow> err + (Amount \<times> bool)" where
  "ValueTracked L v positions cash =
     rbind (ValueOpen L v positions) (\<lambda>(tot0, active0).
     rbind (ValueCash_loop L v tot0 active0 cash) (\<lambda>(tot, active).
       if Decimal_Sign L tot < 0 then Inl ErrPriceProvider
       else let tot = QuantizeValue L tot
            in Inr (tot, active \<and> 0 < Decimal_Sign L tot)))"

section \<open>Observing the market\<close>

definition observeCurrency :: "declib \<Rightarrow> fx_provider \<Rightarrow> Valuation \<Rightarrow> string \<Rightarrow> err + Valuation" where
  "observeCurrency L fx v currency =
     (case val_rates v currency of
        Some _ \<Rightarrow> Inr v
      | None \<Rightarrow>
          (case fx currency of
             None \<Rightarrow> Inl ErrUnsupportedCurrency
           | Some rate \<Rightarrow>
               if \<not> finitePositive rate then Inl ErrUnsupportedCurrency
               else rbind (from_option Panic (FXRateFromFloat64 L rate)) (\<lambda>r.
                 Inr (v\<lparr>val_rates := (val_rates v)(currency \<mapsto> QuantizeFX L r)\<rparr>))))"

fun observe_currencies :: "declib \<Rightarrow> fx_provider \<Rightarrow> Valuation \<Rightarrow> string list \<Rightarrow> err + Valuation" where
  "observe_currencies L fx v [] = Inr v"
| "observe_currencies L fx v (c # cs) =
     rbind (observeCurrency L fx v c) (\<lambda>v'. observe_currencies L fx v' cs)"

text \<open>One symbol: the body of the loop of \<open>observe\<close>.\<close>

definition observe_one ::
  "declib \<Rightarrow> price_provider \<Rightarrow> fx_provider \<Rightarrow> Valuation \<Rightarrow> string \<Rightarrow> err + Valuation" where
  "observe_one L provider fx v symbol =
     (case val_quotes v symbol of
        Some _ \<Rightarrow> Inr v
      | None \<Rightarrow>
          (case provider symbol of
             None \<Rightarrow> Inl ErrPriceProvider
           | Some quote \<Rightarrow>
               if \<not> finitePositive (mq_Price quote) then Inl ErrPriceProvider
               else
                 let v = (if mq_IsStale quote then v\<lparr>val_DataQualityStatus := ''stale''\<rparr> else v);
                     asOf = (if time_IsZero (mq_FetchedAt quote) then mq_Timestamp quote
                             else mq_FetchedAt quote);
                     v = (if \<not> time_IsZero asOf \<and> asOf < val_ValuationAsOf v
                          then v\<lparr>val_ValuationAsOf := asOf\<rparr> else v)
                 in rbind (observeCurrency L fx v (mq_Currency quote)) (\<lambda>v.
                    rbind (from_option Panic (PriceFromFloat64 L (mq_Price quote))) (\<lambda>p.
                      Inr (v\<lparr>val_quotes := (val_quotes v)(symbol \<mapsto>
                             \<lparr>qo_Price = QuantizePrice L p, qo_Currency = mq_Currency quote\<rparr>)\<rparr>)))))"

fun observe ::
  "declib \<Rightarrow> price_provider \<Rightarrow> fx_provider \<Rightarrow> Valuation \<Rightarrow> string list \<Rightarrow> err + Valuation" where
  "observe L provider fx v [] = Inr v"
| "observe L provider fx v (s # ss) =
     rbind (observe_one L provider fx v s) (\<lambda>v'. observe L provider fx v' ss)"

section \<open>Plausibility of execution prices\<close>

abbreviation PriceSourceUserRecorded :: string where "PriceSourceUserRecorded \<equiv> ''user_recorded''"
abbreviation PriceSourceProviderEstimate :: string where "PriceSourceProviderEstimate \<equiv> ''provider_estimate''"
abbreviation FeeSourceUserRecorded :: string where "FeeSourceUserRecorded \<equiv> ''user_recorded''"
abbreviation FeeSourceDefaultZero :: string where "FeeSourceDefaultZero \<equiv> ''default_zero''"

text \<open>The constant 0.2 is the nearest double; 5.0 is exact.\<close>

definition executionPriceMinFactor :: float64 where
  "executionPriceMinFactor = fround (2 / 10)"

definition executionPriceMaxFactor :: float64 where
  "executionPriceMaxFactor = Fin 5"

definition validateLiveExecutionPrice :: "string \<Rightarrow> float64 \<Rightarrow> float64 \<Rightarrow> err + unit" where
  "validateLiveExecutionPrice source executionPrice quotePrice =
     (if source \<noteq> PriceSourceUserRecorded then Inr ()
      else if \<not> finitePositive quotePrice then Inr ()
      else let ratio = fdiv executionPrice quotePrice
           in if flt ratio executionPriceMinFactor \<or> flt executionPriceMaxFactor ratio
              then Inl ErrImplausibleExecutionPrice else Inr ())"

definition trackingMetadata :: "Valuation \<Rightarrow> metadata" where
  "trackingMetadata val =
     map_of [(''tracking_only'', MBool True), (''settlement'', MStr ''immediate''),
             (''valuation_as_of'', MTime (RFC3339Nano (val_ValuationAsOf val))),
             (''data_quality_status'', MStr (val_DataQualityStatus val))]"

section \<open>The read-side valuation of the service\<close>

text \<open>
  \<open>valueOpenObserved\<close> prices the open positions of a portfolio outside any mutation, with its own
  caches of quotes and rates. \<open>lookup\<close> is \<open>priceLookupSymbol\<close>, the provider symbol of a holding,
  which the instrument service resolves.
\<close>

record observed_state =
  os_value :: Amount
  os_hasActive :: bool
  os_quality :: string
  os_asOf :: time
  os_quotes :: "string \<rightharpoonup> quoteObservation"
  os_rates :: "string \<rightharpoonup> FXRate"

definition observed_quote ::
  "declib \<Rightarrow> price_provider \<Rightarrow> (string \<Rightarrow> string \<Rightarrow> string) \<Rightarrow> Position \<Rightarrow> observed_state
    \<Rightarrow> err + (quoteObservation \<times> observed_state)" where
  "observed_quote L provider lookup pos s =
     (case os_quotes s (pos_Symbol pos) of
        Some q \<Rightarrow> Inr (q, s)
      | None \<Rightarrow>
          (case provider (lookup (pos_Symbol pos) (pos_InstrumentID pos)) of
             None \<Rightarrow> Inl ErrPriceProvider
           | Some price \<Rightarrow>
               if \<not> finitePositive (mq_Price price) then Inl ErrPriceProvider
               else
                 let s = (if mq_IsStale price then s\<lparr>os_quality := ''stale''\<rparr> else s);
                     observed = (if time_IsZero (mq_FetchedAt price) then mq_Timestamp price
                                 else mq_FetchedAt price);
                     s = (if \<not> time_IsZero observed \<and> observed < os_asOf s
                          then s\<lparr>os_asOf := observed\<rparr> else s)
                 in rbind (from_option Panic (PriceFromFloat64 L (mq_Price price))) (\<lambda>p.
                      let q = \<lparr>qo_Price = QuantizePrice L p, qo_Currency = mq_Currency price\<rparr>
                      in Inr (q, s\<lparr>os_quotes := (os_quotes s)(pos_Symbol pos \<mapsto> q)\<rparr>))))"

definition observed_rate ::
  "declib \<Rightarrow> fx_provider \<Rightarrow> string \<Rightarrow> observed_state \<Rightarrow> err + (FXRate \<times> observed_state)" where
  "observed_rate L fx currency s =
     (case os_rates s currency of
        Some r \<Rightarrow> Inr (r, s)
      | None \<Rightarrow>
          (case fx currency of
             None \<Rightarrow> Inl ErrUnsupportedCurrency
           | Some r \<Rightarrow>
               if \<not> finitePositive r then Inl ErrUnsupportedCurrency
               else rbind (from_option Panic (FXRateFromFloat64 L r)) (\<lambda>r'.
                 let rate = QuantizeFX L r'
                 in Inr (rate, s\<lparr>os_rates := (os_rates s)(currency \<mapsto> rate)\<rparr>))))"

fun valueOpenObserved_loop ::
  "declib \<Rightarrow> price_provider \<Rightarrow> fx_provider \<Rightarrow> (string \<Rightarrow> string \<Rightarrow> string) \<Rightarrow> Position list
    \<Rightarrow> observed_state \<Rightarrow> err + observed_state" where
  "valueOpenObserved_loop L provider fx lookup [] s = Inr s"
| "valueOpenObserved_loop L provider fx lookup (pos # ps) s =
     (if positionStatus pos \<noteq> PositionStatusOpen then valueOpenObserved_loop L provider fx lookup ps s
      else rbind (observed_quote L provider lookup pos (s\<lparr>os_hasActive := True\<rparr>)) (\<lambda>(q, s).
           rbind (observed_rate L fx (qo_Currency q) s) (\<lambda>(rate, s).
             valueOpenObserved_loop L provider fx lookup ps
               (s\<lparr>os_value := Amount_Add L (os_value s)
                   (Amount_Convert L (MulPrice L (pos_Quantity pos) (qo_Price q)) rate)\<rparr>))))"

definition valueOpenObserved ::
  "declib \<Rightarrow> price_provider \<Rightarrow> fx_provider \<Rightarrow> (string \<Rightarrow> string \<Rightarrow> string) \<Rightarrow> time \<Rightarrow> Position list
    \<Rightarrow> err + (Amount \<times> bool \<times> string \<times> time)" where
  "valueOpenObserved L provider fx lookup now positions =
     rbind (valueOpenObserved_loop L provider fx lookup positions
              \<lparr>os_value = ZeroAmount L, os_hasActive = False, os_quality = ''complete'', os_asOf = now,
               os_quotes = Map.empty, os_rates = Map.empty\<rparr>) (\<lambda>s.
       if Decimal_Sign L (os_value s) < 0 then Inl ErrPriceProvider
       else Inr (QuantizeValue L (os_value s), os_hasActive s, os_quality s, os_asOf s))"

fun add_observed_cash ::
  "declib \<Rightarrow> fx_provider \<Rightarrow> Amount \<Rightarrow> bool \<Rightarrow> CashBalance list \<Rightarrow> err + (Amount \<times> bool)" where
  "add_observed_cash L fx value hasActive [] = Inr (value, hasActive)"
| "add_observed_cash L fx value hasActive (b # bs) =
     (if Decimal_Sign L (cb_Amount b) \<le> 0 then add_observed_cash L fx value hasActive bs
      else case fx (cb_Currency b) of
        None \<Rightarrow> Inl ErrUnsupportedCurrency
      | Some rate \<Rightarrow>
          if \<not> finitePositive rate then Inl ErrUnsupportedCurrency
          else rbind (from_option Panic (FXRateFromFloat64 L rate)) (\<lambda>r.
            add_observed_cash L fx (Amount_Add L value (Amount_Convert L (cb_Amount b) (QuantizeFX L r)))
              True bs))"

text \<open>\<open>PortfolioValueObservation\<close> after its three repository reads.\<close>

definition PortfolioValueObservation ::
  "declib \<Rightarrow> price_provider \<Rightarrow> fx_provider \<Rightarrow> (string \<Rightarrow> string \<Rightarrow> string) \<Rightarrow> time
    \<Rightarrow> err + Portfolio \<Rightarrow> err + Position list \<Rightarrow> err + CashBalance list \<Rightarrow> err + ValuationObservation" where
  "PortfolioValueObservation L provider fx lookup now getPortfolio listPositions listCash =
     rbind getPortfolio (\<lambda>pf.
     rbind listPositions (\<lambda>positions.
     rbind listCash (\<lambda>cash.
     rbind (valueOpenObserved L provider fx lookup now positions) (\<lambda>(value, hasActive, quality, asOf).
     rbind (add_observed_cash L fx value hasActive cash) (\<lambda>(value, hasActive).
       Inr \<lparr>vo_PortfolioID = pf_ID pf, vo_ValueBase = QuantizeValue L value, vo_HasActive = hasActive,
            vo_ValuationAsOf = asOf, vo_DataQualityStatus = quality\<rparr>)))))"

definition PortfolioValueBase :: "err + ValuationObservation \<Rightarrow> err + (string \<times> Amount \<times> bool)" where
  "PortfolioValueBase observed =
     rbind observed (\<lambda>ob. Inr (vo_PortfolioID ob, vo_ValueBase ob, vo_HasActive ob))"

end
