(* ===== verification/ValuationLaws.thy ===== *)
theory ValuationLaws
  imports Valuation
begin

text \<open>
  What a pinned observation guarantees: a valuation succeeds exactly when every open position is
  covered and every balance is sound, is a sum the reader can state, is never negative, and depends
  only on the open positions.
\<close>

section \<open>Reference valuation\<close>

definition pos_value :: "Valuation \<Rightarrow> Position \<Rightarrow> Amount" where
  "pos_value v p =
     (case val_quotes v (pos_Symbol p) of
        None \<Rightarrow> 0
      | Some q \<Rightarrow> pos_Quantity p * qo_Price q * rate_of v (qo_Currency q))"

definition cash_value :: "Valuation \<Rightarrow> CashBalance \<Rightarrow> Amount" where
  "cash_value v b = cb_Amount b * rate_of v (cb_Currency b)"

definition covered :: "Valuation \<Rightarrow> Position \<Rightarrow> bool" where
  "covered v p =
     (\<exists>q. val_quotes v (pos_Symbol p) = Some q \<and> val_rates v (qo_Currency q) \<noteq> None \<and> 0 < pos_Quantity p)"

definition cash_sound :: "Valuation \<Rightarrow> CashBalance \<Rightarrow> bool" where
  "cash_sound v b = (0 \<le> cb_Amount b \<and> (cb_Amount b \<noteq> 0 \<longrightarrow> val_rates v (cb_Currency b) \<noteq> None))"

definition open_value :: "Valuation \<Rightarrow> Position list \<Rightarrow> Amount" where
  "open_value v ps = sum_list (map (pos_value v) (openPositions ps))"

definition tracked_value :: "Valuation \<Rightarrow> Position list \<Rightarrow> CashBalance list \<Rightarrow> Amount" where
  "tracked_value v ps cash =
     bank_places 18 (bank_places 18 (open_value v ps) + sum_list (map (cash_value v) cash))"

definition tracked_active :: "Position list \<Rightarrow> CashBalance list \<Rightarrow> bool" where
  "tracked_active ps cash = (openPositions ps \<noteq> [] \<or> (\<exists>b \<in> set cash. cb_Amount b \<noteq> 0))"

lemma open_value_simps [simp]:
  "open_value v [] = 0"
  "open_value v (p # ps) = (if is_open p then pos_value v p else 0) + open_value v ps"
  by (simp_all add: open_value_def openPositions_def)

context decimal_lib
begin

lemma QuantizeValue_eq [simp]: "QuantizeValue L x = bank_places 18 x"
  by (simp add: money_defs scale_defs)

lemma ValueOpen_loop_iff:
  "ValueOpen_loop L v t a ps = Inr r \<longleftrightarrow>
     (\<forall>p \<in> set (openPositions ps). covered v p) \<and> r = (t + open_value v ps, a \<or> openPositions ps \<noteq> [])"
proof (induction ps arbitrary: t a)
  case Nil
  then show ?case by (auto simp: openPositions_def)
next
  case (Cons p ps)
  show ?case
  proof (cases "is_open p")
    case False
    with Cons show ?thesis by (auto simp: openPositions_def is_open_def)
  next
    case True
    with Cons show ?thesis
      by (auto simp: openPositions_def is_open_def covered_def pos_value_def rate_of_def money_defs
          add.assoc split: option.splits)
  qed
qed

lemma ValueOpen_iff:
  "ValueOpen L v ps = Inr r \<longleftrightarrow>
     (\<forall>p \<in> set (openPositions ps). covered v p) \<and> 0 \<le> open_value v ps \<and>
     r = (bank_places 18 (open_value v ps), openPositions ps \<noteq> [])"
  by (auto simp: ValueOpen_def ValueOpen_loop_iff money_defs scale_defs split: if_splits)

lemma ValueCash_loop_iff:
  "ValueCash_loop L v t a bs = Inr r \<longleftrightarrow>
     (\<forall>b \<in> set bs. cash_sound v b) \<and>
     r = (t + sum_list (map (cash_value v) bs), a \<or> (\<exists>b \<in> set bs. cb_Amount b \<noteq> 0))"
proof (induction bs arbitrary: t a)
  case Nil
  then show ?case by auto
next
  case (Cons b bs)
  show ?case
    by (auto simp: Cons cash_sound_def cash_value_def rate_of_def money_defs add.assoc not_less split: option.splits)
qed

theorem ValueTracked_iff:
  "ValueTracked L v ps cash = Inr r \<longleftrightarrow>
     (\<forall>p \<in> set (openPositions ps). covered v p) \<and> (\<forall>b \<in> set cash. cash_sound v b) \<and>
     0 \<le> open_value v ps \<and> 0 \<le> bank_places 18 (open_value v ps) + sum_list (map (cash_value v) cash) \<and>
     r = (tracked_value v ps cash, tracked_active ps cash \<and> 0 < tracked_value v ps cash)"
  by (auto simp: ValueTracked_def ValueOpen_iff ValueCash_loop_iff Let_def tracked_value_def
      tracked_active_def money_defs scale_defs not_less split: if_splits)

end

text \<open>An observation whose pinned prices and rates are not negative.\<close>

definition sound_obs :: "Valuation \<Rightarrow> bool" where
  "sound_obs v = ((\<forall>s q. val_quotes v s = Some q \<longrightarrow> 0 \<le> qo_Price q) \<and>
                  (\<forall>c r. val_rates v c = Some r \<longrightarrow> 0 \<le> r))"

lemma rate_of_nonneg [simp]: "sound_obs v \<Longrightarrow> 0 \<le> rate_of v c"
  by (auto simp: sound_obs_def rate_of_def split: option.splits)

lemma pos_value_nonneg: "sound_obs v \<Longrightarrow> 0 \<le> pos_Quantity p \<Longrightarrow> 0 \<le> pos_value v p"
  by (auto simp: pos_value_def sound_obs_def rate_of_def split: option.splits)

lemma open_value_nonneg:
  "sound_obs v \<Longrightarrow> \<forall>p \<in> set (openPositions ps). 0 \<le> pos_Quantity p \<Longrightarrow> 0 \<le> open_value v ps"
  by (auto simp: open_value_def intro!: sum_list_nonneg pos_value_nonneg)

lemma cash_values_nonneg:
  "sound_obs v \<Longrightarrow> \<forall>b \<in> set cash. 0 \<le> cb_Amount b \<Longrightarrow> 0 \<le> sum_list (map (cash_value v) cash)"
  by (auto simp: cash_value_def intro!: sum_list_nonneg)

lemma newValuation_sound [simp]: "sound_obs (newValuation t)"
  by (simp add: sound_obs_def newValuation_def)

section \<open>Observation\<close>

text \<open>
  The law of the decimal library's float conversion that soundness needs: a positive float converts
  to a number that is not negative.
\<close>

definition float_sign_ok :: "declib \<Rightarrow> bool" where
  "float_sign_ok L = (\<forall>x y. 0 < x \<longrightarrow> d_newFromFloat L (Fin x) = Some y \<longrightarrow> 0 \<le> y)"

lemma std_float_sign_ok [simp]: "float_sign_ok std_declib"
  by (auto simp: float_sign_ok_def std_declib_def)

context decimal_lib
begin

lemma Quantize_eqs [simp]:
  "QuantizePrice L x = bank_places 12 x" "QuantizeFX L x = bank_places 12 x"
  "QuantizeQuantity L x = bank_places 18 x" "QuantizeCostBasis L x = bank_places 18 x"
  by (simp_all add: money_defs scale_defs)

lemma observeCurrency_sound:
  assumes "float_sign_ok L" "sound_obs v" "observeCurrency L fx v c = Inr v'"
  shows "sound_obs v' \<and> val_rates v' c \<noteq> None \<and> val_quotes v' = val_quotes v
    \<and> (\<forall>d. val_rates v d \<noteq> None \<longrightarrow> val_rates v' d = val_rates v d)"
  using assms
  by (auto simp: observeCurrency_def float_sign_ok_def sound_obs_def finitePositive_iff money_defs
      bank_places_nonneg split: option.splits if_splits)

lemma observe_one_sound:
  assumes "float_sign_ok L" "sound_obs v" "observe_one L provider fx v s = Inr v'"
  shows "sound_obs v' \<and> val_quotes v' s \<noteq> None
    \<and> (\<forall>t. val_quotes v t \<noteq> None \<longrightarrow> val_quotes v' t = val_quotes v t)
    \<and> (\<forall>d. val_rates v d \<noteq> None \<longrightarrow> val_rates v' d = val_rates v d)"
proof (cases "val_quotes v s")
  case (Some q)
  with assms show ?thesis by (simp add: observe_one_def)
next
  case None
  with assms(3) obtain quote where q: "provider s = Some quote" "finitePositive (mq_Price quote)"
    by (auto simp: observe_one_def Let_def split: option.splits if_splits)
  define v1 where "v1 = (if mq_IsStale quote then v\<lparr>val_DataQualityStatus := ''stale''\<rparr> else v)"
  define asOf where "asOf = (if time_IsZero (mq_FetchedAt quote) then mq_Timestamp quote else mq_FetchedAt quote)"
  define v2 where "v2 = (if \<not> time_IsZero asOf \<and> asOf < val_ValuationAsOf v1
                         then v1\<lparr>val_ValuationAsOf := asOf\<rparr> else v1)"
  have v2: "val_quotes v2 = val_quotes v" "val_rates v2 = val_rates v"
    by (simp_all add: v1_def v2_def)
  obtain w y where w: "observeCurrency L fx v2 (mq_Currency quote) = Inr w"
    and y: "d_newFromFloat L (mq_Price quote) = Some y"
    and v': "v' = w\<lparr>val_quotes := (val_quotes w)(s \<mapsto> \<lparr>qo_Price = bank_places 12 y, qo_Currency = mq_Currency quote\<rparr>)\<rparr>"
    using assms(3) None q unfolding v2_def v1_def asOf_def
    by (auto simp: observe_one_def Let_def money_defs scale_defs)
  have "sound_obs v2" using assms(2) by (simp add: v2 sound_obs_def)
  note c = observeCurrency_sound [OF assms(1) this w]
  have "0 \<le> bank_places 12 y"
    using q(2) y assms(1) by (auto simp: finitePositive_iff float_sign_ok_def bank_places_nonneg)
  with c None show ?thesis by (auto simp: v' v2 sound_obs_def)
qed

lemma observe_sound:
  "float_sign_ok L \<Longrightarrow> sound_obs v \<Longrightarrow> observe L provider fx v ss = Inr v' \<Longrightarrow>
   sound_obs v' \<and> Missing v' ss = []
    \<and> (\<forall>t. val_quotes v t \<noteq> None \<longrightarrow> val_quotes v' t = val_quotes v t)
    \<and> (\<forall>d. val_rates v d \<noteq> None \<longrightarrow> val_rates v' d = val_rates v d)"
proof (induction ss arbitrary: v)
  case Nil
  then show ?case by (simp add: Missing_def)
next
  case (Cons s ss)
  then obtain w where w: "observe_one L provider fx v s = Inr w" "observe L provider fx w ss = Inr v'"
    by auto
  note one = observe_one_sound [OF Cons.prems(1,2) w(1)]
  note rest = Cons.IH [OF Cons.prems(1) _ w(2)]
  show ?case using one rest by (auto simp: Missing_def filter_empty_conv)
qed

end

section \<open>Properties\<close>

text \<open>
  \<open>ValueTracked\<close> is total portfolio value: it succeeds exactly when every open position has a
  pinned quote, a pinned rate and a positive quantity and every balance is non-negative and
  convertible (zero balances need no rate); the value is the quantised sum of quantity times price
  times rate plus the cash, and the portfolio counts as active only when that value is positive.
\<close>

theorem ValueTracked_exact:
  assumes "decimal_lib L"
  shows "ValueTracked L v ps cash = Inr r \<longleftrightarrow>
     (\<forall>p \<in> set (openPositions ps). covered v p) \<and> (\<forall>b \<in> set cash. cash_sound v b) \<and>
     0 \<le> open_value v ps \<and> 0 \<le> bank_places 18 (open_value v ps) + sum_list (map (cash_value v) cash) \<and>
     r = (tracked_value v ps cash, tracked_active ps cash \<and> 0 < tracked_value v ps cash)"
  by (rule decimal_lib.ValueTracked_iff [OF assms])

definition demo_val :: Valuation where
  "demo_val =
     \<lparr>val_quotes = [''AAPL'' \<mapsto> \<lparr>qo_Price = 110, qo_Currency = ''USD''\<rparr>,
                   ''SAP'' \<mapsto> \<lparr>qo_Price = 50, qo_Currency = ''EUR''\<rparr>],
      val_rates = [''USD'' \<mapsto> 1, ''EUR'' \<mapsto> 11/10],
      val_ObservedAt = 1000, val_ValuationAsOf = 900, val_DataQualityStatus = ''complete''\<rparr>"

definition demo_pos :: Position where
  "demo_pos = zero_Position
     \<lparr>pos_ID := ''p1'', pos_UserID := ''u'', pos_PortfolioID := ''pf'', pos_Symbol := ''AAPL'',
      pos_AssetType := ''stock'', pos_Quantity := 10, pos_AverageBuyPrice := 100,
      pos_Currency := ''USD'', pos_Status := ''open''\<rparr>"

definition demo_cash :: CashBalance where
  "demo_cash = \<lparr>cb_PortfolioID = ''pf'', cb_Currency = ''USD'', cb_Amount = 500, cb_CreatedAt = 1, cb_UpdatedAt = 1\<rparr>"

theorem ValueTracked_exact_witness:
  "ValueTracked std_declib demo_val [demo_pos] [demo_cash] = Inr (1600, True)"
proof -
  have "covered demo_val demo_pos" "cash_sound demo_val demo_cash"
    by (simp_all add: covered_def cash_sound_def demo_val_def demo_pos_def demo_cash_def zero_Position_def)
  moreover have "open_value demo_val [demo_pos] = 1100" "sum_list (map (cash_value demo_val) [demo_cash]) = 500"
    "openPositions [demo_pos] = [demo_pos]" by code_simp+
  ultimately show ?thesis
    by (simp add: ValueTracked_exact [OF std.decimal_lib_axioms] tracked_value_def tracked_active_def)
qed

text \<open>
  \<open>observe\<close> pins: what it already holds it never replaces, so every valuation of one mutation reads
  the same price and rate; when it succeeds every requested symbol is covered and no pinned price or
  rate is negative.
\<close>

theorem observe_pins:
  assumes "decimal_lib L" "float_sign_ok L" "sound_obs v" "observe L provider fx v ss = Inr v'"
  shows "sound_obs v' \<and> Missing v' ss = []
    \<and> (\<forall>t. val_quotes v t \<noteq> None \<longrightarrow> val_quotes v' t = val_quotes v t)
    \<and> (\<forall>d. val_rates v d \<noteq> None \<longrightarrow> val_rates v' d = val_rates v d)"
  using assms(2-4) by (rule decimal_lib.observe_sound [OF assms(1)])

definition demo_provider :: price_provider where
  "demo_provider s =
     (if s = ''AAPL'' then Some \<lparr>mq_Price = Fin 110, mq_Currency = ''USD'', mq_Timestamp = 900,
                               mq_FetchedAt = 950, mq_IsStale = False\<rparr>
      else if s = ''DUST'' then Some \<lparr>mq_Price = Fin (1 / 2 ^ 44), mq_Currency = ''USD'', mq_Timestamp = 0,
                               mq_FetchedAt = 0, mq_IsStale = False\<rparr>
      else None)"

definition demo_fx :: fx_provider where
  "demo_fx c = (if c = ''USD'' then Some (Fin 1) else None)"

theorem observe_pins_witness:
  "\<exists>v'. observe std_declib demo_provider demo_fx (newValuation 1000) [''AAPL'', ''AAPL''] = Inr v'
     \<and> sound_obs v' \<and> Missing v' [''AAPL''] = []"
proof -
  have "is_ok (observe std_declib demo_provider demo_fx (newValuation 1000) [''AAPL'', ''AAPL''])"
    by code_simp
  then obtain v' where v': "observe std_declib demo_provider demo_fx (newValuation 1000) [''AAPL'', ''AAPL''] = Inr v'"
    by (auto simp: is_ok_iff)
  have "sound_obs v'" "Missing v' [''AAPL'', ''AAPL''] = []"
    using observe_pins [OF std.decimal_lib_axioms std_float_sign_ok newValuation_sound v'] by simp_all
  with v' show ?thesis by (auto simp: Missing_def simp del: observe.simps split: if_splits)
qed

text \<open>
  The positivity check on a quote is made before the price is rounded to 12 places: a positive
  price of at most half a unit of the last place passes it and is pinned as zero, so the position is
  valued at zero instead of the mutation being refused.
\<close>

theorem observe_one_pins_zero_price:
  assumes "decimal_lib L" "val_quotes v s = None" "provider s = Some quote"
    and "finitePositive (mq_Price quote)" "d_newFromFloat L (mq_Price quote) = Some y"
    and "0 \<le> y" "y < 1 / (2 * 10 ^ 12)" "val_rates v (mq_Currency quote) = Some r"
  shows "\<exists>v'. observe_one L provider fx v s = Inr v' \<and>
           val_quotes v' s = Some \<lparr>qo_Price = 0, qo_Currency = mq_Currency quote\<rparr>"
proof -
  have "round_half_even (y * 10 ^ 12) = 0"
  proof -
    have "\<lfloor>y * 10 ^ 12\<rfloor> = 0" using assms(6,7) by (intro floor_unique) auto
    moreover have "y * 10 ^ 12 < 1 / 2" using assms(7) by simp
    ultimately show ?thesis by (simp add: round_half_even_def Let_def)
  qed
  then have "bank_places 12 y = 0" by (simp add: bank_places_def)
  with assms(2-5,8) show ?thesis
    by (auto simp: observe_one_def observeCurrency_def Let_def money_defs scale_defs
        decimal_lib.roundBank [OF assms(1)])
qed

theorem observe_one_pins_zero_price_witness:
  "\<exists>v'. observe_one std_declib demo_provider demo_fx demo_val ''DUST'' = Inr v' \<and>
     val_quotes v' ''DUST'' = Some \<lparr>qo_Price = 0, qo_Currency = ''USD''\<rparr>"
proof -
  let ?q = "\<lparr>mq_Price = Fin (1 / 2 ^ 44), mq_Currency = ''USD'', mq_Timestamp = 0, mq_FetchedAt = 0, mq_IsStale = False\<rparr>"
  have "\<exists>v'. observe_one std_declib demo_provider demo_fx demo_val ''DUST'' = Inr v' \<and>
     val_quotes v' ''DUST'' = Some \<lparr>qo_Price = 0, qo_Currency = mq_Currency ?q\<rparr>"
    by (rule observe_one_pins_zero_price [OF std.decimal_lib_axioms, where y = "1 / 2 ^ 44" and r = 1])
      (simp_all add: demo_val_def demo_provider_def finitePositive_def isFinite_def std_declib_def)
  then show ?thesis by simp
qed

end
