(* ===== verification/PlanTrade.thy ===== *)
theory PlanTrade
  imports ValuationLaws
begin

text \<open>
  \<^verbatim>\<open>coordinator.go\<close>, the plans of cash flows, purchases, sales and position edits: each is one
  case of \<open>plan\<close>, computed from the locked state and the pinned observation without I/O. A plan's
  write closure is the list of transaction operations it performs, in order. \<open>uuid n\<close> is the
  \<open>n\<close>-th identifier drawn from the UUID library by the mutation; every call site has its own index.
\<close>

section \<open>Plans\<close>

datatype tx_op =
    PutCash CashBalance
  | CreatePos Position
  | UpdatePos Position
  | DeletePos string
  | ReplaceOpen "Position list"

record mutationPlan =
  mp_newOpen :: "Position list"
  mp_newCash :: "CashBalance list"
  mp_write :: "tx_op list"
  mp_resultPosition :: "Position option"
  mp_resultClosed :: "ClosedPositionSummary option"
  mp_resultPositionID :: string
  mp_activity :: "Activity option"
  mp_extraActivities :: "Activity list"
  mp_valueInvariant :: bool
  mp_performanceEffect :: PerformanceEffect
  mp_returnValueBase :: Amount
  mp_buyCashUsed :: float64
  mp_buyFunding :: float64

definition zero_plan :: mutationPlan where
  "zero_plan =
     \<lparr>mp_newOpen = [], mp_newCash = [], mp_write = [], mp_resultPosition = None,
      mp_resultClosed = None, mp_resultPositionID = [], mp_activity = None, mp_extraActivities = [],
      mp_valueInvariant = False, mp_performanceEffect = EffectUnset, mp_returnValueBase = 0,
      mp_buyCashUsed = Fin 0, mp_buyFunding = Fin 0\<rparr>"

text \<open>
  A balance updated in place: the row of the currency (or a zero row) with a new amount, its
  creation time kept or set to now.
\<close>

definition posted_balance :: "CashBalance list \<Rightarrow> Portfolio \<Rightarrow> string \<Rightarrow> Amount \<Rightarrow> time \<Rightarrow> CashBalance" where
  "posted_balance oldCash pf currency amount now =
     (let balance = fst (cashBalance oldCash currency)
      in balance\<lparr>cb_PortfolioID := pf_ID pf, cb_Currency := currency, cb_Amount := amount,
                 cb_UpdatedAt := now,
                 cb_CreatedAt := (if time_IsZero (cb_CreatedAt balance) then now
                                  else cb_CreatedAt balance)\<rparr>)"

section \<open>Deposits and withdrawals\<close>

definition planCashFlow ::
  "declib \<Rightarrow> (nat \<Rightarrow> string) \<Rightarrow> MutationRequest \<Rightarrow> Portfolio \<Rightarrow> Position list \<Rightarrow> CashBalance list
    \<Rightarrow> Valuation \<Rightarrow> err + mutationPlan" where
  "planCashFlow L uuid req pf oldOpen oldCash val =
     (let flow = mr_CashFlow req;
          currency = cf_Currency flow;
          (current, found) = cashAmount oldCash currency;
          withdrawal = (mr_Kind req = MutationWithdrawal)
      in if withdrawal \<and> (\<not> found \<or> Amount_Cmp L current (cf_Amount flow) < 0) then Inl ErrInsufficientCash
         else
           let nextAmount = (if withdrawal then Amount_Sub L current (cf_Amount flow)
                             else Amount_Add L current (cf_Amount flow));
               now = val_ObservedAt val;
               occurred = occurredAt (cf_OccurredAt flow) now;
               (existing, ok) = cashBalance oldCash currency;
               balance = \<lparr>cb_PortfolioID = pf_ID pf, cb_Currency = currency, cb_Amount = nextAmount,
                          cb_CreatedAt = (if ok then cb_CreatedAt existing else now), cb_UpdatedAt = now\<rparr>;
               metadata = trackingMetadata val;
               metadata = (if cf_CorrectionOf flow = [] then metadata
                           else let m = metadata(''correction_of_activity_id'' \<mapsto> MStr (cf_CorrectionOf flow))
                                in if cf_CorrectionReason flow = [] then m
                                   else m(''correction_reason'' \<mapsto> MStr (cf_CorrectionReason flow)));
               activity = zero_Activity\<lparr>act_ID := uuid 0, act_RequestID := mr_RequestID req,
                 act_PortfolioID := pf_ID pf, act_UserID := mr_UserID req,
                 act_Type := (if withdrawal then ActivityWithdrawal else ActivityDeposit),
                 act_Currency := currency, act_GrossAmount := cf_Amount flow,
                 act_OccurredAt := occurred, act_CreatedAt := now, act_Metadata := metadata\<rparr>
           in Inr (zero_plan\<lparr>mp_newOpen := oldOpen, mp_newCash := replaceCash oldCash balance,
                             mp_write := [PutCash balance], mp_activity := Some activity\<rparr>))"

section \<open>Purchases\<close>

text \<open>The terms of a purchase: price and fee with their provenance, cost, funding and cash.\<close>

record buy_terms =
  bt_price :: Price
  bt_priceSource :: string
  bt_fee :: Amount
  bt_feeSource :: string
  bt_gross :: Amount
  bt_totalRequired :: Amount
  bt_funding :: Amount
  bt_cashUsed :: Amount
  bt_nextCash :: Amount

definition buyTerms ::
  "declib \<Rightarrow> BuyInput \<Rightarrow> Portfolio \<Rightarrow> CashBalance list \<Rightarrow> quoteObservation \<Rightarrow> err + buy_terms" where
  "buyTerms L buy pf oldCash quote =
     (let estimated = Decimal_IsZero L (buy_ExecutionPrice buy);
          executionPrice = (if estimated then qo_Price quote else buy_ExecutionPrice buy);
          priceSource = (if estimated then PriceSourceProviderEstimate else PriceSourceUserRecorded)
      in if Decimal_Sign L executionPrice \<le> 0 then Inl ErrInvalidBuyPrice
         else rbind (validateLiveExecutionPrice priceSource (Price_Float64 L executionPrice)
                       (Price_Float64 L (qo_Price quote))) (\<lambda>_.
           let fee = buy_Fee buy;
               feeSource = (if Decimal_IsZero L fee then FeeSourceDefaultZero else FeeSourceUserRecorded);
               gross = MulPrice L (buy_Quantity buy) executionPrice;
               totalRequired = Amount_Add L gross fee;
               available = fst (cashAmount oldCash (qo_Currency quote));
               shortfall = Amount_Sub L totalRequired available;
               funding = (if Decimal_Sign L shortfall < 0 then ZeroAmount L else shortfall)
           in if 0 < Decimal_Sign L funding \<and> \<not> pf_AutoFundPurchases pf then Inl ErrInsufficientCash
              else
                let cashUsed = (if Amount_Cmp L available totalRequired < 0 then available else totalRequired);
                    nextCash = Amount_Sub L (Amount_Add L available funding) totalRequired
                in if Decimal_Sign L nextCash < 0 then Inl ErrInsufficientCash
                   else Inr \<lparr>bt_price = executionPrice, bt_priceSource = priceSource, bt_fee = fee,
                             bt_feeSource = feeSource, bt_gross = gross, bt_totalRequired = totalRequired,
                             bt_funding = funding, bt_cashUsed = cashUsed, bt_nextCash = nextCash\<rparr>))"

text \<open>
  The search for the open episode to extend: the first matching position, an error on the first
  unresolved one. \<open>None\<close> means that a new episode starts.
\<close>

definition buyConflict :: "BuyInput \<Rightarrow> string \<Rightarrow> Position \<Rightarrow> bool" where
  "buyConflict buy currency p =
     (buy_InstrumentID buy = [] \<and> buy_IdentityQuality buy \<noteq> [] \<and> pos_InstrumentID p = [] \<and>
      pos_Symbol p = buy_Symbol buy \<and> pos_AssetType p = buy_AssetType buy \<and> pos_Currency p = currency)"

definition buyMatches :: "BuyInput \<Rightarrow> string \<Rightarrow> Position \<Rightarrow> bool" where
  "buyMatches buy currency p =
     (((buy_InstrumentID buy \<noteq> [] \<and> pos_InstrumentID p = buy_InstrumentID buy) \<or>
       (buy_InstrumentID buy = [] \<and> buy_IdentityQuality buy = [] \<and> pos_InstrumentID p = [] \<and>
        pos_Symbol p = buy_Symbol buy)) \<and>
      pos_AssetType p = buy_AssetType buy \<and> pos_Currency p = currency)"

definition buyMerged :: "declib \<Rightarrow> BuyInput \<Rightarrow> buy_terms \<Rightarrow> time \<Rightarrow> Position \<Rightarrow> err + Position" where
  "buyMerged L buy t now p =
     (let totalQuantity = Quantity_Add L (pos_Quantity p) (buy_Quantity buy);
          existingBasis = MulPrice L (pos_Quantity p) (pos_AverageBuyPrice p);
          newBasis = Amount_Add L (Amount_Add L existingBasis (bt_gross t)) (bt_fee t)
      in rbind (lift_money (DivByQuantity L newBasis totalQuantity ScalePrice)) (\<lambda>avgPrice.
           Inr (p\<lparr>pos_AverageBuyPrice := QuantizePrice L avgPrice,
                  pos_Quantity := QuantizeQuantity L totalQuantity, pos_UpdatedAt := now\<rparr>)))"

fun buyExisting ::
  "declib \<Rightarrow> BuyInput \<Rightarrow> string \<Rightarrow> buy_terms \<Rightarrow> time \<Rightarrow> Position list \<Rightarrow> err + Position option" where
  "buyExisting L buy currency t now [] = Inr None"
| "buyExisting L buy currency t now (p # ps) =
     (if buyConflict buy currency p then Inl ErrInstrumentIdentityUnresolvedConflict
      else if buyMatches buy currency p then rbind (buyMerged L buy t now p) (\<lambda>m. Inr (Some m))
      else buyExisting L buy currency t now ps)"

definition buyNew ::
  "declib \<Rightarrow> (nat \<Rightarrow> string) \<Rightarrow> MutationRequest \<Rightarrow> Portfolio \<Rightarrow> string \<Rightarrow> buy_terms \<Rightarrow> time \<Rightarrow> err + Position" where
  "buyNew L uuid req pf currency t now =
     (let buy = mr_Buy req in
      rbind (lift_money (DivByQuantity L (bt_totalRequired t) (buy_Quantity buy) ScalePrice)) (\<lambda>avgPrice.
        Inr (zero_Position\<lparr>pos_ID := uuid 0, pos_UserID := mr_UserID req, pos_PortfolioID := pf_ID pf,
               pos_Symbol := buy_Symbol buy, pos_InstrumentID := buy_InstrumentID buy,
               pos_AssetType := buy_AssetType buy, pos_Quantity := QuantizeQuantity L (buy_Quantity buy),
               pos_AverageBuyPrice := QuantizePrice L avgPrice, pos_Currency := currency,
               pos_Status := PositionStatusOpen, pos_CreatedAt := now, pos_UpdatedAt := now\<rparr>)))"

definition buyActivity ::
  "declib \<Rightarrow> (nat \<Rightarrow> string) \<Rightarrow> MutationRequest \<Rightarrow> Portfolio \<Rightarrow> string \<Rightarrow> buy_terms \<Rightarrow> Valuation \<Rightarrow> Position \<Rightarrow> Activity" where
  "buyActivity L uuid req pf currency t val result =
     (let now = val_ObservedAt val;
          meta = activityMeta (trackingMetadata val) EffectNeutral ProvenanceUserReported
            (map_of [(''activity_group_id'', MStr (uuid 1)),
                     (''execution_price_source'', MStr (bt_priceSource t)),
                     (''fee_source'', MStr (bt_feeSource t)),
                     (''effective_at'', MTime (RFC3339Nano now)),
                     (''recorded_at'', MTime (RFC3339Nano now)),
                     (''instrument_identity_quality'', MStr (buy_IdentityQuality (mr_Buy req)))]);
          meta = (if 0 < Decimal_Sign L (bt_funding t)
                  then meta(''automatic_funding_amount'' \<mapsto> MFloat (Amount_Float64 L (bt_funding t)))
                  else meta)
      in zero_Activity\<lparr>act_ID := uuid 2, act_RequestID := mr_RequestID req, act_PortfolioID := pf_ID pf,
           act_UserID := mr_UserID req, act_Type := ActivityBuy, act_Symbol := pos_Symbol result,
           act_InstrumentID := pos_InstrumentID result, act_AssetType := pos_AssetType result,
           act_Currency := currency, act_Quantity := Some (buy_Quantity (mr_Buy req)),
           act_UnitPrice := Some (bt_price t), act_GrossAmount := bt_gross t,
           act_OccurredAt := now, act_CreatedAt := now, act_Metadata := meta,
           act_PositionEpisodeID := pos_ID result, act_GroupID := uuid 1,
           act_FeeAmount := bt_fee t, act_NetAmount := bt_totalRequired t\<rparr>)"

definition buyExtraActivities ::
  "declib \<Rightarrow> (nat \<Rightarrow> string) \<Rightarrow> MutationRequest \<Rightarrow> Portfolio \<Rightarrow> string \<Rightarrow> buy_terms \<Rightarrow> Valuation \<Rightarrow> Position \<Rightarrow> Activity list" where
  "buyExtraActivities L uuid req pf currency t val result =
     (let now = val_ObservedAt val;
          leg = zero_Activity\<lparr>act_PortfolioID := pf_ID pf, act_UserID := mr_UserID req,
                  act_Currency := currency, act_OccurredAt := now, act_CreatedAt := now,
                  act_GroupID := uuid 1\<rparr>;
          funding = leg\<lparr>act_ID := uuid 3, act_Type := ActivityDeposit,
            act_GrossAmount := bt_funding t, act_Origin := ''system_generated'',
            act_Metadata := activityMeta (trackingMetadata val) EffectNeutral ProvenanceSystemGenerated
              (map_of [(''activity_group_id'', MStr (uuid 1)),
                       (''funding_reason'', MStr ''purchase_shortfall''),
                       (''automatic'', MBool True),
                       (''linked_purchase_group_id'', MStr (uuid 1)),
                       (''effective_at'', MTime (RFC3339Nano now)),
                       (''recorded_at'', MTime (RFC3339Nano now))])\<rparr>;
          fee = leg\<lparr>act_ID := uuid 4, act_Type := ActivityBuyFee, act_Symbol := pos_Symbol result,
            act_InstrumentID := pos_InstrumentID result, act_GrossAmount := bt_fee t,
            act_PositionEpisodeID := pos_ID result,
            act_Metadata := activityMeta (trackingMetadata val) EffectReturn ProvenanceUserReported
              (map_of [(''component'', MStr ''purchase_fee''),
                       (''activity_group_id'', MStr (uuid 1)),
                       (''fee_source'', MStr (bt_feeSource t))])\<rparr>
      in (if 0 < Decimal_Sign L (bt_funding t) then [funding] else []) @
         (if 0 < Decimal_Sign L (bt_fee t) then [fee] else []))"

definition planBuy ::
  "declib \<Rightarrow> (nat \<Rightarrow> string) \<Rightarrow> MutationRequest \<Rightarrow> Portfolio \<Rightarrow> Position list \<Rightarrow> CashBalance list
    \<Rightarrow> Valuation \<Rightarrow> err + mutationPlan" where
  "planBuy L uuid req pf oldOpen oldCash val =
     rbind (from_option ErrPriceProvider (Quote val (buy_Symbol (mr_Buy req)))) (\<lambda>quote.
     rbind (buyTerms L (mr_Buy req) pf oldCash quote) (\<lambda>t.
       let now = val_ObservedAt val;
           currency = qo_Currency quote;
           balance = posted_balance oldCash pf currency (bt_nextCash t) now
       in rbind (buyExisting L (mr_Buy req) currency t now oldOpen) (\<lambda>existing.
          rbind (case existing of
                   Some m \<Rightarrow> Inr m
                 | None \<Rightarrow> buyNew L uuid req pf currency t now) (\<lambda>result.
            Inr (zero_plan
              \<lparr>mp_newOpen := replaceOrAppendPosition oldOpen result,
               mp_newCash := replaceCash oldCash balance,
               mp_write := [PutCash balance,
                            if existing = None then CreatePos result else UpdatePos result],
               mp_resultPosition := Some result, mp_resultPositionID := pos_ID result,
               mp_activity := Some (buyActivity L uuid req pf currency t val result),
               mp_extraActivities := buyExtraActivities L uuid req pf currency t val result,
               mp_returnValueBase := Amount_Neg L (Amount_Convert L (bt_fee t) (rate_of val currency)),
               mp_buyCashUsed := Amount_Float64 L (bt_cashUsed t),
               mp_buyFunding := Amount_Float64 L (bt_funding t)\<rparr>)))))"

section \<open>Sales\<close>

text \<open>
  \<open>findSalePosition\<close>: by position id when one is given, otherwise the only open position of the
  symbol.
\<close>

definition findSalePosition :: "Position list \<Rightarrow> MutationRequest \<Rightarrow> err + Position" where
  "findSalePosition ps req =
     (if sell_PositionID (mr_Sell req) \<noteq> [] \<or> mr_PositionID req \<noteq> []
      then requireOpen ps (firstNonEmpty [sell_PositionID (mr_Sell req), mr_PositionID req])
      else case filter (\<lambda>p. is_open p \<and> pos_Symbol p = sell_Symbol (mr_Sell req)) ps of
        [] \<Rightarrow> Inl ErrPositionNotFound
      | [p] \<Rightarrow> Inr p
      | _ \<Rightarrow> Inl ErrMutationConflict)"

record sell_terms =
  se_quantity :: Quantity
  se_price :: Price
  se_priceSource :: string
  se_fee :: Amount
  se_feeSource :: string
  se_proceeds :: Amount
  se_net :: Amount
  se_basis :: Amount
  se_realizedBase :: Amount
  se_realizedBaseF :: float64
  se_basisBaseF :: float64
  se_realizedPct :: float64

text \<open>Realized result of a sale: in base currency, as floats, and as a percentage of the basis.\<close>

definition realized_pct :: "float64 \<Rightarrow> float64 \<Rightarrow> float64" where
  "realized_pct realizedBaseF basisBaseF =
     (if flt (Fin 0) basisBaseF then fmul (fdiv realizedBaseF basisBaseF) (Fin 100) else Fin 0)"

definition sellTerms ::
  "declib \<Rightarrow> MutationRequest \<Rightarrow> Position \<Rightarrow> Valuation \<Rightarrow> err + (quoteObservation \<times> sell_terms)" where
  "sellTerms L req existing val =
     (let quantity = (if mr_Kind req = MutationClose then pos_Quantity existing
                      else sell_Quantity (mr_Sell req))
      in if Decimal_Sign L quantity \<le> 0 \<or> 0 < Quantity_Cmp L quantity (pos_Quantity existing)
         then Inl ErrInvalidSaleQuantity
         else rbind (from_option ErrPriceProvider (Quote val (pos_Symbol existing))) (\<lambda>quote.
           let estimated = Decimal_IsZero L (sell_ExecutionPrice (mr_Sell req));
               executionPrice = (if estimated then qo_Price quote else sell_ExecutionPrice (mr_Sell req));
               priceSource = (if estimated then PriceSourceProviderEstimate else PriceSourceUserRecorded)
           in rbind (validateLiveExecutionPrice priceSource (Price_Float64 L executionPrice)
                       (Price_Float64 L (qo_Price quote))) (\<lambda>_.
             let fee = sell_Fee (mr_Sell req);
                 feeSource = (if Decimal_IsZero L fee then FeeSourceDefaultZero else FeeSourceUserRecorded);
                 proceeds = MulPrice L quantity executionPrice
             in if 0 \<le> Amount_Cmp L fee proceeds then Inl ErrInvalidSaleFee
                else
                  let net = Amount_Sub L proceeds fee;
                      basis = MulPrice L quantity (pos_AverageBuyPrice existing);
                      basisRate = rate_of val (pos_Currency existing);
                      saleRate = rate_of val (qo_Currency quote);
                      realizedBase = Amount_Sub L (Amount_Convert L net saleRate) (Amount_Convert L basis basisRate);
                      realizedBaseF = Amount_Float64 L realizedBase;
                      basisBaseF = Amount_Float64 L (Amount_Convert L basis basisRate)
                  in Inr (quote,
                       \<lparr>se_quantity = quantity, se_price = executionPrice, se_priceSource = priceSource,
                        se_fee = fee, se_feeSource = feeSource, se_proceeds = proceeds, se_net = net,
                        se_basis = basis, se_realizedBase = realizedBase, se_realizedBaseF = realizedBaseF,
                        se_basisBaseF = basisBaseF,
                        se_realizedPct = realized_pct realizedBaseF basisBaseF\<rparr>))))"

definition sellActivity ::
  "declib \<Rightarrow> (nat \<Rightarrow> string) \<Rightarrow> MutationRequest \<Rightarrow> Portfolio \<Rightarrow> string \<Rightarrow> sell_terms \<Rightarrow> Valuation \<Rightarrow> Position \<Rightarrow> Activity" where
  "sellActivity L uuid req pf currency t val existing =
     (let now = val_ObservedAt val in
      zero_Activity\<lparr>act_ID := uuid 1, act_RequestID := mr_RequestID req, act_PortfolioID := pf_ID pf,
        act_UserID := mr_UserID req, act_Type := ActivitySell, act_Symbol := pos_Symbol existing,
        act_InstrumentID := pos_InstrumentID existing, act_AssetType := pos_AssetType existing,
        act_Currency := currency, act_Quantity := Some (se_quantity t), act_UnitPrice := Some (se_price t),
        act_GrossAmount := se_proceeds t, act_CostBasisAllocated := Some (se_basis t),
        act_RealizedGainLossBase := Some (se_realizedBase t),
        act_RealizedGainLossPercentage := Some (se_realizedPct t),
        act_OccurredAt := now, act_CreatedAt := now,
        act_Metadata := activityMeta (trackingMetadata val) EffectNeutral ProvenanceUserReported
          (map_of [(''activity_group_id'', MStr (uuid 0)),
                   (''execution_price_source'', MStr (se_priceSource t)),
                   (''fee_source'', MStr (se_feeSource t)),
                   (''effective_at'', MTime (RFC3339Nano now)),
                   (''recorded_at'', MTime (RFC3339Nano now))]),
        act_GroupID := uuid 0, act_PositionEpisodeID := pos_ID existing,
        act_FeeAmount := se_fee t, act_NetAmount := se_net t\<rparr>)"

definition sellExtraActivities ::
  "declib \<Rightarrow> (nat \<Rightarrow> string) \<Rightarrow> MutationRequest \<Rightarrow> Portfolio \<Rightarrow> string \<Rightarrow> sell_terms \<Rightarrow> Valuation \<Rightarrow> Position \<Rightarrow> Activity list" where
  "sellExtraActivities L uuid req pf currency t val existing =
     (let now = val_ObservedAt val in
      if 0 < Decimal_Sign L (se_fee t)
      then [zero_Activity\<lparr>act_ID := uuid 2, act_PortfolioID := pf_ID pf, act_UserID := mr_UserID req,
              act_Type := ActivitySellFee, act_Symbol := pos_Symbol existing, act_Currency := currency,
              act_InstrumentID := pos_InstrumentID existing, act_GrossAmount := se_fee t,
              act_OccurredAt := now, act_CreatedAt := now, act_GroupID := uuid 0,
              act_PositionEpisodeID := pos_ID existing,
              act_Metadata := activityMeta (trackingMetadata val) EffectReturn ProvenanceUserReported
                (map_of [(''component'', MStr ''sale_fee'')])\<rparr>]
      else [])"

text \<open>The closed position and the summary returned for it; rounding a non-finite float panics.\<close>

definition closedPosition ::
  "Position \<Rightarrow> time \<Rightarrow> time \<Rightarrow> float64 \<Rightarrow> string \<Rightarrow> float64 \<Rightarrow> float64 \<Rightarrow> Position" where
  "closedPosition existing closedAt now closePriceF closeCurrency realizedBaseF realizedPct =
     existing\<lparr>pos_Status := PositionStatusClosed, pos_ClosedAt := Some closedAt,
       pos_ClosePrice := Some closePriceF, pos_CloseCurrency := closeCurrency,
       pos_RealizedGainLossBase := round2 realizedBaseF,
       pos_RealizedGainLossPercentage := round2 realizedPct, pos_UpdatedAt := now\<rparr>"

definition closedView ::
  "declib \<Rightarrow> Position \<Rightarrow> Quantity \<Rightarrow> time \<Rightarrow> float64 \<Rightarrow> string \<Rightarrow> float64 \<Rightarrow> float64 \<Rightarrow> float64
    \<Rightarrow> err + ClosedPositionSummary" where
  "closedView L closedPos quantity closedAt closePriceF closeCurrency realizedBaseF basisBaseF realizedPct =
     rbind (from_option Panic (PriceFromFloat64 L (round2 closePriceF))) (\<lambda>closePrice.
     rbind (from_option Panic (AmountFromFloat64 L (round2 realizedBaseF))) (\<lambda>realized.
     rbind (from_option Panic (AmountFromFloat64 L (round2 basisBaseF))) (\<lambda>basis.
       Inr \<lparr>cps_ID = pos_ID closedPos, cps_Symbol = pos_Symbol closedPos, cps_AssetType = pos_AssetType closedPos,
            cps_Quantity = quantity, cps_BaselinePrice = pos_AverageBuyPrice closedPos,
            cps_BaselineCurrency = pos_Currency closedPos, cps_ClosePrice = closePrice,
            cps_ClosePriceCurrency = closeCurrency, cps_ClosedAt = RFC3339 closedAt,
            cps_RealizedGainLossBase = realized, cps_RealizedGainLossPercentage = round2 realizedPct,
            cps_ClosedCostBasisBase = basis, cps_BaseCurrency = BaseCurrency\<rparr>)))"

definition planSell ::
  "declib \<Rightarrow> (nat \<Rightarrow> string) \<Rightarrow> MutationRequest \<Rightarrow> Portfolio \<Rightarrow> Position list \<Rightarrow> Position list
    \<Rightarrow> CashBalance list \<Rightarrow> Valuation \<Rightarrow> err + mutationPlan" where
  "planSell L uuid req pf ps oldOpen oldCash val =
     rbind (findSalePosition ps req) (\<lambda>existing.
     rbind (sellTerms L req existing val) (\<lambda>(quote, t).
       let now = val_ObservedAt val;
           currency = qo_Currency quote;
           balance = posted_balance oldCash pf currency
             (Amount_Add L (fst (cashAmount oldCash currency)) (se_net t)) now;
           effect = (if 0 < Decimal_Sign L (se_fee t) \<or> Price_Cmp L (se_price t) (qo_Price quote) \<noteq> 0
                     then EffectReturn else EffectNeutral);
           base = zero_plan
             \<lparr>mp_newCash := replaceCash oldCash balance,
              mp_activity := Some (sellActivity L uuid req pf currency t val existing),
              mp_extraActivities := sellExtraActivities L uuid req pf currency t val existing,
              mp_performanceEffect := effect\<rparr>;
           remainingQty = QuantizeQuantity L (Quantity_Sub L (pos_Quantity existing) (se_quantity t))
       in if \<not> Decimal_IsZero L remainingQty then
            let remaining = existing\<lparr>pos_Quantity := remainingQty, pos_UpdatedAt := now\<rparr>
            in Inr (base\<lparr>mp_newOpen := replaceInSet oldOpen (pos_ID existing) remaining,
                         mp_write := [PutCash balance, UpdatePos remaining],
                         mp_resultPosition := Some remaining, mp_resultPositionID := pos_ID remaining\<rparr>)
          else
            let closePriceF = Price_Float64 L (se_price t);
                closedPos = closedPosition existing now now closePriceF currency
                           (se_realizedBaseF t) (se_realizedPct t)
            in rbind (closedView L closedPos (se_quantity t) now closePriceF currency
                        (se_realizedBaseF t) (se_basisBaseF t) (se_realizedPct t)) (\<lambda>view.
               Inr (base\<lparr>mp_newOpen := removeFromSet oldOpen (pos_ID existing),
                         mp_write := [PutCash balance, UpdatePos closedPos],
                         mp_resultClosed := Some view, mp_resultPositionID := pos_ID closedPos\<rparr>))))"

section \<open>Position edits and strategy replacement\<close>

definition planAdd ::
  "declib \<Rightarrow> (nat \<Rightarrow> string) \<Rightarrow> MutationRequest \<Rightarrow> Portfolio \<Rightarrow> Position list \<Rightarrow> CashBalance list
    \<Rightarrow> Valuation \<Rightarrow> err + mutationPlan" where
  "planAdd L uuid req pf oldOpen oldCash val =
     rbind (from_option ErrPriceProvider (Quote val (pi_Symbol (mr_Input req)))) (\<lambda>quote.
       let now = val_ObservedAt val;
           pos = zero_Position\<lparr>pos_ID := uuid 0, pos_UserID := mr_UserID req, pos_PortfolioID := pf_ID pf,
             pos_Symbol := pi_Symbol (mr_Input req), pos_AssetType := pi_AssetType (mr_Input req),
             pos_Quantity := pi_Quantity (mr_Input req), pos_AverageBuyPrice := qo_Price quote,
             pos_Currency := qo_Currency quote, pos_Status := PositionStatusOpen,
             pos_CreatedAt := now, pos_UpdatedAt := now\<rparr>
       in Inr (zero_plan\<lparr>mp_newOpen := oldOpen @ [pos], mp_write := [CreatePos pos],
                         mp_resultPosition := Some pos, mp_resultPositionID := pos_ID pos\<rparr>))"

definition planResize ::
  "declib \<Rightarrow> MutationRequest \<Rightarrow> Position list \<Rightarrow> Position list \<Rightarrow> Valuation \<Rightarrow> err + mutationPlan" where
  "planResize L req ps oldOpen val =
     rbind (requireOpen ps (mr_PositionID req)) (\<lambda>existing.
       let updated = existing\<lparr>pos_Quantity := QuantizeQuantity L (mr_Quantity req),
                              pos_UpdatedAt := val_ObservedAt val\<rparr>
       in Inr (zero_plan\<lparr>mp_newOpen := replaceInSet oldOpen (mr_PositionID req) updated,
                         mp_write := [UpdatePos updated], mp_resultPosition := Some updated,
                         mp_resultPositionID := pos_ID updated\<rparr>))"

definition planDelete :: "MutationRequest \<Rightarrow> Position list \<Rightarrow> Position list \<Rightarrow> err + mutationPlan" where
  "planDelete req ps oldOpen =
     rbind (requireOpen ps (mr_PositionID req)) (\<lambda>_.
       Inr (zero_plan\<lparr>mp_newOpen := removeFromSet oldOpen (mr_PositionID req),
                      mp_write := [DeletePos (mr_PositionID req)]\<rparr>))"

text \<open>The loop over the target weights: cash weights add up, the others become fresh positions.\<close>

fun replace_loop ::
  "declib \<Rightarrow> (nat \<Rightarrow> string) \<Rightarrow> MutationRequest \<Rightarrow> Portfolio \<Rightarrow> Valuation \<Rightarrow> Amount \<Rightarrow> nat
    \<Rightarrow> StrategyWeightInput list \<Rightarrow> Position list \<Rightarrow> Amount \<Rightarrow> err + (Position list \<times> Amount)" where
  "replace_loop L uuid req pf val totalValue n [] reps targetCash = Inr (reps, targetCash)"
| "replace_loop L uuid req pf val totalValue n (w # ws) reps targetCash =
     rbind (from_option Panic (RatioFromFloat64 L (fdiv (sw_WeightPercentage w) (Fin 100)))) (\<lambda>weightRatio.
       if sw_AssetType w = AssetTypeCash
       then replace_loop L uuid req pf val totalValue n ws reps
              (Amount_Add L targetCash (Amount_MulRatio L totalValue weightRatio))
       else rbind (from_option ErrPriceProvider (Quote val (sw_Symbol w))) (\<lambda>quote.
            rbind (from_option ErrUnsupportedCurrency (val_rates val (qo_Currency quote))) (\<lambda>rate.
            rbind (recode ErrInvalidWeights (DivByPrice L (Amount_MulRatio L totalValue weightRatio)
                     (Price_Convert L (qo_Price quote) rate) ScaleQuantity)) (\<lambda>quantity.
              if \<not> finitePositive (Quantity_Float64 L quantity) then Inl ErrInvalidWeights
              else
                let now = val_ObservedAt val;
                    p = zero_Position\<lparr>pos_ID := uuid n, pos_UserID := mr_UserID req,
                          pos_PortfolioID := pf_ID pf, pos_Symbol := sw_Symbol w,
                          pos_AssetType := sw_AssetType w, pos_Quantity := QuantizeQuantity L quantity,
                          pos_AverageBuyPrice := qo_Price quote, pos_Currency := qo_Currency quote,
                          pos_Status := PositionStatusOpen, pos_CreatedAt := now, pos_UpdatedAt := now\<rparr>
                in replace_loop L uuid req pf val totalValue (Suc n) ws (reps @ [p]) targetCash))))"

definition planReplace ::
  "declib \<Rightarrow> (nat \<Rightarrow> string) \<Rightarrow> MutationRequest \<Rightarrow> Portfolio \<Rightarrow> Position list \<Rightarrow> CashBalance list
    \<Rightarrow> Valuation \<Rightarrow> err + mutationPlan" where
  "planReplace L uuid req pf oldOpen oldCash val =
     rbind (ValueTracked L val oldOpen oldCash) (\<lambda>(totalValue, hasValue).
       if \<not> hasValue then Inl ErrInvalidWeights
       else rbind (replace_loop L uuid req pf val totalValue 0 (mr_Weights req) [] (ZeroAmount L))
         (\<lambda>(replacements, targetCashBase).
           let now = val_ObservedAt val;
               cleared = map (\<lambda>b. b\<lparr>cb_Amount := ZeroAmount L, cb_UpdatedAt := now\<rparr>) oldCash;
               nextCash = (if 0 < Amount_Cmp L targetCashBase (ZeroAmount L)
                           then replaceCash cleared (posted_balance cleared pf BaseCurrency targetCashBase now)
                           else cleared)
           in Inr (zero_plan\<lparr>mp_newOpen := replacements, mp_newCash := nextCash,
                             mp_write := map PutCash nextCash @ [ReplaceOpen replacements]\<rparr>)))"

end
