(* ===== verification/PlanCorrection.thy ===== *)
theory PlanCorrection
  imports PlanTrade
begin

text \<open>
  \<^verbatim>\<open>coordinator.go\<close>, the corrections of a recorded purchase or sale: the plan of each, and the
  rules (\<open>validateCorrection\<close>, \<open>isLastEpisodeEvent\<close>) that decide when one is allowed. Dereferencing
  the quantity of an original that has none is a panic.
\<close>

section \<open>The correction policy\<close>

fun isLastEpisodeEvent :: "Activity list \<Rightarrow> Activity \<Rightarrow> bool" where
  "isLastEpisodeEvent [] original = True"
| "isLastEpisodeEvent (a # as) original =
     (if act_ID a = act_ID original \<or> act_PositionEpisodeID a \<noteq> act_PositionEpisodeID original
      then isLastEpisodeEvent as original
      else if act_GroupID a \<noteq> [] \<and> act_GroupID a = act_GroupID original then isLastEpisodeEvent as original
      else if act_OccurredAt original < act_OccurredAt a then False
      else if act_OccurredAt a = act_OccurredAt original \<and> act_CreatedAt original < act_CreatedAt a then False
      else isLastEpisodeEvent as original)"

text \<open>
  \<open>history\<close> is the trusted-snapshot boundary, \<open>None\<close> when it is not wired: given user, portfolio and
  epoch it returns the instant of the latest trusted snapshot, if there is one, or fails.
\<close>

type_synonym snapshot_boundary = "string \<Rightarrow> string \<Rightarrow> time \<Rightarrow> err + time option"

definition validateCorrection ::
  "snapshot_boundary option \<Rightarrow> MutationRequest \<Rightarrow> string \<Rightarrow> err + Activity list \<Rightarrow> State \<Rightarrow> bool \<Rightarrow> err + unit" where
  "validateCorrection history req portfolioID ledger state haveState =
     (if mr_Kind req \<noteq> MutationCorrectBuy \<and> mr_Kind req \<noteq> MutationCorrectSell then Inr ()
      else let original = tc_Original (mr_Correction req) in
        rbind ledger (\<lambda>entries.
          if \<not> isLastEpisodeEvent entries original then Inl ErrCorrectionSupersededByLaterActivity
          else case history of
            None \<Rightarrow> Inr ()
          | Some latest \<Rightarrow>
              if \<not> haveState then Inr ()
              else rbind (latest (mr_UserID req) portfolioID (st_TrackingStartedAt state)) (\<lambda>found.
                case found of
                  None \<Rightarrow> Inr ()
                | Some boundary \<Rightarrow>
                    if \<not> act_OccurredAt original < boundary then Inr ()
                    else Inl ErrCorrectionRankedConflict)))"

section \<open>Correcting a purchase\<close>

definition correctionMeta ::
  "declib \<Rightarrow> (nat \<Rightarrow> string) \<Rightarrow> MutationRequest \<Rightarrow> Valuation \<Rightarrow> metadata" where
  "correctionMeta L uuid req val =
     (let corr = mr_Correction req; orig = tc_Original corr;
          feeSource = (if Decimal_IsZero L (tc_CorrectedFee corr) then FeeSourceDefaultZero
                       else FeeSourceUserRecorded)
      in activityMeta (trackingMetadata val) EffectNeutral ProvenanceUserReported
           (map_of [(''activity_group_id'', MStr (uuid 0)),
                    (''correction_of_activity_id'', MStr (act_ID orig)),
                    (''correction_reason'', MStr (tc_Reason corr)),
                    (''execution_price_source'', MStr PriceSourceUserRecorded),
                    (''fee_source'', MStr feeSource),
                    (''effective_at'', MTime (RFC3339Nano (act_OccurredAt orig))),
                    (''recorded_at'', MTime (RFC3339Nano (val_ObservedAt val)))]))"

definition planCorrectBuy ::
  "declib \<Rightarrow> (nat \<Rightarrow> string) \<Rightarrow> MutationRequest \<Rightarrow> Portfolio \<Rightarrow> Position list \<Rightarrow> Position list
    \<Rightarrow> CashBalance list \<Rightarrow> Valuation \<Rightarrow> err + mutationPlan" where
  "planCorrectBuy L uuid req pf ps oldOpen oldCash val =
     (let corr = mr_Correction req; orig = tc_Original corr in
      rbind (findPositionByID ps (act_PositionEpisodeID orig)) (\<lambda>existing.
      rbind (from_option ErrPriceProvider (Quote val (pos_Symbol existing))) (\<lambda>quote.
      rbind (validateLiveExecutionPrice PriceSourceUserRecorded
               (Price_Float64 L (tc_CorrectedExecutionPrice corr)) (Price_Float64 L (qo_Price quote))) (\<lambda>_.
      rbind (from_option Panic (act_Quantity orig)) (\<lambda>origQuantity.
        let now = val_ObservedAt val;
            currency = pos_Currency existing;
            quantityBeforeOriginal = Quantity_Sub L (pos_Quantity existing) origQuantity;
            basisBeforeOriginal =
              Amount_Sub L (Amount_Sub L (MulPrice L (pos_Quantity existing) (pos_AverageBuyPrice existing))
                (act_GrossAmount orig)) (act_FeeAmount orig);
            correctedGross = MulPrice L (tc_CorrectedQuantity corr) (tc_CorrectedExecutionPrice corr);
            newQuantity = QuantizeQuantity L (Quantity_Add L quantityBeforeOriginal (tc_CorrectedQuantity corr));
            newBasis = Amount_Add L (Amount_Add L basisBeforeOriginal correctedGross) (tc_CorrectedFee corr)
        in rbind (lift_money (DivByQuantity L newBasis newQuantity ScalePrice)) (\<lambda>avg.
          let newAvgPrice = QuantizePrice L avg;
              correctedTotal = Amount_Add L correctedGross (tc_CorrectedFee corr);
              originalTotal = Amount_Add L (act_GrossAmount orig) (act_FeeAmount orig);
              cashDelta = Amount_Sub L correctedTotal originalTotal;
              nextCash = Amount_Sub L (fst (cashAmount oldCash currency)) cashDelta
          in if Decimal_Sign L nextCash < 0 then Inl ErrInsufficientCash
             else
               let balance = posted_balance oldCash pf currency nextCash now;
                   merged = existing\<lparr>pos_Quantity := newQuantity, pos_AverageBuyPrice := newAvgPrice,
                                     pos_UpdatedAt := now\<rparr>;
                   activity = zero_Activity\<lparr>act_ID := uuid 1, act_RequestID := mr_RequestID req,
                     act_PortfolioID := pf_ID pf, act_UserID := mr_UserID req, act_Type := ActivityBuy,
                     act_Symbol := pos_Symbol existing, act_InstrumentID := pos_InstrumentID existing,
                     act_AssetType := pos_AssetType existing, act_Currency := currency,
                     act_Quantity := Some (tc_CorrectedQuantity corr),
                     act_UnitPrice := Some (tc_CorrectedExecutionPrice corr),
                     act_GrossAmount := correctedGross, act_OccurredAt := act_OccurredAt orig,
                     act_CreatedAt := now, act_Metadata := correctionMeta L uuid req val,
                     act_GroupID := uuid 0, act_PositionEpisodeID := pos_ID existing,
                     act_FeeAmount := tc_CorrectedFee corr, act_NetAmount := correctedTotal\<rparr>;
                   feeDelta = Amount_Sub L (tc_CorrectedFee corr) (act_FeeAmount orig)
               in Inr (zero_plan
                    \<lparr>mp_newOpen := replaceInSet oldOpen (pos_ID existing) merged,
                     mp_newCash := replaceCash oldCash balance,
                     mp_write := [PutCash balance, UpdatePos merged],
                     mp_resultPosition := Some merged, mp_resultPositionID := pos_ID merged,
                     mp_activity := Some activity,
                     mp_returnValueBase :=
                       Amount_Neg L (Amount_Convert L feeDelta (rate_of val currency))\<rparr>)))))))"

section \<open>Correcting a sale\<close>

record sale_correction =
  sc_held :: Quantity
  sc_proceeds :: Amount
  sc_net :: Amount
  sc_basis :: Amount
  sc_realizedBase :: Amount
  sc_realizedBaseF :: float64
  sc_basisBaseF :: float64
  sc_realizedPct :: float64
  sc_nextCash :: Amount

text \<open>
  A full close never changes the quantity of a position, so a closed episode still shows what was
  held before the sale; a partial one has to be added back.
\<close>

definition correctSellTerms ::
  "declib \<Rightarrow> TradeCorrectionInput \<Rightarrow> Position \<Rightarrow> quoteObservation \<Rightarrow> CashBalance list \<Rightarrow> Valuation
    \<Rightarrow> err + sale_correction" where
  "correctSellTerms L corr existing quote oldCash val =
     (let orig = tc_Original corr in
      rbind (if pos_Status existing \<noteq> PositionStatusClosed
             then rbind (from_option Panic (act_Quantity orig)) (\<lambda>q. Inr (Quantity_Add L (pos_Quantity existing) q))
             else Inr (pos_Quantity existing)) (\<lambda>held.
        if 0 < Quantity_Cmp L (tc_CorrectedQuantity corr) held then Inl ErrInvalidSaleQuantity
        else
          let proceeds = MulPrice L (tc_CorrectedQuantity corr) (tc_CorrectedExecutionPrice corr)
          in if 0 \<le> Amount_Cmp L (tc_CorrectedFee corr) proceeds then Inl ErrInvalidSaleFee
             else
               let net = Amount_Sub L proceeds (tc_CorrectedFee corr);
                   basis = MulPrice L (tc_CorrectedQuantity corr) (pos_AverageBuyPrice existing);
                   basisRate = rate_of val (pos_Currency existing);
                   saleRate = rate_of val (qo_Currency quote);
                   realizedBase = Amount_Sub L (Amount_Convert L net saleRate) (Amount_Convert L basis basisRate);
                   realizedBaseF = Amount_Float64 L realizedBase;
                   basisBaseF = Amount_Float64 L (Amount_Convert L basis basisRate);
                   cashDelta = Amount_Sub L net (act_NetAmount orig);
                   nextCash = Amount_Add L (fst (cashAmount oldCash (pos_Currency existing))) cashDelta
               in if Decimal_Sign L nextCash < 0 then Inl ErrInsufficientCash
                  else Inr \<lparr>sc_held = held, sc_proceeds = proceeds, sc_net = net, sc_basis = basis,
                            sc_realizedBase = realizedBase, sc_realizedBaseF = realizedBaseF,
                            sc_basisBaseF = basisBaseF,
                            sc_realizedPct = realized_pct realizedBaseF basisBaseF,
                            sc_nextCash = nextCash\<rparr>))"

text \<open>The open position a corrected sale leaves: reopened if it was closed.\<close>

definition reopened :: "Position \<Rightarrow> Quantity \<Rightarrow> time \<Rightarrow> Position" where
  "reopened existing remainingQty now =
     existing\<lparr>pos_Status := PositionStatusOpen, pos_Quantity := remainingQty, pos_ClosedAt := None,
       pos_ClosePrice := None, pos_CloseCurrency := [], pos_RealizedGainLossBase := Fin 0,
       pos_RealizedGainLossPercentage := Fin 0, pos_UpdatedAt := now\<rparr>"

definition planCorrectSell ::
  "declib \<Rightarrow> (nat \<Rightarrow> string) \<Rightarrow> MutationRequest \<Rightarrow> Portfolio \<Rightarrow> Position list \<Rightarrow> Position list
    \<Rightarrow> CashBalance list \<Rightarrow> Valuation \<Rightarrow> err + mutationPlan" where
  "planCorrectSell L uuid req pf ps oldOpen oldCash val =
     (let corr = mr_Correction req; orig = tc_Original corr in
      rbind (findPositionByID ps (act_PositionEpisodeID orig)) (\<lambda>existing.
      rbind (from_option ErrPriceProvider (Quote val (pos_Symbol existing))) (\<lambda>quote.
      rbind (validateLiveExecutionPrice PriceSourceUserRecorded
               (Price_Float64 L (tc_CorrectedExecutionPrice corr)) (Price_Float64 L (qo_Price quote))) (\<lambda>_.
      rbind (correctSellTerms L corr existing quote oldCash val) (\<lambda>t.
        let now = val_ObservedAt val;
            currency = pos_Currency existing;
            balance = posted_balance oldCash pf currency (sc_nextCash t) now;
            activity = zero_Activity\<lparr>act_ID := uuid 1, act_RequestID := mr_RequestID req,
              act_PortfolioID := pf_ID pf, act_UserID := mr_UserID req, act_Type := ActivitySell,
              act_Symbol := pos_Symbol existing, act_InstrumentID := pos_InstrumentID existing,
              act_AssetType := pos_AssetType existing, act_Currency := currency,
              act_Quantity := Some (tc_CorrectedQuantity corr),
              act_UnitPrice := Some (tc_CorrectedExecutionPrice corr),
              act_GrossAmount := sc_proceeds t, act_CostBasisAllocated := Some (sc_basis t),
              act_RealizedGainLossBase := Some (sc_realizedBase t),
              act_RealizedGainLossPercentage := Some (sc_realizedPct t),
              act_OccurredAt := act_OccurredAt orig, act_CreatedAt := now,
              act_Metadata := correctionMeta L uuid req val, act_GroupID := uuid 0,
              act_PositionEpisodeID := pos_ID existing, act_FeeAmount := tc_CorrectedFee corr,
              act_NetAmount := sc_net t\<rparr>;
            effect = (if 0 < Decimal_Sign L (tc_CorrectedFee corr)
                         \<or> Price_Cmp L (tc_CorrectedExecutionPrice corr) (qo_Price quote) \<noteq> 0
                      then EffectReturn else EffectNeutral);
            base = zero_plan\<lparr>mp_newCash := replaceCash oldCash balance, mp_activity := Some activity,
                             mp_performanceEffect := effect\<rparr>;
            remainingQty = QuantizeQuantity L (Quantity_Sub L (sc_held t) (tc_CorrectedQuantity corr))
        in if \<not> Decimal_IsZero L remainingQty then
             let remaining = reopened existing remainingQty now
             in Inr (base\<lparr>mp_newOpen := replaceInSet oldOpen (pos_ID existing) remaining,
                          mp_write := [PutCash balance, UpdatePos remaining],
                          mp_resultPosition := Some remaining, mp_resultPositionID := pos_ID remaining\<rparr>)
           else
             let closePriceF = Price_Float64 L (tc_CorrectedExecutionPrice corr);
                 closedPos = closedPosition existing (act_OccurredAt orig) now closePriceF
                            currency (sc_realizedBaseF t) (sc_realizedPct t)
             in rbind (closedView L closedPos (tc_CorrectedQuantity corr) (act_OccurredAt orig) closePriceF
                         currency (sc_realizedBaseF t) (sc_basisBaseF t) (sc_realizedPct t)) (\<lambda>view.
                Inr (base\<lparr>mp_newOpen := removeFromSet oldOpen (pos_ID existing),
                          mp_write := [PutCash balance, UpdatePos closedPos],
                          mp_resultClosed := Some view, mp_resultPositionID := pos_ID closedPos\<rparr>)))))))"

end
