(* ===== verification/PlanIncome.thy ===== *)
theory PlanIncome
  imports PlanCorrection
begin

text \<open>
  \<^verbatim>\<open>coordinator.go\<close>, the plans of single income records (cash income, reinvested dividend, return
  of capital, stock dividend), of fees, and of corporate actions (write-off, split, symbol change).
\<close>

section \<open>Income amounts\<close>

definition validateIncomeAmounts :: "declib \<Rightarrow> Amount \<Rightarrow> Amount \<Rightarrow> Amount \<Rightarrow> err + unit" where
  "validateIncomeAmounts L amount withholding fee =
     (if Decimal_Sign L amount \<le> 0 then Inl ErrInvalidIncomeAmount
      else if Decimal_Sign L withholding < 0 \<or> Decimal_Sign L fee < 0 then Inl ErrInvalidIncomeAmount
      else if 0 < Amount_Cmp L (Amount_Add L withholding fee) amount then Inl ErrInvalidIncomeAmount
      else Inr ())"

definition incomeMetadata :: "declib \<Rightarrow> IncomeInput \<Rightarrow> Amount \<Rightarrow> metadata" where
  "incomeMetadata L i net =
     (let m = map_of [(''income_subtype'', MIncome (in_Subtype i)),
                      (''gross_amount'', MStr (canonical L (in_Amount i))),
                      (''net_amount'', MStr (canonical L net))];
          m = (if 0 < Decimal_Sign L (in_Withholding i)
               then m(''withholding_amount'' \<mapsto> MStr (canonical L (in_Withholding i))) else m);
          m = (if 0 < Decimal_Sign L (in_Fee i)
               then m(''income_fee_amount'' \<mapsto> MStr (canonical L (in_Fee i))) else m);
          m = (if in_Estimated i then m(''estimated'' \<mapsto> MBool True) else m);
          m = (if in_IncomeEventID i \<noteq> [] then m(''income_event_id'' \<mapsto> MStr (in_IncomeEventID i)) else m);
          m = (if in_TaxClassification i \<noteq> []
               then m(''tax_classification'' \<mapsto> MStr (in_TaxClassification i)) else m)
      in m)"

text \<open>
  A balance credited (or rewritten) as a fresh row: the creation time is that of the existing row,
  if there is one.
\<close>

definition credited_balance :: "CashBalance list \<Rightarrow> Portfolio \<Rightarrow> string \<Rightarrow> Amount \<Rightarrow> time \<Rightarrow> CashBalance" where
  "credited_balance cash pf currency amount now =
     (let (existing, ok) = cashBalance cash currency
      in \<lparr>cb_PortfolioID = pf_ID pf, cb_Currency = currency, cb_Amount = amount,
          cb_CreatedAt = (if ok then cb_CreatedAt existing else now), cb_UpdatedAt = now\<rparr>)"

section \<open>Cash income\<close>

definition planIncome ::
  "declib \<Rightarrow> (nat \<Rightarrow> string) \<Rightarrow> MutationRequest \<Rightarrow> Portfolio \<Rightarrow> Position list \<Rightarrow> CashBalance list
    \<Rightarrow> Valuation \<Rightarrow> err + mutationPlan" where
  "planIncome L uuid req pf oldOpen oldCash val =
     (let i = mr_Income req; currency = in_Currency i in
      if val_rates val currency = None then Inl ErrUnsupportedCurrency
      else rbind (validateIncomeAmounts L (in_Amount i) (in_Withholding i) (in_Fee i)) (\<lambda>_.
           rbind (recode ErrUnsupportedCurrency (QuantizeCash L (IncomeInput_NetCash L i) currency)) (\<lambda>net.
             let now = val_ObservedAt val;
                 balance = credited_balance oldCash pf currency
                   (Amount_Add L (fst (cashAmount oldCash currency)) net) now;
                 payer = (if in_Symbol i = [] then None else findOpenBySymbol oldOpen (in_Symbol i));
                 (episodeID, instrumentID, assetType) =
                   (case payer of None \<Rightarrow> ([], [], [])
                    | Some p \<Rightarrow> (pos_ID p, pos_InstrumentID p, pos_AssetType p));
                 activity = zero_Activity\<lparr>act_ID := uuid 0, act_RequestID := mr_RequestID req,
                   act_PortfolioID := pf_ID pf, act_UserID := mr_UserID req,
                   act_Type := incomeActivityType (in_Subtype i), act_Symbol := in_Symbol i,
                   act_InstrumentID := instrumentID, act_AssetType := assetType,
                   act_Currency := currency, act_GrossAmount := net,
                   act_OccurredAt := occurredAt (in_OccurredAt i) now, act_CreatedAt := now,
                   act_PositionEpisodeID := episodeID,
                   act_Metadata := activityMeta (trackingMetadata val) EffectReturn (in_Provenance i)
                     (incomeMetadata L i net)\<rparr>
             in Inr (zero_plan\<lparr>mp_newOpen := oldOpen, mp_newCash := replaceCash oldCash balance,
                               mp_write := [PutCash balance], mp_activity := Some activity\<rparr>))))"

section \<open>Reinvested dividends\<close>

text \<open>Price and method of a reinvestment: the reported execution price, else the pinned quote.\<close>

definition reinvestTerms ::
  "declib \<Rightarrow> Price \<Rightarrow> string \<Rightarrow> quoteObservation \<Rightarrow> Price \<times> string" where
  "reinvestTerms L reinvestPrice priceMethod quote =
     (let reported = 0 < Decimal_Sign L reinvestPrice;
          price = (if reported then reinvestPrice else qo_Price quote);
          meth = (if reported then ''broker_reported'' else ''market_close_on_payment_date'')
      in (price, if priceMethod \<noteq> [] then priceMethod else meth))"

definition reinvestMatches :: "string \<Rightarrow> string \<Rightarrow> string \<Rightarrow> Position \<Rightarrow> bool" where
  "reinvestMatches symbol assetType currency p =
     (pos_Symbol p = symbol \<and> pos_AssetType p = assetType \<and> pos_Currency p = currency)"

definition reinvestMerged :: "declib \<Rightarrow> Quantity \<Rightarrow> Amount \<Rightarrow> time \<Rightarrow> Position \<Rightarrow> err + Position" where
  "reinvestMerged L qty net now p =
     (let totalQty = Quantity_Add L (pos_Quantity p) qty;
          newBasis = Amount_Add L (MulPrice L (pos_Quantity p) (pos_AverageBuyPrice p)) net
      in rbind (lift_money (DivByQuantity L newBasis totalQty ScalePrice)) (\<lambda>avg.
           Inr (p\<lparr>pos_AverageBuyPrice := QuantizePrice L avg, pos_Quantity := QuantizeQuantity L totalQty,
                  pos_UpdatedAt := now\<rparr>)))"

definition planReinvestedDividend ::
  "declib \<Rightarrow> (nat \<Rightarrow> string) \<Rightarrow> MutationRequest \<Rightarrow> Portfolio \<Rightarrow> Position list \<Rightarrow> CashBalance list
    \<Rightarrow> Valuation \<Rightarrow> err + mutationPlan" where
  "planReinvestedDividend L uuid req pf oldOpen oldCash val =
     (let i0 = mr_Income req in
      rbind (from_option ErrPriceProvider (Quote val (in_Symbol i0))) (\<lambda>quote.
        let i = i0\<lparr>in_Currency := qo_Currency quote\<rparr> in
        if val_rates val (qo_Currency quote) = None then Inl ErrUnsupportedCurrency
        else rbind (validateIncomeAmounts L (in_Amount i) (in_Withholding i) (in_Fee i)) (\<lambda>_.
             rbind (recode ErrUnsupportedCurrency (QuantizeCash L (IncomeInput_NetCash L i) (qo_Currency quote))) (\<lambda>net.
               let (price, meth) = reinvestTerms L (in_ReinvestPrice i) (in_PriceMethod i) quote in
               if Decimal_Sign L price \<le> 0 then Inl ErrInvalidReinvestment
               else rbind (recode ErrInvalidReinvestment (DivByPrice L net price ScaleQuantity)) (\<lambda>qty0.
                 if Decimal_Sign L qty0 \<le> 0 then Inl ErrInvalidReinvestment
                 else
                   let now = val_ObservedAt val;
                       qty = QuantizeQuantity L qty0;
                       estimated = (in_Estimated i \<or> meth \<noteq> ''broker_reported'');
                       match = find (reinvestMatches (in_Symbol i) (in_AssetType i) (qo_Currency quote)) oldOpen
                   in rbind (case match of
                        Some p \<Rightarrow> reinvestMerged L qty net now p
                      | None \<Rightarrow> Inr (zero_Position\<lparr>pos_ID := uuid 0, pos_UserID := mr_UserID req,
                          pos_PortfolioID := pf_ID pf, pos_Symbol := in_Symbol i,
                          pos_AssetType := in_AssetType i, pos_Quantity := qty,
                          pos_AverageBuyPrice := QuantizePrice L price,
                          pos_Currency := qo_Currency quote, pos_Status := PositionStatusOpen,
                          pos_CreatedAt := now, pos_UpdatedAt := now\<rparr>)) (\<lambda>result.
                      let leg = zero_Activity\<lparr>act_PortfolioID := pf_ID pf, act_UserID := mr_UserID req,
                            act_Symbol := in_Symbol i, act_AssetType := in_AssetType i,
                            act_InstrumentID := pos_InstrumentID result, act_Currency := qo_Currency quote,
                            act_GrossAmount := net, act_CreatedAt := now, act_GroupID := uuid 1,
                            act_PositionEpisodeID := pos_ID result\<rparr>;
                          incomeMeta = (incomeMetadata L i net)
                            (''income_subtype'' \<mapsto> MIncome IncomeReinvestedDiv,
                             ''activity_group_id'' \<mapsto> MStr (uuid 1), ''component'' \<mapsto> MStr ''income'',
                             ''reinvestment_price_method'' \<mapsto> MStr meth,
                             ''reinvestment_quantity'' \<mapsto> MStr (canonical L qty),
                             ''reinvestment_estimated'' \<mapsto> MBool estimated);
                          incomeActivity = leg\<lparr>act_ID := uuid 2, act_RequestID := mr_RequestID req,
                            act_Type := ActivityReinvestedDividend,
                            act_OccurredAt := occurredAt (in_OccurredAt i) now,
                            act_Metadata := activityMeta (trackingMetadata val) EffectReturn
                              (in_Provenance i) incomeMeta\<rparr>;
                          buyLeg = leg\<lparr>act_ID := uuid 3, act_Type := ActivityBuy,
                            act_Quantity := Some qty, act_UnitPrice := Some price, act_OccurredAt := now,
                            act_Metadata := activityMeta (trackingMetadata val) EffectNeutral
                              ProvenanceSystemGenerated
                              (map_of [(''activity_group_id'', MStr (uuid 1)),
                                       (''component'', MStr ''reinvestment_buy''),
                                       (''reinvestment_price_method'', MStr meth),
                                       (''reinvestment_estimated'', MBool estimated)])\<rparr>
                      in Inr (zero_plan
                           \<lparr>mp_newOpen := replaceOrAppendPosition oldOpen result, mp_newCash := oldCash,
                            mp_write := [if match = None then CreatePos result else UpdatePos result],
                            mp_resultPosition := Some result, mp_resultPositionID := pos_ID result,
                            mp_activity := Some incomeActivity, mp_extraActivities := [buyLeg]\<rparr>)))))))"

section \<open>Return of capital\<close>

text \<open>The basis taken off (never more than what is left) and the excess over it.\<close>

definition rocReduction :: "declib \<Rightarrow> Amount \<Rightarrow> Amount \<Rightarrow> Amount \<times> Amount" where
  "rocReduction L net remainingBasis =
     (if 0 < Amount_Cmp L net remainingBasis
      then (remainingBasis, Amount_Sub L net remainingBasis) else (net, ZeroAmount L))"

definition planReturnOfCapital ::
  "declib \<Rightarrow> (nat \<Rightarrow> string) \<Rightarrow> MutationRequest \<Rightarrow> Portfolio \<Rightarrow> Position list \<Rightarrow> CashBalance list
    \<Rightarrow> Valuation \<Rightarrow> err + mutationPlan" where
  "planReturnOfCapital L uuid req pf oldOpen oldCash val =
     (let i = mr_Income req; currency = in_Currency i in
      if val_rates val currency = None then Inl ErrUnsupportedCurrency
      else rbind (validateIncomeAmounts L (in_Amount i) (in_Withholding i) (in_Fee i)) (\<lambda>_.
           rbind (from_option ErrInstrumentNotFound (findOpenBySymbol oldOpen (in_Symbol i))) (\<lambda>existing.
           rbind (recode ErrUnsupportedCurrency (QuantizeCash L (IncomeInput_NetCash L i) currency)) (\<lambda>net.
             let now = val_ObservedAt val;
                 remainingBasis = MulPrice L (pos_Quantity existing) (pos_AverageBuyPrice existing);
                 (basisReduction, excess) = rocReduction L net remainingBasis
             in rbind (if 0 < Decimal_Sign L (pos_Quantity existing)
                       then rbind (lift_money (DivByQuantity L (Amount_Sub L remainingBasis basisReduction)
                                     (pos_Quantity existing) ScalePrice))
                              (\<lambda>avg. Inr (existing\<lparr>pos_AverageBuyPrice := QuantizePrice L avg\<rparr>))
                       else Inr existing) (\<lambda>upd.
               let updated = upd\<lparr>pos_UpdatedAt := now\<rparr>;
                   balance = credited_balance oldCash pf currency
                     (Amount_Add L (fst (cashAmount oldCash currency)) net) now;
                   meta = (incomeMetadata L i net)
                     (''income_subtype'' \<mapsto> MIncome IncomeReturnOfCapitalSub,
                      ''basis_reduction'' \<mapsto> MStr (canonical L basisReduction),
                      ''excess_over_basis'' \<mapsto> MStr (canonical L excess),
                      ''accounting_policy'' \<mapsto> MStr ''return_of_capital_basis_reduction'');
                   activity = zero_Activity\<lparr>act_ID := uuid 0, act_RequestID := mr_RequestID req,
                     act_PortfolioID := pf_ID pf, act_UserID := mr_UserID req,
                     act_Type := ActivityReturnOfCapital, act_Symbol := in_Symbol i,
                     act_AssetType := pos_AssetType existing, act_InstrumentID := pos_InstrumentID existing,
                     act_Currency := currency, act_GrossAmount := net,
                     act_CostBasisAllocated := Some basisReduction,
                     act_OccurredAt := occurredAt (in_OccurredAt i) now, act_CreatedAt := now,
                     act_PositionEpisodeID := pos_ID existing,
                     act_Metadata := activityMeta (trackingMetadata val) EffectReturn (in_Provenance i) meta\<rparr>
               in Inr (zero_plan
                    \<lparr>mp_newOpen := replaceOrAppendPosition oldOpen updated,
                     mp_newCash := replaceCash oldCash balance,
                     mp_write := [UpdatePos updated, PutCash balance],
                     mp_resultPosition := Some updated, mp_resultPositionID := pos_ID updated,
                     mp_activity := Some activity\<rparr>))))))"

section \<open>Stock dividends\<close>

definition planStockDividend ::
  "declib \<Rightarrow> (nat \<Rightarrow> string) \<Rightarrow> MutationRequest \<Rightarrow> Portfolio \<Rightarrow> Position list \<Rightarrow> CashBalance list
    \<Rightarrow> Valuation \<Rightarrow> err + mutationPlan" where
  "planStockDividend L uuid req pf oldOpen oldCash val =
     (let i = mr_Income req; num = in_StockRatioNum i; den = in_StockRatioDen i in
      rbind (from_option ErrInstrumentNotFound (findOpenBySymbol oldOpen (in_Symbol i))) (\<lambda>existing.
        if Decimal_Sign L num \<le> 0 \<or> Decimal_Sign L den \<le> 0 then Inl ErrInvalidSplitRatio
        else rbind (recode ErrInvalidSplitRatio (Ratio_DivExact L num den ScaleQuantity)) (\<lambda>fraction.
          let factor = Ratio_Add L (MustRatio L ''1'') fraction in
          if Ratio_Cmp L factor (MustRatio L ''1'') \<le> 0 then Inl ErrInvalidSplitRatio
          else rbind (recode ErrInvalidSplitRatio (Price_DivRatio L (pos_AverageBuyPrice existing) factor
                        (ScaleCostBasis + ScaleQuantity))) (\<lambda>avgPrice.
            let now = val_ObservedAt val;
                updated = existing\<lparr>pos_Quantity := QuantizeQuantity L (Quantity_MulRatio L (pos_Quantity existing) factor),
                                   pos_AverageBuyPrice := avgPrice, pos_UpdatedAt := now\<rparr>;
                activity = zero_Activity\<lparr>act_ID := uuid 0, act_RequestID := mr_RequestID req,
                  act_PortfolioID := pf_ID pf, act_UserID := mr_UserID req,
                  act_Type := ActivityStockDividend, act_Symbol := in_Symbol i,
                  act_AssetType := pos_AssetType existing, act_InstrumentID := pos_InstrumentID existing,
                  act_Currency := pos_Currency existing,
                  act_Quantity := Some (Quantity_Sub L (pos_Quantity updated) (pos_Quantity existing)),
                  act_OccurredAt := occurredAt (in_OccurredAt i) now, act_CreatedAt := now,
                  act_PositionEpisodeID := pos_ID existing,
                  act_Metadata := activityMeta (trackingMetadata val) EffectNeutral (in_Provenance i)
                    (map_of [(''income_subtype'', MIncome IncomeStockDividendSub),
                             (''ratio_numerator'', MStr (canonical L num)),
                             (''ratio_denominator'', MStr (canonical L den)),
                             (''income_event_id'', nonEmpty (in_IncomeEventID i))])\<rparr>
            in Inr (zero_plan
                 \<lparr>mp_newOpen := replaceOrAppendPosition oldOpen updated, mp_newCash := oldCash,
                  mp_write := [UpdatePos updated], mp_resultPosition := Some updated,
                  mp_resultPositionID := pos_ID updated, mp_activity := Some activity\<rparr>)))))"

section \<open>Fees\<close>

definition planFee ::
  "declib \<Rightarrow> (nat \<Rightarrow> string) \<Rightarrow> MutationRequest \<Rightarrow> Portfolio \<Rightarrow> Position list \<Rightarrow> CashBalance list
    \<Rightarrow> Valuation \<Rightarrow> err + mutationPlan" where
  "planFee L uuid req pf oldOpen oldCash val =
     (let f = mr_Fee req; currency = fee_Currency f in
      if val_rates val currency = None then Inl ErrUnsupportedCurrency
      else
        let (current, found) = cashAmount oldCash currency in
        rbind (recode ErrUnsupportedCurrency (QuantizeCash L (fee_Amount f) currency)) (\<lambda>feeAmt.
          if \<not> found \<or> Amount_Cmp L current feeAmt < 0 then Inl ErrInsufficientCashForFee
          else
            let now = val_ObservedAt val;
                balance = posted_balance oldCash pf currency (Amount_Sub L current feeAmt) now;
                activity = zero_Activity\<lparr>act_ID := uuid 0, act_RequestID := mr_RequestID req,
                  act_PortfolioID := pf_ID pf, act_UserID := mr_UserID req,
                  act_Type := feeActivityType (fee_Subtype f),
                  act_Symbol := ToUpper (TrimSpace (fee_Symbol f)), act_Currency := currency,
                  act_GrossAmount := feeAmt, act_OccurredAt := occurredAt (fee_OccurredAt f) now,
                  act_CreatedAt := now,
                  act_Metadata := activityMeta (trackingMetadata val) EffectReturn (fee_Provenance f)
                    (map_of [(''fee_subtype'', MFee (fee_Subtype f)),
                             (''linked_activity_id'', nonEmpty (fee_LinkedActivityID f)),
                             (''description'', nonEmpty (fee_Description f))])\<rparr>
            in Inr (zero_plan\<lparr>mp_newOpen := oldOpen, mp_newCash := replaceCash oldCash balance,
                              mp_write := [PutCash balance], mp_activity := Some activity\<rparr>)))"

section \<open>Corporate actions\<close>

definition planWriteOff ::
  "declib \<Rightarrow> (nat \<Rightarrow> string) \<Rightarrow> MutationRequest \<Rightarrow> Portfolio \<Rightarrow> Position list \<Rightarrow> CashBalance list
    \<Rightarrow> Valuation \<Rightarrow> err + mutationPlan" where
  "planWriteOff L uuid req pf oldOpen oldCash val =
     (let ca = mr_CorpAction req in
      rbind (from_option ErrInstrumentNotFound (findOpenBySymbol oldOpen (ca_Symbol ca))) (\<lambda>existing.
        let now = val_ObservedAt val;
            basisRate = rate_of val (pos_Currency existing);
            allocatedBasis = MulPrice L (pos_Quantity existing) (pos_AverageBuyPrice existing);
            realizedBase = Amount_Neg L (Amount_Convert L allocatedBasis basisRate);
            realizedBaseF = Amount_Float64 L realizedBase;
            basisBaseF = Amount_Float64 L (Amount_Convert L allocatedBasis basisRate);
            closedPos = existing\<lparr>pos_Status := PositionStatusClosed, pos_ClosedAt := Some now,
              pos_ClosePrice := Some (Fin 0), pos_CloseCurrency := pos_Currency existing,
              pos_RealizedGainLossBase := round2 realizedBaseF,
              pos_RealizedGainLossPercentage := Fin (-100), pos_UpdatedAt := now\<rparr>
        in rbind (from_option Panic (AmountFromFloat64 L (round2 realizedBaseF))) (\<lambda>realizedView.
           rbind (from_option Panic (AmountFromFloat64 L (round2 basisBaseF))) (\<lambda>basisView.
             let view = \<lparr>cps_ID = pos_ID closedPos, cps_Symbol = pos_Symbol closedPos,
                   cps_AssetType = pos_AssetType closedPos, cps_Quantity = pos_Quantity existing,
                   cps_BaselinePrice = pos_AverageBuyPrice closedPos,
                   cps_BaselineCurrency = pos_Currency closedPos, cps_ClosePrice = ZeroPrice L,
                   cps_ClosePriceCurrency = pos_Currency existing, cps_ClosedAt = RFC3339 now,
                   cps_RealizedGainLossBase = realizedView,
                   cps_RealizedGainLossPercentage = Fin (-100),
                   cps_ClosedCostBasisBase = basisView, cps_BaseCurrency = BaseCurrency\<rparr>;
                 activity = zero_Activity\<lparr>act_ID := uuid 0, act_RequestID := mr_RequestID req,
                   act_PortfolioID := pf_ID pf, act_UserID := mr_UserID req,
                   act_Type := ActivityWriteOff, act_Symbol := pos_Symbol existing,
                   act_AssetType := pos_AssetType existing, act_Currency := pos_Currency existing,
                   act_InstrumentID := pos_InstrumentID existing,
                   act_Quantity := Some (pos_Quantity existing), act_GrossAmount := ZeroAmount L,
                   act_CostBasisAllocated := Some allocatedBasis,
                   act_RealizedGainLossBase := Some realizedBase,
                   act_RealizedGainLossPercentage := Some (Fin (-100)),
                   act_OccurredAt := occurredAt (ca_OccurredAt ca) now, act_CreatedAt := now,
                   act_PositionEpisodeID := pos_ID existing,
                   act_Metadata := activityMeta (trackingMetadata val) EffectReturn (ca_Provenance ca)
                     (map_of [(''corporate_action'', MCorp CorpWriteOff)])\<rparr>
             in Inr (zero_plan
                  \<lparr>mp_newOpen := removeFromSet oldOpen (pos_ID existing), mp_newCash := oldCash,
                   mp_write := [UpdatePos closedPos], mp_resultClosed := Some view,
                   mp_resultPositionID := pos_ID closedPos, mp_activity := Some activity\<rparr>)))))"

definition planSplit ::
  "declib \<Rightarrow> (nat \<Rightarrow> string) \<Rightarrow> MutationRequest \<Rightarrow> Portfolio \<Rightarrow> Position list \<Rightarrow> CashBalance list
    \<Rightarrow> Valuation \<Rightarrow> err + mutationPlan" where
  "planSplit L uuid req pf oldOpen oldCash val =
     (let ca = mr_CorpAction req; ratio = fdiv (ca_RatioNumerator ca) (ca_RatioDenominator ca) in
      if \<not> finitePositive ratio then Inl ErrInvalidSplitRatio
      else rbind (from_option ErrInstrumentNotFound (findOpenBySymbol oldOpen (ca_Symbol ca))) (\<lambda>existing.
           rbind (from_option Panic (RatioFromFloat64 L ratio)) (\<lambda>r.
           rbind (recode ErrInvalidSplitRatio (Price_DivRatio L (pos_AverageBuyPrice existing) r
                    (ScaleCostBasis + ScaleQuantity))) (\<lambda>avgPrice.
             let now = val_ObservedAt val;
                 updated = existing\<lparr>pos_Quantity := QuantizeQuantity L (Quantity_MulRatio L (pos_Quantity existing) r),
                                    pos_AverageBuyPrice := avgPrice, pos_UpdatedAt := now\<rparr>
             in if Decimal_Sign L (pos_Quantity updated) \<le> 0 \<or> Decimal_Sign L (pos_AverageBuyPrice updated) \<le> 0
                then Inl ErrInvalidSplitRatio
                else
                  let subtype = (if flt ratio (Fin 1) then CorpReverseSplit else CorpStockSplit);
                      activity = zero_Activity\<lparr>act_ID := uuid 0, act_RequestID := mr_RequestID req,
                        act_PortfolioID := pf_ID pf, act_UserID := mr_UserID req,
                        act_Type := splitActivityType subtype, act_Symbol := pos_Symbol existing,
                        act_AssetType := pos_AssetType existing, act_InstrumentID := pos_InstrumentID existing,
                        act_Currency := pos_Currency existing, act_Quantity := Some (pos_Quantity updated),
                        act_OccurredAt := occurredAt (ca_OccurredAt ca) now, act_CreatedAt := now,
                        act_PositionEpisodeID := pos_ID existing,
                        act_Metadata := activityMeta (trackingMetadata val) EffectNeutral (ca_Provenance ca)
                          (map_of [(''corporate_action'', MCorp subtype),
                                   (''ratio_numerator'', MFloat (ca_RatioNumerator ca)),
                                   (''ratio_denominator'', MFloat (ca_RatioDenominator ca))])\<rparr>
                  in Inr (zero_plan
                       \<lparr>mp_newOpen := replaceInSet oldOpen (pos_ID existing) updated, mp_newCash := oldCash,
                        mp_write := [UpdatePos updated], mp_resultPosition := Some updated,
                        mp_resultPositionID := pos_ID updated, mp_activity := Some activity,
                        mp_valueInvariant := True\<rparr>)))))"

definition planSymbolChange ::
  "declib \<Rightarrow> (nat \<Rightarrow> string) \<Rightarrow> MutationRequest \<Rightarrow> Portfolio \<Rightarrow> Position list \<Rightarrow> CashBalance list
    \<Rightarrow> Valuation \<Rightarrow> err + mutationPlan" where
  "planSymbolChange L uuid req pf oldOpen oldCash val =
     (let ca = mr_CorpAction req in
      rbind (from_option ErrInstrumentNotFound (findOpenBySymbol oldOpen (ca_Symbol ca))) (\<lambda>existing.
        if (case findOpenBySymbol oldOpen (ca_NewSymbol ca) of
              None \<Rightarrow> False
            | Some other \<Rightarrow> pos_ID other \<noteq> pos_ID existing) then Inl ErrSymbolChangeConflict
        else
          let now = val_ObservedAt val;
              updated = existing\<lparr>pos_Symbol := ca_NewSymbol ca, pos_UpdatedAt := now\<rparr>;
              activity = zero_Activity\<lparr>act_ID := uuid 0, act_RequestID := mr_RequestID req,
                act_PortfolioID := pf_ID pf, act_UserID := mr_UserID req,
                act_Type := ActivitySymbolChange, act_Symbol := ca_NewSymbol ca,
                act_AssetType := pos_AssetType existing, act_InstrumentID := pos_InstrumentID existing,
                act_Currency := pos_Currency existing,
                act_OccurredAt := occurredAt (ca_OccurredAt ca) now, act_CreatedAt := now,
                act_PositionEpisodeID := pos_ID existing,
                act_Metadata := activityMeta (trackingMetadata val) EffectNeutral (ca_Provenance ca)
                  (map_of [(''corporate_action'', MCorp CorpSymbolChange),
                           (''old_symbol'', MStr (pos_Symbol existing)),
                           (''new_symbol'', MStr (ca_NewSymbol ca))])\<rparr>
          in Inr (zero_plan
               \<lparr>mp_newOpen := replaceInSet oldOpen (pos_ID existing) updated, mp_newCash := oldCash,
                mp_write := [UpdatePos updated], mp_resultPosition := Some updated,
                mp_resultPositionID := pos_ID updated, mp_activity := Some activity,
                mp_valueInvariant := True\<rparr>)))"

end
