(* ===== verification/PlanIncomeEvent.thy ===== *)
theory PlanIncomeEvent
  imports PlanIncome
begin

text \<open>
  \<^verbatim>\<open>coordinator.go\<close>, \<open>planIncomeEvent\<close>: all components of one income event in one plan. The locals
  its loop mutates are the record \<open>event_state\<close>; each kind of component is one function on it. The
  maps of touched positions and balances are association lists in the order of first touch: Go
  iterates them in an unspecified order, and the rows written have distinct keys.
\<close>

record event_state =
  es_open :: "Position list"
  es_cash :: "CashBalance list"
  es_touchedPositions :: "(string \<times> Position) list"
  es_newPositions :: "string list"
  es_touchedCash :: "(string \<times> CashBalance) list"
  es_activities :: "Activity list"
  es_resultPosition :: "Position option"
  es_hasReturnLeg :: bool

text \<open>What a component inherits from its event.\<close>

record component_terms =
  ct_index :: nat
  ct_symbol :: string
  ct_currency :: string
  ct_assetType :: string
  ct_occurred :: time

definition componentTerms :: "IncomeEventInput \<Rightarrow> time \<Rightarrow> nat \<Rightarrow> IncomeComponentInput \<Rightarrow> component_terms" where
  "componentTerms ev fallback i part =
     \<lparr>ct_index = i,
      ct_symbol = (if ic_Symbol part = [] then ev_Symbol ev else ic_Symbol part),
      ct_currency = (if ic_Currency part = [] then ev_Currency ev else ic_Currency part),
      ct_assetType = (if ic_AssetType part = [] then ev_AssetType ev else ic_AssetType part),
      ct_occurred = occurredAt (ic_OccurredAt part) fallback\<rparr>"

definition event_baseMeta ::
  "(nat \<Rightarrow> string) \<Rightarrow> IncomeEventInput \<Rightarrow> nat \<Rightarrow> IncomeComponentInput \<Rightarrow> metadata \<Rightarrow> metadata" where
  "event_baseMeta uuid ev i part extra =
     (let out = map_of [(''activity_group_id'', MStr (uuid 0)), (''component_index'', MInt i),
                        (''income_event_id'', nonEmpty (ev_IncomeEventID ev))];
          out = (if ic_TaxClassification part \<noteq> []
                 then out(''tax_classification'' \<mapsto> MStr (ic_TaxClassification part)) else out)
      in out ++ extra)"

definition event_leg ::
  "(nat \<Rightarrow> string) \<Rightarrow> MutationRequest \<Rightarrow> Portfolio \<Rightarrow> time \<Rightarrow> Activity" where
  "event_leg uuid req pf now =
     zero_Activity\<lparr>act_PortfolioID := pf_ID pf, act_UserID := mr_UserID req, act_CreatedAt := now,
       act_GroupID := uuid 0\<rparr>"

text \<open>\<open>creditCash\<close>.\<close>

definition event_creditCash ::
  "declib \<Rightarrow> Portfolio \<Rightarrow> time \<Rightarrow> string \<Rightarrow> Amount \<Rightarrow> event_state \<Rightarrow> event_state" where
  "event_creditCash L pf now currency delta s =
     (let balance = credited_balance (es_cash s) pf currency
            (Amount_Add L (fst (cashAmount (es_cash s) currency)) delta) now
      in s\<lparr>es_cash := replaceCash (es_cash s) balance,
           es_touchedCash := AList.update currency balance (es_touchedCash s)\<rparr>)"

text \<open>The new state of a position: in the open set, and recorded once in the touched set.\<close>

definition event_touch :: "Position \<Rightarrow> event_state \<Rightarrow> event_state" where
  "event_touch p s =
     s\<lparr>es_open := replaceOrAppendPosition (es_open s) p,
       es_touchedPositions := AList.update (pos_ID p) p (es_touchedPositions s),
       es_resultPosition := Some p\<rparr>"

section \<open>The components\<close>

definition event_stockDividend ::
  "declib \<Rightarrow> (nat \<Rightarrow> string) \<Rightarrow> MutationRequest \<Rightarrow> Portfolio \<Rightarrow> Valuation \<Rightarrow> IncomeEventInput
    \<Rightarrow> component_terms \<Rightarrow> IncomeComponentInput \<Rightarrow> event_state \<Rightarrow> err + event_state" where
  "event_stockDividend L uuid req pf val ev ct part s =
     rbind (from_option ErrInstrumentNotFound (findOpenBySymbol (es_open s) (ct_symbol ct))) (\<lambda>existing.
     rbind (recode ErrInvalidSplitRatio (Ratio_DivExact L (ic_StockRatioNum part) (ic_StockRatioDen part)
              ScaleQuantity)) (\<lambda>increment.
       let factor = Ratio_Add L (MustRatio L ''1'') increment in
       if Ratio_Cmp L factor (MustRatio L ''1'') \<le> 0 then Inl ErrInvalidSplitRatio
       else rbind (recode ErrInvalidSplitRatio (Price_DivRatio L (pos_AverageBuyPrice existing) factor
                     ScalePrice)) (\<lambda>avgPrice.
         let now = val_ObservedAt val;
             updated = existing\<lparr>pos_Quantity := QuantizeQuantity L (Quantity_MulRatio L (pos_Quantity existing) factor),
                                pos_AverageBuyPrice := avgPrice, pos_UpdatedAt := now\<rparr>;
             act = (event_leg uuid req pf now)\<lparr>act_ID := uuid (4 * ct_index ct + 4),
               act_Type := ActivityStockDividend, act_Symbol := ct_symbol ct,
               act_AssetType := pos_AssetType existing, act_InstrumentID := pos_InstrumentID existing,
               act_Currency := pos_Currency existing,
               act_Quantity := Some (Quantity_Sub L (pos_Quantity updated) (pos_Quantity existing)),
               act_OccurredAt := ct_occurred ct, act_PositionEpisodeID := pos_ID existing,
               act_Metadata := activityMeta (trackingMetadata val) EffectNeutral (ic_Provenance part)
                 (event_baseMeta uuid ev (ct_index ct) part
                   (map_of [(''income_subtype'', MIncome IncomeStockDividendSub),
                            (''ratio_numerator'', MDecimal (ic_StockRatioNum part)),
                            (''ratio_denominator'', MDecimal (ic_StockRatioDen part))]))\<rparr>;
             s = event_touch updated s
         in Inr (s\<lparr>es_activities := es_activities s @ [act]\<rparr>))))"

definition event_returnOfCapital ::
  "declib \<Rightarrow> (nat \<Rightarrow> string) \<Rightarrow> MutationRequest \<Rightarrow> Portfolio \<Rightarrow> Valuation \<Rightarrow> IncomeEventInput
    \<Rightarrow> component_terms \<Rightarrow> IncomeComponentInput \<Rightarrow> event_state \<Rightarrow> err + event_state" where
  "event_returnOfCapital L uuid req pf val ev ct part s =
     rbind (from_option ErrInstrumentNotFound (findOpenBySymbol (es_open s) (ct_symbol ct))) (\<lambda>existing.
     rbind (lift_money (QuantizeCash L (IncomeComponentInput_NetCash L part) (ct_currency ct))) (\<lambda>net.
       let now = val_ObservedAt val;
           remainingBasis = QuantizeCostBasis L (MulPrice L (pos_Quantity existing) (pos_AverageBuyPrice existing));
           (basisReduction, excess) = rocReduction L net remainingBasis
       in rbind (if 0 < Quantity_Cmp L (pos_Quantity existing) (ZeroQuantity L)
                 then rbind (lift_money (DivByQuantity L (Amount_Sub L remainingBasis basisReduction)
                               (pos_Quantity existing) ScalePrice))
                        (\<lambda>avg. Inr (existing\<lparr>pos_AverageBuyPrice := avg\<rparr>))
                 else Inr existing) (\<lambda>upd.
         let updated = upd\<lparr>pos_UpdatedAt := now\<rparr>;
             act = (event_leg uuid req pf now)\<lparr>act_ID := uuid (4 * ct_index ct + 4),
               act_Type := ActivityReturnOfCapital, act_Symbol := ct_symbol ct,
               act_AssetType := pos_AssetType existing, act_InstrumentID := pos_InstrumentID existing,
               act_Currency := ct_currency ct, act_GrossAmount := net,
               act_CostBasisAllocated := Some (QuantizeCostBasis L basisReduction),
               act_OccurredAt := ct_occurred ct, act_PositionEpisodeID := pos_ID existing,
               act_Metadata := activityMeta (trackingMetadata val) EffectReturn (ic_Provenance part)
                 (event_baseMeta uuid ev (ct_index ct) part
                   (map_of [(''income_subtype'', MIncome IncomeReturnOfCapitalSub),
                            (''gross_amount'', MStr (canonical L (ic_Amount part))),
                            (''net_amount'', MDecimal net),
                            (''basis_reduction'', MStr (canonical L basisReduction)),
                            (''excess_over_basis'', MStr (canonical L excess)),
                            (''accounting_policy'', MStr ''return_of_capital_basis_reduction''),
                            (''withholding_amount'', nonEmptyAmount L (ic_Withholding part)),
                            (''income_fee_amount'', nonEmptyAmount L (ic_Fee part))]))\<rparr>;
             s = event_creditCash L pf now (ct_currency ct) net (event_touch updated s)
         in Inr (s\<lparr>es_activities := es_activities s @ [act], es_hasReturnLeg := True\<rparr>))))"

definition event_reinvest ::
  "declib \<Rightarrow> (nat \<Rightarrow> string) \<Rightarrow> MutationRequest \<Rightarrow> Portfolio \<Rightarrow> Valuation \<Rightarrow> IncomeEventInput
    \<Rightarrow> component_terms \<Rightarrow> IncomeComponentInput \<Rightarrow> Amount \<Rightarrow> event_state \<Rightarrow> err + event_state" where
  "event_reinvest L uuid req pf val ev ct part net s =
     rbind (from_option ErrPriceProvider (Quote val (ct_symbol ct))) (\<lambda>quote.
       let qcurrency = qo_Currency quote;
           (price, meth) = reinvestTerms L (ic_ReinvestPrice part) (ic_PriceMethod part) quote
       in if Decimal_Sign L price \<le> 0 then Inl ErrInvalidReinvestment
          else rbind (recode ErrInvalidReinvestment (DivByPrice L net price ScaleQuantity)) (\<lambda>qty0.
            if Quantity_Cmp L qty0 (ZeroQuantity L) \<le> 0 then Inl ErrInvalidReinvestment
            else
              let now = val_ObservedAt val;
                  qty = QuantizeQuantity L qty0;
                  estimated = (ic_Estimated part \<or> meth \<noteq> ''broker_reported'');
                  match = find (reinvestMatches (ct_symbol ct) (ct_assetType ct) qcurrency) (es_open s)
              in rbind (case match of
                   Some p \<Rightarrow>
                     (let totalQty = QuantizeQuantity L (Quantity_Add L (pos_Quantity p) qty)
                      in rbind (lift_money (DivByQuantity L
                             (Amount_Add L (MulPrice L (pos_Quantity p) (pos_AverageBuyPrice p)) net)
                             totalQty ScalePrice)) (\<lambda>avg.
                           Inr (p\<lparr>pos_AverageBuyPrice := avg, pos_Quantity := totalQty,
                                  pos_UpdatedAt := now\<rparr>)))
                 | None \<Rightarrow> Inr (zero_Position\<lparr>pos_ID := uuid (4 * ct_index ct + 1),
                     pos_UserID := mr_UserID req, pos_PortfolioID := pf_ID pf,
                     pos_Symbol := ct_symbol ct, pos_AssetType := ct_assetType ct, pos_Quantity := qty,
                     pos_AverageBuyPrice := price, pos_Currency := qcurrency,
                     pos_Status := PositionStatusOpen, pos_CreatedAt := now, pos_UpdatedAt := now\<rparr>)) (\<lambda>result.
                 let leg = (event_leg uuid req pf now)\<lparr>act_Symbol := ct_symbol ct,
                       act_AssetType := ct_assetType ct, act_InstrumentID := pos_InstrumentID result,
                       act_Currency := qcurrency, act_GrossAmount := net,
                       act_PositionEpisodeID := pos_ID result\<rparr>;
                     incomeAct = leg\<lparr>act_ID := uuid (4 * ct_index ct + 2),
                       act_Type := ActivityReinvestedDividend, act_OccurredAt := ct_occurred ct,
                       act_Metadata := activityMeta (trackingMetadata val) EffectReturn (ic_Provenance part)
                         (event_baseMeta uuid ev (ct_index ct) part
                           (map_of [(''income_subtype'', MIncome IncomeReinvestedDiv),
                                    (''gross_amount'', MStr (canonical L (ic_Amount part))),
                                    (''net_amount'', MDecimal net),
                                    (''component'', MStr ''income''),
                                    (''reinvestment_price_method'', MStr meth),
                                    (''reinvestment_quantity'', MStr (canonical L qty)),
                                    (''reinvestment_estimated'', MBool estimated),
                                    (''withholding_amount'', nonEmptyAmount L (ic_Withholding part)),
                                    (''income_fee_amount'', nonEmptyAmount L (ic_Fee part))]))\<rparr>;
                     buyLeg = leg\<lparr>act_ID := uuid (4 * ct_index ct + 3), act_Type := ActivityBuy,
                       act_Quantity := Some qty, act_UnitPrice := Some price, act_OccurredAt := now,
                       act_Metadata := activityMeta (trackingMetadata val) EffectNeutral
                         ProvenanceSystemGenerated (event_baseMeta uuid ev (ct_index ct) part
                           (map_of [(''component'', MStr ''reinvestment_buy''),
                                    (''reinvestment_price_method'', MStr meth),
                                    (''reinvestment_estimated'', MBool estimated)]))\<rparr>;
                     s = event_touch result s
                 in Inr (s\<lparr>es_newPositions := (if match = None then [pos_ID result] else []) @ es_newPositions s,
                           es_activities := es_activities s @ [incomeAct, buyLeg]\<rparr>))))"

definition event_cashIncome ::
  "declib \<Rightarrow> (nat \<Rightarrow> string) \<Rightarrow> MutationRequest \<Rightarrow> Portfolio \<Rightarrow> Valuation \<Rightarrow> IncomeEventInput
    \<Rightarrow> component_terms \<Rightarrow> IncomeComponentInput \<Rightarrow> Amount \<Rightarrow> event_state \<Rightarrow> event_state" where
  "event_cashIncome L uuid req pf val ev ct part net s =
     (let now = val_ObservedAt val;
          s = event_creditCash L pf now (ct_currency ct) net s;
          payer = (if ct_symbol ct = [] then None else findOpenBySymbol (es_open s) (ct_symbol ct));
          (episodeID, instrumentID, legAssetType) =
            (case payer of None \<Rightarrow> ([], [], ct_assetType ct)
             | Some p \<Rightarrow> (pos_ID p, pos_InstrumentID p, pos_AssetType p));
          act = (event_leg uuid req pf now)\<lparr>act_ID := uuid (4 * ct_index ct + 4),
            act_Type := incomeActivityType (ic_Subtype part), act_Symbol := ct_symbol ct,
            act_InstrumentID := instrumentID, act_AssetType := legAssetType,
            act_Currency := ct_currency ct, act_GrossAmount := net, act_OccurredAt := ct_occurred ct,
            act_PositionEpisodeID := episodeID,
            act_Metadata := activityMeta (trackingMetadata val) EffectReturn (ic_Provenance part)
              (event_baseMeta uuid ev (ct_index ct) part
                (map_of [(''income_subtype'', MIncome (ic_Subtype part)),
                         (''gross_amount'', MStr (canonical L (ic_Amount part))),
                         (''net_amount'', MDecimal net),
                         (''withholding_amount'', nonEmptyAmount L (ic_Withholding part)),
                         (''income_fee_amount'', nonEmptyAmount L (ic_Fee part)),
                         (''estimated'', nonEmptyBool (ic_Estimated part))]))\<rparr>
      in s\<lparr>es_activities := es_activities s @ [act]\<rparr>)"

section \<open>The event\<close>

definition event_component ::
  "declib \<Rightarrow> (nat \<Rightarrow> string) \<Rightarrow> MutationRequest \<Rightarrow> Portfolio \<Rightarrow> Valuation \<Rightarrow> time \<Rightarrow> nat
    \<Rightarrow> IncomeComponentInput \<Rightarrow> event_state \<Rightarrow> err + event_state" where
  "event_component L uuid req pf val fallback i part s =
     (let ev = mr_IncomeEvent req; ct = componentTerms ev fallback i part in
      if ic_Subtype part = IncomeStockDividendSub then event_stockDividend L uuid req pf val ev ct part s
      else if ic_Subtype part = IncomeReturnOfCapitalSub then event_returnOfCapital L uuid req pf val ev ct part s
      else rbind (lift_money (QuantizeCash L (IncomeComponentInput_NetCash L part) (ct_currency ct))) (\<lambda>net.
        let reinvest = (ic_Reinvest part \<or> ev_Reinvest ev \<or> ic_Subtype part = IncomeReinvestedDiv);
            s = s\<lparr>es_hasReturnLeg := True\<rparr>
        in if reinvest then event_reinvest L uuid req pf val ev ct part net s
           else Inr (event_cashIncome L uuid req pf val ev ct part net s)))"

fun event_loop ::
  "declib \<Rightarrow> (nat \<Rightarrow> string) \<Rightarrow> MutationRequest \<Rightarrow> Portfolio \<Rightarrow> Valuation \<Rightarrow> time \<Rightarrow> nat
    \<Rightarrow> IncomeComponentInput list \<Rightarrow> event_state \<Rightarrow> err + event_state" where
  "event_loop L uuid req pf val fallback i [] s = Inr s"
| "event_loop L uuid req pf val fallback i (part # parts) s =
     rbind (event_component L uuid req pf val fallback i part s) (\<lambda>s'.
       event_loop L uuid req pf val fallback (Suc i) parts s')"

definition event_writes :: "event_state \<Rightarrow> tx_op list" where
  "event_writes s =
     map (\<lambda>(pid, p). if pid \<in> set (es_newPositions s) then CreatePos p else UpdatePos p)
       (es_touchedPositions s) @
     map (\<lambda>(c, b). PutCash b) (es_touchedCash s)"

definition planIncomeEvent ::
  "declib \<Rightarrow> (nat \<Rightarrow> string) \<Rightarrow> MutationRequest \<Rightarrow> Portfolio \<Rightarrow> Position list \<Rightarrow> CashBalance list
    \<Rightarrow> Valuation \<Rightarrow> err + mutationPlan" where
  "planIncomeEvent L uuid req pf oldOpen oldCash val =
     (let ev = mr_IncomeEvent req in
      if ev_Components ev = [] then Inl ErrEmptyIncomeEvent
      else
        let fallback = (if time_IsZero (ev_PaymentDate ev) then val_ObservedAt val else ev_PaymentDate ev)
        in rbind (event_loop L uuid req pf val fallback 0 (ev_Components ev)
                    \<lparr>es_open = oldOpen, es_cash = oldCash, es_touchedPositions = [], es_newPositions = [],
                     es_touchedCash = [], es_activities = [], es_resultPosition = None,
                     es_hasReturnLeg = False\<rparr>) (\<lambda>s.
             case es_activities s of
               [] \<Rightarrow> Inl ErrEmptyIncomeEvent
             | primary # extra \<Rightarrow>
                 Inr (zero_plan
                   \<lparr>mp_newOpen := es_open s, mp_newCash := es_cash s, mp_write := event_writes s,
                    mp_resultPosition := es_resultPosition s,
                    mp_resultPositionID := (case es_resultPosition s of None \<Rightarrow> [] | Some p \<Rightarrow> pos_ID p),
                    mp_activity := Some (primary\<lparr>act_RequestID := mr_RequestID req\<rparr>),
                    mp_extraActivities := extra,
                    mp_performanceEffect := (if es_hasReturnLeg s then EffectReturn else EffectNeutral)\<rparr>)))"

end
