(* ===== verification/Validate.thy ===== *)
theory Validate
  imports PlanIncomeEvent
begin

text \<open>
  \<^verbatim>\<open>coordinator.go\<close>, static validation: \<open>validate\<close> normalises the request in place and returns the
  symbols it introduces. Here it returns the normalised request with them.
\<close>

text \<open>\<^verbatim>\<open>prices.ValidateAndNormalizeSymbol(strings.ToUpper(strings.TrimSpace(s)))\<close>\<close>

definition symbol_or_unsupported :: "string \<Rightarrow> err + string" where
  "symbol_or_unsupported s =
     from_option ErrUnsupportedSymbol (ValidateAndNormalizeSymbol (ToUpper (TrimSpace s)))"

section \<open>Target weights\<close>

fun weights_loop ::
  "StrategyWeightInput list \<Rightarrow> string list \<Rightarrow> float64 \<Rightarrow> string list \<Rightarrow> StrategyWeightInput list
    \<Rightarrow> err + (StrategyWeightInput list \<times> string list \<times> float64)" where
  "weights_loop [] seen tot symbols out = Inr (out, symbols, tot)"
| "weights_loop (item # items) seen tot symbols out =
     (let assetType = ToLower (TrimSpace (sw_AssetType item));
          symbol = ToUpper (TrimSpace (sw_Symbol item));
          weight = sw_WeightPercentage item
      in if assetType = AssetTypeCash \<and> symbol = ''CASH'' then
           (if symbol \<in> set seen \<or> \<not> finitePositive weight then Inl ErrInvalidWeights
            else weights_loop items (symbol # seen) (fadd tot weight) symbols
                   (out @ [\<lparr>sw_Symbol = symbol, sw_AssetType = assetType, sw_WeightPercentage = weight\<rparr>]))
         else rbind (from_option ErrUnsupportedSymbol (ValidateAndNormalizeSymbol symbol)) (\<lambda>symbol.
           if symbol \<in> set seen then Inl ErrInvalidWeights
           else if \<not> validAssetTypes assetType then Inl ErrInvalidAssetType
           else if \<not> finitePositive weight then Inl ErrInvalidWeights
           else weights_loop items (symbol # seen) (fadd tot weight) (symbols @ [symbol])
                  (out @ [\<lparr>sw_Symbol = symbol, sw_AssetType = assetType, sw_WeightPercentage = weight\<rparr>])))"

definition normalizeStrategyWeights ::
  "StrategyWeightInput list \<Rightarrow> err + (StrategyWeightInput list \<times> string list)" where
  "normalizeStrategyWeights weights =
     (if weights = [] then Inl ErrInvalidWeights
      else rbind (weights_loop weights [] (Fin 0) [] []) (\<lambda>(out, symbols, tot).
        if flt (Fin (1 / 2)) (fabs (fsub tot (Fin 100))) then Inl ErrInvalidWeights
        else Inr (out, symbols)))"

section \<open>Income events\<close>

definition ordinary_subtypes :: "IncomeSubtype list" where
  "ordinary_subtypes =
     [IncomeCashDividend, IncomeSpecialDividend, IncomeETFDistribution, IncomeMutualFundDist,
      IncomeCapitalGainsDist, IncomeBondCoupon, IncomeFixedIncomeInt, IncomeInterest,
      IncomeCashInterest, IncomeStakingReward, IncomePaymentInLieu, IncomeOtherProvider]"

text \<open>One component: its normalised form and, when it reinvests, the symbol to price.\<close>

definition validate_component ::
  "declib \<Rightarrow> IncomeEventInput \<Rightarrow> IncomeComponentInput \<Rightarrow> err + (IncomeComponentInput \<times> string list)" where
  "validate_component L ev part =
     (let symbol = (let s = ToUpper (TrimSpace (ic_Symbol part)) in if s = [] then ev_Symbol ev else s);
          currency = (let c = ToUpper (TrimSpace (ic_Currency part)) in if c = [] then ev_Currency ev else c)
      in if \<not> supportedCurrency currency then Inl ErrUnsupportedCurrency
         else
           let part = part\<lparr>ic_Currency := currency\<rparr> in
           if ic_Subtype part \<in> set (ordinary_subtypes @ [IncomeReinvestedDiv]) then
             rbind (validateIncomeAmounts L (ic_Amount part) (ic_Withholding part) (ic_Fee part)) (\<lambda>_.
               if symbol = [] \<and> \<not> incomeSymbolOptional (ic_Subtype part) then Inl ErrSymbolRequired
               else rbind (if symbol = [] then Inr [] else
                     from_option ErrUnsupportedSymbol (ValidateAndNormalizeSymbol symbol)) (\<lambda>symbol.
                 if (ic_Reinvest part \<or> ev_Reinvest ev \<or> ic_Subtype part = IncomeReinvestedDiv) \<and> symbol \<noteq> []
                 then let assetType = (let a = ToLower (TrimSpace (ic_AssetType part))
                                       in if a = [] then ToLower (TrimSpace (ev_AssetType ev)) else a)
                      in if \<not> validAssetTypes assetType then Inl ErrInvalidAssetType
                         else Inr (part\<lparr>ic_AssetType := assetType, ic_Symbol := symbol\<rparr>, [symbol])
                 else Inr (part\<lparr>ic_Symbol := symbol\<rparr>, [])))
           else if ic_Subtype part = IncomeReturnOfCapitalSub then
             rbind (validateIncomeAmounts L (ic_Amount part) (ic_Withholding part) (ic_Fee part)) (\<lambda>_.
               if symbol = [] then Inl ErrSymbolRequired
               else rbind (from_option ErrUnsupportedSymbol (ValidateAndNormalizeSymbol symbol)) (\<lambda>symbol.
                 Inr (part\<lparr>ic_Symbol := symbol\<rparr>, [])))
           else if ic_Subtype part = IncomeStockDividendSub then
             (if Ratio_Cmp L (ic_StockRatioNum part) (ZeroRatio L) \<le> 0
                 \<or> Ratio_Cmp L (ic_StockRatioDen part) (ZeroRatio L) \<le> 0 then Inl ErrInvalidSplitRatio
              else if symbol = [] then Inl ErrSymbolRequired
              else rbind (from_option ErrUnsupportedSymbol (ValidateAndNormalizeSymbol symbol)) (\<lambda>symbol.
                Inr (part\<lparr>ic_Symbol := symbol\<rparr>, [])))
           else Inl ErrUnsupportedIncomeComponent)"

text \<open>The seed is the set of symbols to price (a Go map used as a set).\<close>

fun validate_components ::
  "declib \<Rightarrow> IncomeEventInput \<Rightarrow> IncomeComponentInput list \<Rightarrow> err + (IncomeComponentInput list \<times> string list)" where
  "validate_components L ev [] = Inr ([], [])"
| "validate_components L ev (c # cs) =
     rbind (validate_component L ev c) (\<lambda>(c', seed).
     rbind (validate_components L ev cs) (\<lambda>(cs', seeds).
       Inr (c' # cs', List.union seed seeds)))"

definition validateIncomeEvent :: "declib \<Rightarrow> MutationRequest \<Rightarrow> err + (MutationRequest \<times> string list)" where
  "validateIncomeEvent L req =
     (let ev = mr_IncomeEvent req in
      if ev_Components ev = [] then Inl ErrEmptyIncomeEvent
      else
        let ev = ev\<lparr>ev_Currency := ToUpper (TrimSpace (ev_Currency ev))\<rparr>;
            s = ToUpper (TrimSpace (ev_Symbol ev))
        in rbind (if s = [] then Inr (ev_Symbol ev) else
             from_option ErrUnsupportedSymbol (ValidateAndNormalizeSymbol s)) (\<lambda>sym.
             let ev = ev\<lparr>ev_Symbol := sym\<rparr> in
             rbind (validate_components L ev (ev_Components ev)) (\<lambda>(parts, seed).
               Inr (req\<lparr>mr_IncomeEvent := ev\<lparr>ev_Components := parts\<rparr>\<rparr>, seed))))"

section \<open>The request\<close>

definition validate_sell :: "declib \<Rightarrow> MutationRequest \<Rightarrow> err + (MutationRequest \<times> string list)" where
  "validate_sell L req =
     (let sell = mr_Sell req in
      if Decimal_Sign L (sell_Quantity sell) \<le> 0 then Inl ErrInvalidSaleQuantity
      else if \<not> Decimal_IsZero L (sell_ExecutionPrice sell) \<and> Decimal_Sign L (sell_ExecutionPrice sell) \<le> 0
      then Inl ErrInvalidSalePrice
      else if Decimal_Sign L (sell_Fee sell) < 0 then Inl ErrInvalidSaleFee
      else
        let sell = sell\<lparr>sell_Symbol := ToUpper (TrimSpace (sell_Symbol sell)),
                        sell_PositionID := TrimSpace (sell_PositionID sell)\<rparr>
        in if sell_Symbol sell = [] \<and> sell_PositionID sell = [] then Inl ErrPositionNotFound
           else if sell_Symbol sell \<noteq> [] then
             rbind (from_option ErrUnsupportedSymbol (ValidateAndNormalizeSymbol (sell_Symbol sell))) (\<lambda>symbol.
               Inr (req\<lparr>mr_Sell := sell\<lparr>sell_Symbol := symbol\<rparr>\<rparr>, [symbol]))
           else Inr (req\<lparr>mr_Sell := sell\<rparr>, []))"

definition validate_buy :: "declib \<Rightarrow> MutationRequest \<Rightarrow> err + (MutationRequest \<times> string list)" where
  "validate_buy L req =
     (let buy = mr_Buy req in
      rbind (validateAndNormalize L \<lparr>pi_Symbol = buy_Symbol buy, pi_AssetType = buy_AssetType buy,
               pi_Quantity = buy_Quantity buy\<rparr>) (\<lambda>clean.
        if \<not> Decimal_IsZero L (buy_ExecutionPrice buy) \<and> Decimal_Sign L (buy_ExecutionPrice buy) \<le> 0
        then Inl ErrInvalidBuyPrice
        else if Decimal_Sign L (buy_Fee buy) < 0 then Inl ErrInvalidBuyFee
        else Inr (req\<lparr>mr_Buy := buy\<lparr>buy_Symbol := pi_Symbol clean, buy_AssetType := pi_AssetType clean,
                                    buy_Quantity := pi_Quantity clean\<rparr>\<rparr>, [pi_Symbol clean])))"

definition validate_correction :: "declib \<Rightarrow> MutationRequest \<Rightarrow> err + (MutationRequest \<times> string list)" where
  "validate_correction L req =
     (let c = mr_Correction req; buy = (mr_Kind req = MutationCorrectBuy) in
      if act_ID (tc_Original c) = [] \<or> act_PositionEpisodeID (tc_Original c) = [] then Inl ErrActivityNotFound
      else if Decimal_Sign L (tc_CorrectedQuantity c) \<le> 0 then Inl ErrInvalidQuantity
      else if Decimal_Sign L (tc_CorrectedExecutionPrice c) \<le> 0
      then Inl (if buy then ErrInvalidBuyPrice else ErrInvalidSalePrice)
      else if Decimal_Sign L (tc_CorrectedFee c) < 0
      then Inl (if buy then ErrInvalidBuyFee else ErrInvalidSaleFee)
      else rbind (symbol_or_unsupported (act_Symbol (tc_Original c))) (\<lambda>symbol. Inr (req, [symbol])))"

definition validate_income :: "declib \<Rightarrow> MutationRequest \<Rightarrow> err + (MutationRequest \<times> string list)" where
  "validate_income L req =
     (let i = (mr_Income req)\<lparr>in_Currency := ToUpper (TrimSpace (in_Currency (mr_Income req)))\<rparr> in
      if \<not> supportedCurrency (in_Currency i) then Inl ErrUnsupportedCurrency
      else if Decimal_Sign L (in_Amount i) \<le> 0 then Inl ErrInvalidIncomeAmount
      else if in_Subtype i \<notin> set ordinary_subtypes then Inl ErrUnsupportedIncomeType
      else if ToUpper (TrimSpace (in_Symbol i)) \<noteq> [] then
        rbind (symbol_or_unsupported (in_Symbol i)) (\<lambda>sym.
          Inr (req\<lparr>mr_Income := i\<lparr>in_Symbol := sym\<rparr>\<rparr>, []))
      else if \<not> incomeSymbolOptional (in_Subtype i) then Inl ErrSymbolRequired
      else Inr (req\<lparr>mr_Income := i\<rparr>, []))"

definition validate_reinvested :: "declib \<Rightarrow> MutationRequest \<Rightarrow> err + (MutationRequest \<times> string list)" where
  "validate_reinvested L req =
     (let i = (mr_Income req)\<lparr>in_Currency := ToUpper (TrimSpace (in_Currency (mr_Income req)))\<rparr> in
      if \<not> supportedCurrency (in_Currency i) then Inl ErrUnsupportedCurrency
      else if Decimal_Sign L (in_Amount i) \<le> 0 then Inl ErrInvalidIncomeAmount
      else rbind (from_option Panic (QuantityFromFloat64 L (Fin 1))) (\<lambda>one.
           rbind (validateAndNormalize L \<lparr>pi_Symbol = in_Symbol i, pi_AssetType = in_AssetType i,
                    pi_Quantity = one\<rparr>) (\<lambda>clean.
             Inr (req\<lparr>mr_Income := i\<lparr>in_Symbol := pi_Symbol clean, in_AssetType := pi_AssetType clean\<rparr>\<rparr>,
                  [pi_Symbol clean]))))"

definition validate_returnOfCapital :: "declib \<Rightarrow> MutationRequest \<Rightarrow> err + (MutationRequest \<times> string list)" where
  "validate_returnOfCapital L req =
     (let i = (mr_Income req)\<lparr>in_Currency := ToUpper (TrimSpace (in_Currency (mr_Income req)))\<rparr> in
      if \<not> supportedCurrency (in_Currency i) then Inl ErrUnsupportedCurrency
      else if Decimal_Sign L (in_Amount i) \<le> 0 then Inl ErrInvalidIncomeAmount
      else rbind (symbol_or_unsupported (in_Symbol i)) (\<lambda>sym.
        Inr (req\<lparr>mr_Income := i\<lparr>in_Symbol := sym\<rparr>\<rparr>, [])))"

definition validate_fee :: "declib \<Rightarrow> MutationRequest \<Rightarrow> err + (MutationRequest \<times> string list)" where
  "validate_fee L req =
     (let f = (mr_Fee req)\<lparr>fee_Currency := ToUpper (TrimSpace (fee_Currency (mr_Fee req)))\<rparr> in
      if \<not> supportedCurrency (fee_Currency f) then Inl ErrUnsupportedCurrency
      else if Decimal_Sign L (fee_Amount f) \<le> 0 then Inl ErrInvalidFeeAmount
      else if fee_Subtype f \<notin> set [FeeManagement, FeeCustody, FeeOther] then Inl ErrUnsupportedFeeType
      else Inr (req\<lparr>mr_Fee := f\<rparr>, []))"

definition validate_symbolChange :: "MutationRequest \<Rightarrow> err + (MutationRequest \<times> string list)" where
  "validate_symbolChange req =
     (let ca = mr_CorpAction req in
      rbind (symbol_or_unsupported (ca_Symbol ca)) (\<lambda>src.
      rbind (symbol_or_unsupported (ca_NewSymbol ca)) (\<lambda>dst.
        if src = dst then Inl ErrInvalidCorporateAction
        else Inr (req\<lparr>mr_CorpAction := ca\<lparr>ca_Symbol := src, ca_NewSymbol := dst\<rparr>\<rparr>, []))))"

definition validate :: "declib \<Rightarrow> MutationRequest \<Rightarrow> err + (MutationRequest \<times> string list)" where
  "validate L req =
     (let cashFlow =
            (let flow = (mr_CashFlow req)\<lparr>cf_Currency := ToUpper (TrimSpace (cf_Currency (mr_CashFlow req)))\<rparr>
             in if \<not> supportedCurrency (cf_Currency flow) then Inl ErrUnsupportedCurrency
                else if Decimal_Sign L (cf_Amount flow) \<le> 0 then Inl ErrInvalidCashAmount
                else Inr (req\<lparr>mr_CashFlow := flow\<rparr>, []));
          byPosition = (if TrimSpace (mr_PositionID req) = [] then Inl ErrPositionNotFound else Inr (req, []));
          held = rbind (symbol_or_unsupported (ca_Symbol (mr_CorpAction req))) (\<lambda>sym.
            Inr (req\<lparr>mr_CorpAction := (mr_CorpAction req)\<lparr>ca_Symbol := sym\<rparr>\<rparr>, []))
      in case mr_Kind req of
           MutationDeposit \<Rightarrow> cashFlow
         | MutationWithdrawal \<Rightarrow> cashFlow
         | MutationBuy \<Rightarrow> validate_buy L req
         | MutationSell \<Rightarrow> validate_sell L req
         | MutationCorrectBuy \<Rightarrow> validate_correction L req
         | MutationCorrectSell \<Rightarrow> validate_correction L req
         | MutationAdd \<Rightarrow>
             rbind (validateAndNormalize L (mr_Input req)) (\<lambda>clean.
               Inr (req\<lparr>mr_Input := clean\<rparr>, [pi_Symbol clean]))
         | MutationResize \<Rightarrow>
             (if Quantity_Cmp L (mr_Quantity req) (ZeroQuantity L) \<le> 0 then Inl ErrInvalidQuantity
              else Inr (req, []))
         | MutationDelete \<Rightarrow> byPosition
         | MutationClose \<Rightarrow> byPosition
         | MutationReplace \<Rightarrow>
             rbind (normalizeStrategyWeights (mr_Weights req)) (\<lambda>(clean, symbols).
               Inr (req\<lparr>mr_Weights := clean\<rparr>, symbols))
         | MutationIncome \<Rightarrow> validate_income L req
         | MutationReinvestedDividend \<Rightarrow> validate_reinvested L req
         | MutationReturnOfCapital \<Rightarrow> validate_returnOfCapital L req
         | MutationStockDividend \<Rightarrow>
             (if Decimal_Sign L (in_StockRatioNum (mr_Income req)) \<le> 0
                 \<or> Decimal_Sign L (in_StockRatioDen (mr_Income req)) \<le> 0 then Inl ErrInvalidSplitRatio
              else rbind (symbol_or_unsupported (in_Symbol (mr_Income req))) (\<lambda>sym.
                Inr (req\<lparr>mr_Income := (mr_Income req)\<lparr>in_Symbol := sym\<rparr>\<rparr>, [])))
         | MutationIncomeEvent \<Rightarrow> validateIncomeEvent L req
         | MutationFee \<Rightarrow> validate_fee L req
         | MutationWriteOff \<Rightarrow> held
         | MutationSplit \<Rightarrow>
             (if \<not> finitePositive (ca_RatioNumerator (mr_CorpAction req))
                 \<or> \<not> finitePositive (ca_RatioDenominator (mr_CorpAction req)) then Inl ErrInvalidSplitRatio
              else held)
         | MutationSymbolChange \<Rightarrow> validate_symbolChange req
         | MutationKindOther _ \<Rightarrow> Inl ErrUnsupportedMutation)"

section \<open>Dispatch\<close>

definition plan ::
  "declib \<Rightarrow> (nat \<Rightarrow> string) \<Rightarrow> MutationRequest \<Rightarrow> Portfolio \<Rightarrow> Position list \<Rightarrow> CashBalance list
    \<Rightarrow> Valuation \<Rightarrow> err + mutationPlan" where
  "plan L uuid req pf ps oldCash val =
     (let oldOpen = openPositions ps in
      case mr_Kind req of
        MutationDeposit \<Rightarrow> planCashFlow L uuid req pf oldOpen oldCash val
      | MutationWithdrawal \<Rightarrow> planCashFlow L uuid req pf oldOpen oldCash val
      | MutationBuy \<Rightarrow> planBuy L uuid req pf oldOpen oldCash val
      | MutationSell \<Rightarrow> planSell L uuid req pf ps oldOpen oldCash val
      | MutationClose \<Rightarrow> planSell L uuid req pf ps oldOpen oldCash val
      | MutationCorrectBuy \<Rightarrow> planCorrectBuy L uuid req pf ps oldOpen oldCash val
      | MutationCorrectSell \<Rightarrow> planCorrectSell L uuid req pf ps oldOpen oldCash val
      | MutationAdd \<Rightarrow> planAdd L uuid req pf oldOpen oldCash val
      | MutationResize \<Rightarrow> planResize L req ps oldOpen val
      | MutationDelete \<Rightarrow> planDelete req ps oldOpen
      | MutationReplace \<Rightarrow> planReplace L uuid req pf oldOpen oldCash val
      | MutationIncome \<Rightarrow> planIncome L uuid req pf oldOpen oldCash val
      | MutationReinvestedDividend \<Rightarrow> planReinvestedDividend L uuid req pf oldOpen oldCash val
      | MutationReturnOfCapital \<Rightarrow> planReturnOfCapital L uuid req pf oldOpen oldCash val
      | MutationStockDividend \<Rightarrow> planStockDividend L uuid req pf oldOpen oldCash val
      | MutationIncomeEvent \<Rightarrow> planIncomeEvent L uuid req pf oldOpen oldCash val
      | MutationFee \<Rightarrow> planFee L uuid req pf oldOpen oldCash val
      | MutationWriteOff \<Rightarrow> planWriteOff L uuid req pf oldOpen oldCash val
      | MutationSplit \<Rightarrow> planSplit L uuid req pf oldOpen oldCash val
      | MutationSymbolChange \<Rightarrow> planSymbolChange L uuid req pf oldOpen oldCash val
      | MutationKindOther _ \<Rightarrow> Inl ErrUnsupportedMutation)"

end
