(* ===== verification/Aggregate.thy ===== *)
theory Aggregate
  imports Validate
begin

text \<open>
  \<^verbatim>\<open>store.go\<close>, the transaction boundary: \<open>AggregateTx\<close> is the interface the coordinator reads and
  writes one locked portfolio through, a record of its methods over a transaction of type \<open>'t\<close>.
  The context argument of the methods carries only cancellation and is left out. The locale
  \<open>aggregate_tx\<close> states what the coordinator relies on: each method changes what it names and
  nothing else the coordinator observes.
\<close>

record 't AggregateTx =
  tx_Portfolio :: "'t \<Rightarrow> Portfolio"
  tx_Positions :: "'t \<Rightarrow> Position list"
  tx_CashBalances :: "'t \<Rightarrow> CashBalance list"
  tx_CreatePosition :: "Position \<Rightarrow> 't \<Rightarrow> err + 't"
  tx_UpdatePosition :: "Position \<Rightarrow> 't \<Rightarrow> err + 't"
  tx_DeletePosition :: "string \<Rightarrow> 't \<Rightarrow> err + 't"
  tx_ReplaceOpenPositions :: "Position list \<Rightarrow> 't \<Rightarrow> err + 't"
  tx_PutCashBalance :: "CashBalance \<Rightarrow> 't \<Rightarrow> err + 't"
  tx_RecordActivity :: "Activity \<Rightarrow> 't \<Rightarrow> err + 't"
  tx_FindActivityByRequestID :: "string \<Rightarrow> 't \<Rightarrow> err + Activity option"
  tx_LedgerActivities :: "'t \<Rightarrow> err + Activity list"
  tx_RankedState :: "'t \<Rightarrow> err + State option"
  tx_PutRankedState :: "State \<Rightarrow> bool \<Rightarrow> int \<Rightarrow> 't \<Rightarrow> err + 't"
  tx_SetPortfolioVersion :: "int \<Rightarrow> 't \<Rightarrow> err + 't"
  tx_AppendOutbox :: "OutboxEvent \<Rightarrow> 't \<Rightarrow> err + 't"
  tx_RecordAudit :: "MutationAudit \<Rightarrow> 't \<Rightarrow> err + 't"
  tx_FindAuditByRequestID :: "string \<Rightarrow> 't \<Rightarrow> err + MutationAudit option"

text \<open>A write closure: its operations in order, stopping at the first error.\<close>

fun run_op :: "('t, 'x) AggregateTx_scheme \<Rightarrow> tx_op \<Rightarrow> 't \<Rightarrow> err + 't" where
  "run_op T (PutCash b) t = tx_PutCashBalance T b t"
| "run_op T (CreatePos p) t = tx_CreatePosition T p t"
| "run_op T (UpdatePos p) t = tx_UpdatePosition T p t"
| "run_op T (DeletePos pid) t = tx_DeletePosition T pid t"
| "run_op T (ReplaceOpen ps) t = tx_ReplaceOpenPositions T ps t"

fun run_write :: "('t, 'x) AggregateTx_scheme \<Rightarrow> tx_op list \<Rightarrow> 't \<Rightarrow> err + 't" where
  "run_write T [] t = Inr t"
| "run_write T (x # xs) t = rbind (run_op T x t) (\<lambda>t'. run_write T xs t')"

fun record_activities :: "('t, 'x) AggregateTx_scheme \<Rightarrow> Activity list \<Rightarrow> 't \<Rightarrow> err + 't" where
  "record_activities T [] t = Inr t"
| "record_activities T (a # as) t = rbind (tx_RecordActivity T a t) (\<lambda>t'. record_activities T as t')"

text \<open>
  What the coordinator observes of a transaction: the portfolio row, the ranked state, the ledger,
  and what is staged for the commit (version, audit records, outbox events).
\<close>

record tx_view =
  vw_portfolio :: Portfolio
  vw_ranked :: "State option"
  vw_ledger :: "Activity list"
  vw_version :: "int option"
  vw_audits :: "MutationAudit list"
  vw_outbox :: "OutboxEvent list"

locale aggregate_tx =
  fixes T :: "'t AggregateTx" and L :: declib and view :: "'t \<Rightarrow> tx_view"
  assumes portfolio: "tx_Portfolio T t = vw_portfolio (view t)"
    and ranked: "tx_RankedState T t = Inr (vw_ranked (view t))"
    and ledger: "tx_LedgerActivities T t = Inr (vw_ledger (view t))"
    and positions_frame: "run_op T w t = Inr t' \<Longrightarrow> view t' = view t"
    and activity: "tx_RecordActivity T a t = Inr t' \<Longrightarrow>
      view t' = (view t)\<lparr>vw_ledger := vw_ledger (view t) @ [a]\<rparr>"
    and activity_unique: "tx_RecordActivity T a t = Inr t' \<Longrightarrow> act_RequestID a \<noteq> [] \<Longrightarrow>
      act_RequestID a \<notin> act_RequestID ` set (vw_ledger (view t))"
    and put_ranked: "tx_PutRankedState T st isNew v t = Inr t' \<Longrightarrow>
      view t' = (view t)\<lparr>vw_ranked := Some st\<rparr>"
    and put_ranked_valid: "tx_PutRankedState T st isNew v t = Inr t' \<Longrightarrow> ValidateState L st = Inr ()"
    and put_ranked_guard: "tx_PutRankedState T st isNew v t = Inr t' \<Longrightarrow>
      (case vw_ranked (view t) of None \<Rightarrow> isNew | Some old \<Rightarrow> \<not> isNew \<and> st_Version old = v)"
    and version: "tx_SetPortfolioVersion T n t = Inr t' \<Longrightarrow> view t' = (view t)\<lparr>vw_version := Some n\<rparr>"
    and outbox: "tx_AppendOutbox T e t = Inr t' \<Longrightarrow>
      view t' = (view t)\<lparr>vw_outbox := vw_outbox (view t) @ [e]\<rparr>"
    and audit: "tx_RecordAudit T au t = Inr t' \<Longrightarrow>
      view t' = (view t)\<lparr>vw_audits := vw_audits (view t) @ [au]\<rparr>"
begin

lemma run_write_view: "run_write T ws t = Inr t' \<Longrightarrow> view t' = view t"
  by (induction ws arbitrary: t) (auto dest: positions_frame)

lemma record_activities_view:
  "record_activities T as t = Inr t' \<Longrightarrow> view t' = (view t)\<lparr>vw_ledger := vw_ledger (view t) @ as\<rparr>"
  by (induction as arbitrary: t) (auto dest!: activity)

end

end
