(* ===== verification/Coordinator.thy ===== *)
theory Coordinator
  imports Aggregate
begin

text \<open>
  \<^verbatim>\<open>coordinator.go\<close>, the locked part of a mutation: \<open>applyLocked\<close> replays a request that is already
  committed, otherwise plans the mutation on the locked state, computes the ranked transition and its
  guards, and performs the writes. It is written against the interface \<open>AggregateTx\<close>, and its
  lemmas are proved in the locale of that interface.

  \<open>H\<close> is the request fingerprint, the hexadecimal SHA-256 of the JSON text of a request, or nothing
  when the request cannot be marshalled (a non-finite float).
\<close>

section \<open>Idempotency\<close>

type_synonym fingerprint = "MutationRequest \<Rightarrow> string option"

definition mutationFingerprint :: "fingerprint \<Rightarrow> MutationRequest \<Rightarrow> err + string" where
  "mutationFingerprint H req = from_option ErrFingerprint (H (req\<lparr>mr_RequestID := []\<rparr>))"

definition mustMutationFingerprint :: "fingerprint \<Rightarrow> MutationRequest \<Rightarrow> err + string" where
  "mustMutationFingerprint H req = recode Panic (mutationFingerprint H req)"

definition checkIdempotencyAudit :: "fingerprint \<Rightarrow> MutationAudit \<Rightarrow> MutationRequest \<Rightarrow> err + unit" where
  "checkIdempotencyAudit H audit req =
     rbind (mutationFingerprint H req) (\<lambda>fp.
       if au_RequestFingerprint audit \<noteq> [] \<and> au_RequestFingerprint audit \<noteq> fp then Inl ErrIdempotencyConflict
       else if au_RequestFingerprint audit = [] \<and> au_MutationType audit \<noteq> mr_Kind req
       then Inl ErrIdempotencyConflict
       else Inr ())"

definition zero_result :: MutationResult where
  "zero_result =
     \<lparr>res_Position = None, res_Closed = None, res_PortfolioVersion = 0, res_RankedIndexBefore = 0,
      res_RankedIndexAfter = 0, res_RankingStatus = StatusOther [], res_Activity = None,
      res_Duplicate = False\<rparr>"

definition replay :: "('t, 'x) AggregateTx_scheme \<Rightarrow> 't \<Rightarrow> MutationAudit \<Rightarrow> MutationResult" where
  "replay T t audit =
     zero_result
       \<lparr>res_PortfolioVersion := au_PortfolioVersionAfter audit,
        res_RankedIndexBefore := au_RankedIndexBefore audit,
        res_RankedIndexAfter := au_RankedIndexAfter audit,
        res_Duplicate := True,
        res_RankingStatus :=
          (case tx_RankedState T t of Inr (Some st) \<Rightarrow> st_Status st | _ \<Rightarrow> StatusOther []),
        res_Activity :=
          (case tx_FindActivityByRequestID T (au_RequestID audit) t of Inr a \<Rightarrow> a | Inl _ \<Rightarrow> None),
        res_Position :=
          (if au_ResultPositionID audit = [] then None
           else find (\<lambda>p. pos_ID p = au_ResultPositionID audit) (tx_Positions T t))\<rparr>"

section \<open>The ranked transition\<close>

definition neutral :: "declib \<Rightarrow> IndexValue \<Rightarrow> IndexValue \<Rightarrow> bool" where
  "neutral L before after = EqualIndex L (QuantizeIndex L before) (QuantizeIndex L after)"

definition assertReturnDirection :: "declib \<Rightarrow> MutationKind \<Rightarrow> IndexValue \<Rightarrow> IndexValue \<Rightarrow> err + unit" where
  "assertReturnDirection L kind before after =
     (if kind \<in> set [MutationIncome, MutationReinvestedDividend, MutationReturnOfCapital]
      then (if Index_Cmp L after before < 0 then Inl ErrRankedInvariant else Inr ())
      else if kind \<in> set [MutationFee, MutationWriteOff]
      then (if 0 < Index_Cmp L after before then Inl ErrRankedInvariant else Inr ())
      else Inr ())"

text \<open>\<open>isIncomeKind\<close> is declared beside it.\<close>

definition isIncomeKind :: "MutationRequest \<Rightarrow> bool" where
  "isIncomeKind req =
     (if mr_Kind req \<in> set [MutationReinvestedDividend, MutationReturnOfCapital] then True
      else if mr_Kind req = MutationIncome then in_Subtype (mr_Income req) \<noteq> IncomeSubtypeOther []
      else False)"

definition checkpointInput ::
  "string \<Rightarrow> string \<Rightarrow> time \<Rightarrow> Amount \<Rightarrow> bool \<Rightarrow> Amount \<Rightarrow> bool \<Rightarrow> CheckpointInput" where
  "checkpointInput pid uid t vb hb va ha =
     \<lparr>ci_PortfolioID = pid, ci_UserID = uid, ci_ValueBeforeBase = vb, ci_HasActiveBefore = hb,
      ci_ValueAfterBase = va, ci_HasActiveAfter = ha, ci_At = t\<rparr>"

text \<open>
  The mixed branch: a neutral checkpoint to the value without the return-bearing part, then a
  return-bearing one to the final value. The result is the next state and the index after.
\<close>

definition mixedTransition ::
  "declib \<Rightarrow> string \<Rightarrow> string \<Rightarrow> time \<Rightarrow> State \<Rightarrow> IndexValue \<Rightarrow> Amount \<Rightarrow> Amount \<Rightarrow> bool \<Rightarrow> Amount \<Rightarrow> bool
    \<Rightarrow> err + (State \<times> IndexValue)" where
  "mixedTransition L pid uid t state indexBefore returnBase vb hb va ha =
     (let neutralAfter = Amount_Sub L va returnBase;
          mid = ApplyCheckpoint L state (checkpointInput pid uid t vb hb neutralAfter ha)
      in rbind (lift_perf (ValidateState L mid)) (\<lambda>_.
         let indexMid = CalculateCurrentIndex L mid neutralAfter in
         if \<not> neutral L indexBefore indexMid then Inl ErrRankedInvariant
         else
           let next = ApplyReturnCheckpoint L mid (checkpointInput pid uid t neutralAfter ha va ha)
           in rbind (lift_perf (ValidateState L next)) (\<lambda>_.
              let indexAfter = CalculateCurrentIndex L next va in
              if Decimal_Sign L returnBase < 0 \<and> 0 < Index_Cmp L indexAfter indexMid
              then Inl ErrRankedInvariant
              else Inr (next, indexAfter))))"

definition pureTransition ::
  "declib \<Rightarrow> MutationKind \<Rightarrow> PerformanceEffect \<Rightarrow> State \<Rightarrow> IndexValue \<Rightarrow> CheckpointInput
    \<Rightarrow> err + (State \<times> IndexValue)" where
  "pureTransition L kind effect state indexBefore cp =
     (if effect = EffectReturn then
        let next = ApplyReturnCheckpoint L state cp
        in rbind (lift_perf (ValidateState L next)) (\<lambda>_.
           let indexAfter = CalculateCurrentIndex L next (ci_ValueAfterBase cp)
           in rbind (assertReturnDirection L kind indexBefore indexAfter) (\<lambda>_. Inr (next, indexAfter)))
      else
        let next = ApplyCheckpoint L state cp
        in rbind (lift_perf (ValidateState L next)) (\<lambda>_.
           let indexAfter = CalculateCurrentIndex L next (ci_ValueAfterBase cp)
           in if \<not> neutral L indexBefore indexAfter then Inl ErrRankedInvariant
              else Inr (next, indexAfter)))"

text \<open>The values before and after: pinned to each other for a value-invariant transformation.\<close>

definition planValues ::
  "declib \<Rightarrow> Valuation \<Rightarrow> Position list \<Rightarrow> CashBalance list \<Rightarrow> mutationPlan
    \<Rightarrow> err + (Amount \<times> bool \<times> Amount \<times> bool)" where
  "planValues L val oldOpen oldCash p =
     (let newCash = (if mp_newCash p = [] then oldCash else mp_newCash p) in
      rbind (ValueTracked L val oldOpen oldCash) (\<lambda>(vb, hb).
        if mp_valueInvariant p then Inr (vb, hb, vb, hb)
        else rbind (ValueTracked L val (mp_newOpen p) newCash) (\<lambda>(va, ha). Inr (vb, hb, va, ha))))"

definition initialState ::
  "declib \<Rightarrow> State option \<Rightarrow> string \<Rightarrow> string \<Rightarrow> Amount \<Rightarrow> bool \<Rightarrow> time \<Rightarrow> State" where
  "initialState L found pid uid vb hb t =
     (case found of Some st \<Rightarrow> st
      | None \<Rightarrow> (ActivateState L pid uid vb hb t)\<lparr>st_Version := 0\<rparr>)"

definition rankedTransition ::
  "declib \<Rightarrow> MutationRequest \<Rightarrow> Portfolio \<Rightarrow> Valuation \<Rightarrow> mutationPlan \<Rightarrow> State \<Rightarrow> Amount \<Rightarrow> bool \<Rightarrow> Amount \<Rightarrow> bool
    \<Rightarrow> err + (State \<times> IndexValue \<times> IndexValue)" where
  "rankedTransition L req pf val p state vb hb va ha =
     (let cp = checkpointInput (pf_ID pf) (mr_UserID req) (val_ObservedAt val) vb hb va ha;
          indexBefore = CalculateIndexBeforeMutation L state cp;
          effect = (if mp_performanceEffect p \<noteq> EffectUnset then mp_performanceEffect p
                    else mutationEffect (mr_Kind req))
      in rbind (if \<not> Decimal_IsZero L (mp_returnValueBase p)
                then mixedTransition L (pf_ID pf) (mr_UserID req) (val_ObservedAt val) state indexBefore
                       (mp_returnValueBase p) vb hb va ha
                else pureTransition L (mr_Kind req) effect state indexBefore cp) (\<lambda>(next, indexAfter).
         Inr (next, indexBefore, indexAfter)))"

section \<open>The writes\<close>

definition mutationAudit ::
  "(nat \<Rightarrow> string) \<Rightarrow> MutationRequest \<Rightarrow> Portfolio \<Rightarrow> Valuation \<Rightarrow> mutationPlan \<Rightarrow> string \<Rightarrow> int \<Rightarrow> State
    \<Rightarrow> IndexValue \<Rightarrow> IndexValue \<Rightarrow> MutationAudit" where
  "mutationAudit uuid req pf val p fp versionBefore next indexBefore indexAfter =
     \<lparr>au_ID = uuid 0, au_RequestID = mr_RequestID req, au_PortfolioID = pf_ID pf,
      au_UserID = mr_UserID req, au_MutationType = mr_Kind req, au_RequestFingerprint = fp,
      au_PortfolioVersionBefore = pf_Version pf, au_PortfolioVersionAfter = pf_Version pf + 1,
      au_PerformanceVersionBefore = versionBefore, au_PerformanceVersionAfter = st_Version next,
      au_RankedIndexBefore = indexBefore, au_RankedIndexAfter = indexAfter,
      au_OccurredAt = val_ObservedAt val, au_ResultPositionID = mp_resultPositionID p\<rparr>"

definition mutationEvent ::
  "(nat \<Rightarrow> string) \<Rightarrow> MutationRequest \<Rightarrow> Portfolio \<Rightarrow> Valuation \<Rightarrow> mutationPlan \<Rightarrow> State \<Rightarrow> IndexValue \<Rightarrow> OutboxEvent" where
  "mutationEvent uuid req pf val p next indexAfter =
     \<lparr>ob_ID = uuid 1, ob_EventType = ''portfolio.mutated'', ob_AggregateType = ''portfolio'',
      ob_AggregateID = pf_ID pf, ob_AggregateVersion = pf_Version pf + 1, ob_UserID = mr_UserID req,
      ob_RankedIndex = indexAfter, ob_RankingStatus = st_Status next,
      ob_TrackingStartedAt = st_TrackingStartedAt next, ob_ValuationAsOf = val_ValuationAsOf val,
      ob_DataQualityStatus = val_DataQualityStatus val, ob_CreatedAt = val_ObservedAt val,
      ob_ProcessedAt = None, ob_AttemptCount = 0, ob_LastError = [], ob_DeadLetteredAt = None,
      ob_InstrumentID = (case mp_activity p of None \<Rightarrow> [] | Some a \<Rightarrow> act_InstrumentID a),
      ob_DisplaySymbolAtEventTime = (case mp_activity p of None \<Rightarrow> [] | Some a \<Rightarrow> act_Symbol a),
      ob_ProviderReferenceAtEventTime = []\<rparr>"

definition preparedActivities :: "declib \<Rightarrow> mutationPlan \<Rightarrow> int \<Rightarrow> Activity list" where
  "preparedActivities L p v =
     map (\<lambda>a. prepareActivity L (a\<lparr>act_PortfolioVersion := v\<rparr>))
       ((case mp_activity p of None \<Rightarrow> [] | Some a \<Rightarrow> [a]) @ mp_extraActivities p)"

definition commitWrites ::
  "declib \<Rightarrow> (nat \<Rightarrow> string) \<Rightarrow> fingerprint \<Rightarrow> ('t, 'x) AggregateTx_scheme \<Rightarrow> MutationRequest \<Rightarrow> Portfolio
    \<Rightarrow> Valuation \<Rightarrow> mutationPlan \<Rightarrow> bool \<Rightarrow> int \<Rightarrow> State \<Rightarrow> IndexValue \<Rightarrow> IndexValue \<Rightarrow> 't \<Rightarrow> err + 't" where
  "commitWrites L uuid H T req pf val p isNew versionBefore next indexBefore indexAfter t =
     rbind (run_write T (mp_write p) t) (\<lambda>t.
     rbind (tx_PutRankedState T next isNew versionBefore t) (\<lambda>t.
     rbind (tx_SetPortfolioVersion T (pf_Version pf + 1) t) (\<lambda>t.
     rbind (record_activities T (preparedActivities L p (pf_Version pf + 1)) t) (\<lambda>t.
     rbind (mustMutationFingerprint H req) (\<lambda>fp.
     rbind (tx_RecordAudit T (mutationAudit uuid req pf val p fp versionBefore next indexBefore indexAfter) t) (\<lambda>t.
       tx_AppendOutbox T (mutationEvent uuid req pf val p next indexAfter) t))))))"

section \<open>The locked mutation\<close>

text \<open>
  The result, the symbols the pinned observation misses, and the transaction. \<open>None\<close> for the
  observation is a nil pointer, which the first use of it dereferences.
\<close>

definition applyMutation ::
  "declib \<Rightarrow> (nat \<Rightarrow> string) \<Rightarrow> fingerprint \<Rightarrow> snapshot_boundary option \<Rightarrow> ('t, 'x) AggregateTx_scheme
    \<Rightarrow> MutationRequest \<Rightarrow> Valuation \<Rightarrow> 't \<Rightarrow> err + (MutationResult \<times> string list \<times> 't)" where
  "applyMutation L uuid H history T req val t =
     (let pf = tx_Portfolio T t; ps = tx_Positions T t; oldOpen = openPositions ps;
          oldCash = tx_CashBalances T t; miss = Missing val (openSymbols ps)
      in if miss \<noteq> [] then Inr (zero_result, miss, t)
         else rbind (plan L (\<lambda>n. uuid (n + 2)) req pf ps oldCash val) (\<lambda>p.
              rbind (planValues L val oldOpen oldCash p) (\<lambda>(vb, hb, va, ha).
              rbind (tx_RankedState T t) (\<lambda>found.
                let state = initialState L found (pf_ID pf) (mr_UserID req) vb hb (val_ObservedAt val)
                in rbind (validateCorrection history req (pf_ID pf) (tx_LedgerActivities T t) state (found \<noteq> None)) (\<lambda>_.
                   rbind (rankedTransition L req pf val p state vb hb va ha) (\<lambda>(next, indexBefore, indexAfter).
                   rbind (commitWrites L uuid H T req pf val p (found = None) (st_Version state) next
                            indexBefore indexAfter t) (\<lambda>t'.
                     Inr (zero_result
                            \<lparr>res_Position := mp_resultPosition p, res_Closed := mp_resultClosed p,
                             res_PortfolioVersion := pf_Version pf + 1,
                             res_RankedIndexBefore := indexBefore, res_RankedIndexAfter := indexAfter,
                             res_RankingStatus := st_Status next,
                             res_Activity := map_option
                               (\<lambda>a. prepareActivity L (a\<lparr>act_PortfolioVersion := pf_Version pf + 1\<rparr>))
                               (mp_activity p)\<rparr>, [], t'))))))))"

definition applyLocked ::
  "declib \<Rightarrow> (nat \<Rightarrow> string) \<Rightarrow> fingerprint \<Rightarrow> snapshot_boundary option \<Rightarrow> ('t, 'x) AggregateTx_scheme
    \<Rightarrow> MutationRequest \<Rightarrow> Valuation option \<Rightarrow> 't \<Rightarrow> err + (MutationResult \<times> string list \<times> 't)" where
  "applyLocked L uuid H history T req val t =
     rbind (if mr_RequestID req = [] then Inr None else tx_FindAuditByRequestID T (mr_RequestID req) t) (\<lambda>found.
       case found of
         Some audit \<Rightarrow>
           rbind (checkIdempotencyAudit H audit req) (\<lambda>_. Inr (replay T t audit, [], t))
       | None \<Rightarrow>
           (case val of None \<Rightarrow> Inl Panic | Some v \<Rightarrow> applyMutation L uuid H history T req v t))"

end
