(* ===== verification/MemoryStore.thy ===== *)
theory MemoryStore
  imports Coordinator
begin

text \<open>
  \<^verbatim>\<open>memory_store.go\<close> and \<^verbatim>\<open>repository.go\<close>: the in-memory store. A \<open>memoryTx\<close> stages every write of
  one mutation; \<open>commit\<close> publishes it into the repository. Go maps whose iteration order the code
  exposes (the cash balances of a portfolio) are association lists; the others are maps. The staged
  transaction carries the two fields of the store it reads (the faults and the committed audit
  records), so that it is a value of its own. The mutexes serialise what is one function here.
\<close>

section \<open>State\<close>

record Faults =
  f_CreatePosition :: "err option"
  f_UpdatePosition :: "err option"
  f_DeletePosition :: "err option"
  f_ReplacePositions :: "err option"
  f_InsertRankedState :: "err option"
  f_UpdateRankedState :: "err option"
  f_AppendOutbox :: "err option"
  f_RecordAudit :: "err option"
  f_SetPortfolioVersion :: "err option"
  f_Commit :: "err option"
  f_PutCash :: "err option"
  f_RecordActivity :: "err option"

record aggregateState =
  ag_portfolio :: Portfolio
  ag_positions :: "string \<rightharpoonup> Position"
  ag_order :: "string list"
  ag_ranked :: "State option"
  ag_cash :: "(string \<times> CashBalance) list"
  ag_activities :: "Activity list"

record memoryTx =
  mt_faults :: Faults
  mt_storeAudits :: "string \<rightharpoonup> MutationAudit"
  mt_portfolio :: Portfolio
  mt_positions :: "string \<rightharpoonup> Position"
  mt_order :: "string list"
  mt_loaded :: "Position list"
  mt_cash :: "(string \<times> CashBalance) list"
  mt_activities :: "Activity list"
  mt_ranked :: "State option"
  mt_rankedDirty :: bool
  mt_newVersion :: "int option"
  mt_outbox :: "OutboxEvent list"
  mt_audits :: "MutationAudit list"

record InMemoryRepository =
  im_aggregates :: "string \<rightharpoonup> aggregateState"
  im_userPortfolio :: "string \<rightharpoonup> string"
  im_outbox :: "OutboxEvent list"
  im_claimed :: "string \<Rightarrow> bool"
  im_nextAttempt :: "string \<rightharpoonup> time"
  im_audits :: "string \<rightharpoonup> MutationAudit"
  im_auditLog :: "MutationAudit list"
  im_faults :: Faults

text \<open>A fault hook: a nil hook never fails.\<close>

fun fault :: "err option \<Rightarrow> err + 'a \<Rightarrow> err + 'a" where
  "fault (Some e) r = Inl e"
| "fault None r = r"

lemma fault_Inr_iff [simp]: "(fault h r = Inr x) = (h = None \<and> r = Inr x)"
  by (cases h) auto

definition no_faults :: Faults where
  "no_faults =
     \<lparr>f_CreatePosition = None, f_UpdatePosition = None, f_DeletePosition = None,
      f_ReplacePositions = None, f_InsertRankedState = None, f_UpdateRankedState = None,
      f_AppendOutbox = None, f_RecordAudit = None, f_SetPortfolioVersion = None, f_Commit = None,
      f_PutCash = None, f_RecordActivity = None\<rparr>"

definition NewInMemoryRepository :: InMemoryRepository where
  "NewInMemoryRepository =
     \<lparr>im_aggregates = Map.empty, im_userPortfolio = Map.empty, im_outbox = [],
      im_claimed = (\<lambda>_. False), im_nextAttempt = Map.empty, im_audits = Map.empty,
      im_auditLog = [], im_faults = no_faults\<rparr>"

definition audit_key :: "string \<Rightarrow> string \<Rightarrow> string" where
  "audit_key portfolioID requestID = portfolioID @ ''|'' @ requestID"

section \<open>The staged transaction\<close>

definition mem_CashBalances :: "memoryTx \<Rightarrow> CashBalance list" where
  "mem_CashBalances t = map snd (mt_cash t)"

definition mem_PutCashBalance :: "declib \<Rightarrow> CashBalance \<Rightarrow> memoryTx \<Rightarrow> err + memoryTx" where
  "mem_PutCashBalance L balance t =
     fault (f_PutCash (mt_faults t))
       (if Decimal_Sign L (cb_Amount balance) < 0 then Inl ErrInsufficientCash
        else Inr (t\<lparr>mt_cash := AList.update (cb_Currency balance) balance (mt_cash t)\<rparr>))"

definition mem_RecordActivity :: "Activity \<Rightarrow> memoryTx \<Rightarrow> err + memoryTx" where
  "mem_RecordActivity activity t =
     fault (f_RecordActivity (mt_faults t))
       (if list_ex (\<lambda>existing. act_RequestID activity \<noteq> [] \<and> act_RequestID existing = act_RequestID activity)
             (mt_activities t)
        then Inl ErrDuplicateActivity
        else Inr (t\<lparr>mt_activities := mt_activities t @ [activity]\<rparr>))"

definition mem_LedgerActivities :: "memoryTx \<Rightarrow> err + Activity list" where
  "mem_LedgerActivities t = Inr (mt_activities t)"

definition mem_FindActivityByRequestID :: "string \<Rightarrow> memoryTx \<Rightarrow> err + Activity option" where
  "mem_FindActivityByRequestID requestID t =
     Inr (find (\<lambda>a. act_RequestID a = requestID) (mt_activities t))"

definition stored_position :: "Position \<Rightarrow> Position" where
  "stored_position p = (if pos_Status p = [] then p\<lparr>pos_Status := PositionStatusOpen\<rparr> else p)"

definition mem_CreatePosition :: "Position \<Rightarrow> memoryTx \<Rightarrow> err + memoryTx" where
  "mem_CreatePosition p t =
     fault (f_CreatePosition (mt_faults t))
       (Inr (t\<lparr>mt_positions := (mt_positions t)(pos_ID p \<mapsto> stored_position p),
               mt_order := mt_order t @ [pos_ID p]\<rparr>))"

definition mem_UpdatePosition :: "Position \<Rightarrow> memoryTx \<Rightarrow> err + memoryTx" where
  "mem_UpdatePosition p t =
     fault (f_UpdatePosition (mt_faults t))
       (if mt_positions t (pos_ID p) = None then Inl ErrPositionNotFound
        else Inr (t\<lparr>mt_positions := (mt_positions t)(pos_ID p \<mapsto> p)\<rparr>))"

definition mem_DeletePosition :: "string \<Rightarrow> memoryTx \<Rightarrow> err + memoryTx" where
  "mem_DeletePosition pid t =
     fault (f_DeletePosition (mt_faults t))
       (if mt_positions t pid = None then Inl ErrPositionNotFound
        else Inr (t\<lparr>mt_positions := (mt_positions t)(pid := None), mt_order := remove1 pid (mt_order t)\<rparr>))"

text \<open>The two loops of \<open>ReplaceOpenPositions\<close>: drop the open positions, then append the new ones.\<close>

definition id_is_open :: "(string \<rightharpoonup> Position) \<Rightarrow> string \<Rightarrow> bool" where
  "id_is_open m pid = (case m pid of Some p \<Rightarrow> is_open p | None \<Rightarrow> False)"

fun drop_open :: "string list \<Rightarrow> (string \<rightharpoonup> Position) \<Rightarrow> string list \<times> (string \<rightharpoonup> Position)" where
  "drop_open [] m = ([], m)"
| "drop_open (pid # ids) m =
     (if id_is_open m pid then drop_open ids (m(pid := None))
      else let (kept, m') = drop_open ids m in (pid # kept, m'))"

fun append_positions ::
  "Position list \<Rightarrow> string list \<times> (string \<rightharpoonup> Position) \<Rightarrow> string list \<times> (string \<rightharpoonup> Position)" where
  "append_positions [] st = st"
| "append_positions (p # ps) (order, m) =
     append_positions ps (order @ [pos_ID p], m(pos_ID p \<mapsto> stored_position p))"

definition mem_ReplaceOpenPositions :: "Position list \<Rightarrow> memoryTx \<Rightarrow> err + memoryTx" where
  "mem_ReplaceOpenPositions newPositions t =
     fault (f_ReplacePositions (mt_faults t))
       (let (order, m) = append_positions newPositions (drop_open (mt_order t) (mt_positions t))
        in Inr (t\<lparr>mt_order := order, mt_positions := m\<rparr>))"

definition mem_RankedState :: "memoryTx \<Rightarrow> err + State option" where
  "mem_RankedState t = Inr (map_option CloneState (mt_ranked t))"

definition mem_PutRankedState :: "declib \<Rightarrow> State \<Rightarrow> bool \<Rightarrow> int \<Rightarrow> memoryTx \<Rightarrow> err + memoryTx" where
  "mem_PutRankedState L state isNew expectedVersion t =
     rbind (if isNew then
              fault (f_InsertRankedState (mt_faults t))
                (if mt_ranked t \<noteq> None then Inl (PerfErr ErrVersionConflict) else Inr ())
            else
              fault (f_UpdateRankedState (mt_faults t))
                (case mt_ranked t of
                   None \<Rightarrow> Inl (PerfErr ErrStateNotFound)
                 | Some old \<Rightarrow> if st_Version old \<noteq> expectedVersion then Inl (PerfErr ErrVersionConflict)
                              else Inr ())) (\<lambda>_.
     rbind (lift_perf (ValidateState L state)) (\<lambda>_.
       Inr (t\<lparr>mt_ranked := Some (CloneState state), mt_rankedDirty := True\<rparr>)))"

definition mem_SetPortfolioVersion :: "int \<Rightarrow> memoryTx \<Rightarrow> err + memoryTx" where
  "mem_SetPortfolioVersion version t =
     fault (f_SetPortfolioVersion (mt_faults t)) (Inr (t\<lparr>mt_newVersion := Some version\<rparr>))"

definition mem_AppendOutbox :: "OutboxEvent \<Rightarrow> memoryTx \<Rightarrow> err + memoryTx" where
  "mem_AppendOutbox ev t =
     fault (f_AppendOutbox (mt_faults t)) (Inr (t\<lparr>mt_outbox := mt_outbox t @ [ev]\<rparr>))"

definition mem_RecordAudit :: "MutationAudit \<Rightarrow> memoryTx \<Rightarrow> err + memoryTx" where
  "mem_RecordAudit a t =
     fault (f_RecordAudit (mt_faults t)) (Inr (t\<lparr>mt_audits := mt_audits t @ [a]\<rparr>))"

definition mem_FindAuditByRequestID :: "string \<Rightarrow> memoryTx \<Rightarrow> err + MutationAudit option" where
  "mem_FindAuditByRequestID requestID t =
     Inr (mt_storeAudits t (audit_key (pf_ID (mt_portfolio t)) requestID))"

definition memory_tx :: "declib \<Rightarrow> memoryTx AggregateTx" where
  "memory_tx L =
     \<lparr>tx_Portfolio = mt_portfolio, tx_Positions = mt_loaded, tx_CashBalances = mem_CashBalances,
      tx_CreatePosition = mem_CreatePosition, tx_UpdatePosition = mem_UpdatePosition,
      tx_DeletePosition = mem_DeletePosition, tx_ReplaceOpenPositions = mem_ReplaceOpenPositions,
      tx_PutCashBalance = mem_PutCashBalance L, tx_RecordActivity = mem_RecordActivity,
      tx_FindActivityByRequestID = mem_FindActivityByRequestID,
      tx_LedgerActivities = mem_LedgerActivities, tx_RankedState = mem_RankedState,
      tx_PutRankedState = mem_PutRankedState L, tx_SetPortfolioVersion = mem_SetPortfolioVersion,
      tx_AppendOutbox = mem_AppendOutbox, tx_RecordAudit = mem_RecordAudit,
      tx_FindAuditByRequestID = mem_FindAuditByRequestID\<rparr>"

section \<open>The store\<close>

text \<open>\<open>newID\<close> and \<open>now\<close> are the identifier and instant the call would draw for a new portfolio.\<close>

definition aggregateFor :: "string \<Rightarrow> time \<Rightarrow> string \<Rightarrow> InMemoryRepository \<Rightarrow> string \<times> InMemoryRepository" where
  "aggregateFor newID now userID r =
     (case im_userPortfolio r userID of
        Some pid \<Rightarrow> (pid, r)
      | None \<Rightarrow>
          (newID, r\<lparr>im_aggregates := (im_aggregates r)(newID \<mapsto>
                      \<lparr>ag_portfolio = \<lparr>pf_ID = newID, pf_UserID = userID, pf_Name = ''Default Portfolio'',
                         pf_Currency = ''USD'', pf_Version = 1, pf_AutoFundPurchases = True,
                         pf_CreatedAt = now, pf_UpdatedAt = now\<rparr>,
                       ag_positions = Map.empty, ag_order = [], ag_ranked = None, ag_cash = [],
                       ag_activities = []\<rparr>),
                    im_userPortfolio := (im_userPortfolio r)(userID \<mapsto> newID)\<rparr>))"

text \<open>The copies of the positions in the insertion order (\<open>sortedPositions\<close>, and the loop of \<open>WithLockedPortfolio\<close>).\<close>

definition sortedPositions :: "string list \<Rightarrow> (string \<rightharpoonup> Position) \<Rightarrow> Position list" where
  "sortedPositions order m = List.map_filter m order"

definition open_tx :: "InMemoryRepository \<Rightarrow> aggregateState \<Rightarrow> memoryTx" where
  "open_tx r agg =
     \<lparr>mt_faults = im_faults r, mt_storeAudits = im_audits r, mt_portfolio = ag_portfolio agg,
      mt_positions = ag_positions agg, mt_order = ag_order agg,
      mt_loaded = sortedPositions (ag_order agg) (ag_positions agg), mt_cash = ag_cash agg,
      mt_activities = ag_activities agg, mt_ranked = map_option CloneState (ag_ranked agg),
      mt_rankedDirty = False, mt_newVersion = None, mt_outbox = [], mt_audits = []\<rparr>"

fun commit_audits :: "MutationAudit list \<Rightarrow> (string \<rightharpoonup> MutationAudit) \<Rightarrow> (string \<rightharpoonup> MutationAudit)" where
  "commit_audits [] m = m"
| "commit_audits (a # as) m =
     commit_audits as (if au_RequestID a \<noteq> []
       then m(audit_key (au_PortfolioID a) (au_RequestID a) \<mapsto> a) else m)"

definition commit_aggregate :: "memoryTx \<Rightarrow> aggregateState \<Rightarrow> aggregateState" where
  "commit_aggregate t agg =
     agg\<lparr>ag_positions := mt_positions t, ag_order := mt_order t, ag_cash := mt_cash t,
         ag_activities := mt_activities t,
         ag_ranked := (if mt_rankedDirty t then mt_ranked t else ag_ranked agg),
         ag_portfolio := (case mt_newVersion t of None \<Rightarrow> ag_portfolio agg
                          | Some v \<Rightarrow> (mt_portfolio t)\<lparr>pf_Version := v\<rparr>)\<rparr>"

definition commit :: "string \<Rightarrow> memoryTx \<Rightarrow> InMemoryRepository \<Rightarrow> err + InMemoryRepository" where
  "commit pid t r =
     fault (f_Commit (im_faults r))
       (Inr (r\<lparr>im_aggregates := (im_aggregates r)(pid := map_option (commit_aggregate t) (im_aggregates r pid)),
               im_outbox := im_outbox r @ mt_outbox t,
               im_audits := commit_audits (mt_audits t) (im_audits r),
               im_auditLog := im_auditLog r @ mt_audits t\<rparr>))"

text \<open>
  \<open>ctx1\<close> and \<open>ctx2\<close> are the two readings of \<open>ctx.Err()\<close>, before and after the lock is taken. The
  body is given the staged transaction and returns its result with it; the repository it leaves is
  the old one (with the default portfolio, if it had to be created) unless everything succeeds.
\<close>

definition WithLockedPortfolio ::
  "err option \<Rightarrow> err option \<Rightarrow> string \<Rightarrow> time \<Rightarrow> string \<Rightarrow> (memoryTx \<Rightarrow> err + ('a \<times> memoryTx))
    \<Rightarrow> InMemoryRepository \<Rightarrow> (err + 'a) \<times> InMemoryRepository" where
  "WithLockedPortfolio ctx1 ctx2 newID now userID body r =
     (case ctx1 of
        Some e \<Rightarrow> (Inl e, r)
      | None \<Rightarrow>
          let (pid, r) = aggregateFor newID now userID r in
          (case ctx2 of
             Some e \<Rightarrow> (Inl e, r)
           | None \<Rightarrow>
               (case im_aggregates r pid of
                  None \<Rightarrow> (Inl Panic, r)
                | Some agg \<Rightarrow>
                    (case body (open_tx r agg) of
                       Inl e \<Rightarrow> (Inl e, r)
                     | Inr (x, t) \<Rightarrow>
                         (case commit pid t r of
                            Inl e \<Rightarrow> (Inl e, r)
                          | Inr r' \<Rightarrow> (Inr x, r'))))))"

definition FindAuditByRequestID :: "string \<Rightarrow> string \<Rightarrow> InMemoryRepository \<Rightarrow> MutationAudit option" where
  "FindAuditByRequestID userID requestID r =
     (case im_userPortfolio r userID of
        None \<Rightarrow> None
      | Some portfolioID \<Rightarrow> im_audits r (audit_key portfolioID requestID))"

definition store_GetByPortfolio :: "string \<Rightarrow> InMemoryRepository \<Rightarrow> perr + State" where
  "store_GetByPortfolio portfolioID r =
     (case im_aggregates r portfolioID of
        None \<Rightarrow> Inl ErrStateNotFound
      | Some agg \<Rightarrow> from_option ErrStateNotFound (map_option CloneState (ag_ranked agg)))"

definition GetPortfolioByUser :: "err option \<Rightarrow> string \<Rightarrow> InMemoryRepository \<Rightarrow> err + Portfolio" where
  "GetPortfolioByUser ctx userID r =
     fault ctx (case im_userPortfolio r userID of
        None \<Rightarrow> Inl ErrPortfolioNotFound
      | Some pid \<Rightarrow> (case im_aggregates r pid of
           None \<Rightarrow> Inl Panic
         | Some agg \<Rightarrow> Inr (ag_portfolio agg)))"

definition EnsureDefaultPortfolio ::
  "err option \<Rightarrow> string \<Rightarrow> time \<Rightarrow> string \<Rightarrow> InMemoryRepository \<Rightarrow> err + (Portfolio \<times> InMemoryRepository)" where
  "EnsureDefaultPortfolio ctx newID now userID r =
     fault ctx (let (pid, r) = aggregateFor newID now userID r in
       (case im_aggregates r pid of None \<Rightarrow> Inl Panic | Some agg \<Rightarrow> Inr (ag_portfolio agg, r)))"

definition SetAutoFundPurchases ::
  "err option \<Rightarrow> string \<Rightarrow> bool \<Rightarrow> InMemoryRepository \<Rightarrow> err + InMemoryRepository" where
  "SetAutoFundPurchases ctx userID enabled r =
     fault ctx (case im_userPortfolio r userID of
        None \<Rightarrow> Inl ErrPortfolioNotFound
      | Some pid \<Rightarrow> (case im_aggregates r pid of
           None \<Rightarrow> Inl Panic
         | Some agg \<Rightarrow> Inr (r\<lparr>im_aggregates := (im_aggregates r)(pid \<mapsto>
             agg\<lparr>ag_portfolio := (ag_portfolio agg)\<lparr>pf_AutoFundPurchases := enabled\<rparr>\<rparr>)\<rparr>)))"

definition ListPositionsByUser :: "err option \<Rightarrow> string \<Rightarrow> InMemoryRepository \<Rightarrow> err + Position list" where
  "ListPositionsByUser ctx userID r =
     fault ctx (case im_userPortfolio r userID of
        None \<Rightarrow> Inr []
      | Some pid \<Rightarrow> (case im_aggregates r pid of
           None \<Rightarrow> Inl Panic
         | Some agg \<Rightarrow> Inr (sortedPositions (ag_order agg) (ag_positions agg))))"

section \<open>The outbox\<close>

definition outboxMaxAttempts :: int where "outboxMaxAttempts = 10"

text \<open>Durations are in nanoseconds; \<open>outboxMaxBackoff\<close> is one hour.\<close>

definition time_Second :: int where "time_Second = 1000000000"
definition outboxMaxBackoff :: int where "outboxMaxBackoff = 3600 * time_Second"

definition outbox_backoff :: "int \<Rightarrow> int" where
  "outbox_backoff attempts =
     (let backoff = 2 ^ nat attempts * time_Second
      in if outboxMaxBackoff < backoff then outboxMaxBackoff else backoff)"

definition claimable :: "time \<Rightarrow> (string \<Rightarrow> bool) \<Rightarrow> (string \<rightharpoonup> time) \<Rightarrow> OutboxEvent \<Rightarrow> bool" where
  "claimable now claimed nextAttempt ev =
     (ob_ProcessedAt ev = None \<and> ob_DeadLetteredAt ev = None \<and> \<not> claimed (ob_ID ev) \<and>
      (case nextAttempt (ob_ID ev) of None \<Rightarrow> True | Some next \<Rightarrow> \<not> now < next))"

text \<open>The loop over the outbox: \<open>room\<close> is what is left of the limit.\<close>

fun claim_loop ::
  "time \<Rightarrow> int \<Rightarrow> (string \<rightharpoonup> time) \<Rightarrow> (string \<Rightarrow> bool) \<Rightarrow> OutboxEvent list
    \<Rightarrow> OutboxEvent list \<times> OutboxEvent list \<times> (string \<Rightarrow> bool)" where
  "claim_loop now room nextAttempt claimed [] = ([], [], claimed)"
| "claim_loop now room nextAttempt claimed (ev # evs) =
     (if room \<le> 0 then ([], ev # evs, claimed)
      else if \<not> claimable now claimed nextAttempt ev
      then let (out, rest, c) = claim_loop now room nextAttempt claimed evs in (out, ev # rest, c)
      else let ev' = ev\<lparr>ob_AttemptCount := ob_AttemptCount ev + 1\<rparr>;
               (out, rest, c) = claim_loop now (room - 1) nextAttempt (claimed(ob_ID ev := True)) evs
           in (ev' # out, ev' # rest, c))"

definition ClaimOutboxEvents ::
  "time \<Rightarrow> nat \<Rightarrow> InMemoryRepository \<Rightarrow> OutboxEvent list \<times> InMemoryRepository" where
  "ClaimOutboxEvents now limit r =
     (let (out, evs, claimed) = claim_loop now (int limit) (im_nextAttempt r) (im_claimed r) (im_outbox r)
      in (out, r\<lparr>im_outbox := evs, im_claimed := claimed\<rparr>))"

text \<open>The first event with an id is updated, the others are left alone.\<close>

fun update_first :: "('a \<Rightarrow> bool) \<Rightarrow> ('a \<Rightarrow> 'a) \<Rightarrow> 'a list \<Rightarrow> 'a list" where
  "update_first P f [] = []"
| "update_first P f (x # xs) = (if P x then f x # xs else x # update_first P f xs)"

definition MarkOutboxProcessed :: "time \<Rightarrow> string \<Rightarrow> InMemoryRepository \<Rightarrow> InMemoryRepository" where
  "MarkOutboxProcessed now eid r =
     (case find (\<lambda>e. ob_ID e = eid) (im_outbox r) of
        None \<Rightarrow> r
      | Some _ \<Rightarrow> r\<lparr>im_outbox := update_first (\<lambda>e. ob_ID e = eid) (\<lambda>e. e\<lparr>ob_ProcessedAt := Some now\<rparr>) (im_outbox r),
                    im_claimed := (im_claimed r)(eid := False)\<rparr>)"

definition MarkOutboxFailed :: "time \<Rightarrow> string \<Rightarrow> string \<Rightarrow> InMemoryRepository \<Rightarrow> InMemoryRepository" where
  "MarkOutboxFailed now eid cause r =
     (let r = r\<lparr>im_claimed := (im_claimed r)(eid := False)\<rparr> in
      case find (\<lambda>e. ob_ID e = eid) (im_outbox r) of
        None \<Rightarrow> r
      | Some ev \<Rightarrow>
          if outboxMaxAttempts \<le> ob_AttemptCount ev then
            r\<lparr>im_outbox := update_first (\<lambda>e. ob_ID e = eid)
                (\<lambda>e. e\<lparr>ob_LastError := cause, ob_DeadLetteredAt := Some now\<rparr>) (im_outbox r),
              im_nextAttempt := (im_nextAttempt r)(eid := None)\<rparr>
          else
            r\<lparr>im_outbox := update_first (\<lambda>e. ob_ID e = eid) (\<lambda>e. e\<lparr>ob_LastError := cause\<rparr>) (im_outbox r),
              im_nextAttempt := (im_nextAttempt r)(eid \<mapsto> now + outbox_backoff (ob_AttemptCount ev))\<rparr>)"

definition pending_events :: "OutboxEvent list \<Rightarrow> OutboxEvent list" where
  "pending_events evs = filter (\<lambda>e. ob_ProcessedAt e = None \<and> ob_DeadLetteredAt e = None) evs"

definition oldest_created :: "OutboxEvent list \<Rightarrow> time" where
  "oldest_created evs =
     foldl (\<lambda>oldest e. if time_IsZero oldest \<or> ob_CreatedAt e < oldest then ob_CreatedAt e else oldest)
       0 evs"

definition OutboxBacklog :: "err option \<Rightarrow> time \<Rightarrow> InMemoryRepository \<Rightarrow> err + (int \<times> int)" where
  "OutboxBacklog ctx now r =
     fault ctx (let pending = pending_events (im_outbox r); oldest = oldest_created pending
       in Inr (int (length pending), if time_IsZero oldest then 0 else now - oldest))"

definition ListDeadLetteredOutbox :: "nat \<Rightarrow> InMemoryRepository \<Rightarrow> OutboxEvent list" where
  "ListDeadLetteredOutbox limit r =
     take limit (filter (\<lambda>e. ob_DeadLetteredAt e \<noteq> None) (rev (im_outbox r)))"

definition RequeueOutboxEvent :: "string \<Rightarrow> InMemoryRepository \<Rightarrow> err + InMemoryRepository" where
  "RequeueOutboxEvent eid r =
     (case find (\<lambda>e. ob_ID e = eid \<and> ob_DeadLetteredAt e \<noteq> None) (im_outbox r) of
        None \<Rightarrow> Inl ErrOutboxEventNotDeadLettered
      | Some _ \<Rightarrow> Inr (r\<lparr>im_outbox := update_first (\<lambda>e. ob_ID e = eid \<and> ob_DeadLetteredAt e \<noteq> None)
            (\<lambda>e. e\<lparr>ob_DeadLetteredAt := None, ob_AttemptCount := 0, ob_LastError := []\<rparr>) (im_outbox r),
          im_nextAttempt := (im_nextAttempt r)(eid := None),
          im_claimed := (im_claimed r)(eid := False)\<rparr>))"

section \<open>Account deletion\<close>

text \<open>
  \<open>OnAccountDeleted\<close> without the archive snapshots, which are not modelled. A user without a
  portfolio reads as the empty id.
\<close>

definition OnAccountDeleted :: "string \<Rightarrow> InMemoryRepository \<Rightarrow> InMemoryRepository" where
  "OnAccountDeleted userID r =
     (let portfolioID = (case im_userPortfolio r userID of None \<Rightarrow> [] | Some pid \<Rightarrow> pid)
      in r\<lparr>im_userPortfolio := (im_userPortfolio r)(userID := None),
           im_aggregates := (im_aggregates r)(portfolioID := None),
           im_claimed := (\<lambda>i. im_claimed r i \<and> \<not> list_ex (\<lambda>e. ob_UserID e = userID \<and> ob_ID e = i) (im_outbox r)),
           im_outbox := filter (\<lambda>e. ob_UserID e \<noteq> userID) (im_outbox r),
           im_audits := (\<lambda>k. case im_audits r k of None \<Rightarrow> None
                          | Some a \<Rightarrow> if au_UserID a = userID then None else Some a),
           im_auditLog := filter (\<lambda>a. au_UserID a \<noteq> userID) (im_auditLog r)\<rparr>)"

end
