(* ===== verification/Apply.thy ===== *)
theory Apply
  imports MemoryStore
begin

text \<open>
  \<^verbatim>\<open>coordinator.go\<close>, the outer part of a mutation on the in-memory store: validation, the
  idempotency preflight, pricing before the lock, and the bounded rebuild loop; and the
  initialisation of the ranked epoch.

  Other writers are explicit: \<open>en_other k\<close> is what they do to the store before this mutation takes
  the lock for the \<open>k\<close>-th time. The environment also gives the context readings, the identifiers
  drawn in each attempt and the instant of the clock.
\<close>

record mutation_env =
  en_ctx :: "nat \<Rightarrow> err option \<times> err option"
  en_readCtx :: "nat \<Rightarrow> err option"
  en_uuid :: "nat \<Rightarrow> nat \<Rightarrow> string"
  en_newID :: "nat \<Rightarrow> string"
  en_now :: time
  en_other :: "nat \<Rightarrow> InMemoryRepository \<Rightarrow> InMemoryRepository"
  en_provider :: price_provider
  en_fx :: fx_provider
  en_history :: "snapshot_boundary option"
  en_fingerprint :: fingerprint

definition maxMutationAttempts :: nat where
  "maxMutationAttempts = 3"

definition locked ::
  "mutation_env \<Rightarrow> nat \<Rightarrow> string \<Rightarrow> (memoryTx \<Rightarrow> err + ('a \<times> memoryTx)) \<Rightarrow> InMemoryRepository
    \<Rightarrow> (err + 'a) \<times> InMemoryRepository" where
  "locked E k userID body r =
     WithLockedPortfolio (fst (en_ctx E k)) (snd (en_ctx E k)) (en_newID E k) (en_now E) userID body
       (en_other E k r)"

section \<open>Pricing the held positions\<close>

definition observeHeldPositions ::
  "declib \<Rightarrow> mutation_env \<Rightarrow> Valuation \<Rightarrow> MutationRequest \<Rightarrow> Position list \<Rightarrow> err + Valuation" where
  "observeHeldPositions L E val req positions =
     (let exempt = (if mr_Kind req = MutationWriteOff
                    then ToUpper (TrimSpace (ca_Symbol (mr_CorpAction req))) else []);
          toObserve = filter (\<lambda>s. \<not> (exempt \<noteq> [] \<and> s = exempt)) (openSymbols positions)
      in rbind (observe L (en_provider E) (en_fx E) val toObserve) (\<lambda>val.
         if exempt = [] then Inr val
         else if Quote val exempt \<noteq> None then Inr val
         else case find (\<lambda>p. pos_Symbol p = exempt \<and> is_open p) positions of
                None \<Rightarrow> Inr val
              | Some p \<Rightarrow>
                  (case val_rates val (pos_Currency p) of
                     None \<Rightarrow> Inl ErrUnsupportedCurrency
                   | Some rate \<Rightarrow>
                       if Decimal_Sign L rate \<le> 0 then Inl ErrUnsupportedCurrency
                       else Inr (pinCostBasisFallback val exempt (pos_AverageBuyPrice p) (pos_Currency p)))))"

definition observeMissingAfterRebuild ::
  "declib \<Rightarrow> mutation_env \<Rightarrow> Valuation \<Rightarrow> MutationRequest \<Rightarrow> string list \<Rightarrow> err + Position list \<Rightarrow> err + Valuation" where
  "observeMissingAfterRebuild L E val req missing reading =
     (if mr_Kind req \<noteq> MutationWriteOff then observe L (en_provider E) (en_fx E) val missing
      else case reading of
        Inl _ \<Rightarrow> observe L (en_provider E) (en_fx E) val missing
      | Inr positions \<Rightarrow> observeHeldPositions L E val req positions)"

section \<open>Applying a mutation\<close>

definition lockedBody ::
  "declib \<Rightarrow> mutation_env \<Rightarrow> nat \<Rightarrow> MutationRequest \<Rightarrow> Valuation \<Rightarrow> memoryTx \<Rightarrow> err + (MutationResult \<times> memoryTx)" where
  "lockedBody L E k req val t =
     rbind (applyLocked L (en_uuid E k) (en_fingerprint E) (en_history E) (memory_tx L) req (Some val) t)
       (\<lambda>(res, miss, t'). if miss \<noteq> [] then Inl (errRebuildValuation miss) else Inr (res, t'))"

text \<open>The rebuild loop: \<open>k\<close> attempts have been made, the second argument is how many are left.\<close>

fun apply_attempts ::
  "declib \<Rightarrow> mutation_env \<Rightarrow> nat \<Rightarrow> nat \<Rightarrow> MutationRequest \<Rightarrow> Valuation \<Rightarrow> InMemoryRepository
    \<Rightarrow> (err + MutationResult) \<times> InMemoryRepository" where
  "apply_attempts L E k 0 req val r = (Inl ErrMutationConflict, r)"
| "apply_attempts L E k (Suc n) req val r =
     (case locked E k (mr_UserID req) (lockedBody L E k req val) r of
        (Inr res, r') \<Rightarrow> (Inr res, r')
      | (Inl e, r') \<Rightarrow>
          (case e of
             errRebuildValuation missing \<Rightarrow>
               (case observeMissingAfterRebuild L E val req missing
                       (ListPositionsByUser (en_readCtx E (Suc k)) (mr_UserID req) r') of
                  Inl e' \<Rightarrow> (Inl e', r')
                | Inr val' \<Rightarrow> apply_attempts L E (Suc k) n req val' r')
           | _ \<Rightarrow> (Inl e, r')))"

text \<open>The market observation pinned before the lock.\<close>

definition pinObservation ::
  "declib \<Rightarrow> mutation_env \<Rightarrow> MutationRequest \<Rightarrow> string list \<Rightarrow> InMemoryRepository \<Rightarrow> err + Valuation" where
  "pinObservation L E req seed r =
     rbind (observe_currencies L (en_fx E) (newValuation (en_now E)) [''USD'', ''TRY'', ''EUR'', ''GBP'']) (\<lambda>val.
     rbind (case observe L (en_provider E) (en_fx E) val seed of
              Inl e \<Rightarrow> Inl (if e = ErrPriceProvider then ErrUnsupportedSymbol else e)
            | Inr v \<Rightarrow> Inr v) (\<lambda>val.
       case ListPositionsByUser (en_readCtx E 0) (mr_UserID req) r of
         Inl _ \<Rightarrow> Inr val
       | Inr pre \<Rightarrow> observeHeldPositions L E val req pre))"

definition Apply ::
  "declib \<Rightarrow> mutation_env \<Rightarrow> MutationRequest \<Rightarrow> InMemoryRepository
    \<Rightarrow> (err + MutationResult) \<times> InMemoryRepository" where
  "Apply L E req0 r =
     (case validate L req0 of
        Inl e \<Rightarrow> (Inl e, r)
      | Inr (req, seed) \<Rightarrow>
          (case (if mr_RequestID req = [] then None
                 else FindAuditByRequestID (mr_UserID req) (mr_RequestID req) r) of
             Some audit \<Rightarrow>
               (case checkIdempotencyAudit (en_fingerprint E) audit req of
                  Inl e \<Rightarrow> (Inl e, r)
                | Inr _ \<Rightarrow>
                    locked E 0 (mr_UserID req)
                      (\<lambda>t. rbind (applyLocked L (en_uuid E 0) (en_fingerprint E) (en_history E)
                              (memory_tx L) req None t) (\<lambda>(res, miss, t'). Inr (res, t'))) r)
           | None \<Rightarrow>
               (case pinObservation L E req seed r of
                  Inl e \<Rightarrow> (Inl e, r)
                | Inr val \<Rightarrow> apply_attempts L E 0 maxMutationAttempts req val r)))"

section \<open>Initialising the ranked epoch\<close>

definition epochBody :: "declib \<Rightarrow> string \<Rightarrow> Valuation \<Rightarrow> memoryTx \<Rightarrow> err + (unit \<times> memoryTx)" where
  "epochBody L userID val t =
     (let T = memory_tx L in
      rbind (tx_RankedState T t) (\<lambda>found.
        if found \<noteq> None then Inr ((), t)
        else
          let ps = tx_Positions T t; miss = Missing val (openSymbols ps)
          in if miss \<noteq> [] then Inl (errRebuildValuation miss)
             else rbind (ValueTracked L val (openPositions ps) (tx_CashBalances T t)) (\<lambda>(v, hasActive).
                  rbind (tx_PutRankedState T (ActivateState L (pf_ID (tx_Portfolio T t)) userID v hasActive
                           (val_ObservedAt val)) True 0 t) (\<lambda>t'. Inr ((), t')))))"

fun epoch_attempts ::
  "declib \<Rightarrow> mutation_env \<Rightarrow> nat \<Rightarrow> nat \<Rightarrow> string \<Rightarrow> Valuation \<Rightarrow> InMemoryRepository
    \<Rightarrow> (err + unit) \<times> InMemoryRepository" where
  "epoch_attempts L E k 0 userID val r = (Inl ErrMutationConflict, r)"
| "epoch_attempts L E k (Suc n) userID val r =
     (case locked E k userID (epochBody L userID val) r of
        (Inr u, r') \<Rightarrow> (Inr u, r')
      | (Inl e, r') \<Rightarrow>
          (case e of
             errRebuildValuation missing \<Rightarrow>
               (case observe L (en_provider E) (en_fx E) val missing of
                  Inl e' \<Rightarrow> (Inl e', r')
                | Inr val' \<Rightarrow> epoch_attempts L E (Suc k) n userID val' r')
           | _ \<Rightarrow> (Inl e, r')))"

definition EnsureRankedEpoch ::
  "declib \<Rightarrow> mutation_env \<Rightarrow> string \<Rightarrow> InMemoryRepository \<Rightarrow> (err + unit) \<times> InMemoryRepository" where
  "EnsureRankedEpoch L E userID r =
     (case ListPositionsByUser (en_readCtx E 0) userID r of
        Inl e \<Rightarrow> (Inl e, r)
      | Inr pre \<Rightarrow>
          (case observe L (en_provider E) (en_fx E) (newValuation (en_now E)) (openSymbols pre) of
             Inl e \<Rightarrow> (Inl e, r)
           | Inr val \<Rightarrow> epoch_attempts L E 0 maxMutationAttempts userID val r))"

end
