(* ===== verification/TradeLaws.thy ===== *)
theory TradeLaws
  imports PlanCorrection
begin

text \<open>
  What the cash-flow, purchase, sale and correction plans do to cash and positions: cash moves by
  exactly the stated amount in exactly one currency, a purchase is funded by the least deposit that
  covers it, a sale closes the position exactly when nothing is left, and nothing but the named
  position changes.
\<close>

section \<open>Cash\<close>

abbreviation amount_in :: "CashBalance list \<Rightarrow> string \<Rightarrow> Amount" where
  "amount_in cash c \<equiv> fst (cashAmount cash c)"

text \<open>One currency holds a given amount, the others are as before.\<close>

definition cash_set :: "CashBalance list \<Rightarrow> string \<Rightarrow> Amount \<Rightarrow> CashBalance list \<Rightarrow> bool" where
  "cash_set old c a new =
     (cashAmount new c = (a, True) \<and> (\<forall>d. d \<noteq> c \<longrightarrow> cashBalance new d = cashBalance old d))"

lemma cash_set_replaceCash:
  "cb_Currency b = c \<Longrightarrow> cash_set old c (cb_Amount b) (replaceCash old b)"
  by (simp add: cash_set_def replaceCash_lookup)

lemma posted_balance_fields [simp]:
  "cb_Currency (posted_balance cash pf c a t) = c"
  "cb_Amount (posted_balance cash pf c a t) = a"
  "cb_PortfolioID (posted_balance cash pf c a t) = pf_ID pf"
  by (simp_all add: posted_balance_def Let_def)

lemma cash_set_posted [simp]: "cash_set old c a (replaceCash old (posted_balance cash pf c a t))"
  using cash_set_replaceCash [of "posted_balance cash pf c a t" c old] by simp

lemma cash_set_literal [simp]:
  "cash_set old c a (replaceCash old \<lparr>cb_PortfolioID = p, cb_Currency = c, cb_Amount = a,
     cb_CreatedAt = t, cb_UpdatedAt = u\<rparr>)"
  using cash_set_replaceCash [of "\<lparr>cb_PortfolioID = p, cb_Currency = c, cb_Amount = a,
     cb_CreatedAt = t, cb_UpdatedAt = u\<rparr>" c old] by simp

context decimal_lib
begin

lemma planCashFlow_Inr:
  "planCashFlow L uuid req pf ps cash val = Inr p \<Longrightarrow>
   (mr_Kind req = MutationWithdrawal \<longrightarrow> cf_Amount (mr_CashFlow req) \<le> amount_in cash (cf_Currency (mr_CashFlow req))) \<and>
   mp_newOpen p = ps \<and>
   cash_set cash (cf_Currency (mr_CashFlow req))
     (amount_in cash (cf_Currency (mr_CashFlow req)) +
       (if mr_Kind req = MutationWithdrawal then - cf_Amount (mr_CashFlow req) else cf_Amount (mr_CashFlow req)))
     (mp_newCash p)"
  by (auto simp: planCashFlow_def Let_def money_defs cashAmount_def not_less split: prod.splits if_splits)

lemma planCashFlow_Inl:
  "planCashFlow L uuid req pf ps cash val = Inl e \<longleftrightarrow>
   e = ErrInsufficientCash \<and> mr_Kind req = MutationWithdrawal \<and>
   (\<not> snd (cashAmount cash (cf_Currency (mr_CashFlow req))) \<or>
    amount_in cash (cf_Currency (mr_CashFlow req)) < cf_Amount (mr_CashFlow req))"
  by (auto simp: planCashFlow_def Let_def money_defs split: prod.splits if_splits)

section \<open>Purchases\<close>

lemma buyTerms_Inr:
  "buyTerms L buy pf cash quote = Inr t \<Longrightarrow>
   (let avail = amount_in cash (qo_Currency quote) in
    0 < bt_price t \<and> bt_price t = (if buy_ExecutionPrice buy = 0 then qo_Price quote else buy_ExecutionPrice buy) \<and>
    bt_fee t = buy_Fee buy \<and>
    bt_gross t = buy_Quantity buy * bt_price t \<and> bt_totalRequired t = bt_gross t + bt_fee t \<and>
    bt_funding t = max 0 (bt_totalRequired t - avail) \<and>
    bt_nextCash t = avail + bt_funding t - bt_totalRequired t \<and>
    bt_cashUsed t = min avail (bt_totalRequired t) \<and>
    (0 < bt_funding t \<longrightarrow> pf_AutoFundPurchases pf))"
  by (auto simp: buyTerms_def Let_def money_defs not_le not_less max_def min_def split: if_splits)

lemma buyMerged_Inr:
  "buyMerged L buy t now p = Inr m \<Longrightarrow>
   pos_Quantity p + buy_Quantity buy \<noteq> 0 \<and>
   m = p\<lparr>pos_AverageBuyPrice := bank_places 12 (away_places 12
           ((pos_Quantity p * pos_AverageBuyPrice p + bt_gross t + bt_fee t) / (pos_Quantity p + buy_Quantity buy))),
         pos_Quantity := bank_places 18 (pos_Quantity p + buy_Quantity buy), pos_UpdatedAt := now\<rparr>"
  by (auto simp: buyMerged_def Let_def money_defs scale_defs split: if_splits)

lemma buyExisting_Some:
  "buyExisting L buy c t now ps = Inr (Some m) \<Longrightarrow>
   \<exists>p \<in> set ps. buyMatches buy c p \<and> buyMerged L buy t now p = Inr m"
  by (induction ps) (auto split: if_splits)

lemma buyExisting_None: "buyExisting L buy c t now ps = Inr None \<longleftrightarrow> (\<forall>p \<in> set ps. \<not> buyMatches buy c p \<and> \<not> buyConflict buy c p)"
  by (induction ps) auto

lemma planBuy_Inr:
  assumes "planBuy L uuid req pf ps cash val = Inr p"
  obtains quote t existing result where
    "Quote val (buy_Symbol (mr_Buy req)) = Some quote"
    "buyTerms L (mr_Buy req) pf cash quote = Inr t"
    "buyExisting L (mr_Buy req) (qo_Currency quote) t (val_ObservedAt val) ps = Inr existing"
    "(case existing of Some m \<Rightarrow> Inr m | None \<Rightarrow> buyNew L uuid req pf (qo_Currency quote) t (val_ObservedAt val)) = Inr result"
    "mp_newOpen p = replaceOrAppendPosition ps result"
    "mp_newCash p = replaceCash cash (posted_balance cash pf (qo_Currency quote) (bt_nextCash t) (val_ObservedAt val))"
    "mp_resultPosition p = Some result"
    "mp_returnValueBase p = - (bt_fee t * rate_of val (qo_Currency quote))"
    "mp_extraActivities p = buyExtraActivities L uuid req pf (qo_Currency quote) t val result"
  using assms that by (auto simp: planBuy_def Let_def money_defs)

section \<open>Sales\<close>

lemma sellTerms_Inr:
  "sellTerms L req existing val = Inr (quote, t) \<Longrightarrow>
   Quote val (pos_Symbol existing) = Some quote \<and>
   se_quantity t = (if mr_Kind req = MutationClose then pos_Quantity existing else sell_Quantity (mr_Sell req)) \<and>
   0 < se_quantity t \<and> se_quantity t \<le> pos_Quantity existing \<and>
   se_fee t = sell_Fee (mr_Sell req) \<and> se_proceeds t = se_quantity t * se_price t \<and>
   se_fee t < se_proceeds t \<and> se_net t = se_proceeds t - se_fee t \<and>
   se_basis t = se_quantity t * pos_AverageBuyPrice existing \<and>
   se_realizedBase t = se_net t * rate_of val (qo_Currency quote) - se_basis t * rate_of val (pos_Currency existing)"
  by (auto simp: sellTerms_def Let_def money_defs not_le not_less split: if_splits)

lemma planSell_Inr:
  assumes "planSell L uuid req pf ps oldOpen cash val = Inr p"
  obtains existing quote t where
    "findSalePosition ps req = Inr existing"
    "sellTerms L req existing val = Inr (quote, t)"
    "mp_newCash p = replaceCash cash (posted_balance cash pf (qo_Currency quote)
       (amount_in cash (qo_Currency quote) + se_net t) (val_ObservedAt val))"
    "let rest = bank_places 18 (pos_Quantity existing - se_quantity t) in
       if rest \<noteq> 0 then
         mp_newOpen p = replaceInSet oldOpen (pos_ID existing)
           (existing\<lparr>pos_Quantity := rest, pos_UpdatedAt := val_ObservedAt val\<rparr>) \<and> mp_resultClosed p = None
       else mp_newOpen p = removeFromSet oldOpen (pos_ID existing) \<and> mp_resultClosed p \<noteq> None"
proof -
  from assms obtain existing quote t where *: "findSalePosition ps req = Inr existing"
    "sellTerms L req existing val = Inr (quote, t)" by (auto simp: planSell_def)
  show ?thesis
    by (rule that [OF *])
      (use assms in \<open>auto simp: planSell_def * Let_def money_defs scale_defs zero_plan_def split: if_splits\<close>)
qed

end

lemma findSalePosition_open: "findSalePosition ps req = Inr p \<Longrightarrow> p \<in> set (openPositions ps)"
proof -
  assume "findSalePosition ps req = Inr p"
  moreover have "filter (\<lambda>p. is_open p \<and> pos_Symbol p = sell_Symbol (mr_Sell req)) ps = [p] \<Longrightarrow> p \<in> set ps \<and> is_open p"
    by (drule arg_cong [where f = set]) auto
  ultimately show ?thesis
    by (auto simp: findSalePosition_def openPositions_def dest: requireOpen_Inr split: if_splits list.splits)
qed

section \<open>Corrections\<close>

context decimal_lib
begin

lemma planCorrectBuy_Inr:
  assumes "planCorrectBuy L uuid req pf ps oldOpen cash val = Inr p"
  obtains existing quote q0 where
    "findPositionByID ps (act_PositionEpisodeID (tc_Original (mr_Correction req))) = Inr existing"
    "Quote val (pos_Symbol existing) = Some quote"
    "act_Quantity (tc_Original (mr_Correction req)) = Some q0"
    "let c = mr_Correction req; o1 = tc_Original c;
         n = tc_CorrectedQuantity c * tc_CorrectedExecutionPrice c + tc_CorrectedFee c;
         nextCash = amount_in cash (pos_Currency existing) - (n - (act_GrossAmount o1 + act_FeeAmount o1));
         q = bank_places 18 (pos_Quantity existing - q0 + tc_CorrectedQuantity c);
         basis = pos_Quantity existing * pos_AverageBuyPrice existing - act_GrossAmount o1 - act_FeeAmount o1 + n;
         merged = existing\<lparr>pos_Quantity := q, pos_AverageBuyPrice := bank_places 12 (away_places 12 (basis / q)),
                            pos_UpdatedAt := val_ObservedAt val\<rparr>
     in q \<noteq> 0 \<and> 0 \<le> nextCash \<and> mp_resultPosition p = Some merged \<and>
        mp_newOpen p = replaceInSet oldOpen (pos_ID existing) merged \<and>
        mp_newCash p = replaceCash cash (posted_balance cash pf (pos_Currency existing) nextCash (val_ObservedAt val)) \<and>
        mp_returnValueBase p = - ((tc_CorrectedFee c - act_FeeAmount o1) * rate_of val (pos_Currency existing))"
proof -
  from assms obtain existing quote q0 where *:
    "findPositionByID ps (act_PositionEpisodeID (tc_Original (mr_Correction req))) = Inr existing"
    "Quote val (pos_Symbol existing) = Some quote"
    "act_Quantity (tc_Original (mr_Correction req)) = Some q0"
    by (auto simp: planCorrectBuy_def Let_def)
  show ?thesis
    by (rule that [OF *])
      (use assms in \<open>auto simp: planCorrectBuy_def * Let_def money_defs scale_defs not_less add.assoc split: if_splits\<close>)
qed

end

lemma isLastEpisodeEvent_iff:
  "isLastEpisodeEvent ledger orig \<longleftrightarrow>
     (\<forall>a \<in> set ledger. act_ID a \<noteq> act_ID orig \<longrightarrow> act_PositionEpisodeID a = act_PositionEpisodeID orig \<longrightarrow>
        (act_GroupID a \<noteq> [] \<and> act_GroupID a = act_GroupID orig) \<or>
        act_OccurredAt a < act_OccurredAt orig \<or>
        (act_OccurredAt a = act_OccurredAt orig \<and> act_CreatedAt a \<le> act_CreatedAt orig))"
  by (induction ledger orig rule: isLastEpisodeEvent.induct) auto

section \<open>Requests and positions for the witnesses\<close>

definition zero_request :: MutationRequest where
  "zero_request =
     \<lparr>mr_Kind = MutationKindOther [], mr_UserID = ''u'', mr_RequestID = [],
      mr_Input = \<lparr>pi_Symbol = [], pi_AssetType = [], pi_Quantity = 0\<rparr>, mr_PositionID = [],
      mr_Quantity = 0, mr_Weights = [],
      mr_CashFlow = \<lparr>cf_Currency = ''USD'', cf_Amount = 100, cf_OccurredAt = None, cf_CorrectionOf = [],
        cf_CorrectionReason = []\<rparr>,
      mr_Buy = \<lparr>buy_Symbol = ''AAPL'', buy_InstrumentID = [], buy_ExchangeCode = [], buy_MIC = [],
        buy_IdentityQuality = [], buy_AssetType = ''stock'', buy_Quantity = 10, buy_ExecutionPrice = 0,
        buy_Fee = 5\<rparr>,
      mr_Sell = \<lparr>sell_PositionID = ''p1'', sell_Symbol = [], sell_Quantity = 4, sell_ExecutionPrice = 0,
        sell_Fee = 5\<rparr>,
      mr_Correction = \<lparr>tc_Original = zero_Activity, tc_CorrectedQuantity = 0,
        tc_CorrectedExecutionPrice = 0, tc_CorrectedFee = 0, tc_Reason = []\<rparr>,
      mr_Income = \<lparr>in_Subtype = IncomeCashDividend, in_Symbol = ''AAPL'', in_AssetType = ''stock'',
        in_Currency = ''USD'', in_Amount = 20, in_Withholding = 3, in_Fee = 1, in_Estimated = False,
        in_ReinvestPrice = 0, in_PriceMethod = [], in_StockRatioNum = 1, in_StockRatioDen = 10,
        in_IncomeEventID = [], in_TaxClassification = [], in_OccurredAt = None,
        in_Provenance = ProvenanceUnset\<rparr>,
      mr_Fee = \<lparr>fee_Subtype = FeeCustody, fee_Currency = ''USD'', fee_Amount = 7, fee_Symbol = [],
        fee_LinkedActivityID = [], fee_Description = [], fee_OccurredAt = None,
        fee_Provenance = ProvenanceUnset\<rparr>,
      mr_CorpAction = \<lparr>ca_Subtype = CorpStockSplit, ca_Symbol = ''AAPL'', ca_RatioNumerator = Fin 2,
        ca_RatioDenominator = Fin 1, ca_NewSymbol = ''APPL'', ca_OccurredAt = None,
        ca_Provenance = ProvenanceUnset\<rparr>,
      mr_IncomeEvent = \<lparr>ev_IncomeEventID = ''e'', ev_Symbol = ''AAPL'', ev_InstrumentID = [],
        ev_AssetType = ''stock'', ev_Currency = ''USD'', ev_PaymentDate = 0, ev_Reinvest = False,
        ev_Components = []\<rparr>\<rparr>"

definition demo_uuid :: "nat \<Rightarrow> string" where
  "demo_uuid n = ''id'' @ replicate n (CHR ''x'')"

definition demo_pf :: Portfolio where
  "demo_pf = \<lparr>pf_ID = ''pf'', pf_UserID = ''u'', pf_Name = ''Default Portfolio'', pf_Currency = ''USD'',
     pf_Version = 7, pf_AutoFundPurchases = True, pf_CreatedAt = 1, pf_UpdatedAt = 1\<rparr>"

lemma replaceOrAppend_frame:
  "\<forall>x \<in> set ps. pos_ID x \<noteq> pos_ID r \<longrightarrow> x \<in> set (replaceOrAppendPosition ps r)"
  by (auto simp: replaceOrAppendPosition_def replaceInSet_def)

text \<open>An average price carries a basis: the product is within half a unit of the 12th place per share.\<close>

definition carries_basis :: "Price \<Rightarrow> Quantity \<Rightarrow> Amount \<Rightarrow> bool" where
  "carries_basis a q b = (\<bar>a * q - b\<bar> \<le> \<bar>q\<bar> / (2 * 10 ^ 12))"

lemma away_mult_near:
  assumes "(q :: rat) \<noteq> 0"
  shows "\<bar>away_places n (b / q) * q - b\<bar> \<le> \<bar>q\<bar> / (2 * 10 ^ n)"
proof -
  have "away_places n (b / q) * q - b = (away_places n (b / q) - b / q) * q"
    using assms by (simp add: left_diff_distrib)
  then have "\<bar>away_places n (b / q) * q - b\<bar> = \<bar>away_places n (b / q) - b / q\<bar> * \<bar>q\<bar>"
    by (simp add: abs_mult)
  also have "\<dots> \<le> 1 / (2 * 10 ^ n) * \<bar>q\<bar>"
    by (rule mult_right_mono [OF away_places_near]) simp
  finally show ?thesis by simp
qed

lemma away_carries_basis: "q \<noteq> 0 \<Longrightarrow> carries_basis (away_places 12 (b / q)) q b"
  unfolding carries_basis_def by (rule away_mult_near)

lemma obtain_ok: "is_ok r \<Longrightarrow> (\<And>p. r = Inr p \<Longrightarrow> P) \<Longrightarrow> P"
  by (auto simp: is_ok_iff)

section \<open>Properties\<close>

text \<open>
  A deposit or withdrawal moves exactly the requested amount in exactly its currency and leaves
  the positions alone; it is refused exactly when it withdraws from a currency that is not held or
  more than is held, so no balance can go negative.
\<close>

theorem planCashFlow_exact:
  assumes "decimal_lib L"
  shows "(\<exists>e. planCashFlow L uuid req pf ps cash val = Inl e) =
           (mr_Kind req = MutationWithdrawal \<and>
            (\<not> snd (cashAmount cash (cf_Currency (mr_CashFlow req))) \<or>
             amount_in cash (cf_Currency (mr_CashFlow req)) < cf_Amount (mr_CashFlow req)))
       \<and> (\<forall>p. planCashFlow L uuid req pf ps cash val = Inr p \<longrightarrow>
            mp_newOpen p = ps \<and>
            cash_set cash (cf_Currency (mr_CashFlow req))
              (amount_in cash (cf_Currency (mr_CashFlow req)) +
                (if mr_Kind req = MutationWithdrawal then - cf_Amount (mr_CashFlow req)
                 else cf_Amount (mr_CashFlow req)))
              (mp_newCash p))"
  using decimal_lib.planCashFlow_Inl [OF assms] decimal_lib.planCashFlow_Inr [OF assms] by blast

theorem planCashFlow_exact_witness:
  "(\<exists>e. planCashFlow std_declib demo_uuid (zero_request\<lparr>mr_Kind := MutationWithdrawal,
      mr_CashFlow := (mr_CashFlow zero_request)\<lparr>cf_Amount := 501\<rparr>\<rparr>) demo_pf [] [demo_cash] demo_val = Inl e)"
proof -
  have "amount_in [demo_cash] ''USD'' = 500" by code_simp
  then show ?thesis
    using planCashFlow_exact [OF std.decimal_lib_axioms, of demo_uuid
      "zero_request\<lparr>mr_Kind := MutationWithdrawal,
         mr_CashFlow := (mr_CashFlow zero_request)\<lparr>cf_Amount := 501\<rparr>\<rparr>" demo_pf "[]" "[demo_cash]" demo_val]
    by (simp add: zero_request_def)
qed

text \<open>
  Money of a purchase: the amount charged is quantity times price plus fee; it is taken from the
  cash in the quote currency and the automatic deposit is exactly the shortfall and nothing more (so
  the balance ends at zero when there was one); the balance is never negative, no other currency is
  touched, and without the auto-funding preference a purchase never deposits anything.
\<close>

theorem planBuy_cash:
  assumes "decimal_lib L" "planBuy L uuid req pf ps cash val = Inr p"
  shows "\<exists>quote t. Quote val (buy_Symbol (mr_Buy req)) = Some quote
       \<and> buyTerms L (mr_Buy req) pf cash quote = Inr t
       \<and> (let c = qo_Currency quote; avail = amount_in cash c;
              cost = buy_Quantity (mr_Buy req) * bt_price t + buy_Fee (mr_Buy req);
              funding = max 0 (cost - avail)
          in bt_funding t = funding \<and> (pf_AutoFundPurchases pf \<or> funding = 0)
             \<and> cash_set cash c (avail + funding - cost) (mp_newCash p)
             \<and> 0 \<le> avail + funding - cost \<and> (0 < funding \<longrightarrow> avail + funding - cost = 0))"
proof (rule decimal_lib.planBuy_Inr [OF assms])
  fix quote t existing result
  assume *: "Quote val (buy_Symbol (mr_Buy req)) = Some quote" "buyTerms L (mr_Buy req) pf cash quote = Inr t"
    "mp_newCash p = replaceCash cash (posted_balance cash pf (qo_Currency quote) (bt_nextCash t) (val_ObservedAt val))"
  from decimal_lib.buyTerms_Inr [OF assms(1) *(2)] have
    "bt_funding t = max 0 (buy_Quantity (mr_Buy req) * bt_price t + buy_Fee (mr_Buy req) - amount_in cash (qo_Currency quote))"
    "bt_nextCash t = amount_in cash (qo_Currency quote) + bt_funding t - (buy_Quantity (mr_Buy req) * bt_price t + buy_Fee (mr_Buy req))"
    "0 < bt_funding t \<longrightarrow> pf_AutoFundPurchases pf"
    by (simp_all add: Let_def)
  with * show ?thesis
    by (intro exI [of _ quote] exI [of _ t]) (auto simp: Let_def max_def)
qed

lemma planBuy_ok:
  "Quote val (buy_Symbol (mr_Buy req)) = Some quote \<Longrightarrow> buyTerms L (mr_Buy req) pf cash quote = Inr t \<Longrightarrow>
   buyExisting L (mr_Buy req) (qo_Currency quote) t (val_ObservedAt val) ps = Inr (Some m) \<Longrightarrow>
   \<exists>p. planBuy L uuid req pf ps cash val = Inr p"
  by (simp add: planBuy_def Let_def)

definition demo_buy :: MutationRequest where
  "demo_buy = zero_request\<lparr>mr_Kind := MutationBuy\<rparr>"

definition demo_quote :: quoteObservation where
  "demo_quote = \<lparr>qo_Price = 110, qo_Currency = ''USD''\<rparr>"

definition demo_terms :: buy_terms where
  "demo_terms = \<lparr>bt_price = 110, bt_priceSource = ''provider_estimate'', bt_fee = 5, bt_feeSource = ''user_recorded'',
     bt_gross = 1100, bt_totalRequired = 1105, bt_funding = 605, bt_cashUsed = 500, bt_nextCash = 0\<rparr>"

lemma demo_buy_runs:
  "Quote demo_val (buy_Symbol (mr_Buy demo_buy)) = Some demo_quote"
  "buyTerms std_declib (mr_Buy demo_buy) demo_pf [demo_cash] demo_quote = Inr demo_terms"
  "\<exists>p. planBuy std_declib demo_uuid demo_buy demo_pf [demo_pos] [demo_cash] demo_val = Inr p"
proof -
  show q: "Quote demo_val (buy_Symbol (mr_Buy demo_buy)) = Some demo_quote" by code_simp
  show t: "buyTerms std_declib (mr_Buy demo_buy) demo_pf [demo_cash] demo_quote = Inr demo_terms" by code_simp
  have "\<exists>m. buyExisting std_declib (mr_Buy demo_buy) ''USD'' demo_terms 1000 [demo_pos] = Inr (Some m)"
    by (simp add: demo_buy_def zero_request_def demo_pos_def zero_Position_def buyConflict_def buyMatches_def
        buyMerged_def Let_def money_defs)
  then show "\<exists>p. planBuy std_declib demo_uuid demo_buy demo_pf [demo_pos] [demo_cash] demo_val = Inr p"
    using planBuy_ok [OF q t] by (auto simp: demo_val_def demo_quote_def)
qed

theorem planBuy_cash_witness:
  "\<exists>p. planBuy std_declib demo_uuid demo_buy demo_pf [demo_pos] [demo_cash] demo_val = Inr p
     \<and> cash_set [demo_cash] ''USD'' 0 (mp_newCash p)"
proof -
  from demo_buy_runs(3) obtain p where
    p: "planBuy std_declib demo_uuid demo_buy demo_pf [demo_pos] [demo_cash] demo_val = Inr p" by blast
  have "amount_in [demo_cash] ''USD'' = 500" by code_simp
  with planBuy_cash [OF std.decimal_lib_axioms p] demo_buy_runs(1,2)
  have "cash_set [demo_cash] ''USD'' 0 (mp_newCash p)"
    by (auto simp: Let_def demo_quote_def demo_terms_def demo_buy_def zero_request_def)
  with p show ?thesis by blast
qed

text \<open>
  Cost basis of a purchase: it extends the first matching open episode, or starts a new one when no
  position matches; the new average price times the total quantity is the old basis plus price and
  fee, to half a unit of the 12th decimal per share. Every other position is carried over unchanged.
\<close>

theorem planBuy_basis:
  assumes "decimal_lib L" "planBuy L uuid req pf ps cash val = Inr p"
  shows "\<exists>quote t r. Quote val (buy_Symbol (mr_Buy req)) = Some quote \<and> buyTerms L (mr_Buy req) pf cash quote = Inr t
     \<and> mp_resultPosition p = Some r \<and> mp_newOpen p = replaceOrAppendPosition ps r
     \<and> (\<forall>x \<in> set ps. pos_ID x \<noteq> pos_ID r \<longrightarrow> x \<in> set (mp_newOpen p))
     \<and> ((\<exists>old \<in> set ps. buyMatches (mr_Buy req) (qo_Currency quote) old \<and> pos_ID r = pos_ID old
            \<and> (let q = pos_Quantity old + buy_Quantity (mr_Buy req)
               in pos_Quantity r = bank_places 18 q
                  \<and> carries_basis (pos_AverageBuyPrice r) q
                       (pos_Quantity old * pos_AverageBuyPrice old + bt_totalRequired t)))
        \<or> ((\<forall>x \<in> set ps. \<not> buyMatches (mr_Buy req) (qo_Currency quote) x) \<and> pos_ID r = uuid 0
            \<and> pos_Quantity r = bank_places 18 (buy_Quantity (mr_Buy req))
            \<and> carries_basis (pos_AverageBuyPrice r) (buy_Quantity (mr_Buy req)) (bt_totalRequired t)))"
proof (rule decimal_lib.planBuy_Inr [OF assms])
  fix quote t existing r
  assume q: "Quote val (buy_Symbol (mr_Buy req)) = Some quote" "buyTerms L (mr_Buy req) pf cash quote = Inr t"
    and ex: "buyExisting L (mr_Buy req) (qo_Currency quote) t (val_ObservedAt val) ps = Inr existing"
    and r: "(case existing of Some m \<Rightarrow> Inr m
             | None \<Rightarrow> buyNew L uuid req pf (qo_Currency quote) t (val_ObservedAt val)) = Inr r"
    and p: "mp_newOpen p = replaceOrAppendPosition ps r" "mp_resultPosition p = Some r"
  have cost: "bt_totalRequired t = bt_gross t + bt_fee t"
    using decimal_lib.buyTerms_Inr [OF assms(1) q(2)] by (simp add: Let_def)
  have frame: "\<forall>x \<in> set ps. pos_ID x \<noteq> pos_ID r \<longrightarrow> x \<in> set (mp_newOpen p)"
    unfolding p by (rule replaceOrAppend_frame)
  show ?thesis
  proof (cases existing)
    case (Some m)
    with ex r obtain old where old: "old \<in> set ps" "buyMatches (mr_Buy req) (qo_Currency quote) old"
      "buyMerged L (mr_Buy req) t (val_ObservedAt val) old = Inr r"
      using decimal_lib.buyExisting_Some [OF assms(1)] by fastforce
    from decimal_lib.buyMerged_Inr [OF assms(1) old(3)] have m: "pos_ID r = pos_ID old"
      "pos_Quantity old + buy_Quantity (mr_Buy req) \<noteq> 0"
      "pos_Quantity r = bank_places 18 (pos_Quantity old + buy_Quantity (mr_Buy req))"
      "pos_AverageBuyPrice r = away_places 12 ((pos_Quantity old * pos_AverageBuyPrice old + bt_totalRequired t)
         / (pos_Quantity old + buy_Quantity (mr_Buy req)))"
      by (auto simp: bank_places_exact cost add.assoc)
    show ?thesis using q p frame old(1,2) m away_carries_basis [OF m(2)] by (auto simp: Let_def)
  next
    case None
    have qty: "buy_Quantity (mr_Buy req) \<noteq> 0" and n: "pos_ID r = uuid 0"
      "pos_Quantity r = bank_places 18 (buy_Quantity (mr_Buy req))"
      "pos_AverageBuyPrice r = away_places 12 (bt_totalRequired t / buy_Quantity (mr_Buy req))"
      using r None by (auto simp: buyNew_def Let_def money_defs scale_defs bank_places_exact
          decimal_lib.divPrecise_eq [OF assms(1)] decimal_lib.roundBank [OF assms(1)] split: if_splits)
    have "\<forall>x \<in> set ps. \<not> buyMatches (mr_Buy req) (qo_Currency quote) x"
      using ex None decimal_lib.buyExisting_None [OF assms(1)] by blast
    then show ?thesis using q p frame n away_carries_basis [OF qty] by (auto simp: Let_def)
  qed
qed

theorem planBuy_basis_witness:
  "\<exists>p r. planBuy std_declib demo_uuid demo_buy demo_pf [demo_pos] [demo_cash] demo_val = Inr p
     \<and> mp_resultPosition p = Some r \<and> carries_basis (pos_AverageBuyPrice r) 20 2105"
proof -
  from demo_buy_runs(3) obtain p where
    p: "planBuy std_declib demo_uuid demo_buy demo_pf [demo_pos] [demo_cash] demo_val = Inr p" by blast
  have m: "buyMatches (mr_Buy demo_buy) ''USD'' demo_pos" by code_simp
  from planBuy_basis [OF std.decimal_lib_axioms p] p m demo_buy_runs(1,2) show ?thesis
    by (auto simp: Let_def demo_quote_def demo_terms_def demo_buy_def zero_request_def demo_pos_def
        zero_Position_def)
qed

text \<open>
  A sale (or close) of an open position sells a positive quantity that is held, credits exactly
  quantity times price minus the fee to one balance, and splits on what is left: if the remainder
  rounds to nothing at 18 places the position leaves the open set with a closing summary, otherwise it
  stays with exactly that remainder and its average price untouched. No other position changes.
\<close>

theorem planSell_exact:
  assumes "decimal_lib L" "planSell L uuid req pf ps (openPositions ps) cash val = Inr p"
  shows "\<exists>pos quote t. pos \<in> set (openPositions ps) \<and> findSalePosition ps req = Inr pos
     \<and> sellTerms L req pos val = Inr (quote, t)
     \<and> 0 < se_quantity t \<and> se_quantity t \<le> pos_Quantity pos
     \<and> se_net t = se_quantity t * se_price t - sell_Fee (mr_Sell req) \<and> 0 < se_net t
     \<and> cash_set cash (qo_Currency quote) (amount_in cash (qo_Currency quote) + se_net t) (mp_newCash p)
     \<and> (let rest = bank_places 18 (pos_Quantity pos - se_quantity t) in
        if rest = 0 then mp_newOpen p = removeFromSet (openPositions ps) (pos_ID pos) \<and> mp_resultClosed p \<noteq> None
        else mp_newOpen p = replaceInSet (openPositions ps) (pos_ID pos)
               (pos\<lparr>pos_Quantity := rest, pos_UpdatedAt := val_ObservedAt val\<rparr>) \<and> mp_resultClosed p = None)"
proof (rule decimal_lib.planSell_Inr [OF assms])
  fix existing quote t
  assume f: "findSalePosition ps req = Inr existing" and s: "sellTerms L req existing val = Inr (quote, t)"
    and c: "mp_newCash p = replaceCash cash (posted_balance cash pf (qo_Currency quote)
       (amount_in cash (qo_Currency quote) + se_net t) (val_ObservedAt val))"
    and n: "let rest = bank_places 18 (pos_Quantity existing - se_quantity t) in
       if rest \<noteq> 0 then
         mp_newOpen p = replaceInSet (openPositions ps) (pos_ID existing)
           (existing\<lparr>pos_Quantity := rest, pos_UpdatedAt := val_ObservedAt val\<rparr>) \<and> mp_resultClosed p = None
       else mp_newOpen p = removeFromSet (openPositions ps) (pos_ID existing) \<and> mp_resultClosed p \<noteq> None"
  show ?thesis
    using f s c n findSalePosition_open [OF f] decimal_lib.sellTerms_Inr [OF assms(1) s]
    by (intro exI [of _ existing] exI [of _ quote] exI [of _ t]) (auto simp: Let_def)
qed

definition demo_sell :: MutationRequest where
  "demo_sell = zero_request\<lparr>mr_Kind := MutationSell\<rparr>"

definition demo_sale :: sell_terms where
  "demo_sale = \<lparr>se_quantity = 4, se_price = 110, se_priceSource = ''provider_estimate'', se_fee = 5,
     se_feeSource = ''user_recorded'', se_proceeds = 440, se_net = 435, se_basis = 400,
     se_realizedBase = 35, se_realizedBaseF = Fin 35, se_basisBaseF = Fin 400,
     se_realizedPct = realized_pct (Fin 35) (Fin 400)\<rparr>"

lemma demo_sell_runs:
  "findSalePosition [demo_pos] demo_sell = Inr demo_pos"
  "sellTerms std_declib demo_sell demo_pos demo_val = Inr (demo_quote, demo_sale)"
  "\<exists>p. planSell std_declib demo_uuid demo_sell demo_pf [demo_pos] (openPositions [demo_pos]) [demo_cash] demo_val = Inr p"
proof -
  show f: "findSalePosition [demo_pos] demo_sell = Inr demo_pos" by code_simp
  show s: "sellTerms std_declib demo_sell demo_pos demo_val = Inr (demo_quote, demo_sale)" by code_simp
  have "bank_places 18 (10 - 4) = 6" by code_simp
  then have "\<not> Decimal_IsZero std_declib (QuantizeQuantity std_declib
      (Quantity_Sub std_declib (pos_Quantity demo_pos) (se_quantity demo_sale)))"
    by (simp add: money_defs scale_defs demo_pos_def zero_Position_def demo_sale_def)
  then show "\<exists>p. planSell std_declib demo_uuid demo_sell demo_pf [demo_pos] (openPositions [demo_pos]) [demo_cash] demo_val = Inr p"
    by (simp add: planSell_def f s Let_def)
qed

theorem planSell_exact_witness:
  "\<exists>p. planSell std_declib demo_uuid demo_sell demo_pf [demo_pos] (openPositions [demo_pos]) [demo_cash] demo_val = Inr p
     \<and> cash_set [demo_cash] ''USD'' 935 (mp_newCash p)"
proof -
  from demo_sell_runs(3) obtain p where
    p: "planSell std_declib demo_uuid demo_sell demo_pf [demo_pos] (openPositions [demo_pos]) [demo_cash] demo_val = Inr p" by blast
  have "amount_in [demo_cash] ''USD'' = 500" by code_simp
  with planSell_exact [OF std.decimal_lib_axioms p] demo_sell_runs(1,2)
  have "cash_set [demo_cash] ''USD'' 935 (mp_newCash p)" by (auto simp: demo_quote_def demo_sale_def)
  with p show ?thesis by blast
qed

end
