(* ===== verification/CorrectionLaws.thy ===== *)
theory CorrectionLaws
  imports TradeLaws
begin

text \<open>
  Corrections: what the episode rule means, that correcting a purchase leaves the cash the corrected
  values would have left, and what a correction that reopens a closed sale does to the valued set.
\<close>

lemma planBuy_activity:
  assumes "decimal_lib L" "planBuy L uuid req pf ps cash val = Inr p" "mp_activity p = Some a"
    and "buyTerms L (mr_Buy req) pf cash quote = Inr t" "Quote val (buy_Symbol (mr_Buy req)) = Some quote"
  shows "act_GrossAmount a = bt_gross t \<and> act_FeeAmount a = bt_fee t \<and> act_Currency a = qo_Currency quote"
  using assms by (auto simp: planBuy_def Let_def buyActivity_def zero_plan_def)

lemma find_id: "find (\<lambda>p. pos_ID p = i) ps = Some x \<Longrightarrow> x \<in> set ps \<and> pos_ID x = i"
  by (auto simp: find_Some_iff)

lemma findPositionByID_Inr [simp]:
  "findPositionByID ps i = Inr x \<longleftrightarrow> find (\<lambda>p. pos_ID p = i) ps = Some x"
  by (simp add: findPositionByID_def)

lemma closed_not_in_open:
  assumes "distinct (map pos_ID ps)" "x \<in> set ps" "\<not> is_open x"
  shows "pos_ID x \<notin> pos_ID ` set (openPositions ps)"
  using assms by (auto simp: openPositions_def distinct_map inj_on_def)

text \<open>
  A trade may be corrected only while it is the last event of its episode: no other activity of the
  same episode, its own grouped legs apart, occurred later, or at the same instant but was recorded
  later. The loop of \<open>isLastEpisodeEvent\<close> decides exactly that, whatever the order of the ledger.
\<close>

theorem isLastEpisodeEvent_exact:
  "isLastEpisodeEvent ledger orig =
     (\<not> (\<exists>a \<in> set ledger. act_ID a \<noteq> act_ID orig \<and> act_PositionEpisodeID a = act_PositionEpisodeID orig \<and>
        \<not> (act_GroupID a \<noteq> [] \<and> act_GroupID a = act_GroupID orig) \<and>
        (act_OccurredAt orig < act_OccurredAt a \<or>
         (act_OccurredAt a = act_OccurredAt orig \<and> act_CreatedAt orig < act_CreatedAt a))))"
  by (subst isLastEpisodeEvent_iff) (auto simp: not_le not_less)

text \<open>
  Correcting a purchase rewrites history in cash: after a purchase and its correction, the balance in
  the quote currency is what was available before (plus the automatic funding of the original) minus
  the corrected cost, as if the corrected quantity, price and fee had been recorded first; and it is
  not negative.
\<close>

theorem planCorrectBuy_cash_as_corrected:
  assumes L: "decimal_lib L" and buy: "planBuy L uuid req pf ps cash val = Inr p"
    and terms: "Quote val (buy_Symbol (mr_Buy req)) = Some quote" "buyTerms L (mr_Buy req) pf cash quote = Inr t"
    and act: "mp_activity p = Some (tc_Original (mr_Correction req2))"
    and fix_it: "planCorrectBuy L uuid2 req2 pf ps2 open2 (mp_newCash p) val2 = Inr p2"
    and cur: "\<forall>x. findPositionByID ps2 (act_PositionEpisodeID (tc_Original (mr_Correction req2))) = Inr x
                \<longrightarrow> pos_Currency x = qo_Currency quote"
  shows "amount_in (mp_newCash p2) (qo_Currency quote) =
      amount_in cash (qo_Currency quote) + bt_funding t -
      (tc_CorrectedQuantity (mr_Correction req2) * tc_CorrectedExecutionPrice (mr_Correction req2)
        + tc_CorrectedFee (mr_Correction req2)) \<and>
    0 \<le> amount_in (mp_newCash p2) (qo_Currency quote)"
proof (rule decimal_lib.planCorrectBuy_Inr [OF L fix_it])
  fix existing quote2 q0
  let ?c = "mr_Correction req2" let ?o = "tc_Original ?c"
  assume ex: "findPositionByID ps2 (act_PositionEpisodeID ?o) = Inr existing"
  assume "let c = ?c; o1 = tc_Original c;
         n = tc_CorrectedQuantity c * tc_CorrectedExecutionPrice c + tc_CorrectedFee c;
         nextCash = amount_in (mp_newCash p) (pos_Currency existing) - (n - (act_GrossAmount o1 + act_FeeAmount o1));
         q = bank_places 18 (pos_Quantity existing - q0 + tc_CorrectedQuantity c);
         basis = pos_Quantity existing * pos_AverageBuyPrice existing - act_GrossAmount o1 - act_FeeAmount o1 + n;
         merged = existing\<lparr>pos_Quantity := q, pos_AverageBuyPrice := bank_places 12 (away_places 12 (basis / q)),
                            pos_UpdatedAt := val_ObservedAt val2\<rparr>
     in q \<noteq> 0 \<and> 0 \<le> nextCash \<and> mp_resultPosition p2 = Some merged \<and>
        mp_newOpen p2 = replaceInSet open2 (pos_ID existing) merged \<and>
        mp_newCash p2 = replaceCash (mp_newCash p) (posted_balance (mp_newCash p) pf (pos_Currency existing) nextCash (val_ObservedAt val2)) \<and>
        mp_returnValueBase p2 = - ((tc_CorrectedFee c - act_FeeAmount o1) * rate_of val2 (pos_Currency existing))"
  then obtain nextCash where next_: "0 \<le> nextCash"
    "nextCash = amount_in (mp_newCash p) (qo_Currency quote) -
       (tc_CorrectedQuantity ?c * tc_CorrectedExecutionPrice ?c + tc_CorrectedFee ?c
         - (act_GrossAmount ?o + act_FeeAmount ?o))"
    "amount_in (mp_newCash p2) (qo_Currency quote) = nextCash"
    using ex cur by (auto simp: Let_def)
  have "bt_totalRequired t = bt_gross t + bt_fee t" "bt_nextCash t = amount_in cash (qo_Currency quote) + bt_funding t - bt_totalRequired t"
    using decimal_lib.buyTerms_Inr [OF L terms(2)] by (simp_all add: Let_def)
  moreover have "amount_in (mp_newCash p) (qo_Currency quote) = bt_nextCash t"
    using buy terms by (auto simp: planBuy_def Let_def zero_plan_def)
  ultimately show ?thesis
    using next_ planBuy_activity [OF L buy act terms(2,1)] by simp
qed

text \<open>The correction of the demo purchase: nine shares at 110 instead of ten, no fee.\<close>

definition demo_correct :: "Activity \<Rightarrow> MutationRequest" where
  "demo_correct a = zero_request\<lparr>mr_Kind := MutationCorrectBuy, mr_Correction :=
     \<lparr>tc_Original = a, tc_CorrectedQuantity = 9, tc_CorrectedExecutionPrice = 110, tc_CorrectedFee = 0, tc_Reason = []\<rparr>\<rparr>"

lemma validateLive_same [simp]: "validateLiveExecutionPrice s (fround 110) (fround 110) = Inr ()"
proof -
  have "validateLiveExecutionPrice ''user_recorded'' (fround 110) (fround 110) = Inr ()" by code_simp
  then show ?thesis by (cases "s = ''user_recorded''") (auto simp: validateLiveExecutionPrice_def)
qed

lemma bank_places_20: "bank_places 18 20 = 20" "bank_places 18 19 = 19"
  by simp_all

theorem planCorrectBuy_cash_as_corrected_witness:
  "\<exists>p p2. planBuy std_declib demo_uuid demo_buy demo_pf [demo_pos] [demo_cash] demo_val = Inr p
     \<and> (\<exists>a. mp_activity p = Some a \<and>
          planCorrectBuy std_declib demo_uuid (demo_correct a) demo_pf
            [demo_pos\<lparr>pos_Quantity := 20, pos_AverageBuyPrice := 421 / 4\<rparr>] [] (mp_newCash p) demo_val = Inr p2)
     \<and> amount_in (mp_newCash p2) ''USD'' = 500 + 605 - 990"
proof -
  from demo_buy_runs(3) obtain p where
    p: "planBuy std_declib demo_uuid demo_buy demo_pf [demo_pos] [demo_cash] demo_val = Inr p" by blast
  then obtain a where a: "mp_activity p = Some a" "act_Quantity a = Some 10" "act_PositionEpisodeID a = ''p1''"
    "act_GrossAmount a = 1100" "act_FeeAmount a = 5"
    using demo_buy_runs(1,2)
    by (auto simp: planBuy_def Let_def buyActivity_def zero_plan_def demo_quote_def demo_terms_def
        demo_buy_def zero_request_def buyConflict_def buyMatches_def buyMerged_def demo_pos_def
        zero_Position_def money_defs split: if_splits)
  have cash: "amount_in (mp_newCash p) ''USD'' = 0" "amount_in [demo_cash] ''USD'' = 500"
    using p demo_buy_runs(1,2)
    by (auto simp: planBuy_def Let_def zero_plan_def demo_quote_def demo_terms_def cashAmount_def
        cashBalance_def demo_cash_def)
  let ?ps2 = "[demo_pos\<lparr>pos_Quantity := 20, pos_AverageBuyPrice := 421 / 4\<rparr>]"
  have ep: "act_PositionEpisodeID (tc_Original (mr_Correction (demo_correct a))) = ''p1''"
    by (simp add: demo_correct_def a)
  have "\<exists>p2. planCorrectBuy std_declib demo_uuid (demo_correct a) demo_pf ?ps2 [] (mp_newCash p) demo_val = Inr p2"
    using cash(1)
    by (simp add: planCorrectBuy_def Let_def demo_correct_def a demo_pos_def zero_Position_def Quote_def
        demo_val_def money_defs scale_defs std.float64)
  then obtain p2 where p2: "planCorrectBuy std_declib demo_uuid (demo_correct a) demo_pf ?ps2 [] (mp_newCash p) demo_val = Inr p2" ..
  have "\<forall>x. findPositionByID ?ps2 (act_PositionEpisodeID (tc_Original (mr_Correction (demo_correct a)))) = Inr x
          \<longrightarrow> pos_Currency x = qo_Currency demo_quote"
    unfolding ep by (simp add: demo_pos_def zero_Position_def demo_quote_def)
  from planCorrectBuy_cash_as_corrected [OF std.decimal_lib_axioms p demo_buy_runs(1,2) _ p2 this]
  have "amount_in (mp_newCash p2) ''USD'' = 500 + 605 - 990"
    using a(1) cash(2) by (simp add: demo_correct_def demo_quote_def demo_terms_def)
  with p p2 a(1) show ?thesis by blast
qed

text \<open>
  A correction that reopens a closed sale is not valued: the position written back is open, with the
  corrected remainder, but the open set the plan hands to the valuation is the old one, which does not
  contain it. The ranked value after the correction therefore misses the reopened shares.
\<close>

theorem planCorrectSell_reopened_not_valued:
  assumes "decimal_lib L" "distinct (map pos_ID ps)"
    and "planCorrectSell L uuid req pf ps (openPositions ps) cash val = Inr p"
    and "findPositionByID ps (act_PositionEpisodeID (tc_Original (mr_Correction req))) = Inr old"
    and "pos_Status old = PositionStatusClosed" "mp_resultPosition p = Some r"
  shows "is_open r \<and> pos_ID r = pos_ID old \<and> UpdatePos r \<in> set (mp_write p)
     \<and> mp_newOpen p = openPositions ps \<and> r \<notin> set (mp_newOpen p)"
proof -
  have "old \<in> set ps" using assms(4) by (auto dest: find_id)
  moreover have "\<not> is_open old" using assms(5) by (simp add: is_open_def positionStatus_def)
  ultimately have no: "pos_ID old \<notin> pos_ID ` set (openPositions ps)"
    by (rule closed_not_in_open [OF assms(2)])
  have "is_open r \<and> pos_ID r = pos_ID old \<and> UpdatePos r \<in> set (mp_write p)
     \<and> mp_newOpen p = replaceInSet (openPositions ps) (pos_ID old) r"
    using assms(3-6)
    by (auto simp: planCorrectSell_def Let_def zero_plan_def reopened_def is_open_def positionStatus_def
        simp del: findPositionByID_Inr split: if_splits)
  with no show ?thesis by (auto simp: image_iff)
qed

text \<open>A sale of ten shares that should have been four.\<close>

definition demo_reopen :: MutationRequest where
  "demo_reopen = zero_request\<lparr>mr_Kind := MutationCorrectSell, mr_Correction :=
     \<lparr>tc_Original = zero_Activity\<lparr>act_ID := ''a'', act_PositionEpisodeID := ''p1'', act_Quantity := Some 10,
        act_GrossAmount := 1100, act_NetAmount := 1100\<rparr>,
      tc_CorrectedQuantity = 4, tc_CorrectedExecutionPrice = 110, tc_CorrectedFee = 0, tc_Reason = []\<rparr>\<rparr>"

definition demo_closed :: Position where
  "demo_closed = demo_pos\<lparr>pos_Status := ''closed''\<rparr>"

theorem planCorrectSell_reopened_not_valued_witness:
  "\<exists>p r. planCorrectSell std_declib demo_uuid demo_reopen demo_pf [demo_closed] (openPositions [demo_closed])
        [demo_cash\<lparr>cb_Amount := 1600\<rparr>] demo_val = Inr p
     \<and> mp_resultPosition p = Some r \<and> is_open r \<and> pos_Quantity r = 6 \<and> r \<notin> set (mp_newOpen p)"
proof -
  have "\<exists>p r. planCorrectSell std_declib demo_uuid demo_reopen demo_pf [demo_closed] (openPositions [demo_closed])
        [demo_cash\<lparr>cb_Amount := 1600\<rparr>] demo_val = Inr p \<and> mp_resultPosition p = Some r \<and> pos_Quantity r = 6"
    by (simp add: planCorrectSell_def correctSellTerms_def Let_def demo_reopen_def zero_request_def demo_closed_def
        demo_pos_def zero_Position_def zero_Activity_def Quote_def demo_val_def money_defs scale_defs std.float64
        cashAmount_def cashBalance_def demo_cash_def zero_plan_def reopened_def std.cmp)
  then obtain p r where p: "planCorrectSell std_declib demo_uuid demo_reopen demo_pf [demo_closed]
      (openPositions [demo_closed]) [demo_cash\<lparr>cb_Amount := 1600\<rparr>] demo_val = Inr p"
    "mp_resultPosition p = Some r" "pos_Quantity r = 6" by blast
  have old: "findPositionByID [demo_closed] (act_PositionEpisodeID (tc_Original (mr_Correction demo_reopen))) = Inr demo_closed"
    by (simp add: demo_reopen_def demo_closed_def demo_pos_def zero_Position_def)
  have "pos_Status demo_closed = PositionStatusClosed" by (simp add: demo_closed_def)
  from planCorrectSell_reopened_not_valued [OF std.decimal_lib_axioms _ p(1) old this p(2)] p show ?thesis
    by auto
qed

end
