(* ===== verification/IncomeLaws.thy ===== *)
theory IncomeLaws
  imports PlanIncomeEvent CorrectionLaws
begin

text \<open>
  Income, fees and corporate actions: net income is credited exactly, a return of capital never drives a
  basis negative, transformations preserve the total basis up to stated rounding, a fee never
  overdraws, a write-off removes exactly one position.
\<close>

lemma credited_balance_fields [simp]:
  "cb_Currency (credited_balance cash pf c a t) = c" "cb_Amount (credited_balance cash pf c a t) = a"
  by (simp_all add: credited_balance_def split: prod.splits)

lemma cash_set_credited [simp]: "cash_set old c a (replaceCash old (credited_balance cash pf c a t))"
  using cash_set_replaceCash [of "credited_balance cash pf c a t" c old] by simp

context decimal_lib
begin

lemma validateIncomeAmounts_iff [simp]:
  "validateIncomeAmounts L a w f = Inr u \<longleftrightarrow> 0 < a \<and> 0 \<le> w \<and> 0 \<le> f \<and> w + f \<le> a"
  by (auto simp: validateIncomeAmounts_def money_defs not_le not_less)

lemma QuantizeCash_iff [simp]:
  "QuantizeCash L a c = Inr n \<longleftrightarrow> (\<exists>s. CurrencyScale c = Inr s \<and> n = bank_places s a)"
  by (auto simp: QuantizeCash_def quantize_def)

lemma NetCash_eq [simp]: "IncomeInput_NetCash L i = in_Amount i - in_Withholding i - in_Fee i"
  "IncomeComponentInput_NetCash L c = ic_Amount c - ic_Withholding c - ic_Fee c"
  by (simp_all add: IncomeInput_NetCash_def IncomeComponentInput_NetCash_def money_defs)

lemma rocReduction_eq: "rocReduction L net b = (min net b, max 0 (net - b))"
  by (auto simp: rocReduction_def money_defs min_def max_def)

lemma planReturnOfCapital_Inr:
  assumes "planReturnOfCapital L uuid req pf ps cash val = Inr p"
  obtains old s where
    "findOpenBySymbol ps (in_Symbol (mr_Income req)) = Some old"
    "CurrencyScale (in_Currency (mr_Income req)) = Inr s"
    "in_Withholding (mr_Income req) + in_Fee (mr_Income req) \<le> in_Amount (mr_Income req)"
    "let i = mr_Income req; net = bank_places s (in_Amount i - in_Withholding i - in_Fee i);
         b = pos_Quantity old * pos_AverageBuyPrice old;
         r = (if 0 < pos_Quantity old
              then old\<lparr>pos_AverageBuyPrice := away_places 12 ((b - min net b) / pos_Quantity old),
                       pos_UpdatedAt := val_ObservedAt val\<rparr>
              else old\<lparr>pos_UpdatedAt := val_ObservedAt val\<rparr>)
     in mp_resultPosition p = Some r \<and> mp_newOpen p = replaceOrAppendPosition ps r \<and>
        map_option act_CostBasisAllocated (mp_activity p) = Some (Some (min net b)) \<and>
        cash_set cash (in_Currency i) (amount_in cash (in_Currency i) + net) (mp_newCash p)"
proof -
  from assms obtain old s where *: "findOpenBySymbol ps (in_Symbol (mr_Income req)) = Some old"
    "CurrencyScale (in_Currency (mr_Income req)) = Inr s"
    "in_Withholding (mr_Income req) + in_Fee (mr_Income req) \<le> in_Amount (mr_Income req)"
    by (auto simp: planReturnOfCapital_def Let_def split: if_splits)
  show ?thesis
    by (rule that [OF *])
      (use assms in \<open>auto simp: planReturnOfCapital_def * Let_def rocReduction_eq money_defs scale_defs
         bank_places_exact split: if_splits\<close>)
qed

lemma basis_preserved:
  assumes "f \<noteq> 0"
  shows "\<bar>bank_places n (q * f) * away_places m (a / f) - q * a\<bar>
    \<le> \<bar>away_places m (a / f)\<bar> / (2 * 10 ^ n) + \<bar>q * f\<bar> / (2 * 10 ^ m)"
proof -
  let ?q = "bank_places n (q * f)" and ?a = "away_places m (a / f)"
  have "?q * ?a - q * a = (?q - q * f) * ?a + q * f * (?a - a / f)"
    using assms by (simp add: algebra_simps)
  then have "\<bar>?q * ?a - q * a\<bar> \<le> \<bar>?q - q * f\<bar> * \<bar>?a\<bar> + \<bar>q * f\<bar> * \<bar>?a - a / f\<bar>"
    by (metis abs_mult abs_triangle_ineq)
  also have "\<dots> \<le> 1 / (2 * 10 ^ n) * \<bar>?a\<bar> + \<bar>q * f\<bar> * (1 / (2 * 10 ^ m))"
    by (intro add_mono mult_right_mono mult_left_mono bank_places_near away_places_near) simp_all
  finally show ?thesis by simp
qed

lemma planStockDividend_Inr:
  assumes "planStockDividend L uuid req pf ps cash val = Inr p"
  obtains old f where
    "findOpenBySymbol ps (in_Symbol (mr_Income req)) = Some old"
    "f = 1 + away_places 18 (in_StockRatioNum (mr_Income req) / in_StockRatioDen (mr_Income req))" "1 < f"
    "mp_newCash p = cash" "mp_valueInvariant p = False" "mp_performanceEffect p = EffectUnset"
    "mp_newOpen p = replaceOrAppendPosition ps (old\<lparr>pos_Quantity := bank_places 18 (pos_Quantity old * f),
       pos_AverageBuyPrice := away_places 36 (pos_AverageBuyPrice old / f), pos_UpdatedAt := val_ObservedAt val\<rparr>)"
    "mp_resultPosition p = Some (old\<lparr>pos_Quantity := bank_places 18 (pos_Quantity old * f),
       pos_AverageBuyPrice := away_places 36 (pos_AverageBuyPrice old / f), pos_UpdatedAt := val_ObservedAt val\<rparr>)"
  using assms that
  by (auto simp: planStockDividend_def Let_def money_defs scale_defs zero_plan_def not_le split: if_splits)

lemma planSplit_Inr:
  assumes "planSplit L uuid req pf ps cash val = Inr p"
  obtains old f where
    "findOpenBySymbol ps (ca_Symbol (mr_CorpAction req)) = Some old"
    "d_newFromFloat L (fdiv (ca_RatioNumerator (mr_CorpAction req)) (ca_RatioDenominator (mr_CorpAction req))) = Some f"
    "f \<noteq> 0" "mp_newCash p = cash" "mp_valueInvariant p"
    "mp_resultPosition p = Some (old\<lparr>pos_Quantity := bank_places 18 (pos_Quantity old * f),
       pos_AverageBuyPrice := away_places 36 (pos_AverageBuyPrice old / f), pos_UpdatedAt := val_ObservedAt val\<rparr>)"
  using assms that
  by (auto simp: planSplit_def Let_def money_defs scale_defs zero_plan_def not_le split: if_splits)

end

section \<open>Properties\<close>

text \<open>
  Cash income credits exactly the net amount (gross minus withholding and fee, rounded to the minor
  unit of the currency), which is never negative, to exactly its currency; positions are untouched.
\<close>

theorem planIncome_credits_net:
  assumes "decimal_lib L" "planIncome L uuid req pf ps cash val = Inr p"
  shows "\<exists>s. CurrencyScale (in_Currency (mr_Income req)) = Inr s \<and>
     (let i = mr_Income req; net = bank_places s (in_Amount i - in_Withholding i - in_Fee i)
      in 0 \<le> net \<and> mp_newOpen p = ps \<and>
         cash_set cash (in_Currency i) (amount_in cash (in_Currency i) + net) (mp_newCash p))"
  using assms(2)
  by (auto simp: planIncome_def Let_def decimal_lib.validateIncomeAmounts_iff [OF assms(1)]
      decimal_lib.roundBank [OF assms(1)]
      decimal_lib.QuantizeCash_iff [OF assms(1)] decimal_lib.NetCash_eq [OF assms(1)] money_defs
      decimal_lib.add [OF assms(1)] intro!: bank_places_nonneg
      split: option.splits prod.splits if_splits)

definition demo_income :: MutationRequest where
  "demo_income = zero_request\<lparr>mr_Kind := MutationIncome\<rparr>"

lemma usd_scale [simp]: "CurrencyScale ''USD'' = Inr 2"
  by code_simp

lemma demo_lookup [simp]:
  "val_rates demo_val ''USD'' = Some 1" "val_rates demo_val ''EUR'' = Some (11/10)"
  "val_ObservedAt demo_val = 1000"
  by (simp_all add: demo_val_def)

lemma demo_find [simp]: "findOpenBySymbol [demo_pos] ''AAPL'' = Some demo_pos"
  by (simp add: findOpenBySymbol_def demo_pos_def zero_Position_def)

lemma demo_amount [simp]: "cashAmount [demo_cash] ''USD'' = (500, True)"
  by (simp add: cashAmount_def cashBalance_def demo_cash_def)

theorem planIncome_credits_net_witness:
  "\<exists>p. planIncome std_declib demo_uuid demo_income demo_pf [demo_pos] [demo_cash] demo_val = Inr p
     \<and> cash_set [demo_cash] ''USD'' 516 (mp_newCash p)"
proof -
  have "\<exists>p. planIncome std_declib demo_uuid demo_income demo_pf [demo_pos] [demo_cash] demo_val = Inr p"
    by (simp add: planIncome_def Let_def demo_income_def zero_request_def)
  then obtain p where p: "planIncome std_declib demo_uuid demo_income demo_pf [demo_pos] [demo_cash] demo_val = Inr p" ..
  from planIncome_credits_net [OF std.decimal_lib_axioms p] p show ?thesis
    by (simp add: Let_def demo_income_def zero_request_def)
qed

text \<open>
  Return of capital: the net distribution splits into a basis reduction and an excess, the reduction
  never exceeds the remaining basis, so the new average price is not negative; it carries exactly the
  reduced basis (to half a unit of the 12th place per share), the quantity is unchanged, and the whole
  net amount is credited as cash.
\<close>

theorem planReturnOfCapital_basis:
  assumes "decimal_lib L" "planReturnOfCapital L uuid req pf ps cash val = Inr p"
  shows "\<exists>old r net reduction. findOpenBySymbol ps (in_Symbol (mr_Income req)) = Some old
     \<and> mp_resultPosition p = Some r \<and> mp_newOpen p = replaceOrAppendPosition ps r
     \<and> map_option act_CostBasisAllocated (mp_activity p) = Some (Some reduction)
     \<and> 0 \<le> net \<and> reduction \<le> net \<and> reduction \<le> pos_Quantity old * pos_AverageBuyPrice old
     \<and> pos_Quantity r = pos_Quantity old
     \<and> (0 < pos_Quantity old \<longrightarrow> 0 \<le> pos_AverageBuyPrice r
          \<and> carries_basis (pos_AverageBuyPrice r) (pos_Quantity old)
              (pos_Quantity old * pos_AverageBuyPrice old - reduction))
     \<and> cash_set cash (in_Currency (mr_Income req))
          (amount_in cash (in_Currency (mr_Income req)) + net) (mp_newCash p)"
proof (rule decimal_lib.planReturnOfCapital_Inr [OF assms])
  fix old :: Position and s
  let ?i = "mr_Income req"
  let ?net = "bank_places s (in_Amount ?i - in_Withholding ?i - in_Fee ?i)"
  let ?b = "pos_Quantity old * pos_AverageBuyPrice old"
  assume *: "findOpenBySymbol ps (in_Symbol ?i) = Some old"
    "in_Withholding ?i + in_Fee ?i \<le> in_Amount ?i"
    "let i = mr_Income req; net = bank_places s (in_Amount i - in_Withholding i - in_Fee i);
         b = pos_Quantity old * pos_AverageBuyPrice old;
         r = (if 0 < pos_Quantity old
              then old\<lparr>pos_AverageBuyPrice := away_places 12 ((b - min net b) / pos_Quantity old),
                       pos_UpdatedAt := val_ObservedAt val\<rparr>
              else old\<lparr>pos_UpdatedAt := val_ObservedAt val\<rparr>)
     in mp_resultPosition p = Some r \<and> mp_newOpen p = replaceOrAppendPosition ps r \<and>
        map_option act_CostBasisAllocated (mp_activity p) = Some (Some (min net b)) \<and>
        cash_set cash (in_Currency i) (amount_in cash (in_Currency i) + net) (mp_newCash p)"
  let ?r = "if 0 < pos_Quantity old
              then old\<lparr>pos_AverageBuyPrice := away_places 12 ((?b - min ?net ?b) / pos_Quantity old),
                       pos_UpdatedAt := val_ObservedAt val\<rparr>
              else old\<lparr>pos_UpdatedAt := val_ObservedAt val\<rparr>"
  obtain r where r: "r = ?r" by blast
  have pos: "0 < pos_Quantity old \<longrightarrow> 0 \<le> pos_AverageBuyPrice r
      \<and> carries_basis (pos_AverageBuyPrice r) (pos_Quantity old) (?b - min ?net ?b)"
    unfolding r by (auto intro!: away_places_nonneg away_carries_basis)
  have net: "0 \<le> ?net" using *(2) by (intro bank_places_nonneg) simp
  have qty: "pos_Quantity r = pos_Quantity old" unfolding r by simp
  have "mp_resultPosition p = Some r" "mp_newOpen p = replaceOrAppendPosition ps r"
    "map_option act_CostBasisAllocated (mp_activity p) = Some (Some (min ?net ?b))"
    "cash_set cash (in_Currency ?i) (amount_in cash (in_Currency ?i) + ?net) (mp_newCash p)"
    using *(3) unfolding Let_def r by simp_all
  with *(1) pos net qty show ?thesis
    by (intro exI [of _ old] exI [of _ r] exI [of _ ?net] exI [of _ "min ?net ?b"]) simp
qed

definition demo_roc :: MutationRequest where
  "demo_roc = zero_request\<lparr>mr_Kind := MutationReturnOfCapital,
     mr_Income := (mr_Income zero_request)\<lparr>in_Amount := 5000\<rparr>\<rparr>"

theorem planReturnOfCapital_basis_witness:
  "\<exists>p. planReturnOfCapital std_declib demo_uuid demo_roc demo_pf [demo_pos] [demo_cash] demo_val = Inr p
     \<and> (\<exists>r. mp_resultPosition p = Some r \<and> 0 \<le> pos_AverageBuyPrice r)"
proof -
  have "\<exists>p. planReturnOfCapital std_declib demo_uuid demo_roc demo_pf [demo_pos] [demo_cash] demo_val = Inr p"
    by (simp add: planReturnOfCapital_def Let_def demo_roc_def zero_request_def std.rocReduction_eq
        demo_pos_def zero_Position_def findOpenBySymbol_def money_defs)
  then obtain p where p: "planReturnOfCapital std_declib demo_uuid demo_roc demo_pf [demo_pos] [demo_cash] demo_val = Inr p" ..
  have "findOpenBySymbol [demo_pos] (in_Symbol (mr_Income demo_roc)) = Some demo_pos" "0 < pos_Quantity demo_pos"
    by (simp_all add: demo_roc_def zero_request_def) (simp add: demo_pos_def)
  with planReturnOfCapital_basis [OF std.decimal_lib_axioms p] p show ?thesis by auto
qed

text \<open>
  Splits and single stock dividends preserve the total cost basis: quantity and average price are scaled
  by the same factor and its inverse, and the product moves by no more than the two roundings, half a
  unit of the 18th place of quantity and of the 36th place of price.
\<close>

theorem transformations_preserve_basis:
  assumes "decimal_lib L"
    and "planSplit L uuid req pf ps cash val = Inr p \<or> planStockDividend L uuid req pf ps cash val = Inr p"
    and "mp_resultPosition p = Some r"
  shows "\<exists>old f. old \<in> set ps \<and> f \<noteq> 0 \<and> mp_newCash p = cash \<and> pos_ID r = pos_ID old
     \<and> pos_Quantity r = bank_places 18 (pos_Quantity old * f)
     \<and> \<bar>pos_Quantity r * pos_AverageBuyPrice r - pos_Quantity old * pos_AverageBuyPrice old\<bar>
         \<le> \<bar>pos_AverageBuyPrice r\<bar> / (2 * 10 ^ 18) + \<bar>pos_Quantity old * f\<bar> / (2 * 10 ^ 36)"
  using assms(2)
proof
  assume "planSplit L uuid req pf ps cash val = Inr p"
  then show ?thesis
  proof (rule decimal_lib.planSplit_Inr [OF assms(1)])
    fix old :: Position and f :: Ratio
    assume *: "findOpenBySymbol ps (ca_Symbol (mr_CorpAction req)) = Some old" "f \<noteq> 0" "mp_newCash p = cash"
      "mp_resultPosition p = Some (old\<lparr>pos_Quantity := bank_places 18 (pos_Quantity old * f),
         pos_AverageBuyPrice := away_places 36 (pos_AverageBuyPrice old / f), pos_UpdatedAt := val_ObservedAt val\<rparr>)"
    then show ?thesis
      using assms(3) findOpenBySymbol_Some [OF *(1)]
        decimal_lib.basis_preserved [OF assms(1) *(2), of 18 "pos_Quantity old" 36 "pos_AverageBuyPrice old"]
      by (intro exI [of _ old] exI [of _ f]) auto
  qed
next
  assume "planStockDividend L uuid req pf ps cash val = Inr p"
  then show ?thesis
  proof (rule decimal_lib.planStockDividend_Inr [OF assms(1)])
    fix old :: Position and f :: Ratio
    assume *: "findOpenBySymbol ps (in_Symbol (mr_Income req)) = Some old" "1 < f" "mp_newCash p = cash"
      "mp_resultPosition p = Some (old\<lparr>pos_Quantity := bank_places 18 (pos_Quantity old * f),
         pos_AverageBuyPrice := away_places 36 (pos_AverageBuyPrice old / f), pos_UpdatedAt := val_ObservedAt val\<rparr>)"
    from *(2) have "f \<noteq> 0" by auto
    then show ?thesis
      using * assms(3) findOpenBySymbol_Some [OF *(1)]
        decimal_lib.basis_preserved [OF assms(1) \<open>f \<noteq> 0\<close>, of 18 "pos_Quantity old" 36 "pos_AverageBuyPrice old"]
      by (intro exI [of _ old] exI [of _ f]) auto
  qed
qed

definition demo_stock :: MutationRequest where
  "demo_stock = zero_request\<lparr>mr_Kind := MutationStockDividend\<rparr>"

theorem transformations_preserve_basis_witness:
  "\<exists>p r. planStockDividend std_declib demo_uuid demo_stock demo_pf [demo_pos] [demo_cash] demo_val = Inr p
     \<and> mp_resultPosition p = Some r \<and> pos_Quantity r = 11
     \<and> (\<exists>old f. old \<in> set [demo_pos] \<and> \<bar>pos_Quantity r * pos_AverageBuyPrice r - pos_Quantity old * pos_AverageBuyPrice old\<bar>
         \<le> \<bar>pos_AverageBuyPrice r\<bar> / (2 * 10 ^ 18) + \<bar>pos_Quantity old * f\<bar> / (2 * 10 ^ 36))"
proof -
  have a: "away_places 18 (1 / 10) = 1 / 10" by code_simp
  have "\<exists>p r. planStockDividend std_declib demo_uuid demo_stock demo_pf [demo_pos] [demo_cash] demo_val = Inr p
     \<and> mp_resultPosition p = Some r \<and> pos_Quantity r = 11"
    by (simp add: planStockDividend_def Let_def demo_stock_def zero_request_def demo_pos_def zero_Position_def
        findOpenBySymbol_def money_defs scale_defs a zero_plan_def)
  then obtain p r where p: "planStockDividend std_declib demo_uuid demo_stock demo_pf [demo_pos] [demo_cash] demo_val = Inr p"
    "mp_resultPosition p = Some r" "pos_Quantity r = 11" by blast
  from transformations_preserve_basis [OF std.decimal_lib_axioms disjI2 [OF p(1)] p(2)] p show ?thesis
    by blast
qed

text \<open>
  A reinvested dividend ignores the currency it was paid in: the same number is reinvested in the
  quote currency of the instrument, without conversion, so two events that differ only in the paying
  currency buy the same shares and record the same amounts.
\<close>

theorem planReinvestedDividend_ignores_currency:
  "planReinvestedDividend L uuid (req\<lparr>mr_Income := (mr_Income req)\<lparr>in_Currency := c\<rparr>\<rparr>) pf ps cash val =
   planReinvestedDividend L uuid (req\<lparr>mr_Income := (mr_Income req)\<lparr>in_Currency := d\<rparr>\<rparr>) pf ps cash val"
  by (simp add: planReinvestedDividend_def Let_def cong: if_cong prod.case_cong option.case_cong)

text \<open>
  A standalone fee is deducted exactly once, in its currency, rounded to the minor unit, and never
  overdraws: it is refused as uncovered when the balance is missing or smaller.
\<close>

theorem planFee_never_overdraws:
  assumes "decimal_lib L" "val_rates val (fee_Currency (mr_Fee req)) \<noteq> None"
    and "CurrencyScale (fee_Currency (mr_Fee req)) = Inr s"
  shows "let c = fee_Currency (mr_Fee req); f = bank_places s (fee_Amount (mr_Fee req)); (held, found) = cashAmount cash c
     in (if found \<and> f \<le> held
         then \<exists>p. planFee L uuid req pf ps cash val = Inr p \<and> mp_newOpen p = ps
                \<and> cash_set cash c (held - f) (mp_newCash p) \<and> 0 \<le> held - f
         else planFee L uuid req pf ps cash val = Inl ErrInsufficientCashForFee)"
  using assms(2,3)
  by (auto simp: planFee_def Let_def money_defs decimal_lib.roundBank [OF assms(1)]
      decimal_lib.cmp_simps [OF assms(1)] decimal_lib.sub [OF assms(1)] not_less split: prod.splits)

theorem planFee_never_overdraws_witness:
  "\<exists>p. planFee std_declib demo_uuid (zero_request\<lparr>mr_Kind := MutationFee\<rparr>) demo_pf [demo_pos] [demo_cash] demo_val = Inr p
     \<and> cash_set [demo_cash] ''USD'' 493 (mp_newCash p)"
  using planFee_never_overdraws [OF std.decimal_lib_axioms, where val = demo_val
      and req = "zero_request\<lparr>mr_Kind := MutationFee\<rparr>" and s = 2 and cash = "[demo_cash]" and ps = "[demo_pos]"
      and uuid = demo_uuid and pf = demo_pf]
  by (auto simp: Let_def zero_request_def)

text \<open>
  A write-off removes exactly one open position, the first of its symbol, at a loss of its whole cost
  basis in base currency; cash and every other position are untouched.
\<close>

theorem planWriteOff_removes_one:
  assumes "decimal_lib L" "planWriteOff L uuid req pf ps cash val = Inr p" "distinct (map pos_ID ps)"
  shows "\<exists>old. findOpenBySymbol ps (ca_Symbol (mr_CorpAction req)) = Some old
     \<and> set (mp_newOpen p) = set ps - {old} \<and> Suc (length (mp_newOpen p)) = length ps
     \<and> mp_newCash p = cash
     \<and> map_option act_RealizedGainLossBase (mp_activity p) =
         Some (Some (- (pos_Quantity old * pos_AverageBuyPrice old * rate_of val (pos_Currency old))))"
proof -
  from assms(2) obtain old where old: "findOpenBySymbol ps (ca_Symbol (mr_CorpAction req)) = Some old"
    and p: "mp_newOpen p = removeFromSet ps (pos_ID old)" "mp_newCash p = cash"
    "map_option act_RealizedGainLossBase (mp_activity p) =
         Some (Some (- (pos_Quantity old * pos_AverageBuyPrice old * rate_of val (pos_Currency old))))"
    by (auto simp: planWriteOff_def Let_def money_defs decimal_lib.neg [OF assms(1)]
        decimal_lib.mul [OF assms(1)])
  have "old \<in> set ps" using findOpenBySymbol_Some [OF old] by simp
  with old p show ?thesis using removeFromSet_one [OF assms(3)] by auto
qed

definition demo_writeoff :: MutationRequest where
  "demo_writeoff = zero_request\<lparr>mr_Kind := MutationWriteOff\<rparr>"

theorem planWriteOff_removes_one_witness:
  "\<exists>p. planWriteOff std_declib demo_uuid demo_writeoff demo_pf [demo_pos] [demo_cash] demo_val = Inr p
     \<and> set (mp_newOpen p) = {} \<and> mp_newCash p = [demo_cash]"
proof -
  have f: "round2 (fround (- 1000)) = Fin (- 1000)" "round2 (fround 1000) = Fin 1000" by code_simp+
  have "\<exists>p. planWriteOff std_declib demo_uuid demo_writeoff demo_pf [demo_pos] [demo_cash] demo_val = Inr p"
    by (simp add: planWriteOff_def Let_def demo_writeoff_def zero_request_def demo_pos_def zero_Position_def
        findOpenBySymbol_def money_defs rate_of_def std.float64 f)
      (simp add: std_declib_def)
  then obtain p where p: "planWriteOff std_declib demo_uuid demo_writeoff demo_pf [demo_pos] [demo_cash] demo_val = Inr p" ..
  have "findOpenBySymbol [demo_pos] (ca_Symbol (mr_CorpAction demo_writeoff)) = Some demo_pos"
    by (simp add: demo_writeoff_def zero_request_def)
  with planWriteOff_removes_one [OF std.decimal_lib_axioms p] p show ?thesis by simp
qed

end
