(* ===== verification/EventLaws.thy ===== *)
theory EventLaws
  imports IncomeLaws Validate
begin

text \<open>
  Income events with several components: every touched row is written once with its final value, cash
  moves by the sum of the net amounts, and what the event counts as a ranked return. Also the ticker
  rename.
\<close>

section \<open>The bookkeeping invariant\<close>

text \<open>What the loop keeps: the touched rows are keyed by their own key and are the rows of the working copies.\<close>

definition event_books :: "event_state \<Rightarrow> bool" where
  "event_books s =
     (distinct (map fst (es_touchedCash s)) \<and>
      (\<forall>c b. map_of (es_touchedCash s) c = Some b \<longrightarrow>
         cb_Currency b = c \<and> cashAmount (es_cash s) c = (cb_Amount b, True)) \<and>
      distinct (map fst (es_touchedPositions s)) \<and>
      (\<forall>i p. map_of (es_touchedPositions s) i = Some p \<longrightarrow> pos_ID p = i \<and> p \<in> set (es_open s)))"

lemma replaceOrAppend_member: "r \<in> set (replaceOrAppendPosition ps r)"
  by (auto simp: replaceOrAppendPosition_def replaceInSet_def list_ex_iff image_iff)

lemma event_touch_fields [simp]:
  "es_cash (event_touch p s) = es_cash s" "es_touchedCash (event_touch p s) = es_touchedCash s"
  "es_activities (event_touch p s) = es_activities s" "es_hasReturnLeg (event_touch p s) = es_hasReturnLeg s"
  "es_open (event_touch p s) = replaceOrAppendPosition (es_open s) p"
  by (simp_all add: event_touch_def)

lemma event_touch_books [simp]: "event_books s \<Longrightarrow> event_books (event_touch p s)"
  using replaceOrAppend_frame [of "es_open s" p]
  by (auto simp: event_books_def event_touch_def distinct_update update_conv' replaceOrAppend_member)

lemma event_creditCash_fields [simp]:
  "es_open (event_creditCash L pf t c a s) = es_open s"
  "es_touchedPositions (event_creditCash L pf t c a s) = es_touchedPositions s"
  "es_activities (event_creditCash L pf t c a s) = es_activities s"
  "es_hasReturnLeg (event_creditCash L pf t c a s) = es_hasReturnLeg s"
  by (simp_all add: event_creditCash_def Let_def)

lemma event_creditCash_books [simp]: "event_books s \<Longrightarrow> event_books (event_creditCash L pf t c a s)"
  by (auto simp: event_books_def event_creditCash_def Let_def distinct_update update_conv')

lemma event_books_frame [simp]:
  "event_books (s\<lparr>es_activities := as\<rparr>) = event_books s"
  "event_books (s\<lparr>es_hasReturnLeg := h\<rparr>) = event_books s"
  "event_books (s\<lparr>es_newPositions := n\<rparr>) = event_books s"
  by (simp_all add: event_books_def)

text \<open>What one component credits to a currency.\<close>

definition component_net :: "IncomeComponentInput \<Rightarrow> string \<Rightarrow> Amount" where
  "component_net part c =
     (case CurrencyScale c of Inl _ \<Rightarrow> 0
      | Inr s \<Rightarrow> bank_places s (ic_Amount part - ic_Withholding part - ic_Fee part))"

definition component_credit :: "IncomeEventInput \<Rightarrow> string \<Rightarrow> IncomeComponentInput \<Rightarrow> Amount" where
  "component_credit ev c part =
     (if ic_Subtype part = IncomeStockDividendSub
         \<or> (ic_Subtype part \<noteq> IncomeReturnOfCapitalSub
            \<and> (ic_Reinvest part \<or> ev_Reinvest ev \<or> ic_Subtype part = IncomeReinvestedDiv))
         \<or> c \<noteq> (if ic_Currency part = [] then ev_Currency ev else ic_Currency part)
      then 0 else component_net part c)"

lemma componentTerms_currency [simp]:
  "ct_currency (componentTerms ev t i part) = (if ic_Currency part = [] then ev_Currency ev else ic_Currency part)"
  by (simp add: componentTerms_def)

context decimal_lib
begin

lemma event_creditCash_cash [simp]:
  "cashAmount (es_cash (event_creditCash L pf t c a s)) d =
     (if d = c then (amount_in (es_cash s) c + a, True) else cashAmount (es_cash s) d)"
  "map_of (es_touchedCash (event_creditCash L pf t c a s)) d = None \<longleftrightarrow>
     d \<noteq> c \<and> map_of (es_touchedCash s) d = None"
  by (simp_all add: event_creditCash_def Let_def money_defs update_conv')

lemma event_stockDividend_Inr:
  assumes "event_stockDividend L uuid req pf val ev ct part s = Inr s'"
  obtains old f a where
    "findOpenBySymbol (es_open s) (ct_symbol ct) = Some old"
    "f = 1 + away_places 18 (ic_StockRatioNum part / ic_StockRatioDen part)" "1 < f"
    "s' = (event_touch (old\<lparr>pos_Quantity := bank_places 18 (pos_Quantity old * f),
             pos_AverageBuyPrice := away_places 12 (pos_AverageBuyPrice old / f),
             pos_UpdatedAt := val_ObservedAt val\<rparr>) s)\<lparr>es_activities := es_activities s @ [a]\<rparr>"
  using assms that
  by (auto simp: event_stockDividend_def Let_def money_defs scale_defs not_le split: if_splits)

lemma event_returnOfCapital_Inr:
  assumes "event_returnOfCapital L uuid req pf val ev ct part s = Inr s'"
  obtains p a n where
    "CurrencyScale (ct_currency ct) = Inr n"
    "s' = (event_creditCash L pf (val_ObservedAt val) (ct_currency ct)
             (bank_places n (ic_Amount part - ic_Withholding part - ic_Fee part)) (event_touch p s))
             \<lparr>es_activities := es_activities s @ [a], es_hasReturnLeg := True\<rparr>"
  using assms that
  by (auto simp: event_returnOfCapital_def Let_def case_prod_beta)

lemma event_reinvest_frame:
  assumes "event_reinvest L uuid req pf val ev ct part net s = Inr s'"
  shows "(event_books s \<longrightarrow> event_books s') \<and> es_cash s' = es_cash s \<and> es_touchedCash s' = es_touchedCash s \<and>
    es_activities s' \<noteq> [] \<and> es_hasReturnLeg s' = es_hasReturnLeg s"
  using assms by (auto simp: event_reinvest_def Let_def case_prod_beta split: if_splits)

lemma event_cashIncome_ex:
  "\<exists>a. event_cashIncome L uuid req pf val ev ct part net s =
     (event_creditCash L pf (val_ObservedAt val) (ct_currency ct) net s)\<lparr>es_activities := es_activities s @ [a]\<rparr>"
  unfolding event_cashIncome_def Let_def case_prod_beta event_creditCash_fields by (rule exI) (rule refl)

text \<open>One component: the books stay consistent, cash moves by its credit, and it leaves a leg.\<close>

lemma event_component_step:
  assumes "event_component L uuid req pf val fallback i part s = Inr s'"
  shows "(event_books s \<longrightarrow> event_books s') \<and>
    amount_in (es_cash s') c = amount_in (es_cash s) c + component_credit (mr_IncomeEvent req) c part \<and>
    (map_of (es_touchedCash s') c = None \<longrightarrow>
       map_of (es_touchedCash s) c = None \<and> cashAmount (es_cash s') c = cashAmount (es_cash s) c) \<and>
    es_activities s' \<noteq> [] \<and>
    es_hasReturnLeg s' = (es_hasReturnLeg s \<or> ic_Subtype part \<noteq> IncomeStockDividendSub)"
proof -
  let ?ct = "componentTerms (mr_IncomeEvent req) fallback i part"
  consider (stock) "ic_Subtype part = IncomeStockDividendSub"
      "event_stockDividend L uuid req pf val (mr_IncomeEvent req) ?ct part s = Inr s'"
    | (roc) "ic_Subtype part = IncomeReturnOfCapitalSub"
      "event_returnOfCapital L uuid req pf val (mr_IncomeEvent req) ?ct part s = Inr s'"
    | (reinvest) net where "ic_Subtype part \<noteq> IncomeStockDividendSub" "ic_Subtype part \<noteq> IncomeReturnOfCapitalSub"
      "ic_Reinvest part \<or> ev_Reinvest (mr_IncomeEvent req) \<or> ic_Subtype part = IncomeReinvestedDiv"
      "event_reinvest L uuid req pf val (mr_IncomeEvent req) ?ct part net (s\<lparr>es_hasReturnLeg := True\<rparr>) = Inr s'"
    | (cash) n where "ic_Subtype part \<noteq> IncomeStockDividendSub"
      "ic_Subtype part \<noteq> IncomeReturnOfCapitalSub \<longrightarrow>
       \<not> (ic_Reinvest part \<or> ev_Reinvest (mr_IncomeEvent req) \<or> ic_Subtype part = IncomeReinvestedDiv)"
      "ic_Subtype part \<noteq> IncomeReturnOfCapitalSub" "CurrencyScale (ct_currency ?ct) = Inr n"
      "s' = event_cashIncome L uuid req pf val (mr_IncomeEvent req) ?ct part
         (bank_places n (ic_Amount part - ic_Withholding part - ic_Fee part)) (s\<lparr>es_hasReturnLeg := True\<rparr>)"
    using assms by (auto simp: event_component_def Let_def split: if_splits)
  then show ?thesis
  proof cases
    case stock
    from stock(2) show ?thesis
      by (rule event_stockDividend_Inr) (use stock(1) in \<open>auto simp: component_credit_def\<close>)
  next
    case roc
    from roc(2) show ?thesis
      by (rule event_returnOfCapital_Inr)
        (use roc(1) in \<open>auto simp: component_credit_def component_net_def split: if_splits\<close>)
  next
    case reinvest
    from event_reinvest_frame [OF reinvest(4)] reinvest(1-3) show ?thesis
      by (auto simp: component_credit_def)
  next
    case cash
    from event_cashIncome_ex cash(5) obtain a where
      "s' = (event_creditCash L pf (val_ObservedAt val) (ct_currency ?ct)
         (bank_places n (ic_Amount part - ic_Withholding part - ic_Fee part)) (s\<lparr>es_hasReturnLeg := True\<rparr>))
         \<lparr>es_activities := es_activities (s\<lparr>es_hasReturnLeg := True\<rparr>) @ [a]\<rparr>" by metis
    with cash(1-4) show ?thesis
      by (auto simp: component_credit_def component_net_def split: if_splits)
  qed
qed

lemma event_loop_step:
  assumes "event_loop L uuid req pf val fallback i parts s = Inr s'"
  shows "(event_books s \<longrightarrow> event_books s') \<and>
    amount_in (es_cash s') c =
      amount_in (es_cash s) c + sum_list (map (component_credit (mr_IncomeEvent req) c) parts) \<and>
    (map_of (es_touchedCash s') c = None \<longrightarrow>
       map_of (es_touchedCash s) c = None \<and> cashAmount (es_cash s') c = cashAmount (es_cash s) c) \<and>
    es_hasReturnLeg s' = (es_hasReturnLeg s \<or> (\<exists>part \<in> set parts. ic_Subtype part \<noteq> IncomeStockDividendSub))"
  using assms
proof (induction parts arbitrary: i s)
  case (Cons part parts)
  then obtain m where m: "event_component L uuid req pf val fallback i part s = Inr m"
    "event_loop L uuid req pf val fallback (Suc i) parts m = Inr s'" by auto
  show ?case using event_component_step [OF m(1), of c] Cons.IH [OF m(2)] by auto
qed simp

end

text \<open>The balances and positions a write closure puts.\<close>

fun written_cash :: "tx_op list \<Rightarrow> CashBalance list" where
  "written_cash [] = []"
| "written_cash (PutCash b # ops) = b # written_cash ops"
| "written_cash (_ # ops) = written_cash ops"

fun written_positions :: "tx_op list \<Rightarrow> Position list" where
  "written_positions [] = []"
| "written_positions (CreatePos p # ops) = p # written_positions ops"
| "written_positions (UpdatePos p # ops) = p # written_positions ops"
| "written_positions (_ # ops) = written_positions ops"

lemma written_append [simp]:
  "written_cash (xs @ ys) = written_cash xs @ written_cash ys"
  "written_positions (xs @ ys) = written_positions xs @ written_positions ys"
  by (induction xs rule: written_cash.induct) auto

lemma written_puts [simp]:
  "written_cash (map (\<lambda>(c, b). PutCash b) cs) = map snd cs"
  "written_positions (map (\<lambda>(c, b). PutCash b) cs) = []"
  by (induction cs) auto

lemma written_touched [simp]:
  "written_cash (map (\<lambda>(i, p). if i \<in> N then CreatePos p else UpdatePos p) qs) = []"
  "written_positions (map (\<lambda>(i, p). if i \<in> N then CreatePos p else UpdatePos p) qs) = map snd qs"
  by (induction qs) auto

lemma keyed_distinct:
  assumes "distinct (map fst xs)" "\<forall>k v. map_of xs k = Some v \<longrightarrow> f v = k"
  shows "map f (map snd xs) = map fst xs"
  using assms by (auto simp: map_of_eq_Some_iff)

section \<open>Properties\<close>

lemma planIncomeEvent_Inr:
  assumes "planIncomeEvent L uuid req pf ps cash val = Inr p"
  obtains fallback s where
    "event_loop L uuid req pf val fallback 0 (ev_Components (mr_IncomeEvent req))
       \<lparr>es_open = ps, es_cash = cash, es_touchedPositions = [], es_newPositions = [],
        es_touchedCash = [], es_activities = [], es_resultPosition = None, es_hasReturnLeg = False\<rparr> = Inr s"
    "mp_newOpen p = es_open s" "mp_newCash p = es_cash s" "mp_write p = event_writes s"
    "mp_performanceEffect p = (if es_hasReturnLeg s then EffectReturn else EffectNeutral)"
    "mp_returnValueBase p = 0" "\<not> mp_valueInvariant p"
  using assms that
  by (auto simp: planIncomeEvent_def Let_def zero_plan_def split: if_splits list.splits)

lemma event_start_books [simp]:
  "event_books \<lparr>es_open = ps, es_cash = cash, es_touchedPositions = [], es_newPositions = [],
     es_touchedCash = [], es_activities = [], es_resultPosition = None, es_hasReturnLeg = h\<rparr>"
  by (simp add: event_books_def)

text \<open>
  C38. An income event writes every touched row exactly once, with its final value: balances and positions
  written have distinct keys and are those of the resulting portfolio, a currency no component pays is
  untouched, and each currency moves by exactly the sum of the net amounts of the components paid in it.
\<close>

theorem planIncomeEvent_books_once:
  assumes "decimal_lib L" "planIncomeEvent L uuid req pf ps cash val = Inr p"
  shows "distinct (map cb_Currency (written_cash (mp_write p)))
    \<and> distinct (map pos_ID (written_positions (mp_write p)))
    \<and> (\<forall>b \<in> set (written_cash (mp_write p)). cashAmount (mp_newCash p) (cb_Currency b) = (cb_Amount b, True))
    \<and> (\<forall>q \<in> set (written_positions (mp_write p)). q \<in> set (mp_newOpen p))
    \<and> (c \<notin> cb_Currency ` set (written_cash (mp_write p)) \<longrightarrow> cashAmount (mp_newCash p) c = cashAmount cash c)
    \<and> amount_in (mp_newCash p) c = amount_in cash c
       + sum_list (map (component_credit (mr_IncomeEvent req) c) (ev_Components (mr_IncomeEvent req)))"
proof -
  from assms(2) obtain fallback s where loop:
    "event_loop L uuid req pf val fallback 0 (ev_Components (mr_IncomeEvent req))
       \<lparr>es_open = ps, es_cash = cash, es_touchedPositions = [], es_newPositions = [],
        es_touchedCash = [], es_activities = [], es_resultPosition = None, es_hasReturnLeg = False\<rparr> = Inr s"
    and p: "mp_newOpen p = es_open s" "mp_newCash p = es_cash s" "mp_write p = event_writes s"
    by (rule planIncomeEvent_Inr)
  note step = decimal_lib.event_loop_step [OF assms(1) loop]
  have books: "event_books s" using step by simp
  have w: "written_cash (mp_write p) = map snd (es_touchedCash s)"
    "written_positions (mp_write p) = map snd (es_touchedPositions s)"
    by (simp_all add: p event_writes_def)
  have keys: "map cb_Currency (map snd (es_touchedCash s)) = map fst (es_touchedCash s)"
    "map pos_ID (map snd (es_touchedPositions s)) = map fst (es_touchedPositions s)"
    by (rule keyed_distinct; use books in \<open>simp add: event_books_def\<close>)+
  have "distinct (map cb_Currency (written_cash (mp_write p)))"
    "distinct (map pos_ID (written_positions (mp_write p)))"
    using books by (simp_all only: w keys event_books_def)
  moreover have "\<forall>b \<in> set (written_cash (mp_write p)). cashAmount (mp_newCash p) (cb_Currency b) = (cb_Amount b, True)"
    "\<forall>q \<in> set (written_positions (mp_write p)). q \<in> set (mp_newOpen p)"
    unfolding w p(1,2) using books by (auto simp: event_books_def map_of_eq_Some_iff)
  moreover have "cashAmount (mp_newCash p) c = cashAmount cash c"
    if "c \<notin> cb_Currency ` set (written_cash (mp_write p))"
  proof -
    from that keys(1) have "c \<notin> set (map fst (es_touchedCash s))" by (metis w(1) list.set_map)
    then have "map_of (es_touchedCash s) c = None" by (simp add: map_of_eq_None_iff)
    then show ?thesis using step [of c] by (simp add: p)
  qed
  moreover have "amount_in (mp_newCash p) c = amount_in cash c
       + sum_list (map (component_credit (mr_IncomeEvent req) c) (ev_Components (mr_IncomeEvent req)))"
    using step [of c] by (simp add: p)
  ultimately show ?thesis by blast
qed

text \<open>An event of a one-for-one stock dividend and a cash dividend of 20, withholding 3 and fee 1.\<close>

definition demo_stock_part :: IncomeComponentInput where
  "demo_stock_part = \<lparr>ic_Subtype = IncomeStockDividendSub, ic_Symbol = ''AAPL'', ic_AssetType = ''stock'',
     ic_Currency = ''USD'', ic_Amount = 0, ic_Withholding = 0, ic_Fee = 0, ic_Estimated = False,
     ic_Reinvest = False, ic_ReinvestPrice = 0, ic_PriceMethod = [], ic_StockRatioNum = 1,
     ic_StockRatioDen = 1, ic_TaxClassification = [], ic_OccurredAt = None, ic_Provenance = ProvenanceUnset\<rparr>"

definition demo_cash_part :: IncomeComponentInput where
  "demo_cash_part = demo_stock_part\<lparr>ic_Subtype := IncomeCashDividend, ic_Amount := 20, ic_Withholding := 3,
     ic_Fee := 1\<rparr>"

definition demo_event :: MutationRequest where
  "demo_event = zero_request\<lparr>mr_Kind := MutationIncomeEvent,
     mr_IncomeEvent := (mr_IncomeEvent zero_request)\<lparr>ev_Components := [demo_stock_part, demo_cash_part]\<rparr>\<rparr>"

definition demo_doubled :: Position where
  "demo_doubled = demo_pos\<lparr>pos_Quantity := 20, pos_AverageBuyPrice := 50, pos_UpdatedAt := 1000\<rparr>"

lemma demo_event_runs:
  "\<exists>p. planIncomeEvent std_declib demo_uuid demo_event demo_pf [demo_pos] [demo_cash] demo_val = Inr p
     \<and> mp_newOpen p = [demo_doubled]
     \<and> written_positions (mp_write p) = [demo_doubled]
     \<and> map (\<lambda>b. (cb_Currency b, cb_Amount b)) (mp_newCash p) = [(''USD'', 516)]"
proof -
  have a: "away_places 18 1 = 1" "away_places 12 50 = 50" by code_simp+
  show ?thesis
    by (simp add: planIncomeEvent_def Let_def demo_event_def zero_request_def demo_stock_part_def demo_cash_part_def
        event_component_def componentTerms_def event_stockDividend_def event_cashIncome_def event_writes_def
        event_touch_def event_creditCash_def credited_balance_def money_defs scale_defs a demo_pos_def
        zero_Position_def demo_doubled_def replaceOrAppendPosition_def replaceInSet_def findOpenBySymbol_def
        demo_cash_def cashAmount_def cashBalance_def zero_plan_def del: map_of.simps)
qed

theorem planIncomeEvent_books_once_witness:
  "\<exists>p. planIncomeEvent std_declib demo_uuid demo_event demo_pf [demo_pos] [demo_cash] demo_val = Inr p
     \<and> distinct (map pos_ID (written_positions (mp_write p)))
     \<and> amount_in (mp_newCash p) ''USD'' = 500 + 16"
proof -
  from demo_event_runs obtain p where p:
    "planIncomeEvent std_declib demo_uuid demo_event demo_pf [demo_pos] [demo_cash] demo_val = Inr p" by blast
  have "sum_list (map (component_credit (mr_IncomeEvent demo_event) ''USD'')
      (ev_Components (mr_IncomeEvent demo_event))) = 16"
    by (simp add: demo_event_def zero_request_def demo_stock_part_def demo_cash_part_def component_credit_def
        component_net_def)
  with planIncomeEvent_books_once [OF std.decimal_lib_axioms p, of "''USD''"] p show ?thesis by auto
qed

text \<open>
  The ranked effect of an income event is all or nothing: as soon as one component is not a stock
  dividend, the whole change of tracked value counts as return, the part due to a stock dividend (whose
  shares are valued at the pinned, unadjusted quote) included; only a pure stock-dividend event is neutral.
\<close>

theorem planIncomeEvent_effect:
  assumes "decimal_lib L" "planIncomeEvent L uuid req pf ps cash val = Inr p"
  shows "mp_performanceEffect p =
       (if \<exists>part \<in> set (ev_Components (mr_IncomeEvent req)). ic_Subtype part \<noteq> IncomeStockDividendSub
        then EffectReturn else EffectNeutral)
     \<and> mp_returnValueBase p = 0 \<and> \<not> mp_valueInvariant p"
  using assms(2)
proof (rule planIncomeEvent_Inr)
  fix fallback s
  assume "event_loop L uuid req pf val fallback 0 (ev_Components (mr_IncomeEvent req))
       \<lparr>es_open = ps, es_cash = cash, es_touchedPositions = [], es_newPositions = [],
        es_touchedCash = [], es_activities = [], es_resultPosition = None, es_hasReturnLeg = False\<rparr> = Inr s"
    and p: "mp_performanceEffect p = (if es_hasReturnLeg s then EffectReturn else EffectNeutral)"
    "mp_returnValueBase p = 0" "\<not> mp_valueInvariant p"
  from decimal_lib.event_loop_step [OF assms(1) this(1)] p show ?thesis by auto
qed

theorem planIncomeEvent_effect_witness:
  "\<exists>p. planIncomeEvent std_declib demo_uuid demo_event demo_pf [demo_pos] [demo_cash] demo_val = Inr p
     \<and> mp_performanceEffect p = EffectReturn
     \<and> ValueTracked std_declib demo_val [demo_pos] [demo_cash] = Inr (1600, True)
     \<and> ValueTracked std_declib demo_val (mp_newOpen p) (mp_newCash p) = Inr (2716, True)"
proof -
  from demo_event_runs obtain p where p:
    "planIncomeEvent std_declib demo_uuid demo_event demo_pf [demo_pos] [demo_cash] demo_val = Inr p"
    "mp_newOpen p = [demo_doubled]"
    "map (\<lambda>b. (cb_Currency b, cb_Amount b)) (mp_newCash p) = [(''USD'', 516)]"
    by (elim exE conjE) (rule that)
  have "mp_performanceEffect p = EffectReturn"
    using planIncomeEvent_effect [OF std.decimal_lib_axioms p(1)]
    by (auto simp: demo_event_def demo_stock_part_def demo_cash_part_def)
  moreover have "ValueTracked std_declib demo_val [demo_pos] [demo_cash] = Inr (1600, True)" by code_simp
  moreover have "ValueTracked std_declib demo_val (mp_newOpen p) (mp_newCash p) = Inr (2716, True)"
  proof -
    from p(3) obtain b where b: "mp_newCash p = [b]" "cb_Currency b = ''USD''" "cb_Amount b = 516" by auto
    have "cash_sound demo_val b" "cash_value demo_val b = 516"
      by (simp_all add: cash_sound_def cash_value_def rate_of_def b demo_val_def)
    moreover have "covered demo_val demo_doubled"
      by (simp add: covered_def demo_val_def demo_doubled_def demo_pos_def zero_Position_def)
    moreover have "open_value demo_val [demo_doubled] = 2200" "openPositions [demo_doubled] = [demo_doubled]"
      by code_simp+
    ultimately show ?thesis
      by (simp add: std.ValueTracked_iff p(2) b tracked_value_def tracked_active_def)
  qed
  ultimately show ?thesis using p(1) by blast
qed

text \<open>
  The stock-dividend component of an event scales quantity and average price like the single stock
  dividend, but keeps the price to 12 places only, not 36: the total basis drifts by up to half a unit
  of the 12th place per resulting share, and really does (a million shares, one for two).
\<close>

theorem event_stockDividend_basis_drift:
  assumes "decimal_lib L" "event_stockDividend L uuid req pf val ev ct part s = Inr s'"
  shows "\<exists>old r f. old \<in> set (es_open s) \<and> r \<in> set (es_open s') \<and> pos_ID r = pos_ID old \<and> 1 < f
     \<and> f = 1 + away_places 18 (ic_StockRatioNum part / ic_StockRatioDen part)
     \<and> pos_Quantity r = bank_places 18 (pos_Quantity old * f)
     \<and> pos_AverageBuyPrice r = away_places 12 (pos_AverageBuyPrice old / f)
     \<and> \<bar>pos_Quantity r * pos_AverageBuyPrice r - pos_Quantity old * pos_AverageBuyPrice old\<bar>
         \<le> \<bar>pos_AverageBuyPrice r\<bar> / (2 * 10 ^ 18) + \<bar>pos_Quantity old * f\<bar> / (2 * 10 ^ 12)"
proof (rule decimal_lib.event_stockDividend_Inr [OF assms])
  fix old :: Position and f :: Ratio and a
  let ?r = "old\<lparr>pos_Quantity := bank_places 18 (pos_Quantity old * f),
             pos_AverageBuyPrice := away_places 12 (pos_AverageBuyPrice old / f),
             pos_UpdatedAt := val_ObservedAt val\<rparr>"
  assume *: "findOpenBySymbol (es_open s) (ct_symbol ct) = Some old"
    "f = 1 + away_places 18 (ic_StockRatioNum part / ic_StockRatioDen part)" "1 < f"
    "s' = (event_touch ?r s)\<lparr>es_activities := es_activities s @ [a]\<rparr>"
  have "?r \<in> set (es_open s')" by (simp add: *(4) replaceOrAppend_member)
  moreover have "f \<noteq> 0" using *(3) by auto
  ultimately show ?thesis
    using * findOpenBySymbol_Some [OF *(1)]
      decimal_lib.basis_preserved [OF assms(1) \<open>f \<noteq> 0\<close>, of 18 "pos_Quantity old" 12 "pos_AverageBuyPrice old"]
    by (intro exI [of _ old] exI [of _ ?r] exI [of _ f]) simp
qed

definition demo_million :: event_state where
  "demo_million =
     \<lparr>es_open = [demo_pos\<lparr>pos_Quantity := 1000000, pos_AverageBuyPrice := 1\<rparr>], es_cash = [demo_cash],
      es_touchedPositions = [], es_newPositions = [], es_touchedCash = [], es_activities = [],
      es_resultPosition = None, es_hasReturnLeg = False\<rparr>"

theorem event_stockDividend_basis_drift_witness:
  "\<exists>s' r. event_stockDividend std_declib demo_uuid demo_event demo_pf demo_val (mr_IncomeEvent demo_event)
       (componentTerms (mr_IncomeEvent demo_event) 0 0 demo_stock_part)
       (demo_stock_part\<lparr>ic_StockRatioNum := 2\<rparr>) demo_million = Inr s'
     \<and> r \<in> set (es_open s') \<and> pos_Quantity r * pos_AverageBuyPrice r = 1000000 - 1 / 10 ^ 6"
proof -
  have a: "away_places 18 2 = 2" "away_places 12 (1 / 3) = 333333333333 / 10 ^ 12" by code_simp+
  let ?ev = "event_stockDividend std_declib demo_uuid demo_event demo_pf demo_val (mr_IncomeEvent demo_event)
       (componentTerms (mr_IncomeEvent demo_event) 0 0 demo_stock_part)
       (demo_stock_part\<lparr>ic_StockRatioNum := 2\<rparr>) demo_million"
  have "\<exists>s'. ?ev = Inr s'"
    by (simp add: event_stockDividend_def Let_def demo_event_def zero_request_def demo_stock_part_def
        componentTerms_def money_defs scale_defs a demo_pos_def zero_Position_def demo_million_def
        findOpenBySymbol_def del: map_of.simps)
  then obtain s' where s': "?ev = Inr s'" ..
  from event_stockDividend_basis_drift [OF std.decimal_lib_axioms s'] obtain old r f where
    "old \<in> set (es_open demo_million)" "r \<in> set (es_open s')"
    "f = 1 + away_places 18 (2 / 1)" "pos_Quantity r = bank_places 18 (pos_Quantity old * f)"
    "pos_AverageBuyPrice r = away_places 12 (pos_AverageBuyPrice old / f)"
    by (auto simp: demo_stock_part_def)
  then show ?thesis using s'
    by (intro exI [of _ s'] exI [of _ r]) (simp add: demo_million_def a)
qed

text \<open>
  A ticker rename changes the symbol (and update time) of exactly one position, keeps its quantity,
  price and identity, touches neither cash nor ranked value, and keeps the open symbols distinct: it is
  refused as a conflict whenever another open position already has the new symbol.
\<close>

theorem planSymbolChange_renames_one:
  assumes "planSymbolChange L uuid req pf ps cash val = Inr p" "distinct (map pos_ID ps)"
  shows "\<exists>old \<in> set ps. pos_Symbol old = ca_Symbol (mr_CorpAction req)
     \<and> mp_newOpen p = map (\<lambda>q. if q = old
          then old\<lparr>pos_Symbol := ca_NewSymbol (mr_CorpAction req), pos_UpdatedAt := val_ObservedAt val\<rparr> else q) ps
     \<and> mp_newCash p = cash \<and> mp_valueInvariant p
     \<and> (distinct (map pos_Symbol ps) \<longrightarrow> distinct (map pos_Symbol (mp_newOpen p)))"
proof -
  let ?new = "ca_NewSymbol (mr_CorpAction req)"
  from assms(1) obtain old where old: "findOpenBySymbol ps (ca_Symbol (mr_CorpAction req)) = Some old"
    and free: "\<forall>other. findOpenBySymbol ps ?new = Some other \<longrightarrow> pos_ID other = pos_ID old"
    and p: "mp_newOpen p = replaceInSet ps (pos_ID old)
        (old\<lparr>pos_Symbol := ?new, pos_UpdatedAt := val_ObservedAt val\<rparr>)" "mp_newCash p = cash" "mp_valueInvariant p"
    by (auto simp: planSymbolChange_def Let_def split: if_splits option.splits)
  from findOpenBySymbol_Some [OF old] have mem: "old \<in> set ps" "pos_Symbol old = ca_Symbol (mr_CorpAction req)"
    by auto
  have ids: "q = old" if "q \<in> set ps" "pos_ID q = pos_ID old" for q
    using that mem(1) assms(2) by (auto simp: distinct_map inj_on_def)
  have new: "mp_newOpen p = map (\<lambda>q. if q = old
      then old\<lparr>pos_Symbol := ?new, pos_UpdatedAt := val_ObservedAt val\<rparr> else q) ps"
    unfolding p(1) replaceInSet_def using ids by (auto intro!: map_cong)
  have "distinct (map pos_Symbol (mp_newOpen p))" if D: "distinct (map pos_Symbol ps)"
  proof -
    have other: "q = old" if "q \<in> set ps" "pos_Symbol q = ?new" for q
    proof -
      from that obtain z where z: "findOpenBySymbol ps ?new = Some z"
        by (cases "findOpenBySymbol ps ?new") (auto simp: findOpenBySymbol_def find_None_iff)
      with findOpenBySymbol_Some [OF z] free ids have "z = old" by blast
      with findOpenBySymbol_Some [OF z] that D show ?thesis by (auto simp: distinct_map inj_on_def)
    qed
    have "map pos_Symbol (mp_newOpen p) = map (\<lambda>q. if q = old then ?new else pos_Symbol q) ps"
      unfolding new by (simp add: comp_def if_distrib cong: if_cong)
    moreover have "inj_on (\<lambda>q. if q = old then ?new else pos_Symbol q) (set ps)"
    proof (rule inj_onI)
      fix x y
      assume xy: "x \<in> set ps" "y \<in> set ps"
        "(if x = old then ?new else pos_Symbol x) = (if y = old then ?new else pos_Symbol y)"
      from D have "inj_on pos_Symbol (set ps)" by (simp add: distinct_map)
      from inj_onD [OF this _ xy(1,2)] xy other [OF xy(1)] other [OF xy(2)] show "x = y"
        by (metis (full_types))
    qed
    ultimately show ?thesis using D by (simp add: distinct_map)
  qed
  with mem new p(2,3) show ?thesis by (intro bexI [of _ old]) simp_all
qed

theorem planSymbolChange_renames_one_witness:
  "\<exists>p. planSymbolChange std_declib demo_uuid zero_request demo_pf [demo_pos] [demo_cash] demo_val = Inr p
     \<and> map pos_Symbol (mp_newOpen p) = [''APPL''] \<and> mp_newCash p = [demo_cash]"
proof -
  have "\<exists>p. planSymbolChange std_declib demo_uuid zero_request demo_pf [demo_pos] [demo_cash] demo_val = Inr p"
    by (simp add: planSymbolChange_def Let_def zero_request_def findOpenBySymbol_def demo_pos_def zero_Position_def
        del: map_of.simps)
  then obtain p where p: "planSymbolChange std_declib demo_uuid zero_request demo_pf [demo_pos] [demo_cash] demo_val = Inr p" ..
  from planSymbolChange_renames_one [OF p] p show ?thesis by (auto simp: zero_request_def)
qed

end
