(* ===== verification/CoordinatorLaws.thy ===== *)
theory CoordinatorLaws
  imports Coordinator EventLaws
begin

text \<open>
  The locked mutation: how the ranked index moves, what a commit writes, and replays. The lemmas about
  the writes are proved once in the locale \<open>aggregate_tx\<close>, for every transaction that keeps the laws
  of the interface.
\<close>

section \<open>The ranked transition\<close>

context decimal_lib
begin

lemma neutral_iff [simp]: "neutral L a b = (bank_places 18 a = bank_places 18 b)"
  by (simp add: neutral_def money_defs scale_defs)

lemma pureTransition_neutral:
  assumes "effect \<noteq> EffectReturn"
  shows "pureTransition L kind effect st (CalculateIndexBeforeMutation L st cp) cp =
    rbind (lift_perf (ValidateState L (ApplyCheckpoint L st cp)))
      (\<lambda>_. Inr (ApplyCheckpoint L st cp, bank_places 18 (CalculateIndexBeforeMutation L st cp)))"
  using assms by (simp add: pureTransition_def Let_def checkpoint_neutral)

lemma mixed_mid:
  assumes "hb \<longrightarrow> 0 < vb"
  shows "bank_places 18 (CalculateCurrentIndex L (ApplyCheckpoint L st (checkpointInput pid uid t vb hb v ha)) v) =
    bank_places 18 (CalculateIndexBeforeMutation L st (checkpointInput pid uid t vb hb v ha))"
  using checkpoint_neutral [of st "checkpointInput pid uid t vb hb v ha"] by (simp add: checkpointInput_def)

end

text \<open>Whether the index before a mutation is read from the values before it does not depend on the values after.\<close>

lemma index_before_after_irrelevant:
  "CalculateIndexBeforeMutation L st (checkpointInput pid uid t vb hb v ha) =
   CalculateIndexBeforeMutation L st (checkpointInput pid' uid' t' vb hb v' ha')"
  by (simp add: CalculateIndexBeforeMutation_def checkpointInput_def)

section \<open>The writes\<close>

context aggregate_tx
begin

lemma commitWrites_view:
  assumes "commitWrites L uuid H T req pf val p isNew vb nxt before after t = Inr t'"
  shows "\<exists>fp. H (req\<lparr>mr_RequestID := []\<rparr>) = Some fp \<and>
    view t' = (view t)
      \<lparr>vw_ranked := Some nxt, vw_version := Some (pf_Version pf + 1),
       vw_ledger := vw_ledger (view t) @ preparedActivities L p (pf_Version pf + 1),
       vw_audits := vw_audits (view t) @ [mutationAudit uuid req pf val p fp vb nxt before after],
       vw_outbox := vw_outbox (view t) @ [mutationEvent uuid req pf val p nxt after]\<rparr> \<and>
    ValidateState L nxt = Inr () \<and>
    (case vw_ranked (view t) of None \<Rightarrow> isNew | Some old \<Rightarrow> \<not> isNew \<and> st_Version old = vb)"
proof -
  from assms obtain t1 t2 t3 t4 t5 fp where t:
    "run_write T (mp_write p) t = Inr t1" "tx_PutRankedState T nxt isNew vb t1 = Inr t2"
    "tx_SetPortfolioVersion T (pf_Version pf + 1) t2 = Inr t3"
    "record_activities T (preparedActivities L p (pf_Version pf + 1)) t3 = Inr t4"
    "H (req\<lparr>mr_RequestID := []\<rparr>) = Some fp"
    "tx_RecordAudit T (mutationAudit uuid req pf val p fp vb nxt before after) t4 = Inr t5"
    "tx_AppendOutbox T (mutationEvent uuid req pf val p nxt after) t5 = Inr t'"
    by (auto simp: commitWrites_def mustMutationFingerprint_def mutationFingerprint_def)
  from run_write_view [OF t(1)] put_ranked [OF t(2)] put_ranked_valid [OF t(2)] put_ranked_guard [OF t(2)]
    version [OF t(3)] record_activities_view [OF t(4)] audit [OF t(6)] outbox [OF t(7)] t(5)
  show ?thesis by simp
qed

text \<open>A mutation that commits: one plan, one transition, one version, one audit record, one event.\<close>

lemma applyMutation_commits:
  assumes "applyMutation L uuid H history T req val t = Inr (res, [], t')"
  shows "\<exists>p nxt before after fp.
    plan L (\<lambda>n. uuid (n + 2)) req (vw_portfolio (view t)) (tx_Positions T t) (tx_CashBalances T t) val = Inr p \<and>
    view t' = (view t)
      \<lparr>vw_ranked := Some nxt, vw_version := Some (pf_Version (vw_portfolio (view t)) + 1),
       vw_ledger := vw_ledger (view t) @ preparedActivities L p (pf_Version (vw_portfolio (view t)) + 1),
       vw_audits := vw_audits (view t) @ [mutationAudit uuid req (vw_portfolio (view t)) val p fp
          (case vw_ranked (view t) of None \<Rightarrow> 0 | Some st \<Rightarrow> st_Version st) nxt before after],
       vw_outbox := vw_outbox (view t) @ [mutationEvent uuid req (vw_portfolio (view t)) val p nxt after]\<rparr> \<and>
    ValidateState L nxt = Inr () \<and> H (req\<lparr>mr_RequestID := []\<rparr>) = Some fp \<and>
    res_PortfolioVersion res = pf_Version (vw_portfolio (view t)) + 1 \<and>
    res_RankedIndexBefore res = before \<and> res_RankedIndexAfter res = after \<and> \<not> res_Duplicate res"
proof -
  let ?pf = "vw_portfolio (view t)"
  from assms obtain p vb hb va ha nxt before after where
    "plan L (\<lambda>n. uuid (n + 2)) req ?pf (tx_Positions T t) (tx_CashBalances T t) val = Inr p"
    and w: "commitWrites L uuid H T req ?pf val p (vw_ranked (view t) = None)
      (st_Version (initialState L (vw_ranked (view t)) (pf_ID ?pf) (mr_UserID req) vb hb (val_ObservedAt val)))
      nxt before after t = Inr t'"
    and "res_PortfolioVersion res = pf_Version ?pf + 1" "res_RankedIndexBefore res = before"
    "res_RankedIndexAfter res = after" "\<not> res_Duplicate res"
    by (auto simp: applyMutation_def Let_def portfolio ranked zero_result_def split: if_splits prod.splits)
  moreover have "st_Version (initialState L (vw_ranked (view t)) (pf_ID ?pf) (mr_UserID req) vb hb (val_ObservedAt val)) =
     (case vw_ranked (view t) of None \<Rightarrow> 0 | Some st \<Rightarrow> st_Version st)"
    by (simp add: initialState_def split: option.splits)
  ultimately show ?thesis using commitWrites_view [OF w] by (auto simp: split: option.splits)
qed

end

text \<open>
  An invariant of the transaction that every write operation keeps is kept by the whole mutation: the
  contract under which a store may keep more than the coordinator observes.
\<close>

locale tx_invariant = aggregate_tx T L view for T :: "'t AggregateTx" and L view +
  fixes I :: "'t \<Rightarrow> bool"
  assumes op_keeps: "run_op T w t = Inr t' \<Longrightarrow> I t \<Longrightarrow> I t'"
    and ranked_keeps: "tx_PutRankedState T st isNew v t = Inr t' \<Longrightarrow> I t \<Longrightarrow> I t'"
    and version_keeps: "tx_SetPortfolioVersion T n t = Inr t' \<Longrightarrow> I t \<Longrightarrow> I t'"
    and activity_keeps: "tx_RecordActivity T a t = Inr t' \<Longrightarrow> I t \<Longrightarrow> I t'"
    and audit_keeps: "tx_RecordAudit T au t = Inr t' \<Longrightarrow> I t \<Longrightarrow> I t'"
    and outbox_keeps: "tx_AppendOutbox T e t = Inr t' \<Longrightarrow> I t \<Longrightarrow> I t'"
begin

lemma run_write_keeps: "run_write T ws t = Inr t' \<Longrightarrow> I t \<Longrightarrow> I t'"
  by (induction ws arbitrary: t) (auto dest: op_keeps)

lemma record_activities_keeps: "record_activities T as t = Inr t' \<Longrightarrow> I t \<Longrightarrow> I t'"
  by (induction as arbitrary: t) (auto dest: activity_keeps)

lemma commitWrites_keeps:
  "commitWrites L uuid H T req pf val p isNew vb nxt before after t = Inr t' \<Longrightarrow> I t \<Longrightarrow> I t'"
  by (auto simp: commitWrites_def dest!: run_write_keeps ranked_keeps version_keeps record_activities_keeps
      audit_keeps outbox_keeps)

lemma applyMutation_keeps:
  "applyMutation L uuid H history T req val t = Inr (res, miss, t') \<Longrightarrow> I t \<Longrightarrow> I t'"
  by (auto simp: applyMutation_def Let_def split: if_splits prod.splits dest: commitWrites_keeps)

lemma applyLocked_keeps:
  "applyLocked L uuid H history T req val t = Inr (res, miss, t') \<Longrightarrow> I t \<Longrightarrow> I t'"
  by (auto simp: applyLocked_def split: option.splits dest: applyMutation_keeps)

end

section \<open>Which plans are neutral\<close>

text \<open>The kinds of mutation that never carry a return of their own.\<close>

definition neutral_kinds :: "MutationKind list" where
  "neutral_kinds =
     [MutationDeposit, MutationWithdrawal, MutationAdd, MutationResize, MutationDelete, MutationReplace,
      MutationStockDividend, MutationSplit, MutationSymbolChange]"

lemma zero_plan_effects [simp]:
  "mp_returnValueBase zero_plan = 0" "mp_performanceEffect zero_plan = EffectUnset"
  by (simp_all add: zero_plan_def)

lemma plan_neutral:
  assumes "plan L uuid req pf ps cash val = Inr p" "mr_Kind req \<in> set neutral_kinds"
  shows "mp_returnValueBase p = 0 \<and> mp_performanceEffect p = EffectUnset \<and> mutationEffect (mr_Kind req) \<noteq> EffectReturn"
proof -
  consider "mr_Kind req \<in> {MutationDeposit, MutationWithdrawal}" | "mr_Kind req \<in> {MutationAdd, MutationResize, MutationDelete}"
    | "mr_Kind req = MutationReplace" | "mr_Kind req \<in> {MutationStockDividend, MutationSplit, MutationSymbolChange}"
    using assms(2) by (auto simp: neutral_kinds_def)
  then show ?thesis
  proof cases
    case 1
    with assms(1) show ?thesis
      by (auto simp: plan_def Let_def planCashFlow_def mutationEffect_def split: prod.splits if_splits)
  next
    case 2
    with assms(1) show ?thesis
      by (auto simp: plan_def Let_def planAdd_def planResize_def planDelete_def mutationEffect_def split: if_splits)
  next
    case 3
    with assms(1) show ?thesis
      by (auto simp: plan_def Let_def planReplace_def mutationEffect_def split: prod.splits if_splits)
  next
    case 4
    with assms(1) show ?thesis
      by (auto simp: plan_def Let_def planStockDividend_def planSplit_def planSymbolChange_def mutationEffect_def
          split: prod.splits if_splits option.splits)
  qed
qed

lemma lift_perf_not_ranked [simp]: "lift_perf r \<noteq> Inl ErrRankedInvariant"
  by (cases r) auto

text \<open>
  The mixed branch, once its inputs are sound: the segment restarts at the value without the fee, the
  index before is the checkpoint, and the fee moves the index by the ratio of the two values.
\<close>

definition mixed_state :: "declib \<Rightarrow> string \<Rightarrow> string \<Rightarrow> time \<Rightarrow> State \<Rightarrow> Amount \<Rightarrow> bool \<Rightarrow> Amount \<Rightarrow> State" where
  "mixed_state L pid uid t st vb hb v =
     (ApplyCheckpoint L st (checkpointInput pid uid t vb hb v True))\<lparr>st_Version := st_Version st + 2\<rparr>"

lemma away_fraction_le_1: "0 \<le> x \<Longrightarrow> x \<le> y \<Longrightarrow> 0 < y \<Longrightarrow> away_places n (x / y) \<le> 1"
  using away_places_mono [of "x / y" 1 n] by simp

context decimal_lib
begin

lemma rankedTransition_neutral_iff:
  assumes "mp_returnValueBase p = 0" "mp_performanceEffect p = EffectUnset" "mutationEffect (mr_Kind req) \<noteq> EffectReturn"
  shows "rankedTransition L req pf val p st vb hb va ha =
    (let cp = checkpointInput (pf_ID pf) (mr_UserID req) (val_ObservedAt val) vb hb va ha;
         before = CalculateIndexBeforeMutation L st cp
     in rbind (lift_perf (ValidateState L (ApplyCheckpoint L st cp)))
          (\<lambda>_. Inr (ApplyCheckpoint L st cp, before, bank_places 18 before)))"
proof -
  have r: "rbind (rbind a (\<lambda>_. Inr (b, c))) (\<lambda>(x, y). Inr (x, d, y)) = rbind a (\<lambda>_. Inr (b, d, c))" for a :: "err + unit" and b :: State and c d :: Amount
    by (cases a) auto
  show ?thesis
    using assms by (simp add: rankedTransition_def Let_def pureTransition_neutral money_defs r)
qed

lemma mixedTransition_eq:
  assumes "ranked_ok L st" "before = CalculateIndexBeforeMutation L st (checkpointInput pid uid t vb hb va True)"
    and "0 < bank_places 18 before" "0 < va" "0 < va - rb" "rb < 0"
  shows "mixedTransition L pid uid t st before rb vb hb va True =
     Inr (mixed_state L pid uid t st vb hb (va - rb), bank_places 18 before * away_places 36 (va / (va - rb)))"
proof -
  let ?cp = "checkpointInput pid uid t vb hb (va - rb) True"
  let ?mid = "ApplyCheckpoint L st ?cp"
  let ?cp2 = "checkpointInput pid uid t (va - rb) True va True"
  have before: "CalculateIndexBeforeMutation L st ?cp = before"
    using assms(2) index_before_after_irrelevant by metis
  have fields: "ci_HasActiveAfter ?cp" "ci_ValueAfterBase ?cp = va - rb" "ci_At ?cp = t"
    "ci_HasActiveBefore ?cp2" "ci_HasActiveAfter ?cp2" "ci_ValueAfterBase ?cp2 = va" "ci_At ?cp2 = t"
    by (simp_all add: checkpointInput_def)
  have mid: "ValidateState L ?mid = Inr ()"
    using ApplyCheckpoint_ok [of st ?cp] assms fields before by (simp add: ranked_ok_def)
  have seg: "active_segment L ?mid" using assms(5) fields by simp
  have nxt: "ApplyReturnCheckpoint L ?mid ?cp2 = mixed_state L pid uid t st vb hb (va - rb)"
    using return_keeps_segment [OF seg fields(4,5)] assms(4) fields
    by (simp add: mixed_state_def ApplyCheckpoint_def Let_def)
  have ok: "ValidateState L (mixed_state L pid uid t st vb hb (va - rb)) = Inr ()"
    using mid fields by (simp add: mixed_state_def ValidateState_iff)
  have after: "CalculateCurrentIndex L (mixed_state L pid uid t st vb hb (va - rb)) va =
      bank_places 18 before * away_places 36 (va / (va - rb))"
    using assms(5) fields before by (simp add: mixed_state_def CalculateCurrentIndex_eq)
  have midIndex: "CalculateCurrentIndex L ?mid (va - rb) = bank_places 18 before"
    using checkpoint_neutral [of st ?cp] fields before by simp
  have "bank_places 18 before * away_places 36 (va / (va - rb)) \<le> bank_places 18 before"
    using away_fraction_le_1 [of va "va - rb" 36] assms(3-6) mult_left_le [of _ "bank_places 18 before"] by simp
  with mid ok show ?thesis
    by (simp add: mixedTransition_def Let_def money_defs nxt after midIndex)
qed

lemma mixedTransition_paused_eq:
  assumes "ranked_ok L st" "before = CalculateIndexBeforeMutation L st (checkpointInput pid uid t vb hb va False)"
    and "0 < bank_places 18 before"
  shows "\<exists>nxt. mixedTransition L pid uid t st before rb vb hb va False = Inr (nxt, bank_places 18 before)
     \<and> st_Status nxt = StatusPaused \<and> st_CheckpointIndex nxt = bank_places 18 before"
proof -
  let ?cp = "checkpointInput pid uid t vb hb (va - rb) False"
  let ?mid = "ApplyCheckpoint L st ?cp"
  let ?cp2 = "checkpointInput pid uid t (va - rb) False va False"
  have before: "CalculateIndexBeforeMutation L st ?cp = before"
    using assms(2) index_before_after_irrelevant by metis
  have fields: "\<not> ci_HasActiveAfter ?cp" "\<not> ci_HasActiveAfter ?cp2" "\<not> ci_HasActiveBefore ?cp2"
    by (simp_all add: checkpointInput_def)
  have mid: "ranked_ok L ?mid" using ApplyCheckpoint_ok [of st ?cp] assms fields before by (simp add: ranked_ok_def)
  have nxt: "ApplyReturnCheckpoint L ?mid ?cp2 = ApplyCheckpoint L ?mid ?cp2"
    using fields by (simp add: ApplyReturnCheckpoint_def Let_def)
  have idx: "CalculateIndexBeforeMutation L ?mid ?cp2 = bank_places 18 before"
    using fields before by (simp add: CalculateIndexBeforeMutation_def)
  have "ranked_ok L (ApplyCheckpoint L ?mid ?cp2)"
    using ApplyCheckpoint_ok [of ?mid ?cp2] mid assms(3) idx fields by (simp add: ranked_ok_def)
  with mid fields idx before show ?thesis
    by (simp add: mixedTransition_def Let_def money_defs scale_defs nxt ranked_ok_def CalculateCurrentIndex_eq)
qed

end

section \<open>Properties\<close>

text \<open>
  Neutral mutations never move the ranked index: whatever a plan of a neutral kind does to positions
  and cash, the transition stores the index before the mutation (at 18 places) as the new checkpoint and
  reports it as the index after, and the neutrality guard never fires.
\<close>

theorem neutral_plan_keeps_index:
  assumes "decimal_lib L" "plan L uuid req pf ps cash val = Inr p" "mr_Kind req \<in> set neutral_kinds"
  shows "rankedTransition L req pf val p st vb hb va ha \<noteq> Inl ErrRankedInvariant
     \<and> (rankedTransition L req pf val p st vb hb va ha = Inr (nxt, before, after) \<longrightarrow>
          after = bank_places 18 before \<and> st_CheckpointIndex nxt = after
          \<and> st_Version nxt = st_Version st + 1 \<and> st_TrackingStartedAt nxt = st_TrackingStartedAt st)"
proof -
  from plan_neutral [OF assms(2,3)] have "mp_returnValueBase p = 0" "mp_performanceEffect p = EffectUnset"
    "mutationEffect (mr_Kind req) \<noteq> EffectReturn" by simp_all
  note eq = decimal_lib.rankedTransition_neutral_iff [OF assms(1) this]
  show ?thesis by (auto simp: eq Let_def rbind_Inl_iff decimal_lib.QuantizeIndex_eq [OF assms(1)])
qed


theorem neutral_plan_keeps_index_witness:
  "\<exists>p nxt. plan std_declib demo_uuid (zero_request\<lparr>mr_Kind := MutationDeposit\<rparr>) demo_pf [demo_pos] [demo_cash] demo_val = Inr p
     \<and> rankedTransition std_declib (zero_request\<lparr>mr_Kind := MutationDeposit\<rparr>) demo_pf demo_val p demo_state
          1600 True 1700 True = Inr (nxt, 160, 160)"
proof -
  let ?req = "zero_request\<lparr>mr_Kind := MutationDeposit\<rparr>"
  have "\<exists>p. plan std_declib demo_uuid ?req demo_pf [demo_pos] [demo_cash] demo_val = Inr p"
    by (simp add: plan_def Let_def planCashFlow_def zero_request_def case_prod_beta del: map_of.simps)
  then obtain p where p: "plan std_declib demo_uuid ?req demo_pf [demo_pos] [demo_cash] demo_val = Inr p" ..
  have kind: "mr_Kind ?req \<in> set neutral_kinds" by (simp add: neutral_kinds_def)
  have fields: "mr_UserID ?req = ''u''" "pf_ID demo_pf = ''pf''" by (simp_all add: zero_request_def demo_pf_def)
  let ?cp = "checkpointInput ''pf'' ''u'' 1000 1600 True 1700 True"
  have ok: "ValidateState std_declib (ApplyCheckpoint std_declib demo_state ?cp) = Inr ()"
    "CalculateIndexBeforeMutation std_declib demo_state ?cp = 160" by code_simp+
  from plan_neutral [OF p kind] have n: "mp_returnValueBase p = 0" "mp_performanceEffect p = EffectUnset"
    "mutationEffect (mr_Kind ?req) \<noteq> EffectReturn" by simp_all
  have "\<exists>nxt. rankedTransition std_declib ?req demo_pf demo_val p demo_state 1600 True 1700 True = Inr (nxt, 160, 160)"
    unfolding std.rankedTransition_neutral_iff [OF n] using ok fields by (simp add: Let_def)
  then obtain nxt where "rankedTransition std_declib ?req demo_pf demo_val p demo_state 1600 True 1700 True = Inr (nxt, 160, 160)" ..
  with p neutral_plan_keeps_index [OF std.decimal_lib_axioms p kind, of demo_state 1600 True 1700 True] show ?thesis
    by blast
qed


text \<open>
  A fee paid by a trade that leaves nothing of value is never counted: when the portfolio has no active
  value after the mutation, the mixed transition pauses at the index before the mutation whatever the
  fee was, where the pure return transition would have taken the loss into the checkpoint.
\<close>

theorem mixedTransition_drain_loses_fee:
  assumes "decimal_lib L" "ranked_ok L st"
    and "before = CalculateIndexBeforeMutation L st (checkpointInput pid uid t vb hb va False)"
    and "0 < bank_places 18 before"
  shows "\<exists>nxt. mixedTransition L pid uid t st before rb vb hb va False = Inr (nxt, bank_places 18 before)
     \<and> st_Status nxt = StatusPaused \<and> st_CheckpointIndex nxt = bank_places 18 before"
  by (rule decimal_lib.mixedTransition_paused_eq [OF assms])

theorem mixedTransition_drain_loses_fee_witness:
  "\<exists>nxt. mixedTransition std_declib ''p'' ''u'' 2 demo_state 110 (-1100) 1100 True 0 False = Inr (nxt, 110)
     \<and> st_CheckpointIndex nxt = 110
     \<and> st_CheckpointIndex (ApplyReturnCheckpoint std_declib demo_state
          (checkpointInput ''p'' ''u'' 2 1100 True 0 False)) = 1 / 10 ^ 9"
proof -
  have "ranked_ok std_declib demo_state"
    by (simp add: ranked_ok_def std.ValidateState_iff demo_state_def) (use has_places_of_int [of 18 100] in simp)
  moreover have "110 = CalculateIndexBeforeMutation std_declib demo_state (checkpointInput ''p'' ''u'' 2 1100 True 0 False)"
    by code_simp
  moreover have "st_CheckpointIndex (ApplyReturnCheckpoint std_declib demo_state
          (checkpointInput ''p'' ''u'' 2 1100 True 0 False)) = 1 / 10 ^ 9" by code_simp
  ultimately show ?thesis
    using mixedTransition_drain_loses_fee [OF std.decimal_lib_axioms, of demo_state 110 "''p''" "''u''" 2 1100 True 0 "-1100"]
    by auto
qed

end
