(* ===== verification/StoreLaws.thy ===== *)
theory StoreLaws
  imports MemoryStore CoordinatorLaws
begin

text \<open>
  The in-memory store keeps the contract of \<open>AggregateTx\<close> (the locales \<open>aggregate_tx\<close> and
  \<open>tx_invariant\<close>, interpreted here on \<open>memory_tx\<close>), commits atomically, and delivers its outbox.
\<close>

section \<open>The interface\<close>

definition mem_view :: "memoryTx \<Rightarrow> tx_view" where
  "mem_view t =
     \<lparr>vw_portfolio = mt_portfolio t, vw_ranked = mt_ranked t, vw_ledger = mt_activities t,
      vw_version = mt_newVersion t, vw_audits = mt_audits t, vw_outbox = mt_outbox t\<rparr>"

lemma CloneState_id [simp]: "CloneState st = st"
  by (simp add: CloneState_def)

lemma CloneState_option [simp]: "map_option CloneState x = x"
  by (cases x) simp_all

lemmas mem_tx_defs = memory_tx_def mem_PutCashBalance_def mem_RecordActivity_def mem_LedgerActivities_def
  mem_CreatePosition_def mem_UpdatePosition_def mem_DeletePosition_def mem_ReplaceOpenPositions_def
  mem_RankedState_def mem_PutRankedState_def mem_SetPortfolioVersion_def mem_AppendOutbox_def
  mem_RecordAudit_def

lemma mem_op_view: "run_op (memory_tx L) w t = Inr t' \<Longrightarrow> mem_view t' = mem_view t"
  by (cases w) (auto simp: mem_tx_defs mem_view_def split: if_splits prod.splits)

interpretation mem: aggregate_tx "memory_tx L" L mem_view
proof
  fix t :: memoryTx and t' w a st isNew v n e au
  show "tx_Portfolio (memory_tx L) t = vw_portfolio (mem_view t)"
    "tx_RankedState (memory_tx L) t = Inr (vw_ranked (mem_view t))"
    "tx_LedgerActivities (memory_tx L) t = Inr (vw_ledger (mem_view t))"
    by (simp_all add: mem_tx_defs mem_view_def)
  show "run_op (memory_tx L) w t = Inr t' \<Longrightarrow> mem_view t' = mem_view t" by (rule mem_op_view)
  show "tx_RecordActivity (memory_tx L) a t = Inr t' \<Longrightarrow>
      mem_view t' = (mem_view t)\<lparr>vw_ledger := vw_ledger (mem_view t) @ [a]\<rparr>"
    "tx_RecordActivity (memory_tx L) a t = Inr t' \<Longrightarrow> act_RequestID a \<noteq> [] \<Longrightarrow>
      act_RequestID a \<notin> act_RequestID ` set (vw_ledger (mem_view t))"
    by (auto simp: mem_tx_defs mem_view_def list_ex_iff split: if_splits)
  show "tx_PutRankedState (memory_tx L) st isNew v t = Inr t' \<Longrightarrow>
      mem_view t' = (mem_view t)\<lparr>vw_ranked := Some st\<rparr>"
    "tx_PutRankedState (memory_tx L) st isNew v t = Inr t' \<Longrightarrow> ValidateState L st = Inr ()"
    "tx_PutRankedState (memory_tx L) st isNew v t = Inr t' \<Longrightarrow>
      (case vw_ranked (mem_view t) of None \<Rightarrow> isNew | Some old \<Rightarrow> \<not> isNew \<and> st_Version old = v)"
    by (auto simp: mem_tx_defs mem_view_def split: if_splits option.splits)
  show "tx_SetPortfolioVersion (memory_tx L) n t = Inr t' \<Longrightarrow>
      mem_view t' = (mem_view t)\<lparr>vw_version := Some n\<rparr>"
    "tx_AppendOutbox (memory_tx L) e t = Inr t' \<Longrightarrow>
      mem_view t' = (mem_view t)\<lparr>vw_outbox := vw_outbox (mem_view t) @ [e]\<rparr>"
    "tx_RecordAudit (memory_tx L) au t = Inr t' \<Longrightarrow>
      mem_view t' = (mem_view t)\<lparr>vw_audits := vw_audits (mem_view t) @ [au]\<rparr>"
    by (auto simp: mem_tx_defs mem_view_def)
qed

section \<open>The well-formedness of an aggregate\<close>

text \<open>
  Every stored position is filed under its own id and listed in the order; every balance is filed under
  its own currency, once, and is not negative; no two ledger entries share a request id; the ranked
  state is valid.
\<close>

definition positions_ok :: "string list \<Rightarrow> (string \<rightharpoonup> Position) \<Rightarrow> bool" where
  "positions_ok order m = (dom m \<subseteq> set order \<and> (\<forall>i p. m i = Some p \<longrightarrow> pos_ID p = i))"

definition cash_ok :: "(string \<times> CashBalance) list \<Rightarrow> bool" where
  "cash_ok cash =
     (distinct (map fst cash) \<and>
      (\<forall>c b. map_of cash c = Some b \<longrightarrow> cb_Currency b = c \<and> 0 \<le> cb_Amount b))"

definition ledger_ok :: "Activity list \<Rightarrow> bool" where
  "ledger_ok acts = distinct (filter (\<lambda>i. i \<noteq> []) (map act_RequestID acts))"

definition ranked_valid :: "declib \<Rightarrow> State option \<Rightarrow> bool" where
  "ranked_valid L st = (case st of None \<Rightarrow> True | Some s \<Rightarrow> ValidateState L s = Inr ())"

definition aggregate_ok :: "declib \<Rightarrow> aggregateState \<Rightarrow> bool" where
  "aggregate_ok L agg =
     (positions_ok (ag_order agg) (ag_positions agg) \<and> cash_ok (ag_cash agg) \<and>
      ledger_ok (ag_activities agg) \<and> ranked_valid L (ag_ranked agg))"

definition tx_ok :: "declib \<Rightarrow> memoryTx \<Rightarrow> bool" where
  "tx_ok L t =
     (positions_ok (mt_order t) (mt_positions t) \<and> cash_ok (mt_cash t) \<and>
      ledger_ok (mt_activities t) \<and> ranked_valid L (mt_ranked t))"

definition repository_ok :: "declib \<Rightarrow> InMemoryRepository \<Rightarrow> bool" where
  "repository_ok L r = (\<forall>pid agg. im_aggregates r pid = Some agg \<longrightarrow> aggregate_ok L agg)"

lemma stored_position_ID [simp]: "pos_ID (stored_position p) = pos_ID p"
  by (simp add: stored_position_def)

lemma positions_ok_put:
  assumes "positions_ok order m" "pos_ID p = i" "set order \<union> {i} \<subseteq> set order'"
  shows "positions_ok order' (m(i \<mapsto> p))"
  using assms by (simp add: positions_ok_def) blast

lemma positions_ok_drop:
  assumes "positions_ok order m"
  shows "positions_ok (remove1 i order) (m(i := None))"
proof -
  have "dom (m(i := None)) \<subseteq> set order - {i}" using assms by (auto simp: positions_ok_def)
  then have "dom (m(i := None)) \<subseteq> set (remove1 i order)" by (auto simp: in_set_remove1)
  with assms show ?thesis by (simp add: positions_ok_def)
qed

lemma drop_open_ok:
  "drop_open order m = (kept, m') \<Longrightarrow> (\<forall>i p. m' i = Some p \<longrightarrow> m i = Some p \<and> (i \<in> set order \<longrightarrow> i \<in> set kept))"
proof (induction order m arbitrary: kept m' rule: drop_open.induct)
  case (2 pid ids m)
  show ?case
  proof (cases "id_is_open m pid")
    case True
    with "2.prems" have "drop_open ids (m(pid := None)) = (kept, m')" by simp
    note IH = "2.IH"(1) [OF True this]
    show ?thesis
    proof (intro allI impI)
      fix i p assume "m' i = Some p"
      with IH have *: "(m(pid := None)) i = Some p" "i \<in> set ids \<longrightarrow> i \<in> set kept" by blast+
      then have "i \<noteq> pid" by (cases "i = pid") simp_all
      with * show "m i = Some p \<and> (i \<in> set (pid # ids) \<longrightarrow> i \<in> set kept)" by simp
    qed
  next
    case False
    obtain k m1 where d: "drop_open ids m = (k, m1)" by fastforce
    with False "2.prems" have "kept = pid # k" "m' = m1" by auto
    with "2.IH"(2) [OF False d] show ?thesis by auto
  qed
qed simp

lemma append_positions_ok:
  "append_positions ps (order, m) = (order', m') \<Longrightarrow> positions_ok order m \<Longrightarrow> positions_ok order' m'"
proof (induction ps arbitrary: order m)
  case (Cons p ps)
  have "positions_ok (order @ [pos_ID p]) (m(pos_ID p \<mapsto> stored_position p))"
    using Cons.prems(2) by (rule positions_ok_put) auto
  with Cons show ?case by simp
qed simp

lemma replace_positions_ok:
  assumes "append_positions ps (drop_open order m) = (order', m')" "positions_ok order m"
  shows "positions_ok order' m'"
proof -
  obtain kept m0 where d: "drop_open order m = (kept, m0)" by fastforce
  have "positions_ok kept m0"
    using drop_open_ok [OF d] assms(2) unfolding positions_ok_def by (meson domD domI subsetD subsetI)
  with append_positions_ok assms(1) d show ?thesis by metis
qed

lemma ledger_ok_snoc:
  "ledger_ok acts \<Longrightarrow> (act_RequestID a \<noteq> [] \<longrightarrow> act_RequestID a \<notin> act_RequestID ` set acts) \<Longrightarrow> ledger_ok (acts @ [a])"
  by (auto simp: ledger_ok_def)

lemma cash_ok_update:
  "cash_ok cash \<Longrightarrow> 0 \<le> cb_Amount b \<Longrightarrow> cash_ok (AList.update (cb_Currency b) b cash)"
  by (simp add: cash_ok_def distinct_update update_conv')

context decimal_lib
begin

lemma mem_op_ok:
  assumes "run_op (memory_tx L) w t = Inr t'" "tx_ok L t"
  shows "tx_ok L t'"
proof (cases w)
  case (PutCash b)
  with assms show ?thesis
    by (auto simp: mem_tx_defs tx_ok_def money_defs not_less intro: cash_ok_update split: if_splits)
next
  case (CreatePos p)
  with assms show ?thesis
    by (auto simp: mem_tx_defs tx_ok_def simp del: fun_upd_apply intro!: positions_ok_put)
next
  case (UpdatePos p)
  with assms(1) obtain old where old: "mt_positions t (pos_ID p) = Some old"
    and t': "t' = t\<lparr>mt_positions := (mt_positions t)(pos_ID p \<mapsto> p)\<rparr>"
    by (auto simp: mem_tx_defs split: if_splits)
  from assms(2) have ok: "positions_ok (mt_order t) (mt_positions t)" by (simp add: tx_ok_def)
  with old have "pos_ID p \<in> set (mt_order t)" by (auto simp: positions_ok_def)
  with ok have "positions_ok (mt_order t) ((mt_positions t)(pos_ID p \<mapsto> p))"
    by (auto intro!: positions_ok_put)
  with assms(2) show ?thesis by (simp add: t' tx_ok_def)
next
  case (DeletePos i)
  with assms show ?thesis
    by (auto simp: mem_tx_defs tx_ok_def simp del: fun_upd_apply intro!: positions_ok_drop split: if_splits)
next
  case (ReplaceOpen ps)
  with assms show ?thesis
    by (auto simp: mem_tx_defs tx_ok_def dest: replace_positions_ok split: prod.splits)
qed

end

lemma tx_ok_put_ranked:
  "tx_PutRankedState (memory_tx L) st isNew v t = Inr t' \<Longrightarrow> tx_ok L t \<Longrightarrow> tx_ok L t'"
  by (auto simp: mem_tx_defs tx_ok_def ranked_valid_def)

lemma tx_ok_activity: "tx_RecordActivity (memory_tx L) a t = Inr t' \<Longrightarrow> tx_ok L t \<Longrightarrow> tx_ok L t'"
  by (auto simp: mem_tx_defs tx_ok_def list_ex_iff intro!: ledger_ok_snoc split: if_splits) blast

lemma tx_ok_staged:
  "tx_SetPortfolioVersion (memory_tx L) n t = Inr t' \<Longrightarrow> tx_ok L t \<Longrightarrow> tx_ok L t'"
  "tx_RecordAudit (memory_tx L) au t = Inr t' \<Longrightarrow> tx_ok L t \<Longrightarrow> tx_ok L t'"
  "tx_AppendOutbox (memory_tx L) e t = Inr t' \<Longrightarrow> tx_ok L t \<Longrightarrow> tx_ok L t'"
  by (auto simp: mem_tx_defs tx_ok_def)

text \<open>
  For a library that keeps its documented laws the store keeps its invariant; for the interface
  without that hypothesis, the invariant is guarded by it.
\<close>

interpretation memory_invariant: tx_invariant "memory_tx L" L mem_view "\<lambda>t. decimal_lib L \<longrightarrow> tx_ok L t"
  by unfold_locales
    (blast intro: decimal_lib.mem_op_ok tx_ok_put_ranked tx_ok_activity tx_ok_staged)+

text \<open>A staged ranked state is marked: what is not marked is what was loaded.\<close>

lemma mem_op_ranked:
  "run_op (memory_tx L) w t = Inr t' \<Longrightarrow> mt_ranked t' = mt_ranked t \<and> mt_rankedDirty t' = mt_rankedDirty t"
  by (cases w) (auto simp: mem_tx_defs split: if_splits prod.splits)

interpretation memory_ranked: tx_invariant "memory_tx L" L mem_view "\<lambda>t. mt_rankedDirty t \<or> mt_ranked t = x"
proof
  fix w t t'
  show "run_op (memory_tx L) w t = Inr t' \<Longrightarrow> mt_rankedDirty t \<or> mt_ranked t = x \<Longrightarrow> mt_rankedDirty t' \<or> mt_ranked t' = x"
    using mem_op_ranked by metis
qed (auto simp: mem_tx_defs split: if_splits)

section \<open>Commit\<close>

lemma open_tx_ok: "aggregate_ok L agg \<Longrightarrow> tx_ok L (open_tx r agg)"
  by (simp add: aggregate_ok_def tx_ok_def open_tx_def)

lemma commit_aggregate_ok: "tx_ok L t \<Longrightarrow> aggregate_ok L agg \<Longrightarrow> aggregate_ok L (commit_aggregate t agg)"
  by (simp add: aggregate_ok_def tx_ok_def commit_aggregate_def)

lemma empty_aggregate_ok [simp]:
  "aggregate_ok L \<lparr>ag_portfolio = pf, ag_positions = Map.empty, ag_order = [], ag_ranked = None, ag_cash = [],
     ag_activities = []\<rparr>"
  by (simp add: aggregate_ok_def positions_ok_def cash_ok_def ledger_ok_def ranked_valid_def)

lemma aggregateFor_ok: "repository_ok L r \<Longrightarrow> aggregateFor newID now u r = (pid, r') \<Longrightarrow> repository_ok L r'"
  by (auto simp: aggregateFor_def repository_ok_def split: option.splits if_splits)

lemma aggregateFor_frame:
  "aggregateFor newID now u r = (pid, r') \<Longrightarrow>
     im_outbox r' = im_outbox r \<and> im_audits r' = im_audits r \<and> im_auditLog r' = im_auditLog r
     \<and> im_claimed r' = im_claimed r \<and> im_nextAttempt r' = im_nextAttempt r \<and> im_faults r' = im_faults r
     \<and> im_userPortfolio r' u = Some pid"
  by (auto simp: aggregateFor_def split: option.splits)

text \<open>The outcome of a locked section: nothing, or the commit of what the body staged.\<close>

lemma WithLockedPortfolio_cases:
  assumes "WithLockedPortfolio ctx1 ctx2 newID now u body r = (out, r')"
  obtains (refused) e where "out = Inl e" "r' = r"
  | (rolled_back) e pid where "out = Inl e" "aggregateFor newID now u r = (pid, r')"
  | (committed) x t pid r0 agg where "out = Inr x" "aggregateFor newID now u r = (pid, r0)"
      "im_aggregates r0 pid = Some agg" "body (open_tx r0 agg) = Inr (x, t)" "commit pid t r0 = Inr r'"
      "ctx1 = None" "ctx2 = None"
proof -
  obtain pid r0 where a: "aggregateFor newID now u r = (pid, r0)" by fastforce
  show thesis
  proof (cases ctx1)
    case (Some e)
    with assms show ?thesis by (intro refused) (auto simp: WithLockedPortfolio_def)
  next
    case None
    show ?thesis
    proof (cases out)
      case (Inl e)
      with assms None a have "r' = r0"
        by (auto simp: WithLockedPortfolio_def split: option.splits sum.splits prod.splits)
      with a Inl show ?thesis by (intro rolled_back) simp_all
    next
      case (Inr x)
      with assms None a obtain agg t where "im_aggregates r0 pid = Some agg" "body (open_tx r0 agg) = Inr (x, t)"
        "commit pid t r0 = Inr r'" "ctx2 = None"
        by (auto simp: WithLockedPortfolio_def split: option.splits sum.splits prod.splits)
      with Inr a None show ?thesis by (intro committed) simp_all
    qed
  qed
qed

lemma WithLockedPortfolio_ok:
  assumes "WithLockedPortfolio ctx1 ctx2 newID now u body r = (out, r')" "repository_ok L r"
    and body: "\<And>t x t'. body t = Inr (x, t') \<Longrightarrow> tx_ok L t \<Longrightarrow> tx_ok L t'"
  shows "repository_ok L r'"
  using assms(1)
proof (cases rule: WithLockedPortfolio_cases)
  case refused
  with assms(2) show ?thesis by simp
next
  case rolled_back
  with aggregateFor_ok [OF assms(2)] show ?thesis by metis
next
  case (committed x t pid r0 agg)
  have r0: "repository_ok L r0" using aggregateFor_ok [OF assms(2) committed(2)] .
  with committed(3) have agg: "aggregate_ok L agg" by (auto simp: repository_ok_def)
  from body [OF committed(4) open_tx_ok [OF agg]] have "aggregate_ok L (commit_aggregate t agg)"
    using agg commit_aggregate_ok by blast
  with r0 committed(3,5) show ?thesis by (auto simp: repository_ok_def commit_def split: if_splits)
qed

end
