(* ===== verification/ApplyLaws.thy ===== *)
theory ApplyLaws
  imports Apply StoreLaws
begin

text \<open>
  The mutation end to end on the in-memory store: whatever the other writers do, the store stays
  well formed; an error leaves no trace; a success commits exactly once; a retry replays.
\<close>

section \<open>Validation keeps the envelope\<close>

lemma validate_envelope:
  assumes "validate L req0 = Inr (req, seed)"
  shows "mr_Kind req = mr_Kind req0 \<and> mr_UserID req = mr_UserID req0 \<and> mr_RequestID req = mr_RequestID req0"
proof -
  note parts = validate_buy_def validate_sell_def validate_correction_def validate_income_def validate_reinvested_def
    validate_returnOfCapital_def validate_fee_def validate_symbolChange_def validateIncomeEvent_def
  show ?thesis
    using assms by (cases "mr_Kind req0") (auto simp: validate_def Let_def parts split: if_splits prod.splits)
qed

section \<open>The store stays well formed\<close>

lemma applyLocked_tx_ok:
  assumes "decimal_lib L" "applyLocked L uuid H history (memory_tx L) req val t = Inr (res, miss, t')" "tx_ok L t"
  shows "tx_ok L t'"
  using memory_invariant.applyLocked_keeps [OF assms(2)] assms(1,3) by blast

lemma lockedBody_ok:
  assumes "decimal_lib L" "lockedBody L E k req val t = Inr (res, t')" "tx_ok L t"
  shows "tx_ok L t'"
  using assms by (auto simp: lockedBody_def split: if_splits dest: applyLocked_tx_ok)

lemma locked_ok:
  assumes "locked E k u body r = (out, r')" "repository_ok L r"
    and "\<And>r. repository_ok L r \<Longrightarrow> repository_ok L (en_other E k r)"
    and "\<And>t x t'. body t = Inr (x, t') \<Longrightarrow> tx_ok L t \<Longrightarrow> tx_ok L t'"
  shows "repository_ok L r'"
  using assms WithLockedPortfolio_ok unfolding locked_def by metis

lemma apply_attempts_ok:
  assumes "decimal_lib L" "\<And>k r. repository_ok L r \<Longrightarrow> repository_ok L (en_other E k r)"
  shows "repository_ok L r \<Longrightarrow> repository_ok L (snd (apply_attempts L E k n req val r))"
proof (induction n arbitrary: k val r)
  case (Suc n)
  obtain out r1 where l: "locked E k (mr_UserID req) (lockedBody L E k req val) r = (out, r1)" by fastforce
  have "repository_ok L r1"
    using locked_ok [OF l Suc.prems assms(2)] lockedBody_ok [OF assms(1)] by blast
  with Suc.IH l show ?case by (auto split: sum.splits err.splits)
qed simp

section \<open>One attempt\<close>

lemma memory_FindAudit [simp]:
  "tx_FindAuditByRequestID (memory_tx L) i t = Inr (mt_storeAudits t (audit_key (pf_ID (mt_portfolio t)) i))"
  by (simp add: memory_tx_def mem_FindAuditByRequestID_def)

lemma replay_duplicate [simp]:
  "res_Duplicate (replay T t audit)" "res_PortfolioVersion (replay T t audit) = au_PortfolioVersionAfter audit"
  "res_RankedIndexBefore (replay T t audit) = au_RankedIndexBefore audit"
  "res_RankedIndexAfter (replay T t audit) = au_RankedIndexAfter audit"
  by (simp_all add: replay_def)

text \<open>A mutation that commits and is not a replay, in the store.\<close>

lemma applyLocked_fresh:
  assumes "applyLocked L uuid H history (memory_tx L) req val t = Inr (res, miss, t')" "\<not> res_Duplicate res"
  shows "\<exists>v. val = Some v \<and> applyMutation L uuid H history (memory_tx L) req v t = Inr (res, miss, t')"
proof -
  from assms(1) obtain found where found:
    "(if mr_RequestID req = [] then Inr None else tx_FindAuditByRequestID (memory_tx L) (mr_RequestID req) t) = Inr found"
    "(case found of Some audit \<Rightarrow> rbind (checkIdempotencyAudit H audit req) (\<lambda>_. Inr (replay (memory_tx L) t audit, [], t))
       | None \<Rightarrow> (case val of None \<Rightarrow> Inl Panic | Some v \<Rightarrow> applyMutation L uuid H history (memory_tx L) req v t))
     = Inr (res, miss, t')"
    unfolding applyLocked_def rbind_Inr_iff by blast
  show ?thesis
  proof (cases found)
    case None
    with found(2) show ?thesis by (auto split: option.splits)
  next
    case (Some audit)
    with found(2) assms(2) show ?thesis by auto
  qed
qed

lemma applyLocked_replays:
  assumes "mr_RequestID req \<noteq> []"
    and "mt_storeAudits t (audit_key (pf_ID (mt_portfolio t)) (mr_RequestID req)) = Some audit"
  shows "applyLocked L uuid H history (memory_tx L) req val t =
    rbind (checkIdempotencyAudit H audit req) (\<lambda>_. Inr (replay (memory_tx L) t audit, [], t))"
  using assms by (simp add: applyLocked_def)

section \<open>The rebuild loop\<close>

lemma aggregateFor_again:
  "aggregateFor i now u r = (pid, r0) \<Longrightarrow> aggregateFor j now u r0 = (pid, r0)"
  by (auto simp: aggregateFor_def split: option.splits)

text \<open>Without other writers, every attempt but the last leaves at most the default portfolio behind.\<close>

definition attempt_outcome ::
  "declib \<Rightarrow> mutation_env \<Rightarrow> MutationRequest \<Rightarrow> InMemoryRepository \<Rightarrow> err + MutationResult \<Rightarrow> InMemoryRepository \<Rightarrow> bool" where
  "attempt_outcome L E req r out r' =
     (\<exists>i pid r0. aggregateFor i (en_now E) (mr_UserID req) r = (pid, r0) \<and>
        (case out of
           Inl e \<Rightarrow> r' = r \<or> r' = r0
         | Inr res \<Rightarrow> \<exists>agg t k v. im_aggregates r0 pid = Some agg \<and>
             lockedBody L E k req v (open_tx r0 agg) = Inr (res, t) \<and> commit pid t r0 = Inr r'))"

lemma attempt_outcome_refused: "attempt_outcome L E req r (Inl e) r"
  by (cases "aggregateFor [] (en_now E) (mr_UserID req) r") (auto simp: attempt_outcome_def)

lemma attempt_outcome_rolled_back:
  "aggregateFor i (en_now E) (mr_UserID req) r = (pid, r0) \<Longrightarrow> attempt_outcome L E req r (Inl e) r0"
  by (auto simp: attempt_outcome_def)

lemma attempt_outcome_commit:
  assumes "aggregateFor i (en_now E) (mr_UserID req) r = (pid, r0)" "im_aggregates r0 pid = Some agg"
    and "lockedBody L E k req v (open_tx r0 agg) = Inr (res, t)" "commit pid t r0 = Inr r'"
  shows "attempt_outcome L E req r (Inr res) r'"
  unfolding attempt_outcome_def using assms
  by (intro exI [of _ i] exI [of _ pid] exI [of _ r0]) auto

lemma attempt_outcome_retry:
  assumes "aggregateFor i (en_now E) (mr_UserID req) r = (pid, r0)" "attempt_outcome L E req r0 out r'"
  shows "attempt_outcome L E req r out r'"
proof -
  from assms(2) obtain j pid' r1 where j: "aggregateFor j (en_now E) (mr_UserID req) r0 = (pid', r1)"
    and rest: "case out of Inl e \<Rightarrow> r' = r0 \<or> r' = r1
         | Inr res \<Rightarrow> \<exists>agg t k v. im_aggregates r1 pid' = Some agg \<and>
             lockedBody L E k req v (open_tx r1 agg) = Inr (res, t) \<and> commit pid' t r1 = Inr r'"
    unfolding attempt_outcome_def by blast
  from aggregateFor_again [OF assms(1)] j have "pid' = pid" "r1 = r0" by simp_all
  with rest assms(1) show ?thesis unfolding attempt_outcome_def
    by (intro exI [of _ i] exI [of _ pid] exI [of _ r0]) (auto split: sum.splits)
qed

lemma apply_attempts_outcome:
  assumes "en_other E = (\<lambda>k r. r)"
  shows "apply_attempts L E k n req val r = (out, r') \<Longrightarrow> attempt_outcome L E req r out r'"
proof (induction n arbitrary: k val r)
  case 0
  then show ?case by (auto intro: attempt_outcome_refused)
next
  case (Suc n)
  obtain out1 r1 where l: "locked E k (mr_UserID req) (lockedBody L E k req val) r = (out1, r1)" by fastforce
  from l have w: "WithLockedPortfolio (fst (en_ctx E k)) (snd (en_ctx E k)) (en_newID E k) (en_now E)
      (mr_UserID req) (lockedBody L E k req val) r = (out1, r1)"
    by (simp add: locked_def assms)
  have next_attempt: "attempt_outcome L E req r1 out r'" if "out1 = Inl e" for e
    using Suc.prems Suc.IH l that
    by (auto split: sum.splits err.splits intro: attempt_outcome_refused)
  from w show ?case
  proof (cases rule: WithLockedPortfolio_cases)
    case refused
    with next_attempt show ?thesis by simp
  next
    case rolled_back
    with next_attempt attempt_outcome_retry show ?thesis by blast
  next
    case (committed res t pid r0 agg)
    with Suc.prems l have "out = Inr res" "r' = r1" by simp_all
    with attempt_outcome_commit committed show ?thesis by blast
  qed
qed

text \<open>What one committed mutation leaves in the store.\<close>

definition committed_once ::
  "declib \<Rightarrow> fingerprint \<Rightarrow> MutationRequest \<Rightarrow> MutationResult \<Rightarrow> InMemoryRepository \<Rightarrow> InMemoryRepository \<Rightarrow> bool" where
  "committed_once L H req res r r' =
     (\<exists>i now pid r0 agg agg' e a st. aggregateFor i now (mr_UserID req) r = (pid, r0) \<and>
        im_aggregates r0 pid = Some agg \<and> im_aggregates r' = (im_aggregates r0)(pid \<mapsto> agg') \<and>
        im_userPortfolio r' = im_userPortfolio r0 \<and>
        im_outbox r' = im_outbox r @ [e] \<and> im_auditLog r' = im_auditLog r @ [a] \<and>
        im_audits r' = commit_audits [a] (im_audits r) \<and>
        pf_Version (ag_portfolio agg') = pf_Version (ag_portfolio agg) + 1 \<and>
        pf_ID (ag_portfolio agg') = pf_ID (ag_portfolio agg) \<and>
        res_PortfolioVersion res = pf_Version (ag_portfolio agg) + 1 \<and>
        ob_AggregateVersion e = pf_Version (ag_portfolio agg) + 1 \<and>
        au_PortfolioVersionBefore a = pf_Version (ag_portfolio agg) \<and>
        au_PortfolioVersionAfter a = pf_Version (ag_portfolio agg) + 1 \<and>
        au_PortfolioID a = pf_ID (ag_portfolio agg) \<and> au_RequestID a = mr_RequestID req \<and>
        au_MutationType a = mr_Kind req \<and>
        H (req\<lparr>mr_RequestID := []\<rparr>) = Some (au_RequestFingerprint a) \<and> f_Commit (im_faults r') = None \<and>
        au_RankedIndexBefore a = res_RankedIndexBefore res \<and>
        au_RankedIndexAfter a = res_RankedIndexAfter res \<and>
        ob_RankedIndex e = res_RankedIndexAfter res \<and> ob_ProcessedAt e = None \<and>
        ag_ranked agg' = Some st \<and> ValidateState L st = Inr () \<and> au_PerformanceVersionAfter a = st_Version st)"

lemma lockedBody_commits:
  assumes "lockedBody L E k req v t = Inr (res, t')" "\<not> res_Duplicate res"
  shows "\<exists>nxt e a acts. mem_view t' = (mem_view t)
      \<lparr>vw_ranked := Some nxt, vw_version := Some (pf_Version (mt_portfolio t) + 1),
       vw_ledger := mt_activities t @ acts, vw_audits := mt_audits t @ [a], vw_outbox := mt_outbox t @ [e]\<rparr>
    \<and> ValidateState L nxt = Inr ()
    \<and> res_PortfolioVersion res = pf_Version (mt_portfolio t) + 1
    \<and> ob_AggregateVersion e = pf_Version (mt_portfolio t) + 1 \<and> ob_ProcessedAt e = None
    \<and> ob_RankedIndex e = res_RankedIndexAfter res
    \<and> au_PortfolioVersionBefore a = pf_Version (mt_portfolio t)
    \<and> au_PortfolioVersionAfter a = pf_Version (mt_portfolio t) + 1
    \<and> au_PortfolioID a = pf_ID (mt_portfolio t) \<and> au_RequestID a = mr_RequestID req
    \<and> au_MutationType a = mr_Kind req \<and> au_RankedIndexBefore a = res_RankedIndexBefore res
    \<and> au_RankedIndexAfter a = res_RankedIndexAfter res \<and> au_PerformanceVersionAfter a = st_Version nxt
    \<and> en_fingerprint E (req\<lparr>mr_RequestID := []\<rparr>) = Some (au_RequestFingerprint a)"
proof -
  from assms have "applyLocked L (en_uuid E k) (en_fingerprint E) (en_history E) (memory_tx L) req (Some v) t = Inr (res, [], t')"
    by (auto simp: lockedBody_def split: if_splits)
  with applyLocked_fresh [OF _ assms(2)] have
    "applyMutation L (en_uuid E k) (en_fingerprint E) (en_history E) (memory_tx L) req v t = Inr (res, [], t')" by blast
  from mem.applyMutation_commits [OF this] show ?thesis
    by (auto simp: mem_view_def mutationAudit_def mutationEvent_def)
qed

lemma lockedBody_ranked:
  assumes "lockedBody L E k req v t = Inr (res, t')" "mt_rankedDirty t \<or> mt_ranked t = x"
  shows "mt_rankedDirty t' \<or> mt_ranked t' = x"
  using assms memory_ranked.applyLocked_keeps by (auto simp: lockedBody_def split: if_splits)

lemma commit_once:
  assumes "aggregateFor i now (mr_UserID req) r = (pid, r0)" "im_aggregates r0 pid = Some agg"
    and "lockedBody L E k req v (open_tx r0 agg) = Inr (res, t)" "commit pid t r0 = Inr r'" "\<not> res_Duplicate res"
  shows "committed_once L (en_fingerprint E) req res r r'"
proof -
  note frame = aggregateFor_frame [OF assms(1)]
  from lockedBody_commits [OF assms(3,5)] obtain nxt e a acts where v: "mem_view t = (mem_view (open_tx r0 agg))
      \<lparr>vw_ranked := Some nxt, vw_version := Some (pf_Version (ag_portfolio agg) + 1),
       vw_ledger := ag_activities agg @ acts, vw_audits := [a], vw_outbox := [e]\<rparr>"
    and f: "ValidateState L nxt = Inr ()"
    "res_PortfolioVersion res = pf_Version (ag_portfolio agg) + 1"
    "ob_AggregateVersion e = pf_Version (ag_portfolio agg) + 1" "ob_ProcessedAt e = None"
    "ob_RankedIndex e = res_RankedIndexAfter res"
    "au_PortfolioVersionBefore a = pf_Version (ag_portfolio agg)"
    "au_PortfolioVersionAfter a = pf_Version (ag_portfolio agg) + 1"
    "au_PortfolioID a = pf_ID (ag_portfolio agg)" "au_RequestID a = mr_RequestID req"
    "au_MutationType a = mr_Kind req" "au_RankedIndexBefore a = res_RankedIndexBefore res"
    "au_RankedIndexAfter a = res_RankedIndexAfter res" "au_PerformanceVersionAfter a = st_Version nxt"
    "en_fingerprint E (req\<lparr>mr_RequestID := []\<rparr>) = Some (au_RequestFingerprint a)"
    by (auto simp: open_tx_def)
  from v have t: "mt_ranked t = Some nxt" "mt_newVersion t = Some (pf_Version (ag_portfolio agg) + 1)"
    "mt_audits t = [a]" "mt_outbox t = [e]"
    by (simp_all add: mem_view_def)
  from v have pf: "mt_portfolio t = ag_portfolio agg" by (simp add: mem_view_def open_tx_def)
  have dirty: "mt_rankedDirty t \<or> ag_ranked agg = Some nxt"
    using lockedBody_ranked [OF assms(3), of "ag_ranked agg"] t(1) by (auto simp: open_tx_def)
  from assms(4) have nofault: "f_Commit (im_faults r0) = None" by (simp add: commit_def)
  from assms(4) have r': "r' = r0\<lparr>im_aggregates := (im_aggregates r0)(pid \<mapsto> commit_aggregate t agg),
      im_outbox := im_outbox r0 @ [e], im_audits := commit_audits [a] (im_audits r0), im_auditLog := im_auditLog r0 @ [a]\<rparr>"
    by (simp add: commit_def t assms(2))
  show ?thesis
    unfolding committed_once_def using assms(1,2) frame f
    by (intro exI [of _ i] exI [of _ now] exI [of _ pid] exI [of _ r0] exI [of _ agg] exI [of _ "commit_aggregate t agg"]
        exI [of _ e] exI [of _ a] exI [of _ nxt])
      (use dirty nofault in \<open>auto simp: r' commit_aggregate_def t pf\<close>)
qed

section \<open>The whole mutation\<close>

lemma Apply_outcome:
  assumes "en_other E = (\<lambda>k r. r)" "Apply L E req r = (out, r')" "\<forall>res. out = Inr res \<longrightarrow> \<not> res_Duplicate res"
  shows "(\<exists>e. out = Inl e) \<and> (r' = r \<or> (\<exists>i. r' = snd (aggregateFor i (en_now E) (mr_UserID req) r)))
    \<or> (\<exists>req' seed. validate L req = Inr (req', seed) \<and> attempt_outcome L E req' r out r')"
proof (cases "validate L req")
  case (Inl e)
  with assms(2) show ?thesis by (auto simp: Apply_def)
next
  case (Inr v)
  obtain req' seed where v: "validate L req = Inr (req', seed)" using Inr by (cases v) simp
  note env = validate_envelope [OF v]
  show ?thesis
  proof (cases "if mr_RequestID req' = [] then None else FindAuditByRequestID (mr_UserID req') (mr_RequestID req') r")
    case None
    show ?thesis
    proof (cases "pinObservation L E req' seed r")
      case (Inl e)
      with assms(2) v None show ?thesis by (auto simp: Apply_def)
    next
      case (Inr val)
      with assms(2) v None have "apply_attempts L E 0 maxMutationAttempts req' val r = (out, r')"
        by (simp add: Apply_def)
      with apply_attempts_outcome [OF assms(1)] v show ?thesis by blast
    qed
  next
    case (Some audit)
    show ?thesis
    proof (cases "checkIdempotencyAudit (en_fingerprint E) audit req'")
      case (Inl e)
      with assms(2) v Some show ?thesis by (auto simp: Apply_def)
    next
      case (Inr u)
      let ?body = "\<lambda>t. rbind (applyLocked L (en_uuid E 0) (en_fingerprint E) (en_history E) (memory_tx L) req' None t)
        (\<lambda>(res, miss, t'). Inr (res, t'))"
      from assms(1,2) v Some Inr have "WithLockedPortfolio (fst (en_ctx E 0)) (snd (en_ctx E 0)) (en_newID E 0)
          (en_now E) (mr_UserID req') ?body r = (out, r')"
        by (simp add: Apply_def locked_def)
      then show ?thesis
      proof (cases rule: WithLockedPortfolio_cases)
        case refused
        then show ?thesis by simp
      next
        case (rolled_back e pid)
        with env show ?thesis by (metis snd_conv)
      next
        case (committed x t pid r0 agg)
        then obtain miss where "applyLocked L (en_uuid E 0) (en_fingerprint E) (en_history E) (memory_tx L) req' None
            (open_tx r0 agg) = Inr (x, miss, t)" by (auto split: prod.splits)
        with applyLocked_fresh [OF this] committed(1) assms(3) show ?thesis by simp
      qed
    qed
  qed
qed

lemma commit_unchanged:
  assumes "im_aggregates r pid = Some agg" "f_Commit (im_faults r) = None"
  shows "commit pid (open_tx r agg) r = Inr r"
proof -
  have "commit_aggregate (open_tx r agg) agg = agg" by (simp add: commit_aggregate_def open_tx_def)
  moreover have "(im_aggregates r)(pid \<mapsto> agg) = im_aggregates r" using assms(1) by (simp add: fun_upd_idem)
  ultimately show ?thesis using assms by (simp add: commit_def open_tx_def)
qed

text \<open>Every portfolio is filed under its own id.\<close>

definition filed :: "InMemoryRepository \<Rightarrow> bool" where
  "filed r = (\<forall>pid agg. im_aggregates r pid = Some agg \<longrightarrow> pf_ID (ag_portfolio agg) = pid)"

lemma aggregateFor_filed: "filed r \<Longrightarrow> aggregateFor i now u r = (pid, r0) \<Longrightarrow> filed r0"
  by (auto simp: aggregateFor_def filed_def split: option.splits if_splits)

lemma replay_in_store:
  assumes "validate L req = Inr (req', seed)" "committed_once L H req' res r r'" "mr_RequestID req \<noteq> []" "filed r"
    and E: "en_other E = (\<lambda>k r. r)" "en_fingerprint E = H" "en_ctx E 0 = (None, None)"
  shows "\<exists>res2. Apply L E req r' = (Inr res2, r') \<and> res_Duplicate res2
    \<and> res_PortfolioVersion res2 = res_PortfolioVersion res
    \<and> res_RankedIndexBefore res2 = res_RankedIndexBefore res \<and> res_RankedIndexAfter res2 = res_RankedIndexAfter res"
proof -
  note env = validate_envelope [OF assms(1)]
  from assms(2) obtain i now pid r0 agg agg' a where
    own: "aggregateFor i now (mr_UserID req') r = (pid, r0)" and agg: "im_aggregates r0 pid = Some agg"
    and r': "im_aggregates r' = (im_aggregates r0)(pid \<mapsto> agg')" "im_userPortfolio r' = im_userPortfolio r0"
      "im_audits r' = commit_audits [a] (im_audits r)" "f_Commit (im_faults r') = None"
    and a: "pf_ID (ag_portfolio agg') = pf_ID (ag_portfolio agg)" "au_PortfolioID a = pf_ID (ag_portfolio agg)"
      "au_RequestID a = mr_RequestID req'" "au_MutationType a = mr_Kind req'"
      "H (req'\<lparr>mr_RequestID := []\<rparr>) = Some (au_RequestFingerprint a)"
      "au_PortfolioVersionAfter a = res_PortfolioVersion res" "au_RankedIndexBefore a = res_RankedIndexBefore res"
      "au_RankedIndexAfter a = res_RankedIndexAfter res"
    unfolding committed_once_def by auto
  from aggregateFor_filed [OF assms(4) own] agg have pid: "pf_ID (ag_portfolio agg) = pid" by (simp add: filed_def)
  have user: "im_userPortfolio r' (mr_UserID req') = Some pid" using aggregateFor_frame [OF own] r'(2) by simp
  have agg': "im_aggregates r' pid = Some agg'" using r'(1) by simp
  have audit: "im_audits r' (audit_key pid (mr_RequestID req')) = Some a"
    using a(2,3) pid assms(3) env r'(3) by simp
  have check: "checkIdempotencyAudit H a req' = Inr ()"
    using a(4,5) by (simp add: checkIdempotencyAudit_def mutationFingerprint_def)
  let ?t = "open_tx r' agg'"
  have "applyLocked L (en_uuid E 0) (en_fingerprint E) (en_history E) (memory_tx L) req' None ?t =
      Inr (replay (memory_tx L) ?t a, [], ?t)"
    using applyLocked_replays [of req' ?t a] assms(3) env audit check a(1) pid E(2) by (simp add: open_tx_def)
  moreover have "aggregateFor (en_newID E 0) (en_now E) (mr_UserID req') r' = (pid, r')"
    using user by (simp add: aggregateFor_def)
  moreover have "FindAuditByRequestID (mr_UserID req') (mr_RequestID req') r' = Some a"
    using user audit by (simp add: FindAuditByRequestID_def)
  ultimately have "Apply L E req r' = (Inr (replay (memory_tx L) ?t a), r')"
    using assms(1,3) env check E agg' commit_unchanged [OF agg' r'(4)]
    by (simp add: Apply_def locked_def WithLockedPortfolio_def)
  then show ?thesis using a(6-8) by simp
qed

lemma Apply_committed:
  assumes "en_other E = (\<lambda>k r. r)" "Apply L E req r = (Inr res, r')" "\<not> res_Duplicate res"
  shows "\<exists>req' seed. validate L req = Inr (req', seed) \<and> committed_once L (en_fingerprint E) req' res r r'"
proof -
  from Apply_outcome [OF assms(1,2)] assms(3) obtain req' seed where
    v: "validate L req = Inr (req', seed)" and o: "attempt_outcome L E req' r (Inr res) r'" by auto
  from o obtain i pid r0 agg t k v where "aggregateFor i (en_now E) (mr_UserID req') r = (pid, r0)"
    "im_aggregates r0 pid = Some agg" "lockedBody L E k req' v (open_tx r0 agg) = Inr (res, t)" "commit pid t r0 = Inr r'"
    unfolding attempt_outcome_def by auto
  from commit_once [OF this assms(3)] v show ?thesis by blast
qed

lemma apply_attempts_body:
  "apply_attempts L E k n req val r = (Inr res, r') \<Longrightarrow> \<exists>k v t t'. lockedBody L E k req v t = Inr (res, t')"
proof (induction n arbitrary: k val r)
  case (Suc n)
  obtain out1 r1 where l: "locked E k (mr_UserID req) (lockedBody L E k req val) r = (out1, r1)" by fastforce
  then have w: "WithLockedPortfolio (fst (en_ctx E k)) (snd (en_ctx E k)) (en_newID E k) (en_now E)
      (mr_UserID req) (lockedBody L E k req val) (en_other E k r) = (out1, r1)" by (simp add: locked_def)
  show ?case
  proof (cases out1)
    case (Inl e)
    with Suc l show ?thesis by (auto split: err.splits sum.splits)
  next
    case (Inr x)
    with Suc.prems l have "out1 = Inr res" by simp
    with w show ?thesis by (cases rule: WithLockedPortfolio_cases) auto
  qed
qed simp

lemma Apply_body:
  assumes "Apply L E req r = (Inr res, r')" "\<not> res_Duplicate res"
  shows "\<exists>req' seed k v t t'. validate L req = Inr (req', seed) \<and> lockedBody L E k req' v t = Inr (res, t')"
proof -
  from assms(1) obtain req' seed where v: "validate L req = Inr (req', seed)"
    by (auto simp: Apply_def split: sum.splits)
  show ?thesis
  proof (cases "if mr_RequestID req' = [] then None else FindAuditByRequestID (mr_UserID req') (mr_RequestID req') r")
    case None
    with assms(1) v obtain val where "apply_attempts L E 0 maxMutationAttempts req' val r = (Inr res, r')"
      by (auto simp: Apply_def split: sum.splits)
    from apply_attempts_body [OF this] v show ?thesis by blast
  next
    case (Some audit)
    let ?body = "\<lambda>t. rbind (applyLocked L (en_uuid E 0) (en_fingerprint E) (en_history E) (memory_tx L) req' None t)
        (\<lambda>(res, miss, t'). Inr (res, t'))"
    from assms(1) v Some have "WithLockedPortfolio (fst (en_ctx E 0)) (snd (en_ctx E 0)) (en_newID E 0)
        (en_now E) (mr_UserID req') ?body (en_other E 0 r) = (Inr res, r')"
      by (auto simp: Apply_def locked_def split: sum.splits)
    then show ?thesis
    proof (cases rule: WithLockedPortfolio_cases)
      case (committed x t pid r0 agg)
      then obtain miss where "applyLocked L (en_uuid E 0) (en_fingerprint E) (en_history E) (memory_tx L) req' None
          (open_tx r0 agg) = Inr (res, miss, t)" by (auto split: prod.splits)
      from applyLocked_fresh [OF this assms(2)] show ?thesis by simp
    qed simp_all
  qed
qed

section \<open>A run\<close>

text \<open>A new user deposits 100 USD: the run every witness above refers to.\<close>

definition demo_env :: mutation_env where
  "demo_env =
     \<lparr>en_ctx = (\<lambda>_. (None, None)), en_readCtx = (\<lambda>_. None), en_uuid = (\<lambda>_. demo_uuid),
      en_newID = (\<lambda>_. ''pf''), en_now = 1000, en_other = (\<lambda>_ r. r), en_provider = demo_provider,
      en_fx = (\<lambda>_. Some (Fin 1)), en_history = None, en_fingerprint = (\<lambda>_. Some ''f'')\<rparr>"

definition demo_flow :: "MutationKind \<Rightarrow> MutationRequest" where
  "demo_flow k = zero_request\<lparr>mr_Kind := k, mr_RequestID := ''q''\<rparr>"

abbreviation demo_deposit :: MutationRequest where
  "demo_deposit \<equiv> demo_flow MutationDeposit"

lemma demo_flow_fields [simp]:
  "mr_Kind (demo_flow k) = k" "mr_RequestID (demo_flow k) = ''q''" "mr_UserID (demo_flow k) = ''u''"
  "cf_Currency (mr_CashFlow (demo_flow k)) = ''USD''" "cf_Amount (mr_CashFlow (demo_flow k)) = 100"
  by (simp_all add: demo_flow_def zero_request_def)

lemma demo_env_fields [simp]:
  "en_ctx demo_env k = (None, None)" "en_readCtx demo_env k = None" "en_uuid demo_env k = demo_uuid"
  "en_newID demo_env k = ''pf''" "en_now demo_env = 1000" "en_other demo_env = (\<lambda>k r. r)"
  "en_provider demo_env = demo_provider" "en_fx demo_env c = Some (Fin 1)" "en_history demo_env = None"
  "en_fingerprint demo_env = (\<lambda>_. Some ''f'')"
  by (simp_all add: demo_env_def)

lemma demo_validate:
  assumes "k \<in> {MutationDeposit, MutationWithdrawal}"
  shows "validate std_declib (demo_flow k) = Inr (demo_flow k, [])"
proof -
  have "ToUpper (TrimSpace ''USD'') = ''USD''" "supportedCurrency ''USD''" by code_simp+
  moreover have "(demo_flow k)\<lparr>mr_CashFlow := (mr_CashFlow (demo_flow k))\<lparr>cf_Currency := ''USD''\<rparr>\<rparr> = demo_flow k"
    by (simp add: demo_flow_def zero_request_def)
  ultimately show ?thesis using assms by (auto simp: validate_def Let_def money_defs)
qed

definition demo_obs :: Valuation where
  "demo_obs = (newValuation 1000)\<lparr>val_rates := [''USD'' \<mapsto> 1, ''TRY'' \<mapsto> 1, ''EUR'' \<mapsto> 1, ''GBP'' \<mapsto> 1]\<rparr>"

lemma demo_pin:
  assumes "k \<in> {MutationDeposit, MutationWithdrawal}"
  shows "pinObservation std_declib demo_env (demo_flow k) [] NewInMemoryRepository = Inr demo_obs"
proof -
  have "finitePositive (Fin 1)" by code_simp
  with assms show ?thesis
    by (auto simp: pinObservation_def observeCurrency_def demo_obs_def newValuation_def money_defs scale_defs
        std_declib_def ListPositionsByUser_def NewInMemoryRepository_def observeHeldPositions_def Let_def openSymbols_def)
qed

definition demo_balance :: CashBalance where
  "demo_balance = \<lparr>cb_PortfolioID = ''pf'', cb_Currency = ''USD'', cb_Amount = 100, cb_CreatedAt = 1000, cb_UpdatedAt = 1000\<rparr>"

lemma demo_plan:
  "\<exists>p. plan std_declib uuid demo_deposit pf [] [] demo_obs = Inr p \<and> mp_newOpen p = []
     \<and> (\<exists>b. mp_newCash p = [b] \<and> mp_write p = [PutCash b] \<and> cb_Currency b = ''USD'' \<and> cb_Amount b = 100)
     \<and> \<not> mp_valueInvariant p \<and> mp_extraActivities p = []"
  by (simp add: plan_def Let_def planCashFlow_def cashAmount_def cashBalance_def openPositions_def
      money_defs demo_obs_def newValuation_def case_prod_beta zero_plan_def zero_CashBalance_def del: map_of.simps)

definition demo_agg :: aggregateState where
  "demo_agg = \<lparr>ag_portfolio = \<lparr>pf_ID = ''pf'', pf_UserID = ''u'', pf_Name = ''Default Portfolio'', pf_Currency = ''USD'',
      pf_Version = 1, pf_AutoFundPurchases = True, pf_CreatedAt = 1000, pf_UpdatedAt = 1000\<rparr>,
     ag_positions = Map.empty, ag_order = [], ag_ranked = None, ag_cash = [], ag_activities = []\<rparr>"

definition demo_tx :: memoryTx where
  "demo_tx = open_tx NewInMemoryRepository demo_agg"

lemma demo_tx_fields [simp]:
  "mt_faults demo_tx = no_faults" "mt_portfolio demo_tx = ag_portfolio demo_agg" "mt_positions demo_tx = Map.empty"
  "mt_order demo_tx = []" "mt_loaded demo_tx = []" "mt_cash demo_tx = []" "mt_activities demo_tx = []"
  "mt_ranked demo_tx = None" "mt_storeAudits demo_tx = Map.empty"
  by (simp_all add: demo_tx_def open_tx_def NewInMemoryRepository_def demo_agg_def sortedPositions_def map_filter_simps)

lemma demo_pf_fields [simp]:
  "pf_ID (ag_portfolio demo_agg) = ''pf''" "pf_Version (ag_portfolio demo_agg) = 1"
  by (simp_all add: demo_agg_def)

lemma demo_values:
  assumes "mp_newOpen p = []" "mp_newCash p = [b]" "cb_Currency b = ''USD''" "cb_Amount b = 100" "\<not> mp_valueInvariant p"
  shows "planValues std_declib demo_obs [] [] p = Inr (0, False, 100, True)"
proof -
  have "bank_places 18 (100::rat) = 100" by simp
  then show ?thesis using assms
    by (simp add: planValues_def std.ValueTracked_iff covered_def cash_sound_def open_value_def openPositions_def
        tracked_value_def tracked_active_def cash_value_def rate_of_def demo_obs_def newValuation_def)
qed

lemma demo_ranked:
  "ValidateState std_declib (ApplyCheckpoint std_declib
     ((ActivateState std_declib ''pf'' ''u'' 0 False 1000)\<lparr>st_Version := 0\<rparr>)
     (checkpointInput ''pf'' ''u'' 1000 0 False 100 True)) = Inr ()"
  by code_simp

lemma demo_commitWrites:
  assumes "mp_write p = [PutCash b]" "0 \<le> cb_Amount b" "mp_extraActivities p = []" "ValidateState std_declib nxt = Inr ()"
  shows "\<exists>t'. commitWrites std_declib uuid (\<lambda>_. Some ''f'') (memory_tx std_declib) req pf val p True v nxt before after demo_tx
    = Inr t'"
  using assms
  by (auto simp: commitWrites_def mem_tx_defs no_faults_def money_defs preparedActivities_def mustMutationFingerprint_def
      mutationFingerprint_def split: option.splits)

lemma memory_tx_fields [simp]:
  "tx_Portfolio (memory_tx L) t = mt_portfolio t" "tx_Positions (memory_tx L) t = mt_loaded t"
  "tx_CashBalances (memory_tx L) t = map snd (mt_cash t)" "tx_RankedState (memory_tx L) t = Inr (mt_ranked t)"
  "tx_LedgerActivities (memory_tx L) t = Inr (mt_activities t)"
  by (simp_all add: mem_tx_defs mem_CashBalances_def)

lemma demo_applyMutation:
  "\<exists>res t'. applyMutation std_declib demo_uuid (\<lambda>_. Some ''f'') None (memory_tx std_declib) demo_deposit demo_obs demo_tx
     = Inr (res, [], t')"
proof -
  obtain p b where p: "plan std_declib (\<lambda>n. demo_uuid (n + 2)) demo_deposit (ag_portfolio demo_agg) [] [] demo_obs = Inr p"
    "mp_newOpen p = []" "mp_newCash p = [b]" "mp_write p = [PutCash b]" "cb_Currency b = ''USD''" "cb_Amount b = 100"
    "\<not> mp_valueInvariant p" "mp_extraActivities p = []"
    using demo_plan [of "\<lambda>n. demo_uuid (n + 2)" "ag_portfolio demo_agg"] by blast
  from plan_neutral [OF p(1)] have n: "mp_returnValueBase p = 0" "mp_performanceEffect p = EffectUnset"
    "mutationEffect (mr_Kind demo_deposit) \<noteq> EffectReturn" by (simp_all add: neutral_kinds_def)
  have obs: "val_ObservedAt demo_obs = 1000" by (simp add: demo_obs_def newValuation_def)
  have writes: "\<exists>t'. commitWrites std_declib demo_uuid (\<lambda>_. Some ''f'') (memory_tx std_declib) demo_deposit
      (ag_portfolio demo_agg) demo_obs p True v nxt before after demo_tx = Inr t'"
    if "ValidateState std_declib nxt = Inr ()" for v nxt before after
    using demo_commitWrites p(4,6,8) that by simp
  show ?thesis
    using p demo_ranked writes
    by (simp add: applyMutation_def Let_def openPositions_def openSymbols_def Missing_def demo_values
        initialState_def validateCorrection_def std.rankedTransition_neutral_iff [OF n] obs)
qed

lemma demo_run:
  "\<exists>res r'. Apply std_declib demo_env demo_deposit NewInMemoryRepository = (Inr res, r') \<and> \<not> res_Duplicate res"
proof -
  obtain res t' where m: "applyMutation std_declib demo_uuid (\<lambda>_. Some ''f'') None (memory_tx std_declib) demo_deposit
      demo_obs demo_tx = Inr (res, [], t')" using demo_applyMutation by blast
  let ?r0 = "NewInMemoryRepository\<lparr>im_aggregates := [''pf'' \<mapsto> demo_agg], im_userPortfolio := [''u'' \<mapsto> ''pf'']\<rparr>"
  have own: "aggregateFor ''pf'' 1000 ''u'' NewInMemoryRepository = (''pf'', ?r0)"
    by (simp add: aggregateFor_def NewInMemoryRepository_def demo_agg_def)
  have tx: "open_tx ?r0 demo_agg = demo_tx" by (simp add: demo_tx_def open_tx_def NewInMemoryRepository_def)
  have "\<not> res_Duplicate res" using mem.applyMutation_commits [OF m] by blast
  moreover have "lockedBody std_declib demo_env 0 demo_deposit demo_obs demo_tx = Inr (res, t')"
    using m by (simp add: lockedBody_def applyLocked_def)
  moreover have "\<exists>r'. commit ''pf'' t' ?r0 = Inr r'"
    by (simp add: commit_def NewInMemoryRepository_def no_faults_def)
  moreover have "FindAuditByRequestID ''u'' ''q'' NewInMemoryRepository = None"
    by (simp add: FindAuditByRequestID_def NewInMemoryRepository_def)
  ultimately show ?thesis
    by (auto simp: Apply_def demo_validate demo_pin maxMutationAttempts_def locked_def WithLockedPortfolio_def
        own tx numeral_3_eq_3)
qed

lemma demo_withdrawal_refused:
  "\<exists>r'. Apply std_declib demo_env (demo_flow MutationWithdrawal) NewInMemoryRepository = (Inl ErrInsufficientCash, r')"
proof -
  let ?r0 = "NewInMemoryRepository\<lparr>im_aggregates := [''pf'' \<mapsto> demo_agg], im_userPortfolio := [''u'' \<mapsto> ''pf'']\<rparr>"
  have own: "aggregateFor ''pf'' 1000 ''u'' NewInMemoryRepository = (''pf'', ?r0)"
    by (simp add: aggregateFor_def NewInMemoryRepository_def demo_agg_def)
  have tx: "open_tx ?r0 demo_agg = demo_tx" by (simp add: demo_tx_def open_tx_def NewInMemoryRepository_def)
  have "plan std_declib uuid (demo_flow MutationWithdrawal) pf [] [] demo_obs = Inl ErrInsufficientCash" for uuid pf
    by (simp add: plan_def std.planCashFlow_Inl openPositions_def cashAmount_def cashBalance_def)
  then have "lockedBody std_declib demo_env 0 (demo_flow MutationWithdrawal) demo_obs demo_tx = Inl ErrInsufficientCash"
    by (simp add: lockedBody_def applyLocked_def applyMutation_def Let_def openSymbols_def Missing_def)
  moreover have "FindAuditByRequestID ''u'' ''q'' NewInMemoryRepository = None"
    by (simp add: FindAuditByRequestID_def NewInMemoryRepository_def)
  ultimately show ?thesis
    by (simp add: Apply_def demo_validate demo_pin maxMutationAttempts_def locked_def WithLockedPortfolio_def
        own tx numeral_3_eq_3)
qed

section \<open>Properties\<close>

text \<open>
  C1. The store stays well formed whatever happens: after any request, succeeding or failing, with any
  prices, context cancellations and (well-formedness-preserving) concurrent writers, every stored
  position is listed and filed under its id, every balance is filed once under its currency and not
  negative, no two ledger entries share a request id, and every ranked state is valid.
\<close>

theorem Apply_keeps_store_well_formed:
  assumes "decimal_lib L" "repository_ok L r"
    and "\<forall>k r. repository_ok L r \<longrightarrow> repository_ok L (en_other E k r)"
  shows "repository_ok L (snd (Apply L E req r))"
proof -
  note other = assms(3) [rule_format]
  have "repository_ok L r'"
    if "locked E k u (\<lambda>t. rbind (applyLocked L (en_uuid E 0) (en_fingerprint E) (en_history E) (memory_tx L) req' None t)
        (\<lambda>(res, miss, t'). Inr (res, t'))) r = (out, r')" for k u req' out r'
    by (rule locked_ok [OF that assms(2) other])
      (auto split: prod.splits dest: applyLocked_tx_ok [OF assms(1)])
  with apply_attempts_ok [OF assms(1) other assms(2)] assms(2) show ?thesis
    by (auto simp: Apply_def split: sum.splits option.splits intro: snd_conv)
      (metis prod.collapse)+
qed

theorem Apply_keeps_store_well_formed_witness:
  "repository_ok std_declib (snd (Apply std_declib demo_env demo_deposit NewInMemoryRepository))"
  by (rule Apply_keeps_store_well_formed [OF std.decimal_lib_axioms])
    (simp_all add: repository_ok_def NewInMemoryRepository_def)

text \<open>
  C3. An error leaves no trace: when a mutation fails, at whatever stage, positions, cash, ledger, ranked
  state, versions, audit records and outbox of every portfolio are as before; at most the default
  portfolio of a new user has been created.
\<close>

theorem Apply_error_leaves_store:
  assumes "en_other E = (\<lambda>k r. r)" "Apply L E req r = (Inl e, r')"
  shows "r' = r \<or> (im_userPortfolio r (mr_UserID req) = None
     \<and> (\<exists>i. r' = snd (aggregateFor i (en_now E) (mr_UserID req) r)))"
proof -
  have known: "snd (aggregateFor i now u r) = r" if "im_userPortfolio r u \<noteq> None" for i now u
    using that by (auto simp: aggregateFor_def)
  from Apply_outcome [OF assms] have "r' = r \<or> (\<exists>i. r' = snd (aggregateFor i (en_now E) (mr_UserID req) r))"
    by (auto simp: attempt_outcome_def dest!: validate_envelope) (metis snd_conv)+
  with known show ?thesis by metis
qed

theorem Apply_error_leaves_store_witness:
  "\<exists>r'. Apply std_declib demo_env (demo_flow MutationWithdrawal) NewInMemoryRepository = (Inl ErrInsufficientCash, r')
     \<and> im_outbox r' = [] \<and> im_auditLog r' = []"
proof -
  obtain r' where r': "Apply std_declib demo_env (demo_flow MutationWithdrawal) NewInMemoryRepository
      = (Inl ErrInsufficientCash, r')"
    using demo_withdrawal_refused by blast
  have none: "im_outbox NewInMemoryRepository = []" "im_auditLog NewInMemoryRepository = []"
    by (simp_all add: NewInMemoryRepository_def)
  from Apply_error_leaves_store [OF demo_env_fields(6) r'] show ?thesis
  proof
    assume "r' = NewInMemoryRepository"
    with r' none show ?thesis by simp
  next
    assume "im_userPortfolio NewInMemoryRepository (mr_UserID (demo_flow MutationWithdrawal)) = None \<and>
      (\<exists>i. r' = snd (aggregateFor i (en_now demo_env) (mr_UserID (demo_flow MutationWithdrawal)) NewInMemoryRepository))"
    with r' none show ?thesis
      by (auto simp: aggregateFor_def split: option.splits)
  qed
qed

text \<open>
  C2. A success commits exactly once: the portfolio version advances by one, exactly one audit record and
  one outbox event are appended, both carrying the new version and the index after, the stored ranked
  state is valid and is the one the audit names, and no other portfolio changes.
\<close>

theorem Apply_commits_once:
  assumes "en_other E = (\<lambda>k r. r)" "Apply L E req r = (Inr res, r')" "\<not> res_Duplicate res"
  shows "\<exists>req' seed. validate L req = Inr (req', seed) \<and> committed_once L (en_fingerprint E) req' res r r'"
  by (rule Apply_committed [OF assms])

theorem Apply_commits_once_witness:
  "\<exists>res r' req'. Apply std_declib demo_env demo_deposit NewInMemoryRepository = (Inr res, r')
     \<and> committed_once std_declib (\<lambda>_. Some ''f'') req' res NewInMemoryRepository r'"
proof -
  obtain res r' where r: "Apply std_declib demo_env demo_deposit NewInMemoryRepository = (Inr res, r')"
    "\<not> res_Duplicate res" using demo_run by blast
  from Apply_commits_once [OF demo_env_fields(6) r] r show ?thesis by auto
qed

text \<open>
  C4. Exactly-once: retrying a committed request with its request id, at any later prices, replays the
  recorded version and indexes, marks the result a duplicate, and leaves the store as it is.
\<close>

theorem Apply_retry_replays:
  assumes "en_other E = (\<lambda>k r. r)" "Apply L E req r = (Inr res, r')" "\<not> res_Duplicate res"
    and "mr_RequestID req \<noteq> []" "filed r"
    and "en_other F = (\<lambda>k r. r)" "en_fingerprint F = en_fingerprint E" "en_ctx F 0 = (None, None)"
  shows "\<exists>res2. Apply L F req r' = (Inr res2, r') \<and> res_Duplicate res2
    \<and> res_PortfolioVersion res2 = res_PortfolioVersion res
    \<and> res_RankedIndexBefore res2 = res_RankedIndexBefore res \<and> res_RankedIndexAfter res2 = res_RankedIndexAfter res"
proof -
  from Apply_committed [OF assms(1-3)] obtain req' seed where
    "validate L req = Inr (req', seed)" "committed_once L (en_fingerprint E) req' res r r'" by blast
  from replay_in_store [OF this assms(4,5,6,7,8)] show ?thesis .
qed

theorem Apply_retry_replays_witness:
  "\<exists>r' res2. Apply std_declib demo_env demo_deposit (snd (Apply std_declib demo_env demo_deposit NewInMemoryRepository))
     = (Inr res2, r') \<and> res_Duplicate res2
     \<and> r' = snd (Apply std_declib demo_env demo_deposit NewInMemoryRepository)"
proof -
  obtain res r' where r: "Apply std_declib demo_env demo_deposit NewInMemoryRepository = (Inr res, r')"
    "\<not> res_Duplicate res" using demo_run by blast
  have f: "filed NewInMemoryRepository" by (simp add: filed_def NewInMemoryRepository_def)
  from Apply_retry_replays [OF demo_env_fields(6) r _ f demo_env_fields(6) refl] r show ?thesis
    by auto
qed

text \<open>
  C5. Capital flows cannot buy rank: a deposit, withdrawal, added, resized, deleted or replaced position,
  stock dividend, split or rename that commits reports an index after that is the index before (at 18
  places), whatever the prices and the other writers.
\<close>

theorem Apply_neutral_index:
  assumes "decimal_lib L" "Apply L E req r = (Inr res, r')" "\<not> res_Duplicate res" "mr_Kind req \<in> set neutral_kinds"
  shows "res_RankedIndexAfter res = bank_places 18 (res_RankedIndexBefore res)"
proof -
  from Apply_body [OF assms(2,3)] obtain req' seed k v t t' where
    v: "validate L req = Inr (req', seed)" and b: "lockedBody L E k req' v t = Inr (res, t')" by blast
  have kind: "mr_Kind req' \<in> set neutral_kinds" using validate_envelope [OF v] assms(4) by simp
  from b have "applyLocked L (en_uuid E k) (en_fingerprint E) (en_history E) (memory_tx L) req' (Some v) t = Inr (res, [], t')"
    by (auto simp: lockedBody_def split: if_splits)
  with applyLocked_fresh [OF _ assms(3)] have
    "applyMutation L (en_uuid E k) (en_fingerprint E) (en_history E) (memory_tx L) req' v t = Inr (res, [], t')" by blast
  then obtain p pf ps cash st vb hb va ha nxt before after where
    p: "plan L (\<lambda>n. en_uuid E k (n + 2)) req' pf ps cash v = Inr p"
    and tr: "rankedTransition L req' pf v p st vb hb va ha = Inr (nxt, before, after)"
    and res: "res_RankedIndexBefore res = before" "res_RankedIndexAfter res = after"
    by (auto simp: applyMutation_def Let_def zero_result_def split: if_splits prod.splits)
  from plan_neutral [OF p kind] have n: "mp_returnValueBase p = 0" "mp_performanceEffect p = EffectUnset"
    "mutationEffect (mr_Kind req') \<noteq> EffectReturn" by simp_all
  from tr res show ?thesis
    by (auto simp: decimal_lib.rankedTransition_neutral_iff [OF assms(1) n] Let_def)
qed

theorem Apply_neutral_index_witness:
  "\<exists>res r'. Apply std_declib demo_env demo_deposit NewInMemoryRepository = (Inr res, r')
     \<and> res_RankedIndexAfter res = bank_places 18 (res_RankedIndexBefore res)"
proof -
  obtain res r' where r: "Apply std_declib demo_env demo_deposit NewInMemoryRepository = (Inr res, r')"
    "\<not> res_Duplicate res" using demo_run by blast
  from Apply_neutral_index [OF std.decimal_lib_axioms r] r show ?thesis by (auto simp: neutral_kinds_def)
qed

end
