(* ===== verification/EpochLaws.thy ===== *)
theory EpochLaws
  imports ApplyLaws
begin

text \<open>
  The initialisation of the ranked epoch, and the one write of the store that does not take the lock of
  the aggregate.
\<close>

section \<open>Initialisation\<close>

lemma epochBody_ranked:
  assumes "epochBody L u v t = Inr ((), t')"
  shows "mt_ranked t' \<noteq> None \<and> (mt_ranked t \<noteq> None \<longrightarrow> t' = t) \<and> (mt_rankedDirty t' \<or> mt_ranked t' = mt_ranked t)"
  using assms by (auto simp: epochBody_def Let_def mem_PutRankedState_def memory_tx_def mem_RankedState_def
      split: if_splits prod.splits)

lemma epochBody_tracked: "mt_ranked t \<noteq> None \<Longrightarrow> epochBody L u v t = Inr ((), t)"
  by (simp add: epochBody_def)

lemma locked_epoch_tracked:
  assumes "en_other E = (\<lambda>k r. r)" "im_userPortfolio r u = Some pid" "im_aggregates r pid = Some agg" "ag_ranked agg \<noteq> None"
  shows "snd (locked E k u (epochBody L u v) r) = r"
proof -
  have t: "epochBody L u v (open_tx r agg) = Inr ((), open_tx r agg)"
    by (rule epochBody_tracked) (use assms(4) in \<open>simp add: open_tx_def\<close>)
  have "commit pid (open_tx r agg) r = Inr r" if "f_Commit (im_faults r) = None"
    by (rule commit_unchanged [OF assms(3) that])
  then show ?thesis
    using assms(1-3) t by (cases "f_Commit (im_faults r)")
      (auto simp: locked_def WithLockedPortfolio_def aggregateFor_def commit_def split: option.splits)
qed

lemma epoch_attempts_tracked:
  assumes "en_other E = (\<lambda>k r. r)" "im_userPortfolio r u = Some pid" "im_aggregates r pid = Some agg" "ag_ranked agg \<noteq> None"
  shows "snd (epoch_attempts L E k n u v r) = r"
proof (induction n arbitrary: k v)
  case (Suc n)
  obtain out where l: "locked E k u (epochBody L u v) r = (out, r)"
    using locked_epoch_tracked [OF assms, of k L v] by (metis prod.collapse)
  with Suc.IH show ?case by (auto split: sum.splits err.splits)
qed simp

lemma epoch_attempts_success:
  assumes "en_other E = (\<lambda>k r. r)"
  shows "epoch_attempts L E k n u v r = (Inr (), r') \<Longrightarrow>
    \<exists>pid agg. im_userPortfolio r' u = Some pid \<and> im_aggregates r' pid = Some agg \<and> ag_ranked agg \<noteq> None"
proof (induction n arbitrary: k v r)
  case (Suc n)
  obtain out1 r1 where l: "locked E k u (epochBody L u v) r = (out1, r1)" by fastforce
  then have w: "WithLockedPortfolio (fst (en_ctx E k)) (snd (en_ctx E k)) (en_newID E k) (en_now E) u
      (epochBody L u v) r = (out1, r1)" by (simp add: locked_def assms)
  show ?case
  proof (cases out1)
    case (Inl e)
    with Suc l show ?thesis by (auto split: err.splits sum.splits)
  next
    case (Inr x)
    with Suc.prems l have r1: "r1 = r'" by simp
    from w show ?thesis
    proof (cases rule: WithLockedPortfolio_cases)
      case (committed y t pid r0 agg)
      from committed(4) have b: "epochBody L u v (open_tx r0 agg) = Inr ((), t)" by simp
      have "ag_ranked (commit_aggregate t agg) \<noteq> None"
        using epochBody_ranked [OF b] by (auto simp: commit_aggregate_def open_tx_def)
      moreover have "im_userPortfolio r1 u = Some pid"
        using aggregateFor_frame [OF committed(2)] committed(5) by (auto simp: commit_def)
      moreover have "im_aggregates r1 pid = Some (commit_aggregate t agg)"
        using committed(3,5) by (auto simp: commit_def)
      ultimately show ?thesis using r1 by blast
    qed (use Inr in simp_all)
  qed
qed simp

section \<open>Properties\<close>

text \<open>
  \<open>EnsureRankedEpoch\<close> is idempotent: when it succeeds the portfolio is tracked, and calling it again, at
  whatever prices, successfully or not, leaves the store as it is.
\<close>

theorem EnsureRankedEpoch_idempotent:
  assumes "en_other E = (\<lambda>k r. r)" "EnsureRankedEpoch L E u r = (Inr (), r')" "en_other F = (\<lambda>k r. r)"
  shows "(\<exists>pid agg. im_userPortfolio r' u = Some pid \<and> im_aggregates r' pid = Some agg \<and> ag_ranked agg \<noteq> None)
     \<and> snd (EnsureRankedEpoch L F u r') = r'"
proof -
  from assms(2) obtain v where "epoch_attempts L E 0 maxMutationAttempts u v r = (Inr (), r')"
    by (auto simp: EnsureRankedEpoch_def split: sum.splits)
  from epoch_attempts_success [OF assms(1) this] obtain pid agg where
    *: "im_userPortfolio r' u = Some pid" "im_aggregates r' pid = Some agg" "ag_ranked agg \<noteq> None" by blast
  from epoch_attempts_tracked [OF assms(3) *] have "snd (EnsureRankedEpoch L F u r') = r'"
    by (auto simp: EnsureRankedEpoch_def split: sum.splits)
  with * show ?thesis by blast
qed

lemma demo_epoch_runs: "\<exists>r'. EnsureRankedEpoch std_declib demo_env ''u'' NewInMemoryRepository = (Inr (), r')"
proof -
  let ?r0 = "NewInMemoryRepository\<lparr>im_aggregates := [''pf'' \<mapsto> demo_agg], im_userPortfolio := [''u'' \<mapsto> ''pf'']\<rparr>"
  have own: "aggregateFor ''pf'' 1000 ''u'' NewInMemoryRepository = (''pf'', ?r0)"
    by (simp add: aggregateFor_def NewInMemoryRepository_def demo_agg_def)
  have tx: "open_tx ?r0 demo_agg = demo_tx" by (simp add: demo_tx_def open_tx_def NewInMemoryRepository_def)
  have v: "ValueTracked std_declib (newValuation 1000) [] [] = Inr (0, False)" by code_simp
  have s: "ValidateState std_declib (ActivateState std_declib ''pf'' ''u'' 0 False 1000) = Inr ()" by code_simp
  have "val_ObservedAt (newValuation 1000) = 1000" by (simp add: newValuation_def)
  then have "\<exists>t'. epochBody std_declib ''u'' (newValuation 1000) demo_tx = Inr ((), t')"
    using v s by (simp add: epochBody_def Let_def openSymbols_def openPositions_def Missing_def memory_tx_def
        mem_RankedState_def mem_PutRankedState_def mem_CashBalances_def no_faults_def)
  then obtain t' where t': "epochBody std_declib ''u'' (newValuation 1000) demo_tx = Inr ((), t')" ..
  moreover have "\<exists>r'. commit ''pf'' t' ?r0 = Inr r'"
    by (simp add: commit_def NewInMemoryRepository_def no_faults_def)
  moreover have "ListPositionsByUser None ''u'' NewInMemoryRepository = Inr []"
    by (simp add: ListPositionsByUser_def NewInMemoryRepository_def)
  ultimately show ?thesis
    by (auto simp: EnsureRankedEpoch_def openSymbols_def maxMutationAttempts_def numeral_3_eq_3 locked_def
        WithLockedPortfolio_def own tx)
qed

theorem EnsureRankedEpoch_idempotent_witness:
  "\<exists>r'. EnsureRankedEpoch std_declib demo_env ''u'' NewInMemoryRepository = (Inr (), r')
     \<and> snd (EnsureRankedEpoch std_declib demo_env ''u'' r') = r'"
proof -
  obtain r' where r': "EnsureRankedEpoch std_declib demo_env ''u'' NewInMemoryRepository = (Inr (), r')"
    using demo_epoch_runs by blast
  from EnsureRankedEpoch_idempotent [OF demo_env_fields(6) r' demo_env_fields(6)] r' show ?thesis by blast
qed

text \<open>
  \<open>EnsureRankedEpoch\<close> never prices the currencies of cash: a portfolio that holds cash but no open
  position cannot be initialised, whatever the currency provider answers, the base currency included.
\<close>

theorem EnsureRankedEpoch_cash_only_fails:
  assumes "decimal_lib L" "en_other E = (\<lambda>k r. r)" "en_ctx E 0 = (None, None)" "en_readCtx E 0 = None"
    and "im_userPortfolio r u = Some pid" "im_aggregates r pid = Some agg" "ag_ranked agg = None"
    and "sortedPositions (ag_order agg) (ag_positions agg) = []" "ag_cash agg = [(c, b)]" "0 < cb_Amount b"
  shows "EnsureRankedEpoch L E u r = (Inl ErrUnsupportedCurrency, r)"
proof -
  have v: "ValueTracked L (newValuation t) [] [b] = Inl ErrUnsupportedCurrency" for t
    using assms(10) by (simp add: ValueTracked_def ValueOpen_def money_defs newValuation_def
        decimal_lib.sign_simps [OF assms(1)] decimal_lib.isZero [OF assms(1)] decimal_lib.mustNew_literals [OF assms(1)])
  have "epochBody L u (newValuation t) (open_tx r agg) = Inl ErrUnsupportedCurrency" for t
    using assms(7-9) v by (simp add: epochBody_def open_tx_def openSymbols_def openPositions_def Missing_def)
  then show ?thesis
    using assms(2-6,8) by (simp add: EnsureRankedEpoch_def ListPositionsByUser_def openSymbols_def
        maxMutationAttempts_def numeral_3_eq_3 locked_def WithLockedPortfolio_def aggregateFor_def)
qed

theorem EnsureRankedEpoch_cash_only_fails_witness:
  "fst (EnsureRankedEpoch std_declib demo_env ''u''
     (NewInMemoryRepository\<lparr>im_aggregates := [''pf'' \<mapsto> demo_agg\<lparr>ag_cash := [(''USD'', demo_cash)]\<rparr>],
        im_userPortfolio := [''u'' \<mapsto> ''pf'']\<rparr>)) = Inl ErrUnsupportedCurrency"
  by (subst EnsureRankedEpoch_cash_only_fails [OF std.decimal_lib_axioms, where pid = "''pf''" and
      agg = "demo_agg\<lparr>ag_cash := [(''USD'', demo_cash)]\<rparr>" and c = "''USD''" and b = demo_cash])
    (simp_all add: demo_agg_def sortedPositions_def map_filter_simps demo_cash_def)

text \<open>
  The purchase-funding preference can be lost: \<open>SetAutoFundPurchases\<close> does not take the lock of the
  aggregate, so when it runs while a mutation is staged, the commit of the mutation writes back the
  portfolio row it loaded and the preference is as before, although the call reported success.
\<close>

theorem SetAutoFundPurchases_lost:
  assumes "im_userPortfolio r u = Some pid" "im_aggregates r pid = Some agg"
    and "lockedBody L E k req v (open_tx r agg) = Inr (res, t)" "\<not> res_Duplicate res"
    and "SetAutoFundPurchases None u flag r = Inr r1" "commit pid t r1 = Inr r2"
  shows "\<exists>agg1 agg2. im_aggregates r1 pid = Some agg1 \<and> pf_AutoFundPurchases (ag_portfolio agg1) = flag
     \<and> im_aggregates r2 pid = Some agg2
     \<and> pf_AutoFundPurchases (ag_portfolio agg2) = pf_AutoFundPurchases (ag_portfolio agg)"
proof -
  from lockedBody_commits [OF assms(3,4)] have t: "mt_portfolio t = ag_portfolio agg"
    "mt_newVersion t = Some (pf_Version (ag_portfolio agg) + 1)"
    by (auto simp: mem_view_def open_tx_def)
  show ?thesis using assms(1,2,5,6) t
    by (auto simp: SetAutoFundPurchases_def commit_def commit_aggregate_def)
qed

theorem SetAutoFundPurchases_lost_witness:
  "\<exists>t r1 r2 agg2. SetAutoFundPurchases None ''u'' False
       (NewInMemoryRepository\<lparr>im_aggregates := [''pf'' \<mapsto> demo_agg], im_userPortfolio := [''u'' \<mapsto> ''pf'']\<rparr>) = Inr r1
     \<and> commit ''pf'' t r1 = Inr r2 \<and> im_aggregates r2 ''pf'' = Some agg2
     \<and> pf_AutoFundPurchases (ag_portfolio agg2)"
proof -
  let ?r = "NewInMemoryRepository\<lparr>im_aggregates := [''pf'' \<mapsto> demo_agg], im_userPortfolio := [''u'' \<mapsto> ''pf'']\<rparr>"
  obtain res t where m: "applyMutation std_declib demo_uuid (\<lambda>_. Some ''f'') None (memory_tx std_declib) demo_deposit
      demo_obs demo_tx = Inr (res, [], t)" using demo_applyMutation by blast
  have tx: "open_tx ?r demo_agg = demo_tx" by (simp add: demo_tx_def open_tx_def NewInMemoryRepository_def)
  have body: "lockedBody std_declib demo_env 0 demo_deposit demo_obs (open_tx ?r demo_agg) = Inr (res, t)"
    unfolding tx using m by (simp add: lockedBody_def applyLocked_def)
  have "\<not> res_Duplicate res" using mem.applyMutation_commits [OF m] by blast
  moreover obtain r1 where r1: "SetAutoFundPurchases None ''u'' False ?r = Inr r1" "f_Commit (im_faults r1) = None"
    by (simp add: SetAutoFundPurchases_def NewInMemoryRepository_def no_faults_def)
  moreover obtain r2 where r2: "commit ''pf'' t r1 = Inr r2"
    using r1(2) by (simp add: commit_def)
  ultimately show ?thesis
    using SetAutoFundPurchases_lost [OF _ _ body _ r1(1) r2] by (auto simp: demo_agg_def)
qed

end
