(* ===== verification/OutboxLaws.thy ===== *)
theory OutboxLaws
  imports StoreLaws
begin

text \<open>
  The outbox of the in-memory store as a machine: workers claim, process, fail and requeue events while
  commits append new ones. A run is a list of such operations; the invariant below holds in every
  state a run reaches.
\<close>

section \<open>Runs\<close>

datatype outbox_op =
    Commit "OutboxEvent list"
  | Claim time nat
  | Processed time string
  | Failed time string string
  | Requeue string

text \<open>A commit appends the staged events; a refused requeue changes nothing.\<close>

primrec outbox_step :: "outbox_op \<Rightarrow> InMemoryRepository \<Rightarrow> InMemoryRepository" where
  "outbox_step (Commit evs) r = r\<lparr>im_outbox := im_outbox r @ evs\<rparr>"
| "outbox_step (Claim now limit) r = snd (ClaimOutboxEvents now limit r)"
| "outbox_step (Processed now i) r = MarkOutboxProcessed now i r"
| "outbox_step (Failed now i cause) r = MarkOutboxFailed now i cause r"
| "outbox_step (Requeue i) r = (case RequeueOutboxEvent i r of Inl _ \<Rightarrow> r | Inr r' \<Rightarrow> r')"

definition outbox_run :: "outbox_op list \<Rightarrow> InMemoryRepository \<Rightarrow> InMemoryRepository" where
  "outbox_run ops r = foldl (\<lambda>r x. outbox_step x r) r ops"

text \<open>Events as a commit makes them: a fresh id, not attempted.\<close>

fun fresh_op :: "outbox_op \<Rightarrow> InMemoryRepository \<Rightarrow> bool" where
  "fresh_op (Commit evs) r =
     (distinct (map ob_ID evs) \<and> ob_ID ` set evs \<inter> ob_ID ` set (im_outbox r) = {} \<and>
      (\<forall>e \<in> set evs. ob_AttemptCount e = 0 \<and> ob_DeadLetteredAt e = None \<and> \<not> im_claimed r (ob_ID e)))"
| "fresh_op _ r = True"

fun fresh_run :: "outbox_op list \<Rightarrow> InMemoryRepository \<Rightarrow> bool" where
  "fresh_run [] r = True"
| "fresh_run (x # xs) r = (fresh_op x r \<and> fresh_run xs (outbox_step x r))"

section \<open>The invariant\<close>

text \<open>
  Ids are distinct; the number of attempts never exceeds the limit, and what a worker may still claim has
  attempts left.
\<close>

definition attempts_ok :: "(string \<Rightarrow> bool) \<Rightarrow> OutboxEvent \<Rightarrow> bool" where
  "attempts_ok claimed e =
     (0 \<le> ob_AttemptCount e \<and> ob_AttemptCount e \<le> outboxMaxAttempts \<and>
      (ob_ProcessedAt e = None \<and> ob_DeadLetteredAt e = None \<and> \<not> claimed (ob_ID e) \<longrightarrow>
         ob_AttemptCount e < outboxMaxAttempts))"

definition outbox_ok :: "InMemoryRepository \<Rightarrow> bool" where
  "outbox_ok r = (distinct (map ob_ID (im_outbox r)) \<and> (\<forall>e \<in> set (im_outbox r). attempts_ok (im_claimed r) e))"

lemma claim_loop_Cons:
  assumes "claim_loop now room na claimed (e # es) = (out, evs', claimed')"
  obtains (full) "room \<le> 0" "out = []" "evs' = e # es" "claimed' = claimed"
  | (skip) rest where "0 < room" "\<not> claimable now claimed na e"
      "claim_loop now room na claimed es = (out, rest, claimed')" "evs' = e # rest"
  | (take) out1 rest where "0 < room" "claimable now claimed na e"
      "claim_loop now (room - 1) na (claimed(ob_ID e := True)) es = (out1, rest, claimed')"
      "out = e\<lparr>ob_AttemptCount := ob_AttemptCount e + 1\<rparr> # out1"
      "evs' = e\<lparr>ob_AttemptCount := ob_AttemptCount e + 1\<rparr> # rest"
  using assms that by (auto simp: Let_def split: if_splits prod.splits)

lemma claim_loop_ids:
  "claim_loop now room na claimed evs = (out, evs', claimed') \<Longrightarrow>
     map ob_ID evs' = map ob_ID evs \<and> set (map ob_ID out) \<subseteq> set (map ob_ID evs) \<and> int (length out) \<le> max 0 room"
proof (induction evs arbitrary: room claimed out evs' claimed')
  case (Cons e es)
  from Cons.prems show ?case
  proof (cases rule: claim_loop_Cons)
    case (skip rest)
    with Cons.IH [OF skip(3)] show ?thesis by auto
  next
    case (take out1 rest)
    with Cons.IH [OF take(3)] show ?thesis by auto
  qed simp
qed simp

lemma claim_loop_claimed:
  "claim_loop now room na claimed evs = (out, evs', claimed') \<Longrightarrow>
     claimed' i = (claimed i \<or> i \<in> ob_ID ` set out)"
proof (induction evs arbitrary: room claimed out evs' claimed')
  case (Cons e es)
  from Cons.prems show ?case
  proof (cases rule: claim_loop_Cons)
    case (skip rest)
    with Cons.IH [OF skip(3)] show ?thesis by simp
  next
    case (take out1 rest)
    with Cons.IH [OF take(3)] show ?thesis by auto
  qed simp
qed simp

lemma claim_loop_fresh:
  "claim_loop now room na claimed evs = (out, evs', claimed') \<Longrightarrow> distinct (map ob_ID evs) \<Longrightarrow>
     distinct (map ob_ID out) \<and> (\<forall>e \<in> set out. \<not> claimed (ob_ID e) \<and> ob_ProcessedAt e = None \<and> ob_DeadLetteredAt e = None)"
proof (induction evs arbitrary: room claimed out evs' claimed')
  case (Cons e es)
  from Cons.prems(1) show ?case
  proof (cases rule: claim_loop_Cons)
    case (skip rest)
    with Cons.IH [OF skip(3)] Cons.prems(2) show ?thesis by simp
  next
    case (take out1 rest)
    from claim_loop_ids [OF take(3)] Cons.prems(2) have "ob_ID e \<notin> ob_ID ` set out1" by auto
    with Cons.IH [OF take(3)] Cons.prems(2) take show ?thesis by (auto simp: claimable_def split: if_splits)
  qed simp
qed simp

lemma claim_loop_ok:
  "claim_loop now room na claimed evs = (out, evs', claimed') \<Longrightarrow> distinct (map ob_ID evs) \<Longrightarrow>
     \<forall>e \<in> set evs. attempts_ok claimed e \<Longrightarrow> \<forall>e \<in> set evs'. attempts_ok claimed' e"
proof (induction evs arbitrary: room claimed out evs' claimed')
  case (Cons e es)
  from Cons.prems(1) show ?case
  proof (cases rule: claim_loop_Cons)
    case full
    with Cons.prems show ?thesis by simp
  next
    case (skip rest)
    have "attempts_ok claimed' e"
      using Cons.prems(3) claim_loop_claimed [OF skip(3)] by (auto simp: attempts_ok_def)
    with Cons.IH [OF skip(3)] Cons.prems(2,3) skip(4) show ?thesis by simp
  next
    case (take out1 rest)
    have es: "\<forall>x \<in> set es. attempts_ok (claimed(ob_ID e := True)) x"
      using Cons.prems(2,3) by (auto simp: attempts_ok_def)
    have "claimed' (ob_ID e)" using claim_loop_claimed [OF take(3)] by simp
    moreover have "ob_AttemptCount e < outboxMaxAttempts" "0 \<le> ob_AttemptCount e"
      using take(2) Cons.prems(3) by (auto simp: attempts_ok_def claimable_def)
    ultimately have "attempts_ok claimed' (e\<lparr>ob_AttemptCount := ob_AttemptCount e + 1\<rparr>)"
      by (simp add: attempts_ok_def)
    with Cons.IH [OF take(3) _ es] Cons.prems(2) take(5) show ?thesis by simp
  qed
qed simp

section \<open>Every operation keeps it\<close>

lemma update_first_ids: "(\<And>x. ob_ID (f x) = ob_ID x) \<Longrightarrow> map ob_ID (update_first P f xs) = map ob_ID xs"
  by (induction xs) auto

lemma same_id: "distinct (map ob_ID xs) \<Longrightarrow> x \<in> set xs \<Longrightarrow> y \<in> set xs \<Longrightarrow> ob_ID x = ob_ID y \<Longrightarrow> x = y"
  by (auto simp: distinct_map inj_on_def)

text \<open>With distinct ids, exactly the event of that id is updated.\<close>

lemma update_first_mem:
  assumes "distinct (map ob_ID xs)" "e \<in> set (update_first P f xs)" "\<And>x. P x \<Longrightarrow> ob_ID x = i" "\<And>x. ob_ID (f x) = ob_ID x"
  shows "(e \<in> set xs \<and> \<not> P e) \<or> (\<exists>x \<in> set xs. P x \<and> e = f x)"
  using assms(1,2)
proof (induction xs)
  case (Cons x xs)
  show ?case
  proof (cases "P x")
    case True
    with Cons.prems have "e = f x \<or> e \<in> set xs" by auto
    then show ?thesis
    proof
      assume "e \<in> set xs"
      with Cons.prems(1) True assms(3) have "\<not> P e" by (metis distinct.simps(2) image_eqI list.set_map list.simps(9))
      with \<open>e \<in> set xs\<close> show ?thesis by simp
    qed (use True in simp)
  next
    case False
    with Cons show ?thesis by auto
  qed
qed simp

lemma find_SomeD: "find P xs = Some x \<Longrightarrow> x \<in> set xs \<and> P x"
  by (auto simp: find_Some_iff)

lemma find_NoneD: "find P xs = None \<Longrightarrow> x \<in> set xs \<Longrightarrow> \<not> P x"
  by (auto simp: find_None_iff)

lemma Claim_ok: "outbox_ok r \<Longrightarrow> outbox_ok (snd (ClaimOutboxEvents now limit r))"
  by (auto simp: outbox_ok_def ClaimOutboxEvents_def split: prod.splits dest: claim_loop_ids claim_loop_ok)

lemma Processed_ok:
  assumes "outbox_ok r"
  shows "outbox_ok (MarkOutboxProcessed now i r)"
proof (cases "find (\<lambda>e. ob_ID e = i) (im_outbox r)")
  case None
  with assms show ?thesis by (simp add: MarkOutboxProcessed_def)
next
  case (Some x)
  let ?f = "\<lambda>e. e\<lparr>ob_ProcessedAt := Some now\<rparr> :: OutboxEvent"
  have "attempts_ok ((im_claimed r)(i := False)) e"
    if "e \<in> set (update_first (\<lambda>e. ob_ID e = i) ?f (im_outbox r))" for e
    using update_first_mem [OF _ that, of i] assms by (auto simp: outbox_ok_def attempts_ok_def)
  with assms Some show ?thesis by (simp add: MarkOutboxProcessed_def outbox_ok_def update_first_ids)
qed

lemma Failed_ok:
  assumes "outbox_ok r"
  shows "outbox_ok (MarkOutboxFailed now i cause r)"
proof (cases "find (\<lambda>e. ob_ID e = i) (im_outbox r)")
  case None
  then have "\<forall>e \<in> set (im_outbox r). ob_ID e \<noteq> i" by (auto dest: find_NoneD)
  with assms None show ?thesis by (simp add: MarkOutboxFailed_def Let_def outbox_ok_def attempts_ok_def)
next
  case (Some ev)
  from find_SomeD [OF this] have ev: "ev \<in> set (im_outbox r)" "ob_ID ev = i" by simp_all
  have one: "x = ev" if "x \<in> set (im_outbox r)" "ob_ID x = i" for x
    using assms same_id that ev by (auto simp: outbox_ok_def)
  let ?d = "\<lambda>e. e\<lparr>ob_LastError := cause, ob_DeadLetteredAt := Some now\<rparr> :: OutboxEvent"
  let ?f = "\<lambda>e. e\<lparr>ob_LastError := cause\<rparr> :: OutboxEvent"
  have "attempts_ok ((im_claimed r)(i := False)) e"
    if "e \<in> set (update_first (\<lambda>e. ob_ID e = i) ?d (im_outbox r))" for e
    using update_first_mem [OF _ that, of i] assms by (auto simp: outbox_ok_def attempts_ok_def)
  moreover have "attempts_ok ((im_claimed r)(i := False)) e"
    if "e \<in> set (update_first (\<lambda>e. ob_ID e = i) ?f (im_outbox r))" "\<not> outboxMaxAttempts \<le> ob_AttemptCount ev" for e
    using update_first_mem [OF _ that(1), of i] assms one that(2) by (auto simp: outbox_ok_def attempts_ok_def)
  ultimately show ?thesis
    using assms Some by (simp add: MarkOutboxFailed_def Let_def outbox_ok_def update_first_ids)
qed

lemma Requeue_ok:
  assumes "outbox_ok r" "RequeueOutboxEvent i r = Inr r'"
  shows "outbox_ok r'"
proof -
  let ?P = "\<lambda>e. ob_ID e = i \<and> ob_DeadLetteredAt e \<noteq> None"
  let ?f = "\<lambda>e. e\<lparr>ob_DeadLetteredAt := None, ob_AttemptCount := 0, ob_LastError := []\<rparr> :: OutboxEvent"
  from assms(2) obtain ev where "find ?P (im_outbox r) = Some ev"
    and r': "r' = r\<lparr>im_outbox := update_first ?P ?f (im_outbox r), im_nextAttempt := (im_nextAttempt r)(i := None),
          im_claimed := (im_claimed r)(i := False)\<rparr>"
    by (auto simp: RequeueOutboxEvent_def split: option.splits)
  from find_SomeD [OF this(1)] have ev: "ev \<in> set (im_outbox r)" "ob_ID ev = i" "ob_DeadLetteredAt ev \<noteq> None" by simp_all
  have one: "x = ev" if "x \<in> set (im_outbox r)" "ob_ID x = i" for x
    using assms(1) same_id that ev by (auto simp: outbox_ok_def)
  have "attempts_ok ((im_claimed r)(i := False)) e" if "e \<in> set (update_first ?P ?f (im_outbox r))" for e
  proof -
    have "(e \<in> set (im_outbox r) \<and> \<not> ?P e) \<or> (\<exists>x \<in> set (im_outbox r). ?P x \<and> e = ?f x)"
      using update_first_mem [OF _ that, of i] assms(1) by (auto simp: outbox_ok_def)
    then show ?thesis
    proof
      assume e: "e \<in> set (im_outbox r) \<and> \<not> ?P e"
      with one ev(3) have "ob_ID e \<noteq> i" by auto
      with e assms(1) show ?thesis by (auto simp: outbox_ok_def attempts_ok_def)
    qed (auto simp: attempts_ok_def outboxMaxAttempts_def)
  qed
  with assms(1) show ?thesis by (simp add: r' outbox_ok_def update_first_ids)
qed

lemma Commit_ok: "outbox_ok r \<Longrightarrow> fresh_op (Commit evs) r \<Longrightarrow> outbox_ok (outbox_step (Commit evs) r)"
  by (auto simp: outbox_ok_def attempts_ok_def outboxMaxAttempts_def)

lemma step_ok: "outbox_ok r \<Longrightarrow> fresh_op x r \<Longrightarrow> outbox_ok (outbox_step x r)"
proof (cases x)
  case (Commit evs)
  then show "outbox_ok r \<Longrightarrow> fresh_op x r \<Longrightarrow> outbox_ok (outbox_step x r)" using Commit_ok by blast
qed (auto simp: Claim_ok Processed_ok Failed_ok split: sum.splits dest: Requeue_ok)

lemma run_ok: "outbox_ok r \<Longrightarrow> fresh_run xs r \<Longrightarrow> outbox_ok (outbox_run xs r)"
  unfolding outbox_run_def by (induction xs arbitrary: r) (auto intro: step_ok)

section \<open>Delivery\<close>

lemma step_ids: "\<exists>new. map ob_ID (im_outbox (outbox_step x r)) = map ob_ID (im_outbox r) @ new"
  by (cases x)
    (auto simp: ClaimOutboxEvents_def MarkOutboxProcessed_def MarkOutboxFailed_def RequeueOutboxEvent_def Let_def
      update_first_ids split: prod.splits option.splits dest: claim_loop_ids)

lemma run_ids: "\<exists>new. map ob_ID (im_outbox (outbox_run xs r)) = map ob_ID (im_outbox r) @ new"
proof (induction xs arbitrary: r)
  case Nil
  then show ?case by (simp add: outbox_run_def)
next
  case (Cons x xs)
  from step_ids [of x r] obtain n1 where n1: "map ob_ID (im_outbox (outbox_step x r)) = map ob_ID (im_outbox r) @ n1" ..
  from Cons.IH [of "outbox_step x r"] obtain n2 where
    "map ob_ID (im_outbox (outbox_run xs (outbox_step x r))) = map ob_ID (im_outbox (outbox_step x r)) @ n2" ..
  with n1 show ?case by (simp add: outbox_run_def)
qed

text \<open>With room for all, everything claimable is claimed.\<close>

lemma claim_loop_all:
  "claim_loop now room na claimed evs = (out, evs', claimed') \<Longrightarrow> distinct (map ob_ID evs) \<Longrightarrow>
     int (length evs) \<le> room \<Longrightarrow> e \<in> set evs \<Longrightarrow> claimable now claimed na e \<Longrightarrow>
     e\<lparr>ob_AttemptCount := ob_AttemptCount e + 1\<rparr> \<in> set out"
proof (induction evs arbitrary: room claimed out evs' claimed')
  case (Cons x xs)
  from Cons.prems(1) show ?case
  proof (cases rule: claim_loop_Cons)
    case full
    with Cons.prems(3) show ?thesis by simp
  next
    case (skip rest)
    with Cons.prems have "e \<in> set xs" by auto
    with Cons.IH [OF skip(3)] Cons.prems show ?thesis by simp
  next
    case (take out1 rest)
    show ?thesis
    proof (cases "e = x")
      case True
      with take(4) show ?thesis by simp
    next
      case False
      with Cons.prems(4) have e: "e \<in> set xs" by simp
      with Cons.prems(2) have "ob_ID e \<noteq> ob_ID x" by (metis distinct.simps(2) image_eqI list.set_map list.simps(9))
      with Cons.prems(5) have c: "claimable now (claimed(ob_ID x := True)) na e" by (simp add: claimable_def)
      moreover have "distinct (map ob_ID xs)" "int (length xs) \<le> room - 1" using Cons.prems(2,3) by auto
      ultimately show ?thesis using Cons.IH [OF take(3) _ _ e c] take(4) by simp
    qed
  qed
qed simp

lemma update_first_found:
  "find P xs = Some x \<Longrightarrow> f x \<in> set (update_first P f xs)"
  by (induction xs) (auto split: if_splits)

lemma outbox_backoff_exact: "0 \<le> n \<Longrightarrow> n < outboxMaxAttempts \<Longrightarrow> outbox_backoff n = 2 ^ nat n * time_Second \<and> outbox_backoff n \<le> 512 * time_Second"
proof -
  assume "0 \<le> n" "n < outboxMaxAttempts"
  then have "n = 0 \<or> n = 1 \<or> n = 2 \<or> n = 3 \<or> n = 4 \<or> n = 5 \<or> n = 6 \<or> n = 7 \<or> n = 8 \<or> n = 9"
    unfolding outboxMaxAttempts_def by arith
  then show ?thesis
    by (elim disjE) (simp_all add: outbox_backoff_def Let_def outboxMaxBackoff_def time_Second_def)
qed

section \<open>Counting deliveries\<close>

text \<open>How often a run hands event \<open>i\<close> to a worker, and how many attempts the outbox has on record for it.\<close>

fun delivered :: "outbox_op \<Rightarrow> InMemoryRepository \<Rightarrow> OutboxEvent list" where
  "delivered (Claim now limit) r = fst (ClaimOutboxEvents now limit r)"
| "delivered _ r = []"

fun deliveries :: "outbox_op list \<Rightarrow> InMemoryRepository \<Rightarrow> string \<Rightarrow> nat" where
  "deliveries [] r i = 0"
| "deliveries (x # xs) r i = count_list (map ob_ID (delivered x r)) i + deliveries xs (outbox_step x r) i"

definition attempts :: "OutboxEvent list \<Rightarrow> string \<Rightarrow> nat" where
  "attempts evs i = sum_list (map (\<lambda>e. if ob_ID e = i then nat (ob_AttemptCount e) else 0) evs)"

lemma attempts_simps [simp]:
  "attempts [] i = 0" "attempts (e # evs) i = (if ob_ID e = i then nat (ob_AttemptCount e) else 0) + attempts evs i"
  "attempts (evs @ evs') i = attempts evs i + attempts evs' i"
  by (simp_all add: attempts_def)

lemma attempts_none: "i \<notin> ob_ID ` set evs \<Longrightarrow> attempts evs i = 0"
  by (induction evs) auto

lemma attempts_bound: "outbox_ok r \<Longrightarrow> attempts (im_outbox r) i \<le> 10"
proof -
  have "distinct (map ob_ID evs) \<Longrightarrow> \<forall>e \<in> set evs. ob_AttemptCount e \<le> 10 \<Longrightarrow> attempts evs i \<le> 10" for evs
    by (induction evs) (auto simp: attempts_none)
  then show "outbox_ok r \<Longrightarrow> ?thesis" by (simp add: outbox_ok_def attempts_ok_def outboxMaxAttempts_def)
qed

lemma attempts_update_first:
  "(\<And>e. P e \<Longrightarrow> ob_ID (f e) = ob_ID e \<and> (ob_ID e = i \<longrightarrow> ob_AttemptCount (f e) = ob_AttemptCount e)) \<Longrightarrow>
   attempts (update_first P f evs) i = attempts evs i"
  by (induction evs) auto

lemma claim_loop_attempts:
  "claim_loop now room na claimed evs = (out, evs', claimed') \<Longrightarrow> \<forall>e \<in> set evs. 0 \<le> ob_AttemptCount e \<Longrightarrow>
   attempts evs' i = attempts evs i + count_list (map ob_ID out) i"
proof (induction evs arbitrary: room claimed out evs' claimed')
  case (Cons e es)
  from Cons.prems(1) show ?case
  proof (cases rule: claim_loop_Cons)
    case (skip rest)
    with Cons.IH [OF skip(3)] Cons.prems(2) show ?thesis by simp
  next
    case (take out1 rest)
    with Cons.IH [OF take(3)] Cons.prems(2) show ?thesis by (simp add: nat_add_distrib)
  qed simp
qed simp

lemma step_deliveries:
  assumes "outbox_ok r"
  shows "count_list (map ob_ID (delivered x r)) i + attempts (im_outbox r) i
    \<le> attempts (im_outbox (outbox_step x r)) i + 10 * count_list [x] (Requeue i)"
proof (cases x)
  case (Claim now limit)
  obtain out evs c where l: "claim_loop now (int limit) (im_nextAttempt r) (im_claimed r) (im_outbox r) = (out, evs, c)"
    by (metis prod_cases3)
  have "attempts evs i = attempts (im_outbox r) i + count_list (map ob_ID out) i"
    by (rule claim_loop_attempts [OF l]) (use assms in \<open>simp add: outbox_ok_def attempts_ok_def\<close>)
  with Claim l show ?thesis by (simp add: ClaimOutboxEvents_def)
next
  case (Requeue j)
  show ?thesis
  proof (cases "j = i")
    case True
    with attempts_bound [OF assms, of i] Requeue show ?thesis by simp
  next
    case False
    then have "attempts (update_first (\<lambda>e. ob_ID e = j \<and> ob_DeadLetteredAt e \<noteq> None)
        (\<lambda>e. e\<lparr>ob_DeadLetteredAt := None, ob_AttemptCount := 0, ob_LastError := []\<rparr>) evs) i = attempts evs i" for evs
      by (intro attempts_update_first) simp
    with Requeue False show ?thesis by (auto simp: RequeueOutboxEvent_def split: option.split)
  qed
qed (simp_all add: MarkOutboxProcessed_def MarkOutboxFailed_def Let_def attempts_update_first split: option.splits)

lemma run_deliveries:
  "outbox_ok r \<Longrightarrow> fresh_run ops r \<Longrightarrow>
   deliveries ops r i + attempts (im_outbox r) i \<le> attempts (im_outbox (outbox_run ops r)) i + 10 * count_list ops (Requeue i)"
proof (induction ops arbitrary: r)
  case (Cons x ops)
  have ok: "outbox_ok (outbox_step x r)" using Cons.prems by (simp add: step_ok)
  have "deliveries ops (outbox_step x r) i + attempts (im_outbox (outbox_step x r)) i
      \<le> attempts (im_outbox (outbox_run ops (outbox_step x r))) i + 10 * count_list ops (Requeue i)"
    by (rule Cons.IH [OF ok]) (use Cons.prems in simp)
  with step_deliveries [OF Cons.prems(1), of x i] show ?case by (simp add: outbox_run_def split: if_splits)
qed (simp add: outbox_run_def)

section \<open>Properties\<close>

text \<open>
  No two workers hold the same event: two claims in a row return events with disjoint ids, each at
  most as many as its limit, none of them claimed, processed or dead-lettered before.
\<close>

theorem ClaimOutboxEvents_exclusive:
  assumes "outbox_ok r" "ClaimOutboxEvents now limit r = (out, r1)" "ClaimOutboxEvents now' limit' r1 = (out', r2)"
  shows "ob_ID ` set out \<inter> ob_ID ` set out' = {} \<and> distinct (map ob_ID out) \<and> length out \<le> limit
     \<and> (\<forall>e \<in> set out. \<not> im_claimed r (ob_ID e) \<and> im_claimed r1 (ob_ID e)
          \<and> ob_ProcessedAt e = None \<and> ob_DeadLetteredAt e = None)"
proof -
  from assms(2) obtain evs c where l: "claim_loop now (int limit) (im_nextAttempt r) (im_claimed r) (im_outbox r) = (out, evs, c)"
    and r1: "r1 = r\<lparr>im_outbox := evs, im_claimed := c\<rparr>"
    by (auto simp: ClaimOutboxEvents_def split: prod.splits)
  have d: "distinct (map ob_ID (im_outbox r))" using assms(1) by (simp add: outbox_ok_def)
  from assms(3) obtain evs' c' where l': "claim_loop now' (int limit') (im_nextAttempt r) c evs = (out', evs', c')"
    by (auto simp: ClaimOutboxEvents_def r1 split: prod.splits)
  have d': "distinct (map ob_ID evs)" using claim_loop_ids [OF l] d by simp
  have "ob_ID e \<notin> ob_ID ` set out" if "e \<in> set out'" for e
  proof -
    from bspec [OF conjunct2 [OF claim_loop_fresh [OF l' d']] that] have "\<not> c (ob_ID e)" by (rule conjunct1)
    with claim_loop_claimed [OF l, of "ob_ID e"] show ?thesis by simp
  qed
  then have disjoint: "ob_ID ` set out \<inter> ob_ID ` set out' = {}" by (simp add: disjoint_iff image_iff) metis
  have "distinct (map ob_ID out)"
    "\<forall>e \<in> set out. \<not> im_claimed r (ob_ID e) \<and> ob_ProcessedAt e = None \<and> ob_DeadLetteredAt e = None"
    using claim_loop_fresh [OF l d] by simp_all
  moreover have "length out \<le> limit" using claim_loop_ids [OF l] by simp
  moreover have "im_claimed r1 (ob_ID e)" if "e \<in> set out" for e
    using claim_loop_claimed [OF l, of "ob_ID e"] that by (simp add: r1)
  ultimately show ?thesis using disjoint by (intro conjI ballI) simp_all
qed

definition demo_outbox_event :: OutboxEvent where
  "demo_outbox_event = \<lparr>ob_ID = ''e1'', ob_EventType = ''portfolio.mutated'', ob_AggregateType = ''portfolio'',
     ob_AggregateID = ''pf'', ob_AggregateVersion = 2, ob_UserID = ''u'', ob_RankedIndex = 100,
     ob_RankingStatus = StatusActive, ob_TrackingStartedAt = 1, ob_ValuationAsOf = 1, ob_DataQualityStatus = [],
     ob_CreatedAt = 1, ob_ProcessedAt = None, ob_AttemptCount = 0, ob_LastError = [], ob_DeadLetteredAt = None,
     ob_InstrumentID = [], ob_DisplaySymbolAtEventTime = [], ob_ProviderReferenceAtEventTime = []\<rparr>"

definition demo_outbox :: InMemoryRepository where
  "demo_outbox = NewInMemoryRepository\<lparr>im_outbox := [demo_outbox_event, demo_outbox_event\<lparr>ob_ID := ''e2''\<rparr>]\<rparr>"

lemma demo_outbox_ok: "outbox_ok demo_outbox"
  by (simp add: outbox_ok_def demo_outbox_def demo_outbox_event_def attempts_ok_def outboxMaxAttempts_def
      NewInMemoryRepository_def)

theorem ClaimOutboxEvents_exclusive_witness:
  "map ob_ID (fst (ClaimOutboxEvents 5 1 demo_outbox)) = [''e1'']
     \<and> map ob_ID (fst (ClaimOutboxEvents 5 9 (snd (ClaimOutboxEvents 5 1 demo_outbox)))) = [''e2'']
     \<and> ob_ID ` set (fst (ClaimOutboxEvents 5 1 demo_outbox))
         \<inter> ob_ID ` set (fst (ClaimOutboxEvents 5 9 (snd (ClaimOutboxEvents 5 1 demo_outbox)))) = {}"
  using ClaimOutboxEvents_exclusive [OF demo_outbox_ok prod.collapse [symmetric] prod.collapse [symmetric], of 5 1 5 9]
  by (simp add: ClaimOutboxEvents_def demo_outbox_def demo_outbox_event_def claimable_def NewInMemoryRepository_def
      Let_def)

text \<open>
  C39. Through any run of claims, acknowledgements, failures, requeues and commits of fresh events, no event is
  lost (the ids keep their order, new ones are appended), an event a worker could still claim has attempts left, and an
  event is handed to workers at most ten times, plus ten times for each time an operator requeued it.
\<close>

theorem outbox_run_bounded:
  assumes "outbox_ok r" "fresh_run ops r"
  shows "outbox_ok (outbox_run ops r)
     \<and> (\<exists>new. map ob_ID (im_outbox (outbox_run ops r)) = map ob_ID (im_outbox r) @ new)
     \<and> (\<forall>e \<in> set (im_outbox (outbox_run ops r)). ob_AttemptCount e \<le> 10)
     \<and> deliveries ops r i \<le> 10 * (1 + count_list ops (Requeue i))"
proof -
  have "deliveries ops r i \<le> 10 * (1 + count_list ops (Requeue i))"
    using run_deliveries [OF assms, of i] attempts_bound [OF run_ok [OF assms], of i] by (simp add: algebra_simps)
  then show ?thesis
    using run_ok [OF assms] run_ids [of ops r] by (auto simp: outbox_ok_def attempts_ok_def outboxMaxAttempts_def)
qed

theorem outbox_run_bounded_witness:
  "let ops = [Claim 5 1, Failed 6 ''e1'' ''boom'', Processed 7 ''e2'', Requeue ''e1'', Claim (1000 * time_Second) 1]
   in deliveries ops demo_outbox ''e1'' = 2 \<and> deliveries ops demo_outbox ''e1'' \<le> 20"
proof -
  let ?ops = "[Claim 5 1, Failed 6 ''e1'' ''boom'', Processed 7 ''e2'', Requeue ''e1'', Claim (1000 * time_Second) 1]"
  have "deliveries ?ops demo_outbox ''e1'' \<le> 10 * (1 + count_list ?ops (Requeue ''e1''))"
    using outbox_run_bounded [OF demo_outbox_ok, of ?ops "''e1''"] by simp
  moreover have "deliveries ?ops demo_outbox ''e1'' = 2" by code_simp
  ultimately show ?thesis by simp
qed

text \<open>
  At-least-once delivery with bounded delay: a pending event whose worker reports a failure before the tenth
  attempt is released with a delay of two to the number of attempts seconds, at most 512 (the cap of an
  hour is never reached), and any later claim with room for the whole outbox delivers it again.
\<close>

theorem failed_event_redelivered:
  assumes "outbox_ok r" "ev \<in> set (im_outbox r)" "ob_ProcessedAt ev = None" "ob_DeadLetteredAt ev = None"
    and "ob_AttemptCount ev < 10" "r1 = MarkOutboxFailed now (ob_ID ev) cause r"
    and "now + 512 * time_Second \<le> later" "length (im_outbox r) \<le> limit"
  shows "im_nextAttempt r1 (ob_ID ev) = Some (now + 2 ^ nat (ob_AttemptCount ev) * time_Second)
     \<and> ev\<lparr>ob_LastError := cause, ob_AttemptCount := ob_AttemptCount ev + 1\<rparr> \<in> set (fst (ClaimOutboxEvents later limit r1))"
proof -
  have d: "distinct (map ob_ID (im_outbox r))" using assms(1) by (simp add: outbox_ok_def)
  have n: "0 \<le> ob_AttemptCount ev" "ob_AttemptCount ev < outboxMaxAttempts"
    using assms(1,2,5) by (auto simp: outbox_ok_def attempts_ok_def outboxMaxAttempts_def)
  note b = outbox_backoff_exact [OF n]
  obtain x where x: "find (\<lambda>e. ob_ID e = ob_ID ev) (im_outbox r) = Some x"
    using assms(2) by (cases "find (\<lambda>e. ob_ID e = ob_ID ev) (im_outbox r)") (auto dest: find_NoneD)
  with find_SomeD [OF x] same_id [OF d _ assms(2)] have "x = ev" by auto
  with x have f: "find (\<lambda>e. ob_ID e = ob_ID ev) (im_outbox r) = Some ev" by simp
  let ?evs = "update_first (\<lambda>e. ob_ID e = ob_ID ev) (\<lambda>e. e\<lparr>ob_LastError := cause\<rparr>) (im_outbox r)"
  have r1: "im_outbox r1 = ?evs" "im_claimed r1 = (im_claimed r)(ob_ID ev := False)"
    "im_nextAttempt r1 = (im_nextAttempt r)(ob_ID ev \<mapsto> now + outbox_backoff (ob_AttemptCount ev))"
    using f n(2) by (simp_all add: assms(6) MarkOutboxFailed_def Let_def)
  have ids: "map ob_ID ?evs = map ob_ID (im_outbox r)" by (rule update_first_ids) simp
  have mem: "ev\<lparr>ob_LastError := cause\<rparr> \<in> set ?evs" by (rule update_first_found [OF f])
  have c: "claimable later (im_claimed r1) (im_nextAttempt r1) (ev\<lparr>ob_LastError := cause\<rparr>)"
    using assms(3,4,7) b by (simp add: claimable_def r1)
  obtain out evs' c' where l: "claim_loop later (int limit) (im_nextAttempt r1) (im_claimed r1) ?evs = (out, evs', c')"
    by (metis prod_cases3)
  have "length ?evs \<le> limit" using ids assms(8) by (metis length_map)
  with claim_loop_all [OF l _ _ mem c] ids d have
    "ev\<lparr>ob_LastError := cause, ob_AttemptCount := ob_AttemptCount ev + 1\<rparr> \<in> set out" by simp
  with l b show ?thesis by (simp add: ClaimOutboxEvents_def r1)
qed

theorem failed_event_redelivered_witness:
  "\<exists>e \<in> set (fst (ClaimOutboxEvents (1000 * time_Second) 5 (MarkOutboxFailed 7 ''e1'' ''boom'' demo_outbox))).
     ob_ID e = ''e1'' \<and> ob_LastError e = ''boom'' \<and> ob_AttemptCount e = 1"
proof -
  have m: "demo_outbox_event \<in> set (im_outbox demo_outbox)" "length (im_outbox demo_outbox) \<le> 5"
    by (simp_all add: demo_outbox_def)
  have "ob_ProcessedAt demo_outbox_event = None" "ob_DeadLetteredAt demo_outbox_event = None"
    "ob_AttemptCount demo_outbox_event = 0" "ob_ID demo_outbox_event = ''e1''"
    by (simp_all add: demo_outbox_event_def)
  with failed_event_redelivered [OF demo_outbox_ok m(1), of _ 7 "''boom''" "1000 * time_Second" 5] m(2) show ?thesis
    by (intro bexI [of _ "demo_outbox_event\<lparr>ob_LastError := ''boom'', ob_AttemptCount := 1\<rparr>"])
      (simp_all add: time_Second_def)
qed

end
