(* ===== verification/CompRules.thy ===== *)
theory CompRules
  imports Money
begin

text \<open>
  \<^verbatim>\<open>internal/competitions/rules\<close>: the rule engine of the competitions. Eligibility ("who may enter")
  and scoring ("what is measured") are two documents over a closed set of metrics, operators and
  filter dimensions. The theory holds the documents, their admission checks, and the evaluation of
  an eligibility document against the composition of a portfolio. The JSON decoder is a parameter
  of the two parsers: everything after it is modelled.
\<close>

section \<open>Documents\<close>

abbreviation MetricPortfolioWeight :: string where "MetricPortfolioWeight \<equiv> ''portfolio_weight''"
abbreviation MetricPositionCount :: string where "MetricPositionCount \<equiv> ''position_count''"
abbreviation MetricAssetClassCount :: string where "MetricAssetClassCount \<equiv> ''asset_class_count''"
abbreviation MetricLargestPositionWeight :: string where "MetricLargestPositionWeight \<equiv> ''largest_position_weight''"
abbreviation MetricPortfolioAgeDays :: string where "MetricPortfolioAgeDays \<equiv> ''portfolio_age_days''"
abbreviation MetricCashWeight :: string where "MetricCashWeight \<equiv> ''cash_weight''"

abbreviation OpGTE :: string where "OpGTE \<equiv> ''gte''"
abbreviation OpGT :: string where "OpGT \<equiv> ''gt''"
abbreviation OpLTE :: string where "OpLTE \<equiv> ''lte''"
abbreviation OpLT :: string where "OpLT \<equiv> ''lt''"
abbreviation OpEQ :: string where "OpEQ \<equiv> ''eq''"
abbreviation OpBetween :: string where "OpBetween \<equiv> ''between''"

abbreviation ScopeFullPortfolio :: string where "ScopeFullPortfolio \<equiv> ''full_portfolio''"
abbreviation ScopeMatchingAssets :: string where "ScopeMatchingAssets \<equiv> ''matching_assets''"
abbreviation ScopeCustomUniverse :: string where "ScopeCustomUniverse \<equiv> ''custom_universe''"

definition rules_SchemaVersion :: int where "rules_SchemaVersion = 1"

record Filter =
  f_AssetTypes :: "string list"
  f_Sectors :: "string list"
  f_VenueMICs :: "string list"
  f_IssuerCountries :: "string list"
  f_ListingCountries :: "string list"
  f_Currencies :: "string list"
  f_InstrumentIDs :: "string list"
  f_Universe :: string

text \<open>A \<^verbatim>\<open>*Filter\<close> is an option; a nil filter is zero.\<close>

definition Filter_IsZero :: "Filter option \<Rightarrow> bool" where
  "Filter_IsZero fo =
     (case fo of None \<Rightarrow> True
      | Some f \<Rightarrow> f_AssetTypes f = [] \<and> f_Sectors f = [] \<and> f_VenueMICs f = [] \<and> f_IssuerCountries f = []
          \<and> f_ListingCountries f = [] \<and> f_Currencies f = [] \<and> f_InstrumentIDs f = [] \<and> f_Universe f = [])"

record Rule =
  ru_Code :: string
  ru_Label :: string
  ru_Metric :: string
  ru_Filter :: "Filter option"
  ru_Operator :: string
  ru_Value :: string
  ru_ValueHigh :: string

record Eligibility =
  el_SchemaVersion :: int
  el_All :: "Rule list"
  el_Any :: "Rule list"

record Scoring =
  sc_SchemaVersion :: int
  sc_Scope :: string
  sc_Filter :: "Filter option"
  sc_IncludeCash :: bool
  sc_IncludeDividends :: "bool option"
  sc_IncludeFees :: "bool option"
  sc_IncludeFX :: "bool option"
  sc_LegacyJoinTimeBaseline :: bool

text \<open>The errors of the package, one constructor for each \<^verbatim>\<open>fmt.Errorf\<close>, and the panic of \<open>MustRatio\<close>.\<close>

datatype rules_err =
    Malformed_document
  | UnsupportedSchemaVersion int
  | NoRules
  | InvalidRule string rules_err
  | DuplicateCode string
  | CodeLabelRequired
  | UnknownMetric string
  | UnknownOperator string
  | NotExactDecimal string money_err
  | NegativeValue
  | HighNotGreater
  | HighOnlyWithBetween
  | MetricTakesNoFilter string
  | WeightRequiresFilter
  | EmptyFilterValue
  | UnsupportedDividends
  | UnsupportedFees
  | FullPortfolioWithFilter
  | MatchingAssetsWithoutFilter
  | UniverseMissing
  | UnknownScope string
  | SectorUnsupported
  | IssuerCountryUnsupported
  | UniverseUnsupported string
  | ScoringError rules_err
  | RulesPanic

definition validMetrics :: "string list" where
  "validMetrics = [MetricPortfolioWeight, MetricPositionCount, MetricAssetClassCount,
                   MetricLargestPositionWeight, MetricPortfolioAgeDays, MetricCashWeight]"

definition validOperators :: "string list" where
  "validOperators = [OpGTE, OpGT, OpLTE, OpLT, OpEQ, OpBetween]"

definition metricsAcceptingFilter :: "string list" where
  "metricsAcceptingFilter = [MetricPortfolioWeight, MetricPositionCount]"

section \<open>Admission\<close>

definition validateFilter :: "Filter option \<Rightarrow> rules_err + unit" where
  "validateFilter fo =
     (case fo of None \<Rightarrow> Inr ()
      | Some f \<Rightarrow>
          if list_ex (\<lambda>dim. list_ex (\<lambda>v. v = []) dim)
               [f_AssetTypes f, f_Sectors f, f_VenueMICs f, f_IssuerCountries f,
                f_ListingCountries f, f_Currencies f, f_InstrumentIDs f]
          then Inl EmptyFilterValue else Inr ())"

definition exactRatio :: "declib \<Rightarrow> string \<Rightarrow> rules_err + Ratio" where
  "exactRatio L s = (case ParseRatio L s of Inl e \<Rightarrow> Inl (NotExactDecimal s e) | Inr r \<Rightarrow> Inr r)"

definition validateRule :: "declib \<Rightarrow> Rule \<Rightarrow> rules_err + unit" where
  "validateRule L r =
     (if ru_Code r = [] \<or> ru_Label r = [] then Inl CodeLabelRequired
      else if ru_Metric r \<notin> set validMetrics then Inl (UnknownMetric (ru_Metric r))
      else if ru_Operator r \<notin> set validOperators then Inl (UnknownOperator (ru_Operator r))
      else rbind (exactRatio L (ru_Value r)) (\<lambda>val.
        if Decimal_Sign L val < 0 then Inl NegativeValue
        else rbind (if ru_Operator r = OpBetween then
                      rbind (exactRatio L (ru_ValueHigh r)) (\<lambda>high.
                        if Ratio_Cmp L high val \<le> 0 then Inl HighNotGreater else Inr ())
                    else if ru_ValueHigh r \<noteq> [] then Inl HighOnlyWithBetween
                    else Inr ()) (\<lambda>_.
             rbind (validateFilter (ru_Filter r)) (\<lambda>_.
               if \<not> Filter_IsZero (ru_Filter r) \<and> ru_Metric r \<notin> set metricsAcceptingFilter
               then Inl (MetricTakesNoFilter (ru_Metric r))
               else if ru_Metric r = MetricPortfolioWeight \<and> Filter_IsZero (ru_Filter r)
               then Inl WeightRequiresFilter
               else Inr ()))))"

text \<open>The loop over both groups; \<open>seen\<close> holds the codes met so far.\<close>

fun validateRules :: "declib \<Rightarrow> string list \<Rightarrow> Rule list \<Rightarrow> rules_err + string list" where
  "validateRules L seen [] = Inr seen"
| "validateRules L seen (r # rs) =
     (case validateRule L r of
        Inl e \<Rightarrow> Inl (InvalidRule (ru_Code r) e)
      | Inr _ \<Rightarrow> if ru_Code r \<in> set seen then Inl (DuplicateCode (ru_Code r))
                else validateRules L (ru_Code r # seen) rs)"

definition ParseEligibility ::
  "declib \<Rightarrow> (string \<Rightarrow> Eligibility option) \<Rightarrow> string \<Rightarrow> rules_err + Eligibility" where
  "ParseEligibility L strictUnmarshal raw =
     rbind (from_option Malformed_document (strictUnmarshal raw)) (\<lambda>e.
       if el_SchemaVersion e \<noteq> rules_SchemaVersion then Inl (UnsupportedSchemaVersion (el_SchemaVersion e))
       else if length (el_All e) + length (el_Any e) = 0 then Inl NoRules
       else rbind (validateRules L [] (el_All e @ el_Any e)) (\<lambda>_. Inr e))"

definition ParseScoring ::
  "(string \<Rightarrow> Scoring option) \<Rightarrow> string \<Rightarrow> rules_err + Scoring" where
  "ParseScoring strictUnmarshal raw =
     rbind (from_option Malformed_document (strictUnmarshal raw)) (\<lambda>s.
       if sc_SchemaVersion s \<noteq> rules_SchemaVersion then Inl (UnsupportedSchemaVersion (sc_SchemaVersion s))
       else rbind (validateFilter (sc_Filter s)) (\<lambda>_.
         if sc_IncludeDividends s = Some True then Inl UnsupportedDividends
         else if sc_IncludeFees s = Some True then Inl UnsupportedFees
         else if sc_Scope s = ScopeFullPortfolio then
           (if \<not> Filter_IsZero (sc_Filter s) then Inl FullPortfolioWithFilter else Inr s)
         else if sc_Scope s = ScopeMatchingAssets then
           (if Filter_IsZero (sc_Filter s) then Inl MatchingAssetsWithoutFilter else Inr s)
         else if sc_Scope s = ScopeCustomUniverse then
           (case sc_Filter s of
              None \<Rightarrow> Inl UniverseMissing
            | Some f \<Rightarrow> if f_Universe f = [] then Inl UniverseMissing else Inr s)
         else Inl (UnknownScope (sc_Scope s))))"

definition ValidateDefinitionVersionPayloads ::
  "declib \<Rightarrow> (string \<Rightarrow> Eligibility option) \<Rightarrow> (string \<Rightarrow> Scoring option) \<Rightarrow> string \<Rightarrow> string
    \<Rightarrow> rules_err + (Eligibility \<times> Scoring)" where
  "ValidateDefinitionVersionPayloads L unmarshalE unmarshalS eligibilityJSON scoringJSON =
     rbind (ParseEligibility L unmarshalE eligibilityJSON) (\<lambda>e.
     rbind (ParseScoring unmarshalS scoringJSON) (\<lambda>s. Inr (e, s)))"

record Capabilities =
  cap_SectorSupported :: bool
  cap_IssuerCountrySupported :: bool
  cap_UniverseResolverWired :: bool

definition validateFilterCapabilities :: "Filter option \<Rightarrow> Capabilities \<Rightarrow> rules_err + unit" where
  "validateFilterCapabilities fo caps =
     (case fo of None \<Rightarrow> Inr ()
      | Some f \<Rightarrow>
          if f_Sectors f \<noteq> [] \<and> \<not> cap_SectorSupported caps then Inl SectorUnsupported
          else if f_IssuerCountries f \<noteq> [] \<and> \<not> cap_IssuerCountrySupported caps then Inl IssuerCountryUnsupported
          else if f_Universe f \<noteq> [] \<and> \<not> cap_UniverseResolverWired caps
          then Inl (UniverseUnsupported (f_Universe f))
          else Inr ())"

fun rulesCapabilities :: "Capabilities \<Rightarrow> Rule list \<Rightarrow> rules_err + unit" where
  "rulesCapabilities caps [] = Inr ()"
| "rulesCapabilities caps (r # rs) =
     (case validateFilterCapabilities (ru_Filter r) caps of
        Inl e \<Rightarrow> Inl (InvalidRule (ru_Code r) e)
      | Inr _ \<Rightarrow> rulesCapabilities caps rs)"

definition ValidateCapabilities :: "Eligibility \<Rightarrow> Scoring \<Rightarrow> Capabilities \<Rightarrow> rules_err + unit" where
  "ValidateCapabilities e s caps =
     rbind (rulesCapabilities caps (el_All e @ el_Any e)) (\<lambda>_.
       case validateFilterCapabilities (sc_Filter s) caps of
         Inl x \<Rightarrow> Inl (ScoringError x) | Inr _ \<Rightarrow> Inr ())"

section \<open>Evaluation\<close>

record PositionFacts =
  fact_InstrumentID :: string
  fact_AssetType :: string
  fact_Sector :: string
  fact_VenueMIC :: string
  fact_IssuerCountry :: string
  fact_ListingCountry :: string
  fact_Currency :: string
  fact_ValueBase :: Amount

text \<open>The resolved universes, from a name to the set of its members: a Go map of maps.\<close>

type_synonym universes = "string \<rightharpoonup> (string \<Rightarrow> bool)"

record PortfolioFacts =
  pfa_Positions :: "PositionFacts list"
  pfa_CashValueBase :: Amount
  pfa_TotalValueBase :: Amount
  pfa_PortfolioAgeDays :: int
  pfa_UniverseMembership :: universes

record Evidence =
  ev_Code :: string
  ev_Label :: string
  ev_Metric :: string
  ev_Operator :: string
  ev_Required :: string
  ev_Actual :: string
  ev_Passed :: bool
  ev_Reason :: string

record EvalResult =
  er_Eligible :: bool
  er_EvaluatedAt :: time
  er_Rules :: "Evidence list"

abbreviation ReasonEmptyPortfolio :: string where "ReasonEmptyPortfolio \<equiv> ''empty_portfolio''"
abbreviation ReasonUnknownUniverse :: string where "ReasonUnknownUniverse \<equiv> ''unknown_universe''"
abbreviation ReasonBelowRequired :: string where "ReasonBelowRequired \<equiv> ''below_required''"
abbreviation ReasonAboveRequired :: string where "ReasonAboveRequired \<equiv> ''above_required''"
abbreviation ReasonOutsideRange :: string where "ReasonOutsideRange \<equiv> ''outside_range''"
abbreviation ReasonNotEqual :: string where "ReasonNotEqual \<equiv> ''not_equal''"

definition weightDivPlaces :: nat where "weightDivPlaces = 18"

definition valueIn :: "string \<Rightarrow> string list \<Rightarrow> bool" where
  "valueIn v allowed = (allowed = [] \<or> v \<in> set allowed)"

definition Matches :: "Filter option \<Rightarrow> PositionFacts \<Rightarrow> universes \<Rightarrow> bool" where
  "Matches fo p universes =
     (if Filter_IsZero fo then True
      else case fo of None \<Rightarrow> True
      | Some f \<Rightarrow>
          if \<not> valueIn (fact_AssetType p) (f_AssetTypes f) \<or> \<not> valueIn (fact_Sector p) (f_Sectors f)
             \<or> \<not> valueIn (fact_VenueMIC p) (f_VenueMICs f) \<or> \<not> valueIn (fact_IssuerCountry p) (f_IssuerCountries f)
             \<or> \<not> valueIn (fact_ListingCountry p) (f_ListingCountries f) \<or> \<not> valueIn (fact_Currency p) (f_Currencies f)
             \<or> \<not> valueIn (fact_InstrumentID p) (f_InstrumentIDs f)
          then False
          else if f_Universe f \<noteq> [] then
            (case universes (f_Universe f) of None \<Rightarrow> False | Some members \<Rightarrow> members (fact_InstrumentID p))
          else True)"

text \<open>\<open>money.MustRatio\<close> on text that is not a literal of the source: the panic is a branch.\<close>

definition mustRatio :: "declib \<Rightarrow> string \<Rightarrow> rules_err + Ratio" where
  "mustRatio L s = (case ParseRatio L s of Inl _ \<Rightarrow> Inl RulesPanic | Inr r \<Rightarrow> Inr r)"

definition ratioFromInt :: "declib \<Rightarrow> int \<Rightarrow> rules_err + Ratio" where
  "ratioFromInt L n = mustRatio L (itoa (nat (if n < 0 then 0 else n)))"

definition investedValueBase :: "declib \<Rightarrow> PortfolioFacts \<Rightarrow> Amount" where
  "investedValueBase L facts = Amount_Sub L (pfa_TotalValueBase facts) (pfa_CashValueBase facts)"

text \<open>The division of a weight metric: an error of the division is reported as an empty portfolio.\<close>

definition weight_of :: "declib \<Rightarrow> Amount \<Rightarrow> Amount \<Rightarrow> Ratio \<times> bool \<times> string" where
  "weight_of L part whole =
     (case Amount_DivExact L part whole weightDivPlaces of
        Inl _ \<Rightarrow> (ZeroRatio L, True, ReasonEmptyPortfolio)
      | Inr w \<Rightarrow> (w, True, []))"

definition filteredWeight :: "declib \<Rightarrow> Filter option \<Rightarrow> PortfolioFacts \<Rightarrow> Ratio \<times> bool \<times> string" where
  "filteredWeight L fo facts =
     (let invested = investedValueBase L facts in
      if Decimal_Sign L invested \<le> 0 then (ZeroRatio L, True, ReasonEmptyPortfolio)
      else if (case fo of None \<Rightarrow> False
               | Some f \<Rightarrow> f_Universe f \<noteq> [] \<and> pfa_UniverseMembership facts (f_Universe f) = None)
      then (ZeroRatio L, True, ReasonUnknownUniverse)
      else
        let matching = foldl (\<lambda>m p. if Matches fo p (pfa_UniverseMembership facts)
                                    then Amount_Add L m (fact_ValueBase p) else m)
                         (ZeroAmount L) (pfa_Positions facts)
        in weight_of L matching invested)"

definition largestValue :: "declib \<Rightarrow> PositionFacts list \<Rightarrow> Amount" where
  "largestValue L ps =
     foldl (\<lambda>largest p. if 0 < Amount_Cmp L (fact_ValueBase p) largest then fact_ValueBase p else largest)
       (ZeroAmount L) ps"

definition metricValue :: "declib \<Rightarrow> Rule \<Rightarrow> PortfolioFacts \<Rightarrow> rules_err + (Ratio \<times> bool \<times> string)" where
  "metricValue L r facts =
     (if ru_Metric r = MetricPortfolioWeight then Inr (filteredWeight L (ru_Filter r) facts)
      else if ru_Metric r = MetricCashWeight then
        (if Decimal_Sign L (pfa_TotalValueBase facts) \<le> 0
         then Inr (ZeroRatio L, True, ReasonEmptyPortfolio)
         else Inr (weight_of L (pfa_CashValueBase facts) (pfa_TotalValueBase facts)))
      else if ru_Metric r = MetricLargestPositionWeight then
        (let invested = investedValueBase L facts in
         if Decimal_Sign L invested \<le> 0 then Inr (ZeroRatio L, True, ReasonEmptyPortfolio)
         else Inr (weight_of L (largestValue L (pfa_Positions facts)) invested))
      else if ru_Metric r = MetricPositionCount then
        rbind (ratioFromInt L (int (length (filter (\<lambda>p. Matches (ru_Filter r) p (pfa_UniverseMembership facts))
                                              (pfa_Positions facts)))))
          (\<lambda>v. Inr (v, False, []))
      else if ru_Metric r = MetricAssetClassCount then
        rbind (ratioFromInt L (int (length (remdups (filter (\<lambda>t. t \<noteq> []) (map fact_AssetType (pfa_Positions facts)))))))
          (\<lambda>v. Inr (v, False, []))
      else if ru_Metric r = MetricPortfolioAgeDays then
        rbind (ratioFromInt L (pfa_PortfolioAgeDays facts)) (\<lambda>v. Inr (v, False, []))
      else Inr (ZeroRatio L, False, ''unknown_metric''))"

definition rule_compare :: "declib \<Rightarrow> Ratio \<Rightarrow> Rule \<Rightarrow> rules_err + bool" where
  "rule_compare L actual r =
     rbind (mustRatio L (ru_Value r)) (\<lambda>val.
       if ru_Operator r = OpGTE then Inr (0 \<le> Ratio_Cmp L actual val)
       else if ru_Operator r = OpGT then Inr (0 < Ratio_Cmp L actual val)
       else if ru_Operator r = OpLTE then Inr (Ratio_Cmp L actual val \<le> 0)
       else if ru_Operator r = OpLT then Inr (Ratio_Cmp L actual val < 0)
       else if ru_Operator r = OpEQ then Inr (Ratio_Cmp L actual val = 0)
       else if ru_Operator r = OpBetween then
         rbind (mustRatio L (ru_ValueHigh r)) (\<lambda>high.
           Inr (0 \<le> Ratio_Cmp L actual val \<and> Ratio_Cmp L actual high \<le> 0))
       else Inr False)"

definition failureReason :: "string \<Rightarrow> string" where
  "failureReason operator =
     (if operator = OpGTE \<or> operator = OpGT then ReasonBelowRequired
      else if operator = OpLTE \<or> operator = OpLT then ReasonAboveRequired
      else if operator = OpBetween then ReasonOutsideRange
      else ReasonNotEqual)"

definition displayValue :: "declib \<Rightarrow> Ratio \<Rightarrow> bool \<Rightarrow> string" where
  "displayValue L v asPercent =
     (if asPercent then StringFixed L (QuantizeRatio L (Ratio_Mul L v (MustRatio L ''100'')) 2) 2
      else canonical L v)"

definition evaluateRule :: "declib \<Rightarrow> Rule \<Rightarrow> PortfolioFacts \<Rightarrow> rules_err + Evidence" where
  "evaluateRule L r facts =
     rbind (metricValue L r facts) (\<lambda>(actual, displayAsPercent, reason).
     rbind (mustRatio L (ru_Value r)) (\<lambda>val.
     rbind (if ru_Operator r = OpBetween then
              rbind (mustRatio L (ru_ValueHigh r)) (\<lambda>high.
                Inr (displayValue L val displayAsPercent @ '' - '' @ displayValue L high displayAsPercent))
            else Inr (displayValue L val displayAsPercent)) (\<lambda>required.
       let ev = \<lparr>ev_Code = ru_Code r, ev_Label = ru_Label r, ev_Metric = ru_Metric r,
                 ev_Operator = ru_Operator r, ev_Required = required,
                 ev_Actual = displayValue L actual displayAsPercent, ev_Passed = False, ev_Reason = []\<rparr>
       in if reason \<noteq> [] then Inr (ev\<lparr>ev_Reason := reason\<rparr>)
          else rbind (rule_compare L actual r) (\<lambda>passed.
            Inr (ev\<lparr>ev_Passed := passed,
                    ev_Reason := (if passed then [] else failureReason (ru_Operator r))\<rparr>)))))"

fun evaluateRules :: "declib \<Rightarrow> PortfolioFacts \<Rightarrow> Rule list \<Rightarrow> rules_err + Evidence list" where
  "evaluateRules L facts [] = Inr []"
| "evaluateRules L facts (r # rs) =
     rbind (evaluateRule L r facts) (\<lambda>ev.
     rbind (evaluateRules L facts rs) (\<lambda>evs. Inr (ev # evs)))"

definition Evaluate :: "declib \<Rightarrow> Eligibility \<Rightarrow> PortfolioFacts \<Rightarrow> time \<Rightarrow> rules_err + EvalResult" where
  "Evaluate L e facts now =
     rbind (evaluateRules L facts (el_All e)) (\<lambda>all_evs.
       let eligible = list_all ev_Passed all_evs in
       if el_Any e \<noteq> [] then
         rbind (evaluateRules L facts (el_Any e)) (\<lambda>any_evs.
           Inr \<lparr>er_Eligible = (eligible \<and> list_ex ev_Passed any_evs),
                er_EvaluatedAt = now, er_Rules = all_evs @ any_evs\<rparr>)
       else Inr \<lparr>er_Eligible = eligible, er_EvaluatedAt = now, er_Rules = all_evs\<rparr>)"

end
