(* ===== verification/CompModel.thy ===== *)
theory CompModel
  imports CompRules
begin

text \<open>
  \<^verbatim>\<open>internal/competitions\<close>, \<^verbatim>\<open>model.go\<close>, \<^verbatim>\<open>lifecycle.go\<close>, \<^verbatim>\<open>errors.go\<close> and \<^verbatim>\<open>definition.go\<close>: competition
  editions, the entries of their participants with the frozen composition that is scored, the
  stored lifecycle of an edition, and the ISO-week calendar of the legacy weekly sprints. The
  snapshot of a portfolio an entry is made from is \<^verbatim>\<open>portfolio/competition_snapshot.go\<close>.
\<close>

section \<open>Errors\<close>

datatype comp_err =
    ErrCompetitionNotFound
  | ErrCompetitionNotActive
  | ErrEmptyPortfolio
  | ErrJoinSnapshot
  | ErrEntryNotFound
  | ErrInvalidLifecycleTransition
  | ErrLifecycleConflict
  | ErrEditionExists
  | ErrEligibilityUnavailable
  | ErrIdempotencyKeyRequired
  | ErrJoinKeyConflict
  | ErrJoinWindowClosed
  | ErrNotEligible
  | ErrNothingToScore
  | ErrWithdrawalClosed
  | ErrEntryConflict
  | ErrEntryExists
  | ErrRankingUnavailable
  | ErrResultsNotAvailable
  | ErrGenerationConflict
  | ErrNoRulesSnapshot
  | ErrRulesSnapshotMalformed
  | ErrRules rules_err
  | ErrPrice string
  | ErrFX string
  | ErrObservationNotCaptured
  | ErrNoStartingValue
  | ErrBaselineZero
  | ErrDivision
  | ErrBasketAdjustment
  | ErrRetryLifecycle
  | ErrProvider
  | CompPanic

section \<open>State-passing results\<close>

text \<open>
  A call that may fail and changes a state returns both, so that what an early return leaves behind
  is part of the model.
\<close>

type_synonym ('s, 'a) run = "'s \<Rightarrow> (comp_err + 'a) \<times> 's"

definition ret :: "'a \<Rightarrow> ('s, 'a) run" where
  "ret x s = (Inr x, s)"

definition fail :: "comp_err \<Rightarrow> ('s, 'a) run" where
  "fail e s = (Inl e, s)"

definition andThen :: "('s, 'a) run \<Rightarrow> ('a \<Rightarrow> ('s, 'b) run) \<Rightarrow> ('s, 'b) run" where
  "andThen m f s = (case m s of (Inl e, s') \<Rightarrow> (Inl e, s') | (Inr x, s') \<Rightarrow> f x s')"

text \<open>A read that cannot change the state, and a write that changes it only when it succeeds.\<close>

definition reading :: "('s \<Rightarrow> comp_err + 'a) \<Rightarrow> ('s, 'a) run" where
  "reading f s = (f s, s)"

definition writing :: "('s \<Rightarrow> comp_err + 's) \<Rightarrow> ('s, unit) run" where
  "writing f s = (case f s of Inl e \<Rightarrow> (Inl e, s) | Inr s' \<Rightarrow> (Inr (), s'))"

lemma andThen_simps [simp]:
  "m s = (Inl e, s') \<Longrightarrow> andThen m f s = (Inl e, s')"
  "m s = (Inr x, s') \<Longrightarrow> andThen m f s = f x s'"
  by (simp_all add: andThen_def)

lemma run_simps [simp]:
  "ret x s = (Inr x, s)" "fail e s = (Inl e, s)" "reading f s = (f s, s)"
  by (simp_all add: ret_def fail_def reading_def)

lemma andThen_Inr:
  "andThen m f s = (Inr y, s'') = (\<exists>x s'. m s = (Inr x, s') \<and> f x s' = (Inr y, s''))"
  by (auto simp: andThen_def split: prod.splits sum.splits)

lemma writing_Inr: "writing f s = (Inr u, s') = (f s = Inr s')"
  by (auto simp: writing_def split: sum.splits)

section \<open>Statuses\<close>

abbreviation StatusUpcoming :: string where "StatusUpcoming \<equiv> ''upcoming''"
abbreviation StatusRunning :: string where "StatusRunning \<equiv> ''active''"
abbreviation StatusCompleted :: string where "StatusCompleted \<equiv> ''completed''"

abbreviation LifecycleLegacy :: string where "LifecycleLegacy \<equiv> ''legacy''"
abbreviation LifecycleDraft :: string where "LifecycleDraft \<equiv> ''draft''"
abbreviation LifecyclePublished :: string where "LifecyclePublished \<equiv> ''published''"
abbreviation LifecycleRegistrationOpen :: string where "LifecycleRegistrationOpen \<equiv> ''registration_open''"
abbreviation LifecycleRegistrationClosed :: string where "LifecycleRegistrationClosed \<equiv> ''registration_closed''"
abbreviation LifecycleActive :: string where "LifecycleActive \<equiv> ''active''"
abbreviation LifecycleFinalizing :: string where "LifecycleFinalizing \<equiv> ''finalizing''"
abbreviation LifecycleCompleted :: string where "LifecycleCompleted \<equiv> ''completed''"
abbreviation LifecycleCancelled :: string where "LifecycleCancelled \<equiv> ''cancelled''"

abbreviation EntryLegacyActive :: string where "EntryLegacyActive \<equiv> ''legacy_active''"
abbreviation EntryAdmitted :: string where "EntryAdmitted \<equiv> ''admitted''"
abbreviation EntryActive :: string where "EntryActive \<equiv> ''active''"
abbreviation EntryWithdrawn :: string where "EntryWithdrawn \<equiv> ''withdrawn''"
abbreviation EntryBaselineFailed :: string where "EntryBaselineFailed \<equiv> ''baseline_failed''"
abbreviation EntryDisqualified :: string where "EntryDisqualified \<equiv> ''disqualified''"
abbreviation EntryFinalized :: string where "EntryFinalized \<equiv> ''finalized''"

abbreviation BaselinePending :: string where "BaselinePending \<equiv> ''pending''"
abbreviation BaselineCompleted :: string where "BaselineCompleted \<equiv> ''completed''"
abbreviation BaselineFailed :: string where "BaselineFailed \<equiv> ''failed''"

definition lifecycleTransitions :: "(string \<times> string list) list" where
  "lifecycleTransitions =
     [(LifecycleDraft, [LifecyclePublished, LifecycleCancelled]),
      (LifecyclePublished, [LifecycleRegistrationOpen, LifecycleCancelled]),
      (LifecycleRegistrationOpen, [LifecycleRegistrationClosed, LifecycleCancelled]),
      (LifecycleRegistrationClosed, [LifecycleActive, LifecycleCancelled]),
      (LifecycleActive, [LifecycleFinalizing, LifecycleCancelled]),
      (LifecycleFinalizing, [LifecycleCompleted, LifecycleCancelled]),
      (LifecycleCompleted, []),
      (LifecycleCancelled, [])]"

definition ValidateLifecycleTransition :: "string \<Rightarrow> string \<Rightarrow> comp_err + unit" where
  "ValidateLifecycleTransition from to =
     (case map_of lifecycleTransitions from of
        None \<Rightarrow> Inl ErrInvalidLifecycleTransition
      | Some allowed \<Rightarrow> if to \<in> set allowed then Inr () else Inl ErrInvalidLifecycleTransition)"

section \<open>Editions and entries\<close>

record Competition =
  cp_ID :: string
  cp_Name :: string
  cp_Type :: string
  cp_StartsAt :: time
  cp_EndsAt :: time
  cp_Status :: string
  cp_CreatedAt :: time
  cp_DefinitionID :: string
  cp_DefinitionVersion :: int
  cp_JoinOpensAt :: "time option"
  cp_JoinClosesAt :: "time option"
  cp_LifecycleStatus :: string
  cp_RulesSnapshotJSON :: string
  cp_ScoringScope :: string
  cp_PublishedAt :: "time option"
  cp_FinalizedAt :: "time option"
  cp_CancelledAt :: "time option"

definition IsLegacy :: "Competition \<Rightarrow> bool" where
  "IsLegacy c = (cp_LifecycleStatus c = [] \<or> cp_LifecycleStatus c = LifecycleLegacy)"

record EntrySnapshotPosition =
  sp_ID :: string
  sp_CompetitionEntryID :: string
  sp_Symbol :: string
  sp_AssetType :: string
  sp_Quantity :: Quantity
  sp_Currency :: string
  sp_StartingPrice :: Price
  sp_StartingPriceCurrency :: string
  sp_StartingValueBase :: Amount
  sp_InstrumentID :: string
  sp_VenueMIC :: string
  sp_ClassificationSnapshotJSON :: string
  sp_IncludedInScore :: bool
  sp_StartingWeight :: Ratio
  sp_BaselinePriceObservedAt :: "time option"
  sp_BaselineFXObservedAt :: "time option"
  sp_OriginalQuantity :: Quantity

record EntrySnapshotCash =
  cs_ID :: string
  cs_CompetitionEntryID :: string
  cs_Currency :: string
  cs_Amount :: Amount
  cs_ValueBase :: Amount
  cs_IncludedInScore :: bool

record CompetitionEntry =
  en_ID :: string
  en_CompetitionID :: string
  en_UserID :: string
  en_StartingValue :: Amount
  en_StartingIndex :: IndexValue
  en_JoinedAt :: time
  en_Snapshots :: "EntrySnapshotPosition list"
  en_EntryStatus :: string
  en_PortfolioVersion :: int
  en_SnapshotCapturedAt :: "time option"
  en_EligibilityEvidenceJSON :: string
  en_ScoringScope :: string
  en_EligibleStartingValueBase :: Amount
  en_BaselineStatus :: string
  en_BaselineCompletedAt :: "time option"
  en_DisqualificationReason :: string
  en_WithdrawnAt :: "time option"
  en_CashSnapshots :: "EntrySnapshotCash list"
  en_IdempotencyKey :: string
  en_RequestFingerprint :: string

text \<open>The stamped rules of an edition (\<^verbatim>\<open>RulesSnapshot\<close>): two raw documents.\<close>

record RulesSnapshot =
  rs_SchemaVersion :: int
  rs_Eligibility :: string
  rs_Scoring :: string

text \<open>The read-only capture of a portfolio (\<^verbatim>\<open>portfolio/competition_snapshot.go\<close>).\<close>

record CompetitionSnapshotPosition =
  csp_PositionID :: string
  csp_Symbol :: string
  csp_InstrumentID :: string
  csp_AssetType :: string
  csp_VenueMIC :: string
  csp_IssuerCountry :: string
  csp_ListingCountry :: string
  csp_Currency :: string
  csp_Quantity :: Quantity
  csp_Price :: Price
  csp_PriceCurrency :: string
  csp_ValueBase :: Amount

record CompetitionSnapshotCash =
  csc_Currency :: string
  csc_Amount :: Amount
  csc_ValueBase :: Amount

record CompetitionPortfolioSnapshot =
  cps_PortfolioID :: string
  cps_PortfolioVersion :: int
  cps_CapturedAt :: time
  cps_SnapshotBaseCurrency :: string
  cps_PositionsValueBase :: Amount
  cps_CashValueBase :: Amount
  cps_TotalValueBase :: Amount
  cps_PortfolioCreatedAt :: time
  cps_Positions :: "CompetitionSnapshotPosition list"
  cps_Cash :: "CompetitionSnapshotCash list"

section \<open>The calendar of the weekly sprints\<close>

definition deriveStatus :: "time \<Rightarrow> time \<Rightarrow> time \<Rightarrow> string" where
  "deriveStatus startsAt endsAt now =
     (if now < startsAt then StatusUpcoming else if now < endsAt then StatusRunning else StatusCompleted)"

definition day_ns :: int where "day_ns = 86400000000000"

text \<open>
  Instants count from Monday, the first of January of year 1, so the weekday of an instant (\<^verbatim>\<open>Sunday\<close>
  is 0) and the ISO week are computed from its number of days, as \<^verbatim>\<open>time.Date\<close> and \<^verbatim>\<open>time.ISOWeek\<close> do.
\<close>

definition Weekday :: "int \<Rightarrow> int" where
  "Weekday d = (d + 1) mod 7"

definition civil_year :: "int \<Rightarrow> int \<times> int" where
  "civil_year d =
     (let n400 = d div 146097; r400 = d mod 146097;
          n100 = min (r400 div 36524) 3; r100 = r400 - 36524 * n100;
          n4 = r100 div 1461; r4 = r100 mod 1461;
          n1 = min (r4 div 365) 3
      in (400 * n400 + 100 * n100 + 4 * n4 + n1 + 1, r4 - 365 * n1))"

definition ISOWeek :: "int \<Rightarrow> int \<times> int" where
  "ISOWeek d =
     (let thursday = d + 3 - (Weekday d + 6) mod 7; (year, yday) = civil_year thursday
      in (year, yday div 7 + 1))"

definition weekStart :: "time \<Rightarrow> time" where
  "weekStart now =
     (let day = now div day_ns; wd = Weekday day; wd = (if wd = 0 then 7 else wd)
      in (day - (wd - 1)) * day_ns)"

definition WeeklySprintID :: "time \<Rightarrow> string" where
  "WeeklySprintID now =
     (let (year, week) = ISOWeek (weekStart now div day_ns)
      in ''weekly_'' @ itoa (nat year) @ ''_'' @ (if week < 10 then ''0'' else []) @ itoa (nat week))"

definition zero_Competition :: Competition where
  "zero_Competition =
     \<lparr>cp_ID = [], cp_Name = [], cp_Type = [], cp_StartsAt = 0, cp_EndsAt = 0, cp_Status = [],
      cp_CreatedAt = 0, cp_DefinitionID = [], cp_DefinitionVersion = 0, cp_JoinOpensAt = None,
      cp_JoinClosesAt = None, cp_LifecycleStatus = [], cp_RulesSnapshotJSON = [], cp_ScoringScope = [],
      cp_PublishedAt = None, cp_FinalizedAt = None, cp_CancelledAt = None\<rparr>"

definition WeeklySprint :: "time \<Rightarrow> Competition" where
  "WeeklySprint now =
     (let start = weekStart now; ends = start + 7 * day_ns
      in zero_Competition\<lparr>cp_ID := WeeklySprintID now, cp_Name := ''Weekly Sprint'',
           cp_Type := ''weekly_sprint'', cp_StartsAt := start, cp_EndsAt := ends,
           cp_Status := deriveStatus start ends now, cp_CreatedAt := now\<rparr>)"

section \<open>Effective rules\<close>

text \<open>
  The JSON of documents, evidence and classification is encoded and decoded by the standard library:
  the codec is a parameter, \<open>None\<close> is a decoding error.
\<close>

record codec =
  cd_snapshot :: "string \<Rightarrow> RulesSnapshot option"
  cd_eligibility :: "string \<Rightarrow> Eligibility option"
  cd_scoring :: "string \<Rightarrow> Scoring option"
  cd_encodeResult :: "EvalResult \<Rightarrow> string"
  cd_decodeResult :: "string \<Rightarrow> EvalResult option"
  cd_encodeMap :: "(string \<times> string) list \<Rightarrow> string"

definition legacyRulesSnapshot :: string where
  "legacyRulesSnapshot =
     ''{'' @ [CHR 0x0A, CHR 0x09] @
     ''\"schema_version\": 1,'' @ [CHR 0x0A, CHR 0x09] @
     ''\"eligibility\": {\"schema_version\":1,\"all\":[{\"code\":\"non_empty_portfolio\",\"label\":\"Portfolio has at least one position\",\"metric\":\"position_count\",\"operator\":\"gte\",\"value\":\"1\"}]},'' @ [CHR 0x0A, CHR 0x09] @
     ''\"scoring\": {\"schema_version\":1,\"scope\":\"full_portfolio\",\"include_cash\":false,\"legacy_join_time_baseline\":true}'' @ [CHR 0x0A] @
     ''}''"

definition effectiveRules :: "declib \<Rightarrow> codec \<Rightarrow> Competition \<Rightarrow> comp_err + (Eligibility \<times> Scoring)" where
  "effectiveRules L J c =
     (let raw = cp_RulesSnapshotJSON c in
      if raw = [] \<and> \<not> IsLegacy c then Inl ErrNoRulesSnapshot
      else
        rbind (from_option ErrRulesSnapshotMalformed
                 (cd_snapshot J (if raw = [] then legacyRulesSnapshot else raw))) (\<lambda>snapshot.
          case ValidateDefinitionVersionPayloads L (cd_eligibility J) (cd_scoring J)
                 (rs_Eligibility snapshot) (rs_Scoring snapshot) of
            Inl e \<Rightarrow> Inl (ErrRules e)
          | Inr docs \<Rightarrow> Inr docs))"

end
