(* ===== verification/CompStore.thy ===== *)
theory CompStore
  imports CompModel
begin

text \<open>
  The in-memory competition repository: \<^verbatim>\<open>repository.go\<close>, the memory halves of \<^verbatim>\<open>engine_repository.go\<close>,
  \<^verbatim>\<open>ranking.go\<close>, \<^verbatim>\<open>finalize.go\<close> and \<^verbatim>\<open>observations.go\<close>. It mirrors the guarded updates of the
  PostgreSQL one. The nested entry map is one association list keyed by competition and user; the
  iteration order of a Go map is the order of the list.
\<close>

section \<open>State\<close>

record RankingGeneration =
  rg_CompetitionID :: string
  rg_Generation :: int
  rg_Status :: string
  rg_ProcessedEntries :: int
  rg_SuccessfulEntries :: int
  rg_FailedEntries :: int
  rg_CursorEntryID :: string
  rg_WriteFailure :: bool
  rg_StartedAt :: time
  rg_CompletedAt :: "time option"
  rg_ActivatedAt :: "time option"
  rg_FailureReason :: string

abbreviation GenerationBuilding :: string where "GenerationBuilding \<equiv> ''building''"
abbreviation GenerationActive :: string where "GenerationActive \<equiv> ''active''"
abbreviation GenerationSuperseded :: string where "GenerationSuperseded \<equiv> ''superseded''"
abbreviation GenerationFailed :: string where "GenerationFailed \<equiv> ''failed''"
abbreviation GenerationCompleted :: string where "GenerationCompleted \<equiv> ''completed''"

record CompetitionRankingRow =
  rr_EntryID :: string
  rr_UserID :: string
  rr_Rank :: int
  rr_Index :: IndexValue
  rr_ReturnPct :: Ratio
  rr_ValuedAt :: time

record memoryRankingState =
  mr_generations :: "(int \<times> RankingGeneration) list"
  mr_rows :: "int \<rightharpoonup> (string \<times> CompetitionRankingRow) list"
  mr_nextGen :: int
  mr_active :: int
  mr_locked :: bool

text \<open>A finalization generation has the fields of a ranking generation it uses; a draft row has no rank.\<close>

record FinalizationGeneration =
  fg_CompetitionID :: string
  fg_Generation :: int
  fg_Status :: string
  fg_ProcessedEntries :: int
  fg_SuccessfulEntries :: int
  fg_FailedEntries :: int
  fg_CursorEntryID :: string
  fg_WriteFailure :: bool
  fg_StartedAt :: time
  fg_CompletedAt :: "time option"
  fg_FailureReason :: string

record CompetitionFinalizationRow =
  fr_EntryID :: string
  fr_UserID :: string
  fr_Index :: IndexValue
  fr_ReturnPct :: Ratio
  fr_ValuedAt :: time

record memoryFinalizationState =
  mf_generations :: "(int \<times> FinalizationGeneration) list"
  mf_rows :: "int \<rightharpoonup> (string \<times> CompetitionFinalizationRow) list"
  mf_nextGen :: int
  mf_locked :: bool

record CompetitionResultRow =
  re_EntryID :: string
  re_UserID :: string
  re_Rank :: int
  re_Index :: IndexValue
  re_ReturnPct :: Ratio
  re_EvidenceFinalizedAt :: time

record PriceObservation =
  po_InstrumentID :: string
  po_VenueMIC :: string
  po_Symbol :: string
  po_Price :: Price
  po_Currency :: string
  po_ObservedAt :: time
  po_ProviderTimestamp :: time
  po_TradingSessionDate :: string
  po_Methodology :: string

record FxObservation =
  fo_FromCurrency :: string
  fo_ToCurrency :: string
  fo_Rate :: Ratio
  fo_ObservedAt :: time

record ObservationSet =
  os_ID :: string
  os_CompetitionID :: string
  os_Boundary :: string
  os_EffectiveAt :: time
  os_Provider :: string
  os_Status :: string
  os_CompletedAt :: "time option"

abbreviation ObservationPending :: string where "ObservationPending \<equiv> ''pending''"
abbreviation ObservationSealed :: string where "ObservationSealed \<equiv> ''sealed''"

record memoryObservationSet =
  ms_set :: ObservationSet
  ms_prices :: "string \<rightharpoonup> PriceObservation"
  ms_fx :: "string \<rightharpoonup> FxObservation"

record CompRepo =
  cr_competitions :: "string \<rightharpoonup> Competition"
  cr_compOrder :: "string list"
  cr_entries :: "((string \<times> string) \<times> CompetitionEntry) list"
  cr_rankingStates :: "string \<rightharpoonup> memoryRankingState"
  cr_displayNames :: "string \<rightharpoonup> string"
  cr_resultStore :: "string \<rightharpoonup> CompetitionResultRow list"
  cr_finalizationStates :: "string \<rightharpoonup> memoryFinalizationState"
  cr_observations :: "string \<rightharpoonup> memoryObservationSet"

definition NewInMemoryCompetitionRepository :: CompRepo where
  "NewInMemoryCompetitionRepository =
     \<lparr>cr_competitions = Map.empty, cr_compOrder = [], cr_entries = [], cr_rankingStates = Map.empty,
      cr_displayNames = Map.empty, cr_resultStore = Map.empty, cr_finalizationStates = Map.empty,
      cr_observations = Map.empty\<rparr>"

section \<open>Competitions and entries\<close>

definition ListCompetitions :: "CompRepo \<Rightarrow> Competition list" where
  "ListCompetitions r = List.map_filter (cr_competitions r) (cr_compOrder r)"

definition GetCompetition :: "string \<Rightarrow> CompRepo \<Rightarrow> comp_err + Competition" where
  "GetCompetition cid r = from_option ErrCompetitionNotFound (cr_competitions r cid)"

definition CreateCompetition :: "Competition \<Rightarrow> CompRepo \<Rightarrow> CompRepo" where
  "CreateCompetition c r =
     r\<lparr>cr_compOrder := (if cr_competitions r (cp_ID c) = None then cr_compOrder r @ [cp_ID c] else cr_compOrder r),
       cr_competitions := (cr_competitions r)(cp_ID c \<mapsto> c)\<rparr>"

definition put_entry :: "CompetitionEntry \<Rightarrow> CompRepo \<Rightarrow> CompRepo" where
  "put_entry e r = r\<lparr>cr_entries := AList.update (en_CompetitionID e, en_UserID e) e (cr_entries r)\<rparr>"

definition CreateEntry :: "CompetitionEntry \<Rightarrow> CompRepo \<Rightarrow> CompRepo" where
  "CreateEntry e r = put_entry e r"

definition GetEntry :: "string \<Rightarrow> string \<Rightarrow> CompRepo \<Rightarrow> comp_err + CompetitionEntry" where
  "GetEntry cid uid r = from_option ErrEntryNotFound (map_of (cr_entries r) (cid, uid))"

definition ListEntries :: "string \<Rightarrow> CompRepo \<Rightarrow> CompetitionEntry list" where
  "ListEntries cid r = map snd (filter (\<lambda>((c, u), e). c = cid) (cr_entries r))"

definition comp_OnAccountDeleted :: "string \<Rightarrow> CompRepo \<Rightarrow> CompRepo" where
  "comp_OnAccountDeleted uid r = r\<lparr>cr_entries := filter (\<lambda>((c, u), e). u \<noteq> uid) (cr_entries r)\<rparr>"

definition CreateEdition :: "Competition \<Rightarrow> CompRepo \<Rightarrow> comp_err + CompRepo" where
  "CreateEdition c r =
     (if cr_competitions r (cp_ID c) \<noteq> None then Inl ErrEditionExists
      else Inr (r\<lparr>cr_compOrder := cr_compOrder r @ [cp_ID c],
                  cr_competitions := (cr_competitions r)(cp_ID c \<mapsto> c)\<rparr>))"

definition TransitionLifecycle :: "string \<Rightarrow> string \<Rightarrow> string \<Rightarrow> time \<Rightarrow> CompRepo \<Rightarrow> comp_err + CompRepo" where
  "TransitionLifecycle cid from to now r =
     rbind (ValidateLifecycleTransition from to) (\<lambda>_.
       case cr_competitions r cid of
         None \<Rightarrow> Inl ErrCompetitionNotFound
       | Some c \<Rightarrow>
           if cp_LifecycleStatus c \<noteq> from then Inl ErrLifecycleConflict
           else
             let c = c\<lparr>cp_LifecycleStatus := to\<rparr>;
                 c = (if to = LifecyclePublished then c\<lparr>cp_PublishedAt := Some now\<rparr>
                      else if to = LifecycleCompleted then c\<lparr>cp_FinalizedAt := Some now\<rparr>
                      else if to = LifecycleCancelled then c\<lparr>cp_CancelledAt := Some now\<rparr>
                      else c)
             in Inr (r\<lparr>cr_competitions := (cr_competitions r)(cid \<mapsto> c)\<rparr>))"

definition CreateEngineEntry :: "CompetitionEntry \<Rightarrow> CompRepo \<Rightarrow> comp_err + CompRepo" where
  "CreateEngineEntry e r =
     (if map_of (cr_entries r) (en_CompetitionID e, en_UserID e) \<noteq> None then Inl ErrEntryExists
      else Inr (put_entry e r))"

definition FindEntryByIdempotencyKey :: "string \<Rightarrow> string \<Rightarrow> CompRepo \<Rightarrow> CompetitionEntry option" where
  "FindEntryByIdempotencyKey uid key r =
     (if key = [] then None
      else map_option snd (find (\<lambda>((c, u), e). u = uid \<and> en_IdempotencyKey e = key) (cr_entries r)))"

text \<open>
  The guarded update by entry id that four operations share: the first entry with the id is
  changed when it is in the expected state.
\<close>

definition update_by_id ::
  "string \<Rightarrow> (CompetitionEntry \<Rightarrow> bool) \<Rightarrow> (CompetitionEntry \<Rightarrow> CompetitionEntry) \<Rightarrow> CompRepo \<Rightarrow> comp_err + CompRepo" where
  "update_by_id eid expected f r =
     (case find (\<lambda>(k, e). en_ID e = eid) (cr_entries r) of
        None \<Rightarrow> Inl ErrEntryNotFound
      | Some (k, e) \<Rightarrow>
          if \<not> expected e then Inl ErrEntryConflict
          else Inr (r\<lparr>cr_entries := AList.update k (f e) (cr_entries r)\<rparr>))"

definition UpdateEntryStatus :: "string \<Rightarrow> string \<Rightarrow> string \<Rightarrow> time \<Rightarrow> CompRepo \<Rightarrow> comp_err + CompRepo" where
  "UpdateEntryStatus eid from to now =
     update_by_id eid (\<lambda>e. en_EntryStatus e = from)
       (\<lambda>e. let e = e\<lparr>en_EntryStatus := to\<rparr>
            in if to = EntryWithdrawn then e\<lparr>en_WithdrawnAt := Some now\<rparr> else e)"

definition ListEditionsByLifecycle :: "string \<Rightarrow> CompRepo \<Rightarrow> Competition list" where
  "ListEditionsByLifecycle lifecycle r =
     filter (\<lambda>c. \<not> IsLegacy c \<and> cp_LifecycleStatus c = lifecycle) (ListCompetitions r)"

definition ListBaselineDueEditions :: "time \<Rightarrow> CompRepo \<Rightarrow> Competition list" where
  "ListBaselineDueEditions now r =
     filter (\<lambda>c. \<not> IsLegacy c \<and> \<not> now < cp_StartsAt c
               \<and> (cp_LifecycleStatus c = LifecycleRegistrationClosed \<or> cp_LifecycleStatus c = LifecycleActive))
       (ListCompetitions r)"

definition ListPendingBaselineEntries :: "string \<Rightarrow> nat \<Rightarrow> CompRepo \<Rightarrow> CompetitionEntry list" where
  "ListPendingBaselineEntries cid limit r =
     take limit (filter (\<lambda>e. en_EntryStatus e = EntryAdmitted \<and> en_BaselineStatus e = BaselinePending)
                   (ListEntries cid r))"

definition HasPendingBaselineEntries :: "string \<Rightarrow> CompRepo \<Rightarrow> bool" where
  "HasPendingBaselineEntries cid r = list_ex (\<lambda>e. en_EntryStatus e = EntryAdmitted) (ListEntries cid r)"

record PositionBaseline =
  pb_SnapshotID :: string
  pb_Symbol :: string
  pb_Quantity :: Quantity
  pb_Price :: Price
  pb_PriceCurrency :: string
  pb_ValueBase :: Amount
  pb_Weight :: Ratio
  pb_ObservedAt :: time

text \<open>The map \<open>byID\<close> keeps the last baseline of a snapshot id.\<close>

definition apply_baseline :: "PositionBaseline list \<Rightarrow> EntrySnapshotPosition \<Rightarrow> EntrySnapshotPosition" where
  "apply_baseline baselines s =
     (case map_of (rev (map (\<lambda>b. (pb_SnapshotID b, b)) baselines)) (sp_ID s) of
        None \<Rightarrow> s
      | Some b \<Rightarrow> s\<lparr>sp_Symbol := pb_Symbol b, sp_Quantity := pb_Quantity b, sp_StartingPrice := pb_Price b,
                    sp_StartingPriceCurrency := pb_PriceCurrency b, sp_StartingValueBase := pb_ValueBase b,
                    sp_StartingWeight := pb_Weight b, sp_BaselinePriceObservedAt := Some (pb_ObservedAt b)\<rparr>)"

definition CompleteBaseline ::
  "string \<Rightarrow> Amount \<Rightarrow> PositionBaseline list \<Rightarrow> time \<Rightarrow> CompRepo \<Rightarrow> comp_err + CompRepo" where
  "CompleteBaseline eid eligibleStartingValue baselines now =
     update_by_id eid (\<lambda>e. en_EntryStatus e = EntryAdmitted \<and> en_BaselineStatus e = BaselinePending)
       (\<lambda>e. e\<lparr>en_EntryStatus := EntryActive, en_BaselineStatus := BaselineCompleted,
              en_BaselineCompletedAt := Some now, en_EligibleStartingValueBase := eligibleStartingValue,
              en_StartingValue := eligibleStartingValue,
              en_Snapshots := map (apply_baseline baselines) (en_Snapshots e)\<rparr>)"

definition FailBaseline :: "string \<Rightarrow> string \<Rightarrow> CompRepo \<Rightarrow> comp_err + CompRepo" where
  "FailBaseline eid reason =
     update_by_id eid (\<lambda>e. en_EntryStatus e = EntryAdmitted \<and> en_BaselineStatus e = BaselinePending)
       (\<lambda>e. e\<lparr>en_EntryStatus := EntryBaselineFailed, en_BaselineStatus := BaselineFailed,
              en_DisqualificationReason := reason\<rparr>)"

definition DisqualifyEntry :: "string \<Rightarrow> string \<Rightarrow> CompRepo \<Rightarrow> comp_err + CompRepo" where
  "DisqualifyEntry eid reason =
     update_by_id eid (\<lambda>e. en_EntryStatus e = EntryActive)
       (\<lambda>e. e\<lparr>en_EntryStatus := EntryDisqualified, en_DisqualificationReason := reason\<rparr>)"

text \<open>Both passes claim the active entries in id order, after the cursor.\<close>

definition ClaimActiveEntries :: "string \<Rightarrow> string \<Rightarrow> nat \<Rightarrow> CompRepo \<Rightarrow> CompetitionEntry list" where
  "ClaimActiveEntries cid afterEntryID limit r =
     take limit
       (filter (\<lambda>e. afterEntryID = [] \<or> str_less afterEntryID (en_ID e))
          (isort (\<lambda>a b. str_less (en_ID a) (en_ID b))
             (filter (\<lambda>e. en_EntryStatus e = EntryActive) (ListEntries cid r))))"

definition userDisplayName :: "CompRepo \<Rightarrow> string \<Rightarrow> string" where
  "userDisplayName r uid = (case cr_displayNames r uid of Some name \<Rightarrow> name | None \<Rightarrow> uid)"

definition SetDisplayNames :: "(string \<rightharpoonup> string) \<Rightarrow> CompRepo \<Rightarrow> CompRepo" where
  "SetDisplayNames names r = r\<lparr>cr_displayNames := names\<rparr>"

section \<open>Ranking generations\<close>

definition zero_rankingState :: memoryRankingState where
  "zero_rankingState = \<lparr>mr_generations = [], mr_rows = Map.empty, mr_nextGen = 0, mr_active = 0, mr_locked = False\<rparr>"

definition rankingState :: "CompRepo \<Rightarrow> string \<Rightarrow> memoryRankingState" where
  "rankingState r cid = (case cr_rankingStates r cid of Some st \<Rightarrow> st | None \<Rightarrow> zero_rankingState)"

definition put_rankingState :: "string \<Rightarrow> memoryRankingState \<Rightarrow> CompRepo \<Rightarrow> CompRepo" where
  "put_rankingState cid st r = r\<lparr>cr_rankingStates := (cr_rankingStates r)(cid \<mapsto> st)\<rparr>"

text \<open>\<open>TryLock\<close> returns whether the lock was taken; \<open>Unlock\<close> is the function it returns.\<close>

definition TryLockCompetitionRanking :: "string \<Rightarrow> CompRepo \<Rightarrow> bool \<times> CompRepo" where
  "TryLockCompetitionRanking cid r =
     (let st = rankingState r cid in
      if mr_locked st then (False, r) else (True, put_rankingState cid (st\<lparr>mr_locked := True\<rparr>) r))"

definition UnlockCompetitionRanking :: "string \<Rightarrow> CompRepo \<Rightarrow> CompRepo" where
  "UnlockCompetitionRanking cid r = put_rankingState cid ((rankingState r cid)\<lparr>mr_locked := False\<rparr>) r"

definition new_rankingGeneration :: "string \<Rightarrow> int \<Rightarrow> time \<Rightarrow> RankingGeneration" where
  "new_rankingGeneration cid n now =
     \<lparr>rg_CompetitionID = cid, rg_Generation = n, rg_Status = GenerationBuilding, rg_ProcessedEntries = 0,
      rg_SuccessfulEntries = 0, rg_FailedEntries = 0, rg_CursorEntryID = [], rg_WriteFailure = False,
      rg_StartedAt = now, rg_CompletedAt = None, rg_ActivatedAt = None, rg_FailureReason = []\<rparr>"

definition add_rankingGeneration :: "string \<Rightarrow> int \<Rightarrow> time \<Rightarrow> memoryRankingState \<Rightarrow> memoryRankingState" where
  "add_rankingGeneration cid n now st =
     st\<lparr>mr_nextGen := n,
        mr_generations := AList.update n (new_rankingGeneration cid n now) (mr_generations st),
        mr_rows := (mr_rows st)(n \<mapsto> [])\<rparr>"

text \<open>The last building generation the loop over the map meets.\<close>

definition building_generation :: "memoryRankingState \<Rightarrow> RankingGeneration option" where
  "building_generation st = find (\<lambda>g. rg_Status g = GenerationBuilding) (rev (map snd (mr_generations st)))"

definition EnsureBuildingGeneration :: "string \<Rightarrow> time \<Rightarrow> CompRepo \<Rightarrow> RankingGeneration \<times> CompRepo" where
  "EnsureBuildingGeneration cid now r =
     (let st = rankingState r cid;
          st = (if mr_nextGen st = 0 then add_rankingGeneration cid 1 now st else st)
      in case building_generation st of
           Some g \<Rightarrow> (g, put_rankingState cid st r)
         | None \<Rightarrow>
             let n = mr_nextGen st + 1
             in (new_rankingGeneration cid n now, put_rankingState cid (add_rankingGeneration cid n now st) r))"

definition UpsertRanking :: "string \<Rightarrow> int \<Rightarrow> CompetitionRankingRow \<Rightarrow> CompRepo \<Rightarrow> comp_err + CompRepo" where
  "UpsertRanking cid generation row r =
     (let st = rankingState r cid in
      case map_of (mr_generations st) generation of
        None \<Rightarrow> Inl ErrGenerationConflict
      | Some g \<Rightarrow>
          if rg_Status g \<noteq> GenerationBuilding then Inl ErrGenerationConflict
          else
            (case mr_rows st generation of
               None \<Rightarrow> Inl CompPanic
             | Some rows \<Rightarrow>
                 Inr (put_rankingState cid
                        (st\<lparr>mr_rows := (mr_rows st)(generation \<mapsto> AList.update (rr_EntryID row) row rows)\<rparr>) r)))"

definition AdvanceGeneration ::
  "string \<Rightarrow> int \<Rightarrow> string \<Rightarrow> int \<Rightarrow> int \<Rightarrow> int \<Rightarrow> bool \<Rightarrow> CompRepo \<Rightarrow> comp_err + CompRepo" where
  "AdvanceGeneration cid generation cursorEntryID processed successful failed writeFailed r =
     (let st = rankingState r cid in
      case map_of (mr_generations st) generation of
        None \<Rightarrow> Inl ErrGenerationConflict
      | Some g \<Rightarrow>
          let g = g\<lparr>rg_CursorEntryID := cursorEntryID,
                    rg_ProcessedEntries := rg_ProcessedEntries g + processed,
                    rg_SuccessfulEntries := rg_SuccessfulEntries g + successful,
                    rg_FailedEntries := rg_FailedEntries g + failed,
                    rg_WriteFailure := (writeFailed \<or> rg_WriteFailure g)\<rparr>
          in Inr (put_rankingState cid
                    (st\<lparr>mr_generations := AList.update generation g (mr_generations st)\<rparr>) r))"

definition FailGeneration :: "string \<Rightarrow> int \<Rightarrow> string \<Rightarrow> time \<Rightarrow> CompRepo \<Rightarrow> comp_err + CompRepo" where
  "FailGeneration cid generation reason now r =
     (let st = rankingState r cid in
      case map_of (mr_generations st) generation of
        None \<Rightarrow> Inl ErrGenerationConflict
      | Some g \<Rightarrow>
          if rg_Status g \<noteq> GenerationBuilding then Inl ErrGenerationConflict
          else
            let g = g\<lparr>rg_Status := GenerationFailed, rg_CompletedAt := Some now, rg_FailureReason := reason\<rparr>
            in Inr (put_rankingState cid
                      (st\<lparr>mr_generations := AList.update generation g (mr_generations st),
                          mr_rows := (mr_rows st)(generation := None)\<rparr>) r))"

text \<open>Return descending, then entry id ascending.\<close>

definition ranking_less :: "declib \<Rightarrow> CompetitionRankingRow \<Rightarrow> CompetitionRankingRow \<Rightarrow> bool" where
  "ranking_less L a b =
     (let c = Ratio_Cmp L (rr_ReturnPct a) (rr_ReturnPct b) in
      if c \<noteq> 0 then 0 < c else str_less (rr_EntryID a) (rr_EntryID b))"

definition number_rows :: "CompetitionRankingRow list \<Rightarrow> CompetitionRankingRow list" where
  "number_rows rows = map (\<lambda>(i, row). row\<lparr>rr_Rank := int i + 1\<rparr>) (enumerate 0 rows)"

definition materialize :: "declib \<Rightarrow> (string \<times> CompetitionRankingRow) list \<Rightarrow> (string \<times> CompetitionRankingRow) list" where
  "materialize L rows =
     foldl (\<lambda>m row. AList.update (rr_EntryID row) row m) rows
       (number_rows (isort (ranking_less L) (map snd rows)))"

definition PromoteGeneration :: "declib \<Rightarrow> string \<Rightarrow> int \<Rightarrow> time \<Rightarrow> CompRepo \<Rightarrow> comp_err + CompRepo" where
  "PromoteGeneration L cid generation now r =
     (let st = rankingState r cid in
      case map_of (mr_generations st) generation of
        None \<Rightarrow> Inl ErrGenerationConflict
      | Some g \<Rightarrow>
          if rg_Status g \<noteq> GenerationBuilding \<or> rg_WriteFailure g \<or> rg_FailedEntries g \<noteq> 0
             \<or> rg_ProcessedEntries g \<noteq> rg_SuccessfulEntries g
          then Inl ErrGenerationConflict
          else
            let rows = (case mr_rows st generation of Some m \<Rightarrow> m | None \<Rightarrow> []);
                gens = AList.update generation
                         (g\<lparr>rg_Status := GenerationActive, rg_CompletedAt := Some now, rg_ActivatedAt := Some now\<rparr>)
                         (mr_generations st);
                newRows = (mr_rows st)(generation := map_option (materialize L) (mr_rows st generation));
                prev = mr_active st;
                gens = (if prev = 0 then gens
                        else case map_of gens prev of
                               None \<Rightarrow> gens
                             | Some p \<Rightarrow> AList.update prev (p\<lparr>rg_Status := GenerationSuperseded\<rparr>) gens);
                newRows = (if prev = 0 then newRows else newRows(prev := None))
            in Inr (put_rankingState cid
                      (st\<lparr>mr_generations := gens, mr_rows := newRows, mr_active := generation\<rparr>) r))"

definition ActiveGeneration :: "string \<Rightarrow> CompRepo \<Rightarrow> comp_err + (int \<times> time) option" where
  "ActiveGeneration cid r =
     (let st = rankingState r cid in
      if mr_active st = 0 then Inr None
      else case map_of (mr_generations st) (mr_active st) of
             None \<Rightarrow> Inl CompPanic
           | Some g \<Rightarrow> (case rg_ActivatedAt g of
                          None \<Rightarrow> Inl CompPanic
                        | Some t \<Rightarrow> Inr (Some (rg_Generation g, t))))"

definition active_rows :: "memoryRankingState \<Rightarrow> CompetitionRankingRow list" where
  "active_rows st = (case mr_rows st (mr_active st) of None \<Rightarrow> [] | Some m \<Rightarrow> map snd m)"

record CompetitionLeaderboardEntry =
  le_Rank :: int
  le_DisplayName :: string
  le_ReturnPercentage :: Ratio
  le_CompetitionIndex :: IndexValue

definition LeaderboardPage :: "string \<Rightarrow> int \<Rightarrow> nat \<Rightarrow> CompRepo \<Rightarrow> CompetitionLeaderboardEntry list" where
  "LeaderboardPage cid afterRank limit r =
     (let st = rankingState r cid in
      if mr_active st = 0 then []
      else map (\<lambda>row. \<lparr>le_Rank = rr_Rank row, le_DisplayName = userDisplayName r (rr_UserID row),
                      le_ReturnPercentage = rr_ReturnPct row, le_CompetitionIndex = rr_Index row\<rparr>)
             (take limit (filter (\<lambda>row. \<not> rr_Rank row \<le> afterRank)
                            (isort (\<lambda>a b. rr_Rank a < rr_Rank b) (active_rows st)))))"

definition UserRankRow :: "string \<Rightarrow> string \<Rightarrow> CompRepo \<Rightarrow> CompetitionRankingRow option" where
  "UserRankRow cid uid r =
     (let st = rankingState r cid in
      if mr_active st = 0 then None else find (\<lambda>row. rr_UserID row = uid) (active_rows st))"

section \<open>Finalization generations\<close>

definition zero_finalizationState :: memoryFinalizationState where
  "zero_finalizationState = \<lparr>mf_generations = [], mf_rows = Map.empty, mf_nextGen = 0, mf_locked = False\<rparr>"

definition finalizationState :: "CompRepo \<Rightarrow> string \<Rightarrow> memoryFinalizationState" where
  "finalizationState r cid =
     (case cr_finalizationStates r cid of Some st \<Rightarrow> st | None \<Rightarrow> zero_finalizationState)"

definition put_finalizationState :: "string \<Rightarrow> memoryFinalizationState \<Rightarrow> CompRepo \<Rightarrow> CompRepo" where
  "put_finalizationState cid st r = r\<lparr>cr_finalizationStates := (cr_finalizationStates r)(cid \<mapsto> st)\<rparr>"

definition TryLockCompetitionFinalization :: "string \<Rightarrow> CompRepo \<Rightarrow> bool \<times> CompRepo" where
  "TryLockCompetitionFinalization cid r =
     (let st = finalizationState r cid in
      if mf_locked st then (False, r) else (True, put_finalizationState cid (st\<lparr>mf_locked := True\<rparr>) r))"

definition UnlockCompetitionFinalization :: "string \<Rightarrow> CompRepo \<Rightarrow> CompRepo" where
  "UnlockCompetitionFinalization cid r =
     put_finalizationState cid ((finalizationState r cid)\<lparr>mf_locked := False\<rparr>) r"

definition new_finalizationGeneration :: "string \<Rightarrow> int \<Rightarrow> time \<Rightarrow> FinalizationGeneration" where
  "new_finalizationGeneration cid n now =
     \<lparr>fg_CompetitionID = cid, fg_Generation = n, fg_Status = GenerationBuilding, fg_ProcessedEntries = 0,
      fg_SuccessfulEntries = 0, fg_FailedEntries = 0, fg_CursorEntryID = [], fg_WriteFailure = False,
      fg_StartedAt = now, fg_CompletedAt = None, fg_FailureReason = []\<rparr>"

definition EnsureBuildingFinalizationGeneration ::
  "string \<Rightarrow> time \<Rightarrow> CompRepo \<Rightarrow> FinalizationGeneration \<times> CompRepo" where
  "EnsureBuildingFinalizationGeneration cid now r =
     (let st = finalizationState r cid in
      case find (\<lambda>g. fg_Status g = GenerationBuilding) (rev (map snd (mf_generations st))) of
        Some g \<Rightarrow> (g, put_finalizationState cid st r)
      | None \<Rightarrow>
          let n = mf_nextGen st + 1; g = new_finalizationGeneration cid n now
          in (g, put_finalizationState cid
                   (st\<lparr>mf_nextGen := n, mf_generations := AList.update n g (mf_generations st),
                       mf_rows := (mf_rows st)(n \<mapsto> [])\<rparr>) r))"

definition ClaimEntriesForFinalization :: "string \<Rightarrow> string \<Rightarrow> nat \<Rightarrow> CompRepo \<Rightarrow> CompetitionEntry list" where
  "ClaimEntriesForFinalization cid afterEntryID limit r =
     take limit
       (filter (\<lambda>e. afterEntryID = [] \<or> str_less afterEntryID (en_ID e))
          (isort (\<lambda>a b. str_less (en_ID a) (en_ID b))
             (filter (\<lambda>e. en_EntryStatus e = EntryActive) (ListEntries cid r))))"

definition UpsertFinalizationRow ::
  "string \<Rightarrow> int \<Rightarrow> CompetitionFinalizationRow \<Rightarrow> CompRepo \<Rightarrow> comp_err + CompRepo" where
  "UpsertFinalizationRow cid generation row r =
     (let st = finalizationState r cid in
      case map_of (mf_generations st) generation of
        None \<Rightarrow> Inl ErrGenerationConflict
      | Some g \<Rightarrow>
          if fg_Status g \<noteq> GenerationBuilding then Inl ErrGenerationConflict
          else
            (case mf_rows st generation of
               None \<Rightarrow> Inl CompPanic
             | Some rows \<Rightarrow>
                 Inr (put_finalizationState cid
                        (st\<lparr>mf_rows := (mf_rows st)(generation \<mapsto> AList.update (fr_EntryID row) row rows)\<rparr>) r)))"

definition AdvanceFinalizationGeneration ::
  "string \<Rightarrow> int \<Rightarrow> string \<Rightarrow> int \<Rightarrow> int \<Rightarrow> int \<Rightarrow> bool \<Rightarrow> CompRepo \<Rightarrow> comp_err + CompRepo" where
  "AdvanceFinalizationGeneration cid generation cursorEntryID processed successful failed writeFailed r =
     (let st = finalizationState r cid in
      case map_of (mf_generations st) generation of
        None \<Rightarrow> Inl ErrGenerationConflict
      | Some g \<Rightarrow>
          let g = g\<lparr>fg_CursorEntryID := cursorEntryID,
                    fg_ProcessedEntries := fg_ProcessedEntries g + processed,
                    fg_SuccessfulEntries := fg_SuccessfulEntries g + successful,
                    fg_FailedEntries := fg_FailedEntries g + failed,
                    fg_WriteFailure := (writeFailed \<or> fg_WriteFailure g)\<rparr>
          in Inr (put_finalizationState cid
                    (st\<lparr>mf_generations := AList.update generation g (mf_generations st)\<rparr>) r))"

definition FailFinalizationGeneration :: "string \<Rightarrow> int \<Rightarrow> string \<Rightarrow> time \<Rightarrow> CompRepo \<Rightarrow> comp_err + CompRepo" where
  "FailFinalizationGeneration cid generation reason now r =
     (let st = finalizationState r cid in
      case map_of (mf_generations st) generation of
        None \<Rightarrow> Inl ErrGenerationConflict
      | Some g \<Rightarrow>
          if fg_Status g \<noteq> GenerationBuilding then Inl ErrGenerationConflict
          else
            let g = g\<lparr>fg_Status := GenerationFailed, fg_CompletedAt := Some now, fg_FailureReason := reason\<rparr>
            in Inr (put_finalizationState cid
                      (st\<lparr>mf_generations := AList.update generation g (mf_generations st),
                          mf_rows := (mf_rows st)(generation := None)\<rparr>) r))"

text \<open>Return descending, then display name, then user id ascending.\<close>

definition final_less ::
  "declib \<Rightarrow> (string \<Rightarrow> string) \<Rightarrow> CompetitionFinalizationRow \<Rightarrow> CompetitionFinalizationRow \<Rightarrow> bool" where
  "final_less L name a b =
     (let c = Ratio_Cmp L (fr_ReturnPct a) (fr_ReturnPct b) in
      if c \<noteq> 0 then 0 < c
      else if name (fr_UserID a) \<noteq> name (fr_UserID b) then str_less (name (fr_UserID a)) (name (fr_UserID b))
      else str_less (fr_UserID a) (fr_UserID b))"

definition result_rows :: "time \<Rightarrow> CompetitionFinalizationRow list \<Rightarrow> CompetitionResultRow list" where
  "result_rows now rows =
     map (\<lambda>(i, row). \<lparr>re_EntryID = fr_EntryID row, re_UserID = fr_UserID row, re_Rank = int i + 1,
                     re_Index = fr_Index row, re_ReturnPct = fr_ReturnPct row, re_EvidenceFinalizedAt = now\<rparr>)
       (enumerate 0 rows)"

definition finalize_entries ::
  "string \<Rightarrow> CompetitionResultRow list \<Rightarrow> ((string \<times> string) \<times> CompetitionEntry) list
    \<Rightarrow> ((string \<times> string) \<times> CompetitionEntry) list" where
  "finalize_entries cid results entries =
     map (\<lambda>((c, u), e).
            ((c, u), if c = cid \<and> en_EntryStatus e = EntryActive \<and> en_ID e \<in> set (map re_EntryID results)
                     then e\<lparr>en_EntryStatus := EntryFinalized\<rparr> else e)) entries"

definition PromoteFinalizationGeneration ::
  "declib \<Rightarrow> string \<Rightarrow> int \<Rightarrow> time \<Rightarrow> CompRepo \<Rightarrow> comp_err + CompRepo" where
  "PromoteFinalizationGeneration L cid generation now r =
     (case cr_competitions r cid of
        None \<Rightarrow> Inl ErrCompetitionNotFound
      | Some edition \<Rightarrow>
          if cp_LifecycleStatus edition = LifecycleCompleted then Inr r
          else if cp_LifecycleStatus edition \<noteq> LifecycleFinalizing then Inl ErrLifecycleConflict
          else
            let st = finalizationState r cid in
            case map_of (mf_generations st) generation of
              None \<Rightarrow> Inl ErrGenerationConflict
            | Some g \<Rightarrow>
                if fg_Status g \<noteq> GenerationBuilding \<or> fg_WriteFailure g \<or> fg_FailedEntries g \<noteq> 0
                then Inl ErrGenerationConflict
                else
                  let drafts = (case mf_rows st generation of Some m \<Rightarrow> map snd m | None \<Rightarrow> []);
                      results = result_rows now (isort (final_less L (userDisplayName r)) drafts);
                      edition' = edition\<lparr>cp_LifecycleStatus := LifecycleCompleted, cp_FinalizedAt := Some now\<rparr>;
                      g' = g\<lparr>fg_Status := GenerationCompleted, fg_CompletedAt := Some now\<rparr>;
                      st' = st\<lparr>mf_generations := AList.update generation g' (mf_generations st),
                               mf_rows := (mf_rows st)(generation := None)\<rparr>
                  in Inr (put_finalizationState cid st'
                            (r\<lparr>cr_resultStore := (cr_resultStore r)(cid \<mapsto> results),
                               cr_competitions := (cr_competitions r)(cid \<mapsto> edition'),
                               cr_entries := finalize_entries cid results (cr_entries r)\<rparr>)))"

record CompetitionResultEntry =
  ce_Rank :: int
  ce_DisplayName :: string
  ce_ReturnPercentage :: Ratio
  ce_CompetitionIndex :: IndexValue

definition ListResults :: "string \<Rightarrow> CompRepo \<Rightarrow> CompetitionResultEntry list" where
  "ListResults cid r =
     isort (\<lambda>a b. ce_Rank a < ce_Rank b)
       (map (\<lambda>row. \<lparr>ce_Rank = re_Rank row, ce_DisplayName = userDisplayName r (re_UserID row),
                   ce_ReturnPercentage = re_ReturnPct row, ce_CompetitionIndex = re_Index row\<rparr>)
          (case cr_resultStore r cid of None \<Rightarrow> [] | Some rows \<Rightarrow> rows))"

section \<open>Observation sets\<close>

definition observationKey :: "string \<Rightarrow> string \<Rightarrow> string" where
  "observationKey instrumentID symbol =
     (if instrumentID \<noteq> [] then ''id:'' @ instrumentID else ''sym:'' @ symbol)"

definition fxPairKey :: "string \<Rightarrow> string \<Rightarrow> string" where
  "fxPairKey from to = from @ ''->'' @ to"

definition observationSetKey :: "string \<Rightarrow> string \<Rightarrow> string" where
  "observationSetKey cid boundary = cid @ ''|'' @ boundary"

definition EnsureObservationSet ::
  "string \<Rightarrow> string \<Rightarrow> time \<Rightarrow> string \<Rightarrow> CompRepo \<Rightarrow> ObservationSet \<times> CompRepo" where
  "EnsureObservationSet cid boundary effectiveAt provider r =
     (let key = observationSetKey cid boundary in
      case cr_observations r key of
        Some existing \<Rightarrow> (ms_set existing, r)
      | None \<Rightarrow>
          let s = \<lparr>os_ID = key, os_CompetitionID = cid, os_Boundary = boundary, os_EffectiveAt = effectiveAt,
                   os_Provider = provider, os_Status = ObservationPending, os_CompletedAt = None\<rparr>
          in (s, r\<lparr>cr_observations := (cr_observations r)(key \<mapsto> \<lparr>ms_set = s, ms_prices = Map.empty, ms_fx = Map.empty\<rparr>)\<rparr>))"

definition LoadObservations ::
  "string \<Rightarrow> CompRepo \<Rightarrow> (string \<rightharpoonup> PriceObservation) \<times> (string \<rightharpoonup> FxObservation)" where
  "LoadObservations setID r =
     (case cr_observations r setID of
        None \<Rightarrow> (Map.empty, Map.empty) | Some m \<Rightarrow> (ms_prices m, ms_fx m))"

text \<open>A row that is stored is never overwritten.\<close>

definition add_new :: "('a \<Rightarrow> string) \<Rightarrow> 'a list \<Rightarrow> (string \<rightharpoonup> 'a) \<Rightarrow> (string \<rightharpoonup> 'a)" where
  "add_new key xs m = foldl (\<lambda>m x. if m (key x) = None then m(key x \<mapsto> x) else m) m xs"

definition price_key :: "PriceObservation \<Rightarrow> string" where
  "price_key p = observationKey (po_InstrumentID p) (po_Symbol p)"

definition fx_key :: "FxObservation \<Rightarrow> string" where
  "fx_key f = fxPairKey (fo_FromCurrency f) (fo_ToCurrency f)"

definition RecordObservations ::
  "string \<Rightarrow> PriceObservation list \<Rightarrow> FxObservation list \<Rightarrow> bool \<Rightarrow> time \<Rightarrow> CompRepo \<Rightarrow> comp_err + CompRepo" where
  "RecordObservations setID newPrices newFX sealed now r =
     (case cr_observations r setID of
        None \<Rightarrow> Inl ErrCompetitionNotFound
      | Some entry \<Rightarrow>
          if os_Status (ms_set entry) = ObservationSealed then Inr r
          else
            let s = ms_set entry;
                s = (if sealed then s\<lparr>os_Status := ObservationSealed, os_CompletedAt := Some now\<rparr> else s)
            in Inr (r\<lparr>cr_observations := (cr_observations r)(setID \<mapsto>
                        \<lparr>ms_set = s, ms_prices = add_new price_key newPrices (ms_prices entry),
                         ms_fx = add_new fx_key newFX (ms_fx entry)\<rparr>)\<rparr>))"

end
