(* ===== verification/CompValue.thy ===== *)
theory CompValue
  imports CompStore
begin

text \<open>
  How a frozen composition is priced: the two price sources of the engine (\<^verbatim>\<open>observationMemo\<close> in
  \<^verbatim>\<open>baseline.go\<close>, which asks the live provider once per symbol and pass, and \<^verbatim>\<open>boundaryObservations\<close> in
  \<^verbatim>\<open>observations.go\<close>, which only reads a stored boundary), the valuation of an entry (\<^verbatim>\<open>ranking.go\<close>), and
  the capture of the start and end observation sets (\<^verbatim>\<open>observations.go\<close>).
\<close>

section \<open>The service\<close>

text \<open>
  The price, currency, identity and portfolio services the competitions call, and the settings. A listed
  position is its symbol, asset type, quantity and currency; a user is a display name and an avatar.
\<close>

record HistoricalPrice =
  hp_Price :: float64
  hp_Currency :: string
  hp_ProviderTimestamp :: time
  hp_TradingSessionDate :: string
  hp_Methodology :: string

record engine =
  ee_latest :: "string \<Rightarrow> comp_err + (float64 \<times> string)"
  ee_history :: "(string \<Rightarrow> time \<Rightarrow> comp_err + HistoricalPrice) option"
  ee_convert :: "float64 \<Rightarrow> string \<Rightarrow> string \<Rightarrow> comp_err + float64"
  ee_adjust :: "(string \<Rightarrow> string \<Rightarrow> Quantity \<Rightarrow> time \<Rightarrow> time \<Rightarrow> comp_err + (string \<times> Quantity)) option"
  ee_snapshots :: "(string \<Rightarrow> bool \<Rightarrow> comp_err + CompetitionPortfolioSnapshot) option"
  ee_universes :: "(string list \<Rightarrow> comp_err + universes) option"
  ee_codec :: codec
  ee_sha256 :: "string \<Rightarrow> string"
  ee_errorText :: "comp_err \<Rightarrow> string"
  ee_listPositions :: "string \<Rightarrow> comp_err + (string \<times> string \<times> Quantity \<times> string) list"
  ee_user :: "string \<Rightarrow> (string \<times> string) option"
  ee_baselineWindow :: int
  ee_rankingBatchSize :: int
  ee_finalizationWindow :: int
  ee_finalizationBatchSize :: int

abbreviation fx_BaseCurrency :: string where "fx_BaseCurrency \<equiv> ''USD''"
abbreviation MethodologyFallbackLatest :: string where "MethodologyFallbackLatest \<equiv> ''fallback_latest''"

text \<open>The provider's \<^verbatim>\<open>float64\<close> becomes exact; NaN and infinities panic.\<close>

definition exact_price :: "declib \<Rightarrow> float64 \<Rightarrow> comp_err + Price" where
  "exact_price L f = from_option CompPanic (PriceFromFloat64 L f)"

definition exact_ratio :: "declib \<Rightarrow> float64 \<Rightarrow> comp_err + Ratio" where
  "exact_ratio L f = from_option CompPanic (RatioFromFloat64 L f)"

section \<open>Price sources\<close>

record 's priceSource =
  ps_priceOf :: "string \<Rightarrow> string \<Rightarrow> ('s, Price \<times> string) run"
  ps_toBase :: "Amount \<Rightarrow> string \<Rightarrow> ('s, Amount) run"

record observationMemo =
  om_prices :: "string \<rightharpoonup> Price \<times> string"
  om_fxRates :: "string \<rightharpoonup> Ratio"

definition newObservationMemo :: observationMemo where
  "newObservationMemo = \<lparr>om_prices = Map.empty, om_fxRates = Map.empty\<rparr>"

definition memo_priceOf :: "declib \<Rightarrow> engine \<Rightarrow> string \<Rightarrow> string \<Rightarrow> (observationMemo, Price \<times> string) run" where
  "memo_priceOf L E instrumentID symbol m =
     (let key = observationKey instrumentID symbol in
      case om_prices m key of
        Some hit \<Rightarrow> (Inr hit, m)
      | None \<Rightarrow>
          (case rbind (ee_latest E symbol) (\<lambda>(price, currency).
                  rbind (exact_price L price) (\<lambda>exact. Inr (exact, currency))) of
             Inl e \<Rightarrow> (Inl e, m)
           | Inr hit \<Rightarrow> (Inr hit, m\<lparr>om_prices := (om_prices m)(key \<mapsto> hit)\<rparr>)))"

definition memo_toBase :: "declib \<Rightarrow> engine \<Rightarrow> Amount \<Rightarrow> string \<Rightarrow> (observationMemo, Amount) run" where
  "memo_toBase L E amount currency m =
     (if currency = fx_BaseCurrency then (Inr amount, m)
      else
        let key = fxPairKey currency fx_BaseCurrency in
        case om_fxRates m key of
          Some rate \<Rightarrow> (Inr (Amount_MulRatio L amount rate), m)
        | None \<Rightarrow>
            (case rbind (ee_convert E (Fin 1) currency fx_BaseCurrency) (exact_ratio L) of
               Inl e \<Rightarrow> (Inl e, m)
             | Inr rate \<Rightarrow> (Inr (Amount_MulRatio L amount rate), m\<lparr>om_fxRates := (om_fxRates m)(key \<mapsto> rate)\<rparr>)))"

definition memo_source :: "declib \<Rightarrow> engine \<Rightarrow> observationMemo priceSource" where
  "memo_source L E = \<lparr>ps_priceOf = memo_priceOf L E, ps_toBase = memo_toBase L E\<rparr>"

record boundaryObservations =
  bo_prices :: "string \<rightharpoonup> PriceObservation"
  bo_fx :: "string \<rightharpoonup> FxObservation"

definition boundary_priceOf :: "string \<Rightarrow> string \<Rightarrow> (boundaryObservations, Price \<times> string) run" where
  "boundary_priceOf instrumentID symbol =
     reading (\<lambda>b. case bo_prices b (observationKey instrumentID symbol) of
                    None \<Rightarrow> Inl ErrObservationNotCaptured
                  | Some obs \<Rightarrow> Inr (po_Price obs, po_Currency obs))"

definition boundary_toBase :: "declib \<Rightarrow> Amount \<Rightarrow> string \<Rightarrow> (boundaryObservations, Amount) run" where
  "boundary_toBase L amount currency =
     reading (\<lambda>b. if currency = fx_BaseCurrency then Inr amount
                  else case bo_fx b (fxPairKey currency fx_BaseCurrency) of
                         None \<Rightarrow> Inl ErrObservationNotCaptured
                       | Some obs \<Rightarrow> Inr (Amount_MulRatio L amount (fo_Rate obs)))"

definition boundary_source :: "declib \<Rightarrow> boundaryObservations priceSource" where
  "boundary_source L = \<lparr>ps_priceOf = boundary_priceOf, ps_toBase = boundary_toBase L\<rparr>"

section \<open>Corporate actions\<close>

text \<open>
  \<open>adjustedEntryBasket\<close> normalises the scored positions for splits and symbol changes. The rows it
  returns are copies: the provider is only wired with the PostgreSQL repository, whose reads are fresh.
\<close>

fun adjust_positions ::
  "(string \<Rightarrow> string \<Rightarrow> Quantity \<Rightarrow> time \<Rightarrow> time \<Rightarrow> comp_err + (string \<times> Quantity)) \<Rightarrow> time \<Rightarrow> time
    \<Rightarrow> EntrySnapshotPosition list \<Rightarrow> comp_err + EntrySnapshotPosition list" where
  "adjust_positions adj from through [] = Inr []"
| "adjust_positions adj from through (s # ss) =
     (if \<not> sp_IncludedInScore s
      then rbind (adjust_positions adj from through ss) (\<lambda>ss'. Inr (s # ss'))
      else
        case adj (sp_InstrumentID s) (sp_Symbol s) (sp_Quantity s) from through of
          Inl e \<Rightarrow> Inl (if e = CompPanic then CompPanic else ErrBasketAdjustment)
        | Inr (symbol, quantity) \<Rightarrow>
            rbind (adjust_positions adj from through ss) (\<lambda>ss'.
              Inr (s\<lparr>sp_OriginalQuantity := sp_Quantity s, sp_Symbol := symbol, sp_Quantity := quantity\<rparr> # ss')))"

definition adjustedEntryBasket ::
  "engine \<Rightarrow> Competition \<Rightarrow> CompetitionEntry \<Rightarrow> time \<Rightarrow> comp_err + CompetitionEntry" where
  "adjustedEntryBasket E edition entry through =
     (case ee_adjust E of
        None \<Rightarrow> Inr entry
      | Some adj \<Rightarrow>
          rbind (adjust_positions adj (cp_StartsAt edition) through (en_Snapshots entry)) (\<lambda>ss.
            Inr (entry\<lparr>en_Snapshots := ss\<rparr>)))"

text \<open>
  The provider over the applied corporate actions (\<^verbatim>\<open>basket_adjustments.go\<close>): the rows of the query,
  decoded and in order of effect, are folded over the symbol and quantity.
\<close>

datatype action_type = TypeSplit | TypeReverseSplit | TypeSymbolChange | TypeOtherAction

record CorporateAction =
  ca_Type :: action_type
  ca_SourceSymbol :: string
  ca_SourceInstrumentID :: string
  ca_RatioNumerator :: "float64 option"
  ca_RatioDenominator :: "float64 option"
  ca_TargetSymbol :: "string option"

fun AdjustPosition_loop ::
  "declib \<Rightarrow> string \<Rightarrow> string \<Rightarrow> Quantity \<Rightarrow> CorporateAction list \<Rightarrow> comp_err + (string \<times> Quantity)" where
  "AdjustPosition_loop L instrumentID symbol quantity [] = Inr (symbol, quantity)"
| "AdjustPosition_loop L instrumentID symbol quantity (a # as) =
     (let matches = (if instrumentID \<noteq> [] then ca_SourceInstrumentID a = instrumentID
                     else ca_SourceSymbol a = symbol) in
      if \<not> matches then AdjustPosition_loop L instrumentID symbol quantity as
      else if ca_Type a = TypeSplit \<or> ca_Type a = TypeReverseSplit then
        (case (ca_RatioNumerator a, ca_RatioDenominator a) of
           (Some num, Some den) \<Rightarrow>
             if den = Fin 0 then Inl ErrBasketAdjustment
             else rbind (exact_ratio L (fdiv num den)) (\<lambda>ratio.
                    AdjustPosition_loop L instrumentID symbol (Quantity_MulRatio L quantity ratio) as)
         | _ \<Rightarrow> Inl ErrBasketAdjustment)
      else if ca_Type a = TypeSymbolChange then
        (case ca_TargetSymbol a of
           None \<Rightarrow> Inl ErrBasketAdjustment
         | Some target \<Rightarrow>
             if target = [] then Inl ErrBasketAdjustment
             else AdjustPosition_loop L instrumentID target quantity as)
      else AdjustPosition_loop L instrumentID symbol quantity as)"

section \<open>Valuation\<close>

definition includeFX :: "Scoring \<Rightarrow> bool" where
  "includeFX scoring = (sc_IncludeFX scoring = None \<or> sc_IncludeFX scoring = Some True)"

definition position_base ::
  "declib \<Rightarrow> 's priceSource \<Rightarrow> Scoring \<Rightarrow> EntrySnapshotPosition \<Rightarrow> ('s, Amount) run" where
  "position_base L src scoring s =
     andThen (ps_priceOf src (sp_InstrumentID s) (sp_Symbol s)) (\<lambda>(price, currency).
       let local = MulPrice L (sp_Quantity s) price in
       if includeFX scoring then ps_toBase src local currency
       else
         let startingQuantity = (if Quantity_Cmp L (sp_OriginalQuantity s) (ZeroQuantity L) = 0
                                 then sp_Quantity s else sp_OriginalQuantity s);
             startingLocal = MulPrice L startingQuantity (sp_StartingPrice s)
         in (case Amount_DivExact L local startingLocal ScaleWeight of
               Inl _ \<Rightarrow> fail ErrDivision
             | Inr factor \<Rightarrow> ret (Amount_MulRatio L (sp_StartingValueBase s) factor)))"

definition cash_base :: "declib \<Rightarrow> 's priceSource \<Rightarrow> Scoring \<Rightarrow> EntrySnapshotCash \<Rightarrow> ('s, Amount) run" where
  "cash_base L src scoring c =
     (if includeFX scoring then ps_toBase src (cs_Amount c) (cs_Currency c) else ret (cs_ValueBase c))"

text \<open>The loops over the components: what is not included is skipped, an error ends the sum.\<close>

fun sum_included ::
  "declib \<Rightarrow> ('a \<Rightarrow> bool) \<Rightarrow> ('a \<Rightarrow> ('s, Amount) run) \<Rightarrow> Amount \<Rightarrow> 'a list \<Rightarrow> ('s, Amount) run" where
  "sum_included L included base acc [] = ret acc"
| "sum_included L included base acc (x # xs) =
     (if \<not> included x then sum_included L included base acc xs
      else andThen (base x) (\<lambda>b. sum_included L included base (Amount_Add L acc b) xs))"

definition valueCompetitionEntry ::
  "declib \<Rightarrow> CompetitionEntry \<Rightarrow> 's priceSource \<Rightarrow> Scoring \<Rightarrow> ('s, IndexValue \<times> Ratio) run" where
  "valueCompetitionEntry L entry src scoring =
     (if Decimal_Sign L (en_EligibleStartingValueBase entry) \<le> 0 then fail ErrNoStartingValue
      else
        andThen (sum_included L sp_IncludedInScore (position_base L src scoring) (ZeroAmount L) (en_Snapshots entry)) (\<lambda>positions.
        andThen (sum_included L cs_IncludedInScore (cash_base L src scoring) positions (en_CashSnapshots entry)) (\<lambda>acc.
          (case Amount_DivExact L acc (en_EligibleStartingValueBase entry) (ScaleIndex + ScaleWeight) of
             Inl _ \<Rightarrow> fail ErrDivision
           | Inr factor \<Rightarrow>
               ret (QuantizeIndex L (Index_MulRatio L (MustIndexValue L ''100'') factor),
                    Ratio_Mul L (Ratio_Sub L factor (MustRatio L ''1'')) (MustRatio L ''100''))))))"

section \<open>Capturing the boundary observations\<close>

text \<open>
  The symbols and currency pairs a batch needs. The Go maps are kept as lists: for a key met twice the
  last reference wins, as the assignment to the map does.
\<close>

definition zero_PriceObservation :: PriceObservation where
  "zero_PriceObservation =
     \<lparr>po_InstrumentID = [], po_VenueMIC = [], po_Symbol = [], po_Price = 0, po_Currency = [],
      po_ObservedAt = 0, po_ProviderTimestamp = 0, po_TradingSessionDate = [], po_Methodology = []\<rparr>"

definition entry_symbols :: "CompetitionEntry list \<Rightarrow> (string \<times> PriceObservation) list" where
  "entry_symbols entries =
     foldl (\<lambda>m s. AList.update (observationKey (sp_InstrumentID s) (sp_Symbol s))
                    (zero_PriceObservation\<lparr>po_InstrumentID := sp_InstrumentID s, po_VenueMIC := sp_VenueMIC s,
                                           po_Symbol := sp_Symbol s\<rparr>) m)
       [] (filter sp_IncludedInScore (concat (map en_Snapshots entries)))"

definition add_pair :: "string \<Rightarrow> string list \<Rightarrow> string list" where
  "add_pair currency pairs =
     (if currency = fx_BaseCurrency then pairs else List.insert (fxPairKey currency fx_BaseCurrency) pairs)"

definition entry_pairs :: "CompetitionEntry list \<Rightarrow> string list" where
  "entry_pairs entries =
     foldl (\<lambda>ps c. add_pair (cs_Currency c) ps) []
       (filter cs_IncludedInScore (concat (map en_CashSnapshots entries)))"

definition entrySymbolsAndPairs :: "CompetitionEntry list \<Rightarrow> (string \<times> PriceObservation) list \<times> string list" where
  "entrySymbolsAndPairs entries = (entry_symbols entries, entry_pairs entries)"

text \<open>\<open>Inr None\<close> is \<^verbatim>\<open>ok = false\<close>; the error is the panic of a price that is not finite.\<close>

definition captureSinglePrice ::
  "declib \<Rightarrow> engine \<Rightarrow> PriceObservation \<Rightarrow> time \<Rightarrow> time \<Rightarrow> comp_err + PriceObservation option" where
  "captureSinglePrice L E ref effectiveAt now =
     (let base = zero_PriceObservation\<lparr>po_InstrumentID := po_InstrumentID ref, po_VenueMIC := po_VenueMIC ref,
                   po_Symbol := po_Symbol ref, po_ObservedAt := now\<rparr>;
          latest = (case ee_latest E (po_Symbol ref) of
                      Inl _ \<Rightarrow> Inr None
                    | Inr (price, currency) \<Rightarrow>
                        rbind (exact_price L price) (\<lambda>exact.
                          Inr (Some (base\<lparr>po_Price := exact, po_Currency := currency, po_ProviderTimestamp := now,
                                          po_Methodology := MethodologyFallbackLatest\<rparr>))))
      in case ee_history E of
           None \<Rightarrow> latest
         | Some history \<Rightarrow>
             (case history (po_Symbol ref) effectiveAt of
                Inl _ \<Rightarrow> latest
              | Inr hist \<Rightarrow>
                  rbind (exact_price L (hp_Price hist)) (\<lambda>exact.
                    Inr (Some (base\<lparr>po_Price := exact, po_Currency := hp_Currency hist,
                                    po_ProviderTimestamp := hp_ProviderTimestamp hist,
                                    po_TradingSessionDate := hp_TradingSessionDate hist,
                                    po_Methodology := hp_Methodology hist\<rparr>)))))"

text \<open>The loop over the symbols: what is captured, in order, with the view and the pairs extended.\<close>

fun capture_prices ::
  "declib \<Rightarrow> engine \<Rightarrow> time \<Rightarrow> time \<Rightarrow> (string \<times> PriceObservation) list \<Rightarrow> (string \<rightharpoonup> PriceObservation)
    \<Rightarrow> string list \<Rightarrow> comp_err + ((string \<rightharpoonup> PriceObservation) \<times> PriceObservation list \<times> string list)" where
  "capture_prices L E effectiveAt now [] existing pairs = Inr (existing, [], pairs)"
| "capture_prices L E effectiveAt now ((key, ref) # rest) existing pairs =
     (if existing key \<noteq> None then capture_prices L E effectiveAt now rest existing pairs
      else
        rbind (captureSinglePrice L E ref effectiveAt now) (\<lambda>captured.
          case captured of
            None \<Rightarrow> capture_prices L E effectiveAt now rest existing pairs
          | Some obs \<Rightarrow>
              rbind (capture_prices L E effectiveAt now rest (existing(key \<mapsto> obs)) (add_pair (po_Currency obs) pairs))
                (\<lambda>(existing', new, pairs'). Inr (existing', obs # new, pairs'))))"

text \<open>\<^verbatim>\<open>strings.Cut(pair, "->")\<close>\<close>

fun cut_arrow :: "string \<Rightarrow> (string \<times> string) option" where
  "cut_arrow [] = None"
| "cut_arrow (c # cs) =
     (if c = CHR ''-'' \<and> take 1 cs = ''>'' then Some ([], drop 1 cs)
      else map_option (\<lambda>(a, b). (c # a, b)) (cut_arrow cs))"

fun capture_fx ::
  "declib \<Rightarrow> engine \<Rightarrow> time \<Rightarrow> string list \<Rightarrow> (string \<rightharpoonup> FxObservation)
    \<Rightarrow> comp_err + ((string \<rightharpoonup> FxObservation) \<times> FxObservation list)" where
  "capture_fx L E now [] existing = Inr (existing, [])"
| "capture_fx L E now (pair # rest) existing =
     (if existing pair \<noteq> None then capture_fx L E now rest existing
      else
        (case cut_arrow pair of
           None \<Rightarrow> capture_fx L E now rest existing
         | Some (from, to) \<Rightarrow>
             (case ee_convert E (Fin 1) from to of
                Inl _ \<Rightarrow> capture_fx L E now rest existing
              | Inr rate \<Rightarrow>
                  rbind (exact_ratio L rate) (\<lambda>exact.
                    let obs = \<lparr>fo_FromCurrency = from, fo_ToCurrency = to, fo_Rate = exact, fo_ObservedAt = now\<rparr>
                    in rbind (capture_fx L E now rest (existing(pair \<mapsto> obs)))
                         (\<lambda>(existing', new). Inr (existing', obs # new))))))"

definition observationProvider :: string where "observationProvider = ''live_quote''"

definition captureObservations ::
  "declib \<Rightarrow> engine \<Rightarrow> string \<Rightarrow> string \<Rightarrow> time \<Rightarrow> CompetitionEntry list \<Rightarrow> bool \<Rightarrow> time
    \<Rightarrow> (CompRepo, boundaryObservations) run" where
  "captureObservations L E cid boundary effectiveAt entries lastBatch now r =
     (let (set, r) = EnsureObservationSet cid boundary effectiveAt observationProvider r;
          (existingPrices, existingFX) = LoadObservations (os_ID set) r
      in if os_Status set = ObservationSealed
         then (Inr \<lparr>bo_prices = existingPrices, bo_fx = existingFX\<rparr>, r)
         else
           let (symbols, pairs) = entrySymbolsAndPairs entries in
           (case rbind (capture_prices L E effectiveAt now symbols existingPrices pairs) (\<lambda>(prices, newPrices, pairs).
                   rbind (capture_fx L E now pairs existingFX) (\<lambda>(rates, newFX).
                     Inr (prices, newPrices, pairs, rates, newFX))) of
              Inl e \<Rightarrow> (Inl e, r)
            | Inr (prices, newPrices, pairs, rates, newFX) \<Rightarrow>
                let batchCaptured = (list_all (\<lambda>(key, ref). prices key \<noteq> None) symbols
                                     \<and> list_all (\<lambda>pair. rates pair \<noteq> None) pairs);
                    sealed = (batchCaptured \<and> lastBatch);
                    view = \<lparr>bo_prices = prices, bo_fx = rates\<rparr>
                in if newPrices \<noteq> [] \<or> newFX \<noteq> [] \<or> sealed
                   then (case RecordObservations (os_ID set) newPrices newFX sealed now r of
                           Inl e \<Rightarrow> (Inl e, r)
                         | Inr r' \<Rightarrow> (Inr view, r'))
                   else (Inr view, r)))"

end
