(* ===== verification/CompEngine.thy ===== *)
theory CompEngine
  imports CompValue
begin

text \<open>
  The operations of the competition engine: eligibility and joins (\<^verbatim>\<open>eligibility.go\<close>, \<^verbatim>\<open>join.go\<close>), the
  lifecycle schedule and the common baseline (\<^verbatim>\<open>baseline.go\<close>), the ranking generations and their reads
  (\<^verbatim>\<open>ranking.go\<close>), finalization (\<^verbatim>\<open>finalize.go\<close>), and the legacy weekly sprints (\<^verbatim>\<open>service.go\<close>). Each is
  a function on the repository; the instants read from the clock are arguments.
\<close>

section \<open>Loading\<close>

definition ensureCurrentSprint :: "time \<Rightarrow> CompRepo \<Rightarrow> CompRepo" where
  "ensureCurrentSprint now r =
     (let cur = WeeklySprint now in
      case cr_competitions r (cp_ID cur) of None \<Rightarrow> CreateCompetition cur r | Some _ \<Rightarrow> r)"

definition loadCompetition :: "string \<Rightarrow> time \<Rightarrow> (CompRepo, Competition) run" where
  "loadCompetition cid now r =
     (let r = ensureCurrentSprint now r in
      (rbind (GetCompetition cid r) (\<lambda>c.
         Inr (c\<lparr>cp_Status := deriveStatus (cp_StartsAt c) (cp_EndsAt c) now\<rparr>)), r))"

definition comp_ListCompetitions :: "time \<Rightarrow> (CompRepo, Competition list) run" where
  "comp_ListCompetitions now r =
     (let r = ensureCurrentSprint now r in
      (Inr (map (\<lambda>c. c\<lparr>cp_Status := deriveStatus (cp_StartsAt c) (cp_EndsAt c) now\<rparr>) (ListCompetitions r)), r))"

section \<open>Eligibility\<close>

definition universeNames :: "Eligibility \<Rightarrow> string list" where
  "universeNames e =
     foldl (\<lambda>names r. case ru_Filter r of
              None \<Rightarrow> names
            | Some f \<Rightarrow> if f_Universe f \<noteq> [] \<and> f_Universe f \<notin> set names then names @ [f_Universe f] else names)
       [] (el_All e @ el_Any e)"

text \<open>A Go duration divided by 24 hours truncates toward zero.\<close>

definition whole_days :: "int \<Rightarrow> int" where
  "whole_days d = (if 0 \<le> d then d div day_ns else - ((- d) div day_ns))"

definition position_facts :: "CompetitionSnapshotPosition \<Rightarrow> PositionFacts" where
  "position_facts p =
     \<lparr>fact_InstrumentID = csp_InstrumentID p, fact_AssetType = csp_AssetType p, fact_Sector = [],
      fact_VenueMIC = csp_VenueMIC p, fact_IssuerCountry = csp_IssuerCountry p,
      fact_ListingCountry = csp_ListingCountry p, fact_Currency = csp_Currency p,
      fact_ValueBase = csp_ValueBase p\<rparr>"

definition factsFromSnapshot ::
  "engine \<Rightarrow> CompetitionPortfolioSnapshot \<Rightarrow> Eligibility \<Rightarrow> time \<Rightarrow> comp_err + PortfolioFacts" where
  "factsFromSnapshot E snap e now =
     (let facts = \<lparr>pfa_Positions = map position_facts (cps_Positions snap),
                   pfa_CashValueBase = cps_CashValueBase snap, pfa_TotalValueBase = cps_TotalValueBase snap,
                   pfa_PortfolioAgeDays = (if time_IsZero (cps_PortfolioCreatedAt snap) then 0
                                           else whole_days (now - cps_PortfolioCreatedAt snap)),
                   pfa_UniverseMembership = Map.empty\<rparr>;
          names = universeNames e
      in case ee_universes E of
           None \<Rightarrow> Inr facts
         | Some resolve \<Rightarrow>
             if names = [] then Inr facts
             else rbind (resolve names) (\<lambda>membership.
                    Inr (facts\<lparr>pfa_UniverseMembership := membership\<rparr>)))"

definition evaluated :: "declib \<Rightarrow> Eligibility \<Rightarrow> PortfolioFacts \<Rightarrow> time \<Rightarrow> comp_err + EvalResult" where
  "evaluated L e facts now = (case Evaluate L e facts now of Inl _ \<Rightarrow> Inl CompPanic | Inr res \<Rightarrow> Inr res)"

definition EligibilityPreview ::
  "declib \<Rightarrow> engine \<Rightarrow> string \<Rightarrow> string \<Rightarrow> time \<Rightarrow> (CompRepo, EvalResult) run" where
  "EligibilityPreview L E cid uid now =
     (case ee_snapshots E of
        None \<Rightarrow> fail ErrEligibilityUnavailable
      | Some capture \<Rightarrow>
          andThen (loadCompetition cid now) (\<lambda>c.
            reading (\<lambda>_.
              rbind (effectiveRules L (ee_codec E) c) (\<lambda>(eligibility, scoring).
              rbind (capture uid False) (\<lambda>snap.
              rbind (factsFromSnapshot E snap eligibility now) (\<lambda>facts.
              evaluated L eligibility facts now))))))"

section \<open>Joining\<close>

record JoinEditionResponse =
  je_CompetitionID :: string
  je_Joined :: bool
  je_EntryStatus :: string
  je_StartingIndex :: IndexValue
  je_Eligibility :: "Evidence list"

definition joinWindowOpen :: "Competition \<Rightarrow> time \<Rightarrow> bool" where
  "joinWindowOpen c now =
     (cp_LifecycleStatus c = LifecycleRegistrationOpen
      \<and> (case (cp_JoinOpensAt c, cp_JoinClosesAt c) of
           (Some opens, Some closes) \<Rightarrow> \<not> now < opens \<and> now < closes
         | _ \<Rightarrow> False))"

definition joinFingerprint :: "engine \<Rightarrow> string \<Rightarrow> string \<Rightarrow> string" where
  "joinFingerprint E cid uid = ee_sha256 E (cid @ ''|'' @ uid)"

definition evidenceToRuleResults :: "engine \<Rightarrow> string \<Rightarrow> Evidence list" where
  "evidenceToRuleResults E raw =
     (if raw = [] then []
      else case cd_decodeResult (ee_codec E) raw of None \<Rightarrow> [] | Some res \<Rightarrow> er_Rules res)"

definition joinResponseFromEntry :: "declib \<Rightarrow> engine \<Rightarrow> string \<Rightarrow> CompetitionEntry \<Rightarrow> JoinEditionResponse" where
  "joinResponseFromEntry L E cid e =
     \<lparr>je_CompetitionID = cid, je_Joined = True, je_EntryStatus = en_EntryStatus e,
      je_StartingIndex = MustIndexValue L ''100'',
      je_Eligibility = evidenceToRuleResults E (en_EligibilityEvidenceJSON e)\<rparr>"

definition scoringIncludesPosition :: "Scoring \<Rightarrow> CompetitionSnapshotPosition \<Rightarrow> universes \<Rightarrow> bool" where
  "scoringIncludesPosition scoring p universes =
     (sc_Scope scoring = ScopeFullPortfolio \<or> Matches (sc_Filter scoring) ((position_facts p)\<lparr>fact_ValueBase := 0\<rparr>) universes)"

definition freeze_position ::
  "engine \<Rightarrow> (nat \<Rightarrow> string) \<Rightarrow> Scoring \<Rightarrow> universes \<Rightarrow> nat \<times> CompetitionSnapshotPosition \<Rightarrow> EntrySnapshotPosition" where
  "freeze_position E uuid scoring universes ip =
     (let (i, p) = ip in
      \<lparr>sp_ID = uuid (i + 1), sp_CompetitionEntryID = uuid 0, sp_Symbol = csp_Symbol p,
       sp_AssetType = csp_AssetType p, sp_Quantity = csp_Quantity p, sp_Currency = csp_Currency p,
       sp_StartingPrice = csp_Price p, sp_StartingPriceCurrency = csp_PriceCurrency p,
       sp_StartingValueBase = csp_ValueBase p, sp_InstrumentID = csp_InstrumentID p,
       sp_VenueMIC = csp_VenueMIC p,
       sp_ClassificationSnapshotJSON = cd_encodeMap (ee_codec E)
         [(''instrument_id'', csp_InstrumentID p), (''asset_type'', csp_AssetType p),
          (''venue_mic'', csp_VenueMIC p), (''listing_country'', csp_ListingCountry p),
          (''issuer_country'', csp_IssuerCountry p), (''currency'', csp_Currency p)],
       sp_IncludedInScore = scoringIncludesPosition scoring p universes, sp_StartingWeight = 0,
       sp_BaselinePriceObservedAt = None, sp_BaselineFXObservedAt = None, sp_OriginalQuantity = 0\<rparr>)"

definition freeze_cash ::
  "(nat \<Rightarrow> string) \<Rightarrow> Scoring \<Rightarrow> nat \<times> CompetitionSnapshotCash \<Rightarrow> EntrySnapshotCash" where
  "freeze_cash uuid scoring ic =
     (let (i, c) = ic in
      \<lparr>cs_ID = uuid i, cs_CompetitionEntryID = uuid 0, cs_Currency = csc_Currency c, cs_Amount = csc_Amount c,
       cs_ValueBase = csc_ValueBase c, cs_IncludedInScore = sc_IncludeCash scoring\<rparr>)"

definition included_value :: "declib \<Rightarrow> EntrySnapshotPosition list \<Rightarrow> EntrySnapshotCash list \<Rightarrow> Amount" where
  "included_value L positions cash =
     foldl (\<lambda>v c. if cs_IncludedInScore c then Amount_Add L v (cs_ValueBase c) else v)
       (foldl (\<lambda>v p. if sp_IncludedInScore p then Amount_Add L v (sp_StartingValueBase p) else v) (ZeroAmount L) positions)
       cash"

definition buildEngineEntry ::
  "declib \<Rightarrow> engine \<Rightarrow> (nat \<Rightarrow> string) \<Rightarrow> Competition \<Rightarrow> string \<Rightarrow> CompetitionPortfolioSnapshot \<Rightarrow> Scoring
    \<Rightarrow> universes \<Rightarrow> string \<Rightarrow> time \<Rightarrow> comp_err + CompetitionEntry" where
  "buildEngineEntry L E uuid c uid snap scoring universes evidenceJSON now =
     (let positions = map (freeze_position E uuid scoring universes) (enumerate 0 (cps_Positions snap));
          cash = map (freeze_cash uuid scoring) (enumerate (length (cps_Positions snap) + 1) (cps_Cash snap));
          includedValue = included_value L positions cash
      in if Decimal_Sign L includedValue \<le> 0 then Inl ErrNothingToScore
         else Inr
           \<lparr>en_ID = uuid 0, en_CompetitionID = cp_ID c, en_UserID = uid, en_StartingValue = includedValue,
            en_StartingIndex = MustIndexValue L ''100'', en_JoinedAt = now, en_Snapshots = positions,
            en_EntryStatus = EntryAdmitted, en_PortfolioVersion = cps_PortfolioVersion snap,
            en_SnapshotCapturedAt = Some (cps_CapturedAt snap), en_EligibilityEvidenceJSON = evidenceJSON,
            en_ScoringScope = sc_Scope scoring, en_EligibleStartingValueBase = includedValue,
            en_BaselineStatus = BaselinePending, en_BaselineCompletedAt = None, en_DisqualificationReason = [],
            en_WithdrawnAt = None, en_CashSnapshots = cash, en_IdempotencyKey = [], en_RequestFingerprint = []\<rparr>)"

text \<open>
  A refused join returns the evidence beside the error. The sum puts it on the right: \<open>je_Joined\<close> is
  then false, and the error is \<open>ErrNotEligible\<close>.
\<close>

definition joinEdition ::
  "declib \<Rightarrow> engine \<Rightarrow> (nat \<Rightarrow> string) \<Rightarrow> Competition \<Rightarrow> string \<Rightarrow> string \<Rightarrow> time \<Rightarrow> (CompRepo, JoinEditionResponse) run" where
  "joinEdition L E uuid c uid key now r =
     (case ee_snapshots E of
        None \<Rightarrow> (Inl ErrEligibilityUnavailable, r)
      | Some capture \<Rightarrow>
          if \<not> joinWindowOpen c now then (Inl ErrJoinWindowClosed, r)
          else
            let fingerprint = joinFingerprint E (cp_ID c) uid in
            (case FindEntryByIdempotencyKey uid key r of
               Some byKey \<Rightarrow>
                 if en_RequestFingerprint byKey \<noteq> fingerprint then (Inl ErrJoinKeyConflict, r)
                 else (Inr (joinResponseFromEntry L E (cp_ID c) byKey), r)
             | None \<Rightarrow>
                 (case GetEntry (cp_ID c) uid r of
                    Inr existing \<Rightarrow> (Inr (joinResponseFromEntry L E (cp_ID c) existing), r)
                  | Inl _ \<Rightarrow>
                      (case rbind (effectiveRules L (ee_codec E) c) (\<lambda>(eligibility, scoring).
                              rbind (capture uid True) (\<lambda>snap.
                              rbind (factsFromSnapshot E snap eligibility now) (\<lambda>facts.
                              rbind (evaluated L eligibility facts now) (\<lambda>result.
                                Inr (scoring, snap, facts, result))))) of
                         Inl e \<Rightarrow> (Inl e, r)
                       | Inr (scoring, snap, facts, result) \<Rightarrow>
                           if \<not> er_Eligible result then
                             (Inr \<lparr>je_CompetitionID = cp_ID c, je_Joined = False, je_EntryStatus = [],
                                   je_StartingIndex = MustIndexValue L ''100'', je_Eligibility = er_Rules result\<rparr>, r)
                           else
                             (case buildEngineEntry L E uuid c uid snap scoring (pfa_UniverseMembership facts)
                                     (cd_encodeResult (ee_codec E) result) now of
                                Inl e \<Rightarrow> (Inl e, r)
                              | Inr entry \<Rightarrow>
                                  let entry = entry\<lparr>en_IdempotencyKey := key, en_RequestFingerprint := fingerprint\<rparr> in
                                  (case CreateEngineEntry entry r of
                                     Inl e \<Rightarrow>
                                       if e = ErrEntryExists
                                       then (case GetEntry (cp_ID c) uid r of
                                               Inr existing \<Rightarrow> (Inr (joinResponseFromEntry L E (cp_ID c) existing), r)
                                             | Inl _ \<Rightarrow> (Inl e, r))
                                       else (Inl e, r)
                                   | Inr r' \<Rightarrow>
                                       (Inr ((joinResponseFromEntry L E (cp_ID c) entry)
                                               \<lparr>je_Eligibility := er_Rules result\<rparr>), r')))))))"

section \<open>Legacy weekly sprints\<close>

text \<open>Pricing a listed position at the provider boundary, where conversions are in \<^verbatim>\<open>float64\<close>.\<close>

definition live_value :: "declib \<Rightarrow> engine \<Rightarrow> string \<Rightarrow> Quantity \<Rightarrow> comp_err + (Price \<times> string \<times> Amount)" where
  "live_value L E symbol quantity =
     rbind (case ee_latest E symbol of Inl _ \<Rightarrow> Inl ErrJoinSnapshot | Inr q \<Rightarrow> Inr q) (\<lambda>(price, currency).
     rbind (exact_price L price) (\<lambda>exactPrice.
     rbind (case ee_convert E (Amount_Float64 L (MulPrice L quantity exactPrice)) currency fx_BaseCurrency of
              Inl _ \<Rightarrow> Inl ErrJoinSnapshot | Inr v \<Rightarrow> Inr v) (\<lambda>converted.
     rbind (from_option CompPanic (AmountFromFloat64 L converted)) (\<lambda>valueBase.
       Inr (exactPrice, currency, valueBase)))))"

fun sprint_snapshots ::
  "declib \<Rightarrow> engine \<Rightarrow> (nat \<Rightarrow> string) \<Rightarrow> nat \<Rightarrow> (string \<times> string \<times> Quantity \<times> string) list
    \<Rightarrow> comp_err + EntrySnapshotPosition list" where
  "sprint_snapshots L E uuid i [] = Inr []"
| "sprint_snapshots L E uuid i ((symbol, assetType, quantity, currency) # ps) =
     rbind (live_value L E symbol quantity) (\<lambda>(price, priceCurrency, valueBase).
     rbind (sprint_snapshots L E uuid (i + 1) ps) (\<lambda>rest.
       Inr (\<lparr>sp_ID = uuid i, sp_CompetitionEntryID = uuid 0, sp_Symbol = symbol, sp_AssetType = assetType,
             sp_Quantity = quantity, sp_Currency = currency, sp_StartingPrice = price,
             sp_StartingPriceCurrency = priceCurrency, sp_StartingValueBase = valueBase,
             sp_InstrumentID = [], sp_VenueMIC = [], sp_ClassificationSnapshotJSON = [],
             sp_IncludedInScore = False, sp_StartingWeight = 0, sp_BaselinePriceObservedAt = None,
             sp_BaselineFXObservedAt = None, sp_OriginalQuantity = 0\<rparr> # rest)))"

definition JoinCompetition ::
  "declib \<Rightarrow> engine \<Rightarrow> (nat \<Rightarrow> string) \<Rightarrow> string \<Rightarrow> string \<Rightarrow> time \<Rightarrow> (CompRepo, IndexValue) run" where
  "JoinCompetition L E uuid cid uid now =
     andThen (loadCompetition cid now) (\<lambda>c r.
       if cp_Status c \<noteq> StatusRunning then (Inl ErrCompetitionNotActive, r)
       else
         (case GetEntry cid uid r of
            Inr existing \<Rightarrow> (Inr (en_StartingIndex existing), r)
          | Inl _ \<Rightarrow>
              (case ee_listPositions E uid of
                 Inl e \<Rightarrow> (Inl e, r)
               | Inr [] \<Rightarrow> (Inl ErrEmptyPortfolio, r)
               | Inr positions \<Rightarrow>
                   (case sprint_snapshots L E uuid 1 positions of
                      Inl e \<Rightarrow> (Inl e, r)
                    | Inr snapshots \<Rightarrow>
                        let startingValue = foldl (\<lambda>v s. Amount_Add L v (sp_StartingValueBase s)) (ZeroAmount L) snapshots
                        in if Amount_Cmp L startingValue (ZeroAmount L) \<le> 0 then (Inl ErrEmptyPortfolio, r)
                           else
                             (Inr (MustIndexValue L ''100''),
                              CreateEntry
                                \<lparr>en_ID = uuid 0, en_CompetitionID = cid, en_UserID = uid,
                                 en_StartingValue = startingValue, en_StartingIndex = MustIndexValue L ''100'',
                                 en_JoinedAt = now, en_Snapshots = snapshots, en_EntryStatus = [],
                                 en_PortfolioVersion = 0, en_SnapshotCapturedAt = None,
                                 en_EligibilityEvidenceJSON = [], en_ScoringScope = [],
                                 en_EligibleStartingValueBase = 0, en_BaselineStatus = [],
                                 en_BaselineCompletedAt = None, en_DisqualificationReason = [],
                                 en_WithdrawnAt = None, en_CashSnapshots = [], en_IdempotencyKey = [],
                                 en_RequestFingerprint = []\<rparr> r)))))"

fun snapshotCurrentValueBase ::
  "declib \<Rightarrow> engine \<Rightarrow> Amount \<Rightarrow> EntrySnapshotPosition list \<Rightarrow> comp_err + Amount" where
  "snapshotCurrentValueBase L E acc [] = Inr acc"
| "snapshotCurrentValueBase L E acc (s # ss) =
     rbind (live_value L E (sp_Symbol s) (sp_Quantity s)) (\<lambda>(p, c, v).
       snapshotCurrentValueBase L E (Amount_Add L acc v) ss)"

record rankedRow =
  rk_userID :: string
  rk_displayName :: string
  rk_avatarKey :: string
  rk_returnPct :: Ratio
  rk_index :: IndexValue
  rk_rank :: int

text \<open>A user or snapshot that cannot be resolved is skipped (\<open>Inr None\<close>); a price that is not finite panics.\<close>

definition sprint_row :: "declib \<Rightarrow> engine \<Rightarrow> CompetitionEntry \<Rightarrow> comp_err + rankedRow option" where
  "sprint_row L E e =
     (case ee_user E (en_UserID e) of
        None \<Rightarrow> Inr None
      | Some (name, avatar) \<Rightarrow>
          (case snapshotCurrentValueBase L E (ZeroAmount L) (en_Snapshots e) of
             Inl x \<Rightarrow> if x = CompPanic then Inl CompPanic else Inr None
           | Inr currentBase \<Rightarrow>
               if Amount_Cmp L (en_StartingValue e) (ZeroAmount L) \<le> 0 then Inr None
               else
                 (case Amount_DivExact L currentBase (en_StartingValue e) 36 of
                    Inl _ \<Rightarrow> Inr None
                  | Inr factor \<Rightarrow>
                      Inr (Some \<lparr>rk_userID = en_UserID e, rk_displayName = name, rk_avatarKey = avatar,
                            rk_returnPct = Ratio_Mul L (Ratio_Sub L factor (MustRatio L ''1'')) (MustRatio L ''100''),
                            rk_index = QuantizeIndex L (Index_MulRatio L (MustIndexValue L ''100'') factor),
                            rk_rank = 0\<rparr>))))"

fun sprint_rows :: "declib \<Rightarrow> engine \<Rightarrow> CompetitionEntry list \<Rightarrow> comp_err + rankedRow list" where
  "sprint_rows L E [] = Inr []"
| "sprint_rows L E (e # es) =
     rbind (sprint_row L E e) (\<lambda>row.
     rbind (sprint_rows L E es) (\<lambda>rows.
       Inr (case row of None \<Rightarrow> rows | Some x \<Rightarrow> x # rows)))"

definition sprint_less :: "declib \<Rightarrow> rankedRow \<Rightarrow> rankedRow \<Rightarrow> bool" where
  "sprint_less L a b =
     (let c = Ratio_Cmp L (rk_returnPct a) (rk_returnPct b) in
      if c \<noteq> 0 then 0 < c
      else if rk_displayName a \<noteq> rk_displayName b then str_less (rk_displayName a) (rk_displayName b)
      else str_less (rk_userID a) (rk_userID b))"

definition rankedEntries :: "declib \<Rightarrow> engine \<Rightarrow> string \<Rightarrow> CompRepo \<Rightarrow> comp_err + rankedRow list" where
  "rankedEntries L E cid r =
     rbind (sprint_rows L E (ListEntries cid r)) (\<lambda>rows.
       Inr (map (\<lambda>(i, row). row\<lparr>rk_rank := int i + 1\<rparr>) (enumerate 0 (isort (sprint_less L) rows))))"

definition GetUserRank :: "declib \<Rightarrow> engine \<Rightarrow> string \<Rightarrow> string \<Rightarrow> CompRepo \<Rightarrow> comp_err + int" where
  "GetUserRank L E cid uid r =
     rbind (rankedEntries L E cid r) (\<lambda>rows.
       Inr (case find (\<lambda>row. rk_userID row = uid) rows of None \<Rightarrow> 0 | Some row \<Rightarrow> rk_rank row))"

text \<open>The status and the board of a sprint, without the cache.\<close>

record MyCompetitionStatusResponse =
  my_CompetitionID :: string
  my_Joined :: bool
  my_EntryStatus :: string
  my_CurrentRank :: int
  my_ReturnPercentage :: Ratio
  my_SprintIndex :: IndexValue
  my_ValuedAt :: "time option"

definition not_ranked :: "declib \<Rightarrow> string \<Rightarrow> bool \<Rightarrow> string \<Rightarrow> MyCompetitionStatusResponse" where
  "not_ranked L cid joined status =
     \<lparr>my_CompetitionID = cid, my_Joined = joined, my_EntryStatus = status, my_CurrentRank = 0,
      my_ReturnPercentage = 0, my_SprintIndex = MustIndexValue L ''100'', my_ValuedAt = None\<rparr>"

definition MyStatus ::
  "declib \<Rightarrow> engine \<Rightarrow> string \<Rightarrow> string \<Rightarrow> time \<Rightarrow> (CompRepo, MyCompetitionStatusResponse) run" where
  "MyStatus L E cid uid now =
     andThen (loadCompetition cid now) (\<lambda>c.
       reading (\<lambda>r.
         case GetEntry cid uid r of
           Inl _ \<Rightarrow> Inr (not_ranked L cid False [])
         | Inr _ \<Rightarrow>
             rbind (rankedEntries L E cid r) (\<lambda>rows.
               Inr (case find (\<lambda>row. rk_userID row = uid) rows of
                      None \<Rightarrow> not_ranked L cid True []
                    | Some row \<Rightarrow> (not_ranked L cid True [])
                        \<lparr>my_CurrentRank := rk_rank row, my_ReturnPercentage := rk_returnPct row,
                         my_SprintIndex := rk_index row\<rparr>))))"

record SprintLeaderboardEntry =
  sl_Rank :: int
  sl_DisplayName :: string
  sl_AvatarKey :: string
  sl_ReturnPercentage :: Ratio
  sl_SprintIndex :: IndexValue

definition Leaderboard :: "declib \<Rightarrow> engine \<Rightarrow> string \<Rightarrow> time \<Rightarrow> (CompRepo, SprintLeaderboardEntry list) run" where
  "Leaderboard L E cid now =
     andThen (loadCompetition cid now) (\<lambda>c.
       reading (\<lambda>r.
         rbind (rankedEntries L E cid r) (\<lambda>rows.
           Inr (map (\<lambda>row. \<lparr>sl_Rank = rk_rank row, sl_DisplayName = rk_displayName row,
                            sl_AvatarKey = rk_avatarKey row, sl_ReturnPercentage = rk_returnPct row,
                            sl_SprintIndex = rk_index row\<rparr>) rows))))"

text \<open>The single entry point of joins.\<close>

definition Join ::
  "declib \<Rightarrow> engine \<Rightarrow> (nat \<Rightarrow> string) \<Rightarrow> string \<Rightarrow> string \<Rightarrow> string \<Rightarrow> time \<Rightarrow> (CompRepo, JoinEditionResponse) run" where
  "Join L E uuid cid uid key now =
     andThen (loadCompetition cid now) (\<lambda>c.
       if IsLegacy c then
         andThen (JoinCompetition L E uuid cid uid now) (\<lambda>startingIndex.
           ret \<lparr>je_CompetitionID = cid, je_Joined = True, je_EntryStatus = EntryLegacyActive,
                je_StartingIndex = startingIndex, je_Eligibility = []\<rparr>)
       else if key = [] then fail ErrIdempotencyKeyRequired
       else joinEdition L E uuid c uid key now)"

definition Withdraw :: "string \<Rightarrow> string \<Rightarrow> time \<Rightarrow> (CompRepo, unit) run" where
  "Withdraw cid uid now =
     andThen (loadCompetition cid now) (\<lambda>c r.
       if IsLegacy c then (Inl ErrWithdrawalClosed, r)
       else if (case cp_JoinClosesAt c of None \<Rightarrow> True | Some closes \<Rightarrow> \<not> now < closes)
       then (Inl ErrWithdrawalClosed, r)
       else
         (case GetEntry cid uid r of
            Inl e \<Rightarrow> (Inl e, r)
          | Inr entry \<Rightarrow>
              if en_EntryStatus entry \<noteq> EntryAdmitted then (Inl ErrWithdrawalClosed, r)
              else writing (UpdateEntryStatus (en_ID entry) EntryAdmitted EntryWithdrawn now) r))"

end
