(* ===== verification/CompPasses.thy ===== *)
theory CompPasses
  imports CompEngine
begin

text \<open>
  The passes the background worker runs over the editions, and what the readers of their results see:
  the lifecycle schedule and the common baseline (\<^verbatim>\<open>baseline.go\<close>), the ranking generations (\<^verbatim>\<open>ranking.go\<close>)
  and finalization (\<^verbatim>\<open>finalize.go\<close>). A pass claims a bounded batch; an error on one entry is counted and
  the pass goes on, a panic ends it.
\<close>

section \<open>The lifecycle schedule\<close>

definition lifecycle_steps :: "(string \<times> string \<times> (Competition \<Rightarrow> time option)) list" where
  "lifecycle_steps =
     [(LifecyclePublished, LifecycleRegistrationOpen, cp_JoinOpensAt),
      (LifecycleRegistrationOpen, LifecycleRegistrationClosed, cp_JoinClosesAt),
      (LifecycleRegistrationClosed, LifecycleActive, \<lambda>c. Some (cp_StartsAt c)),
      (LifecycleActive, LifecycleFinalizing, \<lambda>c. Some (cp_EndsAt c))]"

definition advance_one :: "string \<Rightarrow> string \<Rightarrow> (Competition \<Rightarrow> time option) \<Rightarrow> time \<Rightarrow> CompRepo \<Rightarrow> Competition \<Rightarrow> CompRepo" where
  "advance_one from to due now r c =
     (case due c of
        None \<Rightarrow> r
      | Some t \<Rightarrow> if now < t then r
                  else (case TransitionLifecycle (cp_ID c) from to now r of Inl _ \<Rightarrow> r | Inr r' \<Rightarrow> r'))"

definition AdvanceCompetitionLifecycles :: "time \<Rightarrow> CompRepo \<Rightarrow> CompRepo" where
  "AdvanceCompetitionLifecycles now r =
     foldl (\<lambda>r (from, to, due). foldl (advance_one from to due now) r (ListEditionsByLifecycle from r))
       r lifecycle_steps"

section \<open>The common baseline\<close>

definition defaultBaselineBatch :: nat where "defaultBaselineBatch = 200"
definition defaultBaselineWindow :: int where "defaultBaselineWindow = 3600000000000"

text \<open>The valued positions of an entry: the snapshot with its price, currency and base value.\<close>

fun baseline_values ::
  "declib \<Rightarrow> 's priceSource \<Rightarrow> EntrySnapshotPosition list
    \<Rightarrow> ('s, (EntrySnapshotPosition \<times> Price \<times> string \<times> Amount) list) run" where
  "baseline_values L src [] = ret []"
| "baseline_values L src (s # ss) =
     (if \<not> sp_IncludedInScore s then baseline_values L src ss
      else
        andThen (ps_priceOf src (sp_InstrumentID s) (sp_Symbol s)) (\<lambda>(price, currency).
        andThen (ps_toBase src (MulPrice L (sp_Quantity s) price) currency) (\<lambda>base.
        andThen (baseline_values L src ss) (\<lambda>rest.
          ret ((s, price, currency, base) # rest)))))"

fun baseline_weights ::
  "declib \<Rightarrow> Amount \<Rightarrow> time \<Rightarrow> (EntrySnapshotPosition \<times> Price \<times> string \<times> Amount) list
    \<Rightarrow> comp_err + PositionBaseline list" where
  "baseline_weights L total_value now [] = Inr []"
| "baseline_weights L total_value now ((s, price, currency, base) # vs) =
     (case Amount_DivExact L base total_value 18 of
        Inl _ \<Rightarrow> Inl ErrDivision
      | Inr weight \<Rightarrow>
          rbind (baseline_weights L total_value now vs) (\<lambda>rest.
            Inr (\<lparr>pb_SnapshotID = sp_ID s, pb_Symbol = sp_Symbol s, pb_Quantity = sp_Quantity s,
                  pb_Price = price, pb_PriceCurrency = currency, pb_ValueBase = base, pb_Weight = weight,
                  pb_ObservedAt = now\<rparr> # rest)))"

text \<open>What \<open>baselineEntry\<close> hands to the repository: the total and the baselines.\<close>

definition baseline_terms ::
  "declib \<Rightarrow> 's priceSource \<Rightarrow> CompetitionEntry \<Rightarrow> time \<Rightarrow> ('s, Amount \<times> PositionBaseline list) run" where
  "baseline_terms L src entry now =
     andThen (baseline_values L src (en_Snapshots entry)) (\<lambda>values.
     andThen (sum_included L cs_IncludedInScore (\<lambda>c. ps_toBase src (cs_Amount c) (cs_Currency c))
                (foldl (\<lambda>t (s, p, c, base). Amount_Add L t base) (ZeroAmount L) values) (en_CashSnapshots entry)) (\<lambda>total_value.
       if Decimal_Sign L total_value \<le> 0 then fail ErrBaselineZero
       else reading (\<lambda>_. rbind (baseline_weights L total_value now values) (\<lambda>bs. Inr (total_value, bs)))))"

definition baselineEntry ::
  "declib \<Rightarrow> boundaryObservations \<Rightarrow> CompetitionEntry \<Rightarrow> time \<Rightarrow> (CompRepo, unit) run" where
  "baselineEntry L view entry now =
     (case fst (baseline_terms L (boundary_source L) entry now view) of
        Inl e \<Rightarrow> fail e
      | Inr (total_value, baselines) \<Rightarrow> writing (CompleteBaseline (en_ID entry) total_value baselines now))"

fun normalizeEntriesForBaseline ::
  "engine \<Rightarrow> Competition \<Rightarrow> CompetitionEntry list \<Rightarrow> comp_err + CompetitionEntry list" where
  "normalizeEntriesForBaseline E c [] = Inr []"
| "normalizeEntriesForBaseline E c (entry # entries) =
     (let from = (case en_SnapshotCapturedAt entry of Some t \<Rightarrow> t | None \<Rightarrow> en_JoinedAt entry) in
      rbind (adjustedEntryBasket E (c\<lparr>cp_StartsAt := from\<rparr>) entry (cp_StartsAt c)) (\<lambda>adjusted.
      rbind (normalizeEntriesForBaseline E c entries) (\<lambda>rest. Inr (adjusted # rest))))"

text \<open>The loop over the entries of an edition; the count of the completed ones is returned.\<close>

fun baseline_entries ::
  "declib \<Rightarrow> engine \<Rightarrow> boundaryObservations \<Rightarrow> time \<Rightarrow> time \<Rightarrow> int \<Rightarrow> CompetitionEntry list \<Rightarrow> (CompRepo, int) run" where
  "baseline_entries L E view deadline now completed [] r = (Inr completed, r)"
| "baseline_entries L E view deadline now completed (entry # entries) r =
     (case baselineEntry L view entry now r of
        (Inr _, r) \<Rightarrow> baseline_entries L E view deadline now (completed + 1) entries r
      | (Inl e, r) \<Rightarrow>
          if e = CompPanic then (Inl CompPanic, r)
          else if deadline < now then
            baseline_entries L E view deadline now completed entries
              (case FailBaseline (en_ID entry) (''baseline window elapsed: '' @ ee_errorText E e) r of
                 Inl _ \<Rightarrow> r | Inr r' \<Rightarrow> r')
          else baseline_entries L E view deadline now completed entries r)"

abbreviation BoundaryStart :: string where "BoundaryStart \<equiv> ''start''"
abbreviation BoundaryEnd :: string where "BoundaryEnd \<equiv> ''end''"

definition baseline_edition ::
  "declib \<Rightarrow> engine \<Rightarrow> time \<Rightarrow> int \<Rightarrow> Competition \<Rightarrow> (CompRepo, int) run" where
  "baseline_edition L E now completed c r =
     (let entries = ListPendingBaselineEntries (cp_ID c) defaultBaselineBatch r;
          window = (if ee_baselineWindow E \<le> 0 then defaultBaselineWindow else ee_baselineWindow E)
      in if entries = [] then (Inr completed, r)
         else
           (case normalizeEntriesForBaseline E c entries of
              Inl e \<Rightarrow> (if e = CompPanic then Inl CompPanic else Inr completed, r)
            | Inr entries \<Rightarrow>
                let lastBatch = (length entries < defaultBaselineBatch) in
                (case captureObservations L E (cp_ID c) BoundaryStart (cp_StartsAt c) entries lastBatch now r of
                   (Inl e, r) \<Rightarrow> (if e = CompPanic then Inl CompPanic else Inr completed, r)
                 | (Inr view, r) \<Rightarrow> baseline_entries L E view (cp_StartsAt c + window) now completed entries r)))"

fun baseline_editions ::
  "declib \<Rightarrow> engine \<Rightarrow> time \<Rightarrow> int \<Rightarrow> Competition list \<Rightarrow> (CompRepo, int) run" where
  "baseline_editions L E now completed [] r = (Inr completed, r)"
| "baseline_editions L E now completed (c # cs) r =
     andThen (baseline_edition L E now completed c) (\<lambda>completed. baseline_editions L E now completed cs) r"

definition RunCompetitionBaselines :: "declib \<Rightarrow> engine \<Rightarrow> time \<Rightarrow> (CompRepo, int) run" where
  "RunCompetitionBaselines L E now r = baseline_editions L E now 0 (ListBaselineDueEditions now r) r"

text \<open>The administrator's retry of one edition: every entry is tried, the first error is returned.\<close>

fun retry_entries ::
  "declib \<Rightarrow> boundaryObservations \<Rightarrow> time \<Rightarrow> comp_err option \<Rightarrow> CompetitionEntry list \<Rightarrow> (CompRepo, unit) run" where
  "retry_entries L view now firstErr [] r = (case firstErr of None \<Rightarrow> Inr () | Some e \<Rightarrow> Inl e, r)"
| "retry_entries L view now firstErr (entry # entries) r =
     (case baselineEntry L view entry now r of
        (Inr _, r) \<Rightarrow> retry_entries L view now firstErr entries r
      | (Inl e, r) \<Rightarrow>
          if e = CompPanic then (Inl CompPanic, r)
          else retry_entries L view now (case firstErr of None \<Rightarrow> Some e | Some x \<Rightarrow> Some x) entries r)"

definition retryCompetitionBaseline :: "declib \<Rightarrow> engine \<Rightarrow> time \<Rightarrow> Competition \<Rightarrow> (CompRepo, unit) run" where
  "retryCompetitionBaseline L E now c r =
     (if cp_LifecycleStatus c \<noteq> LifecycleRegistrationClosed \<and> cp_LifecycleStatus c \<noteq> LifecycleActive
      then (Inl ErrRetryLifecycle, r)
      else
        let entries = ListPendingBaselineEntries (cp_ID c) defaultBaselineBatch r in
        if entries = [] then (Inr (), r)
        else
          (case normalizeEntriesForBaseline E c entries of
             Inl e \<Rightarrow> (Inl e, r)
           | Inr entries \<Rightarrow>
               andThen (captureObservations L E (cp_ID c) BoundaryStart (cp_StartsAt c) entries
                          (length entries < defaultBaselineBatch) now) (\<lambda>view.
                 retry_entries L view now None entries) r))"

section \<open>Ranking\<close>

definition defaultRankingBatchSize :: int where "defaultRankingBatchSize = 500"

definition batch_size :: "int \<Rightarrow> int \<Rightarrow> nat" where
  "batch_size usual n = nat (if n \<le> 0 then usual else n)"

text \<open>The counters of one batch.\<close>

record lap =
  lp_processed :: int
  lp_successful :: int
  lp_failed :: int
  lp_disqualified :: int
  lp_writeFailed :: bool
  lp_lastEntryID :: string

definition zero_lap :: lap where
  "zero_lap = \<lparr>lp_processed = 0, lp_successful = 0, lp_failed = 0, lp_disqualified = 0,
               lp_writeFailed = False, lp_lastEntryID = []\<rparr>"

definition lap_entry :: "CompetitionEntry \<Rightarrow> lap \<Rightarrow> lap" where
  "lap_entry entry b = b\<lparr>lp_processed := lp_processed b + 1, lp_lastEntryID := en_ID entry\<rparr>"

fun rank_entries ::
  "declib \<Rightarrow> engine \<Rightarrow> Competition \<Rightarrow> Scoring \<Rightarrow> int \<Rightarrow> time \<Rightarrow> CompetitionEntry list \<Rightarrow> observationMemo \<Rightarrow> lap
    \<Rightarrow> (CompRepo, lap) run" where
  "rank_entries L E c scoring gen now [] memo b r = (Inr b, r)"
| "rank_entries L E c scoring gen now (entry # entries) memo b r =
     (let b = lap_entry entry b in
      case adjustedEntryBasket E c entry now of
        Inl e \<Rightarrow>
          if e = CompPanic then (Inl CompPanic, r)
          else rank_entries L E c scoring gen now entries memo (b\<lparr>lp_failed := lp_failed b + 1\<rparr>) r
      | Inr adjusted \<Rightarrow>
          (case valueCompetitionEntry L adjusted (memo_source L E) scoring memo of
             (Inl e, memo) \<Rightarrow>
               if e = CompPanic then (Inl CompPanic, r)
               else rank_entries L E c scoring gen now entries memo (b\<lparr>lp_failed := lp_failed b + 1\<rparr>) r
           | (Inr (idx, retPct), memo) \<Rightarrow>
               (case UpsertRanking (cp_ID c) gen
                       \<lparr>rr_EntryID = en_ID entry, rr_UserID = en_UserID entry, rr_Rank = 0, rr_Index = idx,
                        rr_ReturnPct = retPct, rr_ValuedAt = now\<rparr> r of
                  Inl e \<Rightarrow>
                    if e = CompPanic then (Inl CompPanic, r)
                    else rank_entries L E c scoring gen now entries memo (b\<lparr>lp_writeFailed := True\<rparr>) r
                | Inr r' \<Rightarrow>
                    rank_entries L E c scoring gen now entries memo (b\<lparr>lp_successful := lp_successful b + 1\<rparr>) r')))"

definition show_int :: "int \<Rightarrow> string" where
  "show_int n = (if n < 0 then ''-'' else []) @ itoa (nat \<bar>n\<bar>)"

definition coverage_reason :: "int \<Rightarrow> int \<Rightarrow> int \<Rightarrow> bool \<Rightarrow> string" where
  "coverage_reason processed successful failed writeFailure =
     ''incomplete coverage: processed='' @ show_int processed @ '' successful='' @ show_int successful
       @ '' failed='' @ show_int failed @ '' write_failure='' @ (if writeFailure then ''true'' else ''false'')"

definition next_cursor :: "string \<Rightarrow> lap \<Rightarrow> bool \<Rightarrow> string" where
  "next_cursor cursor b lapComplete =
     (if lapComplete then [] else if lp_lastEntryID b \<noteq> [] then lp_lastEntryID b else cursor)"

definition refresh_locked ::
  "declib \<Rightarrow> engine \<Rightarrow> string \<Rightarrow> nat \<Rightarrow> time \<Rightarrow> (CompRepo, unit) run" where
  "refresh_locked L E cid batchSize now r =
     (case rbind (GetCompetition cid r) (\<lambda>c. rbind (effectiveRules L (ee_codec E) c) (\<lambda>(e, scoring). Inr (c, scoring))) of
        Inl e \<Rightarrow> (Inl e, r)
      | Inr (c, scoring) \<Rightarrow>
          let (gen, r) = EnsureBuildingGeneration cid now r;
              entries = ClaimActiveEntries cid (rg_CursorEntryID gen) batchSize r
          in andThen (rank_entries L E c scoring (rg_Generation gen) now entries newObservationMemo zero_lap) (\<lambda>b.
               let lapComplete = (length entries < batchSize) in
               andThen (writing (AdvanceGeneration cid (rg_Generation gen)
                          (next_cursor (rg_CursorEntryID gen) b lapComplete)
                          (lp_processed b) (lp_successful b) (lp_failed b) (lp_writeFailed b))) (\<lambda>_ r.
                 let processed = rg_ProcessedEntries gen + lp_processed b;
                     totalFailed = rg_FailedEntries gen + lp_failed b;
                     writeFailure = (rg_WriteFailure gen \<or> lp_writeFailed b)
                 in if \<not> lapComplete then (Inr (), r)
                    else if processed = 0 then (Inr (), r)
                    else if writeFailure \<or> 0 < totalFailed then
                      writing (FailGeneration cid (rg_Generation gen)
                        (coverage_reason processed (rg_SuccessfulEntries gen + lp_successful b) totalFailed writeFailure) now) r
                    else if HasPendingBaselineEntries cid r then (Inr (), r)
                    else (case PromoteGeneration L cid (rg_Generation gen) now r of
                            Inl _ \<Rightarrow> (Inr (), r) | Inr r' \<Rightarrow> (Inr (), r')))) r)"

definition refreshEditionRanking ::
  "declib \<Rightarrow> engine \<Rightarrow> string \<Rightarrow> nat \<Rightarrow> time \<Rightarrow> (CompRepo, unit) run" where
  "refreshEditionRanking L E cid batchSize now r =
     (let (ok, r) = TryLockCompetitionRanking cid r in
      if \<not> ok then (Inr (), r)
      else let (res, r) = refresh_locked L E cid batchSize now r
           in (res, UnlockCompetitionRanking cid r))"

definition RefreshCompetitionRankings :: "declib \<Rightarrow> engine \<Rightarrow> time \<Rightarrow> CompRepo \<Rightarrow> CompRepo" where
  "RefreshCompetitionRankings L E now r =
     foldl (\<lambda>r c. snd (refreshEditionRanking L E (cp_ID c)
                          (batch_size defaultRankingBatchSize (ee_rankingBatchSize E)) now r))
       r (ListEditionsByLifecycle LifecycleActive r)"

definition retryCompetitionRanking :: "declib \<Rightarrow> engine \<Rightarrow> time \<Rightarrow> Competition \<Rightarrow> (CompRepo, unit) run" where
  "retryCompetitionRanking L E now c =
     (if cp_LifecycleStatus c \<noteq> LifecycleActive then fail ErrRetryLifecycle
      else refreshEditionRanking L E (cp_ID c) (batch_size defaultRankingBatchSize (ee_rankingBatchSize E)) now)"

section \<open>Reading the ranking\<close>

record CompetitionLeaderboardPage =
  lb_Entries :: "CompetitionLeaderboardEntry list"
  lb_NextCursor :: "int option"
  lb_ValuedAt :: "time option"
  lb_Unavailable :: bool

definition maxCompetitionLeaderboardPage :: int where "maxCompetitionLeaderboardPage = 100"

definition EditionLeaderboard ::
  "string \<Rightarrow> int \<Rightarrow> int \<Rightarrow> time \<Rightarrow> (CompRepo, CompetitionLeaderboardPage) run" where
  "EditionLeaderboard cid afterRank limit now =
     andThen (loadCompetition cid now) (\<lambda>c.
       if IsLegacy c then fail ErrRankingUnavailable
       else
         let limit = (if limit \<le> 0 \<or> maxCompetitionLeaderboardPage < limit then maxCompetitionLeaderboardPage else limit)
         in reading (\<lambda>r.
              rbind (ActiveGeneration cid r) (\<lambda>active.
                case active of
                  None \<Rightarrow> Inr \<lparr>lb_Entries = [], lb_NextCursor = None, lb_ValuedAt = None, lb_Unavailable = True\<rparr>
                | Some (generation, activatedAt) \<Rightarrow>
                    let rows = LeaderboardPage cid afterRank (nat limit) r
                    in Inr \<lparr>lb_Entries = rows,
                            lb_NextCursor = (if int (length rows) = limit then Some (le_Rank (last rows)) else None),
                            lb_ValuedAt = Some activatedAt, lb_Unavailable = False\<rparr>)))"

definition EditionMyStatus :: "declib \<Rightarrow> Competition \<Rightarrow> CompetitionEntry \<Rightarrow> CompRepo \<Rightarrow> MyCompetitionStatusResponse" where
  "EditionMyStatus L c entry r =
     (let resp = not_ranked L (cp_ID c) True (en_EntryStatus entry) in
      if en_EntryStatus entry \<noteq> EntryActive then resp
      else (case UserRankRow (cp_ID c) (en_UserID entry) r of
              None \<Rightarrow> resp
            | Some row \<Rightarrow> resp\<lparr>my_CurrentRank := rr_Rank row, my_ReturnPercentage := rr_ReturnPct row,
                              my_SprintIndex := rr_Index row, my_ValuedAt := Some (rr_ValuedAt row)\<rparr>))"

definition EngineMyStatus :: "declib \<Rightarrow> Competition \<Rightarrow> string \<Rightarrow> CompRepo \<Rightarrow> MyCompetitionStatusResponse" where
  "EngineMyStatus L c uid r =
     (case GetEntry (cp_ID c) uid r of
        Inl _ \<Rightarrow> not_ranked L (cp_ID c) False []
      | Inr entry \<Rightarrow> EditionMyStatus L c entry r)"

section \<open>Finalization\<close>

definition defaultFinalizationWindow :: int where "defaultFinalizationWindow = 7200000000000"
definition defaultFinalizationBatchSize :: int where "defaultFinalizationBatchSize = 500"

fun adjust_entries :: "engine \<Rightarrow> Competition \<Rightarrow> CompetitionEntry list \<Rightarrow> comp_err + CompetitionEntry list" where
  "adjust_entries E c [] = Inr []"
| "adjust_entries E c (entry # entries) =
     rbind (adjustedEntryBasket E c entry (cp_EndsAt c)) (\<lambda>adjusted.
     rbind (adjust_entries E c entries) (\<lambda>rest. Inr (adjusted # rest)))"

text \<open>The batch of a finalization pass. The duration in the text of a disqualification is left out.\<close>

fun finalize_batch ::
  "declib \<Rightarrow> engine \<Rightarrow> Competition \<Rightarrow> Scoring \<Rightarrow> int \<Rightarrow> time \<Rightarrow> time \<Rightarrow> boundaryObservations \<Rightarrow> CompetitionEntry list
    \<Rightarrow> lap \<Rightarrow> (CompRepo, lap) run" where
  "finalize_batch L E c scoring gen deadline now view [] b r = (Inr b, r)"
| "finalize_batch L E c scoring gen deadline now view (entry # entries) b r =
     (let b = lap_entry entry b in
      case fst (valueCompetitionEntry L entry (boundary_source L) scoring view) of
        Inl e \<Rightarrow>
          if e = CompPanic then (Inl CompPanic, r)
          else if deadline < now then
            (case DisqualifyEntry (en_ID entry) (''no valid end-time valuation within the operational window after ends_at: '' @ ee_errorText E e) r of
               Inl x \<Rightarrow> (Inl x, r)
             | Inr r' \<Rightarrow>
                 finalize_batch L E c scoring gen deadline now view entries
                   (b\<lparr>lp_disqualified := lp_disqualified b + 1\<rparr>) r')
          else finalize_batch L E c scoring gen deadline now view entries (b\<lparr>lp_failed := lp_failed b + 1\<rparr>) r
      | Inr (idx, retPct) \<Rightarrow>
          (case UpsertFinalizationRow (cp_ID c) gen
                  \<lparr>fr_EntryID = en_ID entry, fr_UserID = en_UserID entry, fr_Index = idx,
                   fr_ReturnPct = retPct, fr_ValuedAt = now\<rparr> r of
             Inl e \<Rightarrow>
               if e = CompPanic then (Inl CompPanic, r)
               else finalize_batch L E c scoring gen deadline now view entries (b\<lparr>lp_writeFailed := True\<rparr>) r
           | Inr r' \<Rightarrow>
               finalize_batch L E c scoring gen deadline now view entries
                 (b\<lparr>lp_successful := lp_successful b + 1\<rparr>) r'))"

definition finalize_locked ::
  "declib \<Rightarrow> engine \<Rightarrow> Competition \<Rightarrow> nat \<Rightarrow> int \<Rightarrow> time \<Rightarrow> (CompRepo, bool) run" where
  "finalize_locked L E c batchSize window now r =
     (case effectiveRules L (ee_codec E) c of
        Inl e \<Rightarrow> (Inl e, r)
      | Inr (eligibility, scoring) \<Rightarrow>
          let (gen, r) = EnsureBuildingFinalizationGeneration (cp_ID c) now r;
              claimed = ClaimEntriesForFinalization (cp_ID c) (fg_CursorEntryID gen) batchSize r;
              lapComplete = (length claimed < batchSize)
          in (case adjust_entries E c claimed of
                Inl e \<Rightarrow> (Inl e, r)
              | Inr entries \<Rightarrow>
                  andThen (captureObservations L E (cp_ID c) BoundaryEnd (cp_EndsAt c) entries lapComplete now) (\<lambda>view.
                  andThen (finalize_batch L E c scoring (fg_Generation gen) (cp_EndsAt c + window) now view entries zero_lap) (\<lambda>b.
                  andThen (writing (AdvanceFinalizationGeneration (cp_ID c) (fg_Generation gen)
                             (next_cursor (fg_CursorEntryID gen) b lapComplete)
                             (lp_processed b) (lp_successful b) (lp_failed b) (lp_writeFailed b))) (\<lambda>_.
                    let totalFailed = fg_FailedEntries gen + lp_failed b;
                        writeFailure = (fg_WriteFailure gen \<or> lp_writeFailed b)
                    in if \<not> lapComplete then ret False
                       else if writeFailure \<or> 0 < totalFailed then
                         andThen (writing (FailFinalizationGeneration (cp_ID c) (fg_Generation gen)
                           (coverage_reason (fg_ProcessedEntries gen + lp_processed b)
                              (fg_SuccessfulEntries gen + lp_successful b) totalFailed writeFailure) now)) (\<lambda>_. ret False)
                       else
                         andThen (writing (PromoteFinalizationGeneration L (cp_ID c) (fg_Generation gen) now)) (\<lambda>_. ret True)))) r))"

definition finalizeEdition ::
  "declib \<Rightarrow> engine \<Rightarrow> Competition \<Rightarrow> nat \<Rightarrow> int \<Rightarrow> time \<Rightarrow> (CompRepo, bool) run" where
  "finalizeEdition L E c batchSize window now r =
     (let (ok, r) = TryLockCompetitionFinalization (cp_ID c) r in
      if \<not> ok then (Inr False, r)
      else let (res, r) = finalize_locked L E c batchSize window now r
           in (res, UnlockCompetitionFinalization (cp_ID c) r))"

definition finalization_window :: "engine \<Rightarrow> int" where
  "finalization_window E = (if ee_finalizationWindow E \<le> 0 then defaultFinalizationWindow else ee_finalizationWindow E)"

fun finalize_editions :: "declib \<Rightarrow> engine \<Rightarrow> time \<Rightarrow> int \<Rightarrow> Competition list \<Rightarrow> CompRepo \<Rightarrow> int \<times> CompRepo" where
  "finalize_editions L E now finalized [] r = (finalized, r)"
| "finalize_editions L E now finalized (c # cs) r =
     (case finalizeEdition L E c (batch_size defaultFinalizationBatchSize (ee_finalizationBatchSize E))
             (finalization_window E) now r of
        (Inr True, r) \<Rightarrow> finalize_editions L E now (finalized + 1) cs r
      | (_, r) \<Rightarrow> finalize_editions L E now finalized cs r)"

definition FinalizeCompetitions :: "declib \<Rightarrow> engine \<Rightarrow> time \<Rightarrow> CompRepo \<Rightarrow> int \<times> CompRepo" where
  "FinalizeCompetitions L E now r =
     finalize_editions L E now 0 (ListEditionsByLifecycle LifecycleFinalizing r) r"

definition retryCompetitionFinalization :: "declib \<Rightarrow> engine \<Rightarrow> time \<Rightarrow> Competition \<Rightarrow> (CompRepo, unit) run" where
  "retryCompetitionFinalization L E now c =
     (if cp_LifecycleStatus c \<noteq> LifecycleFinalizing then fail ErrRetryLifecycle
      else andThen (finalizeEdition L E c (batch_size defaultFinalizationBatchSize (ee_finalizationBatchSize E))
                      (finalization_window E) now) (\<lambda>_. ret ()))"

definition Results :: "string \<Rightarrow> time \<Rightarrow> (CompRepo, CompetitionResultEntry list) run" where
  "Results cid now =
     andThen (loadCompetition cid now) (\<lambda>c.
       if IsLegacy c \<or> cp_LifecycleStatus c \<noteq> LifecycleCompleted then fail ErrResultsNotAvailable
       else reading (\<lambda>r. Inr (ListResults cid r)))"

end
