(* ===== verification/RulesLaws.thy ===== *)
theory RulesLaws
  imports CompRules MoneyLaws
begin

text \<open>
  What an admitted rule document guarantees: it evaluates on every portfolio without a panic, with
  one piece of evidence for each rule, and admits exactly when the rules say so; the weights of a
  composition do not depend on idle cash; and where an unresolved universe is not closed.
\<close>

section \<open>Printing and reading integers\<close>

lemma digit_codes:
  "list_all (\<lambda>k. is_digit (char_of (k + 48)) \<and> digit_val (char_of (k + 48)) = int k) [0, 1, 2, 3, 4, 5, 6, 7, 8, 9]"
  by code_simp

lemma is_digit_code: "k < 10 \<Longrightarrow> is_digit (char_of (k + 48 :: nat)) \<and> digit_val (char_of (k + 48)) = int k"
proof -
  assume "k < 10"
  then have "k = 0 \<or> k = 1 \<or> k = 2 \<or> k = 3 \<or> k = 4 \<or> k = 5 \<or> k = 6 \<or> k = 7 \<or> k = 8 \<or> k = 9" by arith
  then show ?thesis
    using digit_codes by auto
qed

lemma digits_val_snoc: "digits_val (s @ [c]) = 10 * digits_val s + digit_val c"
  by (simp add: digits_val_def)

lemma itoa_digits: "list_all is_digit (itoa n) \<and> digits_val (itoa n) = int n"
proof (induction n rule: itoa.induct)
  case (1 n)
  show ?case
  proof (cases "n < 10")
    case True
    then show ?thesis
      using is_digit_code [of n] by (simp add: itoa.simps [of n] digits_val_def)
  next
    case False
    with 1 have ih: "list_all is_digit (itoa (n div 10))" "digits_val (itoa (n div 10)) = int (n div 10)"
      by auto
    have "10 * int (n div 10) + int (n mod 10) = int n"
      by (metis div_mult_mod_eq mult.commute of_nat_add of_nat_mult of_nat_numeral)
    with False ih show ?thesis
      using is_digit_code [of "n mod 10"]
      by (simp add: itoa.simps [of n] digits_val_snoc)
  qed
qed

lemma itoa_length: "0 < k \<Longrightarrow> n < 10 ^ k \<Longrightarrow> length (itoa n) \<le> k \<and> itoa n \<noteq> []"
proof (induction n arbitrary: k rule: itoa.induct)
  case (1 n)
  show ?case
  proof (cases "n < 10")
    case True
    with 1 show ?thesis by (simp add: itoa.simps [of n])
  next
    case False
    with 1 have "k \<noteq> 1" by auto
    with 1 obtain j where k: "k = Suc j" "0 < j"
      by (cases k) auto
    with 1 have "n div 10 < 10 ^ j" by (simp add: div_less_iff_less_mult mult.commute)
    with 1 False k show ?thesis by (simp add: itoa.simps [of n])
  qed
qed

lemma digit_not_space: "is_digit c \<Longrightarrow> \<not> is_space c"
  by (auto simp: is_digit_def is_space_def Let_def)

lemma TrimSpace_none: "list_all (\<lambda>c. \<not> is_space c) s \<Longrightarrow> TrimSpace s = s"
proof -
  have none: "list_all (\<lambda>c. \<not> is_space c) t \<Longrightarrow> dropWhile is_space t = t" for t
    by (cases t) auto
  assume "list_all (\<lambda>c. \<not> is_space c) s"
  then show ?thesis by (simp add: TrimSpace_def none)
qed

lemma itoa_plain:
  "TrimSpace (itoa n) = itoa n" "plain_text (itoa n)" "plain_value (itoa n) = Some (of_nat n)"
proof -
  have d: "list_all is_digit (itoa n)" and v: "digits_val (itoa n) = int n"
    using itoa_digits by auto
  have ne: "itoa n \<noteq> []" by (simp add: itoa.simps [of n])
  show "TrimSpace (itoa n) = itoa n"
    by (rule TrimSpace_none) (use d in \<open>auto simp: list_all_iff digit_not_space\<close>)
  obtain c s where cs: "itoa n = c # s" using ne by (cases "itoa n") auto
  have dash: "c \<noteq> CHR ''-''"
    using d cs by (auto simp: is_digit_def Let_def)
  have "filter (\<lambda>c. c = CHR ''.'') (itoa n) = []"
    using d by (auto simp: filter_empty_conv list_all_iff is_digit_def Let_def)
  then show "plain_text (itoa n)"
    using d dash unfolding cs plain_text_def Let_def by (auto simp: list_all_iff)
  have "takeWhile is_digit (itoa n) = itoa n" "dropWhile is_digit (itoa n) = []"
    using d by (auto simp: takeWhile_eq_all_conv dropWhile_eq_Nil_conv list_all_iff)
  then show "plain_value (itoa n) = Some (of_nat n)"
    using dash v ne by (simp add: plain_value_def cs unsigned_value_def Let_def)
qed

context decimal_lib
begin

lemma ratioFromInt_exact:
  assumes "k < 10 ^ 80"
  shows "ratioFromInt L k = Inr (of_int (max k 0))"
proof -
  define n where "n = nat (if k < 0 then 0 else k)"
  have n: "of_nat n = (of_int (max k 0) :: rat)" "n < 10 ^ 80"
    using assms by (auto simp: n_def max_def nat_less_iff)
  have "parseExact L (itoa n) = Inr (of_nat n)"
    using itoa_plain [of n] itoa_length [of 80 n] n(2) by (simp add: parseExact_plain)
  then show ?thesis
    by (simp add: ratioFromInt_def mustRatio_def ParseRatio_def newDecimal_def n_def [symmetric] n(1))
qed

lemma mustRatio_parsed: "ParseRatio L s = Inr v \<Longrightarrow> mustRatio L s = Inr v"
  by (simp add: mustRatio_def)

lemma validateRule_admits:
  assumes "validateRule L r = Inr ()"
  obtains v where "ru_Metric r \<in> set validMetrics" "ru_Operator r \<in> set validOperators"
    "mustRatio L (ru_Value r) = Inr v" "0 \<le> v"
    "ru_Operator r = OpBetween \<Longrightarrow> \<exists>h. mustRatio L (ru_ValueHigh r) = Inr h \<and> v < h"
    "ru_Metric r = MetricPortfolioWeight \<Longrightarrow> \<not> Filter_IsZero (ru_Filter r)"
  using assms
  by (auto simp: validateRule_def exactRatio_def mustRatio_def money_defs Decimal_Sign_def Decimal_Cmp_def
      split: if_splits sum.splits)

end

section \<open>What a rule says\<close>

text \<open>
  The meaning of a metric on a composition, over the numbers: \<open>None\<close> when it cannot be computed.
  Weights are shares of the invested value, or of the whole account for cash, at 18 places.
\<close>

definition invested :: "PortfolioFacts \<Rightarrow> rat" where
  "invested facts = pfa_TotalValueBase facts - pfa_CashValueBase facts"

definition universe_missing :: "Filter option \<Rightarrow> PortfolioFacts \<Rightarrow> bool" where
  "universe_missing fo facts =
     (\<exists>f. fo = Some f \<and> f_Universe f \<noteq> [] \<and> pfa_UniverseMembership facts (f_Universe f) = None)"

definition matching :: "Filter option \<Rightarrow> PortfolioFacts \<Rightarrow> PositionFacts list" where
  "matching fo facts = filter (\<lambda>p. Matches fo p (pfa_UniverseMembership facts)) (pfa_Positions facts)"

definition share :: "rat \<Rightarrow> rat \<Rightarrow> rat" where
  "share part whole = away_places 18 (part / whole)"

definition metric_spec :: "Rule \<Rightarrow> PortfolioFacts \<Rightarrow> rat option" where
  "metric_spec r facts =
     (if ru_Metric r = MetricPortfolioWeight then
        (if invested facts \<le> 0 \<or> universe_missing (ru_Filter r) facts then None
         else Some (share (sum_list (map fact_ValueBase (matching (ru_Filter r) facts))) (invested facts)))
      else if ru_Metric r = MetricCashWeight then
        (if pfa_TotalValueBase facts \<le> 0 then None
         else Some (share (pfa_CashValueBase facts) (pfa_TotalValueBase facts)))
      else if ru_Metric r = MetricLargestPositionWeight then
        (if invested facts \<le> 0 then None
         else Some (share (Max (insert 0 (fact_ValueBase ` set (pfa_Positions facts)))) (invested facts)))
      else if ru_Metric r = MetricPositionCount then Some (of_nat (length (matching (ru_Filter r) facts)))
      else if ru_Metric r = MetricAssetClassCount then
        Some (of_nat (card {t. t \<noteq> [] \<and> t \<in> fact_AssetType ` set (pfa_Positions facts)}))
      else if ru_Metric r = MetricPortfolioAgeDays then Some (of_int (max (pfa_PortfolioAgeDays facts) 0))
      else None)"

definition op_holds :: "string \<Rightarrow> rat \<Rightarrow> rat \<Rightarrow> rat \<Rightarrow> bool" where
  "op_holds op a v h =
     (op = OpGTE \<and> v \<le> a \<or> op = OpGT \<and> v < a \<or> op = OpLTE \<and> a \<le> v \<or> op = OpLT \<and> a < v
      \<or> op = OpEQ \<and> a = v \<or> op = OpBetween \<and> v \<le> a \<and> a \<le> h)"

definition literal :: "declib \<Rightarrow> string \<Rightarrow> rat" where
  "literal L s = (case mustRatio L s of Inr v \<Rightarrow> v | Inl _ \<Rightarrow> 0)"

definition rule_spec :: "declib \<Rightarrow> Rule \<Rightarrow> PortfolioFacts \<Rightarrow> bool" where
  "rule_spec L r facts =
     (case metric_spec r facts of None \<Rightarrow> False
      | Some a \<Rightarrow> op_holds (ru_Operator r) a (literal L (ru_Value r)) (literal L (ru_ValueHigh r)))"

text \<open>Counts and ages are Go \<open>int\<close>s.\<close>

definition int_sized :: "PortfolioFacts \<Rightarrow> bool" where
  "int_sized facts = (length (pfa_Positions facts) < 2 ^ 63 \<and> pfa_PortfolioAgeDays facts < 2 ^ 63)"

section \<open>Evaluation against the meaning\<close>

context decimal_lib
begin

lemma matching_sum:
  "foldl (\<lambda>m p. if P p then Amount_Add L m (fact_ValueBase p) else m) a ps
     = a + sum_list (map fact_ValueBase (filter P ps))"
  by (induction ps arbitrary: a) (auto simp: money_defs Decimal_add_def)

lemma largest_max:
  "foldl (\<lambda>l p. if 0 < Amount_Cmp L (fact_ValueBase p) l then fact_ValueBase p else l) a ps
     = Max (insert a (fact_ValueBase ` set ps))"
proof (induction ps arbitrary: a)
  case (Cons p ps)
  have "Max (insert a (insert v S)) = Max (insert (if a < v then v else a) S)" if "finite S" for v and S :: "rat set"
    using that by (cases "S = {}") (auto simp: max_def)
  with Cons show ?case
    by (simp add: money_defs Decimal_Cmp_def)
qed simp

lemma class_count:
  "length (remdups (filter (\<lambda>t. t \<noteq> []) (map fact_AssetType ps)))
     = card {t. t \<noteq> [] \<and> t \<in> fact_AssetType ` set ps}"
  by (subst length_remdups_card_conv) (auto intro!: arg_cong [where f = card])

lemma weight_share: "w \<noteq> 0 \<Longrightarrow> weight_of L p w = (share p w, True, [])"
  by (simp add: weight_of_def money_defs share_def weightDivPlaces_def)

lemma universe_missing_iff:
  "(case fo of None \<Rightarrow> False | Some f \<Rightarrow> f_Universe f \<noteq> [] \<and> pfa_UniverseMembership facts (f_Universe f) = None)
     = universe_missing fo facts"
  by (simp add: universe_missing_def split: option.splits)

lemma invested_eq: "investedValueBase L facts = invested facts"
  by (simp add: investedValueBase_def invested_def money_defs Decimal_sub_def)

lemma filteredWeight_spec:
  "filteredWeight L fo facts =
     (if invested facts \<le> 0 then (0, True, ReasonEmptyPortfolio)
      else if universe_missing fo facts then (0, True, ReasonUnknownUniverse)
      else (share (sum_list (map fact_ValueBase (matching fo facts))) (invested facts), True, []))"
  by (simp add: filteredWeight_def Let_def universe_missing_iff invested_eq matching_sum weight_share
      matching_def ZeroRatio_def ZeroAmount_def Decimal_Sign_def)

lemma ratioFromInt_of_nat: "n < 2 ^ 63 \<Longrightarrow> ratioFromInt L (int n) = Inr (of_nat n)"
  using ratioFromInt_exact [of "int n"] by simp

lemma metricValue_cases:
  assumes "int_sized facts"
  shows
    "ru_Metric r = MetricPortfolioWeight \<Longrightarrow> metricValue L r facts = Inr (filteredWeight L (ru_Filter r) facts)"
    "ru_Metric r = MetricCashWeight \<Longrightarrow> metricValue L r facts =
       Inr (if pfa_TotalValueBase facts \<le> 0 then (0, True, ReasonEmptyPortfolio)
            else (share (pfa_CashValueBase facts) (pfa_TotalValueBase facts), True, []))"
    "ru_Metric r = MetricLargestPositionWeight \<Longrightarrow> metricValue L r facts =
       Inr (if invested facts \<le> 0 then (0, True, ReasonEmptyPortfolio)
            else (share (Max (insert 0 (fact_ValueBase ` set (pfa_Positions facts)))) (invested facts), True, []))"
    "ru_Metric r = MetricPositionCount \<Longrightarrow> metricValue L r facts =
       Inr (of_nat (length (matching (ru_Filter r) facts)), False, [])"
    "ru_Metric r = MetricAssetClassCount \<Longrightarrow> metricValue L r facts =
       Inr (of_nat (card {t. t \<noteq> [] \<and> t \<in> fact_AssetType ` set (pfa_Positions facts)}), False, [])"
    "ru_Metric r = MetricPortfolioAgeDays \<Longrightarrow> metricValue L r facts =
       Inr (of_int (max (pfa_PortfolioAgeDays facts) 0), False, [])"
proof -
  have len: "length (pfa_Positions facts) < 2 ^ 63"
    using assms by (simp add: int_sized_def)
  have n: "length (filter P (pfa_Positions facts)) < 2 ^ 63" for P
    using length_filter_le len by (rule order_le_less_trans)
  have "length (remdups (filter (\<lambda>t. t \<noteq> []) (map fact_AssetType (pfa_Positions facts)))) \<le> length (pfa_Positions facts)"
    by (metis (no_types, lifting) le_trans length_filter_le length_map length_remdups_leq)
  then have c: "length (remdups (filter (\<lambda>t. t \<noteq> []) (map fact_AssetType (pfa_Positions facts)))) < 2 ^ 63"
    using len by (rule order_le_less_trans)
  have a: "pfa_PortfolioAgeDays facts < 10 ^ 80"
    using assms unfolding int_sized_def by simp
  show "ru_Metric r = MetricPortfolioWeight \<Longrightarrow> metricValue L r facts = Inr (filteredWeight L (ru_Filter r) facts)"
    by (simp add: metricValue_def)
  show "ru_Metric r = MetricCashWeight \<Longrightarrow> metricValue L r facts =
       Inr (if pfa_TotalValueBase facts \<le> 0 then (0, True, ReasonEmptyPortfolio)
            else (share (pfa_CashValueBase facts) (pfa_TotalValueBase facts), True, []))"
    by (simp add: metricValue_def weight_share ZeroRatio_def Decimal_Sign_def)
  show "ru_Metric r = MetricLargestPositionWeight \<Longrightarrow> metricValue L r facts =
       Inr (if invested facts \<le> 0 then (0, True, ReasonEmptyPortfolio)
            else (share (Max (insert 0 (fact_ValueBase ` set (pfa_Positions facts)))) (invested facts), True, []))"
    by (simp add: metricValue_def weight_share ZeroRatio_def ZeroAmount_def Decimal_Sign_def invested_eq
        largestValue_def largest_max)
  show "ru_Metric r = MetricPositionCount \<Longrightarrow> metricValue L r facts =
       Inr (of_nat (length (matching (ru_Filter r) facts)), False, [])"
    by (simp add: metricValue_def matching_def ratioFromInt_of_nat [OF n])
  show "ru_Metric r = MetricAssetClassCount \<Longrightarrow> metricValue L r facts =
       Inr (of_nat (card {t. t \<noteq> [] \<and> t \<in> fact_AssetType ` set (pfa_Positions facts)}), False, [])"
    by (simp add: metricValue_def ratioFromInt_of_nat [OF c]) (simp add: class_count)
  show "ru_Metric r = MetricPortfolioAgeDays \<Longrightarrow> metricValue L r facts =
       Inr (of_int (max (pfa_PortfolioAgeDays facts) 0), False, [])"
    by (simp add: metricValue_def ratioFromInt_exact [OF a])
qed

lemma metricValue_spec:
  assumes "ru_Metric r \<in> set validMetrics" "int_sized facts"
  shows "\<exists>a pct reason. metricValue L r facts = Inr (a, pct, reason)
           \<and> metric_spec r facts = (if reason = [] then Some a else None)"
proof -
  consider "ru_Metric r = MetricPortfolioWeight" | "ru_Metric r = MetricCashWeight"
    | "ru_Metric r = MetricLargestPositionWeight" | "ru_Metric r = MetricPositionCount"
    | "ru_Metric r = MetricAssetClassCount" | "ru_Metric r = MetricPortfolioAgeDays"
    using assms(1) by (auto simp: validMetrics_def)
  then show ?thesis
    by cases (simp_all add: metricValue_cases [OF assms(2)] metric_spec_def filteredWeight_spec ex_bool_eq)
qed

lemma literal_parsed: "mustRatio L s = Inr v \<Longrightarrow> literal L s = v"
  by (simp add: literal_def)

lemma rule_compare_spec:
  assumes "mustRatio L (ru_Value r) = Inr v"
    and "ru_Operator r = OpBetween \<Longrightarrow> \<exists>h. mustRatio L (ru_ValueHigh r) = Inr h \<and> v < h"
  shows "rule_compare L a r = Inr (op_holds (ru_Operator r) a v (literal L (ru_ValueHigh r)))"
  using assms
  by (auto simp: rule_compare_def op_holds_def literal_parsed Ratio_Cmp_def Decimal_Cmp_def)

lemma evaluateRule_spec:
  assumes adm: "validateRule L r = Inr ()" and facts: "int_sized facts"
  shows "\<exists>ev. evaluateRule L r facts = Inr ev \<and> ev_Code ev = ru_Code r
           \<and> ev_Passed ev = rule_spec L r facts \<and> (ev_Passed ev = (ev_Reason ev = []))"
proof -
  obtain v where v: "ru_Metric r \<in> set validMetrics" "mustRatio L (ru_Value r) = Inr v"
    and high: "ru_Operator r = OpBetween \<Longrightarrow> \<exists>h. mustRatio L (ru_ValueHigh r) = Inr h \<and> v < h"
    by (rule validateRule_admits [OF adm]) blast
  obtain a pct reason where m: "metricValue L r facts = Inr (a, pct, reason)"
    and spec: "metric_spec r facts = (if reason = [] then Some a else None)"
    using metricValue_spec [OF v(1) facts] by blast
  obtain req where req:
    "(if ru_Operator r = OpBetween then
        rbind (mustRatio L (ru_ValueHigh r)) (\<lambda>high. Inr (displayValue L v pct @ '' - '' @ displayValue L high pct))
      else Inr (displayValue L v pct)) = Inr req"
    using high by (cases "ru_Operator r = OpBetween") auto
  have "failureReason op \<noteq> []" for op by (simp add: failureReason_def)
  then show ?thesis
    using spec
    by (cases "reason = []")
      (simp_all add: evaluateRule_def m v(2) req rule_compare_spec [OF v(2) high] rule_spec_def
        literal_parsed [OF v(2)])
qed

lemma evaluateRules_spec:
  assumes "\<forall>r\<in>set rs. validateRule L r = Inr ()" "int_sized facts"
  shows "\<exists>evs. evaluateRules L facts rs = Inr evs \<and> map ev_Code evs = map ru_Code rs
           \<and> map ev_Passed evs = map (\<lambda>r. rule_spec L r facts) rs"
  using assms(1)
proof (induction rs)
  case (Cons r rs)
  then show ?case
    using evaluateRule_spec [of r facts] assms(2) by auto
qed simp

lemma validateRules_sound:
  "validateRules L seen rs = Inr out \<Longrightarrow>
     (\<forall>r\<in>set rs. validateRule L r = Inr ()) \<and> distinct (map ru_Code rs) \<and> set (map ru_Code rs) \<inter> set seen = {}"
  by (induction L seen rs rule: validateRules.induct) (auto split: sum.splits if_splits)

lemma ParseEligibility_sound:
  "ParseEligibility L J raw = Inr e \<Longrightarrow>
     J raw = Some e \<and> (\<forall>r\<in>set (el_All e @ el_Any e). validateRule L r = Inr ())
     \<and> distinct (map ru_Code (el_All e @ el_Any e)) \<and> el_All e @ el_Any e \<noteq> []"
  unfolding ParseEligibility_def
  using validateRules_sound [of "[]" "el_All e @ el_Any e"]
  by (auto simp del: set_append map_append distinct_append split: if_splits)

lemma map_all_ex:
  "map f xs = map g ys \<Longrightarrow> list_all f xs = list_all g ys \<and> list_ex f xs = list_ex g ys"
proof -
  have all: "list_all f zs = list_all id (map f zs)" and ex: "list_ex f zs = list_ex id (map f zs)" for f :: "'c \<Rightarrow> bool" and zs
    by (induction zs) auto
  assume "map f xs = map g ys"
  then show ?thesis
    by (metis all ex)
qed

lemma Evaluate_spec:
  assumes "ParseEligibility L J raw = Inr e" "int_sized facts"
  shows "\<exists>res. Evaluate L e facts now = Inr res
     \<and> er_Eligible res = ((\<forall>r\<in>set (el_All e). rule_spec L r facts)
                          \<and> (el_Any e = [] \<or> (\<exists>r\<in>set (el_Any e). rule_spec L r facts)))
     \<and> map ev_Code (er_Rules res) = map ru_Code (el_All e @ el_Any e)
     \<and> map ev_Passed (er_Rules res) = map (\<lambda>r. rule_spec L r facts) (el_All e @ el_Any e)"
proof -
  have adm: "\<forall>r\<in>set (el_All e). validateRule L r = Inr ()" "\<forall>r\<in>set (el_Any e). validateRule L r = Inr ()"
    using ParseEligibility_sound [OF assms(1)] by auto
  obtain xs where xs: "evaluateRules L facts (el_All e) = Inr xs" "map ev_Code xs = map ru_Code (el_All e)"
    "map ev_Passed xs = map (\<lambda>r. rule_spec L r facts) (el_All e)"
    using evaluateRules_spec [OF adm(1) assms(2)] by blast
  obtain ys where ys: "evaluateRules L facts (el_Any e) = Inr ys" "map ev_Code ys = map ru_Code (el_Any e)"
    "map ev_Passed ys = map (\<lambda>r. rule_spec L r facts) (el_Any e)"
    using evaluateRules_spec [OF adm(2) assms(2)] by blast
  show ?thesis
    using map_all_ex [OF xs(3)] map_all_ex [OF ys(3)] xs ys
    by (cases "el_Any e = []") (simp_all add: Evaluate_def list_all_iff list_ex_iff)
qed

lemma cash_irrelevant:
  assumes "ru_Metric r \<noteq> MetricCashWeight"
  shows "metricValue L r (facts\<lparr>pfa_CashValueBase := pfa_CashValueBase facts + c,
                               pfa_TotalValueBase := pfa_TotalValueBase facts + c\<rparr>)
         = metricValue L r facts"
proof -
  let ?facts = "facts\<lparr>pfa_CashValueBase := pfa_CashValueBase facts + c,
                      pfa_TotalValueBase := pfa_TotalValueBase facts + c\<rparr>"
  have inv: "invested ?facts = invested facts" by (simp add: invested_def)
  have "filteredWeight L fo ?facts = filteredWeight L fo facts" for fo
    unfolding filteredWeight_spec inv by (auto simp: universe_missing_def matching_def)
  then show ?thesis
    using assms by (simp add: metricValue_def invested_eq inv Let_def)
qed

lemma evaluateRule_metric:
  "metricValue L r facts = metricValue L r facts' \<Longrightarrow> evaluateRule L r facts = evaluateRule L r facts'"
  by (simp add: evaluateRule_def)

end

section \<open>Examples\<close>

definition demo_rule :: Rule where
  "demo_rule = \<lparr>ru_Code = ''c'', ru_Label = ''l'', ru_Metric = MetricPositionCount, ru_Filter = None,
                ru_Operator = OpGTE, ru_Value = ''1'', ru_ValueHigh = []\<rparr>"

definition demo_eligibility :: Eligibility where
  "demo_eligibility = \<lparr>el_SchemaVersion = 1, el_All = [demo_rule], el_Any = []\<rparr>"

definition demo_position :: PositionFacts where
  "demo_position = \<lparr>fact_InstrumentID = ''i'', fact_AssetType = ''crypto'', fact_Sector = [], fact_VenueMIC = [],
     fact_IssuerCountry = [], fact_ListingCountry = [], fact_Currency = ''USD'', fact_ValueBase = 30\<rparr>"

definition demo_facts :: PortfolioFacts where
  "demo_facts = \<lparr>pfa_Positions = [demo_position], pfa_CashValueBase = 70, pfa_TotalValueBase = 100,
     pfa_PortfolioAgeDays = 4, pfa_UniverseMembership = Map.empty\<rparr>"

lemma demo_admitted: "validateRule std_declib demo_rule = Inr ()"
proof -
  have "exactRatio std_declib ''1'' = Inr 1"
    using literal_facts
    by (simp add: exactRatio_def ParseRatio_def newDecimal_def std.parseExact_plain)
  then show ?thesis
    by (simp add: validateRule_def demo_rule_def validMetrics_def validOperators_def Decimal_Sign_def
        validateFilter_def Filter_IsZero_def)
qed

lemma demo_parsed: "ParseEligibility std_declib (\<lambda>_. Some demo_eligibility) [] = Inr demo_eligibility"
  using demo_admitted
  by (simp add: ParseEligibility_def demo_eligibility_def rules_SchemaVersion_def demo_rule_def)

lemma demo_int_sized: "int_sized demo_facts"
  by (simp add: int_sized_def demo_facts_def)

section \<open>Properties\<close>

text \<open>
  An admitted eligibility document always evaluates: on no portfolio does a threshold, a bound or a
  count reach the panic of \<open>MustRatio\<close>, there is one piece of evidence for each rule in the order of the
  document, and the verdict is that every rule of \<open>All\<close> holds and, when \<open>Any\<close> is present, one of
  \<open>Any\<close> holds, with the metrics and operators read as numbers (\<open>rule_spec\<close>).
\<close>

theorem Evaluate_decides:
  assumes "decimal_lib L" "ParseEligibility L J raw = Inr e" "int_sized facts"
  shows "\<exists>res. Evaluate L e facts now = Inr res
     \<and> er_Eligible res = ((\<forall>r\<in>set (el_All e). rule_spec L r facts)
                          \<and> (el_Any e = [] \<or> (\<exists>r\<in>set (el_Any e). rule_spec L r facts)))
     \<and> map ev_Code (er_Rules res) = map ru_Code (el_All e @ el_Any e)
     \<and> map ev_Passed (er_Rules res) = map (\<lambda>r. rule_spec L r facts) (el_All e @ el_Any e)"
  by (rule decimal_lib.Evaluate_spec [OF assms])

theorem Evaluate_decides_witness:
  "\<exists>res. Evaluate std_declib demo_eligibility demo_facts 0 = Inr res \<and> er_Eligible res"
proof -
  have "rule_spec std_declib demo_rule demo_facts"
    using std.validateRule_admits [OF demo_admitted] literal_facts
    by (simp add: rule_spec_def metric_spec_def demo_rule_def demo_facts_def matching_def Matches_def
        Filter_IsZero_def op_holds_def literal_def mustRatio_def ParseRatio_def newDecimal_def
        std.parseExact_plain)
  then show ?thesis
    using Evaluate_decides [OF std.decimal_lib_axioms demo_parsed demo_int_sized, of 0]
    by (auto simp: demo_eligibility_def)
qed

text \<open>
  Idle cash never dilutes a composition rule: adding cash to the account changes the evidence of no
  rule except those about cash itself.
\<close>

theorem cash_never_dilutes:
  assumes "decimal_lib L" "ru_Metric r \<noteq> MetricCashWeight"
  shows "evaluateRule L r (facts\<lparr>pfa_CashValueBase := pfa_CashValueBase facts + c,
                                pfa_TotalValueBase := pfa_TotalValueBase facts + c\<rparr>)
         = evaluateRule L r facts"
  by (rule decimal_lib.evaluateRule_metric [OF assms(1)]) (rule decimal_lib.cash_irrelevant [OF assms])

theorem cash_never_dilutes_witness:
  "evaluateRule std_declib demo_rule (demo_facts\<lparr>pfa_CashValueBase := 1070, pfa_TotalValueBase := 1100\<rparr>)
   = evaluateRule std_declib demo_rule demo_facts"
  using cash_never_dilutes [OF std.decimal_lib_axioms, of demo_rule demo_facts 1000]
  by (simp add: demo_rule_def demo_facts_def)

text \<open>
  A universe that no resolver knows closes a weight rule, with its reason, but not a count rule with
  an upper bound: the unknown universe has no members, so the rule passes on every portfolio, although
  the engine promises that a rule on an unresolved universe never passes.
\<close>

theorem unknown_universe_count_passes:
  assumes "decimal_lib L" "validateRule L r = Inr ()" "int_sized facts"
    and "ru_Filter r = Some f" "f_Universe f \<noteq> []" "pfa_UniverseMembership facts (f_Universe f) = None"
  shows "(ru_Metric r = MetricPortfolioWeight \<longrightarrow>
            (\<exists>ev. evaluateRule L r facts = Inr ev \<and> \<not> ev_Passed ev))
       \<and> (ru_Metric r = MetricPositionCount \<and> ru_Operator r = OpLTE \<longrightarrow>
            (\<exists>ev. evaluateRule L r facts = Inr ev \<and> ev_Passed ev))"
proof -
  obtain ev where ev: "evaluateRule L r facts = Inr ev" "ev_Passed ev = rule_spec L r facts"
    using decimal_lib.evaluateRule_spec [OF assms(1-3)] by blast
  obtain v where v: "mustRatio L (ru_Value r) = Inr v" "0 \<le> v"
    by (rule decimal_lib.validateRule_admits [OF assms(1,2)]) blast
  have none: "\<not> Matches (ru_Filter r) p (pfa_UniverseMembership facts)" for p
    using assms(4-6) by (simp add: Matches_def Filter_IsZero_def)
  have "universe_missing (ru_Filter r) facts"
    using assms(4-6) by (simp add: universe_missing_def)
  then show ?thesis
    using ev v none
    by (simp add: rule_spec_def metric_spec_def matching_def op_holds_def
        decimal_lib.literal_parsed [OF assms(1) v(1)])
qed

definition demo_universe_rule :: Rule where
  "demo_universe_rule = demo_rule\<lparr>ru_Operator := OpLTE,
     ru_Filter := Some \<lparr>f_AssetTypes = [], f_Sectors = [], f_VenueMICs = [], f_IssuerCountries = [],
       f_ListingCountries = [], f_Currencies = [], f_InstrumentIDs = [], f_Universe = ''meme''\<rparr>\<rparr>"

theorem unknown_universe_count_passes_witness:
  "\<exists>ev. evaluateRule std_declib demo_universe_rule demo_facts = Inr ev \<and> ev_Passed ev"
proof -
  have "exactRatio std_declib ''1'' = Inr 1"
    using literal_facts
    by (simp add: exactRatio_def ParseRatio_def newDecimal_def std.parseExact_plain)
  then have adm: "validateRule std_declib demo_universe_rule = Inr ()"
    by (simp add: validateRule_def demo_universe_rule_def demo_rule_def validMetrics_def validOperators_def
        Decimal_Sign_def validateFilter_def Filter_IsZero_def metricsAcceptingFilter_def)
  show ?thesis
    using unknown_universe_count_passes [OF std.decimal_lib_axioms adm demo_int_sized]
    by (simp add: demo_universe_rule_def demo_rule_def demo_facts_def)
qed

end
