(* ===== verification/ObserveLaws.thy ===== *)
theory ObserveLaws
  imports CompPasses RulesLaws
begin

text \<open>
  What prices a frozen composition. The locale \<open>price_source\<close> is the interface \<^verbatim>\<open>priceSource\<close>: an answer
  once given is given again for the rest of the pass, so equal compositions get equal values; it is
  interpreted on the live memo and on the stored boundary. The stored boundary itself only grows until it
  is sealed, and what a pass values with is what is stored.
\<close>

section \<open>The price source\<close>

text \<open>A computation over a source is stable when its answer is repeated in every later state.\<close>

definition stable_run :: "('s \<Rightarrow> 's \<Rightarrow> bool) \<Rightarrow> ('s, 'a) run \<Rightarrow> bool" where
  "stable_run later m =
     (\<forall>s. later s (snd (m s)) \<and> (\<forall>x t. fst (m s) = Inr x \<longrightarrow> later (snd (m s)) t \<longrightarrow> fst (m t) = Inr x))"

text \<open>\<open>later s t\<close>: the state \<open>t\<close> of the source is \<open>s\<close> or follows it within the pass.\<close>

locale price_source =
  fixes src :: "'s priceSource"
    and later :: "'s \<Rightarrow> 's \<Rightarrow> bool"
  assumes later_refl: "later s s"
    and later_trans: "later s t \<Longrightarrow> later t u \<Longrightarrow> later s u"
    and price_later: "later s (snd (ps_priceOf src i tick s))"
    and base_later: "later s (snd (ps_toBase src a cur s))"
    and price_again: "fst (ps_priceOf src i tick s) = Inr x \<Longrightarrow> later (snd (ps_priceOf src i tick s)) t
                      \<Longrightarrow> fst (ps_priceOf src i tick t) = Inr x"
    and base_again: "fst (ps_toBase src a cur s) = Inr v \<Longrightarrow> later (snd (ps_toBase src a cur s)) t
                      \<Longrightarrow> fst (ps_toBase src a cur t) = Inr v"
begin

lemma stable_price: "stable_run later (ps_priceOf src i tick)"
  unfolding stable_run_def by (intro allI conjI impI) (rule price_later, erule (1) price_again)

lemma stable_base: "stable_run later (ps_toBase src a cur)"
  unfolding stable_run_def by (intro allI conjI impI) (rule base_later, erule (1) base_again)

lemma stable_ret: "stable_run later (ret x)" and stable_fail: "stable_run later (fail e)"
  by (simp_all add: stable_run_def later_refl)

lemma stable_andThen:
  assumes "stable_run later m" "\<And>x. stable_run later (f x)"
  shows "stable_run later (andThen m f)"
  unfolding stable_run_def
proof (intro allI conjI impI)
  fix s
  obtain a s' where m: "m s = (a, s')" by (cases "m s")
  have s': "later s s'" using assms(1) m by (metis stable_run_def snd_conv)
  show "later s (snd (andThen m f s))"
    using assms(2) s' later_trans m by (cases a) (auto simp: stable_run_def)
  fix y t
  assume ok: "fst (andThen m f s) = Inr y" and t: "later (snd (andThen m f s)) t"
  from ok m obtain x where a: "a = Inr x" by (cases a) auto
  obtain b s'' where f: "f x s' = (b, s'')" by (cases "f x s'")
  have b: "b = Inr y" "later s'' t" using ok t m a f by auto
  have "later s' s''" using assms(2) f by (metis stable_run_def snd_conv)
  then have "fst (m t) = Inr x"
    using assms(1) m a b(2) later_trans unfolding stable_run_def by (metis fst_conv snd_conv)
  then obtain t' where mt: "m t = (Inr x, t')" by (cases "m t") auto
  have "later t t'" using assms(1) mt by (metis stable_run_def snd_conv)
  then have "fst (f x t') = Inr y"
    using assms(2) f b later_trans unfolding stable_run_def by (metis fst_conv snd_conv)
  then show "fst (andThen m f t) = Inr y" using mt by simp
qed

lemma stable_position: "stable_run later (position_base L src scoring p)"
  unfolding position_base_def
  by (rule stable_andThen [OF stable_price])
    (auto simp: Let_def stable_base stable_ret stable_fail split: sum.splits)

lemma stable_cash: "stable_run later (cash_base L src scoring c)"
  by (simp add: cash_base_def stable_base stable_ret)

lemma stable_sum: "(\<And>x. stable_run later (base x)) \<Longrightarrow> stable_run later (sum_included L included base acc xs)"
  by (induction L included base acc xs rule: sum_included.induct)
    (simp_all add: stable_ret stable_andThen)

lemma stable_value: "stable_run later (valueCompetitionEntry L entry src scoring)"
  unfolding valueCompetitionEntry_def
  by (auto intro!: stable_andThen stable_sum stable_position stable_cash
      simp: stable_ret stable_fail split: sum.splits)

text \<open>Two entries that hold the same scored composition and started from the same value.\<close>

lemma value_again:
  assumes "fst (valueCompetitionEntry L e src scoring s) = Inr x"
    and "later (snd (valueCompetitionEntry L e src scoring s)) t"
    and "en_Snapshots e' = en_Snapshots e" "en_CashSnapshots e' = en_CashSnapshots e"
      "en_EligibleStartingValueBase e' = en_EligibleStartingValueBase e"
  shows "fst (valueCompetitionEntry L e' src scoring t) = Inr x"
proof -
  have "valueCompetitionEntry L e' src scoring = valueCompetitionEntry L e src scoring"
    by (simp add: valueCompetitionEntry_def assms(3-5))
  with assms(1,2) stable_value [of L e scoring] show ?thesis
    unfolding stable_run_def by metis
qed

end

definition memo_later :: "observationMemo \<Rightarrow> observationMemo \<Rightarrow> bool" where
  "memo_later m m' = (om_prices m \<subseteq>\<^sub>m om_prices m' \<and> om_fxRates m \<subseteq>\<^sub>m om_fxRates m')"

lemma memo_price_cases:
  "memo_priceOf L E i tick m =
     (case om_prices m (observationKey i tick) of
        Some hit \<Rightarrow> (Inr hit, m)
      | None \<Rightarrow> (case rbind (ee_latest E tick) (\<lambda>(p, c). rbind (exact_price L p) (\<lambda>x. Inr (x, c))) of
                   Inl e \<Rightarrow> (Inl e, m)
                 | Inr hit \<Rightarrow> (Inr hit, m\<lparr>om_prices := (om_prices m)(observationKey i tick \<mapsto> hit)\<rparr>)))"
  by (simp add: memo_priceOf_def Let_def)

interpretation memo: price_source "memo_source L E" memo_later for L E
proof unfold_locales
  fix s t u i tick a cur x v
  show "memo_later s s" by (simp add: memo_later_def)
  show "memo_later s t \<Longrightarrow> memo_later t u \<Longrightarrow> memo_later s u"
    unfolding memo_later_def by (blast intro: map_le_trans)
  show "memo_later s (snd (ps_priceOf (memo_source L E) i tick s))"
    by (auto simp: memo_source_def memo_price_cases memo_later_def map_le_def split: option.splits sum.splits)
  show "memo_later s (snd (ps_toBase (memo_source L E) a cur s))"
    by (auto simp: memo_source_def memo_toBase_def Let_def memo_later_def map_le_def split: option.splits sum.splits)
  show "fst (ps_priceOf (memo_source L E) i tick s) = Inr x
      \<Longrightarrow> memo_later (snd (ps_priceOf (memo_source L E) i tick s)) t
      \<Longrightarrow> fst (ps_priceOf (memo_source L E) i tick t) = Inr x"
    by (auto simp: memo_source_def memo_price_cases memo_later_def map_le_def dom_def split: option.splits sum.splits)
  show "fst (ps_toBase (memo_source L E) a cur s) = Inr v
      \<Longrightarrow> memo_later (snd (ps_toBase (memo_source L E) a cur s)) t
      \<Longrightarrow> fst (ps_toBase (memo_source L E) a cur t) = Inr v"
    by (auto simp: memo_source_def memo_toBase_def Let_def memo_later_def map_le_def dom_def
        split: option.splits sum.splits if_splits)
qed

text \<open>A stored view only gains observations.\<close>

definition view_later :: "boundaryObservations \<Rightarrow> boundaryObservations \<Rightarrow> bool" where
  "view_later v v' = (bo_prices v \<subseteq>\<^sub>m bo_prices v' \<and> bo_fx v \<subseteq>\<^sub>m bo_fx v')"

lemma map_le_Some: "m \<subseteq>\<^sub>m m' \<Longrightarrow> m k = Some x \<Longrightarrow> m' k = Some x"
  by (metis domI map_le_def)

interpretation boundary: price_source "boundary_source L" view_later for L
proof unfold_locales
  fix s t u i tick a cur x v
  show "view_later s s" by (simp add: view_later_def)
  show "view_later s t \<Longrightarrow> view_later t u \<Longrightarrow> view_later s u"
    unfolding view_later_def by (blast intro: map_le_trans)
  show "view_later s (snd (ps_priceOf (boundary_source L) i tick s))"
    "view_later s (snd (ps_toBase (boundary_source L) a cur s))"
    by (simp_all add: boundary_source_def boundary_priceOf_def boundary_toBase_def view_later_def)
  show "fst (ps_priceOf (boundary_source L) i tick s) = Inr x
      \<Longrightarrow> view_later (snd (ps_priceOf (boundary_source L) i tick s)) t
      \<Longrightarrow> fst (ps_priceOf (boundary_source L) i tick t) = Inr x"
    by (auto simp: boundary_source_def boundary_priceOf_def view_later_def dest: map_le_Some split: option.splits)
  show "fst (ps_toBase (boundary_source L) a cur s) = Inr v
      \<Longrightarrow> view_later (snd (ps_toBase (boundary_source L) a cur s)) t
      \<Longrightarrow> fst (ps_toBase (boundary_source L) a cur t) = Inr v"
    by (auto simp: boundary_source_def boundary_toBase_def view_later_def dest: map_le_Some
        split: option.splits if_splits)
qed

section \<open>What a capture stores\<close>

lemma add_new_Nil [simp]: "add_new key [] m = m"
  by (simp add: add_new_def)

lemma add_new_Cons: "m (key x) = None \<Longrightarrow> add_new key (x # xs) m = add_new key xs (m(key x \<mapsto> x))"
  by (simp add: add_new_def)

lemma add_new_le: "m \<subseteq>\<^sub>m add_new key xs m"
proof (induction xs arbitrary: m)
  case (Cons x xs)
  have "m \<subseteq>\<^sub>m (if m (key x) = None then m(key x \<mapsto> x) else m)"
    by (auto simp: map_le_def)
  with Cons [of "if m (key x) = None then m(key x \<mapsto> x) else m"] show ?case
    by (auto simp: add_new_def intro: map_le_trans)
qed simp

lemma captureSinglePrice_key:
  "captureSinglePrice L E ref eff now = Inr (Some obs) \<Longrightarrow> price_key obs = price_key ref"
  by (auto simp: captureSinglePrice_def Let_def price_key_def split: option.splits sum.splits)

lemma capture_prices_new:
  assumes "capture_prices L E eff now symbols existing pairs = Inr (existing', new, pairs')"
    and "\<forall>(k, ref)\<in>set symbols. k = price_key ref"
  shows "existing' = add_new price_key new existing"
  using assms
proof (induction symbols arbitrary: existing pairs existing' new pairs')
  case (Cons kr rest)
  obtain key ref where kr: "kr = (key, ref)" by (cases kr)
  have keys: "key = price_key ref" "\<forall>(k, ref)\<in>set rest. k = price_key ref"
    using Cons.prems(2) kr by auto
  show ?case
  proof (cases "existing key")
    case None
    with Cons.prems(1) kr obtain c where c: "captureSinglePrice L E ref eff now = Inr c" by auto
    show ?thesis
    proof (cases c)
      case none: None
      with Cons.prems(1) kr None c have "capture_prices L E eff now rest existing pairs = Inr (existing', new, pairs')"
        by simp
      then show ?thesis using keys(2) by (rule Cons.IH)
    next
      case (Some obs)
      have k: "price_key obs = key" using captureSinglePrice_key [of L E ref eff now obs] c Some keys(1) by simp
      obtain new' where new: "new = obs # new'"
        and rest: "capture_prices L E eff now rest (existing(key \<mapsto> obs)) (add_pair (po_Currency obs) pairs) = Inr (existing', new', pairs')"
        using Cons.prems(1) kr None c Some by auto
      have "existing' = add_new price_key new' (existing(key \<mapsto> obs))"
        using rest keys(2) by (rule Cons.IH)
      then show ?thesis using new None k by (simp only: add_new_Cons)
    qed
  next
    case (Some x)
    with Cons.prems(1) kr have "capture_prices L E eff now rest existing pairs = Inr (existing', new, pairs')" by simp
    then show ?thesis using keys(2) by (rule Cons.IH)
  qed
qed simp

lemma cut_arrow_join: "cut_arrow s = Some (a, b) \<Longrightarrow> fxPairKey a b = s"
proof (induction s arbitrary: a)
  case (Cons c cs)
  then show ?case
    by (cases cs) (auto simp: fxPairKey_def split: if_splits)
qed simp

lemma capture_fx_new:
  "capture_fx L E now pairs existing = Inr (existing', new) \<Longrightarrow> existing' = add_new fx_key new existing"
proof (induction pairs arbitrary: existing existing' new)
  case (Cons pair rest)
  show ?case
  proof (cases "existing pair")
    case None
    show ?thesis
    proof (cases "cut_arrow pair")
      case none: None
      with Cons.prems None have "capture_fx L E now rest existing = Inr (existing', new)" by simp
      then show ?thesis by (rule Cons.IH)
    next
      case (Some ft)
      obtain fr to where ft: "ft = (fr, to)" by (cases ft)
      have key: "fxPairKey fr to = pair" using cut_arrow_join Some ft by blast
      show ?thesis
      proof (cases "ee_convert E (Fin 1) fr to")
        case (Inl e)
        with Cons.prems None Some ft have "capture_fx L E now rest existing = Inr (existing', new)" by simp
        then show ?thesis by (rule Cons.IH)
      next
        case (Inr rate)
        obtain x new' where new: "new = \<lparr>fo_FromCurrency = fr, fo_ToCurrency = to, fo_Rate = x, fo_ObservedAt = now\<rparr> # new'"
          and rest: "capture_fx L E now rest (existing(pair \<mapsto> \<lparr>fo_FromCurrency = fr, fo_ToCurrency = to, fo_Rate = x, fo_ObservedAt = now\<rparr>))
                     = Inr (existing', new')"
          using Cons.prems None Some ft Inr by (auto simp: Let_def)
        have "fx_key \<lparr>fo_FromCurrency = fr, fo_ToCurrency = to, fo_Rate = x, fo_ObservedAt = now\<rparr> = pair"
          using key by (simp add: fx_key_def)
        then show ?thesis using Cons.IH [OF rest] new None by (simp only: add_new_Cons)
      qed
    qed
  next
    case (Some x)
    with Cons.prems have "capture_fx L E now rest existing = Inr (existing', new)" by simp
    then show ?thesis by (rule Cons.IH)
  qed
qed simp

lemma symbol_keys_fold:
  assumes "\<forall>(k, ref)\<in>set acc. k = price_key ref"
  shows "\<forall>(k, ref)\<in>set (foldl (\<lambda>m s. AList.update (observationKey (sp_InstrumentID s) (sp_Symbol s))
          (zero_PriceObservation\<lparr>po_InstrumentID := sp_InstrumentID s, po_VenueMIC := sp_VenueMIC s,
                                 po_Symbol := sp_Symbol s\<rparr>) m) acc ss). k = price_key ref"
  using assms
proof (induction ss arbitrary: acc)
  case (Cons s ss)
  have upd: "set (AList.update k v al) \<subseteq> insert (k, v) (set al)" for k v and al :: "(string \<times> PriceObservation) list"
    by (induction al) auto
  show ?case
    using Cons.prems by (simp only: foldl_Cons) (rule Cons.IH, use upd in \<open>fastforce simp: price_key_def\<close>)
qed simp

lemma entry_symbols_keys: "\<forall>(k, ref)\<in>set (entry_symbols entries). k = price_key ref"
  unfolding entry_symbols_def by (rule symbol_keys_fold) simp

definition obs_ok :: "CompRepo \<Rightarrow> bool" where
  "obs_ok r = (\<forall>k m. cr_observations r k = Some m \<longrightarrow> os_ID (ms_set m) = k)"

definition obs_grows :: "memoryObservationSet option \<Rightarrow> memoryObservationSet \<Rightarrow> bool" where
  "obs_grows old m' =
     (case old of None \<Rightarrow> True
      | Some m \<Rightarrow> ms_prices m \<subseteq>\<^sub>m ms_prices m' \<and> ms_fx m \<subseteq>\<^sub>m ms_fx m'
                  \<and> (os_Status (ms_set m) = ObservationSealed \<longrightarrow> m' = m))"

lemma EnsureObservationSet_spec:
  assumes "EnsureObservationSet cid b eff prov r = (s, r1)" "obs_ok r"
  shows "os_ID s = observationSetKey cid b \<and> obs_ok r1
    \<and> (\<exists>m. r1 = r\<lparr>cr_observations := (cr_observations r)(observationSetKey cid b \<mapsto> m)\<rparr> \<and> ms_set m = s
           \<and> obs_grows (cr_observations r (observationSetKey cid b)) m
           \<and> (cr_observations r (observationSetKey cid b) = Some m
              \<or> cr_observations r (observationSetKey cid b) = None \<and> ms_prices m = Map.empty \<and> ms_fx m = Map.empty
                \<and> os_Status s = ObservationPending))"
proof (cases "cr_observations r (observationSetKey cid b)")
  case None
  with assms show ?thesis
    by (auto simp: EnsureObservationSet_def Let_def obs_ok_def obs_grows_def split: if_splits)
next
  case (Some m)
  with assms have "s = ms_set m" "r1 = r"
    by (auto simp: EnsureObservationSet_def Let_def)
  moreover have "(cr_observations r)(observationSetKey cid b \<mapsto> m) = cr_observations r"
    using Some by auto
  ultimately show ?thesis
    using Some assms(2) by (auto simp: obs_ok_def obs_grows_def intro!: exI [of _ m])
qed

text \<open>A capture that goes on past the sealed test, from the stored set \<open>m\<close>.\<close>

lemma capture_pending:
  assumes run: "captureObservations L E cid b eff entries lastBatch now r = (res, r')"
    and ens: "EnsureObservationSet cid b eff observationProvider r = (s, r1)"
    and m: "cr_observations r1 key = Some m" "os_ID s = key" "ms_set m = s" "os_Status s \<noteq> ObservationSealed"
  shows "(\<exists>e. res = Inl e \<and> r' = r1)
     \<or> (\<exists>newP newF m'. res = Inr \<lparr>bo_prices = add_new price_key newP (ms_prices m), bo_fx = add_new fx_key newF (ms_fx m)\<rparr>
          \<and> (r' = r1 \<and> newP = [] \<and> newF = []
             \<or> r' = r1\<lparr>cr_observations := (cr_observations r1)(key \<mapsto> m')\<rparr> \<and> os_ID (ms_set m') = key
               \<and> ms_prices m' = add_new price_key newP (ms_prices m) \<and> ms_fx m' = add_new fx_key newF (ms_fx m)))"
proof -
  let ?sy = "entry_symbols entries" and ?pa = "entry_pairs entries"
  have load: "LoadObservations key r1 = (ms_prices m, ms_fx m)"
    using m(1) by (simp add: LoadObservations_def)
  note start = run [unfolded captureObservations_def, simplified ens load m(2) Let_def prod.case m(4) if_False entrySymbolsAndPairs_def]
  show ?thesis
  proof (cases "capture_prices L E eff now ?sy (ms_prices m) ?pa")
    case (Inl e)
    with start load m show ?thesis by (auto simp: prod_eq_iff)
  next
    case (Inr ok)
    obtain prices newP pairs where P: "capture_prices L E eff now ?sy (ms_prices m) ?pa = Inr (prices, newP, pairs)"
      using Inr by (cases ok) auto
    have prices: "prices = add_new price_key newP (ms_prices m)"
      by (rule capture_prices_new [OF P entry_symbols_keys])
    show ?thesis
    proof (cases "capture_fx L E now pairs (ms_fx m)")
      case (Inl e)
      with start load m P show ?thesis by (auto simp: prod_eq_iff)
    next
      case (Inr ok2)
      obtain rates newF where F: "capture_fx L E now pairs (ms_fx m) = Inr (rates, newF)"
        using Inr by (cases ok2) auto
      have rates: "rates = add_new fx_key newF (ms_fx m)"
        by (rule capture_fx_new [OF F])
      have rec: "\<exists>m'. RecordObservations key newP newF sealed now r1 = Inr (r1\<lparr>cr_observations := (cr_observations r1)(key \<mapsto> m')\<rparr>)
          \<and> os_ID (ms_set m') = key \<and> ms_prices m' = prices \<and> ms_fx m' = rates" for sealed
        using m prices rates by (auto simp: RecordObservations_def Let_def)
      define sealed where "sealed = ((list_all (\<lambda>(key, ref). prices key \<noteq> None) ?sy \<and> list_all (\<lambda>pair. rates pair \<noteq> None) pairs) \<and> lastBatch)"
      obtain m' where m': "RecordObservations key newP newF sealed now r1 = Inr (r1\<lparr>cr_observations := (cr_observations r1)(key \<mapsto> m')\<rparr>)"
        "os_ID (ms_set m') = key" "ms_prices m' = prices" "ms_fx m' = rates"
        using rec by blast
      have "(res, r') = (if newP \<noteq> [] \<or> newF \<noteq> [] \<or> sealed
               then (Inr \<lparr>bo_prices = prices, bo_fx = rates\<rparr>, r1\<lparr>cr_observations := (cr_observations r1)(key \<mapsto> m')\<rparr>)
               else (Inr \<lparr>bo_prices = prices, bo_fx = rates\<rparr>, r1))"
        using start m'(1) unfolding sealed_def
        by (auto simp: P F load m simp del: not_None_eq split: if_splits)
      then show ?thesis
        using prices rates m'(2-4) by (cases "newP \<noteq> [] \<or> newF \<noteq> [] \<or> sealed") (auto intro!: exI)
    qed
  qed
qed

text \<open>
  The observation set after a capture: the view is what is stored, it extends what was stored, a sealed
  set is left as it is, and nothing else of the repository changes.
\<close>

lemma captureObservations_stored:
  assumes run: "captureObservations L E cid b eff entries lastBatch now r = (res, r')" and ok: "obs_ok r"
  shows "obs_ok r'
     \<and> (\<exists>m'. r' = r\<lparr>cr_observations := (cr_observations r)(observationSetKey cid b \<mapsto> m')\<rparr>
          \<and> obs_grows (cr_observations r (observationSetKey cid b)) m'
          \<and> (\<forall>view. res = Inr view \<longrightarrow> view = \<lparr>bo_prices = ms_prices m', bo_fx = ms_fx m'\<rparr>))"
proof -
  let ?key = "observationSetKey cid b"
  obtain s r1 where ens: "EnsureObservationSet cid b eff observationProvider r = (s, r1)"
    by (cases "EnsureObservationSet cid b eff observationProvider r")
  obtain m where m: "os_ID s = ?key" "obs_ok r1" "r1 = r\<lparr>cr_observations := (cr_observations r)(?key \<mapsto> m)\<rparr>"
    "ms_set m = s" "obs_grows (cr_observations r ?key) m"
    using EnsureObservationSet_spec [OF ens ok] by blast
  have r1: "cr_observations r1 ?key = Some m" using m(3) by simp
  show ?thesis
  proof (cases "os_Status s = ObservationSealed")
    case True
    have "LoadObservations ?key r1 = (ms_prices m, ms_fx m)" using r1 by (simp add: LoadObservations_def)
    with True run ens m show ?thesis
      by (auto simp: captureObservations_def Let_def intro!: exI [of _ m])
  next
    case False
    have grow: "obs_grows (cr_observations r ?key) m'"
      if "ms_prices m' = add_new price_key newP (ms_prices m)" "ms_fx m' = add_new fx_key newF (ms_fx m)" for m' newP newF
      using m(4,5) False that add_new_le [of "ms_prices m" price_key newP] add_new_le [of "ms_fx m" fx_key newF]
      by (auto simp: obs_grows_def intro: map_le_trans split: option.splits)
    from capture_pending [OF run ens r1 m(1) m(4) False]
    show ?thesis
    proof (elim disjE exE conjE)
      fix e assume "res = Inl e" "r' = r1"
      with m show ?thesis by (intro conjI exI [of _ m]) simp_all
    next
      fix newP newF m'
      assume "res = Inr \<lparr>bo_prices = add_new price_key newP (ms_prices m), bo_fx = add_new fx_key newF (ms_fx m)\<rparr>"
        "r' = r1" "newP = []" "newF = []"
      with m show ?thesis by (intro conjI exI [of _ m]) simp_all
    next
      fix newP newF m'
      assume res: "res = Inr \<lparr>bo_prices = add_new price_key newP (ms_prices m), bo_fx = add_new fx_key newF (ms_fx m)\<rparr>"
        and r': "r' = r1\<lparr>cr_observations := (cr_observations r1)(?key \<mapsto> m')\<rparr>"
        and m': "os_ID (ms_set m') = ?key" "ms_prices m' = add_new price_key newP (ms_prices m)"
          "ms_fx m' = add_new fx_key newF (ms_fx m)"
      have "obs_ok r'" using m(2) m'(1) r' by (auto simp: obs_ok_def split: if_splits)
      moreover have "r' = r\<lparr>cr_observations := (cr_observations r)(?key \<mapsto> m')\<rparr>" using r' m(3) by simp
      ultimately show ?thesis
        using grow [OF m'(2,3)] res m' by (intro conjI exI [of _ m']) simp_all
    qed
  qed
qed

lemma captured_views_grow:
  assumes "obs_ok r"
    and "captureObservations L E cid b eff entries lastBatch now r = (Inr v1, r1)"
    and "cr_observations r2 = cr_observations r1"
    and "captureObservations L E' cid b eff' entries' lastBatch' now' r2 = (Inr v2, r3)"
  shows "view_later v1 v2"
proof -
  obtain m1 where m1: "obs_ok r1" "r1 = r\<lparr>cr_observations := (cr_observations r)(observationSetKey cid b \<mapsto> m1)\<rparr>"
    "v1 = \<lparr>bo_prices = ms_prices m1, bo_fx = ms_fx m1\<rparr>"
    using captureObservations_stored [OF assms(2,1)] by blast
  have "obs_ok r2" using m1(1) assms(3) by (simp add: obs_ok_def)
  then obtain m2 where m2: "obs_grows (cr_observations r2 (observationSetKey cid b)) m2"
    "v2 = \<lparr>bo_prices = ms_prices m2, bo_fx = ms_fx m2\<rparr>"
    using captureObservations_stored [OF assms(4)] by blast
  with m1 assms(3) show ?thesis
    by (simp add: view_later_def obs_grows_def)
qed

text \<open>When every price is stored and no cash asks for a rate, a capture asks for nothing.\<close>

lemma capture_prices_known:
  "\<forall>(k, ref)\<in>set symbols. existing k \<noteq> None \<Longrightarrow>
     capture_prices L E eff now symbols existing pairs = Inr (existing, [], pairs)"
  by (induction symbols) auto

lemma capture_known:
  assumes m: "obs_ok r" "cr_observations r (observationSetKey cid b) = Some m"
    "os_Status (ms_set m) \<noteq> ObservationSealed"
    and known: "\<forall>(k, ref)\<in>set (entry_symbols entries). ms_prices m k \<noteq> None"
    and cash: "entry_pairs entries = []"
  shows "captureObservations L E cid b eff entries True now r =
     (Inr \<lparr>bo_prices = ms_prices m, bo_fx = ms_fx m\<rparr>,
      r\<lparr>cr_observations := (cr_observations r)(observationSetKey cid b \<mapsto>
          m\<lparr>ms_set := (ms_set m)\<lparr>os_Status := ObservationSealed, os_CompletedAt := Some now\<rparr>\<rparr>)\<rparr>)"
proof -
  have ens: "EnsureObservationSet cid b eff observationProvider r = (ms_set m, r)"
    using m(2) by (simp add: EnsureObservationSet_def Let_def)
  have ID: "os_ID (ms_set m) = observationSetKey cid b" using m(1,2) by (simp add: obs_ok_def)
  have all: "list_all (\<lambda>(k, ref). ms_prices m k \<noteq> None) (entry_symbols entries)"
    using known by (simp add: list_all_iff)
  have P: "capture_prices L E eff now (entry_symbols entries) (ms_prices m) [] = Inr (ms_prices m, [], [])"
    using known by (rule capture_prices_known)
  have R: "RecordObservations (observationSetKey cid b) [] [] True now r =
      Inr (r\<lparr>cr_observations := (cr_observations r)(observationSetKey cid b \<mapsto>
          m\<lparr>ms_set := (ms_set m)\<lparr>os_Status := ObservationSealed, os_CompletedAt := Some now\<rparr>\<rparr>)\<rparr>)"
    using m by (cases m) (simp add: RecordObservations_def Let_def)
  show ?thesis
    using m cash all
    by (simp add: captureObservations_def ens Let_def ID LoadObservations_def entrySymbolsAndPairs_def
        P R case_prod_beta del: not_None_eq)
qed

text \<open>Reading a view leaves it as it is.\<close>

lemma view_unchanged:
  shows sum_keeps: "(\<And>x. snd (base x v) = v) \<Longrightarrow> snd (sum_included L included base acc xs v) = v"
    and position_keeps: "snd (position_base L (boundary_source L) scoring p v) = v"
    and cash_keeps: "snd (cash_base L (boundary_source L) scoring c v) = v"
proof -
  show "snd (sum_included L included base acc xs v) = v" if keep: "\<And>x. snd (base x v) = v"
  proof (induction xs arbitrary: acc)
    case (Cons x xs)
    obtain a where "base x v = (a, v)" using keep [of x] by (cases "base x v") auto
    then show ?case using Cons by (cases a) (auto split: sum.splits)
  qed simp
  show cash: "snd (cash_base L (boundary_source L) scoring c v) = v"
    by (simp add: cash_base_def boundary_source_def boundary_toBase_def)
  show "snd (position_base L (boundary_source L) scoring p v) = v"
    by (auto simp: position_base_def andThen_def Let_def boundary_source_def boundary_priceOf_def boundary_toBase_def
        split: sum.splits prod.splits)
qed

lemma andThen_keeps: "snd (m v) = v \<Longrightarrow> (\<And>x. snd (f x v) = v) \<Longrightarrow> snd (andThen m f v) = v"
  by (cases "m v"; cases "fst (m v)") auto

lemma value_keeps_view: "snd (valueCompetitionEntry L e (boundary_source L) scoring v) = v"
  unfolding valueCompetitionEntry_def
  by (auto intro!: andThen_keeps sum_keeps position_keeps cash_keeps split: sum.splits)

section \<open>A small boundary\<close>

text \<open>One holding of ten units, started from 1000; a provider that answers a price and a rate.\<close>

definition demo_holding :: EntrySnapshotPosition where
  "demo_holding =
     \<lparr>sp_ID = ''s'', sp_CompetitionEntryID = ''e'', sp_Symbol = ''ACME'', sp_AssetType = ''stock'', sp_Quantity = 10,
      sp_Currency = ''EUR'', sp_StartingPrice = 100, sp_StartingPriceCurrency = ''EUR'', sp_StartingValueBase = 1000,
      sp_InstrumentID = ''i'', sp_VenueMIC = ''X'', sp_ClassificationSnapshotJSON = [], sp_IncludedInScore = True,
      sp_StartingWeight = 1, sp_BaselinePriceObservedAt = None, sp_BaselineFXObservedAt = None, sp_OriginalQuantity = 0\<rparr>"

definition demo_entry :: CompetitionEntry where
  "demo_entry =
     \<lparr>en_ID = ''e'', en_CompetitionID = ''c'', en_UserID = ''u'', en_StartingValue = 1000, en_StartingIndex = 100,
      en_JoinedAt = 0, en_Snapshots = [demo_holding], en_EntryStatus = EntryActive, en_PortfolioVersion = 1,
      en_SnapshotCapturedAt = Some 0, en_EligibilityEvidenceJSON = [], en_ScoringScope = ScopeFullPortfolio,
      en_EligibleStartingValueBase = 1000, en_BaselineStatus = BaselineCompleted, en_BaselineCompletedAt = Some 0,
      en_DisqualificationReason = [], en_WithdrawnAt = None, en_CashSnapshots = [], en_IdempotencyKey = ''k'',
      en_RequestFingerprint = []\<rparr>"

definition demo_codec :: codec where
  "demo_codec = \<lparr>cd_snapshot = (\<lambda>_. None), cd_eligibility = (\<lambda>_. None), cd_scoring = (\<lambda>_. None),
     cd_encodeResult = (\<lambda>_. []), cd_decodeResult = (\<lambda>_. None), cd_encodeMap = (\<lambda>_. [])\<rparr>"

definition demo_engine :: "float64 \<Rightarrow> (comp_err + float64) \<Rightarrow> engine" where
  "demo_engine price rate =
     \<lparr>ee_latest = (\<lambda>_. Inr (price, ''EUR'')), ee_history = None, ee_convert = (\<lambda>_ _ _. rate), ee_adjust = None,
      ee_snapshots = None, ee_universes = None, ee_codec = demo_codec, ee_sha256 = (\<lambda>s. s),
      ee_errorText = (\<lambda>_. []), ee_listPositions = (\<lambda>_. Inr []), ee_user = (\<lambda>_. None), ee_baselineWindow = 0,
      ee_rankingBatchSize = 0, ee_finalizationWindow = 0, ee_finalizationBatchSize = 0\<rparr>"

definition demo_scoring :: Scoring where
  "demo_scoring = \<lparr>sc_SchemaVersion = 1, sc_Scope = ScopeFullPortfolio, sc_Filter = None, sc_IncludeCash = True,
     sc_IncludeDividends = None, sc_IncludeFees = None, sc_IncludeFX = None, sc_LegacyJoinTimeBaseline = False\<rparr>"

abbreviation demo_capture :: "float64 \<Rightarrow> (comp_err + float64) \<Rightarrow> bool \<Rightarrow> (CompRepo, boundaryObservations) run" where
  "demo_capture price rate lastBatch \<equiv>
     captureObservations std_declib (demo_engine price rate) ''c'' BoundaryStart 5 [demo_entry] lastBatch 7"

section \<open>Properties\<close>

text \<open>
  Every participant of a boundary is priced at the same moment: a composition that one pass could value
  from the start or end observations gets exactly the same value in any later pass, whatever the price and
  currency providers answer by then, in which batch it is and when the pass runs.
\<close>

theorem observations_shared:
  assumes "obs_ok r"
    and "captureObservations L E cid b eff entries lastBatch now r = (Inr v1, r1)"
    and "cr_observations r2 = cr_observations r1"
    and "captureObservations L E' cid b eff' entries' lastBatch' now' r2 = (Inr v2, r3)"
    and "fst (valueCompetitionEntry L e (boundary_source L) scoring v1) = Inr x"
    and "en_Snapshots e' = en_Snapshots e" "en_CashSnapshots e' = en_CashSnapshots e"
      "en_EligibleStartingValueBase e' = en_EligibleStartingValueBase e"
  shows "fst (valueCompetitionEntry L e' (boundary_source L) scoring v2) = Inr x"
proof (rule boundary.value_again [OF assms(5) _ assms(6-8)])
  show "view_later (snd (valueCompetitionEntry L e (boundary_source L) scoring v1)) v2"
    using captured_views_grow [OF assms(1-4)] by (simp add: value_keeps_view)
qed

theorem observations_shared_witness:
  "fst (valueCompetitionEntry std_declib demo_entry (boundary_source std_declib) demo_scoring
     (projr (fst (demo_capture (Fin 300) (Inr (Fin 2)) True
        (snd (demo_capture (Fin 50) (Inr (Fin 2)) False NewInMemoryCompetitionRepository)))))) = Inr (100, 0)"
proof -
  let ?p1 = "demo_capture (Fin 50) (Inr (Fin 2)) False NewInMemoryCompetitionRepository"
  let ?p2 = "demo_capture (Fin 300) (Inr (Fin 2)) True (snd ?p1)"
  have "\<not> isl (fst ?p1)" "\<not> isl (fst ?p2)" by code_simp+
  then have p: "?p1 = (Inr (projr (fst ?p1)), snd ?p1)" "?p2 = (Inr (projr (fst ?p2)), snd ?p2)"
    by (simp_all add: prod_eq_iff)
  have "fst (valueCompetitionEntry std_declib demo_entry (boundary_source std_declib) demo_scoring (projr (fst ?p1))) = Inr (100, 0)"
    by code_simp
  moreover have "obs_ok NewInMemoryCompetitionRepository"
    by (simp add: obs_ok_def NewInMemoryCompetitionRepository_def)
  ultimately show ?thesis
    using observations_shared [OF _ p(1) refl p(2), of demo_entry demo_scoring] by simp
qed

text \<open>
  A currency rate that could not be captured in the pass that first stored a price is never asked for
  again: with the price stored, no later pass requests the pair, and the pass over the last batch seals the
  set without it, so no provider can complete the boundary any more.
\<close>

theorem missing_rate_sealed:
  assumes "obs_ok r" "cr_observations r (observationSetKey cid b) = Some m"
    and "os_Status (ms_set m) \<noteq> ObservationSealed"
    and "\<forall>(k, ref)\<in>set (entry_symbols entries). ms_prices m k \<noteq> None"
    and "entry_pairs entries = []"
  shows "\<exists>r' m'. captureObservations L E cid b eff entries True now r = (Inr \<lparr>bo_prices = ms_prices m, bo_fx = ms_fx m\<rparr>, r')
     \<and> cr_observations r' (observationSetKey cid b) = Some m'
     \<and> os_Status (ms_set m') = ObservationSealed \<and> ms_fx m' = ms_fx m
     \<and> (\<forall>E'' entries'' eff'' now'' l. captureObservations L E'' cid b eff'' entries'' l now'' r'
           = (Inr \<lparr>bo_prices = ms_prices m, bo_fx = ms_fx m\<rparr>, r'))"
proof -
  let ?key = "observationSetKey cid b"
  let ?m = "m\<lparr>ms_set := (ms_set m)\<lparr>os_Status := ObservationSealed, os_CompletedAt := Some now\<rparr>\<rparr>"
  let ?r = "r\<lparr>cr_observations := (cr_observations r)(?key \<mapsto> ?m)\<rparr>"
  have "os_ID (ms_set m) = ?key" using assms(1,2) by (simp add: obs_ok_def)
  then have "captureObservations L E'' cid b eff'' entries'' l now'' ?r
        = (Inr \<lparr>bo_prices = ms_prices m, bo_fx = ms_fx m\<rparr>, ?r)" for E'' entries'' eff'' now'' l
    by (simp add: captureObservations_def EnsureObservationSet_def Let_def LoadObservations_def)
  then show ?thesis
    using capture_known [OF assms, of L E eff now] by (intro exI [of _ ?r] exI [of _ ?m]) simp
qed

text \<open>The first pass gets the price and no rate; the second, whose providers answer everything, seals.\<close>

theorem missing_rate_sealed_witness:
  "\<exists>r m'. snd (demo_capture (Fin 50) (Inr (Fin 2)) True
        (snd (demo_capture (Fin 50) (Inl (ErrFX [])) False NewInMemoryCompetitionRepository))) = r
      \<and> cr_observations r (observationSetKey ''c'' BoundaryStart) = Some m'
      \<and> os_Status (ms_set m') = ObservationSealed \<and> ms_fx m' (fxPairKey ''EUR'' ''USD'') = None"
proof -
  let ?p1 = "demo_capture (Fin 50) (Inl (ErrFX [])) False NewInMemoryCompetitionRepository"
  let ?key = "observationSetKey ''c'' BoundaryStart"
  define r1 where "r1 = snd ?p1"
  have "obs_ok NewInMemoryCompetitionRepository"
    by (simp add: obs_ok_def NewInMemoryCompetitionRepository_def)
  then have ok: "obs_ok r1"
    using captureObservations_stored [of std_declib "demo_engine (Fin 50) (Inl (ErrFX []))" "''c''" BoundaryStart 5
        "[demo_entry]" False 7 NewInMemoryCompetitionRepository "fst ?p1" "snd ?p1"]
    by (simp add: r1_def)
  have "case cr_observations r1 ?key of None \<Rightarrow> False
      | Some m \<Rightarrow> os_Status (ms_set m) = ObservationPending \<and> ms_prices m (observationKey ''i'' ''ACME'') \<noteq> None
                   \<and> ms_fx m (fxPairKey ''EUR'' ''USD'') = None"
    unfolding r1_def by code_simp
  then obtain m where m: "cr_observations r1 ?key = Some m" "os_Status (ms_set m) = ObservationPending"
    "ms_prices m (observationKey ''i'' ''ACME'') \<noteq> None" "ms_fx m (fxPairKey ''EUR'' ''USD'') = None"
    by (auto split: option.splits)
  have "map fst (entry_symbols [demo_entry]) = [observationKey ''i'' ''ACME'']" "entry_pairs [demo_entry] = []"
    by code_simp+
  then have known: "\<forall>(k, ref)\<in>set (entry_symbols [demo_entry]). ms_prices m k \<noteq> None" "entry_pairs [demo_entry] = []"
    using m(3) by auto
  obtain r' m' where "demo_capture (Fin 50) (Inr (Fin 2)) True r1 = (Inr \<lparr>bo_prices = ms_prices m, bo_fx = ms_fx m\<rparr>, r')"
    "cr_observations r' ?key = Some m'" "os_Status (ms_set m') = ObservationSealed" "ms_fx m' = ms_fx m"
    using missing_rate_sealed [OF ok m(1) _ known, of std_declib "demo_engine (Fin 50) (Inr (Fin 2))" 5 7] m(2) by auto
  with m(4) show ?thesis unfolding r1_def [symmetric] by (intro exI [of _ r'] exI [of _ m']) simp
qed

end
