(* ===== verification/OrderLaws.thy ===== *)
theory OrderLaws
  imports Prelude "HOL-Library.Multiset"
begin

text \<open>
  Sorting by a Go \<^verbatim>\<open>less\<close> function. The locale \<open>row_order\<close> is the contract of \<^verbatim>\<open>sort.SliceStable\<close>: \<open>less\<close> is a
  strict weak order. Its lemmas give the sorted result, and the position of a row as the number of rows before
  it. The orders of the program are all of the form \<open>by_score\<close>, a number descending and then texts ascending.
\<close>

section \<open>The stable sort\<close>

lemma mset_insort_by [simp]: "mset (insort_by lt x xs) = add_mset x (mset xs)"
  by (induction xs) auto

lemma isort_simps [simp]: "isort lt [] = []" "isort lt (x # xs) = insort_by lt x (isort lt xs)"
  by (simp_all add: isort_def)

lemma mset_isort [simp]: "mset (isort lt xs) = mset xs"
  by (induction xs) auto

lemma set_isort [simp]: "set (isort lt xs) = set xs"
  using mset_isort by (rule mset_eq_setD)

lemma length_isort [simp]: "length (isort lt xs) = length xs"
  using mset_isort by (rule mset_eq_length)

lemma distinct_isort [simp]: "distinct (isort lt xs) = distinct xs"
  using mset_isort by (rule mset_eq_imp_distinct_iff)

lemma set_insort_by [simp]: "set (insort_by lt x xs) = insert x (set xs)"
  by (induction xs) auto

locale row_order =
  fixes lt :: "'a \<Rightarrow> 'a \<Rightarrow> bool"
  assumes asym: "lt a b \<Longrightarrow> \<not> lt b a"
    and negtrans: "\<not> lt a b \<Longrightarrow> \<not> lt b c \<Longrightarrow> \<not> lt a c"
begin

lemma irrefl: "\<not> lt a a"
  using asym by blast

lemma transitive: "lt a b \<Longrightarrow> lt b c \<Longrightarrow> lt a c"
  using asym negtrans by blast

lemma sorted_insort_by:
  "sorted_wrt (\<lambda>a b. \<not> lt b a) xs \<Longrightarrow> sorted_wrt (\<lambda>a b. \<not> lt b a) (insort_by lt x xs)"
  by (induction xs) (auto dest: asym, blast dest: negtrans)

lemma sorted_isort: "sorted_wrt (\<lambda>a b. \<not> lt b a) (isort lt xs)"
  by (induction xs) (auto intro: sorted_insort_by)

text \<open>The position of a row, when no two rows tie, is the number of rows that come before it.\<close>

lemma rank_of_row:
  assumes "distinct xs" "\<And>a b. a \<in> set xs \<Longrightarrow> b \<in> set xs \<Longrightarrow> a \<noteq> b \<Longrightarrow> lt a b \<or> lt b a"
    and "i < length xs"
  shows "card {x \<in> set xs. lt x (isort lt xs ! i)} = i"
proof -
  let ?ys = "isort lt xs"
  have sorted: "j < k \<Longrightarrow> k < length xs \<Longrightarrow> \<not> lt (?ys ! k) (?ys ! j)" for j k
    using sorted_isort [of xs] by (simp add: sorted_wrt_iff_nth_less)
  have d: "distinct ?ys" using assms(1) by simp
  have "{x \<in> set xs. lt x (?ys ! i)} = (\<lambda>j. ?ys ! j) ` {..<i}"
  proof (intro equalityI subsetI)
    fix x assume "x \<in> {x \<in> set xs. lt x (?ys ! i)}"
    then have x: "x \<in> set ?ys" "lt x (?ys ! i)" by auto
    obtain j where j: "j < length xs" "x = ?ys ! j"
      using x(1) by (metis in_set_conv_nth length_isort)
    have "j < i"
    proof (rule ccontr)
      assume "\<not> j < i"
      then consider "j = i" | "i < j" by linarith
      then show False using x(2) j sorted [of i j] irrefl by cases auto
    qed
    with j show "x \<in> (\<lambda>j. ?ys ! j) ` {..<i}" by auto
  next
    fix x assume "x \<in> (\<lambda>j. ?ys ! j) ` {..<i}"
    then obtain j where j: "j < i" "x = ?ys ! j" by auto
    have mem: "?ys ! j \<in> set xs" "?ys ! i \<in> set xs"
      using j(1) assms(3) nth_mem [of j ?ys] nth_mem [of i ?ys] by auto
    have "?ys ! j \<noteq> ?ys ! i"
      using d j(1) assms(3) by (simp add: nth_eq_iff_index_eq)
    then have "lt (?ys ! j) (?ys ! i)"
      using assms(2) [OF mem] sorted [OF j(1) assms(3)] by blast
    with j(2) mem(1) show "x \<in> {x \<in> set xs. lt x (?ys ! i)}" by simp
  qed
  moreover have "inj_on (\<lambda>j. ?ys ! j) {..<i}"
    using d assms(3) by (auto simp: inj_on_def nth_eq_iff_index_eq)
  ultimately show ?thesis by (simp add: card_image)
qed

text \<open>Sorting what is already sorted changes nothing.\<close>

lemma isort_sorted: "sorted_wrt (\<lambda>a b. \<not> lt b a) xs \<Longrightarrow> isort lt xs = xs"
proof (induction xs)
  case (Cons x xs)
  then show ?case by (cases xs) auto
qed simp

end

section \<open>The orders of the program\<close>

lemma str_less_irrefl [simp]: "\<not> str_less s s"
  by (induction s) auto

lemma str_less_asym: "str_less s t \<Longrightarrow> \<not> str_less t s"
  by (induction s t rule: str_less.induct) auto

lemma str_less_total: "s \<noteq> t \<Longrightarrow> str_less s t \<or> str_less t s"
proof (induction s t rule: str_less.induct)
  case (3 c cs d ds)
  then show ?case
    by (cases "c = d") (auto simp: linorder_neq_iff [symmetric])
next
  case (1 s)
  then show ?case by (cases s) auto
qed auto

lemma str_less_trans: "str_less s t \<Longrightarrow> str_less t u \<Longrightarrow> str_less s u"
proof (induction s t arbitrary: u rule: str_less.induct)
  case (3 c cs d ds)
  then show ?case by (cases u) (auto dest: less_trans)
next
  case (2 d ds)
  then show ?case by (cases u) auto
qed auto

text \<open>A score descending, then a text ascending, then another text ascending.\<close>

definition by_score :: "('a \<Rightarrow> rat) \<Rightarrow> ('a \<Rightarrow> string) \<Rightarrow> ('a \<Rightarrow> string) \<Rightarrow> 'a \<Rightarrow> 'a \<Rightarrow> bool" where
  "by_score f g h a b =
     (if f a \<noteq> f b then f b < f a
      else if g a \<noteq> g b then str_less (g a) (g b) else str_less (h a) (h b))"

lemma by_score_total: "h a \<noteq> h b \<Longrightarrow> by_score f g h a b \<or> by_score f g h b a"
  using str_less_total [of "g a" "g b"] str_less_total [of "h a" "h b"]
  by (auto simp: by_score_def)

lemma by_score_same: "by_score f g h a b = by_score f g h a' b'"
  if "f a = f a'" "g a = g a'" "h a = h a'" "f b = f b'" "g b = g b'" "h b = h b'"
  using that by (simp add: by_score_def)

interpretation score: row_order "by_score f g h" for f g h
proof unfold_locales
  fix a b c
  show "by_score f g h a b \<Longrightarrow> \<not> by_score f g h b a"
    by (auto simp: by_score_def dest: str_less_asym split: if_splits)
  have nl: "\<not> str_less s t \<longleftrightarrow> s = t \<or> str_less t s" for s t
    using str_less_total str_less_asym by auto
  show "\<not> by_score f g h a b \<Longrightarrow> \<not> by_score f g h b c \<Longrightarrow> \<not> by_score f g h a c"
    by (auto simp: by_score_def nl split: if_splits dest: str_less_trans str_less_asym)
qed

text \<open>A number ascending.\<close>

interpretation number: row_order "\<lambda>a b. (f a :: int) < f b" for f
  by unfold_locales auto

end
