(* ===== verification/RankLaws.thy ===== *)
theory RankLaws
  imports ObserveLaws OrderLaws
begin

text \<open>
  Ranking generations: what a promotion publishes, what the pages of the board show, and that a refresh
  replaces the whole board or leaves it as it is.
\<close>

section \<open>The order of the board\<close>

abbreviation rank_before :: "CompetitionRankingRow \<Rightarrow> CompetitionRankingRow \<Rightarrow> bool" where
  "rank_before \<equiv> by_score rr_ReturnPct (\<lambda>_. []) rr_EntryID"

lemma ranking_less_eq: "decimal_lib L \<Longrightarrow> ranking_less L = rank_before"
  by (intro ext) (simp add: ranking_less_def by_score_def Let_def money_defs decimal_lib.cmp_simps)

lemma rank_before_total: "rr_EntryID a \<noteq> rr_EntryID b \<Longrightarrow> rank_before a b \<or> rank_before b a"
  by (rule by_score_total)

text \<open>The rows of a generation are kept by their entry.\<close>

definition keyed :: "(string \<times> CompetitionRankingRow) list \<Rightarrow> bool" where
  "keyed rows = (distinct (map fst rows) \<and> (\<forall>(k, row)\<in>set rows. k = rr_EntryID row))"

lemma keyed_keys: "keyed rows \<Longrightarrow> map fst rows = map rr_EntryID (map snd rows)"
  by (auto simp: keyed_def case_prod_beta)

lemma keyed_ids_distinct: "keyed rows \<Longrightarrow> distinct (map rr_EntryID (map snd rows))"
  by (metis keyed_keys keyed_def)

lemma keyed_update: "keyed rows \<Longrightarrow> keyed (AList.update (rr_EntryID row) row rows)"
proof -
  have "set (AList.update k v al) \<subseteq> insert (k, v) (set al)" for k v and al :: "(string \<times> CompetitionRankingRow) list"
    by (induction al) auto
  then show "keyed rows \<Longrightarrow> keyed (AList.update (rr_EntryID row) row rows)"
    unfolding keyed_def by (fastforce simp: distinct_update)
qed

section \<open>Numbering\<close>

definition rank_in :: "CompetitionRankingRow list \<Rightarrow> CompetitionRankingRow \<Rightarrow> CompetitionRankingRow" where
  "rank_in rows row = row\<lparr>rr_Rank := 1 + int (card {x \<in> set rows. rank_before x row})\<rparr>"

lemma rank_in_simps [simp]:
  "rr_EntryID (rank_in rows row) = rr_EntryID row" "rr_ReturnPct (rank_in rows row) = rr_ReturnPct row"
  "rr_UserID (rank_in rows row) = rr_UserID row"
  by (simp_all add: rank_in_def)

lemma number_rows_rank:
  assumes "distinct (map rr_EntryID rows)"
  shows "number_rows (isort rank_before rows) = map (rank_in rows) (isort rank_before rows)"
proof (rule nth_equalityI)
  fix i assume i: "i < length (number_rows (isort rank_before rows))"
  then have "i < length rows" by (simp add: number_rows_def)
  moreover have "a \<noteq> b \<Longrightarrow> rank_before a b \<or> rank_before b a" if "a \<in> set rows" "b \<in> set rows" for a b
    using assms that by (intro rank_before_total) (auto simp: distinct_map inj_on_def)
  ultimately show "number_rows (isort rank_before rows) ! i = map (rank_in rows) (isort rank_before rows) ! i"
    using score.rank_of_row [of rows rr_ReturnPct "\<lambda>_. []" rr_EntryID i] assms
    by (simp add: number_rows_def rank_in_def nth_enumerate_eq distinct_map)
qed (simp add: number_rows_def)

lemma update_present:
  "distinct (map fst al) \<Longrightarrow> k \<in> set (map fst al) \<Longrightarrow>
     AList.update k v al = map (\<lambda>(k', v'). (k', if k' = k then v else v')) al"
  by (induction al) (auto intro!: map_idI [symmetric] simp: rev_image_eqI)

lemma update_absent: "k \<notin> fst ` set al \<Longrightarrow> AList.update k v al = al @ [(k, v)]"
  by (induction al) auto

lemma foldl_update_present:
  assumes "distinct (map fst al)" "set (map rr_EntryID xs) \<subseteq> set (map fst al)" "distinct (map rr_EntryID xs)"
  shows "foldl (\<lambda>m row. AList.update (rr_EntryID row) row m) al xs
     = map (\<lambda>(k, v). (k, case map_of (map (\<lambda>x. (rr_EntryID x, x)) xs) k of None \<Rightarrow> v | Some x \<Rightarrow> x)) al"
  using assms
proof (induction xs arbitrary: al)
  case (Cons x xs)
  let ?al = "AList.update (rr_EntryID x) x al"
  have up: "?al = map (\<lambda>(k', v'). (k', if k' = rr_EntryID x then x else v')) al"
    by (rule update_present) (use Cons.prems in auto)
  have keys: "map fst ?al = map fst al" by (simp add: up case_prod_beta comp_def)
  have "map_of (map (\<lambda>x. (rr_EntryID x, x)) xs) (rr_EntryID x) = None"
    using Cons.prems(3) by (auto simp: map_of_eq_None_iff)
  moreover have "foldl (\<lambda>m row. AList.update (rr_EntryID row) row m) ?al xs
     = map (\<lambda>(k, v). (k, case map_of (map (\<lambda>x. (rr_EntryID x, x)) xs) k of None \<Rightarrow> v | Some x \<Rightarrow> x)) ?al"
    by (rule Cons.IH) (use Cons.prems keys in auto)
  ultimately show ?case by (auto simp: up split: option.splits)
qed (simp add: case_prod_beta)

lemma materialize_rank:
  assumes "decimal_lib L" "keyed rows"
  shows "materialize L rows = map (\<lambda>(k, row). (k, rank_in (map snd rows) row)) rows"
proof -
  let ?ds = "map snd rows" and ?f = "rank_in (map snd rows)"
  let ?xs = "map ?f (isort rank_before ?ds)"
  have d: "distinct (map rr_EntryID ?ds)" by (rule keyed_ids_distinct [OF assms(2)])
  have inj: "inj_on rr_EntryID (set ?ds)" "distinct ?ds" using d by (simp_all only: distinct_map)
  have ids: "map rr_EntryID ?xs = map rr_EntryID (isort rank_before ?ds)" by simp
  have dxs: "distinct (map rr_EntryID ?xs)"
    unfolding ids using inj by (simp add: distinct_map)
  have keys: "set (map rr_EntryID ?xs) \<subseteq> set (map fst rows)"
    unfolding ids keyed_keys [OF assms(2)] by (simp add: image_image)
  have "materialize L rows = map (\<lambda>(k, v). (k, case map_of (map (\<lambda>x. (rr_EntryID x, x)) ?xs) k of None \<Rightarrow> v | Some x \<Rightarrow> x)) rows"
    unfolding materialize_def ranking_less_eq [OF assms(1)] number_rows_rank [OF d]
    by (rule foldl_update_present) (use assms(2) keys dxs in \<open>auto simp: keyed_def\<close>)
  also have "\<dots> = map (\<lambda>(k, row). (k, ?f row)) rows"
  proof (rule map_cong [OF refl])
    fix kr assume mem': "kr \<in> set rows"
    obtain k row where kr: "kr = (k, row)" by (cases kr)
    with mem' have mem: "(k, row) \<in> set rows" by simp
    then have k: "k = rr_EntryID row" using assms(2) by (auto simp: keyed_def)
    have "(k, ?f row) \<in> set (map (\<lambda>x. (rr_EntryID x, x)) ?xs)"
      using mem k by (force simp: image_iff)
    moreover have "distinct (map fst (map (\<lambda>x. (rr_EntryID x, x)) ?xs))"
      using dxs by (simp add: comp_def)
    ultimately have "map_of (map (\<lambda>x. (rr_EntryID x, x)) ?xs) k = Some (?f row)"
      by (rule map_of_is_SomeI [rotated])
    then show "(\<lambda>(k, v). (k, case map_of (map (\<lambda>x. (rr_EntryID x, x)) ?xs) k of None \<Rightarrow> v | Some x \<Rightarrow> x)) kr
        = (\<lambda>(k, row). (k, ?f row)) kr"
      by (simp add: kr)
  qed
  finally show ?thesis .
qed

section \<open>Promotion\<close>

lemma PromoteGeneration_board:
  assumes "PromoteGeneration L cid g now r = Inr r'"
    and "mr_rows (rankingState r cid) g = Some rows" "mr_active (rankingState r cid) \<noteq> g"
  shows "active_rows (rankingState r' cid) = map snd (materialize L rows)" "mr_active (rankingState r' cid) = g"
    "cr_displayNames r' = cr_displayNames r"
  using assms
  by (auto simp: PromoteGeneration_def Let_def active_rows_def put_rankingState_def rankingState_def
      split: option.splits if_splits)

lemma rank_in_board:
  assumes "distinct (map rr_EntryID ds)" "row \<in> set ds"
  shows "rr_Rank (rank_in ds row) = 1 + int (card {x \<in> set (map (rank_in ds) ds). rank_before x (rank_in ds row)})"
proof -
  have same: "rank_before (rank_in ds a) (rank_in ds b) = rank_before a b" for a b
    by (rule by_score_same) simp_all
  have "{x \<in> set (map (rank_in ds) ds). rank_before x (rank_in ds row)} = rank_in ds ` {x \<in> set ds. rank_before x row}"
    using same by auto
  moreover have "inj_on (rank_in ds) {x \<in> set ds. rank_before x row}"
    using assms(1) by (auto simp: distinct_map inj_on_def) (metis rank_in_simps(1))
  ultimately show ?thesis by (simp add: card_image) (simp add: rank_in_def)
qed

text \<open>The pages of the board: the rows in rank order.\<close>

lemma sorted_unique:
  "mset zs = mset ys \<Longrightarrow> sorted_wrt (\<lambda>a b. \<not> lt b a) zs \<Longrightarrow> sorted_wrt lt ys \<Longrightarrow> zs = ys"
proof (induction ys arbitrary: zs)
  case (Cons y ys)
  then obtain z zs' where zs: "zs = z # zs'" by (cases zs) auto
  have "z = y"
  proof (rule ccontr)
    assume ne: "z \<noteq> y"
    have "y \<in> set zs" "z \<in> set (y # ys)" using Cons.prems(1) zs by (metis list.set_intros(1) mset_eq_setD)+
    then have "y \<in> set zs'" "z \<in> set ys" using ne zs by auto
    then show False using Cons.prems(2,3) zs by auto
  qed
  with Cons zs show ?case by simp
qed simp

lemma isort_by_rank:
  assumes "distinct (map rr_EntryID ds)"
  shows "isort (\<lambda>a b. rr_Rank a < rr_Rank b) (map (rank_in ds) ds) = number_rows (isort rank_before ds)"
proof (rule sorted_unique [OF _ number.sorted_isort])
  show "mset (isort (\<lambda>a b. rr_Rank a < rr_Rank b) (map (rank_in ds) ds)) = mset (number_rows (isort rank_before ds))"
    by (simp add: number_rows_rank [OF assms])
  show "sorted_wrt (\<lambda>a b. rr_Rank a < rr_Rank b) (number_rows (isort rank_before ds))"
    by (simp add: sorted_wrt_iff_nth_less number_rows_def nth_enumerate_eq)
qed

lemma filter_after: "filter (\<lambda>row. \<not> rr_Rank row \<le> int k) (number_rows ds) = drop k (number_rows ds)"
proof -
  have "filter (\<lambda>row. \<not> rr_Rank row \<le> int k) (map (\<lambda>(i, row). row\<lparr>rr_Rank := int i + 1\<rparr>) (enumerate j ds))
      = drop (k - j) (map (\<lambda>(i, row). row\<lparr>rr_Rank := int i + 1\<rparr>) (enumerate j ds))" for j
    by (induction ds arbitrary: j) (auto simp: Suc_diff_le drop_Cons' not_le)
  from this [of 0] show ?thesis by (simp add: number_rows_def)
qed

lemma ranks_of_numbered: "map rr_Rank (number_rows ds) = map (\<lambda>i. int i + 1) [0..<length ds]"
  by (rule nth_equalityI) (simp_all add: number_rows_def nth_enumerate_eq)

lemma page_of_upt: "take n [k..<m] = [k ..< min (k + n) m]"
  by (rule nth_equalityI) (auto simp: nth_upt)

section \<open>One pass over the entries\<close>

text \<open>A pass over entries touches only the rows of the generation it builds.\<close>

lemma UpsertRanking_rows:
  assumes "map_of (mr_generations (rankingState r cid)) gen = Some g" "rg_Status g = GenerationBuilding"
    and "mr_rows (rankingState r cid) gen = Some rows"
  shows "UpsertRanking cid gen row r =
     Inr (put_rankingState cid ((rankingState r cid)\<lparr>mr_rows :=
            (mr_rows (rankingState r cid))(gen \<mapsto> AList.update (rr_EntryID row) row rows)\<rparr>) r)"
  using assms by (simp add: UpsertRanking_def Let_def)

lemma rankingState_put [simp]: "rankingState (put_rankingState cid st r) cid = st"
  by (simp add: rankingState_def put_rankingState_def)

lemma put_rankingState_frame [simp]:
  "cr_entries (put_rankingState cid st r) = cr_entries r"
  "cr_competitions (put_rankingState cid st r) = cr_competitions r"
  "put_rankingState cid st (put_rankingState cid st' r) = put_rankingState cid st r"
  by (simp_all add: put_rankingState_def)

text \<open>What a batch over the entries \<open>ids\<close> leaves: its counters, and the drafts \<open>new\<close> beside the \<open>old\<close>.\<close>

definition lap_ok :: "lap \<Rightarrow> lap \<Rightarrow> int \<Rightarrow> string set \<Rightarrow> string set \<Rightarrow> string set \<Rightarrow> bool" where
  "lap_ok b b' n ids old new =
     (lp_processed b' = lp_processed b + n \<and> lp_writeFailed b' = lp_writeFailed b \<and> lp_failed b \<le> lp_failed b'
      \<and> lp_successful b' + lp_failed b' = lp_successful b + lp_failed b + n
      \<and> new \<subseteq> old \<union> ids \<and> (lp_failed b' = lp_failed b \<longrightarrow> new = old \<union> ids))"

lemma lap_ok_start: "lap_ok b b 0 {} old old"
  by (simp add: lap_ok_def)

lemma lap_ok_failed:
  "lap_ok ((lap_entry e b)\<lparr>lp_failed := lp_failed b + 1\<rparr>) b' n ids old new \<Longrightarrow> lap_ok b b' (1 + n) (insert (en_ID e) ids) old new"
  by (auto simp: lap_ok_def lap_entry_def)

lemma lap_ok_stored:
  "lap_ok ((lap_entry e b)\<lparr>lp_successful := lp_successful b + 1\<rparr>) b' n ids (insert (en_ID e) old) new
    \<Longrightarrow> lap_ok b b' (1 + n) (insert (en_ID e) ids) old new"
  by (auto simp: lap_ok_def lap_entry_def)

lemma update_keys: "fst ` set (AList.update k v al) = insert k (fst ` set al)"
  by (induction al) auto

lemma rank_entries_rows:
  assumes "rank_entries L E c scoring gen now entries memo b r = (res, r')"
    and "map_of (mr_generations (rankingState r (cp_ID c))) gen = Some g" "rg_Status g = GenerationBuilding"
    and "mr_rows (rankingState r (cp_ID c)) gen = Some rows" "keyed rows"
  shows "\<exists>rows'. rankingState r' (cp_ID c) = (rankingState r (cp_ID c))\<lparr>mr_rows := (mr_rows (rankingState r (cp_ID c)))(gen \<mapsto> rows')\<rparr>
     \<and> cr_entries r' = cr_entries r \<and> keyed rows'
     \<and> (\<forall>b'. res = Inr b' \<longrightarrow> lap_ok b b' (int (length entries)) (en_ID ` set entries) (fst ` set rows) (fst ` set rows'))"
    (is "?spec entries b r rows")
  using assms
proof (induction entries arbitrary: memo b r rows)
  case Nil
  have "(mr_rows (rankingState r (cp_ID c)))(gen \<mapsto> rows) = mr_rows (rankingState r (cp_ID c))"
    using Nil.prems(4) by auto
  with Nil lap_ok_start show ?case by (intro exI [of _ rows]) auto
next
  case (Cons e es)
  let ?st = "rankingState r (cp_ID c)"
  have failed: ?case if panic: "res = Inl CompPanic" "r' = r"
  proof -
    have "(mr_rows ?st)(gen \<mapsto> rows) = mr_rows ?st" using Cons.prems(4) by auto
    with panic Cons.prems(5) show ?thesis by (intro exI [of _ rows]) simp
  qed
  have counted: ?case if run: "rank_entries L E c scoring gen now es memo' ((lap_entry e b)\<lparr>lp_failed := lp_failed b + 1\<rparr>) r = (res, r')" for memo'
  proof -
    obtain rows' where rows': "rankingState r' (cp_ID c) = ?st\<lparr>mr_rows := (mr_rows ?st)(gen \<mapsto> rows')\<rparr>"
     "cr_entries r' = cr_entries r" "keyed rows'"
     "\<forall>b'. res = Inr b' \<longrightarrow> lap_ok ((lap_entry e b)\<lparr>lp_failed := lp_failed b + 1\<rparr>) b' (int (length es)) (en_ID ` set es) (fst ` set rows) (fst ` set rows')"
      using Cons.IH [OF run Cons.prems(2-5)] by blast
    from rows'(4) have "\<forall>b'. res = Inr b' \<longrightarrow> lap_ok b b' (int (length (e # es))) (en_ID ` set (e # es)) (fst ` set rows) (fst ` set rows')"
      by (simp add: lap_ok_failed)
    with rows'(1-3) show ?thesis by blast
  qed
  have stored: ?case if run: "rank_entries L E c scoring gen now es memo' ((lap_entry e b)\<lparr>lp_successful := lp_successful b + 1\<rparr>) r1 = (res, r')"
    and r1: "r1 = put_rankingState (cp_ID c) (?st\<lparr>mr_rows := (mr_rows ?st)(gen \<mapsto> AList.update (rr_EntryID row) row rows)\<rparr>) r"
    and eid: "rr_EntryID row = en_ID e" for memo' r1 row
  proof -
    let ?rows = "AList.update (rr_EntryID row) row rows"
    have st1: "rankingState r1 (cp_ID c) = ?st\<lparr>mr_rows := (mr_rows ?st)(gen \<mapsto> ?rows)\<rparr>" by (simp add: r1)
    have gens: "map_of (mr_generations (rankingState r1 (cp_ID c))) gen = Some g"
      and rows: "mr_rows (rankingState r1 (cp_ID c)) gen = Some ?rows"
      using Cons.prems(2) by (simp_all add: st1)
    have keys: "fst ` set ?rows = insert (en_ID e) (fst ` set rows)" by (simp add: update_keys eid)
    obtain rows' where rows': "rankingState r' (cp_ID c) = (rankingState r1 (cp_ID c))\<lparr>mr_rows := (mr_rows (rankingState r1 (cp_ID c)))(gen \<mapsto> rows')\<rparr>"
     "cr_entries r' = cr_entries r1" "keyed rows'"
     "\<forall>b'. res = Inr b' \<longrightarrow> lap_ok ((lap_entry e b)\<lparr>lp_successful := lp_successful b + 1\<rparr>) b' (int (length es)) (en_ID ` set es) (fst ` set ?rows) (fst ` set rows')"
      using Cons.IH [OF run gens Cons.prems(3) rows keyed_update [OF Cons.prems(5)]] by blast
    have "rankingState r' (cp_ID c) = ?st\<lparr>mr_rows := (mr_rows ?st)(gen \<mapsto> rows')\<rparr>"
      using rows'(1) st1 by simp
    moreover have "cr_entries r' = cr_entries r" using rows'(2) r1 by simp
    moreover have "\<forall>b'. res = Inr b' \<longrightarrow> lap_ok b b' (int (length (e # es))) (en_ID ` set (e # es)) (fst ` set rows) (fst ` set rows')"
      using rows'(4) unfolding keys by (simp add: lap_ok_stored)
    ultimately show ?thesis using rows'(3) by blast
  qed
  show ?case
  proof (cases "adjustedEntryBasket E c e now")
    case (Inl err)
    with Cons.prems(1) failed counted show ?thesis
      by (cases "err = CompPanic") (simp_all add: Let_def lap_entry_def)
  next
    case (Inr adjusted)
    obtain v memo' where v: "valueCompetitionEntry L adjusted (memo_source L E) scoring memo = (v, memo')"
      by (meson surj_pair)
    show ?thesis
    proof (cases v)
      case (Inl err)
      with Cons.prems(1) v Inr failed counted show ?thesis
        by (cases "err = CompPanic") (simp_all add: Let_def lap_entry_def)
    next
      case (Inr x)
      obtain idx pct where x: "x = (idx, pct)" by (cases x)
      let ?row = "\<lparr>rr_EntryID = en_ID e, rr_UserID = en_UserID e, rr_Rank = 0, rr_Index = idx, rr_ReturnPct = pct, rr_ValuedAt = now\<rparr>"
      have "rank_entries L E c scoring gen now es memo' ((lap_entry e b)\<lparr>lp_successful := lp_successful b + 1\<rparr>)
          (put_rankingState (cp_ID c) (?st\<lparr>mr_rows := (mr_rows ?st)(gen \<mapsto> AList.update (rr_EntryID ?row) ?row rows)\<rparr>) r) = (res, r')"
        using Cons.prems(1) v Inr x \<open>adjustedEntryBasket E c e now = Inr adjusted\<close>
        by (simp add: Let_def lap_entry_def UpsertRanking_rows [OF Cons.prems(2-4)])
      then show ?thesis by (rule stored [OF _ refl]) simp
    qed
  qed
qed

section \<open>A refresh\<close>

lemma ListEntries_put [simp]: "ListEntries cid (put_rankingState c st r) = ListEntries cid r"
  by (simp add: ListEntries_def)

lemma EnsureBuildingGeneration_fresh:
  assumes "building_generation (rankingState r cid) = None"
    and "\<forall>(n, g)\<in>set (mr_generations (rankingState r cid)). n \<le> mr_nextGen (rankingState r cid)"
  shows "EnsureBuildingGeneration cid now r =
     (new_rankingGeneration cid (mr_nextGen (rankingState r cid) + 1) now,
      put_rankingState cid (add_rankingGeneration cid (mr_nextGen (rankingState r cid) + 1) now (rankingState r cid)) r)"
proof (cases "mr_nextGen (rankingState r cid) = 0")
  case True
  let ?gens = "mr_generations (rankingState r cid)"
  have "1 \<notin> fst ` set ?gens" using assms(2) True by auto
  then have "AList.update 1 (new_rankingGeneration cid 1 now) ?gens = ?gens @ [(1, new_rankingGeneration cid 1 now)]"
    by (rule update_absent)
  then have "building_generation (add_rankingGeneration cid 1 now (rankingState r cid)) = Some (new_rankingGeneration cid 1 now)"
    by (simp add: building_generation_def add_rankingGeneration_def new_rankingGeneration_def)
  with True show ?thesis by (simp add: EnsureBuildingGeneration_def Let_def)
next
  case False
  with assms(1) show ?thesis by (simp add: EnsureBuildingGeneration_def Let_def)
qed

lemma Claim_all:
  assumes "length (ClaimActiveEntries cid [] batch r) < batch"
  shows "set (ClaimActiveEntries cid [] batch r) = {e \<in> set (ListEntries cid r). en_EntryStatus e = EntryActive}"
proof -
  let ?all = "isort (\<lambda>a b. str_less (en_ID a) (en_ID b)) (filter (\<lambda>e. en_EntryStatus e = EntryActive) (ListEntries cid r))"
  have claim: "ClaimActiveEntries cid [] batch r = take batch ?all" by (simp add: ClaimActiveEntries_def)
  then have "length ?all < batch" using assms by auto
  then show ?thesis by (auto simp: claim)
qed

text \<open>The board of a state is what its active generation holds.\<close>

lemma active_rows_same:
  "mr_active st' = mr_active st \<Longrightarrow> mr_rows st' (mr_active st) = mr_rows st (mr_active st) \<Longrightarrow> active_rows st' = active_rows st"
  by (simp add: active_rows_def)

lemma refresh_locked_board:
  assumes L: "decimal_lib L" and run: "refresh_locked L E cid batch now r = (res, r')"
    and st: "building_generation (rankingState r cid) = None"
      "\<forall>(n, g)\<in>set (mr_generations (rankingState r cid)). n \<le> mr_nextGen (rankingState r cid)"
      "mr_active (rankingState r cid) \<le> mr_nextGen (rankingState r cid)"
    and id: "\<forall>c. cr_competitions r cid = Some c \<longrightarrow> cp_ID c = cid"
  shows "active_rows (rankingState r' cid) = active_rows (rankingState r cid)
     \<or> \<not> HasPendingBaselineEntries cid r
       \<and> rr_EntryID ` set (active_rows (rankingState r' cid)) = en_ID ` {e \<in> set (ListEntries cid r). en_EntryStatus e = EntryActive}"
    (is "?same r' \<or> ?new r'")
proof (cases "rbind (GetCompetition cid r) (\<lambda>c. rbind (effectiveRules L (ee_codec E) c) (\<lambda>(e, scoring). Inr (c, scoring)))")
  case (Inl e)
  with run show ?thesis by (simp add: refresh_locked_def)
next
  case (Inr cs)
  obtain c scoring where cs: "cs = (c, scoring)" by (cases cs)
  have c: "cp_ID c = cid" using Inr id by (auto simp: cs GetCompetition_def)
  define st0 where "st0 = rankingState r cid"
  define n where "n = mr_nextGen st0 + 1"
  define g where "g = new_rankingGeneration cid n now"
  define r1 where "r1 = put_rankingState cid (add_rankingGeneration cid n now st0) r"
  define es where "es = ClaimActiveEntries cid [] batch r1"
  have ens: "EnsureBuildingGeneration cid now r = (g, r1)"
    by (simp add: EnsureBuildingGeneration_fresh [OF st(1,2)] g_def r1_def n_def st0_def)
  have st1: "rankingState r1 cid = add_rankingGeneration cid n now st0" by (simp add: r1_def)
  have g1: "map_of (mr_generations (rankingState r1 cid)) n = Some g" "rg_Status g = GenerationBuilding"
    "mr_rows (rankingState r1 cid) n = Some []"
    by (simp_all add: st1 add_rankingGeneration_def g_def update_conv' new_rankingGeneration_def)
  have act: "mr_active st0 \<noteq> n" using st(3) by (simp add: n_def st0_def)
  have gf: "rg_Generation g = n" "rg_CursorEntryID g = []" "rg_ProcessedEntries g = 0" "rg_FailedEntries g = 0"
    "rg_SuccessfulEntries g = 0" "\<not> rg_WriteFailure g"
    by (simp_all add: g_def new_rankingGeneration_def)
  obtain x r2 where rank: "rank_entries L E c scoring n now es newObservationMemo zero_lap r1 = (x, r2)" by (meson surj_pair)
  obtain rows where r2: "rankingState r2 cid = (rankingState r1 cid)\<lparr>mr_rows := (mr_rows (rankingState r1 cid))(n \<mapsto> rows)\<rparr>"
    "cr_entries r2 = cr_entries r1" "keyed rows"
    "\<forall>b. x = Inr b \<longrightarrow> lap_ok zero_lap b (int (length es)) (en_ID ` set es) (fst ` set ([] :: (string \<times> CompetitionRankingRow) list)) (fst ` set rows)"
    using rank_entries_rows [OF rank] g1 unfolding c by (fastforce simp: keyed_def)
  have same: "active_rows st = active_rows st0"
    if "mr_active st = mr_active st0" "\<And>k. k \<noteq> n \<Longrightarrow> mr_rows st k = mr_rows st0 k" for st
    using that act by (auto intro: active_rows_same)
  have st2: "mr_active (rankingState r2 cid) = mr_active st0" "\<And>k. k \<noteq> n \<Longrightarrow> mr_rows (rankingState r2 cid) k = mr_rows st0 k"
    "map_of (mr_generations (rankingState r2 cid)) n = Some g" "mr_rows (rankingState r2 cid) n = Some rows"
    using g1(1) by (simp_all add: r2(1) st1 add_rankingGeneration_def)
  show ?thesis
  proof (cases x)
    case (Inl e)
    then have "r' = r2"
      using run rank by (simp add: refresh_locked_def \<open>_ = Inr cs\<close> cs ens gf es_def Let_def)
    then show ?thesis using same [OF st2(1,2)] by (simp add: st0_def)
  next
    case b: (Inr b)
    have lap: "lap_ok zero_lap b (int (length es)) (en_ID ` set es) {} (fst ` set rows)" using r2(4) b by simp
    define g3 where "g3 = g\<lparr>rg_CursorEntryID := next_cursor [] b (length es < batch), rg_ProcessedEntries := lp_processed b,
      rg_SuccessfulEntries := lp_successful b, rg_FailedEntries := lp_failed b, rg_WriteFailure := lp_writeFailed b\<rparr>"
    define r3 where "r3 = put_rankingState cid ((rankingState r2 cid)\<lparr>mr_generations := AList.update n g3 (mr_generations (rankingState r2 cid))\<rparr>) r2"
    have adv: "AdvanceGeneration cid n (next_cursor [] b (length es < batch)) (lp_processed b) (lp_successful b) (lp_failed b) (lp_writeFailed b) r2 = Inr r3"
      by (simp add: AdvanceGeneration_def Let_def st2(3) r3_def g3_def gf)
    have st3: "mr_active (rankingState r3 cid) = mr_active st0" "\<And>k. k \<noteq> n \<Longrightarrow> mr_rows (rankingState r3 cid) k = mr_rows st0 k"
      "mr_rows (rankingState r3 cid) n = Some rows"
      using st2 by (simp_all add: r3_def)
    consider "r' = r3"
      | "\<exists>reason. FailGeneration cid n reason now r3 = Inr r'"
      | "length es < batch" "lp_failed b \<le> 0" "\<not> HasPendingBaselineEntries cid r3" "PromoteGeneration L cid n now r3 = Inr r'"
      using run rank b adv
      by (auto simp: refresh_locked_def \<open>_ = Inr cs\<close> cs ens gf es_def [symmetric] Let_def writing_def
          split: if_splits sum.splits)
    then show ?thesis
    proof cases
      case 1
      with same [OF st3(1,2)] show ?thesis by (simp add: st0_def)
    next
      case 2
      then have "mr_active (rankingState r' cid) = mr_active st0" "\<And>k. k \<noteq> n \<Longrightarrow> mr_rows (rankingState r' cid) k = mr_rows st0 k"
        using st3 by (auto simp: FailGeneration_def Let_def split: option.splits if_splits)
      from same [OF this] show ?thesis by (simp add: st0_def)
    next
      case 3
      have ents: "cr_entries r3 = cr_entries r" by (simp add: r3_def r2(2) r1_def)
      have "active_rows (rankingState r' cid) = map snd (materialize L rows)"
        by (rule PromoteGeneration_board [OF 3(4) st3(3)]) (simp add: st3(1) act)
      then have "rr_EntryID ` set (active_rows (rankingState r' cid)) = fst ` set rows"
        using r2(3) unfolding materialize_rank [OF L r2(3)] by (force simp: keyed_def image_iff)
      also have "\<dots> = en_ID ` set es" using lap 3(2) by (simp add: lap_ok_def zero_lap_def)
      also have "set es = {e \<in> set (ListEntries cid r). en_EntryStatus e = EntryActive}"
        unfolding es_def by (subst Claim_all) (use 3(1) in \<open>simp_all add: es_def r1_def\<close>)
      finally show ?thesis
        using 3(3) ents by (simp add: HasPendingBaselineEntries_def ListEntries_def)
    qed
  qed
qed

section \<open>Properties\<close>

text \<open>
  The board is replaced as a whole or not at all. A pass that starts a new lap and sees all of it in one
  batch either leaves the published board exactly as it was (an entry could not be priced, a baseline is still
  pending, the lock is held, a call failed) or publishes a board that holds every active entry of the edition and
  no other, at a moment when no admitted entry waits for its baseline.
\<close>

theorem refresh_all_or_nothing:
  assumes "decimal_lib L" "refreshEditionRanking L E cid batch now r = (res, r')"
    and "building_generation (rankingState r cid) = None"
      "\<forall>(n, g)\<in>set (mr_generations (rankingState r cid)). n \<le> mr_nextGen (rankingState r cid)"
      "mr_active (rankingState r cid) \<le> mr_nextGen (rankingState r cid)"
    and "\<forall>c. cr_competitions r cid = Some c \<longrightarrow> cp_ID c = cid"
  shows "active_rows (rankingState r' cid) = active_rows (rankingState r cid)
     \<or> \<not> HasPendingBaselineEntries cid r
       \<and> rr_EntryID ` set (active_rows (rankingState r' cid)) = en_ID ` {e \<in> set (ListEntries cid r). en_EntryStatus e = EntryActive}"
proof -
  have locked: "active_rows (st\<lparr>mr_locked := l\<rparr>) = active_rows st" "building_generation (st\<lparr>mr_locked := l\<rparr>) = building_generation st" for st l
    by (simp_all add: active_rows_def building_generation_def)
  obtain x r2 where ref: "refresh_locked L E cid batch now (put_rankingState cid ((rankingState r cid)\<lparr>mr_locked := True\<rparr>) r) = (x, r2)"
    by (meson surj_pair)
  show ?thesis
    using assms(2-6) refresh_locked_board [OF assms(1) ref]
    by (auto simp: refreshEditionRanking_def TryLockCompetitionRanking_def UnlockCompetitionRanking_def Let_def ref locked
        HasPendingBaselineEntries_def split: if_splits)
qed


text \<open>A pass over an edition with one active entry, whose holding is priced at its starting value.\<close>

definition demo_rules_codec :: codec where
  "demo_rules_codec = demo_codec\<lparr>cd_snapshot := (\<lambda>_. Some \<lparr>rs_SchemaVersion = 1, rs_Eligibility = [], rs_Scoring = []\<rparr>),
     cd_eligibility := (\<lambda>_. Some demo_eligibility), cd_scoring := (\<lambda>_. Some demo_scoring)\<rparr>"

definition demo_active :: CompRepo where
  "demo_active = NewInMemoryCompetitionRepository
     \<lparr>cr_compOrder := [''c''],
      cr_competitions := [''c'' \<mapsto> zero_Competition\<lparr>cp_ID := ''c'', cp_LifecycleStatus := LifecycleActive, cp_RulesSnapshotJSON := ''x''\<rparr>],
      cr_entries := [((''c'', ''u''), demo_entry)]\<rparr>"

abbreviation demo_refresh :: CompRepo where
  "demo_refresh \<equiv> snd (refreshEditionRanking std_declib ((demo_engine (Fin 100) (Inr (Fin 1)))\<lparr>ee_codec := demo_rules_codec\<rparr>)
     ''c'' 5 9 demo_active)"

theorem refresh_all_or_nothing_witness:
  "rr_EntryID ` set (active_rows (rankingState demo_refresh ''c'')) = {''e''}"
proof -
  have "active_rows (rankingState demo_refresh ''c'') \<noteq> []" by code_simp
  moreover have "active_rows (rankingState demo_active ''c'') = []" by code_simp
  moreover have "{e \<in> set (ListEntries ''c'' demo_active). en_EntryStatus e = EntryActive} = {demo_entry}"
    by (auto simp: ListEntries_def demo_active_def demo_entry_def)
  ultimately show ?thesis
    using refresh_all_or_nothing [OF std.decimal_lib_axioms surjective_pairing, where
        E = "(demo_engine (Fin 100) (Inr (Fin 1)))\<lparr>ee_codec := demo_rules_codec\<rparr>" and cid = "''c''"
        and batch = 5 and now = 9 and r = demo_active]
    by (simp add: demo_active_def rankingState_def NewInMemoryCompetitionRepository_def zero_rankingState_def
        building_generation_def demo_entry_def)
qed

text \<open>
  C10. A promotion ranks the whole generation: the board holds exactly the drafted rows, and the rank of a row is
  one more than the number of rows with a higher return, ties going to the smaller entry id. Every page of the
  board then shows the next consecutive ranks, so that following the cursor shows each rank once.
\<close>

theorem promoted_board:
  assumes "decimal_lib L" "PromoteGeneration L cid g now r = Inr r'" "g \<noteq> 0"
    and "mr_rows (rankingState r cid) g = Some rows" "mr_active (rankingState r cid) \<noteq> g" "keyed rows"
  shows "map (rr_Rank_update (\<lambda>_. 0)) (active_rows (rankingState r' cid)) = map (rr_Rank_update (\<lambda>_. 0)) (map snd rows)
     \<and> (\<forall>row\<in>set (active_rows (rankingState r' cid)).
           rr_Rank row = 1 + int (card {x \<in> set (active_rows (rankingState r' cid)). rank_before x row}))
     \<and> map le_Rank (LeaderboardPage cid (int k) n r') = map (\<lambda>i. int i + 1) [k ..< min (k + n) (length rows)]"
proof -
  let ?ds = "map snd rows"
  have board: "active_rows (rankingState r' cid) = map (rank_in ?ds) ?ds" "mr_active (rankingState r' cid) = g"
    using PromoteGeneration_board [OF assms(2,4,5)] materialize_rank [OF assms(1,6)]
    by (simp_all add: case_prod_beta comp_def)
  have d: "distinct (map rr_EntryID ?ds)" by (rule keyed_ids_distinct [OF assms(6)])
  have "map le_Rank (LeaderboardPage cid (int k) n r') = take n (drop k (map rr_Rank (number_rows (isort rank_before ?ds))))"
    using assms(3) unfolding LeaderboardPage_def Let_def board(1) isort_by_rank [OF d] filter_after
    by (simp add: board(2) take_map drop_map comp_def)
  also have "\<dots> = map (\<lambda>i. int i + 1) [k ..< min (k + n) (length rows)]"
    by (simp add: ranks_of_numbered take_map drop_map page_of_upt)
  finally show ?thesis
    using rank_in_board [OF d] board(1) by (simp add: rank_in_def comp_def del: set_map) auto
qed

text \<open>Two drafted rows, the second with the higher return.\<close>

definition demo_row :: "string \<Rightarrow> rat \<Rightarrow> CompetitionRankingRow" where
  "demo_row eid pct = \<lparr>rr_EntryID = eid, rr_UserID = eid, rr_Rank = 0, rr_Index = 100 + pct, rr_ReturnPct = pct, rr_ValuedAt = 0\<rparr>"

definition demo_lap :: CompRepo where
  "demo_lap = NewInMemoryCompetitionRepository\<lparr>cr_rankingStates := [''c'' \<mapsto>
     \<lparr>mr_generations = [(1, (new_rankingGeneration ''c'' 1 0)\<lparr>rg_ProcessedEntries := 2, rg_SuccessfulEntries := 2\<rparr>)],
      mr_rows = [1 \<mapsto> [(''a'', demo_row ''a'' 1), (''b'', demo_row ''b'' 2)]], mr_nextGen = 1, mr_active = 0, mr_locked = True\<rparr>]\<rparr>"

theorem promoted_board_witness:
  "\<exists>r'. PromoteGeneration std_declib ''c'' 1 9 demo_lap = Inr r'
     \<and> map le_Rank (LeaderboardPage ''c'' (int 1) 5 r') = [2]"
proof -
  have "\<not> isl (PromoteGeneration std_declib ''c'' 1 9 demo_lap)"
    by (simp add: PromoteGeneration_def demo_lap_def rankingState_def new_rankingGeneration_def Let_def)
  then obtain r' where r': "PromoteGeneration std_declib ''c'' 1 9 demo_lap = Inr r'"
    by (cases "PromoteGeneration std_declib ''c'' 1 9 demo_lap") auto
  have "map le_Rank (LeaderboardPage ''c'' (int 1) 5 r') = map (\<lambda>i. int i + 1) [1 ..< min (1 + 5) (length [(''a'', demo_row ''a'' 1), (''b'', demo_row ''b'' 2)])]"
    by (rule promoted_board [OF std.decimal_lib_axioms r', THEN conjunct2, THEN conjunct2])
      (simp_all add: demo_lap_def rankingState_def keyed_def demo_row_def)
  with r' show ?thesis by (simp add: upt_rec)
qed

end
