(* ===== verification/LifecycleLaws.thy ===== *)
theory LifecycleLaws
  imports CompPasses MoneyLaws
begin

text \<open>
  What every operation of the competitions keeps. The locale \<open>comp_frame\<close> is the contract between the
  repository and the engine: a relation between repository states that is reflexive, transitive and kept by
  each repository call is kept by every join, pass and retry. It is interpreted on the evolution of the
  editions (\<open>advances\<close>) and of the entries (\<open>entries_adv\<close>), from which the properties of whole runs follow.
\<close>

section \<open>Relations a run keeps\<close>

definition keeps :: "('s \<Rightarrow> 's \<Rightarrow> bool) \<Rightarrow> ('s, 'a) run \<Rightarrow> bool" where
  "keeps le m = (\<forall>s. le s (snd (m s)))"

lemma keepsI: "(\<And>s x t. m s = (x, t) \<Longrightarrow> le s t) \<Longrightarrow> keeps le m"
  by (auto simp: keeps_def) (metis surjective_pairing)

lemma keepsD: "keeps le m \<Longrightarrow> m s = (x, t) \<Longrightarrow> le s t"
  by (metis keeps_def snd_conv)

locale frame =
  fixes le :: "'s \<Rightarrow> 's \<Rightarrow> bool"
  assumes le_refl [simp]: "le s s"
    and le_trans: "le s t \<Longrightarrow> le t u \<Longrightarrow> le s u"
begin

lemma keeps_pure: "keeps le (ret x)" "keeps le (fail e)" "keeps le (reading g)"
  by (simp_all add: keeps_def)

lemma keeps_writing: "(\<And>s t. w s = Inr t \<Longrightarrow> le s t) \<Longrightarrow> keeps le (writing w)"
  by (auto simp: keeps_def writing_def split: sum.splits)

lemma keeps_andThen: "keeps le m \<Longrightarrow> (\<And>x. keeps le (f x)) \<Longrightarrow> keeps le (andThen m f)"
  by (auto simp: keeps_def andThen_def split: prod.splits sum.splits) (metis le_trans snd_conv)+

lemma keeps_foldl: "(\<And>s x. le s (f s x)) \<Longrightarrow> le s (foldl f s xs)"
  by (induction xs arbitrary: s) (auto intro: le_trans)

end

text \<open>The repository calls an engine makes.\<close>

locale comp_frame = frame le for le :: "CompRepo \<Rightarrow> CompRepo \<Rightarrow> bool" +
  assumes le_edition: "CreateEdition c r = Inr r' \<Longrightarrow> le r r'"
    and le_sprint: "cr_competitions r (cp_ID c) = None \<Longrightarrow> le r (CreateCompetition c r)"
    and le_transition: "TransitionLifecycle cid a b now r = Inr r' \<Longrightarrow> le r r'"
    and le_entry: "map_of (cr_entries r) (en_CompetitionID e, en_UserID e) = None \<Longrightarrow> le r (put_entry e r)"
    and le_withdrawn: "UpdateEntryStatus eid EntryAdmitted EntryWithdrawn now r = Inr r' \<Longrightarrow> le r r'"
    and le_complete: "CompleteBaseline eid v bs now r = Inr r' \<Longrightarrow> le r r'"
    and le_failed: "FailBaseline eid reason r = Inr r' \<Longrightarrow> le r r'"
    and le_disqualified: "DisqualifyEntry eid reason r = Inr r' \<Longrightarrow> le r r'"
    and le_ranking: "le r (put_rankingState cid st r)"
    and le_finalization: "le r (put_finalizationState cid fin r)"
    and le_observed: "le r (r\<lparr>cr_observations := obs\<rparr>)"
    and le_promoted: "PromoteFinalizationGeneration L cid gen now r = Inr r' \<Longrightarrow> le r r'"
begin

lemma le_ensureSprint: "le r (ensureCurrentSprint now r)"
  by (simp add: ensureCurrentSprint_def Let_def le_sprint split: option.splits)

lemma keeps_load: "keeps le (loadCompetition cid now)"
  by (simp add: keeps_def loadCompetition_def Let_def le_ensureSprint)

lemma keeps_list: "keeps le (comp_ListCompetitions now)"
  by (simp add: keeps_def comp_ListCompetitions_def Let_def le_ensureSprint)

lemma keeps_preview: "keeps le (EligibilityPreview L E cid uid now)"
  unfolding EligibilityPreview_def
  by (auto split: option.splits intro!: keeps_andThen keeps_load keeps_pure)

lemma keeps_board: "keeps le (EditionLeaderboard cid k n now)"
  unfolding EditionLeaderboard_def Let_def
  by (auto intro!: keeps_andThen keeps_load keeps_pure)

lemma keeps_results: "keeps le (Results cid now)"
  unfolding Results_def by (auto intro!: keeps_andThen keeps_load keeps_pure)

subsection \<open>Joining\<close>

lemma le_engine_entry: "CreateEngineEntry e r = Inr r' \<Longrightarrow> le r r'"
  by (auto simp: CreateEngineEntry_def le_entry split: if_splits)

lemma keeps_joinEdition: "keeps le (joinEdition L E uuid c uid key now)"
proof (rule keepsI)
  fix r res r'
  assume "joinEdition L E uuid c uid key now r = (res, r')"
  then have "r' = r \<or> (\<exists>e. CreateEngineEntry e r = Inr r')"
    unfolding joinEdition_def Let_def
    by (auto split: option.splits if_splits sum.splits prod.splits)
  then show "le r r'" by (auto intro: le_engine_entry)
qed

lemma keeps_joinLegacy: "keeps le (JoinCompetition L E uuid cid uid now)"
  unfolding JoinCompetition_def
proof (rule keeps_andThen [OF keeps_load], rule keepsI)
  fix c r res r'
  assume run: "(if cp_Status c \<noteq> StatusRunning then (Inl ErrCompetitionNotActive, r)
       else case GetEntry cid uid r of Inr existing \<Rightarrow> (Inr (en_StartingIndex existing), r)
          | Inl _ \<Rightarrow> (case ee_listPositions E uid of
                 Inl e \<Rightarrow> (Inl e, r)
               | Inr [] \<Rightarrow> (Inl ErrEmptyPortfolio, r)
               | Inr (p # ps) \<Rightarrow>
                   (case sprint_snapshots L E uuid 1 (p # ps) of
                      Inl e \<Rightarrow> (Inl e, r)
                    | Inr snapshots \<Rightarrow>
                        let startingValue = foldl (\<lambda>v s. Amount_Add L v (sp_StartingValueBase s)) (ZeroAmount L) snapshots
                        in if Amount_Cmp L startingValue (ZeroAmount L) \<le> 0 then (Inl ErrEmptyPortfolio, r)
                           else
                             (Inr (MustIndexValue L ''100''),
                              CreateEntry
                                \<lparr>en_ID = uuid 0, en_CompetitionID = cid, en_UserID = uid,
                                 en_StartingValue = startingValue, en_StartingIndex = MustIndexValue L ''100'',
                                 en_JoinedAt = now, en_Snapshots = snapshots, en_EntryStatus = [],
                                 en_PortfolioVersion = 0, en_SnapshotCapturedAt = None,
                                 en_EligibilityEvidenceJSON = [], en_ScoringScope = [],
                                 en_EligibleStartingValueBase = 0, en_BaselineStatus = [],
                                 en_BaselineCompletedAt = None, en_DisqualificationReason = [],
                                 en_WithdrawnAt = None, en_CashSnapshots = [], en_IdempotencyKey = [],
                                 en_RequestFingerprint = []\<rparr> r)))) = (res, r')"
  have "r' = r \<or> (\<exists>e. map_of (cr_entries r) (en_CompetitionID e, en_UserID e) = None \<and> r' = put_entry e r)"
  proof (cases "GetEntry cid uid r")
    case (Inl e)
    then have none: "map_of (cr_entries r) (cid, uid) = None"
      by (cases "map_of (cr_entries r) (cid, uid)") (auto simp: GetEntry_def)
    show ?thesis
      using run none Inl
      by (auto simp: CreateEntry_def Let_def split: if_splits sum.splits list.splits intro!: exI)
  next
    case (Inr x)
    with run show ?thesis by (auto split: if_splits)
  qed
  then show "le r r'" using le_entry by auto
qed

lemma keeps_join: "keeps le (Join L E uuid cid uid key now)"
  unfolding Join_def
  by (auto intro!: keeps_andThen keeps_load keeps_pure keeps_joinLegacy keeps_joinEdition)

lemma keeps_withdraw: "keeps le (Withdraw cid uid now)"
proof -
  have "keeps le (\<lambda>r. if IsLegacy c then (Inl ErrWithdrawalClosed, r)
       else if (case cp_JoinClosesAt c of None \<Rightarrow> True | Some closes \<Rightarrow> \<not> now < closes)
       then (Inl ErrWithdrawalClosed, r)
       else
         (case GetEntry cid uid r of
            Inl e \<Rightarrow> (Inl e, r)
          | Inr entry \<Rightarrow>
              if en_EntryStatus entry \<noteq> EntryAdmitted then (Inl ErrWithdrawalClosed, r)
              else writing (UpdateEntryStatus (en_ID entry) EntryAdmitted EntryWithdrawn now) r))" for c
    by (rule keepsI)
      (auto simp: writing_def le_withdrawn split: if_splits option.splits sum.splits)
  then show ?thesis unfolding Withdraw_def by (intro keeps_andThen keeps_load)
qed

subsection \<open>Passes\<close>

lemma le_advance_one: "le r (advance_one a b due now r c)"
  by (auto simp: advance_one_def le_transition split: option.splits sum.splits)

lemma le_lifecycles: "le r (AdvanceCompetitionLifecycles now r)"
  unfolding AdvanceCompetitionLifecycles_def
  by (rule keeps_foldl) (auto intro!: keeps_foldl le_advance_one split: prod.splits)

lemma le_ensureSet: "EnsureObservationSet cid b eff prov r = (s, r1) \<Longrightarrow> le r r1"
  by (auto simp: EnsureObservationSet_def Let_def le_observed split: option.splits)

lemma le_record: "RecordObservations sid ps fs sealed now r = Inr r' \<Longrightarrow> le r r'"
  by (auto simp: RecordObservations_def Let_def le_observed split: option.splits if_splits)

lemma keeps_capture: "keeps le (captureObservations L E cid b eff entries lastBatch now)"
proof (rule keepsI)
  fix r res r'
  assume run: "captureObservations L E cid b eff entries lastBatch now r = (res, r')"
  obtain s r1 where ens: "EnsureObservationSet cid b eff observationProvider r = (s, r1)"
    by (cases "EnsureObservationSet cid b eff observationProvider r")
  have "r' = r1 \<or> (\<exists>ps fs sealed. RecordObservations (os_ID s) ps fs sealed now r1 = Inr r')"
    using run unfolding captureObservations_def ens Let_def prod.case
    by (auto split: prod.splits if_splits sum.splits)
  then show "le r r'"
    using le_ensureSet [OF ens] by (auto dest: le_record intro: le_trans)
qed

lemma keeps_baselineEntry: "keeps le (baselineEntry L view entry now)"
  unfolding baselineEntry_def
  by (auto intro!: keeps_pure keeps_writing le_complete split: sum.splits)

lemma le_FailBaseline: "le r (case FailBaseline eid reason r of Inl _ \<Rightarrow> r | Inr r' \<Rightarrow> r')"
  by (auto split: sum.splits intro: le_failed)

lemma keeps_baseline_entries: "keeps le (baseline_entries L E view deadline now n entries)"
proof (rule keepsI)
  fix r res r'
  show "baseline_entries L E view deadline now n entries r = (res, r') \<Longrightarrow> le r r'"
  proof (induction entries arbitrary: n r)
    case (Cons e es)
    obtain x r1 where e: "baselineEntry L view e now r = (x, r1)" by (cases "baselineEntry L view e now r")
    have r1: "le r r1" by (rule keepsD [OF keeps_baselineEntry e])
    show ?case
    proof (cases x)
      case (Inr u)
      with Cons.prems e have "baseline_entries L E view deadline now (n + 1) es r1 = (res, r')" by simp
      from Cons.IH [OF this] r1 show ?thesis by (rule le_trans [rotated])
    next
      case (Inl err)
      show ?thesis
      proof (cases "err = CompPanic")
        case True
        with Cons.prems e Inl r1 show ?thesis by simp
      next
        case False
        let ?r2 = "if deadline < now then (case FailBaseline (en_ID e) (''baseline window elapsed: '' @ ee_errorText E err) r1 of
                 Inl _ \<Rightarrow> r1 | Inr r' \<Rightarrow> r') else r1"
        have "le r ?r2" using r1 le_FailBaseline by (auto intro: le_trans)
        moreover have "baseline_entries L E view deadline now n es ?r2 = (res, r')"
          using Cons.prems e Inl False by (simp split: if_splits)
        ultimately show ?thesis using Cons.IH le_trans by blast
      qed
    qed
  qed simp
qed

lemma keeps_baseline_edition: "keeps le (baseline_edition L E now n c)"
proof (rule keepsI)
  fix r res r'
  assume run: "baseline_edition L E now n c r = (res, r')"
  show "le r r'"
  proof (cases "normalizeEntriesForBaseline E c (ListPendingBaselineEntries (cp_ID c) defaultBaselineBatch r)")
    case (Inl e)
    with run show ?thesis by (auto simp: baseline_edition_def Let_def split: if_splits)
  next
    case (Inr entries)
    obtain x r1 where cap: "captureObservations L E (cp_ID c) BoundaryStart (cp_StartsAt c) entries
        (length entries < defaultBaselineBatch) now r = (x, r1)"
      by (meson surj_pair)
    have r1: "le r r1" by (rule keepsD [OF keeps_capture cap])
    from run Inr cap have "r' = r \<or> r' = r1 \<or> (\<exists>view d. baseline_entries L E view d now n entries r1 = (res, r'))"
      by (auto simp: baseline_edition_def Let_def split: if_splits sum.splits)
    then show ?thesis
    proof (elim disjE exE)
      fix view d
      assume "baseline_entries L E view d now n entries r1 = (res, r')"
      then show ?thesis by (rule le_trans [OF r1 keepsD [OF keeps_baseline_entries]])
    qed (use r1 in simp_all)
  qed
qed

lemma keeps_baseline_editions: "keeps le (baseline_editions L E now n cs)"
proof (induction cs arbitrary: n)
  case (Cons c cs)
  have "keeps le (andThen (baseline_edition L E now n c) (\<lambda>n. baseline_editions L E now n cs))"
    by (rule keeps_andThen [OF keeps_baseline_edition Cons.IH])
  then show ?case by (simp add: keeps_def)
qed (simp add: keeps_def)

lemma keeps_baselines: "keeps le (RunCompetitionBaselines L E now)"
  using keeps_baseline_editions by (simp add: keeps_def RunCompetitionBaselines_def)

lemma keeps_retry_entries: "keeps le (retry_entries L view now first entries)"
proof (rule keepsI)
  fix r res r'
  show "retry_entries L view now first entries r = (res, r') \<Longrightarrow> le r r'"
  proof (induction entries arbitrary: first r)
    case (Cons e es)
    obtain x r1 where e: "baselineEntry L view e now r = (x, r1)" by (cases "baselineEntry L view e now r")
    have r1: "le r r1" by (rule keepsD [OF keeps_baselineEntry e])
    from Cons.prems e have "r' = r1 \<or> (\<exists>f. retry_entries L view now f es r1 = (res, r'))"
      by (auto split: sum.splits if_splits)
    then show ?case using r1 Cons.IH le_trans by blast
  qed simp
qed

lemma keeps_retryBaseline: "keeps le (retryCompetitionBaseline L E now c)"
proof (rule keepsI)
  fix r res r'
  assume run: "retryCompetitionBaseline L E now c r = (res, r')"
  have seq: "keeps le (andThen (captureObservations L E (cp_ID c) BoundaryStart (cp_StartsAt c) entries
      (length entries < defaultBaselineBatch) now) (\<lambda>view. retry_entries L view now None entries))" for entries
    by (rule keeps_andThen [OF keeps_capture keeps_retry_entries])
  from run show "le r r'"
    by (auto simp: retryCompetitionBaseline_def Let_def split: if_splits sum.splits dest: keepsD [OF seq])
qed

lemma le_upsertRanking: "UpsertRanking cid g row r = Inr r' \<Longrightarrow> le r r'"
  and le_advanceGeneration: "AdvanceGeneration cid g cur p s f w r = Inr r' \<Longrightarrow> le r r'"
  and le_failGeneration: "FailGeneration cid g reason now r = Inr r' \<Longrightarrow> le r r'"
  and le_promoteGeneration: "PromoteGeneration L cid g now r = Inr r' \<Longrightarrow> le r r'"
  by (auto simp: UpsertRanking_def AdvanceGeneration_def FailGeneration_def PromoteGeneration_def Let_def le_ranking
      split: option.splits if_splits)

lemma le_ensureGeneration: "EnsureBuildingGeneration cid now r = (g, r') \<Longrightarrow> le r r'"
  by (auto simp: EnsureBuildingGeneration_def Let_def le_ranking split: option.splits)

lemma keeps_rank_entries: "keeps le (rank_entries L E c scoring gen now entries memo b)"
proof (rule keepsI)
  fix r res r'
  show "rank_entries L E c scoring gen now entries memo b r = (res, r') \<Longrightarrow> le r r'"
  proof (induction entries arbitrary: memo b r)
    case (Cons e es)
    from Cons.prems have "r' = r \<or> (\<exists>memo b. rank_entries L E c scoring gen now es memo b r = (res, r'))
      \<or> (\<exists>row memo b r1. UpsertRanking (cp_ID c) gen row r = Inr r1 \<and> rank_entries L E c scoring gen now es memo b r1 = (res, r'))"
      by (auto simp: Let_def split: sum.splits prod.splits if_splits)
    then show ?case
      by (elim disjE exE conjE) (auto intro: Cons.IH le_trans [OF le_upsertRanking])
  qed simp
qed

lemma keeps_refresh_locked: "keeps le (refresh_locked L E cid batch now)"
proof (rule keepsI)
  fix r res r'
  assume run: "refresh_locked L E cid batch now r = (res, r')"
  show "le r r'"
  proof (cases "rbind (GetCompetition cid r) (\<lambda>c. rbind (effectiveRules L (ee_codec E) c) (\<lambda>(e, scoring). Inr (c, scoring)))")
    case (Inl e)
    with run show ?thesis by (simp add: refresh_locked_def)
  next
    case (Inr cs)
    obtain c scoring where cs: "cs = (c, scoring)" by (cases cs)
    obtain gen r1 where gen: "EnsureBuildingGeneration cid now r = (gen, r1)" by (meson surj_pair)
    have "keeps le (andThen (rank_entries L E c scoring (rg_Generation gen) now entries newObservationMemo zero_lap) (\<lambda>b.
               let lapComplete = (length entries < batch) in
               andThen (writing (AdvanceGeneration cid (rg_Generation gen)
                          (next_cursor (rg_CursorEntryID gen) b lapComplete)
                          (lp_processed b) (lp_successful b) (lp_failed b) (lp_writeFailed b))) (\<lambda>_ r.
                 let processed = rg_ProcessedEntries gen + lp_processed b;
                     totalFailed = rg_FailedEntries gen + lp_failed b;
                     writeFailure = (rg_WriteFailure gen \<or> lp_writeFailed b)
                 in if \<not> lapComplete then (Inr (), r)
                    else if processed = 0 then (Inr (), r)
                    else if writeFailure \<or> 0 < totalFailed then
                      writing (FailGeneration cid (rg_Generation gen)
                        (coverage_reason processed (rg_SuccessfulEntries gen + lp_successful b) totalFailed writeFailure) now) r
                    else if HasPendingBaselineEntries cid r then (Inr (), r)
                    else (case PromoteGeneration L cid (rg_Generation gen) now r of
                            Inl _ \<Rightarrow> (Inr (), r) | Inr r' \<Rightarrow> (Inr (), r')))))" for entries
      unfolding Let_def
      by (intro keeps_andThen keeps_rank_entries keeps_writing keepsI)
        (auto simp: writing_def split: if_splits sum.splits
          intro: le_advanceGeneration le_failGeneration le_promoteGeneration)
    then have "le r1 r'"
      using run by (auto simp: refresh_locked_def Inr cs gen Let_def intro: keepsD)
    with le_ensureGeneration [OF gen] show ?thesis by (rule le_trans)
  qed
qed

lemma keeps_refresh: "keeps le (refreshEditionRanking L E cid batch now)"
proof (rule keepsI)
  fix r res r'
  assume run: "refreshEditionRanking L E cid batch now r = (res, r')"
  obtain ok r1 where lock: "TryLockCompetitionRanking cid r = (ok, r1)" by (meson surj_pair)
  obtain x r2 where ref: "refresh_locked L E cid batch now r1 = (x, r2)" by (meson surj_pair)
  have "le r r1" using lock by (auto simp: TryLockCompetitionRanking_def Let_def le_ranking split: if_splits)
  moreover have "r' = r1 \<or> r' = UnlockCompetitionRanking cid r2"
    using run by (auto simp: refreshEditionRanking_def lock ref split: if_splits)
  moreover have "le r2 (UnlockCompetitionRanking cid r2)" by (simp add: UnlockCompetitionRanking_def le_ranking)
  ultimately show "le r r'" using keepsD [OF keeps_refresh_locked ref] le_trans by blast
qed

lemma le_rankings: "le r (RefreshCompetitionRankings L E now r)"
  unfolding RefreshCompetitionRankings_def
  by (rule keeps_foldl) (use keeps_refresh in \<open>simp add: keeps_def\<close>)

lemma keeps_retryRanking: "keeps le (retryCompetitionRanking L E now c)"
  unfolding retryCompetitionRanking_def by (auto intro: keeps_pure keeps_refresh)

lemma le_upsertFinal: "UpsertFinalizationRow cid g row r = Inr r' \<Longrightarrow> le r r'"
  and le_advanceFinal: "AdvanceFinalizationGeneration cid g cur p s f w r = Inr r' \<Longrightarrow> le r r'"
  and le_failFinal: "FailFinalizationGeneration cid g reason now r = Inr r' \<Longrightarrow> le r r'"
  by (auto simp: UpsertFinalizationRow_def AdvanceFinalizationGeneration_def FailFinalizationGeneration_def Let_def
      le_finalization split: option.splits if_splits)

lemma le_ensureFinal: "EnsureBuildingFinalizationGeneration cid now r = (g, r') \<Longrightarrow> le r r'"
  by (auto simp: EnsureBuildingFinalizationGeneration_def Let_def le_finalization split: option.splits)

lemma keeps_finalize_batch: "keeps le (finalize_batch L E c scoring gen deadline now view entries b)"
proof (rule keepsI)
  fix r res r'
  show "finalize_batch L E c scoring gen deadline now view entries b r = (res, r') \<Longrightarrow> le r r'"
  proof (induction entries arbitrary: b r)
    case (Cons e es)
    from Cons.prems have "r' = r \<or> (\<exists>b. finalize_batch L E c scoring gen deadline now view es b r = (res, r'))
      \<or> (\<exists>row b r1. UpsertFinalizationRow (cp_ID c) gen row r = Inr r1
            \<and> finalize_batch L E c scoring gen deadline now view es b r1 = (res, r'))
      \<or> (\<exists>reason b r1. DisqualifyEntry (en_ID e) reason r = Inr r1
            \<and> finalize_batch L E c scoring gen deadline now view es b r1 = (res, r'))"
      by (auto simp: Let_def split: sum.splits prod.splits if_splits)
    then show ?case
      by (elim disjE exE conjE)
        (auto intro: Cons.IH le_trans [OF le_upsertFinal] le_trans [OF le_disqualified])
  qed simp
qed

lemma keeps_finalize_locked: "keeps le (finalize_locked L E c batch window now)"
proof (rule keepsI)
  fix r res r'
  assume run: "finalize_locked L E c batch window now r = (res, r')"
  obtain gen r1 where gen: "EnsureBuildingFinalizationGeneration (cp_ID c) now r = (gen, r1)" by (meson surj_pair)
  have seq: "keeps le (andThen (captureObservations L E (cp_ID c) BoundaryEnd (cp_EndsAt c) entries lapComplete now) (\<lambda>view.
                  andThen (finalize_batch L E c scoring (fg_Generation gen) (cp_EndsAt c + window) now view entries zero_lap) (\<lambda>b.
                  andThen (writing (AdvanceFinalizationGeneration (cp_ID c) (fg_Generation gen)
                             (next_cursor (fg_CursorEntryID gen) b lapComplete)
                             (lp_processed b) (lp_successful b) (lp_failed b) (lp_writeFailed b))) (\<lambda>_.
                    let totalFailed = fg_FailedEntries gen + lp_failed b;
                        writeFailure = (fg_WriteFailure gen \<or> lp_writeFailed b)
                    in if \<not> lapComplete then ret False
                       else if writeFailure \<or> 0 < totalFailed then
                         andThen (writing (FailFinalizationGeneration (cp_ID c) (fg_Generation gen)
                           (coverage_reason (fg_ProcessedEntries gen + lp_processed b)
                              (fg_SuccessfulEntries gen + lp_successful b) totalFailed writeFailure) now)) (\<lambda>_. ret False)
                       else
                         andThen (writing (PromoteFinalizationGeneration L (cp_ID c) (fg_Generation gen) now)) (\<lambda>_. ret True)))))"
    for entries lapComplete scoring
    unfolding Let_def
    by (intro keeps_andThen keeps_capture keeps_finalize_batch keeps_writing, erule le_advanceFinal)
      (auto intro!: keeps_andThen keeps_writing keeps_pure intro: le_failFinal le_promoted)
  show "le r r'"
  proof (cases "effectiveRules L (ee_codec E) c")
    case (Inl e)
    with run show ?thesis by (simp add: finalize_locked_def)
  next
    case (Inr es)
    then have "le r1 r'"
      using run by (auto simp: finalize_locked_def gen Let_def split: sum.splits prod.splits intro: keepsD [OF seq, unfolded Let_def])
    with le_ensureFinal [OF gen] show ?thesis by (rule le_trans)
  qed
qed

lemma keeps_finalizeEdition: "keeps le (finalizeEdition L E c batch window now)"
proof (rule keepsI)
  fix r res r'
  assume run: "finalizeEdition L E c batch window now r = (res, r')"
  obtain ok r1 where lock: "TryLockCompetitionFinalization (cp_ID c) r = (ok, r1)" by (meson surj_pair)
  obtain x r2 where ref: "finalize_locked L E c batch window now r1 = (x, r2)" by (meson surj_pair)
  have "le r r1" using lock by (auto simp: TryLockCompetitionFinalization_def Let_def le_finalization split: if_splits)
  moreover have "r' = r1 \<or> r' = UnlockCompetitionFinalization (cp_ID c) r2"
    using run by (auto simp: finalizeEdition_def lock ref split: if_splits)
  moreover have "le r2 (UnlockCompetitionFinalization (cp_ID c) r2)"
    by (simp add: UnlockCompetitionFinalization_def le_finalization)
  ultimately show "le r r'" using keepsD [OF keeps_finalize_locked ref] le_trans by blast
qed

lemma le_finalize_editions: "finalize_editions L E now n cs r = (m, r') \<Longrightarrow> le r r'"
proof (induction cs arbitrary: n r)
  case (Cons c cs)
  obtain x r1 where e: "finalizeEdition L E c (batch_size defaultFinalizationBatchSize (ee_finalizationBatchSize E))
      (finalization_window E) now r = (x, r1)" by (meson surj_pair)
  have "\<exists>n. finalize_editions L E now n cs r1 = (m, r')"
    using Cons.prems e by (auto split: sum.splits bool.splits)
  then show ?case using Cons.IH le_trans [OF keepsD [OF keeps_finalizeEdition e]] by blast
qed simp

lemma le_finalizations: "le r (snd (FinalizeCompetitions L E now r))"
  using le_finalize_editions by (metis FinalizeCompetitions_def surjective_pairing)

lemma keeps_retryFinalization: "keeps le (retryCompetitionFinalization L E now c)"
  unfolding retryCompetitionFinalization_def
  by (auto intro!: keeps_pure keeps_andThen keeps_finalizeEdition)

end

section \<open>Runs of the competitions\<close>

text \<open>
  One step: an administrator creates or moves an edition, a user previews, joins, withdraws or reads, or the
  worker runs a pass or a retry. Account deletion is a step of its own, since it removes entries.
\<close>

inductive comp_step :: "declib \<Rightarrow> engine \<Rightarrow> CompRepo \<Rightarrow> CompRepo \<Rightarrow> bool" for L E where
  created: "CreateEdition c r = Inr r' \<Longrightarrow> comp_step L E r r'"
| moved: "TransitionLifecycle cid a b now r = Inr r' \<Longrightarrow> comp_step L E r r'"
| listed: "comp_ListCompetitions now r = (res, r') \<Longrightarrow> comp_step L E r r'"
| previewed: "EligibilityPreview L E cid uid now r = (res, r') \<Longrightarrow> comp_step L E r r'"
| joined: "Join L E uuid cid uid key now r = (res, r') \<Longrightarrow> comp_step L E r r'"
| withdrew: "Withdraw cid uid now r = (res, r') \<Longrightarrow> comp_step L E r r'"
| board: "EditionLeaderboard cid k n now r = (res, r') \<Longrightarrow> comp_step L E r r'"
| results: "Results cid now r = (res, r') \<Longrightarrow> comp_step L E r r'"
| scheduled: "comp_step L E r (AdvanceCompetitionLifecycles now r)"
| baselined: "RunCompetitionBaselines L E now r = (res, r') \<Longrightarrow> comp_step L E r r'"
| ranked: "comp_step L E r (RefreshCompetitionRankings L E now r)"
| finalized: "comp_step L E r (snd (FinalizeCompetitions L E now r))"
| retried_baseline: "retryCompetitionBaseline L E now c r = (res, r') \<Longrightarrow> comp_step L E r r'"
| retried_ranking: "retryCompetitionRanking L E now c r = (res, r') \<Longrightarrow> comp_step L E r r'"
| retried_finalization: "retryCompetitionFinalization L E now c r = (res, r') \<Longrightarrow> comp_step L E r r'"

context comp_frame begin

lemma le_step: "comp_step L E r r' \<Longrightarrow> le r r'"
  by (induction rule: comp_step.induct)
    (auto intro: le_edition le_transition keepsD [OF keeps_list] keepsD [OF keeps_preview] keepsD [OF keeps_join]
      keepsD [OF keeps_withdraw] keepsD [OF keeps_board] keepsD [OF keeps_results] le_lifecycles
      keepsD [OF keeps_baselines] le_rankings le_finalizations keepsD [OF keeps_retryBaseline]
      keepsD [OF keeps_retryRanking] keepsD [OF keeps_retryFinalization])

lemma le_run: "(comp_step L E)\<^sup>*\<^sup>* r r' \<Longrightarrow> le r r'"
  by (induction rule: rtranclp_induct) (auto intro: le_step le_trans)

end

section \<open>How editions evolve\<close>

definition lifecycle_move :: "string \<Rightarrow> string \<Rightarrow> bool" where
  "lifecycle_move a b = (ValidateLifecycleTransition a b = Inr ())"

text \<open>The terms of an edition are what its lifecycle never touches.\<close>

definition terms :: "Competition \<Rightarrow> Competition" where
  "terms c = c\<lparr>cp_LifecycleStatus := [], cp_PublishedAt := None, cp_FinalizedAt := None, cp_CancelledAt := None\<rparr>"

definition ended :: "Competition \<Rightarrow> bool" where
  "ended c = (cp_LifecycleStatus c = LifecycleCompleted \<or> cp_LifecycleStatus c = LifecycleCancelled)"

definition edition_le :: "Competition \<Rightarrow> Competition \<Rightarrow> bool" where
  "edition_le c c' =
     (lifecycle_move\<^sup>*\<^sup>* (cp_LifecycleStatus c) (cp_LifecycleStatus c') \<and> terms c' = terms c \<and> (ended c \<longrightarrow> c' = c))"

definition advances :: "CompRepo \<Rightarrow> CompRepo \<Rightarrow> bool" where
  "advances r r' =
     (\<forall>cid c. cr_competitions r cid = Some c \<longrightarrow>
        (\<exists>c'. cr_competitions r' cid = Some c' \<and> edition_le c c'
              \<and> (ended c \<longrightarrow> cr_resultStore r' cid = cr_resultStore r cid)))"

lemma lifecycle_move_ended: "lifecycle_move a b \<Longrightarrow> a \<noteq> LifecycleCompleted \<and> a \<noteq> LifecycleCancelled"
  by (auto simp: lifecycle_move_def ValidateLifecycleTransition_def lifecycleTransitions_def)

lemma lifecycle_move_cases:
  "lifecycle_move a b \<longleftrightarrow>
     (a, b) \<in> {(LifecycleDraft, LifecyclePublished), (LifecyclePublished, LifecycleRegistrationOpen),
               (LifecycleRegistrationOpen, LifecycleRegistrationClosed), (LifecycleRegistrationClosed, LifecycleActive),
               (LifecycleActive, LifecycleFinalizing), (LifecycleFinalizing, LifecycleCompleted)}
     \<or> b = LifecycleCancelled \<and> a \<in> {LifecycleDraft, LifecyclePublished, LifecycleRegistrationOpen,
               LifecycleRegistrationClosed, LifecycleActive, LifecycleFinalizing}"
  by (auto simp: lifecycle_move_def ValidateLifecycleTransition_def lifecycleTransitions_def split: if_splits)

lemma edition_le_refl: "edition_le c c"
  by (simp add: edition_le_def)

lemma edition_le_trans: "edition_le a b \<Longrightarrow> edition_le b c \<Longrightarrow> edition_le a c"
  unfolding edition_le_def by (metis rtranclp_trans)

lemma advances_trans: "advances r s \<Longrightarrow> advances s t \<Longrightarrow> advances r t"
  unfolding advances_def by (metis edition_le_def edition_le_trans)

lemma advances_same:
  "cr_competitions r' = cr_competitions r \<Longrightarrow> cr_resultStore r' = cr_resultStore r \<Longrightarrow> advances r r'"
  by (simp add: advances_def edition_le_refl)

lemma advances_new:
  "cr_competitions r cid = None \<Longrightarrow> cr_competitions r' = (cr_competitions r)(cid \<mapsto> c) \<Longrightarrow> cr_resultStore r' = cr_resultStore r
   \<Longrightarrow> advances r r'"
  by (auto simp: advances_def edition_le_refl)

lemma advances_move:
  assumes "cr_competitions r cid = Some c" "\<not> ended c" "edition_le c c'"
    and "cr_competitions r' = (cr_competitions r)(cid \<mapsto> c')"
    and "\<And>x. x \<noteq> cid \<Longrightarrow> cr_resultStore r' x = cr_resultStore r x"
  shows "advances r r'"
  using assms by (auto simp: advances_def edition_le_refl)

lemma update_by_id_frame:
  "update_by_id eid P f r = Inr r' \<Longrightarrow>
     cr_competitions r' = cr_competitions r \<and> cr_resultStore r' = cr_resultStore r"
  by (auto simp: update_by_id_def split: option.splits if_splits)

lemmas entry_updates = UpdateEntryStatus_def CompleteBaseline_def FailBaseline_def DisqualifyEntry_def

lemma advances_transition: "TransitionLifecycle cid a b now r = Inr r' \<Longrightarrow> advances r r'"
proof -
  assume run: "TransitionLifecycle cid a b now r = Inr r'"
  then have mv: "lifecycle_move a b"
    by (auto simp: TransitionLifecycle_def lifecycle_move_def)
  obtain c where c: "cr_competitions r cid = Some c" "cp_LifecycleStatus c = a"
    using run by (auto simp: TransitionLifecycle_def split: option.splits if_splits)
  obtain c' where c': "r' = r\<lparr>cr_competitions := (cr_competitions r)(cid \<mapsto> c')\<rparr>" "cp_LifecycleStatus c' = b" "terms c' = terms c"
    using run c by (auto simp: TransitionLifecycle_def Let_def terms_def split: if_splits)
  show ?thesis
    by (rule advances_move [OF c(1), of c'])
      (use c c' mv lifecycle_move_ended [OF mv] in \<open>auto simp: edition_le_def ended_def\<close>)
qed

lemma advances_promoted: "PromoteFinalizationGeneration L cid gen now r = Inr r' \<Longrightarrow> advances r r'"
proof -
  assume run: "PromoteFinalizationGeneration L cid gen now r = Inr r'"
  then obtain c where c: "cr_competitions r cid = Some c"
    by (auto simp: PromoteFinalizationGeneration_def split: option.splits)
  consider "r' = r" | "cp_LifecycleStatus c = LifecycleFinalizing"
    "cr_competitions r' = (cr_competitions r)(cid \<mapsto> c\<lparr>cp_LifecycleStatus := LifecycleCompleted, cp_FinalizedAt := Some now\<rparr>)"
    "\<And>x. x \<noteq> cid \<Longrightarrow> cr_resultStore r' x = cr_resultStore r x"
    using run c
    by (auto simp: PromoteFinalizationGeneration_def Let_def put_finalizationState_def split: option.splits if_splits)
  then show ?thesis
  proof cases
    case 2
    have "lifecycle_move LifecycleFinalizing LifecycleCompleted" by (simp add: lifecycle_move_cases)
    with 2 show ?thesis
      by (intro advances_move [OF c _ _ 2(2)]) (auto simp: ended_def edition_le_def terms_def)
  qed (simp add: advances_same)
qed

interpretation editions: comp_frame advances
proof unfold_locales
  fix r r' s t u :: CompRepo and c e st fin obs cid eid a b now v bs reason gen L
  show "advances s s" by (simp add: advances_same)
  show "advances s t \<Longrightarrow> advances t u \<Longrightarrow> advances s u" by (rule advances_trans)
  show "CreateEdition c r = Inr r' \<Longrightarrow> advances r r'"
    by (auto simp: CreateEdition_def split: if_splits intro: advances_new)
  show "cr_competitions r (cp_ID c) = None \<Longrightarrow> advances r (CreateCompetition c r)"
    by (auto simp: CreateCompetition_def intro: advances_new)
  show "TransitionLifecycle cid a b now r = Inr r' \<Longrightarrow> advances r r'" by (rule advances_transition)
  show "map_of (cr_entries r) (en_CompetitionID e, en_UserID e) = None \<Longrightarrow> advances r (put_entry e r)"
    by (simp add: put_entry_def advances_same)
  show "UpdateEntryStatus eid EntryAdmitted EntryWithdrawn now r = Inr r' \<Longrightarrow> advances r r'"
    "CompleteBaseline eid v bs now r = Inr r' \<Longrightarrow> advances r r'"
    "FailBaseline eid reason r = Inr r' \<Longrightarrow> advances r r'"
    "DisqualifyEntry eid reason r = Inr r' \<Longrightarrow> advances r r'"
    by (auto simp: entry_updates dest!: update_by_id_frame intro: advances_same)
  show "advances r (put_rankingState cid st r)" by (simp add: put_rankingState_def advances_same)
  show "advances r (put_finalizationState cid fin r)" by (simp add: put_finalizationState_def advances_same)
  show "advances r (r\<lparr>cr_observations := obs\<rparr>)" by (simp add: advances_same)
  show "PromoteFinalizationGeneration L cid gen now r = Inr r' \<Longrightarrow> advances r r'" by (rule advances_promoted)
qed

section \<open>Properties\<close>

text \<open>
  C8. Editions only move along the lifecycle. Whatever administrators, users and the worker do, in any order and
  with any account deleted in between, an edition keeps its terms and its status moves by legal transitions
  only; a completed or cancelled edition never changes again, and the results published for it are final.
\<close>

theorem lifecycle_path:
  assumes "(\<lambda>r r'. comp_step L E r r' \<or> (\<exists>uid. r' = comp_OnAccountDeleted uid r))\<^sup>*\<^sup>* r r'"
    and "cr_competitions r cid = Some c"
  shows "\<exists>c'. cr_competitions r' cid = Some c'
     \<and> lifecycle_move\<^sup>*\<^sup>* (cp_LifecycleStatus c) (cp_LifecycleStatus c') \<and> terms c' = terms c
     \<and> (cp_LifecycleStatus c \<in> {LifecycleCompleted, LifecycleCancelled}
          \<longrightarrow> c' = c \<and> cr_resultStore r' cid = cr_resultStore r cid)"
proof -
  have deleted: "advances r (comp_OnAccountDeleted uid r)" for r uid
    by (simp add: comp_OnAccountDeleted_def advances_same)
  from assms(1) have "advances r r'"
    by (induction rule: rtranclp_induct)
      (auto intro: advances_same advances_trans [OF _ editions.le_step] advances_trans [OF _ deleted])
  then show ?thesis using assms(2) by (auto simp: advances_def edition_le_def ended_def)
qed

definition demo_edition :: Competition where
  "demo_edition = zero_Competition\<lparr>cp_ID := ''c'', cp_StartsAt := 30, cp_EndsAt := 40, cp_JoinOpensAt := Some 10,
     cp_JoinClosesAt := Some 20, cp_LifecycleStatus := LifecyclePublished\<rparr>"

definition demo_editions :: CompRepo where
  "demo_editions = NewInMemoryCompetitionRepository
     \<lparr>cr_compOrder := [''c''], cr_competitions := [''c'' \<mapsto> demo_edition]\<rparr>"

text \<open>One scheduled pass takes a published edition through four moves when all its instants have passed.\<close>

theorem lifecycle_path_witness:
  "\<exists>c'. cr_competitions (AdvanceCompetitionLifecycles 50 demo_editions) ''c'' = Some c'
     \<and> lifecycle_move\<^sup>*\<^sup>* LifecyclePublished (cp_LifecycleStatus c') \<and> cp_LifecycleStatus c' = LifecycleFinalizing"
proof -
  have "comp_step std_declib E demo_editions (AdvanceCompetitionLifecycles 50 demo_editions)" for E
    by (rule scheduled)
  then have run: "(\<lambda>r r'. comp_step std_declib E r r' \<or> (\<exists>uid. r' = comp_OnAccountDeleted uid r))\<^sup>*\<^sup>*
      demo_editions (AdvanceCompetitionLifecycles 50 demo_editions)" for E
    by blast
  have c: "cr_competitions demo_editions ''c'' = Some demo_edition" "cp_LifecycleStatus demo_edition = LifecyclePublished"
    by (simp_all add: demo_editions_def demo_edition_def)
  have "map_option cp_LifecycleStatus (cr_competitions (AdvanceCompetitionLifecycles 50 demo_editions) ''c'') = Some LifecycleFinalizing"
    by code_simp
  with lifecycle_path [OF run c(1)] c(2) show ?thesis by auto
qed

end
