(* ===== verification/EntryLaws.thy ===== *)
theory EntryLaws
  imports LifecycleLaws ObserveLaws
begin

text \<open>
  How entries evolve: the interpretation of \<open>comp_frame\<close> on the entries of the repository. An entry keeps the
  composition it was frozen with, its baseline is written once, and its status only moves forward.
\<close>

section \<open>How entries evolve\<close>

text \<open>What a join freezes: everything but the status and what the common baseline writes.\<close>

definition frozen_position :: "EntrySnapshotPosition \<Rightarrow> EntrySnapshotPosition" where
  "frozen_position s = s\<lparr>sp_Symbol := [], sp_Quantity := 0, sp_StartingPrice := 0, sp_StartingPriceCurrency := [],
     sp_StartingValueBase := 0, sp_StartingWeight := 0, sp_BaselinePriceObservedAt := None\<rparr>"

definition frozen :: "CompetitionEntry \<Rightarrow> CompetitionEntry" where
  "frozen e = e\<lparr>en_EntryStatus := [], en_StartingValue := 0, en_EligibleStartingValueBase := 0, en_BaselineStatus := [],
     en_BaselineCompletedAt := None, en_DisqualificationReason := [], en_WithdrawnAt := None,
     en_Snapshots := map frozen_position (en_Snapshots e)\<rparr>"

definition entry_moves :: "string \<Rightarrow> string \<Rightarrow> bool" where
  "entry_moves a b =
     (a = b \<or> a = EntryAdmitted \<and> b \<in> {EntryActive, EntryWithdrawn, EntryBaselineFailed, EntryDisqualified, EntryFinalized}
      \<or> a = EntryActive \<and> b \<in> {EntryDisqualified, EntryFinalized})"

text \<open>The baseline of an entry: what it starts from.\<close>

definition baseline_of :: "CompetitionEntry \<Rightarrow> Amount \<times> Amount \<times> EntrySnapshotPosition list \<times> time option" where
  "baseline_of e = (en_StartingValue e, en_EligibleStartingValueBase e, en_Snapshots e, en_BaselineCompletedAt e)"

definition entry_le :: "CompetitionEntry \<Rightarrow> CompetitionEntry \<Rightarrow> bool" where
  "entry_le e e' =
     (entry_moves (en_EntryStatus e) (en_EntryStatus e') \<and> frozen e' = frozen e
      \<and> (en_EntryStatus e \<noteq> EntryAdmitted \<longrightarrow> baseline_of e' = baseline_of e))"

definition entries_adv :: "CompRepo \<Rightarrow> CompRepo \<Rightarrow> bool" where
  "entries_adv r r' =
     (distinct (map fst (cr_entries r)) \<longrightarrow>
        distinct (map fst (cr_entries r'))
        \<and> (\<forall>k e. map_of (cr_entries r) k = Some e \<longrightarrow> (\<exists>e'. map_of (cr_entries r') k = Some e' \<and> entry_le e e')))"

lemma entry_le_refl: "entry_le e e"
  by (simp add: entry_le_def entry_moves_def)

lemma entry_moves_trans: "entry_moves a b \<Longrightarrow> entry_moves b c \<Longrightarrow> entry_moves a c"
  by (auto simp: entry_moves_def)

lemma entry_moves_admitted: "entry_moves a b \<Longrightarrow> a \<noteq> EntryAdmitted \<Longrightarrow> b \<noteq> EntryAdmitted"
  by (auto simp: entry_moves_def)

lemma entry_le_trans:
  assumes "entry_le a b" "entry_le b c"
  shows "entry_le a c"
proof -
  have "baseline_of c = baseline_of a" if "en_EntryStatus a \<noteq> EntryAdmitted"
    using assms entry_moves_admitted [OF _ that] that by (auto simp: entry_le_def)
  then show ?thesis
    using assms by (auto simp: entry_le_def intro: entry_moves_trans)
qed

lemma entries_adv_same: "cr_entries r' = cr_entries r \<Longrightarrow> entries_adv r r'"
  by (auto simp: entries_adv_def intro: entry_le_refl)

lemma entries_adv_trans: "entries_adv r s \<Longrightarrow> entries_adv s t \<Longrightarrow> entries_adv r t"
  unfolding entries_adv_def by (blast intro: entry_le_trans)

lemma entries_adv_new:
  "map_of (cr_entries r) k = None \<Longrightarrow> cr_entries r' = AList.update k e (cr_entries r) \<Longrightarrow> entries_adv r r'"
  by (auto simp: entries_adv_def update_conv' distinct_update intro: entry_le_refl)

lemma find_in_set: "find P xs = Some x \<Longrightarrow> x \<in> set xs \<and> P x"
  by (auto simp: find_Some_iff)

lemma entries_adv_update:
  assumes "update_by_id eid expected f r = Inr r'" "\<And>e. expected e \<Longrightarrow> entry_le e (f e)"
  shows "entries_adv r r'"
proof -
  obtain k e where ke: "find (\<lambda>(k, e). en_ID e = eid) (cr_entries r) = Some (k, e)" "expected e"
    "r' = r\<lparr>cr_entries := AList.update k (f e) (cr_entries r)\<rparr>"
    using assms(1) by (auto simp: update_by_id_def split: option.splits if_splits)
  have "(k, e) \<in> set (cr_entries r)" using find_in_set [OF ke(1)] by simp
  then have k: "distinct (map fst (cr_entries r)) \<Longrightarrow> map_of (cr_entries r) k = Some e" by simp
  show ?thesis
    unfolding entries_adv_def
  proof (intro impI conjI allI)
    assume d: "distinct (map fst (cr_entries r))"
    then show "distinct (map fst (cr_entries r'))" by (simp add: ke(3) distinct_update)
    fix k' x assume x: "map_of (cr_entries r) k' = Some x"
    show "\<exists>e'. map_of (cr_entries r') k' = Some e' \<and> entry_le x e'"
      using x k [OF d] assms(2) [OF ke(2)] by (cases "k' = k") (auto simp: ke(3) update_conv' entry_le_refl)
  qed
qed

lemma frozen_baseline [simp]: "frozen_position (apply_baseline bs s) = frozen_position s"
  by (simp add: apply_baseline_def frozen_position_def split: option.splits)

lemma map_of_finalize:
  "map_of (finalize_entries cid results es) k =
     map_option (\<lambda>e. if fst k = cid \<and> en_EntryStatus e = EntryActive \<and> en_ID e \<in> set (map re_EntryID results)
                     then e\<lparr>en_EntryStatus := EntryFinalized\<rparr> else e) (map_of es k)"
  by (induction es) (auto simp: finalize_entries_def)

lemma keys_finalize: "map fst (finalize_entries cid results es) = map fst es"
  by (simp add: finalize_entries_def case_prod_beta comp_def)

lemma entries_adv_promoted: "PromoteFinalizationGeneration L cid gen now r = Inr r' \<Longrightarrow> entries_adv r r'"
proof -
  assume run: "PromoteFinalizationGeneration L cid gen now r = Inr r'"
  then have "r' = r \<or> (\<exists>results. cr_entries r' = finalize_entries cid results (cr_entries r))"
    by (auto simp: PromoteFinalizationGeneration_def Let_def put_finalizationState_def split: option.splits if_splits)
  then show ?thesis
  proof (elim disjE exE)
    fix results assume e: "cr_entries r' = finalize_entries cid results (cr_entries r)"
    have "entry_le e (e\<lparr>en_EntryStatus := EntryFinalized\<rparr>)" if "en_EntryStatus e = EntryActive" for e
      using that by (simp add: entry_le_def entry_moves_def frozen_def baseline_of_def)
    then show ?thesis
      by (auto simp: entries_adv_def e map_of_finalize keys_finalize intro: entry_le_refl)
  qed (simp add: entries_adv_same)
qed

interpretation entries: comp_frame entries_adv
proof unfold_locales
  fix r r' s t u :: CompRepo and c e st fin obs cid eid a b now v bs reason gen L
  show "entries_adv s s" by (simp add: entries_adv_same)
  show "entries_adv s t \<Longrightarrow> entries_adv t u \<Longrightarrow> entries_adv s u" by (rule entries_adv_trans)
  show "CreateEdition c r = Inr r' \<Longrightarrow> entries_adv r r'"
    by (auto simp: CreateEdition_def split: if_splits intro: entries_adv_same)
  show "cr_competitions r (cp_ID c) = None \<Longrightarrow> entries_adv r (CreateCompetition c r)"
    by (auto simp: CreateCompetition_def intro: entries_adv_same)
  show "TransitionLifecycle cid a b now r = Inr r' \<Longrightarrow> entries_adv r r'"
    by (auto simp: TransitionLifecycle_def Let_def split: option.splits if_splits intro: entries_adv_same)
  show "map_of (cr_entries r) (en_CompetitionID e, en_UserID e) = None \<Longrightarrow> entries_adv r (put_entry e r)"
    by (simp add: put_entry_def entries_adv_new)
  show "UpdateEntryStatus eid EntryAdmitted EntryWithdrawn now r = Inr r' \<Longrightarrow> entries_adv r r'"
    "CompleteBaseline eid v bs now r = Inr r' \<Longrightarrow> entries_adv r r'"
    "FailBaseline eid reason r = Inr r' \<Longrightarrow> entries_adv r r'"
    "DisqualifyEntry eid reason r = Inr r' \<Longrightarrow> entries_adv r r'"
    unfolding entry_updates
    by (erule entries_adv_update, force simp: entry_le_def entry_moves_def frozen_def baseline_of_def)+
  show "entries_adv r (put_rankingState cid st r)" by (simp add: put_rankingState_def entries_adv_same)
  show "entries_adv r (put_finalizationState cid fin r)" by (simp add: put_finalizationState_def entries_adv_same)
  show "entries_adv r (r\<lparr>cr_observations := obs\<rparr>)" by (simp add: entries_adv_same)
  show "PromoteFinalizationGeneration L cid gen now r = Inr r' \<Longrightarrow> entries_adv r r'" by (rule entries_adv_promoted)
qed

section \<open>Properties\<close>

text \<open>
  C9. What is scored is frozen. Through any run of joins, passes, retries and administration a user keeps one
  entry per edition, with the composition, cash, evidence and identity of the moment of joining; its status only
  moves forward (admitted, then active, withdrawn or failed, then disqualified or finalized), and once it has
  left admission, the baseline it is measured against never changes.
\<close>

theorem entry_frozen:
  assumes "(comp_step L E)\<^sup>*\<^sup>* r r'" "distinct (map fst (cr_entries r))"
    and "map_of (cr_entries r) (cid, uid) = Some e"
  shows "distinct (map fst (cr_entries r'))
     \<and> (\<exists>e'. map_of (cr_entries r') (cid, uid) = Some e' \<and> frozen e' = frozen e
             \<and> entry_moves (en_EntryStatus e) (en_EntryStatus e')
             \<and> (en_EntryStatus e \<noteq> EntryAdmitted \<longrightarrow> baseline_of e' = baseline_of e))"
  using entries.le_run [OF assms(1), unfolded entries_adv_def entry_le_def] assms(2,3) by blast

definition demo_joined :: CompRepo where
  "demo_joined = demo_editions\<lparr>cr_entries := [((''c'', ''u''), demo_entry\<lparr>en_EntryStatus := EntryAdmitted\<rparr>)]\<rparr>"

theorem entry_frozen_witness:
  "\<exists>e'. map_of (cr_entries (snd (Withdraw ''c'' ''u'' 15 demo_joined))) (''c'', ''u'') = Some e'
     \<and> frozen e' = frozen demo_entry \<and> en_EntryStatus e' = EntryWithdrawn"
proof -
  let ?e = "demo_entry\<lparr>en_EntryStatus := EntryAdmitted\<rparr>"
  have "comp_step std_declib (demo_engine (Fin 1) (Inr (Fin 1))) demo_joined (snd (Withdraw ''c'' ''u'' 15 demo_joined))"
    by (rule withdrew [of "''c''" "''u''" 15 _ "fst (Withdraw ''c'' ''u'' 15 demo_joined)"]) simp
  then have run: "(comp_step std_declib (demo_engine (Fin 1) (Inr (Fin 1))))\<^sup>*\<^sup>* demo_joined (snd (Withdraw ''c'' ''u'' 15 demo_joined))"
    by blast
  have "map_of (cr_entries demo_joined) (''c'', ''u'') = Some ?e" "distinct (map fst (cr_entries demo_joined))"
    by (simp_all add: demo_joined_def)
  moreover have "frozen ?e = frozen demo_entry" by (simp add: frozen_def)
  moreover have "map_option en_EntryStatus (map_of (cr_entries (snd (Withdraw ''c'' ''u'' 15 demo_joined))) (''c'', ''u'')) = Some EntryWithdrawn"
    by code_simp
  ultimately show ?thesis
    using entry_frozen [OF run, of "''c''" "''u''" ?e] by auto
qed

end
