(* ===== verification/FinalLaws.thy ===== *)
theory FinalLaws
  imports RankLaws EntryLaws
begin

text \<open>
  Finalization: over any number of passes every active entry of an edition ends with a result or is
  disqualified, and the results are ranked. The invariant \<open>final_ok\<close> says what the passes of one generation have
  covered; the sort and the claims come from \<open>OrderLaws\<close>.
\<close>

section \<open>Entries by id\<close>

definition unique_ids :: "CompRepo \<Rightarrow> bool" where
  "unique_ids r = (distinct (map fst (cr_entries r)) \<and> distinct (map (\<lambda>(k, e). en_ID e) (cr_entries r)))"

definition active_ids :: "string \<Rightarrow> CompRepo \<Rightarrow> string set" where
  "active_ids cid r = en_ID ` {e \<in> set (ListEntries cid r). en_EntryStatus e = EntryActive}"

lemma active_ids_iff:
  "i \<in> active_ids cid r = (\<exists>u e. ((cid, u), e) \<in> set (cr_entries r) \<and> en_EntryStatus e = EntryActive \<and> en_ID e = i)"
  by (force simp: active_ids_def ListEntries_def)

lemma update_by_id_map:
  assumes "unique_ids r" "update_by_id eid P f r = Inr r'"
  shows "cr_entries r' = map (\<lambda>(k, e). (k, if en_ID e = eid then f e else e)) (cr_entries r)"
    and "r' = r\<lparr>cr_entries := cr_entries r'\<rparr>"
proof -
  obtain k e where ke: "find (\<lambda>(k, e). en_ID e = eid) (cr_entries r) = Some (k, e)"
    and r': "r' = r\<lparr>cr_entries := AList.update k (f e) (cr_entries r)\<rparr>"
    using assms(2) by (auto simp: update_by_id_def split: option.splits if_splits)
  have mem: "(k, e) \<in> set (cr_entries r)" "en_ID e = eid" using find_in_set [OF ke] by auto
  have d: "distinct (map fst (cr_entries r))" and i: "distinct (map (\<lambda>(k, e). en_ID e) (cr_entries r))"
    using assms(1) by (auto simp: unique_ids_def)
  have "AList.update k (f e) (cr_entries r) = map (\<lambda>(k', e'). (k', if k' = k then f e else e')) (cr_entries r)"
    by (rule update_present [OF d]) (use mem in force)
  also have "\<dots> = map (\<lambda>(k, e). (k, if en_ID e = eid then f e else e)) (cr_entries r)"
  proof (rule map_cong [OF refl])
    fix x assume x: "x \<in> set (cr_entries r)"
    obtain k' e' where x': "x = (k', e')" by (cases x)
    have k: "x = (k, e)" if "k' = k"
      using inj_onD [OF conjunct2 [OF d [unfolded distinct_map]], of x "(k, e)"] x x' mem that by simp
    have eid: "x = (k, e)" if "en_ID e' = eid"
      using inj_onD [OF conjunct2 [OF i [unfolded distinct_map]], of x "(k, e)"] x x' mem that by simp
    show "(\<lambda>(k', e'). (k', if k' = k then f e else e')) x = (\<lambda>(k, e). (k, if en_ID e = eid then f e else e)) x"
      using x' mem(2) k eid by (cases "k' = k"; cases "en_ID e' = eid") simp_all
  qed
  finally show "cr_entries r' = map (\<lambda>(k, e). (k, if en_ID e = eid then f e else e)) (cr_entries r)"
    by (simp add: r')
  show "r' = r\<lparr>cr_entries := cr_entries r'\<rparr>" by (simp add: r')
qed

lemma unique_ids_map:
  assumes "unique_ids r" "\<And>e. en_ID (f e) = en_ID e"
    and "cr_entries r' = map (\<lambda>(k, e). (k, if en_ID e = eid then f e else e)) (cr_entries r)"
  shows "unique_ids r'"
proof -
  have "map fst (cr_entries r') = map fst (cr_entries r)"
    "map (\<lambda>(k, e). en_ID e) (cr_entries r') = map (\<lambda>(k, e). en_ID e) (cr_entries r)"
    using assms(2) by (simp_all add: assms(3) case_prod_beta comp_def)
  with assms(1) show ?thesis by (simp add: unique_ids_def)
qed

lemma finalizationState_put [simp]: "finalizationState (put_finalizationState cid st r) cid = st"
  by (simp add: finalizationState_def put_finalizationState_def)

lemma put_finalizationState_frame [simp]:
  "cr_entries (put_finalizationState cid st r) = cr_entries r"
  "cr_competitions (put_finalizationState cid st r) = cr_competitions r"
  "cr_resultStore (put_finalizationState cid st r) = cr_resultStore r"
  by (simp_all add: put_finalizationState_def)

lemma entries_only:
  "cr_entries r' = cr_entries r \<Longrightarrow> unique_ids r' = unique_ids r"
  "cr_entries r' = cr_entries r \<Longrightarrow> active_ids cid r' = active_ids cid r"
  by (simp_all add: unique_ids_def active_ids_def ListEntries_def)

lemma DisqualifyEntry_spec:
  assumes "unique_ids r" "DisqualifyEntry eid reason r = Inr r'"
  shows "unique_ids r'" "active_ids cid r' \<subseteq> active_ids cid r - {eid}" "r' = r\<lparr>cr_entries := cr_entries r'\<rparr>"
proof -
  let ?f = "\<lambda>e. e\<lparr>en_EntryStatus := EntryDisqualified, en_DisqualificationReason := reason\<rparr>"
  have es: "cr_entries r' = map (\<lambda>(k, e). (k, if en_ID e = eid then ?f e else e)) (cr_entries r)"
    and r': "r' = r\<lparr>cr_entries := cr_entries r'\<rparr>"
    by (rule update_by_id_map [OF assms(1) assms(2) [unfolded DisqualifyEntry_def]])+
  show "unique_ids r'" by (rule unique_ids_map [OF assms(1) _ es]) simp
  show "active_ids cid r' \<subseteq> active_ids cid r - {eid}"
  proof
    fix i assume "i \<in> active_ids cid r'"
    then obtain u e where "((cid, u), e) \<in> set (cr_entries r)" "i = en_ID e" "en_ID e \<noteq> eid" "en_EntryStatus e = EntryActive"
      unfolding active_ids_iff es by (auto split: if_splits)
    then show "i \<in> active_ids cid r - {eid}" by (auto simp: active_ids_iff)
  qed
  show "r' = r\<lparr>cr_entries := cr_entries r'\<rparr>" by (rule r')
qed

section \<open>A batch of a finalization pass\<close>

lemma UpsertFinalizationRow_rows:
  assumes "map_of (mf_generations (finalizationState r cid)) gen = Some g" "fg_Status g = GenerationBuilding"
    and "mf_rows (finalizationState r cid) gen = Some rows"
  shows "UpsertFinalizationRow cid gen row r =
     Inr (put_finalizationState cid ((finalizationState r cid)\<lparr>mf_rows :=
            (mf_rows (finalizationState r cid))(gen \<mapsto> AList.update (fr_EntryID row) row rows)\<rparr>) r)"
  using assms by (simp add: UpsertFinalizationRow_def Let_def)

definition fkeyed :: "(string \<times> CompetitionFinalizationRow) list \<Rightarrow> bool" where
  "fkeyed rows = (\<forall>(k, row)\<in>set rows. k = fr_EntryID row)"

lemma fkeyed_update: "fkeyed rows \<Longrightarrow> fkeyed (AList.update (fr_EntryID row) row rows)"
proof -
  have "set (AList.update k v al) \<subseteq> insert (k, v) (set al)" for k v and al :: "(string \<times> CompetitionFinalizationRow) list"
    by (induction al) auto
  then show "fkeyed rows \<Longrightarrow> fkeyed (AList.update (fr_EntryID row) row rows)"
    unfolding fkeyed_def by fastforce
qed

text \<open>
  The contract of a batch over the entries \<open>es\<close>: drafts are only added, entries only leave the active ones,
  and when no entry was counted as failed, each one has a draft or is no longer active.
\<close>

definition batch_ok :: "string \<Rightarrow> int \<Rightarrow> CompetitionEntry list \<Rightarrow> lap \<Rightarrow> CompRepo \<Rightarrow> (comp_err + lap) \<Rightarrow> CompRepo
    \<Rightarrow> string set \<Rightarrow> (string \<times> CompetitionFinalizationRow) list \<Rightarrow> bool" where
  "batch_ok cid gen es b r res r' old rows' =
     (finalizationState r' cid = (finalizationState r cid)\<lparr>mf_rows := (mf_rows (finalizationState r cid))(gen \<mapsto> rows')\<rparr>
      \<and> cr_competitions r' = cr_competitions r \<and> unique_ids r' \<and> active_ids cid r' \<subseteq> active_ids cid r
      \<and> old \<subseteq> fst ` set rows' \<and> fkeyed rows'
      \<and> (\<forall>b'. res = Inr b' \<longrightarrow>
           lp_failed b \<le> lp_failed b' \<and> lp_writeFailed b' = lp_writeFailed b
           \<and> lp_lastEntryID b' = (if es = [] then lp_lastEntryID b else en_ID (last es))
           \<and> (lp_failed b' = lp_failed b \<longrightarrow> en_ID ` set es \<inter> active_ids cid r' \<subseteq> fst ` set rows')))"

lemma batch_ok_step:
  assumes "batch_ok cid gen es b1 r1 res r' old1 rows'"
    and "finalizationState r1 cid = (finalizationState r cid)\<lparr>mf_rows := (mf_rows (finalizationState r cid))(gen \<mapsto> rowsA)\<rparr>"
    and "cr_competitions r1 = cr_competitions r" "active_ids cid r1 \<subseteq> active_ids cid r" "old \<subseteq> old1"
    and "lp_failed b \<le> lp_failed b1" "lp_writeFailed b1 = lp_writeFailed b" "lp_lastEntryID b1 = en_ID e"
    and "lp_failed b1 = lp_failed b \<Longrightarrow> en_ID e \<in> old1 \<or> en_ID e \<notin> active_ids cid r1"
  shows "batch_ok cid gen (e # es) b r res r' old rows'"
  using assms unfolding batch_ok_def by (auto 4 4)

lemma finalize_batch_rows:
  assumes "finalize_batch L E c scoring gen deadline now view es b r = (res, r')" "unique_ids r"
    and "map_of (mf_generations (finalizationState r (cp_ID c))) gen = Some g" "fg_Status g = GenerationBuilding"
    and "mf_rows (finalizationState r (cp_ID c)) gen = Some rows" "fkeyed rows"
  shows "\<exists>rows'. batch_ok (cp_ID c) gen es b r res r' (fst ` set rows) rows'"
  using assms
proof (induction es arbitrary: b r rows)
  case Nil
  have "(mf_rows (finalizationState r (cp_ID c)))(gen \<mapsto> rows) = mf_rows (finalizationState r (cp_ID c))"
    using Nil.prems(5) by auto
  with Nil show ?case by (intro exI [of _ rows]) (auto simp: batch_ok_def)
next
  case (Cons e es)
  let ?cid = "cp_ID c"
  let ?st = "finalizationState r ?cid" and ?b = "lap_entry e b"
  have same: "(mf_rows ?st)(gen \<mapsto> rows) = mf_rows ?st" using Cons.prems(5) by auto
  have stop: ?case if "\<exists>x. res = Inl x" "r' = r"
    using that same Cons.prems(2,6) by (intro exI [of _ rows]) (auto simp: batch_ok_def)
  have b: "lp_failed ?b = lp_failed b" "lp_writeFailed ?b = lp_writeFailed b" "lp_lastEntryID ?b = en_ID e"
    by (simp_all add: lap_entry_def)
  have failed: ?case if run: "finalize_batch L E c scoring gen deadline now view es (?b\<lparr>lp_failed := lp_failed ?b + 1\<rparr>) r = (res, r')"
  proof -
    obtain rows' where "batch_ok ?cid gen es (?b\<lparr>lp_failed := lp_failed ?b + 1\<rparr>) r res r' (fst ` set rows) rows'"
      using Cons.IH [OF run Cons.prems(2-6)] by blast
    then have "batch_ok ?cid gen (e # es) b r res r' (fst ` set rows) rows'"
      by (rule batch_ok_step [where rowsA = rows]) (simp_all add: same b)
    then show ?thesis by blast
  qed
  have gone: ?case if run: "finalize_batch L E c scoring gen deadline now view es (?b\<lparr>lp_disqualified := lp_disqualified ?b + 1\<rparr>) r1 = (res, r')"
    and d: "DisqualifyEntry (en_ID e) reason r = Inr r1" for r1 reason
  proof -
    note D = DisqualifyEntry_spec [OF Cons.prems(2) d]
    have st1: "finalizationState r1 ?cid = ?st" "cr_competitions r1 = cr_competitions r"
      by (subst D(3), simp add: finalizationState_def)+
    obtain rows' where "batch_ok ?cid gen es (?b\<lparr>lp_disqualified := lp_disqualified ?b + 1\<rparr>) r1 res r' (fst ` set rows) rows'"
      using Cons.IH [OF run D(1), unfolded st1(1), OF Cons.prems(3-6)] by blast
    then have "batch_ok ?cid gen (e # es) b r res r' (fst ` set rows) rows'"
      by (rule batch_ok_step [where rowsA = rows]) (use D(2) in \<open>auto simp: same b st1\<close>)
    then show ?thesis by blast
  qed
  have drafted: ?case if run: "finalize_batch L E c scoring gen deadline now view es (?b\<lparr>lp_successful := lp_successful ?b + 1\<rparr>) r1 = (res, r')"
    and r1: "r1 = put_finalizationState ?cid (?st\<lparr>mf_rows := (mf_rows ?st)(gen \<mapsto> AList.update (fr_EntryID row) row rows)\<rparr>) r"
    and eid: "fr_EntryID row = en_ID e" for r1 row
  proof -
    let ?rows = "AList.update (fr_EntryID row) row rows"
    have st1: "finalizationState r1 ?cid = ?st\<lparr>mf_rows := (mf_rows ?st)(gen \<mapsto> ?rows)\<rparr>" by (simp add: r1)
    have u: "unique_ids r1" "active_ids ?cid r1 = active_ids ?cid r"
      using Cons.prems(2) entries_only [of r1 r] by (simp_all add: r1)
    have comps: "cr_competitions r1 = cr_competitions r" by (simp add: r1)
    have gens: "map_of (mf_generations (finalizationState r1 ?cid)) gen = Some g"
      and rows: "mf_rows (finalizationState r1 ?cid) gen = Some ?rows"
      using Cons.prems(3) by (simp_all add: st1)
    obtain rows' where "batch_ok ?cid gen es (?b\<lparr>lp_successful := lp_successful ?b + 1\<rparr>) r1 res r' (fst ` set ?rows) rows'"
      using Cons.IH [OF run u(1) gens Cons.prems(4) rows fkeyed_update [OF Cons.prems(6)]] by blast
    then have "batch_ok ?cid gen (e # es) b r res r' (fst ` set rows) rows'"
      by (rule batch_ok_step [OF _ st1]) (use u(2) in \<open>auto simp: b comps update_keys eid\<close>)
    then show ?thesis by blast
  qed
  show ?case
  proof (cases "fst (valueCompetitionEntry L e (boundary_source L) scoring view)")
    case (Inl err)
    with Cons.prems(1) consider "\<exists>x. res = Inl x" "r' = r"
      | "finalize_batch L E c scoring gen deadline now view es (?b\<lparr>lp_failed := lp_failed ?b + 1\<rparr>) r = (res, r')"
      | r1 reason where "finalize_batch L E c scoring gen deadline now view es (?b\<lparr>lp_disqualified := lp_disqualified ?b + 1\<rparr>) r1 = (res, r')"
          "DisqualifyEntry (en_ID e) reason r = Inr r1"
      by (auto simp: Let_def split: if_splits sum.splits)
    then show ?thesis using stop failed gone by cases blast+
  next
    case (Inr x)
    obtain idx pct where x: "x = (idx, pct)" by (cases x)
    let ?row = "\<lparr>fr_EntryID = en_ID e, fr_UserID = en_UserID e, fr_Index = idx, fr_ReturnPct = pct, fr_ValuedAt = now\<rparr>"
    have "finalize_batch L E c scoring gen deadline now view es (?b\<lparr>lp_successful := lp_successful ?b + 1\<rparr>)
        (put_finalizationState ?cid (?st\<lparr>mf_rows := (mf_rows ?st)(gen \<mapsto> AList.update (fr_EntryID ?row) ?row rows)\<rparr>) r) = (res, r')"
      using Cons.prems(1) Inr x by (simp add: Let_def UpsertFinalizationRow_rows [OF Cons.prems(3-5)])
    then show ?thesis by (rule drafted [OF _ refl]) simp
  qed
qed

section \<open>Claiming\<close>

text \<open>A claim takes the next active entries in id order; what it leaves behind the last one is already claimed.\<close>

lemma claim_order: "(\<lambda>a b. str_less (en_ID a) (en_ID b)) = by_score (\<lambda>_. 0) (\<lambda>_. []) en_ID"
  by (intro ext) (simp add: by_score_def)

lemma claim_spec:
  assumes claim: "es = ClaimEntriesForFinalization cid cur batch r"
  shows "en_ID ` set es \<subseteq> active_ids cid r"
    and "length es < batch \<Longrightarrow> i \<in> active_ids cid r \<Longrightarrow> cur = [] \<or> str_less cur i \<Longrightarrow> i \<in> en_ID ` set es"
    and "i \<in> active_ids cid r \<Longrightarrow> cur = [] \<or> str_less cur i \<Longrightarrow> es \<noteq> [] \<Longrightarrow> \<not> str_less (en_ID (last es)) i
         \<Longrightarrow> i \<in> en_ID ` set es"
proof -
  let ?less = "\<lambda>a b. str_less (en_ID a) (en_ID b)"
  let ?actives = "filter (\<lambda>e. en_EntryStatus e = EntryActive) (ListEntries cid r)"
  define xs where "xs = filter (\<lambda>e. cur = [] \<or> str_less cur (en_ID e)) (isort ?less ?actives)"
  have es: "es = take batch xs" by (simp add: claim ClaimEntriesForFinalization_def xs_def)
  have set_xs: "set xs = {e \<in> set (ListEntries cid r). en_EntryStatus e = EntryActive \<and> (cur = [] \<or> str_less cur (en_ID e))}"
    by (auto simp: xs_def)
  have sorted: "sorted_wrt (\<lambda>a b. \<not> ?less b a) xs"
    unfolding xs_def
    by (rule sorted_wrt_filter) (use score.sorted_isort [of "\<lambda>_. 0" "\<lambda>_. []" en_ID ?actives] in \<open>simp add: claim_order [symmetric]\<close>)
  show "en_ID ` set es \<subseteq> active_ids cid r"
    using set_take_subset [of batch xs] set_xs by (auto simp: es active_ids_def)
  have in_xs: "\<exists>e\<in>set xs. en_ID e = i" if "i \<in> active_ids cid r" "cur = [] \<or> str_less cur i"
    using that set_xs by (auto simp: active_ids_def)
  show "i \<in> en_ID ` set es" if "length es < batch" "i \<in> active_ids cid r" "cur = [] \<or> str_less cur i"
    using in_xs [OF that(2,3)] that(1) by (auto simp: es min_def split: if_splits)
  show "i \<in> en_ID ` set es"
    if i: "i \<in> active_ids cid r" "cur = [] \<or> str_less cur i" and ne: "es \<noteq> []" and behind: "\<not> str_less (en_ID (last es)) i"
  proof -
    obtain j where j: "j < length xs" "en_ID (xs ! j) = i"
      using in_xs [OF i] by (auto simp: in_set_conv_nth)
    show ?thesis
    proof (cases "j < batch")
      case True
      then have "xs ! j \<in> set es" using j(1) by (auto simp: es in_set_conv_nth intro!: exI [of _ j])
      with j(2) show ?thesis by force
    next
      case False
      define k where "k = batch - 1"
      have k: "k < j" "last es = xs ! k" "xs ! k \<in> set es"
        using ne j(1) False by (auto simp: es k_def last_conv_nth min_def in_set_conv_nth intro!: exI [of _ k])
      have "\<not> str_less i (en_ID (xs ! k))"
        using sorted j k(1) by (auto simp: sorted_wrt_iff_nth_less)
      then have "i = en_ID (xs ! k)" using behind k(2) str_less_total by metis
      with k(3) show ?thesis by auto
    qed
  qed
qed

lemma adjustedEntryBasket_ID: "adjustedEntryBasket E c e through = Inr e' \<Longrightarrow> en_ID e' = en_ID e"
  by (auto simp: adjustedEntryBasket_def split: option.splits)

lemma adjust_entries_IDs: "adjust_entries E c es = Inr es' \<Longrightarrow> map en_ID es' = map en_ID es"
  by (induction es arbitrary: es') (auto dest: adjustedEntryBasket_ID)

lemma capture_frame: "captureObservations L E cid b eff es lastBatch now r = (res, r') \<Longrightarrow> \<exists>obs. r' = r\<lparr>cr_observations := obs\<rparr>"
proof -
  assume run: "captureObservations L E cid b eff es lastBatch now r = (res, r')"
  obtain s r1 where ens: "EnsureObservationSet cid b eff observationProvider r = (s, r1)" by (meson surj_pair)
  have r1: "\<exists>obs. r1 = r\<lparr>cr_observations := obs\<rparr>"
    using ens by (cases r) (auto simp: EnsureObservationSet_def Let_def split: option.splits)
  have "r' = r1 \<or> (\<exists>ps fs sealed. RecordObservations (os_ID s) ps fs sealed now r1 = Inr r')"
    using run unfolding captureObservations_def ens Let_def prod.case
    by (auto split: prod.splits if_splits sum.splits)
  moreover have "\<exists>obs. r' = r1\<lparr>cr_observations := obs\<rparr>" if "RecordObservations sid ps fs sealed now r1 = Inr r'" for sid ps fs sealed
    using that by (cases r1) (auto simp: RecordObservations_def Let_def split: option.splits if_splits)
  ultimately show ?thesis using r1 by auto
qed

section \<open>The passes of a generation\<close>

text \<open>
  Between passes at most one generation is being built, the last. Unless an entry was counted as failed, every
  active entry up to its cursor has a draft.
\<close>

definition not_building :: "(int \<times> FinalizationGeneration) list \<Rightarrow> bool" where
  "not_building gens = (\<forall>(n, g)\<in>set gens. fg_Status g \<noteq> GenerationBuilding)"

definition lap_so_far :: "string \<Rightarrow> CompRepo \<Rightarrow> (int \<times> FinalizationGeneration) list \<Rightarrow> FinalizationGeneration \<Rightarrow> bool" where
  "lap_so_far cid r pre g =
     (not_building pre \<and> mf_generations (finalizationState r cid) = pre @ [(fg_Generation g, g)]
      \<and> fg_Generation g \<notin> fst ` set pre \<and> fg_Status g = GenerationBuilding \<and> 0 \<le> fg_FailedEntries g
      \<and> (\<exists>rows. mf_rows (finalizationState r cid) (fg_Generation g) = Some rows \<and> fkeyed rows
           \<and> (fg_FailedEntries g = 0 \<longrightarrow>
                {i \<in> active_ids cid r. fg_CursorEntryID g \<noteq> [] \<and> \<not> str_less (fg_CursorEntryID g) i} \<subseteq> fst ` set rows)))"

definition final_ok :: "string \<Rightarrow> CompRepo \<Rightarrow> bool" where
  "final_ok cid r =
     ((\<forall>(n, g)\<in>set (mf_generations (finalizationState r cid)). n \<le> mf_nextGen (finalizationState r cid))
      \<and> (not_building (mf_generations (finalizationState r cid)) \<or> (\<exists>pre g. lap_so_far cid r pre g)))"

lemma find_not_building: "not_building gens \<Longrightarrow> find (\<lambda>g. fg_Status g = GenerationBuilding) (rev (map snd gens)) = None"
  by (auto simp: not_building_def find_None_iff)

lemma EnsureBuildingFinalizationGeneration_lap:
  assumes "EnsureBuildingFinalizationGeneration cid now r = (g, r')" "final_ok cid r"
  shows "\<exists>pre. lap_so_far cid r' pre g" "cr_entries r' = cr_entries r" "cr_competitions r' = cr_competitions r"
    "\<forall>(n, g)\<in>set (mf_generations (finalizationState r' cid)). n \<le> mf_nextGen (finalizationState r' cid)"
proof -
  let ?st = "finalizationState r cid"
  have "(\<exists>pre. lap_so_far cid r' pre g) \<and> cr_entries r' = cr_entries r \<and> cr_competitions r' = cr_competitions r
    \<and> (\<forall>(n, g)\<in>set (mf_generations (finalizationState r' cid)). n \<le> mf_nextGen (finalizationState r' cid))"
  proof (cases "not_building (mf_generations ?st)")
    case True
    define n where "n = mf_nextGen ?st + 1"
    have n: "n \<notin> fst ` set (mf_generations ?st)" using assms(2) by (fastforce simp: final_ok_def n_def)
    have "g = new_finalizationGeneration cid n now \<and> r' = put_finalizationState cid
        (?st\<lparr>mf_nextGen := n, mf_generations := mf_generations ?st @ [(n, g)], mf_rows := (mf_rows ?st)(n \<mapsto> [])\<rparr>) r"
      using assms(1) update_absent [OF n]
      by (auto simp: EnsureBuildingFinalizationGeneration_def Let_def find_not_building [OF True] n_def)
    then show ?thesis
      using True n assms(2)
      by (auto simp: lap_so_far_def new_finalizationGeneration_def final_ok_def n_def fkeyed_def)
  next
    case False
    then obtain pre g0 where lap: "lap_so_far cid r pre g0" using assms(2) by (auto simp: final_ok_def)
    then have "find (\<lambda>g. fg_Status g = GenerationBuilding) (rev (map snd (mf_generations ?st))) = Some g0"
      by (simp add: lap_so_far_def)
    then have "g = g0" "r' = put_finalizationState cid ?st r"
      using assms(1) by (auto simp: EnsureBuildingFinalizationGeneration_def Let_def)
    then show ?thesis
      using lap assms(2) by (auto simp: lap_so_far_def final_ok_def active_ids_def ListEntries_def)
  qed
  then show "\<exists>pre. lap_so_far cid r' pre g" "cr_entries r' = cr_entries r" "cr_competitions r' = cr_competitions r"
    "\<forall>(n, g)\<in>set (mf_generations (finalizationState r' cid)). n \<le> mf_nextGen (finalizationState r' cid)"
    by auto
qed

text \<open>The cursor moves over what the batch claimed.\<close>

lemma covered_after:
  assumes es: "es = ClaimEntriesForFinalization cid cur batch r"
    and old: "{i \<in> active_ids cid r. cur \<noteq> [] \<and> \<not> str_less cur i} \<subseteq> rows" "rows \<subseteq> rows'"
    and es': "en_ID ` set es \<inter> A \<subseteq> rows'" "A \<subseteq> active_ids cid r"
    and last: "lastID = (if es = [] then [] else en_ID (last es))"
  shows "length es < batch \<Longrightarrow> A \<subseteq> rows'"
    and "\<not> length es < batch \<Longrightarrow> c' = (if lastID \<noteq> [] then lastID else cur) \<Longrightarrow> {i \<in> A. c' \<noteq> [] \<and> \<not> str_less c' i} \<subseteq> rows'"
proof -
  note C = claim_spec [OF es]
  show "A \<subseteq> rows'" if "length es < batch"
  proof
    fix i assume i: "i \<in> A"
    then have "i \<in> active_ids cid r" using es'(2) by auto
    then show "i \<in> rows'"
      using C(2) [OF that, of i] old es'(1) i by blast
  qed
  show "{i \<in> A. c' \<noteq> [] \<and> \<not> str_less c' i} \<subseteq> rows'"
    if "\<not> length es < batch" and c': "c' = (if lastID \<noteq> [] then lastID else cur)"
  proof
    fix i assume i: "i \<in> {i \<in> A. c' \<noteq> [] \<and> \<not> str_less c' i}"
    then have act: "i \<in> active_ids cid r" using es'(2) by auto
    show "i \<in> rows'"
    proof (cases "cur \<noteq> [] \<and> \<not> str_less cur i")
      case True
      with act old show ?thesis by blast
    next
      case False
      then have lastid: "lastID \<noteq> []" "c' = lastID" using i c' by (auto split: if_splits)
      then have "es \<noteq> []" "lastID = en_ID (last es)" using last by (auto split: if_splits)
      then have "i \<in> en_ID ` set es" using C(3) [OF act] False i lastid(2) by auto
      with es'(1) i show ?thesis by blast
    qed
  qed
qed

lemma final_ok_lap:
  "lap_so_far cid r pre g \<Longrightarrow> \<forall>(n, g)\<in>set (mf_generations (finalizationState r cid)). n \<le> mf_nextGen (finalizationState r cid)
    \<Longrightarrow> final_ok cid r"
  by (auto simp: final_ok_def)

text \<open>The state a batch leaves, with the progress recorded.\<close>

lemma lap_so_far_grows:
  assumes "lap_so_far cid r pre g" "finalizationState r' cid = (finalizationState r cid)\<lparr>mf_rows := (mf_rows (finalizationState r cid))(fg_Generation g \<mapsto> rows')\<rparr>"
    and "active_ids cid r' \<subseteq> active_ids cid r" "fkeyed rows'"
    and "\<And>rows. mf_rows (finalizationState r cid) (fg_Generation g) = Some rows \<Longrightarrow> fst ` set rows \<subseteq> fst ` set rows'"
  shows "lap_so_far cid r' pre g"
proof -
  obtain rows where rows: "mf_rows (finalizationState r cid) (fg_Generation g) = Some rows"
    "fg_FailedEntries g = 0 \<longrightarrow> {i \<in> active_ids cid r. fg_CursorEntryID g \<noteq> [] \<and> \<not> str_less (fg_CursorEntryID g) i} \<subseteq> fst ` set rows"
    using assms(1) by (auto simp: lap_so_far_def)
  have "fg_FailedEntries g = 0 \<longrightarrow> {i \<in> active_ids cid r'. fg_CursorEntryID g \<noteq> [] \<and> \<not> str_less (fg_CursorEntryID g) i} \<subseteq> fst ` set rows'"
    using rows(2) assms(3) assms(5) [OF rows(1)] by blast
  then show ?thesis using assms(1,2,4) by (auto simp: lap_so_far_def)
qed

lemma update_last: "k \<notin> fst ` set pre \<Longrightarrow> AList.update k v (pre @ [(k, w)]) = pre @ [(k, v)]"
  by (induction pre) auto

lemma map_of_last: "k \<notin> fst ` set pre \<Longrightarrow> map_of (pre @ [(k, w)]) k = Some w"
  by (induction pre) auto

definition finished :: "declib \<Rightarrow> string \<Rightarrow> CompRepo \<Rightarrow> bool" where
  "finished L cid r =
     (active_ids cid r = {} \<and> (\<exists>c. cr_competitions r cid = Some c \<and> cp_LifecycleStatus c = LifecycleCompleted)
      \<and> (\<exists>results. cr_resultStore r cid = Some results
           \<and> map re_Rank results = map (\<lambda>i. int i + 1) [0 ..< length results]
           \<and> sorted_wrt (\<lambda>a b. re_ReturnPct b \<le> re_ReturnPct a) results))"

lemma final_less_eq: "decimal_lib L \<Longrightarrow> final_less L name = by_score fr_ReturnPct (\<lambda>r. name (fr_UserID r)) fr_UserID"
  by (intro ext) (simp add: final_less_def by_score_def Let_def money_defs decimal_lib.cmp_simps)

lemma result_rows_sorted:
  assumes "decimal_lib L" "results = result_rows now (isort (final_less L name) drafts)"
  shows "map re_Rank results = map (\<lambda>i. int i + 1) [0 ..< length results]"
    "sorted_wrt (\<lambda>a b. re_ReturnPct b \<le> re_ReturnPct a) results"
    "re_EntryID ` set results = fr_EntryID ` set drafts"
proof -
  let ?rows = "isort (final_less L name) drafts"
  show "map re_Rank results = map (\<lambda>i. int i + 1) [0 ..< length results]"
    by (rule nth_equalityI) (simp_all add: assms(2) result_rows_def nth_enumerate_eq)
  have "sorted_wrt (\<lambda>a b. \<not> final_less L name b a) ?rows"
    unfolding final_less_eq [OF assms(1)] by (rule score.sorted_isort)
  then have "sorted_wrt (\<lambda>a b. fr_ReturnPct b \<le> fr_ReturnPct a) ?rows"
    by (rule sorted_wrt_mono_rel [rotated]) (auto simp: final_less_eq [OF assms(1)] by_score_def split: if_splits)
  then show "sorted_wrt (\<lambda>a b. re_ReturnPct b \<le> re_ReturnPct a) results"
    by (simp add: assms(2) result_rows_def sorted_wrt_iff_nth_less nth_enumerate_eq)
  have "map re_EntryID results = map fr_EntryID ?rows"
    by (rule nth_equalityI) (simp_all add: assms(2) result_rows_def nth_enumerate_eq)
  then show "re_EntryID ` set results = fr_EntryID ` set drafts"
    by (metis list.set_map set_isort)
qed

lemma promoted_finished:
  assumes L: "decimal_lib L" and run: "PromoteFinalizationGeneration L cid (fg_Generation g) now r = Inr r'"
    and lap: "lap_so_far cid r pre g" "fg_FailedEntries g = 0" and u: "unique_ids r"
    and all: "\<And>rows. mf_rows (finalizationState r cid) (fg_Generation g) = Some rows \<Longrightarrow> active_ids cid r \<subseteq> fst ` set rows"
    and fin: "cr_competitions r cid = Some c0" "cp_LifecycleStatus c0 = LifecycleFinalizing"
    and bound: "\<forall>(n, g)\<in>set (mf_generations (finalizationState r cid)). n \<le> mf_nextGen (finalizationState r cid)"
  shows "finished L cid r' \<and> final_ok cid r' \<and> unique_ids r'"
proof -
  let ?st = "finalizationState r cid"
  obtain rows where rows: "mf_rows ?st (fg_Generation g) = Some rows" "fkeyed rows"
    using lap by (auto simp: lap_so_far_def)
  have gens: "mf_generations ?st = pre @ [(fg_Generation g, g)]" "fg_Generation g \<notin> fst ` set pre" "not_building pre"
    using lap by (auto simp: lap_so_far_def)
  define results where "results = result_rows now (isort (final_less L (userDisplayName r)) (map snd rows))"
  have g: "map_of (mf_generations ?st) (fg_Generation g) = Some g" "fg_Status g = GenerationBuilding"
    using lap by (simp_all only: gens(1) map_of_last [OF gens(2)] lap_so_far_def)
  define g' where "g' = g\<lparr>fg_Status := GenerationCompleted, fg_CompletedAt := Some now\<rparr>"
  define st' where "st' = ?st\<lparr>mf_generations := pre @ [(fg_Generation g, g')],
      mf_rows := (mf_rows ?st)(fg_Generation g := None)\<rparr>"
  have eq: "r' = put_finalizationState cid st' (r\<lparr>cr_resultStore := (cr_resultStore r)(cid \<mapsto> results),
      cr_competitions := (cr_competitions r)(cid \<mapsto> c0\<lparr>cp_LifecycleStatus := LifecycleCompleted, cp_FinalizedAt := Some now\<rparr>),
      cr_entries := finalize_entries cid results (cr_entries r)\<rparr>)"
    using run fin rows(1) g lap(2)
    by (simp add: PromoteFinalizationGeneration_def Let_def results_def st'_def g'_def gens(1) update_last [OF gens(2)]
        split: if_splits)
  have r': "cr_resultStore r' cid = Some results" "cr_entries r' = finalize_entries cid results (cr_entries r)"
    "cr_competitions r' cid = Some (c0\<lparr>cp_LifecycleStatus := LifecycleCompleted, cp_FinalizedAt := Some now\<rparr>)"
    "finalizationState r' cid = st'"
    by (simp_all add: eq)
  note R = result_rows_sorted [OF L results_def]
  have "fst ` set rows = re_EntryID ` set results" using rows(2) by (force simp: R(3) fkeyed_def image_iff)
  then have sub: "active_ids cid r \<subseteq> re_EntryID ` set results" using all [OF rows(1)] by simp
  have none: "active_ids cid r' = {}"
  proof -
    have False if i: "i \<in> active_ids cid r'" for i
    proof -
      obtain u e where e: "((cid, u), e) \<in> set (finalize_entries cid results (cr_entries r))" "en_EntryStatus e = EntryActive"
        using i unfolding active_ids_iff r'(2) by blast
      then obtain e0 where e0: "((cid, u), e0) \<in> set (cr_entries r)"
        "e = (if en_EntryStatus e0 = EntryActive \<and> en_ID e0 \<in> set (map re_EntryID results)
              then e0\<lparr>en_EntryStatus := EntryFinalized\<rparr> else e0)"
        by (auto simp: finalize_entries_def)
      show False
      proof (cases "en_EntryStatus e0 = EntryActive")
        case True
        then have "en_ID e0 \<in> active_ids cid r" using e0(1) by (auto simp: active_ids_iff)
        then have "en_ID e0 \<in> set (map re_EntryID results)" using sub by auto
        with e0(2) True e(2) show False by simp
      next
        case False
        with e0(2) e(2) show False by simp
      qed
    qed
    then show ?thesis by blast
  qed
  have "map fst (cr_entries r') = map fst (cr_entries r)"
    "map (\<lambda>(k, e). en_ID e) (cr_entries r') = map (\<lambda>(k, e). en_ID e) (cr_entries r)"
    unfolding r'(2) finalize_entries_def by (simp_all add: case_prod_beta comp_def)
  then have "unique_ids r'" using u by (simp add: unique_ids_def)
  moreover have "final_ok cid r'"
    using bound gens by (auto simp: final_ok_def not_building_def r'(4) st'_def g'_def)
  ultimately show ?thesis using none r'(1,3) R(1,2) by (simp add: finished_def)
qed

text \<open>What recording the progress of a batch leaves.\<close>

lemma lap_advanced:
  assumes lap: "lap_so_far cid r pre g" and d: "0 \<le> failed"
    and run: "AdvanceFinalizationGeneration cid (fg_Generation g) cur p s failed w r = Inr r'"
    and cov: "\<And>rows. mf_rows (finalizationState r cid) (fg_Generation g) = Some rows \<Longrightarrow> fg_FailedEntries g = 0 \<Longrightarrow> failed = 0
        \<Longrightarrow> {i \<in> active_ids cid r. cur \<noteq> [] \<and> \<not> str_less cur i} \<subseteq> fst ` set rows"
  shows "\<exists>g'. lap_so_far cid r' pre g' \<and> fg_Generation g' = fg_Generation g
      \<and> fg_FailedEntries g' = fg_FailedEntries g + failed \<and> fg_WriteFailure g' = (w \<or> fg_WriteFailure g)"
    and "cr_entries r' = cr_entries r" "cr_competitions r' = cr_competitions r"
    "mf_nextGen (finalizationState r' cid) = mf_nextGen (finalizationState r cid)"
    "mf_rows (finalizationState r' cid) = mf_rows (finalizationState r cid)"
    "fst ` set (mf_generations (finalizationState r' cid)) = fst ` set (mf_generations (finalizationState r cid))"
proof -
  let ?st = "finalizationState r cid"
  obtain rows where rows: "mf_rows ?st (fg_Generation g) = Some rows" "fkeyed rows"
    using lap by (auto simp: lap_so_far_def)
  have gens: "mf_generations ?st = pre @ [(fg_Generation g, g)]" "fg_Generation g \<notin> fst ` set pre"
    using lap by (auto simp: lap_so_far_def)
  define g' where "g' = g\<lparr>fg_CursorEntryID := cur, fg_ProcessedEntries := fg_ProcessedEntries g + p,
      fg_SuccessfulEntries := fg_SuccessfulEntries g + s, fg_FailedEntries := fg_FailedEntries g + failed,
      fg_WriteFailure := (w \<or> fg_WriteFailure g)\<rparr>"
  have "map_of (mf_generations ?st) (fg_Generation g) = Some g"
    by (simp only: gens(1) map_of_last [OF gens(2)])
  then have r': "r' = put_finalizationState cid (?st\<lparr>mf_generations := pre @ [(fg_Generation g, g')]\<rparr>) r"
    using run by (simp add: AdvanceFinalizationGeneration_def Let_def gens(1) update_last [OF gens(2)] g'_def)
  have "active_ids cid r' = active_ids cid r" by (rule entries_only) (simp add: r')
  moreover have "fg_FailedEntries g' = 0 \<Longrightarrow> {i \<in> active_ids cid r. cur \<noteq> [] \<and> \<not> str_less cur i} \<subseteq> fst ` set rows"
    using cov [OF rows(1)] lap d by (simp add: g'_def lap_so_far_def)
  ultimately have "lap_so_far cid r' pre g'"
    using lap d rows by (auto simp: lap_so_far_def r' g'_def)
  then show "\<exists>g'. lap_so_far cid r' pre g' \<and> fg_Generation g' = fg_Generation g
      \<and> fg_FailedEntries g' = fg_FailedEntries g + failed \<and> fg_WriteFailure g' = (w \<or> fg_WriteFailure g)"
    by (intro exI [of _ g']) (simp add: g'_def)
  show "cr_entries r' = cr_entries r" "cr_competitions r' = cr_competitions r"
    "mf_nextGen (finalizationState r' cid) = mf_nextGen (finalizationState r cid)"
    "mf_rows (finalizationState r' cid) = mf_rows (finalizationState r cid)"
    "fst ` set (mf_generations (finalizationState r' cid)) = fst ` set (mf_generations (finalizationState r cid))"
    by (simp_all add: r' gens(1))
qed

lemma failed_ok:
  assumes "lap_so_far cid r pre g" "FailFinalizationGeneration cid (fg_Generation g) reason now r = Inr r'"
    and bound: "\<forall>n\<in>fst ` set (mf_generations (finalizationState r cid)). n \<le> mf_nextGen (finalizationState r cid)"
  shows "final_ok cid r'" "cr_entries r' = cr_entries r"
proof -
  let ?st = "finalizationState r cid"
  have gens: "mf_generations ?st = pre @ [(fg_Generation g, g)]" "fg_Generation g \<notin> fst ` set pre" "not_building pre"
    "fg_Status g = GenerationBuilding"
    using assms(1) by (auto simp: lap_so_far_def)
  have "map_of (mf_generations ?st) (fg_Generation g) = Some g"
    by (simp only: gens(1) map_of_last [OF gens(2)])
  then have r': "r' = put_finalizationState cid (?st\<lparr>mf_generations := pre @ [(fg_Generation g,
        g\<lparr>fg_Status := GenerationFailed, fg_CompletedAt := Some now, fg_FailureReason := reason\<rparr>)],
        mf_rows := (mf_rows ?st)(fg_Generation g := None)\<rparr>) r"
    using assms(2) gens(4) by (simp add: FailFinalizationGeneration_def Let_def gens(1) update_last [OF gens(2)])
  show "cr_entries r' = cr_entries r" by (simp add: r')
  show "final_ok cid r'"
    using bound gens by (auto simp: final_ok_def not_building_def r')
qed

section \<open>A pass\<close>

text \<open>
  The last stage of a pass: the progress of the batch is recorded in the generation \<open>g\<close>, and a complete lap is
  failed or promoted.
\<close>

definition finish_lap ::
  "declib \<Rightarrow> string \<Rightarrow> FinalizationGeneration \<Rightarrow> bool \<Rightarrow> time \<Rightarrow> lap \<Rightarrow> (CompRepo, bool) run" where
  "finish_lap L cid gen lapComplete now b =
     andThen (writing (AdvanceFinalizationGeneration cid (fg_Generation gen)
                (next_cursor (fg_CursorEntryID gen) b lapComplete)
                (lp_processed b) (lp_successful b) (lp_failed b) (lp_writeFailed b))) (\<lambda>_.
       let totalFailed = fg_FailedEntries gen + lp_failed b;
           writeFailure = (fg_WriteFailure gen \<or> lp_writeFailed b)
       in if \<not> lapComplete then ret False
          else if writeFailure \<or> 0 < totalFailed then
            andThen (writing (FailFinalizationGeneration cid (fg_Generation gen)
              (coverage_reason (fg_ProcessedEntries gen + lp_processed b)
                 (fg_SuccessfulEntries gen + lp_successful b) totalFailed writeFailure) now)) (\<lambda>_. ret False)
          else
            andThen (writing (PromoteFinalizationGeneration L cid (fg_Generation gen) now)) (\<lambda>_. ret True))"

text \<open>What a pass leaves: the invariants, and a finished edition when it answers true.\<close>

definition pass_ok :: "declib \<Rightarrow> string \<Rightarrow> (comp_err + bool) \<times> CompRepo \<Rightarrow> bool" where
  "pass_ok L cid out = (final_ok cid (snd out) \<and> unique_ids (snd out) \<and> (fst out = Inr True \<longrightarrow> finished L cid (snd out)))"

abbreviation bounded_gens :: "string \<Rightarrow> CompRepo \<Rightarrow> bool" where
  "bounded_gens cid r \<equiv> \<forall>n\<in>fst ` set (mf_generations (finalizationState r cid)). n \<le> mf_nextGen (finalizationState r cid)"

lemma bounded_gens_pairs:
  "bounded_gens cid r \<longleftrightarrow> (\<forall>(n, g)\<in>set (mf_generations (finalizationState r cid)). n \<le> mf_nextGen (finalizationState r cid))"
  by auto

lemma pass_ok_stop:
  "lap_so_far cid r pre g \<Longrightarrow> bounded_gens cid r \<Longrightarrow> unique_ids r \<Longrightarrow> res \<noteq> Inr True \<Longrightarrow> pass_ok L cid (res, r)"
  unfolding bounded_gens_pairs by (simp add: pass_ok_def final_ok_lap)

lemma finish_lap_ok:
  assumes L: "decimal_lib L"
    and lap: "lap_so_far cid r pre g" "bounded_gens cid r" "unique_ids r" "0 \<le> lp_failed b"
    and cov: "\<And>rows. mf_rows (finalizationState r cid) (fg_Generation g) = Some rows \<Longrightarrow> fg_FailedEntries g = 0 \<Longrightarrow> lp_failed b = 0
        \<Longrightarrow> (whole \<longrightarrow> active_ids cid r \<subseteq> fst ` set rows)
          \<and> {i \<in> active_ids cid r. next_cursor (fg_CursorEntryID g) b whole \<noteq> []
                \<and> \<not> str_less (next_cursor (fg_CursorEntryID g) b whole) i} \<subseteq> fst ` set rows"
    and fin: "cr_competitions r cid = Some c0" "cp_LifecycleStatus c0 = LifecycleFinalizing"
  shows "pass_ok L cid (finish_lap L cid g whole now b r)"
proof (cases "AdvanceFinalizationGeneration cid (fg_Generation g) (next_cursor (fg_CursorEntryID g) b whole)
    (lp_processed b) (lp_successful b) (lp_failed b) (lp_writeFailed b) r")
  case (Inl e)
  with lap show ?thesis by (simp add: finish_lap_def andThen_def writing_def pass_ok_stop)
next
  case (Inr r1)
  note A = lap_advanced [OF lap(1,4) Inr]
  have cov1: "{i \<in> active_ids cid r. next_cursor (fg_CursorEntryID g) b whole \<noteq> []
      \<and> \<not> str_less (next_cursor (fg_CursorEntryID g) b whole) i} \<subseteq> fst ` set rows"
    if "mf_rows (finalizationState r cid) (fg_Generation g) = Some rows" "fg_FailedEntries g = 0" "lp_failed b = 0" for rows
    using cov [OF that] by blast
  obtain g' where g': "lap_so_far cid r1 pre g'" "fg_Generation g' = fg_Generation g"
    "fg_FailedEntries g' = fg_FailedEntries g + lp_failed b"
    using A(1) [OF cov1] by blast
  have r1: "cr_entries r1 = cr_entries r" "cr_competitions r1 = cr_competitions r"
    "mf_nextGen (finalizationState r1 cid) = mf_nextGen (finalizationState r cid)"
    "mf_rows (finalizationState r1 cid) = mf_rows (finalizationState r cid)"
    "fst ` set (mf_generations (finalizationState r1 cid)) = fst ` set (mf_generations (finalizationState r cid))"
    using A(2-6) [OF cov1] by blast+
  have u1: "unique_ids r1" "active_ids cid r1 = active_ids cid r"
    using entries_only [OF r1(1)] lap(3) by simp_all
  have b1: "bounded_gens cid r1" using lap(2) by (simp add: r1(3,5))
  have stop: "pass_ok L cid (res, r1)" if "res \<noteq> Inr True" for res
    by (rule pass_ok_stop [OF g'(1) b1 u1(1) that])
  show ?thesis
  proof (cases "whole \<and> \<not> (fg_WriteFailure g \<or> lp_writeFailed b \<or> 0 < fg_FailedEntries g + lp_failed b)")
    case False
    then have "finish_lap L cid g whole now b r = (Inr False, r1)
        \<or> (\<exists>reason. finish_lap L cid g whole now b r
              = andThen (writing (FailFinalizationGeneration cid (fg_Generation g) reason now)) (\<lambda>_. ret False) r1)"
      using Inr by (auto simp: finish_lap_def andThen_def writing_def Let_def)
    then show ?thesis
    proof (elim disjE exE)
      fix reason
      assume out: "finish_lap L cid g whole now b r
          = andThen (writing (FailFinalizationGeneration cid (fg_Generation g) reason now)) (\<lambda>_. ret False) r1"
      show ?thesis
      proof (cases "FailFinalizationGeneration cid (fg_Generation g) reason now r1")
        case (Inl e)
        with out show ?thesis by (simp add: andThen_def writing_def stop)
      next
        case (Inr r2)
        note F = failed_ok [OF g'(1) Inr [folded g'(2)] b1]
        show ?thesis using out Inr F(1) entries_only(1) [OF F(2)] u1(1) by (simp add: andThen_def writing_def pass_ok_def)
      qed
    qed (simp add: stop)
  next
    case True
    have zero: "fg_FailedEntries g = 0" "lp_failed b = 0"
      using True lap(1,4) by (auto simp: lap_so_far_def)
    have out: "finish_lap L cid g whole now b r = andThen (writing (PromoteFinalizationGeneration L cid (fg_Generation g) now)) (\<lambda>_. ret True) r1"
      using True Inr by (simp add: finish_lap_def andThen_def writing_def Let_def)
    show ?thesis
    proof (cases "PromoteFinalizationGeneration L cid (fg_Generation g) now r1")
      case (Inl e)
      with out show ?thesis by (simp add: andThen_def writing_def stop)
    next
      case (Inr r2)
      have "finished L cid r2 \<and> final_ok cid r2 \<and> unique_ids r2"
      proof (rule promoted_finished [OF L Inr [folded g'(2)] g'(1) _ u1(1) _ _ fin(2)])
        show "fg_FailedEntries g' = 0" by (simp add: g'(3) zero)
        show "cr_competitions r1 cid = Some c0" by (simp add: r1(2) fin(1))
        show "active_ids cid r1 \<subseteq> fst ` set rows" if "mf_rows (finalizationState r1 cid) (fg_Generation g') = Some rows" for rows
          using cov [OF _ zero, of rows] that True by (simp add: r1(4) g'(2) u1(2))
        show "\<forall>(n, g)\<in>set (mf_generations (finalizationState r1 cid)). n \<le> mf_nextGen (finalizationState r1 cid)"
          using b1 unfolding bounded_gens_pairs .
      qed
      with out Inr show ?thesis by (simp add: andThen_def writing_def pass_ok_def)
    qed
  qed
qed

lemma finalize_locked_finish:
  "finalize_locked L E c batch window now r =
     (case effectiveRules L (ee_codec E) c of
        Inl e \<Rightarrow> (Inl e, r)
      | Inr (eligibility, scoring) \<Rightarrow>
          let (gen, r) = EnsureBuildingFinalizationGeneration (cp_ID c) now r;
              claimed = ClaimEntriesForFinalization (cp_ID c) (fg_CursorEntryID gen) batch r;
              lapComplete = (length claimed < batch)
          in (case adjust_entries E c claimed of
                Inl e \<Rightarrow> (Inl e, r)
              | Inr entries \<Rightarrow>
                  andThen (captureObservations L E (cp_ID c) BoundaryEnd (cp_EndsAt c) entries lapComplete now) (\<lambda>view.
                  andThen (finalize_batch L E c scoring (fg_Generation gen) (cp_EndsAt c + window) now view entries zero_lap)
                    (finish_lap L (cp_ID c) gen lapComplete now)) r))"
  unfolding finalize_locked_def finish_lap_def [abs_def] by (rule refl)

lemma finalize_locked_ok:
  assumes L: "decimal_lib L" and ok: "unique_ids r" "final_ok (cp_ID c) r"
    and fin: "cr_competitions r (cp_ID c) = Some c0" "cp_LifecycleStatus c0 = LifecycleFinalizing"
  shows "pass_ok L (cp_ID c) (finalize_locked L E c batch window now r)"
proof (cases "effectiveRules L (ee_codec E) c")
  case (Inl e)
  with ok show ?thesis by (simp add: finalize_locked_def pass_ok_def)
next
  case rules: (Inr es)
  obtain eligibility scoring where es: "es = (eligibility, scoring)" by (cases es)
  let ?cid = "cp_ID c"
  obtain gen r1 where gen: "EnsureBuildingFinalizationGeneration ?cid now r = (gen, r1)" by (meson surj_pair)
  note E1 = EnsureBuildingFinalizationGeneration_lap [OF gen ok(2)]
  obtain pre where lap: "lap_so_far ?cid r1 pre gen" using E1(1) by blast
  have b1: "bounded_gens ?cid r1" unfolding bounded_gens_pairs by (rule E1(4))
  have u1: "unique_ids r1" using entries_only(1) [OF E1(2)] ok(1) by simp
  define claimed where "claimed = ClaimEntriesForFinalization ?cid (fg_CursorEntryID gen) batch r1"
  define whole where "whole = (length claimed < batch)"
  show ?thesis
  proof (cases "adjust_entries E c claimed")
    case (Inl e)
    then have "finalize_locked L E c batch window now r = (Inl e, r1)"
      by (simp add: finalize_locked_def rules es gen claimed_def Let_def)
    with pass_ok_stop [OF lap b1 u1] show ?thesis by simp
  next
    case adj: (Inr entries)
    have ids: "map en_ID entries = map en_ID claimed" by (rule adjust_entries_IDs [OF adj])
    obtain v r2 where cap: "captureObservations L E ?cid BoundaryEnd (cp_EndsAt c) entries whole now r1 = (v, r2)"
      by (meson surj_pair)
    obtain obs where obs: "r2 = r1\<lparr>cr_observations := obs\<rparr>" using capture_frame [OF cap] by blast
    have st2: "finalizationState r2 ?cid = finalizationState r1 ?cid" "cr_entries r2 = cr_entries r1"
      "cr_competitions r2 = cr_competitions r1"
      by (simp_all add: obs finalizationState_def)
    have u2: "unique_ids r2" "active_ids ?cid r2 = active_ids ?cid r1" using entries_only [OF st2(2)] u1 by simp_all
    have lap2: "lap_so_far ?cid r2 pre gen" using lap by (simp add: lap_so_far_def st2(1) u2(2))
    have b2: "bounded_gens ?cid r2" using b1 by (simp add: st2(1))
    have run: "finalize_locked L E c batch window now r =
        andThen (captureObservations L E ?cid BoundaryEnd (cp_EndsAt c) entries whole now) (\<lambda>view.
        andThen (finalize_batch L E c scoring (fg_Generation gen) (cp_EndsAt c + window) now view entries zero_lap)
          (finish_lap L ?cid gen whole now)) r1"
      by (simp add: finalize_locked_finish rules es gen claimed_def [symmetric] whole_def [symmetric] adj Let_def)
    show ?thesis
    proof (cases v)
      case (Inl e)
      with run cap pass_ok_stop [OF lap2 b2 u2(1)] show ?thesis by simp
    next
      case view: (Inr view)
      obtain x r3 where bat: "finalize_batch L E c scoring (fg_Generation gen) (cp_EndsAt c + window) now view entries zero_lap r2 = (x, r3)"
        by (meson surj_pair)
      obtain rows where rows: "mf_rows (finalizationState r2 ?cid) (fg_Generation gen) = Some rows" "fkeyed rows"
        "fg_FailedEntries gen = 0 \<longrightarrow> {i \<in> active_ids ?cid r2. fg_CursorEntryID gen \<noteq> [] \<and> \<not> str_less (fg_CursorEntryID gen) i} \<subseteq> fst ` set rows"
        using lap2 by (auto simp: lap_so_far_def)
      have g2: "map_of (mf_generations (finalizationState r2 ?cid)) (fg_Generation gen) = Some gen" "fg_Status gen = GenerationBuilding"
        using lap2 map_of_last unfolding lap_so_far_def by metis+
      obtain rows' where bk: "batch_ok ?cid (fg_Generation gen) entries zero_lap r2 x r3 (fst ` set rows) rows'"
        using finalize_batch_rows [OF bat u2(1) g2 rows(1,2)] by blast
      have st3: "finalizationState r3 ?cid = (finalizationState r2 ?cid)\<lparr>mf_rows := (mf_rows (finalizationState r2 ?cid))(fg_Generation gen \<mapsto> rows')\<rparr>"
        "cr_competitions r3 = cr_competitions r2" "unique_ids r3" "active_ids ?cid r3 \<subseteq> active_ids ?cid r2"
        "fst ` set rows \<subseteq> fst ` set rows'" "fkeyed rows'"
        using bk unfolding batch_ok_def by blast+
      have lap3: "lap_so_far ?cid r3 pre gen"
        by (rule lap_so_far_grows [OF lap2 st3(1,4,6)]) (use rows(1) st3(5) in simp)
      have b3: "bounded_gens ?cid r3" using b2 by (simp add: st3(1))
      show ?thesis
      proof (cases x)
        case (Inl e)
        with run cap view bat pass_ok_stop [OF lap3 b3 st3(3)] show ?thesis by simp
      next
        case (Inr b)
        have b: "0 \<le> lp_failed b" "lp_lastEntryID b = (if claimed = [] then [] else en_ID (last claimed))"
          "lp_failed b = 0 \<longrightarrow> en_ID ` set claimed \<inter> active_ids ?cid r3 \<subseteq> fst ` set rows'"
        proof -
          have lasts: "(if entries = [] then [] else en_ID (last entries)) = (if claimed = [] then [] else en_ID (last claimed))"
            using ids by (metis last_map map_is_Nil_conv)
          have sets: "en_ID ` set entries = en_ID ` set claimed" using ids by (metis list.set_map)
          show "0 \<le> lp_failed b" "lp_lastEntryID b = (if claimed = [] then [] else en_ID (last claimed))"
            "lp_failed b = 0 \<longrightarrow> en_ID ` set claimed \<inter> active_ids ?cid r3 \<subseteq> fst ` set rows'"
            using bk Inr unfolding batch_ok_def lasts [symmetric] sets by (simp_all add: zero_lap_def)
        qed
        have "pass_ok L ?cid (finish_lap L ?cid gen whole now b r3)"
        proof (rule finish_lap_ok [OF L lap3 b3 st3(3) b(1) _ _ fin(2)])
          show "cr_competitions r3 ?cid = Some c0" by (simp add: st3(2) st2(3) E1(3) fin(1))
          fix rows0
          assume r0: "mf_rows (finalizationState r3 ?cid) (fg_Generation gen) = Some rows0"
            and z: "fg_FailedEntries gen = 0" "lp_failed b = 0"
          have r0': "rows0 = rows'" using r0 by (simp add: st3(1))
          have claim: "claimed = ClaimEntriesForFinalization ?cid (fg_CursorEntryID gen) batch r2"
            by (simp add: claimed_def ClaimEntriesForFinalization_def ListEntries_def st2(2))
          have old: "{i \<in> active_ids ?cid r2. fg_CursorEntryID gen \<noteq> [] \<and> \<not> str_less (fg_CursorEntryID gen) i} \<subseteq> fst ` set rows"
            using rows(3) z by blast
          have new: "en_ID ` set claimed \<inter> active_ids ?cid r3 \<subseteq> fst ` set rows'" using b(3) z by blast
          note C = covered_after [OF claim old st3(5) new st3(4) b(2)]
          show "(whole \<longrightarrow> active_ids ?cid r3 \<subseteq> fst ` set rows0)
            \<and> {i \<in> active_ids ?cid r3. next_cursor (fg_CursorEntryID gen) b whole \<noteq> []
                \<and> \<not> str_less (next_cursor (fg_CursorEntryID gen) b whole) i} \<subseteq> fst ` set rows0"
          proof (cases whole)
            case True
            with C(1) r0' show ?thesis by (simp add: whole_def next_cursor_def)
          next
            case False
            with C(2) r0' show ?thesis by (simp add: whole_def next_cursor_def)
          qed
        qed
        with run cap view bat Inr show ?thesis by simp
      qed
    qed
  qed
qed

section \<open>Properties\<close>

text \<open>
  C7. Finalization leaves nobody out. Over any number of passes the drafts of the generation cover every active
  entry up to the cursor (\<open>final_ok\<close>, which holds of an edition never finalized), so when a pass answers that the
  edition is final, no entry of it is still active, the edition is completed, and the published results have the
  ranks one, two, three and so on with returns that never increase.
\<close>

theorem finalization_leaves_nobody:
  assumes "decimal_lib L" "unique_ids r" "final_ok (cp_ID c) r"
    and "cr_competitions r (cp_ID c) = Some c0" "cp_LifecycleStatus c0 = LifecycleFinalizing"
    and "finalizeEdition L E c batch window now r = (res, r')"
  shows "final_ok (cp_ID c) r' \<and> unique_ids r' \<and> (res = Inr True \<longrightarrow> finished L (cp_ID c) r')"
proof -
  let ?cid = "cp_ID c"
  have locks: "final_ok ?cid (put_finalizationState ?cid ((finalizationState s ?cid)\<lparr>mf_locked := l\<rparr>) s) = final_ok ?cid s"
    "unique_ids (put_finalizationState ?cid ((finalizationState s ?cid)\<lparr>mf_locked := l\<rparr>) s) = unique_ids s"
    "finished L ?cid (put_finalizationState ?cid ((finalizationState s ?cid)\<lparr>mf_locked := l\<rparr>) s) = finished L ?cid s" for s l
    by (simp_all add: final_ok_def lap_so_far_def unique_ids_def finished_def active_ids_def ListEntries_def)
  let ?r1 = "put_finalizationState ?cid ((finalizationState r ?cid)\<lparr>mf_locked := True\<rparr>) r"
  have "pass_ok L ?cid (finalize_locked L E c batch window now ?r1)"
    by (rule finalize_locked_ok [OF assms(1) _ _ _ assms(5)]) (use assms in \<open>simp_all add: locks\<close>)
  then show ?thesis
    using assms(2,3,6)
    by (auto simp: finalizeEdition_def TryLockCompetitionFinalization_def UnlockCompetitionFinalization_def Let_def
        pass_ok_def locks split: if_splits prod.splits)
qed

text \<open>An edition past its end with one active entry, whose holding is priced at its starting value.\<close>

definition demo_ending :: Competition where
  "demo_ending = zero_Competition\<lparr>cp_ID := ''c'', cp_EndsAt := 5, cp_LifecycleStatus := LifecycleFinalizing, cp_RulesSnapshotJSON := ''x''\<rparr>"

definition demo_ending_repo :: CompRepo where
  "demo_ending_repo = demo_active\<lparr>cr_competitions := [''c'' \<mapsto> demo_ending]\<rparr>"

abbreviation demo_finalize :: "(comp_err + bool) \<times> CompRepo" where
  "demo_finalize \<equiv> finalizeEdition std_declib ((demo_engine (Fin 100) (Inr (Fin 1)))\<lparr>ee_codec := demo_rules_codec\<rparr>)
     demo_ending 5 10 9 demo_ending_repo"

theorem finalization_leaves_nobody_witness:
  "fst demo_finalize = Inr True \<and> finished std_declib ''c'' (snd demo_finalize)"
proof -
  have "isl (fst demo_finalize) = False \<and> projr (fst demo_finalize)" by code_simp
  then have true: "fst demo_finalize = Inr True" by (cases "fst demo_finalize") auto
  have "unique_ids demo_ending_repo" "final_ok ''c'' demo_ending_repo"
    by (simp_all add: unique_ids_def final_ok_def not_building_def demo_ending_repo_def demo_active_def finalizationState_def
        NewInMemoryCompetitionRepository_def zero_finalizationState_def)
  then show ?thesis
    using finalization_leaves_nobody [OF std.decimal_lib_axioms, where c = demo_ending and r = demo_ending_repo and ?c0.0 = demo_ending
        and E = "(demo_engine (Fin 100) (Inr (Fin 1)))\<lparr>ee_codec := demo_rules_codec\<rparr>" and batch = 5 and window = 10 and now = 9
        and res = "fst demo_finalize" and r' = "snd demo_finalize"] true
    by (simp add: demo_ending_def demo_ending_repo_def)
qed

end
