(* ===== verification/BaselineLaws.thy ===== *)
theory BaselineLaws
  imports CompPasses ObserveLaws
begin

text \<open>
  The common baseline of an edition and the valuation agree: an entry valued from the observations its baseline was
  taken from stands at the index 100. The baseline prices a copy of the basket normalised for corporate actions, and
  completing it writes the normalised symbols and quantities, the prices and the values onto the stored rows.
\<close>

section \<open>Reading a boundary\<close>

lemma boundary_reads:
  "boundary_priceOf i tick v = (fst (boundary_priceOf i tick v), v)"
  "boundary_toBase L x cur v = (fst (boundary_toBase L x cur v), v)"
  by (simp_all add: boundary_priceOf_def boundary_toBase_def)

text \<open>What the baseline sums is what the valuation sums, position by position.\<close>

lemma baseline_values_sum:
  assumes "includeFX scoring" "baseline_values L (boundary_source L) ss v = (Inr vals, v')"
  shows "v' = v \<and> sum_included L sp_IncludedInScore (position_base L (boundary_source L) scoring) acc ss v =
     (Inr (foldl (\<lambda>t (s, p, c, base). Amount_Add L t base) acc vals), v)"
  using assms(2)
proof (induction ss arbitrary: acc vals v')
  case (Cons s ss)
  show ?case
  proof (cases "sp_IncludedInScore s")
    case True
    from Cons.prems True obtain price currency base rest w where
      price: "boundary_priceOf (sp_InstrumentID s) (sp_Symbol s) v = (Inr (price, currency), v)"
      and base: "boundary_toBase L (MulPrice L (sp_Quantity s) price) currency v = (Inr base, v)"
      and rest: "baseline_values L (boundary_source L) ss v = (Inr rest, w)"
      and vals: "vals = (s, price, currency, base) # rest" "v' = w"
      by (auto simp: andThen_Inr boundary_source_def boundary_priceOf_def boundary_toBase_def)
    from Cons.IH [OF rest] show ?thesis
      using True assms(1) price base vals
      by (simp add: position_base_def boundary_source_def Let_def)
  qed (use Cons in simp)
qed simp

section \<open>The rows a baseline is written to\<close>

text \<open>The rows of the copy are the stored rows, but for what normalisation changes.\<close>

definition same_position :: "EntrySnapshotPosition \<Rightarrow> EntrySnapshotPosition \<Rightarrow> bool" where
  "same_position s t =
     (sp_ID s = sp_ID t \<and> sp_InstrumentID s = sp_InstrumentID t \<and> sp_IncludedInScore s = sp_IncludedInScore t)"

lemma adjust_same: "adjust_positions adj from to_t ss = Inr ts \<Longrightarrow> list_all2 same_position ss ts"
  by (induction ss arbitrary: ts) (auto simp: same_position_def split: if_splits sum.splits)

lemma adjusted_same:
  assumes "adjustedEntryBasket E c e to_t = Inr adj"
  shows "list_all2 same_position (en_Snapshots e) (en_Snapshots adj) \<and> en_CashSnapshots adj = en_CashSnapshots e"
proof (cases "ee_adjust E")
  case None
  then show ?thesis using assms by (simp add: adjustedEntryBasket_def list.rel_refl same_position_def)
next
  case (Some f)
  then show ?thesis using assms adjust_same by (auto simp: adjustedEntryBasket_def)
qed

lemma weights_rows:
  "baseline_weights L w now vals = Inr bs \<Longrightarrow>
     map (\<lambda>b. (pb_SnapshotID b, pb_Symbol b, pb_Quantity b)) bs = map (\<lambda>(s, _). (sp_ID s, sp_Symbol s, sp_Quantity s)) vals"
  by (induction L w now vals arbitrary: bs rule: baseline_weights.induct) (auto split: sum.splits)

lemma values_rows:
  "baseline_values L (boundary_source L) ss v = (Inr vals, v') \<Longrightarrow> map fst vals = filter sp_IncludedInScore ss"
proof (induction ss arbitrary: vals)
  case (Cons s ss)
  then show ?case
    by (cases "sp_IncludedInScore s") (auto simp: andThen_Inr boundary_source_def boundary_priceOf_def boundary_toBase_def)
qed simp

text \<open>The baseline of a scored row carries the symbol and quantity of its normalised copy.\<close>

lemma apply_baseline_row:
  assumes ids: "distinct (map sp_ID ts)"
    and rows: "map (\<lambda>b. (pb_SnapshotID b, pb_Symbol b, pb_Quantity b)) bs
             = map (\<lambda>s. (sp_ID s, sp_Symbol s, sp_Quantity s)) (filter sp_IncludedInScore ts)"
    and t: "t \<in> set ts" "same_position s t"
  shows "sp_IncludedInScore (apply_baseline bs s) = sp_IncludedInScore t"
    and "sp_InstrumentID (apply_baseline bs s) = sp_InstrumentID t"
    and "sp_IncludedInScore t \<Longrightarrow>
           sp_Symbol (apply_baseline bs s) = sp_Symbol t \<and> sp_Quantity (apply_baseline bs s) = sp_Quantity t"
proof -
  show "sp_IncludedInScore (apply_baseline bs s) = sp_IncludedInScore t"
    "sp_InstrumentID (apply_baseline bs s) = sp_InstrumentID t"
    using t(2) by (auto simp: apply_baseline_def same_position_def split: option.split)
  assume inc: "sp_IncludedInScore t"
  have keys: "map pb_SnapshotID bs = map sp_ID (filter sp_IncludedInScore ts)"
    using arg_cong [OF rows, of "map fst"] by (simp add: comp_def)
  have d: "distinct (map pb_SnapshotID bs)" unfolding keys using ids by (rule distinct_map_filter)
  have "(sp_ID t, sp_Symbol t, sp_Quantity t) \<in> set (map (\<lambda>b. (pb_SnapshotID b, pb_Symbol b, pb_Quantity b)) bs)"
    unfolding rows using t(1) inc by auto
  then obtain b where b: "b \<in> set bs" "pb_SnapshotID b = sp_ID t" "pb_Symbol b = sp_Symbol t" "pb_Quantity b = sp_Quantity t"
    by auto
  have "map_of (rev (map (\<lambda>b. (pb_SnapshotID b, b)) bs)) (sp_ID s) = Some b"
    using b(1,2) d t(2) by (intro map_of_is_SomeI) (force simp: same_position_def rev_map [symmetric] comp_def)+
  then show "sp_Symbol (apply_baseline bs s) = sp_Symbol t \<and> sp_Quantity (apply_baseline bs s) = sp_Quantity t"
    using b by (simp add: apply_baseline_def)
qed

lemma sum_included_same:
  assumes "list_all2 (\<lambda>x y. f x = f y \<and> (f y \<longrightarrow> g x = g y)) xs ys"
  shows "sum_included L f g acc xs = sum_included L f g acc ys"
  using assms by (induction xs ys arbitrary: acc rule: list_all2_induct) auto

lemma completed_positions:
  assumes "includeFX scoring" "list_all2 same_position ss ts" "distinct (map sp_ID ts)"
    and "map (\<lambda>b. (pb_SnapshotID b, pb_Symbol b, pb_Quantity b)) bs
       = map (\<lambda>s. (sp_ID s, sp_Symbol s, sp_Quantity s)) (filter sp_IncludedInScore ts)"
  shows "sum_included L sp_IncludedInScore (position_base L src scoring) acc (map (apply_baseline bs) ss)
       = sum_included L sp_IncludedInScore (position_base L src scoring) acc ts"
proof (rule sum_included_same)
  have "sp_IncludedInScore (apply_baseline bs s) = sp_IncludedInScore t \<and>
        (sp_IncludedInScore t \<longrightarrow>
           position_base L src scoring (apply_baseline bs s) = position_base L src scoring t)"
    if "t \<in> set ts" "same_position s t" for s t
    using apply_baseline_row [OF assms(3,4) that] assms(1) by (simp add: position_base_def)
  moreover have "t \<in> set ts \<and> same_position s t" if "(s, t) \<in> set (zip ss ts)" for s t
    using that assms(2) by (auto simp: list_all2_iff dest: set_zip_rightD)
  ultimately show "list_all2 (\<lambda>x y. sp_IncludedInScore x = sp_IncludedInScore y \<and>
      (sp_IncludedInScore y \<longrightarrow> position_base L src scoring x = position_base L src scoring y))
      (map (apply_baseline bs) ss) ts"
    using assms(2) by (auto simp: list_all2_iff zip_map1)
qed

section \<open>Properties\<close>

text \<open>The stored entry once its baseline is complete, as \<open>CompleteBaseline\<close> writes it.\<close>

definition completed_entry :: "Amount \<Rightarrow> PositionBaseline list \<Rightarrow> time \<Rightarrow> CompetitionEntry \<Rightarrow> CompetitionEntry" where
  "completed_entry total_value bs now e =
     e\<lparr>en_EntryStatus := EntryActive, en_BaselineStatus := BaselineCompleted, en_BaselineCompletedAt := Some now,
       en_EligibleStartingValueBase := total_value, en_StartingValue := total_value,
       en_Snapshots := map (apply_baseline bs) (en_Snapshots e)\<rparr>"

lemma CompleteBaseline_completed:
  "CompleteBaseline eid total_value bs now =
     update_by_id eid (\<lambda>e. en_EntryStatus e = EntryAdmitted \<and> en_BaselineStatus e = BaselinePending)
       (completed_entry total_value bs now)"
  by (simp add: CompleteBaseline_def completed_entry_def [abs_def])

text \<open>
  C13. The baseline is the point the return is measured from, where currency effects count towards the score. Normalise an
  entry's basket, whose positions have distinct identifiers, for corporate actions, take the baseline of the copy from the
  boundary observations and complete the stored entry with it: valued from the same observations by rules that include
  currency effects, the entry stands at the index 100 with no return, whatever was split or renamed. Where the rules
  exclude them, foreign cash is valued at another rate than the baseline's and the entry need not start at 100.
\<close>

theorem baseline_round_trip:
  assumes "decimal_lib L" "includeFX scoring" "distinct (map sp_ID (en_Snapshots e))"
    and "adjustedEntryBasket E c e t = Inr adj"
    and "fst (baseline_terms L (boundary_source L) adj now view) = Inr (total_value, bs)"
  shows "fst (valueCompetitionEntry L (completed_entry total_value bs now e) (boundary_source L) scoring view) = Inr (100, 0)"
proof -
  let ?src = "boundary_source L"
  note same = adjusted_same [OF assms(4)]
  have ids: "map sp_ID (en_Snapshots adj) = map sp_ID (en_Snapshots e)"
    using same by (auto simp: list_all2_conv_all_nth same_position_def intro: nth_equalityI)
  obtain vals where vals: "baseline_values L ?src (en_Snapshots adj) view = (Inr vals, view)"
    and cash: "fst (sum_included L cs_IncludedInScore (\<lambda>c. ps_toBase ?src (cs_Amount c) (cs_Currency c))
          (foldl (\<lambda>t (s, p, c, base). Amount_Add L t base) (ZeroAmount L) vals) (en_CashSnapshots adj) view) = Inr total_value"
    and pos: "0 < Decimal_Sign L total_value" and weights: "baseline_weights L total_value now vals = Inr bs"
  proof -
    obtain vals w where one: "baseline_values L ?src (en_Snapshots adj) view = (Inr vals, w)"
      using assms(5) by (cases "baseline_values L ?src (en_Snapshots adj) view"; cases "fst (baseline_values L ?src (en_Snapshots adj) view)")
        (auto simp: baseline_terms_def)
    then have "w = view" using baseline_values_sum [OF assms(2) one] by simp
    with one assms(5) show ?thesis
      by (intro that) (auto simp: baseline_terms_def andThen_def split: prod.splits sum.splits if_splits)
  qed
  have rows: "map (\<lambda>b. (pb_SnapshotID b, pb_Symbol b, pb_Quantity b)) bs
      = map (\<lambda>s. (sp_ID s, sp_Symbol s, sp_Quantity s)) (filter sp_IncludedInScore (en_Snapshots adj))"
    unfolding weights_rows [OF weights] values_rows [OF vals, symmetric] by (simp add: case_prod_beta)
  have positions: "sum_included L sp_IncludedInScore (position_base L ?src scoring) (ZeroAmount L)
      (map (apply_baseline bs) (en_Snapshots e)) view =
      (Inr (foldl (\<lambda>t (s, p, c, base). Amount_Add L t base) (ZeroAmount L) vals), view)"
    using baseline_values_sum [OF assms(2) vals, of "ZeroAmount L"] assms(3) ids
    by (subst completed_positions [OF assms(2) conjunct1 [OF same] _ rows]) simp_all
  have same_cash: "cash_base L ?src scoring = (\<lambda>c. ps_toBase ?src (cs_Amount c) (cs_Currency c))"
    using assms(2) by (intro ext) (simp add: cash_base_def)
  have whole: "away_places 36 1 = (1 :: rat)" "bank_places 18 100 = (100 :: rat)" by code_simp+
  have tv: "0 < total_value" using pos by (simp add: money_defs decimal_lib.sign_simps [OF assms(1)])
  obtain w where total_run: "sum_included L cs_IncludedInScore (cash_base L ?src scoring)
      (foldl (\<lambda>t (s, p, c, base). Amount_Add L t base) (ZeroAmount L) vals) (en_CashSnapshots e) view = (Inr total_value, w)"
    using cash same by (auto simp: same_cash prod_eq_iff)
  show ?thesis
    using positions total_run tv whole
    by (simp add: valueCompetitionEntry_def completed_entry_def money_defs decimal_lib.sign_simps [OF assms(1)]
      decimal_lib.divPrecise_eq [OF assms(1)] decimal_lib.mul [OF assms(1)] decimal_lib.sub [OF assms(1)]
      decimal_lib.roundBank [OF assms(1)] decimal_lib.mustNew_literals [OF assms(1)] ScaleIndex_def ScaleWeight_def)
qed

definition demo_split_engine :: engine where
  "demo_split_engine = (demo_engine (Fin 50) (Inr (Fin 2)))\<lparr>ee_adjust := Some (\<lambda>_ _ q _ _. Inr (''ACM2'', 2 * q))\<rparr>"

definition demo_view :: boundaryObservations where
  "demo_view =
     \<lparr>bo_prices = (\<lambda>_. Some (zero_PriceObservation\<lparr>po_Price := 50, po_Currency := ''EUR''\<rparr>)),
      bo_fx = (\<lambda>_. Some \<lparr>fo_FromCurrency = ''EUR'', fo_ToCurrency = fx_BaseCurrency, fo_Rate = 2, fo_ObservedAt = 0\<rparr>)\<rparr>"

definition demo_cash :: EntrySnapshotCash where
  "demo_cash = \<lparr>cs_ID = ''k'', cs_CompetitionEntryID = ''e'', cs_Currency = ''EUR'', cs_Amount = 100, cs_ValueBase = 100,
                cs_IncludedInScore = True\<rparr>"

definition demo_admitted :: CompetitionEntry where
  "demo_admitted = demo_entry\<lparr>en_EntryStatus := EntryAdmitted, en_BaselineStatus := BaselinePending,
                              en_CashSnapshots := [demo_cash]\<rparr>"

abbreviation demo_terms :: "CompetitionEntry \<Rightarrow> comp_err + Amount \<times> PositionBaseline list" where
  "demo_terms adj \<equiv> fst (baseline_terms std_declib (boundary_source std_declib) adj 9 demo_view)"

theorem baseline_round_trip_witness:
  "let adj = projr (adjustedEntryBasket demo_split_engine zero_Competition demo_admitted 9);
       (total_value, bs) = projr (demo_terms adj)
   in total_value = 2200 \<and> fst (valueCompetitionEntry std_declib (completed_entry total_value bs 9 demo_admitted)
        (boundary_source std_declib) demo_scoring demo_view) = Inr (100, 0)"
proof -
  define adj where "adj = projr (adjustedEntryBasket demo_split_engine zero_Competition demo_admitted 9)"
  define terms where "terms = projr (demo_terms adj)"
  have ok: "adjustedEntryBasket demo_split_engine zero_Competition demo_admitted 9 = Inr adj"
    "demo_terms adj = Inr (fst terms, snd terms)" "fst terms = 2200"
  proof -
    have "\<not> isl (adjustedEntryBasket demo_split_engine zero_Competition demo_admitted 9)"
      "\<not> isl (demo_terms (projr (adjustedEntryBasket demo_split_engine zero_Competition demo_admitted 9)))"
      by code_simp+
    then show "adjustedEntryBasket demo_split_engine zero_Competition demo_admitted 9 = Inr adj"
      "demo_terms adj = Inr (fst terms, snd terms)"
      by (simp_all add: adj_def terms_def)
    show "fst terms = 2200" unfolding terms_def adj_def by code_simp
  qed
  have fx: "includeFX demo_scoring" "distinct (map sp_ID (en_Snapshots demo_admitted))" by code_simp+
  show ?thesis
    using baseline_round_trip [OF std.decimal_lib_axioms fx ok(1,2)] ok(3)
    by (simp add: adj_def [symmetric] terms_def [symmetric] case_prod_beta Let_def)
qed

text \<open>
  With the currency effect left out of the score, cash is valued at the rate of the join and the baseline at that of
  the start, so an entry in foreign cash does not start at 100 when the rate moved in between.
\<close>

lemma fixed_rate_cash_starts_off:
  "let e = demo_admitted\<lparr>en_Snapshots := []\<rparr>; (total_value, bs) = projr (demo_terms e)
   in fst (valueCompetitionEntry std_declib (completed_entry total_value bs 9 e) (boundary_source std_declib)
        (demo_scoring\<lparr>sc_IncludeFX := Some False\<rparr>) demo_view) = Inr (50, -50)"
  by code_simp

end
