(* ===== verification/BoardModel.thy ===== *)
theory BoardModel
  imports OrderLaws CompModel
begin

text \<open>
  The data of the global leaderboard (\<^verbatim>\<open>internal/leaderboard\<close>): timeframes, public rows, the views of
  users, ranked performance and profiles it is given, the index snapshots behind the trailing windows
  with their two stores, and the windowed return. The interfaces the service is wired with are the fields
  of \<open>BoardEnv\<close>: what they answer during one call.
\<close>

section \<open>Timeframes\<close>

datatype Timeframe = Timeframe1W | Timeframe1M | Timeframe3M | Timeframe6M | Timeframe1Y | TimeframeAll

fun tf_text :: "Timeframe \<Rightarrow> string" where
  "tf_text Timeframe1W = ''1W''"
| "tf_text Timeframe1M = ''1M''"
| "tf_text Timeframe3M = ''3M''"
| "tf_text Timeframe6M = ''6M''"
| "tf_text Timeframe1Y = ''1Y''"
| "tf_text TimeframeAll = ''ALL''"

definition ParseTimeframe :: "string \<Rightarrow> Timeframe" where
  "ParseTimeframe raw =
     (let t = ToUpper (TrimSpace raw)
      in if t = ''1W'' then Timeframe1W
         else if t = ''1M'' then Timeframe1M
         else if t = ''3M'' then Timeframe3M
         else if t = ''6M'' then Timeframe6M
         else if t = ''1Y'' then Timeframe1Y
         else TimeframeAll)"

text \<open>The trailing duration; \<open>None\<close> is \<open>windowed = false\<close>.\<close>

fun tf_window :: "Timeframe \<Rightarrow> int option" where
  "tf_window Timeframe1W = Some (7 * day_ns)"
| "tf_window Timeframe1M = Some (30 * day_ns)"
| "tf_window Timeframe3M = Some (90 * day_ns)"
| "tf_window Timeframe6M = Some (180 * day_ns)"
| "tf_window Timeframe1Y = Some (365 * day_ns)"
| "tf_window TimeframeAll = None"

definition allTimeframes :: "Timeframe list" where
  "allTimeframes = [TimeframeAll, Timeframe1W, Timeframe1M, Timeframe3M, Timeframe6M, Timeframe1Y]"

section \<open>Rows and views\<close>

datatype board_err = ErrListUsers | ErrRankingUnavailable | ErrBackend string

record PublicWeight =
  pw_Symbol :: string
  pw_AssetType :: string
  pw_WeightPercentage :: float64

record LeaderboardEntry =
  lbe_Rank :: int
  lbe_DisplayName :: string
  lbe_AvatarKey :: string
  lbe_RankedReturnPercentage :: Ratio
  lbe_RankedIndex :: IndexValue
  lbe_GainLossPercentage :: Ratio
  lbe_PortfolioIndex :: IndexValue
  lbe_Handle :: string
  lbe_StrategyTag :: string
  lbe_PublicWeights :: "PublicWeight list"

record boardRow =
  rkr_userID :: string
  rkr_entry :: LeaderboardEntry
  rkr_returnPct :: Ratio
  rkr_rankedIndex :: IndexValue

record RankableUser =
  rku_ID :: string
  rku_DisplayName :: string
  rku_AvatarKey :: string

record BoardPerformance =
  bp_RankedIndex :: IndexValue
  bp_RankedReturnPercentage :: Ratio
  bp_Paused :: bool
  bp_TrackingStartedAt :: time

record ProfilePublicInfo =
  ppi_Handle :: string
  ppi_StrategyTag :: string
  ppi_IsPublic :: bool
  ppi_ShowWeights :: bool
  ppi_Weights :: "PublicWeight list"

definition rankedEntry :: "int \<Rightarrow> string \<Rightarrow> string \<Rightarrow> Ratio \<Rightarrow> IndexValue \<Rightarrow> LeaderboardEntry" where
  "rankedEntry rank displayName avatarKey returnPct index =
     \<lparr>lbe_Rank = rank, lbe_DisplayName = displayName, lbe_AvatarKey = avatarKey,
      lbe_RankedReturnPercentage = returnPct, lbe_RankedIndex = index,
      lbe_GainLossPercentage = returnPct, lbe_PortfolioIndex = index,
      lbe_Handle = [], lbe_StrategyTag = [], lbe_PublicWeights = []\<rparr>"

definition entriesOf :: "boardRow list \<Rightarrow> LeaderboardEntry list" where
  "entriesOf rows = map rkr_entry rows"

text \<open>
  The collaborators of the service, as they answer during one call: \<open>None\<close> is an optional one that is not
  attached, or an optional capability the attached one lacks. \<open>be_IndexAtOrBefore\<close> answers \<open>None\<close> for
  \<open>found = false\<close>, \<open>be_PublicInfo\<close> for \<open>hasProfile = false\<close>.
\<close>

record BoardEnv =
  be_ListRankableUsers :: "board_err + RankableUser list"
  be_ListRankableUsersPage :: "(string \<Rightarrow> int \<Rightarrow> board_err + RankableUser list) option"
  be_CurrentRankedPerformance :: "string \<Rightarrow> board_err + BoardPerformance"
  be_IndexAtOrBefore :: "(string \<Rightarrow> time \<Rightarrow> time \<Rightarrow> board_err + (IndexValue \<times> time) option) option"
  be_PublicInfo :: "(string \<Rightarrow> board_err + ProfilePublicInfo option) option"
  be_PublicInfoBatch :: "(string list \<Rightarrow> board_err + (string \<rightharpoonup> ProfilePublicInfo)) option"
  be_now :: time

section \<open>Enumerating the users\<close>

text \<open>
  The provider wired in \<^verbatim>\<open>main.go\<close>, \<^verbatim>\<open>auth.Service\<close>, over a repository without its own pages: every user
  projected, and a page by sorting all of them.
\<close>

record user_row =
  usr_ID :: string
  usr_DisplayName :: string
  usr_AvatarKey :: string

definition ListRankableUsers :: "board_err + user_row list \<Rightarrow> board_err + RankableUser list" where
  "ListRankableUsers repo =
     rbind repo (\<lambda>users.
       Inr (map (\<lambda>u. \<lparr>rku_ID = usr_ID u, rku_DisplayName = usr_DisplayName u, rku_AvatarKey = usr_AvatarKey u\<rparr>) users))"

definition id_less :: "RankableUser \<Rightarrow> RankableUser \<Rightarrow> bool" where
  "id_less a b = str_less (rku_ID a) (rku_ID b)"

definition ListRankableUsersPage ::
  "board_err + user_row list \<Rightarrow> string \<Rightarrow> int \<Rightarrow> board_err + RankableUser list" where
  "ListRankableUsersPage repo afterID limit =
     (if limit \<le> 0 then Inr []
      else rbind (ListRankableUsers repo) (\<lambda>users.
        Inr (take (nat limit) (filter (\<lambda>u. str_less afterID (rku_ID u)) (isort id_less users)))))"

section \<open>Index snapshots\<close>

record indexPoint =
  ip_at :: time
  ip_index :: IndexValue

type_synonym SnapshotMemory = "string \<Rightarrow> indexPoint list"

definition snap_Record :: "string \<Rightarrow> IndexValue \<Rightarrow> time \<Rightarrow> SnapshotMemory \<Rightarrow> SnapshotMemory" where
  "snap_Record userID index t s =
     s(userID := isort (\<lambda>a b. ip_at a < ip_at b) (s userID @ [\<lparr>ip_at = t, ip_index = index\<rparr>]))"

text \<open>The walk from newest to oldest, on the reversed list.\<close>

fun newest_eligible :: "time \<Rightarrow> time \<Rightarrow> indexPoint list \<Rightarrow> (IndexValue \<times> time) option" where
  "newest_eligible cutoff notBefore [] = None"
| "newest_eligible cutoff notBefore (p # older) =
     (if cutoff < ip_at p then newest_eligible cutoff notBefore older
      else if \<not> time_IsZero notBefore \<and> ip_at p < notBefore then None
      else Some (ip_index p, ip_at p))"

definition snap_IndexAtOrBefore ::
  "string \<Rightarrow> time \<Rightarrow> time \<Rightarrow> SnapshotMemory \<Rightarrow> (IndexValue \<times> time) option" where
  "snap_IndexAtOrBefore userID cutoff notBefore s = newest_eligible cutoff notBefore (rev (s userID))"

text \<open>The table \<^verbatim>\<open>leaderboard_snapshots\<close> and its query.\<close>

type_synonym snapshot_table = "(string \<times> indexPoint) list"

definition pgsnap_Record :: "string \<Rightarrow> IndexValue \<Rightarrow> time \<Rightarrow> snapshot_table \<Rightarrow> snapshot_table" where
  "pgsnap_Record userID index t tab = tab @ [(userID, \<lparr>ip_at = t, ip_index = index\<rparr>)]"

definition pgsnap_IndexAtOrBefore ::
  "string \<Rightarrow> time \<Rightarrow> time \<Rightarrow> snapshot_table \<Rightarrow> (IndexValue \<times> time) option" where
  "pgsnap_IndexAtOrBefore userID cutoff notBefore tab =
     (case isort (\<lambda>a b. ip_at b < ip_at a)
             (map snd (filter (\<lambda>(u, p). u = userID \<and> ip_at p \<le> cutoff \<and> notBefore \<le> ip_at p) tab)) of
        [] \<Rightarrow> None | p # _ \<Rightarrow> Some (ip_index p, ip_at p))"

section \<open>The windowed return\<close>

text \<open>\<^verbatim>\<open>performancehistory.TimeframeReturnRatio\<close>; its only error is \<^verbatim>\<open>ErrNoStartingIndex\<close>.\<close>

definition TimeframeReturnRatio :: "declib \<Rightarrow> IndexValue \<Rightarrow> IndexValue \<Rightarrow> Ratio option" where
  "TimeframeReturnRatio L startingIndex endingIndex =
     (if Decimal_Sign L startingIndex \<le> 0 \<or> Decimal_Sign L endingIndex < 0 then None
      else case Index_DivExact L endingIndex startingIndex (ScaleIndex + ScaleWeight) of
             Inl _ \<Rightarrow> None
           | Inr ratio \<Rightarrow> Some (Ratio_Mul L (Ratio_Sub L ratio (MustRatio L ''1'')) (MustRatio L ''100'')))"

text \<open>\<open>None\<close> is \<open>ok = false\<close>: the user is left out of the timeframe.\<close>

definition timeframeReturn ::
  "declib \<Rightarrow> BoardEnv \<Rightarrow> int \<Rightarrow> string \<Rightarrow> BoardPerformance \<Rightarrow> Timeframe \<Rightarrow> (Ratio \<times> IndexValue) option" where
  "timeframeReturn L E maxSnapshotAge userID rp tf =
     (case tf_window tf of
        None \<Rightarrow> Some (bp_RankedReturnPercentage rp, bp_RankedIndex rp)
      | Some window \<Rightarrow>
          (case be_IndexAtOrBefore E of
             None \<Rightarrow> None
           | Some lookup \<Rightarrow>
               let cutoff = be_now E - window
               in case lookup userID cutoff (bp_TrackingStartedAt rp) of
                    Inl _ \<Rightarrow> None
                  | Inr None \<Rightarrow> None
                  | Inr (Some (base, capturedAt)) \<Rightarrow>
                      if Decimal_Sign L base \<le> 0 then None
                      else if maxSnapshotAge < cutoff - capturedAt then None
                      else case TimeframeReturnRatio L base (bp_RankedIndex rp) of
                             None \<Rightarrow> None
                           | Some retPct \<Rightarrow>
                               (case Index_DivExact L (bp_RankedIndex rp) base (ScaleIndex + ScaleWeight) of
                                  Inl _ \<Rightarrow> None
                                | Inr factor \<Rightarrow>
                                    Some (retPct, Index_MulRatio L (MustIndexValue L ''100'') factor))))"

section \<open>Public profiles\<close>

definition apply_info :: "ProfilePublicInfo \<Rightarrow> LeaderboardEntry \<Rightarrow> LeaderboardEntry" where
  "apply_info info e =
     (let e = e\<lparr>lbe_Handle := ppi_Handle info, lbe_StrategyTag := ppi_StrategyTag info\<rparr>
      in if ppi_ShowWeights info then e\<lparr>lbe_PublicWeights := ppi_Weights info\<rparr> else e)"

definition enrich :: "BoardEnv \<Rightarrow> string \<Rightarrow> LeaderboardEntry \<Rightarrow> LeaderboardEntry" where
  "enrich E userID e =
     (case be_PublicInfo E of
        None \<Rightarrow> e
      | Some lookup \<Rightarrow>
          (case lookup userID of
             Inl _ \<Rightarrow> e
           | Inr None \<Rightarrow> e
           | Inr (Some info) \<Rightarrow> if \<not> ppi_IsPublic info then e else apply_info info e))"

text \<open>A batch capability belongs to an attached provider: without one nothing is joined.\<close>

definition enrichPage :: "BoardEnv \<Rightarrow> boardRow list \<Rightarrow> boardRow list" where
  "enrichPage E rows =
     (if be_PublicInfo E = None \<or> rows = [] then rows
      else let one_by_one = map (\<lambda>r. r\<lparr>rkr_entry := enrich E (rkr_userID r) (rkr_entry r)\<rparr>) rows
      in case be_PublicInfoBatch E of
           None \<Rightarrow> one_by_one
         | Some batch \<Rightarrow>
             (case batch (map rkr_userID rows) of
                Inl _ \<Rightarrow> one_by_one
              | Inr infos \<Rightarrow>
                  map (\<lambda>r. case infos (rkr_userID r) of
                             None \<Rightarrow> r
                           | Some info \<Rightarrow>
                               if \<not> ppi_IsPublic info then r
                               else r\<lparr>rkr_entry := apply_info info (rkr_entry r)\<rparr>) rows))"

section \<open>The ranking rule\<close>

definition row_before :: "declib \<Rightarrow> boardRow \<Rightarrow> boardRow \<Rightarrow> bool" where
  "row_before L x y =
     (let c = Ratio_Cmp L (rkr_returnPct x) (rkr_returnPct y);
          a = rkr_entry x; b = rkr_entry y
      in if c \<noteq> 0 then 0 < c
         else if lbe_DisplayName a \<noteq> lbe_DisplayName b then str_less (lbe_DisplayName a) (lbe_DisplayName b)
         else str_less (rkr_userID x) (rkr_userID y))"

definition set_rank :: "int \<Rightarrow> boardRow \<Rightarrow> boardRow" where
  "set_rank k r = r\<lparr>rkr_entry := (rkr_entry r)\<lparr>lbe_Rank := k\<rparr>\<rparr>"

definition sortRankedRows :: "declib \<Rightarrow> boardRow list \<Rightarrow> boardRow list" where
  "sortRankedRows L rows =
     map (\<lambda>(i, r). set_rank (int i + 1) r) (enumerate 0 (isort (row_before L) rows))"

section \<open>Percentiles and milestones\<close>

definition board_round2 :: "float64 \<Rightarrow> float64" where
  "board_round2 v = fdiv (math_Round (fmul v (Fin 100))) (Fin 100)"

definition percentile :: "int \<Rightarrow> int \<Rightarrow> float64" where
  "percentile rank participants =
     (if rank \<le> 0 \<or> participants \<le> 0 then Fin 0
      else board_round2 (fmul (fdiv (fround (of_int (participants - rank + 1))) (fround (of_int participants))) (Fin 100)))"

record Milestone =
  ms_Label :: string
  ms_TargetRank :: int
  ms_RankGap :: int
  ms_ReturnGapPercentage :: Ratio

definition milestoneTarget :: "int \<Rightarrow> int \<times> string" where
  "milestoneTarget rank =
     (if 100 < rank then (100, ''Top 100'')
      else if 25 < rank then (25, ''Top 25'')
      else if 10 < rank then (10, ''Top 10'')
      else (1, ''#1''))"

definition floored_gap :: "declib \<Rightarrow> Ratio \<Rightarrow> Ratio \<Rightarrow> Ratio" where
  "floored_gap L target returnPct =
     (let gap = Ratio_Sub L target returnPct
      in if Decimal_Sign L gap < 0 then ZeroRatio L else gap)"

definition nextMilestone :: "declib \<Rightarrow> boardRow list \<Rightarrow> int \<Rightarrow> Ratio \<Rightarrow> Milestone option" where
  "nextMilestone L rows rank returnPct =
     (if rank \<le> 1 then None
      else let (targetRank, label) = milestoneTarget rank;
               gap = (if 0 < targetRank \<and> targetRank \<le> int (length rows)
                      then floored_gap L (lbe_RankedReturnPercentage (rkr_entry (rows ! nat (targetRank - 1)))) returnPct
                      else ZeroRatio L)
      in Some \<lparr>ms_Label = label, ms_TargetRank = targetRank, ms_RankGap = rank - targetRank,
               ms_ReturnGapPercentage = gap\<rparr>)"

end
