(* ===== verification/BoardStore.thy ===== *)
theory BoardStore
  imports BoardModel
begin

text \<open>
  The ranking projection of the leaderboard. \<open>RankingStore\<close> is the interface the service uses, a record of
  operations on a state. Its implementation, \<^verbatim>\<open>PostgresRankingStore\<close>, is modelled on the tables the queries
  name: the rankings tagged with a generation, the one row of state, and the users joined. PostgreSQL is
  not part of the repository: which statements it refuses (a lost connection) is the field \<open>db_Refuses\<close>, its
  collation of names the field \<open>db_Collate\<close>, and the column type \<^verbatim>\<open>NUMERIC(30, 12)\<close> rounds what is stored.
\<close>

section \<open>The interface\<close>

text \<open>An operation that changes the state answers its error, if any, and the state after it.\<close>

type_synonym 's effect = "'s \<Rightarrow> board_err option \<times> 's"

record 's RankingStore =
  rs_Upsert :: "Timeframe \<Rightarrow> string \<Rightarrow> IndexValue \<Rightarrow> Ratio \<Rightarrow> time \<Rightarrow> 's effect"
  rs_Delete :: "Timeframe \<Rightarrow> string \<Rightarrow> 's effect"
  rs_TopPage :: "Timeframe \<Rightarrow> int \<Rightarrow> 's \<Rightarrow> board_err + boardRow list"
  rs_RankOf :: "Timeframe \<Rightarrow> string \<Rightarrow> 's \<Rightarrow> board_err + (int \<times> IndexValue \<times> Ratio) option"
  rs_ValueAtRank :: "Timeframe \<Rightarrow> int \<Rightarrow> 's \<Rightarrow> board_err + Ratio option"
  rs_Count :: "Timeframe \<Rightarrow> 's \<Rightarrow> board_err + int"
  rs_ActiveGenerationAge :: "'s \<Rightarrow> board_err + time option"
  rs_LastCycleDuration :: "('s \<Rightarrow> board_err + int option) option"
  rs_CompleteCycle :: "'s effect"

section \<open>The tables\<close>

record rankings_row =
  rk_user_id :: string
  rk_timeframe :: Timeframe
  rk_generation :: int
  rk_ranked_index :: IndexValue
  rk_ranked_return_percentage :: Ratio
  rk_tracking_started_at :: time
  rk_computed_at :: time
  rk_rnk :: "int option"

record users_row =
  us_id :: string
  us_display_name :: string
  us_avatar_key :: string
  us_deleted :: bool

datatype statement =
  StmtUpsert Timeframe string | StmtDelete Timeframe string | StmtTopPage | StmtRankOf | StmtValueAtRank
| StmtCount | StmtState | StmtComplete

record board_db =
  db_Rankings :: "rankings_row list"
  db_Users :: "users_row list"
  db_active_generation :: int
  db_building_generation :: int
  db_cycle_started_at :: time
  db_activated_at :: "time option"
  db_last_cycle :: "int option"
  db_now :: time
  db_Refuses :: "statement \<Rightarrow> bool"
  db_Collate :: "string \<Rightarrow> string \<Rightarrow> bool"

text \<open>\<^verbatim>\<open>NUMERIC(30, 12)\<close>: 12 places, halves away from zero, and fewer than 18 digits before the point.\<close>

definition numeric12 :: "dec \<Rightarrow> dec option" where
  "numeric12 x = (let y = away_places 12 x in if \<bar>y\<bar> < 10 ^ 18 then Some y else None)"

definition down :: board_err where "down = ErrBackend ''postgres''"

text \<open>The live user a row joins with, the user not being deleted.\<close>

definition live_user :: "board_db \<Rightarrow> string \<Rightarrow> users_row option" where
  "live_user db userID = find (\<lambda>u. us_id u = userID \<and> \<not> us_deleted u) (db_Users db)"

definition same_key :: "Timeframe \<Rightarrow> int \<Rightarrow> string \<Rightarrow> rankings_row \<Rightarrow> bool" where
  "same_key tf g userID r = (rk_timeframe r = tf \<and> rk_generation r = g \<and> rk_user_id r = userID)"

section \<open>Writes\<close>

text \<open>
  \<^verbatim>\<open>INSERT ... ON CONFLICT DO UPDATE\<close>, on the primary key (timeframe, generation, user). The row's user must
  exist, and the index, as rounded, must be positive. A conflicting row keeps its \<open>rnk\<close>.
\<close>

definition upsert_row :: "rankings_row \<Rightarrow> rankings_row list \<Rightarrow> rankings_row list" where
  "upsert_row row rows =
     (let key = same_key (rk_timeframe row) (rk_generation row) (rk_user_id row)
      in if list_ex key rows
         then map (\<lambda>r. if key r then row\<lparr>rk_rnk := rk_rnk r\<rparr> else r) rows
         else rows @ [row])"

definition pg_Upsert ::
  "Timeframe \<Rightarrow> string \<Rightarrow> IndexValue \<Rightarrow> Ratio \<Rightarrow> time \<Rightarrow> board_db effect" where
  "pg_Upsert tf userID idx retPct trackingStartedAt db =
     (if db_Refuses db (StmtUpsert tf userID) then (Some down, db)
      else case (numeric12 idx, numeric12 retPct) of
        (Some i, Some p) \<Rightarrow>
          if i \<le> 0 \<or> userID \<notin> us_id ` set (db_Users db) then (Some down, db)
          else (None, db\<lparr>db_Rankings := upsert_row
                   \<lparr>rk_user_id = userID, rk_timeframe = tf, rk_generation = db_building_generation db,
                    rk_ranked_index = i, rk_ranked_return_percentage = p,
                    rk_tracking_started_at = trackingStartedAt, rk_computed_at = db_now db,
                    rk_rnk = None\<rparr> (db_Rankings db)\<rparr>)
      | _ \<Rightarrow> (Some down, db))"

definition pg_Delete :: "Timeframe \<Rightarrow> string \<Rightarrow> board_db effect" where
  "pg_Delete tf userID db =
     (if db_Refuses db (StmtDelete tf userID) then (Some down, db)
      else (None, db\<lparr>db_Rankings := filter (\<lambda>r. \<not> same_key tf (db_building_generation db) userID r)
                                     (db_Rankings db)\<rparr>))"

section \<open>Reads\<close>

text \<open>The rows of a timeframe and generation that join with a live user.\<close>

definition generation_rows :: "board_db \<Rightarrow> Timeframe \<Rightarrow> int \<Rightarrow> (rankings_row \<times> users_row) list" where
  "generation_rows db tf g =
     List.map_filter (\<lambda>r. if rk_timeframe r = tf \<and> rk_generation r = g
                          then map_option (\<lambda>u. (r, u)) (live_user db (rk_user_id r)) else None)
       (db_Rankings db)"

definition rnk_of :: "rankings_row \<times> users_row \<Rightarrow> int" where
  "rnk_of ru = the (rk_rnk (fst ru))"

definition pg_TopPage :: "Timeframe \<Rightarrow> int \<Rightarrow> board_db \<Rightarrow> board_err + boardRow list" where
  "pg_TopPage tf limit db =
     (if db_Refuses db StmtTopPage \<or> limit < 0 then Inl down
      else Inr (map (\<lambda>(r, u).
              \<lparr>rkr_userID = rk_user_id r,
               rkr_entry = rankedEntry (rnk_of (r, u)) (us_display_name u) (us_avatar_key u)
                             (rk_ranked_return_percentage r) (rk_ranked_index r),
               rkr_returnPct = rk_ranked_return_percentage r, rkr_rankedIndex = rk_ranked_index r\<rparr>)
            (take (nat limit)
              (isort (\<lambda>a b. rnk_of a < rnk_of b)
                (filter (\<lambda>(r, u). rk_rnk r \<noteq> None) (generation_rows db tf (db_active_generation db)))))))"

definition pg_RankOf ::
  "Timeframe \<Rightarrow> string \<Rightarrow> board_db \<Rightarrow> board_err + (int \<times> IndexValue \<times> Ratio) option" where
  "pg_RankOf tf userID db =
     (if db_Refuses db StmtRankOf then Inl down
      else Inr (map_option (\<lambda>(r, u). (rnk_of (r, u), rk_ranked_index r, rk_ranked_return_percentage r))
             (find (\<lambda>(r, u). rk_user_id r = userID \<and> rk_rnk r \<noteq> None)
                (generation_rows db tf (db_active_generation db)))))"

definition pg_ValueAtRank :: "Timeframe \<Rightarrow> int \<Rightarrow> board_db \<Rightarrow> board_err + Ratio option" where
  "pg_ValueAtRank tf rank db =
     (if db_Refuses db StmtValueAtRank then Inl down
      else Inr (map_option (\<lambda>(r, u). rk_ranked_return_percentage r)
             (find (\<lambda>(r, u). rk_rnk r = Some rank) (generation_rows db tf (db_active_generation db)))))"

definition pg_Count :: "Timeframe \<Rightarrow> board_db \<Rightarrow> board_err + int" where
  "pg_Count tf db =
     (if db_Refuses db StmtCount then Inl down
      else Inr (int (length (generation_rows db tf (db_active_generation db)))))"

definition pg_ActiveGenerationAge :: "board_db \<Rightarrow> board_err + time option" where
  "pg_ActiveGenerationAge db = (if db_Refuses db StmtState then Inl down else Inr (db_activated_at db))"

text \<open>The duration is kept in nanoseconds; the column holds it in seconds.\<close>

definition pg_LastCycleDuration :: "board_db \<Rightarrow> board_err + int option" where
  "pg_LastCycleDuration db =
     (if db_Refuses db StmtState then Inl down
      else Inr (case db_last_cycle db of None \<Rightarrow> None | Some d \<Rightarrow> if d \<le> 0 then None else Some d))"

section \<open>Promotion\<close>

text \<open>\<^verbatim>\<open>ORDER BY ranked_return_percentage DESC, display_name ASC, user_id ASC\<close>; \<^verbatim>\<open>RANK()\<close> counts the rows before.\<close>

definition sql_before :: "board_db \<Rightarrow> rankings_row \<times> users_row \<Rightarrow> rankings_row \<times> users_row \<Rightarrow> bool" where
  "sql_before db a b =
     (let (ra, ua) = a; (rb, ub) = b
      in if rk_ranked_return_percentage ra \<noteq> rk_ranked_return_percentage rb
         then rk_ranked_return_percentage rb < rk_ranked_return_percentage ra
         else if us_display_name ua \<noteq> us_display_name ub
         then db_Collate db (us_display_name ua) (us_display_name ub)
         else str_less (rk_user_id ra) (rk_user_id rb))"

definition window_rank :: "board_db \<Rightarrow> Timeframe \<Rightarrow> int \<Rightarrow> rankings_row \<times> users_row \<Rightarrow> int" where
  "window_rank db tf g ru =
     1 + int (length (filter (\<lambda>x. sql_before db x ru) (generation_rows db tf g)))"

definition materialize :: "board_db \<Rightarrow> int \<Rightarrow> rankings_row \<Rightarrow> rankings_row" where
  "materialize db g r =
     (if rk_generation r = g
      then (case live_user db (rk_user_id r) of
              None \<Rightarrow> r
            | Some u \<Rightarrow> r\<lparr>rk_rnk := Some (window_rank db (rk_timeframe r) g (r, u))\<rparr>)
      else r)"

text \<open>One transaction: rank the building generation, promote it, prune the one it replaces.\<close>

definition pg_CompleteCycle :: "board_db effect" where
  "pg_CompleteCycle db =
     (if db_Refuses db StmtComplete then (Some down, db)
      else let g = db_building_generation db; previous = db_active_generation db;
               ranked = map (materialize db g) (db_Rankings db)
      in (None, db\<lparr>db_active_generation := g, db_building_generation := g + 1,
                  db_last_cycle := Some (db_now db - db_cycle_started_at db),
                  db_cycle_started_at := db_now db, db_activated_at := Some (db_now db),
                  db_Rankings := filter (\<lambda>r. \<not> (rk_generation r = previous \<and> rk_generation r \<noteq> g)) ranked\<rparr>))"

definition NewPostgresRankingStore :: "board_db RankingStore" where
  "NewPostgresRankingStore =
     \<lparr>rs_Upsert = pg_Upsert, rs_Delete = pg_Delete, rs_TopPage = pg_TopPage, rs_RankOf = pg_RankOf,
      rs_ValueAtRank = pg_ValueAtRank, rs_Count = pg_Count,
      rs_ActiveGenerationAge = pg_ActiveGenerationAge, rs_LastCycleDuration = Some pg_LastCycleDuration,
      rs_CompleteCycle = pg_CompleteCycle\<rparr>"

end
