(* ===== verification/BoardService.thy ===== *)
theory BoardService
  imports BoardStore
begin

text \<open>
  \<^verbatim>\<open>leaderboard.Service\<close>: the refresh that revalues one batch of users per call and promotes a generation of
  the projection at the end of a lap, and the reads, which are served from the projection once one exists and
  computed live before that. The settings and the refresh state of the service are a record; the goroutines of
  a parallel batch are run in the order of the batch.
\<close>

section \<open>The service\<close>

record BoardService =
  sv_maxSnapshotAge :: int
  sv_maxLiveComputeUsers :: int
  sv_maxRankingAge :: int
  sv_maxRankingHardAge :: int
  sv_refreshBatchSize :: int
  sv_refreshParallelism :: int
  sv_refreshCursor :: int
  sv_refreshCursorID :: string
  sv_lastRefreshPromoted :: bool
  sv_cycleProgress :: int
  sv_cycleRankingFailed :: bool

definition maxLeaderboardSize :: int where "maxLeaderboardSize = 100"
definition cycleTrustFactor :: int where "cycleTrustFactor = 2"
definition minute_ns :: int where "minute_ns = 60 * 10 ^ 9"

definition board_NewService :: BoardService where
  "board_NewService =
     \<lparr>sv_maxSnapshotAge = 36 * 60 * minute_ns, sv_maxLiveComputeUsers = 2000,
      sv_maxRankingAge = 30 * minute_ns, sv_maxRankingHardAge = 24 * 60 * minute_ns,
      sv_refreshBatchSize = 0, sv_refreshParallelism = 1, sv_refreshCursor = 0, sv_refreshCursorID = [],
      sv_lastRefreshPromoted = False, sv_cycleProgress = 0, sv_cycleRankingFailed = False\<rparr>"

definition SetMaxSnapshotAge :: "int \<Rightarrow> BoardService \<Rightarrow> BoardService" where
  "SetMaxSnapshotAge d s = (if 0 < d then s\<lparr>sv_maxSnapshotAge := d\<rparr> else s)"

definition SetRefreshBatchSize :: "int \<Rightarrow> BoardService \<Rightarrow> BoardService" where
  "SetRefreshBatchSize n s =
     s\<lparr>sv_refreshBatchSize := n, sv_refreshCursor := 0, sv_refreshCursorID := [], sv_cycleProgress := 0\<rparr>"

definition SetRefreshParallelism :: "int \<Rightarrow> BoardService \<Rightarrow> BoardService" where
  "SetRefreshParallelism n s = s\<lparr>sv_refreshParallelism := (if n < 1 then 1 else n)\<rparr>"

definition SetMaxLiveComputeUsers :: "int \<Rightarrow> BoardService \<Rightarrow> BoardService" where
  "SetMaxLiveComputeUsers n s = s\<lparr>sv_maxLiveComputeUsers := n\<rparr>"

definition SetMaxRankingAge :: "int \<Rightarrow> BoardService \<Rightarrow> BoardService" where
  "SetMaxRankingAge d s = (if 0 < d then s\<lparr>sv_maxRankingAge := d\<rparr> else s)"

definition SetMaxRankingHardAge :: "int \<Rightarrow> BoardService \<Rightarrow> BoardService" where
  "SetMaxRankingHardAge d s = (if 0 < d then s\<lparr>sv_maxRankingHardAge := d\<rparr> else s)"

definition LastRefreshPromotedGeneration :: "BoardService \<Rightarrow> bool" where
  "LastRefreshPromotedGeneration s = sv_lastRefreshPromoted s"

section \<open>Selecting a batch\<close>

text \<open>The loop \<^verbatim>\<open>batch = append(batch, sorted[(start+i)%n])\<close>.\<close>

definition window_batch :: "RankableUser list \<Rightarrow> int \<Rightarrow> int \<Rightarrow> RankableUser list" where
  "window_batch us start k =
     map (\<lambda>i. us ! nat ((start + int i) mod int (length us))) [0..<nat k]"

definition nextBatch ::
  "RankableUser list \<Rightarrow> BoardService \<Rightarrow> (RankableUser list \<times> bool \<times> bool) \<times> BoardService" where
  "nextBatch users s =
     (if sv_refreshBatchSize s \<le> 0 \<or> int (length users) \<le> sv_refreshBatchSize s
      then ((users, True, True), s)
      else let us = isort id_less users;
               n = int (length us);
               start = (if n \<le> sv_refreshCursor s then 0 else sv_refreshCursor s);
               k = (if n < sv_refreshBatchSize s then n else sv_refreshBatchSize s);
               batch = window_batch us start k;
               progress = sv_cycleProgress s + k;
               cycleComplete = (n \<le> progress)
      in ((batch, False, cycleComplete),
          s\<lparr>sv_refreshCursor := (start + k) mod n,
            sv_cycleProgress := (if cycleComplete then 0 else progress)\<rparr>))"

definition nextPagedBatch ::
  "(string \<Rightarrow> int \<Rightarrow> board_err + RankableUser list) \<Rightarrow> int \<Rightarrow> BoardService
     \<Rightarrow> board_err + ((RankableUser list \<times> bool) \<times> BoardService)" where
  "nextPagedBatch page k s =
     (let cursor = sv_refreshCursorID s
      in rbind (page cursor k) (\<lambda>batch.
           let next_id = (if batch \<noteq> [] then rku_ID (last batch) else cursor);
               ended = int (length batch) < k;
               cycleComplete = (ended \<and> (cursor \<noteq> [] \<or> batch \<noteq> []))
           in Inr ((batch, cycleComplete), s\<lparr>sv_refreshCursorID := (if ended then [] else next_id)\<rparr>)))"

section \<open>Refreshing one user\<close>

text \<open>Every write is attempted; the error is the first one of those joined, as the tally keeps it.\<close>

definition then_effect :: "'s effect \<Rightarrow> 's effect \<Rightarrow> 's effect" where
  "then_effect f g s =
     (let (e, t) = f s; (e', u) = g t in (case e of None \<Rightarrow> e' | Some _ \<Rightarrow> e, u))"

definition no_effect :: "'s effect" where "no_effect s = (None, s)"

definition refresh_timeframe ::
  "declib \<Rightarrow> 's RankingStore \<Rightarrow> BoardEnv \<Rightarrow> int \<Rightarrow> string \<Rightarrow> BoardPerformance \<Rightarrow> Timeframe \<Rightarrow> 's effect" where
  "refresh_timeframe L R E maxAge userID rp tf =
     (case timeframeReturn L E maxAge userID rp tf of
        None \<Rightarrow> rs_Delete R tf userID
      | Some (retPct, idx) \<Rightarrow> rs_Upsert R tf userID idx retPct (bp_TrackingStartedAt rp))"

definition refreshRankingRows ::
  "declib \<Rightarrow> 's RankingStore \<Rightarrow> BoardEnv \<Rightarrow> int \<Rightarrow> string \<Rightarrow> BoardPerformance \<Rightarrow> 's effect" where
  "refreshRankingRows L R E maxAge userID rp =
     foldr then_effect (map (refresh_timeframe L R E maxAge userID rp) allTimeframes) no_effect"

definition deleteRankingRows :: "'s RankingStore \<Rightarrow> string \<Rightarrow> Timeframe list \<Rightarrow> 's \<Rightarrow> 's" where
  "deleteRankingRows R userID timeframes db =
     foldl (\<lambda>db tf. snd (rs_Delete R tf userID db)) db timeframes"

record refreshTally =
  ta_skipped :: int
  ta_upserted :: int
  ta_pausedRemoved :: int
  ta_firstErr :: "board_err option"
  ta_rankingFailed :: bool

text \<open>
  \<open>ta_rankingFailed\<close> carries \<^verbatim>\<open>markCycleRankingFailure\<close>, which latches the failure in the service, out of
  the batch.
\<close>

definition no_tally :: refreshTally where
  "no_tally = \<lparr>ta_skipped = 0, ta_upserted = 0, ta_pausedRemoved = 0, ta_firstErr = None,
               ta_rankingFailed = False\<rparr>"

definition noteErr :: "board_err \<Rightarrow> refreshTally \<Rightarrow> refreshTally" where
  "noteErr e t = (case ta_firstErr t of None \<Rightarrow> t\<lparr>ta_firstErr := Some e\<rparr> | Some _ \<Rightarrow> t)"

definition refreshUser ::
  "declib \<Rightarrow> 's RankingStore \<Rightarrow> BoardEnv \<Rightarrow> int \<Rightarrow> RankableUser \<Rightarrow> refreshTally \<times> 's \<Rightarrow> refreshTally \<times> 's" where
  "refreshUser L R E maxAge u td =
     (let (t, db) = td
      in case be_CurrentRankedPerformance E (rku_ID u) of
           Inl _ \<Rightarrow> (t\<lparr>ta_skipped := ta_skipped t + 1\<rparr>, db)
         | Inr rp \<Rightarrow>
             if bp_Paused rp
             then (t\<lparr>ta_pausedRemoved := ta_pausedRemoved t + 1\<rparr>, deleteRankingRows R (rku_ID u) allTimeframes db)
             else (case refreshRankingRows L R E maxAge (rku_ID u) rp db of
                     (Some e, db) \<Rightarrow> (noteErr e (t\<lparr>ta_rankingFailed := True\<rparr>), db)
                   | (None, db) \<Rightarrow> (t\<lparr>ta_upserted := ta_upserted t + 1\<rparr>, db)))"

definition processBatch ::
  "declib \<Rightarrow> 's RankingStore \<Rightarrow> BoardEnv \<Rightarrow> int \<Rightarrow> RankableUser list \<Rightarrow> 's \<Rightarrow> refreshTally \<times> 's" where
  "processBatch L R E maxAge batch db = fold (refreshUser L R E maxAge) batch (no_tally, db)"

section \<open>The refresh\<close>

text \<open>The batch of this call and whether it ends a lap.\<close>

definition selectBatch ::
  "BoardEnv \<Rightarrow> BoardService \<Rightarrow> board_err + ((RankableUser list \<times> bool) \<times> BoardService)" where
  "selectBatch E s =
     (case (be_ListRankableUsersPage E, 0 < sv_refreshBatchSize s) of
        (Some page, True) \<Rightarrow>
          (case nextPagedBatch page (sv_refreshBatchSize s) s of
             Inl _ \<Rightarrow> Inl ErrListUsers | Inr r \<Rightarrow> Inr r)
      | _ \<Rightarrow>
          (case be_ListRankableUsers E of
             Inl _ \<Rightarrow> Inl ErrListUsers
           | Inr users \<Rightarrow>
               let ((batch, _, cycleComplete), s) = nextBatch users s in Inr ((batch, cycleComplete), s)))"

text \<open>The end of a lap: the failures latched are consumed, and without any the generation is promoted.\<close>

definition endOfLap ::
  "'s RankingStore \<Rightarrow> refreshTally \<Rightarrow> BoardService \<Rightarrow> 's \<Rightarrow> refreshTally \<times> BoardService \<times> 's" where
  "endOfLap R t s db =
     (let failed = sv_cycleRankingFailed s; s = s\<lparr>sv_cycleRankingFailed := False\<rparr>
      in if failed then (t, s, db)
         else case rs_CompleteCycle R db of
                (Some e, db) \<Rightarrow> (noteErr e t, s, db)
              | (None, db) \<Rightarrow> (t, s\<lparr>sv_lastRefreshPromoted := True\<rparr>, db))"

definition RefreshCache ::
  "declib \<Rightarrow> 's RankingStore option \<Rightarrow> BoardEnv \<Rightarrow> BoardService \<times> 's
     \<Rightarrow> (int \<times> board_err option) \<times> BoardService \<times> 's" where
  "RefreshCache L ranking E sd =
     (case ranking of
        None \<Rightarrow> ((0, None), sd)
      | Some R \<Rightarrow>
          let (s, db) = sd; s = s\<lparr>sv_lastRefreshPromoted := False\<rparr>
          in case selectBatch E s of
               Inl e \<Rightarrow> ((0, Some e), s, db)
             | Inr ((batch, cycleComplete), s) \<Rightarrow>
                 let (t, db) = processBatch L R E (sv_maxSnapshotAge s) batch db;
                     s = s\<lparr>sv_cycleRankingFailed := sv_cycleRankingFailed s \<or> ta_rankingFailed t\<rparr>;
                     (t, s, db) = (if cycleComplete then endOfLap R t s db else (t, s, db))
                 in ((ta_skipped t, ta_firstErr t), s, db))"

section \<open>Serving from the projection\<close>

definition rankingServable :: "'s RankingStore option \<Rightarrow> BoardEnv \<Rightarrow> BoardService \<Rightarrow> 's \<Rightarrow> bool \<times> bool \<times> int" where
  "rankingServable ranking E s db =
     (case ranking of
        None \<Rightarrow> (False, False, 0)
      | Some R \<Rightarrow>
          (case rs_ActiveGenerationAge R db of
             Inr (Some t) \<Rightarrow>
               let age = be_now E - t;
                   window = sv_maxRankingAge s;
                   window = (case rs_LastCycleDuration R of
                               None \<Rightarrow> window
                             | Some reporter \<Rightarrow>
                                 (case reporter db of
                                    Inr (Some d) \<Rightarrow> if window < cycleTrustFactor * d then cycleTrustFactor * d else window
                                  | _ \<Rightarrow> window));
                   window = (if 0 < sv_maxRankingHardAge s \<and> sv_maxRankingHardAge s < window
                             then sv_maxRankingHardAge s else window)
               in (True, age \<le> window, age)
           | _ \<Rightarrow> (False, False, 0)))"

definition useRanking :: "'s RankingStore option \<Rightarrow> BoardEnv \<Rightarrow> BoardService \<Rightarrow> 's \<Rightarrow> bool" where
  "useRanking ranking E s db = fst (rankingServable ranking E s db)"

definition buildFromRanking ::
  "'s RankingStore option \<Rightarrow> BoardEnv \<Rightarrow> BoardService \<Rightarrow> 's \<Rightarrow> Timeframe \<Rightarrow> LeaderboardEntry list option" where
  "buildFromRanking ranking E s db tf =
     (case ranking of
        None \<Rightarrow> None
      | Some R \<Rightarrow>
          if \<not> useRanking ranking E s db then None
          else case rs_TopPage R tf maxLeaderboardSize db of
                 Inl _ \<Rightarrow> None
               | Inr rows \<Rightarrow> Some (entriesOf (enrichPage E rows)))"

section \<open>Ranking live\<close>

definition liveComputeAllowed :: "BoardEnv \<Rightarrow> BoardService \<Rightarrow> bool" where
  "liveComputeAllowed E s =
     (if sv_maxLiveComputeUsers s \<le> 0 then True
      else case be_ListRankableUsersPage E of
             None \<Rightarrow> True
           | Some page \<Rightarrow>
               (case page [] (sv_maxLiveComputeUsers s + 1) of
                  Inl _ \<Rightarrow> True
                | Inr us \<Rightarrow> int (length us) \<le> sv_maxLiveComputeUsers s))"

text \<open>The loop over the users: the rows and the number skipped.\<close>

definition live_row ::
  "declib \<Rightarrow> BoardEnv \<Rightarrow> int \<Rightarrow> Timeframe \<Rightarrow> RankableUser \<Rightarrow> BoardPerformance \<Rightarrow> boardRow option" where
  "live_row L E maxAge tf u rp =
     (if bp_Paused rp then None
      else case timeframeReturn L E maxAge (rku_ID u) rp tf of
             None \<Rightarrow> None
           | Some (retPct, idx) \<Rightarrow>
               Some \<lparr>rkr_userID = rku_ID u,
                     rkr_entry = enrich E (rku_ID u)
                                   (rankedEntry 0 (rku_DisplayName u) (rku_AvatarKey u) retPct idx),
                     rkr_returnPct = retPct, rkr_rankedIndex = idx\<rparr>)"

fun live_rows :: "declib \<Rightarrow> BoardEnv \<Rightarrow> int \<Rightarrow> Timeframe \<Rightarrow> RankableUser list \<Rightarrow> boardRow list \<times> int" where
  "live_rows L E maxAge tf [] = ([], 0)"
| "live_rows L E maxAge tf (u # us) =
     (let (rows, skipped) = live_rows L E maxAge tf us
      in case be_CurrentRankedPerformance E (rku_ID u) of
           Inl _ \<Rightarrow> (rows, skipped + 1)
         | Inr rp \<Rightarrow> (case live_row L E maxAge tf u rp of None \<Rightarrow> rows | Some r \<Rightarrow> r # rows, skipped))"

definition rankRows ::
  "declib \<Rightarrow> BoardEnv \<Rightarrow> BoardService \<Rightarrow> Timeframe \<Rightarrow> board_err + (boardRow list \<times> int)" where
  "rankRows L E s tf =
     (if \<not> liveComputeAllowed E s then Inl ErrRankingUnavailable
      else case be_ListRankableUsers E of
             Inl _ \<Rightarrow> Inl ErrListUsers
           | Inr users \<Rightarrow>
               let (rows, skipped) = live_rows L E (sv_maxSnapshotAge s) tf users
               in Inr (sortRankedRows L rows, skipped))"

section \<open>Boards\<close>

definition BuildResult :: "declib \<Rightarrow> BoardEnv \<Rightarrow> BoardService \<Rightarrow> board_err + (LeaderboardEntry list \<times> int)" where
  "BuildResult L E s =
     rbind (rankRows L E s TimeframeAll) (\<lambda>(rows, skipped). Inr (entriesOf rows, skipped))"

definition board_Build ::
  "declib \<Rightarrow> 's RankingStore option \<Rightarrow> BoardEnv \<Rightarrow> BoardService \<Rightarrow> 's \<Rightarrow> board_err + LeaderboardEntry list" where
  "board_Build L ranking E s db =
     (case buildFromRanking ranking E s db TimeframeAll of
        Some entries \<Rightarrow> Inr entries
      | None \<Rightarrow>
          (case BuildResult L E s of
             Inl e \<Rightarrow> if e = ErrRankingUnavailable then Inr [] else Inl e
           | Inr (entries, _) \<Rightarrow> Inr entries))"

definition BuildTimeframe ::
  "declib \<Rightarrow> 's RankingStore option \<Rightarrow> BoardEnv \<Rightarrow> BoardService \<Rightarrow> 's \<Rightarrow> Timeframe
     \<Rightarrow> board_err + LeaderboardEntry list" where
  "BuildTimeframe L ranking E s db tf =
     (if tf = TimeframeAll then board_Build L ranking E s db
      else case buildFromRanking ranking E s db tf of
        Some entries \<Rightarrow> Inr entries
      | None \<Rightarrow>
          (case rankRows L E s tf of
             Inl e \<Rightarrow> if e = ErrRankingUnavailable then Inr [] else Inl e
           | Inr (rows, _) \<Rightarrow> Inr (entriesOf rows)))"

record UserRanking =
  ur_UserID :: string
  ur_Rank :: int
  ur_RankedReturnPercentage :: Ratio
  ur_RankedIndex :: IndexValue

definition toUserRankings :: "boardRow list \<Rightarrow> UserRanking list" where
  "toUserRankings rows =
     map (\<lambda>r. \<lparr>ur_UserID = rkr_userID r, ur_Rank = lbe_Rank (rkr_entry r),
               ur_RankedReturnPercentage = lbe_RankedReturnPercentage (rkr_entry r),
               ur_RankedIndex = lbe_RankedIndex (rkr_entry r)\<rparr>) rows"

definition allRankingRows ::
  "'s RankingStore option \<Rightarrow> BoardEnv \<Rightarrow> BoardService \<Rightarrow> 's \<Rightarrow> Timeframe \<Rightarrow> boardRow list option" where
  "allRankingRows ranking E s db tf =
     (case ranking of
        None \<Rightarrow> None
      | Some R \<Rightarrow>
          if \<not> useRanking ranking E s db then None
          else case rs_Count R tf db of
                 Inl _ \<Rightarrow> None
               | Inr n \<Rightarrow>
                   if n = 0 then None
                   else (case rs_TopPage R tf n db of Inl _ \<Rightarrow> None | Inr rows \<Rightarrow> Some rows))"

definition UserRankings ::
  "declib \<Rightarrow> 's RankingStore option \<Rightarrow> BoardEnv \<Rightarrow> BoardService \<Rightarrow> 's \<Rightarrow> Timeframe
     \<Rightarrow> board_err + UserRanking list" where
  "UserRankings L ranking E s db tf =
     (case allRankingRows ranking E s db tf of
        Some rows \<Rightarrow> Inr (toUserRankings rows)
      | None \<Rightarrow> rbind (rankRows L E s tf) (\<lambda>(rows, _). Inr (toUserRankings rows)))"

section \<open>The rank of one user\<close>

text \<open>The rows \<open>GetUserRank\<close> builds for itself when it ranks live.\<close>

record rankedUser =
  rus_id :: string
  rus_displayName :: string
  rus_returnPct :: Ratio

definition rankedUser_less :: "declib \<Rightarrow> rankedUser \<Rightarrow> rankedUser \<Rightarrow> bool" where
  "rankedUser_less L a b =
     (let c = Ratio_Cmp L (rus_returnPct a) (rus_returnPct b)
      in if c \<noteq> 0 then 0 < c
         else if rus_displayName a \<noteq> rus_displayName b then str_less (rus_displayName a) (rus_displayName b)
         else str_less (rus_id a) (rus_id b))"

definition ranked_users :: "BoardEnv \<Rightarrow> RankableUser list \<Rightarrow> rankedUser list" where
  "ranked_users E users =
     List.map_filter (\<lambda>u. case be_CurrentRankedPerformance E (rku_ID u) of
         Inl _ \<Rightarrow> None
       | Inr rp \<Rightarrow>
           if bp_Paused rp then None
           else Some \<lparr>rus_id = rku_ID u, rus_displayName = rku_DisplayName u,
                      rus_returnPct = bp_RankedReturnPercentage rp\<rparr>) users"

fun position_of :: "string \<Rightarrow> int \<Rightarrow> rankedUser list \<Rightarrow> int" where
  "position_of userID i [] = 0"
| "position_of userID i (r # rs) = (if rus_id r = userID then i + 1 else position_of userID (i + 1) rs)"

definition liveUserRank ::
  "declib \<Rightarrow> BoardEnv \<Rightarrow> BoardService \<Rightarrow> string \<Rightarrow> board_err + int" where
  "liveUserRank L E s userID =
     (if \<not> liveComputeAllowed E s then Inr 0
      else case be_ListRankableUsers E of
             Inl _ \<Rightarrow> Inl ErrListUsers
           | Inr users \<Rightarrow> Inr (position_of userID 0 (isort (rankedUser_less L) (ranked_users E users))))"

definition board_GetUserRank ::
  "declib \<Rightarrow> 's RankingStore option \<Rightarrow> BoardEnv \<Rightarrow> BoardService \<Rightarrow> 's \<Rightarrow> string \<Rightarrow> board_err + int" where
  "board_GetUserRank L ranking E s db userID =
     (case be_CurrentRankedPerformance E userID of
        Inl _ \<Rightarrow> liveUserRank L E s userID
      | Inr rp \<Rightarrow>
          if bp_Paused rp then Inr 0
          else case ranking of
                 None \<Rightarrow> liveUserRank L E s userID
               | Some R \<Rightarrow>
                   if \<not> useRanking ranking E s db then liveUserRank L E s userID
                   else (case rs_RankOf R TimeframeAll userID db of
                           Inr (Some (rank, _, _)) \<Rightarrow> Inr rank
                         | _ \<Rightarrow> liveUserRank L E s userID))"

section \<open>The standing of one user\<close>

text \<open>\<^verbatim>\<open>PreviousRank\<close> and \<^verbatim>\<open>RankDelta\<close> are never set.\<close>

record Standing =
  sd_Timeframe :: Timeframe
  sd_Rank :: int
  sd_BestRank :: "int option"
  sd_ParticipantCount :: int
  sd_Percentile :: float64
  sd_RankedReturnPercentage :: Ratio
  sd_RankedIndex :: IndexValue
  sd_Ranked :: bool
  sd_Paused :: bool
  sd_Reason :: string
  sd_NextMilestone :: "Milestone option"

definition no_standing :: "declib \<Rightarrow> Timeframe \<Rightarrow> int \<Rightarrow> Standing" where
  "no_standing L tf participants =
     \<lparr>sd_Timeframe = tf, sd_Rank = 0, sd_BestRank = None, sd_ParticipantCount = participants,
      sd_Percentile = Fin 0, sd_RankedReturnPercentage = ZeroRatio L, sd_RankedIndex = ZeroIndexValue L,
      sd_Ranked = False, sd_Paused = False, sd_Reason = [], sd_NextMilestone = None\<rparr>"

definition nextMilestoneFromRanking ::
  "declib \<Rightarrow> 's RankingStore \<Rightarrow> 's \<Rightarrow> Timeframe \<Rightarrow> int \<Rightarrow> Ratio \<Rightarrow> int \<Rightarrow> Milestone option" where
  "nextMilestoneFromRanking L R db tf rank returnPct participants =
     (if rank \<le> 1 then None
      else let (targetRank, label) = milestoneTarget rank;
               gap = (if 0 < targetRank \<and> targetRank \<le> participants
                      then (case rs_ValueAtRank R tf targetRank db of
                              Inr (Some targetPct) \<Rightarrow> floored_gap L targetPct returnPct
                            | _ \<Rightarrow> ZeroRatio L)
                      else ZeroRatio L)
      in Some \<lparr>ms_Label = label, ms_TargetRank = targetRank, ms_RankGap = rank - targetRank,
               ms_ReturnGapPercentage = gap\<rparr>)"

definition userStandingFromRanking ::
  "declib \<Rightarrow> 's RankingStore option \<Rightarrow> BoardEnv \<Rightarrow> BoardService \<Rightarrow> 's \<Rightarrow> string \<Rightarrow> Timeframe \<Rightarrow> Standing option" where
  "userStandingFromRanking L ranking E s db userID tf =
     (case ranking of
        None \<Rightarrow> None
      | Some R \<Rightarrow>
          if \<not> useRanking ranking E s db then None
          else case rs_Count R tf db of
                 Inl _ \<Rightarrow> None
               | Inr n \<Rightarrow>
                   (case rs_RankOf R tf userID db of
                      Inr (Some (rank, idx, retPct)) \<Rightarrow>
                        Some ((no_standing L tf n)
                          \<lparr>sd_Rank := rank, sd_RankedReturnPercentage := retPct, sd_RankedIndex := idx,
                           sd_Ranked := True, sd_BestRank := Some rank, sd_Percentile := percentile rank n,
                           sd_NextMilestone := nextMilestoneFromRanking L R db tf rank retPct n\<rparr>)
                    | _ \<Rightarrow> None))"

definition ranked_standing :: "declib \<Rightarrow> boardRow list \<Rightarrow> boardRow \<Rightarrow> Standing \<Rightarrow> Standing" where
  "ranked_standing L rows r st =
     (let e = rkr_entry r
      in st\<lparr>sd_Rank := lbe_Rank e, sd_RankedReturnPercentage := lbe_RankedReturnPercentage e,
            sd_RankedIndex := lbe_RankedIndex e, sd_Ranked := True, sd_BestRank := Some (lbe_Rank e),
            sd_Percentile := percentile (lbe_Rank e) (int (length rows)),
            sd_NextMilestone := nextMilestone L rows (lbe_Rank e) (lbe_RankedReturnPercentage e)\<rparr>)"

text \<open>Why a user is not on the board. A Go string is its bytes: the dash of one text is three of them.\<close>

definition unranked_standing :: "BoardEnv \<Rightarrow> string \<Rightarrow> Timeframe \<Rightarrow> Standing \<Rightarrow> Standing" where
  "unranked_standing E userID tf st =
     (let not_yet = (if tf_window tf \<noteq> None then st\<lparr>sd_Reason := ''Not enough ranked history for this timeframe yet.''\<rparr>
                     else st\<lparr>sd_Reason := ''Create a strategy baseline to enter the leaderboard.''\<rparr>)
      in case be_CurrentRankedPerformance E userID of
           Inr rp \<Rightarrow>
             if bp_Paused rp
             then st\<lparr>sd_Paused := True, sd_RankedIndex := bp_RankedIndex rp,
                     sd_RankedReturnPercentage := bp_RankedReturnPercentage rp,
                     sd_Reason := ''Ranked tracking is paused. Your accumulated index is preserved ''
                       @ [CHR 0xE2, CHR 0x80, CHR 0x94] @ '' add a position to resume from it.''\<rparr>
             else not_yet
         | Inl _ \<Rightarrow> not_yet)"

definition UserStanding ::
  "declib \<Rightarrow> 's RankingStore option \<Rightarrow> BoardEnv \<Rightarrow> BoardService \<Rightarrow> 's \<Rightarrow> string \<Rightarrow> Timeframe
     \<Rightarrow> board_err + Standing" where
  "UserStanding L ranking E s db userID tf =
     (case userStandingFromRanking L ranking E s db userID tf of
        Some st \<Rightarrow> Inr st
      | None \<Rightarrow>
          (case rankRows L E s tf of
             Inl e \<Rightarrow>
               if e = ErrRankingUnavailable
               then Inr ((no_standing L tf 0)\<lparr>sd_Reason := ''Global rankings are being prepared. Check back soon.''\<rparr>)
               else Inl e
           | Inr (rows, _) \<Rightarrow>
               let st = no_standing L tf (int (length rows))
               in Inr (case find (\<lambda>r. rkr_userID r = userID) rows of
                         Some r \<Rightarrow> ranked_standing L rows r st
                       | None \<Rightarrow> unranked_standing E userID tf st)))"

end
