(* ===== verification/BoardLaws.thy ===== *)
theory BoardLaws
  imports BoardService MoneyLaws
begin

text \<open>
  The reads of the leaderboard: the order of the live board and the ranks it gives, the second
  implementation of that ranking in \<^verbatim>\<open>GetUserRank\<close>, the standings, the profile join, the index snapshots
  and the windowed return.
\<close>

section \<open>Sorting a projection of the rows\<close>

lemma insort_by_map:
  assumes "\<And>a b. lt' (f a) (f b) = lt a b"
  shows "insort_by lt' (f x) (map f xs) = map f (insort_by lt x xs)"
  by (induction xs) (auto simp: assms)

lemma isort_map:
  assumes "\<And>a b. lt' (f a) (f b) = lt a b"
  shows "isort lt' (map f xs) = map f (isort lt xs)"
  by (induction xs) (auto simp: insort_by_map [of lt' f lt, OF assms])

section \<open>The live board\<close>

abbreviation row_order_score :: "boardRow \<Rightarrow> boardRow \<Rightarrow> bool" where
  "row_order_score \<equiv> by_score rkr_returnPct (\<lambda>r. lbe_DisplayName (rkr_entry r)) rkr_userID"

lemma row_before_eq: "decimal_lib L \<Longrightarrow> row_before L = row_order_score"
  by (intro ext) (simp add: row_before_def by_score_def Let_def money_defs decimal_lib.cmp_simps)

lemma set_rank_simps [simp]:
  "rkr_userID (set_rank k r) = rkr_userID r" "rkr_returnPct (set_rank k r) = rkr_returnPct r"
  "rkr_rankedIndex (set_rank k r) = rkr_rankedIndex r"
  "lbe_Rank (rkr_entry (set_rank k r)) = k"
  "lbe_DisplayName (rkr_entry (set_rank k r)) = lbe_DisplayName (rkr_entry r)"
  by (simp_all add: set_rank_def)

lemma row_before_set_rank [simp]:
  "row_before L (set_rank j a) b = row_before L a b" "row_before L a (set_rank k b) = row_before L a b"
  by (simp_all add: row_before_def Let_def)

lemma sortRankedRows_nth:
  "i < length rows \<Longrightarrow> sortRankedRows L rows ! i = set_rank (int i + 1) (isort (row_before L) rows ! i)"
  by (simp add: sortRankedRows_def nth_enumerate_eq)

lemma length_sortRankedRows [simp]: "length (sortRankedRows L rows) = length rows"
  by (simp add: sortRankedRows_def)

lemma map_sortRankedRows:
  assumes "\<And>k r. f (set_rank k r) = f r"
  shows "map f (sortRankedRows L rows) = map f (isort (row_before L) rows)"
  by (rule nth_equalityI) (simp_all add: sortRankedRows_nth assms)

lemma rank_nth: "i < length rows \<Longrightarrow> lbe_Rank (rkr_entry (sortRankedRows L rows ! i)) = int i + 1"
  by (simp add: sortRankedRows_nth)

text \<open>The rows of the live board are rows of users, each once.\<close>

lemma live_row_user:
  "live_row L E a tf u rp = Some r \<Longrightarrow>
     rkr_userID r = rku_ID u \<and> lbe_DisplayName (rkr_entry r) = rku_DisplayName u"
  by (auto simp: live_row_def enrich_def rankedEntry_def apply_info_def Let_def
        split: if_splits option.splits sum.splits)

lemma live_rows_Cons:
  "fst (live_rows L E a tf (u # us)) =
     (case be_CurrentRankedPerformance E (rku_ID u) of
        Inl _ \<Rightarrow> fst (live_rows L E a tf us)
      | Inr rp \<Rightarrow> (case live_row L E a tf u rp of
                    None \<Rightarrow> fst (live_rows L E a tf us) | Some r \<Rightarrow> r # fst (live_rows L E a tf us)))"
  by (simp add: case_prod_beta split: sum.splits)

lemma live_rows_ids:
  "set (map rkr_userID (fst (live_rows L E a tf us))) \<subseteq> set (map rku_ID us)"
proof (induction us)
  case (Cons u us)
  then show ?case
    using live_row_user [of L E a tf u] unfolding live_rows_Cons by (auto split: sum.splits option.splits)
qed simp

lemma live_rows_distinct:
  "distinct (map rku_ID us) \<Longrightarrow> distinct (map rkr_userID (fst (live_rows L E a tf us)))"
proof (induction us)
  case (Cons u us)
  then show ?case
    using live_row_user [of L E a tf u] live_rows_ids [of L E a tf us] unfolding live_rows_Cons
    by (auto split: sum.splits option.splits)
qed simp

lemma rankRows_Inr:
  "rankRows L E s tf = Inr (rows, skipped) \<longleftrightarrow>
     liveComputeAllowed E s \<and> (\<exists>users. be_ListRankableUsers E = Inr users \<and>
       rows = sortRankedRows L (fst (live_rows L E (sv_maxSnapshotAge s) tf users)) \<and>
       skipped = snd (live_rows L E (sv_maxSnapshotAge s) tf users))"
  by (auto simp: rankRows_def case_prod_beta split: sum.splits)

text \<open>A rank counts the rows that beat the row.\<close>

lemma sorted_rank_counts:
  assumes "decimal_lib L" "distinct (map rkr_userID rows)" "r \<in> set (sortRankedRows L rows)"
  shows "lbe_Rank (rkr_entry r) = 1 + int (card {q \<in> set rows. row_before L q r})"
proof -
  obtain i where i: "i < length rows" "r = sortRankedRows L rows ! i"
    using assms(3) by (metis in_set_conv_nth length_sortRankedRows)
  have d: "distinct rows" using assms(2) by (simp add: distinct_map)
  have "card {q \<in> set rows. row_before L q (isort (row_before L) rows ! i)} = i"
    unfolding row_before_eq [OF assms(1)]
  proof (rule score.rank_of_row [OF d _ i(1)])
    fix a b assume "a \<in> set rows" "b \<in> set rows" "a \<noteq> b"
    with assms(2) have "rkr_userID a \<noteq> rkr_userID b" by (auto simp: distinct_map inj_on_def)
    then show "row_order_score a b \<or> row_order_score b a" by (rule by_score_total)
  qed
  with i show ?thesis by (simp add: sortRankedRows_nth)
qed

section \<open>The rank of one user\<close>

definition ranked_user_of :: "boardRow \<Rightarrow> rankedUser" where
  "ranked_user_of r =
     \<lparr>rus_id = rkr_userID r, rus_displayName = lbe_DisplayName (rkr_entry r), rus_returnPct = rkr_returnPct r\<rparr>"

lemma ranked_user_less: "rankedUser_less L (ranked_user_of a) (ranked_user_of b) = row_before L a b"
  by (simp add: rankedUser_less_def row_before_def ranked_user_of_def Let_def)

lemma live_row_all:
  "\<not> bp_Paused rp \<Longrightarrow> \<exists>r. live_row L E a TimeframeAll u rp = Some r \<and>
     ranked_user_of r = \<lparr>rus_id = rku_ID u, rus_displayName = rku_DisplayName u,
                         rus_returnPct = bp_RankedReturnPercentage rp\<rparr>"
  by (auto simp: live_row_def timeframeReturn_def ranked_user_of_def enrich_def rankedEntry_def apply_info_def
        Let_def split: option.splits sum.splits)

lemma ranked_users_live:
  "ranked_users E us = map ranked_user_of (fst (live_rows L E a TimeframeAll us))"
proof (induction us)
  case (Cons u us)
  show ?case
  proof (cases "be_CurrentRankedPerformance E (rku_ID u)")
    case (Inr rp)
    then show ?thesis
      using Cons live_row_all [of rp L E a u] unfolding live_rows_Cons
      by (cases "bp_Paused rp") (auto simp: ranked_users_def List.map_filter_simps live_row_def)
  next
    case (Inl e)
    then show ?thesis using Cons unfolding live_rows_Cons by (simp add: ranked_users_def List.map_filter_simps)
  qed
qed (simp add: ranked_users_def List.map_filter_simps)

lemma position_of_rank:
  "position_of uid (int i) (map ranked_user_of rows) =
     (case find (\<lambda>r. rkr_userID r = uid) (map (\<lambda>(j, r). set_rank (int j + 1) r) (enumerate i rows)) of
        None \<Rightarrow> 0 | Some r \<Rightarrow> lbe_Rank (rkr_entry r))"
proof (induction rows arbitrary: i)
  case (Cons r rows)
  show ?case using Cons [of "Suc i"] by (simp add: ranked_user_of_def add.commute)
qed simp

lemma live_rank_is_row_rank:
  "liveUserRank L E s uid =
     (case rankRows L E s TimeframeAll of
        Inl e \<Rightarrow> if e = ErrRankingUnavailable then Inr 0 else Inl e
      | Inr (rows, _) \<Rightarrow>
          Inr (case find (\<lambda>r. rkr_userID r = uid) rows of None \<Rightarrow> 0 | Some r \<Rightarrow> lbe_Rank (rkr_entry r)))"
proof (cases "be_ListRankableUsers E")
  case (Inr users)
  let ?rows = "fst (live_rows L E (sv_maxSnapshotAge s) TimeframeAll users)"
  have "isort (rankedUser_less L) (ranked_users E users) = map ranked_user_of (isort (row_before L) ?rows)"
    unfolding ranked_users_live [of E users L "sv_maxSnapshotAge s"]
    by (rule isort_map) (rule ranked_user_less)
  with Inr show ?thesis
    using position_of_rank [of uid 0 "isort (row_before L) ?rows"]
    by (simp add: liveUserRank_def rankRows_def case_prod_beta sortRankedRows_def)
qed (simp add: liveUserRank_def rankRows_def)

section \<open>Standings\<close>

lemma live_standing_bounds:
  assumes "userStandingFromRanking L ranking E s db uid tf = None"
    and "UserStanding L ranking E s db uid tf = Inr st" "sd_Ranked st"
  shows "1 \<le> sd_Rank st \<and> sd_Rank st \<le> sd_ParticipantCount st"
proof -
  obtain rows k where rows: "rankRows L E s tf = Inr (rows, k)"
    using assms by (cases "rankRows L E s tf") (auto simp: UserStanding_def no_standing_def split: if_splits)
  then obtain rs where rs: "rows = sortRankedRows L rs" unfolding rankRows_Inr by blast
  have unranked: "\<not> sd_Ranked (unranked_standing E uid tf (no_standing L tf n))" for n
    by (simp add: unranked_standing_def no_standing_def Let_def split: sum.splits)
  obtain r where r: "find (\<lambda>r. rkr_userID r = uid) rows = Some r"
    "st = ranked_standing L rows r (no_standing L tf (int (length rows)))"
    using assms rows unranked by (auto simp: UserStanding_def Let_def split: option.splits)
  obtain i where "i < length rows" "r = rows ! i"
    using r(1) by (auto simp: find_Some_iff)
  then show ?thesis
    using r(2) rs by (simp add: ranked_standing_def no_standing_def Let_def rank_nth)
qed

section \<open>Profiles\<close>

lemma enrichPage_one_by_one:
  assumes "be_PublicInfo E = Some lookup" "be_PublicInfoBatch E = Some batch"
    and "batch (map rkr_userID rows) = Inr infos"
    and "\<And>r. r \<in> set rows \<Longrightarrow> lookup (rkr_userID r) = Inr (infos (rkr_userID r))"
  shows "enrichPage E rows = map (\<lambda>r. r\<lparr>rkr_entry := enrich E (rkr_userID r) (rkr_entry r)\<rparr>) rows"
  using assms by (auto simp: enrichPage_def enrich_def split: option.splits)

text \<open>An answer of the profile provider for a user, by itself or within a batch.\<close>

definition profile_answer :: "BoardEnv \<Rightarrow> string \<Rightarrow> ProfilePublicInfo \<Rightarrow> bool" where
  "profile_answer E uid info =
     ((\<exists>lookup. be_PublicInfo E = Some lookup \<and> lookup uid = Inr (Some info)) \<or>
      (\<exists>batch ids infos. be_PublicInfoBatch E = Some batch \<and> batch ids = Inr infos \<and> infos uid = Some info))"

definition bare :: "LeaderboardEntry \<Rightarrow> bool" where
  "bare e = (lbe_Handle e = [] \<and> lbe_StrategyTag e = [] \<and> lbe_PublicWeights e = [])"

text \<open>What an entry shows of a profile: nothing, or what a public profile lets it show.\<close>

definition shows_only_public :: "BoardEnv \<Rightarrow> string \<Rightarrow> LeaderboardEntry \<Rightarrow> bool" where
  "shows_only_public E uid e =
     (bare e \<or> (\<exists>info. profile_answer E uid info \<and> ppi_IsPublic info \<and>
        lbe_Handle e = ppi_Handle info \<and> lbe_StrategyTag e = ppi_StrategyTag info \<and>
        lbe_PublicWeights e = (if ppi_ShowWeights info then ppi_Weights info else [])))"

lemma bare_rankedEntry [simp]: "bare (rankedEntry k n a p i)"
  by (simp add: bare_def rankedEntry_def)

lemma apply_info_public:
  "bare e \<Longrightarrow> profile_answer E uid info \<Longrightarrow> ppi_IsPublic info \<Longrightarrow> shows_only_public E uid (apply_info info e)"
  unfolding shows_only_public_def by (intro disjI2 exI [of _ info]) (auto simp: apply_info_def bare_def Let_def)

lemma bare_public: "bare e \<Longrightarrow> shows_only_public E uid e"
  by (simp add: shows_only_public_def)

lemma enrich_public:
  assumes "bare e"
  shows "shows_only_public E uid (enrich E uid e)"
  using assms unfolding enrich_def
  by (auto intro: bare_public intro!: apply_info_public simp: profile_answer_def split: option.splits sum.splits)

lemma enrichPage_public:
  assumes bare: "\<forall>r\<in>set rows. bare (rkr_entry r)" and r: "r \<in> set (enrichPage E rows)"
  shows "shows_only_public E (rkr_userID r) (rkr_entry r)"
proof -
  have one: "shows_only_public E (rkr_userID q) (enrich E (rkr_userID q) (rkr_entry q))"
    and plain: "shows_only_public E (rkr_userID q) (rkr_entry q)" if "q \<in> set rows" for q
    using bare that by (auto intro: enrich_public bare_public)
  have joined: "shows_only_public E (rkr_userID q) (apply_info info (rkr_entry q))"
    if "q \<in> set rows" "be_PublicInfoBatch E = Some batch" "batch ids = Inr infos"
      "infos (rkr_userID q) = Some info" "ppi_IsPublic info" for q info batch ids infos
    using bare that by (intro apply_info_public) (auto simp: profile_answer_def)
  show ?thesis
    using r unfolding enrichPage_def
    by (auto simp: Let_def intro: one plain joined split: if_splits option.splits sum.splits)
qed

section \<open>Index snapshots\<close>

definition eligible_point :: "time \<Rightarrow> time \<Rightarrow> indexPoint \<Rightarrow> bool" where
  "eligible_point cutoff notBefore p = (ip_at p \<le> cutoff \<and> notBefore \<le> ip_at p)"

definition head_point :: "indexPoint list \<Rightarrow> (IndexValue \<times> time) option" where
  "head_point ps = (case ps of [] \<Rightarrow> None | p # _ \<Rightarrow> Some (ip_index p, ip_at p))"

text \<open>On a descending list the walk finds the first point of the window.\<close>

lemma newest_eligible_head:
  assumes "sorted_wrt (\<lambda>a b. ip_at b \<le> ip_at a) ps" "\<forall>p\<in>set ps. 0 \<le> ip_at p"
  shows "newest_eligible cutoff notBefore ps = head_point (filter (eligible_point cutoff notBefore) ps)"
  using assms
proof (induction ps)
  case (Cons p ps)
  have none: "filter (eligible_point cutoff notBefore) ps = []" if "ip_at p < notBefore"
    using Cons.prems that by (auto simp: filter_empty_conv eligible_point_def)
  have e: "eligible_point cutoff notBefore p \<longleftrightarrow> ip_at p \<le> cutoff \<and> notBefore \<le> ip_at p"
    by (simp add: eligible_point_def)
  consider "cutoff < ip_at p" | "ip_at p \<le> cutoff" "ip_at p < notBefore" | "ip_at p \<le> cutoff" "notBefore \<le> ip_at p"
    by linarith
  then show ?case
  proof cases
    case 1
    with Cons e show ?thesis by simp
  next
    case 2
    with Cons.prems none e show ?thesis by (simp add: head_point_def time_IsZero_def)
  next
    case 3
    with e show ?thesis by (simp add: head_point_def)
  qed
qed (simp add: head_point_def)

lemma snap_sorted:
  "sorted_wrt (\<lambda>a b. \<not> ip_at b < ip_at a) (isort (\<lambda>a b. ip_at a < ip_at b) ps)"
  by (rule number.sorted_isort)

text \<open>What a history of recordings leaves in either store.\<close>

definition snap_history :: "(string \<times> indexPoint) list \<Rightarrow> SnapshotMemory" where
  "snap_history h = fold (\<lambda>(u, p) s. snap_Record u (ip_index p) (ip_at p) s) h (\<lambda>_. [])"

definition pgsnap_history :: "(string \<times> indexPoint) list \<Rightarrow> snapshot_table" where
  "pgsnap_history h = fold (\<lambda>(u, p) s. pgsnap_Record u (ip_index p) (ip_at p) s) h []"

definition points_of :: "string \<Rightarrow> (string \<times> indexPoint) list \<Rightarrow> indexPoint list" where
  "points_of uid h = map snd (filter (\<lambda>(u, p). u = uid) h)"

lemma pgsnap_history_eq: "pgsnap_history h = h"
proof -
  have "fold (\<lambda>(u, p) s. pgsnap_Record u (ip_index p) (ip_at p) s) h s = s @ h" for s
    by (induction h arbitrary: s) (auto simp: pgsnap_Record_def)
  then show ?thesis by (simp add: pgsnap_history_def)
qed

lemma snap_history_points:
  "mset (snap_history h uid) = mset (points_of uid h)"
  "sorted_wrt (\<lambda>a b. ip_at a \<le> ip_at b) (snap_history h uid)"
proof -
  have "mset (snap_history h uid) = mset (points_of uid h) \<and>
        sorted_wrt (\<lambda>a b. ip_at a \<le> ip_at b) (snap_history h uid)"
  proof (induction h rule: rev_induct)
    case (snoc x h)
    obtain u p where x: "x = (u, p)" by (cases x)
    have p: "\<lparr>ip_at = ip_at p, ip_index = ip_index p\<rparr> = p" by simp
    show ?case
      using snoc snap_sorted [of "snap_history h u @ [p]"]
      by (auto simp: snap_history_def points_of_def x snap_Record_def p not_less)
  qed (simp_all add: snap_history_def points_of_def)
  then show "mset (snap_history h uid) = mset (points_of uid h)"
    "sorted_wrt (\<lambda>a b. ip_at a \<le> ip_at b) (snap_history h uid)" by blast+
qed

lemma descending_unique:
  assumes "sorted_wrt (\<lambda>a b. ip_at b \<le> ip_at a) xs" "sorted_wrt (\<lambda>a b. ip_at b \<le> ip_at a) ys"
    and "mset xs = mset ys" "distinct (map ip_at ys)"
  shows "xs = ys"
proof (rule map_sorted_distinct_set_unique [where f = "\<lambda>p. - ip_at p"])
  have neg: "map (\<lambda>p. - ip_at p) ps = map uminus (map ip_at ps)" for ps by simp
  have d: "distinct (map ip_at xs)"
    using assms(3,4) by (metis mset_map mset_eq_imp_distinct_iff)
  show "sorted (map (\<lambda>p. - ip_at p) xs)" "sorted (map (\<lambda>p. - ip_at p) ys)"
    using assms(1,2) by (simp_all add: sorted_map sorted_wrt_map)
  show "distinct (map (\<lambda>p. - ip_at p) xs)" "distinct (map (\<lambda>p. - ip_at p) ys)"
    using d assms(4) by (auto simp: distinct_map inj_on_def)
  show "set xs = set ys" using assms(3) by (rule mset_eq_setD)
  show "inj_on (\<lambda>p. - ip_at p) (set xs \<union> set ys)"
    using assms(4) mset_eq_setD [OF assms(3)] by (auto simp: distinct_map inj_on_def)
qed

section \<open>The windowed return\<close>

lemma windowed_return:
  assumes "decimal_lib L" "tf_window tf = Some w"
  shows "timeframeReturn L E a uid rp tf = Some (pct, idx) \<longleftrightarrow>
    (\<exists>lookup base captured.
       be_IndexAtOrBefore E = Some lookup \<and>
       lookup uid (be_now E - w) (bp_TrackingStartedAt rp) = Inr (Some (base, captured)) \<and>
       0 < base \<and> 0 \<le> bp_RankedIndex rp \<and> be_now E - w - captured \<le> a \<and>
       idx = 100 * away_places 36 (bp_RankedIndex rp / base) \<and> pct = idx - 100)"
  using assms
  by (auto simp: timeframeReturn_def TimeframeReturnRatio_def Let_def money_defs ScaleIndex_def ScaleWeight_def
        decimal_lib.sign_simps decimal_lib.divPrecise_eq decimal_lib.sub decimal_lib.mul decimal_lib.mustNew_literals algebra_simps
        split: option.splits sum.splits if_splits)

section \<open>A small board\<close>

text \<open>
  Three users and a paused one. The return of a user is fixed by the last character of the identifier;
  the history of \<open>u1\<close> has a point eight days before \<open>demo_now\<close>.
\<close>

definition demo_board_now :: time where "demo_board_now = 1000 * day_ns"

definition demo_board_users :: "RankableUser list" where
  "demo_board_users =
     [\<lparr>rku_ID = ''u1'', rku_DisplayName = ''Ada'', rku_AvatarKey = []\<rparr>,
      \<lparr>rku_ID = ''u2'', rku_DisplayName = ''Bob'', rku_AvatarKey = []\<rparr>,
      \<lparr>rku_ID = ''u3'', rku_DisplayName = ''Ada'', rku_AvatarKey = []\<rparr>,
      \<lparr>rku_ID = ''u4'', rku_DisplayName = ''Dan'', rku_AvatarKey = []\<rparr>]"

definition demo_performance :: "string \<Rightarrow> board_err + BoardPerformance" where
  "demo_performance uid =
     (let i = (if uid = ''u1'' then 110 else if uid = ''u2'' then 125 else if uid = ''u3'' then 110 else 90)
      in if uid \<notin> {''u1'', ''u2'', ''u3'', ''u4''} then Inl (ErrBackend ''unknown'')
         else Inr \<lparr>bp_RankedIndex = i, bp_RankedReturnPercentage = i - 100, bp_Paused = (uid = ''u4''),
                   bp_TrackingStartedAt = 900 * day_ns\<rparr>)"

definition demo_points :: "(string \<times> indexPoint) list" where
  "demo_points = [(''u1'', \<lparr>ip_at = 992 * day_ns, ip_index = 100\<rparr>), (''u2'', \<lparr>ip_at = 995 * day_ns, ip_index = 120\<rparr>),
                  (''u1'', \<lparr>ip_at = 980 * day_ns, ip_index = 50\<rparr>)]"

definition demo_board_env :: BoardEnv where
  "demo_board_env =
     \<lparr>be_ListRankableUsers = Inr demo_board_users, be_ListRankableUsersPage = None,
      be_CurrentRankedPerformance = demo_performance,
      be_IndexAtOrBefore = Some (\<lambda>u c n. Inr (snap_IndexAtOrBefore u c n (snap_history demo_points))),
      be_PublicInfo = None, be_PublicInfoBatch = None, be_now = demo_board_now\<rparr>"

section \<open>Properties\<close>

text \<open>
  The ranks of the live board. On a population of distinct users the board lists each ranked user once, its
  ranks are 1, 2, 3 and so on, and the rank of a row is one more than the number of rows that beat it: those
  with a higher return, or an equal return and an earlier name, or both equal and an earlier identifier.
\<close>

theorem live_board_ranks:
  assumes "decimal_lib L" "be_ListRankableUsers E = Inr users" "distinct (map rku_ID users)"
    and "rankRows L E s tf = Inr (rows, skipped)"
  shows "distinct (map rkr_userID rows) \<and> map (\<lambda>r. lbe_Rank (rkr_entry r)) rows = map (\<lambda>i. int i + 1) [0..<length rows] \<and>
    (\<forall>r\<in>set rows. lbe_Rank (rkr_entry r) = 1 + int (length (filter (\<lambda>q. row_before L q r) rows)))"
proof -
  let ?rs = "fst (live_rows L E (sv_maxSnapshotAge s) tf users)"
  have rows: "rows = sortRankedRows L ?rs"
    using assms(2,4) unfolding rankRows_Inr by auto
  have d: "distinct (map rkr_userID ?rs)" by (rule live_rows_distinct) (rule assms(3))
  have ids: "mset (map rkr_userID rows) = mset (map rkr_userID ?rs)"
    unfolding rows by (subst map_sortRankedRows) simp_all
  have count: "length (filter (\<lambda>q. row_before L q r) rows) = card {q \<in> set ?rs. row_before L q r}" for r
  proof -
    have len: "length (filter P xs) = length (filter id (map P xs))" for P and xs :: "boardRow list"
      by (induction xs) auto
    have "length (filter (\<lambda>q. row_before L q r) rows)
        = length (filter (\<lambda>q. row_before L q r) (isort (row_before L) ?rs))"
      unfolding rows len [of _ "sortRankedRows L _"] by (subst map_sortRankedRows) (simp_all add: len [symmetric])
    also have "\<dots> = card (set (filter (\<lambda>q. row_before L q r) (isort (row_before L) ?rs)))"
      using d by (intro distinct_card [symmetric] distinct_filter) (simp add: distinct_map)
    finally show ?thesis by simp
  qed
  show ?thesis
  proof (intro conjI ballI)
    show "distinct (map rkr_userID rows)" using d ids mset_eq_imp_distinct_iff by blast
    show "map (\<lambda>r. lbe_Rank (rkr_entry r)) rows = map (\<lambda>i. int i + 1) [0..<length rows]"
      unfolding rows by (rule nth_equalityI) (simp_all add: rank_nth)
  next
    fix r assume "r \<in> set rows"
    then show "lbe_Rank (rkr_entry r) = 1 + int (length (filter (\<lambda>q. row_before L q r) rows))"
      unfolding count using sorted_rank_counts [OF assms(1) d] rows by blast
  qed
qed

theorem live_board_ranks_witness:
  "map (\<lambda>r. lbe_Rank (rkr_entry r)) (fst (projr (rankRows std_declib demo_board_env board_NewService TimeframeAll)))
     = [1, 2, 3]
   \<and> map rkr_userID (fst (projr (rankRows std_declib demo_board_env board_NewService TimeframeAll)))
     = [''u2'', ''u1'', ''u3'']"
proof -
  define res where "res = rankRows std_declib demo_board_env board_NewService TimeframeAll"
  have len: "length (fst (projr res)) = 3 \<and> \<not> isl res
      \<and> map rkr_userID (fst (projr res)) = [''u2'', ''u1'', ''u3'']"
    unfolding res_def by code_simp
  then obtain rows k where run: "res = Inr (rows, k)" by (cases res) auto
  have d: "distinct (map rku_ID demo_board_users)" by code_simp
  have users: "be_ListRankableUsers demo_board_env = Inr demo_board_users" by (simp add: demo_board_env_def)
  show ?thesis
    using live_board_ranks [OF std.decimal_lib_axioms users d run [unfolded res_def]] len run
    unfolding res_def [symmetric] by (simp add: upt_conv_Cons)
qed

text \<open>
  The two live rankings agree. \<^verbatim>\<open>GetUserRank\<close> lists the users, ranks them with its own rows and its own sort
  and returns a position; that position is the rank on the board \<^verbatim>\<open>rankRows\<close> builds for the timeframe ALL, with 0
  for a user who is not on it and for a board that may not be computed.
\<close>

theorem GetUserRank_is_board_rank:
  "liveUserRank L E s uid =
     (case rankRows L E s TimeframeAll of
        Inl e \<Rightarrow> if e = ErrRankingUnavailable then Inr 0 else Inl e
      | Inr (rows, _) \<Rightarrow>
          Inr (case find (\<lambda>r. rkr_userID r = uid) rows of None \<Rightarrow> 0 | Some r \<Rightarrow> lbe_Rank (rkr_entry r)))"
  by (rule live_rank_is_row_rank)

text \<open>
  The span a trailing window measures. A user ranked over a window is measured from a recorded snapshot taken
  at least the window ago and at most \<open>maxSnapshotAge\<close> before its start, never before the user's ranking epoch,
  and the newest one the window admits; the index of the window is 100 times the ratio of the current index to that
  snapshot's and the return is the index less 100.
\<close>

theorem window_span_bounded:
  assumes "decimal_lib L" "tf_window tf = Some w" "\<forall>x\<in>set h. 0 \<le> ip_at (snd x)"
    and "be_IndexAtOrBefore E = Some (\<lambda>u c n. Inr (snap_IndexAtOrBefore u c n (snap_history h)))"
    and "timeframeReturn L E a uid rp tf = Some (pct, idx)"
  shows "\<exists>p\<in>set (points_of uid h).
     w \<le> be_now E - ip_at p \<and> be_now E - ip_at p \<le> w + a \<and> bp_TrackingStartedAt rp \<le> ip_at p \<and>
     (\<forall>q\<in>set (points_of uid h). ip_at q \<le> be_now E - w \<longrightarrow> ip_at q \<le> ip_at p) \<and>
     0 < ip_index p \<and> idx = 100 * away_places 36 (bp_RankedIndex rp / ip_index p) \<and> pct = idx - 100"
proof -
  let ?ps = "rev (snap_history h uid)" and ?c = "be_now E - w" and ?n = "bp_TrackingStartedAt rp"
  obtain base captured where
    hit: "snap_IndexAtOrBefore uid ?c ?n (snap_history h) = Some (base, captured)"
    and rest: "0 < base" "?c - captured \<le> a" "idx = 100 * away_places 36 (bp_RankedIndex rp / base)" "pct = idx - 100"
    using assms(5) unfolding windowed_return [OF assms(1,2)] assms(4) by auto
  have desc: "sorted_wrt (\<lambda>a b. ip_at b \<le> ip_at a) ?ps"
    using snap_history_points(2) [of h uid] by (simp add: sorted_wrt_rev)
  have mem: "set ?ps = set (points_of uid h)"
    using mset_eq_setD [OF snap_history_points(1) [of h uid]] by simp
  have nonneg: "\<forall>p\<in>set ?ps. 0 \<le> ip_at p"
    unfolding mem using assms(3) by (auto simp: points_of_def)
  obtain p qs where p: "filter (eligible_point ?c ?n) ?ps = p # qs" "base = ip_index p" "captured = ip_at p"
    using hit unfolding snap_IndexAtOrBefore_def newest_eligible_head [OF desc nonneg]
    by (auto simp: head_point_def split: list.splits)
  have "p \<in> set (filter (eligible_point ?c ?n) ?ps)" using p(1) by simp
  then have in_window: "p \<in> set (points_of uid h)" "ip_at p \<le> ?c" "?n \<le> ip_at p"
    using mem by (auto simp: eligible_point_def)
  have newest: "ip_at q \<le> ip_at p" if "q \<in> set (points_of uid h)" "ip_at q \<le> ?c" for q
  proof (cases "?n \<le> ip_at q")
    case True
    then have "q \<in> set (p # qs)"
      unfolding p(1) [symmetric] using that mem by (simp add: eligible_point_def)
    moreover have "sorted_wrt (\<lambda>a b. ip_at b \<le> ip_at a) (p # qs)"
      unfolding p(1) [symmetric] using desc by (rule sorted_wrt_filter)
    ultimately show ?thesis by auto
  qed (use in_window in simp)
  show ?thesis
    by (rule bexI [of _ p]) (use in_window newest rest p in auto)
qed

theorem window_span_bounded_witness:
  "\<exists>p\<in>set (points_of ''u1'' demo_points). ip_at p = 992 * day_ns \<and>
     timeframeReturn std_declib demo_board_env (36 * 60 * minute_ns) ''u1'' (projr (demo_performance ''u1'')) Timeframe1W
       = Some (10, 110)"
proof -
  have run: "timeframeReturn std_declib demo_board_env (36 * 60 * minute_ns) ''u1'' (projr (demo_performance ''u1''))
      Timeframe1W = Some (10, 110)"
    by code_simp
  have nonneg: "\<forall>x\<in>set demo_points. 0 \<le> ip_at (snd x)" by code_simp
  have store: "be_IndexAtOrBefore demo_board_env
      = Some (\<lambda>u c n. Inr (snap_IndexAtOrBefore u c n (snap_history demo_points)))"
    by (simp add: demo_board_env_def)
  have points: "set (points_of ''u1'' demo_points)
      = {\<lparr>ip_at = 992 * day_ns, ip_index = 100\<rparr>, \<lparr>ip_at = 980 * day_ns, ip_index = 50\<rparr>}"
    by code_simp
  show ?thesis
    using window_span_bounded [OF std.decimal_lib_axioms _ nonneg store run, of "7 * day_ns"] run
    by (auto simp: points demo_board_env_def demo_board_now_def day_ns_def minute_ns_def)
qed

text \<open>
  The two snapshot stores agree. After the same recordings, of any users at any instants after Go's zero time
  and with no two points of the user at one instant, the table in PostgreSQL and the series in memory answer every
  lookup alike.
\<close>

theorem snapshot_stores_agree:
  assumes "distinct (map ip_at (points_of uid h))" "\<forall>x\<in>set h. 0 \<le> ip_at (snd x)"
  shows "pgsnap_IndexAtOrBefore uid cutoff notBefore (pgsnap_history h)
       = snap_IndexAtOrBefore uid cutoff notBefore (snap_history h)"
proof -
  let ?ps = "rev (snap_history h uid)" and ?ok = "eligible_point cutoff notBefore"
  let ?tab = "map snd (filter (\<lambda>(u, p). u = uid \<and> ip_at p \<le> cutoff \<and> notBefore \<le> ip_at p) h)"
  let ?later = "\<lambda>a b. ip_at b < ip_at a"
  have desc: "sorted_wrt (\<lambda>a b. ip_at b \<le> ip_at a) ?ps"
    using snap_history_points(2) [of h uid] by (simp add: sorted_wrt_rev)
  have points: "mset ?ps = mset (points_of uid h)"
    using snap_history_points(1) [of h uid] by simp
  have nonneg: "\<forall>p\<in>set ?ps. 0 \<le> ip_at p"
    unfolding mset_eq_setD [OF points] using assms(2) by (auto simp: points_of_def)
  have tab: "?tab = filter ?ok (points_of uid h)"
    by (induction h) (auto simp: points_of_def eligible_point_def)
  have "isort ?later ?tab = filter ?ok ?ps"
  proof (rule descending_unique)
    show "sorted_wrt (\<lambda>a b. ip_at b \<le> ip_at a) (isort ?later ?tab)"
      using number.sorted_isort [of "\<lambda>p. - ip_at p" ?tab] by (simp add: not_less)
    show "sorted_wrt (\<lambda>a b. ip_at b \<le> ip_at a) (filter ?ok ?ps)" using desc by (rule sorted_wrt_filter)
    show "mset (isort ?later ?tab) = mset (filter ?ok ?ps)"
      unfolding tab mset_isort mset_filter points ..
    show "distinct (map ip_at (filter ?ok ?ps))"
      using assms(1) points by (metis distinct_map_filter mset_map mset_eq_imp_distinct_iff)
  qed
  then show ?thesis
    unfolding pgsnap_IndexAtOrBefore_def snap_IndexAtOrBefore_def pgsnap_history_eq
      newest_eligible_head [OF desc nonneg] head_point_def by simp
qed

theorem snapshot_stores_agree_witness:
  "pgsnap_IndexAtOrBefore ''u1'' (993 * day_ns) 0 (pgsnap_history demo_points) = Some (100, 992 * day_ns)"
proof -
  have d: "distinct (map ip_at (points_of ''u1'' demo_points))" by code_simp
  have nonneg: "\<forall>x\<in>set demo_points. 0 \<le> ip_at (snd x)" by code_simp
  have "snap_IndexAtOrBefore ''u1'' (993 * day_ns) 0 (snap_history demo_points) = Some (100, 992 * day_ns)"
    by code_simp
  then show ?thesis using snapshot_stores_agree [OF d nonneg] by simp
qed

end
