(* ===== verification/BoardRefresh.thy ===== *)
theory BoardRefresh
  imports BoardLaws
begin

text \<open>
  The refresh of the leaderboard's projection. The locale \<open>ranking_store\<close> is the contract of the interface
  \<^verbatim>\<open>RankingStore\<close>: writes go to the building generation and only a completed cycle moves it to the one reads are
  served from. Inside it a lap of paged calls is shown to attempt every user before it promotes; it is
  interpreted on the PostgreSQL store.
\<close>

section \<open>The contract\<close>

locale ranking_store =
  fixes R :: "'s RankingStore"
    and ok :: "'s \<Rightarrow> bool"
    and building active :: "'s \<Rightarrow> Timeframe \<Rightarrow> string \<Rightarrow> (IndexValue \<times> Ratio) option"
    and kept :: "IndexValue \<times> Ratio \<Rightarrow> IndexValue \<times> Ratio"
  assumes upsert: "ok s \<Longrightarrow> rs_Upsert R tf u i p t s = (None, s') \<Longrightarrow>
      ok s' \<and> active s' = active s \<and> building s' = (building s)(tf := (building s tf)(u \<mapsto> kept (i, p)))"
    and delete: "ok s \<Longrightarrow> rs_Delete R tf u s = (None, s') \<Longrightarrow>
      ok s' \<and> active s' = active s \<and> building s' = (building s)(tf := (building s tf)(u := None))"
    and complete: "ok s \<Longrightarrow> rs_CompleteCycle R s = (None, s') \<Longrightarrow>
      ok s' \<and> active s' = building s \<and> building s' = (\<lambda>_. Map.empty)"
    and upsert_refused: "rs_Upsert R tf u i p t s = (Some e, s') \<Longrightarrow> s' = s"
    and delete_refused: "rs_Delete R tf u s = (Some e, s') \<Longrightarrow> s' = s"
    and complete_refused: "rs_CompleteCycle R s = (Some e, s') \<Longrightarrow> s' = s"

text \<open>The row a user should have in a timeframe, as the store keeps it.\<close>

definition board_row ::
  "declib \<Rightarrow> (IndexValue \<times> Ratio \<Rightarrow> IndexValue \<times> Ratio) \<Rightarrow> BoardEnv \<Rightarrow> int \<Rightarrow> string \<Rightarrow> Timeframe
     \<Rightarrow> (IndexValue \<times> Ratio) option" where
  "board_row L kept E a uid tf =
     (case be_CurrentRankedPerformance E uid of
        Inl _ \<Rightarrow> None
      | Inr rp \<Rightarrow> if bp_Paused rp then None
                  else map_option (\<lambda>(p, i). kept (i, p)) (timeframeReturn L E a uid rp tf))"

text \<open>The rows of some users and no others.\<close>

definition board_rows ::
  "declib \<Rightarrow> (IndexValue \<times> Ratio \<Rightarrow> IndexValue \<times> Ratio) \<Rightarrow> BoardEnv \<Rightarrow> int \<Rightarrow> RankableUser list
     \<Rightarrow> Timeframe \<Rightarrow> string \<Rightarrow> (IndexValue \<times> Ratio) option" where
  "board_rows L kept E a us tf uid =
     (if uid \<in> rku_ID ` set us then board_row L kept E a uid tf else None)"

lemma board_rows_Nil [simp]: "board_rows L kept E a [] = (\<lambda>_. Map.empty)"
  by (intro ext) (simp add: board_rows_def)

text \<open>Some timeframe of the user could not be written, by a store in the state \<open>db\<close>.\<close>

definition write_fails ::
  "declib \<Rightarrow> 's RankingStore \<Rightarrow> BoardEnv \<Rightarrow> int \<Rightarrow> RankableUser \<Rightarrow> 's \<Rightarrow> bool" where
  "write_fails L R E a u db =
     (case be_CurrentRankedPerformance E (rku_ID u) of
        Inl _ \<Rightarrow> False
      | Inr rp \<Rightarrow> \<not> bp_Paused rp \<and> fst (refreshRankingRows L R E a (rku_ID u) rp db) \<noteq> None)"

lemma noteErr_simps [simp]:
  "ta_rankingFailed (noteErr e t) = ta_rankingFailed t" "ta_skipped (noteErr e t) = ta_skipped t"
  by (simp_all add: noteErr_def split: option.splits)

lemma refreshUser_failed:
  "ta_rankingFailed (fst (refreshUser L R E a u (t, db))) = (ta_rankingFailed t \<or> write_fails L R E a u db)"
  by (auto simp: refreshUser_def write_fails_def split: sum.splits prod.splits option.splits)

lemma then_effect_eq:
  "f s = (e1, s1) \<Longrightarrow> g s1 = (e2, s2) \<Longrightarrow> then_effect f g s = (if e1 = None then e2 else e1, s2)"
  by (simp add: then_effect_def split: option.splits)

text \<open>A step that concerns one user leaves the rows of the others and the active generation alone.\<close>

definition touches ::
  "('s \<Rightarrow> bool) \<Rightarrow> ('s \<Rightarrow> Timeframe \<Rightarrow> string \<Rightarrow> 'r) \<Rightarrow> ('s \<Rightarrow> Timeframe \<Rightarrow> string \<Rightarrow> 'r)
     \<Rightarrow> string \<Rightarrow> 's \<Rightarrow> 's \<Rightarrow> bool" where
  "touches ok building active u s s' =
     (ok s' \<and> active s' = active s \<and> (\<forall>tf v. v \<noteq> u \<longrightarrow> building s' tf v = building s tf v))"

section \<open>One user\<close>

context ranking_store
begin

lemma touches_refl: "ok s \<Longrightarrow> touches ok building active u s s"
  by (simp add: touches_def)

lemma touches_trans: "touches ok building active u s s' \<Longrightarrow> touches ok building active u s' s'' \<Longrightarrow> touches ok building active u s s''"
  by (simp add: touches_def)

lemma refresh_timeframe_touches:
  assumes "ok s" "refresh_timeframe L R E a u rp tf s = (e, s')"
  shows "touches ok building active u s s'" "\<And>tf'. tf' \<noteq> tf \<Longrightarrow> building s' tf' = building s tf'"
    "e = None \<Longrightarrow> building s' tf u = map_option (\<lambda>(p, i). kept (i, p)) (timeframeReturn L E a u rp tf)"
  using assms unfolding refresh_timeframe_def touches_def
  by (cases e; auto split: option.splits dest: upsert delete upsert_refused delete_refused)+

lemma refresh_timeframes:
  assumes "ok s" "foldr then_effect (map (refresh_timeframe L R E a u rp) tfs) no_effect s = (e, s')" "distinct tfs"
  shows "touches ok building active u s s' \<and> (\<forall>tf. tf \<notin> set tfs \<longrightarrow> building s' tf = building s tf) \<and>
    (e = None \<longrightarrow> (\<forall>tf\<in>set tfs. building s' tf u = map_option (\<lambda>(p, i). kept (i, p)) (timeframeReturn L E a u rp tf)))"
  using assms
proof (induction tfs arbitrary: s e s')
  case Nil
  then show ?case by (simp add: no_effect_def touches_refl)
next
  case (Cons tf tfs)
  obtain e1 s1 where one: "refresh_timeframe L R E a u rp tf s = (e1, s1)" by (cases "refresh_timeframe L R E a u rp tf s")
  obtain e2 s2 where two: "foldr then_effect (map (refresh_timeframe L R E a u rp) tfs) no_effect s1 = (e2, s2)"
    by (cases "foldr then_effect (map (refresh_timeframe L R E a u rp) tfs) no_effect s1")
  have e: "s' = s2" "e = None \<longleftrightarrow> e1 = None \<and> e2 = None"
    using Cons.prems(2) then_effect_eq 
        [where f = "refresh_timeframe L R E a u rp tf" and g = "foldr then_effect (map (refresh_timeframe L R E a u rp) tfs) no_effect",
         OF one two]
    by (auto split: if_splits)
  note first = refresh_timeframe_touches [OF Cons.prems(1) one]
  have "ok s1" using first(1) by (simp add: touches_def)
  from Cons.IH [OF this two] Cons.prems(3) e first show ?case
    by (auto intro: touches_trans)
qed

lemma refreshRankingRows_rows:
  assumes "ok s" "refreshRankingRows L R E a u rp s = (e, s')"
  shows "touches ok building active u s s'"
    "e = None \<Longrightarrow> building s' tf u = map_option (\<lambda>(p, i). kept (i, p)) (timeframeReturn L E a u rp tf)"
proof -
  have "distinct allTimeframes" by (simp add: allTimeframes_def)
  note all = refresh_timeframes [OF assms(1) assms(2) [unfolded refreshRankingRows_def] this]
  then show "touches ok building active u s s'" by blast
  have "tf \<in> set allTimeframes" by (cases tf) (simp_all add: allTimeframes_def)
  with all show "e = None \<Longrightarrow> building s' tf u = map_option (\<lambda>(p, i). kept (i, p)) (timeframeReturn L E a u rp tf)"
    by blast
qed

lemma deleteRankingRows_rows:
  "ok s \<Longrightarrow> touches ok building active u s (deleteRankingRows R u tfs s) \<and>
     (\<forall>tf. building s tf u = None \<longrightarrow> building (deleteRankingRows R u tfs s) tf u = None)"
proof (induction tfs arbitrary: s)
  case (Cons tf tfs)
  obtain e s1 where one: "rs_Delete R tf u s = (e, s1)" by (cases "rs_Delete R tf u s")
  then have s1: "touches ok building active u s s1" "\<forall>tf. building s tf u = None \<longrightarrow> building s1 tf u = None"
    using Cons.prems delete [of s tf u s1] delete_refused [of tf u s _ s1]
    by (cases e; auto simp: touches_def)+
  then have "ok s1" by (simp add: touches_def)
  from Cons.IH [OF this] s1 one show ?case
    by (auto simp: deleteRankingRows_def intro: touches_trans)
qed (simp add: deleteRankingRows_def touches_refl)

lemma refreshUser_rows:
  assumes "ok s" "refreshUser L R E a u (t, s) = (t', s')"
  shows "touches ok building active (rku_ID u) s s'"
    "\<not> write_fails L R E a u s \<Longrightarrow> \<forall>tf. building s tf (rku_ID u) = None \<Longrightarrow>
       building s' tf (rku_ID u) = board_row L kept E a (rku_ID u) tf"
proof -
  show "touches ok building active (rku_ID u) s s'"
    using assms deleteRankingRows_rows [OF assms(1)] refreshRankingRows_rows(1) [OF assms(1)]
    by (auto simp: refreshUser_def touches_refl split: sum.splits if_splits prod.splits option.splits)
  assume "\<not> write_fails L R E a u s" "\<forall>tf. building s tf (rku_ID u) = None"
  then show "building s' tf (rku_ID u) = board_row L kept E a (rku_ID u) tf"
    using assms deleteRankingRows_rows [OF assms(1)] refreshRankingRows_rows(2) [OF assms(1)]
    by (auto simp: refreshUser_def write_fails_def board_row_def split: sum.splits if_splits prod.splits option.splits)
qed

section \<open>A batch\<close>

text \<open>The users done so far have their rows, the others what they had before.\<close>

lemma batch_rows:
  assumes "ok s" "fold (refreshUser L R E a) us (t, s) = (t', s')" "distinct (map rku_ID us)"
  shows "ok s' \<and> active s' = active s \<and>
    (ta_rankingFailed t \<longrightarrow> ta_rankingFailed t') \<and>
    (\<forall>tf v. v \<notin> rku_ID ` set us \<longrightarrow> building s' tf v = building s tf v) \<and>
    (\<not> ta_rankingFailed t' \<longrightarrow> (\<forall>tf. \<forall>u\<in>set us. building s tf (rku_ID u) = None) \<longrightarrow>
       (\<forall>tf. \<forall>u\<in>set us. building s' tf (rku_ID u) = board_row L kept E a (rku_ID u) tf))"
  using assms
proof (induction us arbitrary: t s)
  case (Cons u us)
  obtain t1 s1 where one: "refreshUser L R E a u (t, s) = (t1, s1)" by (cases "refreshUser L R E a u (t, s)")
  note u = refreshUser_rows [OF Cons.prems(1) one]
  have f: "ta_rankingFailed t1 = (ta_rankingFailed t \<or> write_fails L R E a u s)"
    using refreshUser_failed [of L R E a u t s] one by simp
  have s1: "ok s1" "active s1 = active s" "\<And>tf v. v \<noteq> rku_ID u \<Longrightarrow> building s1 tf v = building s tf v"
    using u(1) by (simp_all add: touches_def)
  have rest: "fold (refreshUser L R E a) us (t1, s1) = (t', s')" "distinct (map rku_ID us)" "rku_ID u \<notin> rku_ID ` set us"
    using Cons.prems(2,3) one by simp_all
  note ih = Cons.IH [OF s1(1) rest(1,2)]
  show ?case
  proof (intro conjI impI allI)
    show "ok s'" "active s' = active s" "ta_rankingFailed t \<Longrightarrow> ta_rankingFailed t'" using ih s1(2) f by auto
    show "building s' tf v = building s tf v" if "v \<notin> rku_ID ` set (u # us)" for tf v
      using ih s1(3) that by simp
  next
    fix tf assume no: "\<not> ta_rankingFailed t'" and fresh: "\<forall>tf. \<forall>u\<in>set (u # us). building s tf (rku_ID u) = None"
    have "building s1 tf (rku_ID v) = None" if "v \<in> set us" for tf v
      using that fresh s1(3) rest(3) by (metis image_eqI list.set_intros(2))
    then have others: "\<forall>v\<in>set us. building s' tf (rku_ID v) = board_row L kept E a (rku_ID v) tf"
      using ih no by blast
    have "building s1 tf (rku_ID u) = board_row L kept E a (rku_ID u) tf"
      using u(2) fresh no ih f by simp
    then have "building s' tf (rku_ID u) = board_row L kept E a (rku_ID u) tf"
      using ih rest(3) by simp
    with others show "\<forall>u\<in>set (u # us). building s' tf (rku_ID u) = board_row L kept E a (rku_ID u) tf" by simp
  qed
qed simp

lemma processBatch_rows:
  assumes "ok s" "building s = board_rows L kept E a done_users" "processBatch L R E a us s = (t, s')"
    and "distinct (map rku_ID (done_users @ us))"
  shows "ok s' \<and> active s' = active s \<and>
    (\<not> ta_rankingFailed t \<longrightarrow> building s' = board_rows L kept E a (done_users @ us))"
proof -
  have d: "distinct (map rku_ID us)" using assms(4) by simp
  note b = batch_rows [OF assms(1) assms(3) [unfolded processBatch_def] d]
  have fresh: "\<forall>tf. \<forall>u\<in>set us. building s tf (rku_ID u) = None"
    using assms(2,4) by (auto simp: board_rows_def)
  show ?thesis
  proof (intro conjI impI)
    assume no: "\<not> ta_rankingFailed t"
    show "building s' = board_rows L kept E a (done_users @ us)"
    proof (intro ext)
      fix tf v
      show "building s' tf v = board_rows L kept E a (done_users @ us) tf v"
        using b no fresh assms(2) by (cases "v \<in> rku_ID ` set us") (auto simp: board_rows_def)
    qed
  qed (use b in blast)+
qed

end

text \<open>Whether a batch latches a failure, when the store always takes a user's rows or never does.\<close>

context ranking_store
begin

lemma batch_accepts:
  assumes "ok s" "\<not> ta_rankingFailed t" "\<And>u s. u \<in> set us \<Longrightarrow> ok s \<Longrightarrow> \<not> write_fails L R E a u s"
  shows "\<not> ta_rankingFailed (fst (fold (refreshUser L R E a) us (t, s)))"
  using assms
proof (induction us arbitrary: t s)
  case (Cons u us)
  obtain t1 s1 where one: "refreshUser L R E a u (t, s) = (t1, s1)" by (cases "refreshUser L R E a u (t, s)")
  have "ok s1" using refreshUser_rows(1) [OF Cons.prems(1) one] by (simp add: touches_def)
  moreover have "\<not> ta_rankingFailed t1"
    using refreshUser_failed [of L R E a u t s] one Cons.prems by simp
  ultimately show ?case using Cons.IH [of s1 t1] Cons.prems(3) one by simp
qed simp

lemma batch_refuses:
  assumes "ok s" "ta_rankingFailed t \<or> u \<in> set us" "\<And>s. ok s \<Longrightarrow> write_fails L R E a u s"
  shows "ta_rankingFailed (fst (fold (refreshUser L R E a) us (t, s)))"
  using assms
proof (induction us arbitrary: t s)
  case (Cons v us)
  obtain t1 s1 where one: "refreshUser L R E a v (t, s) = (t1, s1)" by (cases "refreshUser L R E a v (t, s)")
  have "ok s1" using refreshUser_rows(1) [OF Cons.prems(1) one] by (simp add: touches_def)
  moreover have "ta_rankingFailed t1 \<or> u \<in> set us"
    using refreshUser_failed [of L R E a v t s] one Cons.prems by auto
  ultimately show ?case using Cons.IH [of s1 t1] Cons.prems(3) one by simp
qed simp

end

section \<open>One call\<close>

lemma RefreshCache_call:
  assumes "selectBatch E (s\<lparr>sv_lastRefreshPromoted := False\<rparr>) = Inr ((batch, cc), s1)"
    and "processBatch L R E (sv_maxSnapshotAge s1) batch db = (t, db1)"
  shows "snd (RefreshCache L (Some R) E (s, db)) =
    (let s2 = s1\<lparr>sv_cycleRankingFailed := sv_cycleRankingFailed s1 \<or> ta_rankingFailed t\<rparr>
     in if cc then snd (endOfLap R t s2 db1) else (s2, db1))"
  using assms by (simp add: RefreshCache_def Let_def case_prod_beta)

section \<open>The pages of a population\<close>

definition project_user :: "user_row \<Rightarrow> RankableUser" where
  "project_user u = \<lparr>rku_ID = usr_ID u, rku_DisplayName = usr_DisplayName u, rku_AvatarKey = usr_AvatarKey u\<rparr>"

definition population :: "user_row list \<Rightarrow> RankableUser list" where
  "population repo = isort id_less (map project_user repo)"

lemma ListRankableUsers_eq: "ListRankableUsers (Inr repo) = Inr (map project_user repo)"
  by (simp add: ListRankableUsers_def project_user_def)

lemma ListRankableUsersPage_eq:
  "ListRankableUsersPage (Inr repo) c (int k) =
     Inr (take k (filter (\<lambda>u. str_less c (rku_ID u)) (population repo)))"
  by (simp add: ListRankableUsersPage_def ListRankableUsers_eq population_def)

interpretation ids: row_order id_less
proof unfold_locales
  fix x y z
  have nl: "\<not> str_less s t \<longleftrightarrow> s = t \<or> str_less t s" for s t
    using str_less_total str_less_asym by auto
  show "id_less x y \<Longrightarrow> \<not> id_less y x"
    by (auto simp: id_less_def dest: str_less_asym)
  show "\<not> id_less x y \<Longrightarrow> \<not> id_less y z \<Longrightarrow> \<not> id_less x z"
    by (auto simp: id_less_def nl dest: str_less_trans str_less_asym)
qed

lemma population_ids:
  "set (map rku_ID (population repo)) = usr_ID ` set repo"
  "distinct (map rku_ID (population repo)) = distinct (map usr_ID repo)"
proof -
  have m: "mset (map rku_ID (population repo)) = mset (map usr_ID repo)"
    by (simp add: population_def project_user_def multiset.map_comp comp_def)
  show "set (map rku_ID (population repo)) = usr_ID ` set repo"
    using mset_eq_setD [OF m] by simp
  show "distinct (map rku_ID (population repo)) = distinct (map usr_ID repo)"
    using m by (rule mset_eq_imp_distinct_iff)
qed

lemma population_sorted:
  assumes "distinct (map usr_ID repo)"
  shows "sorted_wrt id_less (population repo)"
proof -
  have d: "distinct (map rku_ID (population repo))" using assms by (simp add: population_ids)
  have "sorted_wrt (\<lambda>x y. \<not> id_less y x) (population repo)"
    unfolding population_def by (rule ids.sorted_isort)
  then show ?thesis
    unfolding sorted_wrt_iff_nth_less
  proof (intro allI impI)
    fix i j assume le: "\<forall>i j. i < j \<longrightarrow> j < length (population repo) \<longrightarrow> \<not> id_less (population repo ! j) (population repo ! i)"
      and ij: "i < j" "j < length (population repo)"
    have "rku_ID (population repo ! i) \<noteq> rku_ID (population repo ! j)"
      using d ij by (auto simp: distinct_conv_nth)
    then show "id_less (population repo ! i) (population repo ! j)"
      using le ij str_less_total unfolding id_less_def by blast
  qed
qed

text \<open>The cursor after the first \<open>i\<close> users, and what lies past it.\<close>

definition cursor_at :: "RankableUser list \<Rightarrow> nat \<Rightarrow> string" where
  "cursor_at us i = (if i = 0 then [] else rku_ID (us ! (i - 1)))"

lemma past_cursor:
  assumes "sorted_wrt id_less us" "[] \<notin> rku_ID ` set us" "i \<le> length us"
  shows "filter (\<lambda>u. str_less (cursor_at us i) (rku_ID u)) us = drop i us"
proof (cases i)
  case 0
  have "str_less [] (rku_ID u)" if "u \<in> set us" for u
    using that assms(2) by (cases "rku_ID u") force+
  then show ?thesis using 0 by (simp add: cursor_at_def)
next
  case (Suc j)
  have j: "j < length us" using assms(3) Suc by simp
  let ?P = "\<lambda>u. str_less (rku_ID (us ! j)) (rku_ID u)"
  have "filter ?P us = filter ?P (take i us) @ filter ?P (drop i us)"
    by (metis append_take_drop_id filter_append)
  moreover have "filter ?P (take i us) = []"
  proof -
    have "\<not> ?P u" if "u \<in> set (take i us)" for u
    proof -
      from that obtain l where l: "l < i" "u = us ! l" "l < length us"
        by (auto simp: in_set_conv_nth)
      then consider "l = j" | "l < j" using Suc by linarith
      then show ?thesis
        using assms(1) j l str_less_asym by cases (auto simp: sorted_wrt_iff_nth_less id_less_def)
    qed
    then show ?thesis by (simp add: filter_empty_conv)
  qed
  moreover have "filter ?P (drop i us) = drop i us"
  proof -
    have "?P u" if "u \<in> set (drop i us)" for u
    proof -
      from that obtain l where "l < length us - i" "u = us ! (i + l)"
        by (auto simp: in_set_conv_nth)
      then show ?thesis
        using assms(1) Suc by (auto simp: sorted_wrt_iff_nth_less id_less_def)
    qed
    then show ?thesis by (simp add: filter_id_conv)
  qed
  ultimately show ?thesis by (simp add: cursor_at_def Suc)
qed

lemma selectBatch_paged:
  assumes "be_ListRankableUsersPage E = Some (ListRankableUsersPage (Inr repo))"
    and "sv_refreshBatchSize s = int k" "0 < k" "distinct (map usr_ID repo)" "[] \<notin> usr_ID ` set repo"
    and "i \<le> length repo" "sv_refreshCursorID s = cursor_at (population repo) i"
  shows "selectBatch E s =
    (let batch = take k (drop i (population repo)); ended = length repo < i + k
     in Inr ((batch, ended \<and> repo \<noteq> []),
             s\<lparr>sv_refreshCursorID := (if ended then [] else cursor_at (population repo) (i + k))\<rparr>))"
proof -
  let ?us = "population repo"
  have len: "length ?us = length repo" by (simp add: population_def)
  have ne: "[] \<notin> rku_ID ` set ?us" using assms(5) population_ids(1) [of repo] by simp
  have page: "ListRankableUsersPage (Inr repo) (cursor_at ?us i) (int k) = Inr (take k (drop i ?us))"
    unfolding ListRankableUsersPage_eq using past_cursor [OF population_sorted [OF assms(4)] ne] assms(6) len by simp
  have past: "take k (drop i ?us) \<noteq> [] \<longleftrightarrow> i < length repo" using assms(3) len by (simp add: not_le)
  have last: "rku_ID (last (take k (drop i ?us))) = cursor_at ?us (i + k)" if "i + k \<le> length repo"
    using that assms(3) len by (simp add: last_conv_nth cursor_at_def)
  have start: "cursor_at ?us i \<noteq> [] \<longleftrightarrow> i \<noteq> 0"
  proof (cases "i = 0")
    case False
    then have "rku_ID (?us ! (i - 1)) \<in> rku_ID ` set ?us" using assms(6) len by (intro imageI nth_mem) simp
    with ne False show ?thesis by (metis cursor_at_def)
  qed (simp add: cursor_at_def)
  have ended: "(cursor_at ?us i \<noteq> [] \<or> take k (drop i ?us) \<noteq> []) \<longleftrightarrow> repo \<noteq> []"
    using past start assms(6) by (cases "i = 0") auto
  show ?thesis
  proof (cases "length repo < i + k")
    case True
    then show ?thesis
      using assms(1,3,6) ended len
      by (simp add: selectBatch_def nextPagedBatch_def Let_def assms(2,7) page)
  next
    case False
    then show ?thesis
      using assms(1,3) last past len
      by (simp add: selectBatch_def nextPagedBatch_def Let_def assms(2,7) page)
  qed
qed

section \<open>A lap\<close>

fun refresh_calls ::
  "declib \<Rightarrow> 's RankingStore \<Rightarrow> BoardEnv \<Rightarrow> nat \<Rightarrow> BoardService \<times> 's \<Rightarrow> BoardService \<times> 's" where
  "refresh_calls L R E 0 sd = sd"
| "refresh_calls L R E (Suc n) sd = snd (RefreshCache L (Some R) E (refresh_calls L R E n sd))"

text \<open>What a lap assumes of its surroundings: the users do not change and are paged \<open>k\<close> at a time.\<close>

definition paged_by :: "BoardEnv \<Rightarrow> user_row list \<Rightarrow> nat \<Rightarrow> bool" where
  "paged_by E repo k =
     (be_ListRankableUsersPage E = Some (ListRankableUsersPage (Inr repo)) \<and> 0 < k \<and>
      distinct (map usr_ID repo) \<and> [] \<notin> usr_ID ` set repo \<and> repo \<noteq> [])"

text \<open>Where a lap is after its first \<open>i\<close> users; \<open>exact\<close> when its generation was empty at the start.\<close>

definition lap_at ::
  "('s \<Rightarrow> bool) \<Rightarrow> ('s \<Rightarrow> Timeframe \<Rightarrow> string \<Rightarrow> (IndexValue \<times> Ratio) option)
     \<Rightarrow> ('s \<Rightarrow> Timeframe \<Rightarrow> string \<Rightarrow> (IndexValue \<times> Ratio) option) \<Rightarrow> (IndexValue \<times> Ratio \<Rightarrow> IndexValue \<times> Ratio)
     \<Rightarrow> bool \<Rightarrow> declib \<Rightarrow> BoardEnv \<Rightarrow> user_row list \<Rightarrow> nat \<Rightarrow> int \<Rightarrow> (Timeframe \<Rightarrow> string \<Rightarrow> (IndexValue \<times> Ratio) option)
     \<Rightarrow> nat \<Rightarrow> BoardService \<times> 's \<Rightarrow> bool" where
  "lap_at ok building active kept exact L E repo k a shown i sd =
     (ok (snd sd) \<and> active (snd sd) = shown \<and> sv_refreshCursorID (fst sd) = cursor_at (population repo) i \<and>
      sv_refreshBatchSize (fst sd) = int k \<and> sv_maxSnapshotAge (fst sd) = a \<and>
      (exact \<and> \<not> sv_cycleRankingFailed (fst sd) \<longrightarrow>
         building (snd sd) = board_rows L kept E a (take i (population repo))))"

text \<open>The service after a call whose batch had the tally \<open>t\<close>, before the lap ends if it does.\<close>

definition after_batch :: "user_row list \<Rightarrow> nat \<Rightarrow> nat \<Rightarrow> refreshTally \<Rightarrow> BoardService \<Rightarrow> BoardService" where
  "after_batch repo k i t s =
     s\<lparr>sv_lastRefreshPromoted := False,
       sv_refreshCursorID := (if length repo < i + k then [] else cursor_at (population repo) (i + k)),
       sv_cycleRankingFailed := sv_cycleRankingFailed s \<or> ta_rankingFailed t\<rparr>"

context ranking_store
begin

lemma lap_call:
  assumes "paged_by E repo k" "lap_at ok building active kept exact L E repo k a shown i (s, db)" "i \<le> length repo"
    and batch: "processBatch L R E a (take k (drop i (population repo))) db = (t, db1)"
  shows "ok db1" "active db1 = shown"
    "exact \<Longrightarrow> \<not> sv_cycleRankingFailed s \<Longrightarrow> \<not> ta_rankingFailed t \<Longrightarrow>
       building db1 = board_rows L kept E a (take (i + k) (population repo))"
    "snd (RefreshCache L (Some R) E (s, db)) =
       (let s2 = after_batch repo k i t s
        in if length repo < i + k then snd (endOfLap R t s2 db1) else (s2, db1))"
proof -
  let ?us = "population repo" and ?s = "s\<lparr>sv_lastRefreshPromoted := False\<rparr>"
  have d: "distinct (map rku_ID ?us)" using assms(1) by (simp add: paged_by_def population_ids)
  have app: "take i ?us @ take k (drop i ?us) = take (i + k) ?us" by (simp add: take_add)
  have sub: "distinct (map rku_ID (take i ?us @ take k (drop i ?us)))"
    unfolding app using d by (metis distinct_take take_map)
  have d2: "distinct (map rku_ID (take k (drop i ?us)))" using sub by simp
  show "ok db1" "active db1 = shown"
    using batch_rows [OF _ batch [unfolded processBatch_def] d2] assms(2) by (simp_all add: lap_at_def)
  show "building db1 = board_rows L kept E a (take (i + k) ?us)"
    if "exact" "\<not> sv_cycleRankingFailed s" "\<not> ta_rankingFailed t"
    using processBatch_rows [OF _ _ batch sub] assms(2) that unfolding app by (simp add: lap_at_def)
  have sel: "selectBatch E ?s =
      (let batch = take k (drop i ?us); ended = length repo < i + k
       in Inr ((batch, ended \<and> repo \<noteq> []),
               ?s\<lparr>sv_refreshCursorID := (if ended then [] else cursor_at ?us (i + k))\<rparr>))"
    by (rule selectBatch_paged) (use assms in \<open>auto simp: paged_by_def lap_at_def\<close>)
  have ne: "repo \<noteq> []" using assms(1) by (simp add: paged_by_def)
  have a: "sv_maxSnapshotAge s = a" using assms(2) by (simp add: lap_at_def)
  show "snd (RefreshCache L (Some R) E (s, db)) =
       (let s2 = after_batch repo k i t s
        in if length repo < i + k then snd (endOfLap R t s2 db1) else (s2, db1))"
    using sel batch ne a by (subst RefreshCache_call) (auto simp: Let_def after_batch_def)
qed

lemma lap_middle:
  assumes "paged_by E repo k" "lap_at ok building active kept exact L E repo k a shown i sd" "i + k \<le> length repo"
  shows "lap_at ok building active kept exact L E repo k a shown (i + k) (snd (RefreshCache L (Some R) E sd)) \<and>
     \<not> sv_lastRefreshPromoted (fst (snd (RefreshCache L (Some R) E sd)))"
proof -
  obtain s db where sd: "sd = (s, db)" by (cases sd)
  obtain t db1 where batch: "processBatch L R E a (take k (drop i (population repo))) db = (t, db1)"
    by (cases "processBatch L R E a (take k (drop i (population repo))) db")
  have "i \<le> length repo" using assms(3) by simp
  note call = lap_call [OF assms(1) assms(2) [unfolded sd] this batch]
  have after: "snd (RefreshCache L (Some R) E (s, db)) = (after_batch repo k i t s, db1)"
    using call(4) assms(3) by (simp add: Let_def)
  show ?thesis
    unfolding sd after using assms(2,3) call(1-3) by (simp add: sd lap_at_def after_batch_def)
qed

lemma lap_prefix:
  assumes "paged_by E repo k" "lap_at ok building active kept exact L E repo k a shown 0 sd" "j * k \<le> length repo"
  shows "lap_at ok building active kept exact L E repo k a shown (j * k) (refresh_calls L R E j sd) \<and>
     (0 < j \<longrightarrow> \<not> sv_lastRefreshPromoted (fst (refresh_calls L R E j sd)))"
  using assms(3)
proof (induction j)
  case (Suc j)
  then have "lap_at ok building active kept exact L E repo k a shown (j * k) (refresh_calls L R E j sd)" by simp
  from lap_middle [OF assms(1) this] Suc.prems show ?case by (simp add: add.commute)
qed (use assms(2) in simp)

text \<open>The last call of a lap: the failures latched decide, and they are cleared.\<close>

lemma lap_end:
  assumes "paged_by E repo k" "lap_at ok building active kept exact L E repo k a shown i (s, db)"
    and "i \<le> length repo" "length repo < i + k"
    and batch: "processBatch L R E a (take k (drop i (population repo))) db = (t, db1)"
    and after: "snd (RefreshCache L (Some R) E (s, db)) = (s', db')"
  shows "sv_lastRefreshPromoted s' =
       (\<not> sv_cycleRankingFailed s \<and> \<not> ta_rankingFailed t \<and> fst (rs_CompleteCycle R db1) = None)"
    "exact \<Longrightarrow> sv_lastRefreshPromoted s' \<Longrightarrow> active db' = board_rows L kept E a (population repo)"
    "\<not> sv_lastRefreshPromoted s' \<Longrightarrow> active db' = shown"
    "lap_at ok building active kept (sv_lastRefreshPromoted s') L E repo k a (active db') 0 (s', db')"
    "sv_lastRefreshPromoted s' \<Longrightarrow> \<exists>last_db. ok last_db \<and> rs_CompleteCycle R last_db = (None, db')"
proof -
  note call = lap_call [OF assms(1-3) batch]
  have all: "take (i + k) (population repo) = population repo"
    using assms(4) by (simp add: population_def)
  obtain e db2 where cycle: "rs_CompleteCycle R db1 = (e, db2)" by (cases "rs_CompleteCycle R db1")
  have promoted: "ok db2 \<and> active db2 = building db1 \<and> building db2 = (\<lambda>_. Map.empty)" if "e = None"
    using complete [OF call(1)] cycle that by simp
  have refused: "db2 = db1" if "e \<noteq> None"
    using complete_refused [of db1 _ db2] cycle that by auto
  let ?after = "(after_batch repo k i t s)\<lparr>sv_cycleRankingFailed := False\<rparr>"
  have res: "(s', db') =
     (if sv_cycleRankingFailed s \<or> ta_rankingFailed t then (?after, db1)
      else if e = None then (?after\<lparr>sv_lastRefreshPromoted := True\<rparr>, db2) else (?after, db2))"
    using call(4) after assms(4) cycle
    by (auto simp: Let_def endOfLap_def after_batch_def split: option.splits)
  show "sv_lastRefreshPromoted s' =
       (\<not> sv_cycleRankingFailed s \<and> \<not> ta_rankingFailed t \<and> fst (rs_CompleteCycle R db1) = None)"
    using res cycle by (auto simp: after_batch_def split: if_splits)
  show "active db' = board_rows L kept E a (population repo)" if "exact" "sv_lastRefreshPromoted s'"
    using res call(2,3) promoted that all by (auto simp: after_batch_def split: if_splits)
  show "active db' = shown" if "\<not> sv_lastRefreshPromoted s'"
    using res call(2) refused that by (auto simp: after_batch_def split: if_splits)
  show "lap_at ok building active kept (sv_lastRefreshPromoted s') L E repo k a (active db') 0 (s', db')"
    using res assms(2,4) promoted refused call(1)
    by (auto simp: lap_at_def cursor_at_def after_batch_def split: if_splits)
  show "\<exists>last_db. ok last_db \<and> rs_CompleteCycle R last_db = (None, db')" if "sv_lastRefreshPromoted s'"
    using res cycle call(1) that by (auto simp: after_batch_def split: if_splits)
qed

text \<open>
  A lap from its start: nothing changes before the last call, which publishes exactly the rows of the
  population or nothing.
\<close>

lemma last_call:
  assumes "paged_by E repo k"
  shows "length repo div k * k \<le> length repo" "length repo < length repo div k * k + k"
  using assms dividend_less_times_div [of k "length repo"] by (simp_all add: paged_by_def mult.commute)

lemma lap_outcome:
  assumes "paged_by E repo k" "lap_at ok building active kept exact L E repo k a shown 0 sd"
    and "refresh_calls L R E (length repo div k + 1) sd = (s', db')"
  shows "exact \<Longrightarrow> sv_lastRefreshPromoted s' \<Longrightarrow> active db' = board_rows L kept E a (population repo)"
    and "\<not> sv_lastRefreshPromoted s' \<Longrightarrow> active db' = shown"
    and "lap_at ok building active kept (sv_lastRefreshPromoted s') L E repo k a (active db') 0 (s', db')"
    and "\<not> sv_cycleRankingFailed s'"
    and "sv_lastRefreshPromoted s' \<Longrightarrow> \<exists>last_db. ok last_db \<and> rs_CompleteCycle R last_db = (None, db')"
proof -
  let ?i = "length repo div k * k"
  obtain s db where mid: "refresh_calls L R E (length repo div k) sd = (s, db)"
    by (cases "refresh_calls L R E (length repo div k) sd")
  obtain t db1 where batch: "processBatch L R E a (take k (drop ?i (population repo))) db = (t, db1)"
    by (cases "processBatch L R E a (take k (drop ?i (population repo))) db")
  have lap: "lap_at ok building active kept exact L E repo k a shown ?i (s, db)"
    using lap_prefix [OF assms(1,2) last_call(1) [OF assms(1)]] mid by simp
  have run: "snd (RefreshCache L (Some R) E (s, db)) = (s', db')" using assms(3) mid by simp
  note last_one = lap_end [OF assms(1) lap last_call [OF assms(1)] batch run]
  show "active db' = board_rows L kept E a (population repo)" if "exact" "sv_lastRefreshPromoted s'"
    using that by (rule last_one(2))
  show "active db' = shown" if "\<not> sv_lastRefreshPromoted s'"
    using that by (rule last_one(3))
  show "lap_at ok building active kept (sv_lastRefreshPromoted s') L E repo k a (active db') 0 (s', db')"
    by (rule last_one(4))
  show "\<exists>last_db. ok last_db \<and> rs_CompleteCycle R last_db = (None, db')" if "sv_lastRefreshPromoted s'"
    using that by (rule last_one(5))
  show "\<not> sv_cycleRankingFailed s'"
    using lap_call(4) [OF assms(1) lap last_call(1) [OF assms(1)] batch] run last_call(2) [OF assms(1)]
    by (auto simp: Let_def endOfLap_def after_batch_def split: if_splits option.splits prod.splits)
qed

text \<open>Promotion, when the store takes every row; and no promotion, when it never takes those of some user.\<close>

lemma lap_never_fails:
  assumes "paged_by E repo k" "lap_at ok building active kept exact L E repo k a shown 0 sd" "j * k \<le> length repo"
    and "\<not> sv_cycleRankingFailed (fst sd)"
    and "\<And>u s. u \<in> set (population repo) \<Longrightarrow> ok s \<Longrightarrow> \<not> write_fails L R E a u s"
  shows "\<not> sv_cycleRankingFailed (fst (refresh_calls L R E j sd))"
  using assms(3)
proof (induction j)
  case (Suc j)
  let ?b = "take k (drop (j * k) (population repo))"
  obtain s db where mid: "refresh_calls L R E j sd = (s, db)" by (cases "refresh_calls L R E j sd")
  obtain t db1 where batch: "processBatch L R E a ?b db = (t, db1)" by (cases "processBatch L R E a ?b db")
  have j: "j * k \<le> length repo" using Suc.prems by simp
  have lap: "lap_at ok building active kept exact L E repo k a shown (j * k) (s, db)"
    using lap_prefix [OF assms(1,2) j] mid by simp
  have "\<not> ta_rankingFailed t"
    using batch_accepts [where us = ?b and s = db and t = no_tally and L = L and E = E and a = a] assms(5) lap batch
    by (auto simp: processBatch_def no_tally_def lap_at_def dest: in_set_takeD in_set_dropD)
  then show ?case
    using lap_call(4) [OF assms(1) lap j batch] mid Suc.IH [OF j] Suc.prems
    by (simp add: Let_def add.commute after_batch_def)
qed (use assms(4) in simp)

lemma lap_promotes:
  assumes "paged_by E repo k" "lap_at ok building active kept exact L E repo k a shown 0 sd" "\<not> sv_cycleRankingFailed (fst sd)"
    and "\<And>u s. u \<in> set (population repo) \<Longrightarrow> ok s \<Longrightarrow> \<not> write_fails L R E a u s"
    and "\<And>s. ok s \<Longrightarrow> fst (rs_CompleteCycle R s) = None"
  shows "sv_lastRefreshPromoted (fst (refresh_calls L R E (length repo div k + 1) sd))"
proof -
  let ?i = "length repo div k * k"
  let ?b = "take k (drop ?i (population repo))"
  obtain s db where mid: "refresh_calls L R E (length repo div k) sd = (s, db)"
    by (cases "refresh_calls L R E (length repo div k) sd")
  obtain t db1 where batch: "processBatch L R E a ?b db = (t, db1)" by (cases "processBatch L R E a ?b db")
  obtain s' db' where run: "snd (RefreshCache L (Some R) E (s, db)) = (s', db')"
    by (cases "snd (RefreshCache L (Some R) E (s, db))")
  have lap: "lap_at ok building active kept exact L E repo k a shown ?i (s, db)"
    using lap_prefix [OF assms(1,2) last_call(1) [OF assms(1)]] mid by simp
  have "\<not> ta_rankingFailed t"
    using batch_accepts [where us = ?b and s = db and t = no_tally and L = L and E = E and a = a] assms(4) lap batch
    by (auto simp: processBatch_def no_tally_def lap_at_def dest: in_set_takeD in_set_dropD)
  moreover have "\<not> sv_cycleRankingFailed s"
    using lap_never_fails [OF assms(1,2) last_call(1) [OF assms(1)] assms(3,4)] mid by simp
  moreover have "ok db1" using lap_call(1) [OF assms(1) lap last_call(1) [OF assms(1)] batch] .
  ultimately show ?thesis
    using lap_end(1) [OF assms(1) lap last_call [OF assms(1)] batch run] assms(5) mid run by simp
qed

text \<open>The failure of a batch stays latched until the lap ends.\<close>

lemma lap_latches:
  assumes "paged_by E repo k" "lap_at ok building active kept exact L E repo k a shown 0 sd" "j * k \<le> length repo"
    and "u \<in> set (take (j * k) (population repo))" "\<And>s. ok s \<Longrightarrow> write_fails L R E a u s"
  shows "sv_cycleRankingFailed (fst (refresh_calls L R E j sd))"
  using assms(3,4)
proof (induction j)
  case (Suc j)
  let ?b = "take k (drop (j * k) (population repo))"
  obtain s db where mid: "refresh_calls L R E j sd = (s, db)" by (cases "refresh_calls L R E j sd")
  obtain t db1 where batch: "processBatch L R E a ?b db = (t, db1)" by (cases "processBatch L R E a ?b db")
  have j: "j * k \<le> length repo" using Suc.prems by simp
  have lap: "lap_at ok building active kept exact L E repo k a shown (j * k) (s, db)"
    using lap_prefix [OF assms(1,2) j] mid by simp
  have "set (take (Suc j * k) (population repo)) = set (take (j * k) (population repo)) \<union> set ?b"
    using take_add [of "j * k" k "population repo"] by (simp add: add.commute)
  then consider "u \<in> set (take (j * k) (population repo))" | "u \<in> set ?b" using Suc.prems(2) by blast
  then have "sv_cycleRankingFailed s \<or> ta_rankingFailed t"
  proof cases
    case 2
    then show ?thesis
      using batch_refuses [where us = ?b and s = db and t = no_tally and u = u and L = L and E = E and a = a]
        assms(5) lap batch
      by (simp add: processBatch_def lap_at_def)
  qed (use Suc.IH j mid in simp)
  then show ?case
    using lap_call(4) [OF assms(1) lap j batch] mid Suc.prems(1)
    by (simp add: Let_def add.commute after_batch_def)
qed simp

lemma lap_withholds:
  assumes "paged_by E repo k" "lap_at ok building active kept exact L E repo k a shown 0 sd"
    and "u \<in> set (population repo)" "\<And>s. ok s \<Longrightarrow> write_fails L R E a u s"
  shows "\<not> sv_lastRefreshPromoted (fst (refresh_calls L R E (length repo div k + 1) sd))"
proof -
  let ?i = "length repo div k * k"
  let ?b = "take k (drop ?i (population repo))"
  obtain s db where mid: "refresh_calls L R E (length repo div k) sd = (s, db)"
    by (cases "refresh_calls L R E (length repo div k) sd")
  obtain t db1 where batch: "processBatch L R E a ?b db = (t, db1)" by (cases "processBatch L R E a ?b db")
  obtain s' db' where run: "snd (RefreshCache L (Some R) E (s, db)) = (s', db')"
    by (cases "snd (RefreshCache L (Some R) E (s, db))")
  have lap: "lap_at ok building active kept exact L E repo k a shown ?i (s, db)"
    using lap_prefix [OF assms(1,2) last_call(1) [OF assms(1)]] mid by simp
  have "population repo = take ?i (population repo) @ ?b"
    using last_call(2) [OF assms(1)] by (simp add: population_def)
  then consider "u \<in> set (take ?i (population repo))" | "u \<in> set ?b" using assms(3) by (metis Un_iff set_append)
  then have "sv_cycleRankingFailed s \<or> ta_rankingFailed t"
  proof cases
    case 1
    then show ?thesis
      using lap_latches [OF assms(1,2) last_call(1) [OF assms(1)] 1 assms(4)] mid by simp
  next
    case 2
    then show ?thesis
      using batch_refuses [where us = ?b and s = db and t = no_tally and u = u and L = L and E = E and a = a]
        assms(4) lap batch
      by (simp add: processBatch_def lap_at_def)
  qed
  then show ?thesis
    using lap_end(1) [OF assms(1) lap last_call [OF assms(1)] batch run] mid run by auto
qed

text \<open>Laps one after the other: the calls of \<open>m\<close> laps are those of one, \<open>m\<close> times.\<close>

lemma refresh_calls_add: "refresh_calls L R E (m + n) sd = refresh_calls L R E n (refresh_calls L R E m sd)"
  by (induction n) simp_all

lemma laps_withheld:
  assumes "paged_by E repo k" "lap_at ok building active kept exact L E repo k a shown 0 sd"
    and "u \<in> set (population repo)" "\<And>s. ok s \<Longrightarrow> write_fails L R E a u s"
  shows "\<exists>exact. lap_at ok building active kept exact L E repo k a shown 0
           (refresh_calls L R E (m * (length repo div k + 1)) sd)"
proof (induction m)
  case (Suc m)
  let ?n = "length repo div k + 1" and ?sd = "refresh_calls L R E (m * (length repo div k + 1)) sd"
  obtain ex where lap: "lap_at ok building active kept ex L E repo k a shown 0 ?sd" using Suc by blast
  obtain s' db' where run: "refresh_calls L R E ?n ?sd = (s', db')" by (cases "refresh_calls L R E ?n ?sd")
  have "\<not> sv_lastRefreshPromoted s'" using lap_withholds [OF assms(1) lap assms(3,4)] run by simp
  then have "lap_at ok building active kept False L E repo k a shown 0 (s', db')"
    using lap_outcome(2,3) [OF assms(1) lap run] by simp
  moreover have "refresh_calls L R E (Suc m * ?n) sd = (s', db')"
    unfolding mult_Suc add.commute [of ?n] refresh_calls_add [of L E "m * ?n" ?n sd] by (rule run)
  ultimately show ?case by metis
qed (use assms(2) in auto)

text \<open>Whether the store takes the rows of a user, from whether it takes each of them.\<close>

lemma writes_taken:
  assumes "ok s" "\<And>tf s. ok s \<Longrightarrow> fst (refresh_timeframe L R E a u rp tf s) = None"
  shows "fst (foldr then_effect (map (refresh_timeframe L R E a u rp) tfs) no_effect s) = None"
  using assms(1)
proof (induction tfs arbitrary: s)
  case (Cons tf tfs)
  obtain e1 s1 where one: "refresh_timeframe L R E a u rp tf s = (e1, s1)" by (cases "refresh_timeframe L R E a u rp tf s")
  have "ok s1" using refresh_timeframe_touches(1) [OF Cons.prems one] by (simp add: touches_def)
  with Cons.IH [of s1] assms(2) [OF Cons.prems, of tf] one show ?case
    by (simp add: then_effect_def case_prod_beta)
qed (simp add: no_effect_def)

lemma write_refused:
  assumes "ok s" "tf \<in> set tfs" "\<And>s. ok s \<Longrightarrow> fst (refresh_timeframe L R E a u rp tf s) \<noteq> None"
  shows "fst (foldr then_effect (map (refresh_timeframe L R E a u rp) tfs) no_effect s) \<noteq> None"
  using assms(1,2)
proof (induction tfs arbitrary: s)
  case (Cons tf' tfs)
  obtain e1 s1 where one: "refresh_timeframe L R E a u rp tf' s = (e1, s1)" by (cases "refresh_timeframe L R E a u rp tf' s")
  have s1: "ok s1" using refresh_timeframe_touches(1) [OF Cons.prems(1) one] by (simp add: touches_def)
  have "e1 \<noteq> None" if "tf' = tf" using assms(3) [OF Cons.prems(1)] one that by auto
  with Cons.IH [OF s1] Cons.prems(2) one show ?case
    by (auto simp: then_effect_def case_prod_beta split: option.splits)
qed simp

end

end
