(* ===== verification/BoardProjection.thy ===== *)
theory BoardProjection
  imports BoardRefresh
begin

text \<open>
  The PostgreSQL projection as a ranking store: the interpretation of \<open>ranking_store\<close>, the laps on it, the ranks a
  promotion materializes and the board they serve, which is the board ranked live.
\<close>

section \<open>The generations of the table\<close>

definition row_key :: "rankings_row \<Rightarrow> Timeframe \<times> int \<times> string" where
  "row_key r = (rk_timeframe r, rk_generation r, rk_user_id r)"

definition pg_rows :: "board_db \<Rightarrow> int \<Rightarrow> Timeframe \<Rightarrow> string \<Rightarrow> (IndexValue \<times> Ratio) option" where
  "pg_rows db g tf uid =
     map_option (\<lambda>r. (rk_ranked_index r, rk_ranked_return_percentage r)) (find (same_key tf g uid) (db_Rankings db))"

definition pg_building :: "board_db \<Rightarrow> Timeframe \<Rightarrow> string \<Rightarrow> (IndexValue \<times> Ratio) option" where
  "pg_building db = pg_rows db (db_building_generation db)"

definition pg_active :: "board_db \<Rightarrow> Timeframe \<Rightarrow> string \<Rightarrow> (IndexValue \<times> Ratio) option" where
  "pg_active db = pg_rows db (db_active_generation db)"

text \<open>What the columns keep of an index and a return.\<close>

definition kept12 :: "IndexValue \<times> Ratio \<Rightarrow> IndexValue \<times> Ratio" where
  "kept12 ip = (away_places 12 (fst ip), away_places 12 (snd ip))"

text \<open>The primary key holds, no row is of a later generation, and the users, refusals and collation are those given.\<close>

definition pg_ok ::
  "users_row list \<Rightarrow> (statement \<Rightarrow> bool) \<Rightarrow> (string \<Rightarrow> string \<Rightarrow> bool) \<Rightarrow> board_db \<Rightarrow> bool" where
  "pg_ok U refuses collate db =
     (distinct (map row_key (db_Rankings db)) \<and>
      (\<forall>r\<in>set (db_Rankings db). rk_generation r \<le> db_building_generation db) \<and>
      db_active_generation db < db_building_generation db \<and>
      db_Users db = U \<and> db_Refuses db = refuses \<and> db_Collate db = collate)"

lemma same_key_iff: "same_key tf g u r \<longleftrightarrow> row_key r = (tf, g, u)"
  by (auto simp: same_key_def row_key_def)

lemma numeric12_eq: "numeric12 x = Some y \<Longrightarrow> y = away_places 12 x"
  by (auto simp: numeric12_def Let_def split: if_splits)

subsection \<open>Writing a row\<close>

lemma row_key_rnk [simp]: "row_key (r\<lparr>rk_rnk := k\<rparr>) = row_key r"
  by (simp add: row_key_def)

lemma upsert_row_keys:
  "map row_key (upsert_row row rows) =
     (if row_key row \<in> row_key ` set rows then map row_key rows else map row_key rows @ [row_key row])"
proof -
  let ?k = "same_key (rk_timeframe row) (rk_generation row) (rk_user_id row)"
  have k: "?k r \<longleftrightarrow> row_key r = row_key row" for r by (simp add: same_key_iff row_key_def)
  have "list_ex ?k rows \<longleftrightarrow> row_key row \<in> row_key ` set rows"
    by (auto simp: list_ex_iff k) (metis image_eqI)
  then show ?thesis by (auto simp: upsert_row_def k comp_def)
qed

lemma find_map_same:
  assumes "\<And>x. P (f x) = P x"
  shows "find P (map f xs) = map_option f (find P xs)"
  by (induction xs) (auto simp: assms)

lemma find_upsert_row:
  "map_option (\<lambda>r. (rk_ranked_index r, rk_ranked_return_percentage r)) (find (same_key tf g u) (upsert_row row rows)) =
     (if (tf, g, u) = row_key row then Some (rk_ranked_index row, rk_ranked_return_percentage row)
      else map_option (\<lambda>r. (rk_ranked_index r, rk_ranked_return_percentage r)) (find (same_key tf g u) rows))"
proof -
  let ?k = "same_key (rk_timeframe row) (rk_generation row) (rk_user_id row)"
  let ?f = "\<lambda>r. if ?k r then row\<lparr>rk_rnk := rk_rnk r\<rparr> else r"
  have k: "?k r \<longleftrightarrow> row_key r = row_key row" for r by (simp add: same_key_iff row_key_def)
  show ?thesis
  proof (cases "list_ex ?k rows")
    case True
    then obtain q where q: "q \<in> set rows" "row_key q = row_key row" by (auto simp: list_ex_iff k)
    have same: "same_key tf g u (?f r) = same_key tf g u r" for r
      by (simp add: same_key_iff row_key_def)
    have up: "find (same_key tf g u) (upsert_row row rows) = map_option ?f (find (same_key tf g u) rows)"
      using True find_map_same [where P = "same_key tf g u" and f = ?f and xs = rows, OF same]
      by (simp add: upsert_row_def)
    show ?thesis
    proof (cases "(tf, g, u) = row_key row")
      case hit: True
      then obtain r where r: "find (same_key tf g u) rows = Some r"
        using q by (cases "find (same_key tf g u) rows") (auto simp: find_None_iff same_key_iff)
      then have "row_key r = row_key row" using hit by (auto simp: find_Some_iff same_key_iff)
      with hit r show ?thesis by (simp add: up k)
    next
      case False
      have "?f r = r" if "find (same_key tf g u) rows = Some r" for r
      proof -
        have "row_key r = (tf, g, u)" using that by (auto simp: find_Some_iff same_key_iff)
        with False show ?thesis by (simp add: k)
      qed
      with False show ?thesis unfolding up by (cases "find (same_key tf g u) rows") auto
    qed
  next
    case False
    have app: "find P (xs @ [x]) = (case find P xs of None \<Rightarrow> if P x then Some x else None | Some y \<Rightarrow> Some y)"
      for P and xs :: "rankings_row list" and x
      by (induction xs) auto
    have "find (same_key tf g u) rows = None" if "(tf, g, u) = row_key row"
      using False that by (auto simp: list_ex_iff find_None_iff same_key_iff row_key_def [of row])
    then show ?thesis
      using False by (auto simp: upsert_row_def app same_key_iff split: option.splits)
  qed
qed

lemma find_filter_keys:
  "find (same_key tf g u) (filter (\<lambda>r. \<not> same_key tf' g' u' r) rows) =
     (if (tf, g, u) = (tf', g', u') then None else find (same_key tf g u) rows)"
  by (induction rows) (auto simp: same_key_iff)

subsection \<open>Completing a cycle\<close>

lemma materialize_simps [simp]:
  "row_key (materialize db g r) = row_key r" "rk_ranked_index (materialize db g r) = rk_ranked_index r"
  "rk_ranked_return_percentage (materialize db g r) = rk_ranked_return_percentage r"
  "rk_generation (materialize db g r) = rk_generation r" "rk_timeframe (materialize db g r) = rk_timeframe r"
  "rk_user_id (materialize db g r) = rk_user_id r"
  by (simp_all add: materialize_def row_key_def split: option.split)

lemma find_filter_same:
  assumes "\<And>x. P x \<Longrightarrow> Q x"
  shows "find P (filter Q xs) = find P xs"
  by (induction xs) (auto dest: assms)

lemma pg_CompleteCycle_rows:
  assumes "pg_CompleteCycle db = (None, db')"
  shows "db_active_generation db' = db_building_generation db" "pg_active db' = pg_building db"
    "db_Rankings db' = filter (\<lambda>r. \<not> (rk_generation r = db_active_generation db \<and>
       rk_generation r \<noteq> db_building_generation db)) (map (materialize db (db_building_generation db)) (db_Rankings db))"
proof -
  let ?g = "db_building_generation db"
  show gen: "db_active_generation db' = ?g"
    and rows: "db_Rankings db' = filter (\<lambda>r. \<not> (rk_generation r = db_active_generation db \<and>
       rk_generation r \<noteq> ?g)) (map (materialize db ?g) (db_Rankings db))"
    using assms by (auto simp: pg_CompleteCycle_def Let_def split: if_splits)
  have "find (same_key tf ?g u) (db_Rankings db') = map_option (materialize db ?g) (find (same_key tf ?g u) (db_Rankings db))"
    for tf u
  proof -
    have keep: "same_key tf ?g u r \<Longrightarrow> \<not> (rk_generation r = db_active_generation db \<and> rk_generation r \<noteq> ?g)" for r
      by (simp add: same_key_def)
    have "find (same_key tf ?g u) (db_Rankings db') = find (same_key tf ?g u) (map (materialize db ?g) (db_Rankings db))"
      unfolding rows using keep by (rule find_filter_same)
    also have "\<dots> = map_option (materialize db ?g) (find (same_key tf ?g u) (db_Rankings db))"
      by (rule find_map_same) (simp add: same_key_iff)
    finally show ?thesis .
  qed
  then show "pg_active db' = pg_building db"
    unfolding pg_active_def pg_building_def gen
    by (intro ext) (simp add: pg_rows_def option.map_comp comp_def)
qed

interpretation pg: ranking_store NewPostgresRankingStore "pg_ok U refuses collate" pg_building pg_active kept12
  for U refuses collate
proof unfold_locales
  fix s s' :: board_db and tf u i p t e
  show "pg_ok U refuses collate s' \<and> pg_active s' = pg_active s \<and>
        pg_building s' = (pg_building s)(tf := (pg_building s tf)(u \<mapsto> kept12 (i, p)))"
    if ok: "pg_ok U refuses collate s" and run: "rs_Upsert NewPostgresRankingStore tf u i p t s = (None, s')"
  proof -
    obtain i' p' where nums: "numeric12 i = Some i'" "numeric12 p = Some p'"
      and s': "s' = s\<lparr>db_Rankings := upsert_row
                   \<lparr>rk_user_id = u, rk_timeframe = tf, rk_generation = db_building_generation s,
                    rk_ranked_index = i', rk_ranked_return_percentage = p',
                    rk_tracking_started_at = t, rk_computed_at = db_now s,
                    rk_rnk = None\<rparr> (db_Rankings s)\<rparr>"
      using run by (auto simp: NewPostgresRankingStore_def pg_Upsert_def split: if_splits option.splits)
    let ?row = "\<lparr>rk_user_id = u, rk_timeframe = tf, rk_generation = db_building_generation s,
                 rk_ranked_index = i', rk_ranked_return_percentage = p', rk_tracking_started_at = t,
                 rk_computed_at = db_now s, rk_rnk = None\<rparr>"
    have key: "row_key ?row = (tf, db_building_generation s, u)" by (simp add: row_key_def)
    have kept: "kept12 (i, p) = (i', p')" using nums [THEN numeric12_eq] by (simp add: kept12_def)
    have gens: "rk_generation r \<le> db_building_generation s"
      if "r \<in> set (upsert_row ?row (db_Rankings s))" for r
    proof -
      have "row_key r \<in> set (map row_key (upsert_row ?row (db_Rankings s)))" using that by simp
      then have "row_key r = row_key ?row \<or> row_key r \<in> row_key ` set (db_Rankings s)"
        unfolding upsert_row_keys by (auto split: if_splits)
      then show ?thesis using ok by (auto simp: pg_ok_def row_key_def)
    qed
    have "pg_ok U refuses collate s'"
      using ok gens by (simp add: s' pg_ok_def upsert_row_keys)
    moreover have "pg_active s' = pg_active s"
      using ok by (intro ext) (simp add: pg_active_def pg_rows_def s' find_upsert_row key pg_ok_def)
    moreover have "pg_building s' = (pg_building s)(tf := (pg_building s tf)(u \<mapsto> kept12 (i, p)))"
      by (intro ext) (simp add: pg_building_def pg_rows_def s' find_upsert_row key kept)
    ultimately show ?thesis by blast
  qed
  show "pg_ok U refuses collate s' \<and> pg_active s' = pg_active s \<and>
        pg_building s' = (pg_building s)(tf := (pg_building s tf)(u := None))"
    if ok: "pg_ok U refuses collate s" and run: "rs_Delete NewPostgresRankingStore tf u s = (None, s')"
  proof -
    have s': "s' = s\<lparr>db_Rankings := filter (\<lambda>r. \<not> same_key tf (db_building_generation s) u r) (db_Rankings s)\<rparr>"
      using run by (auto simp: NewPostgresRankingStore_def pg_Delete_def split: if_splits)
    have "pg_ok U refuses collate s'" using ok by (auto simp: s' pg_ok_def distinct_map_filter)
    moreover have "pg_active s' = pg_active s"
      using ok by (intro ext) (simp add: pg_active_def pg_rows_def s' find_filter_keys pg_ok_def)
    moreover have "pg_building s' = (pg_building s)(tf := (pg_building s tf)(u := None))"
      by (intro ext) (simp add: pg_building_def pg_rows_def s' find_filter_keys)
    ultimately show ?thesis by blast
  qed
  show "pg_ok U refuses collate s' \<and> pg_active s' = pg_building s \<and> pg_building s' = (\<lambda>_. Map.empty)"
    if ok: "pg_ok U refuses collate s" and run: "rs_CompleteCycle NewPostgresRankingStore s = (None, s')"
  proof -
    have run: "pg_CompleteCycle s = (None, s')" using run by (simp add: NewPostgresRankingStore_def)
    note rows = pg_CompleteCycle_rows [OF run]
    have others: "db_Users s' = db_Users s" "db_Refuses s' = db_Refuses s" "db_Collate s' = db_Collate s"
      "db_building_generation s' = db_building_generation s + 1"
      using run by (auto simp: pg_CompleteCycle_def Let_def split: if_splits)
    have keys: "map row_key (map (materialize s g) xs) = map row_key xs" for g xs by simp
    have "pg_ok U refuses collate s'"
      using ok unfolding pg_ok_def rows(1,3) others
      by (auto intro!: distinct_map_filter simp: keys comp_def)
    moreover have "pg_building s' = (\<lambda>_. Map.empty)"
    proof (intro ext)
      fix tf u
      have "\<not> same_key tf (db_building_generation s + 1) u r" if "r \<in> set (db_Rankings s')" for r
        using that ok unfolding rows(3) by (auto simp: pg_ok_def same_key_def)
      then have "find (same_key tf (db_building_generation s + 1) u) (db_Rankings s') = None"
        by (simp add: find_None_iff)
      then show "pg_building s' tf u = None" by (simp add: pg_building_def pg_rows_def others)
    qed
    ultimately show ?thesis using rows(2) by blast
  qed
  show "rs_Upsert NewPostgresRankingStore tf u i p t s = (Some e, s') \<Longrightarrow> s' = s"
    by (auto simp: NewPostgresRankingStore_def pg_Upsert_def split: if_splits option.splits)
  show "rs_Delete NewPostgresRankingStore tf u s = (Some e, s') \<Longrightarrow> s' = s"
    by (auto simp: NewPostgresRankingStore_def pg_Delete_def split: if_splits)
  show "rs_CompleteCycle NewPostgresRankingStore s = (Some e, s') \<Longrightarrow> s' = s"
    by (auto simp: NewPostgresRankingStore_def pg_CompleteCycle_def Let_def split: if_splits)
qed

section \<open>Rows the columns can hold\<close>

definition fits_columns :: "Ratio \<times> IndexValue \<Rightarrow> bool" where
  "fits_columns ri =
     (numeric12 (fst ri) \<noteq> None \<and> (case numeric12 (snd ri) of None \<Rightarrow> False | Some i \<Rightarrow> 0 < i))"

definition storable :: "declib \<Rightarrow> BoardEnv \<Rightarrow> int \<Rightarrow> string \<Rightarrow> bool" where
  "storable L E a uid =
     (case be_CurrentRankedPerformance E uid of
        Inl _ \<Rightarrow> True
      | Inr rp \<Rightarrow> bp_Paused rp \<or>
          list_all (\<lambda>tf. case timeframeReturn L E a uid rp tf of None \<Rightarrow> True | Some ri \<Rightarrow> fits_columns ri)
            allTimeframes)"

lemma all_timeframes [simp]: "tf \<in> set allTimeframes"
  by (cases tf) (simp_all add: allTimeframes_def)

lemma storable_write:
  assumes "storable L E a (rku_ID u)" "pg_ok U (\<lambda>_. False) collate s" "rku_ID u \<in> us_id ` set U"
  shows "\<not> write_fails L NewPostgresRankingStore E a u s"
proof (cases "be_CurrentRankedPerformance E (rku_ID u)")
  case (Inr rp)
  show ?thesis
  proof (cases "bp_Paused rp")
    case False
    have "fst (refresh_timeframe L NewPostgresRankingStore E a (rku_ID u) rp tf s') = None"
      if "pg_ok U (\<lambda>_. False) collate s'" for tf s'
    proof -
      have fits: "fits_columns (p, i)" if "timeframeReturn L E a (rku_ID u) rp tf = Some (p, i)" for p i
      proof -
        have "case timeframeReturn L E a (rku_ID u) rp tf of None \<Rightarrow> True | Some ri \<Rightarrow> fits_columns ri"
          using assms(1) Inr False by (auto simp: storable_def list_all_iff)
        with that show ?thesis by simp
      qed
      have no: "db_Refuses s' = (\<lambda>_. False)" "db_Users s' = U" using that by (simp_all add: pg_ok_def)
      show ?thesis
        using fits no assms(3)
        by (auto simp: refresh_timeframe_def NewPostgresRankingStore_def pg_Delete_def pg_Upsert_def fits_columns_def
              split: option.splits)
    qed
    from pg.writes_taken [OF assms(2) this] Inr False show ?thesis
      by (simp add: write_fails_def refreshRankingRows_def)
  qed (simp add: write_fails_def Inr)
qed (simp add: write_fails_def)

lemma unstorable_write:
  assumes "be_CurrentRankedPerformance E (rku_ID u) = Inr rp" "\<not> bp_Paused rp" "away_places 12 (bp_RankedIndex rp) \<le> 0"
    and "pg_ok U refuses collate s"
  shows "write_fails L NewPostgresRankingStore E a u s"
proof -
  have "fst (refresh_timeframe L NewPostgresRankingStore E a (rku_ID u) rp TimeframeAll s') \<noteq> None" for s'
    using assms(3) numeric12_eq [of "bp_RankedIndex rp"]
    by (auto simp: refresh_timeframe_def timeframeReturn_def NewPostgresRankingStore_def pg_Upsert_def split: option.splits)
  from pg.write_refused [OF assms(4) all_timeframes this] assms(1,2) show ?thesis
    by (auto simp: write_fails_def refreshRankingRows_def)
qed

section \<open>Laps\<close>

definition lap_start :: "nat \<Rightarrow> BoardService \<Rightarrow> bool" where
  "lap_start k s = (sv_refreshBatchSize s = int k \<and> sv_refreshCursorID s = [])"

lemma lap_start_at:
  assumes "lap_start k s" "pg_ok U refuses collate db" "exact \<longrightarrow> pg_building db = (\<lambda>_. Map.empty)"
  shows "lap_at (pg_ok U refuses collate) pg_building pg_active kept12 exact L E repo k (sv_maxSnapshotAge s)
           (pg_active db) 0 (s, db)"
  using assms by (simp add: lap_at_def lap_start_def cursor_at_def)

abbreviation postgres_calls ::
  "declib \<Rightarrow> BoardEnv \<Rightarrow> nat \<Rightarrow> BoardService \<times> board_db \<Rightarrow> BoardService \<times> board_db" where
  "postgres_calls L E \<equiv> refresh_calls L NewPostgresRankingStore E"

lemma pg_laps:
  assumes "paged_by E repo k" "lap_start k s" "\<not> sv_cycleRankingFailed s"
    and "pg_ok U (\<lambda>_. False) collate db" "pg_building db = (\<lambda>_. Map.empty)"
    and "\<forall>u\<in>set repo. usr_ID u \<in> us_id ` set U \<and> storable L E (sv_maxSnapshotAge s) (usr_ID u)"
  shows "\<exists>s' db'. postgres_calls L E ((n + 1) * (length repo div k + 1)) (s, db) = (s', db') \<and>
     sv_lastRefreshPromoted s' \<and> \<not> sv_cycleRankingFailed s' \<and>
     pg_active db' = board_rows L kept12 E (sv_maxSnapshotAge s) (population repo) \<and>
     lap_at (pg_ok U (\<lambda>_. False) collate) pg_building pg_active kept12 True L E repo k (sv_maxSnapshotAge s)
       (pg_active db') 0 (s', db') \<and>
     (\<exists>last_db. pg_ok U (\<lambda>_. False) collate last_db \<and> pg_CompleteCycle last_db = (None, db'))"
proof -
  let ?a = "sv_maxSnapshotAge s" and ?m = "length repo div k + 1"
  let ?lap = "lap_at (pg_ok U (\<lambda>_. False) collate) pg_building pg_active kept12 True L E repo k ?a"
  have taken: "\<not> write_fails L NewPostgresRankingStore E ?a u s'"
    if "u \<in> set (population repo)" "pg_ok U (\<lambda>_. False) collate s'" for u s'
  proof (rule storable_write [OF _ that(2)])
    have "rku_ID u \<in> usr_ID ` set repo" using that(1) population_ids(1) [of repo] by force
    then show "storable L E ?a (rku_ID u)" "rku_ID u \<in> us_id ` set U" using assms(6) by auto
  qed
  have cycles: "fst (rs_CompleteCycle NewPostgresRankingStore s') = None" if "pg_ok U (\<lambda>_. False) collate s'" for s'
    using that by (simp add: NewPostgresRankingStore_def pg_CompleteCycle_def pg_ok_def Let_def)
  have lap: "\<exists>s' db'. postgres_calls L E ?m (s1, db1) = (s', db') \<and> sv_lastRefreshPromoted s' \<and>
      \<not> sv_cycleRankingFailed s' \<and> pg_active db' = board_rows L kept12 E ?a (population repo) \<and>
      ?lap (pg_active db') 0 (s', db') \<and>
      (\<exists>last_db. pg_ok U (\<lambda>_. False) collate last_db \<and> pg_CompleteCycle last_db = (None, db'))"
    if "?lap shown 0 (s1, db1)" "\<not> sv_cycleRankingFailed s1" for shown s1 db1
  proof -
    obtain s' db' where run: "postgres_calls L E ?m (s1, db1) = (s', db')" by (cases "postgres_calls L E ?m (s1, db1)")
    have promoted: "sv_lastRefreshPromoted s'"
      using pg.lap_promotes [OF assms(1) that(1) _ taken cycles] that(2) run by simp
    note out = pg.lap_outcome [OF assms(1) that(1) run]
    show ?thesis
      using run promoted out(1) [OF TrueI promoted] out(3,4) out(5) [OF promoted]
      by (auto simp: NewPostgresRankingStore_def)
  qed
  show ?thesis
  proof (induction n)
    case 0
    show ?case
      using lap [OF lap_start_at [OF assms(2,4)]] assms(3,5) by simp
  next
    case (Suc n)
    then obtain s' db' where mid: "postgres_calls L E ((n + 1) * ?m) (s, db) = (s', db')"
      "\<not> sv_cycleRankingFailed s'" "?lap (pg_active db') 0 (s', db')" by auto
    have "(Suc n + 1) * ?m = (n + 1) * ?m + ?m" by simp
    then show ?case
      unfolding \<open>(Suc n + 1) * ?m = (n + 1) * ?m + ?m\<close> pg.refresh_calls_add [of L E "(n + 1) * ?m" ?m] mid(1)
      using lap [OF mid(3,2)] by simp
  qed
qed

end
