(* ===== verification/BoardServed.thy ===== *)
theory BoardServed
  imports BoardProjection
begin

text \<open>
  What a promotion materializes, and the board it serves. The rank a row is given by the window function of the
  promotion is its position in the sort of the live path, so that the pages of a promoted generation are the live
  board, cut at the page size.
\<close>

section \<open>More on sorted lists\<close>

lemma isort_cong:
  assumes "\<And>a b. a \<in> set xs \<Longrightarrow> b \<in> set xs \<Longrightarrow> lt a b = lt' a b"
  shows "isort lt xs = isort lt' xs"
proof -
  have ins: "insort_by lt x ys = insort_by lt' x ys" if "\<And>y. y \<in> set ys \<Longrightarrow> lt y x = lt' y x" for x ys
    using that by (induction ys) auto
  from assms show ?thesis
  proof (induction xs)
    case (Cons x xs)
    then have "isort lt xs = isort lt' xs" by simp
    with Cons.prems ins [of "isort lt' xs" x] show ?case by simp
  qed simp
qed

lemma length_filter_strict:
  "(\<And>x. P x \<Longrightarrow> Q x) \<Longrightarrow> y \<in> set xs \<Longrightarrow> Q y \<Longrightarrow> \<not> P y \<Longrightarrow> length (filter P xs) < length (filter Q xs)"
proof (induction xs)
  case (Cons x xs)
  have le: "length (filter P xs) \<le> length (filter Q xs)" using Cons.prems(1) by (induction xs) auto
  show ?case using Cons le by (cases "y = x") auto
qed simp

context row_order
begin

lemma sorted_same_rows:
  "sorted_wrt (\<lambda>a b. \<not> lt b a) xs \<Longrightarrow> sorted_wrt (\<lambda>a b. \<not> lt b a) ys \<Longrightarrow> mset xs = mset ys \<Longrightarrow>
   (\<And>a b. a \<in> set xs \<Longrightarrow> b \<in> set xs \<Longrightarrow> a \<noteq> b \<Longrightarrow> lt a b \<or> lt b a) \<Longrightarrow> xs = ys"
proof (induction xs arbitrary: ys)
  case (Cons x xs)
  obtain y zs where ys: "ys = y # zs" using Cons.prems(3) by (cases ys) auto
  have same: "set (x # xs) = set ys" using Cons.prems(3) by (rule mset_eq_setD)
  have "x = y"
  proof (rule ccontr)
    assume "x \<noteq> y"
    then have "y \<in> set xs" "x \<in> set zs" using same ys by auto
    then have "\<not> lt y x" "\<not> lt x y" using Cons.prems(1,2) ys by auto
    with Cons.prems(4) [of x y] \<open>x \<noteq> y\<close> \<open>y \<in> set xs\<close> show False by simp
  qed
  moreover from this have "xs = zs"
    using Cons.prems ys by (intro Cons.IH) auto
  ultimately show ?case by (simp add: ys)
qed simp

lemma isort_mset:
  assumes "mset xs = mset ys" "\<And>a b. a \<in> set xs \<Longrightarrow> b \<in> set xs \<Longrightarrow> a \<noteq> b \<Longrightarrow> lt a b \<or> lt b a"
  shows "isort lt xs = isort lt ys"
  by (rule sorted_same_rows) (simp_all add: sorted_isort assms)

lemma before_iff_count:
  assumes "a \<in> set xs" "b \<in> set xs" "a \<noteq> b \<Longrightarrow> lt a b \<or> lt b a"
  shows "length (filter (\<lambda>x. lt x a) xs) < length (filter (\<lambda>x. lt x b) xs) \<longleftrightarrow> lt a b"
proof -
  have less: "length (filter (\<lambda>x. lt x c) xs) < length (filter (\<lambda>x. lt x d) xs)" if "c \<in> set xs" "lt c d" for c d
    using that irrefl transitive by (intro length_filter_strict [of _ _ c]) blast+
  show ?thesis
    using less [of a b] less [of b a] assms irrefl by (cases "a = b") fastforce+
qed

lemma position_counts:
  assumes "distinct xs" "\<And>a b. a \<in> set xs \<Longrightarrow> b \<in> set xs \<Longrightarrow> a \<noteq> b \<Longrightarrow> lt a b \<or> lt b a" "i < length xs"
  shows "length (filter (\<lambda>x. lt x (isort lt xs ! i)) xs) = i"
  using rank_of_row [OF assms] assms(1) distinct_card [of "filter (\<lambda>x. lt x (isort lt xs ! i)) xs"] by simp

end

section \<open>The rows of a generation\<close>

lemma generation_rows_mem:
  "(r, u) \<in> set (generation_rows db tf g) \<longleftrightarrow>
     r \<in> set (db_Rankings db) \<and> rk_timeframe r = tf \<and> rk_generation r = g \<and> live_user db (rk_user_id r) = Some u"
proof -
  have m: "y \<in> set (List.map_filter f xs) \<longleftrightarrow> (\<exists>x\<in>set xs. f x = Some y)" for f and xs :: "rankings_row list" and y
    by (induction xs) (auto simp: List.map_filter_simps split: option.split)
  show ?thesis by (auto simp: generation_rows_def m split: if_splits)
qed

lemma generation_rows_distinct:
  assumes "distinct (map row_key (db_Rankings db))"
  shows "distinct (map (\<lambda>x. rk_user_id (fst x)) (generation_rows db tf g))"
proof -
  define live where "live = live_user db"
  let ?G = "\<lambda>rows. List.map_filter (\<lambda>r. if rk_timeframe r = tf \<and> rk_generation r = g
                          then map_option (\<lambda>u. (r, u)) (live (rk_user_id r)) else None) rows"
  have mem: "(r, u) \<in> set (?G rows) \<Longrightarrow> r \<in> set rows \<and> rk_timeframe r = tf \<and> rk_generation r = g" for r u rows
    by (auto simp: List.map_filter_def split: if_splits)
  have "distinct (map row_key rows) \<Longrightarrow> distinct (map (\<lambda>x. rk_user_id (fst x)) (?G rows))" for rows
  proof (induction rows)
    case (Cons r rows)
    have ne: "rk_user_id (fst x) \<noteq> rk_user_id r" if "x \<in> set (?G rows)" "rk_timeframe r = tf" "rk_generation r = g" for x
    proof -
      have x: "fst x \<in> set rows" "rk_timeframe (fst x) = tf" "rk_generation (fst x) = g"
        using mem [of "fst x" "snd x" rows] that(1) by simp_all
      have "row_key (fst x) \<in> set (map row_key rows)" using x(1) by simp
      then have "row_key (fst x) \<noteq> row_key r" using Cons.prems by auto
      with x that show ?thesis by (simp add: row_key_def)
    qed
    have fresh: "rk_user_id r \<notin> (\<lambda>x. rk_user_id (fst x)) ` set (?G rows)" if "rk_timeframe r = tf" "rk_generation r = g"
    proof
      assume "rk_user_id r \<in> (\<lambda>x. rk_user_id (fst x)) ` set (?G rows)"
      then obtain x where "rk_user_id r = rk_user_id (fst x)" "x \<in> set (?G rows)" by (rule imageE)
      with ne [OF _ that, of x] show False by simp
    qed
    show ?case
    proof (cases "rk_timeframe r = tf \<and> rk_generation r = g")
      case True
      with fresh Cons show ?thesis
        by (cases "live (rk_user_id r)") (simp_all add: List.map_filter_simps)
    qed (use Cons in \<open>auto simp: List.map_filter_simps\<close>)
  qed (simp add: List.map_filter_simps)
  from this [OF assms] show ?thesis unfolding generation_rows_def live_def .
qed

lemma generation_rows_promoted:
  assumes "pg_CompleteCycle db = (None, db')"
  shows "generation_rows db' tf (db_active_generation db') =
     map (\<lambda>(r, u). (materialize db (db_building_generation db) r, u))
       (generation_rows db tf (db_building_generation db))"
proof -
  let ?g = "db_building_generation db" and ?p = "db_active_generation db"
  note rows = pg_CompleteCycle_rows [OF assms]
  have users: "live_user db' = live_user db"
    using assms by (intro ext) (auto simp: live_user_def pg_CompleteCycle_def Let_def split: if_splits)
  have "List.map_filter (\<lambda>r. if rk_timeframe r = tf \<and> rk_generation r = ?g
            then map_option (\<lambda>u. (r, u)) (live_user db (rk_user_id r)) else None)
          (filter (\<lambda>r. \<not> (rk_generation r = ?p \<and> rk_generation r \<noteq> ?g)) (map (materialize db ?g) xs)) =
        map (\<lambda>(r, u). (materialize db ?g r, u))
          (List.map_filter (\<lambda>r. if rk_timeframe r = tf \<and> rk_generation r = ?g
            then map_option (\<lambda>u. (r, u)) (live_user db (rk_user_id r)) else None) xs)" for xs
    by (induction xs) (auto simp: List.map_filter_simps split: option.split)
  then show ?thesis
    unfolding generation_rows_def rows(1,3) users .
qed

section \<open>The page served\<close>

definition plain_row :: "rankings_row \<times> users_row \<Rightarrow> boardRow" where
  "plain_row x =
     \<lparr>rkr_userID = rk_user_id (fst x),
      rkr_entry = rankedEntry 0 (us_display_name (snd x)) (us_avatar_key (snd x))
                    (rk_ranked_return_percentage (fst x)) (rk_ranked_index (fst x)),
      rkr_returnPct = rk_ranked_return_percentage (fst x), rkr_rankedIndex = rk_ranked_index (fst x)\<rparr>"

lemma pg_TopPage_eq:
  assumes "\<not> db_Refuses db StmtTopPage" "0 \<le> limit"
  shows "pg_TopPage tf limit db = Inr (map (\<lambda>x. set_rank (rnk_of x) (plain_row x))
     (take (nat limit) (isort (\<lambda>a b. rnk_of a < rnk_of b)
        (filter (\<lambda>(r, u). rk_rnk r \<noteq> None) (generation_rows db tf (db_active_generation db))))))"
  using assms by (simp add: pg_TopPage_def case_prod_beta plain_row_def set_rank_def rankedEntry_def)

abbreviation sql_score :: "rankings_row \<times> users_row \<Rightarrow> rankings_row \<times> users_row \<Rightarrow> bool" where
  "sql_score \<equiv> by_score (\<lambda>x. rk_ranked_return_percentage (fst x)) (\<lambda>x. us_display_name (snd x)) (\<lambda>x. rk_user_id (fst x))"

lemma sql_before_eq: "db_Collate db = str_less \<Longrightarrow> sql_before db = sql_score"
  by (intro ext) (simp add: sql_before_def by_score_def case_prod_beta Let_def)

lemma served_page:
  assumes "decimal_lib L" "pg_CompleteCycle db = (None, db')" "distinct (map row_key (db_Rankings db))"
    and "db_Collate db = str_less" "\<not> db_Refuses db StmtTopPage" "0 \<le> limit"
  shows "pg_TopPage tf limit db' =
     Inr (take (nat limit) (sortRankedRows L (map plain_row (generation_rows db tf (db_building_generation db)))))"
proof -
  let ?g = "db_building_generation db"
  let ?G = "generation_rows db tf ?g" and ?m = "\<lambda>(r, u). (materialize db ?g r, u)"
  have ids: "distinct (map (\<lambda>x. rk_user_id (fst x)) ?G)" using assms(3) by (rule generation_rows_distinct)
  have dG: "distinct ?G" using ids by (simp add: distinct_map)
  have total_G: "sql_score a b \<or> sql_score b a" if "a \<in> set ?G" "b \<in> set ?G" "a \<noteq> b" for a b
    using that ids by (intro by_score_total) (auto simp: distinct_map inj_on_def)
  have mat: "rk_rnk (fst (?m x)) = Some (1 + int (length (filter (\<lambda>y. sql_score y x) ?G)))" if "x \<in> set ?G" for x
  proof -
    obtain r u where x: "x = (r, u)" by (cases x)
    then have "rk_timeframe r = tf" "rk_generation r = ?g" "live_user db (rk_user_id r) = Some u"
      using that by (simp_all add: generation_rows_mem)
    then show ?thesis
      by (simp add: x materialize_def window_rank_def sql_before_eq [OF assms(4)])
  qed
  have some: "filter (\<lambda>(r, u). rk_rnk r \<noteq> None) (map ?m ?G) = map ?m ?G"
    using mat by (auto simp: filter_id_conv case_prod_beta)
  have rnk: "rnk_of (?m x) = 1 + int (length (filter (\<lambda>y. sql_score y x) ?G))" if "x \<in> set ?G" for x
    using mat [OF that] by (simp add: rnk_of_def)
  have order: "isort (\<lambda>a b. rnk_of a < rnk_of b) (map ?m ?G) = map ?m (isort sql_score ?G)"
  proof -
    have "isort (\<lambda>a b. rnk_of (?m a) < rnk_of (?m b)) ?G = isort sql_score ?G"
    proof (rule isort_cong)
      fix a b assume ab: "a \<in> set ?G" "b \<in> set ?G"
      show "(rnk_of (?m a) < rnk_of (?m b)) = sql_score a b"
        unfolding rnk [OF ab(1)] rnk [OF ab(2)] using score.before_iff_count [OF ab total_G [OF ab]] by simp
    qed
    then show ?thesis
      using isort_map [of "\<lambda>a b. rnk_of a < rnk_of b" ?m "\<lambda>a b. rnk_of (?m a) < rnk_of (?m b)" ?G] by simp
  qed
  have plain: "isort (row_before L) (map plain_row ?G) = map plain_row (isort sql_score ?G)"
    unfolding row_before_eq [OF assms(1)]
    by (rule isort_map) (simp add: by_score_def plain_row_def rankedEntry_def)
  have page: "map (\<lambda>x. set_rank (rnk_of x) (plain_row x)) (map ?m (isort sql_score ?G)) =
      sortRankedRows L (map plain_row ?G)"
  proof (rule nth_equalityI)
    fix i assume "i < length (map (\<lambda>x. set_rank (rnk_of x) (plain_row x)) (map ?m (isort sql_score ?G)))"
    then have i: "i < length ?G" by simp
    then have mem: "isort sql_score ?G ! i \<in> set ?G" using nth_mem [of i "isort sql_score ?G"] by simp
    have "plain_row (?m x) = plain_row x" for x
      by (simp add: plain_row_def case_prod_beta)
    then show "map (\<lambda>x. set_rank (rnk_of x) (plain_row x)) (map ?m (isort sql_score ?G)) ! i =
        sortRankedRows L (map plain_row ?G) ! i"
      using i score.position_counts [OF dG total_G i] by (simp add: sortRankedRows_nth plain rnk [OF mem] add.commute)
  qed simp
  have "\<not> db_Refuses db' StmtTopPage"
    using assms(2,5) by (auto simp: pg_CompleteCycle_def Let_def split: if_splits)
  then show ?thesis
    unfolding pg_TopPage_eq [OF \<open>\<not> db_Refuses db' StmtTopPage\<close> assms(6)] generation_rows_promoted [OF assms(2)]
      some order page [symmetric] by (simp add: take_map)
qed

section \<open>The rows of a complete generation\<close>

text \<open>The users of the table are those the provider lists, by their current names.\<close>

definition users_agree :: "user_row list \<Rightarrow> board_db \<Rightarrow> bool" where
  "users_agree repo db =
     list_all (\<lambda>u. case live_user db (usr_ID u) of
         None \<Rightarrow> False
       | Some v \<Rightarrow> us_display_name v = usr_DisplayName u \<and> us_avatar_key v = usr_AvatarKey u) repo"

lemma users_agree_live:
  "users_agree repo db \<Longrightarrow> u \<in> set repo \<Longrightarrow>
     \<exists>v. live_user db (usr_ID u) = Some v \<and> us_display_name v = usr_DisplayName u \<and> us_avatar_key v = usr_AvatarKey u"
  by (auto simp: users_agree_def list_all_iff split: option.splits)

text \<open>Every return and index a user is ranked by has at most the twelve places of its column.\<close>

definition exact_rows :: "declib \<Rightarrow> BoardEnv \<Rightarrow> int \<Rightarrow> user_row list \<Rightarrow> bool" where
  "exact_rows L E a repo =
     list_all (\<lambda>u. list_all (\<lambda>tf. case be_CurrentRankedPerformance E (usr_ID u) of
         Inl _ \<Rightarrow> True
       | Inr rp \<Rightarrow> (case timeframeReturn L E a (usr_ID u) rp tf of
                     None \<Rightarrow> True | Some (p, i) \<Rightarrow> kept12 (i, p) = (i, p))) allTimeframes) repo"

lemma exact_rows_kept:
  "exact_rows L E a repo \<Longrightarrow> u \<in> set repo \<Longrightarrow> be_CurrentRankedPerformance E (usr_ID u) = Inr rp \<Longrightarrow>
     timeframeReturn L E a (usr_ID u) rp tf = Some (p, i) \<Longrightarrow> kept12 (i, p) = (i, p)"
  using all_timeframes [of tf] unfolding exact_rows_def list_all_iff by fastforce

definition bare_row :: "RankableUser \<Rightarrow> Ratio \<Rightarrow> IndexValue \<Rightarrow> boardRow" where
  "bare_row u p i =
     \<lparr>rkr_userID = rku_ID u, rkr_entry = rankedEntry 0 (rku_DisplayName u) (rku_AvatarKey u) p i,
      rkr_returnPct = p, rkr_rankedIndex = i\<rparr>"

definition enrich_row :: "BoardEnv \<Rightarrow> boardRow \<Rightarrow> boardRow" where
  "enrich_row E r = r\<lparr>rkr_entry := enrich E (rkr_userID r) (rkr_entry r)\<rparr>"

text \<open>The live rows before profiles are joined.\<close>

definition bare_rows :: "declib \<Rightarrow> BoardEnv \<Rightarrow> int \<Rightarrow> Timeframe \<Rightarrow> RankableUser list \<Rightarrow> boardRow list" where
  "bare_rows L E a tf us =
     List.map_filter (\<lambda>u. case be_CurrentRankedPerformance E (rku_ID u) of
         Inl _ \<Rightarrow> None
       | Inr rp \<Rightarrow> if bp_Paused rp then None
                   else map_option (\<lambda>(p, i). bare_row u p i) (timeframeReturn L E a (rku_ID u) rp tf)) us"

lemma live_rows_bare: "fst (live_rows L E a tf us) = map (enrich_row E) (bare_rows L E a tf us)"
proof (induction us)
  case (Cons u us)
  have one: "live_row L E a tf u rp =
      (if bp_Paused rp then None
       else map_option (\<lambda>(p, i). enrich_row E (bare_row u p i)) (timeframeReturn L E a (rku_ID u) rp tf))" for rp
    by (auto simp: live_row_def enrich_row_def bare_row_def split: option.split)
  show ?case
    unfolding live_rows_Cons using Cons one
    by (auto simp: bare_rows_def List.map_filter_simps split: sum.split option.split)
qed (simp add: bare_rows_def List.map_filter_simps)

lemma enrich_row_ids [simp]:
  "rkr_userID (enrich_row E r) = rkr_userID r" "rkr_returnPct (enrich_row E r) = rkr_returnPct r"
  "lbe_DisplayName (rkr_entry (enrich_row E r)) = lbe_DisplayName (rkr_entry r)"
  by (auto simp: enrich_row_def enrich_def apply_info_def Let_def split: option.split sum.split)

lemma enrich_row_rank: "enrich_row E (set_rank k r) = set_rank k (enrich_row E r)"
  by (auto simp: enrich_row_def set_rank_def enrich_def apply_info_def Let_def split: option.split sum.split)

lemma sort_enriched: "sortRankedRows L (map (enrich_row E) rows) = map (enrich_row E) (sortRankedRows L rows)"
proof -
  have "isort (row_before L) (map (enrich_row E) rows) = map (enrich_row E) (isort (row_before L) rows)"
    by (rule isort_map) (simp add: row_before_def Let_def)
  then show ?thesis
    by (intro nth_equalityI) (simp_all add: sortRankedRows_nth enrich_row_rank)
qed

lemma bare_rows_mem:
  "x \<in> set (bare_rows L E a tf us) \<longleftrightarrow>
     (\<exists>u\<in>set us. \<exists>rp p i. be_CurrentRankedPerformance E (rku_ID u) = Inr rp \<and> \<not> bp_Paused rp \<and>
        timeframeReturn L E a (rku_ID u) rp tf = Some (p, i) \<and> x = bare_row u p i)"
proof -
  have m: "y \<in> set (List.map_filter f xs) \<longleftrightarrow> (\<exists>x\<in>set xs. f x = Some y)" for f and xs :: "RankableUser list" and y
    by (induction xs) (auto simp: List.map_filter_simps split: option.split)
  show ?thesis unfolding bare_rows_def m by (intro bex_cong refl) (auto split: sum.splits)
qed

lemma bare_rows_distinct:
  assumes "distinct (map rku_ID us)"
  shows "distinct (map rkr_userID (bare_rows L E a tf us))"
proof -
  have "map rkr_userID (bare_rows L E a tf us) = map rkr_userID (fst (live_rows L E a tf us))"
    by (simp add: live_rows_bare comp_def)
  then show ?thesis using live_rows_distinct [OF assms] by metis
qed

lemma pg_building_mem:
  assumes "distinct (map row_key (db_Rankings db))"
  shows "pg_building db tf uid = Some (i, p) \<longleftrightarrow>
    (\<exists>r\<in>set (db_Rankings db). row_key r = (tf, db_building_generation db, uid) \<and>
       rk_ranked_index r = i \<and> rk_ranked_return_percentage r = p)"
proof -
  have one: "r = r'" if "r \<in> set (db_Rankings db)" "r' \<in> set (db_Rankings db)" "row_key r = row_key r'" for r r'
    using assms that by (auto simp: distinct_map inj_on_def)
  let ?f = "find (same_key tf (db_building_generation db) uid) (db_Rankings db)"
  show ?thesis
  proof (cases ?f)
    case None
    then have "\<forall>r\<in>set (db_Rankings db). row_key r \<noteq> (tf, db_building_generation db, uid)"
      by (simp add: find_None_iff same_key_iff)
    moreover have "pg_building db tf uid = None" using None by (simp add: pg_building_def pg_rows_def)
    ultimately show ?thesis by auto
  next
    case (Some r)
    then have r: "r \<in> set (db_Rankings db)" "row_key r = (tf, db_building_generation db, uid)"
      by (auto simp: find_Some_iff same_key_iff)
    have "q = r" if "q \<in> set (db_Rankings db)" "row_key q = (tf, db_building_generation db, uid)" for q
      by (rule one) (simp_all add: that r)
    moreover have "pg_building db tf uid = Some (rk_ranked_index r, rk_ranked_return_percentage r)"
      using Some by (simp add: pg_building_def pg_rows_def)
    ultimately show ?thesis using r by (metis Pair_inject option.inject)
  qed
qed

text \<open>The rows of a complete generation, joined with their users, are the live rows.\<close>

lemma generation_is_live:
  assumes "distinct (map row_key (db_Rankings db))" "distinct (map usr_ID repo)" "users_agree repo db"
    and "exact_rows L E a repo" "pg_building db = board_rows L kept12 E a (population repo)"
  shows "mset (map plain_row (generation_rows db tf (db_building_generation db)))
       = mset (bare_rows L E a tf (map project_user repo))"
proof -
  let ?G = "generation_rows db tf (db_building_generation db)" and ?us = "map project_user repo"
  have ids: "rku_ID ` set (population repo) = usr_ID ` set repo"
    using population_ids(1) [of repo] by simp
  have row: "plain_row (r, v) = bare_row (project_user u) p i"
    if "rk_user_id r = usr_ID u" "us_display_name v = usr_DisplayName u" "us_avatar_key v = usr_AvatarKey u"
      "rk_ranked_index r = i" "rk_ranked_return_percentage r = p" for r u v p i
    using that by (simp add: plain_row_def bare_row_def project_user_def)
  have kept: "board_row L kept12 E a (usr_ID u) tf = Some (i, p) \<longleftrightarrow>
      (\<exists>rp. be_CurrentRankedPerformance E (usr_ID u) = Inr rp \<and> \<not> bp_Paused rp \<and>
            timeframeReturn L E a (usr_ID u) rp tf = Some (p, i))" if "u \<in> set repo" for u p i
  proof -
    have "kept12 (j, q) = (j, q)"
      if "be_CurrentRankedPerformance E (usr_ID u) = Inr rp" "timeframeReturn L E a (usr_ID u) rp tf = Some (q, j)" for rp j q
      using exact_rows_kept [OF assms(4) \<open>u \<in> set repo\<close> that] .
    then show ?thesis by (auto simp: board_row_def split: sum.splits)
  qed
  have "set (map plain_row ?G) = set (bare_rows L E a tf ?us)"
  proof (intro equalityI subsetI)
    fix x assume "x \<in> set (map plain_row ?G)"
    then obtain r v where x: "x = plain_row (r, v)" "(r, v) \<in> set ?G" by auto
    then have r: "r \<in> set (db_Rankings db)" "row_key r = (tf, db_building_generation db, rk_user_id r)"
      "live_user db (rk_user_id r) = Some v"
      by (simp_all add: generation_rows_mem row_key_def)
    then have "pg_building db tf (rk_user_id r) = Some (rk_ranked_index r, rk_ranked_return_percentage r)"
      using pg_building_mem [OF assms(1)] by blast
    then obtain u where u: "u \<in> set repo" "rk_user_id r = usr_ID u"
      "board_row L kept12 E a (usr_ID u) tf = Some (rk_ranked_index r, rk_ranked_return_percentage r)"
      unfolding assms(5) board_rows_def ids by (auto split: if_splits)
    have v: "us_display_name v = usr_DisplayName u" "us_avatar_key v = usr_AvatarKey u"
      using users_agree_live [OF assms(3) u(1)] u(2) r(3) by auto
    show "x \<in> set (bare_rows L E a tf ?us)"
      unfolding bare_rows_mem x(1) row [OF u(2) v refl refl]
      using u(1,3) kept [OF u(1)] by (auto simp: project_user_def)
  next
    fix x assume "x \<in> set (bare_rows L E a tf ?us)"
    then obtain u rp p i where u: "u \<in> set repo" "x = bare_row (project_user u) p i"
      "be_CurrentRankedPerformance E (usr_ID u) = Inr rp" "\<not> bp_Paused rp"
      "timeframeReturn L E a (usr_ID u) rp tf = Some (p, i)"
      unfolding bare_rows_mem by (auto simp: project_user_def)
    then have "pg_building db tf (usr_ID u) = Some (i, p)"
      unfolding assms(5) board_rows_def ids using kept [OF u(1)] by auto
    then obtain r where r: "r \<in> set (db_Rankings db)" "row_key r = (tf, db_building_generation db, usr_ID u)"
      "rk_ranked_index r = i" "rk_ranked_return_percentage r = p"
      unfolding pg_building_mem [OF assms(1)] by blast
    obtain v where v: "live_user db (usr_ID u) = Some v" "us_display_name v = usr_DisplayName u"
      "us_avatar_key v = usr_AvatarKey u"
      using users_agree_live [OF assms(3) u(1)] by blast
    have "rk_user_id r = usr_ID u" using r(2) by (simp add: row_key_def)
    then have "x = plain_row (r, v)" "(r, v) \<in> set ?G"
      using row [of r u v i p] u(2) v r by (simp_all add: generation_rows_mem row_key_def)
    then show "x \<in> set (map plain_row ?G)" by force
  qed
  moreover have "distinct (map plain_row ?G)"
  proof -
    have "map rkr_userID (map plain_row ?G) = map (\<lambda>x. rk_user_id (fst x)) ?G" by (simp add: plain_row_def)
    then show ?thesis using generation_rows_distinct [OF assms(1), of tf "db_building_generation db"]
      by (metis distinct_map)
  qed
  moreover have "distinct (bare_rows L E a tf ?us)"
  proof -
    have "distinct (map rku_ID ?us)" using assms(2) by (simp add: project_user_def comp_def)
    from bare_rows_distinct [OF this] show ?thesis by (metis distinct_map)
  qed
  ultimately show ?thesis by (simp only: set_eq_iff_mset_eq_distinct)
qed

section \<open>The board of a complete generation\<close>

definition profiles_agree :: "BoardEnv \<Rightarrow> bool" where
  "profiles_agree E =
     (case (be_PublicInfo E, be_PublicInfoBatch E) of
        (Some lookup, Some batch) \<Rightarrow>
          (\<forall>ids. case batch ids of Inl _ \<Rightarrow> True | Inr infos \<Rightarrow> \<forall>uid\<in>set ids. lookup uid = Inr (infos uid))
      | _ \<Rightarrow> True)"

lemma enrichPage_rows:
  assumes "profiles_agree E"
  shows "enrichPage E rows = map (enrich_row E) rows"
proof (cases "be_PublicInfo E")
  case None
  then have "enrich_row E r = r" for r by (simp add: enrich_row_def enrich_def)
  with None show ?thesis by (simp add: enrichPage_def map_idI)
next
  case (Some lookup)
  show ?thesis
  proof (cases "be_PublicInfoBatch E")
    case None
    with Some show ?thesis by (auto simp: enrichPage_def enrich_row_def Let_def)
  next
    case (Some batch)
    show ?thesis
    proof (cases "batch (map rkr_userID rows)")
      case (Inr infos)
      have "lookup (rkr_userID r) = Inr (infos (rkr_userID r))" if "r \<in> set rows" for r
      proof -
        have "\<forall>uid\<in>set (map rkr_userID rows). lookup uid = Inr (infos uid)"
          using assms Inr Some \<open>be_PublicInfo E = Some lookup\<close>
          unfolding profiles_agree_def by (auto dest: spec [of _ "map rkr_userID rows"])
        with that show ?thesis by simp
      qed
      from enrichPage_one_by_one [OF \<open>be_PublicInfo E = Some lookup\<close> Some Inr this]
      show ?thesis by (simp add: enrich_row_def)
    qed (use Some \<open>be_PublicInfo E = Some lookup\<close> in \<open>auto simp: enrichPage_def enrich_row_def Let_def\<close>)
  qed
qed

lemma live_board:
  assumes "be_ListRankableUsers E = ListRankableUsers (Inr repo)" "liveComputeAllowed E s"
  shows "BuildTimeframe L None E s db tf =
    Inr (entriesOf (map (enrich_row E)
      (sortRankedRows L (bare_rows L E (sv_maxSnapshotAge s) tf (map project_user repo)))))"
  using assms
  by (cases "tf = TimeframeAll")
    (simp_all add: BuildTimeframe_def board_Build_def buildFromRanking_def BuildResult_def rankRows_def case_prod_beta
      ListRankableUsers_eq live_rows_bare sort_enriched)

lemma promoted_board_served:
  assumes "decimal_lib L" "pg_CompleteCycle db = (None, db')" "pg_ok U (\<lambda>_. False) str_less db"
    and "distinct (map usr_ID repo)" "users_agree repo db" "exact_rows L E a repo"
    and "pg_building db = board_rows L kept12 E a (population repo)" "profiles_agree E"
  shows "BuildTimeframe L (Some NewPostgresRankingStore) E s' db' tf =
    Inr (entriesOf (map (enrich_row E) (take 100 (sortRankedRows L (bare_rows L E a tf (map project_user repo))))))"
proof -
  let ?G = "generation_rows db tf (db_building_generation db)" and ?us = "map project_user repo"
  have keys: "distinct (map row_key (db_Rankings db))" "db_Collate db = str_less" "db_Refuses db = (\<lambda>_. False)"
    using assms(3) by (simp_all add: pg_ok_def)
  have live: "mset (map plain_row ?G) = mset (bare_rows L E a tf ?us)"
    by (rule generation_is_live [OF keys(1) assms(4-7)])
  have d: "distinct (map rkr_userID (bare_rows L E a tf ?us))"
    using assms(4) by (intro bare_rows_distinct) (simp add: project_user_def comp_def)
  have "isort (row_before L) (map plain_row ?G) = isort (row_before L) (bare_rows L E a tf ?us)"
    unfolding row_before_eq [OF assms(1)]
  proof (rule score.isort_mset [OF live])
    fix x y assume "x \<in> set (map plain_row ?G)" "y \<in> set (map plain_row ?G)" "x \<noteq> y"
    then have "x \<in> set (bare_rows L E a tf ?us)" "y \<in> set (bare_rows L E a tf ?us)" "x \<noteq> y"
      using mset_eq_setD [OF live] by blast+
    with d have "rkr_userID x \<noteq> rkr_userID y" by (auto simp: distinct_map inj_on_def)
    then show "row_order_score x y \<or> row_order_score y x" by (rule by_score_total)
  qed
  then have sorted: "sortRankedRows L (map plain_row ?G) = sortRankedRows L (bare_rows L E a tf ?us)"
    by (simp add: sortRankedRows_def)
  have page: "pg_TopPage tf maxLeaderboardSize db' = Inr (take 100 (sortRankedRows L (bare_rows L E a tf ?us)))"
    using served_page [OF assms(1,2) keys(1,2), of maxLeaderboardSize tf] keys(3) sorted
    by (simp add: maxLeaderboardSize_def)
  have servable: "useRanking (Some NewPostgresRankingStore) E s' db'"
    using assms(2) keys(3)
    by (auto simp: useRanking_def rankingServable_def NewPostgresRankingStore_def pg_ActiveGenerationAge_def
          pg_CompleteCycle_def Let_def)
  have "buildFromRanking (Some NewPostgresRankingStore) E s' db' tf' =
      Some (entriesOf (map (enrich_row E) (take 100 (sortRankedRows L (bare_rows L E a tf ?us)))))" if "tf' = tf" for tf'
    using servable page
    by (simp add: that buildFromRanking_def enrichPage_rows [OF assms(8)] NewPostgresRankingStore_def)
  then show ?thesis
    by (cases "tf = TimeframeAll") (simp_all add: BuildTimeframe_def board_Build_def)
qed

section \<open>Deleted users\<close>

text \<open>The users given are soft-deleted: \<^verbatim>\<open>deleted_at\<close> is set, their rows stay.\<close>

definition delete_users :: "string list \<Rightarrow> board_db \<Rightarrow> board_db" where
  "delete_users gone db =
     db\<lparr>db_Users := map (\<lambda>u. if us_id u \<in> set gone then u\<lparr>us_deleted := True\<rparr> else u) (db_Users db)\<rparr>"

lemma live_user_delete:
  "live_user (delete_users gone db) uid = (if uid \<in> set gone then None else live_user db uid)"
proof -
  have del: "find (\<lambda>u. us_id u = uid \<and> \<not> us_deleted u)
          (map (\<lambda>u. if us_id u \<in> set gone then u\<lparr>us_deleted := True\<rparr> else u) us) =
        (if uid \<in> set gone then None else find (\<lambda>u. us_id u = uid \<and> \<not> us_deleted u) us)" for us
    by (induction us) auto
  show ?thesis using del [of "db_Users db"] by (simp add: live_user_def delete_users_def)
qed

lemma generation_rows_delete:
  "generation_rows (delete_users gone db) tf g =
     filter (\<lambda>x. rk_user_id (fst x) \<notin> set gone) (generation_rows db tf g)"
proof -
  have del: "List.map_filter (\<lambda>r. if P r then map_option (\<lambda>u. (r, u)) (if rk_user_id r \<in> set gone then None else f (rk_user_id r)) else None) rows =
        filter (\<lambda>x. rk_user_id (fst x) \<notin> set gone)
          (List.map_filter (\<lambda>r. if P r then map_option (\<lambda>u. (r, u)) (f (rk_user_id r)) else None) rows)"
    for P f and rows :: "rankings_row list"
    by (induction rows) (auto simp: List.map_filter_simps split: option.split)
  have rows: "db_Rankings (delete_users gone db) = db_Rankings db" by (simp add: delete_users_def)
  show ?thesis unfolding generation_rows_def live_user_delete rows by (rule del)
qed

section \<open>A small projection\<close>

definition demo_repo :: "user_row list" where
  "demo_repo = map (\<lambda>u. \<lparr>usr_ID = rku_ID u, usr_DisplayName = rku_DisplayName u, usr_AvatarKey = rku_AvatarKey u\<rparr>)
                 demo_board_users"

definition demo_paged_env :: BoardEnv where
  "demo_paged_env = demo_board_env\<lparr>be_ListRankableUsers := ListRankableUsers (Inr demo_repo),
     be_ListRankableUsersPage := Some (ListRankableUsersPage (Inr demo_repo))\<rparr>"

definition demo_board_db :: board_db where
  "demo_board_db =
     \<lparr>db_Rankings = [],
      db_Users = map (\<lambda>u. \<lparr>us_id = rku_ID u, us_display_name = rku_DisplayName u, us_avatar_key = rku_AvatarKey u,
                           us_deleted = False\<rparr>) demo_board_users,
      db_active_generation = 0, db_building_generation = 1, db_cycle_started_at = 0, db_activated_at = None,
      db_last_cycle = None, db_now = demo_board_now, db_Refuses = (\<lambda>_. False), db_Collate = str_less\<rparr>"

definition demo_board_service :: BoardService where
  "demo_board_service = SetRefreshBatchSize 2 board_NewService"

lemma demo_laps:
  "paged_by demo_paged_env demo_repo 2" "lap_start 2 demo_board_service" "\<not> sv_cycleRankingFailed demo_board_service"
  "pg_ok (db_Users demo_board_db) (\<lambda>_. False) str_less demo_board_db" "pg_building demo_board_db = (\<lambda>_. Map.empty)"
  "\<forall>u\<in>set demo_repo. storable std_declib demo_paged_env (sv_maxSnapshotAge demo_board_service) (usr_ID u)"
  "users_agree demo_repo demo_board_db" "length demo_repo div 2 + 1 = 3"
proof -
  show "paged_by demo_paged_env demo_repo 2"
    by (simp add: paged_by_def demo_paged_env_def demo_repo_def demo_board_users_def)
  show "lap_start 2 demo_board_service" "\<not> sv_cycleRankingFailed demo_board_service"
    by (simp_all add: lap_start_def demo_board_service_def SetRefreshBatchSize_def board_NewService_def)
  show "pg_ok (db_Users demo_board_db) (\<lambda>_. False) str_less demo_board_db"
    by (simp add: pg_ok_def demo_board_db_def)
  show "pg_building demo_board_db = (\<lambda>_. Map.empty)"
    by (intro ext) (simp add: pg_building_def pg_rows_def demo_board_db_def)
  show "\<forall>u\<in>set demo_repo. storable std_declib demo_paged_env (sv_maxSnapshotAge demo_board_service) (usr_ID u)"
    by code_simp
  show "users_agree demo_repo demo_board_db" by code_simp
  show "length demo_repo div 2 + 1 = 3" by code_simp
qed

text \<open>
  A lap withheld leaves its rows in the generation the next lap builds: \<open>u1\<close>, written by a lap that \<open>u2\<close> spoiled and
  not valued by the next one, is published with the return it had then.
\<close>

definition demo_spoiled_env :: BoardEnv where
  "demo_spoiled_env = demo_board_env\<lparr>be_ListRankableUsers := Inr (take 2 demo_board_users),
     be_IndexAtOrBefore := None\<rparr>"

definition demo_spoiled_db :: board_db where
  "demo_spoiled_db = demo_board_db\<lparr>db_Refuses := (\<lambda>st. st = StmtUpsert TimeframeAll ''u2'')\<rparr>"

definition demo_unvalued_env :: BoardEnv where
  "demo_unvalued_env = demo_spoiled_env\<lparr>be_CurrentRankedPerformance :=
     (\<lambda>uid. if uid = ''u1'' then Inl (ErrBackend ''valuation'') else demo_performance uid)\<rparr>"

lemma withheld_lap_keeps_rows:
  "let (s1, db1) = postgres_calls std_declib demo_spoiled_env 1 (board_NewService, demo_spoiled_db);
       (s2, db2) = postgres_calls std_declib demo_unvalued_env 1 (s1, db1\<lparr>db_Refuses := (\<lambda>_. False)\<rparr>)
   in \<not> sv_lastRefreshPromoted s1 \<and> sv_lastRefreshPromoted s2 \<and> pg_active db2 TimeframeAll ''u1'' = Some (110, 10)"
  by code_simp

text \<open>
  The unpaged selection counts positions, not users: when \<open>u0\<close> joins between two calls the lap is declared complete
  with \<open>u0\<close> never handed out.
\<close>

lemma nextBatch_skips_newcomer:
  "let user = (\<lambda>i. \<lparr>rku_ID = i, rku_DisplayName = i, rku_AvatarKey = []\<rparr>);
       ((b1, _, c1), s1) = nextBatch (map user [''u1'', ''u2'', ''u3'']) demo_board_service;
       ((b2, _, c2), s2) = nextBatch (map user [''u0'', ''u1'', ''u2'', ''u3'']) s1
   in \<not> c1 \<and> c2 \<and> ''u0'' \<notin> set (map rku_ID (b1 @ b2))"
  by code_simp

definition demo_promoted_db :: board_db where
  "demo_promoted_db = demo_board_db\<lparr>db_active_generation := 1, db_building_generation := 2, db_activated_at := Some 0,
     db_Rankings := map (\<lambda>(uid, i, k). \<lparr>rk_user_id = uid, rk_timeframe = TimeframeAll, rk_generation = 1,
        rk_ranked_index = i, rk_ranked_return_percentage = i - 100, rk_tracking_started_at = 0, rk_computed_at = 0,
        rk_rnk = Some k\<rparr>) [(''u1'', 110, 2), (''u2'', 125, 1), (''u3'', 110, 3)]\<rparr>"

text \<open>A board with one public profile, which hides its weights.\<close>

definition demo_profile :: "string \<Rightarrow> board_err + ProfilePublicInfo option" where
  "demo_profile uid =
     Inr (Some \<lparr>ppi_Handle = ''h'' @ uid, ppi_StrategyTag = ''tag'', ppi_IsPublic = (uid = ''u2''), ppi_ShowWeights = False,
                ppi_Weights = [\<lparr>pw_Symbol = ''AAA'', pw_AssetType = ''stock'', pw_WeightPercentage = Fin 100\<rparr>]\<rparr>)"

definition demo_profile_env :: BoardEnv where
  "demo_profile_env = demo_board_env\<lparr>be_PublicInfo := Some demo_profile\<rparr>"

section \<open>Properties\<close>

text \<open>
  C12. Every lap of the refresh covers the population and publishes it. With a store that answers, users that stay the
  same and rows that fit their columns, the calls before the last one of a lap show readers the old generation;
  after any positive number of laps of \<open>length repo div k + 1\<close> calls the last call has promoted, and the
  generation read from holds exactly the row of every user who can be ranked, in every timeframe, and no others.
\<close>

theorem paged_laps_publish:
  assumes "paged_by E repo k" "lap_start k s" "\<not> sv_cycleRankingFailed s"
    and "pg_ok U (\<lambda>_. False) collate db" "pg_building db = (\<lambda>_. Map.empty)"
    and "\<forall>u\<in>set repo. usr_ID u \<in> us_id ` set U \<and> storable L E (sv_maxSnapshotAge s) (usr_ID u)"
  shows "(j * k \<le> length repo \<longrightarrow> pg_active (snd (postgres_calls L E j (s, db))) = pg_active db) \<and>
    (\<exists>s' db'. postgres_calls L E ((n + 1) * (length repo div k + 1)) (s, db) = (s', db') \<and>
       LastRefreshPromotedGeneration s' \<and>
       pg_active db' = board_rows L kept12 E (sv_maxSnapshotAge s) (population repo))"
proof
  show "j * k \<le> length repo \<longrightarrow> pg_active (snd (postgres_calls L E j (s, db))) = pg_active db"
    using pg.lap_prefix [OF assms(1) lap_start_at [OF assms(2,4)]] assms(5) by (simp add: lap_at_def)
  show "\<exists>s' db'. postgres_calls L E ((n + 1) * (length repo div k + 1)) (s, db) = (s', db') \<and>
       LastRefreshPromotedGeneration s' \<and>
       pg_active db' = board_rows L kept12 E (sv_maxSnapshotAge s) (population repo)"
    using pg_laps [OF assms, where n = n] unfolding LastRefreshPromotedGeneration_def by blast
qed

theorem paged_laps_publish_witness:
  "\<exists>s' db'. postgres_calls std_declib demo_paged_env 3 (demo_board_service, demo_board_db) = (s', db') \<and>
     LastRefreshPromotedGeneration s' \<and> pg_active db' TimeframeAll ''u2'' = Some (125, 25) \<and>
     pg_active db' TimeframeAll ''u4'' = None \<and> pg_active db' Timeframe1W ''u1'' = Some (110, 10)"
proof -
  note demo = demo_laps
  have stored: "\<forall>u\<in>set demo_repo. usr_ID u \<in> us_id ` set (db_Users demo_board_db) \<and>
      storable std_declib demo_paged_env (sv_maxSnapshotAge demo_board_service) (usr_ID u)"
    using demo(6) by (auto simp: demo_repo_def demo_board_db_def demo_board_users_def)
  have rows: "board_rows std_declib kept12 demo_paged_env (sv_maxSnapshotAge demo_board_service) (population demo_repo)
        TimeframeAll ''u2'' = Some (125, 25)"
    "board_rows std_declib kept12 demo_paged_env (sv_maxSnapshotAge demo_board_service) (population demo_repo)
        TimeframeAll ''u4'' = None"
    "board_rows std_declib kept12 demo_paged_env (sv_maxSnapshotAge demo_board_service) (population demo_repo)
        Timeframe1W ''u1'' = Some (110, 10)"
    by code_simp+
  show ?thesis
    using paged_laps_publish [OF demo(1-5) stored, of 0 0] rows unfolding demo(8) by auto
qed

text \<open>
  One row that cannot be written withholds every generation. A user of the population who is not paused and
  whose index rounds to zero in its column is refused by the table in every lap, and however many laps the refresh
  makes, whatever else the table refuses, readers keep the generation they had.
\<close>

theorem unwritable_user_pins_board:
  assumes "paged_by E repo k" "lap_start k s" "pg_ok U refuses collate db"
    and "u \<in> set repo" "be_CurrentRankedPerformance E (usr_ID u) = Inr rp" "\<not> bp_Paused rp"
    and "away_places 12 (bp_RankedIndex rp) \<le> 0"
  shows "pg_active (snd (postgres_calls L E (m * (length repo div k + 1)) (s, db))) = pg_active db"
proof -
  have "usr_ID u \<in> set (map rku_ID (population repo))" using assms(4) by (simp only: population_ids) simp
  then obtain v where v: "v \<in> set (population repo)" "rku_ID v = usr_ID u" by auto
  have refused: "write_fails L NewPostgresRankingStore E (sv_maxSnapshotAge s) v s'" if "pg_ok U refuses collate s'" for s'
    by (rule unstorable_write [OF _ assms(6,7) that]) (simp add: v assms(5))
  have lap: "lap_at (pg_ok U refuses collate) pg_building pg_active kept12 False L E repo k (sv_maxSnapshotAge s)
      (pg_active db) 0 (s, db)"
    using lap_start_at [OF assms(2,3), of False] by simp
  show ?thesis
    using pg.laps_withheld [OF assms(1) lap v(1) refused, of m] by (auto simp: lap_at_def)
qed

theorem unwritable_user_pins_board_witness:
  "pg_active (snd (postgres_calls std_declib
     (demo_paged_env\<lparr>be_CurrentRankedPerformance := (\<lambda>uid. Inr \<lparr>bp_RankedIndex = 0, bp_RankedReturnPercentage = -100,
        bp_Paused = False, bp_TrackingStartedAt = 0\<rparr>)\<rparr>) 30 (demo_board_service, demo_board_db)))
   = pg_active demo_board_db"
proof -
  let ?rp = "\<lparr>bp_RankedIndex = 0, bp_RankedReturnPercentage = -100, bp_Paused = False, bp_TrackingStartedAt = 0\<rparr>"
  let ?E = "demo_paged_env\<lparr>be_CurrentRankedPerformance := (\<lambda>uid. Inr ?rp)\<rparr>"
  have paged: "paged_by ?E demo_repo 2" using demo_laps(1) by (simp add: paged_by_def)
  have u: "hd demo_repo \<in> set demo_repo" by (simp add: demo_repo_def demo_board_users_def)
  have zero: "away_places 12 (bp_RankedIndex ?rp) \<le> 0" by code_simp
  have perf: "be_CurrentRankedPerformance ?E (usr_ID (hd demo_repo)) = Inr ?rp" "\<not> bp_Paused ?rp" by simp_all
  from unwritable_user_pins_board [OF paged demo_laps(2,4) u perf zero, of std_declib 10]
  show ?thesis unfolding demo_laps(8) by simp
qed

text \<open>
  C11. The projection serves the live board. When the refresh runs its laps over a population that stays the same, with a
  store that answers, compares names bytewise and can hold every return and index exactly, then the board served from
  the projection for any timeframe is the board ranked live for it, rank for rank and with the same profile fields, cut
  at the hundred entries of a page.
\<close>

theorem projected_board_is_live:
  assumes "decimal_lib L" "paged_by E repo k" "lap_start k s" "\<not> sv_cycleRankingFailed s"
    and "pg_ok U (\<lambda>_. False) str_less db" "pg_building db = (\<lambda>_. Map.empty)"
    and "\<forall>u\<in>set repo. storable L E (sv_maxSnapshotAge s) (usr_ID u)"
    and "users_agree repo db" "exact_rows L E (sv_maxSnapshotAge s) repo" "profiles_agree E"
    and "be_ListRankableUsers E = ListRankableUsers (Inr repo)" "liveComputeAllowed E s"
  shows "\<exists>s' db'. postgres_calls L E ((n + 1) * (length repo div k + 1)) (s, db) = (s', db') \<and>
     BuildTimeframe L (Some NewPostgresRankingStore) E s' db' tf
       = map_sum id (take 100) (BuildTimeframe L None E s db tf)"
proof -
  have U: "live_user db2 = live_user db" if "pg_ok U (\<lambda>_. False) str_less db2" for db2
    using that assms(5) by (intro ext) (simp add: live_user_def pg_ok_def)
  have known: "usr_ID u \<in> us_id ` set U" if "u \<in> set repo" for u
    using users_agree_live [OF assms(8) that] assms(5)
    by (auto simp: live_user_def pg_ok_def find_Some_iff) (metis image_eqI nth_mem)
  obtain s' db' last_db where run: "postgres_calls L E ((n + 1) * (length repo div k + 1)) (s, db) = (s', db')"
    and active: "pg_active db' = board_rows L kept12 E (sv_maxSnapshotAge s) (population repo)"
    and last_db: "pg_ok U (\<lambda>_. False) str_less last_db" "pg_CompleteCycle last_db = (None, db')"
    using pg_laps [OF assms(2-6), where n = n and L = L] assms(7) known by blast
  have "pg_building last_db = board_rows L kept12 E (sv_maxSnapshotAge s) (population repo)"
    using pg_CompleteCycle_rows(2) [OF last_db(2)] active by simp
  moreover have "users_agree repo last_db" using assms(8) by (simp add: users_agree_def U [OF last_db(1)])
  moreover have "distinct (map usr_ID repo)" using assms(2) by (simp add: paged_by_def)
  ultimately have "BuildTimeframe L (Some NewPostgresRankingStore) E s' db' tf =
    Inr (entriesOf (map (enrich_row E)
      (take 100 (sortRankedRows L (bare_rows L E (sv_maxSnapshotAge s) tf (map project_user repo))))))"
    using promoted_board_served [OF assms(1) last_db(2,1)] assms(9,10) by blast
  then show ?thesis
    using run by (simp add: live_board [OF assms(11,12)] entriesOf_def take_map)
qed

theorem projected_board_is_live_witness:
  "\<exists>s' db'. postgres_calls std_declib demo_paged_env 3 (demo_board_service, demo_board_db) = (s', db') \<and>
     BuildTimeframe std_declib (Some NewPostgresRankingStore) demo_paged_env s' db' TimeframeAll
       = map_sum id (take 100) (BuildTimeframe std_declib None demo_paged_env demo_board_service demo_board_db TimeframeAll)"
proof -
  have exact: "exact_rows std_declib demo_paged_env (sv_maxSnapshotAge demo_board_service) demo_repo" by code_simp
  have profiles: "profiles_agree demo_paged_env"
    by (simp add: profiles_agree_def demo_paged_env_def demo_board_env_def)
  have users: "be_ListRankableUsers demo_paged_env = ListRankableUsers (Inr demo_repo)"
    by (simp add: demo_paged_env_def)
  have allowed: "liveComputeAllowed demo_paged_env demo_board_service" by code_simp
  from projected_board_is_live [OF std.decimal_lib_axioms demo_laps(1-7) exact profiles users allowed, of 0]
  show ?thesis unfolding demo_laps(8) by simp
qed

text \<open>
  Deleting users leaves the ranks of the others as they were. After a promotion the deletion of users takes their rows
  out of the count of participants, while the rank of everyone else stays the one the promotion materialized, counted
  among all of them; the standing of a user can then be below the last participant, with a negative percentile.
\<close>

theorem deletions_keep_ranks:
  assumes "uid \<notin> set gone" "\<not> db_Refuses db StmtRankOf" "\<not> db_Refuses db StmtCount"
  shows "pg_RankOf tf uid (delete_users gone db) = pg_RankOf tf uid db \<and>
     pg_Count tf (delete_users gone db) =
       Inr (int (length (filter (\<lambda>x. rk_user_id (fst x) \<notin> set gone) (generation_rows db tf (db_active_generation db)))))"
proof -
  have same: "db_active_generation (delete_users gone db) = db_active_generation db"
    "db_Refuses (delete_users gone db) = db_Refuses db"
    by (simp_all add: delete_users_def)
  have "find (\<lambda>(r, u). rk_user_id r = uid \<and> rk_rnk r \<noteq> None) (filter (\<lambda>x. rk_user_id (fst x) \<notin> set gone) xs) =
        find (\<lambda>(r, u). rk_user_id r = uid \<and> rk_rnk r \<noteq> None) xs" for xs :: "(rankings_row \<times> users_row) list"
    by (rule find_filter_same) (use assms(1) in auto)
  then show ?thesis
    using assms(2,3) by (simp add: pg_RankOf_def pg_Count_def generation_rows_delete same)
qed

theorem deletions_keep_ranks_witness:
  "pg_RankOf TimeframeAll ''u3'' (delete_users [''u1'', ''u2''] demo_promoted_db) = Inr (Some (3, 110, 10)) \<and>
   pg_Count TimeframeAll (delete_users [''u1'', ''u2''] demo_promoted_db) = Inr 1 \<and>
   map_option (\<lambda>st. (sd_Rank st, sd_ParticipantCount st, sd_Percentile st))
     (userStandingFromRanking std_declib (Some NewPostgresRankingStore) demo_paged_env board_NewService
        (delete_users [''u1'', ''u2''] demo_promoted_db) ''u3'' TimeframeAll) = Some (3, 1, Fin (- 100))"
proof -
  have gone: "''u3'' \<notin> set [''u1'', ''u2'']" by simp
  have up: "\<not> db_Refuses demo_promoted_db StmtRankOf" "\<not> db_Refuses demo_promoted_db StmtCount"
    by (simp_all add: demo_promoted_db_def demo_board_db_def)
  have before: "pg_RankOf TimeframeAll ''u3'' demo_promoted_db = Inr (Some (3, 110, 10))"
    "length (filter (\<lambda>x. rk_user_id (fst x) \<notin> set [''u1'', ''u2''])
       (generation_rows demo_promoted_db TimeframeAll (db_active_generation demo_promoted_db))) = 1"
    by code_simp+
  have standing: "map_option (\<lambda>st. (sd_Rank st, sd_ParticipantCount st, sd_Percentile st))
     (userStandingFromRanking std_declib (Some NewPostgresRankingStore) demo_paged_env board_NewService
        (delete_users [''u1'', ''u2''] demo_promoted_db) ''u3'' TimeframeAll) = Some (3, 1, Fin (- 100))"
    by code_simp
  show ?thesis
    using deletions_keep_ranks [OF gone up, of TimeframeAll] before standing by simp
qed

text \<open>
  C14. Boards show only what is public. Whether a board is served from the projection or ranked live, and however the
  profiles are looked up, each of its entries shows no handle, strategy tag or weights at all, or those of a profile the
  provider answered for some user and declared public, and the weights only when that profile shows them.
\<close>

theorem board_shows_only_public:
  assumes "ranking \<in> {None, Some NewPostgresRankingStore}"
    and "BuildTimeframe L ranking E s db tf = Inr entries" "e \<in> set entries"
  shows "\<exists>uid. shows_only_public E uid e"
proof -
  have served: "\<exists>uid. shows_only_public E uid e"
    if board: "buildFromRanking ranking E s db tf' = Some es" and mem: "e \<in> set es" for tf' es
  proof -
    obtain rows where rows: "pg_TopPage tf' maxLeaderboardSize db = Inr rows" "es = entriesOf (enrichPage E rows)"
      using board assms(1) by (auto simp: buildFromRanking_def NewPostgresRankingStore_def split: if_splits sum.splits)
    have "\<forall>r\<in>set rows. bare (rkr_entry r)"
      using rows(1) by (auto simp: pg_TopPage_def split: if_splits)
    moreover obtain r where "r \<in> set (enrichPage E rows)" "e = rkr_entry r"
      using mem rows(2) by (auto simp: entriesOf_def)
    ultimately show ?thesis using enrichPage_public by blast
  qed
  have live: "\<exists>uid. shows_only_public E uid e"
    if run: "rankRows L E s tf' = Inr (rows, k)" and mem: "e \<in> set (entriesOf rows)" for tf' rows k
  proof -
    obtain users where "rows = map (enrich_row E) (sortRankedRows L (bare_rows L E (sv_maxSnapshotAge s) tf' users))"
      using run unfolding rankRows_Inr by (auto simp: live_rows_bare sort_enriched)
    then obtain r where r: "r \<in> set (sortRankedRows L (bare_rows L E (sv_maxSnapshotAge s) tf' users))"
      "e = enrich E (rkr_userID r) (rkr_entry r)"
      using mem by (auto simp: entriesOf_def enrich_row_def)
    have "bare (rkr_entry q)" if "q \<in> set (bare_rows L E (sv_maxSnapshotAge s) tf' users)" for q
      using that by (auto simp: bare_rows_mem bare_row_def)
    moreover have "bare (rkr_entry (set_rank k q)) = bare (rkr_entry q)" for k q
      by (simp add: bare_def set_rank_def)
    ultimately have "bare (rkr_entry r)"
      using r(1) by (auto simp: sortRankedRows_def in_set_enumerate_eq) (metis nth_mem set_isort length_isort)
    then show ?thesis using enrich_public r(2) by blast
  qed
  show ?thesis
    using assms(2,3) served live
    by (auto simp: BuildTimeframe_def board_Build_def BuildResult_def split: if_splits option.splits sum.splits)
qed

theorem board_shows_only_public_witness:
  "\<exists>uid. shows_only_public demo_profile_env uid
     (hd (projr (BuildTimeframe std_declib None demo_profile_env board_NewService demo_board_db TimeframeAll)))"
proof -
  let ?b = "BuildTimeframe std_declib None demo_profile_env board_NewService demo_board_db TimeframeAll"
  have "\<not> isl ?b" and entries: "projr ?b \<noteq> []" by code_simp+
  then have run: "?b = Inr (projr ?b)" by (cases ?b) auto
  show ?thesis
    by (rule board_shows_only_public [OF _ run]) (simp_all add: entries)
qed

end
