(* ===== verification/ProfileModel.thy ===== *)
theory ProfileModel
  imports Prelude
begin

text \<open>
  Profiles (package \<^verbatim>\<open>profile\<close>, validation.go, memory_repository.go and the part of service.go that reads and
  writes profile rows): the row, what makes a handle and a profile valid, the handle derived for a new account, the
  repository with its two indexes, and the operations that create, edit, unpublish and look up a profile. The
  projections built from a row for display (composition, DNA, ranks) belong to other components and are not here.

  Strings are byte strings. \<^verbatim>\<open>utf8.RuneCountInString\<close> counts the bytes that do not continue a rune,
  which is the number of runes of valid UTF-8; request bodies are valid UTF-8 after \<^verbatim>\<open>encoding/json\<close>.
\<close>

section \<open>Runes\<close>

definition is_continuation :: "char \<Rightarrow> bool" where
  "is_continuation c = (let n = (of_char c :: nat) in 128 \<le> n \<and> n < 192)"

definition RuneCount :: "string \<Rightarrow> nat" where
  "RuneCount s = length (filter (\<lambda>c. \<not> is_continuation c) s)"

text \<open>The first \<open>n\<close> runes: a continuation byte goes with the rune it continues.\<close>

fun take_runes :: "nat \<Rightarrow> string \<Rightarrow> string" where
  "take_runes n [] = []"
| "take_runes n (c # cs) =
     (if is_continuation c then c # take_runes n cs
      else case n of 0 \<Rightarrow> [] | Suc m \<Rightarrow> c # take_runes m cs)"

definition truncate_runes :: "string \<Rightarrow> nat \<Rightarrow> string" where
  "truncate_runes value n = (if RuneCount value > n then take_runes n value else value)"

section \<open>The profile row\<close>

datatype profile_err =
    PrErrNotFound
  | PrErrHandleExists
  | PrErrInvalid string
  | PrErrSafetyUnavailable
  | PrErrNoHandle
  | PrErrLoadAccount
  | PrErrStore

record Profile =
  pf_UserID :: string
  pf_Handle :: string
  pf_DisplayName :: string
  pf_AvatarKey :: string
  pf_Bio :: string
  pf_StrategyTag :: string
  pf_IsPublic :: bool
  pf_ShowPublicWeights :: bool
  pf_CreatedAt :: time
  pf_UpdatedAt :: time

definition zero_Profile :: Profile where
  "zero_Profile =
     \<lparr>pf_UserID = [], pf_Handle = [], pf_DisplayName = [], pf_AvatarKey = [], pf_Bio = [], pf_StrategyTag = [],
      pf_IsPublic = False, pf_ShowPublicWeights = False, pf_CreatedAt = 0, pf_UpdatedAt = 0\<rparr>"

definition DefaultStrategyTag :: string where
  "DefaultStrategyTag = ''balanced_global''"

record UpdateInput =
  ui_Handle :: "string option"
  ui_DisplayName :: "string option"
  ui_AvatarKey :: "string option"
  ui_Bio :: "string option"
  ui_StrategyTag :: "string option"
  ui_IsPublic :: "bool option"
  ui_ShowPublicWeights :: "bool option"

section \<open>Validation\<close>

text \<open>The class \<^verbatim>\<open>[a-z0-9_-]\<close>, and the separators \<^verbatim>\<open>[_-]\<close>.\<close>

definition handle_char :: "char \<Rightarrow> bool" where
  "handle_char c =
     (let n = (of_char c :: nat) in 97 \<le> n \<and> n \<le> 122 \<or> 48 \<le> n \<and> n \<le> 57 \<or> c = CHR ''_'' \<or> c = CHR ''-'')"

definition is_separator :: "char \<Rightarrow> bool" where
  "is_separator c = (c = CHR ''_'' \<or> c = CHR ''-'')"

definition handlePattern :: "string \<Rightarrow> bool" where
  "handlePattern s = (3 \<le> length s \<and> length s \<le> 30 \<and> list_all handle_char s)"

definition reservedHandles :: "string list" where
  "reservedHandles =
     [''me'', ''admin'', ''api'', ''auth'', ''portfolio'', ''leaderboard'', ''competitions'', ''achievements'',
      ''profile'', ''profiles'', ''settings'', ''explore'', ''coach'', ''ai'']"

definition allowedStrategyTags :: "string list" where
  "allowedStrategyTags =
     [''conservative'', ''balanced_global'', ''growth'', ''dividend_income'', ''tech_focused'', ''value'',
      ''crypto_heavy'', ''esg'', ''active_trader'', ''long_term_investor'']"

definition isReserved :: "string \<Rightarrow> bool" where
  "isReserved handle = (handle \<in> set reservedHandles)"

definition ValidateHandle :: "string \<Rightarrow> profile_err + unit" where
  "ValidateHandle handle =
     (if handle \<noteq> ToLower handle \<or> \<not> handlePattern handle
      then Inl (PrErrInvalid ''handle must be 3-30 lower-case URL-safe characters'')
      else if handle \<in> set reservedHandles then Inl (PrErrInvalid ''handle is reserved'')
      else Inr ())"

definition validateLength :: "string \<Rightarrow> string \<Rightarrow> nat \<Rightarrow> nat \<Rightarrow> profile_err + unit" where
  "validateLength name value lo hi =
     (if RuneCount value < lo \<or> RuneCount value > hi
      then Inl (PrErrInvalid (name @ '' must be '' @ itoa lo @ ''-'' @ itoa hi @ '' characters''))
      else Inr ())"

definition ValidateProfile :: "Profile \<Rightarrow> profile_err + unit" where
  "ValidateProfile p =
     rbind (ValidateHandle (pf_Handle p)) (\<lambda>_.
     rbind (validateLength ''display_name'' (TrimSpace (pf_DisplayName p)) 2 40) (\<lambda>_.
       if RuneCount (TrimSpace (pf_Bio p)) > 160 then Inl (PrErrInvalid ''bio must be at most 160 characters'')
       else if RuneCount (TrimSpace (pf_AvatarKey p)) > 40
       then Inl (PrErrInvalid ''avatar_key must be at most 40 characters'')
       else if pf_StrategyTag p \<notin> set allowedStrategyTags then Inl (PrErrInvalid ''invalid strategy_tag'')
       else Inr ()))"

definition NormalizeInput :: "UpdateInput \<Rightarrow> UpdateInput" where
  "NormalizeInput i =
     i\<lparr>ui_Handle := map_option (\<lambda>h. ToLower (TrimSpace h)) (ui_Handle i),
       ui_DisplayName := map_option TrimSpace (ui_DisplayName i),
       ui_AvatarKey := map_option TrimSpace (ui_AvatarKey i),
       ui_Bio := map_option TrimSpace (ui_Bio i),
       ui_StrategyTag := map_option TrimSpace (ui_StrategyTag i)\<rparr>"

section \<open>Handles of new accounts\<close>

text \<open>
  \<^verbatim>\<open>ReplaceAllString\<close> of a regular expression that matches the runs of at least \<open>n\<close> characters of one
  class: \<^verbatim>\<open>[^a-z0-9_-]+\<close> with \<open>n = 1\<close>, \<^verbatim>\<open>[_-]{2,}\<close> with \<open>n = 2\<close>. A run of bytes outside the
  class of handle characters is a run of runes outside it.
\<close>

function replace_runs :: "nat \<Rightarrow> (char \<Rightarrow> bool) \<Rightarrow> string \<Rightarrow> string \<Rightarrow> string" where
  "replace_runs n p r [] = []"
| "replace_runs n p r (c # cs) =
     (if \<not> p c then c # replace_runs n p r cs
      else let run = c # takeWhile p cs
           in (if n \<le> length run then r else run) @ replace_runs n p r (dropWhile p cs))"
  by pat_completeness auto
termination
  by (relation "measure (\<lambda>(n, p, r, s). length s)") (auto simp: le_imp_less_Suc length_dropWhile_le)

definition invalidHandle_ReplaceAll :: "string \<Rightarrow> string \<Rightarrow> string" where
  "invalidHandle_ReplaceAll s r = replace_runs 1 (\<lambda>c. \<not> handle_char c) r s"

definition repeatedSep_ReplaceAll :: "string \<Rightarrow> string \<Rightarrow> string" where
  "repeatedSep_ReplaceAll s r = replace_runs 2 is_separator r s"

definition trim_separators :: "string \<Rightarrow> string" where
  "trim_separators s = rev (dropWhile is_separator (rev (dropWhile is_separator s)))"

definition shortIdentifier :: "string \<Rightarrow> string" where
  "shortIdentifier value =
     (let value = invalidHandle_ReplaceAll (ToLower value) []
      in if length value > 8 then drop (length value - 8) value
         else if length value < 3 then ''user''
         else value)"

definition HandleCandidate :: "string \<Rightarrow> string \<Rightarrow> string" where
  "HandleCandidate value fallback =
     (let value = ToLower (TrimSpace value);
          value = invalidHandle_ReplaceAll value ''_'';
          value = repeatedSep_ReplaceAll value ''_'';
          value = trim_separators value;
          value = (if length value > 24 then take 24 value else value);
          value = (if length value < 3 \<or> isReserved value then ''investor_'' @ shortIdentifier fallback else value)
      in if length value > 30 then take 30 value else value)"

definition HandleWithSuffix :: "string \<Rightarrow> nat \<Rightarrow> string" where
  "HandleWithSuffix base attempt =
     (let suffix = ''_'' @ itoa attempt;
          base = (if length base + length suffix > 30 then take (30 - length suffix) base else base)
      in base @ suffix)"

section \<open>The in-memory repository\<close>

record ProfileRepo =
  pf_byUserID :: "(string \<times> Profile) list"
  pf_byHandle :: "string \<rightharpoonup> string"

definition NewProfileRepo :: ProfileRepo where
  "NewProfileRepo = \<lparr>pf_byUserID = [], pf_byHandle = Map.empty\<rparr>"

definition prof_Create :: "ProfileRepo \<Rightarrow> Profile \<Rightarrow> profile_err + ProfileRepo" where
  "prof_Create r p =
     (if map_of (pf_byUserID r) (pf_UserID p) \<noteq> None then Inl PrErrHandleExists
      else if pf_byHandle r (pf_Handle p) \<noteq> None then Inl PrErrHandleExists
      else Inr (r\<lparr>pf_byUserID := AList.update (pf_UserID p) p (pf_byUserID r),
                  pf_byHandle := (pf_byHandle r)(pf_Handle p \<mapsto> pf_UserID p)\<rparr>))"

definition prof_GetByUserID :: "ProfileRepo \<Rightarrow> string \<Rightarrow> profile_err + Profile" where
  "prof_GetByUserID r userID = from_option PrErrNotFound (map_of (pf_byUserID r) userID)"

definition prof_GetByHandle :: "ProfileRepo \<Rightarrow> string \<Rightarrow> profile_err + Profile" where
  "prof_GetByHandle r handle =
     (case pf_byHandle r handle of
        None \<Rightarrow> Inl PrErrNotFound
      | Some userID \<Rightarrow> Inr (case map_of (pf_byUserID r) userID of None \<Rightarrow> zero_Profile | Some p \<Rightarrow> p))"

definition prof_ListPublicProfiles :: "ProfileRepo \<Rightarrow> Profile list" where
  "prof_ListPublicProfiles r = filter (\<lambda>p. pf_IsPublic p \<and> pf_ShowPublicWeights p) (map snd (pf_byUserID r))"

definition prof_Update :: "ProfileRepo \<Rightarrow> Profile \<Rightarrow> profile_err + ProfileRepo" where
  "prof_Update r p =
     (case map_of (pf_byUserID r) (pf_UserID p) of
        None \<Rightarrow> Inl PrErrNotFound
      | Some current \<Rightarrow>
          (if (case pf_byHandle r (pf_Handle p) of None \<Rightarrow> False | Some owner \<Rightarrow> owner \<noteq> pf_UserID p)
           then Inl PrErrHandleExists
           else Inr (r\<lparr>pf_byUserID := AList.update (pf_UserID p) p (pf_byUserID r),
                       pf_byHandle := ((pf_byHandle r)(pf_Handle current := None))(pf_Handle p \<mapsto> pf_UserID p)\<rparr>)))"

definition prof_OnAccountDeleted :: "ProfileRepo \<Rightarrow> string \<Rightarrow> ProfileRepo" where
  "prof_OnAccountDeleted r userID =
     (case map_of (pf_byUserID r) userID of
        None \<Rightarrow> r
      | Some p \<Rightarrow> r\<lparr>pf_byUserID := AList.delete userID (pf_byUserID r),
                     pf_byHandle := (pf_byHandle r)(pf_Handle p := None)\<rparr>)"

section \<open>The service\<close>

text \<open>
  The account behind a profile is read from the account store, a parameter: \<open>Inr None\<close> is the nil user. Between two
  calls of the repository other requests may run; \<open>rely n\<close> is what they do before the \<open>n\<close>-th call of the loop.
\<close>

record AccountView =
  av_ID :: string
  av_DisplayName :: string
  av_AvatarKey :: string

definition new_profile :: "AccountView \<Rightarrow> time \<Rightarrow> Profile" where
  "new_profile user now =
     (let p = \<lparr>pf_UserID = av_ID user, pf_Handle = HandleCandidate (av_DisplayName user) (av_ID user),
               pf_DisplayName = truncate_runes (TrimSpace (av_DisplayName user)) 40,
               pf_AvatarKey = truncate_runes (TrimSpace (av_AvatarKey user)) 40,
               pf_Bio = [], pf_StrategyTag = DefaultStrategyTag, pf_IsPublic = False, pf_ShowPublicWeights = False,
               pf_CreatedAt = now, pf_UpdatedAt = now\<rparr>
      in if RuneCount (pf_DisplayName p) < 2 then p\<lparr>pf_DisplayName := ''Investor''\<rparr> else p)"

definition attempt_handle :: "AccountView \<Rightarrow> nat \<Rightarrow> string" where
  "attempt_handle user attempt =
     (if attempt > 0 then HandleWithSuffix (HandleCandidate (av_DisplayName user) (av_ID user)) attempt
      else HandleCandidate (av_DisplayName user) (av_ID user))"

fun allocate ::
  "(nat \<Rightarrow> ProfileRepo \<Rightarrow> ProfileRepo) \<Rightarrow> AccountView \<Rightarrow> string \<Rightarrow> Profile \<Rightarrow> nat list \<Rightarrow> ProfileRepo
     \<Rightarrow> ProfileRepo \<times> (profile_err + Profile)" where
  "allocate rely user userID p [] r = (r, Inl PrErrNoHandle)"
| "allocate rely user userID p (attempt # rest) r =
     (let p = p\<lparr>pf_Handle := attempt_handle user attempt\<rparr>;
          r = rely (2 * attempt) r
      in case prof_Create r p of
           Inr r' \<Rightarrow> (r', Inr p)
         | Inl e \<Rightarrow>
             (if e \<noteq> PrErrHandleExists then (r, Inl e)
              else let r = rely (2 * attempt + 1) r
                   in case prof_GetByUserID r userID of
                        Inr existing \<Rightarrow> (r, Inr existing)
                      | Inl _ \<Rightarrow> allocate rely user userID p rest r))"

definition prof_getOrCreate ::
  "(nat \<Rightarrow> ProfileRepo \<Rightarrow> ProfileRepo) \<Rightarrow> (string \<Rightarrow> profile_err + AccountView option) \<Rightarrow> string \<Rightarrow> time
     \<Rightarrow> ProfileRepo \<Rightarrow> ProfileRepo \<times> (profile_err + Profile)" where
  "prof_getOrCreate rely users userID now r =
     (case prof_GetByUserID r userID of
        Inr p \<Rightarrow> (r, Inr p)
      | Inl e \<Rightarrow>
          (if e \<noteq> PrErrNotFound then (r, Inl e)
           else case users userID of
                  Inl _ \<Rightarrow> (r, Inl PrErrLoadAccount)
                | Inr None \<Rightarrow> (r, Inl PrErrLoadAccount)
                | Inr (Some user) \<Rightarrow>
                    (let p = new_profile user now
                     in case ValidateProfile p of
                          Inl e \<Rightarrow> (r, Inl e)
                        | Inr _ \<Rightarrow> allocate rely user userID p [0..<100] r)))"

definition apply_input :: "UpdateInput \<Rightarrow> Profile \<Rightarrow> Profile" where
  "apply_input i p =
     p\<lparr>pf_Handle := case_option (pf_Handle p) id (ui_Handle i),
       pf_DisplayName := case_option (pf_DisplayName p) id (ui_DisplayName i),
       pf_AvatarKey := case_option (pf_AvatarKey p) id (ui_AvatarKey i),
       pf_Bio := case_option (pf_Bio p) id (ui_Bio i),
       pf_StrategyTag := case_option (pf_StrategyTag p) id (ui_StrategyTag i),
       pf_IsPublic := case_option (pf_IsPublic p) id (ui_IsPublic i),
       pf_ShowPublicWeights := case_option (pf_ShowPublicWeights p) id (ui_ShowPublicWeights i)\<rparr>"

text \<open>\<^verbatim>\<open>UpdateMe\<close> up to the projection of the row it has written.\<close>

definition prof_UpdateMe ::
  "(nat \<Rightarrow> ProfileRepo \<Rightarrow> ProfileRepo) \<Rightarrow> (string \<Rightarrow> profile_err + AccountView option) \<Rightarrow> string \<Rightarrow> UpdateInput
     \<Rightarrow> time \<Rightarrow> ProfileRepo \<Rightarrow> ProfileRepo \<times> (profile_err + Profile)" where
  "prof_UpdateMe rely users userID input now r =
     (case prof_getOrCreate rely users userID now r of
        (r, Inl e) \<Rightarrow> (r, Inl e)
      | (r, Inr p) \<Rightarrow>
          (let p = (apply_input (NormalizeInput input) p)\<lparr>pf_UpdatedAt := now\<rparr>
           in case rbind (ValidateProfile p) (\<lambda>_. prof_Update r p) of
                Inl e \<Rightarrow> (r, Inl e)
              | Inr r' \<Rightarrow> (r', Inr p)))"

definition prof_Service_OnAccountDeleted :: "ProfileRepo \<Rightarrow> string \<Rightarrow> time \<Rightarrow> profile_err + ProfileRepo" where
  "prof_Service_OnAccountDeleted r userID now =
     (case prof_GetByUserID r userID of
        Inl e \<Rightarrow> (if e = PrErrNotFound then Inr r else Inl e)
      | Inr p \<Rightarrow>
          (if \<not> pf_IsPublic p \<and> \<not> pf_ShowPublicWeights p then Inr r
           else prof_Update r (p\<lparr>pf_IsPublic := False, pf_ShowPublicWeights := False, pf_UpdatedAt := now\<rparr>)))"

text \<open>
  The gate of a public profile page: the row that is projected. A repository that fails returns the zero profile, which
  is not public; \<open>blocked\<close> is the optional source of the caller's block set.
\<close>

definition prof_blockedSet ::
  "(string \<Rightarrow> profile_err + string set) option \<Rightarrow> string \<Rightarrow> profile_err + string set" where
  "prof_blockedSet blocked userID =
     (case blocked of
        None \<Rightarrow> Inr {}
      | Some source \<Rightarrow>
          (if userID = [] then Inr {}
           else case source userID of Inl _ \<Rightarrow> Inl PrErrSafetyUnavailable | Inr s \<Rightarrow> Inr s))"

definition GetPublic_row ::
  "(string \<Rightarrow> profile_err + Profile) \<Rightarrow> (string \<Rightarrow> profile_err + string set) option \<Rightarrow> string \<Rightarrow> string
     \<Rightarrow> profile_err + Profile" where
  "GetPublic_row getByHandle blocked callerID handle =
     (let res = getByHandle (ToLower (TrimSpace handle));
          p = (case res of Inl _ \<Rightarrow> zero_Profile | Inr p \<Rightarrow> p)
      in if res = Inl PrErrNotFound \<or> \<not> pf_IsPublic p then Inl PrErrNotFound
         else rbind res (\<lambda>p.
           if callerID \<noteq> [] \<and> callerID \<noteq> pf_UserID p
           then rbind (prof_blockedSet blocked callerID) (\<lambda>s.
                  if pf_UserID p \<in> s then Inl PrErrNotFound else Inr p)
           else Inr p))"

end
