(* ===== verification/ProfileLaws.thy ===== *)
theory ProfileLaws
  imports ProfileModel RulesLaws
begin

text \<open>
  Profiles: every handle derived for a new account is a valid one, whatever the display name; the two indexes of the
  repository agree through every operation; and allocating a handle ends with a profile of the user, within its hundred
  attempts, whatever other requests do to the repository meanwhile.
\<close>

section \<open>Characters of handles\<close>

lemma handle_char_lower: "handle_char c \<Longrightarrow> lower_char c = c"
  by (auto simp: handle_char_def lower_char_def Let_def)

lemma handle_text_lower: "list_all handle_char s \<Longrightarrow> ToLower s = s"
  by (induction s) (auto simp: ToLower_def handle_char_lower)

lemma handle_char_consts [simp]: "handle_char CHR ''_''" "handle_char CHR ''-''"
  by (simp_all add: handle_char_def)

lemma digit_handle_char: "is_digit c \<Longrightarrow> handle_char c"
  by (simp add: is_digit_def handle_char_def Let_def)

lemma separator_handle_char: "is_separator c \<Longrightarrow> handle_char c"
  by (auto simp: is_separator_def)

lemma list_all_dropWhile: "list_all P s \<Longrightarrow> list_all P (dropWhile Q s)"
  by (induction s) auto

lemma list_all_takeWhile: "list_all P s \<Longrightarrow> list_all P (takeWhile Q s)"
  by (induction s) auto

lemma list_all_take: "list_all P s \<Longrightarrow> list_all P (take n s)"
  by (auto simp: list_all_iff dest: in_set_takeD)

lemma list_all_drop: "list_all P s \<Longrightarrow> list_all P (drop n s)"
  by (auto simp: list_all_iff dest: in_set_dropD)

lemmas list_all_parts = list_all_dropWhile list_all_takeWhile list_all_take list_all_drop

text \<open>Replacing the runs outside a class by text of the class leaves only the class.\<close>

lemma replace_runs_class:
  "list_all P r \<Longrightarrow> list_all P (replace_runs 1 (\<lambda>c. \<not> P c) r s)"
proof (induction s rule: length_induct)
  case (1 s)
  show ?case
  proof (cases s)
    case (Cons c cs)
    have "length (dropWhile (\<lambda>c. \<not> P c) cs) < length s"
      using Cons by (simp add: le_imp_less_Suc length_dropWhile_le)
    with 1 Cons show ?thesis by (auto simp: Let_def)
  qed simp
qed

lemma replace_runs_keeps:
  "list_all P r \<Longrightarrow> list_all P s \<Longrightarrow> list_all P (replace_runs n q r s)"
proof (induction s rule: length_induct)
  case (1 s)
  show ?case
  proof (cases s)
    case (Cons c cs)
    have "length (dropWhile q cs) < length s"
      using Cons by (simp add: le_imp_less_Suc length_dropWhile_le)
    with 1 Cons show ?thesis by (auto simp: Let_def list_all_parts)
  qed simp
qed

lemma invalidHandle_clean: "list_all handle_char r \<Longrightarrow> list_all handle_char (invalidHandle_ReplaceAll s r)"
  unfolding invalidHandle_ReplaceAll_def by (rule replace_runs_class)

lemma shortIdentifier_clean:
  "list_all handle_char (shortIdentifier s)" "length (shortIdentifier s) \<le> 8" "3 \<le> length (shortIdentifier s)"
proof -
  let ?v = "invalidHandle_ReplaceAll (ToLower s) []"
  have v: "list_all handle_char ?v" by (rule invalidHandle_clean) simp
  have user: "list_all handle_char ''user''" by code_simp
  show "list_all handle_char (shortIdentifier s)"
    using v user by (simp add: shortIdentifier_def Let_def list_all_parts)
  show "length (shortIdentifier s) \<le> 8" "3 \<le> length (shortIdentifier s)"
    by (auto simp: shortIdentifier_def Let_def)
qed

definition handle_ok :: "string \<Rightarrow> bool" where
  "handle_ok s = (handlePattern s \<and> \<not> isReserved s)"

lemma ValidateHandle_ok: "handle_ok s \<Longrightarrow> ValidateHandle s = Inr ()"
  by (auto simp: handle_ok_def ValidateHandle_def handlePattern_def isReserved_def handle_text_lower)

lemma reserved_no_underscore: "isReserved s \<Longrightarrow> CHR ''_'' \<notin> set s"
proof -
  have "list_all (\<lambda>h. CHR ''_'' \<notin> set h) reservedHandles" by code_simp
  then show "isReserved s \<Longrightarrow> CHR ''_'' \<notin> set s" by (auto simp: isReserved_def list_all_iff)
qed

text \<open>What a derived handle is: at most 24 characters of the class, so a suffix never needs truncation.\<close>

lemma HandleCandidate_shape:
  "handle_ok (HandleCandidate value fallback) \<and> length (HandleCandidate value fallback) \<le> 24"
proof -
  let ?a = "invalidHandle_ReplaceAll (ToLower (TrimSpace value)) ''_''"
  let ?b = "trim_separators (repeatedSep_ReplaceAll ?a ''_'')"
  let ?c = "if length ?b > 24 then take 24 ?b else ?b"
  let ?d = "''investor_'' @ shortIdentifier fallback"
  have "list_all handle_char ?a" by (rule invalidHandle_clean) simp
  then have "list_all handle_char (repeatedSep_ReplaceAll ?a ''_'')"
    unfolding repeatedSep_ReplaceAll_def by (intro replace_runs_keeps) auto
  then have "list_all handle_char ?b"
    by (simp add: trim_separators_def list_all_parts)
  then have c: "list_all handle_char ?c" "length ?c \<le> 24" by (auto simp: list_all_parts)
  have inv: "list_all handle_char ''investor_''" by code_simp
  have d: "list_all handle_char ?d" "length ?d \<le> 17" "12 \<le> length ?d" "\<not> isReserved ?d"
    using shortIdentifier_clean [of fallback] inv by (auto dest: reserved_no_underscore)
  let ?e = "if length ?c < 3 \<or> isReserved ?c then ?d else ?c"
  have e: "handle_ok ?e" "length ?e \<le> 24"
    using c d by (auto simp: handle_ok_def handlePattern_def)
  have "HandleCandidate value fallback = ?e"
    using e(2) unfolding HandleCandidate_def Let_def by (auto split: if_splits)
  with e show ?thesis by simp
qed

lemma itoa_short: "n < 100 \<Longrightarrow> length (itoa n) \<le> 2 \<and> itoa n \<noteq> []"
  using itoa_length [of 2 n] by simp

lemma itoa_inj: "itoa m = itoa n \<Longrightarrow> m = n"
  by (metis itoa_digits of_nat_eq_iff)

lemma HandleWithSuffix_plain:
  "length base \<le> 24 \<Longrightarrow> n < 100 \<Longrightarrow> HandleWithSuffix base n = base @ ''_'' @ itoa n"
  using itoa_short [of n] by (simp add: HandleWithSuffix_def Let_def)

lemma HandleWithSuffix_ok:
  "handle_ok base \<Longrightarrow> length base \<le> 24 \<Longrightarrow> n < 100 \<Longrightarrow> handle_ok (HandleWithSuffix base n)"
proof -
  assume a: "handle_ok base" "length base \<le> 24" "n < 100"
  have "list_all handle_char (itoa n)"
    using itoa_digits [of n] by (auto simp: list_all_iff digit_handle_char)
  moreover have "\<not> isReserved (base @ ''_'' @ itoa n)" by (auto dest: reserved_no_underscore)
  ultimately show ?thesis
    using a itoa_short [OF a(3)] by (auto simp: HandleWithSuffix_plain handle_ok_def handlePattern_def)
qed

lemma attempt_handle_ok: "n < 100 \<Longrightarrow> handle_ok (attempt_handle user n)"
  using HandleCandidate_shape HandleWithSuffix_ok by (auto simp: attempt_handle_def)

lemma attempt_handle_inj: "m < 100 \<Longrightarrow> n < 100 \<Longrightarrow> attempt_handle user m = attempt_handle user n \<Longrightarrow> m = n"
proof -
  assume a: "m < 100" "n < 100" "attempt_handle user m = attempt_handle user n"
  have "length (HandleCandidate (av_DisplayName user) (av_ID user)) \<le> 24" by (rule HandleCandidate_shape [THEN conjunct2])
  note plain = HandleWithSuffix_plain [OF this]
  show "m = n"
    using a by (auto simp: attempt_handle_def plain itoa_inj split: if_splits)
qed

section \<open>The indexes of the repository\<close>

definition index_ok :: "(string \<rightharpoonup> Profile) \<Rightarrow> (string \<rightharpoonup> string) \<Rightarrow> bool" where
  "index_ok rows idx =
     ((\<forall>u p. rows u = Some p \<longrightarrow> pf_UserID p = u \<and> idx (pf_Handle p) = Some u) \<and>
      (\<forall>h u. idx h = Some u \<longrightarrow> (\<exists>p. rows u = Some p \<and> pf_Handle p = h)))"

definition prof_wf :: "ProfileRepo \<Rightarrow> bool" where
  "prof_wf r = (distinct (map fst (pf_byUserID r)) \<and> index_ok (map_of (pf_byUserID r)) (pf_byHandle r))"

lemma index_ok_row: "index_ok rows idx \<Longrightarrow> rows u = Some p \<Longrightarrow> pf_UserID p = u \<and> idx (pf_Handle p) = Some u"
  by (simp add: index_ok_def)

lemma index_ok_owner: "index_ok rows idx \<Longrightarrow> idx h = Some u \<Longrightarrow> \<exists>p. rows u = Some p \<and> pf_Handle p = h"
  by (simp add: index_ok_def)

lemma index_ok_create:
  "index_ok rows idx \<Longrightarrow> rows (pf_UserID p) = None \<Longrightarrow> idx (pf_Handle p) = None \<Longrightarrow>
     index_ok (rows(pf_UserID p \<mapsto> p)) (idx(pf_Handle p \<mapsto> pf_UserID p))"
  unfolding index_ok_def by (auto split: if_splits) (metis option.distinct(1))+

lemma index_ok_delete:
  "index_ok rows idx \<Longrightarrow> rows u = Some p \<Longrightarrow> index_ok (rows(u := None)) (idx(pf_Handle p := None))"
  unfolding index_ok_def by (auto split: if_splits) (metis option.inject)+

text \<open>An update is a deletion followed by a creation under the same user.\<close>

lemma index_ok_update:
  assumes "index_ok rows idx" "rows (pf_UserID p) = Some current" "idx (pf_Handle p) \<in> {None, Some (pf_UserID p)}"
  shows "index_ok (rows(pf_UserID p \<mapsto> p)) ((idx(pf_Handle current := None))(pf_Handle p \<mapsto> pf_UserID p))"
proof -
  have del: "index_ok (rows(pf_UserID p := None)) (idx(pf_Handle current := None))"
    by (rule index_ok_delete [OF assms(1,2)])
  have "(idx(pf_Handle current := None)) (pf_Handle p) = None"
    using assms index_ok_owner [OF assms(1), of "pf_Handle p" "pf_UserID p"] by auto
  from index_ok_create [OF del _ this] show ?thesis by (simp only: fun_upd_upd fun_upd_same simp_thms)
qed

lemma prof_wf_NewProfileRepo: "prof_wf NewProfileRepo"
  by (simp add: prof_wf_def index_ok_def NewProfileRepo_def)

lemma prof_wfI:
  "index_ok (map_of rows) idx \<Longrightarrow> distinct (map fst rows) \<Longrightarrow> prof_wf (r\<lparr>pf_byUserID := rows, pf_byHandle := idx\<rparr>)"
  by (simp add: prof_wf_def)

lemma prof_wfD: "prof_wf r \<Longrightarrow> index_ok (map_of (pf_byUserID r)) (pf_byHandle r) \<and> distinct (map fst (pf_byUserID r))"
  by (simp only: prof_wf_def)

lemma prof_Create_wf: "prof_wf r \<Longrightarrow> prof_Create r p = Inr r' \<Longrightarrow> prof_wf r'"
proof -
  assume wf: "prof_wf r" and run: "prof_Create r p = Inr r'"
  from run have new: "map_of (pf_byUserID r) (pf_UserID p) = None" "pf_byHandle r (pf_Handle p) = None"
    and r': "r' = r\<lparr>pf_byUserID := AList.update (pf_UserID p) p (pf_byUserID r),
       pf_byHandle := (pf_byHandle r)(pf_Handle p \<mapsto> pf_UserID p)\<rparr>"
    unfolding prof_Create_def by (simp_all split: if_splits)
  show ?thesis
    unfolding r'
  proof (rule prof_wfI)
    show "index_ok (map_of (AList.update (pf_UserID p) p (pf_byUserID r))) ((pf_byHandle r)(pf_Handle p \<mapsto> pf_UserID p))"
      unfolding update_conv' by (rule index_ok_create [OF prof_wfD [OF wf, THEN conjunct1] new])
  qed (rule distinct_update [OF prof_wfD [OF wf, THEN conjunct2]])
qed

lemma prof_Update_wf: "prof_wf r \<Longrightarrow> prof_Update r p = Inr r' \<Longrightarrow> prof_wf r'"
proof -
  assume wf: "prof_wf r" and run: "prof_Update r p = Inr r'"
  from run obtain current where current: "map_of (pf_byUserID r) (pf_UserID p) = Some current"
    "pf_byHandle r (pf_Handle p) \<in> {None, Some (pf_UserID p)}"
    and r': "r' = r\<lparr>pf_byUserID := AList.update (pf_UserID p) p (pf_byUserID r),
       pf_byHandle := ((pf_byHandle r)(pf_Handle current := None))(pf_Handle p \<mapsto> pf_UserID p)\<rparr>"
    unfolding prof_Update_def by (auto split: option.splits if_splits)
  show ?thesis
    unfolding r'
  proof (rule prof_wfI)
    show "index_ok (map_of (AList.update (pf_UserID p) p (pf_byUserID r)))
        ((pf_byHandle r)(pf_Handle current := None, pf_Handle p \<mapsto> pf_UserID p))"
      unfolding update_conv' by (rule index_ok_update [OF prof_wfD [OF wf, THEN conjunct1] current])
  qed (rule distinct_update [OF prof_wfD [OF wf, THEN conjunct2]])
qed

lemma prof_OnAccountDeleted_wf: "prof_wf r \<Longrightarrow> prof_wf (prof_OnAccountDeleted r u)"
proof (cases "map_of (pf_byUserID r) u")
  case (Some p)
  assume wf: "prof_wf r"
  have r': "prof_OnAccountDeleted r u = r\<lparr>pf_byUserID := AList.delete u (pf_byUserID r),
      pf_byHandle := (pf_byHandle r)(pf_Handle p := None)\<rparr>"
    using Some by (simp add: prof_OnAccountDeleted_def)
  show ?thesis
    unfolding r'
  proof (rule prof_wfI)
    show "index_ok (map_of (AList.delete u (pf_byUserID r))) ((pf_byHandle r)(pf_Handle p := None))"
      unfolding delete_conv'
      by (rule index_ok_delete [where rows = "map_of (pf_byUserID r)", OF prof_wfD [OF wf, THEN conjunct1] Some])
  qed (rule distinct_delete [OF prof_wfD [OF wf, THEN conjunct2]])
qed (simp add: prof_OnAccountDeleted_def)

text \<open>A handle leads to the profile that carries it, and no two users share one.\<close>

lemma prof_GetByHandle_row:
  "prof_wf r \<Longrightarrow> prof_GetByHandle r h = Inr p \<Longrightarrow>
     pf_Handle p = h \<and> prof_GetByUserID r (pf_UserID p) = Inr p"
proof -
  assume wf: "prof_wf r" and run: "prof_GetByHandle r h = Inr p"
  from wf have ok: "index_ok (map_of (pf_byUserID r)) (pf_byHandle r)" by (simp only: prof_wf_def)
  from run obtain u where u: "pf_byHandle r h = Some u"
    by (auto simp: prof_GetByHandle_def split: option.splits)
  from index_ok_owner [OF ok u] obtain q where q: "map_of (pf_byUserID r) u = Some q" "pf_Handle q = h" by blast
  with run u have "p = q" by (simp add: prof_GetByHandle_def)
  with q index_ok_row [OF ok q(1)] show ?thesis by (simp add: prof_GetByUserID_def)
qed

section \<open>Allocating a handle\<close>

text \<open>What other requests keep of the repository.\<close>

definition rely_wf :: "(nat \<Rightarrow> ProfileRepo \<Rightarrow> ProfileRepo) \<Rightarrow> bool" where
  "rely_wf rely = (\<forall>n r. prof_wf r \<longrightarrow> prof_wf (rely n r))"

lemma allocate_result:
  assumes "rely_wf rely" "prof_wf r" "pf_UserID p = userID"
    "allocate rely user userID p ns r = (r', res)"
  shows "prof_wf r' \<and> (case res of Inr q \<Rightarrow> map_of (pf_byUserID r') userID = Some q | Inl e \<Rightarrow> e = PrErrNoHandle)"
  using assms(2-)
proof (induction ns arbitrary: r p)
  case (Cons n ns)
  let ?p = "p\<lparr>pf_Handle := attempt_handle user n\<rparr>"
  let ?r = "rely (2 * n) r"
  let ?r2 = "rely (2 * n + 1) ?r"
  have wf: "prof_wf ?r" "prof_wf ?r2" using assms(1) Cons.prems(1) by (auto simp: rely_wf_def)
  have up: "pf_UserID ?p = userID" using Cons.prems(2) by simp
  show ?case
  proof (cases "prof_Create ?r ?p")
    case (Inr q)
    with Cons.prems(3) have "r' = q" "res = Inr ?p" by (auto simp: Let_def)
    moreover have "map_of (pf_byUserID q) userID = Some ?p"
      using Inr up by (auto simp: prof_Create_def update_conv' split: if_splits)
    ultimately show ?thesis using prof_Create_wf [OF wf(1) Inr] by simp
  next
    case (Inl e)
    then have "e = PrErrHandleExists" by (auto simp: prof_Create_def split: if_splits)
    note step = Cons.prems(3) [unfolded allocate.simps Let_def Inl this]
    show ?thesis
    proof (cases "prof_GetByUserID ?r2 userID")
      case (Inr q)
      with step wf(2) show ?thesis by (auto simp: prof_GetByUserID_def)
    next
      case (Inl e')
      with step have "allocate rely user userID ?p ns ?r2 = (r', res)" by simp
      then show ?thesis by (rule Cons.IH [OF wf(2) up])
    qed
  qed
qed auto

lemma taken_handles_bound:
  assumes "prof_wf r"
  shows "finite {h. pf_byHandle r h \<noteq> None} \<and> card {h. pf_byHandle r h \<noteq> None} \<le> length (pf_byUserID r)"
proof -
  let ?H = "set (map (\<lambda>row. pf_Handle (snd row)) (pf_byUserID r))"
  have "h \<in> ?H" if "pf_byHandle r h \<noteq> None" for h
  proof -
    from that obtain u where "pf_byHandle r h = Some u" by auto
    from index_ok_owner [OF prof_wfD [OF assms, THEN conjunct1] this]
    obtain p where p: "map_of (pf_byUserID r) u = Some p" "pf_Handle p = h" by blast
    from map_of_SomeD [OF p(1)] p(2) show ?thesis by force
  qed
  then have sub: "{h. pf_byHandle r h \<noteq> None} \<subseteq> ?H" by (rule_tac subsetI) simp
  have "card {h. pf_byHandle r h \<noteq> None} \<le> card ?H" by (rule card_mono [OF finite_set sub])
  also have "\<dots> \<le> length (pf_byUserID r)" using card_length by (metis length_map)
  finally show ?thesis using finite_subset [OF sub finite_set] by (rule conjI [rotated])
qed

lemma hundred_attempts: "card ((attempt_handle user) ` {0..<100}) = 100"
proof -
  have "inj_on (attempt_handle user) {0..<100}"
    by (auto intro!: inj_onI dest: attempt_handle_inj)
  then show ?thesis by (simp add: card_image)
qed

lemma new_profile_UserID [simp]: "pf_UserID (new_profile user now) = av_ID user"
  by (simp add: new_profile_def Let_def)

text \<open>
  The trimmed display name that survives truncation to forty runes is checked again after another trim: a name whose
  first forty runes are one letter and blanks never gets a profile.
\<close>

lemma display_name_trap:
  "let user = \<lparr>av_ID = ''00000000-0000'', av_DisplayName = ''A'' @ replicate 40 CHR '' '' @ ''B'', av_AvatarKey = ''default''\<rparr>
   in ValidateProfile (new_profile user 0) = Inl (PrErrInvalid ''display_name must be 2-40 characters'')"
  by code_simp

section \<open>Properties\<close>

text \<open>
  Whatever display name and identifier an account has, the handle derived for it and each of the ninety-nine
  handles with a suffix pass \<^verbatim>\<open>ValidateHandle\<close>, and the hundred are pairwise different.
\<close>

theorem derived_handles_valid:
  "ValidateHandle (HandleCandidate value fallback) = Inr () \<and>
   (n < 100 \<longrightarrow> ValidateHandle (HandleWithSuffix (HandleCandidate value fallback) n) = Inr ()) \<and>
   (m < 100 \<and> n < 100 \<and> attempt_handle user m = attempt_handle user n \<longrightarrow> m = n)"
  using HandleCandidate_shape HandleWithSuffix_ok [of "HandleCandidate value fallback" n] ValidateHandle_ok attempt_handle_inj
  by blast

text \<open>The theorem at display names made of one separator and of reserved words.\<close>

theorem derived_handles_valid_witness:
  "ValidateHandle (HandleWithSuffix (HandleCandidate '' Admin '' ''0f-12'') 42) = Inr () \<and>
   attempt_handle \<lparr>av_ID = ''0f-12'', av_DisplayName = ''--'', av_AvatarKey = []\<rparr> 3
     \<noteq> attempt_handle \<lparr>av_ID = ''0f-12'', av_DisplayName = ''--'', av_AvatarKey = []\<rparr> 4"
  using derived_handles_valid [of "'' Admin ''" "''0f-12''" 42]
    derived_handles_valid [of _ _ 4 3 "\<lparr>av_ID = ''0f-12'', av_DisplayName = ''--'', av_AvatarKey = []\<rparr>"]
  by auto

text \<open>
  The repository as attempt \<open>n\<close> finds it when all earlier ones failed, and what makes attempt \<open>n\<close> fail: its handle is
  taken, or another request stored a row for the user that is gone again when the code looks for it.
\<close>

fun at_attempt :: "(nat \<Rightarrow> ProfileRepo \<Rightarrow> ProfileRepo) \<Rightarrow> ProfileRepo \<Rightarrow> nat \<Rightarrow> ProfileRepo" where
  "at_attempt rely r 0 = r"
| "at_attempt rely r (Suc n) = rely (2 * n + 1) (rely (2 * n) (at_attempt rely r n))"

definition attempt_fails ::
  "(nat \<Rightarrow> ProfileRepo \<Rightarrow> ProfileRepo) \<Rightarrow> AccountView \<Rightarrow> ProfileRepo \<Rightarrow> nat \<Rightarrow> bool" where
  "attempt_fails rely user r n =
     ((map_of (pf_byUserID (rely (2 * n) (at_attempt rely r n))) (av_ID user) \<noteq> None \<or>
       pf_byHandle (rely (2 * n) (at_attempt rely r n)) (attempt_handle user n) \<noteq> None) \<and>
      map_of (pf_byUserID (at_attempt rely r (Suc n))) (av_ID user) = None)"

lemma allocate_fails_iff:
  "k \<le> m \<Longrightarrow> pf_UserID p = av_ID user \<Longrightarrow>
   isl (snd (allocate rely user (av_ID user) p [k..<m] (at_attempt rely r k))) = (\<forall>n \<in> {k..<m}. attempt_fails rely user r n)"
proof (induction arbitrary: p rule: inc_induct)
  case (step k)
  let ?p = "p\<lparr>pf_Handle := attempt_handle user k\<rparr>"
  let ?r = "rely (2 * k) (at_attempt rely r k)"
  have range: "[k..<m] = k # [Suc k..<m]" "{k..<m} = insert k {Suc k..<m}"
    using step.hyps by (auto simp: upt_rec)
  have made: "isl (prof_Create ?r ?p) =
      (map_of (pf_byUserID ?r) (av_ID user) \<noteq> None \<or> pf_byHandle ?r (attempt_handle user k) \<noteq> None)"
    and kind: "prof_Create ?r ?p = Inl e \<Longrightarrow> e = PrErrHandleExists" for e
    using step.prems by (auto simp: prof_Create_def split: if_splits)
  show ?case
  proof (cases "prof_Create ?r ?p")
    case (Inr q)
    then show ?thesis using made unfolding range by (simp add: Let_def attempt_fails_def)
  next
    case (Inl e)
    have fails: "attempt_fails rely user r k = (map_of (pf_byUserID (at_attempt rely r (Suc k))) (av_ID user) = None)"
      using made Inl by (simp add: attempt_fails_def)
    show ?thesis
    proof (cases "map_of (pf_byUserID (at_attempt rely r (Suc k))) (av_ID user)")
      case None
      have "isl (snd (allocate rely user (av_ID user) ?p [Suc k..<m] (at_attempt rely r (Suc k)))) =
          (\<forall>n \<in> {Suc k..<m}. attempt_fails rely user r n)"
        by (rule step.IH) (simp add: step.prems)
      then show ?thesis using Inl kind [OF Inl] None fails unfolding range by (simp add: Let_def prof_GetByUserID_def)
    next
      case (Some q)
      then show ?thesis using Inl kind [OF Inl] fails unfolding range by (simp add: Let_def prof_GetByUserID_def)
    qed
  qed
qed simp

lemma at_attempt_alone [simp]: "at_attempt (\<lambda>_ r. r) r n = r"
  by (induction n) simp_all

text \<open>
  C20. Looking up or creating the profile of a registered user, whatever other requests do to the repository between its
  calls: a row the user has is answered as it is; a draft that does not pass validation (such as a display name whose
  first forty runes are one letter and blanks) is refused with that error and nothing is stored; otherwise the answer is
  the row now stored for the user, unless each of the hundred attempts failed, its handle being taken when it was made,
  and then it is the error that no handle was found. Undisturbed, a valid draft gets a handle whenever the repository
  holds fewer than a hundred profiles. The two indexes stay in agreement.
\<close>

theorem getOrCreate_allocates:
  assumes "prof_wf r" "rely_wf rely" "users userID = Inr (Some user)" "av_ID user = userID"
    "prof_getOrCreate rely users userID now r = (r', res)"
  shows "prof_wf r' \<and>
    (case (map_of (pf_byUserID r) userID, ValidateProfile (new_profile user now)) of
       (Some p, _) \<Rightarrow> r' = r \<and> res = Inr p
     | (None, Inl e) \<Rightarrow> r' = r \<and> res = Inl e
     | (None, Inr _) \<Rightarrow>
         (case res of Inr p \<Rightarrow> map_of (pf_byUserID r') userID = Some p | Inl e \<Rightarrow> e = PrErrNoHandle) \<and>
         (isl res = (\<forall>n < 100. attempt_fails rely user r n)) \<and>
         (rely = (\<lambda>_ r. r) \<and> length (pf_byUserID r) < 100 \<longrightarrow> \<not> isl res))"
proof (cases "map_of (pf_byUserID r) userID")
  case (Some p)
  with assms(5) have "r' = r" "res = Inr p" by (simp_all add: prof_getOrCreate_def prof_GetByUserID_def)
  with assms(1) Some show ?thesis by simp
next
  case None
  let ?p = "new_profile user now"
  show ?thesis
  proof (cases "ValidateProfile ?p")
    case (Inl e)
    with assms(3,5) None have "r' = r" "res = Inl e" by (simp_all add: prof_getOrCreate_def prof_GetByUserID_def Let_def)
    with assms(1) None Inl show ?thesis by simp
  next
    case (Inr u)
    have run: "allocate rely user userID ?p [0..<100] r = (r', res)"
      using assms(3,5) Inr None by (simp add: prof_getOrCreate_def prof_GetByUserID_def Let_def)
    have uid: "pf_UserID ?p = userID" using assms(4) by simp
    have "isl (snd (allocate rely user (av_ID user) ?p [0..<100] (at_attempt rely r 0))) =
        (\<forall>n \<in> {0..<100}. attempt_fails rely user r n)"
      by (rule allocate_fails_iff) (use assms(4) in simp_all)
    then have exact: "isl res = (\<forall>n < 100. attempt_fails rely user r n)" using run assms(4) by auto
    have "\<not> isl res" if free: "rely = (\<lambda>_ r. r)" "length (pf_byUserID r) < 100"
    proof
      assume "isl res"
      then have "\<forall>n < 100. pf_byHandle r (attempt_handle user n) \<noteq> None"
        using exact None assms(4) by (simp add: free(1) attempt_fails_def)
      then have "attempt_handle user ` {0..<100} \<subseteq> {h. pf_byHandle r h \<noteq> None}" by auto
      then have "100 \<le> card {h. pf_byHandle r h \<noteq> None}"
        using card_mono taken_handles_bound [OF assms(1)] hundred_attempts [of user] by metis
      with taken_handles_bound [OF assms(1)] free(2) show False by linarith
    qed
    with allocate_result [OF assms(2,1) uid run] exact None Inr show ?thesis by simp
  qed
qed

text \<open>An account whose derived handle is taken.\<close>

definition demo_account :: AccountView where
  "demo_account = \<lparr>av_ID = ''7c11-90ab'', av_DisplayName = ''Ada  Lovelace'', av_AvatarKey = ''fox''\<rparr>"

definition demo_profiles :: ProfileRepo where
  "demo_profiles =
     (let p = zero_Profile\<lparr>pf_UserID := ''u1'', pf_Handle := ''ada_lovelace'', pf_IsPublic := True\<rparr>
      in \<lparr>pf_byUserID = [(''u1'', p)], pf_byHandle = [''ada_lovelace'' \<mapsto> ''u1'']\<rparr>)"

lemma demo_profiles_wf: "prof_wf demo_profiles"
  by (auto simp: prof_wf_def index_ok_def demo_profiles_def Let_def split: if_splits)

theorem getOrCreate_allocates_witness:
  "\<exists>r' p. prof_getOrCreate (\<lambda>_ r. r) (\<lambda>_. Inr (Some demo_account)) ''7c11-90ab'' 5 demo_profiles = (r', Inr p) \<and>
     pf_Handle p = ''ada_lovelace_1'' \<and> map_of (pf_byUserID r') ''7c11-90ab'' = Some p"
proof -
  let ?res = "prof_getOrCreate (\<lambda>_ r. r) (\<lambda>_. Inr (Some demo_account)) ''7c11-90ab'' 5 demo_profiles"
  have handle: "pf_Handle (projr (snd ?res)) = ''ada_lovelace_1''" by code_simp
  have ok: "ValidateProfile (new_profile demo_account 5) = Inr ()" by code_simp
  have none: "map_of (pf_byUserID demo_profiles) ''7c11-90ab'' = None" by code_simp
  have "length (pf_byUserID demo_profiles) < 100" "av_ID demo_account = ''7c11-90ab''" by code_simp+
  with getOrCreate_allocates [OF demo_profiles_wf, of "\<lambda>_ r. r" "\<lambda>_. Inr (Some demo_account)" "''7c11-90ab''"
      demo_account 5 "fst ?res" "snd ?res"] ok handle none
  show ?thesis by (cases ?res; cases "snd ?res") (auto simp: rely_wf_def)
qed

end
