(* ===== verification/SocialStore.thy ===== *)
theory SocialStore
  imports ProfileModel
begin

text \<open>
  The store of the social graph and of direct messages (package \<^verbatim>\<open>social\<close>: model.go, errors.go and
  memory_repository.go). Follows and conversations are Go maps that the code iterates over, so they are association
  lists whose order is the iteration order; \<^verbatim>\<open>sort.Slice\<close> is modelled by the stable \<open>isort\<close>, which is one of
  the orders it may give to equal instants. Instants the code reads from the clock are arguments.
\<close>

section \<open>Rows\<close>

datatype social_err =
    SocErrNotFound
  | SocErrInvalidHandle
  | SocErrSelfFollow
  | SocErrSelfDM
  | SocErrNotFriends
  | SocErrInvalidMessage
  | SocErrMessageTooLong
  | SocErrMessageRateLimited
  | SocErrConversationLimited
  | SocErrRepeatedMessage
  | SocErrSpamBurst
  | SocErrConversationNotFound
  | SocErrForbidden
  | SocErrInteractionBlocked
  | SocErrMessageNotFound
  | SocErrSafetyUnavailable
  | SocErrOther string

record MessageAbusePolicy =
  ap_UserLimit :: int
  ap_UserWindow :: time
  ap_ConversationLimit :: int
  ap_ConversationWindow :: time
  ap_RepeatedLimit :: int
  ap_RepeatedWindow :: time
  ap_BurstLimit :: int
  ap_BurstWindow :: time

definition second_ns :: time where
  "second_ns = 1000000000"

definition MaxMessageLength :: nat where
  "MaxMessageLength = 1000"

definition defaultMessageAbusePolicy :: MessageAbusePolicy where
  "defaultMessageAbusePolicy =
     \<lparr>ap_UserLimit = 30, ap_UserWindow = 60 * second_ns,
      ap_ConversationLimit = 40, ap_ConversationWindow = 60 * second_ns,
      ap_RepeatedLimit = 3, ap_RepeatedWindow = 10 * 60 * second_ns,
      ap_BurstLimit = 8, ap_BurstWindow = 10 * second_ns\<rparr>"

record Follow =
  fo_FollowerUserID :: string
  fo_FollowingUserID :: string
  fo_CreatedAt :: time

record Friendship =
  fs_UserID :: string
  fs_FriendsSince :: time

record Conversation =
  cv_ID :: string
  cv_ParticipantA :: string
  cv_ParticipantB :: string
  cv_CreatedAt :: time
  cv_UpdatedAt :: time
  cv_LastMessageAt :: "time option"

definition zero_Conversation :: Conversation where
  "zero_Conversation =
     \<lparr>cv_ID = [], cv_ParticipantA = [], cv_ParticipantB = [], cv_CreatedAt = 0, cv_UpdatedAt = 0,
      cv_LastMessageAt = None\<rparr>"

record Message =
  ms_ID :: string
  ms_ConversationID :: string
  ms_SenderUserID :: string
  ms_Body :: string
  ms_CreatedAt :: time
  ms_RemovedAt :: "time option"
  ms_RemovedBy :: "string option"

definition IsRemoved :: "Message \<Rightarrow> bool" where
  "IsRemoved m = (ms_RemovedAt m \<noteq> None)"

record MessageNotification =
  mn_ID :: string
  mn_RecipientID :: string
  mn_Type :: string
  mn_DedupeKey :: string
  mn_Payload :: "string \<rightharpoonup> string"
  mn_CreatedAt :: time

text \<open>\<open>mw_VolatileNotify\<close> is the closure of the in-memory repository: what calling it answers.\<close>

record MessageWrite =
  mw_Message :: Message
  mw_Notification :: "MessageNotification option"
  mw_VolatileNotify :: "(unit \<Rightarrow> social_err option) option"

record participantState =
  ps_lastReadMessageID :: string
  ps_lastReadAt :: time

record SocialRepo =
  sr_follows :: "(string \<times> Follow) list"
  sr_conversations :: "(string \<times> Conversation) list"
  sr_conversationByPair :: "string \<rightharpoonup> string"
  sr_messages :: "(string \<times> Message list) list"
  sr_messageByID :: "string \<rightharpoonup> string"
  sr_hiddenFor :: "string \<rightharpoonup> (string \<rightharpoonup> bool)"
  sr_readState :: "string \<rightharpoonup> (string \<rightharpoonup> participantState)"

definition NewSocialRepo :: SocialRepo where
  "NewSocialRepo =
     \<lparr>sr_follows = [], sr_conversations = [], sr_conversationByPair = Map.empty, sr_messages = [],
      sr_messageByID = Map.empty, sr_hiddenFor = Map.empty, sr_readState = Map.empty\<rparr>"

section \<open>Keys\<close>

definition followKey :: "string \<Rightarrow> string \<Rightarrow> string" where
  "followKey a b = a @ ''->'' @ b"

definition pairKey :: "string \<Rightarrow> string \<Rightarrow> string" where
  "pairKey a b = (if str_less a b then a @ '':'' @ b else b @ '':'' @ a)"

section \<open>Follows\<close>

definition soc_Follow :: "string \<Rightarrow> string \<Rightarrow> time \<Rightarrow> SocialRepo \<Rightarrow> SocialRepo" where
  "soc_Follow follower following now r =
     (case map_of (sr_follows r) (followKey follower following) of
        Some _ \<Rightarrow> r
      | None \<Rightarrow> r\<lparr>sr_follows := AList.update (followKey follower following)
                    \<lparr>fo_FollowerUserID = follower, fo_FollowingUserID = following, fo_CreatedAt = now\<rparr> (sr_follows r)\<rparr>)"

definition soc_Unfollow :: "string \<Rightarrow> string \<Rightarrow> SocialRepo \<Rightarrow> SocialRepo" where
  "soc_Unfollow follower following r =
     r\<lparr>sr_follows := AList.delete (followKey follower following) (sr_follows r)\<rparr>"

definition soc_IsFollowing :: "string \<Rightarrow> string \<Rightarrow> SocialRepo \<Rightarrow> bool" where
  "soc_IsFollowing follower following r = (map_of (sr_follows r) (followKey follower following) \<noteq> None)"

definition soc_ListFollowing :: "string \<Rightarrow> SocialRepo \<Rightarrow> Follow list" where
  "soc_ListFollowing userID r =
     isort (\<lambda>a b. fo_CreatedAt a > fo_CreatedAt b)
       (filter (\<lambda>f. fo_FollowerUserID f = userID) (map snd (sr_follows r)))"

definition soc_ListFollowers :: "string \<Rightarrow> SocialRepo \<Rightarrow> Follow list" where
  "soc_ListFollowers userID r =
     isort (\<lambda>a b. fo_CreatedAt a > fo_CreatedAt b)
       (filter (\<lambda>f. fo_FollowingUserID f = userID) (map snd (sr_follows r)))"

definition mutual_of :: "string \<Rightarrow> SocialRepo \<Rightarrow> Follow \<Rightarrow> Friendship option" where
  "mutual_of userID r f =
     (if fo_FollowerUserID f \<noteq> userID then None
      else case map_of (sr_follows r) (followKey (fo_FollowingUserID f) userID) of
             None \<Rightarrow> None
           | Some back \<Rightarrow>
               Some \<lparr>fs_UserID = fo_FollowingUserID f,
                     fs_FriendsSince = (if fo_CreatedAt back > fo_CreatedAt f then fo_CreatedAt back
                                        else fo_CreatedAt f)\<rparr>)"

definition soc_ListMutualFriends :: "string \<Rightarrow> SocialRepo \<Rightarrow> Friendship list" where
  "soc_ListMutualFriends userID r =
     isort (\<lambda>a b. fs_FriendsSince a > fs_FriendsSince b)
       (List.map_filter (\<lambda>kf. mutual_of userID r (snd kf)) (sr_follows r))"

section \<open>Conversations\<close>

definition soc_GetConversationBetween :: "string \<Rightarrow> string \<Rightarrow> SocialRepo \<Rightarrow> Conversation option" where
  "soc_GetConversationBetween userA userB r =
     (case sr_conversationByPair r (pairKey userA userB) of
        None \<Rightarrow> None
      | Some cid \<Rightarrow> Some (case map_of (sr_conversations r) cid of None \<Rightarrow> zero_Conversation | Some c \<Rightarrow> c))"

definition soc_CreateConversation ::
  "string \<Rightarrow> string \<Rightarrow> string \<Rightarrow> time \<Rightarrow> SocialRepo \<Rightarrow> SocialRepo \<times> Conversation" where
  "soc_CreateConversation cid userA userB now r =
     (let key = pairKey userA userB
      in case sr_conversationByPair r key of
           Some existingID \<Rightarrow>
             (r, case map_of (sr_conversations r) existingID of None \<Rightarrow> zero_Conversation | Some c \<Rightarrow> c)
         | None \<Rightarrow>
             (let c = \<lparr>cv_ID = cid, cv_ParticipantA = userA, cv_ParticipantB = userB, cv_CreatedAt = now,
                       cv_UpdatedAt = now, cv_LastMessageAt = None\<rparr>
              in (r\<lparr>sr_conversations := AList.update cid c (sr_conversations r),
                    sr_conversationByPair := (sr_conversationByPair r)(key \<mapsto> cid)\<rparr>, c)))"

definition soc_GetConversation :: "string \<Rightarrow> SocialRepo \<Rightarrow> social_err + Conversation" where
  "soc_GetConversation cid r = from_option SocErrConversationNotFound (map_of (sr_conversations r) cid)"

definition is_party :: "string \<Rightarrow> Conversation \<Rightarrow> bool" where
  "is_party userID c = (cv_ParticipantA c = userID \<or> cv_ParticipantB c = userID)"

definition soc_ListConversations :: "string \<Rightarrow> SocialRepo \<Rightarrow> Conversation list" where
  "soc_ListConversations userID r =
     isort (\<lambda>a b. cv_UpdatedAt a > cv_UpdatedAt b) (filter (is_party userID) (map snd (sr_conversations r)))"

definition soc_IsParticipant :: "string \<Rightarrow> string \<Rightarrow> SocialRepo \<Rightarrow> social_err + bool" where
  "soc_IsParticipant cid userID r = rbind (soc_GetConversation cid r) (\<lambda>c. Inr (is_party userID c))"

definition soc_OtherParticipant :: "string \<Rightarrow> string \<Rightarrow> SocialRepo \<Rightarrow> social_err + string" where
  "soc_OtherParticipant cid userID r =
     rbind (soc_GetConversation cid r) (\<lambda>c.
       if cv_ParticipantA c = userID then Inr (cv_ParticipantB c)
       else if cv_ParticipantB c = userID then Inr (cv_ParticipantA c)
       else Inl SocErrForbidden)"

section \<open>Messages\<close>

definition messages_of :: "string \<Rightarrow> SocialRepo \<Rightarrow> Message list" where
  "messages_of cid r = (case map_of (sr_messages r) cid of None \<Rightarrow> [] | Some ms \<Rightarrow> ms)"

definition append_message :: "Message \<Rightarrow> Conversation \<Rightarrow> SocialRepo \<Rightarrow> SocialRepo" where
  "append_message msg c r =
     (let cid = ms_ConversationID msg
      in r\<lparr>sr_messages := AList.update cid (messages_of cid r @ [msg]) (sr_messages r),
           sr_messageByID := (sr_messageByID r)(ms_ID msg \<mapsto> cid),
           sr_conversations := AList.update cid
             (c\<lparr>cv_UpdatedAt := ms_CreatedAt msg, cv_LastMessageAt := Some (ms_CreatedAt msg)\<rparr>)
             (sr_conversations r)\<rparr>)"

definition soc_AddMessage :: "Message \<Rightarrow> SocialRepo \<Rightarrow> social_err + SocialRepo" where
  "soc_AddMessage msg r =
     rbind (soc_GetConversation (ms_ConversationID msg) r) (\<lambda>c. Inr (append_message msg c r))"

text \<open>\<^verbatim>\<open>strings.Fields\<close>, \<^verbatim>\<open>strings.Join\<close>, and the form in which bodies are compared.\<close>

fun fields_from :: "string \<Rightarrow> string \<Rightarrow> string list" where
  "fields_from cur [] = (if cur = [] then [] else [cur])"
| "fields_from cur (c # cs) =
     (if is_space c then (if cur = [] then fields_from [] cs else cur # fields_from [] cs)
      else fields_from (cur @ [c]) cs)"

definition Fields :: "string \<Rightarrow> string list" where
  "Fields s = fields_from [] s"

fun join_with :: "string \<Rightarrow> string list \<Rightarrow> string" where
  "join_with sep [] = []"
| "join_with sep [x] = x"
| "join_with sep (x # y # xs) = x @ sep @ join_with sep (y # xs)"

definition normalizeMessageBody :: "string \<Rightarrow> string" where
  "normalizeMessageBody body = ToLower (join_with '' '' (Fields body))"

text \<open>The four counters of \<^verbatim>\<open>CreateMessage\<close>, over every stored message with the conversation it is filed under.\<close>

definition stored_messages :: "SocialRepo \<Rightarrow> (string \<times> Message) list" where
  "stored_messages r = concat (map (\<lambda>(cid, ms). map (Pair cid) ms) (sr_messages r))"

definition from_sender_since :: "string \<Rightarrow> time \<Rightarrow> string \<times> Message \<Rightarrow> bool" where
  "from_sender_since sender since cm =
     (ms_SenderUserID (snd cm) = sender \<and> \<not> ms_CreatedAt (snd cm) < since)"

definition in_conversation_since :: "string \<Rightarrow> time \<Rightarrow> string \<times> Message \<Rightarrow> bool" where
  "in_conversation_since cid since cm = (fst cm = cid \<and> \<not> ms_CreatedAt (snd cm) < since)"

definition repeats_since :: "string \<Rightarrow> string \<Rightarrow> time \<Rightarrow> string \<times> Message \<Rightarrow> bool" where
  "repeats_since sender normalizedBody since cm =
     (from_sender_since sender since cm \<and> normalizeMessageBody (ms_Body (snd cm)) = normalizedBody)"

definition count_stored :: "(string \<times> Message \<Rightarrow> bool) \<Rightarrow> SocialRepo \<Rightarrow> int" where
  "count_stored P r = int (length (filter P (stored_messages r)))"

definition over_limit :: "int \<Rightarrow> int \<Rightarrow> bool" where
  "over_limit limit count = (limit > 0 \<and> count \<ge> limit)"

definition abuse_check :: "MessageAbusePolicy \<Rightarrow> Message \<Rightarrow> SocialRepo \<Rightarrow> social_err option" where
  "abuse_check policy msg r =
     (let now = ms_CreatedAt msg; sender = ms_SenderUserID msg
      in if over_limit (ap_UserLimit policy) (count_stored (from_sender_since sender (now - ap_UserWindow policy)) r)
         then Some SocErrMessageRateLimited
         else if over_limit (ap_ConversationLimit policy)
                   (count_stored (in_conversation_since (ms_ConversationID msg) (now - ap_ConversationWindow policy)) r)
         then Some SocErrConversationLimited
         else if over_limit (ap_RepeatedLimit policy)
                   (count_stored (repeats_since sender (normalizeMessageBody (ms_Body msg))
                      (now - ap_RepeatedWindow policy)) r)
         then Some SocErrRepeatedMessage
         else if over_limit (ap_BurstLimit policy)
                   (count_stored (from_sender_since sender (now - ap_BurstWindow policy)) r)
         then Some SocErrSpamBurst
         else None)"

definition soc_CreateMessage :: "MessageWrite \<Rightarrow> MessageAbusePolicy \<Rightarrow> SocialRepo \<Rightarrow> social_err + SocialRepo" where
  "soc_CreateMessage write policy r =
     (let msg = mw_Message write
      in rbind (soc_GetConversation (ms_ConversationID msg) r) (\<lambda>c.
         case abuse_check policy msg r of
           Some e \<Rightarrow> Inl e
         | None \<Rightarrow>
             (case (case mw_VolatileNotify write of None \<Rightarrow> None | Some notify \<Rightarrow> notify ()) of
                Some e \<Rightarrow> Inl e
              | None \<Rightarrow> Inr (append_message msg c r))))"

definition hidden_for :: "string \<Rightarrow> SocialRepo \<Rightarrow> string \<Rightarrow> bool" where
  "hidden_for userID r messageID =
     (case sr_hiddenFor r userID of None \<Rightarrow> False | Some hidden \<Rightarrow> hidden messageID = Some True)"

definition clamp_limit :: "int \<Rightarrow> nat" where
  "clamp_limit limit = (if limit \<le> 0 \<or> limit > 50 then 50 else nat limit)"

definition last_n :: "nat \<Rightarrow> 'a list \<Rightarrow> 'a list" where
  "last_n n xs = (if length xs > n then drop (length xs - n) xs else xs)"

definition soc_ListMessages :: "string \<Rightarrow> string \<Rightarrow> int \<Rightarrow> SocialRepo \<Rightarrow> social_err + Message list" where
  "soc_ListMessages cid viewerID limit r =
     rbind (soc_GetConversation cid r) (\<lambda>_.
       Inr (last_n (clamp_limit limit) (filter (\<lambda>m. \<not> hidden_for viewerID r (ms_ID m)) (messages_of cid r))))"

definition soc_LastMessage :: "string \<Rightarrow> SocialRepo \<Rightarrow> Message option" where
  "soc_LastMessage cid r = (let items = messages_of cid r in if items = [] then None else Some (last items))"

definition soc_MessageByID :: "string \<Rightarrow> SocialRepo \<Rightarrow> social_err + Message" where
  "soc_MessageByID messageID r =
     rbind (from_option SocErrMessageNotFound (sr_messageByID r messageID)) (\<lambda>cid.
       from_option SocErrMessageNotFound (find (\<lambda>m. ms_ID m = messageID) (messages_of cid r)))"

definition soc_HideMessageForUser :: "string \<Rightarrow> string \<Rightarrow> SocialRepo \<Rightarrow> social_err + SocialRepo" where
  "soc_HideMessageForUser messageID userID r =
     (if sr_messageByID r messageID = None then Inl SocErrMessageNotFound
      else let h = (case sr_hiddenFor r userID of None \<Rightarrow> Map.empty | Some h \<Rightarrow> h)
           in Inr (r\<lparr>sr_hiddenFor := (sr_hiddenFor r)(userID \<mapsto> h(messageID \<mapsto> True))\<rparr>))"

text \<open>The first message with the id gets the tombstone.\<close>

fun tombstone :: "string \<Rightarrow> string \<Rightarrow> time \<Rightarrow> Message list \<Rightarrow> Message list option" where
  "tombstone messageID moderatorID now [] = None"
| "tombstone messageID moderatorID now (m # ms) =
     (if ms_ID m = messageID
      then Some (m\<lparr>ms_RemovedAt := Some now, ms_RemovedBy := Some moderatorID\<rparr> # ms)
      else map_option (Cons m) (tombstone messageID moderatorID now ms))"

definition soc_RemoveMessage :: "string \<Rightarrow> string \<Rightarrow> time \<Rightarrow> SocialRepo \<Rightarrow> social_err + SocialRepo" where
  "soc_RemoveMessage messageID moderatorID now r =
     rbind (from_option SocErrMessageNotFound (sr_messageByID r messageID)) (\<lambda>cid.
     rbind (from_option SocErrMessageNotFound (tombstone messageID moderatorID now (messages_of cid r))) (\<lambda>items.
       Inr (r\<lparr>sr_messages := AList.update cid items (sr_messages r)\<rparr>)))"

section \<open>Read positions\<close>

definition soc_MarkRead :: "string \<Rightarrow> string \<Rightarrow> string \<Rightarrow> SocialRepo \<Rightarrow> social_err + SocialRepo" where
  "soc_MarkRead cid userID lastReadMessageID r =
     rbind (soc_GetConversation cid r) (\<lambda>_.
     rbind (from_option SocErrMessageNotFound (find (\<lambda>m. ms_ID m = lastReadMessageID) (messages_of cid r))) (\<lambda>m.
       let states = (case sr_readState r cid of None \<Rightarrow> Map.empty | Some states \<Rightarrow> states)
       in Inr (r\<lparr>sr_readState := (sr_readState r)(cid \<mapsto>
                  states(userID \<mapsto> \<lparr>ps_lastReadMessageID = lastReadMessageID, ps_lastReadAt = ms_CreatedAt m\<rparr>))\<rparr>)))"

definition read_state :: "string \<Rightarrow> string \<Rightarrow> SocialRepo \<Rightarrow> participantState option" where
  "read_state cid userID r = (case sr_readState r cid of None \<Rightarrow> None | Some states \<Rightarrow> states userID)"

definition counts_unread :: "string \<Rightarrow> string \<Rightarrow> SocialRepo \<Rightarrow> Message \<Rightarrow> bool" where
  "counts_unread cid userID r m =
     (ms_SenderUserID m \<noteq> userID \<and> \<not> IsRemoved m \<and> \<not> hidden_for userID r (ms_ID m) \<and>
      (case read_state cid userID r of None \<Rightarrow> True | Some st \<Rightarrow> ms_CreatedAt m > ps_lastReadAt st))"

definition soc_ConversationUnreadCount :: "string \<Rightarrow> string \<Rightarrow> SocialRepo \<Rightarrow> int" where
  "soc_ConversationUnreadCount cid userID r =
     int (length (filter (counts_unread cid userID r) (messages_of cid r)))"

definition soc_UnreadCount :: "string \<Rightarrow> SocialRepo \<Rightarrow> int" where
  "soc_UnreadCount userID r =
     sum_list (map (\<lambda>kc. soc_ConversationUnreadCount (fst kc) userID r)
       (filter (\<lambda>kc. is_party userID (snd kc)) (sr_conversations r)))"

section \<open>Account deletion\<close>

definition drop_conversation :: "string \<times> Conversation \<Rightarrow> SocialRepo \<Rightarrow> SocialRepo" where
  "drop_conversation kc r =
     r\<lparr>sr_conversationByPair :=
         (sr_conversationByPair r)(pairKey (cv_ParticipantA (snd kc)) (cv_ParticipantB (snd kc)) := None),
       sr_messages := AList.delete (fst kc) (sr_messages r),
       sr_conversations := AList.delete (fst kc) (sr_conversations r)\<rparr>"

definition soc_OnAccountDeleted :: "string \<Rightarrow> SocialRepo \<Rightarrow> SocialRepo" where
  "soc_OnAccountDeleted userID r =
     (let r = r\<lparr>sr_follows := filter (\<lambda>kf. \<not> (fo_FollowerUserID (snd kf) = userID \<or> fo_FollowingUserID (snd kf) = userID))
                  (sr_follows r)\<rparr>
      in foldl (\<lambda>r kc. drop_conversation kc r) r (filter (\<lambda>kc. is_party userID (snd kc)) (sr_conversations r)))"

end
