(* ===== verification/SafetyModel.thy ===== *)
theory SafetyModel
  imports ProfileModel
begin

text \<open>
  Blocking and the interaction policy (package \<^verbatim>\<open>safety\<close>: memory_repository.go and service.go). The store of
  follows that a block clears belongs to another package: its state is the type \<^typ>\<open>'f\<close>, and the interface
  \<^verbatim>\<open>FollowRemover\<close> a function on it that answers the new state and an error. \<^verbatim>\<open>UserStatusProvider\<close> and
  \<^verbatim>\<open>BlockCoordinator\<close> are functions too, and \<^term>\<open>None\<close> the nil interface.
\<close>

datatype safety_err =
    SafErrSelfBlock
  | SafErrBlocked
  | SafErrNotFound
  | SafErrInvalidHandle
  | SafErrForbidden
  | SafErrUserSuspended
  | SafErrUserBanned
  | SafErrBlockFailed string
  | SafErrProfile profile_err
  | SafErrOther string

record Block =
  bk_BlockerUserID :: string
  bk_BlockedUserID :: string
  bk_CreatedAt :: time

section \<open>The in-memory repository\<close>

type_synonym SafetyRepo = "(string \<times> Block) list"

definition blockKey :: "string \<Rightarrow> string \<Rightarrow> string" where
  "blockKey a b = a @ ''->'' @ b"

definition saf_Block :: "string \<Rightarrow> string \<Rightarrow> time \<Rightarrow> SafetyRepo \<Rightarrow> SafetyRepo" where
  "saf_Block blocker blocked now r =
     (case map_of r (blockKey blocker blocked) of
        Some _ \<Rightarrow> r
      | None \<Rightarrow> AList.update (blockKey blocker blocked)
                  \<lparr>bk_BlockerUserID = blocker, bk_BlockedUserID = blocked, bk_CreatedAt = now\<rparr> r)"

definition saf_Unblock :: "string \<Rightarrow> string \<Rightarrow> SafetyRepo \<Rightarrow> SafetyRepo" where
  "saf_Unblock blocker blocked r = AList.delete (blockKey blocker blocked) r"

definition saf_IsBlocked :: "string \<Rightarrow> string \<Rightarrow> SafetyRepo \<Rightarrow> bool" where
  "saf_IsBlocked blocker blocked r = (map_of r (blockKey blocker blocked) \<noteq> None)"

definition saf_IsBlockedEitherDirection :: "string \<Rightarrow> string \<Rightarrow> SafetyRepo \<Rightarrow> bool" where
  "saf_IsBlockedEitherDirection userA userB r =
     (map_of r (blockKey userA userB) \<noteq> None \<or> map_of r (blockKey userB userA) \<noteq> None)"

definition saf_ListBlocked :: "string \<Rightarrow> SafetyRepo \<Rightarrow> Block list" where
  "saf_ListBlocked blocker r =
     isort (\<lambda>a b. bk_CreatedAt a > bk_CreatedAt b) (filter (\<lambda>b. bk_BlockerUserID b = blocker) (map snd r))"

definition saf_BlockedPairUserIDs :: "string \<Rightarrow> SafetyRepo \<Rightarrow> string set" where
  "saf_BlockedPairUserIDs userID r =
     set (concat (map (\<lambda>b. (if bk_BlockerUserID b = userID then [bk_BlockedUserID b] else []) @
                           (if bk_BlockedUserID b = userID then [bk_BlockerUserID b] else [])) (map snd r)))"

definition saf_OnAccountDeleted :: "string \<Rightarrow> SafetyRepo \<Rightarrow> SafetyRepo" where
  "saf_OnAccountDeleted userID r =
     filter (\<lambda>kb. \<not> (bk_BlockerUserID (snd kb) = userID \<or> bk_BlockedUserID (snd kb) = userID)) r"

section \<open>The service\<close>

record 'f SafetyService =
  sf_GetByUserID :: "string \<Rightarrow> profile_err + Profile"
  sf_GetByHandle :: "string \<Rightarrow> profile_err + Profile"
  sf_follows :: "('f \<Rightarrow> string \<Rightarrow> string \<Rightarrow> 'f \<times> string option) option"
  sf_status :: "(string \<Rightarrow> safety_err + bool \<times> bool) option"
  sf_coordinator :: "(SafetyRepo \<times> 'f \<Rightarrow> string \<Rightarrow> string \<Rightarrow> time \<Rightarrow> (SafetyRepo \<times> 'f) \<times> safety_err option) option"

definition saf_profileByHandle :: "'f SafetyService \<Rightarrow> string \<Rightarrow> safety_err + Profile" where
  "saf_profileByHandle s handle =
     (let handle = ToLower (TrimSpace handle)
      in if ValidateHandle handle \<noteq> Inr () then Inl SafErrInvalidHandle
         else case sf_GetByHandle s handle of
                Inl e \<Rightarrow> Inl (if e = PrErrNotFound then SafErrNotFound else SafErrProfile e)
              | Inr p \<Rightarrow> Inr p)"

text \<open>\<^verbatim>\<open>Service.Block\<close> under the pair's lock, from the coordinator check on, and the whole operation.\<close>

definition saf_block_pair ::
  "'f SafetyService \<Rightarrow> string \<Rightarrow> string \<Rightarrow> time \<Rightarrow> SafetyRepo \<times> 'f \<Rightarrow> (SafetyRepo \<times> 'f) \<times> safety_err option" where
  "saf_block_pair s userID target now w =
     (case sf_coordinator s of
        Some coordinator \<Rightarrow> coordinator w userID target now
      | None \<Rightarrow>
          (let (r, f) = w;
               alreadyBlocked = saf_IsBlocked userID target r;
               r = saf_Block userID target now r
           in case sf_follows s of
                None \<Rightarrow> ((r, f), None)
              | Some remove \<Rightarrow>
                  (case remove f userID target of
                     (f, None) \<Rightarrow> ((r, f), None)
                   | (f, Some e) \<Rightarrow>
                       ((if \<not> alreadyBlocked then saf_Unblock userID target r else r, f), Some (SafErrBlockFailed e)))))"

definition saf_Service_Block ::
  "'f SafetyService \<Rightarrow> string \<Rightarrow> string \<Rightarrow> time \<Rightarrow> SafetyRepo \<times> 'f \<Rightarrow> (SafetyRepo \<times> 'f) \<times> safety_err option" where
  "saf_Service_Block s userID handle now w =
     (case saf_profileByHandle s handle of
        Inl e \<Rightarrow> (w, Some e)
      | Inr target \<Rightarrow>
          (if pf_UserID target = userID then (w, Some SafErrSelfBlock)
           else saf_block_pair s userID (pf_UserID target) now w))"

definition saf_Service_Unblock ::
  "'f SafetyService \<Rightarrow> string \<Rightarrow> string \<Rightarrow> SafetyRepo \<Rightarrow> safety_err + SafetyRepo" where
  "saf_Service_Unblock s userID handle r =
     rbind (saf_profileByHandle s handle) (\<lambda>target. Inr (saf_Unblock userID (pf_UserID target) r))"

record BlockedUserItem =
  bu_Handle :: string
  bu_DisplayName :: string
  bu_AvatarKey :: string
  bu_BlockedAt :: time

definition blocked_item :: "'f SafetyService \<Rightarrow> Block \<Rightarrow> BlockedUserItem option" where
  "blocked_item s b =
     (case sf_GetByUserID s (bk_BlockedUserID b) of
        Inl _ \<Rightarrow> None
      | Inr p \<Rightarrow> Some \<lparr>bu_Handle = pf_Handle p, bu_DisplayName = pf_DisplayName p, bu_AvatarKey = pf_AvatarKey p,
                       bu_BlockedAt = bk_CreatedAt b\<rparr>)"

definition saf_BlockedUsers :: "'f SafetyService \<Rightarrow> string \<Rightarrow> SafetyRepo \<Rightarrow> BlockedUserItem list" where
  "saf_BlockedUsers s userID r = List.map_filter (blocked_item s) (saf_ListBlocked userID r)"

fun check_status :: "(string \<Rightarrow> safety_err + bool \<times> bool) \<Rightarrow> string list \<Rightarrow> safety_err + unit" where
  "check_status status [] = Inr ()"
| "check_status status (uid # uids) =
     rbind (status uid) (\<lambda>(suspended, banned).
       if banned then Inl SafErrUserBanned
       else if suspended then Inl SafErrUserSuspended
       else check_status status uids)"

definition CanUsersInteract :: "'f SafetyService \<Rightarrow> string \<Rightarrow> string \<Rightarrow> SafetyRepo \<Rightarrow> safety_err + bool" where
  "CanUsersInteract s userA userB r =
     rbind (case sf_status s of None \<Rightarrow> Inr () | Some status \<Rightarrow> check_status status [userA, userB]) (\<lambda>_.
       if saf_IsBlockedEitherDirection userA userB r then Inl SafErrBlocked else Inr True)"

end
