(* ===== verification/SocialService.thy ===== *)
theory SocialService
  imports SocialStore SafetyModel
begin

text \<open>
  The social service (package \<^verbatim>\<open>social\<close>, service.go and the error mapping of handler.go) over the in-memory store.
  The profile store, the interaction policy, the block set and the notification sink are the fields of \<open>SocialEnv\<close>,
  \<^term>\<open>None\<close> being the nil interface; \<open>wired\<close> is the wiring of cmd/api/main.go, where policy and block set are
  those of the safety service. Identifiers from \<^verbatim>\<open>uuid.NewString\<close> and instants from \<^verbatim>\<open>s.now\<close> are arguments.
  Errors of other packages that pass through unchanged keep their text in \<open>SocErrOther\<close>.
\<close>

section \<open>The service and what it is given\<close>

record SocialEnv =
  se_GetByUserID :: "string \<Rightarrow> profile_err + Profile"
  se_GetByHandle :: "string \<Rightarrow> profile_err + Profile"
  se_policy :: "(string \<Rightarrow> string \<Rightarrow> social_err + bool) option"
  se_blocked :: "(string \<Rightarrow> social_err + string set) option"
  se_notifier :: "(MessageNotification \<Rightarrow> social_err option) option"

definition checkInteraction :: "SocialEnv \<Rightarrow> string \<Rightarrow> string \<Rightarrow> social_err + unit" where
  "checkInteraction E a b =
     (case se_policy E of
        None \<Rightarrow> Inr ()
      | Some policy \<Rightarrow> rbind (policy a b) (\<lambda>ok. if \<not> ok then Inl SocErrInteractionBlocked else Inr ()))"

definition soc_profileByHandle :: "SocialEnv \<Rightarrow> string \<Rightarrow> social_err + Profile" where
  "soc_profileByHandle E handle =
     (let handle = ToLower (TrimSpace handle)
      in if ValidateHandle handle \<noteq> Inr () then Inl SocErrInvalidHandle
         else case se_GetByHandle E handle of
                Inl e \<Rightarrow> Inl (if e = PrErrNotFound then SocErrNotFound else SocErrOther ''profile store'')
              | Inr p \<Rightarrow> Inr p)"

definition publicProfileByHandle :: "SocialEnv \<Rightarrow> string \<Rightarrow> social_err + Profile" where
  "publicProfileByHandle E handle =
     rbind (soc_profileByHandle E handle) (\<lambda>p. if \<not> pf_IsPublic p then Inl SocErrNotFound else Inr p)"

definition soc_blockedSet :: "SocialEnv \<Rightarrow> string \<Rightarrow> social_err + string set" where
  "soc_blockedSet E userID =
     (case se_blocked E of
        None \<Rightarrow> Inr {}
      | Some source \<Rightarrow> (case source userID of Inl _ \<Rightarrow> Inl SocErrSafetyUnavailable | Inr s \<Rightarrow> Inr s))"

section \<open>Follows and friends\<close>

record FollowState =
  fw_Handle :: string
  fw_IsFollowing :: bool
  fw_FollowsMe :: bool
  fw_IsFriend :: bool

definition followStateForTarget :: "string \<Rightarrow> Profile \<Rightarrow> SocialRepo \<Rightarrow> FollowState" where
  "followStateForTarget userID target r =
     (let isFollowing = soc_IsFollowing userID (pf_UserID target) r;
          followsMe = soc_IsFollowing (pf_UserID target) userID r
      in \<lparr>fw_Handle = pf_Handle target, fw_IsFollowing = isFollowing, fw_FollowsMe = followsMe,
          fw_IsFriend = (isFollowing \<and> followsMe)\<rparr>)"

definition areFriends :: "string \<Rightarrow> string \<Rightarrow> SocialRepo \<Rightarrow> bool" where
  "areFriends a b r = (soc_IsFollowing a b r \<and> soc_IsFollowing b a r)"

definition Service_Follow ::
  "SocialEnv \<Rightarrow> string \<Rightarrow> string \<Rightarrow> time \<Rightarrow> SocialRepo \<Rightarrow> social_err + SocialRepo \<times> FollowState" where
  "Service_Follow E userID handle now r =
     rbind (publicProfileByHandle E handle) (\<lambda>target.
       if pf_UserID target = userID then Inl SocErrSelfFollow
       else rbind (checkInteraction E userID (pf_UserID target)) (\<lambda>_.
         let r = soc_Follow userID (pf_UserID target) now r
         in Inr (r, followStateForTarget userID target r)))"

definition Service_Unfollow ::
  "SocialEnv \<Rightarrow> string \<Rightarrow> string \<Rightarrow> SocialRepo \<Rightarrow> social_err + SocialRepo \<times> FollowState" where
  "Service_Unfollow E userID handle r =
     rbind (soc_profileByHandle E handle) (\<lambda>target.
       if pf_UserID target = userID then Inl SocErrSelfFollow
       else let r = soc_Unfollow userID (pf_UserID target) r
            in Inr (r, followStateForTarget userID target r))"

definition Service_FollowState :: "SocialEnv \<Rightarrow> string \<Rightarrow> string \<Rightarrow> SocialRepo \<Rightarrow> social_err + FollowState" where
  "Service_FollowState E userID handle r =
     rbind (soc_profileByHandle E handle) (\<lambda>target.
       if pf_UserID target = userID
       then Inr \<lparr>fw_Handle = pf_Handle target, fw_IsFollowing = False, fw_FollowsMe = False, fw_IsFriend = False\<rparr>
       else Inr (followStateForTarget userID target r))"

record FriendItem =
  fi_Handle :: string
  fi_DisplayName :: string
  fi_AvatarKey :: string
  fi_StrategyTag :: string
  fi_FriendsSince :: time

definition friendItem :: "Profile \<Rightarrow> time \<Rightarrow> FriendItem" where
  "friendItem p since =
     \<lparr>fi_Handle = pf_Handle p, fi_DisplayName = pf_DisplayName p, fi_AvatarKey = pf_AvatarKey p,
      fi_StrategyTag = pf_StrategyTag p, fi_FriendsSince = since\<rparr>"

text \<open>The loop shared by the three lists: blocked users and users without a profile are left out.\<close>

definition friend_items :: "SocialEnv \<Rightarrow> string set \<Rightarrow> (string \<times> time) list \<Rightarrow> FriendItem list" where
  "friend_items E blocked items =
     List.map_filter (\<lambda>(uid, since).
       if uid \<in> blocked then None
       else case se_GetByUserID E uid of Inl _ \<Rightarrow> None | Inr p \<Rightarrow> Some (friendItem p since)) items"

definition Service_Following :: "SocialEnv \<Rightarrow> string \<Rightarrow> SocialRepo \<Rightarrow> social_err + FriendItem list" where
  "Service_Following E userID r =
     rbind (soc_blockedSet E userID) (\<lambda>blocked.
       Inr (friend_items E blocked (map (\<lambda>f. (fo_FollowingUserID f, fo_CreatedAt f)) (soc_ListFollowing userID r))))"

definition Service_Followers :: "SocialEnv \<Rightarrow> string \<Rightarrow> SocialRepo \<Rightarrow> social_err + FriendItem list" where
  "Service_Followers E userID r =
     rbind (soc_blockedSet E userID) (\<lambda>blocked.
       Inr (friend_items E blocked (map (\<lambda>f. (fo_FollowerUserID f, fo_CreatedAt f)) (soc_ListFollowers userID r))))"

definition Service_Friends :: "SocialEnv \<Rightarrow> string \<Rightarrow> SocialRepo \<Rightarrow> social_err + FriendItem list" where
  "Service_Friends E userID r =
     rbind (soc_blockedSet E userID) (\<lambda>blocked.
       Inr (friend_items E blocked (map (\<lambda>f. (fs_UserID f, fs_FriendsSince f)) (soc_ListMutualFriends userID r))))"

definition RemoveFollowBothDirections :: "SocialRepo \<Rightarrow> string \<Rightarrow> string \<Rightarrow> SocialRepo \<times> string option" where
  "RemoveFollowBothDirections r userA userB = (soc_Unfollow userB userA (soc_Unfollow userA userB r), None)"

section \<open>Conversations\<close>

record SafeProfile =
  sp_Handle :: string
  sp_DisplayName :: string
  sp_AvatarKey :: string
  sp_StrategyTag :: string

definition safeProfile :: "Profile \<Rightarrow> SafeProfile" where
  "safeProfile p =
     \<lparr>sp_Handle = pf_Handle p, sp_DisplayName = pf_DisplayName p, sp_AvatarKey = pf_AvatarKey p,
      sp_StrategyTag = pf_StrategyTag p\<rparr>"

definition removedTombstoneText :: string where
  "removedTombstoneText = ''This message was removed.''"

definition truncatePreview :: "string \<Rightarrow> string" where
  "truncatePreview body =
     (let body = TrimSpace body in if RuneCount body \<le> 80 then body else take_runes 80 body)"

record LastMessagePreview =
  lp_BodyPreview :: string
  lp_SentAt :: time
  lp_SentByMe :: bool

record ConversationSummary =
  cs_ID :: string
  cs_OtherUser :: SafeProfile
  cs_LastMessage :: "LastMessagePreview option"
  cs_UpdatedAt :: time
  cs_UnreadCount :: int

definition other_party :: "string \<Rightarrow> Conversation \<Rightarrow> string" where
  "other_party userID c = (if cv_ParticipantA c = userID then cv_ParticipantB c else cv_ParticipantA c)"

definition profile_error :: "profile_err \<Rightarrow> social_err" where
  "profile_error e = SocErrOther ''profile store''"

definition conversationSummary ::
  "SocialEnv \<Rightarrow> string \<Rightarrow> Conversation \<Rightarrow> SocialRepo \<Rightarrow> social_err + ConversationSummary" where
  "conversationSummary E userID c r =
     (case se_GetByUserID E (other_party userID c) of
        Inl e \<Rightarrow> Inl (profile_error e)
      | Inr p \<Rightarrow>
          Inr \<lparr>cs_ID = cv_ID c, cs_OtherUser = safeProfile p,
               cs_LastMessage = map_option (\<lambda>msg.
                 \<lparr>lp_BodyPreview = (if IsRemoved msg then removedTombstoneText else truncatePreview (ms_Body msg)),
                  lp_SentAt = ms_CreatedAt msg, lp_SentByMe = (ms_SenderUserID msg = userID)\<rparr>)
                 (soc_LastMessage (cv_ID c) r),
               cs_UpdatedAt = cv_UpdatedAt c,
               cs_UnreadCount = soc_ConversationUnreadCount (cv_ID c) userID r\<rparr>)"

definition Service_Conversations ::
  "SocialEnv \<Rightarrow> string \<Rightarrow> SocialRepo \<Rightarrow> social_err + ConversationSummary list" where
  "Service_Conversations E userID r =
     rbind (soc_blockedSet E userID) (\<lambda>blocked.
       Inr (List.map_filter (\<lambda>c.
         if other_party userID c \<in> blocked then None
         else case conversationSummary E userID c r of Inl _ \<Rightarrow> None | Inr dto \<Rightarrow> Some dto)
         (soc_ListConversations userID r)))"

text \<open>The store changes before the summary is built, so a failing summary leaves the new conversation behind.\<close>

definition Service_CreateConversation ::
  "SocialEnv \<Rightarrow> string \<Rightarrow> string \<Rightarrow> string \<Rightarrow> time \<Rightarrow> SocialRepo
     \<Rightarrow> SocialRepo \<times> (social_err + ConversationSummary)" where
  "Service_CreateConversation E userID handle uuid now r =
     (case rbind (soc_profileByHandle E handle) (\<lambda>target.
             if pf_UserID target = userID then Inl SocErrSelfDM
             else rbind (checkInteraction E userID (pf_UserID target)) (\<lambda>_.
               if \<not> areFriends userID (pf_UserID target) r then Inl SocErrNotFriends else Inr target)) of
        Inl e \<Rightarrow> (r, Inl e)
      | Inr target \<Rightarrow>
          (let (r, c) = (case soc_GetConversationBetween userID (pf_UserID target) r of
                           Some c \<Rightarrow> (r, c)
                         | None \<Rightarrow> soc_CreateConversation uuid userID (pf_UserID target) now r)
           in (r, conversationSummary E userID c r)))"

section \<open>Messages\<close>

record MessageDTO =
  md_ID :: string
  md_ConversationID :: string
  md_Sender :: SafeProfile
  md_Body :: string
  md_Removed :: bool
  md_SentByMe :: bool
  md_CreatedAt :: time

definition messageDTO :: "SocialEnv \<Rightarrow> string \<Rightarrow> Message \<Rightarrow> social_err + MessageDTO" where
  "messageDTO E userID msg =
     (case se_GetByUserID E (ms_SenderUserID msg) of
        Inl e \<Rightarrow> Inl (profile_error e)
      | Inr p \<Rightarrow>
          Inr \<lparr>md_ID = ms_ID msg, md_ConversationID = ms_ConversationID msg, md_Sender = safeProfile p,
               md_Body = (if IsRemoved msg then removedTombstoneText else ms_Body msg), md_Removed = IsRemoved msg,
               md_SentByMe = (ms_SenderUserID msg = userID), md_CreatedAt = ms_CreatedAt msg\<rparr>)"

definition require_party :: "string \<Rightarrow> string \<Rightarrow> SocialRepo \<Rightarrow> social_err + unit" where
  "require_party cid userID r =
     rbind (soc_IsParticipant cid userID r) (\<lambda>ok. if \<not> ok then Inl SocErrForbidden else Inr ())"

definition Service_Messages ::
  "SocialEnv \<Rightarrow> string \<Rightarrow> string \<Rightarrow> int \<Rightarrow> SocialRepo \<Rightarrow> social_err + MessageDTO list" where
  "Service_Messages E userID cid limit r =
     rbind (require_party cid userID r) (\<lambda>_.
     rbind (soc_ListMessages cid userID limit r) (\<lambda>items.
       Inr (List.map_filter (\<lambda>m. case messageDTO E userID m of Inl _ \<Rightarrow> None | Inr dto \<Rightarrow> Some dto) items)))"

text \<open>
  \<^verbatim>\<open>SendMessage\<close> up to the write: the guards in the order of the code, then the message and the notification that
  are handed to the store.
\<close>

definition send_guards :: "SocialEnv \<Rightarrow> string \<Rightarrow> string \<Rightarrow> string \<Rightarrow> SocialRepo \<Rightarrow> social_err + string \<times> string" where
  "send_guards E userID cid body r =
     rbind (soc_GetConversation cid r) (\<lambda>c.
       if cv_ParticipantA c \<noteq> userID \<and> cv_ParticipantB c \<noteq> userID then Inl SocErrForbidden
       else let other = other_party userID c in
         rbind (checkInteraction E userID other) (\<lambda>_.
           if \<not> areFriends userID other r then Inl SocErrNotFriends
           else let body = TrimSpace body in
             if body = [] then Inl SocErrInvalidMessage
             else if RuneCount body > MaxMessageLength then Inl SocErrMessageTooLong
             else Inr (other, body)))"

definition new_message :: "string \<Rightarrow> string \<Rightarrow> string \<Rightarrow> string \<Rightarrow> time \<Rightarrow> Message" where
  "new_message uuid cid userID body now =
     \<lparr>ms_ID = uuid, ms_ConversationID = cid, ms_SenderUserID = userID, ms_Body = body, ms_CreatedAt = now,
      ms_RemovedAt = None, ms_RemovedBy = None\<rparr>"

definition message_write :: "SocialEnv \<Rightarrow> string \<Rightarrow> string \<Rightarrow> Message \<Rightarrow> MessageWrite" where
  "message_write E nuuid other msg =
     (case se_notifier E of
        None \<Rightarrow> \<lparr>mw_Message = msg, mw_Notification = None, mw_VolatileNotify = None\<rparr>
      | Some notify \<Rightarrow>
          (let n = \<lparr>mn_ID = nuuid, mn_RecipientID = other, mn_Type = ''new_message'',
                    mn_DedupeKey = ''message:'' @ ms_ID msg,
                    mn_Payload = [''conversation_id'' \<mapsto> ms_ConversationID msg], mn_CreatedAt = ms_CreatedAt msg\<rparr>
           in \<lparr>mw_Message = msg, mw_Notification = Some n, mw_VolatileNotify = Some (\<lambda>_. notify n)\<rparr>))"

definition Service_SendMessage ::
  "SocialEnv \<Rightarrow> string \<Rightarrow> string \<Rightarrow> string \<Rightarrow> string \<Rightarrow> string \<Rightarrow> time \<Rightarrow> SocialRepo
     \<Rightarrow> SocialRepo \<times> (social_err + MessageDTO)" where
  "Service_SendMessage E userID cid body uuid nuuid now r =
     (case send_guards E userID cid body r of
        Inl e \<Rightarrow> (r, Inl e)
      | Inr (other, body) \<Rightarrow>
          (let msg = new_message uuid cid userID body now
           in case soc_CreateMessage (message_write E nuuid other msg) defaultMessageAbusePolicy r of
                Inl e \<Rightarrow> (r, Inl e)
              | Inr r \<Rightarrow> (r, messageDTO E userID msg)))"

definition Service_HideMessage :: "string \<Rightarrow> string \<Rightarrow> SocialRepo \<Rightarrow> social_err + SocialRepo" where
  "Service_HideMessage userID messageID r =
     rbind (soc_MessageByID messageID r) (\<lambda>msg.
     rbind (require_party (ms_ConversationID msg) userID r) (\<lambda>_.
       soc_HideMessageForUser messageID userID r))"

definition Service_RemoveMessage :: "string \<Rightarrow> string \<Rightarrow> time \<Rightarrow> SocialRepo \<Rightarrow> social_err + SocialRepo" where
  "Service_RemoveMessage moderatorID messageID now r = soc_RemoveMessage messageID moderatorID now r"

record MessageReportEvidence =
  re_MessageID :: string
  re_ConversationID :: string
  re_SenderID :: string
  re_ParticipantIDs :: "string list"
  re_Text :: string
  re_CreatedAt :: time

definition Service_MessageForReport :: "string \<Rightarrow> string \<Rightarrow> SocialRepo \<Rightarrow> social_err + MessageReportEvidence" where
  "Service_MessageForReport requesterID messageID r =
     rbind (soc_MessageByID messageID r) (\<lambda>msg.
     rbind (require_party (ms_ConversationID msg) requesterID r) (\<lambda>_.
     rbind (soc_GetConversation (ms_ConversationID msg) r) (\<lambda>c.
       Inr \<lparr>re_MessageID = ms_ID msg, re_ConversationID = ms_ConversationID msg, re_SenderID = ms_SenderUserID msg,
            re_ParticipantIDs = [cv_ParticipantA c, cv_ParticipantB c], re_Text = ms_Body msg,
            re_CreatedAt = ms_CreatedAt msg\<rparr>)))"

definition Service_MarkRead :: "string \<Rightarrow> string \<Rightarrow> string \<Rightarrow> SocialRepo \<Rightarrow> social_err + SocialRepo" where
  "Service_MarkRead userID cid lastReadMessageID r =
     rbind (require_party cid userID r) (\<lambda>_. soc_MarkRead cid userID lastReadMessageID r)"

definition Service_UnreadCount :: "string \<Rightarrow> SocialRepo \<Rightarrow> int" where
  "Service_UnreadCount userID r = soc_UnreadCount userID r"

section \<open>What the client of the API is told\<close>

definition writeSocialError :: "social_err \<Rightarrow> nat" where
  "writeSocialError e =
     (if e \<in> {SocErrInvalidHandle, SocErrInvalidMessage, SocErrMessageTooLong, SocErrSelfFollow, SocErrSelfDM} then 400
      else if e = SocErrNotFriends then 403
      else if e = SocErrInteractionBlocked then 403
      else if e \<in> {SocErrMessageRateLimited, SocErrConversationLimited, SocErrRepeatedMessage, SocErrSpamBurst} then 429
      else if e = SocErrForbidden then 403
      else if e \<in> {SocErrNotFound, SocErrConversationNotFound, SocErrMessageNotFound} then 404
      else 500)"

section \<open>The wiring of the API server\<close>

text \<open>An error of package \<^verbatim>\<open>safety\<close> is not one of package \<^verbatim>\<open>social\<close>: it passes through by its text.\<close>

fun safety_text :: "safety_err \<Rightarrow> string" where
  "safety_text SafErrSelfBlock = ''cannot block yourself''"
| "safety_text SafErrBlocked = ''interaction_blocked''"
| "safety_text SafErrNotFound = ''not found''"
| "safety_text SafErrInvalidHandle = ''invalid handle''"
| "safety_text SafErrForbidden = ''forbidden''"
| "safety_text SafErrUserSuspended = ''user_suspended''"
| "safety_text SafErrUserBanned = ''user_banned''"
| "safety_text (SafErrBlockFailed e) = ''block_failed: '' @ e"
| "safety_text (SafErrProfile e) = ''profile store''"
| "safety_text (SafErrOther e) = e"

definition wired ::
  "SocialRepo SafetyService \<Rightarrow> SafetyRepo \<Rightarrow> (MessageNotification \<Rightarrow> social_err option) \<Rightarrow> SocialEnv" where
  "wired s blocks notify =
     \<lparr>se_GetByUserID = sf_GetByUserID s, se_GetByHandle = sf_GetByHandle s,
      se_policy = Some (\<lambda>a b. map_sum (\<lambda>e. SocErrOther (safety_text e)) id (CanUsersInteract s a b blocks)),
      se_blocked = Some (\<lambda>u. Inr (saf_BlockedPairUserIDs u blocks)),
      se_notifier = Some notify\<rparr>"

definition wired_safety ::
  "(string \<Rightarrow> profile_err + Profile) \<Rightarrow> (string \<Rightarrow> profile_err + Profile) \<Rightarrow> (string \<Rightarrow> safety_err + bool \<times> bool)
     \<Rightarrow> SocialRepo SafetyService" where
  "wired_safety byUserID byHandle status =
     \<lparr>sf_GetByUserID = byUserID, sf_GetByHandle = byHandle, sf_follows = Some RemoveFollowBothDirections,
      sf_status = Some status, sf_coordinator = None\<rparr>"

end
