(* ===== verification/SocialLaws.thy ===== *)
theory SocialLaws
  imports SocialService OrderLaws
begin

text \<open>
  Requests to the social and safety services one after another: conversations stay well formed, the message budgets
  hold over every window of time, a message is stored only between mutual friends neither of whom is blocked, suspended
  or banned, hiding a message touches nobody else's view, and a blocked pair is told of a server error.
\<close>

section \<open>Association lists\<close>

lemma map_of_filter_distinct:
  "distinct (map fst xs) \<Longrightarrow>
     map_of (filter P xs) k = (case map_of xs k of None \<Rightarrow> None | Some v \<Rightarrow> if P (k, v) then Some v else None)"
  by (induction xs) (auto split: option.splits simp: map_of_eq_None_iff rev_image_eqI)

section \<open>Stored messages\<close>

text \<open>What the budgets read of a stored message.\<close>

definition msg_view :: "string \<times> Message \<Rightarrow> string \<times> string \<times> string \<times> time" where
  "msg_view cm = (fst cm, ms_SenderUserID (snd cm), normalizeMessageBody (ms_Body (snd cm)), ms_CreatedAt (snd cm))"

definition views :: "SocialRepo \<Rightarrow> (string \<times> string \<times> string \<times> time) multiset" where
  "views r = mset (map msg_view (stored_messages r))"

lemma stored_update:
  "mset (concat (map (\<lambda>(cid, ms). map (Pair cid) ms)
       (AList.update k ((case map_of al k of None \<Rightarrow> [] | Some ms \<Rightarrow> ms) @ [m]) al)))
   = add_mset (k, m) (mset (concat (map (\<lambda>(cid, ms). map (Pair cid) ms) al)))"
  by (induction al) (auto simp: case_prod_beta)

lemma views_append: "views (append_message msg c r) = add_mset (msg_view (ms_ConversationID msg, msg)) (views r)"
proof -
  have "mset (stored_messages (append_message msg c r)) = add_mset (ms_ConversationID msg, msg) (mset (stored_messages r))"
    using stored_update [of "ms_ConversationID msg" "sr_messages r" msg]
    by (simp add: stored_messages_def append_message_def Let_def messages_of_def)
  then show ?thesis by (simp add: views_def)
qed

lemma tombstone_views:
  "tombstone mid by now ms = Some ms' \<Longrightarrow> map (\<lambda>m. msg_view (cid, m)) ms' = map (\<lambda>m. msg_view (cid, m)) ms"
  by (induction ms arbitrary: ms') (auto simp: msg_view_def split: if_splits)

lemma stored_same_views:
  "map_of al k = Some ms \<Longrightarrow> map (\<lambda>m. msg_view (k, m)) ms' = map (\<lambda>m. msg_view (k, m)) ms \<Longrightarrow>
     map msg_view (concat (map (\<lambda>(cid, ms). map (Pair cid) ms) (AList.update k ms' al)))
   = map msg_view (concat (map (\<lambda>(cid, ms). map (Pair cid) ms) al))"
  by (induction al) (auto simp: comp_def split: if_splits)

lemma views_RemoveMessage: "soc_RemoveMessage mid by now r = Inr r' \<Longrightarrow> views r' = views r"
proof -
  assume run: "soc_RemoveMessage mid by now r = Inr r'"
  then obtain cid items where items: "tombstone mid by now (messages_of cid r) = Some items"
    and r': "r' = r\<lparr>sr_messages := AList.update cid items (sr_messages r)\<rparr>"
    by (auto simp: soc_RemoveMessage_def)
  from items have "messages_of cid r \<noteq> []" by auto
  then obtain ms where ms: "map_of (sr_messages r) cid = Some ms" "messages_of cid r = ms"
    by (auto simp: messages_of_def split: option.splits)
  from stored_same_views [OF ms(1) tombstone_views [OF items, unfolded ms(2)]]
  show ?thesis by (simp add: views_def stored_messages_def r')
qed

lemma mset_concat_filter_subset:
  "mset (concat (map f (filter P xs))) \<subseteq># mset (concat (map f xs))"
  by (induction xs) (auto intro: subset_mset.add_increasing)

lemma delete_is_filter: "AList.delete k al = filter (\<lambda>(k', _). k \<noteq> k') al"
  by (simp add: AList.delete_eq)

lemma views_drop_conversation: "views (drop_conversation kc r) \<subseteq># views r"
  unfolding views_def stored_messages_def drop_conversation_def
  by (simp add: delete_is_filter image_mset_subseteq_mono mset_concat_filter_subset)

lemma views_drop_fold: "views (foldl (\<lambda>r kc. drop_conversation kc r) r kcs) \<subseteq># views r"
  by (induction kcs arbitrary: r) (auto intro: subset_mset.order_trans views_drop_conversation)

lemma views_OnAccountDeleted: "views (soc_OnAccountDeleted u r) \<subseteq># views r"
  unfolding soc_OnAccountDeleted_def Let_def
  by (rule subset_mset.order_trans [OF views_drop_fold]) (simp add: views_def stored_messages_def)

section \<open>Budgets\<close>

text \<open>
  \<open>budget P W limit\<close>: of the messages whose view has \<open>P\<close>, no window of length \<open>W\<close> holds more than \<open>limit\<close>.
\<close>

definition in_window ::
  "(string \<times> string \<times> string \<Rightarrow> bool) \<Rightarrow> time \<Rightarrow> time \<Rightarrow> string \<times> string \<times> string \<times> time \<Rightarrow> bool" where
  "in_window P x W v = (case v of (cid, sender, body, t) \<Rightarrow> P (cid, sender, body) \<and> x \<le> t \<and> t \<le> x + W)"

definition budget ::
  "(string \<times> string \<times> string \<Rightarrow> bool) \<Rightarrow> time \<Rightarrow> nat \<Rightarrow> (string \<times> string \<times> string \<times> time) multiset \<Rightarrow> bool" where
  "budget P W limit V = (\<forall>x. size (filter_mset (in_window P x W) V) \<le> limit)"

lemma budget_subset: "budget P W limit V \<Longrightarrow> V' \<subseteq># V \<Longrightarrow> budget P W limit V'"
  unfolding budget_def by (meson le_trans multiset_filter_mono size_mset_mono)

text \<open>
  A message admitted while fewer than \<open>limit\<close> messages lie after the start of its window keeps the budget, in
  whatever order the clock stamped them: the check counts everything since the start, without an upper end.
\<close>

lemma budget_add:
  assumes "budget P W limit V"
    "P (cid, sender, body) \<Longrightarrow>
       size (filter_mset (\<lambda>(c, s, b, t). P (c, s, b) \<and> \<not> t < now - W) V) < limit"
  shows "budget P W limit (add_mset (cid, sender, body, now) V)"
  unfolding budget_def
proof
  fix x
  show "size (filter_mset (in_window P x W) (add_mset (cid, sender, body, now) V)) \<le> limit"
  proof (cases "in_window P x W (cid, sender, body, now)")
    case True
    then have P: "P (cid, sender, body)" "now \<le> x + W" by (auto simp: in_window_def)
    have "filter_mset (in_window P x W) V \<subseteq># filter_mset (\<lambda>(c, s, b, t). P (c, s, b) \<and> \<not> t < now - W) V"
      using P(2) by (intro filter_mset_mono_strong) (auto simp: in_window_def)
    with assms(2) [OF P(1)] have "size (filter_mset (in_window P x W) V) < limit"
      using size_mset_mono by fastforce
    with True show ?thesis by simp
  qed (use assms(1) in \<open>simp add: budget_def\<close>)
qed

text \<open>The four budgets of the default policy.\<close>

definition budgets_hold :: "(string \<times> string \<times> string \<times> time) multiset \<Rightarrow> bool" where
  "budgets_hold V =
     (\<forall>sender cid body.
        budget (\<lambda>(c, s, b). s = sender) (60 * second_ns) 30 V \<and>
        budget (\<lambda>(c, s, b). c = cid) (60 * second_ns) 40 V \<and>
        budget (\<lambda>(c, s, b). s = sender \<and> b = body) (10 * 60 * second_ns) 3 V \<and>
        budget (\<lambda>(c, s, b). s = sender) (10 * second_ns) 8 V)"

lemma budgets_hold_subset: "budgets_hold V \<Longrightarrow> V' \<subseteq># V \<Longrightarrow> budgets_hold V'"
  unfolding budgets_hold_def by (blast intro: budget_subset)

lemma count_stored_views:
  "(\<And>cm. P cm = Q (msg_view cm)) \<Longrightarrow> count_stored P r = int (size (filter_mset Q (views r)))"
proof -
  assume PQ: "\<And>cm. P cm = Q (msg_view cm)"
  then have "P = Q \<circ> msg_view" by auto
  then have "length (filter P (stored_messages r)) = length (filter Q (map msg_view (stored_messages r)))"
    by (simp add: filter_map)
  then show ?thesis
    by (simp only: count_stored_def views_def mset_filter [symmetric] size_mset)
qed

lemma abuse_check_counts:
  assumes "abuse_check defaultMessageAbusePolicy msg r = None"
  shows "size (filter_mset (\<lambda>(c, s, b, t). s = ms_SenderUserID msg \<and> \<not> t < ms_CreatedAt msg - 60 * second_ns) (views r)) < 30"
    "size (filter_mset (\<lambda>(c, s, b, t). c = ms_ConversationID msg \<and> \<not> t < ms_CreatedAt msg - 60 * second_ns) (views r)) < 40"
    "size (filter_mset (\<lambda>(c, s, b, t). (s = ms_SenderUserID msg \<and> b = normalizeMessageBody (ms_Body msg)) \<and>
        \<not> t < ms_CreatedAt msg - 10 * 60 * second_ns) (views r)) < 3"
    "size (filter_mset (\<lambda>(c, s, b, t). s = ms_SenderUserID msg \<and> \<not> t < ms_CreatedAt msg - 10 * second_ns) (views r)) < 8"
proof -
  note counts = count_stored_views [where r = r]
  have user: "count_stored (from_sender_since u since) r
      = int (size (filter_mset (\<lambda>(c, s, b, t). s = u \<and> \<not> t < since) (views r)))" for u since
    by (rule counts) (auto simp: from_sender_since_def msg_view_def)
  have conv: "count_stored (in_conversation_since cid since) r
      = int (size (filter_mset (\<lambda>(c, s, b, t). c = cid \<and> \<not> t < since) (views r)))" for cid since
    by (rule counts) (auto simp: in_conversation_since_def msg_view_def)
  have rep: "count_stored (repeats_since u body since) r
      = int (size (filter_mset (\<lambda>(c, s, b, t). (s = u \<and> b = body) \<and> \<not> t < since) (views r)))" for u body since
    by (rule counts) (auto simp: repeats_since_def from_sender_since_def msg_view_def)
  show "size (filter_mset (\<lambda>(c, s, b, t). s = ms_SenderUserID msg \<and> \<not> t < ms_CreatedAt msg - 60 * second_ns) (views r)) < 30"
    "size (filter_mset (\<lambda>(c, s, b, t). c = ms_ConversationID msg \<and> \<not> t < ms_CreatedAt msg - 60 * second_ns) (views r)) < 40"
    "size (filter_mset (\<lambda>(c, s, b, t). (s = ms_SenderUserID msg \<and> b = normalizeMessageBody (ms_Body msg)) \<and>
        \<not> t < ms_CreatedAt msg - 10 * 60 * second_ns) (views r)) < 3"
    "size (filter_mset (\<lambda>(c, s, b, t). s = ms_SenderUserID msg \<and> \<not> t < ms_CreatedAt msg - 10 * second_ns) (views r)) < 8"
    using assms
    unfolding abuse_check_def Let_def user conv rep over_limit_def defaultMessageAbusePolicy_def
    by (simp_all split: if_splits)
qed

lemma CreateMessage_cases:
  assumes "soc_CreateMessage write policy r = Inr r'"
  obtains c where "map_of (sr_conversations r) (ms_ConversationID (mw_Message write)) = Some c"
    "abuse_check policy (mw_Message write) r = None" "r' = append_message (mw_Message write) c r"
  using assms by (auto simp: soc_CreateMessage_def soc_GetConversation_def Let_def split: option.splits)

lemma CreateMessage_budgets:
  assumes "budgets_hold (views r)" "soc_CreateMessage write defaultMessageAbusePolicy r = Inr r'"
  shows "budgets_hold (views r')"
proof -
  let ?m = "mw_Message write"
  from assms(2) obtain c where ok: "abuse_check defaultMessageAbusePolicy ?m r = None" and r': "r' = append_message ?m c r"
    by (rule CreateMessage_cases)
  have V: "views r' = add_mset (ms_ConversationID ?m, ms_SenderUserID ?m, normalizeMessageBody (ms_Body ?m), ms_CreatedAt ?m)
      (views r)"
    by (simp add: r' views_append msg_view_def)
  note counts = abuse_check_counts [OF ok]
  show ?thesis
    unfolding budgets_hold_def V
  proof (intro allI conjI)
    fix u cid body
    note old = assms(1) [unfolded budgets_hold_def, rule_format, of u cid body]
    show "budget (\<lambda>(c, s, b). s = u) (60 * second_ns) 30 (add_mset (ms_ConversationID ?m, ms_SenderUserID ?m,
        normalizeMessageBody (ms_Body ?m), ms_CreatedAt ?m) (views r))"
      by (rule budget_add) (use old counts(1) in auto)
    show "budget (\<lambda>(c, s, b). c = cid) (60 * second_ns) 40 (add_mset (ms_ConversationID ?m, ms_SenderUserID ?m,
        normalizeMessageBody (ms_Body ?m), ms_CreatedAt ?m) (views r))"
      by (rule budget_add) (use old counts(2) in auto)
    show "budget (\<lambda>(c, s, b). s = u \<and> b = body) (10 * 60 * second_ns) 3 (add_mset (ms_ConversationID ?m,
        ms_SenderUserID ?m, normalizeMessageBody (ms_Body ?m), ms_CreatedAt ?m) (views r))"
      by (rule budget_add) (use old counts(3) in auto)
    show "budget (\<lambda>(c, s, b). s = u) (10 * second_ns) 8 (add_mset (ms_ConversationID ?m, ms_SenderUserID ?m,
        normalizeMessageBody (ms_Body ?m), ms_CreatedAt ?m) (views r))"
      by (rule budget_add) (use old counts(4) in auto)
  qed
qed

section \<open>Requests\<close>

record World =
  wd_blocks :: SafetyRepo
  wd_social :: SocialRepo

datatype request =
    ReqFollow string string
  | ReqUnfollow string string
  | ReqBlock string string
  | ReqUnblock string string
  | ReqConversation string string string
  | ReqSend string string string string string
  | ReqHide string string
  | ReqRemove string string
  | ReqMarkRead string string string
  | ReqDeleteAccount string

text \<open>An operation that fails leaves the store as it was.\<close>

definition or_else :: "'a \<Rightarrow> 'e + 'a \<Rightarrow> 'a" where
  "or_else r res = (case res of Inl _ \<Rightarrow> r | Inr r' \<Rightarrow> r')"

fun serve ::
  "SocialRepo SafetyService \<Rightarrow> (MessageNotification \<Rightarrow> social_err option) \<Rightarrow> World \<Rightarrow> time \<times> request \<Rightarrow> World" where
  "serve s notify w (now, ReqFollow u h) =
     w\<lparr>wd_social := or_else (wd_social w)
         (map_sum id fst (Service_Follow (wired s (wd_blocks w) notify) u h now (wd_social w)))\<rparr>"
| "serve s notify w (now, ReqUnfollow u h) =
     w\<lparr>wd_social := or_else (wd_social w)
         (map_sum id fst (Service_Unfollow (wired s (wd_blocks w) notify) u h (wd_social w)))\<rparr>"
| "serve s notify w (now, ReqBlock u h) =
     (let (blocks, social) = fst (saf_Service_Block s u h now (wd_blocks w, wd_social w))
      in \<lparr>wd_blocks = blocks, wd_social = social\<rparr>)"
| "serve s notify w (now, ReqUnblock u h) =
     w\<lparr>wd_blocks := or_else (wd_blocks w) (saf_Service_Unblock s u h (wd_blocks w))\<rparr>"
| "serve s notify w (now, ReqConversation u h uuid) =
     w\<lparr>wd_social := fst (Service_CreateConversation (wired s (wd_blocks w) notify) u h uuid now (wd_social w))\<rparr>"
| "serve s notify w (now, ReqSend u cid body uuid nuuid) =
     w\<lparr>wd_social := fst (Service_SendMessage (wired s (wd_blocks w) notify) u cid body uuid nuuid now (wd_social w))\<rparr>"
| "serve s notify w (now, ReqHide u mid) =
     w\<lparr>wd_social := or_else (wd_social w) (Service_HideMessage u mid (wd_social w))\<rparr>"
| "serve s notify w (now, ReqRemove moderator mid) =
     w\<lparr>wd_social := or_else (wd_social w) (Service_RemoveMessage moderator mid now (wd_social w))\<rparr>"
| "serve s notify w (now, ReqMarkRead u cid mid) =
     w\<lparr>wd_social := or_else (wd_social w) (Service_MarkRead u cid mid (wd_social w))\<rparr>"
| "serve s notify w (now, ReqDeleteAccount u) =
     \<lparr>wd_blocks = saf_OnAccountDeleted u (wd_blocks w), wd_social = soc_OnAccountDeleted u (wd_social w)\<rparr>"

text \<open>Which operations touch the messages.\<close>

lemma messages_Follow: "Service_Follow E u h now r = Inr res \<Longrightarrow> views (fst res) = views r"
  by (auto simp: Service_Follow_def soc_Follow_def views_def stored_messages_def Let_def split: if_splits option.splits)

lemma messages_Unfollow: "Service_Unfollow E u h r = Inr res \<Longrightarrow> views (fst res) = views r"
  by (auto simp: Service_Unfollow_def soc_Unfollow_def views_def stored_messages_def Let_def split: if_splits)

lemma messages_CreateConversation: "views (fst (Service_CreateConversation E u h uuid now r)) = views r"
  by (auto simp: Service_CreateConversation_def soc_CreateConversation_def views_def stored_messages_def Let_def
      split: sum.splits option.splits)

lemma messages_HideMessage: "Service_HideMessage u mid r = Inr r' \<Longrightarrow> views r' = views r"
  by (auto simp: Service_HideMessage_def soc_HideMessageForUser_def views_def stored_messages_def Let_def split: if_splits)

lemma messages_MarkRead: "Service_MarkRead u cid mid r = Inr r' \<Longrightarrow> views r' = views r"
  by (auto simp: Service_MarkRead_def soc_MarkRead_def views_def stored_messages_def Let_def)

lemma SendMessage_cases:
  "fst (Service_SendMessage E u cid body uuid nuuid now r) = r \<or>
   (\<exists>other body'. send_guards E u cid body r = Inr (other, body') \<and>
      soc_CreateMessage (message_write E nuuid other (new_message uuid cid u body' now)) defaultMessageAbusePolicy r
        = Inr (fst (Service_SendMessage E u cid body uuid nuuid now r)))"
  by (auto simp: Service_SendMessage_def Let_def split: sum.splits)

lemma serve_budgets:
  assumes "sf_coordinator s = None" "sf_follows s = Some RemoveFollowBothDirections" "budgets_hold (views (wd_social w))"
  shows "budgets_hold (views (wd_social (serve s notify w req)))"
proof -
  obtain now rq where req: "req = (now, rq)" by (cases req)
  show ?thesis
  proof (cases rq)
    case (ReqSend u cid body uuid nuuid)
    let ?E = "wired s (wd_blocks w) notify"
    show ?thesis
      using SendMessage_cases [of ?E u cid body uuid nuuid now "wd_social w"] assms(3) CreateMessage_budgets
      by (auto simp: req ReqSend)
  next
    case (ReqBlock u h)
    have "views (snd (fst (saf_Service_Block s u h now (wd_blocks w, wd_social w)))) = views (wd_social w)"
      using assms(1,2)
      by (auto simp: saf_Service_Block_def saf_block_pair_def RemoveFollowBothDirections_def soc_Unfollow_def views_def
          stored_messages_def Let_def split: sum.splits)
    with assms(3) show ?thesis by (simp add: req ReqBlock case_prod_beta Let_def)
  next
    case (ReqDeleteAccount u)
    then show ?thesis using budgets_hold_subset [OF assms(3) views_OnAccountDeleted] by (simp add: req)
  next
    case (ReqFollow u h)
    let ?run = "Service_Follow (wired s (wd_blocks w) notify) u h now (wd_social w)"
    show ?thesis using assms(3) messages_Follow by (cases ?run) (auto simp: req ReqFollow or_else_def)
  next
    case (ReqUnfollow u h)
    let ?run = "Service_Unfollow (wired s (wd_blocks w) notify) u h (wd_social w)"
    show ?thesis using assms(3) messages_Unfollow by (cases ?run) (auto simp: req ReqUnfollow or_else_def)
  qed (use assms(3) in \<open>auto simp: req or_else_def messages_CreateConversation Service_RemoveMessage_def
        dest: messages_HideMessage messages_MarkRead views_RemoveMessage split: sum.splits\<close>)
qed

lemma run_budgets:
  assumes "sf_coordinator s = None" "sf_follows s = Some RemoveFollowBothDirections" "budgets_hold (views (wd_social w))"
  shows "budgets_hold (views (wd_social (foldl (serve s notify) w reqs)))"
  using assms(3)
proof (induction reqs arbitrary: w)
  case (Cons req reqs)
  then show ?case using serve_budgets [OF assms(1,2)] by simp
qed simp

lemma budgets_hold_empty: "budgets_hold {#}"
  by (simp add: budgets_hold_def budget_def)

section \<open>Sending\<close>

text \<open>The conditions under which the wired service stores a message.\<close>

definition may_send ::
  "SocialRepo SafetyService \<Rightarrow> SafetyRepo \<Rightarrow> (MessageNotification \<Rightarrow> social_err option) \<Rightarrow> string \<Rightarrow> string \<Rightarrow> string
     \<Rightarrow> string \<Rightarrow> string \<Rightarrow> time \<Rightarrow> SocialRepo \<Rightarrow> Conversation \<Rightarrow> bool" where
  "may_send s blocks notify u cid body uuid nuuid now r c =
     (let other = other_party u c; text = TrimSpace body; msg = new_message uuid cid u text now
      in map_of (sr_conversations r) cid = Some c \<and> is_party u c \<and>
         CanUsersInteract s u other blocks = Inr True \<and> areFriends u other r \<and>
         text \<noteq> [] \<and> RuneCount text \<le> 1000 \<and> abuse_check defaultMessageAbusePolicy msg r = None \<and>
         the (mw_VolatileNotify (message_write (wired s blocks notify) nuuid other msg)) () = None)"

lemma policy_never_false: "CanUsersInteract s a b blocks \<noteq> Inr False"
  by (auto simp: CanUsersInteract_def split: if_splits)

lemma policy_cases:
  obtains (refused) e where "CanUsersInteract s a b blocks = Inl e" | (allowed) "CanUsersInteract s a b blocks = Inr True"
  using policy_never_false [of s a b blocks] by (metis (full_types) sum.exhaust)

lemma checkInteraction_wired:
  "(checkInteraction (wired s blocks notify) a b = Inr ()) = (CanUsersInteract s a b blocks = Inr True)"
  by (cases rule: policy_cases [of s a b blocks]) (simp_all add: checkInteraction_def wired_def)

lemma send_guards_iff:
  "(send_guards (wired s blocks notify) u cid body r = Inr (other, text)) =
   (\<exists>c. map_of (sr_conversations r) cid = Some c \<and> is_party u c \<and> other = other_party u c \<and>
      CanUsersInteract s u other blocks = Inr True \<and> areFriends u other r \<and>
      text = TrimSpace body \<and> text \<noteq> [] \<and> RuneCount text \<le> 1000)"
proof (cases "map_of (sr_conversations r) cid")
  case (Some c)
  show ?thesis
  proof (cases rule: policy_cases [of s u "other_party u c" blocks])
    case (refused e)
    then show ?thesis
      by (auto simp: send_guards_def soc_GetConversation_def Some Let_def checkInteraction_def wired_def)
  next
    case allowed
    then have "checkInteraction (wired s blocks notify) u (other_party u c) = Inr ()" by (simp add: checkInteraction_wired)
    with allowed show ?thesis
      by (auto simp: send_guards_def soc_GetConversation_def Some Let_def is_party_def MaxMessageLength_def)
  qed
qed (simp add: send_guards_def soc_GetConversation_def)

lemma message_write_message [simp]: "mw_Message (message_write E nuuid other msg) = msg"
  by (auto simp: message_write_def Let_def split: option.splits)

lemma message_write_wired: "mw_VolatileNotify (message_write (wired s blocks notify) nuuid other msg) \<noteq> None"
  by (simp add: message_write_def wired_def Let_def)

lemma new_message_fields [simp]:
  "ms_ID (new_message uuid cid u body now) = uuid" "ms_ConversationID (new_message uuid cid u body now) = cid"
  "ms_SenderUserID (new_message uuid cid u body now) = u" "ms_Body (new_message uuid cid u body now) = body"
  "ms_CreatedAt (new_message uuid cid u body now) = now"
  by (simp_all add: new_message_def)

lemma CreateMessage_wired:
  assumes "map_of (sr_conversations r) (ms_ConversationID msg) = Some c"
  shows "soc_CreateMessage (message_write (wired s blocks notify) nuuid other msg) policy r =
    (case abuse_check policy msg r of
       Some e \<Rightarrow> Inl e
     | None \<Rightarrow> (case the (mw_VolatileNotify (message_write (wired s blocks notify) nuuid other msg)) () of
                  Some e \<Rightarrow> Inl e | None \<Rightarrow> Inr (append_message msg c r)))"
  using message_write_wired [of s blocks notify nuuid other msg] assms
  by (auto simp: soc_CreateMessage_def soc_GetConversation_def Let_def split: option.splits)

lemma may_send_unblocked:
  "may_send s blocks notify u cid body uuid nuuid now r c \<Longrightarrow>
     map_of (sr_conversations r) cid = Some c \<and> \<not> saf_IsBlockedEitherDirection u (other_party u c) blocks"
  by (auto simp: may_send_def CanUsersInteract_def Let_def split: if_splits)

lemma SendMessage_stores:
  "let (r', res) = Service_SendMessage (wired s blocks notify) u cid body uuid nuuid now r
   in if \<exists>c. may_send s blocks notify u cid body uuid nuuid now r c
      then r' = append_message (new_message uuid cid u (TrimSpace body) now) (the (map_of (sr_conversations r) cid)) r
      else r' = r \<and> isl res"
proof -
  let ?E = "wired s blocks notify"
  let ?msg = "new_message uuid cid u (TrimSpace body) now"
  show ?thesis
  proof (cases "send_guards ?E u cid body r")
    case (Inl e)
    then have "\<not> may_send s blocks notify u cid body uuid nuuid now r c" for c
      using send_guards_iff [of s blocks notify u cid body r "other_party u c" "TrimSpace body"]
      by (auto simp: may_send_def Let_def)
    with Inl show ?thesis by (simp add: Service_SendMessage_def)
  next
    case (Inr ot)
    then obtain c where c: "map_of (sr_conversations r) cid = Some c" "is_party u c" "ot = (other_party u c, TrimSpace body)"
      "CanUsersInteract s u (other_party u c) blocks = Inr True" "areFriends u (other_party u c) r"
      "TrimSpace body \<noteq> []" "RuneCount (TrimSpace body) \<le> 1000"
      using send_guards_iff [of s blocks notify u cid body r "fst ot" "snd ot"] by (metis prod.collapse)
    let ?notified = "the (mw_VolatileNotify (message_write ?E nuuid (other_party u c) ?msg)) ()"
    have may: "(\<exists>c. may_send s blocks notify u cid body uuid nuuid now r c) =
        (abuse_check defaultMessageAbusePolicy ?msg r = None \<and> ?notified = None)"
      using c by (auto simp: may_send_def Let_def)
    have created: "soc_CreateMessage (message_write ?E nuuid (other_party u c) ?msg) defaultMessageAbusePolicy r =
        (case abuse_check defaultMessageAbusePolicy ?msg r of Some e \<Rightarrow> Inl e
         | None \<Rightarrow> (case ?notified of Some e \<Rightarrow> Inl e | None \<Rightarrow> Inr (append_message ?msg c r)))"
      by (rule CreateMessage_wired) (simp add: c(1))
    show ?thesis
      unfolding may Service_SendMessage_def Inr c(3) Let_def sum.case prod.case created
      using c(1) by (auto split: option.splits)
  qed
qed

section \<open>Read positions\<close>

text \<open>
  \<^verbatim>\<open>MarkRead\<close> sets the position to the given message wherever it was before: naming an older message moves it back,
  and messages already read count as unread again.
\<close>

lemma MarkRead_position:
  "soc_MarkRead cid u mid r = Inr r' \<Longrightarrow>
     \<exists>m\<in>set (messages_of cid r). ms_ID m = mid \<and>
       read_state cid u r' = Some \<lparr>ps_lastReadMessageID = mid, ps_lastReadAt = ms_CreatedAt m\<rparr>"
  by (auto simp: soc_MarkRead_def read_state_def Let_def find_Some_iff)

section \<open>Properties\<close>

definition between :: "time \<Rightarrow> time \<Rightarrow> Message \<Rightarrow> bool" where
  "between x W m = (x \<le> ms_CreatedAt m \<and> ms_CreatedAt m \<le> x + W)"

lemma budget_count:
  assumes "budget P W limit (views r)"
    "\<And>cm. Q cm = (P (fst cm, ms_SenderUserID (snd cm), normalizeMessageBody (ms_Body (snd cm))) \<and> between x W (snd cm))"
  shows "count_stored Q r \<le> int limit"
proof -
  have "count_stored Q r = int (size (filter_mset (in_window P x W) (views r)))"
    by (rule count_stored_views) (simp add: assms(2) in_window_def msg_view_def between_def)
  with assms(1) show ?thesis by (simp add: budget_def)
qed

text \<open>
  C17. After any requests to a server that started without messages, and whatever the clock showed, no window of a minute
  holds more than thirty stored messages of one sender or forty of one conversation, no ten seconds more than eight of
  one sender, and no ten minutes more than three of one sender with the same normalised body.
\<close>

theorem message_limits_hold:
  assumes "sr_messages (wd_social w) = []"
    "r = wd_social (foldl (serve (wired_safety byUserID byHandle status) notify) w reqs)"
  shows "count_stored (\<lambda>cm. ms_SenderUserID (snd cm) = u \<and> between x (60 * second_ns) (snd cm)) r \<le> 30 \<and>
    count_stored (\<lambda>cm. fst cm = cid \<and> between x (60 * second_ns) (snd cm)) r \<le> 40 \<and>
    count_stored (\<lambda>cm. ms_SenderUserID (snd cm) = u \<and> between x (10 * second_ns) (snd cm)) r \<le> 8 \<and>
    count_stored (\<lambda>cm. (ms_SenderUserID (snd cm) = u \<and> normalizeMessageBody (ms_Body (snd cm)) = body) \<and>
      between x (10 * 60 * second_ns) (snd cm)) r \<le> 3"
proof -
  have "budgets_hold (views (wd_social w))"
    using assms(1) budgets_hold_empty by (simp add: views_def stored_messages_def)
  then have "budgets_hold (views r)"
    unfolding assms(2) by (intro run_budgets) (simp_all add: wired_safety_def)
  note b = this [unfolded budgets_hold_def, rule_format, of u cid body]
  show ?thesis
    using budget_count [OF b [THEN conjunct1]] budget_count [OF b [THEN conjunct2, THEN conjunct1]]
      budget_count [OF b [THEN conjunct2, THEN conjunct2, THEN conjunct1]]
      budget_count [OF b [THEN conjunct2, THEN conjunct2, THEN conjunct2]]
    by simp
qed

text \<open>Two friends, of whom the first repeats herself.\<close>

definition demo_person :: "string \<Rightarrow> profile_err + Profile" where
  "demo_person uid = Inr (zero_Profile\<lparr>pf_UserID := uid, pf_Handle := uid, pf_IsPublic := True\<rparr>)"

definition demo_safety :: "SocialRepo SafetyService" where
  "demo_safety = wired_safety demo_person demo_person (\<lambda>_. Inr (False, False))"

definition demo_world :: World where
  "demo_world = \<lparr>wd_blocks = [], wd_social = NewSocialRepo\<rparr>"

definition demo_meeting :: "(time \<times> request) list" where
  "demo_meeting = [(1, ReqFollow ''ada'' ''bob''), (2, ReqFollow ''bob'' ''ada''), (3, ReqConversation ''ada'' ''bob'' ''c1'')]"

definition demo_chat :: "(time \<times> request) list" where
  "demo_chat = demo_meeting @
     map (\<lambda>(t, uuid, body). (t, ReqSend ''ada'' ''c1'' body uuid []))
       [(20, ''m1'', ''Hello   Bob''), (19, ''m2'', ''hello bob ''), (21, ''m3'', ''HELLO bob''), (22, ''m4'', ''hello bob'')]"

theorem message_limits_hold_witness:
  "map ms_ID (messages_of ''c1'' (wd_social (foldl (serve demo_safety (\<lambda>_. None)) demo_world demo_chat)))
     = [''m1'', ''m2'', ''m3''] \<and>
   count_stored (\<lambda>cm. (ms_SenderUserID (snd cm) = ''ada'' \<and> normalizeMessageBody (ms_Body (snd cm)) = ''hello bob'') \<and>
     between 5 (10 * 60 * second_ns) (snd cm)) (wd_social (foldl (serve demo_safety (\<lambda>_. None)) demo_world demo_chat)) \<le> 3"
proof -
  have chat: "map ms_ID (messages_of ''c1'' (wd_social (foldl (serve demo_safety (\<lambda>_. None)) demo_world demo_chat)))
     = [''m1'', ''m2'', ''m3'']"
    by code_simp
  have start: "sr_messages (wd_social demo_world) = []" by (simp add: demo_world_def NewSocialRepo_def)
  note limits = message_limits_hold [OF start refl, where byUserID = demo_person and byHandle = demo_person
      and status = "\<lambda>_. Inr (False, False)" and notify = "\<lambda>_. None" and reqs = demo_chat and u = "''ada''" and x = 5
      and body = "''hello bob''"]
  show ?thesis using chat limits [THEN conjunct2, THEN conjunct2, THEN conjunct2] by (simp only: demo_safety_def simp_thms)
qed

text \<open>
  When a message may be sent, read off the stored rows: \<open>recent W P\<close> counts the stored messages of the last \<open>W\<close>
  nanoseconds that satisfy \<open>P\<close>.
\<close>

definition good_standing :: "'f SafetyService \<Rightarrow> string \<Rightarrow> bool" where
  "good_standing s u = (case sf_status s of None \<Rightarrow> True | Some status \<Rightarrow> status u = Inr (False, False))"

definition send_allowed ::
  "SocialRepo SafetyService \<Rightarrow> SafetyRepo \<Rightarrow> (MessageNotification \<Rightarrow> social_err option) \<Rightarrow> string \<Rightarrow> string
     \<Rightarrow> string \<Rightarrow> string \<Rightarrow> string \<Rightarrow> time \<Rightarrow> SocialRepo \<Rightarrow> Conversation \<Rightarrow> bool" where
  "send_allowed s blocks notify u cid body uuid nuuid now r c =
     (let other = (if cv_ParticipantA c = u then cv_ParticipantB c else cv_ParticipantA c);
          text = TrimSpace body;
          recent = (\<lambda>W P. length (filter (\<lambda>(k, m). now - W \<le> ms_CreatedAt m \<and> P k m) (stored_messages r)))
      in map_of (sr_conversations r) cid = Some c \<and> (cv_ParticipantA c = u \<or> cv_ParticipantB c = u) \<and>
         good_standing s u \<and> good_standing s other \<and>
         u @ ''->'' @ other \<notin> fst ` set blocks \<and> other @ ''->'' @ u \<notin> fst ` set blocks \<and>
         u @ ''->'' @ other \<in> fst ` set (sr_follows r) \<and> other @ ''->'' @ u \<in> fst ` set (sr_follows r) \<and>
         text \<noteq> [] \<and> RuneCount text \<le> 1000 \<and>
         recent 60000000000 (\<lambda>_ m. ms_SenderUserID m = u) < 30 \<and>
         recent 60000000000 (\<lambda>k _. k = cid) < 40 \<and>
         recent 600000000000 (\<lambda>_ m. ms_SenderUserID m = u \<and>
           normalizeMessageBody (ms_Body m) = normalizeMessageBody text) < 3 \<and>
         recent 10000000000 (\<lambda>_ m. ms_SenderUserID m = u) < 8 \<and>
         notify \<lparr>mn_ID = nuuid, mn_RecipientID = other, mn_Type = ''new_message'', mn_DedupeKey = ''message:'' @ uuid,
                 mn_Payload = [''conversation_id'' \<mapsto> cid], mn_CreatedAt = now\<rparr> = None)"

lemma policy_allows_iff:
  "(CanUsersInteract s a b blocks = Inr True) =
   (good_standing s a \<and> good_standing s b \<and> a @ ''->'' @ b \<notin> fst ` set blocks \<and> b @ ''->'' @ a \<notin> fst ` set blocks)"
proof (cases "sf_status s")
  case None
  then show ?thesis
    by (simp add: CanUsersInteract_def good_standing_def saf_IsBlockedEitherDirection_def blockKey_def map_of_eq_None_iff)
next
  case (Some status)
  have status_iff: "(check_status status [a, b] = Inr ()) = (status a = Inr (False, False) \<and> status b = Inr (False, False))"
    by (cases "status a"; cases "status b") (auto split: if_splits prod.splits)
  have "(CanUsersInteract s a b blocks = Inr True) =
      (check_status status [a, b] = Inr () \<and> \<not> saf_IsBlockedEitherDirection a b blocks)"
    unfolding CanUsersInteract_def Some option.case by (cases "check_status status [a, b]") simp_all
  then show ?thesis
    by (simp add: status_iff good_standing_def Some saf_IsBlockedEitherDirection_def blockKey_def map_of_eq_None_iff del: check_status.simps)
qed

lemma friends_iff:
  "areFriends a b r = (a @ ''->'' @ b \<in> fst ` set (sr_follows r) \<and> b @ ''->'' @ a \<in> fst ` set (sr_follows r))"
  by (simp add: areFriends_def soc_IsFollowing_def followKey_def map_of_eq_None_iff)

lemma budgets_iff:
  "(abuse_check defaultMessageAbusePolicy (new_message uuid cid u body now) r = None) =
   (length (filter (\<lambda>(k, m). now - 60000000000 \<le> ms_CreatedAt m \<and> ms_SenderUserID m = u) (stored_messages r)) < 30 \<and>
    length (filter (\<lambda>(k, m). now - 60000000000 \<le> ms_CreatedAt m \<and> k = cid) (stored_messages r)) < 40 \<and>
    length (filter (\<lambda>(k, m). now - 600000000000 \<le> ms_CreatedAt m \<and> ms_SenderUserID m = u \<and>
      normalizeMessageBody (ms_Body m) = normalizeMessageBody body) (stored_messages r)) < 3 \<and>
    length (filter (\<lambda>(k, m). now - 10000000000 \<le> ms_CreatedAt m \<and> ms_SenderUserID m = u) (stored_messages r)) < 8)"
proof -
  have count: "count_stored P r = int (length (filter Q (stored_messages r)))" if "\<And>cm. P cm = Q cm" for P Q
    unfolding count_stored_def by (intro arg_cong [where f = int] arg_cong [where f = length] filter_cong that refl)
  have 1: "count_stored (from_sender_since u (now - W)) r =
      int (length (filter (\<lambda>(k, m). now - W \<le> ms_CreatedAt m \<and> ms_SenderUserID m = u) (stored_messages r)))" for W
    by (rule count) (auto simp: from_sender_since_def)
  have 2: "count_stored (in_conversation_since cid (now - W)) r =
      int (length (filter (\<lambda>(k, m). now - W \<le> ms_CreatedAt m \<and> k = cid) (stored_messages r)))" for W
    by (rule count) (auto simp: in_conversation_since_def)
  have 3: "count_stored (repeats_since u (normalizeMessageBody body) (now - W)) r =
      int (length (filter (\<lambda>(k, m). now - W \<le> ms_CreatedAt m \<and> ms_SenderUserID m = u \<and>
        normalizeMessageBody (ms_Body m) = normalizeMessageBody body) (stored_messages r)))" for W
    by (rule count) (auto simp: repeats_since_def from_sender_since_def)
  show ?thesis
    by (auto simp: abuse_check_def Let_def 1 2 3 over_limit_def defaultMessageAbusePolicy_def second_ns_def split: if_splits)
qed

lemma may_send_iff:
  "may_send s blocks notify u cid body uuid nuuid now r c = send_allowed s blocks notify u cid body uuid nuuid now r c"
proof -
  have notified: "the (mw_VolatileNotify (message_write (wired s blocks notify) nuuid other
      (new_message uuid cid u x now))) () =
      notify \<lparr>mn_ID = nuuid, mn_RecipientID = other, mn_Type = ''new_message'', mn_DedupeKey = ''message:'' @ uuid,
        mn_Payload = [''conversation_id'' \<mapsto> cid], mn_CreatedAt = now\<rparr>" for other x
    by (simp add: message_write_def wired_def Let_def)
  show ?thesis
    unfolding may_send_def send_allowed_def Let_def policy_allows_iff friends_iff budgets_iff notified is_party_def
      other_party_def
    by blast
qed

text \<open>
  C18. The wired service stores exactly the trimmed message, at the end of its conversation, when the sender is a party,
  neither user has a block of the other, is suspended or banned, each follows the other, the text has one to a thousand
  runes, the stored messages leave room in the four budgets (30 of the sender and 40 of the conversation in a minute,
  3 of the same text in ten minutes, 8 in ten seconds) and the notification is accepted; in every other case it stores
  nothing and answers an error.
\<close>

theorem SendMessage_exact:
  "let (r', res) = Service_SendMessage (wired s blocks notify) u cid body uuid nuuid now r;
       msg = \<lparr>ms_ID = uuid, ms_ConversationID = cid, ms_SenderUserID = u, ms_Body = TrimSpace body, ms_CreatedAt = now,
              ms_RemovedAt = None, ms_RemovedBy = None\<rparr>
   in if \<exists>c. send_allowed s blocks notify u cid body uuid nuuid now r c
      then r' = r\<lparr>sr_messages := AList.update cid (messages_of cid r @ [msg]) (sr_messages r),
                 sr_messageByID := (sr_messageByID r)(uuid \<mapsto> cid),
                 sr_conversations := AList.update cid
                   ((the (map_of (sr_conversations r) cid))\<lparr>cv_UpdatedAt := now, cv_LastMessageAt := Some now\<rparr>)
                   (sr_conversations r)\<rparr>
      else r' = r \<and> isl res"
  using SendMessage_stores [of s blocks notify u cid body uuid nuuid now r]
  unfolding may_send_iff append_message_def new_message_def by (simp add: case_prod_beta Let_def)

definition demo_friends :: SocialRepo where
  "demo_friends = wd_social (foldl (serve demo_safety (\<lambda>_. None)) demo_world demo_meeting)"

theorem SendMessage_exact_witness:
  "map ms_Body (messages_of ''c1'' (fst (Service_SendMessage (wired demo_safety [] (\<lambda>_. None)) ''ada'' ''c1'' '' hi ''
      ''m1'' [] 20 demo_friends))) = [''hi''] \<and>
   fst (Service_SendMessage (wired demo_safety (saf_Block ''bob'' ''ada'' 4 []) (\<lambda>_. None)) ''ada'' ''c1'' '' hi ''
      ''m1'' [] 20 demo_friends) = demo_friends"
proof -
  let ?c = "the (map_of (sr_conversations demo_friends) ''c1'')"
  have "send_allowed demo_safety [] (\<lambda>_. None) ''ada'' ''c1'' '' hi '' ''m1'' [] 20 demo_friends ?c" by code_simp
  then have ok: "\<exists>c. send_allowed demo_safety [] (\<lambda>_. None) ''ada'' ''c1'' '' hi '' ''m1'' [] 20 demo_friends c" ..
  have "\<not> send_allowed demo_safety (saf_Block ''bob'' ''ada'' 4 []) (\<lambda>_. None) ''ada'' ''c1'' '' hi '' ''m1'' [] 20
      demo_friends ?c" by code_simp
  moreover have "c = ?c" if "send_allowed demo_safety (saf_Block ''bob'' ''ada'' 4 []) (\<lambda>_. None) ''ada'' ''c1'' '' hi ''
      ''m1'' [] 20 demo_friends c" for c
    using that by (simp add: send_allowed_def Let_def)
  ultimately have no: "\<not> (\<exists>c. send_allowed demo_safety (saf_Block ''bob'' ''ada'' 4 []) (\<lambda>_. None) ''ada'' ''c1'' '' hi ''
      ''m1'' [] 20 demo_friends c)"
    by metis
  have "messages_of ''c1'' demo_friends = []" "TrimSpace '' hi '' = ''hi''" by code_simp+
  then show ?thesis
    using SendMessage_exact [of demo_safety "[]" "\<lambda>_. None" "''ada''" "''c1''" "'' hi ''" "''m1''" "[]" 20 demo_friends]
      SendMessage_exact [of demo_safety "saf_Block ''bob'' ''ada'' 4 []" "\<lambda>_. None" "''ada''" "''c1''" "'' hi ''" "''m1''"
        "[]" 20 demo_friends] ok no
    by (simp add: case_prod_beta Let_def messages_of_def update_conv')
qed

text \<open>
  With the safety service as its policy, following a user one may not interact with is answered with a server error:
  the refusal is an error of package \<^verbatim>\<open>safety\<close>, which the handler maps to status 500 and not to the 403 it has for
  \<^verbatim>\<open>ErrInteractionBlocked\<close>.
\<close>

theorem refused_follow_is_server_error:
  assumes "publicProfileByHandle (wired s blocks notify) handle = Inr target" "pf_UserID target \<noteq> u"
    "CanUsersInteract s u (pf_UserID target) blocks \<noteq> Inr True"
  shows "\<exists>e. Service_Follow (wired s blocks notify) u handle now r = Inl e \<and> writeSocialError e = 500"
proof -
  from assms(3) obtain e where e: "CanUsersInteract s u (pf_UserID target) blocks = Inl e"
    by (cases rule: policy_cases [of s u "pf_UserID target" blocks]) simp_all
  have "checkInteraction (wired s blocks notify) u (pf_UserID target) = Inl (SocErrOther (safety_text e))"
    by (simp add: checkInteraction_def wired_def e)
  with assms(1,2) show ?thesis by (simp add: Service_Follow_def writeSocialError_def)
qed

theorem refused_follow_is_server_error_witness:
  "\<exists>e. Service_Follow (wired demo_safety (saf_Block ''bob'' ''ada'' 4 []) (\<lambda>_. None)) ''ada'' ''bob'' 9 NewSocialRepo = Inl e \<and>
     writeSocialError e = 500"
proof -
  let ?blocks = "saf_Block ''bob'' ''ada'' 4 []"
  have target: "publicProfileByHandle (wired demo_safety ?blocks (\<lambda>_. None)) ''bob'' = Inr (projr (demo_person ''bob''))"
    "pf_UserID (projr (demo_person ''bob'')) \<noteq> ''ada''"
    by code_simp+
  have refused: "CanUsersInteract demo_safety ''ada'' (pf_UserID (projr (demo_person ''bob''))) ?blocks \<noteq> Inr True"
    by code_simp
  from refused_follow_is_server_error [OF target refused] show ?thesis .
qed

end
