(* ===== verification/ConversationLaws.thy ===== *)
theory ConversationLaws
  imports SocialLaws
begin

text \<open>
  What stays true of conversations through any requests: one conversation for a pair of users, each message filed under
  the one conversation its identifier leads to and sent by one of its parties; and what hiding a message does to the
  views of the two parties.
\<close>

section \<open>Well-formed stores\<close>

text \<open>
  The three relations, stated over the maps behind the association lists: conversations and the index of pairs agree,
  and every message list belongs to a conversation.
\<close>

definition pair_index :: "(string \<rightharpoonup> Conversation) \<Rightarrow> (string \<rightharpoonup> string) \<Rightarrow> bool" where
  "pair_index convs idx =
     ((\<forall>k c. convs k = Some c \<longrightarrow> cv_ID c = k \<and> cv_ParticipantA c \<noteq> cv_ParticipantB c \<and>
         idx (pairKey (cv_ParticipantA c) (cv_ParticipantB c)) = Some k) \<and>
      (\<forall>key k. idx key = Some k \<longrightarrow>
         (\<exists>c. convs k = Some c \<and> pairKey (cv_ParticipantA c) (cv_ParticipantB c) = key)))"

definition filed :: "(string \<rightharpoonup> string) \<Rightarrow> string \<Rightarrow> Conversation \<Rightarrow> Message list \<Rightarrow> bool" where
  "filed byID k c ms =
     ((\<forall>m\<in>set ms. ms_ConversationID m = k \<and> is_party (ms_SenderUserID m) c \<and> byID (ms_ID m) = Some k) \<and>
      distinct (map ms_ID ms))"

definition mail_index ::
  "(string \<rightharpoonup> Conversation) \<Rightarrow> (string \<rightharpoonup> Message list) \<Rightarrow> (string \<rightharpoonup> string) \<Rightarrow> bool" where
  "mail_index convs msgs byID = (\<forall>k ms. msgs k = Some ms \<longrightarrow> (\<exists>c. convs k = Some c \<and> filed byID k c ms))"

definition social_wf :: "SocialRepo \<Rightarrow> bool" where
  "social_wf r =
     (distinct (map fst (sr_conversations r)) \<and>
      pair_index (map_of (sr_conversations r)) (sr_conversationByPair r) \<and>
      mail_index (map_of (sr_conversations r)) (map_of (sr_messages r)) (sr_messageByID r))"

lemma social_wfD:
  "social_wf r \<Longrightarrow> pair_index (map_of (sr_conversations r)) (sr_conversationByPair r)"
  "social_wf r \<Longrightarrow> mail_index (map_of (sr_conversations r)) (map_of (sr_messages r)) (sr_messageByID r)"
  "social_wf r \<Longrightarrow> distinct (map fst (sr_conversations r))"
  by (simp_all only: social_wf_def)

lemma social_wfI:
  "distinct (map fst (sr_conversations r)) \<Longrightarrow> pair_index convs (sr_conversationByPair r) \<Longrightarrow>
     mail_index convs (map_of (sr_messages r)) (sr_messageByID r) \<Longrightarrow> convs = map_of (sr_conversations r) \<Longrightarrow> social_wf r"
  by (simp only: social_wf_def)

text \<open>Stores that differ in follows, hidden messages and read positions only.\<close>

lemma social_wf_same:
  "social_wf r \<Longrightarrow> sr_conversations r' = sr_conversations r \<Longrightarrow> sr_conversationByPair r' = sr_conversationByPair r \<Longrightarrow>
     sr_messages r' = sr_messages r \<Longrightarrow> sr_messageByID r' = sr_messageByID r \<Longrightarrow> social_wf r'"
  by (simp only: social_wf_def)

lemma pair_index_conv: "pair_index convs idx \<Longrightarrow> convs k = Some c \<Longrightarrow>
    cv_ID c = k \<and> cv_ParticipantA c \<noteq> cv_ParticipantB c \<and> idx (pairKey (cv_ParticipantA c) (cv_ParticipantB c)) = Some k"
  by (simp add: pair_index_def)

lemma pair_index_key: "pair_index convs idx \<Longrightarrow> idx key = Some k \<Longrightarrow>
    \<exists>c. convs k = Some c \<and> pairKey (cv_ParticipantA c) (cv_ParticipantB c) = key"
  by (simp add: pair_index_def)

lemma pair_index_new:
  "pair_index convs idx \<Longrightarrow> convs k = None \<Longrightarrow> idx (pairKey (cv_ParticipantA c) (cv_ParticipantB c)) = None \<Longrightarrow>
     cv_ID c = k \<Longrightarrow> cv_ParticipantA c \<noteq> cv_ParticipantB c \<Longrightarrow>
     pair_index (convs(k \<mapsto> c)) (idx(pairKey (cv_ParticipantA c) (cv_ParticipantB c) \<mapsto> k))"
  unfolding pair_index_def by (auto split: if_splits) (metis option.distinct(1))+

lemma pair_index_touch:
  "pair_index convs idx \<Longrightarrow> convs k = Some c \<Longrightarrow> cv_ID c' = cv_ID c \<Longrightarrow> cv_ParticipantA c' = cv_ParticipantA c \<Longrightarrow>
     cv_ParticipantB c' = cv_ParticipantB c \<Longrightarrow> pair_index (convs(k \<mapsto> c')) idx"
  unfolding pair_index_def by (auto split: if_splits) (metis option.inject)+

lemma pair_index_drop:
  "pair_index convs idx \<Longrightarrow> convs k = Some c \<Longrightarrow>
     pair_index (convs(k := None)) (idx(pairKey (cv_ParticipantA c) (cv_ParticipantB c) := None))"
  unfolding pair_index_def by (auto split: if_splits) (metis option.inject)+

lemma mail_index_at: "mail_index convs msgs byID \<Longrightarrow> msgs k = Some ms \<Longrightarrow> \<exists>c. convs k = Some c \<and> filed byID k c ms"
  by (simp add: mail_index_def)

lemma mail_index_new: "mail_index convs msgs byID \<Longrightarrow> convs k = None \<Longrightarrow> mail_index (convs(k \<mapsto> c)) msgs byID"
  unfolding mail_index_def by (metis fun_upd_other option.distinct(1))

lemma mail_index_drop: "mail_index convs msgs byID \<Longrightarrow> mail_index (convs(k := None)) (msgs(k := None)) byID"
  unfolding mail_index_def by (auto split: if_splits)

lemma filed_other: "filed byID k c ms \<Longrightarrow> byID mid = None \<Longrightarrow> filed (byID(mid \<mapsto> k')) k c ms"
  by (auto simp: filed_def)

lemma mail_index_append:
  assumes "mail_index convs msgs byID" "convs k = Some c" "byID (ms_ID m) = None" "ms_ConversationID m = k"
    "is_party (ms_SenderUserID m) c" "\<And>u. is_party u c' = is_party u c"
  shows "mail_index (convs(k \<mapsto> c')) (msgs(k \<mapsto> (case msgs k of None \<Rightarrow> [] | Some ms \<Rightarrow> ms) @ [m])) (byID(ms_ID m \<mapsto> k))"
  unfolding mail_index_def
proof (intro allI impI)
  fix k' ms assume ms: "(msgs(k \<mapsto> (case msgs k of None \<Rightarrow> [] | Some ms \<Rightarrow> ms) @ [m])) k' = Some ms"
  let ?byID = "byID(ms_ID m \<mapsto> k)"
  show "\<exists>d. (convs(k \<mapsto> c')) k' = Some d \<and> filed ?byID k' d ms"
  proof (cases "k' = k")
    case True
    let ?old = "case msgs k of None \<Rightarrow> [] | Some ms \<Rightarrow> ms"
    have "filed byID k c ?old"
      using mail_index_at [OF assms(1), of k] assms(2) by (cases "msgs k") (auto simp: filed_def)
    then have "filed ?byID k c' (?old @ [m])"
      using assms(3-6) by (auto simp: filed_def)
    with True ms show ?thesis by auto
  next
    case False
    with ms assms(1) obtain d where "convs k' = Some d" "filed byID k' d ms" by (auto simp: mail_index_def)
    with False filed_other [OF this(2) assms(3)] show ?thesis by auto
  qed
qed

lemma mail_index_replace:
  assumes "mail_index convs msgs byID" "msgs k = Some ms"
    "map ms_ID ms' = map ms_ID ms" "map ms_ConversationID ms' = map ms_ConversationID ms"
    "map ms_SenderUserID ms' = map ms_SenderUserID ms"
  shows "mail_index convs (msgs(k \<mapsto> ms')) byID"
proof -
  have len: "length ms' = length ms" using assms(3) by (rule map_eq_imp_length_eq)
  have "filed byID k c ms'" if "filed byID k c ms" for c
  proof -
    have "ms_ConversationID m' = k \<and> is_party (ms_SenderUserID m') c \<and> byID (ms_ID m') = Some k" if "m' \<in> set ms'" for m'
    proof -
      from that obtain i where i: "i < length ms'" "m' = ms' ! i" by (metis in_set_conv_nth)
      then have "ms_ID m' = ms_ID (ms ! i)" "ms_ConversationID m' = ms_ConversationID (ms ! i)"
        "ms_SenderUserID m' = ms_SenderUserID (ms ! i)"
        using assms(3-5) len by (metis nth_map)+
      moreover have "ms ! i \<in> set ms" using i len by simp
      ultimately show ?thesis using \<open>filed byID k c ms\<close> by (simp add: filed_def)
    qed
    with that assms(3) show ?thesis by (simp add: filed_def)
  qed
  with mail_index_at [OF assms(1,2)] assms(1) show ?thesis
    unfolding mail_index_def by (metis fun_upd_other fun_upd_same option.inject)
qed

section \<open>Operations\<close>

lemma append_message_wf:
  assumes "social_wf r" "map_of (sr_conversations r) (ms_ConversationID m) = Some c" "sr_messageByID r (ms_ID m) = None"
    "is_party (ms_SenderUserID m) c"
  shows "social_wf (append_message m c r)"
proof -
  let ?k = "ms_ConversationID m"
  let ?c = "c\<lparr>cv_UpdatedAt := ms_CreatedAt m, cv_LastMessageAt := Some (ms_CreatedAt m)\<rparr>"
  have idx: "pair_index ((map_of (sr_conversations r))(?k \<mapsto> ?c)) (sr_conversationByPair r)"
    by (rule pair_index_touch [where convs = "map_of (sr_conversations r)", OF social_wfD(1) [OF assms(1)] assms(2)]) simp_all
  have mail: "mail_index ((map_of (sr_conversations r))(?k \<mapsto> ?c))
      ((map_of (sr_messages r))(?k \<mapsto> (case map_of (sr_messages r) ?k of None \<Rightarrow> [] | Some ms \<Rightarrow> ms) @ [m]))
      ((sr_messageByID r)(ms_ID m \<mapsto> ?k))"
    by (rule mail_index_append [where convs = "map_of (sr_conversations r)", OF social_wfD(2) [OF assms(1)] assms(2,3) refl
          assms(4)]) (simp add: is_party_def)
  have d: "distinct (map fst (AList.update ?k ?c (sr_conversations r)))"
    by (rule distinct_update [OF social_wfD(3) [OF assms(1)]])
  show ?thesis
    unfolding social_wf_def
    using idx mail d by (simp add: append_message_def Let_def update_conv' messages_of_def)
qed

lemma CreateConversation_wf:
  assumes "social_wf r" "map_of (sr_conversations r) k = None" "a \<noteq> b"
  shows "social_wf (fst (soc_CreateConversation k a b now r))"
proof (cases "sr_conversationByPair r (pairKey a b)")
  case None
  let ?c = "\<lparr>cv_ID = k, cv_ParticipantA = a, cv_ParticipantB = b, cv_CreatedAt = now, cv_UpdatedAt = now, cv_LastMessageAt = None\<rparr>"
  have idx: "pair_index ((map_of (sr_conversations r))(k \<mapsto> ?c)) ((sr_conversationByPair r)(pairKey a b \<mapsto> k))"
    using pair_index_new [where c = ?c, OF social_wfD(1) [OF assms(1)] assms(2)] None assms(3) by simp
  have mail: "mail_index ((map_of (sr_conversations r))(k \<mapsto> ?c)) (map_of (sr_messages r)) (sr_messageByID r)"
    by (rule mail_index_new [OF social_wfD(2) [OF assms(1)] assms(2)])
  have d: "distinct (map fst (AList.update k ?c (sr_conversations r)))"
    by (rule distinct_update [OF social_wfD(3) [OF assms(1)]])
  show ?thesis
    unfolding social_wf_def
    using idx mail d by (simp add: soc_CreateConversation_def Let_def None update_conv')
qed (use assms(1) in \<open>simp add: soc_CreateConversation_def Let_def\<close>)

lemma drop_conversation_wf:
  assumes "social_wf r" "map_of (sr_conversations r) (fst kc) = Some (snd kc)"
  shows "social_wf (drop_conversation kc r)"
proof -
  let ?k = "fst kc" and ?c = "snd kc"
  have idx: "pair_index ((map_of (sr_conversations r))(?k := None))
      ((sr_conversationByPair r)(pairKey (cv_ParticipantA ?c) (cv_ParticipantB ?c) := None))"
    by (rule pair_index_drop [where convs = "map_of (sr_conversations r)", OF social_wfD(1) [OF assms(1)] assms(2)])
  have mail: "mail_index ((map_of (sr_conversations r))(?k := None)) ((map_of (sr_messages r))(?k := None)) (sr_messageByID r)"
    by (rule mail_index_drop [OF social_wfD(2) [OF assms(1)]])
  have d: "distinct (map fst (AList.delete ?k (sr_conversations r)))"
    by (rule distinct_delete [OF social_wfD(3) [OF assms(1)]])
  show ?thesis
    unfolding social_wf_def
    using idx mail d by (simp add: drop_conversation_def delete_conv')
qed

lemma drop_fold_wf:
  assumes "social_wf r" "distinct (map fst kcs)" "\<forall>kc\<in>set kcs. map_of (sr_conversations r) (fst kc) = Some (snd kc)"
  shows "social_wf (foldl (\<lambda>r kc. drop_conversation kc r) r kcs)"
  using assms
proof (induction kcs arbitrary: r)
  case (Cons kc kcs)
  have "map_of (sr_conversations (drop_conversation kc r)) (fst kc') = Some (snd kc')" if "kc' \<in> set kcs" for kc'
  proof -
    from that Cons.prems(2) have "fst kc' \<noteq> fst kc" by (auto simp: rev_image_eqI)
    with that Cons.prems(3) show ?thesis
      by (simp add: drop_conversation_def delete_conv')
  qed
  with Cons.IH [OF drop_conversation_wf [OF Cons.prems(1)]] Cons.prems(2,3) show ?case by simp
qed simp

lemma OnAccountDeleted_wf: "social_wf r \<Longrightarrow> social_wf (soc_OnAccountDeleted u r)"
proof -
  assume wf: "social_wf r"
  let ?r = "r\<lparr>sr_follows := filter (\<lambda>kf. \<not> (fo_FollowerUserID (snd kf) = u \<or> fo_FollowingUserID (snd kf) = u)) (sr_follows r)\<rparr>"
  let ?kcs = "filter (\<lambda>kc. is_party u (snd kc)) (sr_conversations r)"
  have d: "distinct (map fst (sr_conversations r))" by (rule social_wfD(3) [OF wf])
  have rows: "\<forall>kc\<in>set ?kcs. map_of (sr_conversations ?r) (fst kc) = Some (snd kc)"
    using d by (auto intro: map_of_is_SomeI)
  have dk: "distinct (map fst ?kcs)" using d by (rule distinct_map_filter)
  have "social_wf ?r" by (rule social_wf_same [OF wf]) simp_all
  from drop_fold_wf [OF this dk rows] show ?thesis
    by (simp add: soc_OnAccountDeleted_def Let_def)
qed

lemma tombstone_ids:
  "tombstone mid by now ms = Some ms' \<Longrightarrow> map ms_ID ms' = map ms_ID ms \<and>
     map ms_ConversationID ms' = map ms_ConversationID ms \<and> map ms_SenderUserID ms' = map ms_SenderUserID ms"
  by (induction ms arbitrary: ms') (auto split: if_splits)

lemma RemoveMessage_wf: "social_wf r \<Longrightarrow> soc_RemoveMessage mid by now r = Inr r' \<Longrightarrow> social_wf r'"
proof -
  assume wf: "social_wf r" and run: "soc_RemoveMessage mid by now r = Inr r'"
  then obtain cid items where items: "tombstone mid by now (messages_of cid r) = Some items"
    and r': "r' = r\<lparr>sr_messages := AList.update cid items (sr_messages r)\<rparr>"
    by (auto simp: soc_RemoveMessage_def)
  from items have "messages_of cid r \<noteq> []" by auto
  then obtain ms where ms: "map_of (sr_messages r) cid = Some ms" "messages_of cid r = ms"
    by (auto simp: messages_of_def split: option.splits)
  note ids = tombstone_ids [OF items [unfolded ms(2)]]
  have "mail_index (map_of (sr_conversations r)) ((map_of (sr_messages r))(cid \<mapsto> items)) (sr_messageByID r)"
    by (rule mail_index_replace [where msgs = "map_of (sr_messages r)", OF social_wfD(2) [OF wf] ms(1)]) (use ids in simp_all)
  with social_wfD(1,3) [OF wf] show ?thesis
    by (simp add: social_wf_def r' update_conv')
qed

section \<open>Runs\<close>

text \<open>Identifiers of new conversations and messages are fresh (\<^verbatim>\<open>uuid.NewString\<close>).\<close>

fun fresh_request :: "World \<Rightarrow> time \<times> request \<Rightarrow> bool" where
  "fresh_request w (now, ReqConversation u h uuid) = (map_of (sr_conversations (wd_social w)) uuid = None)"
| "fresh_request w (now, ReqSend u cid body uuid nuuid) = (sr_messageByID (wd_social w) uuid = None)"
| "fresh_request w (now, _) = True"

fun fresh_run ::
  "SocialRepo SafetyService \<Rightarrow> (MessageNotification \<Rightarrow> social_err option) \<Rightarrow> World \<Rightarrow> (time \<times> request) list \<Rightarrow> bool" where
  "fresh_run s notify w [] = True"
| "fresh_run s notify w (req # reqs) = (fresh_request w req \<and> fresh_run s notify (serve s notify w req) reqs)"

lemma CreateConversation_service_wf:
  assumes "social_wf r" "map_of (sr_conversations r) uuid = None"
  shows "social_wf (fst (Service_CreateConversation E u h uuid now r))"
proof (cases "rbind (soc_profileByHandle E h) (\<lambda>target.
             if pf_UserID target = u then Inl SocErrSelfDM
             else rbind (checkInteraction E u (pf_UserID target)) (\<lambda>_.
               if \<not> areFriends u (pf_UserID target) r then Inl SocErrNotFriends else Inr target))")
  case (Inr target)
  then have "u \<noteq> pf_UserID target" by (auto split: if_splits)
  from CreateConversation_wf [OF assms this, of now] assms(1) show ?thesis
    unfolding Service_CreateConversation_def Inr sum.case
    by (auto simp: case_prod_beta Let_def split: option.split)
qed (use assms(1) in \<open>simp add: Service_CreateConversation_def\<close>)

lemma SendMessage_wf:
  assumes "social_wf r" "sr_messageByID r uuid = None"
  shows "social_wf (fst (Service_SendMessage (wired s blocks notify) u cid body uuid nuuid now r))"
proof (cases "\<exists>c. may_send s blocks notify u cid body uuid nuuid now r c")
  case True
  then obtain c where c: "map_of (sr_conversations r) cid = Some c" "is_party u c"
    by (auto simp: may_send_def Let_def)
  have "social_wf (append_message (new_message uuid cid u (TrimSpace body) now) c r)"
    by (rule append_message_wf) (use assms c in simp_all)
  with True c SendMessage_stores [of s blocks notify u cid body uuid nuuid now r] show ?thesis
    by (auto simp: case_prod_beta Let_def)
next
  case False
  with assms(1) SendMessage_stores [of s blocks notify u cid body uuid nuuid now r] show ?thesis
    by (auto simp: case_prod_beta Let_def)
qed

lemma same_conversations_wf:
  "social_wf r \<Longrightarrow> Service_Follow E u h now r = Inr res \<Longrightarrow> social_wf (fst res)"
  "social_wf r \<Longrightarrow> Service_Unfollow E u h r = Inr res \<Longrightarrow> social_wf (fst res)"
  "social_wf r \<Longrightarrow> Service_HideMessage u mid r = Inr r' \<Longrightarrow> social_wf r'"
  "social_wf r \<Longrightarrow> Service_MarkRead u cid mid r = Inr r' \<Longrightarrow> social_wf r'"
  by (auto simp: Service_Follow_def soc_Follow_def Service_Unfollow_def soc_Unfollow_def Service_HideMessage_def
      soc_HideMessageForUser_def Service_MarkRead_def soc_MarkRead_def Let_def
      elim: social_wf_same split: if_splits option.splits)

lemma Block_wf:
  assumes "social_wf r" "sf_coordinator s = None" "sf_follows s = Some RemoveFollowBothDirections"
  shows "social_wf (snd (fst (saf_Service_Block s u h now (blocks, r))))"
  using assms(2,3) social_wf_same [OF assms(1)]
  by (auto simp: saf_Service_Block_def saf_block_pair_def RemoveFollowBothDirections_def soc_Unfollow_def Let_def
      split: sum.splits)

lemma serve_wf:
  assumes "sf_coordinator s = None" "sf_follows s = Some RemoveFollowBothDirections" "social_wf (wd_social w)"
    "fresh_request w req"
  shows "social_wf (wd_social (serve s notify w req))"
proof -
  obtain now rq where req: "req = (now, rq)" by (cases req)
  show ?thesis
  proof (cases rq)
    case (ReqSend u cid body uuid nuuid)
    with assms(3,4) SendMessage_wf show ?thesis by (simp add: req)
  next
    case (ReqConversation u h uuid)
    with assms(3,4) CreateConversation_service_wf show ?thesis by (simp add: req)
  next
    case (ReqBlock u h)
    with Block_wf [OF assms(3,1,2)] show ?thesis by (simp add: req case_prod_beta Let_def)
  next
    case (ReqDeleteAccount u)
    with OnAccountDeleted_wf [OF assms(3)] show ?thesis by (simp add: req)
  next
    case (ReqFollow u h)
    let ?run = "Service_Follow (wired s (wd_blocks w) notify) u h now (wd_social w)"
    show ?thesis using assms(3) same_conversations_wf(1) by (cases ?run) (auto simp: req ReqFollow or_else_def)
  next
    case (ReqUnfollow u h)
    let ?run = "Service_Unfollow (wired s (wd_blocks w) notify) u h (wd_social w)"
    show ?thesis using assms(3) same_conversations_wf(2) by (cases ?run) (auto simp: req ReqUnfollow or_else_def)
  qed (use assms(3) in \<open>auto simp: req or_else_def Service_RemoveMessage_def
        dest: same_conversations_wf(3,4) RemoveMessage_wf split: sum.splits\<close>)
qed

lemma run_wf:
  assumes "sf_coordinator s = None" "sf_follows s = Some RemoveFollowBothDirections"
  shows "social_wf (wd_social w) \<Longrightarrow> fresh_run s notify w reqs \<Longrightarrow> social_wf (wd_social (foldl (serve s notify) w reqs))"
proof (induction reqs arbitrary: w)
  case (Cons req reqs)
  then show ?case using serve_wf [OF assms] by simp
qed simp

lemma social_wf_NewSocialRepo: "social_wf NewSocialRepo"
  by (simp add: social_wf_def NewSocialRepo_def pair_index_def mail_index_def)

lemma pairKey_sym: "pairKey a b = pairKey b a"
  using str_less_total [of a b] str_less_asym by (cases "a = b") (auto simp: pairKey_def)

lemma pair_has_one:
  assumes "social_wf r" "map_of (sr_conversations r) k = Some c" "map_of (sr_conversations r) k' = Some c'"
    "{cv_ParticipantA c, cv_ParticipantB c} = {cv_ParticipantA c', cv_ParticipantB c'}"
  shows "k' = k"
proof -
  have "pairKey (cv_ParticipantA c') (cv_ParticipantB c') = pairKey (cv_ParticipantA c) (cv_ParticipantB c)"
    using assms(4) pairKey_sym by (auto simp: doubleton_eq_iff)
  with pair_index_conv [OF social_wfD(1) [OF assms(1)] assms(2)] pair_index_conv [OF social_wfD(1) [OF assms(1)] assms(3)]
  show ?thesis by simp
qed

lemma message_filed:
  assumes "social_wf r" "m \<in> set (messages_of cid r)"
  shows "\<exists>c. map_of (sr_conversations r) cid = Some c \<and> ms_ConversationID m = cid \<and> is_party (ms_SenderUserID m) c \<and>
    sr_messageByID r (ms_ID m) = Some cid"
proof -
  from assms(2) obtain ms where ms: "map_of (sr_messages r) cid = Some ms" "m \<in> set ms"
    by (cases "map_of (sr_messages r) cid") (auto simp: messages_of_def)
  from mail_index_at [OF social_wfD(2) [OF assms(1)] ms(1)] ms(2) show ?thesis by (auto simp: filed_def)
qed

section \<open>Hiding\<close>

lemma hidden_after_hide:
  "soc_HideMessageForUser mid u r = Inr r' \<Longrightarrow> hidden_for v r' m = (v = u \<and> m = mid \<or> hidden_for v r m)"
  by (auto simp: soc_HideMessageForUser_def hidden_for_def Let_def split: if_splits option.splits)

lemma hide_keeps:
  "soc_HideMessageForUser mid u r = Inr r' \<Longrightarrow>
     sr_conversations r' = sr_conversations r \<and> sr_messages r' = sr_messages r \<and> sr_messageByID r' = sr_messageByID r \<and>
     sr_readState r' = sr_readState r"
  by (auto simp: soc_HideMessageForUser_def Let_def split: if_splits)

lemma hide_again: "soc_HideMessageForUser mid u r = Inr r' \<Longrightarrow> soc_HideMessageForUser mid u r' = Inr r'"
  by (auto simp: soc_HideMessageForUser_def Let_def split: if_splits option.splits)

lemma hide_reads:
  assumes "soc_HideMessageForUser mid u r = Inr r'"
  shows "messages_of cid r' = messages_of cid r" "soc_GetConversation cid r' = soc_GetConversation cid r"
    "require_party cid v r' = require_party cid v r" "soc_MessageByID m r' = soc_MessageByID m r"
    "soc_LastMessage cid r' = soc_LastMessage cid r" "read_state cid v r' = read_state cid v r"
  using hide_keeps [OF assms]
  by (simp_all add: messages_of_def soc_GetConversation_def require_party_def soc_IsParticipant_def soc_MessageByID_def
      soc_LastMessage_def read_state_def)

lemma set_last_n: "set (last_n n xs) \<subseteq> set xs"
  by (auto simp: last_n_def dest: in_set_dropD)

lemma set_map_filter: "set (List.map_filter f xs) = {y. \<exists>x\<in>set xs. f x = Some y}"
  by (induction xs) (auto simp: map_filter_simps split: option.splits)

lemma shown_message:
  "dto \<in> set (List.map_filter (\<lambda>m. case messageDTO E u m of Inl _ \<Rightarrow> None | Inr dto \<Rightarrow> Some dto) ms)
     \<Longrightarrow> \<exists>m\<in>set ms. messageDTO E u m = Inr dto"
proof -
  assume "dto \<in> set (List.map_filter (\<lambda>m. case messageDTO E u m of Inl _ \<Rightarrow> None | Inr dto \<Rightarrow> Some dto) ms)"
  then obtain m where m: "m \<in> set ms" "(case messageDTO E u m of Inl _ \<Rightarrow> None | Inr dto \<Rightarrow> Some dto) = Some dto"
    by (auto simp: set_map_filter)
  then have "messageDTO E u m = Inr dto" by (cases "messageDTO E u m") auto
  with m(1) show ?thesis by blast
qed

lemma find_by_key: "distinct (map f xs) \<Longrightarrow> x \<in> set xs \<Longrightarrow> find (\<lambda>y. f y = f x) xs = Some x"
  by (induction xs) auto

lemma messageDTO_ID: "messageDTO E u m = Inr dto \<Longrightarrow> md_ID dto = ms_ID m"
  by (auto simp: messageDTO_def split: sum.splits)

section \<open>Properties\<close>

text \<open>
  C19. After any requests with fresh identifiers to a server whose store is well formed, two users share at most one
  conversation, and every stored message belongs to an existing conversation, was sent by one of its two parties and is
  found there by its identifier.
\<close>

theorem conversations_stay_sound:
  assumes "social_wf (wd_social w)" "fresh_run (wired_safety byUserID byHandle status) notify w reqs"
    "r = wd_social (foldl (serve (wired_safety byUserID byHandle status) notify) w reqs)"
  shows "social_wf r \<and>
    (\<forall>k c k' c'. map_of (sr_conversations r) k = Some c \<and> map_of (sr_conversations r) k' = Some c' \<and>
       {cv_ParticipantA c, cv_ParticipantB c} = {cv_ParticipantA c', cv_ParticipantB c'} \<longrightarrow> k' = k) \<and>
    (\<forall>cid m. m \<in> set (messages_of cid r) \<longrightarrow>
       (\<exists>c. map_of (sr_conversations r) cid = Some c \<and> is_party (ms_SenderUserID m) c \<and>
          soc_MessageByID (ms_ID m) r = Inr m))"
proof -
  have wf: "social_wf r"
    unfolding assms(3) by (rule run_wf [OF _ _ assms(1,2)]) (simp_all add: wired_safety_def)
  have found: "soc_MessageByID (ms_ID m) r = Inr m" if m: "m \<in> set (messages_of cid r)" for m cid
  proof -
    from message_filed [OF wf m] have byID: "sr_messageByID r (ms_ID m) = Some cid" by blast
    have "distinct (map ms_ID (messages_of cid r))"
      using mail_index_at [OF social_wfD(2) [OF wf], of cid]
      by (cases "map_of (sr_messages r) cid") (auto simp: messages_of_def filed_def)
    from find_by_key [OF this m] have "find (\<lambda>x. ms_ID x = ms_ID m) (messages_of cid r) = Some m" .
    with byID show ?thesis by (simp add: soc_MessageByID_def)
  qed
  show ?thesis using wf pair_has_one [OF wf] message_filed [OF wf] found by blast
qed

text \<open>
  Hiding a message changes nothing the other users see, lists or count; the user who hid it no longer finds it among
  the messages, though the preview of the conversation still shows it when it is the last one; hiding twice is hiding
  once.
\<close>

theorem hide_is_private:
  assumes "Service_HideMessage u mid r = Inr r'"
  shows "(\<forall>v cid limit. v \<noteq> u \<longrightarrow> Service_Messages E v cid limit r' = Service_Messages E v cid limit r \<and>
      soc_UnreadCount v r' = soc_UnreadCount v r) \<and>
    (\<forall>cid limit dtos. Service_Messages E u cid limit r' = Inr dtos \<longrightarrow> mid \<notin> md_ID ` set dtos) \<and>
    (\<forall>c. map_sum id cs_LastMessage (conversationSummary E u c r') = map_sum id cs_LastMessage (conversationSummary E u c r)) \<and>
    Service_HideMessage u mid r' = Inr r'"
proof -
  from assms have hide: "soc_HideMessageForUser mid u r = Inr r'" by (auto simp: Service_HideMessage_def)
  note reads = hide_reads [OF hide] and hidden = hidden_after_hide [OF hide]
  have others: "Service_Messages E v cid limit r' = Service_Messages E v cid limit r" if "v \<noteq> u" for v cid limit
    using that by (simp add: Service_Messages_def soc_ListMessages_def reads hidden)
  have "counts_unread cid v r' = counts_unread cid v r" if "v \<noteq> u" for v cid
    using that by (intro ext) (simp add: counts_unread_def reads hidden)
  then have unread: "soc_UnreadCount v r' = soc_UnreadCount v r" if "v \<noteq> u" for v
    using that hide_keeps [OF hide]
    by (simp add: soc_UnreadCount_def soc_ConversationUnreadCount_def reads)
  have gone: "mid \<notin> md_ID ` set dtos" if "Service_Messages E u cid limit r' = Inr dtos" for cid limit dtos
  proof
    assume "mid \<in> md_ID ` set dtos"
    then obtain dto where dto: "dto \<in> set dtos" "md_ID dto = mid" by blast
    with that obtain m where m: "m \<in> set (last_n (clamp_limit limit) (filter (\<lambda>m. \<not> hidden_for u r' (ms_ID m)) (messages_of cid r')))"
      "messageDTO E u m = Inr dto"
      by (auto simp: Service_Messages_def soc_ListMessages_def dest!: shown_message)
    then have "\<not> hidden_for u r' (ms_ID m)" using set_last_n by fastforce
    with messageDTO_ID [OF m(2)] dto(2) show False by (simp add: hidden)
  qed
  have preview: "map_sum id cs_LastMessage (conversationSummary E u c r')
      = map_sum id cs_LastMessage (conversationSummary E u c r)" for c
    by (simp add: conversationSummary_def reads split: sum.split)
  have again: "Service_HideMessage u mid r' = Inr r'"
    using assms hide_again [OF hide] by (auto simp: Service_HideMessage_def reads)
  show ?thesis using others unread gone preview again by blast
qed

text \<open>The two theorems on the chat of the two friends.\<close>

theorem conversations_stay_sound_witness:
  "social_wf (wd_social (foldl (serve demo_safety (\<lambda>_. None)) demo_world demo_chat)) \<and>
   map_option ms_Body (case soc_MessageByID ''m2'' (wd_social (foldl (serve demo_safety (\<lambda>_. None)) demo_world demo_chat))
     of Inl _ \<Rightarrow> None | Inr m \<Rightarrow> Some m) = Some ''hello bob''"
proof -
  have start: "social_wf (wd_social demo_world)" by (simp add: demo_world_def social_wf_NewSocialRepo)
  have fresh: "fresh_run (wired_safety demo_person demo_person (\<lambda>_. Inr (False, False))) (\<lambda>_. None) demo_world demo_chat"
    by code_simp
  have body: "map_option ms_Body (case soc_MessageByID ''m2'' (wd_social (foldl (serve demo_safety (\<lambda>_. None)) demo_world demo_chat))
     of Inl _ \<Rightarrow> None | Inr m \<Rightarrow> Some m) = Some ''hello bob''"
    by code_simp
  from conversations_stay_sound [OF start fresh refl] body show ?thesis by (simp add: demo_safety_def)
qed

theorem hide_is_private_witness:
  "\<exists>r r'. Service_HideMessage ''bob'' ''m3'' r = Inr r' \<and>
     map ms_ID (messages_of ''c1'' r') = [''m1'', ''m2'', ''m3''] \<and>
     Service_Messages (wired demo_safety [] (\<lambda>_. None)) ''ada'' ''c1'' 0 r'
       = Service_Messages (wired demo_safety [] (\<lambda>_. None)) ''ada'' ''c1'' 0 r \<and>
     map md_ID (projr (Service_Messages (wired demo_safety [] (\<lambda>_. None)) ''bob'' ''c1'' 0 r')) = [''m1'', ''m2'']"
proof -
  define r where "r = wd_social (foldl (serve demo_safety (\<lambda>_. None)) demo_world demo_chat)"
  have ok: "\<not> isl (Service_HideMessage ''bob'' ''m3'' r)" unfolding r_def by code_simp
  then obtain r' where hide: "Service_HideMessage ''bob'' ''m3'' r = Inr r'"
    by (cases "Service_HideMessage ''bob'' ''m3'' r") auto
  have views: "map ms_ID (messages_of ''c1'' (projr (Service_HideMessage ''bob'' ''m3'' r))) = [''m1'', ''m2'', ''m3'']"
    "map md_ID (projr (Service_Messages (wired demo_safety [] (\<lambda>_. None)) ''bob'' ''c1'' 0
       (projr (Service_HideMessage ''bob'' ''m3'' r)))) = [''m1'', ''m2'']"
    unfolding r_def by code_simp+
  have ada: "Service_Messages (wired demo_safety [] (\<lambda>_. None)) ''ada'' ''c1'' 0 r'
      = Service_Messages (wired demo_safety [] (\<lambda>_. None)) ''ada'' ''c1'' 0 r"
    using hide_is_private [OF hide, of "wired demo_safety [] (\<lambda>_. None)"] by simp
  show ?thesis by (rule exI [of _ r], rule exI [of _ r']) (use hide ada views in simp)
qed

end
