(* ===== verification/PairLock.thy ===== *)
theory PairLock
  imports SocialLaws
begin

text \<open>
  Following and blocking at the same time. \<^verbatim>\<open>social.Service.Follow\<close> and \<^verbatim>\<open>safety.Service.Block\<close> of one pair of
  users are serialised by the mutexes of package \<^verbatim>\<open>pairlock\<close>; everything else interleaves. A request is a thread,
  one step of a thread is one call of a repository (each repository method holds its own mutex, so a call is atomic) or
  one lock operation. The theorems: whatever the interleaving, a blocked pair has a follow only while the block that is
  clearing it holds the pair's lock, and the locks never deadlock.
\<close>

section \<open>The lock table\<close>

text \<open>\<^verbatim>\<open>locks\<close> maps a key to its mutex once there is one: \<open>Some None\<close> is free, \<open>Some (Some t)\<close> held by thread \<open>t\<close>.\<close>

definition pl_key :: "string \<Rightarrow> string \<Rightarrow> string" where
  "pl_key a b = (if str_less b a then b @ ''|'' @ a else a @ ''|'' @ b)"

type_synonym LockTable = "string \<rightharpoonup> nat option"

definition pl_Lock :: "string \<Rightarrow> string \<Rightarrow> nat \<Rightarrow> LockTable \<Rightarrow> LockTable option" where
  "pl_Lock a b t locks =
     (case locks (pl_key a b) of
        Some (Some _) \<Rightarrow> None
      | _ \<Rightarrow> Some (locks(pl_key a b \<mapsto> Some t)))"

definition pl_unlock :: "string \<Rightarrow> string \<Rightarrow> LockTable \<Rightarrow> LockTable" where
  "pl_unlock a b locks = locks(pl_key a b \<mapsto> None)"

lemma pl_key_sym: "pl_key a b = pl_key b a"
  using str_less_total [of a b] str_less_asym by (cases "a = b") (auto simp: pl_key_def)

section \<open>Threads\<close>

text \<open>
  Where a request stands: \<open>FollowWaits\<close> before the lock, \<open>FollowLocked\<close> before the policy check, \<open>FollowChecked\<close>
  before the write; \<open>BlockLocked\<close> before \<^verbatim>\<open>IsBlocked\<close> and the write, \<open>BlockWritten\<close> before the first
  \<^verbatim>\<open>Unfollow\<close>, \<open>BlockHalf\<close> before the second; \<open>Leaving\<close> before the deferred unlock.
\<close>

datatype pc =
    Idle
  | FollowWaits string string
  | FollowLocked string string
  | FollowChecked string string
  | BlockWaits string string
  | BlockLocked string string
  | BlockWritten string string
  | BlockHalf string string
  | Leaving string string

record Server =
  sv_blocks :: SafetyRepo
  sv_social :: SocialRepo
  sv_locks :: LockTable
  sv_pc :: "nat \<Rightarrow> pc"

definition goto :: "nat \<Rightarrow> pc \<Rightarrow> Server \<Rightarrow> Server" where
  "goto t p \<sigma> = \<sigma>\<lparr>sv_pc := (sv_pc \<sigma>)(t := p)\<rparr>"

definition thread_step :: "SocialRepo SafetyService \<Rightarrow> time \<Rightarrow> nat \<Rightarrow> Server \<Rightarrow> Server option" where
  "thread_step s now t \<sigma> =
     (case sv_pc \<sigma> t of
        Idle \<Rightarrow> None
      | FollowWaits u v \<Rightarrow>
          (case pl_Lock u v t (sv_locks \<sigma>) of
             None \<Rightarrow> None
           | Some locks \<Rightarrow> Some (goto t (FollowLocked u v) (\<sigma>\<lparr>sv_locks := locks\<rparr>)))
      | FollowLocked u v \<Rightarrow>
          Some (goto t (if CanUsersInteract s u v (sv_blocks \<sigma>) = Inr True then FollowChecked u v else Leaving u v) \<sigma>)
      | FollowChecked u v \<Rightarrow> Some (goto t (Leaving u v) (\<sigma>\<lparr>sv_social := soc_Follow u v now (sv_social \<sigma>)\<rparr>))
      | BlockWaits u v \<Rightarrow>
          (case pl_Lock u v t (sv_locks \<sigma>) of
             None \<Rightarrow> None
           | Some locks \<Rightarrow> Some (goto t (BlockLocked u v) (\<sigma>\<lparr>sv_locks := locks\<rparr>)))
      | BlockLocked u v \<Rightarrow> Some (goto t (BlockWritten u v) (\<sigma>\<lparr>sv_blocks := saf_Block u v now (sv_blocks \<sigma>)\<rparr>))
      | BlockWritten u v \<Rightarrow> Some (goto t (BlockHalf u v) (\<sigma>\<lparr>sv_social := soc_Unfollow u v (sv_social \<sigma>)\<rparr>))
      | BlockHalf u v \<Rightarrow> Some (goto t (Leaving u v) (\<sigma>\<lparr>sv_social := soc_Unfollow v u (sv_social \<sigma>)\<rparr>))
      | Leaving u v \<Rightarrow> Some (goto t Idle (\<sigma>\<lparr>sv_locks := pl_unlock u v (sv_locks \<sigma>)\<rparr>)))"

text \<open>
  User identifiers are UUIDs: they have no \<^verbatim>\<open>>\<close>, so the keys of the two stores tell pairs apart.
\<close>

definition plain_id :: "string \<Rightarrow> bool" where
  "plain_id u = (CHR ''>'' \<notin> set u)"

inductive server_step :: "SocialRepo SafetyService \<Rightarrow> Server \<Rightarrow> Server \<Rightarrow> bool" for s where
  start_follow: "sv_pc \<sigma> t = Idle \<Longrightarrow> plain_id u \<Longrightarrow> plain_id v \<Longrightarrow> u \<noteq> v \<Longrightarrow>
     server_step s \<sigma> (goto t (FollowWaits u v) \<sigma>)"
| start_block: "sv_pc \<sigma> t = Idle \<Longrightarrow> plain_id u \<Longrightarrow> plain_id v \<Longrightarrow> u \<noteq> v \<Longrightarrow>
     server_step s \<sigma> (goto t (BlockWaits u v) \<sigma>)"
| run: "thread_step s now t \<sigma> = Some \<sigma>' \<Longrightarrow> server_step s \<sigma> \<sigma>'"
| unfollow: "server_step s \<sigma> (\<sigma>\<lparr>sv_social := soc_Unfollow u v (sv_social \<sigma>)\<rparr>)"
| unblock: "server_step s \<sigma> (\<sigma>\<lparr>sv_blocks := saf_Unblock u v (sv_blocks \<sigma>)\<rparr>)"
| delete_social: "server_step s \<sigma> (\<sigma>\<lparr>sv_social := soc_OnAccountDeleted u (sv_social \<sigma>)\<rparr>)"
| delete_blocks: "server_step s \<sigma> (\<sigma>\<lparr>sv_blocks := saf_OnAccountDeleted u (sv_blocks \<sigma>)\<rparr>)"

inductive server_run :: "SocialRepo SafetyService \<Rightarrow> Server \<Rightarrow> Server \<Rightarrow> bool" for s where
  refl: "server_run s \<sigma> \<sigma>"
| step: "server_run s \<sigma> \<sigma>' \<Longrightarrow> server_step s \<sigma>' \<sigma>'' \<Longrightarrow> server_run s \<sigma> \<sigma>''"

inductive_cases server_stepE: "server_step s \<sigma> \<sigma>'"

definition fresh_server :: Server where
  "fresh_server = \<lparr>sv_blocks = [], sv_social = NewSocialRepo, sv_locks = Map.empty, sv_pc = (\<lambda>_. Idle)\<rparr>"

section \<open>Keys\<close>

lemma arrow_key_inj:
  assumes "plain_id a" "plain_id a'" "a @ ''->'' @ b = a' @ ''->'' @ b'"
  shows "a = a' \<and> b = b'"
proof -
  have split: "takeWhile (\<lambda>c. c \<noteq> CHR ''>'') (x @ ''->'' @ y) = x @ ''-''" if "plain_id x" for x y :: string
    using that by (induction x) (auto simp: plain_id_def)
  have "a @ ''-'' = a' @ ''-''" using split [OF assms(1), of b] split [OF assms(2), of b'] assms(3) by simp
  then have "a = a'" by simp
  with assms(3) show ?thesis by simp
qed

lemma followKey_eq: "plain_id a \<Longrightarrow> plain_id a' \<Longrightarrow> (followKey a b = followKey a' b') = (a = a' \<and> b = b')"
  using arrow_key_inj [of a a' b b'] by (auto simp: followKey_def)

lemma blockKey_eq: "plain_id a \<Longrightarrow> plain_id a' \<Longrightarrow> (blockKey a b = blockKey a' b') = (a = a' \<and> b = b')"
  using arrow_key_inj [of a a' b b'] by (auto simp: blockKey_def)

section \<open>What each call changes\<close>

definition keys_distinct :: "SafetyRepo \<Rightarrow> SocialRepo \<Rightarrow> bool" where
  "keys_distinct blocks social = (distinct (map fst blocks) \<and> distinct (map fst (sr_follows social)))"

lemma IsFollowing_Follow:
  "plain_id a \<Longrightarrow> plain_id u \<Longrightarrow> soc_IsFollowing a b (soc_Follow u v now r) = (a = u \<and> b = v \<or> soc_IsFollowing a b r)"
  by (auto simp: soc_IsFollowing_def soc_Follow_def update_conv' followKey_eq split: option.splits)

lemma IsFollowing_Unfollow:
  "plain_id a \<Longrightarrow> plain_id u \<Longrightarrow> soc_IsFollowing a b (soc_Unfollow u v r) = (\<not> (a = u \<and> b = v) \<and> soc_IsFollowing a b r)"
  by (auto simp: soc_IsFollowing_def soc_Unfollow_def delete_conv' followKey_eq)

lemma IsFollowing_Unfollow_le: "soc_IsFollowing a b (soc_Unfollow u v r) \<Longrightarrow> soc_IsFollowing a b r"
  by (auto simp: soc_IsFollowing_def soc_Unfollow_def delete_conv' split: if_splits)

lemma IsBlocked_Block:
  "plain_id a \<Longrightarrow> plain_id u \<Longrightarrow> saf_IsBlocked a b (saf_Block u v now r) = (a = u \<and> b = v \<or> saf_IsBlocked a b r)"
  by (auto simp: saf_IsBlocked_def saf_Block_def update_conv' blockKey_eq split: option.splits)

lemma IsBlocked_Unblock_le: "saf_IsBlocked a b (saf_Unblock u v r) \<Longrightarrow> saf_IsBlocked a b r"
  by (auto simp: saf_IsBlocked_def saf_Unblock_def delete_conv' split: if_splits)

lemma IsBlocked_deleted_le: "distinct (map fst r) \<Longrightarrow> saf_IsBlocked a b (saf_OnAccountDeleted u r) \<Longrightarrow> saf_IsBlocked a b r"
  by (auto simp: saf_IsBlocked_def saf_OnAccountDeleted_def map_of_filter_distinct split: option.splits if_splits)

lemma drop_fold_follows: "sr_follows (foldl (\<lambda>r kc. drop_conversation kc r) r kcs) = sr_follows r"
  by (induction kcs arbitrary: r) (auto simp: drop_conversation_def)

lemma follows_deleted:
  "sr_follows (soc_OnAccountDeleted u r)
     = filter (\<lambda>kf. \<not> (fo_FollowerUserID (snd kf) = u \<or> fo_FollowingUserID (snd kf) = u)) (sr_follows r)"
  by (simp add: soc_OnAccountDeleted_def Let_def drop_fold_follows)

lemma IsFollowing_deleted_le:
  "distinct (map fst (sr_follows r)) \<Longrightarrow> soc_IsFollowing a b (soc_OnAccountDeleted u r) \<Longrightarrow> soc_IsFollowing a b r"
  by (auto simp: soc_IsFollowing_def follows_deleted map_of_filter_distinct split: option.splits if_splits)

lemma distinct_filter_keys: "distinct (map fst xs) \<Longrightarrow> distinct (map fst (filter P xs))"
  by (induction xs) auto

lemma keys_distinct_calls:
  assumes "keys_distinct blocks social"
  shows "keys_distinct blocks (soc_Follow u v now social)" "keys_distinct blocks (soc_Unfollow u v social)"
    "keys_distinct (saf_Block u v now blocks) social" "keys_distinct (saf_Unblock u v blocks) social"
    "keys_distinct blocks (soc_OnAccountDeleted u social)" "keys_distinct (saf_OnAccountDeleted u blocks) social"
  using assms
  by (auto simp: keys_distinct_def soc_Follow_def soc_Unfollow_def saf_Block_def saf_Unblock_def follows_deleted
      saf_OnAccountDeleted_def distinct_update distinct_delete distinct_filter_keys split: option.splits)

lemma blocked_either: "saf_IsBlockedEitherDirection a b r = (saf_IsBlocked a b r \<or> saf_IsBlocked b a r)"
  by (simp add: saf_IsBlockedEitherDirection_def saf_IsBlocked_def)

lemma interact_not_blocked: "CanUsersInteract s a b r = Inr True \<Longrightarrow> \<not> saf_IsBlockedEitherDirection a b r"
  by (auto simp: CanUsersInteract_def split: if_splits)

section \<open>The invariant\<close>

text \<open>The pair whose lock a thread holds.\<close>

fun holds :: "pc \<Rightarrow> (string \<times> string) option" where
  "holds (FollowLocked u v) = Some (u, v)"
| "holds (FollowChecked u v) = Some (u, v)"
| "holds (BlockLocked u v) = Some (u, v)"
| "holds (BlockWritten u v) = Some (u, v)"
| "holds (BlockHalf u v) = Some (u, v)"
| "holds (Leaving u v) = Some (u, v)"
| "holds _ = None"

fun pair_of :: "pc \<Rightarrow> (string \<times> string) option" where
  "pair_of Idle = None"
| "pair_of (FollowWaits u v) = Some (u, v)"
| "pair_of (BlockWaits u v) = Some (u, v)"
| "pair_of p = holds p"

definition clearing :: "pc \<Rightarrow> string \<Rightarrow> string \<Rightarrow> bool" where
  "clearing p a b = (p \<in> {BlockWritten a b, BlockWritten b a, BlockHalf a b, BlockHalf b a})"

text \<open>
  The invariant over what matters of a state: who blocks whom, who follows whom, the locks, and where the threads stand.
\<close>

definition locks_agree :: "LockTable \<Rightarrow> (nat \<Rightarrow> pc) \<Rightarrow> bool" where
  "locks_agree L P = (\<forall>t k. (L k = Some (Some t)) = (\<exists>u v. holds (P t) = Some (u, v) \<and> pl_key u v = k))"

definition pcs_plain :: "(nat \<Rightarrow> pc) \<Rightarrow> bool" where
  "pcs_plain P = (\<forall>t u v. pair_of (P t) = Some (u, v) \<longrightarrow> plain_id u \<and> plain_id v \<and> u \<noteq> v)"

definition checked_unblocked :: "(string \<Rightarrow> string \<Rightarrow> bool) \<Rightarrow> (nat \<Rightarrow> pc) \<Rightarrow> bool" where
  "checked_unblocked B P = (\<forall>t u v. P t = FollowChecked u v \<longrightarrow> \<not> B u v \<and> \<not> B v u)"

definition half_cleared :: "(string \<Rightarrow> string \<Rightarrow> bool) \<Rightarrow> (nat \<Rightarrow> pc) \<Rightarrow> bool" where
  "half_cleared F P = (\<forall>t u v. P t = BlockHalf u v \<longrightarrow> \<not> F u v)"

definition cleared :: "(string \<Rightarrow> string \<Rightarrow> bool) \<Rightarrow> (string \<Rightarrow> string \<Rightarrow> bool) \<Rightarrow> (nat \<Rightarrow> pc) \<Rightarrow> bool" where
  "cleared B F P =
     (\<forall>a b. plain_id a \<and> plain_id b \<and> (B a b \<or> B b a) \<and> F a b \<longrightarrow> (\<exists>t. clearing (P t) a b))"

definition pair_inv ::
  "(string \<Rightarrow> string \<Rightarrow> bool) \<Rightarrow> (string \<Rightarrow> string \<Rightarrow> bool) \<Rightarrow> LockTable \<Rightarrow> (nat \<Rightarrow> pc) \<Rightarrow> bool" where
  "pair_inv B F L P = (locks_agree L P \<and> pcs_plain P \<and> checked_unblocked B P \<and> half_cleared F P \<and> cleared B F P)"

lemma pair_invD:
  assumes "pair_inv B F L P"
  shows "locks_agree L P" "pcs_plain P" "checked_unblocked B P" "half_cleared F P" "cleared B F P"
  using assms by (simp_all add: pair_inv_def)

lemma locks_agree_holder: "locks_agree L P \<Longrightarrow> holds (P t) = Some (u, v) \<Longrightarrow> L (pl_key u v) = Some (Some t)"
  by (auto simp: locks_agree_def)

lemma locks_agree_held: "locks_agree L P \<Longrightarrow> L k = Some (Some t) \<Longrightarrow> \<exists>u v. holds (P t) = Some (u, v) \<and> pl_key u v = k"
  by (simp add: locks_agree_def)

text \<open>Two threads never hold the lock of one pair.\<close>

lemma one_holder:
  assumes "locks_agree L P" "holds (P t) = Some (u, v)" "holds (P t') = Some (a, b)" "a = u \<and> b = v \<or> a = v \<and> b = u"
  shows "t' = t"
proof -
  have "pl_key a b = pl_key u v" using assms(4) pl_key_sym by blast
  then show ?thesis
    using locks_agree_holder [OF assms(1,2)] locks_agree_holder [OF assms(1,3)] by simp
qed

lemma locks_agree_move: "locks_agree L P \<Longrightarrow> holds p = holds (P t) \<Longrightarrow> locks_agree L (P(t := p))"
  by (simp add: locks_agree_def)

lemma pcs_plain_move: "pcs_plain P \<Longrightarrow> pair_of p \<in> {None, pair_of (P t)} \<Longrightarrow> pcs_plain (P(t := p))"
  unfolding pcs_plain_def by (metis fun_upd_other fun_upd_same insertE option.distinct(1) singletonD)

lemma clearing_kept:
  "cleared B F P \<Longrightarrow> (\<And>a b. clearing (P t) a b \<Longrightarrow> clearing p a b) \<Longrightarrow> cleared B F (P(t := p))"
  unfolding cleared_def by (metis fun_upd_other fun_upd_same)

text \<open>Fewer blocks and fewer follows.\<close>

lemma pair_inv_fewer:
  assumes "pair_inv B F L P" "\<And>a b. B' a b \<Longrightarrow> B a b" "\<And>a b. F' a b \<Longrightarrow> F a b"
  shows "pair_inv B' F' L P"
proof -
  note inv = pair_invD [OF assms(1)]
  have "checked_unblocked B' P" using inv(3) assms(2) unfolding checked_unblocked_def by blast
  moreover have "half_cleared F' P" using inv(4) assms(3) unfolding half_cleared_def by blast
  moreover have "cleared B' F' P" using inv(5) assms(2,3) unfolding cleared_def by blast
  ultimately show ?thesis using inv(1,2) by (simp add: pair_inv_def)
qed

text \<open>A thread that moves within its critical section, or waits, without touching the stores.\<close>

lemma pair_inv_move:
  assumes "pair_inv B F L P" "locks_agree L' (P(t := p))" "pcs_plain (P(t := p))"
    "\<And>a b. clearing (P t) a b \<Longrightarrow> clearing p a b"
    "\<And>u v. p = FollowChecked u v \<Longrightarrow> \<not> B u v \<and> \<not> B v u" "\<And>u v. p = BlockHalf u v \<Longrightarrow> \<not> F u v"
  shows "pair_inv B F L' (P(t := p))"
proof -
  note inv = pair_invD [OF assms(1)]
  have "checked_unblocked B (P(t := p))" using inv(3) assms(5) by (auto simp: checked_unblocked_def)
  moreover have "half_cleared F (P(t := p))" using inv(4) assms(6) by (auto simp: half_cleared_def)
  moreover have "cleared B F (P(t := p))" by (rule clearing_kept [OF inv(5) assms(4)])
  ultimately show ?thesis using assms(2,3) by (simp add: pair_inv_def)
qed

lemma pair_inv_wait:
  assumes "pair_inv B F L P" "P t = Idle" "p = FollowWaits u v \<or> p = BlockWaits u v" "plain_id u" "plain_id v" "u \<noteq> v"
  shows "pair_inv B F L (P(t := p))"
proof (rule pair_inv_move [OF assms(1)])
  note inv = pair_invD [OF assms(1)]
  show "locks_agree L (P(t := p))" by (rule locks_agree_move [OF inv(1)]) (use assms(2,3) in auto)
  show "pcs_plain (P(t := p))" using inv(2) assms(3-6) by (auto simp: pcs_plain_def)
qed (use assms(2,3) in \<open>auto simp: clearing_def\<close>)

lemma pair_inv_lock:
  assumes "pair_inv B F L P" "P t = FollowWaits u v \<and> p = FollowLocked u v \<or> P t = BlockWaits u v \<and> p = BlockLocked u v"
    "pl_Lock u v t L = Some L'"
  shows "pair_inv B F L' (P(t := p))"
proof (rule pair_inv_move [OF assms(1)])
  note inv = pair_invD [OF assms(1)]
  have L': "L' = L(pl_key u v \<mapsto> Some t)" and free: "L (pl_key u v) \<noteq> Some (Some t')" for t'
    using assms(3) by (auto simp: pl_Lock_def split: option.splits)
  have p: "holds p = Some (u, v)" "holds (P t) = None" using assms(2) by auto
  show "locks_agree L' (P(t := p))"
    unfolding locks_agree_def
  proof (intro allI)
    fix t' k
    show "(L' k = Some (Some t')) = (\<exists>a b. holds ((P(t := p)) t') = Some (a, b) \<and> pl_key a b = k)"
      using p free [of t'] inv(1) [unfolded locks_agree_def, rule_format, of k t'] by (auto simp: L')
  qed
  show "pcs_plain (P(t := p))" by (rule pcs_plain_move [OF inv(2)]) (use assms(2) in auto)
qed (use assms(2) in \<open>auto simp: clearing_def\<close>)

lemma pair_inv_unlock:
  assumes "pair_inv B F L P" "P t = Leaving u v"
  shows "pair_inv B F (pl_unlock u v L) (P(t := Idle))"
proof (rule pair_inv_move [OF assms(1)])
  note inv = pair_invD [OF assms(1)]
  have held: "L (pl_key u v) = Some (Some t)" by (rule locks_agree_holder [OF inv(1)]) (simp add: assms(2))
  show "locks_agree (pl_unlock u v L) (P(t := Idle))"
    unfolding locks_agree_def
  proof (intro allI)
    fix t' k
    show "(pl_unlock u v L k = Some (Some t')) = (\<exists>a b. holds ((P(t := Idle)) t') = Some (a, b) \<and> pl_key a b = k)"
      using held assms(2) inv(1) [unfolded locks_agree_def, rule_format, of k t'] by (auto simp: pl_unlock_def)
  qed
  show "pcs_plain (P(t := Idle))" by (rule pcs_plain_move [OF inv(2)]) simp
qed (use assms(2) in \<open>auto simp: clearing_def\<close>)

text \<open>The write of a follow: the pair is not blocked, and nobody else is clearing it.\<close>

lemma pair_inv_follow:
  assumes "pair_inv B F L P" "P t = FollowChecked u v"
    "\<And>a b. plain_id a \<Longrightarrow> plain_id b \<Longrightarrow> F' a b = (a = u \<and> b = v \<or> F a b)"
  shows "pair_inv B F' L (P(t := Leaving u v))"
proof -
  note inv = pair_invD [OF assms(1)]
  have uv: "\<not> B u v" "\<not> B v u" using inv(3) assms(2) by (auto simp: checked_unblocked_def)
  have plain: "pair_of (P t') = Some (a, b) \<Longrightarrow> plain_id a \<and> plain_id b" for t' a b
    using inv(2) by (simp add: pcs_plain_def)
  have "half_cleared F' (P(t := Leaving u v))"
    unfolding half_cleared_def
  proof (intro allI impI)
    fix t' a b assume half: "(P(t := Leaving u v)) t' = BlockHalf a b"
    then have t': "t' \<noteq> t" "P t' = BlockHalf a b" by (auto split: if_splits)
    then have "\<not> (a = u \<and> b = v)" using one_holder [OF inv(1), of t u v t' a b] assms(2) by auto
    moreover have "\<not> F a b" using inv(4) t'(2) by (simp add: half_cleared_def)
    ultimately show "\<not> F' a b" using plain [of t' a b] t'(2) assms(3) by simp
  qed
  moreover have "cleared B F' (P(t := Leaving u v))"
    unfolding cleared_def
  proof (intro allI impI)
    fix a b assume ab: "plain_id a \<and> plain_id b \<and> (B a b \<or> B b a) \<and> F' a b"
    then have "F a b" using assms(3) uv by auto
    with ab inv(5) obtain t' where t': "clearing (P t') a b" unfolding cleared_def by blast
    with assms(2) have "t' \<noteq> t" by (auto simp: clearing_def)
    with t' show "\<exists>t'. clearing ((P(t := Leaving u v)) t') a b" by auto
  qed
  moreover have "checked_unblocked B (P(t := Leaving u v))" using inv(3) by (simp add: checked_unblocked_def)
  moreover have "locks_agree L (P(t := Leaving u v))" by (rule locks_agree_move [OF inv(1)]) (simp add: assms(2))
  moreover have "pcs_plain (P(t := Leaving u v))" by (rule pcs_plain_move [OF inv(2)]) (simp add: assms(2))
  ultimately show ?thesis by (simp add: pair_inv_def)
qed

text \<open>The write of a block: no thread has passed the check for the pair, and this one is clearing it from now on.\<close>

lemma pair_inv_block:
  assumes "pair_inv B F L P" "P t = BlockLocked u v"
    "\<And>a b. plain_id a \<Longrightarrow> plain_id b \<Longrightarrow> B' a b = (a = u \<and> b = v \<or> B a b)"
  shows "pair_inv B' F L (P(t := BlockWritten u v))"
proof -
  note inv = pair_invD [OF assms(1)]
  have plain: "pair_of (P t') = Some (a, b) \<Longrightarrow> plain_id a \<and> plain_id b" for t' a b
    using inv(2) by (simp add: pcs_plain_def)
  have "checked_unblocked B' (P(t := BlockWritten u v))"
    unfolding checked_unblocked_def
  proof (intro allI impI)
    fix t' a b assume "(P(t := BlockWritten u v)) t' = FollowChecked a b"
    then have t': "t' \<noteq> t" "P t' = FollowChecked a b" by (auto split: if_splits)
    then have "\<not> (a = u \<and> b = v)" "\<not> (a = v \<and> b = u)"
      using one_holder [OF inv(1), of t u v t' a b] assms(2) by auto
    moreover have "\<not> B a b" "\<not> B b a" using inv(3) t'(2) by (auto simp: checked_unblocked_def)
    ultimately show "\<not> B' a b \<and> \<not> B' b a" using plain [of t' a b] t'(2) assms(3) by auto
  qed
  moreover have "cleared B' F (P(t := BlockWritten u v))"
    unfolding cleared_def
  proof (intro allI impI)
    fix a b assume ab: "plain_id a \<and> plain_id b \<and> (B' a b \<or> B' b a) \<and> F a b"
    show "\<exists>t'. clearing ((P(t := BlockWritten u v)) t') a b"
    proof (cases "a = u \<and> b = v \<or> a = v \<and> b = u")
      case True
      then show ?thesis by (intro exI [of _ t]) (auto simp: clearing_def)
    next
      case False
      with ab assms(3) have "B a b \<or> B b a" by auto
      with ab inv(5) obtain t' where t': "clearing (P t') a b" unfolding cleared_def by blast
      with assms(2) have "t' \<noteq> t" by (auto simp: clearing_def)
      with t' show ?thesis by auto
    qed
  qed
  moreover have "half_cleared F (P(t := BlockWritten u v))" using inv(4) by (simp add: half_cleared_def)
  moreover have "locks_agree L (P(t := BlockWritten u v))" by (rule locks_agree_move [OF inv(1)]) (simp add: assms(2))
  moreover have "pcs_plain (P(t := BlockWritten u v))" by (rule pcs_plain_move [OF inv(2)]) (simp add: assms(2))
  ultimately show ?thesis by (simp add: pair_inv_def)
qed

text \<open>The two removals.\<close>

lemma pair_inv_unfollow_half:
  assumes "pair_inv B F L P" "P t = BlockWritten u v" "\<And>a b. F' a b \<Longrightarrow> F a b" "\<not> F' u v"
  shows "pair_inv B F' L (P(t := BlockHalf u v))"
proof (rule pair_inv_move [OF pair_inv_fewer [OF assms(1)]])
  note inv = pair_invD [OF assms(1)]
  show "locks_agree L (P(t := BlockHalf u v))" by (rule locks_agree_move [OF inv(1)]) (simp add: assms(2))
  show "pcs_plain (P(t := BlockHalf u v))" by (rule pcs_plain_move [OF inv(2)]) (simp add: assms(2))
qed (use assms in \<open>auto simp: clearing_def\<close>)

lemma pair_inv_unfollow_done:
  assumes "pair_inv B F L P" "P t = BlockHalf u v" "\<And>a b. F' a b \<Longrightarrow> F a b" "\<not> F' v u"
  shows "pair_inv B F' L (P(t := Leaving u v))"
proof -
  note inv = pair_invD [OF assms(1)]
  have "pair_inv B F' L P" by (rule pair_inv_fewer [OF assms(1) _ assms(3)])
  note fewer = pair_invD [OF this]
  have uv: "\<not> F' u v" using inv(4) assms(2,3) unfolding half_cleared_def by blast
  have "cleared B F' (P(t := Leaving u v))"
    unfolding cleared_def
  proof (intro allI impI)
    fix a b assume ab: "plain_id a \<and> plain_id b \<and> (B a b \<or> B b a) \<and> F' a b"
    with fewer(5) obtain t' where t': "clearing (P t') a b" unfolding cleared_def by blast
    have "t' \<noteq> t" using t' ab assms(2,4) uv by (auto simp: clearing_def)
    with t' show "\<exists>t'. clearing ((P(t := Leaving u v)) t') a b" by auto
  qed
  moreover have "half_cleared F' (P(t := Leaving u v))" using fewer(4) by (simp add: half_cleared_def)
  moreover have "checked_unblocked B (P(t := Leaving u v))" using inv(3) by (simp add: checked_unblocked_def)
  moreover have "locks_agree L (P(t := Leaving u v))" by (rule locks_agree_move [OF inv(1)]) (simp add: assms(2))
  moreover have "pcs_plain (P(t := Leaving u v))" by (rule pcs_plain_move [OF inv(2)]) (simp add: assms(2))
  ultimately show ?thesis by (simp add: pair_inv_def)
qed

section \<open>Every step keeps it\<close>

definition server_inv :: "Server \<Rightarrow> bool" where
  "server_inv \<sigma> =
     (keys_distinct (sv_blocks \<sigma>) (sv_social \<sigma>) \<and>
      pair_inv (\<lambda>a b. saf_IsBlocked a b (sv_blocks \<sigma>)) (\<lambda>a b. soc_IsFollowing a b (sv_social \<sigma>)) (sv_locks \<sigma>) (sv_pc \<sigma>))"

lemma thread_step_inv:
  assumes "server_inv \<sigma>" "thread_step s now t \<sigma> = Some \<sigma>'"
  shows "server_inv \<sigma>'"
proof -
  let ?B = "\<lambda>a b. saf_IsBlocked a b (sv_blocks \<sigma>)" and ?F = "\<lambda>a b. soc_IsFollowing a b (sv_social \<sigma>)"
  have keys: "keys_distinct (sv_blocks \<sigma>) (sv_social \<sigma>)"
    and inv: "pair_inv ?B ?F (sv_locks \<sigma>) (sv_pc \<sigma>)"
    using assms(1) by (simp_all add: server_inv_def)
  have plain: "plain_id u \<and> plain_id v" if "pair_of (sv_pc \<sigma> t) = Some (u, v)" for u v
    using pair_invD(2) [OF inv] that by (simp add: pcs_plain_def)
  show ?thesis
  proof (cases "sv_pc \<sigma> t")
    case (FollowWaits u v)
    with assms(2) obtain locks where "pl_Lock u v t (sv_locks \<sigma>) = Some locks"
      "\<sigma>' = goto t (FollowLocked u v) (\<sigma>\<lparr>sv_locks := locks\<rparr>)"
      by (auto simp: thread_step_def split: option.splits)
    with pair_inv_lock [OF inv _ this(1)] keys FollowWaits show ?thesis by (simp add: server_inv_def goto_def)
  next
    case (BlockWaits u v)
    with assms(2) obtain locks where "pl_Lock u v t (sv_locks \<sigma>) = Some locks"
      "\<sigma>' = goto t (BlockLocked u v) (\<sigma>\<lparr>sv_locks := locks\<rparr>)"
      by (auto simp: thread_step_def split: option.splits)
    with pair_inv_lock [OF inv _ this(1)] keys BlockWaits show ?thesis by (simp add: server_inv_def goto_def)
  next
    case (FollowLocked u v)
    let ?p = "if CanUsersInteract s u v (sv_blocks \<sigma>) = Inr True then FollowChecked u v else Leaving u v"
    have "pair_inv ?B ?F (sv_locks \<sigma>) ((sv_pc \<sigma>)(t := ?p))"
    proof (rule pair_inv_move [OF inv])
      show "locks_agree (sv_locks \<sigma>) ((sv_pc \<sigma>)(t := ?p))"
        by (rule locks_agree_move [OF pair_invD(1) [OF inv]]) (simp add: FollowLocked)
      show "pcs_plain ((sv_pc \<sigma>)(t := ?p))"
        by (rule pcs_plain_move [OF pair_invD(2) [OF inv]]) (simp add: FollowLocked)
      show "\<not> saf_IsBlocked a b (sv_blocks \<sigma>) \<and> \<not> saf_IsBlocked b a (sv_blocks \<sigma>)" if "?p = FollowChecked a b" for a b
        using that interact_not_blocked [of s u v "sv_blocks \<sigma>"] by (auto simp: blocked_either split: if_splits)
    qed (auto simp: FollowLocked clearing_def split: if_splits)
    with assms(2) keys FollowLocked show ?thesis by (auto simp: thread_step_def server_inv_def goto_def)
  next
    case (FollowChecked u v)
    have "pair_inv ?B (\<lambda>a b. soc_IsFollowing a b (soc_Follow u v now (sv_social \<sigma>))) (sv_locks \<sigma>)
        ((sv_pc \<sigma>)(t := Leaving u v))"
      by (rule pair_inv_follow [OF inv FollowChecked]) (use plain [of u v] FollowChecked in \<open>simp add: IsFollowing_Follow\<close>)
    with assms(2) keys_distinct_calls(1) [OF keys] FollowChecked show ?thesis
      by (auto simp: thread_step_def server_inv_def goto_def)
  next
    case (BlockLocked u v)
    have "pair_inv (\<lambda>a b. saf_IsBlocked a b (saf_Block u v now (sv_blocks \<sigma>))) ?F (sv_locks \<sigma>)
        ((sv_pc \<sigma>)(t := BlockWritten u v))"
      by (rule pair_inv_block [OF inv BlockLocked]) (use plain [of u v] BlockLocked in \<open>simp add: IsBlocked_Block\<close>)
    with assms(2) keys_distinct_calls(3) [OF keys] BlockLocked show ?thesis
      by (auto simp: thread_step_def server_inv_def goto_def)
  next
    case (BlockWritten u v)
    have "pair_inv ?B (\<lambda>a b. soc_IsFollowing a b (soc_Unfollow u v (sv_social \<sigma>))) (sv_locks \<sigma>)
        ((sv_pc \<sigma>)(t := BlockHalf u v))"
      by (rule pair_inv_unfollow_half [OF inv BlockWritten])
        (use plain [of u v] BlockWritten IsFollowing_Unfollow_le in \<open>auto simp: IsFollowing_Unfollow\<close>)
    with assms(2) keys_distinct_calls(2) [OF keys] BlockWritten show ?thesis
      by (auto simp: thread_step_def server_inv_def goto_def)
  next
    case (BlockHalf u v)
    have "pair_inv ?B (\<lambda>a b. soc_IsFollowing a b (soc_Unfollow v u (sv_social \<sigma>))) (sv_locks \<sigma>)
        ((sv_pc \<sigma>)(t := Leaving u v))"
      by (rule pair_inv_unfollow_done [OF inv BlockHalf])
        (use plain [of u v] BlockHalf IsFollowing_Unfollow_le in \<open>auto simp: IsFollowing_Unfollow\<close>)
    with assms(2) keys_distinct_calls(2) [OF keys] BlockHalf show ?thesis
      by (auto simp: thread_step_def server_inv_def goto_def)
  next
    case (Leaving u v)
    from pair_inv_unlock [OF inv Leaving] assms(2) keys Leaving show ?thesis
      by (auto simp: thread_step_def server_inv_def goto_def)
  qed (use assms(2) in \<open>simp add: thread_step_def\<close>)
qed

lemma server_step_inv: "server_step s \<sigma> \<sigma>' \<Longrightarrow> server_inv \<sigma> \<Longrightarrow> server_inv \<sigma>'"
proof (induction rule: server_step.induct)
  case (run now t \<sigma> \<sigma>')
  then show ?case using thread_step_inv by blast
next
  case (start_follow \<sigma> t u v)
  then show ?case using pair_inv_wait [of _ _ _ "sv_pc \<sigma>" t] by (simp add: server_inv_def goto_def)
next
  case (start_block \<sigma> t u v)
  then show ?case using pair_inv_wait [of _ _ _ "sv_pc \<sigma>" t] by (simp add: server_inv_def goto_def)
next
  case (unfollow \<sigma> u v)
  then show ?case
    by (auto simp: server_inv_def keys_distinct_calls elim!: pair_inv_fewer dest: IsFollowing_Unfollow_le)
next
  case (unblock \<sigma> u v)
  then show ?case
    by (auto simp: server_inv_def keys_distinct_calls elim!: pair_inv_fewer dest: IsBlocked_Unblock_le)
next
  case (delete_social \<sigma> u)
  then have "distinct (map fst (sr_follows (sv_social \<sigma>)))" by (simp add: server_inv_def keys_distinct_def)
  with delete_social show ?case
    by (auto simp: server_inv_def keys_distinct_calls elim!: pair_inv_fewer dest: IsFollowing_deleted_le)
next
  case (delete_blocks \<sigma> u)
  then have "distinct (map fst (sv_blocks \<sigma>))" by (simp add: server_inv_def keys_distinct_def)
  with delete_blocks show ?case
    by (auto simp: server_inv_def keys_distinct_calls elim!: pair_inv_fewer dest: IsBlocked_deleted_le)
qed

lemma fresh_server_inv: "server_inv fresh_server"
  by (simp add: server_inv_def fresh_server_def keys_distinct_def NewSocialRepo_def pair_inv_def locks_agree_def pcs_plain_def
      checked_unblocked_def half_cleared_def cleared_def soc_IsFollowing_def saf_IsBlocked_def)

lemma server_run_inv: "server_run s \<sigma> \<sigma>' \<Longrightarrow> server_inv \<sigma> \<Longrightarrow> server_inv \<sigma>'"
  by (induction rule: server_run.induct) (auto dest: server_step_inv)

section \<open>A request that runs alone\<close>

text \<open>
  Without interleaving the steps of a thread are the sequential operation of the service: this is what ties the step
  relation to \<^term>\<open>saf_block_pair\<close> and to the guarded write of \<^term>\<open>Service_Follow\<close>.
\<close>

fun alone :: "SocialRepo SafetyService \<Rightarrow> time \<Rightarrow> nat \<Rightarrow> nat \<Rightarrow> Server \<Rightarrow> Server option" where
  "alone s now t 0 \<sigma> = Some \<sigma>"
| "alone s now t (Suc n) \<sigma> = (case thread_step s now t \<sigma> of None \<Rightarrow> None | Some \<sigma>' \<Rightarrow> alone s now t n \<sigma>')"

lemma block_alone:
  assumes "sv_pc \<sigma> t = BlockWaits u v" "sv_locks \<sigma> (pl_key u v) \<in> {None, Some None}"
    "sf_coordinator s = None" "sf_follows s = Some RemoveFollowBothDirections"
  shows "\<exists>\<sigma>'. alone s now t 5 \<sigma> = Some \<sigma>' \<and> sv_pc \<sigma>' t = Idle \<and> sv_locks \<sigma>' (pl_key u v) = Some None \<and>
    saf_block_pair s u v now (sv_blocks \<sigma>, sv_social \<sigma>) = ((sv_blocks \<sigma>', sv_social \<sigma>'), None)"
  using assms
  by (auto simp: eval_nat_numeral thread_step_def goto_def pl_Lock_def pl_unlock_def saf_block_pair_def
      RemoveFollowBothDirections_def Let_def)

lemma follow_alone:
  assumes "sv_pc \<sigma> t = FollowWaits u v" "sv_locks \<sigma> (pl_key u v) \<in> {None, Some None}"
    "CanUsersInteract s u v (sv_blocks \<sigma>) = Inr True"
  shows "\<exists>\<sigma>'. alone s now t 4 \<sigma> = Some \<sigma>' \<and> sv_pc \<sigma>' t = Idle \<and> sv_locks \<sigma>' (pl_key u v) = Some None \<and>
    sv_blocks \<sigma>' = sv_blocks \<sigma> \<and> sv_social \<sigma>' = soc_Follow u v now (sv_social \<sigma>)"
  using assms
  by (auto simp: eval_nat_numeral thread_step_def goto_def pl_Lock_def pl_unlock_def)

section \<open>Progress\<close>

text \<open>The steps a thread has left, and runs of thread steps counted.\<close>

fun pc_rank :: "pc \<Rightarrow> nat" where
  "pc_rank Idle = 0"
| "pc_rank (Leaving u v) = 1"
| "pc_rank (FollowChecked u v) = 2"
| "pc_rank (BlockHalf u v) = 2"
| "pc_rank (FollowLocked u v) = 3"
| "pc_rank (BlockWritten u v) = 3"
| "pc_rank (FollowWaits u v) = 4"
| "pc_rank (BlockLocked u v) = 4"
| "pc_rank (BlockWaits u v) = 5"

inductive thread_run :: "SocialRepo SafetyService \<Rightarrow> nat \<Rightarrow> Server \<Rightarrow> Server \<Rightarrow> bool" for s where
  none: "thread_run s 0 \<sigma> \<sigma>"
| more: "thread_run s n \<sigma> \<sigma>' \<Longrightarrow> thread_step s now t \<sigma>' = Some \<sigma>'' \<Longrightarrow> thread_run s (Suc n) \<sigma> \<sigma>''"

definition busy :: "Server \<Rightarrow> nat set" where
  "busy \<sigma> = {t. sv_pc \<sigma> t \<noteq> Idle}"

definition work_left :: "Server \<Rightarrow> nat" where
  "work_left \<sigma> = sum (\<lambda>t. pc_rank (sv_pc \<sigma> t)) (busy \<sigma>)"

lemma thread_step_pc:
  "thread_step s now t \<sigma> = Some \<sigma>' \<Longrightarrow>
     \<exists>p. sv_pc \<sigma>' = (sv_pc \<sigma>)(t := p) \<and> pc_rank p < pc_rank (sv_pc \<sigma> t) \<and> sv_pc \<sigma> t \<noteq> Idle"
  by (cases "sv_pc \<sigma> t") (auto simp: thread_step_def goto_def split: option.splits)

lemma busy_goto: "busy (goto t p \<sigma>) \<subseteq> insert t (busy \<sigma>)"
  by (auto simp: busy_def goto_def split: if_splits)

lemma thread_step_busy: "thread_step s now t \<sigma> = Some \<sigma>' \<Longrightarrow> busy \<sigma>' \<subseteq> busy \<sigma>"
  by (drule thread_step_pc) (auto simp: busy_def split: if_splits)

lemma server_step_finite: "server_step s \<sigma> \<sigma>' \<Longrightarrow> finite (busy \<sigma>) \<Longrightarrow> finite (busy \<sigma>')"
proof (induction rule: server_step.induct)
  case (run now t \<sigma> \<sigma>')
  from finite_subset [OF thread_step_busy [OF run(1)] run(2)] show ?case .
next
  case (start_follow \<sigma> t u v)
  then show ?case by (intro finite_subset [OF busy_goto]) simp
next
  case (start_block \<sigma> t u v)
  then show ?case by (intro finite_subset [OF busy_goto]) simp
qed (simp_all add: busy_def)

lemma server_run_finite: "server_run s \<sigma> \<sigma>' \<Longrightarrow> finite (busy \<sigma>) \<Longrightarrow> finite (busy \<sigma>')"
  by (induction rule: server_run.induct) (auto dest: server_step_finite)

lemma thread_step_work:
  assumes "finite (busy \<sigma>)" "thread_step s now t \<sigma> = Some \<sigma>'"
  shows "work_left \<sigma>' < work_left \<sigma>"
proof -
  from thread_step_pc [OF assms(2)] obtain p where p: "sv_pc \<sigma>' = (sv_pc \<sigma>)(t := p)"
    "pc_rank p < pc_rank (sv_pc \<sigma> t)" "t \<in> busy \<sigma>" by (auto simp: busy_def)
  have "work_left \<sigma>' = sum (\<lambda>t. pc_rank (sv_pc \<sigma>' t)) (busy \<sigma>)"
    unfolding work_left_def
    by (rule sum.mono_neutral_left [OF assms(1) thread_step_busy [OF assms(2)]]) (auto simp: busy_def)
  also have "\<dots> < sum (\<lambda>t. pc_rank (sv_pc \<sigma> t)) (busy \<sigma>)"
    by (rule sum_strict_mono_ex1 [OF assms(1)]) (use p in auto)
  finally show ?thesis by (simp add: work_left_def)
qed

lemma thread_run_work:
  "thread_run s n \<sigma> \<sigma>' \<Longrightarrow> finite (busy \<sigma>) \<Longrightarrow> n + work_left \<sigma>' \<le> work_left \<sigma> \<and> finite (busy \<sigma>') \<and> server_run s \<sigma> \<sigma>'"
proof (induction rule: thread_run.induct)
  case (none \<sigma>)
  then show ?case by (simp add: server_run.refl)
next
  case (more n \<sigma> \<sigma>' now t \<sigma>'')
  then have IH: "n + work_left \<sigma>' \<le> work_left \<sigma>" "finite (busy \<sigma>')" "server_run s \<sigma> \<sigma>'" by auto
  have "server_run s \<sigma> \<sigma>''" by (rule server_run.step [OF IH(3) server_step.run [OF more.hyps(2)]])
  moreover have "finite (busy \<sigma>'')" by (rule finite_subset [OF thread_step_busy [OF more.hyps(2)] IH(2)])
  ultimately show ?case using thread_step_work [OF IH(2) more.hyps(2)] IH(1) by simp
qed

lemma no_deadlock:
  assumes "server_inv \<sigma>" "sv_pc \<sigma> t \<noteq> Idle"
  shows "\<exists>t' \<sigma>'. thread_step s now t' \<sigma> = Some \<sigma>'"
proof -
  have agree: "locks_agree (sv_locks \<sigma>) (sv_pc \<sigma>)" using assms(1) by (simp add: server_inv_def pair_inv_def)
  have inside: "\<exists>\<sigma>'. thread_step s now t' \<sigma> = Some \<sigma>'" if "holds (sv_pc \<sigma> t') \<noteq> None" for t'
    using that by (cases "sv_pc \<sigma> t'") (auto simp: thread_step_def)
  have waiting: "\<exists>t' \<sigma>'. thread_step s now t' \<sigma> = Some \<sigma>'" if "sv_pc \<sigma> t \<in> {FollowWaits u v, BlockWaits u v}" for u v
  proof (cases "\<exists>h. sv_locks \<sigma> (pl_key u v) = Some (Some h)")
    case True
    then show ?thesis using locks_agree_held [OF agree] inside by fastforce
  next
    case False
    then have "pl_Lock u v t (sv_locks \<sigma>) \<noteq> None" by (auto simp: pl_Lock_def split: option.splits)
    with that have "\<exists>\<sigma>'. thread_step s now t \<sigma> = Some \<sigma>'" by (auto simp: thread_step_def)
    then show ?thesis by blast
  qed
  show ?thesis
    using assms(2) inside [of t] waiting by (cases "sv_pc \<sigma> t") auto
qed

section \<open>Schedules\<close>

text \<open>Concrete interleavings, for examples.\<close>

datatype event = StartFollow nat string string | StartBlock nat string string | Step nat | Unfollow string string

fun happen :: "SocialRepo SafetyService \<Rightarrow> time \<times> event \<Rightarrow> Server \<Rightarrow> Server option" where
  "happen s (now, StartFollow t u v) \<sigma> =
     (if sv_pc \<sigma> t = Idle \<and> plain_id u \<and> plain_id v \<and> u \<noteq> v then Some (goto t (FollowWaits u v) \<sigma>) else None)"
| "happen s (now, StartBlock t u v) \<sigma> =
     (if sv_pc \<sigma> t = Idle \<and> plain_id u \<and> plain_id v \<and> u \<noteq> v then Some (goto t (BlockWaits u v) \<sigma>) else None)"
| "happen s (now, Step t) \<sigma> = thread_step s now t \<sigma>"
| "happen s (now, Unfollow u v) \<sigma> = Some (\<sigma>\<lparr>sv_social := soc_Unfollow u v (sv_social \<sigma>)\<rparr>)"

fun schedule :: "SocialRepo SafetyService \<Rightarrow> (time \<times> event) list \<Rightarrow> Server \<Rightarrow> Server option" where
  "schedule s [] \<sigma> = Some \<sigma>"
| "schedule s (e # es) \<sigma> = (case happen s e \<sigma> of None \<Rightarrow> None | Some \<sigma>' \<Rightarrow> schedule s es \<sigma>')"

lemma happen_step: "happen s e \<sigma> = Some \<sigma>' \<Longrightarrow> server_step s \<sigma> \<sigma>'"
  by (induction s e \<sigma> rule: happen.induct) (auto intro: server_step.intros split: if_splits)

lemma server_run_front: "server_run s \<sigma>' \<sigma>'' \<Longrightarrow> server_step s \<sigma> \<sigma>' \<Longrightarrow> server_run s \<sigma> \<sigma>''"
  by (induction rule: server_run.induct) (auto intro: server_run.intros)

lemma schedule_run: "schedule s es \<sigma> = Some \<sigma>' \<Longrightarrow> server_run s \<sigma> \<sigma>'"
  by (induction es arbitrary: \<sigma>) (auto intro: server_run.refl server_run_front happen_step split: option.splits)

text \<open>A schedule leaves the threads it does not name alone; one of steps only is a run of thread steps.\<close>

fun event_thread :: "event \<Rightarrow> nat set" where
  "event_thread (StartFollow t u v) = {t}"
| "event_thread (StartBlock t u v) = {t}"
| "event_thread (Step t) = {t}"
| "event_thread (Unfollow u v) = {}"

lemma happen_others: "happen s e \<sigma> = Some \<sigma>' \<Longrightarrow> t \<notin> event_thread (snd e) \<Longrightarrow> sv_pc \<sigma>' t = sv_pc \<sigma> t"
  by (induction s e \<sigma> rule: happen.induct) (auto simp: goto_def split: if_splits dest: thread_step_pc)

lemma schedule_others:
  "schedule s es \<sigma> = Some \<sigma>' \<Longrightarrow> \<forall>e\<in>set es. t \<notin> event_thread (snd e) \<Longrightarrow> sv_pc \<sigma>' t = sv_pc \<sigma> t"
  by (induction es arbitrary: \<sigma>) (auto dest: happen_others split: option.splits)

lemma thread_run_front: "thread_run s n \<sigma>' \<sigma>'' \<Longrightarrow> thread_step s now t \<sigma> = Some \<sigma>' \<Longrightarrow> thread_run s (Suc n) \<sigma> \<sigma>''"
  by (induction rule: thread_run.induct) (auto intro: thread_run.intros)

lemma schedule_steps: "schedule s (map (\<lambda>t. (now, Step t)) ts) \<sigma> = Some \<sigma>' \<Longrightarrow> thread_run s (length ts) \<sigma> \<sigma>'"
  by (induction ts arbitrary: \<sigma>) (auto intro: thread_run.none thread_run_front split: option.splits)

section \<open>Properties\<close>

text \<open>
  C15. In every state that any interleaving of follows, blocks, unfollows, unblocks and account deletions reaches, if one
  of two users blocks the other and a follow between them still exists, then a block of this pair is being carried out,
  holds the pair's lock and has the follow still to remove; once no block is running no follow survives one.
\<close>

theorem block_beats_follow:
  assumes "server_run s fresh_server \<sigma>" "plain_id a" "plain_id b"
    "saf_IsBlockedEitherDirection a b (sv_blocks \<sigma>)" "soc_IsFollowing a b (sv_social \<sigma>)"
  shows "\<exists>t. clearing (sv_pc \<sigma> t) a b \<and> sv_locks \<sigma> (pl_key a b) = Some (Some t)"
proof -
  have inv: "server_inv \<sigma>" by (rule server_run_inv [OF assms(1) fresh_server_inv])
  with assms(2-5) obtain t where t: "clearing (sv_pc \<sigma> t) a b"
    unfolding server_inv_def pair_inv_def cleared_def blocked_either by blast
  have agree: "locks_agree (sv_locks \<sigma>) (sv_pc \<sigma>)" using inv by (simp add: server_inv_def pair_inv_def)
  from t have "holds (sv_pc \<sigma> t) \<in> {Some (a, b), Some (b, a)}" by (auto simp: clearing_def)
  then have "sv_locks \<sigma> (pl_key a b) = Some (Some t)"
    using locks_agree_holder [OF agree, of t] pl_key_sym [of a b] by auto
  with t show ?thesis by blast
qed

text \<open>Bob's block has been written while Ada's follow is still there; a second follow of hers waits for the lock.\<close>

definition demo_race :: "(time \<times> event) list" where
  "demo_race =
     [(1, StartFollow 0 ''ada'' ''bob''), (1, StartBlock 1 ''bob'' ''ada''), (2, Step 0), (2, Step 0), (3, Step 0), (4, Step 0),
      (5, Step 1), (6, Step 1), (7, StartFollow 0 ''ada'' ''bob'')]"

definition after_race :: Server where
  "after_race = (case schedule demo_safety demo_race fresh_server of None \<Rightarrow> fresh_server | Some \<sigma> \<Rightarrow> \<sigma>)"

lemma after_race_run: "server_run demo_safety fresh_server after_race"
proof -
  have "schedule demo_safety demo_race fresh_server \<noteq> None" by code_simp
  then show ?thesis by (auto simp: after_race_def schedule_run)
qed

theorem block_beats_follow_witness:
  "soc_IsFollowing ''ada'' ''bob'' (sv_social after_race) \<and>
   (\<exists>t. clearing (sv_pc after_race t) ''ada'' ''bob'' \<and> sv_locks after_race (pl_key ''ada'' ''bob'') = Some (Some t))"
proof -
  have ids: "plain_id ''ada''" "plain_id ''bob''" by code_simp+
  have rows: "saf_IsBlockedEitherDirection ''ada'' ''bob'' (sv_blocks after_race)"
    "soc_IsFollowing ''ada'' ''bob'' (sv_social after_race)"
    by code_simp+
  from block_beats_follow [OF after_race_run ids rows] rows show ?thesis by blast
qed

text \<open>
  C16. The locks never deadlock and every request ends: from any reachable state, the requests in progress take at most
  \<open>work_left\<close> steps in whatever order they are scheduled, and when none of them can take another step, all are done.
\<close>

theorem requests_finish:
  assumes "server_run s fresh_server \<sigma>" "thread_run s n \<sigma> \<sigma>'"
  shows "n \<le> work_left \<sigma> \<and> ((\<forall>t now. thread_step s now t \<sigma>' = None) \<longrightarrow> busy \<sigma>' = {})"
proof -
  have "finite (busy fresh_server)" by (simp add: busy_def fresh_server_def)
  then have fin: "finite (busy \<sigma>)" by (rule server_run_finite [OF assms(1)])
  from thread_run_work [OF assms(2) fin] have n: "n \<le> work_left \<sigma>" and run: "server_run s \<sigma> \<sigma>'" by auto
  have "server_inv \<sigma>'" by (rule server_run_inv [OF run server_run_inv [OF assms(1) fresh_server_inv]])
  have "busy \<sigma>' = {}" if stuck: "\<forall>t now. thread_step s now t \<sigma>' = None"
  proof (rule ccontr)
    assume "busy \<sigma>' \<noteq> {}"
    then obtain t where "sv_pc \<sigma>' t \<noteq> Idle" by (auto simp: busy_def)
    from no_deadlock [OF \<open>server_inv \<sigma>'\<close> this, of s 0] stuck show False by simp
  qed
  with n show ?thesis by blast
qed

text \<open>After the race the block removes twice and leaves, and the waiting follow locks, is refused and leaves.\<close>

definition demo_rest :: "nat list" where
  "demo_rest = [1, 1, 1, 0, 0, 0]"

definition after_rest :: Server where
  "after_rest = (case schedule demo_safety (map (\<lambda>t. (9, Step t)) demo_rest) after_race of None \<Rightarrow> fresh_server | Some \<sigma> \<Rightarrow> \<sigma>)"

theorem requests_finish_witness:
  "6 \<le> work_left after_race \<and> busy after_rest = {} \<and> \<not> soc_IsFollowing ''ada'' ''bob'' (sv_social after_rest)"
proof -
  have some: "schedule demo_safety (map (\<lambda>t. (9, Step t)) demo_rest) after_race \<noteq> None" by code_simp
  then have rest: "schedule demo_safety (map (\<lambda>t. (9, Step t)) demo_rest) after_race = Some after_rest"
    by (auto simp: after_rest_def)
  have race: "schedule demo_safety demo_race fresh_server = Some after_race"
  proof -
    have "schedule demo_safety demo_race fresh_server \<noteq> None" by code_simp
    then show ?thesis by (auto simp: after_race_def)
  qed
  have run: "thread_run demo_safety 6 after_race after_rest"
    using schedule_steps [OF rest] by (simp add: demo_rest_def eval_nat_numeral)
  have done01: "sv_pc after_rest 0 = Idle" "sv_pc after_rest 1 = Idle" by code_simp+
  have "sv_pc after_rest t = Idle" for t
  proof (cases "t \<in> {0, 1}")
    case False
    then have "sv_pc after_rest t = sv_pc after_race t" "sv_pc after_race t = sv_pc fresh_server t"
      by (auto intro!: schedule_others [OF rest] schedule_others [OF race] simp: demo_rest_def demo_race_def)
    then show ?thesis by (simp add: fresh_server_def)
  qed (use done01 in auto)
  then have "thread_step demo_safety now t after_rest = None" for now t by (simp add: thread_step_def)
  moreover have "\<not> soc_IsFollowing ''ada'' ''bob'' (sv_social after_rest)" by code_simp
  ultimately show ?thesis using requests_finish [OF after_race_run run] by simp
qed

end
