(* ===== verification/AuthModel.thy ===== *)
theory AuthModel
  imports ProfileModel
begin

text \<open>
  Accounts (package \<^verbatim>\<open>auth\<close>): model.go, errors.go and the in-memory repository of repository.go.

  The two indexes of the repository hold pointers to the same \<^verbatim>\<open>User\<close> objects, and every update goes through
  the id index while lookups by email go through the other. The objects are therefore kept in an explicit store:
  \<open>ar_users\<close> is the list of user objects ever stored, an address is a position of it, and \<open>ar_byID\<close> and
  \<open>ar_byEmail\<close> map keys to addresses. Every operation runs under the repository's mutex, so it is one step.

  The clock is an argument \<open>now\<close> of each operation that reads it. \<^verbatim>\<open>subtle.ConstantTimeCompare\<close> is equality
  of byte strings.
\<close>

section \<open>Accounts, identities, tokens, messages\<close>

datatype auth_err =
    ErrEmailRequired | ErrPasswordRequired | ErrPasswordTooShort | ErrDisplayNameRequired | ErrEmailExists
  | ErrInvalidCredentials | AErrUserNotFound | ErrIdentityNotFound | ErrProviderDisabled | ErrProviderNotConfigured
  | ErrInvalidProviderToken | ErrProviderEmailUnverified | ErrEmailVerificationRequired | ErrInvalidLifecycleToken
  | ErrReauthenticationRequired | ErrPasswordAlreadySet | ErrEmailOutboxNotFound | ErrAccountBanned
  | ErrAccountSuspended
  | AErrInvalidToken
  | AErrOther string

record User =
  us_ID :: string
  us_Email :: string
  us_DisplayName :: string
  us_AvatarKey :: string
  us_PasswordHash :: string
  us_HasPassword :: bool
  us_EmailVerifiedAt :: "time option"
  us_AuthVersion :: int
  us_Role :: string
  us_SuspendedUntil :: "time option"
  us_SuspensionReason :: string
  us_BannedAt :: "time option"
  us_BanReason :: string
  us_SignupIPHash :: string

definition RoleUser :: string where "RoleUser = ''user''"

definition RoleModerator :: string where "RoleModerator = ''moderator''"

definition RoleAdmin :: string where "RoleAdmin = ''admin''"

definition IsBanned :: "User \<Rightarrow> bool" where
  "IsBanned u = (us_BannedAt u \<noteq> None)"

definition IsSuspended :: "User \<Rightarrow> time \<Rightarrow> bool" where
  "IsSuspended u now = (case us_SuspendedUntil u of None \<Rightarrow> False | Some until \<Rightarrow> now < until)"

definition IsModerator :: "User \<Rightarrow> bool" where
  "IsModerator u = (us_Role u = RoleModerator \<or> us_Role u = RoleAdmin)"

definition IsAdmin :: "User \<Rightarrow> bool" where
  "IsAdmin u = (us_Role u = RoleAdmin)"

record PublicUser =
  pu_ID :: string
  pu_Email :: string
  pu_DisplayName :: string
  pu_EmailVerified :: bool
  pu_HasPassword :: bool
  pu_Role :: string
  pu_SuspendedUntil :: "time option"
  pu_SuspensionReason :: string

definition Public :: "User \<Rightarrow> PublicUser" where
  "Public u =
     \<lparr>pu_ID = us_ID u, pu_Email = us_Email u, pu_DisplayName = us_DisplayName u,
      pu_EmailVerified = (us_EmailVerifiedAt u \<noteq> None), pu_HasPassword = us_HasPassword u, pu_Role = us_Role u,
      pu_SuspendedUntil = us_SuspendedUntil u, pu_SuspensionReason = us_SuspensionReason u\<rparr>"

record RankableUser =
  ru_ID :: string
  ru_DisplayName :: string
  ru_AvatarKey :: string

datatype AuthProvider = ProviderGoogle | ProviderApple | OtherProvider string

definition provider_name :: "AuthProvider \<Rightarrow> string" where
  "provider_name p =
     (case p of ProviderGoogle \<Rightarrow> ''google'' | ProviderApple \<Rightarrow> ''apple'' | OtherProvider s \<Rightarrow> s)"

record AuthIdentity =
  ai_ID :: string
  ai_UserID :: string
  ai_Provider :: AuthProvider
  ai_ProviderSubject :: string
  ai_Email :: string
  ai_EmailVerified :: bool

record LifecycleToken =
  lt_ID :: string
  lt_UserID :: string
  lt_TokenHash :: string
  lt_ExpiresAt :: time
  lt_CreatedAt :: time

record memoryLifecycleToken = LifecycleToken +
  lt_ConsumedAt :: "time option"

definition EmailKindVerification :: string where
  "EmailKindVerification = ''email_verification''"

record EmailOutboxMessage =
  em_ID :: string
  em_UserID :: string
  em_Kind :: string
  em_Recipient :: string
  em_VerificationURL :: string
  em_CreatedAt :: time
  em_AvailableAt :: time
  em_ClaimedAt :: "time option"
  em_DeliveredAt :: "time option"
  em_Attempts :: int
  em_LastError :: string

section \<open>The repository\<close>

record UserRepo =
  ar_users :: "User list"
  ar_byID :: "(string \<times> nat) list"
  ar_byEmail :: "string \<rightharpoonup> nat"
  ar_identities :: "(string \<times> AuthIdentity) list"
  ar_emailTokens :: "memoryLifecycleToken list"
  ar_resetTokens :: "memoryLifecycleToken list"
  ar_reauthTokens :: "memoryLifecycleToken list"
  ar_emailOutbox :: "EmailOutboxMessage list"

definition NewUserRepo :: UserRepo where
  "NewUserRepo =
     \<lparr>ar_users = [], ar_byID = [], ar_byEmail = Map.empty, ar_identities = [], ar_emailTokens = [],
      ar_resetTokens = [], ar_reauthTokens = [], ar_emailOutbox = []\<rparr>"

definition normalizeEmail :: "string \<Rightarrow> string" where
  "normalizeEmail email = ToLower (TrimSpace email)"

definition identityKey :: "AuthProvider \<Rightarrow> string \<Rightarrow> string" where
  "identityKey provider subject = provider_name provider @ '':'' @ TrimSpace subject"

text \<open>\<open>stored := *user\<close> with the defaults of a new row, and the two assignments of its address.\<close>

definition stored_user :: "User \<Rightarrow> User" where
  "stored_user user =
     user\<lparr>us_AuthVersion := (if us_AuthVersion user = 0 then 1 else us_AuthVersion user),
          us_HasPassword := (us_PasswordHash user \<noteq> [] \<or> us_HasPassword user),
          us_Role := (if us_Role user = [] then RoleUser else us_Role user)\<rparr>"

definition store_user :: "UserRepo \<Rightarrow> User \<Rightarrow> UserRepo" where
  "store_user r user =
     (let a = length (ar_users r)
      in r\<lparr>ar_users := ar_users r @ [stored_user user],
           ar_byID := AList.update (us_ID user) a (ar_byID r),
           ar_byEmail := (ar_byEmail r)(normalizeEmail (us_Email user) \<mapsto> a)\<rparr>)"

definition usr_Create :: "UserRepo \<Rightarrow> User \<Rightarrow> auth_err + UserRepo" where
  "usr_Create r user =
     (if ar_byEmail r (normalizeEmail (us_Email user)) \<noteq> None then Inl ErrEmailExists
      else Inr (store_user r user))"

text \<open>
  The initialisation hooks run after the rows are stored, in order, up to the first failure. A hook acts on other
  components; here it is the error it returns for a user.
\<close>

fun run_hooks :: "(string \<Rightarrow> auth_err + unit) list \<Rightarrow> string \<Rightarrow> auth_err + unit" where
  "run_hooks [] userID = Inr ()"
| "run_hooks (h # hs) userID = rbind (h userID) (\<lambda>_. run_hooks hs userID)"

definition mem_token :: "LifecycleToken \<Rightarrow> memoryLifecycleToken" where
  "mem_token t =
     \<lparr>lt_ID = lt_ID t, lt_UserID = lt_UserID t, lt_TokenHash = lt_TokenHash t, lt_ExpiresAt = lt_ExpiresAt t,
      lt_CreatedAt = lt_CreatedAt t, lt_ConsumedAt = None\<rparr>"

definition usr_CreateWithVerification ::
    "UserRepo \<Rightarrow> User \<Rightarrow> LifecycleToken \<Rightarrow> EmailOutboxMessage \<Rightarrow> (string \<Rightarrow> auth_err + unit) list
       \<Rightarrow> UserRepo \<times> (auth_err + unit)" where
  "usr_CreateWithVerification r user token email hooks =
     (if ar_byEmail r (normalizeEmail (us_Email user)) \<noteq> None then (r, Inl ErrEmailExists)
      else let r = store_user r user;
               r = r\<lparr>ar_emailTokens := ar_emailTokens r @ [mem_token token],
                     ar_emailOutbox := ar_emailOutbox r @ [email]\<rparr>
           in (r, run_hooks hooks (us_ID user)))"

definition usr_CreateProviderUser ::
    "UserRepo \<Rightarrow> User \<Rightarrow> AuthIdentity \<Rightarrow> (string \<Rightarrow> auth_err + unit) list
       \<Rightarrow> UserRepo \<times> (auth_err + unit)" where
  "usr_CreateProviderUser r user identity hooks =
     (if ar_byEmail r (normalizeEmail (us_Email user)) \<noteq> None then (r, Inl ErrEmailExists)
      else let idKey = identityKey (ai_Provider identity) (ai_ProviderSubject identity)
           in if map_of (ar_identities r) idKey \<noteq> None then (r, Inl ErrEmailExists)
              else let r = store_user r user;
                       r = r\<lparr>ar_identities := AList.update idKey identity (ar_identities r)\<rparr>
                   in (r, run_hooks hooks (us_ID user)))"

subsection \<open>The email outbox\<close>

definition second :: int where "second = 1000000000"

definition minute :: int where "minute = 60 * second"

definition hour :: int where "hour = 60 * minute"

definition emailOutboxLeaseTTL :: int where
  "emailOutboxLeaseTTL = 5 * minute"

definition leased :: "EmailOutboxMessage \<Rightarrow> time \<Rightarrow> bool" where
  "leased m now = (case em_ClaimedAt m of None \<Rightarrow> False | Some t \<Rightarrow> \<not> t + emailOutboxLeaseTTL < now)"

definition claim_message :: "EmailOutboxMessage \<Rightarrow> time \<Rightarrow> EmailOutboxMessage" where
  "claim_message m now = m\<lparr>em_ClaimedAt := Some now, em_Attempts := em_Attempts m + 1\<rparr>"

text \<open>The loop over the outbox: the messages after it, and the claimed ones; \<open>n\<close> more may be claimed.\<close>

fun claim_loop ::
    "EmailOutboxMessage list \<Rightarrow> nat \<Rightarrow> time \<Rightarrow> EmailOutboxMessage list \<times> EmailOutboxMessage list" where
  "claim_loop [] n now = ([], [])"
| "claim_loop (m # ms) n now =
     (if em_DeliveredAt m \<noteq> None \<or> now < em_AvailableAt m \<or> leased m now
      then (let (rest, out) = claim_loop ms n now in (m # rest, out))
      else let m = claim_message m now
           in if n \<le> 1 then (m # ms, [m])
              else let (rest, out) = claim_loop ms (n - 1) now in (m # rest, m # out))"

definition usr_ClaimEmailOutbox :: "UserRepo \<Rightarrow> int \<Rightarrow> time \<Rightarrow> UserRepo \<times> EmailOutboxMessage list" where
  "usr_ClaimEmailOutbox r limit now =
     (let limit = (if limit \<le> 0 then 10 else limit);
          (ms, out) = claim_loop (ar_emailOutbox r) (nat limit) now
      in (r\<lparr>ar_emailOutbox := ms\<rparr>, out))"

fun claim_by_id ::
    "EmailOutboxMessage list \<Rightarrow> string \<Rightarrow> time \<Rightarrow> EmailOutboxMessage list \<times> EmailOutboxMessage option" where
  "claim_by_id [] i now = ([], None)"
| "claim_by_id (m # ms) i now =
     (if em_ID m \<noteq> i \<or> em_DeliveredAt m \<noteq> None \<or> now < em_AvailableAt m
      then (let (rest, out) = claim_by_id ms i now in (m # rest, out))
      else if leased m now then (m # ms, None)
      else (claim_message m now # ms, Some (claim_message m now)))"

definition usr_ClaimEmailOutboxByID ::
    "UserRepo \<Rightarrow> string \<Rightarrow> time \<Rightarrow> UserRepo \<times> EmailOutboxMessage option" where
  "usr_ClaimEmailOutboxByID r i now =
     (let (ms, out) = claim_by_id (ar_emailOutbox r) i now in (r\<lparr>ar_emailOutbox := ms\<rparr>, out))"

text \<open>The first element that satisfies a test is replaced; \<open>None\<close> when there is none.\<close>

fun replace_first :: "('a \<Rightarrow> bool) \<Rightarrow> ('a \<Rightarrow> 'a) \<Rightarrow> 'a list \<Rightarrow> 'a list option" where
  "replace_first p f [] = None"
| "replace_first p f (x # xs) =
     (if p x then Some (f x # xs) else map_option ((#) x) (replace_first p f xs))"

definition usr_MarkEmailOutboxDelivered :: "UserRepo \<Rightarrow> string \<Rightarrow> time \<Rightarrow> auth_err + UserRepo" where
  "usr_MarkEmailOutboxDelivered r i deliveredAt =
     (case replace_first (\<lambda>m. em_ID m = i)
             (\<lambda>m. m\<lparr>em_DeliveredAt := Some deliveredAt, em_ClaimedAt := None, em_LastError := [],
                    em_VerificationURL := []\<rparr>)
             (ar_emailOutbox r) of
        None \<Rightarrow> Inl ErrEmailOutboxNotFound
      | Some ms \<Rightarrow> Inr (r\<lparr>ar_emailOutbox := ms\<rparr>))"

definition usr_MarkEmailOutboxFailed :: "UserRepo \<Rightarrow> string \<Rightarrow> string \<Rightarrow> time \<Rightarrow> auth_err + UserRepo" where
  "usr_MarkEmailOutboxFailed r i failure retryAt =
     (case replace_first (\<lambda>m. em_ID m = i)
             (\<lambda>m. m\<lparr>em_ClaimedAt := None, em_AvailableAt := retryAt, em_LastError := failure\<rparr>)
             (ar_emailOutbox r) of
        None \<Rightarrow> Inl ErrEmailOutboxNotFound
      | Some ms \<Rightarrow> Inr (r\<lparr>ar_emailOutbox := ms\<rparr>))"

subsection \<open>Accounts\<close>

definition usr_FindByEmail :: "UserRepo \<Rightarrow> string \<Rightarrow> auth_err + User" where
  "usr_FindByEmail r email =
     (case ar_byEmail r (normalizeEmail email) of
        None \<Rightarrow> Inl AErrUserNotFound
      | Some a \<Rightarrow> Inr (ar_users r ! a))"

definition usr_FindByID :: "UserRepo \<Rightarrow> string \<Rightarrow> auth_err + User" where
  "usr_FindByID r userID =
     (case map_of (ar_byID r) userID of None \<Rightarrow> Inl AErrUserNotFound | Some a \<Rightarrow> Inr (ar_users r ! a))"

definition usr_ListUsers :: "UserRepo \<Rightarrow> User list" where
  "usr_ListUsers r = map (\<lambda>(_, a). ar_users r ! a) (ar_byID r)"

text \<open>
  \<^verbatim>\<open>u, ok := r.byID[userID]\<close> followed by assignments to the fields of \<^verbatim>\<open>*u\<close> and a copy of the result: the
  object at that address is replaced, and both indexes see it.
\<close>

definition usr_modify :: "UserRepo \<Rightarrow> string \<Rightarrow> (User \<Rightarrow> User) \<Rightarrow> auth_err + (UserRepo \<times> User)" where
  "usr_modify r userID f =
     (case map_of (ar_byID r) userID of
        None \<Rightarrow> Inl AErrUserNotFound
      | Some a \<Rightarrow> (let u = f (ar_users r ! a) in Inr (r\<lparr>ar_users := (ar_users r)[a := u]\<rparr>, u)))"

definition usr_UpdatePassword :: "UserRepo \<Rightarrow> string \<Rightarrow> string \<Rightarrow> auth_err + (UserRepo \<times> User)" where
  "usr_UpdatePassword r userID h = usr_modify r userID (\<lambda>u. u\<lparr>us_PasswordHash := h, us_HasPassword := True\<rparr>)"

definition usr_UpdatePasswordAndRevoke :: "UserRepo \<Rightarrow> string \<Rightarrow> string \<Rightarrow> auth_err + (UserRepo \<times> User)" where
  "usr_UpdatePasswordAndRevoke r userID h =
     usr_modify r userID
       (\<lambda>u. u\<lparr>us_PasswordHash := h, us_HasPassword := True, us_AuthVersion := us_AuthVersion u + 1\<rparr>)"

definition usr_IncrementAuthVersion :: "UserRepo \<Rightarrow> string \<Rightarrow> auth_err + (UserRepo \<times> User)" where
  "usr_IncrementAuthVersion r userID = usr_modify r userID (\<lambda>u. u\<lparr>us_AuthVersion := us_AuthVersion u + 1\<rparr>)"

definition usr_SetRole :: "UserRepo \<Rightarrow> string \<Rightarrow> string \<Rightarrow> auth_err + (UserRepo \<times> User)" where
  "usr_SetRole r userID role = usr_modify r userID (\<lambda>u. u\<lparr>us_Role := role\<rparr>)"

definition usr_Suspend :: "UserRepo \<Rightarrow> string \<Rightarrow> time option \<Rightarrow> string \<Rightarrow> auth_err + (UserRepo \<times> User)" where
  "usr_Suspend r userID until reason =
     usr_modify r userID
       (\<lambda>u. u\<lparr>us_SuspendedUntil := until, us_SuspensionReason := (if until = None then [] else reason)\<rparr>)"

definition usr_Ban :: "UserRepo \<Rightarrow> string \<Rightarrow> string \<Rightarrow> time \<Rightarrow> auth_err + (UserRepo \<times> User)" where
  "usr_Ban r userID reason now =
     usr_modify r userID (\<lambda>u. u\<lparr>us_BannedAt := Some now, us_BanReason := reason\<rparr>)"

subsection \<open>Lifecycle tokens\<close>

text \<open>\<^verbatim>\<open>t.ConsumedAt = &now\<close> on every unconsumed token of one user.\<close>

definition consume_token :: "time \<Rightarrow> memoryLifecycleToken \<Rightarrow> memoryLifecycleToken" where
  "consume_token now t = t\<lparr>lt_ConsumedAt := Some now\<rparr>"

definition consume_all :: "time \<Rightarrow> string \<Rightarrow> memoryLifecycleToken list \<Rightarrow> memoryLifecycleToken list" where
  "consume_all now userID ts =
     map (\<lambda>t. if lt_UserID t = userID \<and> lt_ConsumedAt t = None then consume_token now t else t) ts"

definition usr_SaveEmailVerificationToken :: "UserRepo \<Rightarrow> LifecycleToken \<Rightarrow> time \<Rightarrow> UserRepo" where
  "usr_SaveEmailVerificationToken r token now =
     r\<lparr>ar_emailTokens := consume_all now (lt_UserID token) (ar_emailTokens r) @ [mem_token token]\<rparr>"

definition usr_SavePasswordResetToken :: "UserRepo \<Rightarrow> LifecycleToken \<Rightarrow> time \<Rightarrow> UserRepo" where
  "usr_SavePasswordResetToken r token now =
     r\<lparr>ar_resetTokens := consume_all now (lt_UserID token) (ar_resetTokens r) @ [mem_token token]\<rparr>"

definition usr_SaveReauthenticationToken :: "UserRepo \<Rightarrow> LifecycleToken \<Rightarrow> UserRepo" where
  "usr_SaveReauthenticationToken r token = r\<lparr>ar_reauthTokens := ar_reauthTokens r @ [mem_token token]\<rparr>"

text \<open>
  The loop that looks for a token: the first one that matches decides. It fails when it is consumed or has expired,
  and is consumed otherwise.
\<close>

definition take_token ::
    "(memoryLifecycleToken \<Rightarrow> bool) \<Rightarrow> time \<Rightarrow> memoryLifecycleToken list
       \<Rightarrow> (memoryLifecycleToken list \<times> memoryLifecycleToken) option" where
  "take_token matches now ts =
     (case find matches ts of
        None \<Rightarrow> None
      | Some t \<Rightarrow>
          (if lt_ConsumedAt t \<noteq> None \<or> \<not> now < lt_ExpiresAt t then None
           else map_option (\<lambda>ts. (ts, t)) (replace_first matches (consume_token now) ts)))"

definition usr_VerifyEmailToken :: "UserRepo \<Rightarrow> string \<Rightarrow> time \<Rightarrow> UserRepo \<times> (auth_err + User)" where
  "usr_VerifyEmailToken r tokenHash now =
     (case take_token (\<lambda>t. lt_TokenHash t = tokenHash) now (ar_emailTokens r) of
        None \<Rightarrow> (r, Inl ErrInvalidLifecycleToken)
      | Some (ts, t) \<Rightarrow>
          (let r = r\<lparr>ar_emailTokens := ts\<rparr>
           in case usr_modify r (lt_UserID t) (\<lambda>u. u\<lparr>us_EmailVerifiedAt := Some now\<rparr>) of
                Inl _ \<Rightarrow> (r, Inl ErrInvalidLifecycleToken)
              | Inr (r, u) \<Rightarrow> (r, Inr u)))"

definition usr_ResetPasswordToken ::
    "UserRepo \<Rightarrow> string \<Rightarrow> string \<Rightarrow> time \<Rightarrow> UserRepo \<times> (auth_err + User)" where
  "usr_ResetPasswordToken r tokenHash passwordHash now =
     (case take_token (\<lambda>t. lt_TokenHash t = tokenHash) now (ar_resetTokens r) of
        None \<Rightarrow> (r, Inl ErrInvalidLifecycleToken)
      | Some (ts, t) \<Rightarrow>
          (let r = r\<lparr>ar_resetTokens := ts\<rparr>
           in case usr_FindByID r (lt_UserID t) of
                Inl _ \<Rightarrow> (r, Inl ErrInvalidLifecycleToken)
              | Inr u \<Rightarrow>
                  (if \<not> us_HasPassword u then (r, Inl ErrInvalidLifecycleToken)
                   else case usr_modify r (lt_UserID t)
                               (\<lambda>u. u\<lparr>us_PasswordHash := passwordHash, us_AuthVersion := us_AuthVersion u + 1\<rparr>) of
                          Inl _ \<Rightarrow> (r, Inl ErrInvalidLifecycleToken)
                        | Inr (r, u) \<Rightarrow> (r\<lparr>ar_resetTokens := consume_all now (us_ID u) (ar_resetTokens r)\<rparr>, Inr u))))"

definition usr_ConsumeReauthenticationToken ::
    "UserRepo \<Rightarrow> string \<Rightarrow> string \<Rightarrow> time \<Rightarrow> auth_err + UserRepo" where
  "usr_ConsumeReauthenticationToken r userID tokenHash now =
     (case take_token (\<lambda>t. \<not> (lt_UserID t \<noteq> userID \<or> lt_TokenHash t \<noteq> tokenHash)) now (ar_reauthTokens r) of
        None \<Rightarrow> Inl ErrReauthenticationRequired
      | Some (ts, _) \<Rightarrow> Inr (r\<lparr>ar_reauthTokens := ts\<rparr>))"

subsection \<open>Deletion and identities\<close>

definition usr_SoftDelete :: "UserRepo \<Rightarrow> string \<Rightarrow> auth_err + UserRepo" where
  "usr_SoftDelete r userID =
     (case map_of (ar_byID r) userID of
        None \<Rightarrow> Inl AErrUserNotFound
      | Some a \<Rightarrow>
          (let u = ar_users r ! a
           in Inr (r\<lparr>ar_users := (ar_users r)[a := u\<lparr>us_AuthVersion := us_AuthVersion u + 1\<rparr>],
                     ar_byID := AList.delete userID (ar_byID r),
                     ar_byEmail := (ar_byEmail r)(normalizeEmail (us_Email u) := None)\<rparr>)))"

definition filterMemoryTokens :: "memoryLifecycleToken list \<Rightarrow> string \<Rightarrow> memoryLifecycleToken list" where
  "filterMemoryTokens ts userID = filter (\<lambda>t. lt_UserID t \<noteq> userID) ts"

definition usr_DeleteAccount :: "UserRepo \<Rightarrow> string \<Rightarrow> auth_err + UserRepo" where
  "usr_DeleteAccount r userID =
     (case map_of (ar_byID r) userID of
        None \<Rightarrow> Inl AErrUserNotFound
      | Some a \<Rightarrow>
          Inr (r\<lparr>ar_byID := AList.delete userID (ar_byID r),
                 ar_byEmail := (ar_byEmail r)(normalizeEmail (us_Email (ar_users r ! a)) := None),
                 ar_identities := filter (\<lambda>(_, i). ai_UserID i \<noteq> userID) (ar_identities r),
                 ar_emailTokens := filterMemoryTokens (ar_emailTokens r) userID,
                 ar_resetTokens := filterMemoryTokens (ar_resetTokens r) userID,
                 ar_reauthTokens := filterMemoryTokens (ar_reauthTokens r) userID\<rparr>))"

definition usr_FindIdentity :: "UserRepo \<Rightarrow> AuthProvider \<Rightarrow> string \<Rightarrow> auth_err + AuthIdentity" where
  "usr_FindIdentity r provider subject =
     from_option ErrIdentityNotFound (map_of (ar_identities r) (identityKey provider subject))"

definition usr_CreateIdentity :: "UserRepo \<Rightarrow> AuthIdentity \<Rightarrow> auth_err + UserRepo" where
  "usr_CreateIdentity r identity =
     (let key = identityKey (ai_Provider identity) (ai_ProviderSubject identity)
      in if map_of (ar_identities r) key \<noteq> None then Inl ErrEmailExists
         else Inr (r\<lparr>ar_identities := AList.update key identity (ar_identities r)\<rparr>))"

end
