(* ===== verification/AuthService.thy ===== *)
theory AuthService
  imports AuthModel
begin

text \<open>
  The account service: service.go, email_outbox.go, jwt.go, provider_tokens.go (\<^verbatim>\<open>Verify\<close>) and the session check
  of middleware.go. What the code gets from elsewhere is a field of \<open>AuthEnv\<close>: bcrypt, SHA-256 and HMAC, the JWT
  library (sign a claim set, parse a token at a time), the mail transport, the provider verifiers and the account
  hooks of other components. A request's random values (identifiers, the raw token, the bcrypt salt) and the time
  at which it is served are its \<open>AuthDraw\<close>; the clock is read once per request.

  An operation returns the repository after it, the mails it handed to the transport, and its result.
\<close>

section \<open>Tokens\<close>

record Claims =
  cl_UserID :: string
  cl_Email :: string
  cl_AuthVersion :: int
  cl_Subject :: string
  cl_IssuedAt :: time
  cl_ExpiresAt :: time

record ProviderClaims =
  pc_Provider :: AuthProvider
  pc_Subject :: string
  pc_Email :: string
  pc_EmailVerified :: bool
  pc_DisplayName :: string
  pc_AvatarKey :: string

record RegisterInput =
  ri_Email :: string
  ri_Password :: string
  ri_DisplayName :: string
  ri_AvatarKey :: string
  ri_SignupIP :: string

datatype Mail = VerificationMail string string | ResetMail string string

record AuthEnv =
  ae_GenerateFromPassword :: "string \<Rightarrow> string \<Rightarrow> auth_err + string"
  ae_CompareHashAndPassword :: "string \<Rightarrow> string \<Rightarrow> bool"
  ae_Sum256 :: "string \<Rightarrow> string"
  ae_HMAC :: "string \<Rightarrow> string \<Rightarrow> string"
  ae_SignedString :: "Claims \<Rightarrow> auth_err + string"
  ae_ParseWithClaims :: "time \<Rightarrow> string \<Rightarrow> Claims option"
  ae_expiry :: int
  ae_Send :: "Mail \<Rightarrow> auth_err + unit"
  ae_googleEnabled :: bool
  ae_appleEnabled :: bool
  ae_googleVerifier :: "(time \<Rightarrow> string \<Rightarrow> auth_err + ProviderClaims) option"
  ae_appleVerifier :: "(time \<Rightarrow> string \<Rightarrow> auth_err + ProviderClaims) option"
  ae_deletionHooks :: "(string \<Rightarrow> auth_err + unit) list"
  ae_creationHooks :: "(string \<Rightarrow> auth_err + unit) list"
  ae_txCreationHooks :: "(string \<Rightarrow> auth_err + unit) list"
  ae_publicAppURL :: string
  ae_verificationTTL :: int
  ae_resetTTL :: int
  ae_reauthTTL :: int
  ae_signupIPPepper :: string

record AuthDraw =
  ad_now :: time
  ad_userID :: string
  ad_rowID :: string
  ad_tokenID :: string
  ad_raw :: "auth_err + string"
  ad_salt :: string

text \<open>
  \<^verbatim>\<open>NewService\<close>, \<^verbatim>\<open>ConfigureLifecycle\<close> and \<^verbatim>\<open>ConfigureProviderAuth\<close>: the defaults of the lifecycle, and the
  settings that override them. \<^verbatim>\<open>strings.TrimRight(url, "/")\<close> drops every trailing slash.
\<close>

definition NewService_lifecycle :: "AuthEnv \<Rightarrow> AuthEnv" where
  "NewService_lifecycle E =
     E\<lparr>ae_publicAppURL := ''http://localhost:5137'', ae_verificationTTL := 24 * hour, ae_resetTTL := hour,
       ae_reauthTTL := 5 * minute, ae_googleEnabled := False, ae_appleEnabled := False, ae_googleVerifier := None,
       ae_appleVerifier := None, ae_deletionHooks := [], ae_creationHooks := [], ae_txCreationHooks := [],
       ae_signupIPPepper := []\<rparr>"

definition TrimRight_slash :: "string \<Rightarrow> string" where
  "TrimRight_slash s = rev (dropWhile (\<lambda>c. c = CHR ''/'') (rev s))"

definition ConfigureLifecycle ::
    "AuthEnv \<Rightarrow> (Mail \<Rightarrow> auth_err + unit) option \<Rightarrow> string \<Rightarrow> int \<Rightarrow> int \<Rightarrow> int \<Rightarrow> AuthEnv" where
  "ConfigureLifecycle E sender url verificationTTL resetTTL reauthTTL =
     (let E = (case sender of None \<Rightarrow> E | Some f \<Rightarrow> E\<lparr>ae_Send := f\<rparr>);
          E = (if TrimSpace url \<noteq> [] then E\<lparr>ae_publicAppURL := TrimRight_slash url\<rparr> else E);
          E = (if verificationTTL > 0 then E\<lparr>ae_verificationTTL := verificationTTL\<rparr> else E);
          E = (if resetTTL > 0 then E\<lparr>ae_resetTTL := resetTTL\<rparr> else E)
      in if reauthTTL > 0 then E\<lparr>ae_reauthTTL := reauthTTL\<rparr> else E)"

definition ConfigureProviderAuth ::
    "AuthEnv \<Rightarrow> bool \<Rightarrow> bool \<Rightarrow> (time \<Rightarrow> string \<Rightarrow> auth_err + ProviderClaims) option
       \<Rightarrow> (time \<Rightarrow> string \<Rightarrow> auth_err + ProviderClaims) option \<Rightarrow> AuthEnv" where
  "ConfigureProviderAuth E google apple gv av =
     E\<lparr>ae_googleEnabled := google, ae_appleEnabled := apple, ae_googleVerifier := gv, ae_appleVerifier := av\<rparr>"

text \<open>\<^verbatim>\<open>jwt.NewNumericDate\<close> keeps whole seconds: the instant is cut to \<^verbatim>\<open>jwt.TimePrecision\<close>.\<close>

definition NewNumericDate :: "time \<Rightarrow> time" where
  "NewNumericDate t = t - t mod 1000000000"

definition Generate :: "AuthEnv \<Rightarrow> string \<Rightarrow> string \<Rightarrow> int \<Rightarrow> time \<Rightarrow> auth_err + string" where
  "Generate E userID email version now =
     ae_SignedString E
       \<lparr>cl_UserID = userID, cl_Email = email, cl_AuthVersion = version, cl_Subject = userID,
        cl_IssuedAt = NewNumericDate now, cl_ExpiresAt = NewNumericDate (now + ae_expiry E)\<rparr>"

definition Parse :: "AuthEnv \<Rightarrow> time \<Rightarrow> string \<Rightarrow> auth_err + Claims" where
  "Parse E now tokenString = from_option AErrInvalidToken (ae_ParseWithClaims E now tokenString)"

definition auth_issue :: "AuthEnv \<Rightarrow> time \<Rightarrow> User \<Rightarrow> auth_err + (User \<times> string)" where
  "auth_issue E now user =
     (if IsBanned user then Inl ErrAccountBanned
      else rbind (Generate E (us_ID user) (us_Email user) (us_AuthVersion user) now) (\<lambda>token. Inr (user, token)))"

definition newLifecycleToken ::
    "AuthEnv \<Rightarrow> AuthDraw \<Rightarrow> string \<Rightarrow> int \<Rightarrow> auth_err + (string \<times> LifecycleToken)" where
  "newLifecycleToken E d userID ttl =
     rbind (ad_raw d) (\<lambda>value.
       Inr (value,
            \<lparr>lt_ID = ad_tokenID d, lt_UserID = userID, lt_TokenHash = ae_Sum256 E value,
             lt_ExpiresAt = ad_now d + ttl, lt_CreatedAt = ad_now d\<rparr>))"

definition hashLifecycleToken :: "AuthEnv \<Rightarrow> string \<Rightarrow> string" where
  "hashLifecycleToken E raw = ae_Sum256 E (TrimSpace raw)"

definition hashSignupIP :: "AuthEnv \<Rightarrow> string \<Rightarrow> string" where
  "hashSignupIP E ip = (if ae_signupIPPepper E = [] \<or> ip = [] then [] else ae_HMAC E (ae_signupIPPepper E) ip)"

section \<open>Provider tokens\<close>

text \<open>
  The verifier of an OpenID Connect token: fetching the provider's keys and parsing the token with them (signature,
  audience, expiry) are the library's and are arguments; the claims are JSON values.
\<close>

datatype json_claim = ClaimString string | ClaimBool bool | ClaimOther

record OIDCVerifier =
  ov_Provider :: AuthProvider
  ov_ClientID :: string
  ov_Issuers :: "string list"
  ov_fetchKeys :: "time \<Rightarrow> auth_err + (string \<times> string) list"
  ov_ParseJWT :: "(string \<times> string) list \<Rightarrow> string \<Rightarrow> time \<Rightarrow> string \<Rightarrow> (string \<Rightarrow> json_claim option) option"

definition boolClaim :: "json_claim option \<Rightarrow> bool" where
  "boolClaim v =
     (case v of Some (ClaimBool b) \<Rightarrow> b | Some (ClaimString s) \<Rightarrow> ToLower s = ''true'' | _ \<Rightarrow> False)"

definition stringClaim :: "json_claim option \<Rightarrow> string" where
  "stringClaim v = (case v of Some (ClaimString s) \<Rightarrow> s | _ \<Rightarrow> [])"

definition NewGoogleVerifier where
  "NewGoogleVerifier clientID fetch prs =
     \<lparr>ov_Provider = ProviderGoogle, ov_ClientID = clientID,
      ov_Issuers = [''accounts.google.com'', ''https://accounts.google.com''], ov_fetchKeys = fetch, ov_ParseJWT = prs\<rparr>"

definition NewAppleVerifier where
  "NewAppleVerifier clientID fetch prs =
     \<lparr>ov_Provider = ProviderApple, ov_ClientID = clientID, ov_Issuers = [''https://appleid.apple.com''],
      ov_fetchKeys = fetch, ov_ParseJWT = prs\<rparr>"

definition oidc_claims :: "OIDCVerifier \<Rightarrow> (string \<Rightarrow> json_claim option) \<Rightarrow> auth_err + ProviderClaims" where
  "oidc_claims v claims =
     (if stringClaim (claims ''iss'') \<notin> set (ov_Issuers v) then Inl ErrInvalidProviderToken
      else let sub = stringClaim (claims ''sub'')
           in if sub = [] then Inl ErrInvalidProviderToken
              else let email = stringClaim (claims ''email''); emailVerified = boolClaim (claims ''email_verified'')
                   in if ov_Provider v = ProviderGoogle \<and> email \<noteq> [] \<and> \<not> emailVerified
                      then Inl ErrProviderEmailUnverified
                      else let name = stringClaim (claims ''name'');
                               name = (if name = [] \<and> ov_Provider v = ProviderApple then ''Apple Investor'' else name)
                           in Inr \<lparr>pc_Provider = ov_Provider v, pc_Subject = sub, pc_Email = email,
                                   pc_EmailVerified = emailVerified, pc_DisplayName = name,
                                   pc_AvatarKey = stringClaim (claims ''picture'')\<rparr>)"

definition oidc_Verify :: "OIDCVerifier \<Rightarrow> time \<Rightarrow> string \<Rightarrow> auth_err + ProviderClaims" where
  "oidc_Verify v now raw =
     (let raw = TrimSpace raw
      in if raw = [] \<or> TrimSpace (ov_ClientID v) = [] then Inl ErrProviderNotConfigured
         else case ov_fetchKeys v now of
                Inl _ \<Rightarrow> Inl ErrInvalidProviderToken
              | Inr keys \<Rightarrow>
                  (case ov_ParseJWT v keys (ov_ClientID v) now raw of
                     None \<Rightarrow> Inl ErrInvalidProviderToken
                   | Some claims \<Rightarrow> oidc_claims v claims))"

section \<open>Delivery of verification mails\<close>

fun auth_err_text :: "auth_err \<Rightarrow> string" where
  "auth_err_text ErrEmailRequired = ''email is required''"
| "auth_err_text ErrPasswordRequired = ''password is required''"
| "auth_err_text ErrPasswordTooShort = ''password must be at least 8 characters''"
| "auth_err_text ErrDisplayNameRequired = ''display name is required''"
| "auth_err_text ErrEmailExists = ''email already exists''"
| "auth_err_text ErrInvalidCredentials = ''invalid email or password''"
| "auth_err_text AErrUserNotFound = ''user not found''"
| "auth_err_text ErrIdentityNotFound = ''auth identity not found''"
| "auth_err_text ErrProviderDisabled = ''this sign-in method is not enabled''"
| "auth_err_text ErrProviderNotConfigured = ''this sign-in method is not configured''"
| "auth_err_text ErrInvalidProviderToken = ''provider sign-in failed''"
| "auth_err_text ErrProviderEmailUnverified = ''provider email is not verified''"
| "auth_err_text ErrEmailVerificationRequired = ''email verification required''"
| "auth_err_text ErrInvalidLifecycleToken = ''invalid or expired token''"
| "auth_err_text ErrReauthenticationRequired = ''reauthentication required''"
| "auth_err_text ErrPasswordAlreadySet = ''account already has a password''"
| "auth_err_text ErrEmailOutboxNotFound = ''email outbox message not found''"
| "auth_err_text ErrAccountBanned = ''this account has been banned''"
| "auth_err_text ErrAccountSuspended = ''this account is temporarily suspended''"
| "auth_err_text AErrInvalidToken = ''invalid or expired token''"
| "auth_err_text (AErrOther s) = s"

definition emailOutboxRetryDelay :: int where
  "emailOutboxRetryDelay = 15 * second"

definition emailOutboxBatchSize :: int where
  "emailOutboxBatchSize = 20"

definition deliverClaimedEmail ::
    "AuthEnv \<Rightarrow> UserRepo \<Rightarrow> EmailOutboxMessage \<Rightarrow> time \<Rightarrow> UserRepo \<times> Mail list \<times> (auth_err + unit)" where
  "deliverClaimedEmail E r message now =
     (let mail = VerificationMail (em_Recipient message) (em_VerificationURL message);
          (mails, sent) =
            (if em_Kind message = EmailKindVerification then ([mail], ae_Send E mail)
             else ([], Inl (AErrOther (''unsupported auth email kind '' @ em_Kind message))))
      in case sent of
           Inl e \<Rightarrow>
             (case usr_MarkEmailOutboxFailed r (em_ID message) (auth_err_text e) (now + emailOutboxRetryDelay) of
                Inl _ \<Rightarrow> (r, mails, Inl e)
              | Inr r \<Rightarrow> (r, mails, Inl e))
         | Inr _ \<Rightarrow>
             (case usr_MarkEmailOutboxDelivered r (em_ID message) now of
                Inl e \<Rightarrow> (r, mails, Inl e)
              | Inr r \<Rightarrow> (r, mails, Inr ())))"

fun deliver_claimed ::
    "AuthEnv \<Rightarrow> time \<Rightarrow> UserRepo \<Rightarrow> EmailOutboxMessage list \<Rightarrow> UserRepo \<times> Mail list \<times> int \<times> auth_err list" where
  "deliver_claimed E now r [] = (r, [], 0, [])"
| "deliver_claimed E now r (m # ms) =
     (let (r, mails, res) = deliverClaimedEmail E r m now;
          (r, mails', n, errs) = deliver_claimed E now r ms
      in case res of
           Inl e \<Rightarrow> (r, mails @ mails', n, e # errs)
         | Inr _ \<Rightarrow> (r, mails @ mails', n + 1, errs))"

definition ProcessEmailOutboxOnce ::
    "AuthEnv \<Rightarrow> time \<Rightarrow> UserRepo \<Rightarrow> UserRepo \<times> Mail list \<times> int \<times> auth_err list" where
  "ProcessEmailOutboxOnce E now r =
     (let (r, messages) = usr_ClaimEmailOutbox r emailOutboxBatchSize now in deliver_claimed E now r messages)"

definition deliverEmailOutboxByID ::
    "AuthEnv \<Rightarrow> time \<Rightarrow> UserRepo \<Rightarrow> string \<Rightarrow> UserRepo \<times> Mail list \<times> (auth_err + unit)" where
  "deliverEmailOutboxByID E now r i =
     (case usr_ClaimEmailOutboxByID r i now of
        (r, None) \<Rightarrow> (r, [], Inr ())
      | (r, Some message) \<Rightarrow> deliverClaimedEmail E r message now)"

section \<open>Registration and login\<close>

definition minPasswordLength :: nat where "minPasswordLength = 8"

definition maxAvatarKeyLength :: nat where "maxAvatarKeyLength = 40"

definition initializeAccount :: "AuthEnv \<Rightarrow> string \<Rightarrow> auth_err + unit" where
  "initializeAccount E userID = run_hooks (ae_creationHooks E) userID"

definition register_guards :: "RegisterInput \<Rightarrow> auth_err + string" where
  "register_guards i =
     (let email = normalizeEmail (ri_Email i)
      in if email = [] then Inl ErrEmailRequired
         else if ri_Password i = [] then Inl ErrPasswordRequired
         else if length (ri_Password i) < minPasswordLength then Inl ErrPasswordTooShort
         else if ri_DisplayName i = [] then Inl ErrDisplayNameRequired
         else Inr email)"

definition avatar_or_default :: "string \<Rightarrow> string" where
  "avatar_or_default key =
     (let avatarKey = truncate_runes (TrimSpace key) maxAvatarKeyLength
      in if avatarKey = [] then ''default'' else avatarKey)"

definition verification_url :: "AuthEnv \<Rightarrow> string \<Rightarrow> string" where
  "verification_url E raw = ae_publicAppURL E @ ''/verify-email?token='' @ raw"

definition registered_user :: "AuthEnv \<Rightarrow> AuthDraw \<Rightarrow> RegisterInput \<Rightarrow> string \<Rightarrow> string \<Rightarrow> User" where
  "registered_user E d i email hash =
     \<lparr>us_ID = ad_userID d, us_Email = email, us_DisplayName = ri_DisplayName i,
      us_AvatarKey = avatar_or_default (ri_AvatarKey i), us_PasswordHash = hash, us_HasPassword = True,
      us_EmailVerifiedAt = None, us_AuthVersion = 1, us_Role = RoleUser, us_SuspendedUntil = None,
      us_SuspensionReason = [], us_BannedAt = None, us_BanReason = [],
      us_SignupIPHash = hashSignupIP E (ri_SignupIP i)\<rparr>"

definition verification_message :: "AuthEnv \<Rightarrow> AuthDraw \<Rightarrow> User \<Rightarrow> string \<Rightarrow> EmailOutboxMessage" where
  "verification_message E d user raw =
     \<lparr>em_ID = ad_rowID d, em_UserID = us_ID user, em_Kind = EmailKindVerification, em_Recipient = us_Email user,
      em_VerificationURL = verification_url E raw, em_CreatedAt = ad_now d, em_AvailableAt = ad_now d,
      em_ClaimedAt = None, em_DeliveredAt = None, em_Attempts = 0, em_LastError = []\<rparr>"

definition RegisterContext ::
    "AuthEnv \<Rightarrow> AuthDraw \<Rightarrow> UserRepo \<Rightarrow> RegisterInput \<Rightarrow> UserRepo \<times> Mail list \<times> (auth_err + User)" where
  "RegisterContext E d r i =
     (case rbind (register_guards i) (\<lambda>email.
           rbind (ae_GenerateFromPassword E (ad_salt d) (ri_Password i)) (\<lambda>hash.
             let user = registered_user E d i email hash
             in rbind (newLifecycleToken E d (us_ID user) (ae_verificationTTL E)) (\<lambda>(raw, token).
                  Inr (user, token, verification_message E d user raw)))) of
        Inl e \<Rightarrow> (r, [], Inl e)
      | Inr (user, token, message) \<Rightarrow>
          (case usr_CreateWithVerification r user token message (ae_txCreationHooks E) of
             (r, Inl e) \<Rightarrow> (r, [], Inl e)
           | (r, Inr _) \<Rightarrow>
               (case initializeAccount E (us_ID user) of
                  Inl e \<Rightarrow> (r, [], Inl e)
                | Inr _ \<Rightarrow>
                    (case deliverEmailOutboxByID E (ad_now d) r (em_ID message) of
                       (r, mails, _) \<Rightarrow> (r, mails, Inr user)))))"

definition auth_Login ::
    "AuthEnv \<Rightarrow> time \<Rightarrow> UserRepo \<Rightarrow> string \<Rightarrow> string \<Rightarrow> auth_err + (User \<times> string)" where
  "auth_Login E now r email password =
     (case usr_FindByEmail r email of
        Inl e \<Rightarrow> Inl (if e = AErrUserNotFound then ErrInvalidCredentials else e)
      | Inr user \<Rightarrow>
          (if \<not> ae_CompareHashAndPassword E (us_PasswordHash user) password then Inl ErrInvalidCredentials
           else if \<not> us_HasPassword user then Inl ErrInvalidCredentials
           else if us_EmailVerifiedAt user = None then Inl ErrEmailVerificationRequired
           else auth_issue E now user))"

definition ChangePasswordAndRevoke ::
    "AuthEnv \<Rightarrow> AuthDraw \<Rightarrow> UserRepo \<Rightarrow> string \<Rightarrow> string \<Rightarrow> string \<Rightarrow> UserRepo \<times> (auth_err + string)" where
  "ChangePasswordAndRevoke E d r userID currentPassword newPassword =
     (case usr_FindByID r userID of
        Inl e \<Rightarrow> (r, Inl e)
      | Inr user \<Rightarrow>
          (if \<not> us_HasPassword user then (r, Inl ErrReauthenticationRequired)
           else if \<not> ae_CompareHashAndPassword E (us_PasswordHash user) currentPassword
           then (r, Inl ErrInvalidCredentials)
           else if length newPassword < minPasswordLength then (r, Inl ErrPasswordTooShort)
           else case ae_GenerateFromPassword E (ad_salt d) newPassword of
                  Inl e \<Rightarrow> (r, Inl e)
                | Inr hash \<Rightarrow>
                    (case usr_UpdatePasswordAndRevoke r userID hash of
                       Inl e \<Rightarrow> (r, Inl e)
                     | Inr (r, updated) \<Rightarrow>
                         (r, Generate E (us_ID updated) (us_Email updated) (us_AuthVersion updated) (ad_now d)))))"

definition ChangePassword ::
    "AuthEnv \<Rightarrow> AuthDraw \<Rightarrow> UserRepo \<Rightarrow> string \<Rightarrow> string \<Rightarrow> string \<Rightarrow> UserRepo \<times> (auth_err + unit)" where
  "ChangePassword E d r userID currentPassword newPassword =
     (case ChangePasswordAndRevoke E d r userID currentPassword newPassword of
        (r, Inl e) \<Rightarrow> (r, Inl e)
      | (r, Inr _) \<Rightarrow> (r, Inr ()))"

section \<open>Provider sign-in\<close>

definition provider_display_name :: "string \<Rightarrow> string \<Rightarrow> string" where
  "provider_display_name email name =
     (let displayName = TrimSpace name;
          displayName = (if displayName = [] then takeWhile (\<lambda>c. c \<noteq> CHR ''@'') email else displayName)
      in if RuneCount displayName < 2 then ''Investor'' else displayName)"

definition provider_user :: "AuthDraw \<Rightarrow> string \<Rightarrow> ProviderClaims \<Rightarrow> User" where
  "provider_user d email claims =
     \<lparr>us_ID = ad_userID d, us_Email = email, us_DisplayName = provider_display_name email (pc_DisplayName claims),
      us_AvatarKey = avatar_or_default (pc_AvatarKey claims), us_PasswordHash = [], us_HasPassword = False,
      us_EmailVerifiedAt = Some (ad_now d), us_AuthVersion = 1, us_Role = RoleUser, us_SuspendedUntil = None,
      us_SuspensionReason = [], us_BannedAt = None, us_BanReason = [], us_SignupIPHash = []\<rparr>"

definition provider_identity :: "AuthDraw \<Rightarrow> string \<Rightarrow> string \<Rightarrow> ProviderClaims \<Rightarrow> AuthIdentity" where
  "provider_identity d userID email claims =
     \<lparr>ai_ID = ad_rowID d, ai_UserID = userID, ai_Provider = pc_Provider claims,
      ai_ProviderSubject = pc_Subject claims, ai_Email = email, ai_EmailVerified = pc_EmailVerified claims\<rparr>"

definition registerProviderUser ::
    "AuthEnv \<Rightarrow> AuthDraw \<Rightarrow> UserRepo \<Rightarrow> string \<Rightarrow> ProviderClaims \<Rightarrow> UserRepo \<times> (auth_err + (User \<times> string))" where
  "registerProviderUser E d r email claims =
     (let user = provider_user d email claims
      in case usr_CreateProviderUser r user (provider_identity d (us_ID user) email claims) (ae_txCreationHooks E) of
           (r, Inl e) \<Rightarrow> (r, Inl e)
         | (r, Inr _) \<Rightarrow> (r, auth_issue E (ad_now d) user))"

definition loginWithProviderClaims ::
    "AuthEnv \<Rightarrow> AuthDraw \<Rightarrow> UserRepo \<Rightarrow> ProviderClaims \<Rightarrow> UserRepo \<times> (auth_err + (User \<times> string))" where
  "loginWithProviderClaims E d r claims =
     (if pc_Subject claims = [] then (r, Inl ErrInvalidProviderToken)
      else case usr_FindIdentity r (pc_Provider claims) (pc_Subject claims) of
        Inr identity \<Rightarrow> (r, rbind (usr_FindByID r (ai_UserID identity)) (auth_issue E (ad_now d)))
      | Inl _ \<Rightarrow>
          (let email = normalizeEmail (pc_Email claims)
           in if email = [] then (r, Inl ErrInvalidProviderToken)
              else if \<not> pc_EmailVerified claims then (r, Inl ErrProviderEmailUnverified)
              else case usr_FindByEmail r email of
                     Inl e \<Rightarrow> (if e = AErrUserNotFound then registerProviderUser E d r email claims else (r, Inl e))
                   | Inr user \<Rightarrow>
                       (case usr_CreateIdentity r (provider_identity d (us_ID user) email claims) of
                          Inl e \<Rightarrow> (if e \<noteq> ErrEmailExists then (r, Inl e) else (r, auth_issue E (ad_now d) user))
                        | Inr r \<Rightarrow> (r, auth_issue E (ad_now d) user))))"

definition LoginWithGoogle ::
    "AuthEnv \<Rightarrow> AuthDraw \<Rightarrow> UserRepo \<Rightarrow> string \<Rightarrow> UserRepo \<times> (auth_err + (User \<times> string))" where
  "LoginWithGoogle E d r credential =
     (if \<not> ae_googleEnabled E then (r, Inl ErrProviderDisabled)
      else case ae_googleVerifier E of
             None \<Rightarrow> (r, Inl ErrProviderNotConfigured)
           | Some verify \<Rightarrow>
               (case verify (ad_now d) credential of
                  Inl e \<Rightarrow> (r, Inl e)
                | Inr claims \<Rightarrow> loginWithProviderClaims E d r (claims\<lparr>pc_Provider := ProviderGoogle\<rparr>)))"

definition with_fallback :: "ProviderClaims \<Rightarrow> ProviderClaims \<Rightarrow> ProviderClaims" where
  "with_fallback claims fallback =
     (let claims = claims\<lparr>pc_Provider := ProviderApple\<rparr>;
          claims = (if pc_Email claims = [] \<and> pc_Email fallback \<noteq> []
                    then claims\<lparr>pc_Email := pc_Email fallback, pc_EmailVerified := True\<rparr> else claims)
      in if pc_DisplayName claims = [] then claims\<lparr>pc_DisplayName := pc_DisplayName fallback\<rparr> else claims)"

definition LoginWithApple ::
    "AuthEnv \<Rightarrow> AuthDraw \<Rightarrow> UserRepo \<Rightarrow> string \<Rightarrow> ProviderClaims \<Rightarrow> UserRepo \<times> (auth_err + (User \<times> string))" where
  "LoginWithApple E d r identityToken fallback =
     (if \<not> ae_appleEnabled E then (r, Inl ErrProviderDisabled)
      else case ae_appleVerifier E of
             None \<Rightarrow> (r, Inl ErrProviderNotConfigured)
           | Some verify \<Rightarrow>
               (case verify (ad_now d) identityToken of
                  Inl e \<Rightarrow> (r, Inl e)
                | Inr claims \<Rightarrow> loginWithProviderClaims E d r (with_fallback claims fallback)))"

section \<open>Lifecycle tokens\<close>

definition VerifyEmail ::
    "AuthEnv \<Rightarrow> AuthDraw \<Rightarrow> UserRepo \<Rightarrow> string \<Rightarrow> UserRepo \<times> (auth_err + (User \<times> string))" where
  "VerifyEmail E d r rawToken =
     (case usr_VerifyEmailToken r (hashLifecycleToken E rawToken) (ad_now d) of
        (r, Inl e) \<Rightarrow> (r, Inl e)
      | (r, Inr user) \<Rightarrow> (r, auth_issue E (ad_now d) user))"

definition ResendVerification :: "AuthEnv \<Rightarrow> AuthDraw \<Rightarrow> UserRepo \<Rightarrow> string \<Rightarrow> UserRepo \<times> Mail list" where
  "ResendVerification E d r email =
     (case usr_FindByEmail r email of
        Inl _ \<Rightarrow> (r, [])
      | Inr user \<Rightarrow>
          (if \<not> us_HasPassword user \<or> us_EmailVerifiedAt user \<noteq> None then (r, [])
           else case newLifecycleToken E d (us_ID user) (ae_verificationTTL E) of
                  Inl _ \<Rightarrow> (r, [])
                | Inr (raw, token) \<Rightarrow>
                    (usr_SaveEmailVerificationToken r token (ad_now d),
                     [VerificationMail (us_Email user) (verification_url E raw)])))"

definition ForgotPassword :: "AuthEnv \<Rightarrow> AuthDraw \<Rightarrow> UserRepo \<Rightarrow> string \<Rightarrow> UserRepo \<times> Mail list" where
  "ForgotPassword E d r email =
     (case usr_FindByEmail r email of
        Inl _ \<Rightarrow> (r, [])
      | Inr user \<Rightarrow>
          (if \<not> us_HasPassword user then (r, [])
           else case newLifecycleToken E d (us_ID user) (ae_resetTTL E) of
                  Inl _ \<Rightarrow> (r, [])
                | Inr (raw, token) \<Rightarrow>
                    (usr_SavePasswordResetToken r token (ad_now d),
                     [ResetMail (us_Email user) (ae_publicAppURL E @ ''/reset-password?token='' @ raw)])))"

definition ResetPassword ::
    "AuthEnv \<Rightarrow> AuthDraw \<Rightarrow> UserRepo \<Rightarrow> string \<Rightarrow> string \<Rightarrow> UserRepo \<times> (auth_err + unit)" where
  "ResetPassword E d r rawToken newPassword =
     (if length newPassword < minPasswordLength then (r, Inl ErrPasswordTooShort)
      else case ae_GenerateFromPassword E (ad_salt d) newPassword of
             Inl e \<Rightarrow> (r, Inl e)
           | Inr hash \<Rightarrow>
               (case usr_ResetPasswordToken r (hashLifecycleToken E rawToken) hash (ad_now d) of
                  (r, Inl e) \<Rightarrow> (r, Inl e)
                | (r, Inr _) \<Rightarrow> (r, Inr ())))"

text \<open>A repository update whose result is only the error of it.\<close>

definition only_error :: "UserRepo \<Rightarrow> auth_err + (UserRepo \<times> User) \<Rightarrow> UserRepo \<times> (auth_err + unit)" where
  "only_error r res = (case res of Inl e \<Rightarrow> (r, Inl e) | Inr (r, _) \<Rightarrow> (r, Inr ()))"

definition RevokeSessions :: "UserRepo \<Rightarrow> string \<Rightarrow> UserRepo \<times> (auth_err + unit)" where
  "RevokeSessions r userID = only_error r (usr_IncrementAuthVersion r userID)"

definition createReauthentication ::
    "AuthEnv \<Rightarrow> AuthDraw \<Rightarrow> UserRepo \<Rightarrow> string \<Rightarrow> UserRepo \<times> (auth_err + string)" where
  "createReauthentication E d r userID =
     (case newLifecycleToken E d userID (ae_reauthTTL E) of
        Inl e \<Rightarrow> (r, Inl e)
      | Inr (raw, token) \<Rightarrow> (usr_SaveReauthenticationToken r token, Inr raw))"

definition ReauthenticatePassword ::
    "AuthEnv \<Rightarrow> AuthDraw \<Rightarrow> UserRepo \<Rightarrow> string \<Rightarrow> string \<Rightarrow> UserRepo \<times> (auth_err + string)" where
  "ReauthenticatePassword E d r userID password =
     (case usr_FindByID r userID of
        Inl e \<Rightarrow> (r, Inl e)
      | Inr user \<Rightarrow>
          (if \<not> us_HasPassword user \<or> \<not> ae_CompareHashAndPassword E (us_PasswordHash user) password
           then (r, Inl ErrInvalidCredentials)
           else createReauthentication E d r userID))"

definition reauth_verifier ::
    "AuthEnv \<Rightarrow> AuthProvider \<Rightarrow> auth_err + (time \<Rightarrow> string \<Rightarrow> auth_err + ProviderClaims)" where
  "reauth_verifier E provider =
     (case provider of
        ProviderGoogle \<Rightarrow>
          (if \<not> ae_googleEnabled E then Inl ErrProviderDisabled
           else from_option ErrProviderNotConfigured (ae_googleVerifier E))
      | ProviderApple \<Rightarrow>
          (if \<not> ae_appleEnabled E then Inl ErrProviderDisabled
           else from_option ErrProviderNotConfigured (ae_appleVerifier E))
      | OtherProvider _ \<Rightarrow> Inl ErrInvalidProviderToken)"

definition ReauthenticateProvider ::
    "AuthEnv \<Rightarrow> AuthDraw \<Rightarrow> UserRepo \<Rightarrow> string \<Rightarrow> AuthProvider \<Rightarrow> string \<Rightarrow> UserRepo \<times> (auth_err + string)" where
  "ReauthenticateProvider E d r userID provider credential =
     (case reauth_verifier E provider of
        Inl e \<Rightarrow> (r, Inl e)
      | Inr verify \<Rightarrow>
          (case verify (ad_now d) credential of
             Inl _ \<Rightarrow> (r, Inl ErrInvalidProviderToken)
           | Inr claims \<Rightarrow>
               (if TrimSpace (pc_Subject claims) = [] then (r, Inl ErrInvalidProviderToken)
                else case usr_FindIdentity r provider (pc_Subject claims) of
                       Inl _ \<Rightarrow> (r, Inl ErrInvalidProviderToken)
                     | Inr identity \<Rightarrow>
                         (if ai_UserID identity \<noteq> userID then (r, Inl ErrInvalidProviderToken)
                          else createReauthentication E d r userID))))"

definition consumeReauthentication ::
    "AuthEnv \<Rightarrow> time \<Rightarrow> UserRepo \<Rightarrow> string \<Rightarrow> string \<Rightarrow> auth_err + UserRepo" where
  "consumeReauthentication E now r userID rawToken =
     (if TrimSpace rawToken = [] then Inl ErrReauthenticationRequired
      else usr_ConsumeReauthenticationToken r userID (hashLifecycleToken E rawToken) now)"

definition SetFirstPassword ::
    "AuthEnv \<Rightarrow> AuthDraw \<Rightarrow> UserRepo \<Rightarrow> string \<Rightarrow> string \<Rightarrow> string \<Rightarrow> UserRepo \<times> (auth_err + string)" where
  "SetFirstPassword E d r userID rawToken newPassword =
     (case usr_FindByID r userID of
        Inl e \<Rightarrow> (r, Inl e)
      | Inr user \<Rightarrow>
          (if us_HasPassword user then (r, Inl ErrPasswordAlreadySet)
           else if length newPassword < minPasswordLength then (r, Inl ErrPasswordTooShort)
           else case consumeReauthentication E (ad_now d) r userID rawToken of
                  Inl e \<Rightarrow> (r, Inl e)
                | Inr r \<Rightarrow>
                    (case ae_GenerateFromPassword E (ad_salt d) newPassword of
                       Inl e \<Rightarrow> (r, Inl e)
                     | Inr hash \<Rightarrow>
                         (case usr_UpdatePasswordAndRevoke r userID hash of
                            Inl e \<Rightarrow> (r, Inl e)
                          | Inr (r, updated) \<Rightarrow>
                              (r, Generate E (us_ID updated) (us_Email updated) (us_AuthVersion updated) (ad_now d))))))"

definition auth_DeleteAccount ::
    "AuthEnv \<Rightarrow> time \<Rightarrow> UserRepo \<Rightarrow> string \<Rightarrow> string \<Rightarrow> UserRepo \<times> (auth_err + unit)" where
  "auth_DeleteAccount E now r userID reauthToken =
     (case consumeReauthentication E now r userID reauthToken of
        Inl e \<Rightarrow> (r, Inl e)
      | Inr r \<Rightarrow>
          (case run_hooks (ae_deletionHooks E) userID of
             Inl e \<Rightarrow> (r, Inl e)
           | Inr _ \<Rightarrow> (case usr_DeleteAccount r userID of Inl e \<Rightarrow> (r, Inl e) | Inr r \<Rightarrow> (r, Inr ()))))"

section \<open>Administration and lists\<close>

definition EnsureBootstrapAdmin :: "UserRepo \<Rightarrow> string \<Rightarrow> UserRepo \<times> (auth_err + unit)" where
  "EnsureBootstrapAdmin r email =
     (let email = TrimSpace email
      in if email = [] then (r, Inr ())
         else case usr_FindByEmail r email of
                Inl e \<Rightarrow> (if e = AErrUserNotFound then (r, Inr ()) else (r, Inl e))
              | Inr user \<Rightarrow>
                  (if us_Role user = RoleAdmin then (r, Inr ()) else only_error r (usr_SetRole r (us_ID user) RoleAdmin)))"

definition auth_SetRole :: "UserRepo \<Rightarrow> string \<Rightarrow> string \<Rightarrow> UserRepo \<times> (auth_err + unit)" where
  "auth_SetRole r userID role = only_error r (usr_SetRole r userID role)"

definition auth_Suspend :: "UserRepo \<Rightarrow> string \<Rightarrow> time option \<Rightarrow> string \<Rightarrow> UserRepo \<times> (auth_err + unit)" where
  "auth_Suspend r userID until reason = only_error r (usr_Suspend r userID until reason)"

definition auth_Ban :: "time \<Rightarrow> UserRepo \<Rightarrow> string \<Rightarrow> string \<Rightarrow> UserRepo \<times> (auth_err + unit)" where
  "auth_Ban now r userID reason = only_error r (usr_Ban r userID reason now)"

definition rankable :: "User \<Rightarrow> RankableUser" where
  "rankable u = \<lparr>ru_ID = us_ID u, ru_DisplayName = us_DisplayName u, ru_AvatarKey = us_AvatarKey u\<rparr>"

definition ListRankableUsers :: "UserRepo \<Rightarrow> RankableUser list" where
  "ListRankableUsers r = map rankable (usr_ListUsers r)"

definition ListRankableUsersPage :: "UserRepo \<Rightarrow> string \<Rightarrow> int \<Rightarrow> RankableUser list" where
  "ListRankableUsersPage r afterID limit =
     (if limit \<le> 0 then []
      else let ordered = isort (\<lambda>a b. str_less (ru_ID a) (ru_ID b)) (ListRankableUsers r)
           in take (nat limit) (filter (\<lambda>u. str_less afterID (ru_ID u)) ordered))"

section \<open>The session check\<close>

text \<open>The cookies of a request by name, and its \<^verbatim>\<open>Authorization\<close> header, empty when absent.\<close>

record AuthRequest =
  rq_Cookie :: "string \<Rightarrow> string option"
  rq_Authorization :: string

definition bearer_prefix :: string where
  "bearer_prefix = ''Bearer ''"

definition bearerToken :: "AuthRequest \<Rightarrow> string option" where
  "bearerToken rq =
     (let header = rq_Authorization rq
      in if header = [] then None
         else if take (length bearer_prefix) header \<noteq> bearer_prefix then None
         else let token = TrimSpace (drop (length bearer_prefix) header)
              in if token = [] then None else Some token)"

definition SessionCookieName :: string where
  "SessionCookieName = ''__Host-finance_session''"

definition developmentSessionCookieName :: string where
  "developmentSessionCookieName = ''finance_session''"

fun first_cookie :: "AuthRequest \<Rightarrow> string list \<Rightarrow> string option" where
  "first_cookie rq [] = None"
| "first_cookie rq (name # names) =
     (case rq_Cookie rq name of
        None \<Rightarrow> first_cookie rq names
      | Some v \<Rightarrow> if TrimSpace v \<noteq> [] then Some v else first_cookie rq names)"

definition sessionToken :: "AuthRequest \<Rightarrow> string option" where
  "sessionToken rq =
     (case first_cookie rq [SessionCookieName, developmentSessionCookieName] of
        Some v \<Rightarrow> Some v
      | None \<Rightarrow> bearerToken rq)"

text \<open>Either the status and message of the response, or what the middleware puts in the request's context.\<close>

definition RequireAuth :: "AuthEnv \<Rightarrow> time \<Rightarrow> AuthRequest \<Rightarrow> (nat \<times> string) + (string \<times> int)" where
  "RequireAuth E now rq =
     (case sessionToken rq of
        None \<Rightarrow> Inl (401, ''missing or malformed authorization header'')
      | Some token \<Rightarrow>
          (case Parse E now token of
             Inl _ \<Rightarrow> Inl (401, auth_err_text AErrInvalidToken)
           | Inr claims \<Rightarrow> Inr (cl_UserID claims, cl_AuthVersion claims)))"

definition RequireAuthWithUser :: "AuthEnv \<Rightarrow> time \<Rightarrow> UserRepo \<Rightarrow> AuthRequest \<Rightarrow> (nat \<times> string) + string" where
  "RequireAuthWithUser E now r rq =
     rbind (RequireAuth E now rq) (\<lambda>(userID, version).
       case usr_FindByID r userID of
         Inl _ \<Rightarrow> Inl (401, auth_err_text AErrInvalidToken)
       | Inr user \<Rightarrow>
           (if us_AuthVersion user \<noteq> version then Inl (401, auth_err_text AErrInvalidToken)
            else if IsBanned user then Inl (403, auth_err_text ErrAccountBanned)
            else Inr userID))"

section \<open>One request\<close>

text \<open>Every operation of the service that reads or writes accounts, as a value, and the step it makes.\<close>

datatype auth_op =
    OpRegister AuthDraw RegisterInput
  | OpLogin AuthDraw string string
  | OpChangePassword AuthDraw string string string
  | OpDeleteAccount AuthDraw string string
  | OpGoogle AuthDraw string
  | OpApple AuthDraw string ProviderClaims
  | OpVerifyEmail AuthDraw string
  | OpResend AuthDraw string
  | OpForgot AuthDraw string
  | OpReset AuthDraw string string
  | OpRevoke string
  | OpReauthPassword AuthDraw string string
  | OpReauthProvider AuthDraw string AuthProvider string
  | OpSetFirstPassword AuthDraw string string string
  | OpBootstrap string
  | OpSetRole string string
  | OpSuspend string "time option" string
  | OpBan AuthDraw string string
  | OpOutbox AuthDraw

fun auth_step :: "AuthEnv \<Rightarrow> auth_op \<Rightarrow> UserRepo \<Rightarrow> UserRepo" where
  "auth_step E (OpRegister d i) r = fst (RegisterContext E d r i)"
| "auth_step E (OpLogin d email password) r = r"
| "auth_step E (OpChangePassword d u cur new) r = fst (ChangePasswordAndRevoke E d r u cur new)"
| "auth_step E (OpDeleteAccount d u raw) r = fst (auth_DeleteAccount E (ad_now d) r u raw)"
| "auth_step E (OpGoogle d cred) r = fst (LoginWithGoogle E d r cred)"
| "auth_step E (OpApple d tok fallback) r = fst (LoginWithApple E d r tok fallback)"
| "auth_step E (OpVerifyEmail d raw) r = fst (VerifyEmail E d r raw)"
| "auth_step E (OpResend d email) r = fst (ResendVerification E d r email)"
| "auth_step E (OpForgot d email) r = fst (ForgotPassword E d r email)"
| "auth_step E (OpReset d raw new) r = fst (ResetPassword E d r raw new)"
| "auth_step E (OpRevoke u) r = fst (RevokeSessions r u)"
| "auth_step E (OpReauthPassword d u password) r = fst (ReauthenticatePassword E d r u password)"
| "auth_step E (OpReauthProvider d u p cred) r = fst (ReauthenticateProvider E d r u p cred)"
| "auth_step E (OpSetFirstPassword d u raw new) r = fst (SetFirstPassword E d r u raw new)"
| "auth_step E (OpBootstrap email) r = fst (EnsureBootstrapAdmin r email)"
| "auth_step E (OpSetRole u role) r = fst (auth_SetRole r u role)"
| "auth_step E (OpSuspend u until reason) r = fst (auth_Suspend r u until reason)"
| "auth_step E (OpBan d u reason) r = fst (auth_Ban (ad_now d) r u reason)"
| "auth_step E (OpOutbox d) r = fst (ProcessEmailOutboxOnce E (ad_now d) r)"

fun auth_run :: "AuthEnv \<Rightarrow> auth_op list \<Rightarrow> UserRepo \<Rightarrow> UserRepo" where
  "auth_run E [] r = r"
| "auth_run E (op # ops) r = auth_run E ops (auth_step E op r)"

end
