(* ===== verification/ModModel.thy ===== *)
theory ModModel
  imports AuthService SocialService
begin

text \<open>
  Reports and moderation (package \<^verbatim>\<open>moderation\<close>: model.go, errors.go, memory_repository.go, service.go and the
  guard and error mapping of handler.go), wired as in cmd/api/main.go: accounts are those of the account service,
  messages those of the social service. The state is the repository beside those two.

  The repository's failure hook (nil in production, set by tests) is the field \<open>me_fail\<close>: what it answers at a stage.
  The clock, the identifiers drawn by a request and the rendering of an instant are arguments. Go maps that are listed
  are association lists; \<^verbatim>\<open>sort.Slice\<close> is taken to keep their order on ties.
\<close>

section \<open>Rows\<close>

datatype mod_err =
    MErrSelfReport | MErrInvalidCategory | MErrDuplicateReport | MErrMessageNotAccessible | MErrNotFound
  | MErrModerationForbidden | MErrInvalidAction | MErrAlreadyResolved
  | MErrAccount auth_err | MErrSocial social_err | MErrStage string

definition ValidCategories :: "string list" where
  "ValidCategories =
     [''harassment'', ''spam'', ''impersonation'', ''fraud_or_scam'', ''hate_or_abuse'', ''sexual_content'', ''threats'',
      ''privacy_violation'', ''other'']"

definition StatusOpen :: string where "StatusOpen = ''open''"

definition StatusUnderReview :: string where "StatusUnderReview = ''under_review''"

definition StatusResolvedActionTaken :: string where "StatusResolvedActionTaken = ''resolved_action_taken''"

definition StatusResolvedNoAction :: string where "StatusResolvedNoAction = ''resolved_no_action''"

definition ActionNoAction :: string where "ActionNoAction = ''no_action''"

definition ActionWarning :: string where "ActionWarning = ''warning''"

definition ActionTemporarySuspension :: string where "ActionTemporarySuspension = ''temporary_suspension''"

definition ActionPermanentBan :: string where "ActionPermanentBan = ''permanent_ban''"

definition ActionContentRemoval :: string where "ActionContentRemoval = ''content_removal''"

definition ValidActionTypes :: "string list" where
  "ValidActionTypes =
     [ActionNoAction, ActionWarning, ActionTemporarySuspension, ActionPermanentBan, ActionContentRemoval]"

record Report =
  rp_ID :: string
  rp_ReporterUserID :: string
  rp_ReportedUserID :: string
  rp_ReporterDeleted :: bool
  rp_ReportedDeleted :: bool
  rp_reporterSubjectID :: string
  rp_reportedSubjectID :: string
  rp_MessageID :: "string option"
  rp_Category :: string
  rp_Explanation :: string
  rp_Status :: string
  rp_CreatedAt :: time
  rp_ReviewedAt :: "time option"
  rp_ReviewerID :: "string option"
  rp_Decision :: string
  rp_ModeratorNotes :: string

record Evidence =
  ev_ID :: string
  ev_ReportID :: string
  ev_MessageID :: "string option"
  ev_ConversationID :: "string option"
  ev_SenderID :: "string option"
  ev_ParticipantIDs :: "string list"
  ev_SenderSubjectID :: string
  ev_ParticipantSubjectIDs :: "string list"
  ev_ConversationSubjectID :: string
  ev_MessageText :: "string option"
  ev_MessageCreatedAt :: "time option"
  ev_ReportCreatedAt :: time

record ModerationAction =
  ma_ID :: string
  ma_ModeratorID :: string
  ma_TargetUserID :: string
  ma_ModeratorDeleted :: bool
  ma_TargetDeleted :: bool
  ma_moderatorSubjectID :: string
  ma_targetSubjectID :: string
  ma_ReportID :: "string option"
  ma_ActionType :: string
  ma_Reason :: string
  ma_CreatedAt :: time
  ma_ExpiresAt :: "time option"

record ModNotification =
  mn_ID :: string
  mn_RecipientID :: string
  mn_Type :: string
  mn_Payload :: "(string \<times> string) list"
  mn_DedupeKey :: string
  mn_ReadAt :: "time option"
  mn_CreatedAt :: time

record ResolveInput =
  rv_Decision :: string
  rv_ActionType :: string
  rv_Reason :: string
  rv_ModeratorNotes :: string
  rv_SuspensionDays :: int

section \<open>The in-memory repository\<close>

record ModRepo =
  mr_reports :: "(string \<times> Report) list"
  mr_evidence :: "string \<Rightarrow> Evidence option"
  mr_actions :: "ModerationAction list"
  mr_notifications :: "(string \<times> ModNotification) list"
  mr_dedupe :: "string \<Rightarrow> string option"

definition NewModRepo :: ModRepo where
  "NewModRepo =
     \<lparr>mr_reports = [], mr_evidence = (\<lambda>_. None), mr_actions = [], mr_notifications = [], mr_dedupe = (\<lambda>_. None)\<rparr>"

record ModWorld =
  mw_repo :: ModRepo
  mw_accounts :: UserRepo
  mw_social :: SocialRepo

record ModEnv =
  me_fail :: "string \<Rightarrow> mod_err + unit"
  me_Format :: "time \<Rightarrow> string"

record ModDraw =
  md_now :: time
  md_first :: string
  md_second :: string

definition report_open :: "Report \<Rightarrow> bool" where
  "report_open rep = (rp_Status rep = StatusOpen \<or> rp_Status rep = StatusUnderReview)"

definition report_resolved :: "Report \<Rightarrow> bool" where
  "report_resolved rep = (rp_Status rep = StatusResolvedActionTaken \<or> rp_Status rep = StatusResolvedNoAction)"

definition hasOpenDuplicate :: "ModRepo \<Rightarrow> string \<Rightarrow> string \<Rightarrow> string option \<Rightarrow> bool" where
  "hasOpenDuplicate r reporterID reportedID messageID =
     list_ex (\<lambda>(_, rep).
       report_open rep \<and> rp_ReporterUserID rep = reporterID \<and> rp_ReportedUserID rep = reportedID \<and>
       rp_MessageID rep = messageID) (mr_reports r)"

definition mod_CreateUserReport :: "ModEnv \<Rightarrow> ModRepo \<Rightarrow> Report \<Rightarrow> mod_err + ModRepo" where
  "mod_CreateUserReport E r rep =
     rbind (me_fail E ''duplicate_check'') (\<lambda>_.
       if hasOpenDuplicate r (rp_ReporterUserID rep) (rp_ReportedUserID rep) (rp_MessageID rep)
       then Inl MErrDuplicateReport
       else rbind (me_fail E ''report_insert'') (\<lambda>_.
         Inr (r\<lparr>mr_reports := AList.update (rp_ID rep) rep (mr_reports r)\<rparr>)))"

definition mod_CreateMessageReport :: "ModEnv \<Rightarrow> ModRepo \<Rightarrow> Report \<Rightarrow> Evidence \<Rightarrow> mod_err + ModRepo" where
  "mod_CreateMessageReport E r rep ev =
     rbind (me_fail E ''duplicate_check'') (\<lambda>_.
       if hasOpenDuplicate r (rp_ReporterUserID rep) (rp_ReportedUserID rep) (rp_MessageID rep)
       then Inl MErrDuplicateReport
       else rbind (me_fail E ''report_insert'') (\<lambda>_.
            rbind (me_fail E ''evidence_insert'') (\<lambda>_.
              Inr (r\<lparr>mr_reports := AList.update (rp_ID rep) rep (mr_reports r),
                     mr_evidence := (mr_evidence r)(rp_ID rep := Some ev)\<rparr>))))"

definition mod_GetReport :: "ModRepo \<Rightarrow> string \<Rightarrow> mod_err + Report" where
  "mod_GetReport r i = from_option MErrNotFound (map_of (mr_reports r) i)"

definition mod_ListReports :: "ModRepo \<Rightarrow> string \<Rightarrow> Report list" where
  "mod_ListReports r status =
     isort (\<lambda>a b. rp_CreatedAt b < rp_CreatedAt a)
       (filter (\<lambda>rep. status = [] \<or> rp_Status rep = status) (map snd (mr_reports r)))"

definition mod_GetEvidence :: "ModRepo \<Rightarrow> string \<Rightarrow> Evidence option" where
  "mod_GetEvidence r i = mr_evidence r i"

subsection \<open>Notifications\<close>

definition dedupe_key :: "ModNotification \<Rightarrow> string" where
  "dedupe_key n = mn_RecipientID n @ ''|'' @ mn_DedupeKey n"

text \<open>\<open>fresh\<close> is the identifier drawn when the notification has none.\<close>

definition mod_CreateNotification :: "ModRepo \<Rightarrow> string \<Rightarrow> ModNotification \<Rightarrow> ModRepo" where
  "mod_CreateNotification r fresh n =
     (if mr_dedupe r (dedupe_key n) \<noteq> None then r
      else let n = (if mn_ID n = [] then n\<lparr>mn_ID := fresh\<rparr> else n)
           in r\<lparr>mr_notifications := AList.update (mn_ID n) n (mr_notifications r),
                mr_dedupe := (mr_dedupe r)(dedupe_key n := Some (mn_ID n))\<rparr>)"

definition mod_ListNotifications :: "ModRepo \<Rightarrow> string \<Rightarrow> int \<Rightarrow> ModNotification list" where
  "mod_ListNotifications r recipientID limit =
     (let out = isort (\<lambda>a b. mn_CreatedAt b < mn_CreatedAt a)
                  (filter (\<lambda>n. mn_RecipientID n = recipientID) (map snd (mr_notifications r)))
      in if limit > 0 \<and> int (length out) > limit then take (nat limit) out else out)"

definition mod_UnreadNotificationCount :: "ModRepo \<Rightarrow> string \<Rightarrow> nat" where
  "mod_UnreadNotificationCount r recipientID =
     length (filter (\<lambda>(_, n). mn_RecipientID n = recipientID \<and> mn_ReadAt n = None) (mr_notifications r))"

definition mod_MarkNotificationRead :: "ModRepo \<Rightarrow> string \<Rightarrow> string \<Rightarrow> time \<Rightarrow> mod_err + ModRepo" where
  "mod_MarkNotificationRead r recipientID notificationID now =
     (case map_of (mr_notifications r) notificationID of
        None \<Rightarrow> Inl MErrNotFound
      | Some n \<Rightarrow>
          (if mn_RecipientID n \<noteq> recipientID then Inl MErrNotFound
           else if mn_ReadAt n = None
           then Inr (r\<lparr>mr_notifications :=
                        AList.update notificationID (n\<lparr>mn_ReadAt := Some now\<rparr>) (mr_notifications r)\<rparr>)
           else Inr r))"

definition mod_MarkAllNotificationsRead :: "ModRepo \<Rightarrow> string \<Rightarrow> time \<Rightarrow> ModRepo" where
  "mod_MarkAllNotificationsRead r recipientID now =
     r\<lparr>mr_notifications :=
        map (\<lambda>(i, n). (i, if mn_RecipientID n = recipientID \<and> mn_ReadAt n = None
                         then n\<lparr>mn_ReadAt := Some now\<rparr> else n)) (mr_notifications r)\<rparr>"

subsection \<open>Resolution\<close>

text \<open>
  What a builder hands to the repository. \<open>wr_VolatileApply\<close> acts on the accounts and the messages; each of its
  operations either fails or succeeds as a whole.
\<close>

record ResolveWrite =
  wr_Report :: Report
  wr_Action :: ModerationAction
  wr_ActionType :: string
  wr_SuspendUntil :: "time option"
  wr_Notification :: "ModNotification option"
  wr_VolatileApply :: "UserRepo \<times> SocialRepo \<Rightarrow> mod_err + (UserRepo \<times> SocialRepo)"

definition publish :: "ModRepo \<Rightarrow> string \<Rightarrow> ResolveWrite \<Rightarrow> ModRepo" where
  "publish r fresh w =
     (let r = r\<lparr>mr_actions := mr_actions r @ [wr_Action w]\<rparr>;
          r = (case wr_Notification w of None \<Rightarrow> r | Some n \<Rightarrow> mod_CreateNotification r fresh n)
      in r\<lparr>mr_reports := AList.update (rp_ID (wr_Report w)) (wr_Report w) (mr_reports r)\<rparr>)"

definition mod_ResolveReport ::
    "ModEnv \<Rightarrow> string \<Rightarrow> ModWorld \<Rightarrow> string \<Rightarrow> (Report \<Rightarrow> mod_err + ResolveWrite) \<Rightarrow> mod_err + (ModWorld \<times> Report \<times> bool)"
where
  "mod_ResolveReport E fresh s reportID build =
     (case map_of (mr_reports (mw_repo s)) reportID of
        None \<Rightarrow> Inl MErrNotFound
      | Some current \<Rightarrow>
          (if report_resolved current then Inr (s, current, False)
           else rbind (build current) (\<lambda>w.
                rbind (me_fail E ''action_insert'') (\<lambda>_.
                rbind (if wr_Notification w \<noteq> None then me_fail E ''notification_insert'' else Inr ()) (\<lambda>_.
                rbind (me_fail E ''report_update'') (\<lambda>_.
                rbind (me_fail E ''external_apply'') (\<lambda>_.
                rbind (wr_VolatileApply w (mw_accounts s, mw_social s)) (\<lambda>(accounts, social).
                  Inr (\<lparr>mw_repo = publish (mw_repo s) fresh w, mw_accounts = accounts, mw_social = social\<rparr>,
                       wr_Report w, True)))))))))"

section \<open>The service\<close>

record UserView =
  uv_ID :: string
  uv_Role :: string
  uv_IsAdmin :: bool

text \<open>\<^verbatim>\<open>authAdminAdapter\<close>.\<close>

definition mod_UserByID :: "UserRepo \<Rightarrow> string \<Rightarrow> mod_err + UserView" where
  "mod_UserByID r i =
     (case usr_FindByID r i of
        Inl e \<Rightarrow> Inl (MErrAccount e)
      | Inr u \<Rightarrow> Inr \<lparr>uv_ID = us_ID u, uv_Role = us_Role u, uv_IsAdmin = IsAdmin u\<rparr>)"

definition mod_UserStatus :: "UserRepo \<Rightarrow> time \<Rightarrow> string \<Rightarrow> auth_err + (bool \<times> bool)" where
  "mod_UserStatus r now i =
     (case usr_FindByID r i of Inl e \<Rightarrow> Inl e | Inr u \<Rightarrow> Inr (IsSuspended u now, IsBanned u))"

definition new_report ::
    "ModDraw \<Rightarrow> string \<Rightarrow> string \<Rightarrow> string option \<Rightarrow> string \<Rightarrow> string \<Rightarrow> Report" where
  "new_report d reporterID reportedID messageID category explanation =
     \<lparr>rp_ID = md_first d, rp_ReporterUserID = reporterID, rp_ReportedUserID = reportedID, rp_ReporterDeleted = False,
      rp_ReportedDeleted = False, rp_reporterSubjectID = [], rp_reportedSubjectID = [], rp_MessageID = messageID,
      rp_Category = category, rp_Explanation = TrimSpace explanation, rp_Status = StatusOpen, rp_CreatedAt = md_now d,
      rp_ReviewedAt = None, rp_ReviewerID = None, rp_Decision = [], rp_ModeratorNotes = []\<rparr>"

definition ReportUser ::
    "ModEnv \<Rightarrow> ModDraw \<Rightarrow> ModWorld \<Rightarrow> string \<Rightarrow> string \<Rightarrow> string \<Rightarrow> string \<Rightarrow> mod_err + (ModWorld \<times> Report)" where
  "ReportUser E d s reporterID reportedUserID category explanation =
     (if reporterID = reportedUserID then Inl MErrSelfReport
      else if category \<notin> set ValidCategories then Inl MErrInvalidCategory
      else let rep = new_report d reporterID reportedUserID None category explanation
           in rbind (mod_CreateUserReport E (mw_repo s) rep) (\<lambda>r. Inr (s\<lparr>mw_repo := r\<rparr>, rep)))"

definition new_evidence :: "ModDraw \<Rightarrow> string \<Rightarrow> MessageReportEvidence \<Rightarrow> Evidence" where
  "new_evidence d messageID e =
     \<lparr>ev_ID = md_second d, ev_ReportID = md_first d, ev_MessageID = Some messageID,
      ev_ConversationID = Some (re_ConversationID e), ev_SenderID = Some (re_SenderID e),
      ev_ParticipantIDs = re_ParticipantIDs e, ev_SenderSubjectID = [], ev_ParticipantSubjectIDs = [],
      ev_ConversationSubjectID = [], ev_MessageText = Some (re_Text e), ev_MessageCreatedAt = Some (re_CreatedAt e),
      ev_ReportCreatedAt = md_now d\<rparr>"

definition ReportMessage ::
    "ModEnv \<Rightarrow> ModDraw \<Rightarrow> ModWorld \<Rightarrow> string \<Rightarrow> string \<Rightarrow> string \<Rightarrow> string \<Rightarrow> mod_err + (ModWorld \<times> Report)" where
  "ReportMessage E d s reporterID messageID category explanation =
     (if category \<notin> set ValidCategories then Inl MErrInvalidCategory
      else case Service_MessageForReport reporterID messageID (mw_social s) of
             Inl _ \<Rightarrow> Inl MErrMessageNotAccessible
           | Inr e \<Rightarrow>
               (if re_SenderID e = reporterID then Inl MErrSelfReport
                else let rep = new_report d reporterID (re_SenderID e) (Some messageID) category explanation
                     in rbind (mod_CreateMessageReport E (mw_repo s) rep (new_evidence d messageID e)) (\<lambda>r.
                          Inr (s\<lparr>mw_repo := r\<rparr>, rep))))"

subsection \<open>Views\<close>

record ReportSummary =
  rs_ID :: string
  rs_ReporterUserID :: string
  rs_ReportedUserID :: string
  rs_MessageID :: "string option"
  rs_Category :: string
  rs_Status :: string
  rs_CreatedAt :: time

definition displayUserID :: "string \<Rightarrow> bool \<Rightarrow> string" where
  "displayUserID i deleted = (if deleted then ''Deleted account'' else i)"

definition summaryFromReport :: "Report \<Rightarrow> ReportSummary" where
  "summaryFromReport rep =
     \<lparr>rs_ID = rp_ID rep, rs_ReporterUserID = displayUserID (rp_ReporterUserID rep) (rp_ReporterDeleted rep),
      rs_ReportedUserID = displayUserID (rp_ReportedUserID rep) (rp_ReportedDeleted rep),
      rs_MessageID = rp_MessageID rep, rs_Category = rp_Category rep, rs_Status = rp_Status rep,
      rs_CreatedAt = rp_CreatedAt rep\<rparr>"

definition ListReports :: "ModWorld \<Rightarrow> string \<Rightarrow> ReportSummary list" where
  "ListReports s status = map summaryFromReport (mod_ListReports (mw_repo s) status)"

record EvidenceDTO =
  ed_MessageText :: string
  ed_MessageCreatedAt :: "time option"
  ed_ConversationID :: string
  ed_SenderID :: string

definition evidence_dto :: "Evidence \<Rightarrow> EvidenceDTO" where
  "evidence_dto e =
     \<lparr>ed_MessageText = (case ev_MessageText e of None \<Rightarrow> [] | Some t \<Rightarrow> t),
      ed_MessageCreatedAt = ev_MessageCreatedAt e,
      ed_ConversationID = (case ev_ConversationID e of Some c \<Rightarrow> c | None \<Rightarrow> ev_ConversationSubjectID e),
      ed_SenderID = (case ev_SenderID e of Some c \<Rightarrow> c | None \<Rightarrow> ev_SenderSubjectID e)\<rparr>"

record ReportDetail =
  rd_Summary :: ReportSummary
  rd_Explanation :: string
  rd_ReviewedAt :: "time option"
  rd_ReviewerID :: "string option"
  rd_Decision :: string
  rd_ModeratorNotes :: string
  rd_Evidence :: "EvidenceDTO option"

definition GetReportDetail :: "ModWorld \<Rightarrow> string \<Rightarrow> mod_err + ReportDetail" where
  "GetReportDetail s i =
     (case mod_GetReport (mw_repo s) i of
        Inl _ \<Rightarrow> Inl MErrNotFound
      | Inr rep \<Rightarrow>
          Inr \<lparr>rd_Summary = summaryFromReport rep, rd_Explanation = rp_Explanation rep,
               rd_ReviewedAt = rp_ReviewedAt rep, rd_ReviewerID = rp_ReviewerID rep, rd_Decision = rp_Decision rep,
               rd_ModeratorNotes = rp_ModeratorNotes rep,
               rd_Evidence = map_option evidence_dto (mod_GetEvidence (mw_repo s) (rp_ID rep))\<rparr>)"

subsection \<open>Decisions\<close>

definition actionRequiresLiveTarget :: "string \<Rightarrow> bool" where
  "actionRequiresLiveTarget a = (a = ActionWarning \<or> a = ActionTemporarySuspension \<or> a = ActionPermanentBan)"

text \<open>The status, the decision and the action type that an input asks for.\<close>

definition decide :: "ResolveInput \<Rightarrow> mod_err + (string \<times> string \<times> string)" where
  "decide i =
     (if rv_Decision i = ''action_taken'' then
        if rv_ActionType i \<notin> set ValidActionTypes \<or> rv_ActionType i = ActionNoAction then Inl MErrInvalidAction
        else Inr (StatusResolvedActionTaken, ''action_taken'', rv_ActionType i)
      else if rv_Decision i = ''no_action'' then Inr (StatusResolvedNoAction, ''no_action'', ActionNoAction)
      else Inl MErrInvalidAction)"

definition day :: int where "day = 24 * hour"

definition suspend_until :: "ResolveInput \<Rightarrow> string \<Rightarrow> time \<Rightarrow> time option" where
  "suspend_until i action now =
     (if action = ActionTemporarySuspension
      then Some (now + (if rv_SuspensionDays i \<le> 0 then 3 else rv_SuspensionDays i) * day) else None)"

definition sanction_notice :: "ModEnv \<Rightarrow> ModDraw \<Rightarrow> ResolveInput \<Rightarrow> string \<Rightarrow> Report \<Rightarrow> ModNotification option" where
  "sanction_notice E d i action current =
     (let n = (\<lambda>t p. \<lparr>mn_ID = md_first d, mn_RecipientID = rp_ReportedUserID current, mn_Type = t, mn_Payload = p,
                      mn_DedupeKey = ''moderation:'' @ rp_ID current, mn_ReadAt = None, mn_CreatedAt = md_now d\<rparr>)
      in if action = ActionWarning then Some (n ''moderation_warning'' [(''reason'', rv_Reason i)])
         else case suspend_until i action (md_now d) of
                Some until \<Rightarrow> Some (n ''account_suspended'' [(''reason'', rv_Reason i), (''until'', me_Format E until)])
              | None \<Rightarrow> None)"

definition volatile_apply ::
    "ModDraw \<Rightarrow> string \<Rightarrow> ResolveInput \<Rightarrow> string \<Rightarrow> Report \<Rightarrow> UserRepo \<times> SocialRepo \<Rightarrow> mod_err + (UserRepo \<times> SocialRepo)"
where
  "volatile_apply d moderatorID i action current = (\<lambda>(accounts, social).
     if action = ActionTemporarySuspension then
       (case auth_Suspend accounts (rp_ReportedUserID current) (suspend_until i action (md_now d)) (rv_Reason i) of
          (_, Inl e) \<Rightarrow> Inl (MErrAccount e)
        | (accounts, Inr _) \<Rightarrow> Inr (accounts, social))
     else if action = ActionPermanentBan then
       (case auth_Ban (md_now d) accounts (rp_ReportedUserID current) (rv_Reason i) of
          (_, Inl e) \<Rightarrow> Inl (MErrAccount e)
        | (accounts, Inr _) \<Rightarrow> Inr (accounts, social))
     else if action = ActionContentRemoval then
       (case rp_MessageID current of
          None \<Rightarrow> Inr (accounts, social)
        | Some m \<Rightarrow>
            (case Service_RemoveMessage moderatorID m (md_now d) social of
               Inl e \<Rightarrow> Inl (MErrSocial e)
             | Inr social \<Rightarrow> Inr (accounts, social)))
     else Inr (accounts, social))"

definition resolve_build ::
    "ModEnv \<Rightarrow> ModDraw \<Rightarrow> string \<Rightarrow> ResolveInput \<Rightarrow> string \<times> string \<times> string \<Rightarrow> Report \<Rightarrow> mod_err + ResolveWrite" where
  "resolve_build E d moderatorID i decision current =
     (case decision of (status, verdict, action) \<Rightarrow>
        if rp_ReportedDeleted current \<and> actionRequiresLiveTarget action then Inl MErrNotFound
        else Inr
          \<lparr>wr_Report = current\<lparr>rp_Status := status, rp_Decision := verdict,
                               rp_ModeratorNotes := TrimSpace (rv_ModeratorNotes i), rp_ReviewedAt := Some (md_now d),
                               rp_ReviewerID := Some moderatorID\<rparr>,
           wr_Action =
             \<lparr>ma_ID = md_second d, ma_ModeratorID = moderatorID, ma_TargetUserID = rp_ReportedUserID current,
              ma_ModeratorDeleted = False, ma_TargetDeleted = False, ma_moderatorSubjectID = [],
              ma_targetSubjectID = [], ma_ReportID = Some (rp_ID current), ma_ActionType = action,
              ma_Reason = TrimSpace (rv_Reason i), ma_CreatedAt = md_now d,
              ma_ExpiresAt = suspend_until i action (md_now d)\<rparr>,
           wr_ActionType = action, wr_SuspendUntil = suspend_until i action (md_now d),
           wr_Notification = sanction_notice E d i action current,
           wr_VolatileApply = volatile_apply d moderatorID i action current\<rparr>)"

text \<open>The permission check before the lock: an account that acts against an admin must be an admin.\<close>

definition target_guard :: "ModWorld \<Rightarrow> UserView \<Rightarrow> Report \<Rightarrow> string \<Rightarrow> mod_err + unit" where
  "target_guard s actor rep action =
     (if \<not> rp_ReportedDeleted rep
      then rbind (mod_UserByID (mw_accounts s) (rp_ReportedUserID rep)) (\<lambda>target.
             if uv_IsAdmin target \<and> \<not> uv_IsAdmin actor then Inl MErrModerationForbidden else Inr ())
      else if actionRequiresLiveTarget action then Inl MErrNotFound
      else Inr ())"

definition ResolveReport ::
    "ModEnv \<Rightarrow> ModDraw \<Rightarrow> ModWorld \<Rightarrow> string \<Rightarrow> UserView \<Rightarrow> string \<Rightarrow> ResolveInput \<Rightarrow> mod_err + (ModWorld \<times> ReportDetail)" where
  "ResolveReport E d s moderatorID actor reportID i =
     (case mod_GetReport (mw_repo s) reportID of
        Inl _ \<Rightarrow> Inl MErrNotFound
      | Inr rep \<Rightarrow>
          (if report_resolved rep then rbind (GetReportDetail s reportID) (\<lambda>detail. Inr (s, detail))
           else rbind (decide i) (\<lambda>decision.
                rbind (target_guard s actor rep (snd (snd decision))) (\<lambda>_.
                rbind (mod_ResolveReport E (md_first d) s reportID (resolve_build E d moderatorID i decision))
                  (\<lambda>(s, _, _). rbind (GetReportDetail s reportID) (\<lambda>detail. Inr (s, detail)))))))"

definition mod_Notify ::
    "ModDraw \<Rightarrow> ModWorld \<Rightarrow> string \<Rightarrow> string \<Rightarrow> string \<Rightarrow> (string \<times> string) list \<Rightarrow> ModWorld" where
  "mod_Notify d s recipientID t dedupe payload =
     s\<lparr>mw_repo := mod_CreateNotification (mw_repo s) (md_second d)
         \<lparr>mn_ID = md_first d, mn_RecipientID = recipientID, mn_Type = t, mn_Payload = payload, mn_DedupeKey = dedupe,
          mn_ReadAt = None, mn_CreatedAt = md_now d\<rparr>\<rparr>"

record NotificationDTO =
  nd_ID :: string
  nd_Type :: string
  nd_Payload :: "(string \<times> string) list"
  nd_Read :: bool
  nd_CreatedAt :: time

definition Notifications :: "ModWorld \<Rightarrow> string \<Rightarrow> NotificationDTO list" where
  "Notifications s recipientID =
     map (\<lambda>n. \<lparr>nd_ID = mn_ID n, nd_Type = mn_Type n, nd_Payload = mn_Payload n, nd_Read = (mn_ReadAt n \<noteq> None),
              nd_CreatedAt = mn_CreatedAt n\<rparr>)
       (mod_ListNotifications (mw_repo s) recipientID 50)"

section \<open>The guard and the errors of the handler\<close>

definition RequireModerator :: "ModWorld \<Rightarrow> string option \<Rightarrow> (nat \<times> string) + UserView" where
  "RequireModerator s caller =
     (case caller of
        None \<Rightarrow> Inl (401, ''unauthorized'')
      | Some userID \<Rightarrow>
          (if userID = [] then Inl (401, ''unauthorized'')
           else case mod_UserByID (mw_accounts s) userID of
                  Inl _ \<Rightarrow> Inl (403, ''moderation_forbidden'')
                | Inr view \<Rightarrow>
                    (if uv_Role view \<noteq> ''moderator'' \<and> uv_Role view \<noteq> ''admin''
                     then Inl (403, ''moderation_forbidden'') else Inr view)))"

fun writeModerationError :: "mod_err \<Rightarrow> nat \<times> string" where
  "writeModerationError MErrSelfReport = (400, ''cannot report yourself'')"
| "writeModerationError MErrInvalidCategory = (400, ''invalid category'')"
| "writeModerationError MErrInvalidAction = (400, ''invalid action'')"
| "writeModerationError MErrDuplicateReport = (409, ''report_duplicate'')"
| "writeModerationError MErrMessageNotAccessible = (403, ''message_not_accessible'')"
| "writeModerationError MErrModerationForbidden = (403, ''moderation_forbidden'')"
| "writeModerationError MErrNotFound = (404, ''not found'')"
| "writeModerationError _ = (500, ''moderation request failed'')"

text \<open>The endpoint: the guard, then the service with the view the guard read.\<close>

definition resolve_endpoint ::
    "ModEnv \<Rightarrow> ModDraw \<Rightarrow> ModWorld \<Rightarrow> string option \<Rightarrow> string \<Rightarrow> ResolveInput \<Rightarrow> ((nat \<times> string) + ReportDetail) \<times> ModWorld"
where
  "resolve_endpoint E d s caller reportID i =
     (case RequireModerator s caller of
        Inl e \<Rightarrow> (Inl e, s)
      | Inr actor \<Rightarrow>
          (case ResolveReport E d s (the caller) actor reportID i of
             Inl e \<Rightarrow> (Inl (writeModerationError e), s)
           | Inr (s, detail) \<Rightarrow> (Inr detail, s)))"

section \<open>Runs\<close>

text \<open>Requests to moderation, and \<open>MoOther\<close>: anything the rest of the server does to accounts and messages.\<close>

datatype mod_op =
    MoReportUser ModDraw string string string string
  | MoReportMessage ModDraw string string string string
  | MoResolve ModDraw "string option" string ResolveInput
  | MoNotify ModDraw string string string "(string \<times> string) list"
  | MoMarkRead string string time
  | MoMarkAllRead string time
  | MoOther "UserRepo \<Rightarrow> UserRepo" "SocialRepo \<Rightarrow> SocialRepo"

definition stay :: "ModWorld \<Rightarrow> mod_err + (ModWorld \<times> 'a) \<Rightarrow> ModWorld" where
  "stay s res = (case res of Inl _ \<Rightarrow> s | Inr (s, _) \<Rightarrow> s)"

fun mod_step :: "ModEnv \<Rightarrow> mod_op \<Rightarrow> ModWorld \<Rightarrow> ModWorld" where
  "mod_step E (MoReportUser d a b c x) s = stay s (ReportUser E d s a b c x)"
| "mod_step E (MoReportMessage d a m c x) s = stay s (ReportMessage E d s a m c x)"
| "mod_step E (MoResolve d caller i v) s = snd (resolve_endpoint E d s caller i v)"
| "mod_step E (MoNotify d a t k p) s = mod_Notify d s a t k p"
| "mod_step E (MoMarkRead a n now) s =
     (case mod_MarkNotificationRead (mw_repo s) a n now of Inl _ \<Rightarrow> s | Inr r \<Rightarrow> s\<lparr>mw_repo := r\<rparr>)"
| "mod_step E (MoMarkAllRead a now) s = s\<lparr>mw_repo := mod_MarkAllNotificationsRead (mw_repo s) a now\<rparr>"
| "mod_step E (MoOther f g) s = s\<lparr>mw_accounts := f (mw_accounts s), mw_social := g (mw_social s)\<rparr>"

fun mod_run :: "ModEnv \<Rightarrow> mod_op list \<Rightarrow> ModWorld \<Rightarrow> ModWorld" where
  "mod_run E [] s = s"
| "mod_run E (op # ops) s = mod_run E ops (mod_step E op s)"

end
