(* ===== verification/AuthLaws.thy ===== *)
theory AuthLaws
  imports AuthService
begin

text \<open>
  The moves of the account repository. Every operation of the service is a sequence of primitive moves (change one
  account, store a new one, delete one, evolve the lifecycle tokens, anything on identities and mails); what a move
  keeps, every run keeps.
\<close>

section \<open>The account under an identifier\<close>

definition acct :: "UserRepo \<Rightarrow> string \<Rightarrow> User option" where
  "acct r userID = map_option ((!) (ar_users r)) (map_of (ar_byID r) userID)"

lemma FindByID_acct: "usr_FindByID r userID = from_option AErrUserNotFound (acct r userID)"
  by (simp add: usr_FindByID_def acct_def split: option.splits)

text \<open>
  The two indexes agree: an address under an identifier is the address under the email of the object there, and the
  other way round.
\<close>

definition user_wf :: "UserRepo \<Rightarrow> bool" where
  "user_wf r =
     ((\<forall>i a. map_of (ar_byID r) i = Some a \<longrightarrow>
         a < length (ar_users r) \<and> us_ID (ar_users r ! a) = i \<and>
         ar_byEmail r (normalizeEmail (us_Email (ar_users r ! a))) = Some a) \<and>
      (\<forall>k a. ar_byEmail r k = Some a \<longrightarrow>
         a < length (ar_users r) \<and> normalizeEmail (us_Email (ar_users r ! a)) = k \<and>
         map_of (ar_byID r) (us_ID (ar_users r ! a)) = Some a))"

lemma user_wfI:
  assumes "\<And>i a. map_of (ar_byID r) i = Some a \<Longrightarrow>
             a < length (ar_users r) \<and> us_ID (ar_users r ! a) = i \<and>
             ar_byEmail r (normalizeEmail (us_Email (ar_users r ! a))) = Some a"
    and "\<And>k a. ar_byEmail r k = Some a \<Longrightarrow>
             a < length (ar_users r) \<and> normalizeEmail (us_Email (ar_users r ! a)) = k \<and>
             map_of (ar_byID r) (us_ID (ar_users r ! a)) = Some a"
  shows "user_wf r"
  using assms unfolding user_wf_def by blast

lemma user_wf_byID:
  assumes "user_wf r" "map_of (ar_byID r) i = Some a"
  shows "a < length (ar_users r)" "us_ID (ar_users r ! a) = i"
    "ar_byEmail r (normalizeEmail (us_Email (ar_users r ! a))) = Some a"
  using assms unfolding user_wf_def by blast+

lemma user_wf_byEmail:
  assumes "user_wf r" "ar_byEmail r k = Some a"
  shows "a < length (ar_users r)" "normalizeEmail (us_Email (ar_users r ! a)) = k"
    "map_of (ar_byID r) (us_ID (ar_users r ! a)) = Some a"
  using assms unfolding user_wf_def by blast+

lemma user_wf_inj:
  assumes "user_wf r" "map_of (ar_byID r) i = Some a" "map_of (ar_byID r) j = Some a"
  shows "i = j"
  using user_wf_byID(2) [OF assms(1,2)] user_wf_byID(2) [OF assms(1,3)] by simp

lemma acct_ID: "user_wf r \<Longrightarrow> acct r i = Some u \<Longrightarrow> us_ID u = i"
  by (auto simp: acct_def user_wf_byID(2))

lemma FindByEmail_acct:
  assumes "user_wf r" "usr_FindByEmail r email = Inr u"
  shows "acct r (us_ID u) = Some u" "normalizeEmail (us_Email u) = normalizeEmail email"
proof -
  obtain a where a: "ar_byEmail r (normalizeEmail email) = Some a" "u = ar_users r ! a"
    using assms(2) by (auto simp: usr_FindByEmail_def split: option.splits)
  show "acct r (us_ID u) = Some u" "normalizeEmail (us_Email u) = normalizeEmail email"
    using user_wf_byEmail [OF assms(1) a(1)] a(2) by (auto simp: acct_def)
qed

lemma FindByEmail_error: "usr_FindByEmail r email = Inl e \<Longrightarrow> e = AErrUserNotFound"
  by (auto simp: usr_FindByEmail_def split: option.splits)

section \<open>Moves\<close>

text \<open>What no update of an account does: change whose it is, lower its version, or lift a ban.\<close>

definition grows :: "(User \<Rightarrow> User) \<Rightarrow> bool" where
  "grows f =
     (\<forall>u. us_ID (f u) = us_ID u \<and> us_Email (f u) = us_Email u \<and> us_AuthVersion u \<le> us_AuthVersion (f u) \<and>
          (IsBanned u \<longrightarrow> IsBanned (f u)))"

text \<open>
  Tokens evolve: apart from tokens with hashes in \<open>N\<close>, every token after is one before, consumed if that one was,
  and no hash occurs more often.
\<close>

definition token_evolves :: "string set \<Rightarrow> memoryLifecycleToken list \<Rightarrow> memoryLifecycleToken list \<Rightarrow> bool" where
  "token_evolves N ts ts' =
     ((\<forall>t'\<in>set ts'. lt_TokenHash t' \<notin> N \<longrightarrow>
         (\<exists>t\<in>set ts. lt_TokenHash t = lt_TokenHash t' \<and> (lt_ConsumedAt t \<noteq> None \<longrightarrow> lt_ConsumedAt t' \<noteq> None))) \<and>
      (\<forall>h. h \<notin> N \<longrightarrow> count_list (map lt_TokenHash ts') h \<le> count_list (map lt_TokenHash ts) h))"

inductive auth_move :: "string set \<Rightarrow> string set \<Rightarrow> UserRepo \<Rightarrow> UserRepo \<Rightarrow> bool" for I N where
  modify: "map_of (ar_byID r) i = Some a \<Longrightarrow> grows f \<Longrightarrow>
             auth_move I N r (r\<lparr>ar_users := (ar_users r)[a := f (ar_users r ! a)]\<rparr>)"
| store: "ar_byEmail r (normalizeEmail (us_Email u)) = None \<Longrightarrow> map_of (ar_byID r) (us_ID u) = None \<Longrightarrow>
             us_ID u \<in> I \<Longrightarrow> auth_move I N r (store_user r u)"
| drop: "usr_DeleteAccount r i = Inr r' \<Longrightarrow> auth_move I N r r'"
| tokens: "token_evolves N (ar_emailTokens r) ets \<Longrightarrow> token_evolves N (ar_resetTokens r) rts \<Longrightarrow>
             token_evolves N (ar_reauthTokens r) ats \<Longrightarrow>
             auth_move I N r (r\<lparr>ar_emailTokens := ets, ar_resetTokens := rts, ar_reauthTokens := ats\<rparr>)"
| rows: "auth_move I N r (r\<lparr>ar_identities := ids, ar_emailOutbox := ms\<rparr>)"

definition auth_moves :: "string set \<Rightarrow> string set \<Rightarrow> UserRepo \<Rightarrow> UserRepo \<Rightarrow> bool" where
  "auth_moves I N = (auth_move I N)\<^sup>*\<^sup>*"

lemma moves_refl [simp, intro]: "auth_moves I N r r"
  by (simp add: auth_moves_def)

lemma moves_trans: "auth_moves I N r s \<Longrightarrow> auth_moves I N s t \<Longrightarrow> auth_moves I N r t"
  unfolding auth_moves_def by (rule rtranclp_trans)

lemma moves_step: "auth_move I N r s \<Longrightarrow> auth_moves I N r s"
  unfolding auth_moves_def by (rule r_into_rtranclp)

section \<open>What a move keeps\<close>

lemma wf_modify:
  assumes wf: "user_wf r" and a: "map_of (ar_byID r) i = Some a" and g: "grows f"
  shows "user_wf (r\<lparr>ar_users := (ar_users r)[a := f (ar_users r ! a)]\<rparr>)" (is "user_wf ?r")
proof (rule user_wfI)
  have same: "us_ID (ar_users ?r ! b) = us_ID (ar_users r ! b)" "us_Email (ar_users ?r ! b) = us_Email (ar_users r ! b)"
    if "b < length (ar_users r)" for b
    using g that by (cases "a = b"; simp add: grows_def)+
  show "b < length (ar_users ?r) \<and> us_ID (ar_users ?r ! b) = j \<and>
        ar_byEmail ?r (normalizeEmail (us_Email (ar_users ?r ! b))) = Some b"
    if "map_of (ar_byID ?r) j = Some b" for j b
    using user_wf_byID [OF wf, of j b] that same [of b] by simp
  show "b < length (ar_users ?r) \<and> normalizeEmail (us_Email (ar_users ?r ! b)) = k \<and>
        map_of (ar_byID ?r) (us_ID (ar_users ?r ! b)) = Some b"
    if "ar_byEmail ?r k = Some b" for k b
    using user_wf_byEmail [OF wf, of k b] that same [of b] by simp
qed

lemma stored_user_simps [simp]:
  "us_ID (stored_user u) = us_ID u" "us_Email (stored_user u) = us_Email u"
  "us_BannedAt (stored_user u) = us_BannedAt u"
  by (simp_all add: stored_user_def)

lemma store_user_simps [simp]:
  "ar_users (store_user r u) = ar_users r @ [stored_user u]"
  "map_of (ar_byID (store_user r u)) = (map_of (ar_byID r))(us_ID u \<mapsto> length (ar_users r))"
  "ar_byEmail (store_user r u) = (ar_byEmail r)(normalizeEmail (us_Email u) \<mapsto> length (ar_users r))"
  "ar_identities (store_user r u) = ar_identities r" "ar_emailTokens (store_user r u) = ar_emailTokens r"
  "ar_resetTokens (store_user r u) = ar_resetTokens r" "ar_reauthTokens (store_user r u) = ar_reauthTokens r"
  "ar_emailOutbox (store_user r u) = ar_emailOutbox r"
  by (simp_all add: store_user_def Let_def update_conv')

lemma wf_store:
  assumes wf: "user_wf r" and e: "ar_byEmail r (normalizeEmail (us_Email u)) = None"
    and i: "map_of (ar_byID r) (us_ID u) = None"
  shows "user_wf (store_user r u)" (is "user_wf ?r")
proof (rule user_wfI)
  let ?a = "length (ar_users r)"
  have nth: "b < ?a \<Longrightarrow> ar_users ?r ! b = ar_users r ! b" "ar_users ?r ! ?a = stored_user u" for b
    by (simp_all add: nth_append)
  have len: "length (ar_users ?r) = Suc ?a" by simp
  have ID: "map_of (ar_byID ?r) = (map_of (ar_byID r))(us_ID u \<mapsto> ?a)"
    and EM: "ar_byEmail ?r = (ar_byEmail r)(normalizeEmail (us_Email u) \<mapsto> ?a)"
    by simp_all
  show "b < length (ar_users ?r) \<and> us_ID (ar_users ?r ! b) = j \<and>
        ar_byEmail ?r (normalizeEmail (us_Email (ar_users ?r ! b))) = Some b"
    if "map_of (ar_byID ?r) j = Some b" for j b
  proof (cases "j = us_ID u")
    case True
    then show ?thesis using that nth len by (simp add: ID EM)
  next
    case False
    then have j: "map_of (ar_byID r) j = Some b" using that by (simp add: ID)
    note J = user_wf_byID [OF wf j]
    have "normalizeEmail (us_Email (ar_users r ! b)) \<noteq> normalizeEmail (us_Email u)" using J(3) e by auto
    with J show ?thesis by (simp add: nth_append)
  qed
  show "b < length (ar_users ?r) \<and> normalizeEmail (us_Email (ar_users ?r ! b)) = k \<and>
        map_of (ar_byID ?r) (us_ID (ar_users ?r ! b)) = Some b"
    if "ar_byEmail ?r k = Some b" for k b
  proof (cases "k = normalizeEmail (us_Email u)")
    case True
    then show ?thesis using that nth len by (simp add: ID EM)
  next
    case False
    then have k: "ar_byEmail r k = Some b" using that by (simp add: EM)
    note K = user_wf_byEmail [OF wf k]
    have "us_ID (ar_users r ! b) \<noteq> us_ID u" using K(3) i by auto
    with K show ?thesis by (simp add: nth_append)
  qed
qed

lemma wf_drop:
  assumes wf: "user_wf r" and d: "usr_DeleteAccount r i = Inr r'"
  shows "user_wf r'"
proof -
  obtain a where a: "map_of (ar_byID r) i = Some a"
    using d by (auto simp: usr_DeleteAccount_def split: option.splits)
  have r': "ar_users r' = ar_users r" "map_of (ar_byID r') = (map_of (ar_byID r))(i := None)"
    "ar_byEmail r' = (ar_byEmail r)(normalizeEmail (us_Email (ar_users r ! a)) := None)"
    using d a by (auto simp: usr_DeleteAccount_def delete_conv')
  note A = user_wf_byID [OF wf a]
  show ?thesis
  proof (rule user_wfI)
    fix j b assume "map_of (ar_byID r') j = Some b"
    then have j: "map_of (ar_byID r) j = Some b" "j \<noteq> i" by (auto simp: r' split: if_splits)
    then have "b \<noteq> a" using A(2) user_wf_byID(2) [OF wf j(1)] by auto
    then have "normalizeEmail (us_Email (ar_users r ! b)) \<noteq> normalizeEmail (us_Email (ar_users r ! a))"
      using A(3) user_wf_byID(3) [OF wf j(1)] by auto
    then show "b < length (ar_users r') \<and> us_ID (ar_users r' ! b) = j \<and>
        ar_byEmail r' (normalizeEmail (us_Email (ar_users r' ! b))) = Some b"
      using user_wf_byID [OF wf j(1)] by (simp add: r')
  next
    fix k b assume "ar_byEmail r' k = Some b"
    then have k: "ar_byEmail r k = Some b" "k \<noteq> normalizeEmail (us_Email (ar_users r ! a))"
      by (auto simp: r' split: if_splits)
    then have "us_ID (ar_users r ! b) \<noteq> i" using user_wf_byEmail [OF wf k(1)] a by auto
    then show "b < length (ar_users r') \<and> normalizeEmail (us_Email (ar_users r' ! b)) = k \<and>
        map_of (ar_byID r') (us_ID (ar_users r' ! b)) = Some b"
      using user_wf_byEmail [OF wf k(1)] by (simp add: r')
  qed
qed

lemma wf_cong:
  "ar_users r' = ar_users r \<Longrightarrow> ar_byID r' = ar_byID r \<Longrightarrow> ar_byEmail r' = ar_byEmail r \<Longrightarrow> user_wf r' = user_wf r"
  by (simp only: user_wf_def)

lemma wf_move: "auth_move I N r r' \<Longrightarrow> user_wf r \<Longrightarrow> user_wf r'"
proof (induction rule: auth_move.induct)
  case (modify r i a f)
  show ?case by (rule wf_modify [OF modify.prems modify.hyps])
next
  case (store r u)
  show ?case by (rule wf_store [OF store.prems store.hyps(1,2)])
next
  case (drop r i r')
  show ?case by (rule wf_drop [OF drop.prems drop.hyps])
next
  case (tokens r ets rts ats)
  from tokens.prems show ?case by (rule wf_cong [THEN iffD2, rotated 3]) simp_all
next
  case (rows r ids ms)
  from rows.prems show ?case by (rule wf_cong [THEN iffD2, rotated 3]) simp_all
qed

text \<open>A predicate of an account that outlives its updates and its deletion.\<close>

definition lasting :: "(User option \<Rightarrow> bool) \<Rightarrow> bool" where
  "lasting P = (P None \<and> (\<forall>f u. grows f \<longrightarrow> P (Some u) \<longrightarrow> P (Some (f u))))"

lemma acct_update:
  assumes wf: "user_wf r" and a: "map_of (ar_byID r) i = Some a"
  shows "acct (r\<lparr>ar_users := (ar_users r)[a := x]\<rparr>) j = (if j = i then Some x else acct r j)"
proof (cases "j = i")
  case True
  then show ?thesis using a user_wf_byID(1) [OF wf a] by (simp add: acct_def)
next
  case False
  have "map_of (ar_byID r) j \<noteq> Some a" using user_wf_inj [OF wf a, of j] False by auto
  then show ?thesis using False by (cases "map_of (ar_byID r) j") (auto simp: acct_def)
qed

lemma acct_store:
  assumes "user_wf r"
  shows "acct (store_user r u) j = (if j = us_ID u then Some (stored_user u) else acct r j)"
proof -
  have "map_of (ar_byID r) j = Some a \<Longrightarrow> a < length (ar_users r)" for a
    using user_wf_byID(1) [OF assms] .
  then show ?thesis
    by (cases "map_of (ar_byID r) j") (auto simp: acct_def nth_append)
qed

lemma acct_drop:
  assumes "usr_DeleteAccount r i = Inr r'"
  shows "acct r' j = (if j = i then None else acct r j)"
  using assms by (auto simp: usr_DeleteAccount_def acct_def delete_conv' split: option.splits)

lemma lasting_move:
  assumes "auth_move I N r r'" "lasting P" "u \<notin> I" "user_wf r" "P (acct r u)"
  shows "P (acct r' u)"
  using assms
proof (induction rule: auth_move.induct)
  case (modify r i a f)
  show ?case
  proof (cases "u = i")
    case True
    have "acct r i = Some (ar_users r ! a)" using modify.hyps(1) by (simp add: acct_def)
    with modify.prems modify.hyps True show ?thesis by (simp add: acct_update lasting_def)
  next
    case False
    with modify.prems modify.hyps show ?thesis by (simp add: acct_update)
  qed
next
  case (store r v)
  then have "u \<noteq> us_ID v" by auto
  with store.prems show ?case by (simp add: acct_store)
next
  case (drop r i r')
  then show ?case by (simp add: acct_drop lasting_def)
qed (simp_all add: acct_def)

lemma dom_move: "auth_move I N r r' \<Longrightarrow> dom (map_of (ar_byID r')) \<subseteq> dom (map_of (ar_byID r)) \<union> I"
proof (induction rule: auth_move.induct)
  case (store r u)
  then show ?case by (auto split: if_splits)
next
  case (drop r i r')
  then show ?case by (auto simp: usr_DeleteAccount_def delete_conv' split: option.splits if_splits)
qed auto

lemma moves_keep:
  assumes "auth_moves I N r r'" "user_wf r"
  shows "user_wf r'" "dom (map_of (ar_byID r')) \<subseteq> dom (map_of (ar_byID r)) \<union> I"
    "lasting P \<Longrightarrow> u \<notin> I \<Longrightarrow> P (acct r u) \<Longrightarrow> P (acct r' u)"
proof -
  have "user_wf r' \<and> dom (map_of (ar_byID r')) \<subseteq> dom (map_of (ar_byID r)) \<union> I \<and>
        (lasting P \<longrightarrow> u \<notin> I \<longrightarrow> P (acct r u) \<longrightarrow> P (acct r' u))"
    using assms(1) unfolding auth_moves_def
  proof (induction rule: rtranclp_induct)
    case base
    then show ?case using assms(2) by simp
  next
    case (step s t)
    with wf_move [OF step.hyps(2)] dom_move [OF step.hyps(2)] lasting_move [OF step.hyps(2), of P u]
    show ?case by blast
  qed
  then show "user_wf r'" "dom (map_of (ar_byID r')) \<subseteq> dom (map_of (ar_byID r)) \<union> I"
    "lasting P \<Longrightarrow> u \<notin> I \<Longrightarrow> P (acct r u) \<Longrightarrow> P (acct r' u)" by blast+
qed

section \<open>Every operation is made of moves\<close>

lemma moves_modify: "usr_modify r i f = Inr (r', u) \<Longrightarrow> grows f \<Longrightarrow> auth_moves I N r r'"
  by (auto simp: usr_modify_def Let_def split: option.splits intro!: moves_step auth_move.modify)

lemma grows_updates [simp, intro]:
  "grows (\<lambda>u. u\<lparr>us_PasswordHash := h, us_HasPassword := True\<rparr>)"
  "grows (\<lambda>u. u\<lparr>us_PasswordHash := h, us_HasPassword := True, us_AuthVersion := us_AuthVersion u + 1\<rparr>)"
  "grows (\<lambda>u. u\<lparr>us_PasswordHash := h, us_AuthVersion := us_AuthVersion u + 1\<rparr>)"
  "grows (\<lambda>u. u\<lparr>us_AuthVersion := us_AuthVersion u + 1\<rparr>)"
  "grows (\<lambda>u. u\<lparr>us_Role := role\<rparr>)"
  "grows (\<lambda>u. u\<lparr>us_SuspendedUntil := until, us_SuspensionReason := reason\<rparr>)"
  "grows (\<lambda>u. u\<lparr>us_BannedAt := Some now, us_BanReason := reason\<rparr>)"
  "grows (\<lambda>u. u\<lparr>us_EmailVerifiedAt := Some now\<rparr>)"
  by (simp_all add: grows_def IsBanned_def)

lemma evolves_refl [simp, intro]: "token_evolves N ts ts"
  by (auto simp: token_evolves_def)

lemma consume_token_simps [simp]:
  "lt_TokenHash (consume_token now t) = lt_TokenHash t" "lt_UserID (consume_token now t) = lt_UserID t"
  "lt_ConsumedAt (consume_token now t) = Some now" "lt_ExpiresAt (consume_token now t) = lt_ExpiresAt t"
  by (simp_all add: consume_token_def)

lemma mem_token_simps [simp]:
  "lt_TokenHash (mem_token t) = lt_TokenHash t" "lt_UserID (mem_token t) = lt_UserID t"
  "lt_ConsumedAt (mem_token t) = None" "lt_ExpiresAt (mem_token t) = lt_ExpiresAt t"
  by (simp_all add: mem_token_def)

lemma consume_all_hashes [simp]: "map lt_TokenHash (consume_all now u ts) = map lt_TokenHash ts"
  by (simp add: consume_all_def)

lemma consume_all_evolves [simp, intro]: "token_evolves N ts (consume_all now u ts)"
proof -
  have "\<exists>t\<in>set ts. lt_TokenHash t = lt_TokenHash t' \<and> (lt_ConsumedAt t \<noteq> None \<longrightarrow> lt_ConsumedAt t' \<noteq> None)"
    if "t' \<in> set (consume_all now u ts)" for t'
    using that by (auto simp: consume_all_def)
  then show ?thesis by (simp add: token_evolves_def)
qed

lemma append_evolves:
  assumes "token_evolves N ts ts'" "lt_TokenHash t \<in> N"
  shows "token_evolves N ts (ts' @ [t])"
  using assms by (auto simp: token_evolves_def)

lemma filter_evolves [simp, intro]: "token_evolves N ts (filterMemoryTokens ts u)"
proof -
  have "count_list (map lt_TokenHash (filter p ts)) h \<le> count_list (map lt_TokenHash ts) h" for p h
    by (induction ts) auto
  then show ?thesis by (auto simp: token_evolves_def filterMemoryTokens_def)
qed

lemma replace_first_Some:
  "replace_first p f xs = Some ys \<Longrightarrow>
     \<exists>pre x post. xs = pre @ x # post \<and> ys = pre @ f x # post \<and> p x \<and> (\<forall>y\<in>set pre. \<not> p y)"
proof (induction xs arbitrary: ys)
  case (Cons a xs)
  show ?case
  proof (cases "p a")
    case True
    then show ?thesis using Cons.prems by (intro exI [of _ "[]"]) auto
  next
    case False
    with Cons.prems obtain zs where zs: "replace_first p f xs = Some zs" "ys = a # zs" by auto
    from Cons.IH [OF zs(1)] obtain pre x post where
      "xs = pre @ x # post" "zs = pre @ f x # post" "p x" "\<forall>y\<in>set pre. \<not> p y" by blast
    with zs False show ?thesis by (intro exI [of _ "a # pre"]) auto
  qed
qed simp

lemma take_token_Some:
  assumes "take_token p now ts = Some (ts', t)"
  shows "\<exists>pre post. ts = pre @ t # post \<and> ts' = pre @ consume_token now t # post \<and> p t \<and>
           lt_ConsumedAt t = None \<and> now < lt_ExpiresAt t"
proof -
  have f: "find p ts = Some t" "lt_ConsumedAt t = None" "now < lt_ExpiresAt t"
    and r: "replace_first p (consume_token now) ts = Some ts'"
    using assms by (auto simp: take_token_def split: option.splits if_splits)
  from replace_first_Some [OF r] obtain pre x post where
    x: "ts = pre @ x # post" "ts' = pre @ consume_token now x # post" "p x" "\<forall>y\<in>set pre. \<not> p y" by blast
  have "find p (pre @ x # post) = Some x" using x(3,4) by (induction pre) auto
  then have "x = t" using f(1) x(1) by simp
  with x f show ?thesis by blast
qed

lemma take_token_evolves: "take_token p now ts = Some (ts', t) \<Longrightarrow> token_evolves N ts ts'"
  by (auto simp: token_evolves_def dest!: take_token_Some)

lemma moves_tokens:
  "token_evolves N (ar_emailTokens r) ts \<Longrightarrow> auth_moves I N r (r\<lparr>ar_emailTokens := ts\<rparr>)"
  "token_evolves N (ar_resetTokens r) ts \<Longrightarrow> auth_moves I N r (r\<lparr>ar_resetTokens := ts\<rparr>)"
  "token_evolves N (ar_reauthTokens r) ts \<Longrightarrow> auth_moves I N r (r\<lparr>ar_reauthTokens := ts\<rparr>)"
  using auth_move.tokens [of N r ts "ar_resetTokens r" "ar_reauthTokens r" I]
    auth_move.tokens [of N r "ar_emailTokens r" ts "ar_reauthTokens r" I]
    auth_move.tokens [of N r "ar_emailTokens r" "ar_resetTokens r" ts I]
  by (auto intro: moves_step)

lemma moves_rows:
  "auth_moves I N r (r\<lparr>ar_identities := ids\<rparr>)" "auth_moves I N r (r\<lparr>ar_emailOutbox := ms\<rparr>)"
  using auth_move.rows [where r = r and ids = ids and ms = "ar_emailOutbox r"]
    auth_move.rows [where r = r and ids = "ar_identities r" and ms = ms]
  by (auto intro: moves_step)

subsection \<open>What an operation draws\<close>

definition drawn_ids :: "auth_op \<Rightarrow> string list" where
  "drawn_ids op =
     (case op of OpRegister d _ \<Rightarrow> [ad_userID d] | OpGoogle d _ \<Rightarrow> [ad_userID d] | OpApple d _ _ \<Rightarrow> [ad_userID d]
      | _ \<Rightarrow> [])"

definition draw_hashes :: "AuthEnv \<Rightarrow> AuthDraw \<Rightarrow> string set" where
  "draw_hashes E d = (case ad_raw d of Inl _ \<Rightarrow> {} | Inr v \<Rightarrow> {ae_Sum256 E v})"

definition drawn_hashes :: "AuthEnv \<Rightarrow> auth_op \<Rightarrow> string set" where
  "drawn_hashes E op =
     (case op of OpRegister d _ \<Rightarrow> draw_hashes E d | OpResend d _ \<Rightarrow> draw_hashes E d | OpForgot d _ \<Rightarrow> draw_hashes E d
      | OpReauthPassword d _ _ \<Rightarrow> draw_hashes E d | OpReauthProvider d _ _ _ \<Rightarrow> draw_hashes E d | _ \<Rightarrow> {})"

lemma newLifecycleToken_hash:
  "newLifecycleToken E d u ttl = Inr (raw, t) \<Longrightarrow>
     lt_TokenHash t \<in> draw_hashes E d \<and> ad_raw d = Inr raw \<and> lt_UserID t = u \<and> lt_TokenHash t = ae_Sum256 E raw"
  by (auto simp: newLifecycleToken_def draw_hashes_def)

subsection \<open>Steps\<close>

lemma moves_deliver: "auth_moves I N r (fst (deliverClaimedEmail E r m now))"
  by (auto simp: deliverClaimedEmail_def usr_MarkEmailOutboxFailed_def usr_MarkEmailOutboxDelivered_def Let_def
      moves_rows split: prod.splits sum.splits option.splits)

lemma moves_deliver_claimed: "auth_moves I N r (fst (deliver_claimed E now r ms))"
proof (induction ms arbitrary: r)
  case (Cons m ms)
  obtain s ms1 res where s: "deliverClaimedEmail E r m now = (s, ms1, res)" by (metis prod_cases3)
  have "fst (deliver_claimed E now r (m # ms)) = fst (deliver_claimed E now s ms)"
    by (simp add: s split: prod.splits sum.splits)
  with moves_trans [OF moves_deliver Cons.IH] s show ?case by (metis fst_conv)
qed simp

lemma moves_outbox: "auth_moves I N r (fst (ProcessEmailOutboxOnce E now r))"
proof -
  obtain s ms where s: "usr_ClaimEmailOutbox r emailOutboxBatchSize now = (s, ms)" by fastforce
  then have "auth_moves I N r s" by (auto simp: usr_ClaimEmailOutbox_def Let_def moves_rows split: prod.splits)
  from moves_trans [OF this moves_deliver_claimed] show ?thesis
    by (simp add: ProcessEmailOutboxOnce_def s)
qed

lemma moves_deliver_by_id: "auth_moves I N r (fst (deliverEmailOutboxByID E now r i))"
proof -
  obtain s m where s: "usr_ClaimEmailOutboxByID r i now = (s, m)" by fastforce
  then have "auth_moves I N r s" by (auto simp: usr_ClaimEmailOutboxByID_def Let_def moves_rows split: prod.splits)
  from moves_trans [OF this moves_deliver] this show ?thesis
    by (simp add: deliverEmailOutboxByID_def s split: option.splits)
qed

lemma moves_CreateWithVerification:
  assumes "us_ID u \<in> I" "map_of (ar_byID r) (us_ID u) = None" "lt_TokenHash t \<in> N"
  shows "auth_moves I N r (fst (usr_CreateWithVerification r u t m hooks))"
proof (cases "ar_byEmail r (normalizeEmail (us_Email u))")
  case None
  let ?s = "store_user r u"
  let ?t = "?s\<lparr>ar_emailTokens := ar_emailTokens ?s @ [mem_token t]\<rparr>"
  have "auth_moves I N r ?s" using None assms by (intro moves_step auth_move.store)
  moreover have "auth_moves I N ?s ?t"
    using assms(3) by (intro moves_tokens append_evolves) auto
  moreover have "auth_moves I N ?t (?t\<lparr>ar_emailOutbox := ar_emailOutbox ?s @ [m]\<rparr>)" by (rule moves_rows)
  ultimately show ?thesis using None
    by (simp add: usr_CreateWithVerification_def Let_def) (blast intro: moves_trans)
qed (simp add: usr_CreateWithVerification_def)

lemma moves_CreateProviderUser:
  assumes "us_ID u \<in> I" "map_of (ar_byID r) (us_ID u) = None"
  shows "auth_moves I N r (fst (usr_CreateProviderUser r u i hooks))"
proof (cases "ar_byEmail r (normalizeEmail (us_Email u)) = None \<and>
              map_of (ar_identities r) (identityKey (ai_Provider i) (ai_ProviderSubject i)) = None")
  case True
  let ?s = "store_user r u"
  have "auth_moves I N r ?s" using True assms by (intro moves_step auth_move.store) auto
  from moves_trans [OF this moves_rows(1)] True show ?thesis
    by (simp add: usr_CreateProviderUser_def Let_def)
next
  case False
  then show ?thesis by (auto simp: usr_CreateProviderUser_def Let_def)
qed

lemma moves_Register:
  assumes "map_of (ar_byID r) (ad_userID d) = None"
  shows "auth_moves {ad_userID d} (draw_hashes E d) r (fst (RegisterContext E d r i))"
proof -
  let ?guards = "rbind (register_guards i) (\<lambda>email.
           rbind (ae_GenerateFromPassword E (ad_salt d) (ri_Password i)) (\<lambda>hash.
             let user = registered_user E d i email hash
             in rbind (newLifecycleToken E d (us_ID user) (ae_verificationTTL E)) (\<lambda>(raw, token).
                  Inr (user, token, verification_message E d user raw))))"
  show ?thesis
  proof (cases ?guards)
    case (Inl e)
    then show ?thesis by (simp add: RegisterContext_def)
  next
    case (Inr x)
    obtain u t m where x: "x = (u, t, m)" by (metis prod_cases3)
    from Inr x have u: "us_ID u = ad_userID d" and t: "lt_TokenHash t \<in> draw_hashes E d"
      by (auto simp: Let_def registered_user_def split: prod.splits dest!: newLifecycleToken_hash)
    obtain s res where s: "usr_CreateWithVerification r u t m (ae_txCreationHooks E) = (s, res)" by fastforce
    have 1: "auth_moves {ad_userID d} (draw_hashes E d) r s"
      using moves_CreateWithVerification [of u "{ad_userID d}" r t "draw_hashes E d" m "ae_txCreationHooks E"] u t assms
      by (simp add: s)
    from moves_trans [OF 1 moves_deliver_by_id] 1 show ?thesis
      by (auto simp: RegisterContext_def Inr x s split: sum.splits prod.splits)
        (metis fst_conv)
  qed
qed

lemma moves_providerLogin:
  assumes "map_of (ar_byID r) (ad_userID d) = None"
  shows "auth_moves {ad_userID d} N r (fst (loginWithProviderClaims E d r claims))"
proof -
  have 1: "auth_moves {ad_userID d} N r (fst (registerProviderUser E d r email claims))" for email
    using moves_CreateProviderUser [of "provider_user d email claims" "{ad_userID d}" r N
        "provider_identity d (us_ID (provider_user d email claims)) email claims" "ae_txCreationHooks E"] assms
    by (auto simp: registerProviderUser_def Let_def provider_user_def split: prod.splits sum.splits)
  have 2: "usr_CreateIdentity r i = Inr s \<Longrightarrow> auth_moves {ad_userID d} N r s" for i s
    by (auto simp: usr_CreateIdentity_def Let_def moves_rows split: if_splits)
  show ?thesis
    using 1 2 by (auto simp: loginWithProviderClaims_def Let_def split: sum.splits if_splits)
qed

lemma moves_Google:
  "map_of (ar_byID r) (ad_userID d) = None \<Longrightarrow> auth_moves {ad_userID d} N r (fst (LoginWithGoogle E d r cred))"
  by (auto simp: LoginWithGoogle_def moves_providerLogin split: option.splits sum.splits)

lemma moves_Apple:
  "map_of (ar_byID r) (ad_userID d) = None \<Longrightarrow> auth_moves {ad_userID d} N r (fst (LoginWithApple E d r tok fb))"
  by (auto simp: LoginWithApple_def moves_providerLogin split: option.splits sum.splits)

lemma moves_ChangePassword: "auth_moves I N r (fst (ChangePasswordAndRevoke E d r u cur new))"
  by (auto simp: ChangePasswordAndRevoke_def usr_UpdatePasswordAndRevoke_def split: sum.splits
      intro: moves_modify)

lemma moves_only_error:
  "(\<And>s u. res = Inr (s, u) \<Longrightarrow> auth_moves I N r s) \<Longrightarrow> auth_moves I N r (fst (only_error r res))"
  by (auto simp: only_error_def split: sum.splits)

lemma moves_admin:
  "auth_moves I N r (fst (RevokeSessions r u))"
  "auth_moves I N r (fst (auth_SetRole r u role))"
  "auth_moves I N r (fst (auth_Suspend r u until reason))"
  "auth_moves I N r (fst (auth_Ban now r u reason))"
  "auth_moves I N r (fst (EnsureBootstrapAdmin r email))"
  unfolding RevokeSessions_def auth_SetRole_def auth_Suspend_def auth_Ban_def EnsureBootstrapAdmin_def Let_def
    usr_IncrementAuthVersion_def usr_SetRole_def usr_Suspend_def usr_Ban_def
  by (auto intro!: moves_only_error intro: moves_modify split: sum.splits)

lemma moves_VerifyEmail: "auth_moves I N r (fst (VerifyEmail E d r raw))"
proof -
  have "auth_moves I N r (fst (usr_VerifyEmailToken r h now))" for h now
  proof (cases "take_token (\<lambda>t. lt_TokenHash t = h) now (ar_emailTokens r)")
    case (Some x)
    obtain ts t where x: "x = (ts, t)" by fastforce
    have 1: "auth_moves I N r (r\<lparr>ar_emailTokens := ts\<rparr>)"
      using Some x by (auto intro: moves_tokens take_token_evolves)
    from moves_trans [OF 1 moves_modify] 1 show ?thesis
      by (auto simp: usr_VerifyEmailToken_def Some x Let_def split: sum.splits)
  qed (simp add: usr_VerifyEmailToken_def)
  then show ?thesis by (auto simp: VerifyEmail_def split: prod.splits sum.splits) (metis fst_conv)+
qed

lemma moves_Resend: "auth_moves I (draw_hashes E d) r (fst (ResendVerification E d r email))"
  by (auto simp: ResendVerification_def usr_SaveEmailVerificationToken_def split: sum.splits
      intro!: moves_tokens append_evolves dest!: newLifecycleToken_hash)

lemma moves_Forgot: "auth_moves I (draw_hashes E d) r (fst (ForgotPassword E d r email))"
  by (auto simp: ForgotPassword_def usr_SavePasswordResetToken_def split: sum.splits
      intro!: moves_tokens append_evolves dest!: newLifecycleToken_hash)

lemma moves_Reset: "auth_moves I N r (fst (ResetPassword E d r raw new))"
proof -
  have "auth_moves I N r (fst (usr_ResetPasswordToken r h pw now))" for h pw now
  proof (cases "take_token (\<lambda>t. lt_TokenHash t = h) now (ar_resetTokens r)")
    case (Some x)
    obtain ts t where x: "x = (ts, t)" by fastforce
    have 1: "auth_moves I N r (r\<lparr>ar_resetTokens := ts\<rparr>)"
      using Some x by (auto intro: moves_tokens take_token_evolves)
    have 2: "auth_moves I N r (s\<lparr>ar_resetTokens := consume_all now v (ar_resetTokens s)\<rparr>)"
      if "usr_modify (r\<lparr>ar_resetTokens := ts\<rparr>) i f = Inr (s, u)" "grows f" for i f s u v
      using moves_trans [OF 1 moves_modify [OF that]] by (rule moves_trans) (intro moves_tokens consume_all_evolves)
    show ?thesis
      using 1 2 by (auto simp: usr_ResetPasswordToken_def Some x Let_def split: sum.splits)
  qed (simp add: usr_ResetPasswordToken_def)
  then show ?thesis by (auto simp: ResetPassword_def split: prod.splits sum.splits) (metis fst_conv)+
qed

lemma moves_createReauth: "auth_moves I (draw_hashes E d) r (fst (createReauthentication E d r u))"
  by (auto simp: createReauthentication_def usr_SaveReauthenticationToken_def split: sum.splits
      intro!: moves_tokens append_evolves dest!: newLifecycleToken_hash)

lemma moves_ReauthPassword: "auth_moves I (draw_hashes E d) r (fst (ReauthenticatePassword E d r u pw))"
  by (auto simp: ReauthenticatePassword_def moves_createReauth split: sum.splits)

lemma moves_ReauthProvider: "auth_moves I (draw_hashes E d) r (fst (ReauthenticateProvider E d r u p cred))"
  by (auto simp: ReauthenticateProvider_def moves_createReauth split: sum.splits)

lemma moves_consumeReauth: "consumeReauthentication E now r u raw = Inr s \<Longrightarrow> auth_moves I N r s"
  by (auto simp: consumeReauthentication_def usr_ConsumeReauthenticationToken_def split: if_splits option.splits
      intro!: moves_tokens take_token_evolves)

lemma moves_SetFirstPassword: "auth_moves I N r (fst (SetFirstPassword E d r u raw new))"
  by (auto simp: SetFirstPassword_def usr_UpdatePasswordAndRevoke_def split: sum.splits
      dest!: moves_consumeReauth [where I = I and N = N] intro: moves_trans moves_modify)

lemma moves_DeleteAccount: "auth_moves I N r (fst (auth_DeleteAccount E now r u raw))"
  by (auto simp: auth_DeleteAccount_def split: sum.splits
      dest!: moves_consumeReauth [where I = I and N = N] intro: moves_trans moves_step auth_move.drop)

lemma auth_step_moves:
  assumes "\<And>i. i \<in> set (drawn_ids op) \<Longrightarrow> map_of (ar_byID r) i = None"
  shows "auth_moves (set (drawn_ids op)) (drawn_hashes E op) r (auth_step E op r)"
  using assms
  by (cases op) (simp_all add: drawn_ids_def drawn_hashes_def moves_Register moves_Google moves_Apple
      moves_ChangePassword moves_admin moves_VerifyEmail moves_Resend moves_Forgot moves_Reset moves_ReauthPassword
      moves_ReauthProvider moves_SetFirstPassword moves_DeleteAccount moves_outbox)

end
