(* ===== verification/AuthTokens.thy ===== *)
theory AuthTokens
  imports AuthLaws
begin

text \<open>
  Single use of the lifecycle tokens, stated once as a contract: something that is spent when it is accepted, stays
  spent and is refused from then on is accepted at most once in any run. The verification, reset and
  reauthentication tokens of the service are three interpretations.
\<close>

section \<open>A run and what it accepts\<close>

fun accept_count :: "('op \<Rightarrow> 's \<Rightarrow> 's) \<Rightarrow> ('op \<Rightarrow> 's \<Rightarrow> bool) \<Rightarrow> 'op list \<Rightarrow> 's \<Rightarrow> nat" where
  "accept_count step acc [] s = 0"
| "accept_count step acc (op # ops) s = (if acc op s then 1 else 0) + accept_count step acc ops (step op s)"

fun along :: "('op \<Rightarrow> 's \<Rightarrow> 's) \<Rightarrow> ('op \<Rightarrow> 's \<Rightarrow> bool) \<Rightarrow> 'op list \<Rightarrow> 's \<Rightarrow> bool" where
  "along step ok [] s = True"
| "along step ok (op # ops) s = (ok op s \<and> along step ok ops (step op s))"

locale single_use =
  fixes step :: "'op \<Rightarrow> 's \<Rightarrow> 's"
    and ok :: "'op \<Rightarrow> 's \<Rightarrow> bool"
    and accepts :: "'op \<Rightarrow> 's \<Rightarrow> bool"
    and one :: "'s \<Rightarrow> bool"
    and spent :: "'s \<Rightarrow> bool"
  assumes one_kept: "ok op s \<Longrightarrow> one s \<Longrightarrow> one (step op s)"
    and spent_kept: "ok op s \<Longrightarrow> spent s \<Longrightarrow> spent (step op s)"
    and accepting_spends: "ok op s \<Longrightarrow> one s \<Longrightarrow> accepts op s \<Longrightarrow> spent (step op s)"
    and spent_refuses: "spent s \<Longrightarrow> \<not> accepts op s"
begin

lemma spent_never: "along step ok ops s \<Longrightarrow> spent s \<Longrightarrow> accept_count step accepts ops s = 0"
proof (induction ops arbitrary: s)
  case (Cons op ops)
  then show ?case using spent_kept spent_refuses by simp
qed simp

lemma at_most_once: "along step ok ops s \<Longrightarrow> one s \<Longrightarrow> accept_count step accepts ops s \<le> 1"
proof (induction ops arbitrary: s)
  case (Cons op ops)
  show ?case
  proof (cases "accepts op s")
    case True
    then have "accept_count step accepts ops (step op s) = 0"
      using Cons.prems accepting_spends by (intro spent_never) auto
    with True show ?thesis by simp
  next
    case False
    with Cons.IH [of "step op s"] Cons.prems one_kept show ?thesis by simp
  qed
qed simp

end

section \<open>Spent tokens\<close>

definition token_once :: "string \<Rightarrow> memoryLifecycleToken list \<Rightarrow> bool" where
  "token_once h ts = (count_list (map lt_TokenHash ts) h \<le> 1)"

definition token_spent :: "string \<Rightarrow> memoryLifecycleToken list \<Rightarrow> bool" where
  "token_spent h ts = list_all (\<lambda>t. lt_TokenHash t = h \<longrightarrow> lt_ConsumedAt t \<noteq> None) ts"

lemma token_spent_iff: "token_spent h ts = (\<forall>t\<in>set ts. lt_TokenHash t = h \<longrightarrow> lt_ConsumedAt t \<noteq> None)"
  by (simp add: token_spent_def list_all_iff)

lemma once_evolves: "token_evolves N ts ts' \<Longrightarrow> h \<notin> N \<Longrightarrow> token_once h ts \<Longrightarrow> token_once h ts'"
  unfolding token_evolves_def token_once_def by (meson le_trans)

lemma spent_evolves: "token_evolves N ts ts' \<Longrightarrow> h \<notin> N \<Longrightarrow> token_spent h ts \<Longrightarrow> token_spent h ts'"
  unfolding token_evolves_def token_spent_iff by metis

lemma take_token_spends:
  assumes "take_token p now ts = Some (ts', t)" "token_once h ts" "lt_TokenHash t = h"
  shows "token_spent h ts'"
proof -
  obtain pre post where ts: "ts = pre @ t # post" "ts' = pre @ consume_token now t # post"
    using take_token_Some [OF assms(1)] by blast
  have "count_list (map lt_TokenHash pre) h = 0" "count_list (map lt_TokenHash post) h = 0"
    using assms(2,3) by (auto simp: ts(1) token_once_def)
  then have "h \<notin> lt_TokenHash ` set pre" "h \<notin> lt_TokenHash ` set post"
    by (simp_all add: count_list_0_iff)
  then show ?thesis by (auto simp: ts(2) token_spent_iff)
qed

lemma take_token_spent:
  assumes "token_spent h ts" "\<And>t. p t \<Longrightarrow> lt_TokenHash t = h"
  shows "take_token p now ts = None"
proof (cases "take_token p now ts")
  case (Some x)
  then obtain ts' t where "take_token p now ts = Some (ts', t)" by (metis surj_pair)
  from take_token_Some [OF this] assms show ?thesis by (auto simp: token_spent_iff)
qed simp

lemma consume_all_spent [simp]: "token_spent h ts \<Longrightarrow> token_spent h (consume_all now u ts)"
  by (auto simp: token_spent_iff consume_all_def)

lemma filter_spent [simp]: "token_spent h ts \<Longrightarrow> token_spent h (filterMemoryTokens ts u)"
  by (auto simp: token_spent_iff filterMemoryTokens_def)

section \<open>Moves and tokens\<close>

lemma tokens_move:
  assumes "auth_move I N r r'"
  shows "token_evolves N (ar_emailTokens r) (ar_emailTokens r')"
    "token_evolves N (ar_resetTokens r) (ar_resetTokens r')"
    "token_evolves N (ar_reauthTokens r) (ar_reauthTokens r')"
  using assms by (induction rule: auth_move.induct) (auto simp: usr_DeleteAccount_def split: option.splits)

lemma tokens_moves:
  assumes "auth_moves I N r r'" "h \<notin> N"
    "\<And>s s'. auth_move I N s s' \<Longrightarrow> token_evolves N (sel s) (sel s')"
  shows "token_once h (sel r) \<Longrightarrow> token_once h (sel r')" "token_spent h (sel r) \<Longrightarrow> token_spent h (sel r')"
proof -
  have "(token_once h (sel r) \<longrightarrow> token_once h (sel r')) \<and> (token_spent h (sel r) \<longrightarrow> token_spent h (sel r'))"
    using assms(1) unfolding auth_moves_def
  proof (induction rule: rtranclp_induct)
    case (step s t)
    from once_evolves [OF assms(3) [OF step.hyps(2)] assms(2)] spent_evolves [OF assms(3) [OF step.hyps(2)] assms(2)]
      step.IH show ?case by blast
  qed simp
  then show "token_once h (sel r) \<Longrightarrow> token_once h (sel r')" "token_spent h (sel r) \<Longrightarrow> token_spent h (sel r')"
    by blast+
qed

text \<open>A step whose identifiers are new and that does not draw the token with hash \<open>h\<close> again.\<close>

definition fresh_step :: "AuthEnv \<Rightarrow> string \<Rightarrow> auth_op \<Rightarrow> UserRepo \<Rightarrow> bool" where
  "fresh_step E h op r =
     (list_all (\<lambda>i. map_of (ar_byID r) i = None) (drawn_ids op) \<and> h \<notin> drawn_hashes E op)"

lemma fresh_step_moves:
  "fresh_step E h op r \<Longrightarrow> auth_moves (set (drawn_ids op)) (drawn_hashes E op) r (auth_step E op r) \<and> h \<notin> drawn_hashes E op"
  by (intro conjI auth_step_moves) (auto simp: fresh_step_def list_all_iff)

section \<open>The three kinds\<close>

fun accepts_verification :: "AuthEnv \<Rightarrow> string \<Rightarrow> auth_op \<Rightarrow> UserRepo \<Rightarrow> bool" where
  "accepts_verification E h (OpVerifyEmail d raw) r =
     (hashLifecycleToken E raw = h \<and> is_ok (snd (usr_VerifyEmailToken r h (ad_now d))))"
| "accepts_verification E h _ r = False"

fun accepts_reset :: "AuthEnv \<Rightarrow> string \<Rightarrow> auth_op \<Rightarrow> UserRepo \<Rightarrow> bool" where
  "accepts_reset E h (OpReset d raw new) r =
     (hashLifecycleToken E raw = h \<and> is_ok (snd (ResetPassword E d r raw new)))"
| "accepts_reset E h _ r = False"

fun accepts_reauth :: "AuthEnv \<Rightarrow> string \<Rightarrow> auth_op \<Rightarrow> UserRepo \<Rightarrow> bool" where
  "accepts_reauth E h (OpDeleteAccount d u raw) r =
     (hashLifecycleToken E raw = h \<and> is_ok (snd (auth_DeleteAccount E (ad_now d) r u raw)))"
| "accepts_reauth E h (OpSetFirstPassword d u raw new) r =
     (hashLifecycleToken E raw = h \<and> is_ok (snd (SetFirstPassword E d r u raw new)))"
| "accepts_reauth E h _ r = False"

lemma verification_spends:
  assumes "token_once h (ar_emailTokens r)" "accepts_verification E h op r"
  shows "token_spent h (ar_emailTokens (auth_step E op r))"
proof -
  obtain d raw where op: "op = OpVerifyEmail d raw" "hashLifecycleToken E raw = h"
    "is_ok (snd (usr_VerifyEmailToken r h (ad_now d)))"
    using assms(2) by (cases op) auto
  then obtain s u where s: "usr_VerifyEmailToken r h (ad_now d) = (s, Inr u)"
    by (cases "usr_VerifyEmailToken r h (ad_now d)") (auto simp: is_ok_iff)
  then obtain ts t where t: "take_token (\<lambda>t. lt_TokenHash t = h) (ad_now d) (ar_emailTokens r) = Some (ts, t)"
    "ar_emailTokens s = ts"
    by (auto simp: usr_VerifyEmailToken_def usr_modify_def Let_def split: option.splits sum.splits)
  from take_token_Some [OF t(1)] take_token_spends [OF t(1) assms(1)] have "token_spent h ts" by auto
  with s t(2) op show ?thesis by (auto simp: VerifyEmail_def)
qed

lemma reset_spends:
  assumes "token_once h (ar_resetTokens r)" "accepts_reset E h op r"
  shows "token_spent h (ar_resetTokens (auth_step E op r))"
proof -
  obtain d raw new where op: "op = OpReset d raw new" "hashLifecycleToken E raw = h"
    "is_ok (snd (ResetPassword E d r raw new))"
    using assms(2) by (cases op) auto
  then obtain pw s u where s: "usr_ResetPasswordToken r h pw (ad_now d) = (s, Inr u)" "auth_step E op r = s"
    by (auto simp: ResetPassword_def split: sum.splits prod.splits if_splits)
  from s(1) obtain ts t where t: "take_token (\<lambda>t. lt_TokenHash t = h) (ad_now d) (ar_resetTokens r) = Some (ts, t)"
    "ar_resetTokens s = consume_all (ad_now d) (us_ID u) ts"
    by (auto simp: usr_ResetPasswordToken_def usr_modify_def Let_def split: option.splits sum.splits if_splits)
  from take_token_Some [OF t(1)] take_token_spends [OF t(1) assms(1)] have "token_spent h ts" by auto
  with s t(2) show ?thesis by simp
qed

lemma consumed_reauth:
  assumes "token_once (hashLifecycleToken E raw) (ar_reauthTokens r)" "consumeReauthentication E now r u raw = Inr s"
  shows "token_spent (hashLifecycleToken E raw) (ar_reauthTokens s)"
proof -
  let ?h = "hashLifecycleToken E raw"
  let ?p = "\<lambda>t. \<not> (lt_UserID t \<noteq> u \<or> lt_TokenHash t \<noteq> ?h)"
  obtain ts t where t: "take_token ?p now (ar_reauthTokens r) = Some (ts, t)" "ar_reauthTokens s = ts"
    using assms(2) by (auto simp: consumeReauthentication_def usr_ConsumeReauthenticationToken_def
        split: if_splits option.splits)
  from take_token_Some [OF t(1)] take_token_spends [OF t(1) assms(1)] t(2) show ?thesis by auto
qed

lemma reauth_spends:
  assumes "token_once h (ar_reauthTokens r)" "accepts_reauth E h op r"
  shows "token_spent h (ar_reauthTokens (auth_step E op r))"
proof (cases op)
  case (OpDeleteAccount d u raw)
  with assms(2) have op: "hashLifecycleToken E raw = h" "is_ok (snd (auth_DeleteAccount E (ad_now d) r u raw))" by auto
  then obtain s s' where s: "consumeReauthentication E (ad_now d) r u raw = Inr s" "usr_DeleteAccount s u = Inr s'"
    "auth_step E op r = s'"
    using OpDeleteAccount by (auto simp: auth_DeleteAccount_def split: sum.splits)
  have "ar_reauthTokens s' = filterMemoryTokens (ar_reauthTokens s) u"
    using s(2) by (auto simp: usr_DeleteAccount_def split: option.splits)
  with consumed_reauth [OF _ s(1)] assms(1) op(1) s(3) show ?thesis by simp
next
  case (OpSetFirstPassword d u raw new)
  with assms(2) have op: "hashLifecycleToken E raw = h" "is_ok (snd (SetFirstPassword E d r u raw new))" by auto
  then obtain s pw s' y where s: "consumeReauthentication E (ad_now d) r u raw = Inr s"
    "usr_UpdatePasswordAndRevoke s u pw = Inr (s', y)" "auth_step E op r = s'"
    using OpSetFirstPassword by (auto simp: SetFirstPassword_def split: sum.splits if_splits)
  have "ar_reauthTokens s' = ar_reauthTokens s"
    using s(2) by (auto simp: usr_UpdatePasswordAndRevoke_def usr_modify_def Let_def split: option.splits)
  with consumed_reauth [OF _ s(1)] assms(1) op(1) s(3) show ?thesis by simp
qed (use assms(2) in auto)

interpretation verification: single_use "auth_step E" "fresh_step E h" "accepts_verification E h"
  "\<lambda>r. token_once h (ar_emailTokens r)" "\<lambda>r. token_spent h (ar_emailTokens r)" for E h
proof unfold_locales
  fix op and r :: UserRepo
  assume f: "fresh_step E h op r"
  note keep = tokens_moves [where sel = ar_emailTokens, OF conjunct1 conjunct2 tokens_move(1), OF fresh_step_moves [OF f]
      fresh_step_moves [OF f]]
  show "token_once h (ar_emailTokens r) \<Longrightarrow> token_once h (ar_emailTokens (auth_step E op r))" by (rule keep(1))
  show "token_spent h (ar_emailTokens r) \<Longrightarrow> token_spent h (ar_emailTokens (auth_step E op r))" by (rule keep(2))
  show "token_once h (ar_emailTokens r) \<Longrightarrow> accepts_verification E h op r \<Longrightarrow>
    token_spent h (ar_emailTokens (auth_step E op r))" by (rule verification_spends)
next
  fix op and r :: UserRepo
  assume "token_spent h (ar_emailTokens r)"
  then show "\<not> accepts_verification E h op r"
    by (cases op) (auto simp: usr_VerifyEmailToken_def take_token_spent)
qed

interpretation reset: single_use "auth_step E" "fresh_step E h" "accepts_reset E h"
  "\<lambda>r. token_once h (ar_resetTokens r)" "\<lambda>r. token_spent h (ar_resetTokens r)" for E h
proof unfold_locales
  fix op and r :: UserRepo
  assume f: "fresh_step E h op r"
  note keep = tokens_moves [where sel = ar_resetTokens, OF conjunct1 conjunct2 tokens_move(2), OF fresh_step_moves [OF f]
      fresh_step_moves [OF f]]
  show "token_once h (ar_resetTokens r) \<Longrightarrow> token_once h (ar_resetTokens (auth_step E op r))" by (rule keep(1))
  show "token_spent h (ar_resetTokens r) \<Longrightarrow> token_spent h (ar_resetTokens (auth_step E op r))" by (rule keep(2))
  show "token_once h (ar_resetTokens r) \<Longrightarrow> accepts_reset E h op r \<Longrightarrow>
    token_spent h (ar_resetTokens (auth_step E op r))" by (rule reset_spends)
next
  fix op and r :: UserRepo
  assume "token_spent h (ar_resetTokens r)"
  then show "\<not> accepts_reset E h op r"
    by (cases op) (auto simp: ResetPassword_def usr_ResetPasswordToken_def take_token_spent split: sum.splits)
qed

interpretation reauth: single_use "auth_step E" "fresh_step E h" "accepts_reauth E h"
  "\<lambda>r. token_once h (ar_reauthTokens r)" "\<lambda>r. token_spent h (ar_reauthTokens r)" for E h
proof unfold_locales
  fix op and r :: UserRepo
  assume f: "fresh_step E h op r"
  note keep = tokens_moves [where sel = ar_reauthTokens, OF conjunct1 conjunct2 tokens_move(3), OF fresh_step_moves [OF f]
      fresh_step_moves [OF f]]
  show "token_once h (ar_reauthTokens r) \<Longrightarrow> token_once h (ar_reauthTokens (auth_step E op r))" by (rule keep(1))
  show "token_spent h (ar_reauthTokens r) \<Longrightarrow> token_spent h (ar_reauthTokens (auth_step E op r))" by (rule keep(2))
  show "token_once h (ar_reauthTokens r) \<Longrightarrow> accepts_reauth E h op r \<Longrightarrow>
    token_spent h (ar_reauthTokens (auth_step E op r))" by (rule reauth_spends)
next
  fix op and r :: UserRepo
  assume s: "token_spent h (ar_reauthTokens r)"
  have "consumeReauthentication E now r u raw = Inl ErrReauthenticationRequired"
    if "hashLifecycleToken E raw = h" for now u raw
    using take_token_spent [OF s, of "\<lambda>t. lt_UserID t = u \<and> lt_TokenHash t = h" now] that
    by (simp add: consumeReauthentication_def usr_ConsumeReauthenticationToken_def)
  then show "\<not> accepts_reauth E h op r"
    by (cases op) (auto simp: auth_DeleteAccount_def SetFirstPassword_def FindByID_acct split: option.splits sum.splits)
qed

end
