(* ===== verification/AuthSessions.thy ===== *)
theory AuthSessions
  imports AuthTokens
begin

text \<open>
  Runs of the account service: identifiers are drawn fresh, the two indexes keep agreeing, an account that lost a
  version or was banned stays that way, and a lifecycle token is accepted at most once.
\<close>

section \<open>Runs\<close>

text \<open>The identifiers a run draws are new: not those of an account, and no two the same (they are random UUIDs).\<close>

definition fresh_run :: "UserRepo \<Rightarrow> auth_op list \<Rightarrow> bool" where
  "fresh_run r ops =
     (let ids = concat (map drawn_ids ops)
      in distinct ids \<and> list_all (\<lambda>i. map_of (ar_byID r) i = None) ids)"

lemma fresh_run_Nil [simp]: "fresh_run r []"
  by (simp add: fresh_run_def)

lemma fresh_run_now: "fresh_run r (op # ops) \<Longrightarrow> i \<in> set (drawn_ids op) \<Longrightarrow> map_of (ar_byID r) i = None"
  by (simp add: fresh_run_def list_all_iff)

lemma fresh_run_later:
  assumes "fresh_run r (op # ops)" "user_wf r"
  shows "fresh_run (auth_step E op r) ops"
proof -
  let ?ids = "concat (map drawn_ids ops)"
  have d: "distinct ?ids" "set (drawn_ids op) \<inter> set ?ids = {}" "\<forall>i\<in>set ?ids. map_of (ar_byID r) i = None"
    using assms(1) by (auto simp: fresh_run_def list_all_iff)
  have "dom (map_of (ar_byID (auth_step E op r))) \<subseteq> dom (map_of (ar_byID r)) \<union> set (drawn_ids op)"
    using moves_keep(2) [OF auth_step_moves [OF fresh_run_now [OF assms(1)]] assms(2)] .
  then have "map_of (ar_byID (auth_step E op r)) i = None" if "i \<in> set ?ids" for i
    using that d(2,3) by (meson domIff disjoint_iff in_mono Un_iff)
  with d(1) show ?thesis by (simp add: fresh_run_def list_all_iff)
qed

lemma auth_run_append: "auth_run E (ops @ ops') r = auth_run E ops' (auth_run E ops r)"
  by (induction ops arbitrary: r) auto

lemma fresh_run_append: "fresh_run r (ops @ ops') \<Longrightarrow> fresh_run r ops"
  by (auto simp: fresh_run_def list_all_iff)

lemma run_keeps:
  assumes "user_wf r" "fresh_run r ops"
  shows "user_wf (auth_run E ops r)"
    "lasting P \<Longrightarrow> map_of (ar_byID r) u \<noteq> None \<or> u \<notin> set (concat (map drawn_ids ops)) \<Longrightarrow> P (acct r u) \<Longrightarrow>
       P (acct (auth_run E ops r) u)"
proof -
  have "user_wf (auth_run E ops r) \<and>
        (lasting P \<longrightarrow> u \<notin> set (concat (map drawn_ids ops)) \<longrightarrow> P (acct r u) \<longrightarrow> P (acct (auth_run E ops r) u))"
    using assms
  proof (induction ops arbitrary: r)
    case (Cons op ops)
    let ?s = "auth_step E op r"
    note mv = auth_step_moves [OF fresh_run_now [OF Cons.prems(2)], where E = E]
    note keep = moves_keep [OF mv Cons.prems(1)]
    from Cons.IH [OF keep(1) fresh_run_later [OF Cons.prems(2,1)]] keep(3) [where P = P and u = u] show ?case by auto
  qed simp
  moreover have "map_of (ar_byID r) u \<noteq> None \<Longrightarrow> u \<notin> set (concat (map drawn_ids ops))"
    using assms(2) by (auto simp: fresh_run_def list_all_iff)
  ultimately show "user_wf (auth_run E ops r)"
    "lasting P \<Longrightarrow> map_of (ar_byID r) u \<noteq> None \<or> u \<notin> set (concat (map drawn_ids ops)) \<Longrightarrow> P (acct r u) \<Longrightarrow>
       P (acct (auth_run E ops r) u)" by blast+
qed

lemma fresh_run_skip:
  assumes "fresh_run r (ops @ ops')" "user_wf r"
  shows "fresh_run (auth_run E ops r) ops'"
  using assms
proof (induction ops arbitrary: r)
  case (Cons op ops)
  have f: "fresh_run r (op # ops @ ops')" using Cons.prems(1) by simp
  note keep = moves_keep(1) [OF auth_step_moves [OF fresh_run_now [OF f]] Cons.prems(2), where E1 = E]
  from Cons.IH [OF fresh_run_later [OF f Cons.prems(2)] keep] show ?case by simp
qed simp

lemma acct_known: "acct r u = Some x \<Longrightarrow> map_of (ar_byID r) u \<noteq> None"
  by (auto simp: acct_def)

section \<open>What an update does to the accounts\<close>

lemma usr_modify_acct:
  assumes "user_wf r" "usr_modify r i f = Inr (s, y)"
  shows "\<exists>x. acct r i = Some x \<and> y = f x" "acct s j = (if j = i then Some y else acct r j)"
proof -
  obtain a where a: "map_of (ar_byID r) i = Some a" "y = f (ar_users r ! a)"
    "s = r\<lparr>ar_users := (ar_users r)[a := y]\<rparr>"
    using assms(2) by (auto simp: usr_modify_def Let_def split: option.splits)
  show "\<exists>x. acct r i = Some x \<and> y = f x" using a by (simp add: acct_def)
  show "acct s j = (if j = i then Some y else acct r j)"
    unfolding a(3) by (rule acct_update [OF assms(1) a(1)])
qed

lemma usr_modify_byID: "usr_modify r i f = Inr (s, y) \<Longrightarrow> ar_byID s = ar_byID r"
  by (auto simp: usr_modify_def Let_def split: option.splits)

lemma acct_tokens [simp]:
  "acct (r\<lparr>ar_emailTokens := ts\<rparr>) u = acct r u" "acct (r\<lparr>ar_resetTokens := ts\<rparr>) u = acct r u"
  "acct (r\<lparr>ar_reauthTokens := ts\<rparr>) u = acct r u" "acct (r\<lparr>ar_identities := ids\<rparr>) u = acct r u"
  by (simp_all add: acct_def)

lemma wf_tokens [simp]:
  "user_wf (r\<lparr>ar_emailTokens := ts\<rparr>) = user_wf r" "user_wf (r\<lparr>ar_resetTokens := ts\<rparr>) = user_wf r"
  "user_wf (r\<lparr>ar_reauthTokens := ts\<rparr>) = user_wf r" "user_wf (r\<lparr>ar_identities := ids\<rparr>) = user_wf r"
  by (rule wf_cong; simp)+

lemma consumeReauth_acct:
  assumes "consumeReauthentication E now r u raw = Inr s"
  shows "acct s i = acct r i" "user_wf s = user_wf r"
  using assms
  by (auto simp: consumeReauthentication_def usr_ConsumeReauthenticationToken_def split: if_splits option.splits)

section \<open>Sessions\<close>

text \<open>
  What the JWT library is relied on for: the claims of a token do not change with time, and a signed token parses,
  until it expires, to claims for the user and version it was signed for.
\<close>

definition jwt_stable :: "AuthEnv \<Rightarrow> bool" where
  "jwt_stable E =
     (\<forall>t now now' c c'. ae_ParseWithClaims E now t = Some c \<longrightarrow> ae_ParseWithClaims E now' t = Some c' \<longrightarrow> c' = c)"

definition jwt_ok :: "AuthEnv \<Rightarrow> bool" where
  "jwt_ok E =
     (\<forall>c t now. ae_SignedString E c = Inr t \<longrightarrow> cl_IssuedAt c \<le> now \<longrightarrow> now < cl_ExpiresAt c \<longrightarrow>
        TrimSpace t \<noteq> [] \<and>
        (\<exists>c'. ae_ParseWithClaims E now t = Some c' \<and> cl_UserID c' = cl_UserID c \<and>
              cl_AuthVersion c' = cl_AuthVersion c))"

lemma admitted_iff:
  "RequireAuthWithUser E now r rq = Inr u \<longleftrightarrow>
     (\<exists>t c x. sessionToken rq = Some t \<and> ae_ParseWithClaims E now t = Some c \<and> cl_UserID c = u \<and>
        acct r u = Some x \<and> us_AuthVersion x = cl_AuthVersion c \<and> \<not> IsBanned x)"
  by (auto simp: RequireAuthWithUser_def RequireAuth_def Parse_def FindByID_acct split: option.splits sum.splits
      if_splits)

text \<open>The operations that end the sessions of a user, when they succeed.\<close>

definition ends_sessions :: "AuthEnv \<Rightarrow> auth_op \<Rightarrow> UserRepo \<Rightarrow> string \<Rightarrow> bool" where
  "ends_sessions E op r u =
     (case op of
        OpChangePassword d v cur new \<Rightarrow> v = u \<and> is_ok (snd (ChangePasswordAndRevoke E d r v cur new))
      | OpSetFirstPassword d v raw new \<Rightarrow> v = u \<and> is_ok (snd (SetFirstPassword E d r v raw new))
      | OpRevoke v \<Rightarrow> v = u \<and> is_ok (snd (RevokeSessions r v))
      | OpDeleteAccount d v raw \<Rightarrow> v = u \<and> is_ok (snd (auth_DeleteAccount E (ad_now d) r v raw))
      | OpReset d raw new \<Rightarrow>
          is_ok (snd (ResetPassword E d r raw new)) \<and>
          list_ex (\<lambda>t. lt_TokenHash t = hashLifecycleToken E raw \<and> lt_UserID t = u) (ar_resetTokens r) \<and>
          list_all (\<lambda>t. lt_TokenHash t = hashLifecycleToken E raw \<longrightarrow> lt_UserID t = u) (ar_resetTokens r)
      | _ \<Rightarrow> False)"

definition outversions :: "int \<Rightarrow> User option \<Rightarrow> bool" where
  "outversions v x = (case x of None \<Rightarrow> True | Some y \<Rightarrow> v < us_AuthVersion y)"

lemma outversions_lasting: "lasting (outversions v)"
  by (auto simp: lasting_def outversions_def grows_def intro: less_le_trans)

lemma modify_outversions:
  assumes "user_wf r" "usr_modify r i f = Inr (s, y)" "acct r i = Some x" "us_AuthVersion x < us_AuthVersion (f x)"
  shows "outversions (us_AuthVersion x) (acct s i)"
  using usr_modify_acct [OF assms(1,2)] assms(3,4) by (auto simp: outversions_def)

lemma ends_sessions_outversions:
  assumes wf: "user_wf r" and x: "acct r u = Some x" and ends: "ends_sessions E op r u"
  shows "outversions (us_AuthVersion x) (acct (auth_step E op r) u)"
proof (cases op)
  case (OpChangePassword d v cur new)
  with ends have "v = u" "is_ok (snd (ChangePasswordAndRevoke E d r u cur new))" by (auto simp: ends_sessions_def)
  then show ?thesis using OpChangePassword modify_outversions [OF wf _ x]
    by (fastforce simp: ChangePasswordAndRevoke_def usr_UpdatePasswordAndRevoke_def split: sum.splits if_splits)
next
  case (OpSetFirstPassword d v raw new)
  with ends have v: "v = u" "is_ok (snd (SetFirstPassword E d r u raw new))" by (auto simp: ends_sessions_def)
  then obtain s h t y where s: "consumeReauthentication E (ad_now d) r u raw = Inr s"
    "usr_UpdatePasswordAndRevoke s u h = Inr (t, y)" "auth_step E op r = t"
    using OpSetFirstPassword by (auto simp: SetFirstPassword_def split: sum.splits if_splits)
  from consumeReauth_acct [OF s(1)] wf x have "user_wf s" "acct s u = Some x" by auto
  with s(2) show ?thesis unfolding s(3) usr_UpdatePasswordAndRevoke_def by (auto intro: modify_outversions)
next
  case (OpRevoke v)
  with ends have "v = u" "is_ok (snd (RevokeSessions r u))" by (auto simp: ends_sessions_def)
  then show ?thesis using OpRevoke modify_outversions [OF wf _ x]
    by (fastforce simp: RevokeSessions_def only_error_def usr_IncrementAuthVersion_def split: sum.splits)
next
  case (OpDeleteAccount d v raw)
  with ends have v: "v = u" "is_ok (snd (auth_DeleteAccount E (ad_now d) r u raw))" by (auto simp: ends_sessions_def)
  then obtain s t where "usr_DeleteAccount s u = Inr t" "auth_step E op r = t"
    using OpDeleteAccount by (auto simp: auth_DeleteAccount_def split: sum.splits)
  then show ?thesis by (simp add: acct_drop outversions_def)
next
  case (OpReset d raw new)
  let ?h = "hashLifecycleToken E raw"
  from ends OpReset have ok: "is_ok (snd (ResetPassword E d r raw new))"
    and own: "\<forall>t\<in>set (ar_resetTokens r). lt_TokenHash t = ?h \<longrightarrow> lt_UserID t = u"
    by (auto simp: ends_sessions_def list_all_iff)
  then obtain pw s y where s: "usr_ResetPasswordToken r ?h pw (ad_now d) = (s, Inr y)" "auth_step E op r = s"
    using OpReset by (auto simp: ResetPassword_def split: sum.splits prod.splits if_splits)
  then obtain ts t where t: "take_token (\<lambda>t. lt_TokenHash t = ?h) (ad_now d) (ar_resetTokens r) = Some (ts, t)"
    by (auto simp: usr_ResetPasswordToken_def split: option.splits)
  from take_token_Some [OF t] own have u: "lt_UserID t = u" by auto
  let ?f = "\<lambda>u. u\<lparr>us_PasswordHash := pw, us_AuthVersion := us_AuthVersion u + 1\<rparr>"
  from s(1) t u obtain s' where m: "usr_modify (r\<lparr>ar_resetTokens := ts\<rparr>) u ?f = Inr (s', y)"
    "s = s'\<lparr>ar_resetTokens := consume_all (ad_now d) (us_ID y) (ar_resetTokens s')\<rparr>"
    by (auto simp: usr_ResetPasswordToken_def Let_def split: sum.splits if_splits)
  have "outversions (us_AuthVersion x) (acct s' u)"
    using modify_outversions [OF _ m(1)] wf x by simp
  then show ?thesis by (simp add: s(2) m(2))
qed (use ends in \<open>simp_all add: ends_sessions_def\<close>)

text \<open>
  C21. Ending the sessions of a user is final: once a password change, a first password, a password reset, a
  revocation or a deletion has succeeded for a user, a request that was admitted before is refused with 401 after
  any further operations of the service, at any time.
\<close>
theorem revoked_sessions_stay_out:
  assumes "user_wf r" "jwt_stable E" "fresh_run r ops"
    "RequireAuthWithUser E now r rq = Inr u" "ends_sessions E op r u"
  shows "RequireAuthWithUser E now' (auth_run E (op # ops) r) rq = Inl (401, auth_err_text AErrInvalidToken)"
proof -
  obtain t c x where adm: "sessionToken rq = Some t" "ae_ParseWithClaims E now t = Some c" "cl_UserID c = u"
    "acct r u = Some x" "us_AuthVersion x = cl_AuthVersion c"
    using assms(4) by (auto simp: admitted_iff)
  have none: "drawn_ids op = []" using assms(5) by (auto simp: ends_sessions_def drawn_ids_def split: auth_op.splits)
  let ?s = "auth_step E op r" and ?r = "auth_run E (op # ops) r"
  have fresh: "fresh_run r (op # ops)" using assms(3) none by (simp add: fresh_run_def)
  have wf: "user_wf ?s" using moves_keep(1) [OF auth_step_moves [OF fresh_run_now [OF fresh]] assms(1)] .
  have "u \<notin> set (concat (map drawn_ids ops))"
    using assms(3) acct_known [OF adm(4)] by (auto simp: fresh_run_def list_all_iff)
  then have "outversions (us_AuthVersion x) (acct ?r u)"
    using run_keeps(2) [OF wf fresh_run_later [OF fresh assms(1)] outversions_lasting]
      ends_sessions_outversions [OF assms(1) adm(4) assms(5)] by simp
  moreover have "ae_ParseWithClaims E now' t \<in> {None, Some c}"
    using assms(2) adm(2) unfolding jwt_stable_def by (cases "ae_ParseWithClaims E now' t") auto
  ultimately show ?thesis using adm
    by (auto simp: RequireAuthWithUser_def RequireAuth_def Parse_def FindByID_acct outversions_def
        split: option.splits)
qed

text \<open>A session is what the four ways of signing in return.\<close>

definition auth_session :: "AuthEnv \<Rightarrow> auth_op \<Rightarrow> UserRepo \<Rightarrow> auth_err + (User \<times> string)" where
  "auth_session E op r =
     (case op of
        OpLogin d email password \<Rightarrow> auth_Login E (ad_now d) r email password
      | OpGoogle d cred \<Rightarrow> snd (LoginWithGoogle E d r cred)
      | OpApple d tok fallback \<Rightarrow> snd (LoginWithApple E d r tok fallback)
      | OpVerifyEmail d raw \<Rightarrow> snd (VerifyEmail E d r raw)
      | _ \<Rightarrow> Inl ErrInvalidCredentials)"

fun op_now :: "auth_op \<Rightarrow> time" where
  "op_now (OpLogin d _ _) = ad_now d"
| "op_now (OpGoogle d _) = ad_now d"
| "op_now (OpApple d _ _) = ad_now d"
| "op_now (OpVerifyEmail d _) = ad_now d"
| "op_now _ = 0"

lemma auth_issue_Inr:
  "auth_issue E now u = Inr (x, t) \<longleftrightarrow>
     x = u \<and> \<not> IsBanned u \<and> Generate E (us_ID u) (us_Email u) (us_AuthVersion u) now = Inr t"
  by (auto simp: auth_issue_def)

lemma provider_login_session:
  assumes wf: "user_wf r" and fresh: "map_of (ar_byID r) (ad_userID d) = None"
    and l: "snd (loginWithProviderClaims E d r claims) = Inr (x, t)"
  shows "acct (fst (loginWithProviderClaims E d r claims)) (us_ID x) = Some x \<and>
         auth_issue E (ad_now d) x = Inr (x, t)"
proof -
  let ?e = "normalizeEmail (pc_Email claims)" and ?u = "\<lambda>e. provider_user d e claims"
  have new: "acct (fst (registerProviderUser E d r e claims)) (us_ID x) = Some x \<and>
             auth_issue E (ad_now d) x = Inr (x, t)"
    if "snd (registerProviderUser E d r e claims) = Inr (x, t)" for e
  proof -
    have ux: "x = ?u e" "auth_issue E (ad_now d) x = Inr (x, t)"
      and c: "\<exists>s. usr_CreateProviderUser r (?u e) (provider_identity d (us_ID (?u e)) e claims)
                   (ae_txCreationHooks E) = (s, Inr ()) \<and> fst (registerProviderUser E d r e claims) = s"
      using that by (auto simp: registerProviderUser_def Let_def auth_issue_Inr split: prod.splits sum.splits)
    have "stored_user (?u e) = ?u e" by (simp add: stored_user_def provider_user_def RoleUser_def)
    then have "acct (fst (registerProviderUser E d r e claims)) (us_ID (?u e)) = Some (?u e)"
    proof -
      obtain s where s: "usr_CreateProviderUser r (?u e) (provider_identity d (us_ID (?u e)) e claims)
          (ae_txCreationHooks E) = (s, Inr ())" "fst (registerProviderUser E d r e claims) = s"
        using c by blast
      have "acct s (us_ID (?u e)) = Some (stored_user (?u e))"
        using s(1) by (auto simp: usr_CreateProviderUser_def Let_def acct_store [OF wf] split: if_splits)
      with s(2) \<open>stored_user (?u e) = ?u e\<close> show ?thesis by simp
    qed
    with ux show ?thesis by simp
  qed
  have id: "acct r (us_ID x) = Some x \<and> auth_issue E (ad_now d) x = Inr (x, t)"
    if "rbind (usr_FindByID r i) (auth_issue E (ad_now d)) = Inr (x, t)" for i
    using that acct_ID [OF wf, of i x] by (auto simp: FindByID_acct auth_issue_Inr)
  have em: "acct r (us_ID x) = Some x \<and> auth_issue E (ad_now d) x = Inr (x, t)"
    if "usr_FindByEmail r e = Inr u" "auth_issue E (ad_now d) u = Inr (x, t)" for e u
    using that FindByEmail_acct [OF wf that(1)] by (auto simp: auth_issue_Inr)
  have cr: "acct s i = acct r i" if "usr_CreateIdentity r j = Inr s" for s i j
    using that by (auto simp: usr_CreateIdentity_def Let_def split: if_splits)
  show ?thesis
    using l new id em cr
    by (auto simp: loginWithProviderClaims_def Let_def split: sum.splits if_splits)
qed

lemma session_acct:
  assumes wf: "user_wf r" and fresh: "\<And>i. i \<in> set (drawn_ids op) \<Longrightarrow> map_of (ar_byID r) i = None"
    and l: "auth_session E op r = Inr (x, t)"
  shows "acct (auth_step E op r) (us_ID x) = Some x \<and> auth_issue E (op_now op) x = Inr (x, t)"
proof (cases op)
  case (OpLogin d email pw)
  with l obtain u where "usr_FindByEmail r email = Inr u" "auth_issue E (ad_now d) u = Inr (x, t)"
    by (auto simp: auth_session_def auth_Login_def split: sum.splits if_splits)
  with FindByEmail_acct [OF wf] OpLogin show ?thesis by (auto simp: auth_issue_Inr)
next
  case (OpGoogle d cred)
  then have f: "map_of (ar_byID r) (ad_userID d) = None" using fresh by (simp add: drawn_ids_def)
  from OpGoogle l provider_login_session [OF wf f] show ?thesis
    by (auto simp: auth_session_def LoginWithGoogle_def split: option.splits sum.splits if_splits)
next
  case (OpApple d tok fb)
  then have f: "map_of (ar_byID r) (ad_userID d) = None" using fresh by (simp add: drawn_ids_def)
  from OpApple l provider_login_session [OF wf f] show ?thesis
    by (auto simp: auth_session_def LoginWithApple_def split: option.splits sum.splits if_splits)
next
  case (OpVerifyEmail d raw)
  with l obtain s u where u: "usr_VerifyEmailToken r (hashLifecycleToken E raw) (ad_now d) = (s, Inr u)"
    "auth_issue E (ad_now d) u = Inr (x, t)" "auth_step E op r = s"
    by (auto simp: auth_session_def VerifyEmail_def split: prod.splits sum.splits)
  then obtain ts i where "usr_modify (r\<lparr>ar_emailTokens := ts\<rparr>) i (\<lambda>u. u\<lparr>us_EmailVerifiedAt := Some (ad_now d)\<rparr>) = Inr (s, u)"
    by (auto simp: usr_VerifyEmailToken_def Let_def split: option.splits sum.splits)
  from usr_modify_acct [OF _ this] wf have "acct s i = Some u" "acct r i \<noteq> None \<and> us_ID u = i"
    using acct_ID [OF wf, of i] by auto
  with u OpVerifyEmail show ?thesis by (auto simp: auth_issue_Inr)
qed (use l in \<open>simp_all add: auth_session_def\<close>)

text \<open>
  C25. A session that signing in returned admits its holder: whichever way a user signed in, the middleware lets a
  request with that token through, as that user, until the token expires, at the start of the second in which the
  configured lifetime ends. The JWT library is assumed to accept what it signed from its issue to its expiry.
\<close>
theorem issued_session_admits:
  assumes "user_wf r" "jwt_ok E" "fresh_run r [op]" "auth_session E op r = Inr (x, t)"
    "op_now op \<le> now" "now < NewNumericDate (op_now op + ae_expiry E)"
  shows "RequireAuthWithUser E now (auth_step E op r)
           \<lparr>rq_Cookie = [SessionCookieName \<mapsto> t], rq_Authorization = []\<rparr> = Inr (us_ID x)"
proof -
  from session_acct [OF assms(1) fresh_run_now [OF assms(3)] assms(4)]
  have x: "acct (auth_step E op r) (us_ID x) = Some x" "\<not> IsBanned x"
    "Generate E (us_ID x) (us_Email x) (us_AuthVersion x) (op_now op) = Inr t"
    by (auto simp: auth_issue_Inr)
  have "NewNumericDate (op_now op) \<le> op_now op" by (simp add: NewNumericDate_def)
  then have "NewNumericDate (op_now op) \<le> now" using assms(5) by (rule order_trans)
  with assms(2) x(3) assms(6) obtain c where c: "TrimSpace t \<noteq> []" "ae_ParseWithClaims E now t = Some c"
    "cl_UserID c = us_ID x" "cl_AuthVersion c = us_AuthVersion x"
    unfolding jwt_ok_def Generate_def by fastforce
  with x show ?thesis by (auto simp: admitted_iff sessionToken_def)
qed

definition gone_or_banned :: "User option \<Rightarrow> bool" where
  "gone_or_banned x = (case x of None \<Rightarrow> True | Some y \<Rightarrow> IsBanned y)"

lemma gone_or_banned_lasting: "lasting gone_or_banned"
  by (auto simp: lasting_def gone_or_banned_def grows_def)

text \<open>
  C23. A ban is permanent: after a successful ban and any further operations of the service, no request is admitted
  as that user whatever token it carries, and no way of signing in returns a session for that user.
\<close>
theorem banned_stays_out:
  assumes "user_wf r" "fresh_run r (ops @ [op])" "snd (auth_Ban now r u reason) = Inr ()"
  shows "RequireAuthWithUser E now' (auth_run E ops (fst (auth_Ban now r u reason))) rq \<noteq> Inr u \<and>
         map_sum id (\<lambda>(x, _). us_ID x) (auth_session E op (auth_run E ops (fst (auth_Ban now r u reason)))) \<noteq> Inr u"
proof -
  let ?b = "fst (auth_Ban now r u reason)"
  let ?s = "auth_run E ops ?b"
  obtain y where m: "usr_modify r u (\<lambda>u. u\<lparr>us_BannedAt := Some now, us_BanReason := reason\<rparr>) = Inr (?b, y)"
    using assms(3) by (auto simp: auth_Ban_def only_error_def usr_Ban_def split: sum.splits)
  note ma = usr_modify_acct [OF assms(1) m]
  have wf: "user_wf ?b" by (rule moves_keep(1) [OF moves_modify [OF m] assms(1)]) simp
  have banned: "gone_or_banned (acct ?b u)" using ma by (auto simp: gone_or_banned_def IsBanned_def)
  have dom: "map_of (ar_byID ?b) = map_of (ar_byID r)"
    by (simp add: usr_modify_byID [OF m])
  have fresh: "fresh_run ?b (ops @ [op])" using assms(2) by (simp add: fresh_run_def dom)
  have known: "map_of (ar_byID ?b) u \<noteq> None" using ma acct_known by auto
  have s: "gone_or_banned (acct ?s u)" "user_wf ?s"
    using run_keeps [OF wf fresh_run_append [OF fresh], where E = E] gone_or_banned_lasting known banned by blast+
  have fresh1: "fresh_run ?s [op]" by (rule fresh_run_skip [OF fresh wf])
  have "us_ID x \<noteq> u" if l: "auth_session E op ?s = Inr (x, t)" for x t
  proof
    assume u: "us_ID x = u"
    have "gone_or_banned (acct (auth_run E (ops @ [op]) ?b) u)"
      using run_keeps(2) [OF wf fresh gone_or_banned_lasting] known banned by blast
    moreover have "auth_run E (ops @ [op]) ?b = auth_step E op ?s"
      by (simp add: auth_run_append)
    ultimately show False
      using session_acct [OF s(2) fresh_run_now [OF fresh1] l] u by (auto simp: gone_or_banned_def auth_issue_Inr)
  qed
  moreover have "RequireAuthWithUser E now' ?s rq \<noteq> Inr u"
    using s(1) by (auto simp: admitted_iff gone_or_banned_def)
  ultimately show ?thesis by (cases "auth_session E op ?s") auto
qed

section \<open>Lifecycle tokens\<close>

lemma fresh_run_along:
  assumes "user_wf r" "fresh_run r ops" "\<And>op. op \<in> set ops \<Longrightarrow> h \<notin> drawn_hashes E op"
  shows "along (auth_step E) (fresh_step E h) ops r"
  using assms
proof (induction ops arbitrary: r)
  case (Cons op ops)
  note keep = moves_keep(1) [OF auth_step_moves [OF fresh_run_now [OF Cons.prems(2)]] Cons.prems(1), where E1 = E]
  have "fresh_step E h op r"
    using fresh_run_now [OF Cons.prems(2)] Cons.prems(3) [of op] by (simp add: fresh_step_def list_all_iff)
  with Cons.IH [OF keep fresh_run_later [OF Cons.prems(2,1)]] Cons.prems(3) show ?case by simp
qed simp

text \<open>
  C22. Every lifecycle token is accepted at most once: in any run of the service a verification link verifies one
  time, a reset link resets a password one time and a reauthentication token authorises one deletion or one first
  password, provided the hash of the token belongs to no other token and is not drawn again.
\<close>
theorem lifecycle_tokens_single_use:
  assumes "user_wf r" "fresh_run r ops" "h \<notin> \<Union> (drawn_hashes E ` set ops)"
    "token_once h (ar_emailTokens r)" "token_once h (ar_resetTokens r)" "token_once h (ar_reauthTokens r)"
  shows "accept_count (auth_step E) (accepts_verification E h) ops r \<le> 1
       \<and> accept_count (auth_step E) (accepts_reset E h) ops r \<le> 1
       \<and> accept_count (auth_step E) (accepts_reauth E h) ops r \<le> 1"
proof -
  have "along (auth_step E) (fresh_step E h) ops r" using assms(3) by (intro fresh_run_along [OF assms(1,2)]) auto
  from verification.at_most_once [OF this assms(4)] reset.at_most_once [OF this assms(5)]
    reauth.at_most_once [OF this assms(6)] show ?thesis by blast
qed

section \<open>The accounts of a run\<close>

definition keys_distinct :: "UserRepo \<Rightarrow> bool" where
  "keys_distinct r = distinct (map fst (ar_byID r))"

lemma keys_move: "auth_move I N r r' \<Longrightarrow> keys_distinct r \<Longrightarrow> keys_distinct r'"
proof (induction rule: auth_move.induct)
  case (store r u)
  then show ?case by (simp add: keys_distinct_def store_user_def Let_def distinct_update)
next
  case (drop r i r')
  then show ?case
    by (auto simp: keys_distinct_def usr_DeleteAccount_def distinct_delete split: option.splits)
qed (simp_all add: keys_distinct_def)

lemma keys_run:
  assumes "user_wf r" "fresh_run r ops" "keys_distinct r"
  shows "keys_distinct (auth_run E ops r)"
  using assms
proof (induction ops arbitrary: r)
  case (Cons op ops)
  note mv = auth_step_moves [OF fresh_run_now [OF Cons.prems(2)], where E = E]
  have "keys_distinct (auth_step E op r)"
    using mv Cons.prems(3) unfolding auth_moves_def by (induction rule: rtranclp_induct) (auto intro: keys_move)
  with Cons.IH [OF moves_keep(1) [OF mv Cons.prems(1)] fresh_run_later [OF Cons.prems(2,1)]] show ?case by simp
qed simp

lemma ListUsers_acct:
  assumes "keys_distinct r" "user_wf r"
  shows "u \<in> set (usr_ListUsers r) \<longleftrightarrow> acct r (us_ID u) = Some u"
proof
  assume "u \<in> set (usr_ListUsers r)"
  then obtain i a where "(i, a) \<in> set (ar_byID r)" "u = ar_users r ! a" by (auto simp: usr_ListUsers_def)
  then have "map_of (ar_byID r) i = Some a" using assms(1) by (simp add: keys_distinct_def)
  with user_wf_byID [OF assms(2) this] \<open>u = _\<close> show "acct r (us_ID u) = Some u" by (simp add: acct_def)
next
  assume "acct r (us_ID u) = Some u"
  then obtain a where a: "map_of (ar_byID r) (us_ID u) = Some a" "u = ar_users r ! a" by (auto simp: acct_def)
  from map_of_SomeD [OF a(1)] a(2) show "u \<in> set (usr_ListUsers r)" by (force simp: usr_ListUsers_def)
qed

lemma NewUserRepo_wf [simp]: "user_wf NewUserRepo" "keys_distinct NewUserRepo"
  by (simp_all add: user_wf_def NewUserRepo_def keys_distinct_def)

lemma length_ListUsers: "length (usr_ListUsers r) = length (ar_byID r)"
  by (simp add: usr_ListUsers_def)

text \<open>
  C24. The two indexes of the account store agree after every run from an empty store: each account that is listed is
  found under its identifier and under its email, and the listed accounts have pairwise different normalised emails,
  whatever registrations, sign-ins, deletions and updates were made.
\<close>
theorem accounts_stay_indexed:
  assumes "fresh_run NewUserRepo ops" "u \<in> set (usr_ListUsers (auth_run E ops NewUserRepo))"
  shows "usr_FindByID (auth_run E ops NewUserRepo) (us_ID u) = Inr u
       \<and> usr_FindByEmail (auth_run E ops NewUserRepo) (us_Email u) = Inr u
       \<and> distinct (map (\<lambda>u. normalizeEmail (us_Email u)) (usr_ListUsers (auth_run E ops NewUserRepo)))"
proof -
  let ?r = "auth_run E ops NewUserRepo"
  have wf: "user_wf ?r" and keys: "keys_distinct ?r"
    using run_keeps(1) [OF _ assms(1)] keys_run [OF _ assms(1)] by simp_all
  have a: "acct ?r (us_ID u) = Some u" using assms(2) by (simp add: ListUsers_acct [OF keys wf])
  then obtain k where k: "map_of (ar_byID ?r) (us_ID u) = Some k" "u = ar_users ?r ! k" by (auto simp: acct_def)
  have email: "usr_FindByEmail ?r (us_Email u) = Inr u"
    using user_wf_byID(3) [OF wf k(1)] k(2) by (simp add: usr_FindByEmail_def)
  have "distinct (map (\<lambda>(i, a). normalizeEmail (us_Email (ar_users ?r ! a))) (ar_byID ?r))"
  proof -
    have "inj_on (\<lambda>(i, a). normalizeEmail (us_Email (ar_users ?r ! a))) (set (ar_byID ?r))"
    proof (rule inj_onI, clarify)
      fix i a j b
      assume m: "(i, a) \<in> set (ar_byID ?r)" "(j, b) \<in> set (ar_byID ?r)"
        and e: "normalizeEmail (us_Email (ar_users ?r ! a)) = normalizeEmail (us_Email (ar_users ?r ! b))"
      note i = map_of_is_SomeI [OF keys [unfolded keys_distinct_def] m(1)]
        and j = map_of_is_SomeI [OF keys [unfolded keys_distinct_def] m(2)]
      have "Some a = Some b" using user_wf_byID(3) [OF wf i] user_wf_byID(3) [OF wf j] unfolding e by (rule trans [OF sym])
      then show "i = j \<and> a = b" using user_wf_inj [OF wf i] j by blast
    qed
    then show ?thesis using keys by (simp add: distinct_map keys_distinct_def)
  qed
  then have "distinct (map (\<lambda>u. normalizeEmail (us_Email u)) (usr_ListUsers ?r))"
    by (simp add: usr_ListUsers_def comp_def split_def)
  with a email show ?thesis by (simp add: FindByID_acct)
qed

section \<open>Sign-in with Apple\<close>

lemma of_lower_char:
  "(of_char (lower_char c) :: nat) =
     (if 65 \<le> (of_char c :: nat) \<and> (of_char c :: nat) \<le> 90 then of_char c + 32 else of_char c)"
  by (simp add: lower_char_def Let_def)

lemma is_space_lower: "is_space (lower_char c) = is_space c"
  by (auto simp: is_space_def Let_def of_lower_char)

lemma lower_char_idem: "lower_char (lower_char c) = lower_char c"
proof (cases "65 \<le> (of_char c :: nat) \<and> (of_char c :: nat) \<le> 90")
  case True
  then have "\<not> (of_char (lower_char c) :: nat) \<le> 90" by (simp add: of_lower_char)
  then show ?thesis by (subst lower_char_def) (simp only: Let_def if_False simp_thms)
next
  case False
  then have "lower_char c = c" by (auto simp: lower_char_def Let_def)
  then show ?thesis by simp
qed

lemma TrimSpace_lower: "TrimSpace (ToLower s) = ToLower (TrimSpace s)"
proof -
  have "dropWhile is_space (map lower_char xs) = map lower_char (dropWhile is_space xs)" for xs
    by (induction xs) (auto simp: is_space_lower)
  then show ?thesis by (simp add: TrimSpace_def ToLower_def rev_map)
qed

lemma TrimSpace_idem: "TrimSpace (TrimSpace s) = TrimSpace s"
proof -
  have idem: "dropWhile p (dropWhile p xs) = dropWhile p xs" for p :: "char \<Rightarrow> bool" and xs
    by (induction xs) auto
  have front: "dropWhile is_space (rev (dropWhile is_space (rev ys))) = rev (dropWhile is_space (rev ys))"
    if "dropWhile is_space ys = ys" for ys
  proof (cases "rev (dropWhile is_space (rev ys))")
    case (Cons c cs)
    then obtain zs where "ys = c # zs"
      by (metis append_Cons rev_append rev_rev_ident takeWhile_dropWhile_id)
    with that have "\<not> is_space c" by (auto split: if_splits) (metis impossible_Cons length_dropWhile_le)
    with Cons show ?thesis by simp
  next
    case Nil
    show ?thesis unfolding Nil by simp
  qed
  show ?thesis unfolding TrimSpace_def by (simp add: front idem)
qed

lemma normalizeEmail_idem: "normalizeEmail (normalizeEmail email) = normalizeEmail email"
proof -
  have "ToLower (ToLower s) = ToLower s" for s by (simp add: ToLower_def comp_def lower_char_idem)
  then show ?thesis by (simp add: normalizeEmail_def TrimSpace_lower TrimSpace_idem)
qed

text \<open>
  Sign-in with Apple trusts an email that the client supplies: a verified Apple token of any Apple account that
  carries no email claim, sent with the email of an existing account in the request body, returns a session of that
  account and links the Apple identity to it.
\<close>
theorem apple_fallback_takes_over:
  assumes "ae_appleEnabled E" "ae_appleVerifier E = Some (oidc_Verify v)"
    "oidc_Verify v (ad_now d) tok = Inr claims" "pc_Email claims = []"
    "usr_FindIdentity r ProviderApple (pc_Subject claims) = Inl ErrIdentityNotFound"
    "usr_FindByEmail r (pc_Email fallback) = Inr victim" "normalizeEmail (pc_Email fallback) \<noteq> []"
    "auth_issue E (ad_now d) victim = Inr (victim, session)"
  shows "snd (LoginWithApple E d r tok fallback) = Inr (victim, session)
       \<and> map_sum id ai_UserID (usr_FindIdentity (fst (LoginWithApple E d r tok fallback)) ProviderApple (pc_Subject claims))
           = Inr (us_ID victim)"
proof -
  let ?c = "with_fallback claims fallback"
  have c: "pc_Subject ?c = pc_Subject claims" "pc_Provider ?c = ProviderApple" "pc_Email ?c = pc_Email fallback"
    "pc_EmailVerified ?c"
    using assms(4,7) by (auto simp: with_fallback_def Let_def normalizeEmail_def TrimSpace_def ToLower_def)
  have sub: "pc_Subject claims \<noteq> []"
    using assms(3) by (auto simp: oidc_Verify_def oidc_claims_def Let_def split: sum.splits option.splits if_splits)
  have found: "usr_FindByEmail r (normalizeEmail (pc_Email fallback)) = Inr victim"
    using assms(6) by (simp add: usr_FindByEmail_def normalizeEmail_idem)
  let ?i = "provider_identity d (us_ID victim) (normalizeEmail (pc_Email fallback)) ?c"
  have key: "map_of (ar_identities r) (identityKey ProviderApple (pc_Subject claims)) = None"
    using assms(5) by (simp add: usr_FindIdentity_def)
  let ?s = "r\<lparr>ar_identities := AList.update (identityKey ProviderApple (pc_Subject claims)) ?i (ar_identities r)\<rparr>"
  have "usr_CreateIdentity r ?i = Inr ?s"
    using key c by (simp add: usr_CreateIdentity_def provider_identity_def Let_def)
  with assms(8) c sub found assms(5,7) have "loginWithProviderClaims E d r ?c = (?s, Inr (victim, session))"
    by (simp add: loginWithProviderClaims_def Let_def)
  with assms(1-3) have "LoginWithApple E d r tok fallback = (?s, Inr (victim, session))"
    by (simp add: LoginWithApple_def)
  then show ?thesis by (simp add: usr_FindIdentity_def update_conv' provider_identity_def)
qed

section \<open>Deletion\<close>

text \<open>
  Deleting an account removes the account from both indexes and every identity and lifecycle token of the user,
  leaves other accounts as they were, and leaves the mail outbox untouched: messages of the deleted user, with their
  recipient and the link, stay queued.
\<close>
theorem deletion_leaves_only_mail:
  assumes "user_wf r" "auth_DeleteAccount E now r u raw = (s, Inr ())"
  shows "usr_FindByID s u = Inl AErrUserNotFound \<and> (\<forall>email x. usr_FindByEmail s email = Inr x \<longrightarrow> us_ID x \<noteq> u)
       \<and> list_all (\<lambda>(_, i). ai_UserID i \<noteq> u) (ar_identities s)
       \<and> list_all (\<lambda>t. lt_UserID t \<noteq> u) (ar_emailTokens s @ ar_resetTokens s @ ar_reauthTokens s)
       \<and> (\<forall>v. v \<noteq> u \<longrightarrow> usr_FindByID s v = usr_FindByID r v)
       \<and> ar_emailOutbox s = ar_emailOutbox r"
proof -
  obtain q where q: "consumeReauthentication E now r u raw = Inr q" "usr_DeleteAccount q u = Inr s"
    using assms(2) by (auto simp: auth_DeleteAccount_def split: sum.splits)
  have wf: "user_wf q" using consumeReauth_acct(2) [OF q(1)] assms(1) by simp
  have wfs: "user_wf s" by (rule wf_drop [OF wf q(2)])
  have out: "ar_emailOutbox q = ar_emailOutbox r"
    using q(1) by (auto simp: consumeReauthentication_def usr_ConsumeReauthenticationToken_def
        split: if_splits option.splits)
  have rows: "list_all (\<lambda>(_, i). ai_UserID i \<noteq> u) (ar_identities s)"
    "list_all (\<lambda>t. lt_UserID t \<noteq> u) (ar_emailTokens s @ ar_resetTokens s @ ar_reauthTokens s)"
    "ar_emailOutbox s = ar_emailOutbox q"
    using q(2) by (auto simp: usr_DeleteAccount_def filterMemoryTokens_def list_all_iff split: option.splits)
  have none: "acct s u = None" by (simp add: acct_drop [OF q(2)])
  have "us_ID x \<noteq> u" if "usr_FindByEmail s email = Inr x" for email x
    using FindByEmail_acct(1) [OF wfs that] none by auto
  with rows out none show ?thesis
    by (auto simp: FindByID_acct acct_drop [OF q(2)] consumeReauth_acct(1) [OF q(1)])
qed

section \<open>A small service\<close>

text \<open>
  An environment in which the hypotheses hold: passwords are their own hashes, a session token spells the version in
  unary before the user, and mail is always accepted.
\<close>

definition demo_sign :: "Claims \<Rightarrow> auth_err + string" where
  "demo_sign c =
     Inr ((if cl_AuthVersion c < 0 then ''-'' else ''+'') @ replicate (nat \<bar>cl_AuthVersion c\<bar>) (CHR ''i'') @ ''.'' @
          cl_UserID c @ ''.'')"

definition demo_parse :: "string \<Rightarrow> Claims option" where
  "demo_parse t =
     (case t of [] \<Rightarrow> None
      | c # cs \<Rightarrow>
          (let n = int (length (takeWhile (\<lambda>c. c = CHR ''i'') cs));
               u = butlast (drop 1 (dropWhile (\<lambda>c. c = CHR ''i'') cs))
           in Some \<lparr>cl_UserID = u, cl_Email = [], cl_AuthVersion = (if c = CHR ''-'' then - n else n), cl_Subject = u,
                    cl_IssuedAt = 0, cl_ExpiresAt = 0\<rparr>))"

definition demo_apple :: OIDCVerifier where
  "demo_apple = NewAppleVerifier ''app'' (\<lambda>_. Inr [(''k'', ''n'')])
     (\<lambda>keys aud now raw.
        Some [''iss'' \<mapsto> ClaimString ''https://appleid.apple.com'', ''sub'' \<mapsto> ClaimString raw])"

definition demo_auth :: AuthEnv where
  "demo_auth =
     \<lparr>ae_GenerateFromPassword = (\<lambda>_ pw. Inr pw), ae_CompareHashAndPassword = (\<lambda>h pw. h = pw), ae_Sum256 = (\<lambda>s. s),
      ae_HMAC = (\<lambda>k s. k @ s), ae_SignedString = demo_sign, ae_ParseWithClaims = (\<lambda>_ t. demo_parse t), ae_expiry = 3600000000000,
      ae_Send = (\<lambda>_. Inr ()), ae_googleEnabled = False, ae_appleEnabled = True, ae_googleVerifier = None,
      ae_appleVerifier = Some (oidc_Verify demo_apple), ae_deletionHooks = [], ae_creationHooks = [],
      ae_txCreationHooks = [], ae_publicAppURL = ''https://app'', ae_verificationTTL = 100, ae_resetTTL = 100,
      ae_reauthTTL = 100, ae_signupIPPepper = []\<rparr>"

definition demo_draw :: "time \<Rightarrow> string \<Rightarrow> AuthDraw" where
  "demo_draw now s =
     \<lparr>ad_now = now, ad_userID = ''u'' @ s, ad_rowID = ''r'' @ s, ad_tokenID = ''t'' @ s, ad_raw = Inr (''raw'' @ s),
      ad_salt = []\<rparr>"

definition demo_ada :: RegisterInput where
  "demo_ada =
     \<lparr>ri_Email = ''Ada@x.org'', ri_Password = ''password'', ri_DisplayName = ''Ada'', ri_AvatarKey = [],
      ri_SignupIP = []\<rparr>"

text \<open>Ada registers, verifies her email, asks for a reset link and reauthenticates.\<close>

definition demo_ops :: "auth_op list" where
  "demo_ops =
     [OpRegister (demo_draw 1 ''1'') demo_ada, OpVerifyEmail (demo_draw 2 ''2'') ''raw1'',
      OpForgot (demo_draw 3 ''3'') ''ada@x.org'', OpReauthPassword (demo_draw 4 ''4'') ''u1'' ''password'']"

definition demo_accounts :: UserRepo where
  "demo_accounts = auth_run demo_auth demo_ops NewUserRepo"

definition bearing :: "string \<Rightarrow> AuthRequest" where
  "bearing t = \<lparr>rq_Cookie = Map.empty, rq_Authorization = ''Bearer '' @ t\<rparr>"

lemma demo_parse_sign: "demo_sign c = Inr t \<Longrightarrow>
    \<exists>c'. demo_parse t = Some c' \<and> cl_UserID c' = cl_UserID c \<and> cl_AuthVersion c' = cl_AuthVersion c"
proof -
  have t: "takeWhile (\<lambda>c. c = CHR ''i'') (replicate n (CHR ''i'') @ CHR ''.'' # s) = replicate n (CHR ''i'')"
    "dropWhile (\<lambda>c. c = CHR ''i'') (replicate n (CHR ''i'') @ CHR ''.'' # s) = CHR ''.'' # s" for n s
    by (induction n) auto
  assume "demo_sign c = Inr t"
  then show ?thesis by (auto simp: demo_sign_def demo_parse_def t butlast_append Let_def)
qed

lemma demo_jwt: "jwt_stable demo_auth" "jwt_ok demo_auth"
proof -
  show "jwt_stable demo_auth" by (simp add: jwt_stable_def demo_auth_def)
  have "TrimSpace t \<noteq> []" if "demo_sign c = Inr t" for c t
  proof -
    have "t \<noteq> []" "hd t = CHR ''-'' \<or> hd t = CHR ''+''"
      using that by (cases "cl_AuthVersion c < 0"; auto simp: demo_sign_def)+
    then have "t \<noteq> []" "\<not> is_space (hd t)" by (auto simp: is_space_def Let_def)
    then obtain x xs where "t = x # xs" "\<not> is_space x" by (cases t) auto
    then show ?thesis by (auto simp: TrimSpace_def)
  qed
  with demo_parse_sign show "jwt_ok demo_auth" by (auto simp: jwt_ok_def demo_auth_def)
qed

lemma demo_fresh: "fresh_run NewUserRepo demo_ops"
  by code_simp

lemma demo_accounts_wf: "user_wf demo_accounts"
  unfolding demo_accounts_def by (rule run_keeps(1) [OF _ demo_fresh]) simp

theorem revoked_sessions_stay_out_witness:
  "RequireAuthWithUser demo_auth 5 demo_accounts (bearing ''+i.u1.'') = Inr ''u1'' \<and>
   RequireAuthWithUser demo_auth 9
     (auth_run demo_auth [OpReset (demo_draw 6 ''6'') ''raw3'' ''newpassword'', OpLogin (demo_draw 7 ''7'') ''ada@x.org'' ''newpassword'']
        demo_accounts) (bearing ''+i.u1.'') = Inl (401, ''invalid or expired token'')"
proof -
  have "fresh_run demo_accounts [OpLogin (demo_draw 7 ''7'') ''ada@x.org'' ''newpassword'']"
    "RequireAuthWithUser demo_auth 5 demo_accounts (bearing ''+i.u1.'') = Inr ''u1''"
    "ends_sessions demo_auth (OpReset (demo_draw 6 ''6'') ''raw3'' ''newpassword'') demo_accounts ''u1''"
    by code_simp+
  with revoked_sessions_stay_out [OF demo_accounts_wf demo_jwt(1) this, of 9] show ?thesis by simp
qed

theorem issued_session_admits_witness:
  "RequireAuthWithUser demo_auth 8 demo_accounts
     \<lparr>rq_Cookie = [SessionCookieName \<mapsto> ''+i.u1.''], rq_Authorization = []\<rparr> = Inr ''u1''"
proof -
  let ?op = "OpLogin (demo_draw 7 ''7'') ''ada@x.org'' ''password''"
  obtain x where x: "auth_session demo_auth ?op demo_accounts = Inr (x, ''+i.u1.'')" "us_ID x = ''u1''"
  proof -
    have "map_sum id (\<lambda>(x, t). (us_ID x, t)) (auth_session demo_auth ?op demo_accounts) = Inr (''u1'', ''+i.u1.'')"
      by code_simp
    then show ?thesis by (cases "auth_session demo_auth ?op demo_accounts") (auto intro: that)
  qed
  have times: "fresh_run demo_accounts [?op]" "op_now ?op \<le> 8" "8 < NewNumericDate (op_now ?op + ae_expiry demo_auth)" by code_simp+
  from issued_session_admits [OF demo_accounts_wf demo_jwt(2) times(1) x(1) times(2,3)] x(2) show ?thesis by simp
qed

theorem banned_stays_out_witness:
  "RequireAuthWithUser demo_auth 9 (fst (auth_Ban 6 demo_accounts ''u1'' ''spam'')) (bearing ''+i.u1.'') \<noteq> Inr ''u1'' \<and>
   map_sum id (\<lambda>(x, _). us_ID x)
     (auth_session demo_auth (OpLogin (demo_draw 7 ''7'') ''ada@x.org'' ''password'')
        (fst (auth_Ban 6 demo_accounts ''u1'' ''spam''))) \<noteq> Inr ''u1''"
proof -
  have "fresh_run demo_accounts ([] @ [OpLogin (demo_draw 7 ''7'') ''ada@x.org'' ''password''])"
    "snd (auth_Ban 6 demo_accounts ''u1'' ''spam'') = Inr ()"
    by code_simp+
  from banned_stays_out [OF demo_accounts_wf this, of demo_auth 9 "bearing ''+i.u1.''"] show ?thesis by simp
qed

theorem lifecycle_tokens_single_use_witness:
  "accept_count (auth_step demo_auth) (accepts_reset demo_auth ''raw3'')
     [OpReset (demo_draw 6 ''6'') ''raw3'' ''newpassword'', OpReset (demo_draw 7 ''7'') ''raw3'' ''newpassword'']
     demo_accounts = 1"
proof -
  let ?ops = "[OpReset (demo_draw 6 ''6'') ''raw3'' ''newpassword'', OpReset (demo_draw 7 ''7'') ''raw3'' ''newpassword'']"
  have "fresh_run demo_accounts ?ops" "''raw3'' \<notin> \<Union> (drawn_hashes demo_auth ` set ?ops)"
    "token_once ''raw3'' (ar_emailTokens demo_accounts)" "token_once ''raw3'' (ar_resetTokens demo_accounts)"
    "token_once ''raw3'' (ar_reauthTokens demo_accounts)"
    by code_simp+
  from lifecycle_tokens_single_use [OF demo_accounts_wf this]
  have "accept_count (auth_step demo_auth) (accepts_reset demo_auth ''raw3'') ?ops demo_accounts \<le> 1" by blast
  moreover have "accepts_reset demo_auth ''raw3'' (hd ?ops) demo_accounts" by code_simp
  ultimately show ?thesis by simp
qed

theorem accounts_stay_indexed_witness:
  "usr_FindByEmail demo_accounts (us_Email (hd (usr_ListUsers demo_accounts))) = Inr (hd (usr_ListUsers demo_accounts)) \<and>
   map us_ID (usr_ListUsers demo_accounts) = [''u1'']"
proof -
  have l: "map us_ID (usr_ListUsers demo_accounts) = [''u1'']" by code_simp
  then have "hd (usr_ListUsers demo_accounts) \<in> set (usr_ListUsers demo_accounts)"
    by (cases "usr_ListUsers demo_accounts") auto
  from accounts_stay_indexed [OF demo_fresh this [unfolded demo_accounts_def]] l show ?thesis
    by (simp add: demo_accounts_def)
qed

definition demo_fallback :: ProviderClaims where
  "demo_fallback =
     \<lparr>pc_Provider = ProviderApple, pc_Subject = [], pc_Email = ''ada@x.org'', pc_EmailVerified = False,
      pc_DisplayName = [], pc_AvatarKey = []\<rparr>"

text \<open>Mallory's Apple token, with Ada's email in the body.\<close>

theorem apple_fallback_takes_over_witness:
  "map_sum id (\<lambda>(x, t). (us_ID x, t)) (snd (LoginWithApple demo_auth (demo_draw 7 ''7'') demo_accounts ''mallory'' demo_fallback))
     = Inr (''u1'', ''+i.u1.'')"
proof -
  let ?claims = "\<lparr>pc_Provider = ProviderApple, pc_Subject = ''mallory'', pc_Email = [], pc_EmailVerified = False,
    pc_DisplayName = ''Apple Investor'', pc_AvatarKey = []\<rparr>"
  have v: "ae_appleEnabled demo_auth" "ae_appleVerifier demo_auth = Some (oidc_Verify demo_apple)"
    by (simp_all add: demo_auth_def)
  have c: "oidc_Verify demo_apple (ad_now (demo_draw 7 ''7'')) ''mallory'' = Inr ?claims" "pc_Email ?claims = []"
    "usr_FindIdentity demo_accounts ProviderApple (pc_Subject ?claims) = Inl ErrIdentityNotFound"
    "normalizeEmail (pc_Email demo_fallback) \<noteq> []"
    by code_simp+
  obtain x where x: "usr_FindByEmail demo_accounts (pc_Email demo_fallback) = Inr x"
    "us_ID x = ''u1''" "auth_issue demo_auth (ad_now (demo_draw 7 ''7'')) x = Inr (x, ''+i.u1.'')"
  proof -
    have "map_sum id (\<lambda>x. (us_ID x, us_AuthVersion x, us_BannedAt x))
        (usr_FindByEmail demo_accounts (pc_Email demo_fallback)) = Inr (''u1'', 1, None)"
      by code_simp
    then obtain x where "usr_FindByEmail demo_accounts (pc_Email demo_fallback) = Inr x"
      "us_ID x = ''u1''" "us_AuthVersion x = 1" "us_BannedAt x = None"
      by (cases "usr_FindByEmail demo_accounts (pc_Email demo_fallback)") auto
    then show ?thesis
      by (intro that) (auto simp: auth_issue_Inr IsBanned_def Generate_def demo_auth_def demo_sign_def)
  qed
  from apple_fallback_takes_over [OF v c(1-3) x(1) c(4) x(3)] x(2) show ?thesis by simp
qed

theorem deletion_leaves_only_mail_witness:
  "usr_FindByID (fst (auth_DeleteAccount demo_auth 6 demo_accounts ''u1'' ''raw4'')) ''u1'' = Inl AErrUserNotFound \<and>
   map em_Recipient (ar_emailOutbox (fst (auth_DeleteAccount demo_auth 6 demo_accounts ''u1'' ''raw4''))) = [''ada@x.org'']"
proof -
  let ?d = "auth_DeleteAccount demo_auth 6 demo_accounts ''u1'' ''raw4''"
  have "snd ?d = Inr ()" "map em_Recipient (ar_emailOutbox demo_accounts) = [''ada@x.org'']" by code_simp+
  moreover from this have "?d = (fst ?d, Inr ())" by (metis prod.collapse)
  from deletion_leaves_only_mail [OF demo_accounts_wf this]
  have "usr_FindByID (fst ?d) ''u1'' = Inl AErrUserNotFound" "ar_emailOutbox (fst ?d) = ar_emailOutbox demo_accounts"
    by blast+
  ultimately show ?thesis by simp
qed

end
