(* ===== verification/ModLaws.thy ===== *)
theory ModLaws
  imports ModModel SocialLaws AuthSessions
begin

text \<open>
  Moderation over runs of requests: a report is resolved once and its resolution, its evidence and the audit record
  stay as they are; only admins act on admins; a sanction reaches the account and, through it, the messages.
\<close>

section \<open>What the repository keeps\<close>

definition report_actions :: "string \<Rightarrow> ModRepo \<Rightarrow> ModerationAction list" where
  "report_actions i r = filter (\<lambda>a. ma_ReportID a = Some i) (mr_actions r)"

definition mod_ok :: "ModRepo \<Rightarrow> bool" where
  "mod_ok r =
     ((\<forall>i rep. map_of (mr_reports r) i = Some rep \<longrightarrow>
         rp_ID rep = i \<and> report_open rep = (\<not> report_resolved rep) \<and>
         length (report_actions i r) = (if report_resolved rep then 1 else 0) \<and>
         (rp_MessageID rep \<noteq> None) = (mr_evidence r i \<noteq> None)) \<and>
      (\<forall>i. map_of (mr_reports r) i = None \<longrightarrow> mr_evidence r i = None \<and> report_actions i r = []))"

lemma mod_okD:
  assumes "mod_ok r"
  shows "map_of (mr_reports r) i = Some rep \<Longrightarrow>
      rp_ID rep = i \<and> report_open rep = (\<not> report_resolved rep) \<and>
      length (report_actions i r) = (if report_resolved rep then 1 else 0) \<and>
      (rp_MessageID rep \<noteq> None) = (mr_evidence r i \<noteq> None)"
    "map_of (mr_reports r) i = None \<Longrightarrow> mr_evidence r i = None \<and> report_actions i r = []"
  using assms unfolding mod_ok_def by blast+

text \<open>From one state to a later one: resolved reports, evidence and the audit record of a report that has one stay.\<close>

definition mod_later :: "ModRepo \<Rightarrow> ModRepo \<Rightarrow> bool" where
  "mod_later r r' =
     ((\<forall>i rep. map_of (mr_reports r) i = Some rep \<longrightarrow>
         (\<exists>rep'. map_of (mr_reports r') i = Some rep' \<and> rp_MessageID rep' = rp_MessageID rep \<and>
                 (report_resolved rep \<longrightarrow> rep' = rep \<and> report_actions i r' = report_actions i r))) \<and>
      (\<forall>i e. mr_evidence r i = Some e \<longrightarrow> mr_evidence r' i = Some e) \<and>
      (\<exists>more. mr_actions r' = mr_actions r @ more))"

lemma mod_later_refl [simp]: "mod_later r r"
  by (auto simp: mod_later_def)

lemma mod_later_trans: "mod_later r s \<Longrightarrow> mod_later s t \<Longrightarrow> mod_later r t"
  unfolding mod_later_def by (intro conjI; (elim conjE exE)?) (metis, metis, metis append.assoc)

lemma mod_same:
  assumes "mr_reports r' = mr_reports r" "mr_evidence r' = mr_evidence r" "mr_actions r' = mr_actions r"
  shows "mod_ok r' = mod_ok r" "mod_later r r'"
  using assms by (simp_all add: mod_ok_def mod_later_def report_actions_def)

lemma mod_create:
  assumes "mod_ok r" "map_of (mr_reports r) i = None" "rp_ID rep = i" "report_open rep" "\<not> report_resolved rep"
    "(rp_MessageID rep \<noteq> None) = (e \<noteq> None)"
    "map_of (mr_reports r') = (map_of (mr_reports r))(i \<mapsto> rep)"
    "mr_evidence r' = (case e of None \<Rightarrow> mr_evidence r | Some ev \<Rightarrow> (mr_evidence r)(i := Some ev))"
    "mr_actions r' = mr_actions r"
  shows "mod_ok r'" "mod_later r r'"
proof -
  have a: "report_actions j r' = report_actions j r" for j using assms(9) by (simp add: report_actions_def)
  note none = mod_okD(2) [OF assms(1,2)]
  have ev: "mr_evidence r' j = (if j = i then e else mr_evidence r j)" for j
    using assms(8) none by (cases e) auto
  show "mod_ok r'"
    using mod_okD [OF assms(1)] none assms(3-6) unfolding mod_ok_def by (simp add: assms(7) a ev)
  show "mod_later r r'"
    using assms(2,9) none unfolding mod_later_def by (auto simp: assms(7) a ev)
qed

lemma mod_resolve:
  assumes "mod_ok r" "map_of (mr_reports r) i = Some rep" "\<not> report_resolved rep"
    "rp_ID rep' = i" "report_resolved rep'" "rp_MessageID rep' = rp_MessageID rep"
    "ma_ReportID act = Some i"
    "map_of (mr_reports r') = (map_of (mr_reports r))(i \<mapsto> rep')"
    "mr_evidence r' = mr_evidence r" "mr_actions r' = mr_actions r @ [act]"
  shows "mod_ok r'" "mod_later r r'"
proof -
  have a: "report_actions j r' = (if j = i then report_actions i r @ [act] else report_actions j r)" for j
    using assms(7,10) by (simp add: report_actions_def)
  note cur = mod_okD(1) [OF assms(1,2)]
  have "report_open rep' = (\<not> report_resolved rep')"
    using assms(5) by (auto simp: report_open_def report_resolved_def StatusOpen_def StatusUnderReview_def
        StatusResolvedActionTaken_def StatusResolvedNoAction_def)
  then show "mod_ok r'"
    using mod_okD [OF assms(1)] cur assms(3-6) unfolding mod_ok_def by (simp add: assms(8,9) a)
  show "mod_later r r'"
    using assms(2,3,6) unfolding mod_later_def by (auto simp: assms(8,9,10) a)
qed

section \<open>Steps\<close>

lemma CreateNotification_same:
  "mr_reports (mod_CreateNotification r f n) = mr_reports r"
  "mr_evidence (mod_CreateNotification r f n) = mr_evidence r"
  "mr_actions (mod_CreateNotification r f n) = mr_actions r"
  by (simp_all add: mod_CreateNotification_def Let_def)

lemma publish_fields:
  "map_of (mr_reports (publish r f w)) = (map_of (mr_reports r))(rp_ID (wr_Report w) \<mapsto> wr_Report w)"
  "mr_evidence (publish r f w) = mr_evidence r" "mr_actions (publish r f w) = mr_actions r @ [wr_Action w]"
  by (simp_all add: publish_def Let_def update_conv' CreateNotification_same split: option.splits)

text \<open>What a request to resolve a report does: nothing, or one write.\<close>

lemma resolve_endpoint_cases:
  obtains (written) m actor rep status verdict action w accounts social where
    "caller = Some m" "RequireModerator s caller = Inr actor" "map_of (mr_reports (mw_repo s)) i = Some rep"
    "\<not> report_resolved rep" "decide v = Inr (status, verdict, action)" "target_guard s actor rep action = Inr ()"
    "resolve_build E d m v (status, verdict, action) rep = Inr w"
    "volatile_apply d m v action rep (mw_accounts s, mw_social s) = Inr (accounts, social)"
    "snd (resolve_endpoint E d s caller i v) =
       \<lparr>mw_repo = publish (mw_repo s) (md_first d) w, mw_accounts = accounts, mw_social = social\<rparr>"
  | (same) "snd (resolve_endpoint E d s caller i v) = s"
proof -
  show ?thesis
  proof (cases "snd (resolve_endpoint E d s caller i v) = s")
    case True
    then show ?thesis by (rule that(2))
  next
    case False
    then obtain actor detail s' where a: "RequireModerator s caller = Inr actor"
      "ResolveReport E d s (the caller) actor i v = Inr (s', detail)" "s' \<noteq> s"
      "snd (resolve_endpoint E d s caller i v) = s'"
      by (auto simp: resolve_endpoint_def split: sum.splits)
    obtain m where m: "caller = Some m" using a(1) by (cases caller) (auto simp: RequireModerator_def)
    from a(2,3) obtain rep where rep: "map_of (mr_reports (mw_repo s)) i = Some rep" "\<not> report_resolved rep"
      by (auto simp: ResolveReport_def mod_GetReport_def split: sum.splits if_splits)
    from a(2) rep m obtain dec x where d: "decide v = Inr dec" "target_guard s actor rep (snd (snd dec)) = Inr ()"
      "mod_ResolveReport E (md_first d) s i (resolve_build E d m v dec) = Inr (s', x)"
      by (auto simp: ResolveReport_def mod_GetReport_def split: sum.splits)
    obtain status verdict action where dec: "dec = (status, verdict, action)" by (metis prod_cases3)
    from d(3) rep obtain w accounts social where w: "resolve_build E d m v dec rep = Inr w"
      "wr_VolatileApply w (mw_accounts s, mw_social s) = Inr (accounts, social)"
      "s' = \<lparr>mw_repo = publish (mw_repo s) (md_first d) w, mw_accounts = accounts, mw_social = social\<rparr>"
      by (auto simp: mod_ResolveReport_def)
    have "wr_VolatileApply w = volatile_apply d m v action rep"
      using w(1) by (auto simp: resolve_build_def dec split: if_splits)
    with w(2) have "volatile_apply d m v action rep (mw_accounts s, mw_social s) = Inr (accounts, social)" by simp
    with that(1) [OF m a(1) rep] d(1,2) w(1,3) a(4) dec show ?thesis by auto
  qed
qed

lemma resolve_build_fields:
  assumes "resolve_build E d m v (status, verdict, action) rep = Inr w" "decide v = Inr (status, verdict, action)"
  shows "rp_ID (wr_Report w) = rp_ID rep" "report_resolved (wr_Report w)"
    "rp_MessageID (wr_Report w) = rp_MessageID rep" "ma_ReportID (wr_Action w) = Some (rp_ID rep)"
  using assms by (auto simp: resolve_build_def decide_def report_resolved_def split: if_splits)

definition drawn_reports :: "mod_op \<Rightarrow> string list" where
  "drawn_reports op =
     (case op of MoReportUser d _ _ _ _ \<Rightarrow> [md_first d] | MoReportMessage d _ _ _ _ \<Rightarrow> [md_first d] | _ \<Rightarrow> [])"

lemma new_report_simps [simp]:
  "rp_ID (new_report d a b m c x) = md_first d" "report_open (new_report d a b m c x)"
  "\<not> report_resolved (new_report d a b m c x)" "rp_MessageID (new_report d a b m c x) = m"
  by (simp_all add: new_report_def report_open_def report_resolved_def StatusOpen_def StatusResolvedActionTaken_def
      StatusResolvedNoAction_def)

lemma mod_step_keeps:
  assumes ok: "mod_ok (mw_repo s)"
    and fresh: "list_all (\<lambda>i. map_of (mr_reports (mw_repo s)) i = None) (drawn_reports op)"
  shows "mod_ok (mw_repo (mod_step E op s))" "mod_later (mw_repo s) (mw_repo (mod_step E op s))"
    "dom (map_of (mr_reports (mw_repo (mod_step E op s)))) \<subseteq> dom (map_of (mr_reports (mw_repo s))) \<union> set (drawn_reports op)"
proof -
  let ?t = "mod_step E op s"
  have "mod_ok (mw_repo ?t) \<and> mod_later (mw_repo s) (mw_repo ?t) \<and>
    dom (map_of (mr_reports (mw_repo ?t))) \<subseteq> dom (map_of (mr_reports (mw_repo s))) \<union> set (drawn_reports op)"
  proof (cases op)
    case (MoReportUser d a b c x)
    show ?thesis
    proof (cases "ReportUser E d s a b c x")
      case (Inr p)
      let ?r = "(mw_repo s)\<lparr>mr_reports := AList.update (md_first d) (new_report d a b None c x) (mr_reports (mw_repo s))\<rparr>"
      have t: "mw_repo ?t = ?r"
        using Inr MoReportUser by (auto simp: ReportUser_def mod_CreateUserReport_def stay_def Let_def split: if_splits)
      have f: "map_of (mr_reports (mw_repo s)) (md_first d) = None"
        using fresh MoReportUser by (simp add: drawn_reports_def)
      from mod_create [OF ok f, of "new_report d a b None c x" None ?r] show ?thesis
        unfolding t by (auto simp: MoReportUser drawn_reports_def update_conv' split: if_splits)
    qed (simp add: MoReportUser stay_def ok)
  next
    case (MoReportMessage d a m c x)
    show ?thesis
    proof (cases "ReportMessage E d s a m c x")
      case (Inr p)
      then obtain e b where t: "mw_repo ?t = (mw_repo s)
          \<lparr>mr_reports := AList.update (md_first d) (new_report d a b (Some m) c x) (mr_reports (mw_repo s)),
           mr_evidence := (mr_evidence (mw_repo s))(md_first d := Some (new_evidence d m e))\<rparr>" (is "_ = ?r")
        using MoReportMessage
        by (auto simp: ReportMessage_def mod_CreateMessageReport_def stay_def Let_def split: if_splits sum.splits)
      have f: "map_of (mr_reports (mw_repo s)) (md_first d) = None"
        using fresh MoReportMessage by (simp add: drawn_reports_def)
      from mod_create [OF ok f, of "new_report d a b (Some m) c x" "Some (new_evidence d m e)" ?r]
      show ?thesis unfolding t by (auto simp: MoReportMessage drawn_reports_def update_conv' split: if_splits)
    qed (simp add: MoReportMessage stay_def ok)
  next
    case (MoResolve d caller i v)
    show ?thesis
    proof (cases rule: resolve_endpoint_cases [where E = E and d = d and s = s and caller = caller and i = i and v = v])
      case same
      then show ?thesis by (simp add: MoResolve ok)
    next
      case (written m actor rep status verdict action w accounts social)
      have t: "mw_repo ?t = publish (mw_repo s) (md_first d) w" by (simp add: MoResolve written(9))
      note f = resolve_build_fields [OF written(7,5)]
      have i: "rp_ID rep = i" using mod_okD(1) [OF ok written(3)] by simp
      note p = publish_fields [of "mw_repo s" "md_first d" w, unfolded f(1) i]
      from mod_resolve [OF ok written(3,4) f(1) [unfolded i] f(2,3) f(4) [unfolded i] p] written(3) show ?thesis
        unfolding t by (auto simp: p)
    qed
  next
    case (MoNotify d a t k p)
    then show ?thesis
      using mod_same [of "mw_repo ?t" "mw_repo s"] ok by (simp add: mod_Notify_def CreateNotification_same)
  next
    case (MoMarkRead a n now)
    then show ?thesis
      using mod_same [of "mw_repo ?t" "mw_repo s"] ok
      by (simp add: mod_MarkNotificationRead_def split: option.splits sum.splits)
  next
    case (MoMarkAllRead a now)
    then show ?thesis
      using mod_same [of "mw_repo ?t" "mw_repo s"] ok by (simp add: mod_MarkAllNotificationsRead_def)
  qed (simp add: ok)
  then show "mod_ok (mw_repo ?t)" "mod_later (mw_repo s) (mw_repo ?t)"
    "dom (map_of (mr_reports (mw_repo ?t))) \<subseteq> dom (map_of (mr_reports (mw_repo s))) \<union> set (drawn_reports op)"
    by blast+
qed

text \<open>Identifiers of reports are drawn fresh along a run.\<close>

definition fresh_reports :: "ModWorld \<Rightarrow> mod_op list \<Rightarrow> bool" where
  "fresh_reports s ops =
     (let ids = concat (map drawn_reports ops)
      in distinct ids \<and> list_all (\<lambda>i. map_of (mr_reports (mw_repo s)) i = None) ids)"

lemma fresh_reports_now:
  "fresh_reports s (op # ops) \<Longrightarrow> list_all (\<lambda>i. map_of (mr_reports (mw_repo s)) i = None) (drawn_reports op)"
  by (simp add: fresh_reports_def list_all_iff)

lemma fresh_reports_later:
  assumes "fresh_reports s (op # ops)" "mod_ok (mw_repo s)"
  shows "fresh_reports (mod_step E op s) ops"
proof -
  let ?ids = "concat (map drawn_reports ops)"
  have d: "distinct ?ids" "set (drawn_reports op) \<inter> set ?ids = {}" "\<forall>i\<in>set ?ids. map_of (mr_reports (mw_repo s)) i = None"
    using assms(1) by (auto simp: fresh_reports_def list_all_iff)
  note m = mod_step_keeps(3) [OF assms(2) fresh_reports_now [OF assms(1)], where E = E]
  have "map_of (mr_reports (mw_repo (mod_step E op s))) i = None" if "i \<in> set ?ids" for i
    using that d(2,3) m by (meson domIff disjoint_iff in_mono Un_iff)
  with d(1) show ?thesis by (simp add: fresh_reports_def list_all_iff)
qed

lemma mod_run_keeps:
  assumes "mod_ok (mw_repo s)" "fresh_reports s (ops @ ops')"
  shows "mod_ok (mw_repo (mod_run E ops s))" "mod_later (mw_repo s) (mw_repo (mod_run E ops s))"
    "fresh_reports (mod_run E ops s) ops'"
proof -
  have "mod_ok (mw_repo (mod_run E ops s)) \<and> mod_later (mw_repo s) (mw_repo (mod_run E ops s)) \<and>
        fresh_reports (mod_run E ops s) ops'"
    using assms
  proof (induction ops arbitrary: s)
    case (Cons op ops)
    have f: "fresh_reports s (op # ops @ ops')" using Cons.prems(2) by simp
    note k = mod_step_keeps(1,2) [OF Cons.prems(1) fresh_reports_now [OF f], where E = E]
    from Cons.IH [OF k(1) fresh_reports_later [OF f Cons.prems(1)]] mod_later_trans [OF k(2)] show ?case
      unfolding mod_run.simps by blast
  qed simp
  then show "mod_ok (mw_repo (mod_run E ops s))" "mod_later (mw_repo s) (mw_repo (mod_run E ops s))"
    "fresh_reports (mod_run E ops s) ops'" by blast+
qed

lemma NewModRepo_ok [simp]: "mod_ok NewModRepo"
  by (simp add: mod_ok_def NewModRepo_def report_actions_def)

text \<open>
  C26. A report is resolved once. After any run from an empty repository a report has exactly one audit record when it
  is resolved and none while it is open, and once resolved neither the report nor its record changes, whatever is
  requested afterwards and whatever the rest of the server does to accounts and messages.
\<close>
theorem reports_resolved_once:
  assumes "mw_repo s = NewModRepo" "fresh_reports s (ops @ ops')"
    "map_of (mr_reports (mw_repo (mod_run E ops s))) i = Some rep"
  shows "length (report_actions i (mw_repo (mod_run E ops s))) = (if report_resolved rep then 1 else 0)
       \<and> (report_resolved rep \<longrightarrow>
            map_of (mr_reports (mw_repo (mod_run E ops' (mod_run E ops s)))) i = Some rep
          \<and> report_actions i (mw_repo (mod_run E ops' (mod_run E ops s))) = report_actions i (mw_repo (mod_run E ops s)))"
proof -
  have "mod_ok (mw_repo s)" using assms(1) by simp
  note k = mod_run_keeps [OF this assms(2), where E = E]
  have f: "fresh_reports (mod_run E ops s) (ops' @ [])" using k(3) by simp
  note l = mod_run_keeps(2) [OF k(1) f, where E = E]
  from mod_okD(1) [OF k(1) assms(3)] l assms(3) show ?thesis unfolding mod_later_def by fastforce
qed

text \<open>
  Evidence survives what it is evidence of: once a message was reported, the detail of the report shows the text
  the message had at that moment, after any run of moderation and any change of accounts and messages, removal of
  the message and deletion of its author included.
\<close>
theorem evidence_survives:
  assumes "mod_ok (mw_repo s)" "fresh_reports s (MoReportMessage d reporter m category explanation # ops)"
    "ReportMessage E d s reporter m category explanation = Inr (t, rep)"
    "Service_MessageForReport reporter m (mw_social s) = Inr e"
  shows "map_sum id (\<lambda>x. map_option ed_MessageText (rd_Evidence x)) (GetReportDetail (mod_run E ops t) (rp_ID rep))
           = Inr (Some (re_Text e))"
proof -
  let ?op = "MoReportMessage d reporter m category explanation"
  have t: "mod_step E ?op s = t" using assms(3) by (simp add: stay_def)
  have rep: "rp_ID rep = md_first d" and ev: "mr_evidence (mw_repo t) (md_first d) = Some (new_evidence d m e)"
    and row: "map_of (mr_reports (mw_repo t)) (md_first d) = Some rep"
    using assms(3,4) by (auto simp: ReportMessage_def mod_CreateMessageReport_def Let_def update_conv' split: if_splits)
  have f: "fresh_reports s ((?op # ops) @ [])" using assms(2) by simp
  note k1 = mod_step_keeps(1) [OF assms(1) fresh_reports_now [OF assms(2)], where E = E, unfolded t]
  have "fresh_reports t (ops @ [])" using fresh_reports_later [OF assms(2,1), where E = E] t by simp
  note k = mod_run_keeps [OF k1 this, where E = E]
  let ?z = "mw_repo (mod_run E ops t)"
  obtain rep' where rep': "map_of (mr_reports ?z) (md_first d) = Some rep'"
    using k(2) row unfolding mod_later_def by blast
  moreover have "rp_ID rep' = md_first d" using mod_okD(1) [OF k(1) rep'] by simp
  moreover have "mr_evidence ?z (md_first d) = Some (new_evidence d m e)"
    using k(2) ev unfolding mod_later_def by blast
  ultimately show ?thesis
    by (simp add: GetReportDetail_def mod_GetReport_def mod_GetEvidence_def rep evidence_dto_def new_evidence_def)
qed

section \<open>Who is acted on\<close>

lemma report_accounts:
  "mw_accounts (stay s (ReportUser E d s a b c x)) = mw_accounts s"
  "mw_accounts (stay s (ReportMessage E d s a m c x)) = mw_accounts s"
  by (auto simp: stay_def ReportUser_def ReportMessage_def Let_def split: sum.splits if_splits)

lemma volatile_apply_accounts:
  assumes "user_wf r" "volatile_apply d m v action rep (r, q) = Inr (r', q')" "u \<noteq> rp_ReportedUserID rep"
  shows "acct r' u = acct r u"
proof -
  have "r' = r \<or> (\<exists>f y. usr_modify r (rp_ReportedUserID rep) f = Inr (r', y))"
    using assms(2)
    by (auto simp: volatile_apply_def auth_Suspend_def auth_Ban_def only_error_def usr_Suspend_def usr_Ban_def
        split: if_splits sum.splits option.splits prod.splits)
  with usr_modify_acct(2) [OF assms(1)] assms(3) show ?thesis by auto
qed

lemma volatile_apply_idle:
  "\<not> actionRequiresLiveTarget action \<Longrightarrow> volatile_apply d m v action rep (r, q) = Inr (r', q') \<Longrightarrow> r' = r"
  by (auto simp: volatile_apply_def actionRequiresLiveTarget_def split: if_splits sum.splits option.splits)

text \<open>
  Only admins act on admins: a request to resolve a report, made by an account that is not an admin, leaves every
  admin account exactly as it was, whatever the report and the decision.
\<close>
theorem moderators_spare_admins:
  assumes "user_wf (mw_accounts s)" "usr_FindByID (mw_accounts s) m = Inr x" "\<not> IsAdmin x"
    "usr_FindByID (mw_accounts s) u = Inr y" "IsAdmin y"
  shows "usr_FindByID (mw_accounts (snd (resolve_endpoint E d s (Some m) i v))) u = Inr y"
proof (cases rule: resolve_endpoint_cases [where E = E and d = d and s = s and caller = "Some m" and i = i and v = v])
  case same
  then show ?thesis using assms(4) by simp
next
  case (written m' actor rep status verdict action w accounts social)
  have actor: "\<not> uv_IsAdmin actor"
    using written(1,2) assms(2,3) by (auto simp: RequireModerator_def mod_UserByID_def split: if_splits)
  have "acct accounts u = acct (mw_accounts s) u"
  proof (cases "rp_ReportedDeleted rep")
    case True
    then have "\<not> actionRequiresLiveTarget action" using written(6) by (auto simp: target_guard_def split: if_splits)
    with volatile_apply_idle written(8) show ?thesis by blast
  next
    case False
    then have "rp_ReportedUserID rep \<noteq> u"
      using written(6) actor assms(4,5) by (auto simp: target_guard_def mod_UserByID_def)
    with volatile_apply_accounts [OF assms(1) written(8)] show ?thesis by auto
  qed
  with assms(4) show ?thesis by (simp add: written(9) FindByID_acct)
qed

section \<open>What a sanction does\<close>

definition sanction_active :: "ResolveInput \<Rightarrow> time \<Rightarrow> time \<Rightarrow> bool" where
  "sanction_active v decided now =
     (rv_ActionType v = ActionPermanentBan \<or>
      (case suspend_until v (rv_ActionType v) decided of None \<Rightarrow> False | Some until \<Rightarrow> now < until))"

text \<open>The status the policy reads, from the accounts at a time.\<close>

definition account_status :: "UserRepo \<Rightarrow> time \<Rightarrow> string \<Rightarrow> safety_err + bool \<times> bool" where
  "account_status r now i = map_sum (\<lambda>e. SafErrOther (auth_err_text e)) id (mod_UserStatus r now i)"

text \<open>
  C27. A sanction silences: when a moderator resolves an open report with a suspension or a ban, the reported user's
  account is sanctioned in the same step, and while the sanction lasts no message of that user is stored, whatever
  the conversation and the friendships are.
\<close>
theorem sanctioned_user_is_silenced:
  assumes "user_wf (mw_accounts s)" "mod_ok (mw_repo s)" "map_of (mr_reports (mw_repo s)) i = Some rep"
    "\<not> report_resolved rep" "resolve_endpoint E d s caller i v = (Inr detail, s')"
    "rv_Decision v = ''action_taken''" "sanction_active v (md_now d) now"
  shows "fst (Service_SendMessage
                (wired (wired_safety byUserID byHandle (account_status (mw_accounts s') now)) blocks notify)
                (rp_ReportedUserID rep) cid body uuid nuuid sent r) = r"
proof -
  let ?u = "rp_ReportedUserID rep" and ?until = "suspend_until v (rv_ActionType v) (md_now d)"
  obtain m where m: "caller = Some m"
    using assms(5) by (cases caller) (auto simp: resolve_endpoint_def RequireModerator_def)
  obtain actor where "ResolveReport E d s m actor i v = Inr (s', detail)"
    using assms(5) by (auto simp: resolve_endpoint_def m split: sum.splits)
  then obtain status verdict action w accounts social where w: "decide v = Inr (status, verdict, action)"
    "resolve_build E d m v (status, verdict, action) rep = Inr w"
    "wr_VolatileApply w (mw_accounts s, mw_social s) = Inr (accounts, social)" "mw_accounts s' = accounts"
    using assms(3,4) by (auto simp: ResolveReport_def mod_GetReport_def mod_ResolveReport_def)
  have action: "action = rv_ActionType v" using w(1) assms(6) by (auto simp: decide_def split: if_splits)
  have "volatile_apply d m v action rep (mw_accounts s, mw_social s) = Inr (accounts, social)"
    using w(2,3) by (auto simp: resolve_build_def split: if_splits)
  then obtain y where y: "acct accounts ?u = Some y" "IsBanned y \<or> IsSuspended y now"
  proof -
    assume v: "volatile_apply d m v action rep (mw_accounts s, mw_social s) = Inr (accounts, social)"
    consider "action = ActionPermanentBan" | t where "action = ActionTemporarySuspension" "?until = Some t" "now < t"
      using assms(7) action by (auto simp: sanction_active_def suspend_until_def split: if_splits)
    then have "\<exists>f y. usr_modify (mw_accounts s) ?u f = Inr (accounts, y) \<and> (IsBanned y \<or> IsSuspended y now)"
    proof cases
      case 1
      with v obtain y where "usr_Ban (mw_accounts s) ?u (rv_Reason v) (md_now d) = Inr (accounts, y)"
        by (auto simp: volatile_apply_def auth_Ban_def only_error_def ActionTemporarySuspension_def ActionPermanentBan_def
            split: sum.splits prod.splits)
      with usr_modify_acct(1) [OF assms(1)] show ?thesis unfolding usr_Ban_def by (fastforce simp: IsBanned_def)
    next
      case 2
      with v obtain y where "usr_Suspend (mw_accounts s) ?u ?until (rv_Reason v) = Inr (accounts, y)"
        by (auto simp: volatile_apply_def auth_Suspend_def only_error_def action split: sum.splits prod.splits)
      with usr_modify_acct(1) [OF assms(1)] 2 show ?thesis unfolding usr_Suspend_def by (fastforce simp: IsSuspended_def)
    qed
    then show thesis using usr_modify_acct(2) [OF assms(1)] that by auto
  qed
  let ?S = "wired_safety byUserID byHandle (account_status accounts now)"
  have "CanUsersInteract ?S ?u other blocks \<noteq> Inr True" for other
    using y by (auto simp: CanUsersInteract_def wired_safety_def account_status_def mod_UserStatus_def FindByID_acct)
  then have "\<not> (\<exists>c. may_send ?S blocks notify ?u cid body uuid nuuid sent r c)"
    by (auto simp: may_send_def Let_def)
  with SendMessage_stores [of ?S blocks notify ?u cid body uuid nuuid sent r] w(4) show ?thesis
    by (simp add: case_prod_beta Let_def)
qed

section \<open>A small server\<close>

text \<open>Ada, the moderator Mia and the admin Root, and a message that Ada sent to Bob.\<close>

definition demo_join :: "time \<Rightarrow> string \<Rightarrow> auth_op" where
  "demo_join now name =
     OpRegister ((demo_draw now name)\<lparr>ad_userID := name\<rparr>)
       \<lparr>ri_Email = name @ ''@x'', ri_Password = ''password'', ri_DisplayName = name, ri_AvatarKey = [],
        ri_SignupIP = []\<rparr>"

definition demo_members :: UserRepo where
  "demo_members =
     auth_run demo_auth
       [demo_join 1 ''ada'', demo_join 2 ''mia'', demo_join 3 ''root'', OpSetRole ''mia'' RoleModerator,
        OpSetRole ''root'' RoleAdmin]
       NewUserRepo"

definition demo_note :: "(time \<times> request) list" where
  "demo_note = demo_meeting @ [(20, ReqSend ''ada'' ''c1'' ''Hello'' ''m1'' [])]"

definition demo_server :: ModWorld where
  "demo_server =
     \<lparr>mw_repo = NewModRepo, mw_accounts = demo_members,
      mw_social = wd_social (foldl (serve demo_safety (\<lambda>_. None)) demo_world demo_note)\<rparr>"

definition demo_mod_env :: ModEnv where
  "demo_mod_env = \<lparr>me_fail = (\<lambda>_. Inr ()), me_Format = (\<lambda>_. ''later'')\<rparr>"

definition demo_ids :: "time \<Rightarrow> string \<Rightarrow> ModDraw" where
  "demo_ids now s = \<lparr>md_now = now, md_first = ''r'' @ s, md_second = ''e'' @ s\<rparr>"

definition demo_decision :: "string \<Rightarrow> ResolveInput" where
  "demo_decision action =
     \<lparr>rv_Decision = ''action_taken'', rv_ActionType = action, rv_Reason = ''spam'', rv_ModeratorNotes = [],
      rv_SuspensionDays = 0\<rparr>"

lemma demo_members_wf: "user_wf demo_members"
  unfolding demo_members_def by (rule run_keeps(1)) (simp, code_simp)

definition demo_report :: mod_op where
  "demo_report = MoReportMessage (demo_ids 30 ''1'') ''bob'' ''m1'' ''spam'' []"

definition demo_wipe :: mod_op where
  "demo_wipe = MoOther (\<lambda>_. NewUserRepo) (\<lambda>_. NewSocialRepo)"

theorem reports_resolved_once_witness:
  "length (report_actions ''r1'' (mw_repo (mod_run demo_mod_env
     [demo_report, MoResolve (demo_ids 31 ''2'') (Some ''mia'') ''r1'' (demo_decision ActionContentRemoval)] demo_server))) = 1
   \<and> length (report_actions ''r1'' (mw_repo (mod_run demo_mod_env
     [MoResolve (demo_ids 32 ''3'') (Some ''root'') ''r1'' (demo_decision ActionPermanentBan), demo_wipe]
     (mod_run demo_mod_env
     [demo_report, MoResolve (demo_ids 31 ''2'') (Some ''mia'') ''r1'' (demo_decision ActionContentRemoval)] demo_server)))) = 1"
proof -
  let ?ops = "[demo_report, MoResolve (demo_ids 31 ''2'') (Some ''mia'') ''r1'' (demo_decision ActionContentRemoval)]"
  let ?more = "[MoResolve (demo_ids 32 ''3'') (Some ''root'') ''r1'' (demo_decision ActionPermanentBan), demo_wipe]"
  have new: "mw_repo demo_server = NewModRepo" by (simp add: demo_server_def)
  have fresh: "fresh_reports demo_server (?ops @ ?more)" by code_simp
  have "map_option report_resolved (map_of (mr_reports (mw_repo (mod_run demo_mod_env ?ops demo_server))) ''r1'') = Some True"
    by code_simp
  then obtain rep where rep: "map_of (mr_reports (mw_repo (mod_run demo_mod_env ?ops demo_server))) ''r1'' = Some rep"
    "report_resolved rep"
    by (cases "map_of (mr_reports (mw_repo (mod_run demo_mod_env ?ops demo_server))) ''r1''") auto
  from reports_resolved_once [OF new fresh rep(1)] rep(2) show ?thesis by simp
qed

theorem evidence_survives_witness:
  "map_sum id (\<lambda>x. map_option ed_MessageText (rd_Evidence x))
     (GetReportDetail (mod_run demo_mod_env
        [MoResolve (demo_ids 31 ''2'') (Some ''mia'') ''r1'' (demo_decision ActionContentRemoval), demo_wipe]
        (mod_step demo_mod_env demo_report demo_server)) ''r1'') = Inr (Some ''Hello'')"
proof -
  let ?ops = "[MoResolve (demo_ids 31 ''2'') (Some ''mia'') ''r1'' (demo_decision ActionContentRemoval), demo_wipe]"
  have ok: "mod_ok (mw_repo demo_server)" by (simp add: demo_server_def)
  have fresh: "fresh_reports demo_server (demo_report # ?ops)" by code_simp
  have body: "map_sum id re_Text (Service_MessageForReport ''bob'' ''m1'' (mw_social demo_server)) = Inr ''Hello''"
    by code_simp
  then obtain e where e: "Service_MessageForReport ''bob'' ''m1'' (mw_social demo_server) = Inr e"
    "re_Text e = ''Hello''"
    by (cases "Service_MessageForReport ''bob'' ''m1'' (mw_social demo_server)") auto
  have "map_sum id (\<lambda>(_, rep). rp_ID rep)
      (ReportMessage demo_mod_env (demo_ids 30 ''1'') demo_server ''bob'' ''m1'' ''spam'' []) = Inr ''r1''"
    by code_simp
  then obtain t rep where t: "ReportMessage demo_mod_env (demo_ids 30 ''1'') demo_server ''bob'' ''m1'' ''spam'' [] = Inr (t, rep)"
    "rp_ID rep = ''r1''"
    by (cases "ReportMessage demo_mod_env (demo_ids 30 ''1'') demo_server ''bob'' ''m1'' ''spam'' []") auto
  then have "mod_step demo_mod_env demo_report demo_server = t" by (simp add: demo_report_def stay_def)
  with evidence_survives [OF ok fresh [unfolded demo_report_def] t(1) e(1)] t(2) e(2) show ?thesis by simp
qed

theorem moderators_spare_admins_witness:
  "map_sum id us_BannedAt (usr_FindByID (mw_accounts (snd (resolve_endpoint demo_mod_env (demo_ids 31 ''2'')
     (mod_step demo_mod_env (MoReportUser (demo_ids 30 ''1'') ''ada'' ''root'' ''spam'' []) demo_server)
     (Some ''mia'') ''r1'' (demo_decision ActionPermanentBan)))) ''root'') = Inr None"
proof -
  let ?s = "mod_step demo_mod_env (MoReportUser (demo_ids 30 ''1'') ''ada'' ''root'' ''spam'' []) demo_server"
  have acc: "mw_accounts ?s = demo_members" by (simp add: report_accounts demo_report_def) (simp add: demo_server_def)
  obtain x where x: "usr_FindByID (mw_accounts ?s) ''mia'' = Inr x" "\<not> IsAdmin x"
  proof -
    have "map_sum id IsAdmin (usr_FindByID demo_members ''mia'') = Inr False" by code_simp
    then show ?thesis using that acc by (cases "usr_FindByID demo_members ''mia''") auto
  qed
  obtain y where y: "usr_FindByID (mw_accounts ?s) ''root'' = Inr y" "IsAdmin y" "us_BannedAt y = None"
  proof -
    have "map_sum id (\<lambda>y. (IsAdmin y, us_BannedAt y)) (usr_FindByID demo_members ''root'') = Inr (True, None)"
      by code_simp
    then show ?thesis using that acc by (cases "usr_FindByID demo_members ''root''") auto
  qed
  have "user_wf (mw_accounts ?s)" using demo_members_wf acc by simp
  from moderators_spare_admins [OF this x y(1,2), of demo_mod_env "demo_ids 31 ''2''" "''r1''" "demo_decision ActionPermanentBan"]
    y(3) show ?thesis by simp
qed

theorem sanctioned_user_is_silenced_witness:
  "fst (Service_SendMessage
     (wired (wired_safety demo_person demo_person
        (account_status (mw_accounts (snd (resolve_endpoint demo_mod_env (demo_ids 31 ''2'')
           (mod_step demo_mod_env demo_report demo_server) (Some ''mia'') ''r1''
           (demo_decision ActionTemporarySuspension)))) 32)) [] (\<lambda>_. None))
     ''ada'' ''c1'' ''again'' ''m9'' [] 32 (mw_social demo_server)) = mw_social demo_server"
proof -
  let ?s = "mod_step demo_mod_env demo_report demo_server"
  let ?v = "demo_decision ActionTemporarySuspension"
  let ?res = "resolve_endpoint demo_mod_env (demo_ids 31 ''2'') ?s (Some ''mia'') ''r1'' ?v"
  have acc: "mw_accounts ?s = demo_members" by (simp add: report_accounts demo_report_def) (simp add: demo_server_def)
  have wf: "user_wf (mw_accounts ?s)" using demo_members_wf acc by simp
  have ok: "mod_ok (mw_repo ?s)"
    by (rule mod_step_keeps(1)) (simp add: demo_server_def, code_simp)
  have "map_option (\<lambda>rep. (report_resolved rep, rp_ReportedUserID rep)) (map_of (mr_reports (mw_repo ?s)) ''r1'')
      = Some (False, ''ada'')" by code_simp
  then obtain rep where rep: "map_of (mr_reports (mw_repo ?s)) ''r1'' = Some rep" "\<not> report_resolved rep"
    "rp_ReportedUserID rep = ''ada''"
    by (cases "map_of (mr_reports (mw_repo ?s)) ''r1''") auto
  have "isl (fst ?res) = False" by code_simp
  then obtain detail where res: "?res = (Inr detail, snd ?res)" by (cases ?res; cases "fst ?res") auto
  have v: "rv_Decision ?v = ''action_taken''" "sanction_active ?v (md_now (demo_ids 31 ''2'')) 32" by code_simp+
  from sanctioned_user_is_silenced [OF wf ok rep(1,2) res v] rep(3) show ?thesis by simp
qed

end
