(* ===== verification/Delivery.thy ===== *)
theory Delivery
  imports Prelude
begin

text \<open>
  What the automatic pipelines rely on to act at most once for a portfolio: a store of applications in which a key is
  claimed for a user before the portfolio is touched, kept when the portfolio was changed and released when it was not.
  The locale states that contract; the stores of income events and of corporate actions provide it.
\<close>

section \<open>The log of what was delivered\<close>

text \<open>A log entry is the user and the key of a delivery that succeeded. \<open>keys_of u\<close> are those made for \<open>u\<close>.\<close>

definition keys_of :: "'u \<Rightarrow> ('u \<times> 'k) list \<Rightarrow> 'k list" where
  "keys_of u ds = map snd (filter (\<lambda>d. fst d = u) ds)"

lemma keys_of_simps [simp]:
  "keys_of u [] = []"
  "keys_of u ((v, k) # ds) = (if v = u then k # keys_of u ds else keys_of u ds)"
  by (simp_all add: keys_of_def)

lemma distinct_same_length:
  assumes "distinct (map f xs)" "\<And>x. x \<in> set xs \<Longrightarrow> f x = k"
  shows "length xs \<le> 1"
proof (cases xs)
  case (Cons x ys)
  then show ?thesis using assms by (cases ys) auto
qed simp

section \<open>The contract\<close>

locale delivery_store =
  fixes held :: "'s \<Rightarrow> 'k \<Rightarrow> 'u option"
    and claims :: "'k \<Rightarrow> 'u \<Rightarrow> 's \<Rightarrow> 's \<Rightarrow> bool"
    and completes :: "'k \<Rightarrow> 'u \<Rightarrow> 's \<Rightarrow> 's \<Rightarrow> bool"
    and fails :: "'k \<Rightarrow> 's \<Rightarrow> 's \<Rightarrow> bool"
    and skips :: "'k \<Rightarrow> 's \<Rightarrow> 's \<Rightarrow> bool"
    and forgets :: "'u \<Rightarrow> 's \<Rightarrow> 's \<Rightarrow> bool"
  assumes claim_law: "claims k u s s' \<Longrightarrow> held s k = None \<and> held s' = (held s)(k := Some u)"
    and complete_law: "completes k u s s' \<Longrightarrow> held s' = (held s)(k := Some u)"
    and fail_law: "fails k s s' \<Longrightarrow> held s' = (held s)(k := None)"
    and skip_law: "skips k s s' \<Longrightarrow> held s l = Some u \<Longrightarrow> held s' l = Some u"
    and forget_law: "forgets v s s' \<Longrightarrow> held s l = Some u \<Longrightarrow> u \<noteq> v \<Longrightarrow> held s' l = Some u"
begin

text \<open>What was delivered to a user stays held for that user, and no key was delivered twice.\<close>

definition safe :: "'u \<Rightarrow> 's \<Rightarrow> ('u \<times> 'k) list \<Rightarrow> bool" where
  "safe u s ds = ((\<forall>k \<in> set (keys_of u ds). held s k = Some u) \<and> distinct (keys_of u ds))"

lemma safe_distinct: "safe u s ds \<Longrightarrow> distinct (keys_of u ds)"
  by (simp add: safe_def)

lemma safe_start: "safe u s []"
  by (simp add: safe_def)

lemma safe_same_held: "safe u s ds \<Longrightarrow> held s' = held s \<Longrightarrow> safe u s' ds"
  by (simp add: safe_def)

lemma claimed_is_new: "safe u s ds \<Longrightarrow> claims k v s s' \<Longrightarrow> k \<notin> set (keys_of u ds)"
  using claim_law [of k v s s'] by (auto simp: safe_def)

lemma safe_claim: "safe u s ds \<Longrightarrow> claims k v s s' \<Longrightarrow> safe u s' ds"
  using claim_law [of k v s s'] claimed_is_new [of u s ds k v s'] by (auto simp: safe_def)

text \<open>A delivery that failed releases its key, one that succeeded keeps it: either way the log stays safe.\<close>

lemma safe_failed:
  assumes "safe u s ds" "claims k v s s1" "fails k s1 s2"
  shows "safe u s2 ds"
  using safe_claim [OF assms(1,2)] claimed_is_new [OF assms(1,2)] fail_law [OF assms(3)] by (auto simp: safe_def)

lemma safe_delivered:
  assumes "safe u s ds" "claims k v s s1" "completes k v s1 s2"
  shows "safe u s2 ((v, k) # ds)"
  using safe_claim [OF assms(1,2)] claimed_is_new [OF assms(1,2)] complete_law [OF assms(3)]
  by (auto simp: safe_def)

lemma safe_revised: "safe u s ds \<Longrightarrow> held s k = Some v \<Longrightarrow> completes k v s s' \<Longrightarrow> safe u s' ds"
  using complete_law [of k v s s'] by (auto simp: safe_def)

lemma safe_skip: "safe u s ds \<Longrightarrow> skips k s s' \<Longrightarrow> safe u s' ds"
  using skip_law [of k s s'] by (auto simp: safe_def)

lemma safe_forget: "safe u s ds \<Longrightarrow> forgets v s s' \<Longrightarrow> v \<noteq> u \<Longrightarrow> safe u s' ds"
  using forget_law [of v s s'] by (auto simp: safe_def)

end

end
