(* ===== verification/IncomeModel.thy ===== *)
theory IncomeModel
  imports MemoryStore
begin

text \<open>
  The automatic income pipeline, its data (package \<^verbatim>\<open>income\<close>: model.go, provider.go, withholding.go, store.go):
  provider events, their normalization, the rows of events and of applications, and the in-memory store.

  The hash of a fingerprint and the RFC 3339 rendering of an instant are parameters. Events and applications are listed
  by ranging over Go maps, so both are association lists here, in the order the range visits them; \<^verbatim>\<open>sort.Slice\<close> is taken
  to keep that order on ties. Each operation reads the clock once, as the argument \<open>now\<close>.
\<close>

section \<open>Types, classification and states\<close>

definition TypeCashDividend :: string where "TypeCashDividend = ''cash_dividend''"

definition TypeSpecialDividend :: string where "TypeSpecialDividend = ''special_dividend''"

definition TypeETFDistribution :: string where "TypeETFDistribution = ''etf_distribution''"

definition TypeMutualFundDist :: string where "TypeMutualFundDist = ''mutual_fund_distribution''"

definition TypeBondCoupon :: string where "TypeBondCoupon = ''bond_coupon''"

definition TypeFixedIncomeInt :: string where "TypeFixedIncomeInt = ''fixed_income_interest''"

definition TypeCashInterest :: string where "TypeCashInterest = ''cash_interest''"

definition TypeCapitalGainsDist :: string where "TypeCapitalGainsDist = ''capital_gains_distribution''"

definition TypeReturnOfCapital :: string where "TypeReturnOfCapital = ''return_of_capital''"

definition TypeStockDividend :: string where "TypeStockDividend = ''stock_dividend''"

definition TypePaymentInLieu :: string where "TypePaymentInLieu = ''payment_in_lieu''"

definition TypeStakingReward :: string where "TypeStakingReward = ''staking_reward''"

definition TypeOtherProvider :: string where "TypeOtherProvider = ''other_provider_income''"

lemmas type_defs =
  TypeCashDividend_def TypeSpecialDividend_def TypeETFDistribution_def TypeMutualFundDist_def TypeBondCoupon_def
  TypeFixedIncomeInt_def TypeCashInterest_def TypeCapitalGainsDist_def TypeReturnOfCapital_def TypeStockDividend_def
  TypePaymentInLieu_def TypeStakingReward_def TypeOtherProvider_def

datatype Classification = ClassOrdinary | ClassReturnOfCapital | ClassStockDividend

definition Classify :: "string \<Rightarrow> Classification" where
  "Classify t =
     (if t = TypeReturnOfCapital then ClassReturnOfCapital
      else if t = TypeStockDividend then ClassStockDividend else ClassOrdinary)"

datatype IncomeStatus =
    IncDetected | IncScheduled | IncEligibilityCalculated | IncAwaitingPayment | IncReadyToApply | IncApplied
  | IncCorrected | IncCancelled | IncSuperseded | IncUnresolved | IncFailedRetryable | IncFailedPermanent
  | IncProcessedNoEntitlement

datatype Quality =
    QualityVerified | QualityHighConfidence | QualityIncomplete | QualityConflicting | QualityUnverified
  | QualityCancelled

definition meetsAutoApplyPolicy :: "Quality \<Rightarrow> bool" where
  "meetsAutoApplyPolicy q = (q = QualityVerified \<or> q = QualityHighConfidence)"

definition requiresAccountData :: "string \<Rightarrow> bool" where
  "requiresAccountData t = (t = TypeCashInterest \<or> t = TypeStakingReward \<or> t = TypePaymentInLieu)"

section \<open>Rows\<close>

record InstrumentReference =
  irf_InstrumentID :: string
  irf_ProviderID :: string
  irf_FIGI :: string
  irf_ISIN :: string
  irf_CUSIP :: string
  irf_Exchange :: string
  irf_MIC :: string
  irf_Currency :: string
  irf_Symbol :: string

definition zero_InstrumentReference :: InstrumentReference where
  "zero_InstrumentReference =
     \<lparr>irf_InstrumentID = [], irf_ProviderID = [], irf_FIGI = [], irf_ISIN = [], irf_CUSIP = [], irf_Exchange = [],
      irf_MIC = [], irf_Currency = [], irf_Symbol = []\<rparr>"

record IncomeEventRequest =
  irq_Instruments :: "InstrumentReference list"
  irq_Since :: time
  irq_Until :: time

record ProviderComponent =
  icp_Type :: string
  icp_AmountPerUnit :: Price

record ProviderIncomeEvent =
  pev_ProviderEventID :: string
  pev_Type :: string
  pev_Instrument :: InstrumentReference
  pev_AmountPerUnit :: Price
  pev_Currency :: string
  pev_Components :: "ProviderComponent list"
  pev_DeclarationAt :: "time option"
  pev_ExDate :: "time option"
  pev_RecordDate :: "time option"
  pev_PaymentDate :: time
  pev_Frequency :: string
  pev_TaxClassification :: string
  pev_Cancelled :: bool
  pev_SourceURL :: string
  pev_RetrievedAt :: time

record IncomeEvent =
  iev_ID :: string
  iev_Provider :: string
  iev_ProviderEventID :: string
  iev_Type :: string
  iev_Instrument :: InstrumentReference
  iev_AmountPerUnit :: Price
  iev_Currency :: string
  iev_Components :: "ProviderComponent list"
  iev_DeclarationAt :: "time option"
  iev_ExDate :: "time option"
  iev_RecordDate :: "time option"
  iev_PaymentDate :: time
  iev_Frequency :: string
  iev_Status :: IncomeStatus
  iev_Quality :: Quality
  iev_TaxClassification :: string
  iev_SourceURL :: string
  iev_RawFingerprint :: string
  iev_RetrievedAt :: time
  iev_CreatedAt :: time
  iev_UpdatedAt :: time

definition entitlementDate :: "IncomeEvent \<Rightarrow> time" where
  "entitlementDate e =
     (case iev_ExDate e of Some t \<Rightarrow> t
      | None \<Rightarrow> (case iev_RecordDate e of Some t \<Rightarrow> t | None \<Rightarrow> iev_PaymentDate e))"

text \<open>The empty status is that of the zero value, which a map answers for a row it does not hold.\<close>

datatype ApplicationStatus =
    AppUnset | AppPending | AppApplying | AppApplied | AppFailed | AppSkipped | AppCorrected

record Application =
  iap_IncomeEventID :: string
  iap_PortfolioID :: string
  iap_UserID :: string
  iap_Status :: ApplicationStatus
  iap_EligibleQuantity :: Quantity
  iap_GrossAmount :: Amount
  iap_WithholdingAmount :: Amount
  iap_FeeAmount :: Amount
  iap_NetAmount :: Amount
  iap_CashCurrency :: string
  iap_ReinvestmentQuantity :: Quantity
  iap_Estimated :: bool
  iap_PortfolioVersionBefore :: int
  iap_PortfolioVersionAfter :: int
  iap_PerformanceVersionBefore :: int
  iap_PerformanceVersionAfter :: int
  iap_AppliedAt :: "time option"
  iap_ErrorCode :: string
  iap_RetryCount :: int
  iap_NextRetryAt :: "time option"
  iap_CreatedAt :: time
  iap_UpdatedAt :: time

definition zero_Application :: Application where
  "zero_Application =
     \<lparr>iap_IncomeEventID = [], iap_PortfolioID = [], iap_UserID = [], iap_Status = AppUnset, iap_EligibleQuantity = 0,
      iap_GrossAmount = 0, iap_WithholdingAmount = 0, iap_FeeAmount = 0, iap_NetAmount = 0, iap_CashCurrency = [],
      iap_ReinvestmentQuantity = 0, iap_Estimated = False, iap_PortfolioVersionBefore = 0,
      iap_PortfolioVersionAfter = 0, iap_PerformanceVersionBefore = 0, iap_PerformanceVersionAfter = 0,
      iap_AppliedAt = None, iap_ErrorCode = [], iap_RetryCount = 0, iap_NextRetryAt = None, iap_CreatedAt = 0,
      iap_UpdatedAt = 0\<rparr>"

section \<open>The development provider\<close>

record ManualDevelopmentProvider =
  mdp_name :: string
  mdp_brokerage :: bool
  mdp_events :: "ProviderIncomeEvent list"

definition NewManualDevelopmentProvider :: ManualDevelopmentProvider where
  "NewManualDevelopmentProvider = \<lparr>mdp_name = ''manual_dev'', mdp_brokerage = False, mdp_events = []\<rparr>"

definition NewManualBrokerageProvider :: ManualDevelopmentProvider where
  "NewManualBrokerageProvider = \<lparr>mdp_name = ''manual_brokerage'', mdp_brokerage = True, mdp_events = []\<rparr>"

definition Seed :: "time \<Rightarrow> ProviderIncomeEvent list \<Rightarrow> ManualDevelopmentProvider \<Rightarrow> ManualDevelopmentProvider" where
  "Seed now events p =
     p\<lparr>mdp_events := mdp_events p @
        map (\<lambda>e. if pev_RetrievedAt e = 0 then e\<lparr>pev_RetrievedAt := now\<rparr> else e) events\<rparr>"

definition manual_FetchIncomeEvents :: "ManualDevelopmentProvider \<Rightarrow> IncomeEventRequest \<Rightarrow> ProviderIncomeEvent list" where
  "manual_FetchIncomeEvents p request =
     (let want = map irf_Symbol (irq_Instruments request)
      in filter (\<lambda>e.
           (mdp_brokerage p \<or> \<not> requiresAccountData (pev_Type e)) \<and>
           (want = [] \<or> irf_Symbol (pev_Instrument e) \<in> set want) \<and>
           (irq_Since request = 0 \<or> \<not> pev_PaymentDate e < irq_Since request) \<and>
           (irq_Until request = 0 \<or> \<not> irq_Until request < pev_PaymentDate e)) (mdp_events p))"

section \<open>Normalization\<close>

definition fp_add :: "string \<Rightarrow> string" where
  "fp_add s = s @ ''|''"

definition fp_time :: "(time \<Rightarrow> string) \<Rightarrow> time option \<Rightarrow> string" where
  "fp_time fmt t = fp_add (case t of None \<Rightarrow> ''-'' | Some t \<Rightarrow> fmt t)"

definition fingerprint_bytes :: "declib \<Rightarrow> (time \<Rightarrow> string) \<Rightarrow> ProviderIncomeEvent \<Rightarrow> string" where
  "fingerprint_bytes L fmt e =
     fp_add (pev_Type e) @ fp_add (irf_InstrumentID (pev_Instrument e)) @ fp_add (irf_Symbol (pev_Instrument e)) @
     fp_add (canonical L (pev_AmountPerUnit e)) @ fp_add (pev_Currency e) @
     fp_time fmt (pev_ExDate e) @ fp_time fmt (pev_RecordDate e) @ fp_add (fmt (pev_PaymentDate e)) @
     concat (map (\<lambda>c. fp_add (icp_Type c) @ fp_add (canonical L (icp_AmountPerUnit c)))
       (isort (\<lambda>a b. str_less (icp_Type a) (icp_Type b)) (pev_Components e))) @
     fp_add (if pev_Cancelled e then ''true'' else ''false'')"

definition fingerprint :: "declib \<Rightarrow> (string \<Rightarrow> string) \<Rightarrow> (time \<Rightarrow> string) \<Rightarrow> ProviderIncomeEvent \<Rightarrow> string" where
  "fingerprint L sha fmt e = sha (fingerprint_bytes L fmt e)"

definition assessQuality :: "declib \<Rightarrow> ProviderIncomeEvent \<Rightarrow> Quality" where
  "assessQuality L e =
     (if pev_Cancelled e then QualityCancelled
      else if irf_Symbol (pev_Instrument e) = [] \<or> pev_Currency e = [] \<or> pev_PaymentDate e = 0 then QualityIncomplete
      else if pev_Type e = TypeStockDividend
      then (if Decimal_Sign L (pev_AmountPerUnit e) \<le> 0 then QualityIncomplete else QualityVerified)
      else if Decimal_Sign L (pev_AmountPerUnit e) \<le> 0 then QualityIncomplete
      else if pev_Components e \<noteq> [] \<and>
        Price_Cmp L (foldl (\<lambda>s c. Price_Add L s (icp_AmountPerUnit c)) (ZeroPrice L) (pev_Components e))
          (pev_AmountPerUnit e) \<noteq> 0
      then QualityConflicting else QualityVerified)"

definition normalized_status :: "ProviderIncomeEvent \<Rightarrow> Quality \<Rightarrow> IncomeStatus" where
  "normalized_status e q =
     (if pev_Cancelled e then IncCancelled
      else if q = QualityIncomplete \<or> q = QualityConflicting then IncUnresolved else IncScheduled)"

definition normalize ::
  "declib \<Rightarrow> (string \<Rightarrow> string) \<Rightarrow> (time \<Rightarrow> string) \<Rightarrow> string \<Rightarrow> ProviderIncomeEvent \<Rightarrow> time \<Rightarrow> IncomeEvent" where
  "normalize L sha fmt provider e now =
     (let q = assessQuality L e
      in \<lparr>iev_ID = provider @ '':'' @ pev_ProviderEventID e, iev_Provider = provider,
          iev_ProviderEventID = pev_ProviderEventID e, iev_Type = pev_Type e, iev_Instrument = pev_Instrument e,
          iev_AmountPerUnit = pev_AmountPerUnit e, iev_Currency = pev_Currency e, iev_Components = pev_Components e,
          iev_DeclarationAt = pev_DeclarationAt e, iev_ExDate = pev_ExDate e, iev_RecordDate = pev_RecordDate e,
          iev_PaymentDate = pev_PaymentDate e, iev_Frequency = pev_Frequency e, iev_Status = normalized_status e q,
          iev_Quality = q, iev_TaxClassification = pev_TaxClassification e, iev_SourceURL = pev_SourceURL e,
          iev_RawFingerprint = fingerprint L sha fmt e, iev_RetrievedAt = pev_RetrievedAt e, iev_CreatedAt = now,
          iev_UpdatedAt = now\<rparr>)"

section \<open>Requests for the held instruments\<close>

record DiscoveryInstrument =
  din_InstrumentID :: string
  din_Symbol :: string
  din_AssetType :: string

definition normalizeDiscoverySymbol :: "string \<Rightarrow> string" where
  "normalizeDiscoverySymbol symbol = ToUpper (TrimSpace symbol)"

definition discoveryKey :: "string \<Rightarrow> string \<Rightarrow> string" where
  "discoveryKey instrumentID symbol =
     (if instrumentID \<noteq> [] then ''instrument:'' @ instrumentID @ ''|alias:'' @ normalizeDiscoverySymbol symbol
      else ''symbol:'' @ normalizeDiscoverySymbol symbol)"

definition din_key :: "DiscoveryInstrument \<Rightarrow> string" where
  "din_key item = discoveryKey (din_InstrumentID item) (din_Symbol item)"

fun request_refs :: "DiscoveryInstrument list \<Rightarrow> string list \<Rightarrow> InstrumentReference list" where
  "request_refs [] seen = []"
| "request_refs (item # items) seen =
     (if din_Symbol item = [] \<or> din_key item \<in> set seen then request_refs items seen
      else zero_InstrumentReference\<lparr>irf_InstrumentID := din_InstrumentID item, irf_Symbol := din_Symbol item\<rparr>
             # request_refs items (din_key item # seen))"

definition discoveryRequestInstruments :: "DiscoveryInstrument list \<Rightarrow> InstrumentReference list" where
  "discoveryRequestInstruments items = request_refs (isort (\<lambda>a b. str_less (din_key a) (din_key b)) items) []"

section \<open>Withholding and preferences\<close>

record WithholdingProfile =
  wh_DefaultRate :: Ratio
  wh_TypeRates :: "string \<rightharpoonup> Ratio"
  wh_SymbolRates :: "string \<rightharpoonup> Ratio"

definition Withholding_Rate :: "declib \<Rightarrow> WithholdingProfile \<Rightarrow> string \<Rightarrow> string \<Rightarrow> Ratio" where
  "Withholding_Rate L p t symbol =
     (if t = TypeStockDividend \<or> t = TypeReturnOfCapital then ZeroRatio L
      else let rate = wh_DefaultRate p;
               rate = (case wh_TypeRates p t of Some r \<Rightarrow> r | None \<Rightarrow> rate);
               rate = (case wh_SymbolRates p (ToUpper (TrimSpace symbol)) of Some r \<Rightarrow> r | None \<Rightarrow> rate)
           in if Decimal_Sign L rate < 0 then ZeroRatio L
              else if Ratio_Cmp L rate (MustRatio L ''1'') \<ge> 0 then MustRatio L ''0.999999''
              else rate)"

record Preferences =
  pf_ReinvestByDefault :: bool
  pf_ReinvestSymbols :: "string \<Rightarrow> bool"
  pf_CashSymbols :: "string \<Rightarrow> bool"
  pf_Withholding :: WithholdingProfile
  pf_UseEstimatedGross :: bool

definition reinvest :: "Preferences \<Rightarrow> string \<Rightarrow> bool" where
  "reinvest p symbol =
     (let s = ToUpper (TrimSpace symbol)
      in if pf_CashSymbols p s then False
         else if pf_ReinvestSymbols p s then True else pf_ReinvestByDefault p)"

section \<open>The in-memory store\<close>

record IncomeStore =
  is_events :: "(string \<times> IncomeEvent) list"
  is_apps :: "(string \<times> Application) list"

definition NewIncomeStore :: IncomeStore where
  "NewIncomeStore = \<lparr>is_events = [], is_apps = []\<rparr>"

definition inc_OnAccountDeleted :: "string \<Rightarrow> IncomeStore \<Rightarrow> IncomeStore" where
  "inc_OnAccountDeleted userID s = s\<lparr>is_apps := filter (\<lambda>(_, a). iap_UserID a \<noteq> userID) (is_apps s)\<rparr>"

definition appKey :: "string \<Rightarrow> string \<Rightarrow> string" where
  "appKey eventID portfolioID = eventID @ ''|'' @ portfolioID"

definition UpsertEvent :: "time \<Rightarrow> IncomeEvent \<Rightarrow> IncomeStore \<Rightarrow> bool \<times> IncomeStore" where
  "UpsertEvent now ev s =
     (case map_of (is_events s) (iev_ID ev) of
        None \<Rightarrow>
          (False, s\<lparr>is_events := AList.update (iev_ID ev) (ev\<lparr>iev_CreatedAt := now, iev_UpdatedAt := now\<rparr>) (is_events s)\<rparr>)
      | Some existing \<Rightarrow>
          if iev_RawFingerprint existing \<noteq> iev_RawFingerprint ev
          then (True, s\<lparr>is_events := AList.update (iev_ID ev)
                  (ev\<lparr>iev_CreatedAt := iev_CreatedAt existing, iev_UpdatedAt := now,
                      iev_Status := (if iev_Status existing = IncApplied then IncSuperseded else iev_Status ev)\<rparr>)
                  (is_events s)\<rparr>)
          else (False, s))"

definition ListEventsByStatus :: "IncomeStatus list \<Rightarrow> IncomeStore \<Rightarrow> IncomeEvent list" where
  "ListEventsByStatus statuses s =
     isort (\<lambda>a b. iev_PaymentDate a < iev_PaymentDate b)
       (filter (\<lambda>ev. statuses = [] \<or> iev_Status ev \<in> set statuses) (map snd (is_events s)))"

definition GetEvent :: "string \<Rightarrow> IncomeStore \<Rightarrow> IncomeEvent option" where
  "GetEvent eventID s = map_of (is_events s) eventID"

definition SetEventStatus :: "time \<Rightarrow> string \<Rightarrow> IncomeStatus \<Rightarrow> IncomeStore \<Rightarrow> IncomeStore" where
  "SetEventStatus now eventID status s =
     (case map_of (is_events s) eventID of
        Some ev \<Rightarrow> s\<lparr>is_events := AList.update eventID (ev\<lparr>iev_Status := status, iev_UpdatedAt := now\<rparr>) (is_events s)\<rparr>
      | None \<Rightarrow> s)"

definition app_settled :: "ApplicationStatus \<Rightarrow> bool" where
  "app_settled st = (st = AppApplied \<or> st = AppSkipped \<or> st = AppApplying \<or> st = AppCorrected)"

definition ClaimApplication :: "time \<Rightarrow> string \<Rightarrow> string \<Rightarrow> string \<Rightarrow> IncomeStore \<Rightarrow> bool \<times> IncomeStore" where
  "ClaimApplication now eventID portfolioID userID s =
     (let key = appKey eventID portfolioID;
          held = (case map_of (is_apps s) key of Some a \<Rightarrow> app_settled (iap_Status a) | None \<Rightarrow> False)
      in if held then (False, s)
         else (True, s\<lparr>is_apps := AList.update key
                (zero_Application\<lparr>iap_IncomeEventID := eventID, iap_PortfolioID := portfolioID, iap_UserID := userID,
                   iap_Status := AppApplying, iap_CreatedAt := now, iap_UpdatedAt := now\<rparr>) (is_apps s)\<rparr>))"

definition completed :: "time \<Rightarrow> Application option \<Rightarrow> Application \<Rightarrow> Application" where
  "completed now existing a =
     a\<lparr>iap_Status := (if iap_Status a = AppUnset then AppApplied else iap_Status a),
       iap_AppliedAt := (case iap_AppliedAt a of None \<Rightarrow> Some now | Some t \<Rightarrow> Some t),
       iap_UpdatedAt := now,
       iap_CreatedAt := (case existing of Some x \<Rightarrow> iap_CreatedAt x | None \<Rightarrow> iap_CreatedAt a)\<rparr>"

definition CompleteApplication :: "time \<Rightarrow> Application \<Rightarrow> IncomeStore \<Rightarrow> IncomeStore" where
  "CompleteApplication now a s =
     (let key = appKey (iap_IncomeEventID a) (iap_PortfolioID a)
      in s\<lparr>is_apps := AList.update key (completed now (map_of (is_apps s) key) a) (is_apps s)\<rparr>)"

definition app_at :: "string \<Rightarrow> IncomeStore \<Rightarrow> Application" where
  "app_at key s = (case map_of (is_apps s) key of Some a \<Rightarrow> a | None \<Rightarrow> zero_Application)"

definition FailApplication :: "time \<Rightarrow> string \<Rightarrow> string \<Rightarrow> string \<Rightarrow> time \<Rightarrow> IncomeStore \<Rightarrow> IncomeStore" where
  "FailApplication now eventID portfolioID errorCode nextRetryAt s =
     (let key = appKey eventID portfolioID; a = app_at key s
      in s\<lparr>is_apps := AList.update key
           (a\<lparr>iap_IncomeEventID := eventID, iap_PortfolioID := portfolioID, iap_Status := AppFailed,
              iap_ErrorCode := errorCode, iap_RetryCount := iap_RetryCount a + 1, iap_NextRetryAt := Some nextRetryAt,
              iap_UpdatedAt := now\<rparr>) (is_apps s)\<rparr>)"

definition SkipApplication :: "time \<Rightarrow> string \<Rightarrow> string \<Rightarrow> string \<Rightarrow> IncomeStore \<Rightarrow> IncomeStore" where
  "SkipApplication now eventID portfolioID reason s =
     (let key = appKey eventID portfolioID
      in s\<lparr>is_apps := AList.update key
           ((app_at key s)\<lparr>iap_IncomeEventID := eventID, iap_PortfolioID := portfolioID, iap_Status := AppSkipped,
              iap_ErrorCode := reason, iap_UpdatedAt := now\<rparr>) (is_apps s)\<rparr>)"

definition GetApplication :: "string \<Rightarrow> string \<Rightarrow> IncomeStore \<Rightarrow> Application option" where
  "GetApplication eventID portfolioID s = map_of (is_apps s) (appKey eventID portfolioID)"

definition ListApplicationsForUser :: "string \<Rightarrow> IncomeStore \<Rightarrow> Application list" where
  "ListApplicationsForUser userID s =
     isort (\<lambda>a b. iap_CreatedAt b < iap_CreatedAt a) (filter (\<lambda>a. iap_UserID a = userID) (map snd (is_apps s)))"

end
