(* ===== verification/IncomeService.thy ===== *)
theory IncomeService
  imports IncomeModel
begin

text \<open>
  The income pipeline itself (package \<^verbatim>\<open>income\<close>: service.go, correction.go, view.go) and the gateway that hands its
  instructions to the portfolio service (cmd/api/income_gateway.go).

  The pipeline works on its store and on a world \<open>'w\<close> reached through the gateway, which stands for the portfolios. The
  record \<open>IncEnv\<close> holds what \<^verbatim>\<open>Service\<close> is configured with: the provider, the gateway, the preferences, the intervals and
  the clock, read once per operation. The errors of provider, gateway and context are their texts. Metrics are left out.
\<close>

section \<open>What is handed to the gateway\<close>

record Holder =
  hld_UserID :: string
  hld_PortfolioID :: string
  hld_AssetType :: string
  hld_AcquiredAt :: time

record AppliedIncomeComponent =
  aic_Type :: string
  aic_Classification :: Classification
  aic_Reinvest :: bool
  aic_Gross :: Amount
  aic_Withholding :: Amount
  aic_Fee :: Amount
  aic_ReinvestPrice :: Price
  aic_PriceMethod :: string
  aic_StockRatioNum :: Ratio
  aic_StockRatioDen :: Ratio
  aic_Estimated :: bool
  aic_TaxClassification :: string

record AppliedIncomeEvent =
  aie_IncomeEventID :: string
  aie_Symbol :: string
  aie_AssetType :: string
  aie_Currency :: string
  aie_PaymentDate :: time
  aie_Components :: "AppliedIncomeComponent list"

record CorrectionAdjustment =
  cad_IncomeEventID :: string
  cad_PortfolioID :: string
  cad_Symbol :: string
  cad_Currency :: string
  cad_Delta :: Amount
  cad_Reason :: string

datatype inc_err =
    IErrEventNotFound | IErrNotApplied | IErrInvalidCorrection | IErrUnknownKind string
  | IErrGateway string | IErrProvider string | IErrContext string

record 'w IncEnv =
  ig_lib :: declib
  ig_sha :: "string \<Rightarrow> string"
  ig_format :: "time \<Rightarrow> string"
  ig_providerName :: string
  ig_FetchIncomeEvents :: "IncomeEventRequest \<Rightarrow> string + ProviderIncomeEvent list"
  ig_DiscoveryInstruments :: "time \<Rightarrow> 'w \<Rightarrow> string + DiscoveryInstrument list"
  ig_HistoricalHolders :: "string \<Rightarrow> string \<Rightarrow> 'w \<Rightarrow> string + Holder list"
  ig_EligibleQuantity :: "string \<Rightarrow> string \<Rightarrow> string \<Rightarrow> time \<Rightarrow> 'w \<Rightarrow> string + Quantity"
  ig_ApplyIncomeEvent :: "string \<Rightarrow> string \<Rightarrow> AppliedIncomeEvent \<Rightarrow> 'w \<Rightarrow> (string + unit) \<times> 'w"
  ig_ApplyCorrection :: "string \<Rightarrow> string \<Rightarrow> CorrectionAdjustment \<Rightarrow> 'w \<Rightarrow> (string + unit) \<times> 'w"
  ig_prefs :: Preferences
  ig_now :: time
  ig_lookback :: time
  ig_retryIn :: time
  ig_contextErr :: "IncomeEvent \<Rightarrow> string option"

section \<open>Amounts of one component\<close>

definition components :: "IncomeEvent \<Rightarrow> ProviderComponent list" where
  "components ev =
     (if iev_Components ev \<noteq> [] then iev_Components ev
      else [\<lparr>icp_Type = iev_Type ev, icp_AmountPerUnit = iev_AmountPerUnit ev\<rparr>])"

definition buildApplied ::
  "'w IncEnv \<Rightarrow> IncomeEvent \<Rightarrow> ProviderComponent \<Rightarrow> Quantity \<Rightarrow> bool \<Rightarrow> AppliedIncomeComponent" where
  "buildApplied E ev part eligible reinv =
     (let L = ig_lib E;
          compType = (if icp_Type part = [] then iev_Type ev else icp_Type part);
          class = Classify compType;
          inp = \<lparr>aic_Type = compType, aic_Classification = class, aic_Reinvest = False, aic_Gross = 0,
                 aic_Withholding = 0, aic_Fee = 0, aic_ReinvestPrice = 0, aic_PriceMethod = [],
                 aic_StockRatioNum = 0, aic_StockRatioDen = 0, aic_Estimated = False,
                 aic_TaxClassification = iev_TaxClassification ev\<rparr>
      in if class = ClassStockDividend
         then inp\<lparr>aic_StockRatioNum := MustRatio L (canonical L (icp_AmountPerUnit part)),
                  aic_StockRatioDen := MustRatio L ''1''\<rparr>
         else case QuantizeCash L (MulPrice L eligible (icp_AmountPerUnit part)) (iev_Currency ev) of
                Inl _ \<Rightarrow> inp
              | Inr gross \<Rightarrow>
                  let rate = Withholding_Rate L (pf_Withholding (ig_prefs E)) compType (irf_Symbol (iev_Instrument ev));
                      withholding = (if 0 < Decimal_Sign L rate
                        then (case QuantizeCash L (Amount_MulRatio L gross rate) (iev_Currency ev) of
                                Inr x \<Rightarrow> x | Inl _ \<Rightarrow> 0)
                        else 0);
                      ordinary = reinv \<and> class = ClassOrdinary
                  in inp\<lparr>aic_Gross := gross, aic_Withholding := withholding, aic_Reinvest := ordinary,
                         aic_PriceMethod := (if ordinary then ''market_close_on_payment_date'' else []),
                         aic_Estimated := pf_UseEstimatedGross (ig_prefs E)\<rparr>)"

record income_totals =
  it_gross :: Amount
  it_withholding :: Amount
  it_fee :: Amount
  it_net :: Amount
  it_reinvestQty :: Quantity
  it_estimated :: bool

definition component_netAmount :: "declib \<Rightarrow> AppliedIncomeComponent \<Rightarrow> Amount" where
  "component_netAmount L c = Amount_Sub L (Amount_Sub L (aic_Gross c) (aic_Withholding c)) (aic_Fee c)"

definition add_component :: "declib \<Rightarrow> income_totals \<Rightarrow> AppliedIncomeComponent \<Rightarrow> income_totals" where
  "add_component L t c =
     \<lparr>it_gross = Amount_Add L (it_gross t) (aic_Gross c),
      it_withholding = Amount_Add L (it_withholding t) (aic_Withholding c),
      it_fee = Amount_Add L (it_fee t) (aic_Fee c),
      it_net = Amount_Add L (it_net t) (component_netAmount L c),
      it_reinvestQty =
        (if aic_Reinvest c \<and> 0 < Decimal_Sign L (aic_ReinvestPrice c)
         then (case DivByPrice L (component_netAmount L c) (aic_ReinvestPrice c) ScaleQuantity of
                 Inr q \<Rightarrow> Quantity_Add L (it_reinvestQty t) q | Inl _ \<Rightarrow> it_reinvestQty t)
         else it_reinvestQty t),
      it_estimated = (it_estimated t \<or> aic_Estimated c)\<rparr>"

definition income_sum :: "declib \<Rightarrow> AppliedIncomeComponent list \<Rightarrow> income_totals" where
  "income_sum L cs =
     foldl (add_component L)
       \<lparr>it_gross = ZeroAmount L, it_withholding = ZeroAmount L, it_fee = ZeroAmount L, it_net = ZeroAmount L,
        it_reinvestQty = ZeroQuantity L, it_estimated = False\<rparr> cs"

section \<open>Applying an event to one holder\<close>

definition income_requestID :: "string \<Rightarrow> string \<Rightarrow> string" where
  "income_requestID eventID portfolioID = ''inc:'' @ eventID @ '':'' @ portfolioID"

definition appliedEvent :: "'w IncEnv \<Rightarrow> IncomeEvent \<Rightarrow> Holder \<Rightarrow> Quantity \<Rightarrow> AppliedIncomeEvent" where
  "appliedEvent E ev h eligible =
     \<lparr>aie_IncomeEventID = iev_ID ev, aie_Symbol = irf_Symbol (iev_Instrument ev), aie_AssetType = hld_AssetType h,
      aie_Currency = iev_Currency ev, aie_PaymentDate = iev_PaymentDate ev,
      aie_Components =
        map (\<lambda>part. buildApplied E ev part eligible (reinvest (ig_prefs E) (irf_Symbol (iev_Instrument ev))))
          (components ev)\<rparr>"

definition applied_row :: "'w IncEnv \<Rightarrow> IncomeEvent \<Rightarrow> Holder \<Rightarrow> Quantity \<Rightarrow> Application" where
  "applied_row E ev h eligible =
     (let t = income_sum (ig_lib E) (aie_Components (appliedEvent E ev h eligible))
      in zero_Application
           \<lparr>iap_IncomeEventID := iev_ID ev, iap_PortfolioID := hld_PortfolioID h, iap_UserID := hld_UserID h,
            iap_Status := AppApplied, iap_EligibleQuantity := eligible, iap_GrossAmount := it_gross t,
            iap_WithholdingAmount := it_withholding t, iap_FeeAmount := it_fee t, iap_NetAmount := it_net t,
            iap_CashCurrency := iev_Currency ev,
            iap_ReinvestmentQuantity := QuantizeQuantity (ig_lib E) (it_reinvestQty t),
            iap_Estimated := it_estimated t, iap_AppliedAt := Some (ig_now E)\<rparr>)"

definition applyToHolder :: "'w IncEnv \<Rightarrow> IncomeEvent \<Rightarrow> Holder \<Rightarrow> IncomeStore \<times> 'w \<Rightarrow> bool \<times> IncomeStore \<times> 'w" where
  "applyToHolder E ev h = (\<lambda>(s, w).
     case ig_EligibleQuantity E (hld_UserID h) (irf_InstrumentID (iev_Instrument ev)) (irf_Symbol (iev_Instrument ev))
            (entitlementDate ev) w of
       Inl _ \<Rightarrow> (False, s, w)
     | Inr eligible \<Rightarrow>
         if Decimal_Sign (ig_lib E) eligible \<le> 0 then (False, s, w)
         else case ClaimApplication (ig_now E) (iev_ID ev) (hld_PortfolioID h) (hld_UserID h) s of
           (False, s') \<Rightarrow> (False, s', w)
         | (True, s') \<Rightarrow>
             case ig_ApplyIncomeEvent E (hld_UserID h) (income_requestID (iev_ID ev) (hld_PortfolioID h))
                    (appliedEvent E ev h eligible) w of
               (Inl msg, w') \<Rightarrow>
                 (False, FailApplication (ig_now E) (iev_ID ev) (hld_PortfolioID h) msg (ig_now E + ig_retryIn E) s', w')
             | (Inr _, w') \<Rightarrow> (True, CompleteApplication (ig_now E) (applied_row E ev h eligible) s', w'))"

fun apply_holders :: "'w IncEnv \<Rightarrow> IncomeEvent \<Rightarrow> Holder list \<Rightarrow> IncomeStore \<times> 'w \<Rightarrow> nat \<times> IncomeStore \<times> 'w" where
  "apply_holders E ev [] sw = (0, sw)"
| "apply_holders E ev (h # hs) sw =
     (case applyToHolder E ev h sw of
        (credited, sw1) \<Rightarrow>
          (case apply_holders E ev hs sw1 of (n, sw2) \<Rightarrow> ((if credited then Suc n else n), sw2)))"

section \<open>The pass over the due events\<close>

definition pipeline_statuses :: "IncomeStatus list" where
  "pipeline_statuses =
     [IncDetected, IncScheduled, IncEligibilityCalculated, IncAwaitingPayment, IncReadyToApply, IncUnresolved,
      IncFailedRetryable, IncProcessedNoEntitlement]"

definition trustedForAccountData :: "IncomeEvent \<Rightarrow> bool" where
  "trustedForAccountData ev = (Contains (iev_Provider ev) ''brokerage'' \<or> Contains (iev_Provider ev) ''broker'')"

definition set_status_unless :: "time \<Rightarrow> IncomeEvent \<Rightarrow> IncomeStatus \<Rightarrow> IncomeStore \<Rightarrow> IncomeStore" where
  "set_status_unless now ev st s = (if iev_Status ev \<noteq> st then SetEventStatus now (iev_ID ev) st s else s)"

definition processEvent :: "'w IncEnv \<Rightarrow> IncomeEvent \<Rightarrow> IncomeStore \<times> 'w \<Rightarrow> IncomeStore \<times> 'w" where
  "processEvent E ev = (\<lambda>(s, w).
     if iev_Status ev = IncCancelled \<or> iev_Quality ev = QualityCancelled then (s, w)
     else if iev_Status ev = IncSuperseded then (s, w)
     else if \<not> meetsAutoApplyPolicy (iev_Quality ev) \<or> requiresAccountData (iev_Type ev) \<and> \<not> trustedForAccountData ev
     then (set_status_unless (ig_now E) ev IncUnresolved s, w)
     else if ig_now E < iev_PaymentDate ev then (set_status_unless (ig_now E) ev IncAwaitingPayment s, w)
     else case ig_HistoricalHolders E (irf_InstrumentID (iev_Instrument ev)) (irf_Symbol (iev_Instrument ev)) w of
       Inl _ \<Rightarrow> (s, w)
     | Inr holders \<Rightarrow>
         (case apply_holders E ev holders (s, w) of
            (applied, s', w') \<Rightarrow>
              (SetEventStatus (ig_now E) (iev_ID ev)
                 (if applied > 0 then IncApplied else IncProcessedNoEntitlement) s', w')))"

fun process_loop :: "'w IncEnv \<Rightarrow> IncomeEvent list \<Rightarrow> IncomeStore \<times> 'w \<Rightarrow> (inc_err + unit) \<times> IncomeStore \<times> 'w" where
  "process_loop E [] sw = (Inr (), sw)"
| "process_loop E (ev # evs) sw =
     (case ig_contextErr E ev of
        Some msg \<Rightarrow> (Inl (IErrContext msg), sw)
      | None \<Rightarrow> process_loop E evs (processEvent E ev sw))"

definition Process :: "'w IncEnv \<Rightarrow> IncomeStore \<times> 'w \<Rightarrow> (inc_err + unit) \<times> IncomeStore \<times> 'w" where
  "Process E sw = process_loop E (ListEventsByStatus pipeline_statuses (fst sw)) sw"

section \<open>Ingesting\<close>

definition discovered :: "DiscoveryInstrument list \<Rightarrow> IncomeEvent list \<Rightarrow> (string \<times> DiscoveryInstrument) list" where
  "discovered instruments pending =
     foldl (\<lambda>m item. AList.update (din_key item) item m) []
       (instruments @
        map (\<lambda>ev. \<lparr>din_InstrumentID = irf_InstrumentID (iev_Instrument ev),
                   din_Symbol = irf_Symbol (iev_Instrument ev), din_AssetType = []\<rparr>) pending)"

text \<open>The slice the resolution walks is the one the request was built from, which that sorted in place.\<close>

definition resolveInstrument ::
  "(string \<times> DiscoveryInstrument) list \<Rightarrow> DiscoveryInstrument list \<Rightarrow> ProviderIncomeEvent \<Rightarrow> ProviderIncomeEvent" where
  "resolveInstrument byKey instruments e =
     (let symbol = irf_Symbol (pev_Instrument e);
          found = (case map_of byKey (discoveryKey [] symbol) of
                     Some item \<Rightarrow> Some item
                   | None \<Rightarrow> find (\<lambda>item. normalizeDiscoverySymbol (din_Symbol item) = normalizeDiscoverySymbol symbol)
                               instruments)
      in if irf_InstrumentID (pev_Instrument e) \<noteq> [] then e
         else case found of
                Some item \<Rightarrow> e\<lparr>pev_Instrument := (pev_Instrument e)\<lparr>irf_InstrumentID := din_InstrumentID item\<rparr>\<rparr>
              | None \<Rightarrow> e)"

definition ninety_days :: time where
  "ninety_days = 90 * 24 * 3600 * 1000000000"

definition Ingest :: "'w IncEnv \<Rightarrow> IncomeStore \<times> 'w \<Rightarrow> (inc_err + unit) \<times> IncomeStore \<times> 'w" where
  "Ingest E = (\<lambda>(s, w).
     let since = ig_now E - ig_lookback E in
     case ig_DiscoveryInstruments E since w of
       Inl msg \<Rightarrow> (Inl (IErrGateway msg), s, w)
     | Inr held \<Rightarrow>
         let byKey = discovered held (ListEventsByStatus pipeline_statuses s);
             instruments = isort (\<lambda>a b. str_less (din_key a) (din_key b)) (map snd byKey) in
         if instruments = [] then (Inr (), s, w)
         else case ig_FetchIncomeEvents E
                \<lparr>irq_Instruments = discoveryRequestInstruments (map snd byKey), irq_Since = since,
                 irq_Until = ig_now E + ninety_days\<rparr> of
           Inl msg \<Rightarrow> (Inl (IErrProvider msg), s, w)
         | Inr raw \<Rightarrow>
             (Inr (),
              foldl (\<lambda>s e. snd (UpsertEvent (ig_now E)
                        (normalize (ig_lib E) (ig_sha E) (ig_format E) (ig_providerName E)
                           (resolveInstrument byKey instruments e) (ig_now E)) s)) s raw,
              w))"

definition RunOnce :: "'w IncEnv \<Rightarrow> IncomeStore \<times> 'w \<Rightarrow> (inc_err + unit) \<times> IncomeStore \<times> 'w" where
  "RunOnce E sw = (case Ingest E sw of (Inl e, sw') \<Rightarrow> (Inl e, sw') | (Inr _, sw') \<Rightarrow> Process E sw')"

section \<open>Corrections\<close>

datatype CorrectionKind =
    CorrectionActualNet | CorrectionActualWithholding | CorrectionActualFee | CorrectionMarkNotReceived
  | CorrectionActualReinvestment | CorrectionOther string

record Correction =
  cor_IncomeEventID :: string
  cor_PortfolioID :: string
  cor_Kind :: CorrectionKind
  cor_RequestID :: string
  cor_ActualNet :: Amount
  cor_ActualWithholding :: Amount
  cor_ActualFee :: Amount
  cor_ActualReinvestmentQty :: Quantity
  cor_ActualReinvestmentPrice :: Price

definition correctedNet :: "declib \<Rightarrow> Application \<Rightarrow> Correction \<Rightarrow> inc_err + (Amount \<times> string)" where
  "correctedNet L a c =
     (case cor_Kind c of
        CorrectionMarkNotReceived \<Rightarrow> Inr (ZeroAmount L, ''marked not received'')
      | CorrectionActualNet \<Rightarrow>
          if Decimal_Sign L (cor_ActualNet c) < 0 then Inl IErrInvalidCorrection
          else Inr (cor_ActualNet c, ''corrected to actual net'')
      | CorrectionActualWithholding \<Rightarrow>
          if Decimal_Sign L (cor_ActualWithholding c) < 0 \<or> Amount_Cmp L (cor_ActualWithholding c) (iap_GrossAmount a) > 0
          then Inl IErrInvalidCorrection
          else Inr (Amount_Sub L (Amount_Sub L (iap_GrossAmount a) (cor_ActualWithholding c)) (iap_FeeAmount a),
                    ''corrected withholding'')
      | CorrectionActualFee \<Rightarrow>
          if Decimal_Sign L (cor_ActualFee c) < 0 \<or> Amount_Cmp L (cor_ActualFee c) (iap_GrossAmount a) > 0
          then Inl IErrInvalidCorrection
          else Inr (Amount_Sub L (Amount_Sub L (iap_GrossAmount a) (iap_WithholdingAmount a)) (cor_ActualFee c),
                    ''corrected broker fee'')
      | CorrectionActualReinvestment \<Rightarrow>
          if Decimal_Sign L (cor_ActualReinvestmentQty c) < 0 then Inl IErrInvalidCorrection
          else Inr (iap_NetAmount a, ''corrected reinvestment quantity'')
      | CorrectionOther k \<Rightarrow> Inl (IErrUnknownKind k))"

definition withholdingAfter :: "Application \<Rightarrow> Correction \<Rightarrow> Amount" where
  "withholdingAfter a c =
     (if cor_Kind c = CorrectionActualWithholding then cor_ActualWithholding c else iap_WithholdingAmount a)"

definition adjustment :: "IncomeEvent \<Rightarrow> Application \<Rightarrow> Correction \<Rightarrow> Amount \<Rightarrow> string \<Rightarrow> CorrectionAdjustment" where
  "adjustment ev a c delta reason =
     \<lparr>cad_IncomeEventID = iev_ID ev, cad_PortfolioID = cor_PortfolioID c, cad_Symbol = irf_Symbol (iev_Instrument ev),
      cad_Currency = (if iap_CashCurrency a = [] then iev_Currency ev else iap_CashCurrency a), cad_Delta = delta,
      cad_Reason = reason\<rparr>"

definition corrected_row :: "Application \<Rightarrow> Correction \<Rightarrow> Amount \<Rightarrow> Application" where
  "corrected_row a c actualNet =
     a\<lparr>iap_Status := AppCorrected, iap_NetAmount := actualNet, iap_WithholdingAmount := withholdingAfter a c,
       iap_Estimated := False\<rparr>"

definition HandleCorrection ::
  "'w IncEnv \<Rightarrow> string \<Rightarrow> Correction \<Rightarrow> IncomeStore \<times> 'w \<Rightarrow> (inc_err + unit) \<times> IncomeStore \<times> 'w" where
  "HandleCorrection E userID c = (\<lambda>(s, w).
     if cor_IncomeEventID c = [] \<or> cor_PortfolioID c = [] \<or> TrimSpace (cor_RequestID c) = []
     then (Inl IErrInvalidCorrection, s, w)
     else case GetEvent (cor_IncomeEventID c) s of
       None \<Rightarrow> (Inl IErrEventNotFound, s, w)
     | Some ev \<Rightarrow>
         (case GetApplication (cor_IncomeEventID c) (cor_PortfolioID c) s of
            None \<Rightarrow> (Inl IErrNotApplied, s, w)
          | Some a \<Rightarrow>
              if iap_Status a \<noteq> AppApplied \<or> iap_UserID a \<noteq> userID then (Inl IErrNotApplied, s, w)
              else case correctedNet (ig_lib E) a c of
                Inl e \<Rightarrow> (Inl e, s, w)
              | Inr (actualNet, reason) \<Rightarrow>
                  (case QuantizeCash (ig_lib E) (Amount_Sub (ig_lib E) actualNet (iap_NetAmount a)) (iap_CashCurrency a) of
                     Inl _ \<Rightarrow> (Inl IErrInvalidCorrection, s, w)
                   | Inr delta \<Rightarrow>
                       (case (if Decimal_IsZero (ig_lib E) delta then (Inr (), w)
                              else ig_ApplyCorrection E userID (cor_RequestID c) (adjustment ev a c delta reason) w) of
                          (Inl msg, w') \<Rightarrow> (Inl (IErrGateway msg), s, w')
                        | (Inr _, w') \<Rightarrow>
                            (Inr (), SetEventStatus (ig_now E) (iev_ID ev) IncCorrected
                                       (CompleteApplication (ig_now E) (corrected_row a c actualNet) s), w')))))"

section \<open>Views\<close>

record IncomeEventView =
  iv_ID :: string
  iv_EventType :: string
  iv_Symbol :: string
  iv_Currency :: string
  iv_GrossAmount :: Amount
  iv_Withholding :: Amount
  iv_FeeAmount :: Amount
  iv_NetAmount :: Amount
  iv_ReinvestedQty :: Quantity
  iv_Estimated :: bool
  iv_Status :: string
  iv_Provider :: string
  iv_Explanation :: string
  iv_Correctable :: bool
  iv_PaymentDate :: "time option"
  iv_AppliedAt :: "time option"
  iv_System :: bool

definition inc_userStatus :: "ApplicationStatus \<Rightarrow> string" where
  "inc_userStatus st =
     (case st of
        AppApplied \<Rightarrow> ''Credited automatically''
      | AppApplying \<Rightarrow> ''Processing''
      | AppPending \<Rightarrow> ''Processing''
      | AppCorrected \<Rightarrow> ''Corrected''
      | AppFailed \<Rightarrow> ''Awaiting confirmed data''
      | _ \<Rightarrow> ''Processing'')"

definition humanType :: "string \<Rightarrow> string" where
  "humanType t =
     (if t = TypeCashDividend then ''dividend''
      else if t = TypeSpecialDividend then ''special dividend''
      else if t = TypeETFDistribution then ''ETF distribution''
      else if t = TypeMutualFundDist then ''fund distribution''
      else if t = TypeBondCoupon \<or> t = TypeFixedIncomeInt then ''bond coupon''
      else if t = TypeCapitalGainsDist then ''capital-gains distribution''
      else if t = TypeCashInterest then ''interest''
      else if t = TypeStakingReward then ''staking reward''
      else if t = TypePaymentInLieu then ''payment in lieu''
      else ''income'')"

text \<open>The dash of one sentence is the three bytes of its UTF-8 encoding.\<close>

definition em_dash :: string where
  "em_dash = [CHR 0xE2, CHR 0x80, CHR 0x94]"

definition inc_explanation :: "IncomeEvent \<Rightarrow> Application \<Rightarrow> string" where
  "inc_explanation ev a =
     (let sym = irf_Symbol (iev_Instrument ev)
      in case Classify (iev_Type ev) of
           ClassStockDividend \<Rightarrow> sym @ '' paid a stock dividend. Your quantity and per-share cost basis were adjusted automatically; total basis and ranked performance were preserved.''
         | ClassReturnOfCapital \<Rightarrow> sym @ '' return of capital credited automatically. Cash was added and your remaining cost basis was reduced '' @ em_dash @ '' this is portfolio tracking, not tax advice.''
         | ClassOrdinary \<Rightarrow>
             sym @ '' '' @ humanType (iev_Type ev) @ '' credited automatically. No action was required.'' @
             (if iap_Estimated a
              then '' Amount is an estimated gross figure and may be reconciled with broker data later.'' else []))"

definition inc_toView :: "IncomeEvent \<Rightarrow> Application \<Rightarrow> IncomeEventView" where
  "inc_toView ev a =
     \<lparr>iv_ID = iev_ID ev, iv_EventType = iev_Type ev, iv_Symbol = irf_Symbol (iev_Instrument ev),
      iv_Currency = (if iap_CashCurrency a = [] then iev_Currency ev else iap_CashCurrency a),
      iv_GrossAmount = iap_GrossAmount a, iv_Withholding = iap_WithholdingAmount a, iv_FeeAmount = iap_FeeAmount a,
      iv_NetAmount = iap_NetAmount a, iv_ReinvestedQty = iap_ReinvestmentQuantity a, iv_Estimated = iap_Estimated a,
      iv_Status = inc_userStatus (iap_Status a), iv_Provider = iev_Provider ev,
      iv_Explanation = inc_explanation ev a, iv_Correctable = (iap_Status a = AppApplied),
      iv_PaymentDate = (if iev_PaymentDate ev = 0 then None else Some (iev_PaymentDate ev)),
      iv_AppliedAt = iap_AppliedAt a, iv_System = True\<rparr>"

definition ListIncomeEventViews :: "string \<Rightarrow> IncomeStore \<Rightarrow> IncomeEventView list" where
  "ListIncomeEventViews userID s =
     concat (map (\<lambda>a. if iap_Status a = AppSkipped then []
                      else case GetEvent (iap_IncomeEventID a) s of None \<Rightarrow> [] | Some ev \<Rightarrow> [inc_toView ev a])
       (ListApplicationsForUser userID s))"

definition GetIncomeEventView :: "string \<Rightarrow> string \<Rightarrow> string \<Rightarrow> IncomeStore \<Rightarrow> IncomeEventView option" where
  "GetIncomeEventView userID portfolioID eventID s =
     (case GetEvent eventID s of
        None \<Rightarrow> None
      | Some ev \<Rightarrow>
          (case GetApplication eventID portfolioID s of
             None \<Rightarrow> None
           | Some a \<Rightarrow> if iap_UserID a \<noteq> userID then None else Some (inc_toView ev a)))"

section \<open>The gateway to the portfolio service\<close>

definition incomeSubtype :: "string \<Rightarrow> IncomeSubtype" where
  "incomeSubtype t =
     (if t = TypeSpecialDividend then IncomeSpecialDividend
      else if t = TypeETFDistribution then IncomeETFDistribution
      else if t = TypeMutualFundDist then IncomeMutualFundDist
      else if t = TypeBondCoupon then IncomeBondCoupon
      else if t = TypeFixedIncomeInt then IncomeFixedIncomeInt
      else if t = TypeCashInterest then IncomeCashInterest
      else if t = TypeCapitalGainsDist then IncomeCapitalGainsDist
      else if t = TypeStakingReward then IncomeStakingReward
      else if t = TypePaymentInLieu then IncomePaymentInLieu
      else if t = TypeOtherProvider then IncomeOtherProvider
      else IncomeCashDividend)"

definition gateway_component :: "AppliedIncomeComponent \<Rightarrow> IncomeComponentInput" where
  "gateway_component c =
     (let stock = (aic_Classification c = ClassStockDividend)
      in \<lparr>ic_Subtype =
            (case aic_Classification c of
               ClassStockDividend \<Rightarrow> IncomeStockDividendSub
             | ClassReturnOfCapital \<Rightarrow> IncomeReturnOfCapitalSub
             | ClassOrdinary \<Rightarrow> if aic_Reinvest c then IncomeReinvestedDiv else incomeSubtype (aic_Type c)),
          ic_Symbol = [], ic_AssetType = [], ic_Currency = [], ic_Amount = aic_Gross c,
          ic_Withholding = aic_Withholding c, ic_Fee = aic_Fee c, ic_Estimated = aic_Estimated c,
          ic_Reinvest = aic_Reinvest c, ic_ReinvestPrice = aic_ReinvestPrice c, ic_PriceMethod = aic_PriceMethod c,
          ic_StockRatioNum = (if stock then aic_StockRatioNum c else 0),
          ic_StockRatioDen = (if stock then aic_StockRatioDen c else 0),
          ic_TaxClassification = aic_TaxClassification c, ic_OccurredAt = None,
          ic_Provenance = ProvenanceProviderReported\<rparr>)"

definition gateway_event :: "AppliedIncomeEvent \<Rightarrow> IncomeEventInput" where
  "gateway_event e =
     \<lparr>ev_IncomeEventID = aie_IncomeEventID e, ev_Symbol = aie_Symbol e, ev_InstrumentID = [],
      ev_AssetType = aie_AssetType e, ev_Currency = aie_Currency e, ev_PaymentDate = aie_PaymentDate e,
      ev_Reinvest = False, ev_Components = map gateway_component (aie_Components e)\<rparr>"

definition gateway_correction :: "declib \<Rightarrow> time \<Rightarrow> CorrectionAdjustment \<Rightarrow> IncomeInput + FeeInput" where
  "gateway_correction L now adj =
     (if Decimal_Sign L (cad_Delta adj) \<ge> 0
      then Inl \<lparr>in_Subtype = IncomeOtherProvider, in_Symbol = cad_Symbol adj, in_AssetType = [],
                in_Currency = cad_Currency adj, in_Amount = cad_Delta adj, in_Withholding = 0, in_Fee = 0,
                in_Estimated = False, in_ReinvestPrice = 0, in_PriceMethod = [], in_StockRatioNum = 0,
                in_StockRatioDen = 0, in_IncomeEventID = cad_IncomeEventID adj, in_TaxClassification = [],
                in_OccurredAt = Some now, in_Provenance = ProvenanceSystemGenerated\<rparr>
      else Inr \<lparr>fee_Subtype = FeeOther, fee_Currency = cad_Currency adj, fee_Amount = Amount_Neg L (cad_Delta adj),
                fee_Symbol = cad_Symbol adj, fee_LinkedActivityID = cad_IncomeEventID adj,
                fee_Description = ''income correction: '' @ cad_Reason adj, fee_OccurredAt = Some now,
                fee_Provenance = ProvenanceSystemGenerated\<rparr>)"

end
