(* ===== verification/Entitlement.thy ===== *)
theory Entitlement
  imports IncomeService EventLaws
begin

text \<open>
  Entitlement from the ledger (package \<^verbatim>\<open>portfolio\<close>: \<open>eligibleQuantityFromActivities\<close> and its helpers in
  service_activities.go, \<open>EligibleQuantity\<close> of repository.go): how many units of an instrument a portfolio held at an
  instant, folded over its activities, oldest first. A fault of the library's float constructor is the absent ratio.
\<close>

section \<open>The fold over the ledger\<close>

definition metadataRatio :: "declib \<Rightarrow> meta option \<Rightarrow> Ratio option" where
  "metadataRatio L v =
     (case v of
        Some (MStr s) \<Rightarrow> (case ParseRatio L s of Inr r \<Rightarrow> Some r | Inl _ \<Rightarrow> None)
      | Some (MFloat f) \<Rightarrow> RatioFromFloat64 L f
      | _ \<Rightarrow> None)"

definition ratioFactor :: "declib \<Rightarrow> Activity \<Rightarrow> Ratio" where
  "ratioFactor L a =
     (case (metadataRatio L (act_Metadata a ''ratio_numerator''), metadataRatio L (act_Metadata a ''ratio_denominator'')) of
        (Some num, Some den) \<Rightarrow>
          if Decimal_Sign L num \<le> 0 \<or> Decimal_Sign L den \<le> 0 then ZeroRatio L
          else (case Ratio_DivExact L num den ScaleQuantity of
                  Inl _ \<Rightarrow> ZeroRatio L
                | Inr fraction \<Rightarrow>
                    if act_Type a = ActivityStockDividend then Ratio_Add L (MustRatio L ''1'') fraction else fraction)
      | _ \<Rightarrow> ZeroRatio L)"

definition sortActivitiesOldestFirst :: "Activity list \<Rightarrow> Activity list" where
  "sortActivitiesOldestFirst acts = isort (\<lambda>a b. act_OccurredAt a < act_OccurredAt b) acts"

definition correctedAway :: "Activity list \<Rightarrow> string \<Rightarrow> bool" where
  "correctedAway acts i = (i \<noteq> [] \<and> i \<in> set (map (\<lambda>a. meta_string (act_Metadata a) ''correction_of_activity_id'') acts))"

definition eligible_match :: "string \<Rightarrow> string \<Rightarrow> Activity \<Rightarrow> bool" where
  "eligible_match instrumentID symbol a =
     ((instrumentID \<noteq> [] \<and> act_InstrumentID a = instrumentID) \<or>
      (instrumentID = [] \<and> normalizeSymbol (act_Symbol a) = normalizeSymbol symbol))"

definition quantity_effect :: "declib \<Rightarrow> Activity \<Rightarrow> Quantity \<Rightarrow> Quantity" where
  "quantity_effect L a qty =
     (if act_Type a \<in> {ActivityBuy, ActivityOpeningBalance, ActivityReinvestedDividend}
      then (case act_Quantity a of Some q \<Rightarrow> Quantity_Add L qty q | None \<Rightarrow> qty)
      else if act_Type a = ActivitySell
      then (case act_Quantity a of Some q \<Rightarrow> Quantity_Sub L qty q | None \<Rightarrow> qty)
      else if act_Type a \<in> {ActivityStockSplit, ActivityStockDividend, ActivityReverseSplit}
      then (if 0 < Decimal_Sign L (ratioFactor L a) then Quantity_MulRatio L qty (ratioFactor L a) else qty)
      else if act_Type a = ActivityWriteOff then ZeroQuantity L
      else qty)"

definition eligible_step :: "declib \<Rightarrow> (string \<Rightarrow> bool) \<Rightarrow> string \<Rightarrow> string \<Rightarrow> time \<Rightarrow> Quantity \<Rightarrow> Activity \<Rightarrow> Quantity" where
  "eligible_step L away instrumentID symbol asOf qty a =
     (if away (act_ID a) \<or> \<not> eligible_match instrumentID symbol a \<or> asOf < act_OccurredAt a then qty
      else quantity_effect L a qty)"

definition eligibleQuantityFromActivities ::
  "declib \<Rightarrow> Activity list \<Rightarrow> string \<Rightarrow> string \<Rightarrow> time \<Rightarrow> Quantity" where
  "eligibleQuantityFromActivities L activities instrumentID symbol asOf =
     (let acts = sortActivitiesOldestFirst activities;
          qty = foldl (eligible_step L (correctedAway acts) instrumentID symbol asOf) (ZeroQuantity L) acts
      in QuantizeQuantity L (if Decimal_Sign L qty < 0 then ZeroQuantity L else qty))"

definition mem_EligibleQuantity ::
  "declib \<Rightarrow> err option \<Rightarrow> string \<Rightarrow> string \<Rightarrow> string \<Rightarrow> time \<Rightarrow> InMemoryRepository \<Rightarrow> err + Quantity" where
  "mem_EligibleQuantity L ctx userID instrumentID symbol asOf r =
     fault ctx (case im_userPortfolio r userID of
        None \<Rightarrow> Inr (ZeroQuantity L)
      | Some pid \<Rightarrow>
          Inr (eligibleQuantityFromActivities L
            (case im_aggregates r pid of Some agg \<Rightarrow> ag_activities agg | None \<Rightarrow> []) instrumentID symbol asOf))"

end
