(* ===== verification/IncomeRuns.thy ===== *)
theory IncomeRuns
  imports Delivery Entitlement
begin

text \<open>
  Runs of the income pipeline: any sequence of ingestions, passes, corrections and account deletions, with any provider,
  any gateway and any clock at each of them. The gateway is watched: every instruction it accepted is logged with the
  time, the user and the request identifier. The in-memory store provides the contract of \<open>delivery_store\<close>.
\<close>

section \<open>The store keeps the contract\<close>

definition inc_held :: "IncomeStore \<Rightarrow> string \<Rightarrow> string option" where
  "inc_held s k =
     (case map_of (is_apps s) k of
        Some a \<Rightarrow> if app_settled (iap_Status a) then Some (iap_UserID a) else None
      | None \<Rightarrow> None)"

lemma map_of_filter_value:
  "distinct (map fst xs) \<Longrightarrow>
   map_of (filter (\<lambda>(_, a). P a) xs) k = (case map_of xs k of Some a \<Rightarrow> if P a then Some a else None | None \<Rightarrow> None)"
proof (induction xs)
  case (Cons x xs)
  then show ?case
    by (cases x) (auto split: option.splits simp: map_of_eq_None_iff dest: map_of_SomeD)
qed simp

lemma inc_held_update:
  "inc_held (s\<lparr>is_apps := AList.update k a (is_apps s)\<rparr>) =
     (inc_held s)(k := if app_settled (iap_Status a) then Some (iap_UserID a) else None)"
  by (rule ext) (simp add: inc_held_def update_conv')

lemma inc_held_delete:
  "inc_held s l = Some u \<Longrightarrow> u \<noteq> v \<Longrightarrow> inc_held (inc_OnAccountDeleted v s) l = Some u"
proof -
  assume l: "inc_held s l = Some u" and uv: "u \<noteq> v"
  then obtain a where a: "map_of (is_apps s) l = Some a" "iap_UserID a = u" "app_settled (iap_Status a)"
    by (auto simp: inc_held_def split: option.splits if_splits)
  have "map_of (filter (\<lambda>(_, a). iap_UserID a \<noteq> v) xs) l = Some a" if "map_of xs l = Some a" for xs
    using that a(2) uv by (induction xs) (auto split: if_splits)
  with a show ?thesis by (simp add: inc_held_def inc_OnAccountDeleted_def)
qed

interpretation income: delivery_store inc_held
  "\<lambda>k u s s'. \<exists>now e p. k = appKey e p \<and> ClaimApplication now e p u s = (True, s')"
  "\<lambda>k u s s'. \<exists>now a. k = appKey (iap_IncomeEventID a) (iap_PortfolioID a) \<and> u = iap_UserID a \<and>
     (iap_Status a = AppApplied \<or> iap_Status a = AppCorrected) \<and> s' = CompleteApplication now a s"
  "\<lambda>k s s'. \<exists>now e p msg t. k = appKey e p \<and> s' = FailApplication now e p msg t s"
  "\<lambda>k s s'. \<exists>now e p msg. k = appKey e p \<and> s' = SkipApplication now e p msg s"
  "\<lambda>v s s'. s' = inc_OnAccountDeleted v s"
proof
  show "inc_held s k = None \<and> inc_held s' = (inc_held s)(k := Some u)"
    if "\<exists>now e p. k = appKey e p \<and> ClaimApplication now e p u s = (True, s')" for k u s s'
  proof -
    from that obtain now e p where k: "k = appKey e p" and c: "ClaimApplication now e p u s = (True, s')" by blast
    from c have free: "inc_held s k = None"
      by (auto simp: ClaimApplication_def inc_held_def Let_def k split: option.splits if_splits)
    from c have "s' = s\<lparr>is_apps := AList.update k
        (zero_Application\<lparr>iap_IncomeEventID := e, iap_PortfolioID := p, iap_UserID := u,
           iap_Status := AppApplying, iap_CreatedAt := now, iap_UpdatedAt := now\<rparr>) (is_apps s)\<rparr>"
      by (auto simp: ClaimApplication_def Let_def k split: if_splits)
    with free show ?thesis by (simp add: inc_held_update app_settled_def)
  qed
  show "inc_held s' = (inc_held s)(k := Some u)"
    if "\<exists>now a. k = appKey (iap_IncomeEventID a) (iap_PortfolioID a) \<and> u = iap_UserID a \<and>
     (iap_Status a = AppApplied \<or> iap_Status a = AppCorrected) \<and> s' = CompleteApplication now a s" for k u s s'
    using that by (auto simp: CompleteApplication_def Let_def inc_held_update completed_def app_settled_def)
  show "inc_held s' = (inc_held s)(k := None)"
    if "\<exists>now e p msg t. k = appKey e p \<and> s' = FailApplication now e p msg t s" for k s s'
    using that by (auto simp: FailApplication_def Let_def inc_held_update app_settled_def)
  show "inc_held s' l = Some u"
    if "\<exists>now e p msg. k = appKey e p \<and> s' = SkipApplication now e p msg s" "inc_held s l = Some u" for k s s' l u
    using that by (auto simp: SkipApplication_def Let_def inc_held_update app_settled_def app_at_def)
      (auto simp: inc_held_def split: option.splits if_splits)
  show "inc_held s' l = Some u" if "s' = inc_OnAccountDeleted v s" "inc_held s l = Some u" "u \<noteq> v" for v s s' l u
    using that by (simp add: inc_held_delete)
qed

section \<open>Watched runs\<close>

type_synonym credit = "time \<times> string \<times> string \<times> AppliedIncomeEvent"

definition watched :: "'w IncEnv \<Rightarrow> ('w \<times> credit list) IncEnv" where
  "watched E =
     \<lparr>ig_lib = ig_lib E, ig_sha = ig_sha E, ig_format = ig_format E, ig_providerName = ig_providerName E,
      ig_FetchIncomeEvents = ig_FetchIncomeEvents E,
      ig_DiscoveryInstruments = (\<lambda>since (w, ds). ig_DiscoveryInstruments E since w),
      ig_HistoricalHolders = (\<lambda>i sym (w, ds). ig_HistoricalHolders E i sym w),
      ig_EligibleQuantity = (\<lambda>u i sym t (w, ds). ig_EligibleQuantity E u i sym t w),
      ig_ApplyIncomeEvent = (\<lambda>u r x (w, ds).
        case ig_ApplyIncomeEvent E u r x w of
          (Inl msg, w') \<Rightarrow> (Inl msg, w', ds)
        | (Inr _, w') \<Rightarrow> (Inr (), w', (ig_now E, u, r, x) # ds)),
      ig_ApplyCorrection = (\<lambda>u r adj (w, ds). case ig_ApplyCorrection E u r adj w of (x, w') \<Rightarrow> (x, w', ds)),
      ig_prefs = ig_prefs E, ig_now = ig_now E, ig_lookback = ig_lookback E, ig_retryIn = ig_retryIn E,
      ig_contextErr = ig_contextErr E\<rparr>"

lemma watched_simps [simp]:
  "ig_lib (watched E) = ig_lib E" "ig_now (watched E) = ig_now E" "ig_retryIn (watched E) = ig_retryIn E"
  "ig_prefs (watched E) = ig_prefs E" "ig_contextErr (watched E) = ig_contextErr E"
  "ig_HistoricalHolders (watched E) i sm (w, ds) = ig_HistoricalHolders E i sm w"
  "ig_EligibleQuantity (watched E) u i sm t (w, ds) = ig_EligibleQuantity E u i sm t w"
  by (simp_all add: watched_def)

lemma appliedEvent_watched [simp]: "appliedEvent (watched E) ev h q = appliedEvent E ev h q"
  unfolding appliedEvent_def buildApplied_def watched_simps ..

lemma applied_row_watched [simp]: "applied_row (watched E) ev h q = applied_row E ev h q"
  by (simp add: applied_row_def)

datatype 'w inc_op =
    IncRun "'w IncEnv" | IncIngest "'w IncEnv" | IncProcess "'w IncEnv"
  | IncCorrect "'w IncEnv" string Correction | IncDelete string

fun inc_step :: "'w inc_op \<Rightarrow> IncomeStore \<times> 'w \<times> credit list \<Rightarrow> IncomeStore \<times> 'w \<times> credit list" where
  "inc_step (IncRun E) x = snd (RunOnce (watched E) x)"
| "inc_step (IncIngest E) x = snd (Ingest (watched E) x)"
| "inc_step (IncProcess E) x = snd (Process (watched E) x)"
| "inc_step (IncCorrect E u c) x = snd (HandleCorrection (watched E) u c x)"
| "inc_step (IncDelete u) (s, wl) = (inc_OnAccountDeleted u s, wl)"

definition inc_run :: "'w inc_op list \<Rightarrow> IncomeStore \<times> 'w \<times> credit list \<Rightarrow> IncomeStore \<times> 'w \<times> credit list" where
  "inc_run ops x = foldl (\<lambda>x op. inc_step op x) x ops"

fun credit_key :: "credit \<Rightarrow> string \<times> string" where
  "credit_key (t, u, r, x) =
     (u, aie_IncomeEventID x @ ''|'' @ drop (5 + length (aie_IncomeEventID x)) r)"

lemma credit_key_made:
  "aie_IncomeEventID x = e \<Longrightarrow> credit_key (t, u, income_requestID e p, x) = (u, appKey e p)"
proof -
  assume x: "aie_IncomeEventID x = e"
  have prefix: "drop (length xs) (xs @ ys) = ys" for xs ys :: string by simp
  have "drop (length (''inc:'' @ e @ '':'')) ((''inc:'' @ e @ '':'') @ p) = p" by (rule prefix)
  moreover have "length (''inc:'' @ e @ '':'') = 5 + length e" by simp
  ultimately show ?thesis by (simp only: credit_key.simps x income_requestID_def appKey_def append_assoc)
qed

lemma appliedEvent_fields [simp]:
  "aie_IncomeEventID (appliedEvent E ev h q) = iev_ID ev" "aie_PaymentDate (appliedEvent E ev h q) = iev_PaymentDate ev"
  "aie_Currency (appliedEvent E ev h q) = iev_Currency ev"
  by (simp_all add: appliedEvent_def)

lemma applied_row_fields [simp]:
  "iap_IncomeEventID (applied_row E ev h q) = iev_ID ev" "iap_PortfolioID (applied_row E ev h q) = hld_PortfolioID h"
  "iap_UserID (applied_row E ev h q) = hld_UserID h" "iap_Status (applied_row E ev h q) = AppApplied"
  "iap_CashCurrency (applied_row E ev h q) = iev_Currency ev" "iap_EligibleQuantity (applied_row E ev h q) = q"
  by (simp_all add: applied_row_def Let_def)

text \<open>What one holder can do to the store and to the log.\<close>

lemma applyToHolder_cases:
  assumes "applyToHolder (watched E) ev h (s, w, ds) = (b, s', w', ds')"
  obtains (credited) q s1 where "b" "ig_EligibleQuantity E (hld_UserID h) (irf_InstrumentID (iev_Instrument ev))
        (irf_Symbol (iev_Instrument ev)) (entitlementDate ev) w = Inr q" "0 < Decimal_Sign (ig_lib E) q"
      "ClaimApplication (ig_now E) (iev_ID ev) (hld_PortfolioID h) (hld_UserID h) s = (True, s1)"
      "ig_ApplyIncomeEvent E (hld_UserID h) (income_requestID (iev_ID ev) (hld_PortfolioID h)) (appliedEvent E ev h q) w
         = (Inr (), w')"
      "s' = CompleteApplication (ig_now E) (applied_row E ev h q) s1"
      "ds' = (ig_now E, hld_UserID h, income_requestID (iev_ID ev) (hld_PortfolioID h), appliedEvent E ev h q) # ds"
  | (refused) s1 msg where "\<not> b"
      "ClaimApplication (ig_now E) (iev_ID ev) (hld_PortfolioID h) (hld_UserID h) s = (True, s1)"
      "s' = FailApplication (ig_now E) (iev_ID ev) (hld_PortfolioID h) msg (ig_now E + ig_retryIn E) s1" "ds' = ds"
  | (idle) "\<not> b" "s' = s" "w' = w" "ds' = ds"
proof (cases "ig_EligibleQuantity E (hld_UserID h) (irf_InstrumentID (iev_Instrument ev))
        (irf_Symbol (iev_Instrument ev)) (entitlementDate ev) w")
  case (Inl e)
  then show ?thesis using assms idle by (simp add: applyToHolder_def)
next
  case (Inr q)
  show ?thesis
  proof (cases "Decimal_Sign (ig_lib E) q \<le> 0")
    case True
    then show ?thesis using Inr assms idle by (simp add: applyToHolder_def)
  next
    case False
    note base = Inr False
    obtain ok s1 where c: "ClaimApplication (ig_now E) (iev_ID ev) (hld_PortfolioID h) (hld_UserID h) s = (ok, s1)"
      by fastforce
    show ?thesis
    proof (cases ok)
      case False
      then have "s1 = s" using c by (auto simp: ClaimApplication_def Let_def split: if_splits)
      then show ?thesis using base c False assms idle by (simp add: applyToHolder_def)
    next
      case True
      let ?r = "ig_ApplyIncomeEvent E (hld_UserID h) (income_requestID (iev_ID ev) (hld_PortfolioID h))
          (appliedEvent E ev h q) w"
      have call: "ig_ApplyIncomeEvent (watched E) (hld_UserID h) (income_requestID (iev_ID ev) (hld_PortfolioID h))
          (appliedEvent E ev h q) (w, ds) =
         (case ?r of (Inl msg, w') \<Rightarrow> (Inl msg, w', ds)
          | (Inr _, w') \<Rightarrow> (Inr (), w', (ig_now E, hld_UserID h, income_requestID (iev_ID ev) (hld_PortfolioID h),
                                 appliedEvent E ev h q) # ds))"
        by (simp add: watched_def)
      show ?thesis
      proof (cases ?r)
        case (Pair a w2)
        then show ?thesis
          using base c True assms credited [of q s1] refused [of s1] call
          by (cases a) (auto simp: applyToHolder_def)
      qed
    qed
  qed
qed

section \<open>Safety of every operation\<close>

lemma held_events [simp]: "inc_held (s\<lparr>is_events := evs\<rparr>) = inc_held s"
  by (rule ext) (simp add: inc_held_def)

lemma held_SetEventStatus [simp]: "inc_held (SetEventStatus now e st s) = inc_held s"
  by (simp add: SetEventStatus_def split: option.splits)

lemma held_set_status_unless [simp]: "inc_held (set_status_unless now ev st s) = inc_held s"
  by (simp add: set_status_unless_def)

lemma held_UpsertEvent [simp]: "inc_held (snd (UpsertEvent now ev s)) = inc_held s"
  by (simp add: UpsertEvent_def split: option.splits)

lemma safe_applyToHolder:
  assumes "applyToHolder (watched E) ev h (s, w, ds) = (b, s', w', ds')" "income.safe u s (map credit_key ds)"
  shows "income.safe u s' (map credit_key ds')"
  using assms(1)
proof (cases rule: applyToHolder_cases)
  case (credited q s1)
  have "income.safe u s' ((hld_UserID h, appKey (iev_ID ev) (hld_PortfolioID h)) # map credit_key ds)"
    by (rule income.safe_delivered [OF assms(2), of _ _ s1]) (use credited in \<open>force simp del: credit_key.simps\<close>)+
  then show ?thesis by (simp only: credited list.map credit_key_made appliedEvent_fields)
next
  case (refused s1 msg)
  show ?thesis unfolding refused(4)
    by (rule income.safe_failed [OF assms(2), of "appKey (iev_ID ev) (hld_PortfolioID h)" "hld_UserID h" s1])
      (use refused in blast)+
qed (use assms(2) in simp)

lemma safe_apply_holders:
  "apply_holders (watched E) ev hs (s, w, ds) = (n, s', w', ds') \<Longrightarrow> income.safe u s (map credit_key ds) \<Longrightarrow>
   income.safe u s' (map credit_key ds')"
proof (induction hs arbitrary: s w ds n s' w' ds')
  case (Cons h hs)
  obtain b s1 w1 d1 where 1: "applyToHolder (watched E) ev h (s, w, ds) = (b, s1, w1, d1)" by (metis prod_cases4)
  obtain m s2 w2 d2 where 2: "apply_holders (watched E) ev hs (s1, w1, d1) = (m, s2, w2, d2)" by (metis prod_cases4)
  from Cons.IH [OF 2 safe_applyToHolder [OF 1 Cons.prems(2)]] Cons.prems(1) show ?case by (simp add: 1 2)
qed simp

lemma safe_processEvent:
  assumes "processEvent (watched E) ev (s, w, ds) = (s', w', ds')" "income.safe u s (map credit_key ds)"
  shows "income.safe u s' (map credit_key ds')"
proof (cases "ig_HistoricalHolders E (irf_InstrumentID (iev_Instrument ev)) (irf_Symbol (iev_Instrument ev)) w")
  case (Inl e)
  then show ?thesis using assms
    by (auto simp: processEvent_def split: if_splits intro: income.safe_same_held)
next
  case (Inr hs)
  obtain n s1 w1 d1 where 1: "apply_holders (watched E) ev hs (s, w, ds) = (n, s1, w1, d1)" by (metis prod_cases4)
  from assms safe_apply_holders [OF 1 assms(2)] show ?thesis
    by (auto simp: processEvent_def Inr 1 split: if_splits intro: income.safe_same_held)
qed

lemma safe_process_loop:
  "process_loop (watched E) evs (s, w, ds) = (r, s', w', ds') \<Longrightarrow> income.safe u s (map credit_key ds) \<Longrightarrow>
   income.safe u s' (map credit_key ds')"
proof (induction evs arbitrary: s w ds s' w' ds')
  case (Cons ev evs)
  obtain s1 w1 d1 where 1: "processEvent (watched E) ev (s, w, ds) = (s1, w1, d1)" by (metis prod_cases3)
  from Cons.IH [of s1 w1 d1] safe_processEvent [OF 1 Cons.prems(2)] Cons.prems show ?case
    by (cases "ig_contextErr E ev") (simp_all add: 1)
qed simp

lemma Ingest_result:
  "\<exists>r s'. Ingest (watched E) (s, w, ds) = (r, s', w, ds) \<and> is_apps s' = is_apps s"
proof -
  have fold: "is_apps (foldl (\<lambda>s e. snd (UpsertEvent now (f e) s)) s raw) = is_apps s" for f now raw
  proof (induction raw arbitrary: s)
    case (Cons e raw)
    have "is_apps (snd (UpsertEvent now (f e) s)) = is_apps s" by (simp add: UpsertEvent_def split: option.splits)
    then show ?case using Cons [of "snd (UpsertEvent now (f e) s)"] by simp
  qed simp
  show ?thesis
    by (auto simp: Ingest_def Let_def fold split: sum.splits)
qed

lemma inc_held_apps: "is_apps s' = is_apps s \<Longrightarrow> inc_held s' = inc_held s"
  by (rule ext) (simp add: inc_held_def)

lemma HandleCorrection_cases:
  assumes "HandleCorrection E u c (s, w) = (r, s', w')"
  obtains (settled) ev a actualNet reason delta where
      "GetEvent (cor_IncomeEventID c) s = Some ev" "GetApplication (cor_IncomeEventID c) (cor_PortfolioID c) s = Some a"
      "iap_Status a = AppApplied" "iap_UserID a = u" "correctedNet (ig_lib E) a c = Inr (actualNet, reason)"
      "QuantizeCash (ig_lib E) (Amount_Sub (ig_lib E) actualNet (iap_NetAmount a)) (iap_CashCurrency a) = Inr delta"
      "if Decimal_IsZero (ig_lib E) delta then w' = w
       else ig_ApplyCorrection E u (cor_RequestID c) (adjustment ev a c delta reason) w = (Inr (), w')" "r = Inr ()"
      "s' = SetEventStatus (ig_now E) (iev_ID ev) IncCorrected
              (CompleteApplication (ig_now E) (corrected_row a c actualNet) s)"
  | (rejected) "s' = s" "isl r"
      "w' = w \<or> (\<exists>adj x. ig_ApplyCorrection E u (cor_RequestID c) adj w = (x, w'))"
proof -
  note def = assms [unfolded HandleCorrection_def prod.case]
  show ?thesis
  proof (cases "cor_IncomeEventID c = [] \<or> cor_PortfolioID c = [] \<or> TrimSpace (cor_RequestID c) = []")
    case True
    with def rejected show ?thesis by auto
  next
    case False
    note def = def [unfolded if_not_P [OF False]]
    show ?thesis
    proof (cases "GetEvent (cor_IncomeEventID c) s")
      case None
      with def rejected show ?thesis by auto
    next
      case (Some ev)
      note ev = Some
      note def = def [unfolded ev option.case]
      show ?thesis
      proof (cases "GetApplication (cor_IncomeEventID c) (cor_PortfolioID c) s")
        case None
        with def rejected show ?thesis by auto
      next
        case (Some a)
        note a = Some
        note def = def [unfolded a option.case]
        show ?thesis
        proof (cases "iap_Status a \<noteq> AppApplied \<or> iap_UserID a \<noteq> u")
          case True
          with def rejected show ?thesis by auto
        next
          case False
          note def = def [unfolded if_not_P [OF False]]
          show ?thesis
          proof (cases "correctedNet (ig_lib E) a c")
            case (Inl e)
            with def rejected show ?thesis by auto
          next
            case (Inr nr)
            obtain net reason where nr: "nr = (net, reason)" by fastforce
            note def = def [unfolded Inr nr sum.case prod.case]
            show ?thesis
            proof (cases "QuantizeCash (ig_lib E) (Amount_Sub (ig_lib E) net (iap_NetAmount a)) (iap_CashCurrency a)")
              case (Inl e)
              with def rejected show ?thesis by auto
            next
              case (Inr delta)
              note def = def [unfolded Inr sum.case]
              show ?thesis
                using def settled [OF ev a _ _ _ Inr] rejected False \<open>correctedNet (ig_lib E) a c = Inr nr\<close>
                by (cases "Decimal_IsZero (ig_lib E) delta"; auto simp: nr split: prod.splits sum.splits; metis)
            qed
          qed
        qed
      qed
    qed
  qed
qed

lemma HandleCorrection_log:
  assumes "HandleCorrection (watched E) u c (s, w, ds) = (r, s', w', ds')"
  shows "ds' = ds"
proof -
  have call: "snd (snd (ig_ApplyCorrection (watched E) v q adj (w, ds))) = ds" for v q adj
    by (simp add: watched_def case_prod_beta)
  have "(w', ds') = (w, ds) \<or> (\<exists>adj x. ig_ApplyCorrection (watched E) u (cor_RequestID c) adj (w, ds) = (x, w', ds'))"
    using assms by (cases rule: HandleCorrection_cases) (auto split: if_splits)
  then show ?thesis using call by (metis snd_conv)
qed

section \<open>Rows are filed under their own keys\<close>

definition rows_filed :: "IncomeStore \<Rightarrow> bool" where
  "rows_filed s =
     ((\<forall>(k, a) \<in> set (is_apps s). appKey (iap_IncomeEventID a) (iap_PortfolioID a) = k) \<and>
      (\<forall>(k, ev) \<in> set (is_events s). iev_ID ev = k) \<and> distinct (map fst (is_events s)))"

lemma set_update_cases: "x \<in> set (AList.update k v xs) \<Longrightarrow> x = (k, v) \<or> x \<in> set xs"
  by (induction xs) (auto split: if_splits)

lemma filed_app: "rows_filed s \<Longrightarrow> map_of (is_apps s) k = Some a \<Longrightarrow> appKey (iap_IncomeEventID a) (iap_PortfolioID a) = k"
  by (auto simp: rows_filed_def dest!: map_of_SomeD)

lemma filed_event: "rows_filed s \<Longrightarrow> map_of (is_events s) k = Some ev \<Longrightarrow> iev_ID ev = k"
  by (auto simp: rows_filed_def dest!: map_of_SomeD)

lemma filed_update_app:
  "rows_filed s \<Longrightarrow> appKey (iap_IncomeEventID a) (iap_PortfolioID a) = k \<Longrightarrow>
   rows_filed (s\<lparr>is_apps := AList.update k a (is_apps s)\<rparr>)"
  by (auto simp: rows_filed_def dest!: set_update_cases)

lemma filed_update_event:
  "rows_filed s \<Longrightarrow> iev_ID ev = k \<Longrightarrow> rows_filed (s\<lparr>is_events := AList.update k ev (is_events s)\<rparr>)"
  by (auto simp: rows_filed_def distinct_update dest!: set_update_cases)

lemma filed_SetEventStatus [simp]: "rows_filed s \<Longrightarrow> rows_filed (SetEventStatus now e st s)"
  by (auto simp: SetEventStatus_def filed_event intro!: filed_update_event split: option.splits)

lemma filed_UpsertEvent [simp]: "rows_filed s \<Longrightarrow> rows_filed (snd (UpsertEvent now ev s))"
  by (auto simp: UpsertEvent_def intro!: filed_update_event split: option.splits)

lemma filed_Claim [simp]: "rows_filed s \<Longrightarrow> rows_filed (snd (ClaimApplication now e p u s))"
  by (auto simp: ClaimApplication_def Let_def intro!: filed_update_app)

lemma filed_Complete [simp]: "rows_filed s \<Longrightarrow> rows_filed (CompleteApplication now a s)"
  by (auto simp: CompleteApplication_def completed_def Let_def intro!: filed_update_app)

lemma filed_Fail [simp]: "rows_filed s \<Longrightarrow> rows_filed (FailApplication now e p msg t s)"
  by (auto simp: FailApplication_def Let_def intro!: filed_update_app)

lemma filed_delete [simp]: "rows_filed s \<Longrightarrow> rows_filed (inc_OnAccountDeleted u s)"
  by (auto simp: inc_OnAccountDeleted_def rows_filed_def)

lemma filed_start [simp]: "rows_filed NewIncomeStore"
  by (simp add: NewIncomeStore_def rows_filed_def)

lemma filed_applyToHolder [simp]:
  assumes "rows_filed s" shows "rows_filed (fst (snd (applyToHolder E ev h (s, w))))"
proof -
  have "rows_filed s1" if "ClaimApplication now e p u s = (b, s1)" for now e p u b s1
    using filed_Claim [OF assms, of now e p u] that by simp
  then show ?thesis using assms by (auto simp: applyToHolder_def split: sum.splits prod.splits bool.splits)
qed

lemma filed_apply_holders: "rows_filed (fst sw) \<Longrightarrow> rows_filed (fst (snd (apply_holders E ev hs sw)))"
proof (induction hs arbitrary: sw)
  case (Cons h hs)
  have "rows_filed (fst (snd (applyToHolder E ev h sw)))" using Cons.prems by (cases sw) simp
  from Cons.IH [OF this] show ?case by (simp add: case_prod_beta)
qed simp

lemma filed_processEvent [simp]: "rows_filed (fst sw) \<Longrightarrow> rows_filed (fst (processEvent E ev sw))"
  using filed_apply_holders [of sw E ev]
  by (cases sw) (auto simp: processEvent_def set_status_unless_def case_prod_beta split: sum.splits)

lemma filed_process_loop: "rows_filed (fst sw) \<Longrightarrow> rows_filed (fst (snd (process_loop E evs sw)))"
  by (induction E evs sw rule: process_loop.induct) (auto split: option.splits)

lemma filed_Process [simp]: "rows_filed (fst sw) \<Longrightarrow> rows_filed (fst (snd (Process E sw)))"
  unfolding Process_def by (rule filed_process_loop)

lemma filed_Ingest [simp]: "rows_filed (fst sw) \<Longrightarrow> rows_filed (fst (snd (Ingest E sw)))"
proof -
  have "rows_filed s \<Longrightarrow> rows_filed (foldl (\<lambda>s e. snd (UpsertEvent now (f e) s)) s raw)" for s f now raw
    by (induction raw arbitrary: s) auto
  then show "rows_filed (fst sw) \<Longrightarrow> ?thesis" by (cases sw) (auto simp: Ingest_def Let_def split: sum.splits)
qed

lemma filed_HandleCorrection [simp]: "rows_filed (fst sw) \<Longrightarrow> rows_filed (fst (snd (HandleCorrection E u c sw)))"
  by (cases sw) (auto simp: HandleCorrection_def split: sum.splits prod.splits option.splits)

lemma filed_inc_step [simp]: "rows_filed (fst x) \<Longrightarrow> rows_filed (fst (inc_step op x))"
proof (cases op)
  case (IncRun E)
  assume x: "rows_filed (fst x)"
  obtain r y where "Ingest (watched E) x = (r, y)" by (cases "Ingest (watched E) x") auto
  with filed_Ingest [OF x, of "watched E"] IncRun show ?thesis by (cases r) (auto simp: RunOnce_def)
qed (cases x; simp)+

end
