(* ===== verification/IncomePipeline.thy ===== *)
theory IncomePipeline
  imports IncomeRuns OrderLaws
begin

text \<open>
  What the income pipeline guarantees over its runs: each event is credited at most once to a user's portfolio, only when
  due and only with the terms of a report, for the quantity entitled at its date; and once an event credited somebody,
  those whose application failed are not retried while its terms stay the same.
\<close>

section \<open>At most once\<close>

fun deletes :: "string \<Rightarrow> 'w inc_op \<Rightarrow> bool" where
  "deletes u (IncDelete v) = (v = u)"
| "deletes u _ = False"

definition credits_of :: "string \<Rightarrow> string \<Rightarrow> string \<Rightarrow> credit list \<Rightarrow> credit list" where
  "credits_of u e p ds =
     filter (\<lambda>(t, v, r, x). v = u \<and> r = income_requestID e p \<and> aie_IncomeEventID x = e) ds"

lemma safe_Process:
  "Process (watched E) (s, w, ds) = (r, s', w', ds') \<Longrightarrow> income.safe u s (map credit_key ds) \<Longrightarrow>
   income.safe u s' (map credit_key ds')"
  unfolding Process_def by (rule safe_process_loop)

lemma safe_inc_step:
  assumes "income.safe u s (map credit_key ds)" "rows_filed s" "\<not> deletes u op" "inc_step op (s, w, ds) = (s', w', ds')"
  shows "income.safe u s' (map credit_key ds')"
proof (cases op)
  case (IncRun E)
  obtain r s1 where 1: "Ingest (watched E) (s, w, ds) = (r, s1, w, ds)" "is_apps s1 = is_apps s"
    using Ingest_result [of E s w ds] by blast
  have "income.safe u s1 (map credit_key ds)" by (rule income.safe_same_held [OF assms(1) inc_held_apps [OF 1(2)]])
  then show ?thesis using assms(4) IncRun 1
    by (cases r; cases "Process (watched E) (s1, w, ds)") (auto simp: RunOnce_def intro: safe_Process)
next
  case (IncIngest E)
  obtain r s1 where "Ingest (watched E) (s, w, ds) = (r, s1, w, ds)" "is_apps s1 = is_apps s"
    using Ingest_result [of E s w ds] by blast
  then show ?thesis using assms IncIngest income.safe_same_held [OF assms(1) inc_held_apps [of s1]] by auto
next
  case (IncProcess E)
  then show ?thesis using assms by (cases "Process (watched E) (s, w, ds)") (auto intro: safe_Process)
next
  case (IncCorrect E v c)
  obtain r where h: "HandleCorrection (watched E) v c (s, w, ds) = (r, s', w', ds')"
    using assms(4) IncCorrect by (cases "HandleCorrection (watched E) v c (s, w, ds)") auto
  note ds = HandleCorrection_log [OF h]
  from h show ?thesis
  proof (cases rule: HandleCorrection_cases)
    case (settled ev a actualNet reason delta)
    have key: "inc_held s (appKey (cor_IncomeEventID c) (cor_PortfolioID c)) = Some v"
      using settled by (simp add: inc_held_def GetApplication_def app_settled_def)
    have ids: "appKey (iap_IncomeEventID a) (iap_PortfolioID a) = appKey (cor_IncomeEventID c) (cor_PortfolioID c)"
      using filed_app [OF assms(2)] settled(2) by (simp add: GetApplication_def)
    have "income.safe u (CompleteApplication (ig_now E) (corrected_row a c actualNet) s) (map credit_key ds)"
      by (rule income.safe_revised [OF assms(1) key])
        (rule exI [of _ "ig_now E"], rule exI [of _ "corrected_row a c actualNet"],
         simp add: ids settled(4) corrected_row_def)
    then have "income.safe u s' (map credit_key ds)"
      by (rule income.safe_same_held) (simp add: settled(9))
    then show ?thesis by (simp only: ds)
  qed (use assms ds in simp)
next
  case (IncDelete v)
  then show ?thesis using assms income.safe_forget [OF assms(1)] by auto
qed

lemma inc_run_invariant:
  "income.safe u s (map credit_key ds) \<Longrightarrow> rows_filed s \<Longrightarrow> \<not> list_ex (deletes u) ops \<Longrightarrow>
   inc_run ops (s, w, ds) = (s', w', ds') \<Longrightarrow> income.safe u s' (map credit_key ds') \<and> rows_filed s'"
proof (induction ops arbitrary: s w ds)
  case (Cons op ops)
  obtain s1 w1 d1 where 1: "inc_step op (s, w, ds) = (s1, w1, d1)" by (metis prod_cases3)
  have "rows_filed s1" using filed_inc_step [of "(s, w, ds)" op] Cons.prems(2) 1 by simp
  moreover have "income.safe u s1 (map credit_key d1)"
    using safe_inc_step [OF Cons.prems(1,2) _ 1] Cons.prems(3) by simp
  ultimately show ?case using Cons.IH [of s1 d1 w1] Cons.prems(3,4) 1 by (simp add: inc_run_def)
qed (simp add: inc_run_def)

text \<open>
  C28. Whatever the provider reports, the gateway answers and the clock shows, through any sequence of ingestions, passes,
  corrections and deletions of other accounts, the portfolio of a user is credited at most once for an income event.
\<close>

theorem credited_at_most_once:
  assumes "\<not> list_ex (deletes u) ops" "inc_run ops (NewIncomeStore, w, []) = (s', w', ds)"
  shows "length (credits_of u e p ds) \<le> 1"
proof -
  have "income.safe u s' (map credit_key ds)"
    using inc_run_invariant [OF _ filed_start assms] by (simp add: income.safe_start)
  then have d: "distinct (keys_of u (map credit_key ds))" by (rule income.safe_distinct)
  have "map (\<lambda>c. snd (credit_key c)) (filter (\<lambda>c. fst (credit_key c) = u) ds) = keys_of u (map credit_key ds)"
    by (induction ds) (auto simp: keys_of_def)
  then have "distinct (map (\<lambda>c. snd (credit_key c)) (filter (\<lambda>c. fst (credit_key c) = u) ds))" using d by simp
  moreover have "credits_of u e p ds =
      filter (\<lambda>(t, v, r, x). v = u \<and> r = income_requestID e p \<and> aie_IncomeEventID x = e)
        (filter (\<lambda>c. fst (credit_key c) = u) ds)"
    by (induction ds) (auto simp: credits_of_def)
  ultimately have "distinct (map (\<lambda>c. snd (credit_key c)) (credits_of u e p ds))"
    by (metis distinct_map_filter)
  then show ?thesis
    by (rule distinct_same_length [where k = "appKey e p"]) (auto simp: credits_of_def credit_key_made simp del: credit_key.simps)
qed

section \<open>Only when due\<close>

text \<open>
  What an instruction accepted in a pass configured by \<open>E\<close> must be, for the stored event \<open>ev\<close> it carries out: the event is
  trusted, live and due, and the instruction is the one for a holder the portfolios named and for the quantity they
  found held at the entitlement date.
\<close>

definition entitled_credit :: "'w IncEnv \<Rightarrow> IncomeEvent \<Rightarrow> credit \<Rightarrow> bool" where
  "entitled_credit E ev c =
     (\<exists>h hs q w w'.
        ig_HistoricalHolders E (irf_InstrumentID (iev_Instrument ev)) (irf_Symbol (iev_Instrument ev)) w = Inr hs \<and>
        h \<in> set hs \<and>
        ig_EligibleQuantity E (hld_UserID h) (irf_InstrumentID (iev_Instrument ev)) (irf_Symbol (iev_Instrument ev))
          (entitlementDate ev) w' = Inr q \<and> 0 < Decimal_Sign (ig_lib E) q \<and>
        c = (ig_now E, hld_UserID h, income_requestID (iev_ID ev) (hld_PortfolioID h), appliedEvent E ev h q))"

definition is_due :: "'w IncEnv \<Rightarrow> IncomeEvent \<Rightarrow> bool" where
  "is_due E ev =
     (iev_PaymentDate ev \<le> ig_now E \<and> meetsAutoApplyPolicy (iev_Quality ev) \<and>
      iev_Status ev \<noteq> IncCancelled \<and> iev_Status ev \<noteq> IncSuperseded \<and>
      (requiresAccountData (iev_Type ev) \<longrightarrow> Contains (iev_Provider ev) ''brokerage'' \<or> Contains (iev_Provider ev) ''broker''))"

lemma entitled_event: "entitled_credit E ev c \<Longrightarrow> aie_IncomeEventID (snd (snd (snd c))) = iev_ID ev"
  by (auto simp: entitled_credit_def)

fun inc_env :: "'w inc_op \<Rightarrow> 'w IncEnv list" where
  "inc_env (IncRun E) = [E]"
| "inc_env (IncProcess E) = [E]"
| "inc_env _ = []"

fun inc_ingests :: "'w inc_op \<Rightarrow> 'w IncEnv list" where
  "inc_ingests (IncRun E) = [E]"
| "inc_ingests (IncIngest E) = [E]"
| "inc_ingests _ = []"

text \<open>The events in the store when the pass of an operation begins.\<close>

fun pass_rows :: "'w inc_op \<Rightarrow> IncomeStore \<times> 'w \<times> credit list \<Rightarrow> IncomeEvent list" where
  "pass_rows (IncRun E) x = map snd (is_events (fst (snd (Ingest (watched E) x))))"
| "pass_rows (IncProcess E) x = map snd (is_events (fst x))"
| "pass_rows _ x = []"

lemma due_apply_holders:
  assumes "ig_HistoricalHolders E (irf_InstrumentID (iev_Instrument ev)) (irf_Symbol (iev_Instrument ev)) w0 = Inr hs0"
  shows "apply_holders (watched E) ev hs (s, w, ds) = (n, s', w', ds') \<Longrightarrow> set hs \<subseteq> set hs0 \<Longrightarrow>
    c \<in> set ds' \<Longrightarrow> c \<in> set ds \<or> entitled_credit E ev c"
proof (induction hs arbitrary: s w ds n s' w' ds')
  case (Cons h hs)
  obtain b s1 w1 d1 where 1: "applyToHolder (watched E) ev h (s, w, ds) = (b, s1, w1, d1)" by (metis prod_cases4)
  obtain m s2 w2 d2 where 2: "apply_holders (watched E) ev hs (s1, w1, d1) = (m, s2, w2, d2)" by (metis prod_cases4)
  have "d2 = ds'" using Cons.prems(1) by (simp add: 1 2)
  with Cons.IH [OF 2] Cons.prems(2,3) have "c \<in> set d1 \<or> entitled_credit E ev c" by simp
  moreover have "c \<in> set ds \<or> entitled_credit E ev c" if "c \<in> set d1"
    using 1
  proof (cases rule: applyToHolder_cases)
    case (credited q s3)
    have "h \<in> set hs0" using Cons.prems(2) by simp
    with that credited(2,3,7) assms show ?thesis unfolding entitled_credit_def by auto
  qed (use that in simp_all)
  ultimately show ?case by blast
qed simp

lemma due_processEvent:
  assumes "processEvent (watched E) ev (s, w, ds) = (s', w', ds')" "c \<in> set ds'" "c \<notin> set ds"
  shows "is_due E ev \<and> entitled_credit E ev c"
proof (cases "ig_HistoricalHolders E (irf_InstrumentID (iev_Instrument ev)) (irf_Symbol (iev_Instrument ev)) w")
  case (Inl e)
  then show ?thesis using assms(1-3) by (auto simp: processEvent_def split: if_splits)
next
  case (Inr hs)
  obtain n s1 w1 d1 where 1: "apply_holders (watched E) ev hs (s, w, ds) = (n, s1, w1, d1)" by (metis prod_cases4)
  have "is_due E ev" "d1 = ds'"
    using assms(1-3) by (auto simp: processEvent_def Inr 1 is_due_def trustedForAccountData_def split: if_splits)
  with due_apply_holders [OF Inr 1 subset_refl] assms(2,3) show ?thesis by blast
qed

lemma due_process_loop:
  "process_loop (watched E) evs (s, w, ds) = (r, s', w', ds') \<Longrightarrow> c \<in> set ds' \<Longrightarrow> c \<notin> set ds \<Longrightarrow>
   \<exists>ev \<in> set evs. is_due E ev \<and> entitled_credit E ev c"
proof (induction evs arbitrary: s w ds s' w' ds')
  case (Cons ev evs)
  obtain s1 w1 d1 where 1: "processEvent (watched E) ev (s, w, ds) = (s1, w1, d1)" by (metis prod_cases3)
  show ?case
  proof (cases "c \<in> set d1")
    case True
    with due_processEvent [OF 1 True Cons.prems(3)] show ?thesis by auto
  next
    case False
    show ?thesis
    proof (cases "ig_contextErr E ev")
      case None
      with Cons.prems(1) have "process_loop (watched E) evs (s1, w1, d1) = (r, s', w', ds')" by (simp add: 1)
      from Cons.IH [OF this Cons.prems(2) False] show ?thesis by auto
    next
      case (Some msg)
      then show ?thesis using Cons.prems by simp
    qed
  qed
qed simp

lemma ListEvents_status: "ev \<in> set (ListEventsByStatus pipeline_statuses s) \<Longrightarrow> iev_Status ev \<in> set pipeline_statuses"
  by (auto simp: ListEventsByStatus_def pipeline_statuses_def)

lemma ListEvents_stored: "ev \<in> set (ListEventsByStatus sts s) \<Longrightarrow> ev \<in> set (map snd (is_events s))"
  by (auto simp: ListEventsByStatus_def)

lemma due_Process:
  assumes "Process (watched E) (s, w, ds) = (r, s', w', ds')" "c \<in> set ds'" "c \<notin> set ds"
  shows "\<exists>ev \<in> set (map snd (is_events s)). iev_Status ev \<in> set pipeline_statuses \<and> is_due E ev \<and> entitled_credit E ev c"
  using due_process_loop [OF assms(1) [unfolded Process_def fst_conv] assms(2,3)] ListEvents_status ListEvents_stored by blast

section \<open>Stored events come from reports\<close>

definition income_reports :: "'w IncEnv \<Rightarrow> ProviderIncomeEvent set" where
  "income_reports E = {e. \<exists>request raw. ig_FetchIncomeEvents E request = Inr raw \<and> e \<in> set raw}"

text \<open>The stored event has the terms of the report; only the instrument identifier may have been filled in.\<close>

definition from_income_report :: "'w IncEnv \<Rightarrow> ProviderIncomeEvent \<Rightarrow> IncomeEvent \<Rightarrow> bool" where
  "from_income_report E e ev =
     (iev_ID ev = ig_providerName E @ '':'' @ pev_ProviderEventID e \<and> iev_Provider ev = ig_providerName E \<and>
      iev_Type ev = pev_Type e \<and> irf_Symbol (iev_Instrument ev) = irf_Symbol (pev_Instrument e) \<and>
      iev_AmountPerUnit ev = pev_AmountPerUnit e \<and> iev_Currency ev = pev_Currency e \<and>
      iev_Components ev = pev_Components e \<and> iev_ExDate ev = pev_ExDate e \<and> iev_RecordDate ev = pev_RecordDate e \<and>
      iev_PaymentDate ev = pev_PaymentDate e \<and> iev_Quality ev = assessQuality (ig_lib E) e)"

definition reported_income :: "'w IncEnv list \<Rightarrow> IncomeEvent \<Rightarrow> bool" where
  "reported_income Es ev = (\<exists>E \<in> set Es. \<exists>e \<in> income_reports E. from_income_report E e ev)"

definition reported_rows :: "'w IncEnv list \<Rightarrow> IncomeStore \<Rightarrow> bool" where
  "reported_rows Es s = (\<forall>ev \<in> snd ` set (is_events s). reported_income Es ev)"

lemma reported_income_bookkeeping [simp]:
  "reported_income Es (ev\<lparr>iev_Status := st\<rparr>) = reported_income Es ev"
  "reported_income Es (ev\<lparr>iev_CreatedAt := t\<rparr>) = reported_income Es ev"
  "reported_income Es (ev\<lparr>iev_UpdatedAt := t\<rparr>) = reported_income Es ev"
  by (simp_all add: reported_income_def from_income_report_def)

lemma if_case_shape:
  "(if A then e else case f of Some item \<Rightarrow> g item | None \<Rightarrow> e) = e \<or>
   (\<exists>item. (if A then e else case f of Some item \<Rightarrow> g item | None \<Rightarrow> e) = g item)"
  by (cases A; cases f) auto

lemma resolveInstrument_shape:
  obtains i where "resolveInstrument byKey instruments e = e\<lparr>pev_Instrument := i\<rparr>" "irf_Symbol i = irf_Symbol (pev_Instrument e)"
proof -
  have "resolveInstrument byKey instruments e = e \<or> (\<exists>item :: DiscoveryInstrument. resolveInstrument byKey instruments e =
      e\<lparr>pev_Instrument := (pev_Instrument e)\<lparr>irf_InstrumentID := din_InstrumentID item\<rparr>\<rparr>)"
    unfolding resolveInstrument_def Let_def by (rule if_case_shape)
  then show ?thesis
  proof
    assume "resolveInstrument byKey instruments e = e"
    then show ?thesis using that [of "pev_Instrument e"] by simp
  next
    assume "\<exists>item :: DiscoveryInstrument. resolveInstrument byKey instruments e =
      e\<lparr>pev_Instrument := (pev_Instrument e)\<lparr>irf_InstrumentID := din_InstrumentID item\<rparr>\<rparr>"
    then show ?thesis using that by auto
  qed
qed

lemma normalized_report:
  "from_income_report E e (normalize (ig_lib E) sha fmt (ig_providerName E) (resolveInstrument byKey instruments e) now)"
proof -
  obtain i where i: "resolveInstrument byKey instruments e = e\<lparr>pev_Instrument := i\<rparr>"
    "irf_Symbol i = irf_Symbol (pev_Instrument e)"
    by (rule resolveInstrument_shape)
  have "assessQuality (ig_lib E) (e\<lparr>pev_Instrument := i\<rparr>) = assessQuality (ig_lib E) e"
    unfolding assessQuality_def by (simp add: i(2) cong: if_cong)
  then show ?thesis unfolding from_income_report_def normalize_def Let_def i(1) by (simp add: i(2))
qed

lemma reported_event:
  assumes "reported_rows Es s" "map_of (is_events s) k = Some ev"
  shows "reported_income Es ev"
proof -
  have "ev \<in> snd ` set (is_events s)" using imageI [OF map_of_SomeD [OF assms(2)], of snd] by simp
  with assms(1) show ?thesis unfolding reported_rows_def by blast
qed

lemma reported_rows_update:
  assumes "reported_rows Es s" "reported_income Es ev"
  shows "reported_rows Es (s\<lparr>is_events := AList.update k ev (is_events s)\<rparr>)"
  using assms set_update_cases [of _ k ev "is_events s"] by (fastforce simp: reported_rows_def)

lemma reported_rows_Set: "reported_rows Es s \<Longrightarrow> reported_rows Es (SetEventStatus now k st s)"
  by (simp add: SetEventStatus_def reported_event reported_rows_update split: option.split)

lemma reported_rows_Upsert:
  "reported_rows Es s \<Longrightarrow> reported_income Es ev \<Longrightarrow> reported_rows Es (snd (UpsertEvent now ev s))"
  by (simp add: UpsertEvent_def reported_rows_update split: option.split)

lemma reported_rows_events: "is_events s' = is_events s \<Longrightarrow> reported_rows Es s' = reported_rows Es s"
  by (simp add: reported_rows_def)

lemma reported_rows_mono: "reported_rows Es s \<Longrightarrow> set Es \<subseteq> set Es' \<Longrightarrow> reported_rows Es' s"
  unfolding reported_rows_def reported_income_def by blast

lemma is_events_apps [simp]:
  "is_events (CompleteApplication now a s) = is_events s" "is_events (FailApplication now e p msg t s) = is_events s"
  "is_events (inc_OnAccountDeleted u s) = is_events s" "is_events (snd (ClaimApplication now e p u s)) = is_events s"
  by (simp_all add: CompleteApplication_def FailApplication_def inc_OnAccountDeleted_def ClaimApplication_def Let_def)

lemma events_kept_apply_holders [simp]: "is_events (fst (snd (apply_holders E ev hs sw))) = is_events (fst sw)"
proof (induction hs arbitrary: sw)
  case (Cons h hs)
  have "is_events s1 = is_events s" if "ClaimApplication now e p u s = (b, s1)" for now e p u s b s1
    using is_events_apps(4) [of now e p u s] that by simp
  then have "is_events (fst (snd (applyToHolder E ev h sw))) = is_events (fst sw)"
    by (cases sw) (auto simp: applyToHolder_def split: sum.splits prod.splits bool.splits)
  then show ?case using Cons.IH [of "snd (applyToHolder E ev h sw)"] by (simp add: case_prod_beta)
qed simp

lemma reported_rows_processEvent: "reported_rows Es (fst sw) \<Longrightarrow> reported_rows Es (fst (processEvent E ev sw))"
proof -
  assume "reported_rows Es (fst sw)"
  moreover from this have "reported_rows Es (fst (snd (apply_holders E ev hs sw)))" for hs
    by (simp add: reported_rows_events [OF events_kept_apply_holders])
  ultimately show ?thesis
    by (cases sw) (auto simp: processEvent_def set_status_unless_def case_prod_beta reported_rows_Set split: sum.splits)
qed

lemma reported_rows_Process: "reported_rows Es (fst sw) \<Longrightarrow> reported_rows Es (fst (snd (Process E sw)))"
proof -
  have "reported_rows Es (fst sw) \<Longrightarrow> reported_rows Es (fst (snd (process_loop E evs sw)))" for evs
    by (induction E evs sw rule: process_loop.induct) (auto simp: reported_rows_processEvent split: option.splits)
  then show "reported_rows Es (fst sw) \<Longrightarrow> ?thesis" by (simp add: Process_def)
qed

lemma reported_rows_Ingest:
  assumes "reported_rows Es s" "Ingest (watched E) (s, w, ds) = (r, s', w', ds')"
  shows "reported_rows (E # Es) s'"
proof -
  have start: "reported_rows (E # Es) s" using assms(1) by (rule reported_rows_mono) auto
  have made: "reported_income (E # Es) (normalize (ig_lib E) sha fmt (ig_providerName E) (resolveInstrument bk ins e) now)"
    if "e \<in> income_reports E" for e sha fmt bk ins now
    using that normalized_report unfolding reported_income_def by (meson list.set_intros(1))
  have fold: "reported_rows (E # Es) (foldl (\<lambda>s e. snd (UpsertEvent t (normalize (ig_lib E) sha fmt (ig_providerName E)
      (resolveInstrument bk ins e) now) s)) s raw)" if "set raw \<subseteq> income_reports E" for raw t sha fmt bk ins now
    using start that
  proof (induction raw arbitrary: s)
    case (Cons e raw)
    have "reported_rows (E # Es) (snd (UpsertEvent t (normalize (ig_lib E) sha fmt (ig_providerName E)
        (resolveInstrument bk ins e) now) s))"
      by (rule reported_rows_Upsert [OF Cons.prems(1) made]) (use Cons.prems(2) in simp)
    with Cons show ?case by simp
  qed simp
  have raw: "set raw \<subseteq> income_reports E" if "ig_FetchIncomeEvents E request = Inr raw" for request raw
    using that by (auto simp: income_reports_def)
  have same: "ig_FetchIncomeEvents (watched E) = ig_FetchIncomeEvents E" "ig_providerName (watched E) = ig_providerName E"
    by (simp_all add: watched_def)
  from assms(2) start show ?thesis
    by (auto simp: Ingest_def Let_def same dest!: raw split: sum.splits if_splits intro!: fold)
qed

lemma reported_rows_correct: "reported_rows Es (fst sw) \<Longrightarrow> reported_rows Es (fst (snd (HandleCorrection E u c sw)))"
proof -
  assume rows: "reported_rows Es (fst sw)"
  obtain r s' w' where h: "HandleCorrection E u c (fst sw, snd sw) = (r, s', w')" by (metis prod_cases3)
  then have "reported_rows Es s'"
  proof (cases rule: HandleCorrection_cases)
    case (settled ev a actualNet reason delta)
    show ?thesis unfolding settled(9) by (rule reported_rows_Set) (simp add: reported_rows_events [OF is_events_apps(1)] rows)
  qed (use rows in simp)
  with h show ?thesis by simp
qed

lemma income_step:
  assumes "inc_step op (s, w, ds) = (s', w', ds')" "reported_rows Es s"
  shows "reported_rows (inc_ingests op @ Es) s'" (is ?kept)
    and "c \<in> set ds' \<Longrightarrow> c \<in> set ds \<or> (\<exists>E \<in> set (inc_env op). \<exists>ev \<in> set (pass_rows op (s, w, ds)).
      iev_Status ev \<in> set pipeline_statuses \<and> is_due E ev \<and> entitled_credit E ev c \<and>
      reported_income (inc_ingests op @ Es) ev)" (is "_ \<Longrightarrow> ?credit")
proof -
  have rows: "reported_income Fs ev" if "reported_rows Fs t" "ev \<in> set (map snd (is_events t))" for Fs t ev
    using that unfolding reported_rows_def by auto
  have "?kept \<and> (c \<in> set ds' \<longrightarrow> ?credit)"
  proof (cases op)
    case (IncRun E)
    obtain r s1 where 1: "Ingest (watched E) (s, w, ds) = (r, s1, w, ds)" using Ingest_result [of E s w ds] by blast
    have kept: "reported_rows (E # Es) s1" by (rule reported_rows_Ingest [OF assms(2) 1])
    obtain r2 s2 w2 d2 where 2: "Process (watched E) (s1, w, ds) = (r2, s2, w2, d2)" by (metis prod_cases4)
    show ?thesis
    proof (cases r)
      case (Inl e)
      then show ?thesis using assms(1) IncRun kept by (auto simp: RunOnce_def 1)
    next
      case (Inr u)
      then have s': "s' = s2" "ds' = d2" using assms(1) IncRun by (simp_all add: RunOnce_def 1 2)
      have "reported_rows (E # Es) s2" using reported_rows_Process [of "E # Es" "(s1, w, ds)" "watched E"] kept by (simp add: 2)
      moreover have "\<exists>ev \<in> set (map snd (is_events s1)). iev_Status ev \<in> set pipeline_statuses \<and> is_due E ev \<and>
          entitled_credit E ev c \<and> reported_income (E # Es) ev" if "c \<in> set d2" "c \<notin> set ds"
        using due_Process [OF 2 that] rows [OF kept] by blast
      ultimately show ?thesis using IncRun s' by (simp add: 1) blast
    qed
  next
    case (IncIngest E)
    obtain r s1 where 1: "Ingest (watched E) (s, w, ds) = (r, s1, w, ds)" using Ingest_result [of E s w ds] by blast
    then show ?thesis using reported_rows_Ingest [OF assms(2) 1] assms(1) IncIngest by simp
  next
    case (IncProcess E)
    obtain r s2 w2 d2 where 2: "Process (watched E) (s, w, ds) = (r, s2, w2, d2)" by (metis prod_cases4)
    then have s': "s' = s2" "ds' = d2" using assms(1) IncProcess by simp_all
    have "reported_rows Es s2" using reported_rows_Process [of Es "(s, w, ds)" "watched E"] assms(2) by (simp add: 2)
    moreover have "\<exists>ev \<in> set (map snd (is_events s)). iev_Status ev \<in> set pipeline_statuses \<and> is_due E ev \<and>
        entitled_credit E ev c \<and> reported_income Es ev" if "c \<in> set d2" "c \<notin> set ds"
      using due_Process [OF 2 that] rows [OF assms(2)] by blast
    ultimately show ?thesis using IncProcess s' by simp blast
  next
    case (IncCorrect E u k)
    obtain r s2 w2 d2 where h: "HandleCorrection (watched E) u k (s, w, ds) = (r, s2, w2, d2)" by (metis prod_cases4)
    then show ?thesis
      using HandleCorrection_log [OF h] reported_rows_correct [of Es "(s, w, ds)" "watched E" u k] assms IncCorrect by simp
  next
    case (IncDelete u)
    then show ?thesis using assms reported_rows_events [OF is_events_apps(3)] by auto
  qed
  then show ?kept "c \<in> set ds' \<Longrightarrow> ?credit" by auto
qed

text \<open>A credit of a run, with the operation whose pass gave it and the report behind it.\<close>

definition credit_origin :: "'w inc_op list \<Rightarrow> IncomeStore \<times> 'w \<times> credit list \<Rightarrow> 'w IncEnv list \<Rightarrow> credit \<Rightarrow> bool" where
  "credit_origin ops x Es c =
     (\<exists>before op after. ops = before @ op # after \<and>
        (\<exists>E \<in> set (inc_env op). \<exists>ev \<in> set (pass_rows op (inc_run before x)).
          iev_Status ev \<in> set pipeline_statuses \<and> is_due E ev \<and> entitled_credit E ev c \<and>
          reported_income (concat (map inc_ingests (before @ [op])) @ Es) ev))"

lemma reported_income_mono: "reported_income Es ev \<Longrightarrow> set Es \<subseteq> set Es' \<Longrightarrow> reported_income Es' ev"
  unfolding reported_income_def by blast

lemma credit_origin_first:
  assumes "E \<in> set (inc_env op)" "ev \<in> set (pass_rows op x)" "iev_Status ev \<in> set pipeline_statuses" "is_due E ev"
    "entitled_credit E ev c" "reported_income (inc_ingests op @ Es) ev"
  shows "credit_origin (op # ops) x Es c"
  unfolding credit_origin_def
  by (rule exI [of _ "[]"], rule exI [of _ op], rule exI [of _ ops]) (use assms in \<open>auto simp: inc_run_def\<close>)

lemma credit_origin_later:
  assumes "credit_origin ops (inc_step op x) (inc_ingests op @ Es) c"
  shows "credit_origin (op # ops) x Es c"
proof -
  obtain before op' after E ev where o: "ops = before @ op' # after" "E \<in> set (inc_env op')"
    "ev \<in> set (pass_rows op' (inc_run before (inc_step op x)))" "iev_Status ev \<in> set pipeline_statuses" "is_due E ev"
    "entitled_credit E ev c" "reported_income (concat (map inc_ingests (before @ [op'])) @ inc_ingests op @ Es) ev"
    using assms unfolding credit_origin_def by blast
  have "reported_income (concat (map inc_ingests ((op # before) @ [op'])) @ Es) ev"
    using o(7) by (rule reported_income_mono) auto
  moreover have "inc_run (op # before) x = inc_run before (inc_step op x)" by (simp add: inc_run_def)
  ultimately show ?thesis unfolding credit_origin_def
    by (intro exI [of _ "op # before"] exI [of _ op'] exI [of _ after]) (use o in auto)
qed

lemma due_run:
  "inc_run ops (s, w, ds) = (s', w', ds') \<Longrightarrow> reported_rows Es s \<Longrightarrow> c \<in> set ds' \<Longrightarrow>
   c \<in> set ds \<or> credit_origin ops (s, w, ds) Es c"
proof (induction ops arbitrary: s w ds Es)
  case (Cons op ops)
  obtain s1 w1 d1 where 1: "inc_step op (s, w, ds) = (s1, w1, d1)" by (metis prod_cases3)
  have run: "inc_run ops (s1, w1, d1) = (s', w', ds')" using Cons.prems(1) by (simp add: inc_run_def 1)
  note step = income_step [OF 1 Cons.prems(2)]
  from Cons.IH [OF run step(1) Cons.prems(3)] show ?case
  proof
    assume "c \<in> set d1"
    from step(2) [OF this] show ?thesis using credit_origin_first [of _ op _ "(s, w, ds)" c Es ops] by blast
  next
    assume "credit_origin ops (s1, w1, d1) (inc_ingests op @ Es) c"
    with credit_origin_later [of ops op "(s, w, ds)" Es c] show ?thesis by (simp add: 1)
  qed
qed (simp add: inc_run_def)

text \<open>
  C29. Every instruction the portfolios accept from the pipeline was given in a pass of the run for an event stored when
  the pass began, open and neither cancelled nor superseded, whose payment date had come and whose quality allows automatic
  application; it goes to a holder the portfolios named, for the positive quantity they found held at the entitlement
  date. That event has the terms and the assessed quality of a report that an ingestion up to then fetched, which is not
  cancelled; account-specific income comes from a brokerage provider only.
\<close>

theorem credits_only_when_due:
  assumes "inc_run ops (NewIncomeStore, w, []) = (s', w', ds)" "c \<in> set ds"
  shows "\<exists>before op after E ev Ei e. ops = before @ op # after \<and> E \<in> set (inc_env op) \<and>
    ev \<in> set (pass_rows op (inc_run before (NewIncomeStore, w, []))) \<and> iev_Status ev \<in> set pipeline_statuses \<and>
    is_due E ev \<and> entitled_credit E ev c \<and> Ei \<in> set (concat (map inc_ingests (before @ [op]))) \<and>
    e \<in> income_reports Ei \<and> from_income_report Ei e ev \<and> \<not> pev_Cancelled e"
proof -
  have "reported_rows [] NewIncomeStore" by (simp add: reported_rows_def NewIncomeStore_def)
  from due_run [OF assms(1) this assms(2)] have "credit_origin ops (NewIncomeStore, w, []) [] c" by simp
  then obtain before op after E ev Ei e where o: "ops = before @ op # after" "E \<in> set (inc_env op)"
    "ev \<in> set (pass_rows op (inc_run before (NewIncomeStore, w, [])))" "iev_Status ev \<in> set pipeline_statuses"
    "is_due E ev" "entitled_credit E ev c" "Ei \<in> set (concat (map inc_ingests (before @ [op])))"
    "e \<in> income_reports Ei" "from_income_report Ei e ev"
    unfolding credit_origin_def reported_income_def append_Nil2 by blast
  have "\<not> pev_Cancelled e"
    using o(5,9) by (auto simp: is_due_def from_income_report_def assessQuality_def meetsAutoApplyPolicy_def)
  with o show ?thesis by blast
qed

section \<open>A failed holder is dropped once another one is credited\<close>

definition event_status :: "IncomeStore \<Rightarrow> string \<Rightarrow> IncomeStatus option" where
  "event_status s e = map_option iev_Status (GetEvent e s)"

lemma event_status_Set:
  "event_status (SetEventStatus now e' st s) e =
     (if e' = e \<and> GetEvent e s \<noteq> None then Some st else event_status s e)"
  by (auto simp: event_status_def SetEventStatus_def GetEvent_def update_conv' split: option.splits)

lemma event_status_events: "is_events s' = is_events s \<Longrightarrow> event_status s' e = event_status s e"
  by (simp add: event_status_def GetEvent_def)

lemma status_processEvent_other:
  assumes "iev_ID ev \<noteq> e"
  shows "event_status (fst (processEvent E ev sw)) e = event_status (fst sw) e"
proof -
  have "event_status (fst (snd (apply_holders E ev hs sw))) e = event_status (fst sw) e" for hs
    by (rule event_status_events) simp
  then show ?thesis using assms
    by (cases sw) (simp add: processEvent_def set_status_unless_def event_status_Set case_prod_beta split: sum.split)
qed

lemma status_process_loop_other:
  "\<forall>ev \<in> set evs. iev_ID ev \<noteq> e \<Longrightarrow> event_status (fst (snd (process_loop E evs sw))) e = event_status (fst sw) e"
  by (induction E evs sw rule: process_loop.induct) (auto simp: status_processEvent_other split: option.splits)

text \<open>An event that was applied, or corrected afterwards, is not listed for another pass.\<close>

definition settled_event :: "IncomeStore \<Rightarrow> string \<Rightarrow> bool" where
  "settled_event s e = (event_status s e \<in> {Some IncApplied, Some IncCorrected})"

lemma settled_not_listed:
  assumes "rows_filed s" "settled_event s e" "ev \<in> set (ListEventsByStatus pipeline_statuses s)"
  shows "iev_ID ev \<noteq> e"
proof
  assume e: "iev_ID ev = e"
  from assms(3) obtain k where k: "(k, ev) \<in> set (is_events s)" by (auto simp: ListEventsByStatus_def)
  with assms(1) e have "k = e" "distinct (map fst (is_events s))" by (auto simp: rows_filed_def)
  with k have "map_of (is_events s) e = Some ev" by simp
  with assms(2) have "iev_Status ev \<in> {IncApplied, IncCorrected}" by (simp add: settled_event_def event_status_def GetEvent_def)
  with ListEvents_status [OF assms(3)] show False by (auto simp: pipeline_statuses_def)
qed

text \<open>The events an ingestion upserts, and when it brings no other terms for event \<open>e\<close> than the stored ones.\<close>

definition ingested :: "'w IncEnv \<Rightarrow> IncomeStore \<times> 'w \<Rightarrow> IncomeEvent list" where
  "ingested E = (\<lambda>(s, w).
     let since = ig_now E - ig_lookback E in
     case ig_DiscoveryInstruments E since w of
       Inl _ \<Rightarrow> []
     | Inr held \<Rightarrow>
         let byKey = discovered held (ListEventsByStatus pipeline_statuses s);
             instruments = isort (\<lambda>a b. str_less (din_key a) (din_key b)) (map snd byKey) in
         if instruments = [] then []
         else case ig_FetchIncomeEvents E
                \<lparr>irq_Instruments = discoveryRequestInstruments (map snd byKey), irq_Since = since,
                 irq_Until = ig_now E + ninety_days\<rparr> of
           Inl _ \<Rightarrow> []
         | Inr raw \<Rightarrow>
             map (\<lambda>e. normalize (ig_lib E) (ig_sha E) (ig_format E) (ig_providerName E)
                        (resolveInstrument byKey instruments e) (ig_now E)) raw)"

definition same_terms :: "string \<Rightarrow> 'w IncEnv \<Rightarrow> IncomeStore \<times> 'w \<Rightarrow> bool" where
  "same_terms e E x =
     list_all (\<lambda>ev. iev_ID ev = e \<longrightarrow> Some (iev_RawFingerprint ev) = map_option iev_RawFingerprint (GetEvent e (fst x)))
       (ingested E x)"

fun terms_kept :: "string \<Rightarrow> 'w inc_op list \<Rightarrow> IncomeStore \<times> 'w \<times> credit list \<Rightarrow> bool" where
  "terms_kept e [] x = True"
| "terms_kept e (op # ops) x =
     (list_all (\<lambda>E. same_terms e (watched E) x) (inc_ingests op) \<and> terms_kept e ops (inc_step op x))"

lemma Ingest_folds: "fst (snd (Ingest E (s, w))) = foldl (\<lambda>s ev. snd (UpsertEvent (ig_now E) ev s)) s (ingested E (s, w))"
  by (simp add: Ingest_def ingested_def Let_def foldl_map split: sum.split)

lemma Upsert_same:
  assumes "iev_ID ev = e \<longrightarrow> Some (iev_RawFingerprint ev) = map_option iev_RawFingerprint (GetEvent e s)"
  shows "GetEvent e (snd (UpsertEvent now ev s)) = GetEvent e s"
proof (cases "iev_ID ev = e")
  case True
  then obtain old where "map_of (is_events s) e = Some old" "iev_RawFingerprint old = iev_RawFingerprint ev"
    using assms by (cases "map_of (is_events s) e") (simp_all add: GetEvent_def)
  with True show ?thesis by (simp add: UpsertEvent_def)
next
  case False
  then show ?thesis by (simp add: UpsertEvent_def GetEvent_def update_conv' split: option.split)
qed

lemma Ingest_same:
  assumes "same_terms e E (s, w)"
  shows "GetEvent e (fst (snd (Ingest E (s, w)))) = GetEvent e s"
proof -
  have "GetEvent e (foldl (\<lambda>s ev. snd (UpsertEvent now ev s)) s evs) = GetEvent e s"
    if "list_all (\<lambda>ev. iev_ID ev = e \<longrightarrow> Some (iev_RawFingerprint ev) = map_option iev_RawFingerprint (GetEvent e s)) evs"
    for evs now
    using that by (induction evs arbitrary: s) (simp_all add: Upsert_same)
  with assms show ?thesis by (simp add: Ingest_folds same_terms_def)
qed

lemma pass_leaves_settled:
  assumes "rows_filed s" "settled_event s e" "Process (watched E) (s, w, ds) = (r, s', w', ds')"
  shows "settled_event s' e" "c \<in> set ds' \<Longrightarrow> c \<notin> set ds \<Longrightarrow> aie_IncomeEventID (snd (snd (snd c))) \<noteq> e"
proof -
  note loop = assms(3) [unfolded Process_def fst_conv]
  note other = settled_not_listed [OF assms(1,2)]
  show "settled_event s' e"
    using status_process_loop_other [of "ListEventsByStatus pipeline_statuses s" e "watched E" "(s, w, ds)"] other assms(2)
    by (simp add: loop settled_event_def)
  show "aie_IncomeEventID (snd (snd (snd c))) \<noteq> e" if "c \<in> set ds'" "c \<notin> set ds"
    using due_process_loop [OF loop that] other entitled_event by metis
qed

lemma step_leaves_settled:
  assumes "rows_filed s" "settled_event s e" "inc_step op (s, w, ds) = (s', w', ds')"
    "list_all (\<lambda>E. same_terms e (watched E) (s, w, ds)) (inc_ingests op)"
  shows "settled_event s' e \<and> (c \<in> set ds' \<longrightarrow> c \<in> set ds \<or> aie_IncomeEventID (snd (snd (snd c))) \<noteq> e)"
proof (cases op)
  case (IncRun E)
  obtain r s1 where 1: "Ingest (watched E) (s, w, ds) = (r, s1, w, ds)" using Ingest_result [of E s w ds] by blast
  have "GetEvent e s1 = GetEvent e s" using Ingest_same [of e "watched E" s "(w, ds)"] assms(4) IncRun by (simp add: 1)
  then have s1: "settled_event s1 e" using assms(2) by (simp add: settled_event_def event_status_def)
  have filed: "rows_filed s1" using filed_Ingest [of "(s, w, ds)" "watched E"] assms(1) by (simp add: 1)
  obtain r2 s2 w2 d2 where 2: "Process (watched E) (s1, w, ds) = (r2, s2, w2, d2)" by (metis prod_cases4)
  note pass = pass_leaves_settled [OF filed s1 2]
  show ?thesis
  proof (cases r)
    case (Inl x)
    then show ?thesis using s1 assms(3) IncRun by (simp add: RunOnce_def 1)
  next
    case (Inr x)
    then have "s' = s2" "ds' = d2" using assms(3) IncRun by (simp_all add: RunOnce_def 1 2)
    with pass show ?thesis by blast
  qed
next
  case (IncIngest E)
  obtain r s1 where 1: "Ingest (watched E) (s, w, ds) = (r, s1, w, ds)" using Ingest_result [of E s w ds] by blast
  have "GetEvent e s1 = GetEvent e s" using Ingest_same [of e "watched E" s "(w, ds)"] assms(4) IncIngest by (simp add: 1)
  then show ?thesis using assms(2,3) IncIngest 1 by (simp add: settled_event_def event_status_def)
next
  case (IncProcess E)
  obtain r s2 w2 d2 where 2: "Process (watched E) (s, w, ds) = (r, s2, w2, d2)" by (metis prod_cases4)
  then have "s' = s2" "ds' = d2" using assms(3) IncProcess by simp_all
  with pass_leaves_settled [OF assms(1,2) 2] show ?thesis by blast
next
  case (IncCorrect E u k)
  obtain r s2 w2 d2 where h: "HandleCorrection (watched E) u k (s, w, ds) = (r, s2, w2, d2)" by (metis prod_cases4)
  have s': "s' = s2" "ds' = ds" using assms(3) IncCorrect HandleCorrection_log [OF h] by (simp_all add: h)
  from h have "settled_event s2 e"
  proof (cases rule: HandleCorrection_cases)
    case (settled ev a actualNet reason delta)
    have "event_status (CompleteApplication (ig_now E) (corrected_row a k actualNet) s) e = event_status s e"
      by (rule event_status_events) simp
    with assms(2) show ?thesis by (simp add: settled(9) settled_event_def event_status_Set)
  qed (use assms(2) in simp)
  with s' show ?thesis by simp
next
  case (IncDelete u)
  have "event_status (inc_OnAccountDeleted u s) e = event_status s e" by (rule event_status_events) simp
  with IncDelete assms(2,3) show ?thesis by (auto simp: settled_event_def)
qed

lemma run_leaves_settled:
  "rows_filed s \<Longrightarrow> settled_event s e \<Longrightarrow> inc_run ops (s, w, ds) = (s', w', ds') \<Longrightarrow> terms_kept e ops (s, w, ds) \<Longrightarrow>
   c \<in> set ds' \<Longrightarrow> c \<in> set ds \<or> aie_IncomeEventID (snd (snd (snd c))) \<noteq> e"
proof (induction ops arbitrary: s w ds)
  case (Cons op ops)
  obtain s1 w1 d1 where 1: "inc_step op (s, w, ds) = (s1, w1, d1)" by (metis prod_cases3)
  have step: "settled_event s1 e \<and> (c \<in> set d1 \<longrightarrow> c \<in> set ds \<or> aie_IncomeEventID (snd (snd (snd c))) \<noteq> e)"
    by (rule step_leaves_settled [OF Cons.prems(1,2) 1]) (use Cons.prems(4) in simp)
  have "rows_filed s1" using filed_inc_step [of "(s, w, ds)" op] Cons.prems(1) by (simp add: 1)
  from Cons.IH [OF this conjunct1 [OF step]] Cons.prems(3-5) step show ?case by (auto simp: inc_run_def 1)
qed (simp add: inc_run_def)

lemma credited_count: "apply_holders (watched E) ev hs (s, w, ds) = (n, s', w', ds') \<Longrightarrow> ds' \<noteq> ds \<Longrightarrow> 0 < n"
proof (induction hs arbitrary: s w ds n s' w' ds')
  case (Cons h hs)
  obtain b s1 w1 d1 where 1: "applyToHolder (watched E) ev h (s, w, ds) = (b, s1, w1, d1)" by (metis prod_cases4)
  obtain m s2 w2 d2 where 2: "apply_holders (watched E) ev hs (s1, w1, d1) = (m, s2, w2, d2)" by (metis prod_cases4)
  have "b \<or> d1 = ds" using 1 by (cases rule: applyToHolder_cases) auto
  with Cons.IH [OF 2] Cons.prems 1 2 show ?case by (auto split: if_splits)
qed simp

text \<open>
  C30. Once the treatment of an event credited one holder, nothing the pipeline does later applies it to anybody, as long
  as no ingestion brings other terms for it: through any further ingestions that repeat its terms, passes, corrections and
  account deletions, a holder whose application failed in the same pass, and was given a time for its retry, is not retried.
\<close>

theorem failed_holder_is_dropped:
  assumes "rows_filed s" "GetEvent (iev_ID ev) s \<noteq> None"
    "processEvent (watched E) ev (s, w, ds) = (s1, w1, d1)" "d1 \<noteq> ds"
    "inc_run ops (s1, w1, d1) = (s', w', ds')" "terms_kept (iev_ID ev) ops (s1, w1, d1)"
  shows "\<forall>c \<in> set ds'. aie_IncomeEventID (snd (snd (snd c))) = iev_ID ev \<longrightarrow> c \<in> set d1"
proof -
  have filed: "rows_filed s1" using filed_processEvent [of "(s, w, ds)" "watched E" ev] assms(1,3) by simp
  have "event_status s1 (iev_ID ev) = Some IncApplied"
  proof (cases "ig_HistoricalHolders E (irf_InstrumentID (iev_Instrument ev)) (irf_Symbol (iev_Instrument ev)) w")
    case (Inl e)
    then show ?thesis using assms(3,4) by (auto simp: processEvent_def split: if_splits)
  next
    case (Inr hs)
    obtain n s2 w2 d2 where 1: "apply_holders (watched E) ev hs (s, w, ds) = (n, s2, w2, d2)" by (metis prod_cases4)
    have "GetEvent (iev_ID ev) s2 \<noteq> None"
      using events_kept_apply_holders [of "watched E" ev hs "(s, w, ds)"] assms(2) by (simp add: 1 GetEvent_def)
    moreover have "s1 = SetEventStatus (ig_now E) (iev_ID ev) (if n > 0 then IncApplied else IncProcessedNoEntitlement) s2"
      "d1 = d2"
      using assms(3,4) by (auto simp: processEvent_def Inr 1 split: if_splits)
    ultimately show ?thesis using credited_count [OF 1] assms(4) by (simp add: event_status_Set)
  qed
  then have "settled_event s1 (iev_ID ev)" by (simp add: settled_event_def)
  from run_leaves_settled [OF filed this assms(5,6)] show ?thesis by blast
qed

section \<open>A demonstration\<close>

text \<open>
  One dividend of half a dollar a share, paid at time 50, on a share that ada (ten shares) and bob (four shares) hold;
  the portfolio of bob answers an error.
\<close>

definition demo_ref :: InstrumentReference where
  "demo_ref = zero_InstrumentReference\<lparr>irf_Symbol := ''ACME''\<rparr>"

definition demo_dividend :: ProviderIncomeEvent where
  "demo_dividend =
     \<lparr>pev_ProviderEventID = ''d1'', pev_Type = TypeCashDividend, pev_Instrument = demo_ref, pev_AmountPerUnit = 1 / 2,
      pev_Currency = ''USD'', pev_Components = [], pev_DeclarationAt = None, pev_ExDate = Some 20, pev_RecordDate = None,
      pev_PaymentDate = 50, pev_Frequency = [], pev_TaxClassification = [], pev_Cancelled = False, pev_SourceURL = [],
      pev_RetrievedAt = 1\<rparr>"

definition demo_preferences :: Preferences where
  "demo_preferences =
     \<lparr>pf_ReinvestByDefault = False, pf_ReinvestSymbols = (\<lambda>_. False), pf_CashSymbols = (\<lambda>_. False),
      pf_Withholding = \<lparr>wh_DefaultRate = 0, wh_TypeRates = Map.empty, wh_SymbolRates = Map.empty\<rparr>,
      pf_UseEstimatedGross = True\<rparr>"

definition demo_holder :: "string \<Rightarrow> Holder" where
  "demo_holder u = \<lparr>hld_UserID = u, hld_PortfolioID = ''p-'' @ u, hld_AssetType = ''stock'', hld_AcquiredAt = 5\<rparr>"

definition demo_payer :: "time \<Rightarrow> nat IncEnv" where
  "demo_payer now =
     \<lparr>ig_lib = std_declib, ig_sha = (\<lambda>x. x), ig_format = (\<lambda>_. ''t''), ig_providerName = ''manual_dev'',
      ig_FetchIncomeEvents = (\<lambda>_. Inr [demo_dividend]),
      ig_DiscoveryInstruments =
        (\<lambda>_ _. Inr [\<lparr>din_InstrumentID = [], din_Symbol = ''ACME'', din_AssetType = ''stock''\<rparr>]),
      ig_HistoricalHolders = (\<lambda>_ _ _. Inr [demo_holder ''ada'', demo_holder ''bob'']),
      ig_EligibleQuantity = (\<lambda>u _ _ _ _. Inr (if u = ''ada'' then 10 else 4)),
      ig_ApplyIncomeEvent = (\<lambda>u _ _ w. (if u = ''ada'' then Inr () else Inl ''busy'', w)),
      ig_ApplyCorrection = (\<lambda>_ _ _ w. (Inr (), w)),
      ig_prefs = demo_preferences, ig_now = now, ig_lookback = 100, ig_retryIn = 10, ig_contextErr = (\<lambda>_. None)\<rparr>"

definition demo_ops :: "nat inc_op list" where
  "demo_ops = [IncRun (demo_payer 40), IncRun (demo_payer 60), IncRun (demo_payer 90), IncDelete ''bob'']"

theorem credited_at_most_once_witness:
  "length (credits_of ''ada'' ''manual_dev:d1'' ''p-ada'' (snd (snd (inc_run demo_ops (NewIncomeStore, 0, []))))) = 1"
proof (rule le_antisym)
  let ?x = "inc_run demo_ops (NewIncomeStore, 0, [])"
  have none: "\<not> list_ex (deletes ''ada'') demo_ops" by (simp add: demo_ops_def)
  show "length (credits_of ''ada'' ''manual_dev:d1'' ''p-ada'' (snd (snd ?x))) \<le> 1"
    by (rule credited_at_most_once [OF none, of _ "fst ?x" "fst (snd ?x)"]) simp
  show "1 \<le> length (credits_of ''ada'' ''manual_dev:d1'' ''p-ada'' (snd (snd ?x)))" by code_simp
qed

theorem credits_only_when_due_witness:
  "\<exists>op \<in> set demo_ops. \<exists>E \<in> set (inc_env op). \<exists>ev.
     is_due E ev \<and> entitled_credit E ev (hd (snd (snd (inc_run demo_ops (NewIncomeStore, 0, [])))))"
proof -
  let ?x = "inc_run demo_ops (NewIncomeStore, 0, [])"
  have "length (snd (snd ?x)) = 1" by code_simp
  then have "hd (snd (snd ?x)) \<in> set (snd (snd ?x))" by (cases "snd (snd ?x)") auto
  from credits_only_when_due [OF _ this, of demo_ops 0 "fst ?x" "fst (snd ?x)"]
  obtain before op after E ev where "demo_ops = before @ op # after" "E \<in> set (inc_env op)" "is_due E ev"
    "entitled_credit E ev (hd (snd (snd ?x)))"
    by (metis prod.collapse)
  then show ?thesis by (metis in_set_conv_decomp)
qed

definition demo_stored :: IncomeEvent where
  "demo_stored = normalize std_declib (\<lambda>x. x) (\<lambda>_. ''t'') ''manual_dev'' demo_dividend 40"

definition demo_pass :: "IncomeStore \<times> nat \<times> credit list" where
  "demo_pass =
     processEvent (watched (demo_payer 60)) demo_stored
       (\<lparr>is_events = [(''manual_dev:d1'', demo_stored)], is_apps = []\<rparr>, 0, [])"

definition demo_later :: "nat inc_op list" where
  "demo_later = [IncRun (demo_payer 90), IncProcess (demo_payer 200)]"

theorem failed_holder_is_dropped_witness:
  "list_all (\<lambda>c. c \<in> set (snd (snd demo_pass))) (snd (snd (inc_run demo_later demo_pass)))
   \<and> map_option (\<lambda>a. (iap_Status a, iap_NextRetryAt a))
       (GetApplication ''manual_dev:d1'' ''p-bob'' (fst (inc_run demo_later demo_pass)))
     = Some (AppFailed, Some 70)"
proof -
  let ?y = "inc_run demo_later demo_pass"
  have d: "demo_pass = processEvent (watched (demo_payer 60)) demo_stored
       (\<lparr>is_events = [(''manual_dev:d1'', demo_stored)], is_apps = []\<rparr>, 0, [])"
    by (rule demo_pass_def)
  have iid: "iev_ID demo_stored = ''manual_dev:d1''" by code_simp
  have "length (snd (snd demo_pass)) = 1" by code_simp
  then have some: "snd (snd demo_pass) \<noteq> []" by auto
  have kept: "terms_kept ''manual_dev:d1'' demo_later demo_pass" by code_simp
  have "\<forall>c \<in> set (snd (snd ?y)). aie_IncomeEventID (snd (snd (snd c))) = iev_ID demo_stored \<longrightarrow> c \<in> set (snd (snd demo_pass))"
  proof (rule failed_holder_is_dropped [of _ demo_stored "demo_payer 60" "0" "[]" "fst demo_pass" "fst (snd demo_pass)"])
    show "rows_filed \<lparr>is_events = [(''manual_dev:d1'', demo_stored)], is_apps = []\<rparr>"
      by (simp add: rows_filed_def iid)
    show "inc_run demo_later (fst demo_pass, fst (snd demo_pass), snd (snd demo_pass))
        = (fst ?y, fst (snd ?y), snd (snd ?y))"
      by (simp add: prod.collapse)
  qed (simp_all add: some d [symmetric] GetEvent_def iid kept)
  moreover have "list_all (\<lambda>c. aie_IncomeEventID (snd (snd (snd c))) = ''manual_dev:d1'') (snd (snd ?y))" by code_simp
  moreover have "map_option (\<lambda>a. (iap_Status a, iap_NextRetryAt a)) (GetApplication ''manual_dev:d1'' ''p-bob'' (fst ?y))
      = Some (AppFailed, Some 70)"
    by code_simp
  ultimately show ?thesis by (auto simp: list_all_iff iid)
qed

end
