(* ===== verification/IncomeAmounts.thy ===== *)
theory IncomeAmounts
  imports IncomePipeline
begin

text \<open>
  The amounts of the income pipeline: what an application records reconciles and is what the portfolio's plan moves, a
  correction posts exactly the difference and settles the application, and entitlement is fixed at its date.
\<close>

section \<open>One component\<close>

lemma buildApplied_fee [simp]: "aic_Fee (buildApplied E ev part q r) = 0"
  by (simp add: buildApplied_def Let_def split: sum.splits)

lemma buildApplied_price [simp]: "aic_ReinvestPrice (buildApplied E ev part q r) = 0"
  by (simp add: buildApplied_def Let_def split: sum.splits)

definition part_type :: "IncomeEvent \<Rightarrow> ProviderComponent \<Rightarrow> string" where
  "part_type ev part = (if icp_Type part = [] then iev_Type ev else icp_Type part)"

lemma buildApplied_class [simp]: "aic_Classification (buildApplied E ev part q r) = Classify (part_type ev part)"
  by (simp add: buildApplied_def part_type_def Let_def split: sum.splits)

lemma buildApplied_reinvest: "aic_Reinvest (buildApplied E ev part q r) \<Longrightarrow> r"
  by (auto simp: buildApplied_def Let_def split: sum.splits if_splits)

lemma buildApplied_stock [simp]:
  "Classify (part_type ev part) = ClassStockDividend \<Longrightarrow> aic_Gross (buildApplied E ev part q r) = 0"
  "Classify (part_type ev part) = ClassStockDividend \<Longrightarrow> aic_Withholding (buildApplied E ev part q r) = 0"
  by (auto simp: buildApplied_def part_type_def Let_def)

definition cash_part :: "IncomeEvent \<Rightarrow> ProviderComponent \<Rightarrow> bool" where
  "cash_part ev part = (Classify (part_type ev part) \<noteq> ClassStockDividend)"

context decimal_lib
begin

lemma rate_cap: "mustNew L ''0.999999'' = 999999 / 1000000"
proof -
  have p: "plain_text ''0.999999''" "plain_value ''0.999999'' = Some (999999 / 1000000)" by code_simp+
  have "newDecimal L ''0.999999'' = from_option Malformed (d_newFromString L ''0.999999'')"
    unfolding newDecimal_def parseExact_def by code_simp
  then show ?thesis by (simp add: mustNew_def newFromString [OF p(1)] p(2))
qed

lemma Rate_range: "0 \<le> Withholding_Rate L p t sm" "Withholding_Rate L p t sm < 1"
  by (auto simp: Withholding_Rate_def Let_def rate_cap money_defs sign_simps cmp not_less not_le split: if_splits)

lemma buildApplied_cash:
  assumes "ig_lib E = L" "CurrencyScale (iev_Currency ev) = Inr s" "cash_part ev part"
  shows "aic_Gross (buildApplied E ev part q r) = bank_places s (q * icp_AmountPerUnit part)"
    "aic_Withholding (buildApplied E ev part q r) =
       bank_places s (bank_places s (q * icp_AmountPerUnit part) *
         Withholding_Rate L (pf_Withholding (ig_prefs E)) (part_type ev part) (irf_Symbol (iev_Instrument ev)))"
  using assms Rate_range [of "pf_Withholding (ig_prefs E)" "part_type ev part" "irf_Symbol (iev_Instrument ev)"]
  by (auto simp: buildApplied_def part_type_def cash_part_def Let_def QuantizeCash_def quantize_def MulPrice_def
      Amount_MulRatio_def Decimal_mul_def Decimal_Sign_def sign split: if_splits)

lemma buildApplied_unknown:
  assumes "ig_lib E = L" "CurrencyScale (iev_Currency ev) = Inl e"
  shows "aic_Gross (buildApplied E ev part q r) = 0" "aic_Withholding (buildApplied E ev part q r) = 0"
  using assms by (auto simp: buildApplied_def Let_def QuantizeCash_def)

lemma buildApplied_bounds:
  assumes "ig_lib E = L" "0 \<le> q" "0 \<le> icp_AmountPerUnit part"
  shows "0 \<le> aic_Withholding (buildApplied E ev part q r)"
    "aic_Withholding (buildApplied E ev part q r) \<le> aic_Gross (buildApplied E ev part q r)"
proof -
  let ?c = "buildApplied E ev part q r"
  have "0 \<le> aic_Withholding ?c \<and> aic_Withholding ?c \<le> aic_Gross ?c"
  proof (cases "cash_part ev part")
    case False
    then show ?thesis by (simp add: cash_part_def)
  next
    case True
    show ?thesis
    proof (cases "CurrencyScale (iev_Currency ev)")
      case (Inl e)
      then show ?thesis by (simp add: buildApplied_unknown [OF assms(1)])
    next
      case (Inr s)
      let ?g = "bank_places s (q * icp_AmountPerUnit part)"
      let ?r = "Withholding_Rate L (pf_Withholding (ig_prefs E)) (part_type ev part) (irf_Symbol (iev_Instrument ev))"
      have g: "0 \<le> ?g" using bank_places_mono [of 0 "q * icp_AmountPerUnit part" s] assms(2,3) by simp
      have "0 \<le> ?g * ?r" using g Rate_range(1) by simp
      then have "0 \<le> bank_places s (?g * ?r)" using bank_places_mono [of 0 "?g * ?r" s] by simp
      moreover have "?g * ?r \<le> ?g" using g Rate_range(2) by (simp add: mult_left_le less_imp_le)
      then have "bank_places s (?g * ?r) \<le> ?g" using bank_places_mono [of "?g * ?r" ?g s] by simp
      ultimately show ?thesis by (simp add: buildApplied_cash [OF assms(1) Inr True])
    qed
  qed
  then show "0 \<le> aic_Withholding ?c" "aic_Withholding ?c \<le> aic_Gross ?c" by simp_all
qed

section \<open>The totals\<close>

lemma component_net_eq [simp]: "component_netAmount L c = aic_Gross c - aic_Withholding c - aic_Fee c"
  by (simp add: component_netAmount_def money_defs)

lemma income_sum_eq:
  "it_gross (income_sum L cs) = sum_list (map aic_Gross cs)"
  "it_withholding (income_sum L cs) = sum_list (map aic_Withholding cs)"
  "it_fee (income_sum L cs) = sum_list (map aic_Fee cs)"
  "it_net (income_sum L cs) = sum_list (map (component_netAmount L) cs)"
  "list_all (\<lambda>c. aic_ReinvestPrice c = 0) cs \<Longrightarrow> it_reinvestQty (income_sum L cs) = 0"
proof -
  have *: "it_gross (foldl (add_component L) t cs) = it_gross t + sum_list (map aic_Gross cs) \<and>
     it_withholding (foldl (add_component L) t cs) = it_withholding t + sum_list (map aic_Withholding cs) \<and>
     it_fee (foldl (add_component L) t cs) = it_fee t + sum_list (map aic_Fee cs) \<and>
     it_net (foldl (add_component L) t cs) = it_net t + sum_list (map (component_netAmount L) cs) \<and>
     (list_all (\<lambda>c. aic_ReinvestPrice c = 0) cs \<longrightarrow> it_reinvestQty (foldl (add_component L) t cs) = it_reinvestQty t)"
    for t
    by (induction cs arbitrary: t) (auto simp: add_component_def money_defs sign)
  note z = *[of "\<lparr>it_gross = ZeroAmount L, it_withholding = ZeroAmount L, it_fee = ZeroAmount L, it_net = ZeroAmount L,
        it_reinvestQty = ZeroQuantity L, it_estimated = False\<rparr>", folded income_sum_def]
  show "it_gross (income_sum L cs) = sum_list (map aic_Gross cs)"
    "it_withholding (income_sum L cs) = sum_list (map aic_Withholding cs)"
    "it_fee (income_sum L cs) = sum_list (map aic_Fee cs)"
    "it_net (income_sum L cs) = sum_list (map (component_netAmount L) cs)"
    using z by (simp_all add: ZeroAmount_def)
  show "list_all (\<lambda>c. aic_ReinvestPrice c = 0) cs \<Longrightarrow> it_reinvestQty (income_sum L cs) = 0"
    using z by (simp add: ZeroQuantity_def)
qed

end

lemma applied_row_amounts:
  fixes E :: "'w IncEnv" and ev h q
  assumes "decimal_lib (ig_lib E)"
  defines "cs \<equiv> aie_Components (appliedEvent E ev h q)"
  shows "iap_GrossAmount (applied_row E ev h q) = sum_list (map aic_Gross cs)"
    "iap_WithholdingAmount (applied_row E ev h q) = sum_list (map aic_Withholding cs)"
    "iap_FeeAmount (applied_row E ev h q) = 0"
    "iap_NetAmount (applied_row E ev h q) = sum_list (map (\<lambda>c. aic_Gross c - aic_Withholding c) cs)"
    "iap_ReinvestmentQuantity (applied_row E ev h q) = 0"
proof -
  note sums = decimal_lib.income_sum_eq [OF assms(1)]
  have fee: "aic_Fee c = 0" "aic_ReinvestPrice c = 0" if "c \<in> set cs" for c
    using that by (auto simp: cs_def appliedEvent_def)
  have net: "map (component_netAmount (ig_lib E)) cs = map (\<lambda>c. aic_Gross c - aic_Withholding c) cs"
    using fee by (simp add: decimal_lib.component_net_eq [OF assms(1)])
  have f0: "sum_list (map aic_Fee cs) = 0"
  proof -
    have "map aic_Fee cs = map (\<lambda>_. 0) cs" using fee by simp
    then show ?thesis by (simp only: sum_list_0)
  qed
  have r0: "it_reinvestQty (income_sum (ig_lib E) cs) = 0"
    by (rule sums(5)) (use fee in \<open>simp add: list_all_iff\<close>)
  show "iap_GrossAmount (applied_row E ev h q) = sum_list (map aic_Gross cs)"
    "iap_WithholdingAmount (applied_row E ev h q) = sum_list (map aic_Withholding cs)"
    by (simp_all add: applied_row_def Let_def sums(1,2) cs_def)
  show "iap_FeeAmount (applied_row E ev h q) = 0"
    using f0 by (simp add: applied_row_def Let_def sums(3) cs_def)
  show "iap_NetAmount (applied_row E ev h q) = sum_list (map (\<lambda>c. aic_Gross c - aic_Withholding c) cs)"
    unfolding net [symmetric] by (simp add: applied_row_def Let_def sums(4) cs_def)
  show "iap_ReinvestmentQuantity (applied_row E ev h q) = 0"
    using r0 by (simp add: applied_row_def Let_def cs_def QuantizeQuantity_def quantize_def decimal_lib.roundBank [OF assms(1)])
qed

lemma sum_list_near:
  "(\<And>x. x \<in> set xs \<Longrightarrow> \<bar>f x - g x\<bar> \<le> (e::rat)) \<Longrightarrow> \<bar>sum_list (map f xs) - sum_list (map g xs)\<bar> \<le> of_nat (length xs) * e"
proof (induction xs)
  case (Cons x xs)
  then have "\<bar>f x - g x\<bar> \<le> e" "\<bar>sum_list (map f xs) - sum_list (map g xs)\<bar> \<le> of_nat (length xs) * e" by auto
  then show ?case by (simp add: algebra_simps abs_le_iff)
qed simp

lemma places_sum: "(\<And>x. x \<in> set xs \<Longrightarrow> has_places n (f x)) \<Longrightarrow> has_places n (sum_list (map f xs))"
  by (induction xs) (auto intro: has_places_add)

text \<open>
  C33. The amounts recorded for an application of a quantity that is not negative reconcile: net is gross less withholding,
  and no fee and no reinvested quantity is ever recorded. In a currency of known scale the net has no more places than the
  currency, and the gross is the quantity times the cash parts of the distribution up to half a minor unit for each part.
  When no part of the distribution is negative, the withholding lies between nothing and the gross; a negative part, which
  the quality assessment admits, can make it negative.
\<close>

theorem income_amounts_reconcile:
  assumes "decimal_lib (ig_lib E)" "0 \<le> q"
  shows "iap_NetAmount (applied_row E ev h q) =
           iap_GrossAmount (applied_row E ev h q) - iap_WithholdingAmount (applied_row E ev h q)
       \<and> iap_FeeAmount (applied_row E ev h q) = 0 \<and> iap_ReinvestmentQuantity (applied_row E ev h q) = 0
       \<and> (list_all (\<lambda>part. 0 \<le> icp_AmountPerUnit part) (components ev) \<longrightarrow>
            0 \<le> iap_WithholdingAmount (applied_row E ev h q)
          \<and> iap_WithholdingAmount (applied_row E ev h q) \<le> iap_GrossAmount (applied_row E ev h q))
       \<and> (\<forall>s. CurrencyScale (iev_Currency ev) = Inr s \<longrightarrow>
            has_places s (iap_NetAmount (applied_row E ev h q))
          \<and> \<bar>iap_GrossAmount (applied_row E ev h q)
              - q * sum_list (map icp_AmountPerUnit (filter (cash_part ev) (components ev)))\<bar>
            \<le> of_nat (length (components ev)) * (1 / (2 * 10 ^ s)))"
proof -
  let ?b = "\<lambda>part. buildApplied E ev part q (reinvest (ig_prefs E) (irf_Symbol (iev_Instrument ev)))"
  let ?ps = "components ev"
  have cs: "aie_Components (appliedEvent E ev h q) = map ?b ?ps" by (simp add: appliedEvent_def)
  note row = applied_row_amounts [OF assms(1), of ev h q, unfolded cs map_map comp_def]
  have "0 \<le> sum_list (map (\<lambda>part. aic_Withholding (?b part)) ?ps) \<and>
      sum_list (map (\<lambda>part. aic_Withholding (?b part)) ?ps) \<le> sum_list (map (\<lambda>part. aic_Gross (?b part)) ?ps)"
    if "list_all (\<lambda>part. 0 \<le> icp_AmountPerUnit part) ?ps"
  proof -
    have wh: "0 \<le> aic_Withholding (?b part)" "aic_Withholding (?b part) \<le> aic_Gross (?b part)" if "part \<in> set ?ps" for part
      using decimal_lib.buildApplied_bounds [OF assms(1) refl assms(2)] \<open>list_all _ ?ps\<close> that
      unfolding list_all_iff by blast+
    show ?thesis by (intro conjI sum_list_nonneg sum_list_mono) (use wh in auto)
  qed
  moreover have "has_places s (sum_list (map (\<lambda>part. aic_Gross (?b part) - aic_Withholding (?b part)) ?ps)) \<and>
      \<bar>sum_list (map (\<lambda>part. aic_Gross (?b part)) ?ps) - q * sum_list (map icp_AmountPerUnit (filter (cash_part ev) ?ps))\<bar>
        \<le> of_nat (length ?ps) * (1 / (2 * 10 ^ s))" if scale: "CurrencyScale (iev_Currency ev) = Inr s" for s
  proof -
    note cash = decimal_lib.buildApplied_cash [OF assms(1) refl scale]
    have places: "has_places s (aic_Gross (?b part) - aic_Withholding (?b part))" for part
      by (cases "cash_part ev part") (simp_all add: cash has_places_diff cash_part_def)
    have near: "\<bar>aic_Gross (?b part) - (if cash_part ev part then q * icp_AmountPerUnit part else 0)\<bar> \<le> 1 / (2 * 10 ^ s)"
      for part
      using bank_places_near [of s "q * icp_AmountPerUnit part"]
      by (cases "cash_part ev part") (simp_all add: cash cash_part_def)
    have total: "sum_list (map (\<lambda>part. if cash_part ev part then q * icp_AmountPerUnit part else 0) ps) =
        q * sum_list (map icp_AmountPerUnit (filter (cash_part ev) ps))" for ps
      by (induction ps) (simp_all add: algebra_simps)
    have "has_places s (sum_list (map (\<lambda>part. aic_Gross (?b part) - aic_Withholding (?b part)) ?ps))"
      by (rule places_sum) (rule places)
    with sum_list_near [of ?ps "\<lambda>part. aic_Gross (?b part)" _ "1 / (2 * 10 ^ s)", OF near] show ?thesis
      unfolding total by blast
  qed
  ultimately show ?thesis unfolding row by (simp add: sum_list_subtractf)
qed

section \<open>What the portfolio moves\<close>

lemma gateway_fields [simp]:
  "ev_Components (gateway_event x) = map gateway_component (aie_Components x)" "ev_Reinvest (gateway_event x) = False"
  "ev_Currency (gateway_event x) = aie_Currency x" "ic_Currency (gateway_component c) = []"
  "ic_Amount (gateway_component c) = aic_Gross c" "ic_Withholding (gateway_component c) = aic_Withholding c"
  "ic_Fee (gateway_component c) = aic_Fee c" "ic_Reinvest (gateway_component c) = aic_Reinvest c"
  by (simp_all add: gateway_event_def gateway_component_def Let_def)

lemma incomeSubtype_plain [simp]:
  "incomeSubtype t \<noteq> IncomeStockDividendSub" "incomeSubtype t \<noteq> IncomeReturnOfCapitalSub" "incomeSubtype t \<noteq> IncomeReinvestedDiv"
  by (simp_all add: incomeSubtype_def)

lemma credit_of_component:
  assumes "decimal_lib (ig_lib E)" "\<not> r" "aie_Currency x = iev_Currency ev"
  shows "component_credit (gateway_event x) (iev_Currency ev) (gateway_component (buildApplied E ev part q r)) =
    aic_Gross (buildApplied E ev part q r) - aic_Withholding (buildApplied E ev part q r)"
proof -
  let ?c = "buildApplied E ev part q r"
  have noreinvest: "\<not> aic_Reinvest ?c" using buildApplied_reinvest assms(2) by blast
  have net: "component_net (gateway_component ?c) (iev_Currency ev) = aic_Gross ?c - aic_Withholding ?c"
  proof (cases "CurrencyScale (iev_Currency ev)")
    case (Inl e)
    then show ?thesis
      by (simp add: component_net_def decimal_lib.buildApplied_unknown [OF assms(1) refl])
  next
    case (Inr s)
    have "has_places s (aic_Gross ?c - aic_Withholding ?c)"
      by (cases "cash_part ev part")
        (simp_all add: decimal_lib.buildApplied_cash [OF assms(1) refl Inr] has_places_diff cash_part_def)
    then show ?thesis using Inr by (simp add: component_net_def bank_places_exact)
  qed
  show ?thesis
  proof (cases "Classify (part_type ev part)")
    case ClassStockDividend
    then have "ic_Subtype (gateway_component ?c) = IncomeStockDividendSub" by (simp add: gateway_component_def Let_def)
    then show ?thesis using ClassStockDividend by (simp add: component_credit_def)
  qed (use net noreinvest assms(3) in \<open>simp_all add: component_credit_def gateway_component_def Let_def\<close>)
qed

text \<open>
  C31. When income is held as cash, the portfolio's plan for the instruction of an event, if it succeeds, raises the
  balance in the event's currency by exactly the net amount that the application records.
\<close>

theorem recorded_net_is_credited:
  assumes "decimal_lib (ig_lib E)" "planIncomeEvent (ig_lib E) uuid req pf ps cash val = Inr p"
    and "mr_IncomeEvent req = gateway_event (appliedEvent E ev h q)"
    and "\<not> reinvest (ig_prefs E) (irf_Symbol (iev_Instrument ev))"
  shows "amount_in (mp_newCash p) (iev_Currency ev) =
    amount_in cash (iev_Currency ev) + iap_NetAmount (applied_row E ev h q)"
proof -
  from assms(2) obtain fallback s where loop:
    "event_loop (ig_lib E) uuid req pf val fallback 0 (ev_Components (mr_IncomeEvent req))
       \<lparr>es_open = ps, es_cash = cash, es_touchedPositions = [], es_newPositions = [],
        es_touchedCash = [], es_activities = [], es_resultPosition = None, es_hasReturnLeg = False\<rparr> = Inr s"
    and p: "mp_newCash p = es_cash s"
    by (rule planIncomeEvent_Inr)
  have "amount_in (mp_newCash p) (iev_Currency ev) = amount_in cash (iev_Currency ev) +
      sum_list (map (component_credit (mr_IncomeEvent req) (iev_Currency ev)) (ev_Components (mr_IncomeEvent req)))"
    using decimal_lib.event_loop_step [OF assms(1) loop, of "iev_Currency ev"] by (simp add: p)
  moreover have "map (component_credit (mr_IncomeEvent req) (iev_Currency ev)) (ev_Components (mr_IncomeEvent req)) =
      map (\<lambda>c. aic_Gross c - aic_Withholding c) (aie_Components (appliedEvent E ev h q))"
    using credit_of_component [OF assms(1,4)] by (simp add: assms(3) appliedEvent_def)
  ultimately show ?thesis by (simp add: applied_row_amounts(4) [OF assms(1)])
qed

section \<open>Corrections\<close>

lemma get_after_complete:
  assumes "appKey (iap_IncomeEventID a) (iap_PortfolioID a) = appKey e p"
  shows "GetApplication e p (SetEventStatus now i st (CompleteApplication now' a s)) =
    Some (completed now' (map_of (is_apps s) (appKey e p)) a)"
  using assms
  by (simp add: GetApplication_def SetEventStatus_def CompleteApplication_def Let_def update_conv' split: option.split)

text \<open>
  C32. A correction that succeeds was of the user's own application, credited and not corrected before; it hands the
  portfolio exactly the difference between the corrected and the recorded net, rounded to the currency, or nothing when
  that is zero; it records the corrected net, marks application and event corrected, and no other correction of that
  application is accepted afterwards.
\<close>

theorem correction_settles_once:
  fixes E :: "'w IncEnv"
  assumes "decimal_lib (ig_lib E)" "rows_filed s" "HandleCorrection E u c (s, w) = (Inr (), s', w')"
  shows "\<exists>ev a net reason sc row.
      GetEvent (cor_IncomeEventID c) s = Some ev
      \<and> GetApplication (cor_IncomeEventID c) (cor_PortfolioID c) s = Some a \<and> iap_Status a = AppApplied \<and> iap_UserID a = u
      \<and> correctedNet (ig_lib E) a c = Inr (net, reason) \<and> CurrencyScale (iap_CashCurrency a) = Inr sc
      \<and> (if bank_places sc (net - iap_NetAmount a) = 0 then w' = w
         else ig_ApplyCorrection E u (cor_RequestID c)
                (adjustment ev a c (bank_places sc (net - iap_NetAmount a)) reason) w = (Inr (), w'))
      \<and> GetApplication (cor_IncomeEventID c) (cor_PortfolioID c) s' = Some row \<and> iap_Status row = AppCorrected
      \<and> iap_NetAmount row = net \<and> iap_GrossAmount row = iap_GrossAmount a
      \<and> event_status s' (cor_IncomeEventID c) = Some IncCorrected
      \<and> (\<forall>(E' :: 'w IncEnv) v c' w2. cor_IncomeEventID c' = cor_IncomeEventID c \<and> cor_PortfolioID c' = cor_PortfolioID c \<longrightarrow>
           isl (fst (HandleCorrection E' v c' (s', w2))) \<and> snd (HandleCorrection E' v c' (s', w2)) = (s', w2))"
  using assms(3)
proof (cases rule: HandleCorrection_cases)
  case (settled ev a net reason delta)
  have ids: "appKey (iap_IncomeEventID a) (iap_PortfolioID a) = appKey (cor_IncomeEventID c) (cor_PortfolioID c)"
    using filed_app [OF assms(2)] settled(2) by (simp add: GetApplication_def)
  have iid: "iev_ID ev = cor_IncomeEventID c" using filed_event [OF assms(2)] settled(1) by (simp add: GetEvent_def)
  obtain sc where sc: "CurrencyScale (iap_CashCurrency a) = Inr sc" "delta = bank_places sc (net - iap_NetAmount a)"
    using settled(6) by (auto simp: QuantizeCash_def quantize_def Amount_Sub_def Decimal_sub_def decimal_lib.sub [OF assms(1)]
        decimal_lib.roundBank [OF assms(1)])
  let ?row = "completed (ig_now E) (Some a) (corrected_row a c net)"
  have row: "GetApplication (cor_IncomeEventID c) (cor_PortfolioID c) s' = Some ?row"
    using get_after_complete [of "corrected_row a c net" "cor_IncomeEventID c" "cor_PortfolioID c"] ids settled(2,9)
    by (simp add: corrected_row_def GetApplication_def)
  have fields: "iap_Status ?row = AppCorrected" "iap_NetAmount ?row = net" "iap_GrossAmount ?row = iap_GrossAmount a"
    by (simp_all add: completed_def corrected_row_def)
  have money: "if bank_places sc (net - iap_NetAmount a) = 0 then w' = w
         else ig_ApplyCorrection E u (cor_RequestID c)
                (adjustment ev a c (bank_places sc (net - iap_NetAmount a)) reason) w = (Inr (), w')"
    using settled(7) by (simp add: sc(2) Decimal_IsZero_def decimal_lib.isZero [OF assms(1)] split: if_splits)
  have st: "event_status s' (cor_IncomeEventID c) = Some IncCorrected"
    using settled(1) by (simp add: settled(9) event_status_Set iid) (simp add: GetEvent_def)
  obtain ev' where ev': "GetEvent (cor_IncomeEventID c) s' = Some ev'"
    using st by (auto simp: event_status_def)
  have again: "isl (fst (HandleCorrection E' v c' (s', w2))) \<and> snd (HandleCorrection E' v c' (s', w2)) = (s', w2)"
    if "cor_IncomeEventID c' = cor_IncomeEventID c" "cor_PortfolioID c' = cor_PortfolioID c" for E' :: "'w IncEnv" and v c' w2
    using that row ev' fields(1) by (auto simp: HandleCorrection_def)
  show ?thesis
    by (rule exI [of _ ev], rule exI [of _ a], rule exI [of _ net], rule exI [of _ reason], rule exI [of _ sc],
        rule exI [of _ ?row]) (use settled(1-5) sc(1) money row fields st again in blast)
qed simp

section \<open>Entitlement\<close>

lemma insort_by_key: "insort_by (\<lambda>a b. f a < (f b :: int)) x ys = insort_key f x ys"
  by (induction ys) auto

lemma isort_key: "isort (\<lambda>a b. f a < (f b :: int)) xs = sort_key f xs"
  by (induction xs) (simp_all add: insort_by_key)

lemma sortActivities_eq: "sortActivitiesOldestFirst acts = sort_key act_OccurredAt acts"
  by (simp add: sortActivitiesOldestFirst_def isort_key)

lemma foldl_relevant:
  "foldl (\<lambda>q a. if P a then q else g a q) z xs = foldl (\<lambda>q a. g a q) z (filter (\<lambda>a. \<not> P a) xs)"
  by (induction xs arbitrary: z) auto

lemma eligible_fold:
  "foldl (eligible_step L away i sm asOf) z (sort_key act_OccurredAt acts) =
   foldl (\<lambda>q a. quantity_effect L a q) z
     (sort_key act_OccurredAt (filter (\<lambda>a. \<not> (away (act_ID a) \<or> \<not> eligible_match i sm a \<or> asOf < act_OccurredAt a)) acts))"
  unfolding filter_sort [symmetric] foldl_relevant [symmetric]
  by (rule foldl_cong) (simp_all add: eligible_step_def)

text \<open>The activity \<open>b\<close> is recorded as the correction of \<open>a\<close>.\<close>

definition corrects :: "Activity \<Rightarrow> Activity \<Rightarrow> bool" where
  "corrects b a = (act_ID a \<noteq> [] \<and> meta_string (act_Metadata b) ''correction_of_activity_id'' = act_ID a)"

lemma correctedAway_iff: "correctedAway acts (act_ID a) = (\<exists>b \<in> set acts. corrects b a)"
  unfolding correctedAway_def corrects_def set_map image_iff by metis

text \<open>
  C34. Entitlement is fixed at its date: whatever is recorded later and took place later, sales, write-offs and splits
  included, and corrections of what took place later, the quantity held at the date stays what it was.
\<close>

theorem entitlement_fixed_at_date:
  assumes "\<forall>b \<in> set later. asOf < act_OccurredAt b"
    and "\<forall>b \<in> set later. \<forall>a \<in> set acts. corrects b a \<longrightarrow> asOf < act_OccurredAt a"
  shows "eligibleQuantityFromActivities L (acts @ later) instrumentID symbol asOf =
    eligibleQuantityFromActivities L acts instrumentID symbol asOf"
proof -
  let ?keep = "\<lambda>away a. \<not> (away (act_ID a) \<or> \<not> eligible_match instrumentID symbol a \<or> asOf < act_OccurredAt a)"
  have "filter (?keep (correctedAway (sort_key act_OccurredAt (acts @ later)))) (acts @ later)
      = filter (?keep (correctedAway (sort_key act_OccurredAt acts))) acts"
  proof -
    have "filter (?keep (correctedAway (sort_key act_OccurredAt (acts @ later)))) later = []"
      using assms(1) by (simp add: filter_empty_conv)
    moreover have "filter (?keep (correctedAway (sort_key act_OccurredAt (acts @ later)))) acts
        = filter (?keep (correctedAway (sort_key act_OccurredAt acts))) acts"
      by (rule filter_cong) (use assms(2) in \<open>auto simp: correctedAway_iff\<close>)
    ultimately show ?thesis by simp
  qed
  then show ?thesis
    by (simp only: eligibleQuantityFromActivities_def Let_def sortActivities_eq eligible_fold)
qed

section \<open>Stock dividends of income events\<close>

definition plan_activities :: "mutationPlan \<Rightarrow> Activity list" where
  "plan_activities p = (case mp_activity p of None \<Rightarrow> [] | Some a \<Rightarrow> [a]) @ mp_extraActivities p"

definition decimal_ratio :: "Activity \<Rightarrow> bool" where
  "decimal_ratio a = (act_Type a = ActivityStockDividend \<longrightarrow> (\<exists>d. act_Metadata a ''ratio_numerator'' = Some (MDecimal d)))"

lemma income_type_plain: "sub \<noteq> IncomeStockDividendSub \<Longrightarrow> incomeActivityType sub \<noteq> ActivityStockDividend"
  by (cases sub) (simp_all add: incomeActivityType_def)

lemma cashIncome_leg:
  "\<exists>a. es_activities (event_cashIncome L uuid req pf val ev ct part net s) = es_activities s @ [a] \<and>
     act_Type a = incomeActivityType (ic_Subtype part)"
  unfolding event_cashIncome_def Let_def case_prod_beta by (rule exI, rule conjI, simp, simp)

lemma reinvest_legs:
  assumes "event_reinvest L uuid req pf val ev ct part net s = Inr s'"
  shows "\<exists>a b. es_activities s' = es_activities s @ [a, b] \<and> act_Type a = ActivityReinvestedDividend \<and> act_Type b = ActivityBuy"
  using assms by (auto simp: event_reinvest_def Let_def case_prod_beta split: if_splits)

lemma event_component_ratio:
  assumes "event_component L uuid req pf val fallback i part s = Inr s'" "list_all decimal_ratio (es_activities s)"
  shows "list_all decimal_ratio (es_activities s')"
proof (cases "ic_Subtype part = IncomeStockDividendSub")
  case True
  then show ?thesis using assms
    by (auto simp: event_component_def Let_def event_stockDividend_def decimal_ratio_def activityMeta_def event_baseMeta_def
        split: if_splits)
next
  case False
  note nostock = this
  show ?thesis
  proof (cases "ic_Subtype part = IncomeReturnOfCapitalSub")
    case True
    then show ?thesis using assms nostock
      by (auto simp: event_component_def Let_def event_returnOfCapital_def decimal_ratio_def case_prod_beta)
  next
    case False
    define s0 where "s0 = s\<lparr>es_hasReturnLeg := True\<rparr>"
    have s0: "es_activities s0 = es_activities s" by (simp add: s0_def)
    obtain net where
      s': "event_reinvest L uuid req pf val (mr_IncomeEvent req) (componentTerms (mr_IncomeEvent req) fallback i part) part net s0 = Inr s'
         \<or> s' = event_cashIncome L uuid req pf val (mr_IncomeEvent req) (componentTerms (mr_IncomeEvent req) fallback i part) part net s0"
      using assms(1) nostock False
      by (simp only: event_component_def Let_def if_False rbind_Inr_iff s0_def [symmetric]) (metis sum.inject(2))
    from s' show ?thesis
    proof
      assume "event_reinvest L uuid req pf val (mr_IncomeEvent req) (componentTerms (mr_IncomeEvent req) fallback i part) part net s0 = Inr s'"
      from reinvest_legs [OF this] assms(2) s0 show ?thesis by (auto simp: decimal_ratio_def)
    next
      assume "s' = event_cashIncome L uuid req pf val (mr_IncomeEvent req) (componentTerms (mr_IncomeEvent req) fallback i part) part net s0"
      with cashIncome_leg [of L uuid req pf val "mr_IncomeEvent req" "componentTerms (mr_IncomeEvent req) fallback i part" part net s0]
        assms(2) s0 income_type_plain [OF nostock]
      show ?thesis by (auto simp: decimal_ratio_def)
    qed
  qed
qed

lemma event_loop_ratio:
  "event_loop L uuid req pf val fallback i parts s = Inr s' \<Longrightarrow> list_all decimal_ratio (es_activities s) \<Longrightarrow>
   list_all decimal_ratio (es_activities s')"
  by (induction parts arbitrary: i s) (auto dest: event_component_ratio)

lemma planIncomeEvent_legs:
  assumes "planIncomeEvent L uuid req pf ps cash val = Inr p"
  shows "list_all decimal_ratio (plan_activities p)"
proof -
  let ?s0 = "\<lparr>es_open = ps, es_cash = cash, es_touchedPositions = [], es_newPositions = [], es_touchedCash = [],
     es_activities = [], es_resultPosition = None, es_hasReturnLeg = False\<rparr>"
  let ?ev = "mr_IncomeEvent req"
  let ?fb = "if time_IsZero (ev_PaymentDate ?ev) then val_ObservedAt val else ev_PaymentDate ?ev"
  obtain s where loop: "event_loop L uuid req pf val ?fb 0 (ev_Components ?ev) ?s0 = Inr s"
    using assms by (auto simp: planIncomeEvent_def Let_def split: if_splits)
  have legs: "list_all decimal_ratio (es_activities s)" by (rule event_loop_ratio [OF loop]) simp
  show ?thesis using assms legs
    by (cases "es_activities s")
      (auto simp: planIncomeEvent_def Let_def loop plan_activities_def decimal_ratio_def split: if_splits)
qed

lemma prepareActivity_ratio [simp]:
  "act_Type (prepareActivity L a) = act_Type a"
  "act_Metadata (prepareActivity L a) ''ratio_numerator'' = act_Metadata a ''ratio_numerator''"
  by (simp_all add: prepareActivity_def Let_def)

text \<open>
  C35. The shares of a stock dividend booked by an income event never count for a later entitlement while the ledger is in
  memory: its ratio is recorded as a typed decimal, which the entitlement does not read, so the activity leaves the
  quantity as it was although the plan raised that of the position.
\<close>

theorem stock_dividend_not_entitled:
  assumes "decimal_lib L" "planIncomeEvent L uuid req pf ps cash val = Inr p"
    and "a \<in> set (plan_activities p)" "act_Type a = ActivityStockDividend"
  shows "quantity_effect L (prepareActivity L a) qty = qty"
proof -
  obtain d where "act_Metadata a ''ratio_numerator'' = Some (MDecimal d)"
    using planIncomeEvent_legs [OF assms(2)] assms(3,4) by (auto simp: list_all_iff decimal_ratio_def)
  then have "ratioFactor L (prepareActivity L a) = 0" by (simp add: ratioFactor_def metadataRatio_def ZeroRatio_def
    decimal_lib.mustNew_literals [OF assms(1)])
  then show ?thesis
    by (simp add: quantity_effect_def assms(4) Decimal_Sign_def decimal_lib.sign [OF assms(1)])
qed

section \<open>Demonstrations\<close>

definition demo_taxed :: "nat IncEnv" where
  "demo_taxed = (demo_payer 60)
     \<lparr>ig_prefs := demo_preferences\<lparr>pf_Withholding :=
        \<lparr>wh_DefaultRate = 15 / 100, wh_TypeRates = Map.empty, wh_SymbolRates = Map.empty\<rparr>\<rparr>\<rparr>"

theorem income_amounts_reconcile_witness:
  "iap_NetAmount (applied_row demo_taxed demo_stored (demo_holder ''ada'') 10) = 425 / 100
   \<and> has_places 2 (iap_NetAmount (applied_row demo_taxed demo_stored (demo_holder ''ada'') 10))
   \<and> 0 \<le> iap_WithholdingAmount (applied_row demo_taxed demo_stored (demo_holder ''ada'') 10)"
proof -
  have lib: "decimal_lib (ig_lib demo_taxed)"
    by (simp add: demo_taxed_def demo_payer_def std.decimal_lib_axioms)
  have parts: "list_all (\<lambda>part. 0 \<le> icp_AmountPerUnit part) (components demo_stored)"
    and scale: "CurrencyScale (iev_Currency demo_stored) = Inr 2"
    and net: "iap_NetAmount (applied_row demo_taxed demo_stored (demo_holder ''ada'') 10) = 425 / 100"
    by code_simp+
  have "(0::rat) \<le> 10" by simp
  from income_amounts_reconcile [OF lib this, of demo_stored "demo_holder ''ada''"] parts scale net
  show ?thesis by blast
qed

text \<open>
  A distribution of one and a half dollars of dividend less half a dollar of a return adds up to its headline of a dollar
  and is assessed as verified; with a rate for the second type only, its withholding is negative.
\<close>

definition demo_mixed :: ProviderIncomeEvent where
  "demo_mixed = demo_dividend\<lparr>pev_AmountPerUnit := 1,
     pev_Components := [\<lparr>icp_Type = TypeCashDividend, icp_AmountPerUnit = 3 / 2\<rparr>,
                        \<lparr>icp_Type = TypeSpecialDividend, icp_AmountPerUnit = - 1 / 2\<rparr>]\<rparr>"

lemma negative_part_withheld:
  "let E = demo_taxed\<lparr>ig_prefs := demo_preferences\<lparr>pf_Withholding :=
             \<lparr>wh_DefaultRate = 0, wh_TypeRates = [TypeSpecialDividend \<mapsto> 30 / 100], wh_SymbolRates = Map.empty\<rparr>\<rparr>\<rparr>
   in assessQuality std_declib demo_mixed = QualityVerified \<and>
      iap_WithholdingAmount (applied_row E (normalize std_declib (\<lambda>x. x) (\<lambda>_. ''t'') ''manual_dev'' demo_mixed 40)
        (demo_holder ''ada'') 10) = - 15 / 10"
  by code_simp

definition demo_request :: MutationRequest where
  "demo_request = zero_request\<lparr>mr_Kind := MutationIncomeEvent,
     mr_IncomeEvent := gateway_event (appliedEvent demo_taxed demo_stored (demo_holder ''ada'') 10)\<rparr>"

theorem recorded_net_is_credited_witness:
  "\<exists>p. planIncomeEvent std_declib demo_uuid demo_request demo_pf [demo_pos] [demo_cash] demo_val = Inr p
     \<and> amount_in (mp_newCash p) ''USD'' = 500 + 425 / 100"
proof -
  have lib: "ig_lib demo_taxed = std_declib" by (simp add: demo_taxed_def demo_payer_def)
  have "case planIncomeEvent std_declib demo_uuid demo_request demo_pf [demo_pos] [demo_cash] demo_val of
      Inl e \<Rightarrow> False | Inr p \<Rightarrow> True" by code_simp
  then obtain p where p: "planIncomeEvent std_declib demo_uuid demo_request demo_pf [demo_pos] [demo_cash] demo_val = Inr p"
    by (auto split: sum.splits)
  have req: "mr_IncomeEvent demo_request = gateway_event (appliedEvent demo_taxed demo_stored (demo_holder ''ada'') 10)"
    by (simp add: demo_request_def)
  have cash: "\<not> reinvest (ig_prefs demo_taxed) (irf_Symbol (iev_Instrument demo_stored))"
    and usd: "iev_Currency demo_stored = ''USD''" and had: "amount_in [demo_cash] ''USD'' = 500"
    and net: "iap_NetAmount (applied_row demo_taxed demo_stored (demo_holder ''ada'') 10) = 425 / 100"
    by code_simp+
  from recorded_net_is_credited [of demo_taxed, unfolded lib, OF std.decimal_lib_axioms p req cash]
  have "amount_in (mp_newCash p) ''USD'' = 500 + 425 / 100" by (simp only: usd had net)
  with p show ?thesis by blast
qed

text \<open>Three dollars were received instead of the five credited.\<close>

definition demo_received :: Correction where
  "demo_received =
     \<lparr>cor_IncomeEventID = ''manual_dev:d1'', cor_PortfolioID = ''p-ada'', cor_Kind = CorrectionActualNet,
      cor_RequestID = ''r1'', cor_ActualNet = 3, cor_ActualWithholding = 0, cor_ActualFee = 0,
      cor_ActualReinvestmentQty = 0, cor_ActualReinvestmentPrice = 0\<rparr>"

definition demo_ledger_env :: "Amount list IncEnv" where
  "demo_ledger_env =
     \<lparr>ig_lib = std_declib, ig_sha = (\<lambda>x. x), ig_format = (\<lambda>_. ''t''), ig_providerName = ''manual_dev'',
      ig_FetchIncomeEvents = (\<lambda>_. Inr []), ig_DiscoveryInstruments = (\<lambda>_ _. Inr []),
      ig_HistoricalHolders = (\<lambda>_ _ _. Inr [demo_holder ''ada'']), ig_EligibleQuantity = (\<lambda>_ _ _ _ _. Inr 10),
      ig_ApplyIncomeEvent = (\<lambda>_ _ _ w. (Inr (), w)),
      ig_ApplyCorrection = (\<lambda>_ _ adj w. (Inr (), w @ [cad_Delta adj])),
      ig_prefs = demo_preferences, ig_now = 60, ig_lookback = 100, ig_retryIn = 10, ig_contextErr = (\<lambda>_. None)\<rparr>"

definition demo_credited :: "IncomeStore \<times> Amount list" where
  "demo_credited =
     processEvent demo_ledger_env demo_stored (\<lparr>is_events = [(''manual_dev:d1'', demo_stored)], is_apps = []\<rparr>, [])"

theorem correction_settles_once_witness:
  "snd (snd (HandleCorrection demo_ledger_env ''ada'' demo_received demo_credited)) = [- 2]
   \<and> event_status (fst (snd (HandleCorrection demo_ledger_env ''ada'' demo_received demo_credited))) ''manual_dev:d1''
     = Some IncCorrected"
proof -
  let ?r = "HandleCorrection demo_ledger_env ''ada'' demo_received demo_credited"
  have lib: "decimal_lib (ig_lib demo_ledger_env)" by (simp add: demo_ledger_env_def std.decimal_lib_axioms)
  have "iev_ID demo_stored = ''manual_dev:d1''" by code_simp
  then have "rows_filed \<lparr>is_events = [(''manual_dev:d1'', demo_stored)], is_apps = []\<rparr>" by (simp add: rows_filed_def)
  then have filed: "rows_filed (fst demo_credited)" unfolding demo_credited_def by simp
  have "isl (fst ?r) = False" by code_simp
  then have ok: "HandleCorrection demo_ledger_env ''ada'' demo_received (fst demo_credited, snd demo_credited) =
      (Inr (), fst (snd ?r), snd (snd ?r))"
    by (cases ?r; cases "fst ?r") auto
  have "snd (snd ?r) = [- 2]" by code_simp
  with correction_settles_once [OF lib filed ok] show ?thesis by (auto simp: demo_received_def)
qed

definition demo_trade :: "string \<Rightarrow> ActivityType \<Rightarrow> time \<Rightarrow> Quantity \<Rightarrow> Activity" where
  "demo_trade i t d q = zero_Activity\<lparr>act_ID := i, act_Type := t, act_Symbol := ''ACME'', act_OccurredAt := d,
     act_Quantity := Some q\<rparr>"

theorem entitlement_fixed_at_date_witness:
  "eligibleQuantityFromActivities std_declib
     ([demo_trade ''a1'' ActivityBuy 5 10, demo_trade ''a2'' ActivitySell 30 4] @ [demo_trade ''a3'' ActivitySell 35 6])
     [] ''acme'' 20 = 10"
proof -
  let ?acts = "[demo_trade ''a1'' ActivityBuy 5 10, demo_trade ''a2'' ActivitySell 30 4]"
  have "eligibleQuantityFromActivities std_declib ?acts [] ''acme'' 20 = 10" by code_simp
  then show ?thesis
    using entitlement_fixed_at_date [of "[demo_trade ''a3'' ActivitySell 35 6]" 20 ?acts std_declib "[]" "''acme''"]
    by (simp add: demo_trade_def corrects_def zero_Activity_def meta_string_def)
qed

theorem stock_dividend_not_entitled_witness:
  "\<exists>p a. planIncomeEvent std_declib demo_uuid demo_event demo_pf [demo_pos] [demo_cash] demo_val = Inr p
     \<and> mp_newOpen p = [demo_doubled] \<and> a \<in> set (plan_activities p) \<and> act_Type a = ActivityStockDividend
     \<and> quantity_effect std_declib (prepareActivity std_declib a) 10 = 10"
proof -
  from demo_event_runs obtain p where p:
    "planIncomeEvent std_declib demo_uuid demo_event demo_pf [demo_pos] [demo_cash] demo_val = Inr p" "mp_newOpen p = [demo_doubled]"
    by (elim exE conjE) (rule that)
  have "(case planIncomeEvent std_declib demo_uuid demo_event demo_pf [demo_pos] [demo_cash] demo_val of
      Inl _ \<Rightarrow> [] | Inr p \<Rightarrow> map act_Type (plan_activities p)) = [ActivityStockDividend, ActivityCashDividend]"
    by code_simp
  then have "map act_Type (plan_activities p) = [ActivityStockDividend, ActivityCashDividend]" by (simp add: p(1))
  then obtain a rest where "plan_activities p = a # rest" "act_Type a = ActivityStockDividend" by auto
  with p stock_dividend_not_entitled [OF std.decimal_lib_axioms p(1), of a 10] show ?thesis by auto
qed

end
