(* ===== verification/CorpModel.thy ===== *)
theory CorpModel
  imports IncomeModel
begin

text \<open>
  The automatic corporate-action pipeline (package \<^verbatim>\<open>corpactions\<close>: model.go, provider.go, store.go, service.go, view.go) and
  its gateway (cmd/api/corpactions_gateway.go). Instrument references and quality levels are declared by this package as
  they are by \<^verbatim>\<open>income\<close>; the two types are shared here.

  As for income, the service works on its store and on a world \<open>'w\<close> behind the gateway; the record \<open>CorpEnv\<close> holds what it
  is configured with. The identity resolver, when there is one, answers the identifier it attaches to a reference, if
  any. The texts of instants and of floats, and the hash of a fingerprint, are parameters.
\<close>

section \<open>Types and states\<close>

definition TypeSplit :: string where "TypeSplit = ''split''"

definition TypeReverseSplit :: string where "TypeReverseSplit = ''reverse_split''"

definition TypeSymbolChange :: string where "TypeSymbolChange = ''symbol_change''"

definition TypeStockMerger :: string where "TypeStockMerger = ''stock_merger''"

definition TypeCashMerger :: string where "TypeCashMerger = ''cash_merger''"

definition TypeMixedMerger :: string where "TypeMixedMerger = ''mixed_merger''"

definition TypeSpinOff :: string where "TypeSpinOff = ''spin_off''"

definition TypeDelisting :: string where "TypeDelisting = ''delisting''"

datatype CorpStatus =
    CorpDetected | CorpValidated | CorpScheduled | CorpApplying | CorpApplied | CorpIgnored | CorpSuperseded
  | CorpCancelled | CorpUnresolved | CorpFailedRetryable | CorpFailedPermanent

record CorporateActionRequest =
  crq_Instruments :: "InstrumentReference list"
  crq_Since :: time
  crq_Until :: time

record ProviderCorporateAction =
  pca_ProviderEventID :: string
  pca_Type :: string
  pca_Source :: InstrumentReference
  pca_Target :: "InstrumentReference option"
  pca_AnnouncementAt :: "time option"
  pca_EffectiveAt :: time
  pca_RecordAt :: "time option"
  pca_PayableAt :: "time option"
  pca_RatioNumerator :: "float64 option"
  pca_RatioDenominator :: "float64 option"
  pca_CashPerShare :: "float64 option"
  pca_CashCurrency :: "string option"
  pca_ParentBasisPct :: "float64 option"
  pca_ChildBasisPct :: "float64 option"
  pca_Cancelled :: bool
  pca_Effective :: bool
  pca_SourceURL :: string
  pca_RetrievedAt :: time

record CorporateAction =
  cac_ID :: string
  cac_Provider :: string
  cac_ProviderEventID :: string
  cac_Type :: string
  cac_Source :: InstrumentReference
  cac_Target :: "InstrumentReference option"
  cac_AnnouncementAt :: "time option"
  cac_EffectiveAt :: time
  cac_RecordAt :: "time option"
  cac_PayableAt :: "time option"
  cac_RatioNumerator :: "float64 option"
  cac_RatioDenominator :: "float64 option"
  cac_CashPerShare :: "float64 option"
  cac_CashCurrency :: "string option"
  cac_ParentBasisPct :: "float64 option"
  cac_ChildBasisPct :: "float64 option"
  cac_Status :: CorpStatus
  cac_Quality :: Quality
  cac_Revision :: int
  cac_SourceURL :: string
  cac_RawFingerprint :: string
  cac_RetrievedAt :: time
  cac_CreatedAt :: time
  cac_UpdatedAt :: time

datatype CorpAppStatus = CaUnset | CaPending | CaApplying | CaApplied | CaFailed | CaSkipped

record CorpApplication =
  cap_CorporateActionID :: string
  cap_PortfolioID :: string
  cap_UserID :: string
  cap_Status :: CorpAppStatus
  cap_PortfolioVersionBefore :: int
  cap_PortfolioVersionAfter :: int
  cap_PerformanceVersionBefore :: int
  cap_PerformanceVersionAfter :: int
  cap_AppliedAt :: "time option"
  cap_ErrorCode :: string
  cap_RetryCount :: int
  cap_NextRetryAt :: "time option"
  cap_CreatedAt :: time
  cap_UpdatedAt :: time

definition zero_CorpApplication :: CorpApplication where
  "zero_CorpApplication =
     \<lparr>cap_CorporateActionID = [], cap_PortfolioID = [], cap_UserID = [], cap_Status = CaUnset,
      cap_PortfolioVersionBefore = 0, cap_PortfolioVersionAfter = 0, cap_PerformanceVersionBefore = 0,
      cap_PerformanceVersionAfter = 0, cap_AppliedAt = None, cap_ErrorCode = [], cap_RetryCount = 0,
      cap_NextRetryAt = None, cap_CreatedAt = 0, cap_UpdatedAt = 0\<rparr>"

section \<open>Provider events\<close>

record ManualActionProvider =
  map_name :: string
  map_events :: "ProviderCorporateAction list"

definition NewManualActionProvider :: ManualActionProvider where
  "NewManualActionProvider = \<lparr>map_name = ''manual_dev'', map_events = []\<rparr>"

definition corp_Seed :: "time \<Rightarrow> ProviderCorporateAction list \<Rightarrow> ManualActionProvider \<Rightarrow> ManualActionProvider" where
  "corp_Seed now events p =
     p\<lparr>map_events := map_events p @
        map (\<lambda>e. if pca_RetrievedAt e = 0 then e\<lparr>pca_RetrievedAt := now\<rparr> else e) events\<rparr>"

definition manual_FetchActions :: "ManualActionProvider \<Rightarrow> CorporateActionRequest \<Rightarrow> ProviderCorporateAction list" where
  "manual_FetchActions p request =
     (let want = map irf_Symbol (crq_Instruments request)
      in filter (\<lambda>e.
           (want = [] \<or> irf_Symbol (pca_Source e) \<in> set want) \<and>
           (crq_Since request = 0 \<or> \<not> pca_EffectiveAt e < crq_Since request) \<and>
           (crq_Until request = 0 \<or> \<not> crq_Until request < pca_EffectiveAt e)) (map_events p))"

definition corp_fp_float :: "(float64 \<Rightarrow> string) \<Rightarrow> float64 option \<Rightarrow> string" where
  "corp_fp_float fmtf f = fp_add (case f of None \<Rightarrow> ''-'' | Some x \<Rightarrow> fmtf x)"

definition bool_text :: "bool \<Rightarrow> string" where
  "bool_text b = (if b then ''true'' else ''false'')"

definition corp_fingerprint ::
  "(string \<Rightarrow> string) \<Rightarrow> (time \<Rightarrow> string) \<Rightarrow> (float64 \<Rightarrow> string) \<Rightarrow> ProviderCorporateAction \<Rightarrow> string" where
  "corp_fingerprint sha fmt fmtf e =
     sha (fp_add (pca_Type e) @ fp_add (irf_Symbol (pca_Source e)) @
          fp_add (case pca_Target e of Some t \<Rightarrow> irf_Symbol t | None \<Rightarrow> ''-'') @ fp_add (fmt (pca_EffectiveAt e)) @
          corp_fp_float fmtf (pca_RatioNumerator e) @ corp_fp_float fmtf (pca_RatioDenominator e) @
          corp_fp_float fmtf (pca_CashPerShare e) @ corp_fp_float fmtf (pca_ParentBasisPct e) @
          corp_fp_float fmtf (pca_ChildBasisPct e) @ fp_add (bool_text (pca_Cancelled e)) @
          fp_add (bool_text (pca_Effective e)))"

text \<open>Go's \<^verbatim>\<open>x <= 0\<close> and \<^verbatim>\<open>x > 0\<close> on floats; both are false of a NaN.\<close>

definition not_above_zero :: "float64 \<Rightarrow> bool" where
  "not_above_zero x = (flt x (Fin 0) \<or> x = Fin 0)"

definition above_zero :: "float64 \<Rightarrow> bool" where
  "above_zero x = flt (Fin 0) x"

definition terms_missing :: "ProviderCorporateAction \<Rightarrow> bool" where
  "terms_missing e =
     (if pca_Type e = TypeSplit \<or> pca_Type e = TypeReverseSplit
      then (case (pca_RatioNumerator e, pca_RatioDenominator e) of
              (Some num, Some den) \<Rightarrow> not_above_zero num \<or> not_above_zero den | _ \<Rightarrow> True)
      else if pca_Type e = TypeSymbolChange
      then (case pca_Target e of None \<Rightarrow> True | Some t \<Rightarrow> irf_Symbol t = [])
      else if pca_Type e = TypeStockMerger
      then pca_Target e = None \<or> pca_RatioNumerator e = None \<or> pca_RatioDenominator e = None
      else if pca_Type e = TypeCashMerger then pca_CashPerShare e = None \<or> pca_CashCurrency e = None
      else if pca_Type e = TypeMixedMerger
      then pca_Target e = None \<or> pca_RatioNumerator e = None \<or> pca_RatioDenominator e = None \<or>
           pca_CashPerShare e = None \<or> pca_CashCurrency e = None
      else if pca_Type e = TypeSpinOff
      then pca_Target e = None \<or> pca_RatioNumerator e = None \<or> pca_RatioDenominator e = None \<or>
           pca_ParentBasisPct e = None \<or> pca_ChildBasisPct e = None
      else False)"

definition corp_assessQuality :: "ProviderCorporateAction \<Rightarrow> Quality" where
  "corp_assessQuality e =
     (if pca_Cancelled e then QualityCancelled
      else if terms_missing e then QualityIncomplete
      else if \<not> pca_Effective e then QualityHighConfidence
      else QualityVerified)"

definition corp_normalize ::
  "(string \<Rightarrow> string) \<Rightarrow> (time \<Rightarrow> string) \<Rightarrow> (float64 \<Rightarrow> string) \<Rightarrow> string \<Rightarrow> ProviderCorporateAction \<Rightarrow> time \<Rightarrow> CorporateAction" where
  "corp_normalize sha fmt fmtf provider e now =
     (let q = corp_assessQuality e;
          status = (if pca_Cancelled e then CorpCancelled
                    else if q = QualityIncomplete then CorpUnresolved
                    else if meetsAutoApplyPolicy q \<and> pca_Effective e then CorpValidated else CorpScheduled)
      in \<lparr>cac_ID = provider @ '':'' @ pca_ProviderEventID e, cac_Provider = provider,
          cac_ProviderEventID = pca_ProviderEventID e, cac_Type = pca_Type e, cac_Source = pca_Source e,
          cac_Target = pca_Target e, cac_AnnouncementAt = pca_AnnouncementAt e, cac_EffectiveAt = pca_EffectiveAt e,
          cac_RecordAt = pca_RecordAt e, cac_PayableAt = pca_PayableAt e, cac_RatioNumerator = pca_RatioNumerator e,
          cac_RatioDenominator = pca_RatioDenominator e, cac_CashPerShare = pca_CashPerShare e,
          cac_CashCurrency = pca_CashCurrency e, cac_ParentBasisPct = pca_ParentBasisPct e,
          cac_ChildBasisPct = pca_ChildBasisPct e, cac_Status = status, cac_Quality = q, cac_Revision = 0,
          cac_SourceURL = pca_SourceURL e, cac_RawFingerprint = corp_fingerprint sha fmt fmtf e,
          cac_RetrievedAt = pca_RetrievedAt e, cac_CreatedAt = now, cac_UpdatedAt = now\<rparr>)"

fun symbol_refs :: "string list \<Rightarrow> string list \<Rightarrow> InstrumentReference list" where
  "symbol_refs [] seen = []"
| "symbol_refs (s # ss) seen =
     (if s = [] \<or> s \<in> set seen then symbol_refs ss seen
      else zero_InstrumentReference\<lparr>irf_Symbol := s\<rparr> # symbol_refs ss (s # seen))"

definition requestInstruments :: "string list \<Rightarrow> InstrumentReference list" where
  "requestInstruments symbols = symbol_refs (isort str_less symbols) []"

section \<open>The in-memory store\<close>

record CorpStore =
  cst_events :: "(string \<times> CorporateAction) list"
  cst_apps :: "(string \<times> CorpApplication) list"

definition NewCorpStore :: CorpStore where
  "NewCorpStore = \<lparr>cst_events = [], cst_apps = []\<rparr>"

definition corp_OnAccountDeleted :: "string \<Rightarrow> CorpStore \<Rightarrow> CorpStore" where
  "corp_OnAccountDeleted userID s = s\<lparr>cst_apps := filter (\<lambda>(_, a). cap_UserID a \<noteq> userID) (cst_apps s)\<rparr>"

definition corp_appKey :: "string \<Rightarrow> string \<Rightarrow> string" where
  "corp_appKey eventID portfolioID = eventID @ ''|'' @ portfolioID"

definition corp_UpsertEvent :: "time \<Rightarrow> CorporateAction \<Rightarrow> CorpStore \<Rightarrow> bool \<times> CorpStore" where
  "corp_UpsertEvent now ev s =
     (case map_of (cst_events s) (cac_ID ev) of
        None \<Rightarrow>
          (False, s\<lparr>cst_events := AList.update (cac_ID ev) (ev\<lparr>cac_CreatedAt := now, cac_UpdatedAt := now\<rparr>) (cst_events s)\<rparr>)
      | Some existing \<Rightarrow>
          if cac_RawFingerprint existing \<noteq> cac_RawFingerprint ev
          then (True, s\<lparr>cst_events := AList.update (cac_ID ev)
                  (ev\<lparr>cac_CreatedAt := cac_CreatedAt existing, cac_UpdatedAt := now,
                      cac_Revision := cac_Revision existing + 1,
                      cac_Status := (if cac_Status existing = CorpApplied then CorpSuperseded else cac_Status ev)\<rparr>)
                  (cst_events s)\<rparr>)
          else (False, s))"

definition corp_ListEventsByStatus :: "CorpStatus list \<Rightarrow> CorpStore \<Rightarrow> CorporateAction list" where
  "corp_ListEventsByStatus statuses s =
     isort (\<lambda>a b. cac_EffectiveAt a < cac_EffectiveAt b)
       (filter (\<lambda>ev. statuses = [] \<or> cac_Status ev \<in> set statuses) (map snd (cst_events s)))"

definition corp_GetEvent :: "string \<Rightarrow> CorpStore \<Rightarrow> CorporateAction option" where
  "corp_GetEvent eventID s = map_of (cst_events s) eventID"

definition corp_SetEventStatus :: "time \<Rightarrow> string \<Rightarrow> CorpStatus \<Rightarrow> CorpStore \<Rightarrow> CorpStore" where
  "corp_SetEventStatus now eventID status s =
     (case map_of (cst_events s) eventID of
        Some ev \<Rightarrow> s\<lparr>cst_events := AList.update eventID (ev\<lparr>cac_Status := status, cac_UpdatedAt := now\<rparr>) (cst_events s)\<rparr>
      | None \<Rightarrow> s)"

definition corp_settled :: "CorpAppStatus \<Rightarrow> bool" where
  "corp_settled st = (st = CaApplied \<or> st = CaSkipped \<or> st = CaApplying)"

definition corp_ClaimApplication :: "time \<Rightarrow> string \<Rightarrow> string \<Rightarrow> string \<Rightarrow> CorpStore \<Rightarrow> bool \<times> CorpStore" where
  "corp_ClaimApplication now eventID portfolioID userID s =
     (let key = corp_appKey eventID portfolioID;
          held = (case map_of (cst_apps s) key of Some a \<Rightarrow> corp_settled (cap_Status a) | None \<Rightarrow> False)
      in if held then (False, s)
         else (True, s\<lparr>cst_apps := AList.update key
                (zero_CorpApplication\<lparr>cap_CorporateActionID := eventID, cap_PortfolioID := portfolioID,
                   cap_UserID := userID, cap_Status := CaApplying, cap_CreatedAt := now, cap_UpdatedAt := now\<rparr>)
                (cst_apps s)\<rparr>))"

definition corp_CompleteApplication :: "time \<Rightarrow> CorpApplication \<Rightarrow> CorpStore \<Rightarrow> CorpStore" where
  "corp_CompleteApplication now a s =
     (let key = corp_appKey (cap_CorporateActionID a) (cap_PortfolioID a)
      in s\<lparr>cst_apps := AList.update key
           (a\<lparr>cap_Status := CaApplied, cap_AppliedAt := Some now, cap_UpdatedAt := now,
              cap_CreatedAt := (case map_of (cst_apps s) key of Some x \<Rightarrow> cap_CreatedAt x | None \<Rightarrow> cap_CreatedAt a)\<rparr>)
           (cst_apps s)\<rparr>)"

definition corp_app_at :: "string \<Rightarrow> CorpStore \<Rightarrow> CorpApplication" where
  "corp_app_at key s = (case map_of (cst_apps s) key of Some a \<Rightarrow> a | None \<Rightarrow> zero_CorpApplication)"

definition corp_FailApplication :: "time \<Rightarrow> string \<Rightarrow> string \<Rightarrow> string \<Rightarrow> time \<Rightarrow> CorpStore \<Rightarrow> CorpStore" where
  "corp_FailApplication now eventID portfolioID errorCode nextRetryAt s =
     (let key = corp_appKey eventID portfolioID; a = corp_app_at key s
      in s\<lparr>cst_apps := AList.update key
           (a\<lparr>cap_CorporateActionID := eventID, cap_PortfolioID := portfolioID, cap_Status := CaFailed,
              cap_ErrorCode := errorCode, cap_RetryCount := cap_RetryCount a + 1, cap_NextRetryAt := Some nextRetryAt,
              cap_UpdatedAt := now\<rparr>) (cst_apps s)\<rparr>)"

definition corp_SkipApplication :: "time \<Rightarrow> string \<Rightarrow> string \<Rightarrow> string \<Rightarrow> CorpStore \<Rightarrow> CorpStore" where
  "corp_SkipApplication now eventID portfolioID reason s =
     (let key = corp_appKey eventID portfolioID
      in s\<lparr>cst_apps := AList.update key
           ((corp_app_at key s)\<lparr>cap_CorporateActionID := eventID, cap_PortfolioID := portfolioID,
              cap_Status := CaSkipped, cap_ErrorCode := reason, cap_UpdatedAt := now\<rparr>) (cst_apps s)\<rparr>)"

definition corp_ListApplicationsForUser :: "string \<Rightarrow> CorpStore \<Rightarrow> CorpApplication list" where
  "corp_ListApplicationsForUser userID s =
     isort (\<lambda>a b. cap_CreatedAt b < cap_CreatedAt a) (filter (\<lambda>a. cap_UserID a = userID) (map snd (cst_apps s)))"

end
