(* ===== verification/CorpService.thy ===== *)
theory CorpService
  imports CorpModel
begin

text \<open>
  The corporate-action service (\<^verbatim>\<open>corpactions/service.go\<close>, \<^verbatim>\<open>view.go\<close>) and its gateway to the portfolio. Dereferencing a
  missing ratio or target would be a panic; \<open>isAutoApplicable\<close> excludes it before an action is applied, and the model
  answers an error there. A pass reads one instant \<open>cg_now\<close>, for the service and for the store; counters of metrics are left out.
\<close>

record CorpHolder =
  cho_UserID :: string
  cho_PortfolioID :: string
  cho_AcquiredAt :: time
  cho_Symbol :: string

record 'w CorpEnv =
  cg_sha :: "string \<Rightarrow> string"
  cg_format :: "time \<Rightarrow> string"
  cg_floatText :: "float64 \<Rightarrow> string"
  cg_providerName :: string
  cg_FetchActions :: "CorporateActionRequest \<Rightarrow> string + ProviderCorporateAction list"
  cg_ActiveSymbols :: "'w \<Rightarrow> string + string list"
  cg_HoldersOfSymbol :: "string \<Rightarrow> 'w \<Rightarrow> string + CorpHolder list"
  cg_HoldersOfInstrument :: "string \<Rightarrow> 'w \<Rightarrow> string + CorpHolder list"
  cg_ApplySplit :: "string \<Rightarrow> string \<Rightarrow> string \<Rightarrow> float64 \<Rightarrow> float64 \<Rightarrow> time \<Rightarrow> 'w \<Rightarrow> (string + unit) \<times> 'w"
  cg_ApplySymbolChange :: "string \<Rightarrow> string \<Rightarrow> string \<Rightarrow> string \<Rightarrow> time \<Rightarrow> 'w \<Rightarrow> (string + unit) \<times> 'w"
  cg_identity :: "(InstrumentReference \<Rightarrow> string option) option"
  cg_now :: time
  cg_lookback :: time
  cg_retryIn :: time
  cg_contextErr :: "CorporateAction \<Rightarrow> string option"

section \<open>Ingesting\<close>

definition matchInstrument :: "'w CorpEnv \<Rightarrow> InstrumentReference \<Rightarrow> InstrumentReference" where
  "matchInstrument E ref =
     (case cg_identity E of
        None \<Rightarrow> ref
      | Some resolve \<Rightarrow>
          if irf_Symbol ref = [] then ref
          else case resolve ref of None \<Rightarrow> ref | Some i \<Rightarrow> ref\<lparr>irf_InstrumentID := i\<rparr>)"

definition matched_event :: "'w CorpEnv \<Rightarrow> CorporateAction \<Rightarrow> CorporateAction" where
  "matched_event E ev =
     ev\<lparr>cac_Source := matchInstrument E (cac_Source ev), cac_Target := map_option (matchInstrument E) (cac_Target ev)\<rparr>"

definition corp_ninety_days :: time where
  "corp_ninety_days = 90 * 24 * 3600 * 1000000000"

definition corp_Ingest :: "'w CorpEnv \<Rightarrow> CorpStore \<times> 'w \<Rightarrow> (string + unit) \<times> CorpStore \<times> 'w" where
  "corp_Ingest E = (\<lambda>(s, w).
     case cg_ActiveSymbols E w of
       Inl msg \<Rightarrow> (Inl msg, s, w)
     | Inr symbols \<Rightarrow>
         if symbols = [] then (Inr (), s, w)
         else case cg_FetchActions E
                \<lparr>crq_Instruments = requestInstruments symbols, crq_Since = cg_now E - cg_lookback E,
                 crq_Until = cg_now E + corp_ninety_days\<rparr> of
           Inl msg \<Rightarrow> (Inl msg, s, w)
         | Inr raw \<Rightarrow>
             (Inr (),
              foldl (\<lambda>s e. snd (corp_UpsertEvent (cg_now E)
                        (matched_event E (corp_normalize (cg_sha E) (cg_format E) (cg_floatText E)
                           (cg_providerName E) e (cg_now E))) s)) s raw,
              w))"

section \<open>The policy of automatic application\<close>

definition autoAppliesType :: "string \<Rightarrow> bool" where
  "autoAppliesType t = (t = TypeSplit \<or> t = TypeReverseSplit \<or> t = TypeSymbolChange)"

definition termsComplete :: "CorporateAction \<Rightarrow> bool" where
  "termsComplete ev =
     (if cac_Type ev = TypeSplit \<or> cac_Type ev = TypeReverseSplit
      then (case (cac_RatioNumerator ev, cac_RatioDenominator ev) of
              (Some num, Some den) \<Rightarrow> above_zero num \<and> above_zero den | _ \<Rightarrow> False)
      else if cac_Type ev = TypeSymbolChange
      then (case cac_Target ev of None \<Rightarrow> False | Some t \<Rightarrow> irf_Symbol t \<noteq> [])
      else False)"

definition isAutoApplicable :: "CorporateAction \<Rightarrow> bool" where
  "isAutoApplicable ev =
     (autoAppliesType (cac_Type ev) \<and> meetsAutoApplyPolicy (cac_Quality ev) \<and>
      cac_Quality ev = QualityVerified \<and> termsComplete ev)"

section \<open>Applying an action to its holders\<close>

definition corp_requestID :: "string \<Rightarrow> string \<Rightarrow> string" where
  "corp_requestID eventID portfolioID = ''ca:'' @ eventID @ '':'' @ portfolioID"

definition corp_instruct :: "'w CorpEnv \<Rightarrow> CorporateAction \<Rightarrow> CorpHolder \<Rightarrow> 'w \<Rightarrow> (string + unit) \<times> 'w" where
  "corp_instruct E ev h w =
     (let requestID = corp_requestID (cac_ID ev) (cho_PortfolioID h);
          symbol = (if cho_Symbol h = [] then irf_Symbol (cac_Source ev) else cho_Symbol h)
      in if cac_Type ev = TypeSplit \<or> cac_Type ev = TypeReverseSplit
         then (case (cac_RatioNumerator ev, cac_RatioDenominator ev) of
                 (Some num, Some den) \<Rightarrow> cg_ApplySplit E (cho_UserID h) requestID symbol num den (cac_EffectiveAt ev) w
               | _ \<Rightarrow> (Inl ''nil ratio'', w))
         else if cac_Type ev = TypeSymbolChange
         then (case cac_Target ev of
                 Some t \<Rightarrow> cg_ApplySymbolChange E (cho_UserID h) requestID symbol (irf_Symbol t) (cac_EffectiveAt ev) w
               | None \<Rightarrow> (Inl ''nil target'', w))
         else (Inl (''type '' @ cac_Type ev @ '' is not auto-applicable''), w))"

definition corp_applyToHolder ::
  "'w CorpEnv \<Rightarrow> CorporateAction \<Rightarrow> CorpHolder \<Rightarrow> CorpStore \<times> 'w \<Rightarrow> (string + unit) \<times> CorpStore \<times> 'w" where
  "corp_applyToHolder E ev h = (\<lambda>(s, w).
     case corp_instruct E ev h w of
       (Inl msg, w') \<Rightarrow> (Inl msg, s, w')
     | (Inr _, w') \<Rightarrow>
         (Inr (),
          corp_CompleteApplication (cg_now E)
            (zero_CorpApplication\<lparr>cap_CorporateActionID := cac_ID ev, cap_PortfolioID := cho_PortfolioID h,
               cap_UserID := cho_UserID h, cap_Status := CaApplied, cap_AppliedAt := Some (cg_now E)\<rparr>) s, w'))"

definition corp_holder :: "'w CorpEnv \<Rightarrow> CorporateAction \<Rightarrow> CorpHolder \<Rightarrow> CorpStore \<times> 'w \<Rightarrow> bool \<times> CorpStore \<times> 'w" where
  "corp_holder E ev h = (\<lambda>(s, w).
     if cac_EffectiveAt ev < cho_AcquiredAt h
     then (False, corp_SkipApplication (cg_now E) (cac_ID ev) (cho_PortfolioID h) ''acquired_after_effective'' s, w)
     else case corp_ClaimApplication (cg_now E) (cac_ID ev) (cho_PortfolioID h) (cho_UserID h) s of
       (False, s') \<Rightarrow> (False, s', w)
     | (True, s') \<Rightarrow>
         (case corp_applyToHolder E ev h (s', w) of
            (Inl msg, s2, w') \<Rightarrow>
              (False, corp_FailApplication (cg_now E) (cac_ID ev) (cho_PortfolioID h) msg (cg_now E + cg_retryIn E) s2, w')
          | (Inr _, s2, w') \<Rightarrow> (True, s2, w')))"

fun corp_holders ::
  "'w CorpEnv \<Rightarrow> CorporateAction \<Rightarrow> CorpHolder list \<Rightarrow> CorpStore \<times> 'w \<Rightarrow> nat \<times> CorpStore \<times> 'w" where
  "corp_holders E ev [] sw = (0, sw)"
| "corp_holders E ev (h # hs) sw =
     (case corp_holder E ev h sw of
        (applied, sw1) \<Rightarrow>
          (case corp_holders E ev hs sw1 of (n, sw2) \<Rightarrow> ((if applied then Suc n else n), sw2)))"

text \<open>The holders found by identity that the ones found by symbol do not name yet.\<close>

fun add_holders :: "string list \<Rightarrow> CorpHolder list \<Rightarrow> CorpHolder list" where
  "add_holders seen [] = []"
| "add_holders seen (h # hs) =
     (if cho_PortfolioID h \<in> set seen then add_holders seen hs else h # add_holders (cho_PortfolioID h # seen) hs)"

definition all_holders :: "'w CorpEnv \<Rightarrow> CorporateAction \<Rightarrow> 'w \<Rightarrow> CorpHolder list \<Rightarrow> CorpHolder list" where
  "all_holders E ev w holders =
     (if irf_InstrumentID (cac_Source ev) = [] then holders
      else case cg_HoldersOfInstrument E (irf_InstrumentID (cac_Source ev)) w of
             Inl _ \<Rightarrow> holders
           | Inr byInstrument \<Rightarrow> holders @ add_holders (map cho_PortfolioID holders) byInstrument)"

definition corp_processEvent :: "'w CorpEnv \<Rightarrow> CorporateAction \<Rightarrow> CorpStore \<times> 'w \<Rightarrow> CorpStore \<times> 'w" where
  "corp_processEvent E ev = (\<lambda>(s, w).
     if cac_Status ev = CorpCancelled \<or> cac_Quality ev = QualityCancelled then (s, w)
     else if \<not> isAutoApplicable ev
     then (if (cac_Quality ev = QualityIncomplete \<or> \<not> autoAppliesType (cac_Type ev)) \<and> cac_Status ev \<noteq> CorpUnresolved
           then corp_SetEventStatus (cg_now E) (cac_ID ev) CorpUnresolved s else s, w)
     else case cg_HoldersOfSymbol E (irf_Symbol (cac_Source ev)) w of
       Inl _ \<Rightarrow> (s, w)
     | Inr found \<Rightarrow>
         (let holders = all_holders E ev w found
          in case corp_holders E ev holders (s, w) of
               (applied, s', w') \<Rightarrow>
                 ((if applied > 0 \<or> holders = [] then corp_SetEventStatus (cg_now E) (cac_ID ev) CorpApplied s' else s'),
                  w')))"

definition corp_statuses :: "CorpStatus list" where
  "corp_statuses = [CorpDetected, CorpValidated, CorpScheduled, CorpUnresolved, CorpFailedRetryable]"

fun corp_process_loop ::
  "'w CorpEnv \<Rightarrow> CorporateAction list \<Rightarrow> CorpStore \<times> 'w \<Rightarrow> (string + unit) \<times> CorpStore \<times> 'w" where
  "corp_process_loop E [] sw = (Inr (), sw)"
| "corp_process_loop E (ev # evs) sw =
     (case cg_contextErr E ev of
        Some msg \<Rightarrow> (Inl msg, sw)
      | None \<Rightarrow> corp_process_loop E evs (corp_processEvent E ev sw))"

definition corp_Process :: "'w CorpEnv \<Rightarrow> CorpStore \<times> 'w \<Rightarrow> (string + unit) \<times> CorpStore \<times> 'w" where
  "corp_Process E sw = corp_process_loop E (corp_ListEventsByStatus corp_statuses (fst sw)) sw"

definition corp_RunOnce :: "'w CorpEnv \<Rightarrow> CorpStore \<times> 'w \<Rightarrow> (string + unit) \<times> CorpStore \<times> 'w" where
  "corp_RunOnce E sw = (case corp_Ingest E sw of (Inl e, sw') \<Rightarrow> (Inl e, sw') | (Inr _, sw') \<Rightarrow> corp_Process E sw')"

section \<open>Views\<close>

record CorporateActionView =
  cav_ID :: string
  cav_EventType :: string
  cav_DisplaySymbol :: string
  cav_EffectiveAt :: time
  cav_Status :: string
  cav_Explanation :: string
  cav_AppliedAt :: "time option"

definition displaySymbol :: "CorporateAction \<Rightarrow> string" where
  "displaySymbol ev =
     (if cac_Type ev = TypeSymbolChange
      then (case cac_Target ev of Some t \<Rightarrow> irf_Symbol t | None \<Rightarrow> irf_Symbol (cac_Source ev))
      else irf_Symbol (cac_Source ev))"

definition corp_userStatus :: "CorpAppStatus \<Rightarrow> string" where
  "corp_userStatus st =
     (case st of
        CaApplied \<Rightarrow> ''Applied automatically''
      | CaApplying \<Rightarrow> ''Processing''
      | CaPending \<Rightarrow> ''Processing''
      | CaSkipped \<Rightarrow> ''Not applicable to your holding''
      | CaFailed \<Rightarrow> ''Awaiting confirmed market data''
      | _ \<Rightarrow> ''Processing'')"

text \<open>\<open>fmtg\<close> is the text of a float (\<^verbatim>\<open>%g\<close>).\<close>

definition corp_explanation :: "(float64 \<Rightarrow> string) \<Rightarrow> CorporateAction \<Rightarrow> CorpAppStatus \<Rightarrow> string" where
  "corp_explanation fmtg ev st =
     (let source = irf_Symbol (cac_Source ev) in
      if cac_Type ev = TypeSplit
      then (case (cac_RatioNumerator ev, cac_RatioDenominator ev) of
              (Some num, Some den) \<Rightarrow>
                source @ '' split '' @ fmtg num @ ''-for-'' @ fmtg den @
                ''. Your quantity and cost basis were adjusted automatically; portfolio value and ranked performance were preserved.''
            | _ \<Rightarrow> source @ '' stock split applied automatically.'')
      else if cac_Type ev = TypeReverseSplit
      then source @ '' reverse split applied automatically. Your position and performance history were preserved.''
      else if cac_Type ev = TypeSymbolChange
      then source @ '' changed ticker to '' @ displaySymbol ev @ ''. Your position and performance history were preserved.''
      else if cac_Type ev = TypeStockMerger \<or> cac_Type ev = TypeCashMerger \<or> cac_Type ev = TypeMixedMerger
      then (if st = CaApplied
            then source @ '' was converted under the announced merger terms. Your position was adjusted automatically.''
            else ''A corporate action affecting '' @ source @
                 '' is being processed. Your position remains visible while complete market data is confirmed.'')
      else if cac_Type ev = TypeSpinOff
      then ''A spin-off affecting '' @ source @ '' is being processed. No action is required.''
      else if cac_Type ev = TypeDelisting
      then source @ '' is under a corporate action. Your position remains visible while a resolution is confirmed.''
      else ''A corporate action affecting '' @ source @ '' is being processed.'')"

definition ListCorporateActionViews :: "(float64 \<Rightarrow> string) \<Rightarrow> string \<Rightarrow> CorpStore \<Rightarrow> CorporateActionView list" where
  "ListCorporateActionViews fmtg userID s =
     concat (map (\<lambda>a. case corp_GetEvent (cap_CorporateActionID a) s of
         None \<Rightarrow> []
       | Some ev \<Rightarrow>
           [\<lparr>cav_ID = cac_ID ev, cav_EventType = cac_Type ev, cav_DisplaySymbol = displaySymbol ev,
             cav_EffectiveAt = cac_EffectiveAt ev, cav_Status = corp_userStatus (cap_Status a),
             cav_Explanation = corp_explanation fmtg ev (cap_Status a), cav_AppliedAt = cap_AppliedAt a\<rparr>])
       (corp_ListApplicationsForUser userID s))"

section \<open>The gateway to the portfolio service\<close>

definition gateway_split :: "string \<Rightarrow> float64 \<Rightarrow> float64 \<Rightarrow> time \<Rightarrow> CorpActionInput" where
  "gateway_split symbol num den effectiveAt =
     \<lparr>ca_Subtype = (if flt num den then CorpReverseSplit else CorpStockSplit), ca_Symbol = symbol,
      ca_RatioNumerator = num, ca_RatioDenominator = den, ca_NewSymbol = [], ca_OccurredAt = Some effectiveAt,
      ca_Provenance = ProvenanceProviderReported\<rparr>"

definition gateway_symbolChange :: "string \<Rightarrow> string \<Rightarrow> time \<Rightarrow> CorpActionInput" where
  "gateway_symbolChange oldSymbol newSymbol effectiveAt =
     \<lparr>ca_Subtype = CorpSymbolChange, ca_Symbol = oldSymbol, ca_RatioNumerator = Fin 0, ca_RatioDenominator = Fin 0,
      ca_NewSymbol = newSymbol, ca_OccurredAt = Some effectiveAt, ca_Provenance = ProvenanceProviderReported\<rparr>"

end
