(* ===== verification/CorpLaws.thy ===== *)
theory CorpLaws
  imports CorpService Delivery OrderLaws
begin

text \<open>
  Runs of the corporate-action pipeline. Its store provides the contract \<open>delivery_store\<close>; every instruction the portfolio
  accepted is logged with the time, the user and the request identifier, in the form the gateway hands it on.
\<close>

section \<open>The store keeps the contract\<close>

definition corp_held :: "CorpStore \<Rightarrow> string \<Rightarrow> string option" where
  "corp_held s k =
     (case map_of (cst_apps s) k of
        Some a \<Rightarrow> if corp_settled (cap_Status a) then Some (cap_UserID a) else None
      | None \<Rightarrow> None)"

lemma corp_held_update:
  "corp_held (s\<lparr>cst_apps := AList.update k a (cst_apps s)\<rparr>) =
     (corp_held s)(k := if corp_settled (cap_Status a) then Some (cap_UserID a) else None)"
  by (rule ext) (simp add: corp_held_def update_conv')

lemma corp_held_delete:
  assumes "corp_held s l = Some u" "u \<noteq> v"
  shows "corp_held (corp_OnAccountDeleted v s) l = Some u"
proof -
  obtain a where a: "map_of (cst_apps s) l = Some a" "cap_UserID a = u" "corp_settled (cap_Status a)"
    using assms(1) by (auto simp: corp_held_def split: option.splits if_splits)
  have "map_of (filter (\<lambda>(_, a). cap_UserID a \<noteq> v) xs) l = Some a" if "map_of xs l = Some a" for xs
    using that a(2) assms(2) by (induction xs) (auto split: if_splits)
  with a show ?thesis by (simp add: corp_held_def corp_OnAccountDeleted_def)
qed

interpretation corp: delivery_store corp_held
  "\<lambda>k u s s'. \<exists>now e p. k = corp_appKey e p \<and> corp_ClaimApplication now e p u s = (True, s')"
  "\<lambda>k u s s'. \<exists>now a. k = corp_appKey (cap_CorporateActionID a) (cap_PortfolioID a) \<and> u = cap_UserID a \<and>
     s' = corp_CompleteApplication now a s"
  "\<lambda>k s s'. \<exists>now e p msg t. k = corp_appKey e p \<and> s' = corp_FailApplication now e p msg t s"
  "\<lambda>k s s'. \<exists>now e p msg. k = corp_appKey e p \<and> s' = corp_SkipApplication now e p msg s"
  "\<lambda>v s s'. s' = corp_OnAccountDeleted v s"
proof
  show "corp_held s k = None \<and> corp_held s' = (corp_held s)(k := Some u)"
    if "\<exists>now e p. k = corp_appKey e p \<and> corp_ClaimApplication now e p u s = (True, s')" for k u s s'
  proof -
    from that obtain now e p where k: "k = corp_appKey e p" and c: "corp_ClaimApplication now e p u s = (True, s')" by blast
    from c have free: "corp_held s k = None"
      by (auto simp: corp_ClaimApplication_def corp_held_def Let_def k split: option.splits if_splits)
    from c have "s' = s\<lparr>cst_apps := AList.update k
        (zero_CorpApplication\<lparr>cap_CorporateActionID := e, cap_PortfolioID := p, cap_UserID := u,
           cap_Status := CaApplying, cap_CreatedAt := now, cap_UpdatedAt := now\<rparr>) (cst_apps s)\<rparr>"
      by (auto simp: corp_ClaimApplication_def Let_def k split: if_splits)
    with free show ?thesis by (simp add: corp_held_update corp_settled_def)
  qed
  show "corp_held s' = (corp_held s)(k := Some u)"
    if "\<exists>now a. k = corp_appKey (cap_CorporateActionID a) (cap_PortfolioID a) \<and> u = cap_UserID a \<and>
      s' = corp_CompleteApplication now a s" for k u s s'
    using that by (auto simp: corp_CompleteApplication_def Let_def corp_held_update corp_settled_def)
  show "corp_held s' = (corp_held s)(k := None)"
    if "\<exists>now e p msg t. k = corp_appKey e p \<and> s' = corp_FailApplication now e p msg t s" for k s s'
    using that by (auto simp: corp_FailApplication_def Let_def corp_held_update corp_settled_def)
  show "corp_held s' l = Some u"
    if "\<exists>now e p msg. k = corp_appKey e p \<and> s' = corp_SkipApplication now e p msg s" "corp_held s l = Some u" for k s s' l u
    using that by (auto simp: corp_SkipApplication_def Let_def corp_held_update corp_settled_def corp_app_at_def)
      (auto simp: corp_held_def split: option.splits if_splits)
  show "corp_held s' l = Some u" if "s' = corp_OnAccountDeleted v s" "corp_held s l = Some u" "u \<noteq> v" for v s s' l u
    using that by (simp add: corp_held_delete)
qed

section \<open>Watched runs\<close>

type_synonym corp_credit = "time \<times> string \<times> string \<times> CorpActionInput"

definition corp_watched :: "'w CorpEnv \<Rightarrow> ('w \<times> corp_credit list) CorpEnv" where
  "corp_watched E =
     \<lparr>cg_sha = cg_sha E, cg_format = cg_format E, cg_floatText = cg_floatText E, cg_providerName = cg_providerName E,
      cg_FetchActions = cg_FetchActions E, cg_ActiveSymbols = (\<lambda>(w, ds). cg_ActiveSymbols E w),
      cg_HoldersOfSymbol = (\<lambda>sm (w, ds). cg_HoldersOfSymbol E sm w),
      cg_HoldersOfInstrument = (\<lambda>i (w, ds). cg_HoldersOfInstrument E i w),
      cg_ApplySplit = (\<lambda>u r sm num den t (w, ds).
        case cg_ApplySplit E u r sm num den t w of
          (Inl msg, w') \<Rightarrow> (Inl msg, w', ds)
        | (Inr _, w') \<Rightarrow> (Inr (), w', (cg_now E, u, r, gateway_split sm num den t) # ds)),
      cg_ApplySymbolChange = (\<lambda>u r old new t (w, ds).
        case cg_ApplySymbolChange E u r old new t w of
          (Inl msg, w') \<Rightarrow> (Inl msg, w', ds)
        | (Inr _, w') \<Rightarrow> (Inr (), w', (cg_now E, u, r, gateway_symbolChange old new t) # ds)),
      cg_identity = cg_identity E, cg_now = cg_now E, cg_lookback = cg_lookback E, cg_retryIn = cg_retryIn E,
      cg_contextErr = cg_contextErr E\<rparr>"

datatype 'w corp_op = CaRun "'w CorpEnv" | CaIngest "'w CorpEnv" | CaProcess "'w CorpEnv" | CaDelete string

fun corp_step :: "'w corp_op \<Rightarrow> CorpStore \<times> 'w \<times> corp_credit list \<Rightarrow> CorpStore \<times> 'w \<times> corp_credit list" where
  "corp_step (CaRun E) x = snd (corp_RunOnce (corp_watched E) x)"
| "corp_step (CaIngest E) x = snd (corp_Ingest (corp_watched E) x)"
| "corp_step (CaProcess E) x = snd (corp_Process (corp_watched E) x)"
| "corp_step (CaDelete u) (s, wl) = (corp_OnAccountDeleted u s, wl)"

definition corp_run :: "'w corp_op list \<Rightarrow> CorpStore \<times> 'w \<times> corp_credit list \<Rightarrow> CorpStore \<times> 'w \<times> corp_credit list" where
  "corp_run ops x = foldl (\<lambda>x op. corp_step op x) x ops"

fun corp_env :: "'w corp_op \<Rightarrow> 'w CorpEnv list" where
  "corp_env (CaRun E) = [E]"
| "corp_env (CaProcess E) = [E]"
| "corp_env _ = []"

text \<open>The instruction an action gives for a holder.\<close>

definition corp_input :: "CorporateAction \<Rightarrow> CorpHolder \<Rightarrow> CorpActionInput" where
  "corp_input ev h =
     (let symbol = (if cho_Symbol h = [] then irf_Symbol (cac_Source ev) else cho_Symbol h)
      in if cac_Type ev = TypeSymbolChange
         then gateway_symbolChange symbol (irf_Symbol (the (cac_Target ev))) (cac_EffectiveAt ev)
         else gateway_split symbol (the (cac_RatioNumerator ev)) (the (cac_RatioDenominator ev)) (cac_EffectiveAt ev))"

lemma corp_watched_simps [simp]:
  "cg_now (corp_watched E) = cg_now E" "cg_retryIn (corp_watched E) = cg_retryIn E"
  "cg_contextErr (corp_watched E) = cg_contextErr E"
  "cg_HoldersOfSymbol (corp_watched E) sm (w, ds) = cg_HoldersOfSymbol E sm w"
  "cg_HoldersOfInstrument (corp_watched E) i (w, ds) = cg_HoldersOfInstrument E i w"
  by (simp_all add: corp_watched_def)

lemma corp_instruct_watched:
  assumes "corp_instruct (corp_watched E) ev h (w, ds) = (r, w', ds')"
  shows "(isl r \<and> ds' = ds) \<or>
    (r = Inr () \<and> ds' = (cg_now E, cho_UserID h, corp_requestID (cac_ID ev) (cho_PortfolioID h), corp_input ev h) # ds)"
  using assms
  by (auto simp: corp_instruct_def corp_watched_def corp_input_def Let_def TypeSplit_def TypeReverseSplit_def
      TypeSymbolChange_def split: if_splits option.splits sum.splits prod.splits)

text \<open>What one holder can do to the store and to the log.\<close>

lemma corp_holder_cases:
  assumes "corp_holder (corp_watched E) ev h (s, w, ds) = (b, s', w', ds')"
  obtains (applied) s1 a where "b" "cho_AcquiredAt h \<le> cac_EffectiveAt ev"
      "corp_ClaimApplication (cg_now E) (cac_ID ev) (cho_PortfolioID h) (cho_UserID h) s = (True, s1)"
      "cap_CorporateActionID a = cac_ID ev" "cap_PortfolioID a = cho_PortfolioID h" "cap_UserID a = cho_UserID h"
      "s' = corp_CompleteApplication (cg_now E) a s1"
      "ds' = (cg_now E, cho_UserID h, corp_requestID (cac_ID ev) (cho_PortfolioID h), corp_input ev h) # ds"
  | (failed) s1 msg where "\<not> b"
      "corp_ClaimApplication (cg_now E) (cac_ID ev) (cho_PortfolioID h) (cho_UserID h) s = (True, s1)"
      "s' = corp_FailApplication (cg_now E) (cac_ID ev) (cho_PortfolioID h) msg (cg_now E + cg_retryIn E) s1" "ds' = ds"
  | (skipped) msg where "\<not> b" "s' = corp_SkipApplication (cg_now E) (cac_ID ev) (cho_PortfolioID h) msg s" "ds' = ds"
  | (idle) "\<not> b" "s' = s" "ds' = ds"
proof (cases "cac_EffectiveAt ev < cho_AcquiredAt h")
  case True
  then show ?thesis using assms skipped by (auto simp: corp_holder_def)
next
  case False
  obtain ok s1 where c: "corp_ClaimApplication (cg_now E) (cac_ID ev) (cho_PortfolioID h) (cho_UserID h) s = (ok, s1)"
    by fastforce
  show ?thesis
  proof (cases ok)
    case no: False
    then have "s1 = s" using c by (auto simp: corp_ClaimApplication_def Let_def split: if_splits)
    then show ?thesis using assms idle False no c by (simp add: corp_holder_def)
  next
    case True
    obtain r w2 d2 where i: "corp_instruct (corp_watched E) ev h (w, ds) = (r, w2, d2)"
      by (cases "corp_instruct (corp_watched E) ev h (w, ds)") auto
    show ?thesis
    proof (cases r)
      case (Inl msg)
      then show ?thesis using assms failed [of s1 msg] False True c i corp_instruct_watched [OF i]
        by (simp add: corp_holder_def corp_applyToHolder_def)
    next
      case (Inr x)
      then show ?thesis
        using assms False True c i corp_instruct_watched [OF i]
          applied [of s1 "zero_CorpApplication\<lparr>cap_CorporateActionID := cac_ID ev, cap_PortfolioID := cho_PortfolioID h,
            cap_UserID := cho_UserID h, cap_Status := CaApplied, cap_AppliedAt := Some (cg_now E)\<rparr>"]
        by (auto simp: corp_holder_def corp_applyToHolder_def)
    qed
  qed
qed

section \<open>Keys of the log\<close>

text \<open>
  The gateway sees the request identifier only. Portfolio identifiers are UUIDs, so the last colon of a request
  identifier separates event and portfolio.
\<close>

fun corp_key :: "corp_credit \<Rightarrow> string \<times> string" where
  "corp_key (t, u, r, x) =
     (u, corp_appKey (rev (drop 1 (dropWhile (\<lambda>c. c \<noteq> CHR '':'') (rev (drop 3 r)))))
           (rev (takeWhile (\<lambda>c. c \<noteq> CHR '':'') (rev (drop 3 r)))))"

definition plain_id :: "string \<Rightarrow> bool" where
  "plain_id p = (CHR '':'' \<notin> set p)"

lemma split_at_first:
  assumes "x \<notin> set q"
  shows "takeWhile (\<lambda>c. c \<noteq> x) (q @ x # ys) = q" "dropWhile (\<lambda>c. c \<noteq> x) (q @ x # ys) = x # ys"
  using assms by (induction q) auto

lemma corp_key_made:
  assumes "plain_id p"
  shows "corp_key (t, u, corp_requestID e p, x) = (u, corp_appKey e p)"
proof -
  have r: "rev (drop 3 (corp_requestID e p)) = rev p @ CHR '':'' # rev e" by (simp add: corp_requestID_def)
  have p: "CHR '':'' \<notin> set (rev p)" using assms by (simp add: plain_id_def)
  show ?thesis by (simp only: corp_key.simps r split_at_first [OF p]) simp
qed

text \<open>Every portfolio that \<open>E\<close> names has an identifier without a colon.\<close>

definition plain_holders :: "'w CorpEnv \<Rightarrow> bool" where
  "plain_holders E =
     (\<forall>i w hs. cg_HoldersOfSymbol E i w = Inr hs \<or> cg_HoldersOfInstrument E i w = Inr hs \<longrightarrow>
        list_all (\<lambda>h. plain_id (cho_PortfolioID h)) hs)"

lemma add_holders_subset: "set (add_holders seen hs) \<subseteq> set hs"
  by (induction seen hs rule: add_holders.induct) auto

lemma all_holders_plain:
  assumes "plain_holders E" "cg_HoldersOfSymbol E i w = Inr hs" "h \<in> set (all_holders (corp_watched E) ev (w, ds) hs)"
  shows "plain_id (cho_PortfolioID h)"
  using assms add_holders_subset unfolding plain_holders_def all_holders_def list_all_iff
  by (auto split: if_splits sum.splits dest!: subsetD [OF add_holders_subset])

section \<open>Safety of every operation\<close>

lemma corp_held_events [simp]: "corp_held (s\<lparr>cst_events := evs\<rparr>) = corp_held s"
  by (rule ext) (simp add: corp_held_def)

lemma corp_held_SetEventStatus [simp]: "corp_held (corp_SetEventStatus now e st s) = corp_held s"
  by (simp add: corp_SetEventStatus_def split: option.splits)

lemma corp_held_Upsert [simp]: "corp_held (snd (corp_UpsertEvent now ev s)) = corp_held s"
  by (simp add: corp_UpsertEvent_def split: option.splits)

lemma corp_safe_holder:
  assumes "corp_holder (corp_watched E) ev h (s, w, ds) = (b, s', w', ds')" "corp.safe u s (map corp_key ds)"
    "plain_id (cho_PortfolioID h)"
  shows "corp.safe u s' (map corp_key ds')"
  using assms(1)
proof (cases rule: corp_holder_cases)
  case (applied s1 a)
  have "corp.safe u s' ((cho_UserID h, corp_appKey (cac_ID ev) (cho_PortfolioID h)) # map corp_key ds)"
    by (rule corp.safe_delivered [OF assms(2), of _ _ s1]) (use applied in \<open>force simp del: corp_key.simps\<close>)+
  then show ?thesis by (simp only: applied list.map corp_key_made [OF assms(3)])
next
  case (failed s1 msg)
  show ?thesis unfolding failed(4)
    by (rule corp.safe_failed [OF assms(2), of "corp_appKey (cac_ID ev) (cho_PortfolioID h)" "cho_UserID h" s1])
      (use failed in blast)+
next
  case (skipped msg)
  show ?thesis unfolding skipped(3)
    by (rule corp.safe_skip [OF assms(2), of "corp_appKey (cac_ID ev) (cho_PortfolioID h)"]) (use skipped in blast)
qed (use assms(2) in simp)

lemma corp_safe_holders:
  "corp_holders (corp_watched E) ev hs (s, w, ds) = (n, s', w', ds') \<Longrightarrow> corp.safe u s (map corp_key ds) \<Longrightarrow>
   list_all (\<lambda>h. plain_id (cho_PortfolioID h)) hs \<Longrightarrow> corp.safe u s' (map corp_key ds')"
proof (induction hs arbitrary: s w ds n s' w' ds')
  case (Cons h hs)
  obtain b s1 w1 d1 where 1: "corp_holder (corp_watched E) ev h (s, w, ds) = (b, s1, w1, d1)" by (metis prod_cases4)
  obtain m s2 w2 d2 where 2: "corp_holders (corp_watched E) ev hs (s1, w1, d1) = (m, s2, w2, d2)" by (metis prod_cases4)
  from Cons.IH [OF 2 corp_safe_holder [OF 1 Cons.prems(2)]] Cons.prems(1,3) show ?case by (simp add: 1 2)
qed simp

lemma corp_safe_processEvent:
  assumes "corp_processEvent (corp_watched E) ev (s, w, ds) = (s', w', ds')" "corp.safe u s (map corp_key ds)"
    "plain_holders E"
  shows "corp.safe u s' (map corp_key ds')"
proof (cases "cg_HoldersOfSymbol E (irf_Symbol (cac_Source ev)) w")
  case (Inl e)
  then show ?thesis using assms
    by (auto simp: corp_processEvent_def split: if_splits intro: corp.safe_same_held)
next
  case (Inr hs)
  let ?hs = "all_holders (corp_watched E) ev (w, ds) hs"
  obtain n s1 w1 d1 where 1: "corp_holders (corp_watched E) ev ?hs (s, w, ds) = (n, s1, w1, d1)" by (metis prod_cases4)
  have "list_all (\<lambda>h. plain_id (cho_PortfolioID h)) ?hs"
    using all_holders_plain [OF assms(3) Inr] by (simp add: list_all_iff)
  from assms corp_safe_holders [OF 1 assms(2) this] show ?thesis
    by (auto simp: corp_processEvent_def Inr 1 split: if_splits intro: corp.safe_same_held)
qed

lemma corp_safe_loop:
  assumes "plain_holders E"
  shows "corp_process_loop (corp_watched E) evs (s, w, ds) = (r, s', w', ds') \<Longrightarrow> corp.safe u s (map corp_key ds) \<Longrightarrow>
    corp.safe u s' (map corp_key ds')"
proof (induction evs arbitrary: s w ds s' w' ds')
  case (Cons ev evs)
  obtain s1 w1 d1 where 1: "corp_processEvent (corp_watched E) ev (s, w, ds) = (s1, w1, d1)" by (metis prod_cases3)
  from Cons.IH [of s1 w1 d1] corp_safe_processEvent [OF 1 Cons.prems(2) assms] Cons.prems show ?case
    by (cases "cg_contextErr E ev") (simp_all add: 1)
qed simp

lemma corp_Ingest_result:
  "\<exists>r s'. corp_Ingest (corp_watched E) (s, w, ds) = (r, s', w, ds) \<and> corp_held s' = corp_held s"
proof -
  have fold: "corp_held (foldl (\<lambda>s e. snd (corp_UpsertEvent now (f e) s)) s raw) = corp_held s" for f now raw
    by (induction raw arbitrary: s) simp_all
  show ?thesis by (auto simp: corp_Ingest_def Let_def fold split: sum.splits)
qed

fun corp_deletes :: "string \<Rightarrow> 'w corp_op \<Rightarrow> bool" where
  "corp_deletes u (CaDelete v) = (v = u)"
| "corp_deletes u _ = False"

lemma corp_safe_step:
  assumes "corp.safe u s (map corp_key ds)" "\<not> corp_deletes u op" "list_all plain_holders (corp_env op)"
    "corp_step op (s, w, ds) = (s', w', ds')"
  shows "corp.safe u s' (map corp_key ds')"
proof (cases op)
  case (CaRun E)
  obtain r s1 where 1: "corp_Ingest (corp_watched E) (s, w, ds) = (r, s1, w, ds)" "corp_held s1 = corp_held s"
    using corp_Ingest_result [of E s w ds] by blast
  have safe: "corp.safe u s1 (map corp_key ds)" by (rule corp.safe_same_held [OF assms(1) 1(2)])
  obtain r2 s2 w2 d2 where 2: "corp_Process (corp_watched E) (s1, w, ds) = (r2, s2, w2, d2)" by (metis prod_cases4)
  have "plain_holders E" using assms(3) CaRun by simp
  from corp_safe_loop [OF this 2 [unfolded corp_Process_def] safe] safe assms(4) CaRun show ?thesis
    by (cases r) (auto simp: corp_RunOnce_def 1 2)
next
  case (CaIngest E)
  obtain r s1 where "corp_Ingest (corp_watched E) (s, w, ds) = (r, s1, w, ds)" "corp_held s1 = corp_held s"
    using corp_Ingest_result [of E s w ds] by blast
  then show ?thesis using assms CaIngest corp.safe_same_held [OF assms(1), of s1] by auto
next
  case (CaProcess E)
  obtain r s2 w2 d2 where 2: "corp_Process (corp_watched E) (s, w, ds) = (r, s2, w2, d2)" by (metis prod_cases4)
  have "plain_holders E" using assms(3) CaProcess by simp
  from corp_safe_loop [OF this 2 [unfolded corp_Process_def] assms(1)] assms(4) CaProcess 2 show ?thesis by simp
next
  case (CaDelete v)
  then show ?thesis using assms corp.safe_forget [OF assms(1)] by auto
qed

lemma corp_safe_run:
  "corp.safe u s (map corp_key ds) \<Longrightarrow> \<not> list_ex (corp_deletes u) ops \<Longrightarrow>
   list_all (\<lambda>op. list_all plain_holders (corp_env op)) ops \<Longrightarrow> corp_run ops (s, w, ds) = (s', w', ds') \<Longrightarrow>
   corp.safe u s' (map corp_key ds')"
proof (induction ops arbitrary: s w ds)
  case (Cons op ops)
  obtain s1 w1 d1 where 1: "corp_step op (s, w, ds) = (s1, w1, d1)" by (metis prod_cases3)
  have "corp.safe u s1 (map corp_key d1)" using corp_safe_step [OF Cons.prems(1) _ _ 1] Cons.prems(2,3) by simp
  then show ?case using Cons.IH [of s1 d1 w1] Cons.prems(2-) 1 by (simp add: corp_run_def)
qed (simp add: corp_run_def)

definition applied_for :: "string \<Rightarrow> string \<Rightarrow> string \<Rightarrow> corp_credit list \<Rightarrow> corp_credit list" where
  "applied_for u e p ds = filter (\<lambda>(t, v, r, x). v = u \<and> r = corp_requestID e p) ds"

text \<open>
  C36. Whatever the provider, the identity resolver and the portfolios answer, through any sequence of ingestions, passes
  and deletions of other accounts, a corporate action transforms the portfolio of a user at most once. Portfolio
  identifiers hold no colon, as UUIDs do.
\<close>

theorem action_applied_at_most_once:
  assumes "\<not> list_ex (corp_deletes u) ops" "list_all (\<lambda>op. list_all plain_holders (corp_env op)) ops" "plain_id p"
    and "corp_run ops (NewCorpStore, w, []) = (s', w', ds)"
  shows "length (applied_for u e p ds) \<le> 1"
proof -
  have "corp.safe u s' (map corp_key ds)"
    by (rule corp_safe_run [OF _ assms(1,2,4)]) (simp add: corp.safe_start)
  then have d: "distinct (keys_of u (map corp_key ds))" by (rule corp.safe_distinct)
  have "map (\<lambda>c. snd (corp_key c)) (filter (\<lambda>c. fst (corp_key c) = u) ds) = keys_of u (map corp_key ds)"
    by (induction ds) (auto simp: keys_of_def)
  then have "distinct (map (\<lambda>c. snd (corp_key c)) (filter (\<lambda>c. fst (corp_key c) = u) ds))" using d by simp
  moreover have "applied_for u e p ds =
      filter (\<lambda>(t, v, r, x). v = u \<and> r = corp_requestID e p) (filter (\<lambda>c. fst (corp_key c) = u) ds)"
    by (induction ds) (auto simp: applied_for_def)
  ultimately have "distinct (map (\<lambda>c. snd (corp_key c)) (applied_for u e p ds))" by (metis distinct_map_filter)
  then show ?thesis
    by (rule distinct_same_length [where k = "corp_appKey e p"])
      (auto simp: applied_for_def corp_key_made [OF assms(3)] simp del: corp_key.simps)
qed

section \<open>A demonstration\<close>

definition demo_split :: ProviderCorporateAction where
  "demo_split =
     \<lparr>pca_ProviderEventID = ''s1'', pca_Type = TypeSplit,
      pca_Source = zero_InstrumentReference\<lparr>irf_Symbol := ''ACME''\<rparr>, pca_Target = None, pca_AnnouncementAt = None,
      pca_EffectiveAt = 30, pca_RecordAt = None, pca_PayableAt = None, pca_RatioNumerator = Some (Fin 2),
      pca_RatioDenominator = Some (Fin 1), pca_CashPerShare = None, pca_CashCurrency = None, pca_ParentBasisPct = None,
      pca_ChildBasisPct = None, pca_Cancelled = False, pca_Effective = True, pca_SourceURL = [], pca_RetrievedAt = 0\<rparr>"

definition demo_owner :: "string \<Rightarrow> time \<Rightarrow> CorpHolder" where
  "demo_owner u t = \<lparr>cho_UserID = u, cho_PortfolioID = ''p-'' @ u, cho_AcquiredAt = t, cho_Symbol = ''ACME''\<rparr>"

definition demo_issuer :: "time \<Rightarrow> nat CorpEnv" where
  "demo_issuer now =
     \<lparr>cg_sha = (\<lambda>x. x), cg_format = (\<lambda>_. ''t''), cg_floatText = (\<lambda>_. ''1''), cg_providerName = ''manual_dev'',
      cg_FetchActions = (\<lambda>_. Inr [demo_split]), cg_ActiveSymbols = (\<lambda>_. Inr [''ACME'']),
      cg_HoldersOfSymbol = (\<lambda>_ _. Inr [demo_owner ''ada'' 5, demo_owner ''bob'' 35]),
      cg_HoldersOfInstrument = (\<lambda>_ _. Inl ''none''), cg_ApplySplit = (\<lambda>_ _ _ _ _ _ w. (Inr (), Suc w)),
      cg_ApplySymbolChange = (\<lambda>_ _ _ _ _ w. (Inl ''none'', w)), cg_identity = None, cg_now = now, cg_lookback = 100,
      cg_retryIn = 10, cg_contextErr = (\<lambda>_. None)\<rparr>"

definition demo_actions :: "nat corp_op list" where
  "demo_actions = [CaRun (demo_issuer 40), CaRun (demo_issuer 60), CaDelete ''bob'']"

lemma demo_plain: "plain_holders (demo_issuer t)"
  by (auto simp: plain_holders_def demo_issuer_def demo_owner_def plain_id_def list_all_iff)

theorem action_applied_at_most_once_witness:
  "length (applied_for ''ada'' ''manual_dev:s1'' ''p-ada'' (snd (snd (corp_run demo_actions (NewCorpStore, 0, []))))) = 1"
proof -
  let ?x = "corp_run demo_actions (NewCorpStore, 0, [])"
  have none: "\<not> list_ex (corp_deletes ''ada'') demo_actions" by (simp add: demo_actions_def)
  have plain: "list_all (\<lambda>op. list_all plain_holders (corp_env op)) demo_actions"
    by (simp add: demo_actions_def demo_plain)
  have "plain_id ''p-ada''" by code_simp
  from action_applied_at_most_once [OF none plain this, of 0 "fst ?x" "fst (snd ?x)" "snd (snd ?x)" "''manual_dev:s1''"]
  have "length (applied_for ''ada'' ''manual_dev:s1'' ''p-ada'' (snd (snd ?x))) \<le> 1" by simp
  moreover have "length (applied_for ''ada'' ''manual_dev:s1'' ''p-ada'' (snd (snd ?x))) > 0" by code_simp
  ultimately show ?thesis by linarith
qed

end
