(* ===== verification/CorpReports.thy ===== *)
theory CorpReports
  imports CorpLaws
begin

text \<open>
  What the corporate-action pipeline does to a portfolio is what a provider reported: the stored events are kept related
  to the reports they were read from, and every instruction of a pass to the event it carries out.
\<close>

section \<open>Stored events and reports\<close>

definition reports :: "'w CorpEnv \<Rightarrow> ProviderCorporateAction set" where
  "reports E = {e. \<exists>request raw. cg_FetchActions E request = Inr raw \<and> e \<in> set raw}"

definition from_report :: "'w CorpEnv \<Rightarrow> ProviderCorporateAction \<Rightarrow> CorporateAction \<Rightarrow> bool" where
  "from_report E e ev =
     (cac_ID ev = cg_providerName E @ '':'' @ pca_ProviderEventID e \<and> cac_Type ev = pca_Type e \<and>
      irf_Symbol (cac_Source ev) = irf_Symbol (pca_Source e) \<and>
      map_option irf_Symbol (cac_Target ev) = map_option irf_Symbol (pca_Target e) \<and>
      cac_EffectiveAt ev = pca_EffectiveAt e \<and> cac_RatioNumerator ev = pca_RatioNumerator e \<and>
      cac_RatioDenominator ev = pca_RatioDenominator e \<and> cac_Quality ev = corp_assessQuality e)"

definition is_reported :: "'w CorpEnv list \<Rightarrow> CorporateAction \<Rightarrow> bool" where
  "is_reported Es ev = (\<exists>E \<in> set Es. \<exists>e \<in> reports E. from_report E e ev)"

definition reported_store :: "'w CorpEnv list \<Rightarrow> CorpStore \<Rightarrow> bool" where
  "reported_store Es s = (\<forall>ev \<in> snd ` set (cst_events s). is_reported Es ev)"

lemma matchInstrument_symbol [simp]: "irf_Symbol (matchInstrument E ref) = irf_Symbol ref"
  by (simp add: matchInstrument_def split: option.splits)

lemma normalized_from_report:
  "from_report E e (matched_event E' (corp_normalize sha fmt fmtf (cg_providerName E) e now))"
  by (simp add: from_report_def matched_event_def corp_normalize_def Let_def option.map_comp comp_def)

lemma is_reported_bookkeeping [simp]:
  "is_reported Es (ev\<lparr>cac_Status := st\<rparr>) = is_reported Es ev"
  "is_reported Es (ev\<lparr>cac_CreatedAt := t\<rparr>) = is_reported Es ev"
  "is_reported Es (ev\<lparr>cac_UpdatedAt := t\<rparr>) = is_reported Es ev"
  "is_reported Es (ev\<lparr>cac_Revision := n\<rparr>) = is_reported Es ev"
  by (simp_all add: is_reported_def from_report_def)

lemma update_values: "snd ` set (AList.update k v xs) \<subseteq> insert v (snd ` set xs)"
  by (induction xs) auto

lemma reported_update:
  assumes "reported_store Es s" "is_reported Es ev"
  shows "reported_store Es (s\<lparr>cst_events := AList.update k ev (cst_events s)\<rparr>)"
  using assms subsetD [OF update_values [of k ev "cst_events s"]] unfolding reported_store_def
  by (metis (no_types, lifting) CorpStore.select_convs(1) CorpStore.surjective CorpStore.update_convs(1) insert_iff)

lemma reported_Upsert:
  assumes "reported_store Es s" "is_reported Es ev"
  shows "reported_store Es (snd (corp_UpsertEvent now ev s))"
proof (cases "map_of (cst_events s) (cac_ID ev)")
  case None
  then show ?thesis using assms by (simp add: corp_UpsertEvent_def reported_update)
next
  case (Some old)
  then show ?thesis using assms by (simp add: corp_UpsertEvent_def reported_update)
qed

lemma reported_SetEventStatus:
  assumes "reported_store Es s"
  shows "reported_store Es (corp_SetEventStatus now k st s)"
proof (cases "map_of (cst_events s) k")
  case (Some ev)
  have "ev \<in> snd ` set (cst_events s)" using imageI [OF map_of_SomeD [OF Some], of snd] by simp
  then have "is_reported Es ev" using assms unfolding reported_store_def by blast
  with Some assms show ?thesis by (simp add: corp_SetEventStatus_def reported_update)
qed (use assms in \<open>simp add: corp_SetEventStatus_def\<close>)

lemma reported_mono: "reported_store Es s \<Longrightarrow> set Es \<subseteq> set Es' \<Longrightarrow> reported_store Es' s"
  unfolding reported_store_def is_reported_def by blast

lemma reported_apps [simp]: "reported_store Es (s\<lparr>cst_apps := as\<rparr>) = reported_store Es s"
  by (simp add: reported_store_def)

lemma reported_operations [simp]:
  "reported_store Es (corp_CompleteApplication now a s) = reported_store Es s"
  "reported_store Es (corp_FailApplication now e p msg t s) = reported_store Es s"
  "reported_store Es (corp_SkipApplication now e p msg s) = reported_store Es s"
  "reported_store Es (corp_OnAccountDeleted u s) = reported_store Es s"
  by (simp_all add: corp_CompleteApplication_def corp_FailApplication_def corp_SkipApplication_def
      corp_OnAccountDeleted_def Let_def)

lemma reported_claim: "corp_ClaimApplication now e p u s = (b, s') \<Longrightarrow> reported_store Es s' = reported_store Es s"
  unfolding corp_ClaimApplication_def Let_def by (auto split: if_splits)

lemma reported_Ingest:
  assumes "reported_store Es s" "corp_Ingest (corp_watched E) (s, x) = (r, s', x')"
  shows "reported_store (E # Es) s'"
proof -
  let ?f = "\<lambda>e. matched_event (corp_watched E) (corp_normalize (cg_sha E) (cg_format E) (cg_floatText E)
      (cg_providerName E) e (cg_now E))"
  have start: "reported_store (E # Es) s" using assms(1) by (rule reported_mono) auto
  have made: "is_reported (E # Es) (?f e)" if "e \<in> reports E" for e
    using that normalized_from_report unfolding is_reported_def by (meson list.set_intros(1))
  have fold: "reported_store (E # Es) (foldl (\<lambda>s e. snd (corp_UpsertEvent (cg_now E) (?f e) s)) s raw)"
    if "set raw \<subseteq> reports E" for raw
    using start that
  proof (induction raw arbitrary: s)
    case (Cons e raw)
    have "reported_store (E # Es) (snd (corp_UpsertEvent (cg_now E) (?f e) s))"
      by (rule reported_Upsert [OF Cons.prems(1) made]) (use Cons.prems(2) in simp)
    with Cons show ?case by simp
  qed simp
  have raw: "set raw \<subseteq> reports E" if "cg_FetchActions E request = Inr raw" for request raw
    using that by (auto simp: reports_def)
  have same: "cg_FetchActions (corp_watched E) = cg_FetchActions E" "cg_sha (corp_watched E) = cg_sha E"
    "cg_format (corp_watched E) = cg_format E" "cg_floatText (corp_watched E) = cg_floatText E"
    "cg_providerName (corp_watched E) = cg_providerName E"
    by (simp_all add: corp_watched_def)
  from assms(2) start show ?thesis
    by (auto simp: corp_Ingest_def same dest!: raw split: sum.splits if_splits intro!: fold)
qed

section \<open>Instructions and events\<close>

text \<open>The instruction that event \<open>ev\<close> gives for holder \<open>h\<close> in a pass configured by \<open>E\<close>.\<close>

definition carries_out :: "'w CorpEnv \<Rightarrow> CorporateAction \<Rightarrow> CorpHolder \<Rightarrow> corp_credit \<Rightarrow> bool" where
  "carries_out E ev h c =
     (c = (cg_now E, cho_UserID h, corp_requestID (cac_ID ev) (cho_PortfolioID h), corp_input ev h) \<and>
      cho_AcquiredAt h \<le> cac_EffectiveAt ev)"

definition named_holder :: "'w CorpEnv \<Rightarrow> CorpHolder \<Rightarrow> bool" where
  "named_holder E h =
     (\<exists>i w hs. (cg_HoldersOfSymbol E i w = Inr hs \<or> cg_HoldersOfInstrument E i w = Inr hs) \<and> h \<in> set hs)"

lemma holder_step:
  assumes "corp_holder (corp_watched E) ev h (s, w, ds) = (b, s', w', ds')"
  shows "reported_store Es s' = reported_store Es s \<and> (\<forall>c \<in> set ds'. c \<in> set ds \<or> carries_out E ev h c)"
  using assms
proof (cases rule: corp_holder_cases)
  case (applied s1 a)
  then show ?thesis using reported_claim [OF applied(3), of Es] by (simp add: carries_out_def)
next
  case (failed s1 msg)
  then show ?thesis using reported_claim [OF failed(2), of Es] by simp
qed simp_all

lemma holders_step:
  "corp_holders (corp_watched E) ev hs (s, w, ds) = (n, s', w', ds') \<Longrightarrow>
   reported_store Es s' = reported_store Es s \<and>
   (\<forall>c \<in> set ds'. c \<in> set ds \<or> (\<exists>h \<in> set hs. carries_out E ev h c))"
proof (induction hs arbitrary: s w ds n s' w' ds')
  case (Cons h hs)
  obtain b s1 w1 d1 where 1: "corp_holder (corp_watched E) ev h (s, w, ds) = (b, s1, w1, d1)" by (metis prod_cases4)
  obtain m s2 w2 d2 where 2: "corp_holders (corp_watched E) ev hs (s1, w1, d1) = (m, s2, w2, d2)" by (metis prod_cases4)
  have "s2 = s'" "d2 = ds'" using Cons.prems by (simp_all add: 1 2)
  with Cons.IH [OF 2] holder_step [OF 1, of Es] show ?case unfolding list.set by blast
qed simp

lemma all_holders_named:
  assumes "cg_HoldersOfSymbol E i w = Inr hs" "h \<in> set (all_holders (corp_watched E) ev (w, ds) hs)"
  shows "named_holder E h"
  using assms unfolding named_holder_def all_holders_def
  by (auto split: if_splits sum.splits dest!: subsetD [OF add_holders_subset])

definition due_action :: "'w CorpEnv \<Rightarrow> CorporateAction \<Rightarrow> corp_credit \<Rightarrow> bool" where
  "due_action E ev c = (isAutoApplicable ev \<and> (\<exists>h. named_holder E h \<and> carries_out E ev h c))"

lemma processEvent_step:
  assumes "corp_processEvent (corp_watched E) ev (s, w, ds) = (s', w', ds')" "reported_store Es s"
  shows "reported_store Es s' \<and> (\<forall>c \<in> set ds'. c \<in> set ds \<or> due_action E ev c)"
proof (cases "cg_HoldersOfSymbol E (irf_Symbol (cac_Source ev)) w")
  case (Inl e)
  then show ?thesis using assms by (auto simp: corp_processEvent_def reported_SetEventStatus split: if_splits)
next
  case (Inr hs)
  let ?hs = "all_holders (corp_watched E) ev (w, ds) hs"
  obtain n s1 w1 d1 where 1: "corp_holders (corp_watched E) ev ?hs (s, w, ds) = (n, s1, w1, d1)" by (metis prod_cases4)
  show ?thesis
  proof (cases "isAutoApplicable ev \<and> cac_Status ev \<noteq> CorpCancelled \<and> cac_Quality ev \<noteq> QualityCancelled")
    case True
    then have s': "ds' = d1" "s' = s1 \<or> s' = corp_SetEventStatus (cg_now E) (cac_ID ev) CorpApplied s1"
      using assms(1) by (auto simp: corp_processEvent_def Inr 1 split: if_splits)
    have "due_action E ev c" if "h \<in> set ?hs" "carries_out E ev h c" for h c
      using True that all_holders_named [OF Inr] unfolding due_action_def by blast
    with holders_step [OF 1, of Es] have "\<forall>c \<in> set ds'. c \<in> set ds \<or> due_action E ev c" unfolding s' by blast
    moreover have "reported_store Es s1" using holders_step [OF 1, of Es] assms(2) by simp
    ultimately show ?thesis using s'(2) reported_SetEventStatus by blast
  next
    case False
    then have "ds' = ds" "s' = s \<or> s' = corp_SetEventStatus (cg_now E) (cac_ID ev) CorpUnresolved s"
      using assms(1) by (auto simp: corp_processEvent_def split: if_splits)
    then show ?thesis using assms(2) reported_SetEventStatus by blast
  qed
qed

lemma loop_step:
  "corp_process_loop (corp_watched E) evs (s, w, ds) = (r, s', w', ds') \<Longrightarrow> reported_store Es s \<Longrightarrow>
   reported_store Es s' \<and> (\<forall>c \<in> set ds'. c \<in> set ds \<or> (\<exists>ev \<in> set evs. due_action E ev c))"
proof (induction evs arbitrary: s w ds s' w' ds')
  case (Cons ev evs)
  obtain s1 w1 d1 where 1: "corp_processEvent (corp_watched E) ev (s, w, ds) = (s1, w1, d1)" by (metis prod_cases3)
  note step = processEvent_step [OF 1 Cons.prems(2)]
  show ?case
  proof (cases "cg_contextErr E ev")
    case None
    with Cons.prems(1) have "corp_process_loop (corp_watched E) evs (s1, w1, d1) = (r, s', w', ds')" by (simp add: 1)
    from Cons.IH [OF this step [THEN conjunct1]] step show ?thesis unfolding list.set by blast
  next
    case (Some msg)
    then show ?thesis using Cons.prems by simp
  qed
qed simp

lemma Process_step:
  assumes "corp_Process (corp_watched E) (s, w, ds) = (r, s', w', ds')" "reported_store Es s"
  shows "reported_store Es s' \<and> (\<forall>c \<in> set ds'. c \<in> set ds \<or> (\<exists>ev. is_reported Es ev \<and> due_action E ev c))"
proof -
  have "ev \<in> snd ` set (cst_events s)" if "ev \<in> set (corp_ListEventsByStatus corp_statuses s)" for ev
    using that by (auto simp: corp_ListEventsByStatus_def)
  then have "is_reported Es ev" if "ev \<in> set (corp_ListEventsByStatus corp_statuses s)" for ev
    using assms(2) that unfolding reported_store_def by blast
  with loop_step [OF assms(1) [unfolded corp_Process_def fst_conv] assms(2)] show ?thesis by blast
qed

section \<open>Runs\<close>

fun corp_ingests :: "'w corp_op \<Rightarrow> 'w CorpEnv list" where
  "corp_ingests (CaRun E) = [E]"
| "corp_ingests (CaIngest E) = [E]"
| "corp_ingests _ = []"

definition explained :: "'w CorpEnv list \<Rightarrow> 'w CorpEnv list \<Rightarrow> corp_credit \<Rightarrow> bool" where
  "explained Es Ps c = (\<exists>E \<in> set Ps. \<exists>ev. is_reported Es ev \<and> due_action E ev c)"

lemma explained_mono: "explained Es Ps c \<Longrightarrow> set Es \<subseteq> set Es' \<Longrightarrow> set Ps \<subseteq> set Ps' \<Longrightarrow> explained Es' Ps' c"
  unfolding explained_def is_reported_def by blast

lemma corp_step_explained:
  assumes "corp_step op (s, w, ds) = (s', w', ds')" "reported_store Es s"
  shows "reported_store (corp_ingests op @ Es) s' \<and>
    (\<forall>c \<in> set ds'. c \<in> set ds \<or> explained (corp_ingests op @ Es) (corp_env op) c)"
proof (cases op)
  case (CaRun E)
  obtain r s1 where 1: "corp_Ingest (corp_watched E) (s, w, ds) = (r, s1, w, ds)"
    using corp_Ingest_result [of E s w ds] by blast
  have kept: "reported_store (E # Es) s1" by (rule reported_Ingest [OF assms(2) 1])
  obtain r2 s2 w2 d2 where 2: "corp_Process (corp_watched E) (s1, w, ds) = (r2, s2, w2, d2)" by (metis prod_cases4)
  show ?thesis
  proof (cases r)
    case (Inl e)
    then show ?thesis using assms(1) CaRun kept by (auto simp: corp_RunOnce_def 1)
  next
    case (Inr u)
    then have "s' = s2" "ds' = d2" using assms(1) CaRun by (simp_all add: corp_RunOnce_def 1 2)
    with Process_step [OF 2 kept] CaRun show ?thesis by (simp add: explained_def)
  qed
next
  case (CaIngest E)
  obtain r s1 where 1: "corp_Ingest (corp_watched E) (s, w, ds) = (r, s1, w, ds)"
    using corp_Ingest_result [of E s w ds] by blast
  then show ?thesis using reported_Ingest [OF assms(2) 1] assms(1) CaIngest by simp
next
  case (CaProcess E)
  obtain r s2 w2 d2 where 2: "corp_Process (corp_watched E) (s, w, ds) = (r, s2, w2, d2)" by (metis prod_cases4)
  then have "s' = s2" "ds' = d2" using assms(1) CaProcess by simp_all
  with Process_step [OF 2 assms(2)] CaProcess show ?thesis by (simp add: explained_def)
next
  case (CaDelete u)
  then show ?thesis using assms by auto
qed

lemma corp_run_explained:
  "corp_run ops (s, w, ds) = (s', w', ds') \<Longrightarrow> reported_store Es s \<Longrightarrow> c \<in> set ds' \<Longrightarrow>
   c \<in> set ds \<or> explained (concat (map corp_ingests ops) @ Es) (concat (map corp_env ops)) c"
proof (induction ops arbitrary: s w ds Es)
  case (Cons op ops)
  obtain s1 w1 d1 where 1: "corp_step op (s, w, ds) = (s1, w1, d1)" by (metis prod_cases3)
  let ?Es = "concat (map corp_ingests (op # ops)) @ Es"
  let ?Ps = "concat (map corp_env (op # ops))"
  note step = corp_step_explained [OF 1 Cons.prems(2)]
  have "corp_run ops (s1, w1, d1) = (s', w', ds')" using Cons.prems(1) by (simp add: corp_run_def 1)
  from Cons.IH [OF this step [THEN conjunct1] Cons.prems(3)] show ?case
  proof
    assume "c \<in> set d1"
    then have "c \<in> set ds \<or> explained (corp_ingests op @ Es) (corp_env op) c" using step by blast
    moreover have "explained ?Es ?Ps c" if "explained (corp_ingests op @ Es) (corp_env op) c"
      by (rule explained_mono [OF that]) auto
    ultimately show ?thesis by blast
  next
    assume "explained (concat (map corp_ingests ops) @ corp_ingests op @ Es) (concat (map corp_env ops)) c"
    then have "explained ?Es ?Ps c" by (rule explained_mono) auto
    then show ?thesis by blast
  qed
qed (simp add: corp_run_def)

text \<open>The instruction that report \<open>e\<close> gives for holder \<open>h\<close>, when its terms allow one.\<close>

definition reported_input :: "ProviderCorporateAction \<Rightarrow> CorpHolder \<Rightarrow> CorpActionInput option" where
  "reported_input e h =
     (let symbol = (if cho_Symbol h = [] then irf_Symbol (pca_Source e) else cho_Symbol h)
      in if pca_Type e = TypeSplit \<or> pca_Type e = TypeReverseSplit
         then (case (pca_RatioNumerator e, pca_RatioDenominator e) of
                 (Some num, Some den) \<Rightarrow>
                   if above_zero num \<and> above_zero den then Some (gateway_split symbol num den (pca_EffectiveAt e)) else None
               | _ \<Rightarrow> None)
         else if pca_Type e = TypeSymbolChange
         then (case pca_Target e of
                 Some t \<Rightarrow>
                   if irf_Symbol t \<noteq> [] then Some (gateway_symbolChange symbol (irf_Symbol t) (pca_EffectiveAt e)) else None
               | None \<Rightarrow> None)
         else None)"

lemma applicable_input:
  assumes "from_report E e ev" "isAutoApplicable ev"
  shows "reported_input e h = Some (corp_input ev h)" "pca_Effective e" "\<not> pca_Cancelled e"
proof -
  have q: "corp_assessQuality e = QualityVerified" using assms by (simp add: from_report_def isAutoApplicable_def)
  then show "pca_Effective e" "\<not> pca_Cancelled e" by (simp_all add: corp_assessQuality_def split: if_splits)
  have terms: "autoAppliesType (cac_Type ev)" "termsComplete ev" using assms(2) by (simp_all add: isAutoApplicable_def)
  have f: "pca_Type e = cac_Type ev" "irf_Symbol (pca_Source e) = irf_Symbol (cac_Source ev)"
    "map_option irf_Symbol (pca_Target e) = map_option irf_Symbol (cac_Target ev)"
    "pca_EffectiveAt e = cac_EffectiveAt ev" "pca_RatioNumerator e = cac_RatioNumerator ev"
    "pca_RatioDenominator e = cac_RatioDenominator ev"
    using assms(1) by (simp_all add: from_report_def)
  have kinds: "TypeSymbolChange \<noteq> TypeSplit" "TypeSymbolChange \<noteq> TypeReverseSplit" by code_simp+
  from terms(1) consider "cac_Type ev = TypeSplit \<or> cac_Type ev = TypeReverseSplit" | "cac_Type ev = TypeSymbolChange"
    by (auto simp: autoAppliesType_def)
  then show "reported_input e h = Some (corp_input ev h)"
  proof cases
    case 1
    then show ?thesis using terms(2) kinds
      by (auto simp: reported_input_def corp_input_def termsComplete_def f Let_def split: option.splits)
  next
    case 2
    then obtain t where "cac_Target ev = Some t" "irf_Symbol t \<noteq> []"
      using terms(2) kinds by (auto simp: termsComplete_def split: option.splits)
    moreover from this f(3) obtain t' where "pca_Target e = Some t'" "irf_Symbol t' = irf_Symbol t" by (cases "pca_Target e") auto
    ultimately show ?thesis using 2 kinds by (auto simp: reported_input_def corp_input_def f(1,2,4) Let_def)
  qed
qed

text \<open>
  C37. Every instruction that ever reaches a portfolio carries out a report of a provider, fetched by one of the ingestions
  of the run, that the provider marked as effective and not cancelled: with the terms of that report (a positive ratio or
  a target symbol), for a holder that the portfolios named in the pass and that acquired the position by the effective
  date, under the request identifier of that event and portfolio.
\<close>

theorem applied_as_reported:
  assumes "corp_run ops (NewCorpStore, w, []) = (s', w', ds)" "c \<in> set ds"
  shows "\<exists>E \<in> set (concat (map corp_env ops)). \<exists>Ei \<in> set (concat (map corp_ingests ops)). \<exists>e \<in> reports Ei. \<exists>h.
    named_holder E h \<and> cho_AcquiredAt h \<le> pca_EffectiveAt e \<and> pca_Effective e \<and> \<not> pca_Cancelled e \<and>
    Some (snd (snd (snd c))) = reported_input e h \<and> fst c = cg_now E \<and> fst (snd c) = cho_UserID h \<and>
    fst (snd (snd c)) = corp_requestID (cg_providerName Ei @ '':'' @ pca_ProviderEventID e) (cho_PortfolioID h)"
proof -
  have "reported_store [] NewCorpStore" by (simp add: reported_store_def NewCorpStore_def)
  from corp_run_explained [OF assms(1) this assms(2)]
  obtain E ev where E: "E \<in> set (concat (map corp_env ops))" "is_reported (concat (map corp_ingests ops)) ev" "due_action E ev c"
    by (auto simp: explained_def)
  from E(2) obtain Ei e where e: "Ei \<in> set (concat (map corp_ingests ops))" "e \<in> reports Ei" "from_report Ei e ev"
    by (auto simp: is_reported_def)
  from E(3) obtain h where h: "isAutoApplicable ev" "named_holder E h" "carries_out E ev h c" by (auto simp: due_action_def)
  note terms = applicable_input [OF e(3) h(1)]
  have "cac_ID ev = cg_providerName Ei @ '':'' @ pca_ProviderEventID e" "cac_EffectiveAt ev = pca_EffectiveAt e"
    using e(3) by (simp_all add: from_report_def)
  with h(3) terms(1) [of h] have "named_holder E h \<and> cho_AcquiredAt h \<le> pca_EffectiveAt e \<and> pca_Effective e \<and>
      \<not> pca_Cancelled e \<and> Some (snd (snd (snd c))) = reported_input e h \<and> fst c = cg_now E \<and> fst (snd c) = cho_UserID h \<and>
      fst (snd (snd c)) = corp_requestID (cg_providerName Ei @ '':'' @ pca_ProviderEventID e) (cho_PortfolioID h)"
    using h(2) terms(2,3) by (simp add: carries_out_def)
  with E(1) e(1,2) show ?thesis by blast
qed

theorem applied_as_reported_witness:
  "\<exists>E \<in> set (concat (map corp_env demo_actions)). \<exists>Ei \<in> set (concat (map corp_ingests demo_actions)).
     \<exists>e \<in> reports Ei. \<exists>h. named_holder E h \<and> pca_Effective e \<and>
       Some (snd (snd (snd (hd (snd (snd (corp_run demo_actions (NewCorpStore, 0, [])))))))) = reported_input e h"
proof -
  let ?x = "corp_run demo_actions (NewCorpStore, 0, [])"
  have "length (snd (snd ?x)) = 1" by code_simp
  then have "hd (snd (snd ?x)) \<in> set (snd (snd ?x))" by (metis hd_in_set list.size(3) zero_neq_one)
  from applied_as_reported [OF _ this, of demo_actions 0 "fst ?x" "fst (snd ?x)"] show ?thesis
    unfolding prod.collapse by blast
qed

end
