(* ===== verification/Spec2Isabelle.thy ===== *)
theory Spec2Isabelle
  imports EpochLaws OutboxLaws FinalLaws BaselineLaws BoardServed ProfileLaws ConversationLaws PairLock ModLaws IncomeAmounts CorpReports
begin

text \<open>
  \<^bold>\<open>The portfolio ledger of the finance application, verified.\<close>

  The program is the Go backend under \<^verbatim>\<open>src/backend\<close>. A user records deposits, trades, income, fees and
  corporate actions; the server keeps positions and cash, and a \<^emph>\<open>ranked index\<close> that measures return
  independently of capital flows and is what users compete on. This library models the core of it:
  exact money, the ranked index, the observation prices are pinned in, the plan of every kind of
  mutation, the transaction that commits a plan, and the in-memory store with its outbox.

  \<^bold>\<open>Parts and theories\<close> (paths under \<^verbatim>\<open>src/backend/internal\<close>).

  \<^item> \<open>Prelude\<close>: results as sums (\<open>rbind\<close> for the early return of a Go error), Go strings restricted to
    ASCII, instants as integers (nanoseconds since the zero \<^verbatim>\<open>time.Time\<close>), decimal rounding of rationals.
  \<^item> \<open>GoFloat\<close>: IEEE double precision as finite rationals, infinities and NaN, each operation rounded to
    nearest even, as the code uses \<^verbatim>\<open>float64\<close> in ratios, weights and reported gains.
  \<^item> \<open>Money\<close>, \<open>MoneyLaws\<close> (\<^verbatim>\<open>money\<close>): the typed decimals and their operations over the record \<open>declib\<close> of
    the library \<^verbatim>\<open>shopspring/decimal\<close>, which is a parameter; \<open>decimal_lib\<close> states its documented laws,
    \<open>std_declib\<close> is an executable instance.
  \<^item> \<open>Performance\<close>, \<open>PerformanceLaws\<close> (\<^verbatim>\<open>performance\<close>): the state machine of the ranked index, its versioned
    rows and the service over them; the locale \<open>ranked_repository\<close> is the contract of the rows.
  \<^item> \<open>PortfolioModel\<close>: rows, requests, errors and helpers of \<^verbatim>\<open>portfolio\<close>.
  \<^item> \<open>Valuation\<close>, \<open>ValuationLaws\<close> (\<^verbatim>\<open>portfolio/valuation.go\<close>, \<^verbatim>\<open>ranked.go\<close>): the pinned observation and the value
    of positions and cash.
  \<^item> \<open>PlanTrade\<close>, \<open>PlanCorrection\<close>, \<open>PlanIncome\<close>, \<open>PlanIncomeEvent\<close>, \<open>Validate\<close> with \<open>TradeLaws\<close>, \<open>CorrectionLaws\<close>,
    \<open>IncomeLaws\<close>, \<open>EventLaws\<close> (\<^verbatim>\<open>portfolio/coordinator.go\<close>): validation of a request and the plan of each of its
    twenty kinds. The write closure of a plan is the list of the operations it performs (\<open>tx_op\<close>).
  \<^item> \<open>Aggregate\<close>, \<open>Coordinator\<close>, \<open>CoordinatorLaws\<close>: the store interface \<open>AggregateTx\<close> as a record, its
    contract as the locale \<open>aggregate_tx\<close> (and \<open>tx_invariant\<close> for what a store keeps on its own), and
    \<open>applyLocked\<close> over it.
  \<^item> \<open>MemoryStore\<close>, \<open>StoreLaws\<close> (\<^verbatim>\<open>portfolio/memory_store.go\<close>, \<^verbatim>\<open>repository.go\<close>): the in-memory store, its
    outbox and account deletion; both locales are interpreted on it. \<open>OutboxLaws\<close> reasons over runs of the
    outbox operations.
  \<^item> \<open>Apply\<close>, \<open>ApplyLaws\<close>, \<open>EpochLaws\<close>: \<open>Apply\<close> with its idempotency preflight and bounded rebuild loop,
    \<open>EnsureRankedEpoch\<close>, and the purchase-funding preference.

  \<^item> \<open>CompRules\<close>, \<open>RulesLaws\<close> (\<^verbatim>\<open>competitions/rules\<close>): eligibility and scoring documents, their admission, and
    the evaluation of each metric and operator against the meaning \<open>rule_spec\<close>.
  \<^item> \<open>CompModel\<close>, \<open>CompStore\<close> (\<^verbatim>\<open>competitions/model.go\<close>, \<^verbatim>\<open>lifecycle.go\<close>, \<^verbatim>\<open>repository.go\<close> and the memory
    halves of the other files): editions, entries, statuses, and the in-memory repository \<open>CompRepo\<close> with its
    ranking generations, finalization generations, results and boundary observations.
  \<^item> \<open>CompValue\<close>, \<open>CompEngine\<close>, \<open>CompPasses\<close> (\<^verbatim>\<open>observations.go\<close>, \<^verbatim>\<open>basket_adjustments.go\<close>, \<^verbatim>\<open>eligibility.go\<close>,
    \<^verbatim>\<open>join.go\<close>, \<^verbatim>\<open>service.go\<close>, \<^verbatim>\<open>baseline.go\<close>, \<^verbatim>\<open>ranking.go\<close>, \<^verbatim>\<open>finalize.go\<close>): the two price sources and the
    valuation of a frozen composition, joins and weekly sprints, and the passes of the worker. A function
    that may fail and changes the state has type \<open>('s, 'a) run\<close>, so that what a failure leaves is modelled.
  \<^item> \<open>ObserveLaws\<close>: the locale \<open>price_source\<close> (an answer is repeated within a pass), interpreted on the live
    memo and on the stored boundary. \<open>OrderLaws\<close>: the locale \<open>row_order\<close> of \<^verbatim>\<open>sort.SliceStable\<close>. \<open>RankLaws\<close>: the
    board. \<open>LifecycleLaws\<close>, \<open>EntryLaws\<close>: the locale \<open>comp_frame\<close>, a relation every repository call keeps is
    kept by every operation, interpreted on editions and on entries, for runs of \<open>comp_step\<close>. \<open>FinalLaws\<close>:
    the passes of a finalization. \<open>BaselineLaws\<close>: the baseline and the valuation of an entry agree.
  \<^item> \<open>BoardModel\<close>, \<open>BoardStore\<close>, \<open>BoardService\<close> (\<^verbatim>\<open>leaderboard\<close>): the global leaderboard. Its collaborators are the
    record \<open>BoardEnv\<close> of what they answer during one call; the interface \<^verbatim>\<open>RankingStore\<close> is a record of operations,
    implemented on the tables of \<^verbatim>\<open>postgres_ranking.go\<close>; the service is its settings and the state of the refresh.
    \<open>BoardLaws\<close>: the live board, windows and snapshots. \<open>BoardRefresh\<close>: the locale \<open>ranking_store\<close> and the laps of the
    refresh. \<open>BoardProjection\<close> interprets it on PostgreSQL; \<open>BoardServed\<close>: what a promotion publishes and serves.

  \<^item> \<open>ProfileModel\<close>, \<open>ProfileLaws\<close> (\<^verbatim>\<open>profile\<close>): profile rows, their validation, the two indexes of the repository and
    the allocation of a handle, with what other requests do between its calls as the argument \<open>rely\<close>.
  \<^item> \<open>SocialStore\<close>, \<open>SafetyModel\<close>, \<open>SocialService\<close> (\<^verbatim>\<open>social\<close>, \<^verbatim>\<open>safety\<close>): follows, conversations, messages and
    their abuse policy, read positions; blocks and the interaction policy; the service over both, wired as in
    \<^verbatim>\<open>cmd/api/main.go\<close>. \<open>SocialLaws\<close> and \<open>ConversationLaws\<close> reason over sequences of requests (\<open>serve\<close>).
  \<^item> \<open>PairLock\<close> (\<^verbatim>\<open>pairlock\<close>): the locks of pairs and the interleaving of follows and blocks, one step of a thread
    per call of a repository; a thread that runs alone performs the sequential operation.

  \<^item> \<open>AuthModel\<close>, \<open>AuthService\<close> (\<^verbatim>\<open>auth\<close>): accounts, identities, lifecycle tokens and the mail outbox of the
    in-memory repository, whose two indexes point into one store of user objects; the service, the claims of provider
    tokens and the session check of the middleware. Hashing, JWT and OIDC libraries, mail and hooks are the record
    \<open>AuthEnv\<close>. \<open>AuthLaws\<close>: every operation is a sequence of the moves \<open>auth_move\<close>, so what a move keeps every run
    keeps. \<open>AuthTokens\<close>: the locale \<open>single_use\<close>, interpreted on the three kinds of token. \<open>AuthSessions\<close>: runs.
  \<^item> \<open>ModModel\<close>, \<open>ModLaws\<close> (\<^verbatim>\<open>moderation\<close>): reports, evidence, resolutions and notifications, in one state with the
    accounts and the messages a resolution acts on; runs of requests, with any other change of those two in between.
  \<^item> \<open>IncomeModel\<close>, \<open>IncomeService\<close>, \<open>Entitlement\<close> (\<^verbatim>\<open>income\<close>, \<^verbatim>\<open>cmd/api/income_gateway.go\<close>, the eligible quantity of
    \<^verbatim>\<open>portfolio/service_activities.go\<close>): provider events, their normalization and store, the pipeline that applies the
    due ones to their holders, corrections, views, and the translation to the portfolio's own requests. Provider and
    gateway are fields of the record \<open>IncEnv\<close>, the gateway over any world \<open>'w\<close>. \<open>Delivery\<close>: the locale \<open>delivery_store\<close> of a
    store of claims, interpreted in \<open>IncomeRuns\<close>, which also defines runs and the log of accepted instructions.
    \<open>IncomePipeline\<close>: what holds of every run. \<open>IncomeAmounts\<close>: amounts, the plan they lead to, corrections, entitlement.
  \<^item> \<open>CorpModel\<close>, \<open>CorpService\<close> (\<^verbatim>\<open>corpactions\<close>, \<^verbatim>\<open>cmd/api/corpactions_gateway.go\<close>): reported splits, ticker changes and
    mergers, their normalization and store, the policy of automatic application, the passes over events and holders,
    views, and the instruction handed to the portfolio; provider, identity resolver and gateway are fields of \<open>CorpEnv\<close>.
    \<open>CorpLaws\<close>: the second interpretation of \<open>delivery_store\<close>, runs, and what holds of them. \<open>CorpReports\<close>: stored
    events and instructions traced back to the reports they come from.

  \<^bold>\<open>Conventions.\<close> A Go call \<^verbatim>\<open>(value, error)\<close> is a sum, the error on the left; a panic is the error \<open>Panic\<close>.
  Identifiers (\<^verbatim>\<open>uuid.NewString\<close>) are drawn from a function of type \<open>nat \<Rightarrow> string\<close>, by position in the plan.
  Price and currency providers, the request fingerprint (SHA-256 of JSON), context readings and the
  actions of other writers are parameters. A Go map whose iteration order can be observed is an
  association list, otherwise a map; where the order does not matter the lemmas show the keys distinct.

  \<^bold>\<open>What the lemmas show.\<close> Money: parsing accepts exactly plain decimals, rounding is within half a unit.
  Index: neutral mutations never move it, returns move it with the value, a fee-bearing trade lowers it by
  exactly the fee, the persisted state stays valid, no update is lost. Plans: the exact cash, quantity
  and basis of every kind. Mutation: what a commit writes and keeps. Outbox: through any run of
  its operations no event is lost, held by two workers at once, or handed out more than ten times between requeues.
  Competitions: admitted rules always evaluate, editions and entries only move forward, ended editions and
  published results are final, all participants of a boundary are priced by the same observations, a board or
  a result list is complete and ranked. Leaderboard: a lap of the refresh publishes the rows of every user, the
  board served from them is the board ranked live, windows are measured from an admitted snapshot, and no
  entry shows what a profile keeps private. Social: no interleaving leaves a follow beside a block, the locks never
  deadlock, every window of time respects the message budgets, messages pass between unblocked mutual friends only and
  stay in the one conversation of their pair. Profiles: derived handles are valid, allocation ends with the
  user's row unless the draft is invalid or a hundred handles are taken.
  Accounts: a revoked session, a spent token and a banned user stay out through any run, a fresh session is admitted,
  the indexes agree. Moderation: a report is resolved once, its evidence survives, only admins act on admins, and a
  sanctioned user sends nothing. Income: an event is credited at most once, and only when due; the
  amount recorded is the amount the portfolio moves; a correction settles the difference once; entitlement is fixed at its date. Corporate
  actions: each transforms a portfolio at most once, with the terms of a report that was in effect.
  Where the code departs from what it
  says, a property states what it does.

  \<^bold>\<open>Bounds.\<close> The loops of the code run over lists, so their recursion is structural; the rebuild loop of
  \<open>Apply\<close> is bounded by \<open>maxMutationAttempts\<close> as in the code; nothing runs on fuel.
  A lap of the refresh ends after \<open>length repo div k + 1\<close> calls of batch size \<open>k\<close>, proved as such.

  \<^bold>\<open>Not modelled.\<close> The PostgreSQL stores of the portfolio and of the competitions (SQL text; for the portfolio
  its contract is the locale \<open>aggregate_tx\<close>), HTTP handlers, the administration and catalogue of competitions,
  their outbox projector and cache, the Redis cache of scores, the packages benchmark, performance history, strategies,
  achievements and infrastructure, the provider clients of income and corporate actions, and the PostgreSQL stores and handlers of accounts, moderation and the social packages. The provider of corporate actions for competition baskets is
  only wired with PostgreSQL, whose reads are fresh, so adjusted rows are copies; the decoding of JSON documents
  is the record \<open>codec\<close>. The batch of a leaderboard refresh is run in order; goroutines, cascades of deleted
  users and the wording of logs are left out.
\<close>

end
